(* ===== verification/BxPrelude.thy ===== *)
theory BxPrelude
  imports Main "HOL-Library.Word"
begin

unbundle bit_operations_syntax

text \<open>
  The vocabulary shared by every component: machine integers of the widths the C++ code uses,
  the outcome of an emulator routine (a value, a CPU exception, a device access, a panic), the
  sequencing of such routines, the little-endian byte image of a word, and the collections of
  rewrite rules the component theories fill.
\<close>

section \<open>Machine integers\<close>

type_synonym Bit8u = "8 word"
type_synonym Bit16u = "16 word"
type_synonym Bit32u = "32 word"
type_synonym Bit64u = "64 word"

text \<open>The highest bit of a word, as the C++ code tests it with a mask constant.\<close>

definition msb_of :: "'a::len word \<Rightarrow> bool" where
  "msb_of w = bit w (LENGTH('a) - 1)"

definition msb_mask :: "'a::len word" where
  "msb_mask = push_bit (LENGTH('a) - 1) 1"

named_theorems flag_simps \<open>what a flag computes from the recorded operands\<close>
named_theorems keeps_intros \<open>a routine keeps an invariant and does not panic\<close>
named_theorems stable_intros \<open>a routine keeps an invariant whatever its outcome\<close>

section \<open>Outcomes of a routine\<close>

text \<open>
  A routine of the emulator runs on the machine state. It returns a value and the new state
  (\<open>Done\<close>), raises a CPU exception with its vector and error code, which leaves the
  instruction by \<open>longjmp\<close> (\<open>Except\<close>), hands the access to a device callback that
  is not part of the memory system (\<open>Device\<close>), or reports an internal inconsistency
  with \<open>BX_PANIC\<close> (\<open>Panic\<close>). Every outcome carries the state at that point.
\<close>

datatype ('a, 's) outcome =
    Done 'a 's
  | Except nat Bit16u 's
  | Device Bit32u 's
  | Panic string 's

type_synonym ('a, 's) routine = "'s \<Rightarrow> ('a, 's) outcome"

definition ret :: "'a \<Rightarrow> ('a, 's) routine" where
  "ret x = (\<lambda>s. Done x s)"

definition and_then :: "('a, 's) routine \<Rightarrow> ('a \<Rightarrow> ('b, 's) routine) \<Rightarrow> ('b, 's) routine" where
  "and_then m f = (\<lambda>s. case m s of
      Done x s' \<Rightarrow> f x s'
    | Except v e s' \<Rightarrow> Except v e s'
    | Device a s' \<Rightarrow> Device a s'
    | Panic msg s' \<Rightarrow> Panic msg s')"

definition update :: "('s \<Rightarrow> 's) \<Rightarrow> (unit, 's) routine" where
  "update f = (\<lambda>s. Done () (f s))"

definition gets :: "('s \<Rightarrow> 'a) \<Rightarrow> ('a, 's) routine" where
  "gets f = (\<lambda>s. Done (f s) s)"

definition raise :: "nat \<Rightarrow> Bit16u \<Rightarrow> ('a, 's) routine" where
  "raise v e = (\<lambda>s. Except v e s)"

definition panic :: "string \<Rightarrow> ('a, 's) routine" where
  "panic msg = (\<lambda>s. Panic msg s)"

definition to_device :: "Bit32u \<Rightarrow> ('a, 's) routine" where
  "to_device a = (\<lambda>s. Device a s)"

lemma ret_apply [simp]: "ret x s = Done x s"
  by (simp add: ret_def)

lemma update_apply [simp]: "update f s = Done () (f s)"
  by (simp add: update_def)

lemma gets_apply [simp]: "gets f s = Done (f s) s"
  by (simp add: gets_def)

lemma raise_apply [simp]: "raise v e s = Except v e s"
  by (simp add: raise_def)

lemma panic_apply [simp]: "panic msg s = Panic msg s"
  by (simp add: panic_def)

lemma to_device_apply [simp]: "to_device a s = Device a s"
  by (simp add: to_device_def)

lemma and_then_Done [simp]: "m s = Done x s' \<Longrightarrow> and_then m f s = f x s'"
  by (simp add: and_then_def)

lemma and_then_ret [simp]: "and_then (ret x) f = f x"
  by (simp add: and_then_def ret_def)

lemma and_then_Done_eta [simp]: "and_then (Done x) f = f x"
  by (simp add: and_then_def)

lemma and_then_update [simp]: "and_then (update g) f s = f () (g s)"
  by (simp add: and_then_def)

lemma and_then_gets [simp]: "and_then (gets g) f s = f (g s) s"
  by (simp add: and_then_def)

lemma and_then_raise [simp]: "and_then (raise v e) f = raise v e"
  by (simp add: and_then_def raise_def)

lemma and_then_assoc: "and_then (and_then m f) g = and_then m (\<lambda>x. and_then (f x) g)"
  by (rule ext) (simp add: and_then_def split: outcome.splits)

lemma and_then_DoneE:
  assumes "and_then m f s = Done y t"
  obtains x s' where "m s = Done x s'" and "f x s' = Done y t"
  using assms by (auto simp: and_then_def split: outcome.splits)

lemma and_then_Done_iff:
  "and_then m f s = Done y t \<longleftrightarrow> (\<exists>x s'. m s = Done x s' \<and> f x s' = Done y t)"
  by (auto simp: and_then_def split: outcome.splits)

section \<open>Invariants of routines\<close>

text \<open>
  \<open>keeps I m\<close>: from a state that satisfies \<open>I\<close> the routine ends, whatever its
  outcome, in a state that satisfies \<open>I\<close>, and it does not panic.
\<close>

fun ends_in :: "('s \<Rightarrow> bool) \<Rightarrow> ('a, 's) outcome \<Rightarrow> bool" where
  "ends_in I (Done x s) = I s"
| "ends_in I (Except v e s) = I s"
| "ends_in I (Device a s) = I s"
| "ends_in I (Panic msg s) = False"

definition keeps :: "('s \<Rightarrow> bool) \<Rightarrow> ('a, 's) routine \<Rightarrow> bool" where
  "keeps I m \<longleftrightarrow> (\<forall>s. I s \<longrightarrow> ends_in I (m s))"

lemma keepsI: "(\<And>s. I s \<Longrightarrow> ends_in I (m s)) \<Longrightarrow> keeps I m"
  by (simp add: keeps_def)

lemma keepsD: "keeps I m \<Longrightarrow> I s \<Longrightarrow> ends_in I (m s)"
  by (simp add: keeps_def)

lemma keepsD_Done: "keeps I m \<Longrightarrow> I s \<Longrightarrow> m s = Done x s' \<Longrightarrow> I s'"
  by (drule (1) keepsD) simp

lemma ends_in_and_then:
  assumes "ends_in I (m s)" and "\<And>x s'. I s' \<Longrightarrow> ends_in I (f x s')"
  shows "ends_in I (and_then m f s)"
  using assms by (cases "m s") (simp_all add: and_then_def)

lemma keeps_and_then [keeps_intros]:
  assumes "keeps I m" and "\<And>x. keeps I (f x)"
  shows "keeps I (and_then m f)"
  using assms by (auto intro!: keepsI ends_in_and_then dest: keepsD)

lemma keeps_ret [keeps_intros]: "keeps I (ret x)"
  by (simp add: keeps_def)

lemma keeps_gets [keeps_intros]: "keeps I (gets f)"
  by (simp add: keeps_def)

lemma keeps_raise [keeps_intros]: "keeps I (raise v e)"
  by (simp add: keeps_def)

lemma keeps_to_device [keeps_intros]: "keeps I (to_device a)"
  by (simp add: keeps_def)

lemma keeps_update: "(\<And>s. I s \<Longrightarrow> I (f s)) \<Longrightarrow> keeps I (update f)"
  by (simp add: keeps_def)

lemma keeps_if [keeps_intros]:
  "(b \<Longrightarrow> keeps I m) \<Longrightarrow> (\<not> b \<Longrightarrow> keeps I n) \<Longrightarrow> keeps I (if b then m else n)"
  by simp

lemma keeps_Let [keeps_intros]: "(\<And>x. keeps I (f x)) \<Longrightarrow> keeps I (let x = v in f x)"
  by simp

text \<open>
  \<open>stable I m\<close>: the invariant survives every outcome, a panic included.
\<close>

fun state_of :: "('a, 's) outcome \<Rightarrow> 's" where
  "state_of (Done x s) = s"
| "state_of (Except v e s) = s"
| "state_of (Device a s) = s"
| "state_of (Panic msg s) = s"

definition stable :: "('s \<Rightarrow> bool) \<Rightarrow> ('a, 's) routine \<Rightarrow> bool" where
  "stable I m \<longleftrightarrow> (\<forall>s. I s \<longrightarrow> I (state_of (m s)))"

lemma stableI: "(\<And>s. I s \<Longrightarrow> I (state_of (m s))) \<Longrightarrow> stable I m"
  by (simp add: stable_def)

lemma stableD: "stable I m \<Longrightarrow> I s \<Longrightarrow> I (state_of (m s))"
  by (simp add: stable_def)

lemma stable_Done: "stable I m \<Longrightarrow> m s = Done x t \<Longrightarrow> I s \<Longrightarrow> I t"
  by (metis stableD state_of.simps(1))

lemma stable_and_then [stable_intros]:
  assumes "stable I m" and "\<And>x. stable I (f x)"
  shows "stable I (and_then m f)"
proof (rule stableI)
  fix s assume "I s"
  then have "I (state_of (m s))" by (rule stableD [OF assms(1)])
  then show "I (state_of (and_then m f s))"
    using assms(2) by (cases "m s") (auto simp: and_then_def dest: stableD)
qed

lemma stable_ret [stable_intros]: "stable I (ret x)"
  by (simp add: stable_def)

lemma stable_gets [stable_intros]: "stable I (gets f)"
  by (simp add: stable_def)

lemma stable_raise [stable_intros]: "stable I (raise v e)"
  by (simp add: stable_def)

lemma stable_panic [stable_intros]: "stable I (panic msg)"
  by (simp add: stable_def)

lemma stable_to_device [stable_intros]: "stable I (to_device a)"
  by (simp add: stable_def)

lemma stable_update: "(\<And>s. I s \<Longrightarrow> I (f s)) \<Longrightarrow> stable I (update f)"
  by (simp add: stable_def)

lemma stable_if [stable_intros]:
  "(b \<Longrightarrow> stable I m) \<Longrightarrow> (\<not> b \<Longrightarrow> stable I n) \<Longrightarrow> stable I (if b then m else n)"
  by simp

text \<open>A routine that chooses its continuation by looking at the state.\<close>

lemma stable_state: "(\<And>s'. stable I (m s')) \<Longrightarrow> stable I (\<lambda>s. m s s)"
  by (simp add: stable_def)

lemma stable_if_state [stable_intros]:
  "stable I m \<Longrightarrow> stable I n \<Longrightarrow> stable I (\<lambda>s. if b s then m s else n s)"
  by (simp add: stable_def)

section \<open>Little-endian byte images\<close>

fun le_word :: "Bit8u list \<Rightarrow> 'a::len word" where
  "le_word [] = 0"
| "le_word (b # bs) = ucast b OR push_bit 8 (le_word bs)"

fun le_bytes :: "nat \<Rightarrow> 'a::len word \<Rightarrow> Bit8u list" where
  "le_bytes 0 w = []"
| "le_bytes (Suc n) w = ucast w # le_bytes n (drop_bit 8 w)"

lemma length_le_bytes [simp]: "length (le_bytes n w) = n"
  by (induction n arbitrary: w) auto

lemma bit_le_word_le_bytes:
  fixes w :: "'a::len word"
  shows "bit (le_word (le_bytes n w) :: 'a word) k \<longleftrightarrow> k < 8 * n \<and> bit w k"
proof (induction n arbitrary: w k)
  case 0
  then show ?case by simp
next
  case (Suc n)
  then show ?case
    by (cases "k < 8") (auto simp: bit_simps dest: bit_imp_le_length)
qed

text \<open>Writing a word as bytes and reading the bytes back gives the word.\<close>

lemma le_word_le_bytes:
  fixes w :: "'a::len word"
  assumes "LENGTH('a) \<le> 8 * n"
  shows "le_word (le_bytes n w) = w"
proof (rule bit_word_eqI)
  fix k assume "k < LENGTH('a)"
  with assms show "bit (le_word (le_bytes n w) :: 'a word) k \<longleftrightarrow> bit w k"
    by (simp add: bit_le_word_le_bytes)
qed

section \<open>Byte stores\<close>

text \<open>Several bytes at consecutive addresses, read and written one by one.\<close>

definition bytes_at :: "('m \<Rightarrow> Bit32u \<Rightarrow> Bit8u) \<Rightarrow> 'm \<Rightarrow> Bit32u \<Rightarrow> nat \<Rightarrow> Bit8u list" where
  "bytes_at rd m a n = map (\<lambda>k. rd m (a + word_of_nat k)) [0..<n]"

primrec write_bytes :: "(Bit32u \<Rightarrow> Bit8u \<Rightarrow> 'm \<Rightarrow> 'm) \<Rightarrow> Bit32u \<Rightarrow> Bit8u list \<Rightarrow> 'm \<Rightarrow> 'm" where
  "write_bytes wr a [] m = m"
| "write_bytes wr a (b # bs) m = write_bytes wr (a + 1) bs (wr a b m)"

lemma bytes_at_0 [simp]: "bytes_at rd m a 0 = []"
  by (simp add: bytes_at_def)

lemma bytes_at_Suc: "bytes_at rd m a (Suc n) = rd m a # bytes_at rd m (a + 1) n"
  unfolding bytes_at_def map_upt_Suc by (simp add: algebra_simps)

lemma length_bytes_at [simp]: "length (bytes_at rd m a n) = n"
  by (simp add: bytes_at_def)

text \<open>
  The contract between a byte-addressed store and its clients: a write changes the byte at its
  own address, if that address can be written, and no other byte.
\<close>

locale byte_store =
  fixes rd :: "'m \<Rightarrow> Bit32u \<Rightarrow> Bit8u"
    and wr :: "Bit32u \<Rightarrow> Bit8u \<Rightarrow> 'm \<Rightarrow> 'm"
    and ok :: "'m \<Rightarrow> Bit32u \<Rightarrow> bool"
  assumes rd_wr: "rd (wr a b m) c = (if ok m a \<and> c = a then b else rd m c)"
    and ok_wr: "ok (wr a b m) c = ok m c"
begin

lemma ok_write_bytes: "ok (write_bytes wr a bs m) c = ok m c"
  by (induction bs arbitrary: a m) (simp_all add: ok_wr)

text \<open>Bytes outside the written range keep their value.\<close>

lemma rd_write_bytes_other:
  assumes "\<And>k. k < length bs \<Longrightarrow> c \<noteq> a + word_of_nat k"
  shows "rd (write_bytes wr a bs m) c = rd m c"
  using assms
proof (induction bs arbitrary: a m)
  case (Cons b bs)
  have "c \<noteq> a" using Cons.prems [of 0] by simp
  moreover have "c \<noteq> a + 1 + word_of_nat k" if "k < length bs" for k
    using Cons.prems [of "Suc k"] that by (simp add: algebra_simps)
  ultimately show ?case
    by (simp add: Cons.IH rd_wr)
qed simp

text \<open>What was written is read back.\<close>

lemma bytes_at_write_bytes:
  assumes "\<And>k. k < length bs \<Longrightarrow> ok m (a + word_of_nat k)" "length bs \<le> 4096"
  shows "bytes_at rd (write_bytes wr a bs m) a (length bs) = bs"
  using assms
proof (induction bs arbitrary: a m)
  case (Cons b bs)
  have "a \<noteq> a + 1 + word_of_nat k" if "k < length bs" for k
  proof -
    have "unat (word_of_nat (Suc k) :: Bit32u) = Suc k"
      using that Cons.prems(2) by (subst unat_of_nat, intro mod_less) simp
    then have "(word_of_nat (Suc k) :: Bit32u) \<noteq> 0"
      by (metis nat.distinct(1) unat_0)
    then show ?thesis by (simp add: algebra_simps)
  qed
  then have "rd (write_bytes wr (a + 1) bs (wr a b m)) a = rd (wr a b m) a"
    by (intro rd_write_bytes_other) simp
  moreover have "ok m a"
    using Cons.prems(1) [of 0] by simp
  moreover have "ok m (a + 1 + word_of_nat k)" if "k < length bs" for k
    using Cons.prems(1) [of "Suc k"] that by (simp add: algebra_simps)
  ultimately show ?case
    using Cons.IH [of "wr a b m" "a + 1"] Cons.prems(2)
    by (simp add: bytes_at_Suc rd_wr ok_wr)
qed simp

text \<open>A word stored in little-endian order is the word loaded.\<close>

lemma le_word_write_bytes:
  fixes w :: "'a::len word"
  assumes "\<And>k. k < n \<Longrightarrow> ok m (a + word_of_nat k)" "n \<le> 4096" "LENGTH('a) \<le> 8 * n"
  shows "le_word (bytes_at rd (write_bytes wr a (le_bytes n w) m) a n) = w"
  using bytes_at_write_bytes [of "le_bytes n w" m a] assms
  by (simp add: le_word_le_bytes)

end

section \<open>Words and their highest bit\<close>

lemma bit_msb_mask [simp]:
  "bit (msb_mask :: 'a::len word) k \<longleftrightarrow> k = LENGTH('a) - 1"
  by (auto simp: msb_mask_def bit_simps)

lemma and_msb_mask_eq_0 [simp]:
  fixes w :: "'a::len word"
  shows "w AND msb_mask = 0 \<longleftrightarrow> \<not> msb_of w"
proof -
  have "w AND msb_mask = 0 \<longleftrightarrow> (\<forall>k. \<not> (bit w k \<and> k = LENGTH('a) - 1))"
    by (simp only: bit_eq_iff [of "w AND msb_mask" 0] bit_and_iff bit_msb_mask) (auto dest: bit_imp_le_length)
  then show ?thesis by (simp only: msb_of_def) blast
qed

lemma msb_of_iff_sint: "msb_of w \<longleftrightarrow> sint w < 0"
  by (simp add: msb_of_def bit_last_iff)

lemma msb_of_iff_unat:
  fixes w :: "'a::len word"
  shows "msb_of w \<longleftrightarrow> 2 ^ (LENGTH('a) - 1) \<le> unat w"
proof -
  define k where "k = LENGTH('a) - 1"
  have "unat w < 2 ^ LENGTH('a)"
    by (rule unsigned_less)
  then have "unat w < 2 * 2 ^ k"
    by (simp add: k_def flip: power_Suc)
  then have lt: "unat w div 2 ^ k < 2"
    by (rule less_mult_imp_div_less)
  have "msb_of w \<longleftrightarrow> odd (unat w div 2 ^ k)"
    by (simp add: msb_of_def k_def bit_unsigned_iff flip: bit_iff_odd)
  also have "\<dots> \<longleftrightarrow> 0 < unat w div 2 ^ k"
    using less_2_cases [OF lt] by fastforce
  also have "\<dots> \<longleftrightarrow> 2 ^ k \<le> unat w"
    by (simp add: div_greater_zero_iff)
  finally show ?thesis by (simp add: k_def)
qed

lemma msb_of_iff_uint:
  fixes w :: "'a::len word"
  shows "msb_of w \<longleftrightarrow> 2 ^ (LENGTH('a) - 1) \<le> uint w"
proof -
  have "2 ^ (LENGTH('a) - 1) \<le> unat w \<longleftrightarrow> int (2 ^ (LENGTH('a) - 1)) \<le> int (unat w)"
    by (simp only: zle_int)
  then show ?thesis
    by (simp only: msb_of_iff_unat uint_nat of_nat_power of_nat_numeral)
qed

end
