(* ===== verification/BxState.thy ===== *)
theory BxState
  imports BxPrelude
begin

text \<open>
  The state of the emulated CPU (\<open>cpu/cpu.h\<close>, \<open>cpu/descriptor.h\<close>,
  \<open>cpu/lazy_flags.h\<close>, \<open>cpu/init.cc\<close>) in the configuration that is checked in
  (\<open>config.h\<close>: \<open>BX_CPU_LEVEL\<close> 6, no x86-64, PAE and 4 MB pages, TLB with direct
  host pointers, local APIC), the decoded instruction, the general registers with their byte
  and word aliases, and the reset state.
\<close>

section \<open>Lazy flag records\<close>

text \<open>
  \<open>BX_INSTR_*\<close> of \<open>lazy_flags.h\<close>, without the 64-bit forms.
  \<open>BX_INSTR_NONE\<close> stands for a number that names no instruction (the field before the
  first arithmetic instruction).
\<close>

datatype lf_instr =
    BX_INSTR_NONE
  | BX_INSTR_ADD8 | BX_INSTR_ADD16 | BX_INSTR_ADD32
  | BX_INSTR_ADC8 | BX_INSTR_ADC16 | BX_INSTR_ADC32
  | BX_INSTR_SUB8 | BX_INSTR_SUB16 | BX_INSTR_SUB32
  | BX_INSTR_SBB8 | BX_INSTR_SBB16 | BX_INSTR_SBB32
  | BX_INSTR_INC8 | BX_INSTR_INC16 | BX_INSTR_INC32
  | BX_INSTR_DEC8 | BX_INSTR_DEC16 | BX_INSTR_DEC32
  | BX_INSTR_NEG8 | BX_INSTR_NEG16 | BX_INSTR_NEG32
  | BX_INSTR_LOGIC8 | BX_INSTR_LOGIC16 | BX_INSTR_LOGIC32
  | BX_INSTR_BITSCAN16 | BX_INSTR_BITSCAN32
  | BX_INSTR_SHL8 | BX_INSTR_SHL16 | BX_INSTR_SHL32
  | BX_INSTR_SHR8 | BX_INSTR_SHR16 | BX_INSTR_SHR32
  | BX_INSTR_SAR8 | BX_INSTR_SAR16 | BX_INSTR_SAR32
  | BX_INSTR_MUL8 | BX_INSTR_MUL16 | BX_INSTR_MUL32
  | BX_INSTR_IMUL8 | BX_INSTR_IMUL16 | BX_INSTR_IMUL32
  | BX_INSTR_SHRD16 | BX_INSTR_SHRD32

definition BX_INSTR_ADD_ADC8 :: "bool \<Rightarrow> lf_instr" where
  "BX_INSTR_ADD_ADC8 cf = (if cf then BX_INSTR_ADC8 else BX_INSTR_ADD8)"

definition BX_INSTR_ADD_ADC16 :: "bool \<Rightarrow> lf_instr" where
  "BX_INSTR_ADD_ADC16 cf = (if cf then BX_INSTR_ADC16 else BX_INSTR_ADD16)"

definition BX_INSTR_ADD_ADC32 :: "bool \<Rightarrow> lf_instr" where
  "BX_INSTR_ADD_ADC32 cf = (if cf then BX_INSTR_ADC32 else BX_INSTR_ADD32)"

definition BX_INSTR_SUB_SBB8 :: "bool \<Rightarrow> lf_instr" where
  "BX_INSTR_SUB_SBB8 cf = (if cf then BX_INSTR_SBB8 else BX_INSTR_SUB8)"

definition BX_INSTR_SUB_SBB16 :: "bool \<Rightarrow> lf_instr" where
  "BX_INSTR_SUB_SBB16 cf = (if cf then BX_INSTR_SBB16 else BX_INSTR_SUB16)"

definition BX_INSTR_SUB_SBB32 :: "bool \<Rightarrow> lf_instr" where
  "BX_INSTR_SUB_SBB32 cf = (if cf then BX_INSTR_SBB32 else BX_INSTR_SUB32)"

abbreviation BX_INSTR_COMPARE8 :: lf_instr where "BX_INSTR_COMPARE8 \<equiv> BX_INSTR_SUB8"
abbreviation BX_INSTR_COMPARE16 :: lf_instr where "BX_INSTR_COMPARE16 \<equiv> BX_INSTR_SUB16"
abbreviation BX_INSTR_COMPARE32 :: lf_instr where "BX_INSTR_COMPARE32 \<equiv> BX_INSTR_SUB32"

record bx_lf_flags_entry =
  op1_8 :: Bit8u
  op2_8 :: Bit8u
  result_8 :: Bit8u
  op1_16 :: Bit16u
  op2_16 :: Bit16u
  result_16 :: Bit16u
  op1_32 :: Bit32u
  op2_32 :: Bit32u
  result_32 :: Bit32u
  instr :: lf_instr

section \<open>Segment registers, control registers, TLB, memory\<close>

datatype seg_reg = ES | CS | SS | DS | FS | GS

text \<open>\<open>bx_selector_t\<close> and the segment form of \<open>bx_descriptor_t\<close>.\<close>

record bx_segment_reg =
  sel_value :: Bit16u
  sel_index :: Bit16u
  sel_ti :: bool
  sel_rpl :: nat
  seg_valid :: Bit32u
  seg_p :: bool
  seg_dpl :: nat
  seg_segment :: bool
  seg_type :: nat
  seg_executable :: bool
  seg_c_ed :: bool
  seg_r_w :: bool
  seg_a :: bool
  seg_base :: Bit32u
  seg_limit :: Bit32u
  seg_limit_scaled :: Bit32u
  seg_g :: bool
  seg_d_b :: bool
  seg_avl :: bool

record bx_cr0 =
  cr0_val32 :: Bit32u
  cr0_pg :: bool
  cr0_cd :: bool
  cr0_nw :: bool
  cr0_am :: bool
  cr0_wp :: bool
  cr0_ne :: bool
  cr0_ts :: bool
  cr0_em :: bool
  cr0_mp :: bool
  cr0_pe :: bool

text \<open>
  A host pointer into the memory block is modelled as an index of that block; \<open>None\<close>
  is the null pointer.
\<close>

record bx_TLB_entry =
  lpf :: Bit32u
  ppf :: Bit32u
  accessBits :: Bit32u
  hostPageAddr :: "nat option"

text \<open>
  \<open>BX_MEM_C\<close>: one allocated block \<open>vector\<close> that holds guest RAM
  (\<open>len\<close> bytes), then the ROM area at \<open>rom = &vector[len]\<close>, then the page
  \<open>bogus\<close> read for addresses that do not exist. \<open>memory_handlers\<close> maps a
  megabyte number to the list of ranges for which a device registered callbacks; the two
  function pointers are numbers, 0 the null pointer.
\<close>

record memory_handler =
  mh_begin :: nat
  mh_end :: nat
  read_handler :: nat
  write_handler :: nat

record bx_mem =
  vector :: "nat \<Rightarrow> Bit8u"
  mem_len :: nat
  rom_present :: "nat \<Rightarrow> bool"
  memory_handlers :: "nat \<Rightarrow> memory_handler list"

datatype bx_cpu_mode = BX_MODE_IA32_REAL | BX_MODE_IA32_V8086 | BX_MODE_IA32_PROTECTED

text \<open>
  \<open>address_xlation.pages\<close> holds the number of pages (1 or 2) or a host pointer for a
  read-modify-write.
\<close>

datatype xlation_pages = Pages nat | HostPtr nat

text \<open>
  The system registers that only the reset and the privileged instructions touch, kept in one
  record: descriptor tables, \<open>ldtr\<close> and \<open>tr\<close> (selector and system
  descriptor), debug registers, the APIC base MSR, the prefetch window, what the delivery of
  exceptions remembers (the two entries of \<open>curr_exception\<close> are two fields), the
  interrupt request line and the SYSENTER registers.
\<close>

record bx_system_segment =
  sys_value :: Bit16u
  sys_index :: Bit16u
  sys_ti :: bool
  sys_rpl :: nat
  sys_valid :: Bit32u
  sys_p :: bool
  sys_dpl :: nat
  sys_segment :: bool
  sys_type :: nat
  sys_base :: Bit32u
  sys_limit :: Bit32u

record bx_sysregs =
  gdtr_base :: Bit32u
  gdtr_limit :: Bit16u
  idtr_base :: Bit32u
  idtr_limit :: Bit16u
  ldtr :: bx_system_segment
  tr :: bx_system_segment
  dr0 :: Bit32u
  dr1 :: Bit32u
  dr2 :: Bit32u
  dr3 :: Bit32u
  dr6 :: Bit32u
  dr7 :: Bit32u
  apicbase :: Bit64u
  EXT :: bool
  prev_eip :: Bit32u
  prev_esp :: Bit32u
  eipPageBias :: Bit32u
  eipPageWindowSize :: Bit32u
  eipFetchPtr :: "nat option"
  kill_bochs_request :: nat
  errorno :: nat
  curr_exception0 :: nat
  curr_exception1 :: nat
  save_cs :: bx_segment_reg
  save_ss :: bx_segment_reg
  save_eip :: Bit32u
  save_esp :: Bit32u
  except_chk :: bool
  except_cs :: Bit16u
  except_ss :: Bit16u
  INTR :: bool
  sysenter_cs_msr :: Bit32u
  sysenter_esp_msr :: Bit32u
  sysenter_eip_msr :: Bit32u

record cpu =
  gen_reg :: "3 word \<Rightarrow> Bit32u"
  eip :: Bit32u
  eflags_val32 :: Bit32u
  VM_cached :: bool
  lf_flags_status :: Bit32u
  oszapc :: bx_lf_flags_entry
  oszap :: bx_lf_flags_entry
  inhibit_mask :: Bit32u
  debug_trap :: Bit32u
  async_event :: nat
  cpu_mode :: bx_cpu_mode
  sregs :: "seg_reg \<Rightarrow> bx_segment_reg"
  cr0 :: bx_cr0
  cr2 :: Bit32u
  cr3 :: Bit32u
  cr3_masked :: Bit32u
  cr4 :: Bit32u
  TLB :: "10 word \<Rightarrow> bx_TLB_entry"
  rm_addr :: Bit32u
  paddress1 :: Bit32u
  paddress2 :: Bit32u
  len1 :: nat
  len2 :: nat
  pages :: xlation_pages
  local_apic_base :: Bit32u
  ioapic_base :: Bit32u
  a20_mask :: Bit32u
  currCountdown :: Bit32u
  sys :: bx_sysregs
  mem :: bx_mem

type_synonym 'a bx = "('a, cpu) routine"

section \<open>The decoded instruction\<close>

text \<open>
  The accessors of \<open>bxInstruction_c\<close> the handlers use. Outside 64-bit mode the register
  numbers are three bits wide and \<open>extend8bitL\<close> is 0. The function pointer
  \<open>ResolveModrm\<close> is an entry of one of the decoder's six tables, named by the table
  and the index, or null. \<open>null_seg\<close> is \<open>BX_NULL_SEG_REG(i->seg())\<close>,
  an instruction without a segment; \<open>i_seg\<close> then means nothing.
\<close>

datatype resolve_modrm =
    BxResolve16Mod0 nat
  | BxResolve16Mod1or2 nat
  | BxResolve32Mod0 nat
  | BxResolve32Mod1or2 nat
  | BxResolve32Mod0Base nat
  | BxResolve32Mod1or2Base nat

record bxInstruction =
  modC0 :: bool
  nnn :: "3 word"
  rm :: "3 word"
  opcodeReg :: "3 word"
  i_seg :: seg_reg
  i_b1 :: nat
  i_Ib :: Bit8u
  i_Iw :: Bit16u
  i_Id :: Bit32u
  displ16u :: Bit16u
  displ32u :: Bit32u
  sibScale :: nat
  sibIndex :: "3 word"
  sibBase :: "3 word"
  i_Iw2 :: Bit16u
  i_Ib2 :: Bit8u
  as32L :: bool
  os32L :: bool
  null_seg :: bool
  repUsedValue :: nat
  repeatableL :: bool
  repeatableZFL :: bool
  i_ilen :: nat
  ResolveModrm :: "resolve_modrm option"

section \<open>General registers\<close>

definition BX_READ_32BIT_REG :: "3 word \<Rightarrow> cpu \<Rightarrow> Bit32u" where
  "BX_READ_32BIT_REG index s = gen_reg s index"

definition BX_READ_16BIT_REG :: "3 word \<Rightarrow> cpu \<Rightarrow> Bit16u" where
  "BX_READ_16BIT_REG index s = ucast (gen_reg s index)"

definition reg_rl :: "3 word \<Rightarrow> cpu \<Rightarrow> Bit8u" where
  "reg_rl index s = ucast (gen_reg s index)"

definition reg_rh :: "3 word \<Rightarrow> cpu \<Rightarrow> Bit8u" where
  "reg_rh index s = ucast (drop_bit 8 (gen_reg s index))"

definition BX_READ_8BIT_REG :: "3 word \<Rightarrow> cpu \<Rightarrow> Bit8u" where
  "BX_READ_8BIT_REG index s =
     (if index < 4 then reg_rl index s else reg_rh (index - 4) s)"

definition BX_WRITE_32BIT_REG :: "3 word \<Rightarrow> Bit32u \<Rightarrow> cpu \<Rightarrow> cpu" where
  "BX_WRITE_32BIT_REG index val s = s\<lparr>gen_reg := (gen_reg s)(index := val)\<rparr>"

definition BX_WRITE_16BIT_REG :: "3 word \<Rightarrow> Bit16u \<Rightarrow> cpu \<Rightarrow> cpu" where
  "BX_WRITE_16BIT_REG index val s =
     s\<lparr>gen_reg := (gen_reg s)(index := (gen_reg s index AND 0xFFFF0000) OR ucast val)\<rparr>"

definition write_reg_rl :: "3 word \<Rightarrow> Bit8u \<Rightarrow> cpu \<Rightarrow> cpu" where
  "write_reg_rl index val s =
     s\<lparr>gen_reg := (gen_reg s)(index := (gen_reg s index AND 0xFFFFFF00) OR ucast val)\<rparr>"

definition write_reg_rh :: "3 word \<Rightarrow> Bit8u \<Rightarrow> cpu \<Rightarrow> cpu" where
  "write_reg_rh index val s =
     s\<lparr>gen_reg := (gen_reg s)(index := (gen_reg s index AND 0xFFFF00FF) OR push_bit 8 (ucast val))\<rparr>"

definition BX_WRITE_8BIT_REG :: "3 word \<Rightarrow> Bit8u \<Rightarrow> cpu \<Rightarrow> cpu" where
  "BX_WRITE_8BIT_REG index val s =
     (if index < 4 then write_reg_rl index val s else write_reg_rh (index - 4) val s)"

abbreviation AL :: "cpu \<Rightarrow> Bit8u" where "AL s \<equiv> reg_rl 0 s"
abbreviation CL :: "cpu \<Rightarrow> Bit8u" where "CL s \<equiv> reg_rl 1 s"
abbreviation AH :: "cpu \<Rightarrow> Bit8u" where "AH s \<equiv> reg_rh 0 s"
abbreviation AX :: "cpu \<Rightarrow> Bit16u" where "AX s \<equiv> BX_READ_16BIT_REG 0 s"
abbreviation CX :: "cpu \<Rightarrow> Bit16u" where "CX s \<equiv> BX_READ_16BIT_REG 1 s"
abbreviation DX :: "cpu \<Rightarrow> Bit16u" where "DX s \<equiv> BX_READ_16BIT_REG 2 s"
abbreviation EAX :: "cpu \<Rightarrow> Bit32u" where "EAX s \<equiv> gen_reg s 0"
abbreviation ECX :: "cpu \<Rightarrow> Bit32u" where "ECX s \<equiv> gen_reg s 1"
abbreviation EDX :: "cpu \<Rightarrow> Bit32u" where "EDX s \<equiv> gen_reg s 2"
abbreviation EBX :: "cpu \<Rightarrow> Bit32u" where "EBX s \<equiv> gen_reg s 3"

definition CPL :: "cpu \<Rightarrow> nat" where
  "CPL s = sel_rpl (sregs s CS)"

definition real_mode :: "cpu \<Rightarrow> bool" where
  "real_mode s \<longleftrightarrow> cpu_mode s = BX_MODE_IA32_REAL"

definition v8086_mode :: "cpu \<Rightarrow> bool" where
  "v8086_mode s \<longleftrightarrow> cpu_mode s = BX_MODE_IA32_V8086"

definition protected_mode :: "cpu \<Rightarrow> bool" where
  "protected_mode s \<longleftrightarrow> cpu_mode s = BX_MODE_IA32_PROTECTED"

definition get_segment_base :: "seg_reg \<Rightarrow> cpu \<Rightarrow> Bit32u" where
  "get_segment_base sg s = seg_base (sregs s sg)"

subsection \<open>Aliasing of the byte, word and double word registers\<close>

lemma bit_0xFFFFFF00: "bit (0xFFFFFF00 :: int) k \<longleftrightarrow> 8 \<le> k \<and> k < 32"
proof -
  have "(0xFFFFFF00 :: int) = push_bit 8 (mask 24)"
    by (simp add: mask_eq_exp_minus_1 push_bit_eq_mult)
  then show ?thesis by (simp only: bit_simps) auto
qed

lemma bit_0xFFFF0000: "bit (0xFFFF0000 :: int) k \<longleftrightarrow> 16 \<le> k \<and> k < 32"
proof -
  have "(0xFFFF0000 :: int) = push_bit 16 (mask 16)"
    by (simp add: mask_eq_exp_minus_1 push_bit_eq_mult)
  then show ?thesis by (simp only: bit_simps) auto
qed

lemma bit_0xFFFF00FF: "bit (0xFFFF00FF :: int) k \<longleftrightarrow> k < 32 \<and> (k < 8 \<or> 16 \<le> k)"
proof -
  have "(0xFFFF00FF :: int) = push_bit 16 (mask 16) OR mask 8"
    by (simp add: mask_eq_exp_minus_1 push_bit_eq_mult)
  then show ?thesis by (simp only: bit_simps) auto
qed

lemmas reg_bits = bit_simps bit_0xFFFFFF00 bit_0xFFFF0000 bit_0xFFFF00FF

lemma reg_rl_write_rl [simp]:
  "reg_rl i (write_reg_rl j v s) = (if i = j then v else reg_rl i s)"
  by (rule bit_word_eqI) (auto simp: reg_rl_def write_reg_rl_def reg_bits)

lemma reg_rh_write_rh [simp]:
  "reg_rh i (write_reg_rh j v s) = (if i = j then v else reg_rh i s)"
  by (rule bit_word_eqI) (auto simp: reg_rh_def write_reg_rh_def reg_bits)

lemma reg_rl_write_rh [simp]: "reg_rl i (write_reg_rh j v s) = reg_rl i s"
  by (rule bit_word_eqI) (auto simp: reg_rl_def write_reg_rh_def reg_bits)

lemma reg_rh_write_rl [simp]: "reg_rh i (write_reg_rl j v s) = reg_rh i s"
  by (rule bit_word_eqI) (auto simp: reg_rh_def write_reg_rl_def reg_bits dest: bit_imp_le_length)

lemma read8_write8 [simp]:
  "BX_READ_8BIT_REG i (BX_WRITE_8BIT_REG j v s) = (if i = j then v else BX_READ_8BIT_REG i s)"
  by (auto simp: BX_READ_8BIT_REG_def BX_WRITE_8BIT_REG_def)

lemma read16_write16 [simp]:
  "BX_READ_16BIT_REG i (BX_WRITE_16BIT_REG j v s) = (if i = j then v else BX_READ_16BIT_REG i s)"
proof -
  have "ucast ((w AND 0xFFFF0000) OR ucast v) = v" for w :: Bit32u
    by (rule bit_word_eqI) (auto simp: reg_bits)
  then show ?thesis
    by (simp add: BX_READ_16BIT_REG_def BX_WRITE_16BIT_REG_def)
qed

lemma read32_write32 [simp]:
  "BX_READ_32BIT_REG i (BX_WRITE_32BIT_REG j v s) = (if i = j then v else BX_READ_32BIT_REG i s)"
  by (simp add: BX_READ_32BIT_REG_def BX_WRITE_32BIT_REG_def)

text \<open>The 16-bit register is the pair of its byte registers.\<close>

lemma read16_bytes:
  "BX_READ_16BIT_REG i s = ucast (reg_rl i s) OR push_bit 8 (ucast (reg_rh i s))"
  by (rule bit_word_eqI)
    (auto simp: BX_READ_16BIT_REG_def reg_rl_def reg_rh_def reg_bits)

lemma reg_rl_write16 [simp]:
  "reg_rl i (BX_WRITE_16BIT_REG j v s) = (if i = j then ucast v else reg_rl i s)"
  by (rule bit_word_eqI) (auto simp: reg_rl_def BX_WRITE_16BIT_REG_def reg_bits)

lemma reg_rh_write16 [simp]:
  "reg_rh i (BX_WRITE_16BIT_REG j v s) = (if i = j then ucast (drop_bit 8 v) else reg_rh i s)"
  by (rule bit_word_eqI) (auto simp: reg_rh_def BX_WRITE_16BIT_REG_def reg_bits)

text \<open>Exception vectors of \<open>cpu.h\<close>.\<close>

definition BX_DE_EXCEPTION :: nat where "BX_DE_EXCEPTION = 0"
definition BX_DB_EXCEPTION :: nat where "BX_DB_EXCEPTION = 1"
definition BX_BP_EXCEPTION :: nat where "BX_BP_EXCEPTION = 3"
definition BX_OF_EXCEPTION :: nat where "BX_OF_EXCEPTION = 4"
definition BX_BR_EXCEPTION :: nat where "BX_BR_EXCEPTION = 5"
definition BX_UD_EXCEPTION :: nat where "BX_UD_EXCEPTION = 6"
definition BX_NM_EXCEPTION :: nat where "BX_NM_EXCEPTION = 7"
definition BX_DF_EXCEPTION :: nat where "BX_DF_EXCEPTION = 8"
definition BX_TS_EXCEPTION :: nat where "BX_TS_EXCEPTION = 10"
definition BX_NP_EXCEPTION :: nat where "BX_NP_EXCEPTION = 11"
definition BX_SS_EXCEPTION :: nat where "BX_SS_EXCEPTION = 12"
definition BX_GP_EXCEPTION :: nat where "BX_GP_EXCEPTION = 13"
definition BX_PF_EXCEPTION :: nat where "BX_PF_EXCEPTION = 14"
definition BX_MF_EXCEPTION :: nat where "BX_MF_EXCEPTION = 16"
definition BX_AC_EXCEPTION :: nat where "BX_AC_EXCEPTION = 17"
definition BX_MC_EXCEPTION :: nat where "BX_MC_EXCEPTION = 18"
definition BX_XM_EXCEPTION :: nat where "BX_XM_EXCEPTION = 19"

end
