(* ===== verification/BxWordFlags.thy ===== *)
theory BxWordFlags
  imports BxPrelude
begin

text \<open>
  Carry, borrow, signed overflow and auxiliary carry of word addition and subtraction, for words
  of any length: the tests the emulator makes on operands and result, and the exact integer
  conditions they decide.
\<close>

section \<open>Unsigned carry and borrow\<close>

lemma mod_below_twice: "(x :: nat) < 2 * m \<Longrightarrow> x mod m = (if x < m then x else x - m)"
  by (auto simp: le_mod_geq)

lemma word_less_add_iff:
  fixes a b :: "'a::len word"
  shows "a + b < a \<longleftrightarrow> 2 ^ LENGTH('a) \<le> unat a + unat b"
proof -
  define m :: nat where "m = 2 ^ LENGTH('a)"
  have ab: "unat a < m" "unat b < m"
    unfolding m_def by (rule unsigned_less)+
  have "unat (a + b) = (unat a + unat b) mod m"
    by (simp add: unat_word_ariths m_def)
  with ab show ?thesis
    unfolding word_less_nat_alt m_def [symmetric] by (auto simp: mod_below_twice)
qed

lemma word_le_add1_iff:
  fixes a b :: "'a::len word"
  shows "a + b + 1 \<le> a \<longleftrightarrow> 2 ^ LENGTH('a) \<le> unat a + unat b + 1"
proof -
  define m :: nat where "m = 2 ^ LENGTH('a)"
  have ab: "unat a < m" "unat b < m"
    unfolding m_def by (rule unsigned_less)+
  have "a + b + 1 = word_of_nat (unat a + unat b + 1)"
    by simp
  then have "unat (a + b + 1) = (unat a + unat b + 1) mod m"
    by (simp only: unat_of_nat m_def)
  with ab show ?thesis
    unfolding word_le_nat_alt m_def [symmetric] by (auto simp: mod_below_twice)
qed

lemma word_sbb_borrow_iff:
  fixes a b :: "'a::len word"
  shows "a < a - (b + 1) \<or> b = - 1 \<longleftrightarrow> unat a < unat b + 1"
proof (cases "b = - 1")
  case True
  then show ?thesis
    using unsigned_less [of a] by (simp add: unsigned_minus_1_eq_mask mask_eq_exp_minus_1)
next
  case False
  then have "b + 1 \<noteq> 0"
    by (metis add_eq_0_iff2)
  then have "unat (b + 1) = unat b + 1"
    by (simp add: unatSuc add.commute)
  moreover have "a < a - c \<longleftrightarrow> a < c" for c :: "'a word"
  proof -
    define m :: nat where "m = 2 ^ LENGTH('a)"
    have "unat a < m" "unat c < m"
      unfolding m_def by (rule unsigned_less)+
    then show ?thesis
      unfolding word_less_nat_alt unat_sub_if' m_def [symmetric] by auto
  qed
  ultimately show ?thesis
    using False by (simp add: word_less_nat_alt)
qed

section \<open>Signed overflow\<close>

lemma sint_word_of_int_cases:
  fixes x :: int
  assumes M: "M = 2 ^ (LENGTH('a::len) - 1)"
  shows "- M \<le> x \<Longrightarrow> x < M \<Longrightarrow> sint (word_of_int x :: 'a word) = x"
    and "M \<le> x \<Longrightarrow> x < 3 * M \<Longrightarrow> sint (word_of_int x :: 'a word) = x - 2 * M"
    and "- 3 * M \<le> x \<Longrightarrow> x < - M \<Longrightarrow> sint (word_of_int x :: 'a word) = x + 2 * M"
proof -
  have M2: "2 * M = 2 ^ LENGTH('a)"
    unfolding M by (simp flip: power_Suc)
  have self: "sint (word_of_int y :: 'a word) = y" if "- M \<le> y" "y < M" for y
    using that by (simp add: M sint_sbintrunc' signed_take_bit_int_eq_self)
  then show "- M \<le> x \<Longrightarrow> x < M \<Longrightarrow> sint (word_of_int x :: 'a word) = x" .
  have e: "(word_of_int (y + 2 * M) :: 'a word) = word_of_int y"
     "(word_of_int (y - 2 * M) :: 'a word) = word_of_int y" for y
    by (simp_all add: M2)
  show "M \<le> x \<Longrightarrow> x < 3 * M \<Longrightarrow> sint (word_of_int x :: 'a word) = x - 2 * M"
    using self [of "x - 2 * M"] e [of x] by simp
  show "- 3 * M \<le> x \<Longrightarrow> x < - M \<Longrightarrow> sint (word_of_int x :: 'a word) = x + 2 * M"
    using self [of "x + 2 * M"] e [of x] by simp
qed

lemma sint_bounds:
  fixes a :: "'a::len word"
  shows "- (2 ^ (LENGTH('a) - 1)) \<le> sint a" and "sint a < 2 ^ (LENGTH('a) - 1)"
  using sint_ge [of a] sint_lt [of a] by simp_all

text \<open>Signed overflow of an addition with carry, from the three sign bits.\<close>

lemma add_overflow_iff:
  fixes a b :: "'a::len word"
  assumes "c = 0 \<or> c = 1"
  shows "(msb_of a \<longleftrightarrow> msb_of b) \<and> (msb_of (a + b + word_of_int c) \<longleftrightarrow> \<not> msb_of b) \<longleftrightarrow>
    \<not> (- (2 ^ (LENGTH('a) - 1)) \<le> sint a + sint b + c \<and> sint a + sint b + c < 2 ^ (LENGTH('a) - 1))"
proof -
  define M :: int where "M = 2 ^ (LENGTH('a) - 1)"
  define x where "x = sint a + sint b + c"
  have r: "a + b + word_of_int c = word_of_int x"
    by (simp add: x_def)
  have b: "- M \<le> sint a" "sint a < M" "- M \<le> sint b" "sint b < M"
    unfolding M_def by (rule sint_bounds)+
  note cs = sint_word_of_int_cases [where 'a = 'a, OF M_def, of x]
  show ?thesis
    unfolding msb_of_iff_sint r M_def [symmetric] x_def [symmetric]
    using assms b cs x_def by (cases "x < - M"; cases "x < M") auto
qed

lemma sub_overflow_iff:
  fixes a b :: "'a::len word"
  assumes "c = 0 \<or> c = 1"
  shows "(msb_of a \<longleftrightarrow> \<not> msb_of b) \<and> (msb_of (a - b - word_of_int c) \<longleftrightarrow> \<not> msb_of a) \<longleftrightarrow>
    \<not> (- (2 ^ (LENGTH('a) - 1)) \<le> sint a - sint b - c \<and> sint a - sint b - c < 2 ^ (LENGTH('a) - 1))"
proof -
  define M :: int where "M = 2 ^ (LENGTH('a) - 1)"
  define x where "x = sint a - sint b - c"
  have r: "a - b - word_of_int c = word_of_int x"
    by (simp add: x_def)
  have b: "- M \<le> sint a" "sint a < M" "- M \<le> sint b" "sint b < M"
    unfolding M_def by (rule sint_bounds)+
  note cs = sint_word_of_int_cases [where 'a = 'a, OF M_def, of x]
  show ?thesis
    unfolding msb_of_iff_sint r M_def [symmetric] x_def [symmetric]
    using assms b cs x_def by (cases "x < - M"; cases "x < M") auto
qed
section \<open>The carry out of the low nibble\<close>

lemma bit_4_iff: "bit (w :: 'a::len word) 4 \<longleftrightarrow> odd (unat w div 16)"
proof -
  have "bit (unat w) 4 \<longleftrightarrow> bit w 4"
    by (simp add: bit_unsigned_iff)
  then show ?thesis by (simp add: bit_iff_odd [of "unat w"])
qed

lemma bit_4_word_of_nat:
  assumes "4 < LENGTH('a)"
  shows "bit (word_of_nat n :: 'a::len word) 4 \<longleftrightarrow> odd (n div 16)"
proof -
  have "bit (unat (word_of_nat n :: 'a word)) 4 \<longleftrightarrow> bit n 4"
    using assms by (simp add: unat_of_nat bit_take_bit_iff flip: take_bit_eq_mod)
  then show ?thesis by (simp add: bit_4_iff bit_iff_odd [of n] bit_iff_odd [of "unat _"])
qed

lemma div_16_add:
  "(x + y + c) div 16 = x div 16 + y div 16 + (x mod 16 + y mod 16 + c) div (16 :: nat)"
proof -
  have "x + y + c = (x mod 16 + y mod 16 + c) + 16 * (x div 16 + y div 16)"
    by simp
  then show ?thesis
    by (metis add.commute div_mult_self2 zero_neq_numeral)
qed

lemma mod_16_add: "(x + y + c) mod 16 = (x mod 16 + y mod 16 + c) mod (16 :: nat)"
  by (metis mod_add_eq mod_add_left_eq)

lemma aux_carry_add_iff:
  fixes a b r :: "'a::len word"
  assumes N: "4 < LENGTH('a)" and c: "c \<le> 1" and r: "r = a + b + word_of_nat c"
  shows "(bit a 4 \<noteq> bit b 4) \<noteq> bit r 4 \<longleftrightarrow> 16 \<le> unat a mod 16 + unat b mod 16 + c"
proof -
  define S where "S = unat a + unat b + c"
  define k where "k = (unat a mod 16 + unat b mod 16 + c) div 16"
  have "r = word_of_nat S"
    by (simp add: r S_def)
  then have "bit r 4 \<longleftrightarrow> odd (S div 16)"
    using N by (simp add: bit_4_word_of_nat)
  moreover have "S div 16 = unat a div 16 + unat b div 16 + k"
    unfolding S_def k_def by (rule div_16_add)
  moreover have "k \<le> 1"
    unfolding k_def using c mod_less_divisor [of 16 "unat a"] mod_less_divisor [of 16 "unat b"] by linarith
  moreover have "1 \<le> k \<longleftrightarrow> 16 \<le> unat a mod 16 + unat b mod 16 + c"
    unfolding k_def by linarith
  ultimately show ?thesis
    using N by (auto simp: bit_4_iff le_Suc_eq)
qed

lemma aux_borrow_sub_iff:
  fixes a b r :: "'a::len word"
  assumes N: "4 < LENGTH('a)" and c: "c \<le> 1" and r: "r = a - b - word_of_nat c"
  shows "(bit a 4 \<noteq> bit b 4) \<noteq> bit r 4 \<longleftrightarrow> unat a mod 16 < unat b mod 16 + c"
proof -
  have a: "a = r + b + word_of_nat c"
    by (simp add: r)
  define S where "S = unat r + unat b + c"
  have "a = word_of_nat S"
    by (simp add: a S_def)
  then have "unat a = S mod 2 ^ LENGTH('a)"
    by (simp only: unat_of_nat)
  moreover have "(16::nat) dvd 2 ^ LENGTH('a)"
    using N le_imp_power_dvd [of 4 "LENGTH('a)" "2::nat"] by simp
  ultimately have "unat a mod 16 = S mod 16"
    by (simp add: mod_mod_cancel)
  then have "unat a mod 16 = (unat r mod 16 + unat b mod 16 + c) mod 16"
    unfolding S_def by (rule trans [OF _ mod_16_add])
  moreover have "16 \<le> unat r mod 16 + unat b mod 16 + c \<longleftrightarrow> (bit r 4 \<noteq> bit b 4) \<noteq> bit a 4"
    by (rule aux_carry_add_iff [OF N c a, symmetric])
  moreover have "x mod 16 < y + c \<longleftrightarrow> 16 \<le> x" if "x = z + y + c" "z < 16" "y < 16" for x y z :: nat
  proof -
    have "x mod 16 = (if x < 16 then x else x - 16)"
      by (rule mod_below_twice) (use that c in linarith)
    then show ?thesis
      using that by (simp split: if_splits)
  qed
  note * = this [OF refl, of "unat r mod 16" "unat b mod 16"]
  ultimately show ?thesis
    using * by auto
qed
end
