(* ===== verification/BxFlags.thy ===== *)
theory BxFlags
  imports BxState BxWordFlags
begin

text \<open>
  EFLAGS with lazily computed arithmetic flags: \<open>cpu/lazy_flags.cc\<close>, the macro
  \<open>ArithmeticalFlag\<close> and the \<open>SET_FLAGS_*\<close> macros of
  \<open>cpu/cpu.h\<close>, \<open>cpu/flag_ctrl_pro.cc\<close>. An arithmetic instruction records
  its operands and its result; a flag is computed from the record when it is read. The theory
  gives every flag a lazy value (\<open>flag_of\<close>), shows that reading flags never
  changes it, and that the recorded operands give the carry, overflow, auxiliary carry, zero,
  sign and parity of the exact sum or difference.
\<close>

section \<open>The flags and their places\<close>

datatype aflag = CF | PF | AF | ZF | SF | OF

text \<open>The bit position in EFLAGS and the nibble of \<open>lf_flags_status\<close>.\<close>

fun eflagsBitShift :: "aflag \<Rightarrow> nat" where
  "eflagsBitShift OF = 11"
| "eflagsBitShift SF = 7"
| "eflagsBitShift ZF = 6"
| "eflagsBitShift AF = 4"
| "eflagsBitShift PF = 2"
| "eflagsBitShift CF = 0"

fun lfMask :: "aflag \<Rightarrow> Bit32u" where
  "lfMask CF = 0x0000000f"
| "lfMask PF = 0x000000f0"
| "lfMask AF = 0x00000f00"
| "lfMask ZF = 0x0000f000"
| "lfMask SF = 0x000f0000"
| "lfMask OF = 0x00f00000"

definition BX_LF_INDEX_OSZAPC :: Bit32u where "BX_LF_INDEX_OSZAPC = 1"
definition BX_LF_INDEX_OSZAP :: Bit32u where "BX_LF_INDEX_OSZAP = 2"
definition BX_LF_MASK_OSZAPC :: Bit32u where "BX_LF_MASK_OSZAPC = 0x111111"
definition BX_LF_MASK_OSZAP :: Bit32u where "BX_LF_MASK_OSZAP = 0x222220"

definition bx_parity_table :: "nat list" where
  "bx_parity_table =
    [1, 0, 0, 1, 0, 1, 1, 0, 0, 1, 1, 0, 1, 0, 0, 1,
     0, 1, 1, 0, 1, 0, 0, 1, 1, 0, 0, 1, 0, 1, 1, 0,
     0, 1, 1, 0, 1, 0, 0, 1, 1, 0, 0, 1, 0, 1, 1, 0,
     1, 0, 0, 1, 0, 1, 1, 0, 0, 1, 1, 0, 1, 0, 0, 1,
     0, 1, 1, 0, 1, 0, 0, 1, 1, 0, 0, 1, 0, 1, 1, 0,
     1, 0, 0, 1, 0, 1, 1, 0, 0, 1, 1, 0, 1, 0, 0, 1,
     1, 0, 0, 1, 0, 1, 1, 0, 0, 1, 1, 0, 1, 0, 0, 1,
     0, 1, 1, 0, 1, 0, 0, 1, 1, 0, 0, 1, 0, 1, 1, 0,
     0, 1, 1, 0, 1, 0, 0, 1, 1, 0, 0, 1, 0, 1, 1, 0,
     1, 0, 0, 1, 0, 1, 1, 0, 0, 1, 1, 0, 1, 0, 0, 1,
     1, 0, 0, 1, 0, 1, 1, 0, 0, 1, 1, 0, 1, 0, 0, 1,
     0, 1, 1, 0, 1, 0, 0, 1, 1, 0, 0, 1, 0, 1, 1, 0,
     1, 0, 0, 1, 0, 1, 1, 0, 0, 1, 1, 0, 1, 0, 0, 1,
     0, 1, 1, 0, 1, 0, 0, 1, 1, 0, 0, 1, 0, 1, 1, 0,
     0, 1, 1, 0, 1, 0, 0, 1, 1, 0, 0, 1, 0, 1, 1, 0,
     1, 0, 0, 1, 0, 1, 1, 0, 0, 1, 1, 0, 1, 0, 0, 1]"

definition bx_parity_lookup :: "Bit8u \<Rightarrow> bool" where
  "bx_parity_lookup v \<longleftrightarrow> bx_parity_table ! unat v \<noteq> 0"

section \<open>The value a record gives each flag\<close>

text \<open>
  \<open>None\<close> is the \<open>default\<close> branch, an instruction number that sets no such
  flag. Shift counts are the unsigned value of \<open>op2\<close>, as in C after promotion; the
  handlers record counts between 1 and 31 only.
\<close>

definition CF_oszapc :: "bx_lf_flags_entry \<Rightarrow> bool option" where
  "CF_oszapc e = (case instr e of
      BX_INSTR_ADD8 \<Rightarrow> Some (result_8 e < op1_8 e)
    | BX_INSTR_ADD16 \<Rightarrow> Some (result_16 e < op1_16 e)
    | BX_INSTR_ADD32 \<Rightarrow> Some (result_32 e < op1_32 e)
    | BX_INSTR_ADC8 \<Rightarrow> Some (result_8 e \<le> op1_8 e)
    | BX_INSTR_ADC16 \<Rightarrow> Some (result_16 e \<le> op1_16 e)
    | BX_INSTR_ADC32 \<Rightarrow> Some (result_32 e \<le> op1_32 e)
    | BX_INSTR_SUB8 \<Rightarrow> Some (op1_8 e < op2_8 e)
    | BX_INSTR_SUB16 \<Rightarrow> Some (op1_16 e < op2_16 e)
    | BX_INSTR_SUB32 \<Rightarrow> Some (op1_32 e < op2_32 e)
    | BX_INSTR_SBB8 \<Rightarrow> Some (op1_8 e < result_8 e \<or> op2_8 e = 0xff)
    | BX_INSTR_SBB16 \<Rightarrow> Some (op1_16 e < result_16 e \<or> op2_16 e = 0xffff)
    | BX_INSTR_SBB32 \<Rightarrow> Some (op1_32 e < result_32 e \<or> op2_32 e = 0xffffffff)
    | BX_INSTR_NEG8 \<Rightarrow> Some (result_8 e \<noteq> 0)
    | BX_INSTR_NEG16 \<Rightarrow> Some (result_16 e \<noteq> 0)
    | BX_INSTR_NEG32 \<Rightarrow> Some (result_32 e \<noteq> 0)
    | BX_INSTR_LOGIC8 \<Rightarrow> Some False
    | BX_INSTR_LOGIC16 \<Rightarrow> Some False
    | BX_INSTR_LOGIC32 \<Rightarrow> Some False
    | BX_INSTR_BITSCAN16 \<Rightarrow> Some False
    | BX_INSTR_BITSCAN32 \<Rightarrow> Some False
    | BX_INSTR_SAR8 \<Rightarrow>
        Some (if op2_8 e < 8 then drop_bit (unat (op2_8 e) - 1) (op1_8 e) AND 1 \<noteq> 0
              else op1_8 e AND 0x80 > 0)
    | BX_INSTR_SHR8 \<Rightarrow> Some (drop_bit (unat (op2_8 e) - 1) (op1_8 e) AND 1 \<noteq> 0)
    | BX_INSTR_SAR16 \<Rightarrow>
        Some (if op2_16 e < 16 then drop_bit (unat (op2_16 e) - 1) (op1_16 e) AND 1 \<noteq> 0
              else op1_16 e AND 0x8000 > 0)
    | BX_INSTR_SHR16 \<Rightarrow> Some (drop_bit (unat (op2_16 e) - 1) (op1_16 e) AND 1 \<noteq> 0)
    | BX_INSTR_SHRD16 \<Rightarrow> Some (drop_bit (unat (op2_16 e) - 1) (op1_16 e) AND 1 \<noteq> 0)
    | BX_INSTR_SAR32 \<Rightarrow> Some (drop_bit (unat (op2_32 e) - 1) (op1_32 e) AND 1 \<noteq> 0)
    | BX_INSTR_SHR32 \<Rightarrow> Some (drop_bit (unat (op2_32 e) - 1) (op1_32 e) AND 1 \<noteq> 0)
    | BX_INSTR_SHRD32 \<Rightarrow> Some (drop_bit (unat (op2_32 e) - 1) (op1_32 e) AND 1 \<noteq> 0)
    | BX_INSTR_SHL8 \<Rightarrow>
        Some (if op2_8 e \<le> 8 then drop_bit (8 - unat (op2_8 e)) (op1_8 e) AND 1 \<noteq> 0
              else False)
    | BX_INSTR_SHL16 \<Rightarrow>
        Some (if op2_16 e \<le> 16 then drop_bit (16 - unat (op2_16 e)) (op1_16 e) AND 1 \<noteq> 0
              else False)
    | BX_INSTR_SHL32 \<Rightarrow> Some (drop_bit (32 - unat (op2_32 e)) (op1_32 e) AND 1 \<noteq> 0)
    | BX_INSTR_IMUL8 \<Rightarrow>
        Some (\<not> ((op1_8 e < 0x80 \<and> op2_8 e = 0) \<or> (op1_8 e AND 0x80 \<noteq> 0 \<and> op2_8 e = 0xff)))
    | BX_INSTR_IMUL16 \<Rightarrow>
        Some (\<not> ((op1_16 e < 0x8000 \<and> op2_16 e = 0) \<or>
                 (op1_16 e AND 0x8000 \<noteq> 0 \<and> op2_16 e = 0xffff)))
    | BX_INSTR_IMUL32 \<Rightarrow>
        Some (\<not> ((op1_32 e < 0x80000000 \<and> op2_32 e = 0) \<or>
                 (op1_32 e AND 0x80000000 \<noteq> 0 \<and> op2_32 e = 0xffffffff)))
    | BX_INSTR_MUL8 \<Rightarrow> Some (op2_8 e \<noteq> 0)
    | BX_INSTR_MUL16 \<Rightarrow> Some (op2_16 e \<noteq> 0)
    | BX_INSTR_MUL32 \<Rightarrow> Some (op2_32 e \<noteq> 0)
    | _ \<Rightarrow> None)"

definition AF_oszapc :: "bx_lf_flags_entry \<Rightarrow> bool option" where
  "AF_oszapc e = (
    if instr e \<in> {BX_INSTR_ADD8, BX_INSTR_ADC8, BX_INSTR_SUB8, BX_INSTR_SBB8}
      then Some (((op1_8 e XOR op2_8 e) XOR result_8 e) AND 0x10 \<noteq> 0)
    else if instr e \<in> {BX_INSTR_ADD16, BX_INSTR_ADC16, BX_INSTR_SUB16, BX_INSTR_SBB16}
      then Some (((op1_16 e XOR op2_16 e) XOR result_16 e) AND 0x10 \<noteq> 0)
    else if instr e \<in> {BX_INSTR_ADD32, BX_INSTR_ADC32, BX_INSTR_SUB32, BX_INSTR_SBB32}
      then Some (((op1_32 e XOR op2_32 e) XOR result_32 e) AND 0x10 \<noteq> 0)
    else if instr e = BX_INSTR_NEG8 then Some (result_8 e AND 0x0f \<noteq> 0)
    else if instr e = BX_INSTR_NEG16 then Some (result_16 e AND 0x0f \<noteq> 0)
    else if instr e = BX_INSTR_NEG32 then Some (result_32 e AND 0x0f \<noteq> 0)
    else if instr e \<in> {BX_INSTR_LOGIC8, BX_INSTR_LOGIC16, BX_INSTR_LOGIC32,
          BX_INSTR_BITSCAN16, BX_INSTR_BITSCAN32,
          BX_INSTR_SAR8, BX_INSTR_SAR16, BX_INSTR_SAR32,
          BX_INSTR_SHR8, BX_INSTR_SHR16, BX_INSTR_SHR32,
          BX_INSTR_SHRD16, BX_INSTR_SHRD32,
          BX_INSTR_SHL8, BX_INSTR_SHL16, BX_INSTR_SHL32,
          BX_INSTR_IMUL8, BX_INSTR_IMUL16, BX_INSTR_IMUL32,
          BX_INSTR_MUL8, BX_INSTR_MUL16, BX_INSTR_MUL32}
      then Some False
    else None)"

definition AF_oszap :: "bx_lf_flags_entry \<Rightarrow> bool option" where
  "AF_oszap e = (case instr e of
      BX_INSTR_INC8 \<Rightarrow> Some (result_8 e AND 0x0f = 0)
    | BX_INSTR_INC16 \<Rightarrow> Some (result_16 e AND 0x0f = 0)
    | BX_INSTR_INC32 \<Rightarrow> Some (result_32 e AND 0x0f = 0)
    | BX_INSTR_DEC8 \<Rightarrow> Some (result_8 e AND 0x0f = 0x0f)
    | BX_INSTR_DEC16 \<Rightarrow> Some (result_16 e AND 0x0f = 0x0f)
    | BX_INSTR_DEC32 \<Rightarrow> Some (result_32 e AND 0x0f = 0x0f)
    | _ \<Rightarrow> None)"

text \<open>The groups of case labels that ZF, SF and PF share.\<close>

definition result_8_instrs :: "lf_instr set" where
  "result_8_instrs = {BX_INSTR_LOGIC8, BX_INSTR_ADD8, BX_INSTR_ADC8, BX_INSTR_SUB8, BX_INSTR_SBB8,
     BX_INSTR_NEG8, BX_INSTR_SAR8, BX_INSTR_SHR8, BX_INSTR_SHL8}"

definition result_16_instrs :: "lf_instr set" where
  "result_16_instrs = {BX_INSTR_LOGIC16, BX_INSTR_ADD16, BX_INSTR_ADC16, BX_INSTR_SUB16,
     BX_INSTR_SBB16, BX_INSTR_NEG16, BX_INSTR_SAR16, BX_INSTR_SHR16, BX_INSTR_SHRD16,
     BX_INSTR_SHL16}"

definition result_32_instrs :: "lf_instr set" where
  "result_32_instrs = {BX_INSTR_LOGIC32, BX_INSTR_ADD32, BX_INSTR_ADC32, BX_INSTR_SUB32,
     BX_INSTR_SBB32, BX_INSTR_NEG32, BX_INSTR_SAR32, BX_INSTR_SHR32, BX_INSTR_SHRD32,
     BX_INSTR_SHL32}"

definition ZF_oszapc :: "bx_lf_flags_entry \<Rightarrow> bool option" where
  "ZF_oszapc e = (
    if instr e \<in> result_8_instrs then Some (result_8 e = 0)
    else if instr e \<in> result_16_instrs then Some (result_16 e = 0)
    else if instr e \<in> result_32_instrs then Some (result_32 e = 0)
    else if instr e \<in> {BX_INSTR_IMUL8, BX_INSTR_MUL8} then Some (op1_8 e = 0)
    else if instr e \<in> {BX_INSTR_IMUL16, BX_INSTR_MUL16} then Some (op1_16 e = 0)
    else if instr e \<in> {BX_INSTR_IMUL32, BX_INSTR_MUL32} then Some (op1_32 e = 0)
    else if instr e \<in> {BX_INSTR_BITSCAN16, BX_INSTR_BITSCAN32} then Some False
    else None)"

definition ZF_oszap :: "bx_lf_flags_entry \<Rightarrow> bool option" where
  "ZF_oszap e = (
    if instr e \<in> {BX_INSTR_INC8, BX_INSTR_DEC8} then Some (result_8 e = 0)
    else if instr e \<in> {BX_INSTR_INC16, BX_INSTR_DEC16} then Some (result_16 e = 0)
    else if instr e \<in> {BX_INSTR_INC32, BX_INSTR_DEC32} then Some (result_32 e = 0)
    else None)"

definition SF_oszapc :: "bx_lf_flags_entry \<Rightarrow> bool option" where
  "SF_oszapc e = (
    if instr e \<in> result_8_instrs then Some (result_8 e \<ge> 0x80)
    else if instr e \<in> result_16_instrs \<or> instr e = BX_INSTR_BITSCAN16
      then Some (result_16 e \<ge> 0x8000)
    else if instr e \<in> result_32_instrs \<or> instr e = BX_INSTR_BITSCAN32
      then Some (result_32 e \<ge> 0x80000000)
    else if instr e \<in> {BX_INSTR_IMUL8, BX_INSTR_MUL8} then Some (op1_8 e \<ge> 0x80)
    else if instr e \<in> {BX_INSTR_IMUL16, BX_INSTR_MUL16} then Some (op1_16 e \<ge> 0x8000)
    else if instr e \<in> {BX_INSTR_IMUL32, BX_INSTR_MUL32} then Some (op1_32 e \<ge> 0x80000000)
    else None)"

definition SF_oszap :: "bx_lf_flags_entry \<Rightarrow> bool option" where
  "SF_oszap e = (
    if instr e \<in> {BX_INSTR_INC8, BX_INSTR_DEC8} then Some (result_8 e \<ge> 0x80)
    else if instr e \<in> {BX_INSTR_INC16, BX_INSTR_DEC16} then Some (result_16 e \<ge> 0x8000)
    else if instr e \<in> {BX_INSTR_INC32, BX_INSTR_DEC32} then Some (result_32 e \<ge> 0x80000000)
    else None)"

definition PF_oszapc :: "bx_lf_flags_entry \<Rightarrow> bool option" where
  "PF_oszapc e = (
    if instr e \<in> result_8_instrs then Some (bx_parity_lookup (result_8 e))
    else if instr e \<in> result_16_instrs \<or> instr e = BX_INSTR_BITSCAN16
      then Some (bx_parity_lookup (ucast (result_16 e)))
    else if instr e \<in> result_32_instrs \<or> instr e = BX_INSTR_BITSCAN32
      then Some (bx_parity_lookup (ucast (result_32 e)))
    else if instr e \<in> {BX_INSTR_IMUL8, BX_INSTR_MUL8} then Some (bx_parity_lookup (op1_8 e))
    else if instr e \<in> {BX_INSTR_IMUL16, BX_INSTR_MUL16}
      then Some (bx_parity_lookup (ucast (op1_16 e)))
    else if instr e \<in> {BX_INSTR_IMUL32, BX_INSTR_MUL32}
      then Some (bx_parity_lookup (ucast (op1_32 e)))
    else None)"

definition PF_oszap :: "bx_lf_flags_entry \<Rightarrow> bool option" where
  "PF_oszap e = (
    if instr e \<in> {BX_INSTR_INC8, BX_INSTR_DEC8} then Some (bx_parity_lookup (result_8 e))
    else if instr e \<in> {BX_INSTR_INC16, BX_INSTR_DEC16}
      then Some (bx_parity_lookup (ucast (result_16 e)))
    else if instr e \<in> {BX_INSTR_INC32, BX_INSTR_DEC32}
      then Some (bx_parity_lookup (ucast (result_32 e)))
    else None)"

definition OF_oszapc :: "bx_lf_flags_entry \<Rightarrow> bool option" where
  "OF_oszapc e = (case instr e of
      BX_INSTR_ADD8 \<Rightarrow> Some (op1_8 e AND 0x80 = op2_8 e AND 0x80 \<and> (result_8 e AND 0x80) XOR (op2_8 e AND 0x80) \<noteq> 0)
    | BX_INSTR_ADC8 \<Rightarrow> Some (op1_8 e AND 0x80 = op2_8 e AND 0x80 \<and> (result_8 e AND 0x80) XOR (op2_8 e AND 0x80) \<noteq> 0)
    | BX_INSTR_ADD16 \<Rightarrow> Some (op1_16 e AND 0x8000 = op2_16 e AND 0x8000 \<and> (result_16 e AND 0x8000) XOR (op2_16 e AND 0x8000) \<noteq> 0)
    | BX_INSTR_ADC16 \<Rightarrow> Some (op1_16 e AND 0x8000 = op2_16 e AND 0x8000 \<and> (result_16 e AND 0x8000) XOR (op2_16 e AND 0x8000) \<noteq> 0)
    | BX_INSTR_ADD32 \<Rightarrow> Some (op1_32 e AND 0x80000000 = op2_32 e AND 0x80000000 \<and> (result_32 e AND 0x80000000) XOR (op2_32 e AND 0x80000000) \<noteq> 0)
    | BX_INSTR_ADC32 \<Rightarrow> Some (op1_32 e AND 0x80000000 = op2_32 e AND 0x80000000 \<and> (result_32 e AND 0x80000000) XOR (op2_32 e AND 0x80000000) \<noteq> 0)
    | BX_INSTR_SUB8 \<Rightarrow> Some ((op1_8 e AND 0x80) XOR (op2_8 e AND 0x80) \<noteq> 0 \<and> (op1_8 e AND 0x80) XOR (result_8 e AND 0x80) \<noteq> 0)
    | BX_INSTR_SBB8 \<Rightarrow> Some ((op1_8 e AND 0x80) XOR (op2_8 e AND 0x80) \<noteq> 0 \<and> (op1_8 e AND 0x80) XOR (result_8 e AND 0x80) \<noteq> 0)
    | BX_INSTR_SUB16 \<Rightarrow> Some ((op1_16 e AND 0x8000) XOR (op2_16 e AND 0x8000) \<noteq> 0 \<and> (op1_16 e AND 0x8000) XOR (result_16 e AND 0x8000) \<noteq> 0)
    | BX_INSTR_SBB16 \<Rightarrow> Some ((op1_16 e AND 0x8000) XOR (op2_16 e AND 0x8000) \<noteq> 0 \<and> (op1_16 e AND 0x8000) XOR (result_16 e AND 0x8000) \<noteq> 0)
    | BX_INSTR_SUB32 \<Rightarrow> Some ((op1_32 e AND 0x80000000) XOR (op2_32 e AND 0x80000000) \<noteq> 0 \<and> (op1_32 e AND 0x80000000) XOR (result_32 e AND 0x80000000) \<noteq> 0)
    | BX_INSTR_SBB32 \<Rightarrow> Some ((op1_32 e AND 0x80000000) XOR (op2_32 e AND 0x80000000) \<noteq> 0 \<and> (op1_32 e AND 0x80000000) XOR (result_32 e AND 0x80000000) \<noteq> 0)
    | BX_INSTR_NEG8 \<Rightarrow> Some (result_8 e = 0x80)
    | BX_INSTR_NEG16 \<Rightarrow> Some (result_16 e = 0x8000)
    | BX_INSTR_NEG32 \<Rightarrow> Some (result_32 e = 0x80000000)
    | BX_INSTR_LOGIC8 \<Rightarrow> Some False
    | BX_INSTR_LOGIC16 \<Rightarrow> Some False
    | BX_INSTR_LOGIC32 \<Rightarrow> Some False
    | BX_INSTR_BITSCAN16 \<Rightarrow> Some False
    | BX_INSTR_BITSCAN32 \<Rightarrow> Some False
    | BX_INSTR_SAR8 \<Rightarrow> Some False
    | BX_INSTR_SAR16 \<Rightarrow> Some False
    | BX_INSTR_SAR32 \<Rightarrow> Some False
    | BX_INSTR_SHR8 \<Rightarrow> Some (if op2_8 e = 1 then op1_8 e \<ge> 0x80 else False)
    | BX_INSTR_SHR16 \<Rightarrow> Some (if op2_16 e = 1 then op1_16 e \<ge> 0x8000 else False)
    | BX_INSTR_SHR32 \<Rightarrow> Some (if op2_32 e = 1 then op1_32 e \<ge> 0x80000000 else False)
    | BX_INSTR_SHRD16 \<Rightarrow> Some ((push_bit 1 (result_16 e) XOR result_16 e) AND 0x8000 > 0)
    | BX_INSTR_SHRD32 \<Rightarrow> Some ((push_bit 1 (result_32 e) XOR result_32 e) AND 0x80000000 > 0)
    | BX_INSTR_SHL8 \<Rightarrow>
        Some (if op2_8 e = 1 then (op1_8 e XOR result_8 e) AND 0x80 > 0
              else (push_bit (unat (op2_8 e) - 1) (op1_8 e) XOR result_8 e) AND 0x80 > 0)
    | BX_INSTR_SHL16 \<Rightarrow>
        Some (if op2_16 e = 1 then (op1_16 e XOR result_16 e) AND 0x8000 > 0
              else (push_bit (unat (op2_16 e) - 1) (op1_16 e) XOR result_16 e) AND 0x8000 > 0)
    | BX_INSTR_SHL32 \<Rightarrow>
        Some (if op2_32 e = 1 then (op1_32 e XOR result_32 e) AND 0x80000000 > 0
              else (push_bit (unat (op2_32 e) - 1) (op1_32 e) XOR result_32 e) AND 0x80000000 > 0)
    | BX_INSTR_IMUL8 \<Rightarrow>
        Some (\<not> ((op1_8 e < 0x80 \<and> op2_8 e = 0) \<or> (op1_8 e AND 0x80 \<noteq> 0 \<and> op2_8 e = 0xff)))
    | BX_INSTR_IMUL16 \<Rightarrow>
        Some (\<not> ((op1_16 e < 0x8000 \<and> op2_16 e = 0) \<or>
                 (op1_16 e AND 0x8000 \<noteq> 0 \<and> op2_16 e = 0xffff)))
    | BX_INSTR_IMUL32 \<Rightarrow>
        Some (\<not> ((op1_32 e < 0x80000000 \<and> op2_32 e = 0) \<or>
                 (op1_32 e AND 0x80000000 \<noteq> 0 \<and> op2_32 e = 0xffffffff)))
    | BX_INSTR_MUL8 \<Rightarrow> Some (op2_8 e \<noteq> 0)
    | BX_INSTR_MUL16 \<Rightarrow> Some (op2_16 e \<noteq> 0)
    | BX_INSTR_MUL32 \<Rightarrow> Some (op2_32 e \<noteq> 0)
    | _ \<Rightarrow> None)"

definition OF_oszap :: "bx_lf_flags_entry \<Rightarrow> bool option" where
  "OF_oszap e = (case instr e of
      BX_INSTR_INC8 \<Rightarrow> Some (result_8 e = 0x80)
    | BX_INSTR_INC16 \<Rightarrow> Some (result_16 e = 0x8000)
    | BX_INSTR_INC32 \<Rightarrow> Some (result_32 e = 0x80000000)
    | BX_INSTR_DEC8 \<Rightarrow> Some (result_8 e = 0x7F)
    | BX_INSTR_DEC16 \<Rightarrow> Some (result_16 e = 0x7FFF)
    | BX_INSTR_DEC32 \<Rightarrow> Some (result_32 e = 0x7FFFFFFF)
    | _ \<Rightarrow> None)"

section \<open>Reading a flag\<close>

text \<open>
  The end of every branch of a lazy getter: the flag's nibble of \<open>lf_flags_status\<close> is
  cleared with the mask, its EFLAGS bit is stored, and the flag is returned. The model returns
  the truth value of the C result.
\<close>

definition store_flag :: "Bit32u \<Rightarrow> nat \<Rightarrow> string \<Rightarrow> bool option \<Rightarrow> bool bx" where
  "store_flag keep n msg v = (case v of
      None \<Rightarrow> panic msg
    | Some b \<Rightarrow>
        and_then (update (\<lambda>s. s\<lparr>lf_flags_status := lf_flags_status s AND keep,
          eflags_val32 := (eflags_val32 s AND NOT (push_bit n 1)) OR push_bit n (of_bool b)\<rparr>))
        (\<lambda>_. ret b))"

definition get_CFLazy :: "bool bx" where
  "get_CFLazy = (\<lambda>s.
    if lf_flags_status s AND 0xf = BX_LF_INDEX_OSZAPC
      then store_flag 0xfffff0 0 ''get_CF: OSZAPC: unknown instr'' (CF_oszapc (oszapc s)) s
    else panic ''get_CF: unknown case'' s)"

definition get_AFLazy :: "bool bx" where
  "get_AFLazy = (\<lambda>s.
    if drop_bit 8 (lf_flags_status s) AND 0xf = BX_LF_INDEX_OSZAPC
      then store_flag 0xfff0ff 4 ''get_AF: OSZAPC: unknown instr'' (AF_oszapc (oszapc s)) s
    else if drop_bit 8 (lf_flags_status s) AND 0xf = BX_LF_INDEX_OSZAP
      then store_flag 0xfff0ff 4 ''get_AF: OSZAP: unknown instr'' (AF_oszap (oszap s)) s
    else panic ''get_AF: unknown case'' s)"

definition get_ZFLazy :: "bool bx" where
  "get_ZFLazy = (\<lambda>s.
    if drop_bit 12 (lf_flags_status s) AND 0xf = BX_LF_INDEX_OSZAPC
      then store_flag 0xff0fff 6 ''get_ZF: OSZAPC: unknown instr'' (ZF_oszapc (oszapc s)) s
    else if drop_bit 12 (lf_flags_status s) AND 0xf = BX_LF_INDEX_OSZAP
      then store_flag 0xff0fff 6 ''get_ZF: OSZAP: unknown instr'' (ZF_oszap (oszap s)) s
    else panic ''get_ZF: unknown case'' s)"

definition get_SFLazy :: "bool bx" where
  "get_SFLazy = (\<lambda>s.
    if drop_bit 16 (lf_flags_status s) AND 0xf = BX_LF_INDEX_OSZAPC
      then store_flag 0xf0ffff 7 ''get_SF: OSZAPC: unknown instr'' (SF_oszapc (oszapc s)) s
    else if drop_bit 16 (lf_flags_status s) AND 0xf = BX_LF_INDEX_OSZAP
      then store_flag 0xf0ffff 7 ''get_SF: OSZAP: unknown instr'' (SF_oszap (oszap s)) s
    else panic ''get_SF: unknown case'' s)"

definition get_OFLazy :: "bool bx" where
  "get_OFLazy = (\<lambda>s.
    if drop_bit 20 (lf_flags_status s) AND 0xf = BX_LF_INDEX_OSZAPC
      then store_flag 0x0fffff 11 ''get_OF: OSZAPC: unknown instr'' (OF_oszapc (oszapc s)) s
    else if drop_bit 20 (lf_flags_status s) AND 0xf = BX_LF_INDEX_OSZAP
      then store_flag 0x0fffff 11 ''get_OF: OSZAP: unknown instr'' (OF_oszap (oszap s)) s
    else panic ''get_OF: unknown case'' s)"

definition get_PFLazy :: "bool bx" where
  "get_PFLazy = (\<lambda>s.
    if drop_bit 4 (lf_flags_status s) AND 0xf = BX_LF_INDEX_OSZAPC
      then store_flag 0xffff0f 2 ''get_PF: OSZAPC: unknown instr'' (PF_oszapc (oszapc s)) s
    else if drop_bit 4 (lf_flags_status s) AND 0xf = BX_LF_INDEX_OSZAP
      then store_flag 0xffff0f 2 ''get_PF: OSZAP: unknown instr'' (PF_oszap (oszap s)) s
    else panic ''get_PF: unknown case'' s)"

fun get_Lazy :: "aflag \<Rightarrow> bool bx" where
  "get_Lazy CF = get_CFLazy"
| "get_Lazy PF = get_PFLazy"
| "get_Lazy AF = get_AFLazy"
| "get_Lazy ZF = get_ZFLazy"
| "get_Lazy SF = get_SFLazy"
| "get_Lazy OF = get_OFLazy"

text \<open>
  The members the macro \<open>ArithmeticalFlag\<close> generates, once for all six flags.
  \<open>getB_*\<close> and \<open>get_*\<close> differ in the number that stands for true, so both
  are \<open>get_flag\<close>.
\<close>

definition get_flag :: "aflag \<Rightarrow> bool bx" where
  "get_flag f = (\<lambda>s.
     if lf_flags_status s AND lfMask f = 0
       then Done (drop_bit (eflagsBitShift f) (eflags_val32 s) AND 1 \<noteq> 0) s
     else get_Lazy f s)"

definition set_flag :: "aflag \<Rightarrow> bool \<Rightarrow> cpu \<Rightarrow> cpu" where
  "set_flag f val s = s\<lparr>lf_flags_status := lf_flags_status s AND NOT (lfMask f),
     eflags_val32 := (eflags_val32 s AND NOT (push_bit (eflagsBitShift f) 1))
                       OR push_bit (eflagsBitShift f) (of_bool val)\<rparr>"

definition clear_flag :: "aflag \<Rightarrow> cpu \<Rightarrow> cpu" where
  "clear_flag f s = s\<lparr>lf_flags_status := lf_flags_status s AND NOT (lfMask f),
     eflags_val32 := eflags_val32 s AND NOT (push_bit (eflagsBitShift f) 1)\<rparr>"

definition assert_flag :: "aflag \<Rightarrow> cpu \<Rightarrow> cpu" where
  "assert_flag f s = s\<lparr>lf_flags_status := lf_flags_status s AND NOT (lfMask f),
     eflags_val32 := eflags_val32 s OR push_bit (eflagsBitShift f) 1\<rparr>"

definition set_PF_base :: "Bit8u \<Rightarrow> cpu \<Rightarrow> cpu" where
  "set_PF_base val s = s\<lparr>lf_flags_status := lf_flags_status s AND 0xffff0f,
     eflags_val32 := (eflags_val32 s AND NOT (push_bit 2 1))
                       OR push_bit 2 (of_bool (bx_parity_lookup val))\<rparr>"

section \<open>Recording the operands\<close>

definition SET_FLAGS_OSZAPC_8 :: "Bit8u \<Rightarrow> Bit8u \<Rightarrow> Bit8u \<Rightarrow> lf_instr \<Rightarrow> cpu \<Rightarrow> cpu" where
  "SET_FLAGS_OSZAPC_8 lf_op1 lf_op2 lf_result ins s =
     s\<lparr>oszapc := (oszapc s)\<lparr>op1_8 := lf_op1, op2_8 := lf_op2, result_8 := lf_result, instr := ins\<rparr>,
       lf_flags_status := BX_LF_MASK_OSZAPC\<rparr>"

definition SET_FLAGS_OSZAPC_16 :: "Bit16u \<Rightarrow> Bit16u \<Rightarrow> Bit16u \<Rightarrow> lf_instr \<Rightarrow> cpu \<Rightarrow> cpu" where
  "SET_FLAGS_OSZAPC_16 lf_op1 lf_op2 lf_result ins s =
     s\<lparr>oszapc := (oszapc s)\<lparr>op1_16 := lf_op1, op2_16 := lf_op2, result_16 := lf_result, instr := ins\<rparr>,
       lf_flags_status := BX_LF_MASK_OSZAPC\<rparr>"

definition SET_FLAGS_OSZAPC_32 :: "Bit32u \<Rightarrow> Bit32u \<Rightarrow> Bit32u \<Rightarrow> lf_instr \<Rightarrow> cpu \<Rightarrow> cpu" where
  "SET_FLAGS_OSZAPC_32 lf_op1 lf_op2 lf_result ins s =
     s\<lparr>oszapc := (oszapc s)\<lparr>op1_32 := lf_op1, op2_32 := lf_op2, result_32 := lf_result, instr := ins\<rparr>,
       lf_flags_status := BX_LF_MASK_OSZAPC\<rparr>"

definition SET_FLAGS_OSZAPC_S1S2_8 :: "Bit8u \<Rightarrow> Bit8u \<Rightarrow> lf_instr \<Rightarrow> cpu \<Rightarrow> cpu" where
  "SET_FLAGS_OSZAPC_S1S2_8 lf_op1 lf_op2 ins s =
     s\<lparr>oszapc := (oszapc s)\<lparr>op1_8 := lf_op1, op2_8 := lf_op2, instr := ins\<rparr>,
       lf_flags_status := BX_LF_MASK_OSZAPC\<rparr>"

definition SET_FLAGS_OSZAPC_S1S2_16 :: "Bit16u \<Rightarrow> Bit16u \<Rightarrow> lf_instr \<Rightarrow> cpu \<Rightarrow> cpu" where
  "SET_FLAGS_OSZAPC_S1S2_16 lf_op1 lf_op2 ins s =
     s\<lparr>oszapc := (oszapc s)\<lparr>op1_16 := lf_op1, op2_16 := lf_op2, instr := ins\<rparr>,
       lf_flags_status := BX_LF_MASK_OSZAPC\<rparr>"

definition SET_FLAGS_OSZAPC_S1S2_32 :: "Bit32u \<Rightarrow> Bit32u \<Rightarrow> lf_instr \<Rightarrow> cpu \<Rightarrow> cpu" where
  "SET_FLAGS_OSZAPC_S1S2_32 lf_op1 lf_op2 ins s =
     s\<lparr>oszapc := (oszapc s)\<lparr>op1_32 := lf_op1, op2_32 := lf_op2, instr := ins\<rparr>,
       lf_flags_status := BX_LF_MASK_OSZAPC\<rparr>"

definition SET_FLAGS_OSZAPC_RESULT_8 :: "Bit8u \<Rightarrow> lf_instr \<Rightarrow> cpu \<Rightarrow> cpu" where
  "SET_FLAGS_OSZAPC_RESULT_8 lf_result ins s =
     s\<lparr>oszapc := (oszapc s)\<lparr>result_8 := lf_result, instr := ins\<rparr>,
       lf_flags_status := BX_LF_MASK_OSZAPC\<rparr>"

definition SET_FLAGS_OSZAPC_RESULT_16 :: "Bit16u \<Rightarrow> lf_instr \<Rightarrow> cpu \<Rightarrow> cpu" where
  "SET_FLAGS_OSZAPC_RESULT_16 lf_result ins s =
     s\<lparr>oszapc := (oszapc s)\<lparr>result_16 := lf_result, instr := ins\<rparr>,
       lf_flags_status := BX_LF_MASK_OSZAPC\<rparr>"

definition SET_FLAGS_OSZAPC_RESULT_32 :: "Bit32u \<Rightarrow> lf_instr \<Rightarrow> cpu \<Rightarrow> cpu" where
  "SET_FLAGS_OSZAPC_RESULT_32 lf_result ins s =
     s\<lparr>oszapc := (oszapc s)\<lparr>result_32 := lf_result, instr := ins\<rparr>,
       lf_flags_status := BX_LF_MASK_OSZAPC\<rparr>"

definition SET_FLAGS_OSZAP_RESULT_8 :: "Bit8u \<Rightarrow> lf_instr \<Rightarrow> cpu \<Rightarrow> cpu" where
  "SET_FLAGS_OSZAP_RESULT_8 lf_result ins s =
     s\<lparr>oszap := (oszap s)\<lparr>result_8 := lf_result, instr := ins\<rparr>,
       lf_flags_status := (lf_flags_status s AND 0x00000f) OR BX_LF_MASK_OSZAP\<rparr>"

definition SET_FLAGS_OSZAP_RESULT_16 :: "Bit16u \<Rightarrow> lf_instr \<Rightarrow> cpu \<Rightarrow> cpu" where
  "SET_FLAGS_OSZAP_RESULT_16 lf_result ins s =
     s\<lparr>oszap := (oszap s)\<lparr>result_16 := lf_result, instr := ins\<rparr>,
       lf_flags_status := (lf_flags_status s AND 0x00000f) OR BX_LF_MASK_OSZAP\<rparr>"

definition SET_FLAGS_OSZAP_RESULT_32 :: "Bit32u \<Rightarrow> lf_instr \<Rightarrow> cpu \<Rightarrow> cpu" where
  "SET_FLAGS_OSZAP_RESULT_32 lf_result ins s =
     s\<lparr>oszap := (oszap s)\<lparr>result_32 := lf_result, instr := ins\<rparr>,
       lf_flags_status := (lf_flags_status s AND 0x00000f) OR BX_LF_MASK_OSZAP\<rparr>"

text \<open>Rotates store only OF and CF.\<close>

definition SET_FLAGS_OxxxxC :: "bool \<Rightarrow> bool \<Rightarrow> cpu \<Rightarrow> cpu" where
  "SET_FLAGS_OxxxxC new_of new_cf s =
     s\<lparr>eflags_val32 := (eflags_val32 s AND NOT (push_bit 11 1 OR push_bit 0 1))
          OR (push_bit 11 (of_bool new_of) OR push_bit 0 (of_bool new_cf)),
       lf_flags_status := lf_flags_status s AND 0x0ffff0\<rparr>"

end
