(* ===== verification/BxFlagSpec.thy ===== *)
theory BxFlagSpec
  imports BxFlags
begin

text \<open>
  What the lazy flags mean. \<open>flag_of\<close> is the value the lazy getters give an arithmetic
  flag in a state; reading, forcing and storing flags is described in terms of it. The second
  half states the flags of exact integer sums and differences and proves the tests the emulator
  makes on recorded words equal to them.
\<close>

section \<open>The lazy value of a flag\<close>

fun lfShift :: "aflag \<Rightarrow> nat" where
  "lfShift CF = 0"
| "lfShift PF = 4"
| "lfShift AF = 8"
| "lfShift ZF = 12"
| "lfShift SF = 16"
| "lfShift OF = 20"

definition lf_nibble :: "aflag \<Rightarrow> Bit32u \<Rightarrow> Bit32u" where
  "lf_nibble f w = drop_bit (lfShift f) w AND 0xf"

fun oszapc_value :: "aflag \<Rightarrow> bx_lf_flags_entry \<Rightarrow> bool option" where
  "oszapc_value CF e = CF_oszapc e"
| "oszapc_value PF e = PF_oszapc e"
| "oszapc_value AF e = AF_oszapc e"
| "oszapc_value ZF e = ZF_oszapc e"
| "oszapc_value SF e = SF_oszapc e"
| "oszapc_value OF e = OF_oszapc e"

fun oszap_value :: "aflag \<Rightarrow> bx_lf_flags_entry \<Rightarrow> bool option" where
  "oszap_value CF e = None"
| "oszap_value PF e = PF_oszap e"
| "oszap_value AF e = AF_oszap e"
| "oszap_value ZF e = ZF_oszap e"
| "oszap_value SF e = SF_oszap e"
| "oszap_value OF e = OF_oszap e"

definition flag_of :: "aflag \<Rightarrow> cpu \<Rightarrow> bool option" where
  "flag_of f s = (
     if lf_nibble f (lf_flags_status s) = 0 then Some (bit (eflags_val32 s) (eflagsBitShift f))
     else if lf_nibble f (lf_flags_status s) = 1 then oszapc_value f (oszapc s)
     else if lf_nibble f (lf_flags_status s) = 2 then oszap_value f (oszap s)
     else None)"

lemma and_push_bit_eq_0_iff:
  fixes w m :: Bit32u
  assumes "push_bit n m = M" and "drop_bit n M = m"
  shows "w AND M = 0 \<longleftrightarrow> drop_bit n w AND m = 0"
proof
  assume "w AND M = 0"
  then have "drop_bit n (w AND M) = 0" by simp
  then show "drop_bit n w AND m = 0" by (simp add: drop_bit_and assms(2))
next
  assume "drop_bit n w AND m = 0"
  then have "push_bit n (drop_bit n w AND m) = 0" by simp
  moreover have "push_bit n (drop_bit n w AND m) = w AND push_bit n m"
    by (rule bit_word_eqI) (auto simp: bit_simps)
  ultimately show "w AND M = 0" by (simp add: assms(1))
qed

lemma lfMask_eq_0_iff: "w AND lfMask f = 0 \<longleftrightarrow> lf_nibble f w = 0"
  unfolding lf_nibble_def
  by (rule and_push_bit_eq_0_iff; cases f; simp)

fun lf_keep :: "aflag \<Rightarrow> Bit32u" where
  "lf_keep CF = 0xfffff0"
| "lf_keep PF = 0xffff0f"
| "lf_keep AF = 0xfff0ff"
| "lf_keep ZF = 0xff0fff"
| "lf_keep SF = 0xf0ffff"
| "lf_keep OF = 0x0fffff"

lemma lf_nibble_keep [simp]:
  "lf_nibble g (w AND lf_keep f) = (if f = g then 0 else lf_nibble g w)"
  by (cases f; cases g) (simp_all add: lf_nibble_def drop_bit_and and.assoc)

lemma lf_nibble_and_not_lfMask [simp]:
  "lf_nibble g (w AND NOT (lfMask f)) = (if f = g then 0 else lf_nibble g w)"
  by (cases f; cases g) (simp_all add: lf_nibble_def drop_bit_and and.assoc)

lemma lf_nibble_OSZAPC [simp]: "lf_nibble f BX_LF_MASK_OSZAPC = 1"
  by (cases f) (simp_all add: lf_nibble_def BX_LF_MASK_OSZAPC_def)

lemma lf_nibble_OSZAP [simp]:
  "lf_nibble f ((w AND 0x00000f) OR BX_LF_MASK_OSZAP) = (if f = CF then lf_nibble CF w else 2)"
  by (cases f) (simp_all add: lf_nibble_def BX_LF_MASK_OSZAP_def drop_bit_and drop_bit_or
    bit.conj_disj_distrib2 and.assoc)

lemma lf_nibble_OxxxxC [simp]:
  "lf_nibble f (w AND 0x0ffff0) = (if f \<in> {CF, OF} then 0 else lf_nibble f w)"
  by (cases f) (simp_all add: lf_nibble_def drop_bit_and and.assoc)

lemma lf_nibble_0 [simp]: "lf_nibble f 0 = 0"
  by (simp add: lf_nibble_def)

lemma eflagsBitShift_eq_iff [simp]: "eflagsBitShift f = eflagsBitShift g \<longleftrightarrow> f = g"
  by (cases f; cases g) simp_all

lemma eflagsBitShift_less [simp]: "eflagsBitShift f < 32"
  by (cases f) simp_all

text \<open>What every lazy getter does where its record gives a value.\<close>

definition stored :: "aflag \<Rightarrow> bool \<Rightarrow> cpu \<Rightarrow> cpu" where
  "stored f b s = s\<lparr>lf_flags_status := lf_flags_status s AND lf_keep f,
     eflags_val32 := (eflags_val32 s AND NOT (push_bit (eflagsBitShift f) 1))
                       OR push_bit (eflagsBitShift f) (of_bool b)\<rparr>"

lemma get_Lazy_Done:
  assumes "lf_nibble f (lf_flags_status s) \<noteq> 0" and "flag_of f s = Some b"
  shows "get_Lazy f s = Done b (stored f b s)"
  using assms
  by (cases f) (auto simp: flag_of_def lf_nibble_def get_CFLazy_def get_PFLazy_def get_AFLazy_def
    get_ZFLazy_def get_SFLazy_def get_OFLazy_def BX_LF_INDEX_OSZAPC_def BX_LF_INDEX_OSZAP_def
    store_flag_def stored_def split: if_splits)

lemma get_Lazy_Panic:
  assumes "flag_of f s = None"
  shows "\<exists>msg. get_Lazy f s = Panic msg s"
  using assms
  by (cases f) (auto simp: flag_of_def lf_nibble_def get_CFLazy_def get_PFLazy_def get_AFLazy_def
    get_ZFLazy_def get_SFLazy_def get_OFLazy_def BX_LF_INDEX_OSZAPC_def BX_LF_INDEX_OSZAP_def
    store_flag_def split: if_splits)

lemma drop_bit_and_1: "drop_bit n w AND 1 \<noteq> 0 \<longleftrightarrow> bit (w :: 'a::len word) n"
  by (simp add: and_one_eq mod_2_eq_odd bit_iff_odd_drop_bit)

lemma bit_put_bit:
  fixes w :: "'a::len word"
  assumes "n < LENGTH('a)"
  shows "bit ((w AND NOT (push_bit n 1)) OR push_bit n (of_bool b)) k \<longleftrightarrow> (if k = n then b else bit w k)"
  using assms by (auto simp: bit_simps dest: bit_imp_le_length)

lemma bit_stored:
  "bit (eflags_val32 (stored f b s)) n \<longleftrightarrow>
     (if n = eflagsBitShift f then b else bit (eflags_val32 s) n)"
  by (simp add: stored_def bit_put_bit del: push_bit_of_1)

lemma lf_flags_status_stored [simp]:
  "lf_flags_status (stored f b s) = lf_flags_status s AND lf_keep f"
  by (simp add: stored_def)

lemma records_stored [simp]:
  "oszapc (stored f b s) = oszapc s" "oszap (stored f b s) = oszap s"
  by (simp_all add: stored_def)

lemma flag_of_stored:
  assumes "flag_of f s = Some b"
  shows "flag_of g (stored f b s) = flag_of g s"
  using assms by (auto simp: flag_of_def bit_stored split: if_splits)

text \<open>
  Reading a flag returns its lazy value; the state it leaves has the same flags, and
  only the status nibbles and arithmetic EFLAGS bits may have moved.
\<close>

lemma get_flag_Done:
  assumes "flag_of f s = Some b"
  shows "get_flag f s = Done b (if lf_nibble f (lf_flags_status s) = 0 then s else stored f b s)"
  using assms
  by (auto simp: get_flag_def lfMask_eq_0_iff get_Lazy_Done drop_bit_and_1 flag_of_def)

lemma get_flag_Panic:
  assumes "flag_of f s = None"
  shows "\<exists>msg. get_flag f s = Panic msg s"
proof -
  have "lf_nibble f (lf_flags_status s) \<noteq> 0"
    using assms by (auto simp: flag_of_def)
  then show ?thesis
    using get_Lazy_Panic [OF assms] by (simp add: get_flag_def lfMask_eq_0_iff)
qed

section \<open>Architectural flags of an operation\<close>

subsection \<open>The parity table\<close>

definition even_parity :: "Bit8u \<Rightarrow> bool" where
  "even_parity v \<longleftrightarrow> even (length (filter (bit v) [0..<8]))"

definition nibble_parity :: "nat \<Rightarrow> bool" where
  "nibble_parity n \<longleftrightarrow> even (length (filter (bit n) [0..<4]))"

lemma nth_concat_rows:
  assumes "\<And>i. i < m \<Longrightarrow> length (f i) = k" and "n < m * k"
  shows "concat (map f [0..<m]) ! n = f (n div k) ! (n mod k)"
  using assms
proof (induction m arbitrary: n)
  case 0
  then show ?case by simp
next
  case (Suc m)
  have "map length (map f [0..<m]) = replicate m k"
    using Suc.prems(1) by (simp add: list_eq_iff_nth_eq)
  then have len: "length (concat (map f [0..<m])) = m * k"
    by (simp add: length_concat sum_list_replicate)
  show ?case
  proof (cases "n < m * k")
    case True
    then show ?thesis using Suc by (simp add: nth_append len)
  next
    case False
    then have d: "n div k = m"
      using Suc.prems(2) by (intro div_nat_eqI) (auto simp: algebra_simps)
    then have "n mod k = n - m * k"
      by (simp add: modulo_nat_def mult.commute)
    with d show ?thesis using False by (simp add: nth_append len)
  qed
qed

lemma bx_parity_table_rows:
  "bx_parity_table =
     concat (map (\<lambda>i. map (\<lambda>j. of_bool (nibble_parity i = nibble_parity j)) [0..<16]) [0..<16])"
proof -
  have np: "map nibble_parity [0..<16] = [True, False, False, True, False, True, True, False, False, True, True, False,
     True, False, False, True]"
    by code_simp
  have r: "map (\<lambda>j. of_bool (nibble_parity i = nibble_parity j)) [0..<16] =
     map (\<lambda>b. of_bool (nibble_parity i = b)) (map nibble_parity [0..<16])" for i
    by simp
  have "concat (map (\<lambda>i. map (\<lambda>j. of_bool (nibble_parity i = nibble_parity j)) [0..<16]) [0..<16])
    = concat (map (\<lambda>c. map (\<lambda>b. of_bool (c = b)) (map nibble_parity [0..<16])) (map nibble_parity [0..<16]))"
    unfolding r by (simp only: map_map comp_def)
  also have "\<dots> = bx_parity_table"
    unfolding np bx_parity_table_def by simp
  finally show ?thesis by simp
qed

lemma even_parity_nibbles:
  "even_parity v \<longleftrightarrow> nibble_parity (unat v div 16) = nibble_parity (unat v mod 16)"
proof -
  have 8: "[0..<8] = [0..<4] @ map (\<lambda>k. k + 4) [0..<4]"
    by (simp add: upt_rec)
  have "filter (bit v) [0..<4] = filter (bit (unat v mod 16)) [0..<4]"
    by (rule filter_cong) (auto simp: bit_unsigned_iff bit_take_bit_iff simp flip: take_bit_eq_mod [of 4, simplified])
  moreover have "filter (bit v) (map (\<lambda>k. k + 4) [0..<4]) = map (\<lambda>k. k + 4) (filter (bit (unat v div 16)) [0..<4])"
    unfolding filter_map
    by (rule arg_cong [where f = "map _"], rule filter_cong)
      (auto simp: bit_unsigned_iff bit_drop_bit_eq add.commute simp flip: drop_bit_eq_div [of 4, simplified])
  ultimately show ?thesis
    by (simp add: even_parity_def nibble_parity_def 8) blast
qed

lemma bx_parity_lookup_correct: "bx_parity_lookup v \<longleftrightarrow> even_parity v"
proof -
  have "unat v < 16 * 16"
    using unsigned_less [of v] by simp
  then have "bx_parity_table ! unat v =
     of_bool (nibble_parity (unat v div 16) = nibble_parity (unat v mod 16))"
    unfolding bx_parity_table_rows by (subst nth_concat_rows [where k = 16]) (simp_all add: less_mult_imp_div_less)
  then show ?thesis
    by (simp add: bx_parity_lookup_def even_parity_nibbles)
qed

subsection \<open>Sums, differences, results\<close>

text \<open>ZF, SF and PF of a result of any width.\<close>

fun result_flags :: "'a::len word \<Rightarrow> aflag \<Rightarrow> bool" where
  "result_flags r ZF = (r = 0)"
| "result_flags r SF = (sint r < 0)"
| "result_flags r PF = even_parity (ucast r)"
| "result_flags r _ = False"

definition fits_signed :: "'a::len itself \<Rightarrow> int \<Rightarrow> bool" where
  "fits_signed _ x \<longleftrightarrow> - (2 ^ (LENGTH('a) - 1)) \<le> x \<and> x < 2 ^ (LENGTH('a) - 1)"

text \<open>The flags of \<open>a + b + c\<close> and of \<open>a - b - c\<close> over the integers.\<close>

fun add_flags :: "'a::len word \<Rightarrow> 'a word \<Rightarrow> bool \<Rightarrow> aflag \<Rightarrow> bool" where
  "add_flags a b c CF = (2 ^ LENGTH('a) \<le> unat a + unat b + of_bool c)"
| "add_flags a b c AF = (16 \<le> unat a mod 16 + unat b mod 16 + of_bool c)"
| "add_flags a b c OF = (\<not> fits_signed TYPE('a) (sint a + sint b + of_bool c))"
| "add_flags a b c f = result_flags (a + b + of_bool c) f"

fun sub_flags :: "'a::len word \<Rightarrow> 'a word \<Rightarrow> bool \<Rightarrow> aflag \<Rightarrow> bool" where
  "sub_flags a b c CF = (unat a < unat b + of_bool c)"
| "sub_flags a b c AF = (unat a mod 16 < unat b mod 16 + of_bool c)"
| "sub_flags a b c OF = (\<not> fits_signed TYPE('a) (sint a - sint b - of_bool c))"
| "sub_flags a b c f = result_flags (a - b - of_bool c) f"

text \<open>The flags of a bitwise operation and of a bit scan: CF, OF and AF are clear.\<close>

fun logic_flags :: "'a::len word \<Rightarrow> aflag \<Rightarrow> bool" where
  "logic_flags r f = result_flags r f"

subsection \<open>The tests on masks\<close>

lemma and_sign_8: "(w :: Bit8u) AND 0x80 = 0 \<longleftrightarrow> \<not> msb_of w"
  using and_msb_mask_eq_0 [of w] by (simp add: msb_mask_def)

lemma and_sign_16: "(w :: Bit16u) AND 0x8000 = 0 \<longleftrightarrow> \<not> msb_of w"
  using and_msb_mask_eq_0 [of w] by (simp add: msb_mask_def)

lemma and_sign_32: "(w :: Bit32u) AND 0x80000000 = 0 \<longleftrightarrow> \<not> msb_of w"
  using and_msb_mask_eq_0 [of w] by (simp add: msb_mask_def)

lemma sign_ge_8: "(w :: Bit8u) \<ge> 0x80 \<longleftrightarrow> sint w < 0"
  by (simp add: word_le_nat_alt flip: msb_of_iff_sint) (simp add: msb_of_iff_unat)

lemma sign_ge_16: "(w :: Bit16u) \<ge> 0x8000 \<longleftrightarrow> sint w < 0"
  by (simp add: word_le_nat_alt flip: msb_of_iff_sint) (simp add: msb_of_iff_unat)

lemma sign_ge_32: "(w :: Bit32u) \<ge> 0x80000000 \<longleftrightarrow> sint w < 0"
  by (simp add: word_le_nat_alt flip: msb_of_iff_sint) (simp add: msb_of_iff_unat)

lemma and_msb_mask_eq:
  fixes w v :: "'a::len word"
  shows "w AND msb_mask = v AND msb_mask \<longleftrightarrow> (msb_of w \<longleftrightarrow> msb_of v)"
proof
  assume "w AND msb_mask = v AND msb_mask"
  then show "msb_of w \<longleftrightarrow> msb_of v" by (metis and_msb_mask_eq_0)
next
  assume "msb_of w \<longleftrightarrow> msb_of v"
  then show "w AND msb_mask = v AND msb_mask"
    by (intro bit_word_eqI) (auto simp: bit_and_iff msb_of_def)
qed

lemma sign_eq_8: "(w :: Bit8u) AND 0x80 = v AND 0x80 \<longleftrightarrow> (msb_of w \<longleftrightarrow> msb_of v)"
  using and_msb_mask_eq [of w v] by (simp add: msb_mask_def)

lemma sign_eq_16: "(w :: Bit16u) AND 0x8000 = v AND 0x8000 \<longleftrightarrow> (msb_of w \<longleftrightarrow> msb_of v)"
  using and_msb_mask_eq [of w v] by (simp add: msb_mask_def)

lemma sign_eq_32: "(w :: Bit32u) AND 0x80000000 = v AND 0x80000000 \<longleftrightarrow> (msb_of w \<longleftrightarrow> msb_of v)"
  using and_msb_mask_eq [of w v] by (simp add: msb_mask_def)

lemma and_0x10_iff: "(w :: 'a::len word) AND 0x10 \<noteq> 0 \<longleftrightarrow> bit w 4"
  using and_exp_eq_0_iff_not_bit [of w 4] by simp

lemmas mask_tests = and_sign_8 and_sign_16 and_sign_32 sign_ge_8 sign_ge_16 sign_ge_32
  sign_eq_8 sign_eq_16 sign_eq_32 bx_parity_lookup_correct

lemma word_xor_eq_0_iff: "x XOR y = 0 \<longleftrightarrow> x = (y :: 'a::len word)"
  by (auto simp: bit_eq_iff bit_xor_iff)

lemma xor_sign_8: "((w :: Bit8u) AND 0x80) XOR (v AND 0x80) \<noteq> 0 \<longleftrightarrow> (msb_of w \<longleftrightarrow> \<not> msb_of v)"
  by (simp add: word_xor_eq_0_iff sign_eq_8) 

lemma xor_sign_16: "((w :: Bit16u) AND 0x8000) XOR (v AND 0x8000) \<noteq> 0 \<longleftrightarrow> (msb_of w \<longleftrightarrow> \<not> msb_of v)"
  by (simp add: word_xor_eq_0_iff sign_eq_16)

lemma xor_sign_32: "((w :: Bit32u) AND 0x80000000) XOR (v AND 0x80000000) \<noteq> 0 \<longleftrightarrow> (msb_of w \<longleftrightarrow> \<not> msb_of v)"
  by (simp add: word_xor_eq_0_iff sign_eq_32)

lemma word_all_ones: "(0xff :: Bit8u) = - 1" "(0xffff :: Bit16u) = - 1" "(0xffffffff :: Bit32u) = - 1"
  by simp_all

subsection \<open>Addition and subtraction\<close>

lemma add_CF: "a + b < a \<longleftrightarrow> add_flags a b False CF" "a + b + 1 \<le> a \<longleftrightarrow> add_flags a b True CF"
  by (simp_all only: add_flags.simps word_less_add_iff word_le_add1_iff) simp_all

lemma sub_CF: "a < b \<longleftrightarrow> sub_flags a b False CF"
    "a < a - (b + 1) \<or> b = - 1 \<longleftrightarrow> sub_flags a b True CF"
  using word_sbb_borrow_iff [of a b] by (simp_all add: word_less_nat_alt)

lemma add_AF:
  fixes a b :: "'a::len word"
  assumes "4 < LENGTH('a)"
  shows "((a XOR b) XOR (a + b + of_bool c)) AND 0x10 \<noteq> 0 \<longleftrightarrow> add_flags a b c AF"
  using aux_carry_add_iff [OF assms, of "of_bool c" "a + b + of_bool c" a b]
  by (cases c) (auto simp: and_0x10_iff bit_xor_iff)

lemma sub_AF:
  fixes a b :: "'a::len word"
  assumes "4 < LENGTH('a)"
  shows "((a XOR b) XOR (a - b - of_bool c)) AND 0x10 \<noteq> 0 \<longleftrightarrow> sub_flags a b c AF"
  using aux_borrow_sub_iff [OF assms, of "of_bool c" "a - b - of_bool c" a b]
  by (cases c) (auto simp: and_0x10_iff bit_xor_iff)

lemma add_OF:
  fixes a b :: "'a::len word"
  shows "(msb_of a \<longleftrightarrow> msb_of b) \<and> (msb_of (a + b + of_bool c) \<longleftrightarrow> \<not> msb_of b) \<longleftrightarrow> add_flags a b c OF"
  using add_overflow_iff [of "of_bool c" a b] by (simp add: fits_signed_def)

lemma sub_OF:
  fixes a b :: "'a::len word"
  shows "(msb_of a \<longleftrightarrow> \<not> msb_of b) \<and> (msb_of a \<longleftrightarrow> \<not> msb_of (a - b - of_bool c)) \<longleftrightarrow> sub_flags a b c OF"
  using sub_overflow_iff [of "of_bool c" a b] by (auto simp: fits_signed_def)

subsection \<open>Increment, decrement and negation\<close>

lemma unat_and_0xf: "unat ((w :: 'a::len word) AND 0xf) = unat w mod 16"
proof -
  have "w AND 0xf = take_bit 4 w"
    by (simp add: take_bit_eq_mask mask_eq_exp_minus_1)
  then have "unat (w AND 0xf) = take_bit 4 (unat w)"
    by (simp only: unsigned_take_bit_eq)
  then show ?thesis
    by (simp only: take_bit_eq_mod) simp
qed

lemma low_nibble_tests:
  fixes w :: "'a::len word"
  assumes "4 < LENGTH('a)"
  shows "w AND 0xf = 0 \<longleftrightarrow> unat w mod 16 = 0" and "w AND 0xf = 0xf \<longleftrightarrow> unat w mod 16 = 15"
proof -
  have "(2::nat) ^ 5 \<le> 2 ^ LENGTH('a)"
    using assms by (intro power_increasing) simp_all
  then have "15 mod 2 ^ LENGTH('a) = (15 :: nat)"
    by (intro mod_less) simp
  then have "unat (0xf :: 'a word) = 15"
    using unat_of_nat [of 15, where 'a = 'a] by simp
  then show "w AND 0xf = 0xf \<longleftrightarrow> unat w mod 16 = 15"
    by (metis unat_and_0xf word_unat_eq_iff)
  show "w AND 0xf = 0 \<longleftrightarrow> unat w mod 16 = 0"
    by (metis unat_and_0xf unat_eq_zero)
qed

lemma unat_mod_16:
  assumes "4 < LENGTH('a::len)"
  shows "unat (word_of_nat n :: 'a word) mod 16 = n mod 16"
proof -
  have "(16::nat) dvd 2 ^ LENGTH('a)"
    using assms le_imp_power_dvd [of 4 "LENGTH('a)" "2::nat"] by simp
  then show ?thesis
    by (simp add: unat_of_nat mod_mod_cancel)
qed

lemma unat_add_mod_16:
  fixes a b :: "'a::len word"
  assumes "4 < LENGTH('a)"
  shows "unat (a + b) mod 16 = (unat a + unat b) mod 16"
  using unat_mod_16 [OF assms, of "unat a + unat b"] by simp

lemma inc_AF:
  fixes a :: "'a::len word"
  assumes "4 < LENGTH('a)"
  shows "(a + 1) AND 0xf = 0 \<longleftrightarrow> add_flags a 1 False AF"
proof -
  have "unat (a + 1) mod 16 = (unat a + 1) mod 16"
    using unat_add_mod_16 [OF assms, of a 1] by simp
  moreover have "(x + 1) mod 16 = 0 \<longleftrightarrow> 16 \<le> x mod 16 + 1" for x :: nat
    by (auto simp: mod_Suc)
  ultimately show ?thesis
    using assms by (simp add: low_nibble_tests)
qed

lemma dec_AF:
  fixes a :: "'a::len word"
  assumes "4 < LENGTH('a)"
  shows "(a - 1) AND 0xf = 0xf \<longleftrightarrow> sub_flags a 1 False AF"
proof -
  have "unat a mod 16 = (unat (a - 1) + 1) mod 16"
    using unat_add_mod_16 [OF assms, of "a - 1" 1] by simp
  moreover have "x mod 16 = 15 \<longleftrightarrow> (x + 1) mod 16 < 1" for x :: nat
    by (auto simp: mod_Suc)
  ultimately show ?thesis
    using assms by (simp add: low_nibble_tests)
qed

lemma neg_AF:
  fixes a :: "'a::len word"
  assumes "4 < LENGTH('a)"
  shows "(- a) AND 0xf \<noteq> 0 \<longleftrightarrow> sub_flags 0 a False AF"
proof -
  have z: "(unat a + unat (- a)) mod 16 = 0"
    using unat_add_mod_16 [OF assms, of a "- a"] by simp
  have "x mod 16 = 0 \<longleftrightarrow> y mod 16 = 0" if "(x + y) mod 16 = 0" for x y :: nat
    using that by (metis add.commute add_0 mod_add_eq mod_add_right_eq mod_mod_trivial)
  from this [OF z] show ?thesis
    by (auto simp: low_nibble_tests assms)
qed

lemma neg_CF: "- a \<noteq> 0 \<longleftrightarrow> sub_flags 0 a False CF"
  by (simp add: unat_gt_0)

lemma sint_eq_iff: "sint a = x \<longleftrightarrow> a = word_of_int x \<and> fits_signed TYPE('a) x" for a :: "'a::len word"
  using sint_word_of_int_cases(1) [where 'a = 'a, OF refl, of x] sint_bounds [of a]
  by (auto simp: fits_signed_def)

lemma word_of_int_half: "word_of_int (2 ^ (LENGTH('a) - 1)) = (msb_mask :: 'a::len word)"
  "word_of_int (- (2 ^ (LENGTH('a) - 1))) = (msb_mask :: 'a::len word)"
proof -
  show 1: "word_of_int (2 ^ (LENGTH('a) - 1)) = (msb_mask :: 'a word)"
    by (simp add: msb_mask_def push_bit_eq_mult)
  have "word_of_int (- (2 ^ (LENGTH('a) - 1))) = (word_of_int (- (2 ^ (LENGTH('a) - 1)) + 2 ^ LENGTH('a)) :: 'a word)"
    by simp
  also have "- (2 ^ (LENGTH('a) - 1)) + 2 ^ LENGTH('a) = (2 ^ (LENGTH('a) - 1) :: int)"
    using power_Suc [of "2::int" "LENGTH('a) - 1"] by simp
  finally show "word_of_int (- (2 ^ (LENGTH('a) - 1))) = (msb_mask :: 'a word)"
    using 1 by simp
qed

lemma inc_OF:
  fixes a :: "'a::len word"
  assumes "1 < LENGTH('a)"
  shows "a + 1 = msb_mask \<longleftrightarrow> add_flags a 1 False OF"
proof -
  define M :: int where "M = 2 ^ (LENGTH('a) - 1)"
  have "0 < M" by (simp add: M_def)
  have fits: "fits_signed TYPE('a) x \<longleftrightarrow> - M \<le> x \<and> x < M" for x
    by (simp only: fits_signed_def M_def)
  have "- M \<le> sint a" "sint a < M"
    unfolding M_def by (rule sint_bounds)+
  have "add_flags a 1 False OF \<longleftrightarrow> sint a = M - 1"
    using assms \<open>- M \<le> sint a\<close> \<open>sint a < M\<close> by (auto simp: fits)
  also have "\<dots> \<longleftrightarrow> a = word_of_int (M - 1)"
    using \<open>0 < M\<close> by (auto simp: sint_eq_iff fits)
  also have "\<dots> \<longleftrightarrow> a + 1 = word_of_int M"
    by (auto simp: algebra_simps)
  finally show ?thesis
    by (simp only: M_def word_of_int_half)
qed

lemma dec_OF:
  fixes a :: "'a::len word"
  assumes "1 < LENGTH('a)"
  shows "a - 1 = msb_mask - 1 \<longleftrightarrow> sub_flags a 1 False OF"
proof -
  define M :: int where "M = 2 ^ (LENGTH('a) - 1)"
  have "0 < M" by (simp add: M_def)
  have fits: "fits_signed TYPE('a) x \<longleftrightarrow> - M \<le> x \<and> x < M" for x
    by (simp only: fits_signed_def M_def)
  have "- M \<le> sint a" "sint a < M"
    unfolding M_def by (rule sint_bounds)+
  have "sub_flags a 1 False OF \<longleftrightarrow> sint a = - M"
    using assms \<open>- M \<le> sint a\<close> \<open>sint a < M\<close> by (auto simp: fits)
  also have "\<dots> \<longleftrightarrow> a = word_of_int (- M)"
    using \<open>0 < M\<close> by (auto simp: sint_eq_iff fits)
  also have "\<dots> \<longleftrightarrow> a - 1 = msb_mask - 1"
    by (simp only: M_def word_of_int_half) simp
  finally show ?thesis by blast
qed

lemma neg_OF:
  fixes a :: "'a::len word"
  shows "- a = msb_mask \<longleftrightarrow> sub_flags 0 a False OF"
proof -
  define M :: int where "M = 2 ^ (LENGTH('a) - 1)"
  have "0 < M" by (simp add: M_def)
  have fits: "fits_signed TYPE('a) x \<longleftrightarrow> - M \<le> x \<and> x < M" for x
    by (simp only: fits_signed_def M_def)
  have "- M \<le> sint a" "sint a < M"
    unfolding M_def by (rule sint_bounds)+
  have "sub_flags 0 a False OF \<longleftrightarrow> sint a = - M"
    using \<open>- M \<le> sint a\<close> \<open>sint a < M\<close> by (auto simp: fits)
  also have "\<dots> \<longleftrightarrow> a = word_of_int (- M)"
    using \<open>0 < M\<close> by (auto simp: sint_eq_iff fits)
  also have "\<dots> \<longleftrightarrow> - a = word_of_int M"
    by (metis minus_minus of_int_minus)
  finally show ?thesis
    by (simp only: M_def word_of_int_half)
qed

lemma msb_masks: "(0x80 :: Bit8u) = msb_mask" "(0x8000 :: Bit16u) = msb_mask" "(0x80000000 :: Bit32u) = msb_mask"
  "(0x7F :: Bit8u) = msb_mask - 1" "(0x7FFF :: Bit16u) = msb_mask - 1" "(0x7FFFFFFF :: Bit32u) = msb_mask - 1"
  by (simp_all add: msb_mask_def)
end
