(* ===== verification/BxFlagRecords.thy ===== *)
theory BxFlagRecords
  imports BxFlagSpec
begin

text \<open>
  The flags that the \<open>SET_FLAGS_*\<close> macros give: what an instruction records for an
  addition, subtraction, negation, increment, decrement or bitwise operation makes every flag the
  architectural one.
\<close>

section \<open>What the recorded operands give\<close>

lemmas oszapc_value_defs = CF_oszapc_def PF_oszapc_def AF_oszapc_def ZF_oszapc_def SF_oszapc_def
  OF_oszapc_def result_8_instrs_def result_16_instrs_def result_32_instrs_def

lemmas oszap_value_defs = PF_oszap_def AF_oszap_def ZF_oszap_def SF_oszap_def OF_oszap_def

lemma flag_of_SET_FLAGS_OSZAPC:
  "flag_of f (SET_FLAGS_OSZAPC_8 a8 b8 r8 i s) =
     oszapc_value f ((oszapc s)\<lparr>op1_8 := a8, op2_8 := b8, result_8 := r8, instr := i\<rparr>)"
  "flag_of f (SET_FLAGS_OSZAPC_16 a16 b16 r16 i s) =
     oszapc_value f ((oszapc s)\<lparr>op1_16 := a16, op2_16 := b16, result_16 := r16, instr := i\<rparr>)"
  "flag_of f (SET_FLAGS_OSZAPC_32 a32 b32 r32 i s) =
     oszapc_value f ((oszapc s)\<lparr>op1_32 := a32, op2_32 := b32, result_32 := r32, instr := i\<rparr>)"
  "flag_of f (SET_FLAGS_OSZAPC_S1S2_8 a8 b8 i s) =
     oszapc_value f ((oszapc s)\<lparr>op1_8 := a8, op2_8 := b8, instr := i\<rparr>)"
  "flag_of f (SET_FLAGS_OSZAPC_S1S2_16 a16 b16 i s) =
     oszapc_value f ((oszapc s)\<lparr>op1_16 := a16, op2_16 := b16, instr := i\<rparr>)"
  "flag_of f (SET_FLAGS_OSZAPC_S1S2_32 a32 b32 i s) =
     oszapc_value f ((oszapc s)\<lparr>op1_32 := a32, op2_32 := b32, instr := i\<rparr>)"
  "flag_of f (SET_FLAGS_OSZAPC_RESULT_8 r8 i s) =
     oszapc_value f ((oszapc s)\<lparr>result_8 := r8, instr := i\<rparr>)"
  "flag_of f (SET_FLAGS_OSZAPC_RESULT_16 r16 i s) =
     oszapc_value f ((oszapc s)\<lparr>result_16 := r16, instr := i\<rparr>)"
  "flag_of f (SET_FLAGS_OSZAPC_RESULT_32 r32 i s) =
     oszapc_value f ((oszapc s)\<lparr>result_32 := r32, instr := i\<rparr>)"
  by (simp_all add: flag_of_def SET_FLAGS_OSZAPC_8_def SET_FLAGS_OSZAPC_16_def
    SET_FLAGS_OSZAPC_32_def SET_FLAGS_OSZAPC_S1S2_8_def SET_FLAGS_OSZAPC_S1S2_16_def
    SET_FLAGS_OSZAPC_S1S2_32_def SET_FLAGS_OSZAPC_RESULT_8_def SET_FLAGS_OSZAPC_RESULT_16_def
    SET_FLAGS_OSZAPC_RESULT_32_def)

text \<open>ADD and ADC, SUB, CMP and SBB.\<close>

lemmas add_rules = add_CF add_AF add_OF mask_tests xor_sign_8 xor_sign_16 xor_sign_32

lemma flag_of_ADD8 [flag_simps]:
  "flag_of f (SET_FLAGS_OSZAPC_8 a b (a + b + of_bool c) (BX_INSTR_ADD_ADC8 c) s) = Some (add_flags a b c f)"
  using add_CF [of a b] add_AF [of a b c] add_OF [of a b c]
  by (cases f; cases c) (simp_all add: flag_of_SET_FLAGS_OSZAPC BX_INSTR_ADD_ADC8_def
     oszapc_value_defs mask_tests xor_sign_8)

lemma flag_of_ADD16 [flag_simps]:
  "flag_of f (SET_FLAGS_OSZAPC_16 a b (a + b + of_bool c) (BX_INSTR_ADD_ADC16 c) s) = Some (add_flags a b c f)"
  using add_CF [of a b] add_AF [of a b c] add_OF [of a b c]
  by (cases f; cases c) (simp_all add: flag_of_SET_FLAGS_OSZAPC BX_INSTR_ADD_ADC16_def
     oszapc_value_defs mask_tests xor_sign_16)

lemma flag_of_ADD32 [flag_simps]:
  "flag_of f (SET_FLAGS_OSZAPC_32 a b (a + b + of_bool c) (BX_INSTR_ADD_ADC32 c) s) = Some (add_flags a b c f)"
  using add_CF [of a b] add_AF [of a b c] add_OF [of a b c]
  by (cases f; cases c) (simp_all add: flag_of_SET_FLAGS_OSZAPC BX_INSTR_ADD_ADC32_def
     oszapc_value_defs mask_tests xor_sign_32)

lemma flag_of_SUB8 [flag_simps]:
  "flag_of f (SET_FLAGS_OSZAPC_8 a b (a - (b + of_bool c)) (BX_INSTR_SUB_SBB8 c) s) = Some (sub_flags a b c f)"
  using sub_CF [of a b] sub_AF [of a b c] sub_OF [of a b c]
  by (cases f; cases c) (simp_all add: flag_of_SET_FLAGS_OSZAPC BX_INSTR_SUB_SBB8_def
     oszapc_value_defs mask_tests xor_sign_8 diff_diff_eq word_all_ones)

lemma flag_of_SUB16 [flag_simps]:
  "flag_of f (SET_FLAGS_OSZAPC_16 a b (a - (b + of_bool c)) (BX_INSTR_SUB_SBB16 c) s) = Some (sub_flags a b c f)"
  using sub_CF [of a b] sub_AF [of a b c] sub_OF [of a b c]
  by (cases f; cases c) (simp_all add: flag_of_SET_FLAGS_OSZAPC BX_INSTR_SUB_SBB16_def
     oszapc_value_defs mask_tests xor_sign_16 diff_diff_eq word_all_ones)

lemma flag_of_SUB32 [flag_simps]:
  "flag_of f (SET_FLAGS_OSZAPC_32 a b (a - (b + of_bool c)) (BX_INSTR_SUB_SBB32 c) s) = Some (sub_flags a b c f)"
  using sub_CF [of a b] sub_AF [of a b c] sub_OF [of a b c]
  by (cases f; cases c) (simp_all add: flag_of_SET_FLAGS_OSZAPC BX_INSTR_SUB_SBB32_def
     oszapc_value_defs mask_tests xor_sign_32 diff_diff_eq word_all_ones)


text \<open>NEG and the bitwise operations.\<close>

lemma flag_of_NEG8 [flag_simps]:
  "flag_of f (SET_FLAGS_OSZAPC_RESULT_8 (- a) BX_INSTR_NEG8 s) = Some (sub_flags 0 a False f)"
proof -
  have "- a = 0x80 \<longleftrightarrow> sub_flags 0 a False OF"
    using neg_OF [of a] by (simp only: msb_masks)
  then show ?thesis
    using neg_CF [of a] neg_AF [of a]
    by (cases f) (simp_all only: flag_of_SET_FLAGS_OSZAPC oszapc_value.simps,
      simp_all add: oszapc_value_defs mask_tests)
qed

lemma flag_of_NEG16 [flag_simps]:
  "flag_of f (SET_FLAGS_OSZAPC_RESULT_16 (- a) BX_INSTR_NEG16 s) = Some (sub_flags 0 a False f)"
proof -
  have "- a = 0x8000 \<longleftrightarrow> sub_flags 0 a False OF"
    using neg_OF [of a] by (simp only: msb_masks)
  then show ?thesis
    using neg_CF [of a] neg_AF [of a]
    by (cases f) (simp_all only: flag_of_SET_FLAGS_OSZAPC oszapc_value.simps,
      simp_all add: oszapc_value_defs mask_tests)
qed

lemma flag_of_NEG32 [flag_simps]:
  "flag_of f (SET_FLAGS_OSZAPC_RESULT_32 (- a) BX_INSTR_NEG32 s) = Some (sub_flags 0 a False f)"
proof -
  have "- a = 0x80000000 \<longleftrightarrow> sub_flags 0 a False OF"
    using neg_OF [of a] by (simp only: msb_masks)
  then show ?thesis
    using neg_CF [of a] neg_AF [of a]
    by (cases f) (simp_all only: flag_of_SET_FLAGS_OSZAPC oszapc_value.simps,
      simp_all add: oszapc_value_defs mask_tests)
qed

lemma flag_of_LOGIC8 [flag_simps]:
  "flag_of f (SET_FLAGS_OSZAPC_RESULT_8 a BX_INSTR_LOGIC8 s) = Some (result_flags a f)"
  by (cases f) (simp_all add: flag_of_SET_FLAGS_OSZAPC oszapc_value_defs mask_tests)

lemma flag_of_LOGIC16 [flag_simps]:
  "flag_of f (SET_FLAGS_OSZAPC_RESULT_16 a BX_INSTR_LOGIC16 s) = Some (result_flags a f)"
  by (cases f) (simp_all add: flag_of_SET_FLAGS_OSZAPC oszapc_value_defs mask_tests)

lemma flag_of_LOGIC32 [flag_simps]:
  "flag_of f (SET_FLAGS_OSZAPC_RESULT_32 a BX_INSTR_LOGIC32 s) = Some (result_flags a f)"
  by (cases f) (simp_all add: flag_of_SET_FLAGS_OSZAPC oszapc_value_defs mask_tests)

text \<open>INC and DEC: CF keeps its value.\<close>

lemma flag_of_SET_FLAGS_OSZAP_RESULT_8:
  "flag_of f (SET_FLAGS_OSZAP_RESULT_8 r i s) =
     (if f = CF then flag_of CF s else oszap_value f ((oszap s)\<lparr>result_8 := r, instr := i\<rparr>))"
  by (simp add: flag_of_def SET_FLAGS_OSZAP_RESULT_8_def)

lemma flag_of_INC8 [flag_simps]:
  "flag_of f (SET_FLAGS_OSZAP_RESULT_8 (a + 1) BX_INSTR_INC8 s) =
     (if f = CF then flag_of CF s else Some (add_flags a 1 False f))"
proof -
  have "a + 1 = 0x80 \<longleftrightarrow> add_flags a 1 False OF"
    using inc_OF [of a] by (simp only: msb_masks) simp
  then show ?thesis
    using inc_AF [of a]
    by (cases f) (simp_all add: flag_of_SET_FLAGS_OSZAP_RESULT_8 oszap_value_defs mask_tests)
qed

lemma flag_of_DEC8 [flag_simps]:
  "flag_of f (SET_FLAGS_OSZAP_RESULT_8 (a - 1) BX_INSTR_DEC8 s) =
     (if f = CF then flag_of CF s else Some (sub_flags a 1 False f))"
proof -
  have "a - 1 = 0x7F \<longleftrightarrow> sub_flags a 1 False OF"
    using dec_OF [of a] by (simp only: msb_masks) simp
  then show ?thesis
    using dec_AF [of a]
    by (cases f) (simp_all add: flag_of_SET_FLAGS_OSZAP_RESULT_8 oszap_value_defs mask_tests)
qed

lemma flag_of_SET_FLAGS_OSZAP_RESULT_16:
  "flag_of f (SET_FLAGS_OSZAP_RESULT_16 r i s) =
     (if f = CF then flag_of CF s else oszap_value f ((oszap s)\<lparr>result_16 := r, instr := i\<rparr>))"
  by (simp add: flag_of_def SET_FLAGS_OSZAP_RESULT_16_def)

lemma flag_of_INC16 [flag_simps]:
  "flag_of f (SET_FLAGS_OSZAP_RESULT_16 (a + 1) BX_INSTR_INC16 s) =
     (if f = CF then flag_of CF s else Some (add_flags a 1 False f))"
proof -
  have "a + 1 = 0x8000 \<longleftrightarrow> add_flags a 1 False OF"
    using inc_OF [of a] by (simp only: msb_masks) simp
  then show ?thesis
    using inc_AF [of a]
    by (cases f) (simp_all add: flag_of_SET_FLAGS_OSZAP_RESULT_16 oszap_value_defs mask_tests)
qed

lemma flag_of_DEC16 [flag_simps]:
  "flag_of f (SET_FLAGS_OSZAP_RESULT_16 (a - 1) BX_INSTR_DEC16 s) =
     (if f = CF then flag_of CF s else Some (sub_flags a 1 False f))"
proof -
  have "a - 1 = 0x7FFF \<longleftrightarrow> sub_flags a 1 False OF"
    using dec_OF [of a] by (simp only: msb_masks) simp
  then show ?thesis
    using dec_AF [of a]
    by (cases f) (simp_all add: flag_of_SET_FLAGS_OSZAP_RESULT_16 oszap_value_defs mask_tests)
qed

lemma flag_of_SET_FLAGS_OSZAP_RESULT_32:
  "flag_of f (SET_FLAGS_OSZAP_RESULT_32 r i s) =
     (if f = CF then flag_of CF s else oszap_value f ((oszap s)\<lparr>result_32 := r, instr := i\<rparr>))"
  by (simp add: flag_of_def SET_FLAGS_OSZAP_RESULT_32_def)

lemma flag_of_INC32 [flag_simps]:
  "flag_of f (SET_FLAGS_OSZAP_RESULT_32 (a + 1) BX_INSTR_INC32 s) =
     (if f = CF then flag_of CF s else Some (add_flags a 1 False f))"
proof -
  have "a + 1 = 0x80000000 \<longleftrightarrow> add_flags a 1 False OF"
    using inc_OF [of a] by (simp only: msb_masks) simp
  then show ?thesis
    using inc_AF [of a]
    by (cases f) (simp_all add: flag_of_SET_FLAGS_OSZAP_RESULT_32 oszap_value_defs mask_tests)
qed

lemma flag_of_DEC32 [flag_simps]:
  "flag_of f (SET_FLAGS_OSZAP_RESULT_32 (a - 1) BX_INSTR_DEC32 s) =
     (if f = CF then flag_of CF s else Some (sub_flags a 1 False f))"
proof -
  have "a - 1 = 0x7FFFFFFF \<longleftrightarrow> sub_flags a 1 False OF"
    using dec_OF [of a] by (simp only: msb_masks) simp
  then show ?thesis
    using dec_AF [of a]
    by (cases f) (simp_all add: flag_of_SET_FLAGS_OSZAP_RESULT_32 oszap_value_defs mask_tests)
qed

end
