(* ===== verification/BxFlagCtrl.thy ===== *)
theory BxFlagCtrl
  imports BxFlagRecords
begin

text \<open>
  Reading, forcing and writing EFLAGS (\<open>cpu/flag_ctrl_pro.cc\<close>, the
  \<open>EFLAG_ACCESSOR\<close> macros of \<open>cpu/cpu.h\<close>) and the flag instructions of
  \<open>cpu/flag_ctrl.cc\<close> that touch no stack. \<open>BX_SUPPORT_VME\<close> is 0 and
  x86-64 is off, so their branches are not compiled.
\<close>

section \<open>Plain EFLAGS bits\<close>

definition assert_eflag :: "nat \<Rightarrow> cpu \<Rightarrow> cpu" where
  "assert_eflag bitnum s = s\<lparr>eflags_val32 := eflags_val32 s OR push_bit bitnum 1\<rparr>"

definition clear_eflag :: "nat \<Rightarrow> cpu \<Rightarrow> cpu" where
  "clear_eflag bitnum s = s\<lparr>eflags_val32 := eflags_val32 s AND NOT (push_bit bitnum 1)\<rparr>"

definition get_eflag :: "nat \<Rightarrow> cpu \<Rightarrow> bool" where
  "get_eflag bitnum s \<longleftrightarrow> eflags_val32 s AND push_bit bitnum 1 \<noteq> 0"

definition set_eflag :: "nat \<Rightarrow> bool \<Rightarrow> cpu \<Rightarrow> cpu" where
  "set_eflag bitnum val s = s\<lparr>eflags_val32 :=
     (eflags_val32 s AND NOT (push_bit bitnum 1)) OR push_bit bitnum (of_bool val)\<rparr>"

abbreviation (input) TF_bit :: nat where "TF_bit \<equiv> 8"
abbreviation (input) IF_bit :: nat where "IF_bit \<equiv> 9"
abbreviation (input) DF_bit :: nat where "DF_bit \<equiv> 10"
abbreviation (input) NT_bit :: nat where "NT_bit \<equiv> 14"
abbreviation (input) RF_bit :: nat where "RF_bit \<equiv> 16"
abbreviation (input) VM_bit :: nat where "VM_bit \<equiv> 17"
abbreviation (input) AC_bit :: nat where "AC_bit \<equiv> 18"

definition EFlagsTFMask :: Bit32u where "EFlagsTFMask = push_bit 8 1"
definition EFlagsIFMask :: Bit32u where "EFlagsIFMask = push_bit 9 1"
definition EFlagsIOPLMask :: Bit32u where "EFlagsIOPLMask = push_bit 12 3"
definition EFlagsNTMask :: Bit32u where "EFlagsNTMask = push_bit 14 1"
definition EFlagsVMMask :: Bit32u where "EFlagsVMMask = push_bit 17 1"
definition EFlagsACMask :: Bit32u where "EFlagsACMask = push_bit 18 1"
definition EFlagsIDMask :: Bit32u where "EFlagsIDMask = push_bit 21 1"

text \<open>\<open>set_VM\<close> also switches between protected and virtual-8086 mode.\<close>

definition set_VM :: "bool \<Rightarrow> cpu \<Rightarrow> cpu" where
  "set_VM val s = (
     if val then
       (let s1 = s\<lparr>eflags_val32 := eflags_val32 s OR push_bit 17 1, VM_cached := True\<rparr> in
        if cr0_pe (cr0 s1) then s1\<lparr>cpu_mode := BX_MODE_IA32_V8086\<rparr> else s1)
     else
       (let s1 = s\<lparr>eflags_val32 := eflags_val32 s AND NOT (push_bit 17 1), VM_cached := False\<rparr> in
        if cr0_pe (cr0 s1) then s1\<lparr>cpu_mode := BX_MODE_IA32_PROTECTED\<rparr> else s1))"

definition get_IOPL :: "cpu \<Rightarrow> nat" where
  "get_IOPL s = unat (3 AND drop_bit 12 (eflags_val32 s))"

definition set_IOPL :: "Bit32u \<Rightarrow> cpu \<Rightarrow> cpu" where
  "set_IOPL val s = s\<lparr>eflags_val32 :=
     (eflags_val32 s AND NOT (push_bit 12 3)) OR push_bit 12 (3 AND val)\<rparr>"

section \<open>EFLAGS as a whole\<close>

definition setEFlags :: "Bit32u \<Rightarrow> cpu \<Rightarrow> cpu" where
  "setEFlags val s =
     set_VM (val AND EFlagsVMMask \<noteq> 0) (s\<lparr>eflags_val32 := val, lf_flags_status := 0\<rparr>)"

definition writeEFlags :: "Bit32u \<Rightarrow> Bit32u \<Rightarrow> cpu \<Rightarrow> cpu" where
  "writeEFlags flags changeMask s =
     (let supportMask = 0x00037fd5 OR (EFlagsIDMask OR EFlagsACMask);
          changeMask' = changeMask AND supportMask;
          newEFlags = (eflags_val32 s AND NOT changeMask') OR (flags AND changeMask');
          s' = setEFlags newEFlags s
      in if newEFlags AND EFlagsTFMask \<noteq> 0 then s'\<lparr>async_event := 1\<rparr> else s')"

definition write_flags :: "Bit16u \<Rightarrow> bool \<Rightarrow> bool \<Rightarrow> cpu \<Rightarrow> cpu" where
  "write_flags flags change_IOPL change_IF s =
     (let m0 = 0x0dd5 OR EFlagsNTMask;
          m1 = (if change_IOPL then m0 OR EFlagsIOPLMask else m0);
          m2 = (if change_IF then m1 OR EFlagsIFMask else m1)
      in writeEFlags (ucast flags) m2 s)"

definition force_flags :: "Bit32u bx" where
  "force_flags = (\<lambda>s.
     and_then (if lf_flags_status s \<noteq> 0 then
         and_then (get_flag CF) (\<lambda>_. and_then (get_flag PF) (\<lambda>_. and_then (get_flag AF) (\<lambda>_.
         and_then (get_flag ZF) (\<lambda>_. and_then (get_flag SF) (\<lambda>_. and_then (get_flag OF) (\<lambda>_.
         ret ()))))))
       else ret ())
     (\<lambda>_. gets eflags_val32) s)"

definition read_flags :: "Bit16u bx" where
  "read_flags = and_then force_flags (\<lambda>w. ret (ucast w))"

definition read_eflags :: "Bit32u bx" where
  "read_eflags = and_then force_flags ret"

section \<open>Flag instructions\<close>

definition SAHF :: "bxInstruction \<Rightarrow> unit bx" where
  "SAHF i = (\<lambda>s.
     (let ah = AH s in
      update (set_flag PF (drop_bit 2 (ah AND 0x04) \<noteq> 0) \<circ>
              set_flag CF (ah AND 0x01 \<noteq> 0) \<circ>
              set_flag AF (drop_bit 4 (ah AND 0x10) \<noteq> 0) \<circ>
              set_flag ZF (drop_bit 6 (ah AND 0x40) \<noteq> 0) \<circ>
              set_flag SF (drop_bit 7 (ah AND 0x80) \<noteq> 0)) s))"

definition LAHF :: "bxInstruction \<Rightarrow> unit bx" where
  "LAHF i =
     and_then (get_flag SF) (\<lambda>sf. and_then (get_flag ZF) (\<lambda>zf. and_then (get_flag AF) (\<lambda>af.
     and_then (get_flag PF) (\<lambda>pf. and_then (get_flag CF) (\<lambda>cf.
     update (write_reg_rh 0
       ((if sf then 0x80 else 0) OR (if zf then 0x40 else 0) OR (if af then 0x10 else 0) OR
        (if pf then 0x04 else 0) OR 0x02 OR (if cf then 0x01 else 0))))))))"

definition CLC :: "bxInstruction \<Rightarrow> unit bx" where
  "CLC i = update (clear_flag CF)"

definition STC :: "bxInstruction \<Rightarrow> unit bx" where
  "STC i = update (assert_flag CF)"

definition CLI :: "bxInstruction \<Rightarrow> unit bx" where
  "CLI i = (\<lambda>s.
     (let IOPL = get_IOPL s; cpl = CPL s in
      if protected_mode s \<and> IOPL < cpl then raise BX_GP_EXCEPTION 0 s
      else if \<not> protected_mode s \<and> v8086_mode s \<and> IOPL \<noteq> 3 then raise BX_GP_EXCEPTION 0 s
      else update (clear_eflag 9) s))"

definition BX_INHIBIT_INTERRUPTS :: Bit32u where "BX_INHIBIT_INTERRUPTS = 0x01"

definition STI :: "bxInstruction \<Rightarrow> unit bx" where
  "STI i = (\<lambda>s.
     (let IOPL = get_IOPL s; cpl = CPL s in
      if protected_mode s \<and> cpl > IOPL then raise BX_GP_EXCEPTION 0 s
      else if \<not> protected_mode s \<and> v8086_mode s \<and> IOPL \<noteq> 3 then raise BX_GP_EXCEPTION 0 s
      else if \<not> get_eflag 9 s then
        update (\<lambda>s. (assert_eflag 9 s)\<lparr>inhibit_mask := inhibit_mask s OR BX_INHIBIT_INTERRUPTS,
                                      async_event := 1\<rparr>) s
      else ret () s))"

definition CLD :: "bxInstruction \<Rightarrow> unit bx" where
  "CLD i = update (clear_eflag 10)"

definition STD :: "bxInstruction \<Rightarrow> unit bx" where
  "STD i = update (assert_eflag 10)"

definition CMC :: "bxInstruction \<Rightarrow> unit bx" where
  "CMC i = and_then (get_flag CF) (\<lambda>cf. update (set_flag CF (\<not> cf)))"

definition SALC :: "bxInstruction \<Rightarrow> unit bx" where
  "SALC i = and_then (get_flag CF) (\<lambda>cf. update (write_reg_rl 0 (if cf then 0xff else 0x00)))"

section \<open>Well-formed lazy flags\<close>

text \<open>
  The invariant of the lazy flags: every flag has a value. It is what makes the
  \<open>BX_PANIC\<close> branches of the getters unreachable.
\<close>

definition lf_wf :: "cpu \<Rightarrow> bool" where
  "lf_wf s \<longleftrightarrow> (\<forall>f. flag_of f s \<noteq> None)"

definition flag :: "aflag \<Rightarrow> cpu \<Rightarrow> bool" where
  "flag f s = (flag_of f s = Some True)"

lemma flag_of_eq_flag: "lf_wf s \<Longrightarrow> flag_of f s = Some (flag f s)"
  unfolding lf_wf_def by (cases "flag_of f s"; drule spec [of _ f]) (auto simp: flag_def)

lemma lf_wfI: "(\<And>f. flag_of f s = Some (g f)) \<Longrightarrow> lf_wf s"
  by (simp add: lf_wf_def)

text \<open>The state after \<open>get_flag f\<close>.\<close>

definition after_get :: "aflag \<Rightarrow> cpu \<Rightarrow> cpu" where
  "after_get f s = (if lf_nibble f (lf_flags_status s) = 0 then s else stored f (flag f s) s)"

lemma get_flag_wf [simp]: "lf_wf s \<Longrightarrow> get_flag f s = Done (flag f s) (after_get f s)"
  by (simp add: get_flag_Done [OF flag_of_eq_flag] after_get_def)

lemma flag_of_after_get: "lf_wf s \<Longrightarrow> flag_of g (after_get f s) = flag_of g s"
  by (simp add: after_get_def flag_of_stored flag_of_eq_flag)

lemma lf_wf_after_get [simp]: "lf_wf s \<Longrightarrow> lf_wf (after_get f s)"
  using flag_of_after_get [of s _ f] by (simp add: lf_wf_def)

lemma flag_after_get [simp]: "lf_wf s \<Longrightarrow> flag g (after_get f s) = flag g s"
  by (simp add: flag_def flag_of_after_get)

text \<open>Reading a flag moves only the status word and arithmetic EFLAGS bits.\<close>

definition arith_only :: "cpu \<Rightarrow> cpu \<Rightarrow> bool" where
  "arith_only s t \<longleftrightarrow>
     t\<lparr>lf_flags_status := 0, eflags_val32 := 0\<rparr> = s\<lparr>lf_flags_status := 0, eflags_val32 := 0\<rparr> \<and>
     (\<forall>n. n \<notin> range eflagsBitShift \<longrightarrow> bit (eflags_val32 t) n = bit (eflags_val32 s) n)"

lemma arith_only_refl [simp]: "arith_only s s"
  by (simp add: arith_only_def)

lemma arith_only_trans: "arith_only s t \<Longrightarrow> arith_only t u \<Longrightarrow> arith_only s u"
  by (simp add: arith_only_def)

lemma arith_only_stored [simp]: "arith_only s (stored f b s)"
  by (auto simp: arith_only_def bit_stored) (simp add: stored_def)

lemma arith_only_after_get [simp]: "arith_only s (after_get f s)"
  by (simp add: after_get_def)

text \<open>Forcing the flags makes EFLAGS hold every lazy value.\<close>

definition forced :: "cpu \<Rightarrow> cpu" where
  "forced s = (if lf_flags_status s \<noteq> 0 then
     after_get OF (after_get SF (after_get ZF (after_get AF (after_get PF (after_get CF s)))))
     else s)"

lemma force_flags_wf: "lf_wf s \<Longrightarrow> force_flags s = Done (eflags_val32 (forced s)) (forced s)"
  by (simp add: force_flags_def forced_def)

lemma lf_wf_forced [simp]: "lf_wf s \<Longrightarrow> lf_wf (forced s)"
  by (simp add: forced_def)

lemma flag_forced [simp]: "lf_wf s \<Longrightarrow> flag g (forced s) = flag g s"
  by (simp add: forced_def)

lemma arith_only_forced: "lf_wf s \<Longrightarrow> arith_only s (forced s)"
  unfolding forced_def
  by (auto intro!: arith_only_trans [OF _ arith_only_after_get])

lemma lf_nibble_after_get:
  "lf_nibble g (lf_flags_status (after_get f s)) = (if f = g then 0 else lf_nibble g (lf_flags_status s))"
  by (simp add: after_get_def)

lemma lf_nibble_forced [simp]: "lf_nibble f (lf_flags_status (forced s)) = 0"
  by (cases f) (simp_all add: forced_def lf_nibble_after_get)

lemma bit_forced:
  assumes "lf_wf s"
  shows "bit (eflags_val32 (forced s)) (eflagsBitShift f) = flag f s"
proof -
  have "flag f (forced s) = bit (eflags_val32 (forced s)) (eflagsBitShift f)"
    by (simp add: flag_def flag_of_def)
  with assms show ?thesis by simp
qed

end
