(* ===== verification/BxMemory.thy ===== *)
theory BxMemory
  imports BxState
begin

text \<open>
  The physical memory of the machine: \<open>memory/memory.cc\<close>
  (\<open>readPhysicalPage\<close>, \<open>writePhysicalPage\<close>) and
  \<open>memory/misc_mem.cc\<close> (\<open>init_memory\<close>, \<open>load_ROM\<close>,
  \<open>getHostMemAddr\<close>, the registration of device ranges), in the little-endian
  configuration without PCI. Data is a list of bytes, lowest address first. A host access outside
  the allocated block is undefined behaviour in C++; the model makes it the outcome
  \<open>Panic\<close>, so that theorems can exclude it. A device callback takes over the access:
  the callbacks of the VGA, the only ones registered without PCI, return 1 for every address of
  their range.
\<close>

section \<open>Layout of the host block\<close>

definition BIOSROMSZ :: nat where "BIOSROMSZ = 0x80000"
definition EXROMSIZE :: nat where "EXROMSIZE = 0x20000"
definition BIOS_MASK :: Bit32u where "BIOS_MASK = 0x7ffff"
definition EXROM_MASK :: Bit32u where "EXROM_MASK = 0x1ffff"

definition rom_index :: "bx_mem \<Rightarrow> nat \<Rightarrow> nat" where
  "rom_index m offset = mem_len m + offset"

definition bogus_index :: "bx_mem \<Rightarrow> nat \<Rightarrow> nat" where
  "bogus_index m offset = mem_len m + BIOSROMSZ + EXROMSIZE + offset"

definition host_size :: "bx_mem \<Rightarrow> nat" where
  "host_size m = mem_len m + BIOSROMSZ + EXROMSIZE + 4096"

definition init_memory :: "nat \<Rightarrow> bx_mem \<Rightarrow> bx_mem" where
  "init_memory memsize m =
     m\<lparr>mem_len := memsize,
       vector := (\<lambda>i. if memsize \<le> i \<and> i < memsize + BIOSROMSZ + EXROMSIZE + 4096
                        then 0xff else vector m i),
       memory_handlers := (\<lambda>idx. if idx < 1024 * 1024 then [] else memory_handlers m idx),
       rom_present := (\<lambda>idx. if idx < 65 then False else rom_present m idx)\<rparr>"

definition A20ADDR :: "cpu \<Rightarrow> Bit32u \<Rightarrow> Bit32u" where
  "A20ADDR s x = x AND a20_mask s"

definition load_host :: "nat \<Rightarrow> Bit8u bx" where
  "load_host i = (\<lambda>s. if i < host_size (mem s) then Done (vector (mem s) i) s
                        else Panic ''read outside the allocated memory'' s)"

definition store_host :: "nat \<Rightarrow> Bit8u \<Rightarrow> unit bx" where
  "store_host i b = (\<lambda>s.
     if i < host_size (mem s) then Done () (s\<lparr>mem := (mem s)\<lparr>vector := (vector (mem s))(i := b)\<rparr>\<rparr>)
     else Panic ''write outside the allocated memory'' s)"

text \<open>
  \<open>ReadHostDWordFromLittleEndian\<close> and its companions: the bytes at a host address.
\<close>

fun load_hosts :: "nat \<Rightarrow> nat \<Rightarrow> Bit8u list bx" where
  "load_hosts i 0 = ret []"
| "load_hosts i (Suc n) =
     and_then (load_host i) (\<lambda>b. and_then (load_hosts (Suc i) n) (\<lambda>bs. ret (b # bs)))"

fun store_hosts :: "nat \<Rightarrow> Bit8u list \<Rightarrow> unit bx" where
  "store_hosts i [] = ret ()"
| "store_hosts i (b # bs) = and_then (store_host i b) (\<lambda>_. store_hosts (Suc i) bs)"

section \<open>Device ranges\<close>

text \<open>\<open>bx_generic_apic_c::is_selected\<close>.\<close>

definition is_selected :: "Bit32u \<Rightarrow> Bit32u \<Rightarrow> bool" where
  "is_selected base addr \<longleftrightarrow> addr AND NOT 0xfff = base"

definition handler_covers :: "nat \<Rightarrow> memory_handler \<Rightarrow> bool" where
  "handler_covers a h \<longleftrightarrow> mh_begin h \<le> a \<and> mh_end h \<ge> a"

definition handled :: "bx_mem \<Rightarrow> Bit32u \<Rightarrow> bool" where
  "handled m a20addr \<longleftrightarrow>
     list_ex (handler_covers (unat a20addr)) (memory_handlers m (unat (drop_bit 20 a20addr)))"

section \<open>Reading\<close>

text \<open>One byte of \<open>read_one\<close>: the ROM areas of the first megabyte.\<close>

definition read_byte_inside :: "Bit32u \<Rightarrow> Bit8u bx" where
  "read_byte_inside a20addr = (\<lambda>s.
     if a20addr AND 0xfff80000 \<noteq> 0x00080000 then load_host (unat a20addr) s
     else if a20addr AND 0xfffc0000 \<noteq> 0x000c0000 then load_host (unat a20addr) s
     else if a20addr AND 0xfffe0000 = 0x000e0000
       then load_host (rom_index (mem s) (unat (a20addr AND BIOS_MASK))) s
     else load_host (rom_index (mem s) (unat (a20addr AND EXROM_MASK) + BIOSROMSZ)) s)"

fun read_one :: "Bit32u \<Rightarrow> nat \<Rightarrow> Bit8u list bx" where
  "read_one a20addr 0 = ret []"
| "read_one a20addr (Suc n) =
     and_then (read_byte_inside a20addr) (\<lambda>b.
     and_then (read_one (a20addr + 1) n) (\<lambda>bs. ret (b # bs)))"

definition read_byte_outside :: "Bit32u \<Rightarrow> Bit8u bx" where
  "read_byte_outside a20addr = (\<lambda>s.
     if unat a20addr < mem_len (mem s) then load_host (unat a20addr) s
     else if a20addr \<ge> NOT BIOS_MASK
       then load_host (rom_index (mem s) (unat (a20addr AND BIOS_MASK))) s
     else Done 0xff s)"

text \<open>
  The loop over an access that leaves physical memory: after the first byte the address is
  \<open>addr\<close> itself, no longer \<open>A20ADDR(addr)\<close>. No caller passes a length of 0, for which the
  counter of the loop would underflow; here the loop ends at once.
\<close>

fun read_outside :: "Bit32u \<Rightarrow> Bit32u \<Rightarrow> nat \<Rightarrow> Bit8u list bx" where
  "read_outside a20addr addr 0 = ret []"
| "read_outside a20addr addr (Suc n) =
     and_then (read_byte_outside a20addr) (\<lambda>b.
     and_then (read_outside (addr + 1) (addr + 1) n) (\<lambda>bs. ret (b # bs)))"

definition readPhysicalPage :: "Bit32u \<Rightarrow> nat \<Rightarrow> Bit8u list bx" where
  "readPhysicalPage addr len = (\<lambda>s.
     (let a20addr = A20ADDR s addr in
      if handled (mem s) a20addr then to_device a20addr s
      else if is_selected (local_apic_base s) addr then to_device addr s
      else if is_selected (ioapic_base s) addr then to_device addr s
      else if unat (a20addr + word_of_nat len) \<le> mem_len (mem s) then
        (if a20addr AND 0xfff80000 \<noteq> 0x00080000 \<and> len \<in> {4, 2, 1}
           then load_hosts (unat a20addr) len s
         else read_one a20addr len s)
      else read_outside a20addr addr len s))"

section \<open>Writing\<close>

definition write_byte_inside :: "Bit32u \<Rightarrow> Bit8u \<Rightarrow> unit bx" where
  "write_byte_inside a20addr b =
     (if a20addr AND 0xfff80000 \<noteq> 0x00080000 then store_host (unat a20addr) b
      else if a20addr \<le> 0x0009ffff then store_host (unat a20addr) b
      else ret ())"

fun write_one :: "Bit32u \<Rightarrow> Bit8u list \<Rightarrow> unit bx" where
  "write_one a20addr [] = ret ()"
| "write_one a20addr (b # bs) =
     and_then (write_byte_inside a20addr b) (\<lambda>_. write_one (a20addr + 1) bs)"

definition write_byte_outside :: "Bit32u \<Rightarrow> Bit8u \<Rightarrow> unit bx" where
  "write_byte_outside a20addr b = (\<lambda>s.
     if unat a20addr < mem_len (mem s) then store_host (unat a20addr) b s else ret () s)"

fun write_outside :: "Bit32u \<Rightarrow> Bit32u \<Rightarrow> Bit8u list \<Rightarrow> unit bx" where
  "write_outside a20addr addr [] = ret ()"
| "write_outside a20addr addr (b # bs) =
     and_then (write_byte_outside a20addr b) (\<lambda>_. write_outside (addr + 1) (addr + 1) bs)"

definition writePhysicalPage :: "Bit32u \<Rightarrow> Bit8u list \<Rightarrow> unit bx" where
  "writePhysicalPage addr data = (\<lambda>s.
     (let a20addr = A20ADDR s addr; len = length data in
      if handled (mem s) a20addr then to_device a20addr s
      else if is_selected (local_apic_base s) a20addr then to_device a20addr s
      else if is_selected (ioapic_base s) a20addr then to_device a20addr s
      else if unat (a20addr + word_of_nat len) \<le> mem_len (mem s) then
        (if a20addr AND 0xfff80000 \<noteq> 0x00080000 \<and> len \<in> {4, 2, 1}
           then store_hosts (unat a20addr) data s
         else write_one a20addr data s)
      else write_outside a20addr addr data s))"

section \<open>Direct host pointers\<close>

datatype access_op = BX_READ | BX_WRITE | BX_RW

text \<open>
  \<open>None\<close> is NULL. The instruction-cache write stamp that a successful write pointer
  decrements is not modelled.
\<close>

definition getHostMemAddr :: "Bit32u \<Rightarrow> access_op \<Rightarrow> cpu \<Rightarrow> nat option" where
  "getHostMemAddr a20Addr acc s = (
     if local_apic_base s = a20Addr AND NOT 0xfff then None
     else if ioapic_base s = a20Addr AND NOT 0xfff then None
     else if handled (mem s) a20Addr then None
     else if acc = BX_READ then
       (if a20Addr AND 0xfffe0000 = 0x000a0000 then None
        else if unat a20Addr < mem_len (mem s) then
          (if a20Addr AND 0xfffc0000 \<noteq> 0x000c0000 then Some (unat a20Addr)
           else if a20Addr AND 0xfffe0000 = 0x000e0000
             then Some (rom_index (mem s) (unat (a20Addr AND BIOS_MASK)))
           else Some (rom_index (mem s) (unat (a20Addr AND EXROM_MASK) + BIOSROMSZ)))
        else if a20Addr \<ge> NOT BIOS_MASK
          then Some (rom_index (mem s) (unat (a20Addr AND BIOS_MASK)))
        else Some (bogus_index (mem s) (unat (a20Addr AND 0x0fff))))
     else
       (if unat a20Addr \<ge> mem_len (mem s) then None
        else if a20Addr AND 0xfffe0000 = 0x000a0000 then None
        else if a20Addr \<ge> NOT BIOS_MASK then None
        else if a20Addr AND 0xfffc0000 \<noteq> 0x000c0000 then Some (unat a20Addr)
        else None))"

section \<open>Registering device ranges\<close>

definition registerMemoryHandlers ::
    "nat \<Rightarrow> nat \<Rightarrow> nat \<Rightarrow> nat \<Rightarrow> bx_mem \<Rightarrow> bool \<times> bx_mem" where
  "registerMemoryHandlers rd wr begin_addr end_addr m = (
     if end_addr < begin_addr then (False, m)
     else if rd = 0 then (False, m)
     else if wr = 0 then (False, m)
     else (True, m\<lparr>memory_handlers := (\<lambda>page_idx.
            if begin_addr div 2 ^ 20 \<le> page_idx \<and> page_idx \<le> end_addr div 2 ^ 20
            then \<lparr>mh_begin = begin_addr, mh_end = end_addr, read_handler = rd, write_handler = wr\<rparr>
                   # memory_handlers m page_idx
            else memory_handlers m page_idx)\<rparr>))"

text \<open>
  The search of \<open>unregisterMemoryHandlers\<close> goes on while all four fields differ, so it
  stops at the first entry that agrees in one of them. \<open>None\<close>: the end of the list.
\<close>

fun unlink_handler ::
    "nat \<Rightarrow> nat \<Rightarrow> nat \<Rightarrow> nat \<Rightarrow> memory_handler list \<Rightarrow> memory_handler list option" where
  "unlink_handler rd wr begin_addr end_addr [] = None"
| "unlink_handler rd wr begin_addr end_addr (h # hs) = (
     if read_handler h \<noteq> rd \<and> write_handler h \<noteq> wr \<and> mh_begin h \<noteq> begin_addr \<and> mh_end h \<noteq> end_addr
     then map_option ((#) h) (unlink_handler rd wr begin_addr end_addr hs)
     else Some hs)"

definition unregisterMemoryHandlers ::
    "nat \<Rightarrow> nat \<Rightarrow> nat \<Rightarrow> nat \<Rightarrow> bx_mem \<Rightarrow> bool \<times> bx_mem" where
  "unregisterMemoryHandlers rd wr begin_addr end_addr m = (
     let pages = [begin_addr div 2 ^ 20..<end_addr div 2 ^ 20 + 1];
         unlink = (\<lambda>p. unlink_handler rd wr begin_addr end_addr (memory_handlers m p))
     in (list_all (\<lambda>p. unlink p \<noteq> None) pages,
         m\<lparr>memory_handlers := (\<lambda>p. if p \<in> set pages \<and> unlink p \<noteq> None
                                    then the (unlink p) else memory_handlers m p)\<rparr>))"

section \<open>Loading ROM images\<close>

text \<open>
  \<open>load_ROM\<close> with the file as its list of bytes; type 0 is the system BIOS, 1 the VGA
  BIOS, 2 an optional ROM. The result is the new memory and whether the image checksum was
  reported as bad, or the message of the panic; \<open>PresentOverrun\<close> is an access past
  the end of \<open>rom_present[65]\<close>. \<open>unsigned long\<close> is 64 bits wide, so the sums of
  the address and the size do not wrap around and are natural numbers here.
\<close>

datatype rom_error =
    ImageUndefined | ImageTooLarge | BiosMustEndAtFFFFF | SizeNot512 | StartNot2k
  | AddressOutOfRange | AddressInUse nat | PresentOverrun nat

definition write_rom :: "nat \<Rightarrow> Bit8u list \<Rightarrow> bx_mem \<Rightarrow> bx_mem" where
  "write_rom offset img m = m\<lparr>vector := (\<lambda>i.
     if rom_index m offset \<le> i \<and> i < rom_index m offset + length img
     then img ! (i - rom_index m offset) else vector m i)\<rparr>"

fun claim_rom :: "nat \<Rightarrow> nat \<Rightarrow> bx_mem \<Rightarrow> rom_error + bx_mem" where
  "claim_rom i 0 m = Inr m"
| "claim_rom i (Suc n) m = (
     if i \<ge> 65 then Inl (PresentOverrun i)
     else if rom_present m i then Inl (AddressInUse i)
     else claim_rom (Suc i) n (m\<lparr>rom_present := (rom_present m)(i := True)\<rparr>))"

definition rom_checksum_bad :: "Bit32u \<Rightarrow> nat \<Rightarrow> nat \<Rightarrow> bx_mem \<Rightarrow> bool" where
  "rom_checksum_bad romaddress offset sz m \<longleftrightarrow>
     (romaddress \<noteq> 0xe0000 \<or>
       (vector m (rom_index m offset) = 0x55 \<and> vector m (rom_index m offset) = 0xaa)) \<and>
     sum_list (map (\<lambda>i. vector m (rom_index m (offset + i))) [0..<sz]) \<noteq> 0"

definition load_ROM ::
    "Bit8u list option \<Rightarrow> Bit32u \<Rightarrow> nat \<Rightarrow> bx_mem \<Rightarrow> rom_error + (bool \<times> bx_mem)" where
  "load_ROM file romaddress rom_type m = (case file of
     None \<Rightarrow> Inl ImageUndefined
   | Some img \<Rightarrow>
      (let sz = length img; size32 = word_of_nat sz :: Bit32u;
           max_size = (if rom_type > 0 then 0x10000 else BIOSROMSZ)
       in if sz > max_size then Inl ImageTooLarge
       else if rom_type = 0 then
         (if romaddress > 0 \<and> unat romaddress + sz \<noteq> 0x100000 \<and> unat romaddress + sz \<noteq> 0
            then Inl BiosMustEndAtFFFFF
          else
            (let romaddress' = (if romaddress > 0 then romaddress else - size32);
                 offset = unat (romaddress' AND BIOS_MASK);
                 m1 = (if romaddress' AND 0xf0000 < 0xf0000
                         then m\<lparr>rom_present := (rom_present m)(64 := True)\<rparr> else m);
                 m2 = write_rom offset img m1
             in Inr (rom_checksum_bad romaddress' offset sz m2, m2)))
       else if sz mod 512 \<noteq> 0 then Inl SizeNot512
       else if unat romaddress mod 2048 \<noteq> 0 then Inl StartNot2k
       else if romaddress < 0xc0000 \<or> (unat romaddress + sz > 0xdffff \<and> romaddress \<noteq> 0xe0000)
         then Inl AddressOutOfRange
       else
         (let start_idx = unat (drop_bit 11 (romaddress - 0xc0000));
              end_idx = start_idx + sz div 2048 + (if sz mod 2048 > 0 then 1 else 0);
              offset = (if romaddress < 0xe0000 then unat (romaddress AND EXROM_MASK) + BIOSROMSZ
                        else unat (romaddress AND BIOS_MASK))
          in case claim_rom start_idx (end_idx - start_idx) m of
               Inl e \<Rightarrow> Inl e
             | Inr m1 \<Rightarrow>
                 (let m2 = write_rom offset img m1
                  in Inr (rom_checksum_bad romaddress offset sz m2, m2)))))"

end
