(* ===== verification/BxPaging.thy ===== *)
theory BxPaging
  imports BxMemory
begin

text \<open>
  Linear address translation: \<open>cpu/paging.cc\<close> in the 32-bit configuration with PAE, 4 MB
  pages, global pages and a TLB whose entries hold direct host pointers. A routine that faults
  stores the address in CR2, drops the TLB entry and raises the page fault exception.
\<close>

section \<open>The TLB\<close>

definition BX_INVALID_TLB_ENTRY :: Bit32u where "BX_INVALID_TLB_ENTRY = 0xffffffff"

definition BX_TLB_INDEX_OF :: "Bit32u \<Rightarrow> 10 word" where
  "BX_TLB_INDEX_OF la = ucast (drop_bit 12 (la AND 0x003ff000))"

definition LPFOf :: "Bit32u \<Rightarrow> Bit32u" where
  "LPFOf laddr = laddr AND 0xfffff000"

definition TLB_GlobalPage :: Bit32u where "TLB_GlobalPage = 0x100"
definition TLB_WriteUserOK :: Bit32u where "TLB_WriteUserOK = 0x80"
definition TLB_WriteSysOK :: Bit32u where "TLB_WriteSysOK = 0x40"
definition TLB_ReadUserOK :: Bit32u where "TLB_ReadUserOK = 0x20"
definition TLB_ReadSysOK :: Bit32u where "TLB_ReadSysOK = 0x10"
definition TLB_WriteUserPtrOK :: Bit32u where "TLB_WriteUserPtrOK = 0x08"
definition TLB_WriteSysPtrOK :: Bit32u where "TLB_WriteSysPtrOK = 0x04"
definition TLB_ReadUserPtrOK :: Bit32u where "TLB_ReadUserPtrOK = 0x02"
definition TLB_ReadSysPtrOK :: Bit32u where "TLB_ReadSysPtrOK = 0x01"

definition set_TLB :: "10 word \<Rightarrow> bx_TLB_entry \<Rightarrow> cpu \<Rightarrow> cpu" where
  "set_TLB i e s = s\<lparr>TLB := (TLB s)(i := e)\<rparr>"

definition invalidate_TLB :: "10 word \<Rightarrow> cpu \<Rightarrow> cpu" where
  "invalidate_TLB i s = set_TLB i ((TLB s i)\<lparr>lpf := BX_INVALID_TLB_ENTRY\<rparr>) s"

text \<open>The entry of the privilege table that \<open>TLB_init\<close> computes for index \<open>i\<close>.\<close>

definition priv_check :: "nat \<Rightarrow> bool" where
  "priv_check i = (
     let wp = bit i 4; us_current = bit i 3; us_combined = bit i 2;
         rw_combined = bit i 1; rw_current = bit i 0
     in if wp then
          (if us_current \<and> \<not> us_combined then False
           else if rw_current \<and> \<not> rw_combined then False
           else True)
        else
          (if \<not> us_current then True
           else if \<not> us_combined then False
           else if rw_current \<and> \<not> rw_combined then False
           else True))"

definition TLB_init :: "cpu \<Rightarrow> cpu" where
  "TLB_init s = s\<lparr>TLB := (\<lambda>i. (TLB s i)\<lparr>lpf := BX_INVALID_TLB_ENTRY\<rparr>)\<rparr>"

definition TLB_flush :: "bool \<Rightarrow> cpu \<Rightarrow> cpu" where
  "TLB_flush invalidateGlobal s = s\<lparr>TLB := (\<lambda>i.
     if lpf (TLB s i) \<noteq> BX_INVALID_TLB_ENTRY \<and>
        (invalidateGlobal \<or> accessBits (TLB s i) AND TLB_GlobalPage = 0)
     then (TLB s i)\<lparr>lpf := BX_INVALID_TLB_ENTRY\<rparr> else TLB s i)\<rparr>"

section \<open>Control register changes\<close>

definition get_PSE :: "cpu \<Rightarrow> bool" where "get_PSE s \<longleftrightarrow> bit (cr4 s) 4"
definition get_PAE :: "cpu \<Rightarrow> bool" where "get_PAE s \<longleftrightarrow> bit (cr4 s) 5"
definition get_PGE :: "cpu \<Rightarrow> bool" where "get_PGE s \<longleftrightarrow> bit (cr4 s) 7"

definition pagingCR0Changed :: "Bit32u \<Rightarrow> Bit32u \<Rightarrow> cpu \<Rightarrow> cpu" where
  "pagingCR0Changed oldCR0 newCR0 s =
     (if oldCR0 AND 0x80010001 \<noteq> newCR0 AND 0x80010001 then TLB_flush True s else s)"

definition pagingCR4Changed :: "Bit32u \<Rightarrow> Bit32u \<Rightarrow> cpu \<Rightarrow> cpu" where
  "pagingCR4Changed oldCR4 newCR4 s =
     (let s1 = (if oldCR4 AND 0x000000b0 \<noteq> newCR4 AND 0x000000b0 then TLB_flush True s else s)
      in if oldCR4 AND 0x00000020 \<noteq> newCR4 AND 0x00000020 then
           (if get_PAE s1 then s1\<lparr>cr3_masked := cr3 s1 AND 0xffffffe0\<rparr>
            else s1\<lparr>cr3_masked := cr3 s1 AND 0xfffff000\<rparr>)
         else s1)"

definition CR3_change :: "Bit32u \<Rightarrow> cpu \<Rightarrow> cpu" where
  "CR3_change val s =
     (let s1 = (TLB_flush False s)\<lparr>cr3 := val\<rparr>
      in if get_PAE s1 then s1\<lparr>cr3_masked := val AND 0xffffffe0\<rparr>
         else s1\<lparr>cr3_masked := val AND 0xfffff000\<rparr>)"

definition pagingA20Changed :: "cpu \<Rightarrow> cpu" where
  "pagingA20Changed s = TLB_flush True s"

definition invalidate_prefetch_q :: "cpu \<Rightarrow> cpu" where
  "invalidate_prefetch_q s = s\<lparr>sys := (sys s)\<lparr>eipPageWindowSize := 0\<rparr>\<rparr>"

definition INVLPG :: "bxInstruction \<Rightarrow> unit bx" where
  "INVLPG i = and_then (update invalidate_prefetch_q) (\<lambda>_ s.
     if modC0 i then raise BX_UD_EXCEPTION 0 s
     else if v8086_mode s then raise BX_GP_EXCEPTION 0 s
     else if cr0_pe (cr0 s) \<and> CPL s \<noteq> 0 then raise BX_GP_EXCEPTION 0 s
     else update (\<lambda>s. invalidate_TLB (BX_TLB_INDEX_OF (get_segment_base (i_seg i) s + rm_addr s)) s) s)"

section \<open>The page walk\<close>

definition read_dword :: "Bit32u \<Rightarrow> Bit32u bx" where
  "read_dword addr = and_then (readPhysicalPage addr 4) (\<lambda>bs. ret (le_word bs))"

definition write_dword :: "Bit32u \<Rightarrow> Bit32u \<Rightarrow> unit bx" where
  "write_dword addr v = writePhysicalPage addr (le_bytes 4 v)"

text \<open>
  The labels \<open>page_fault_access\<close> (\<open>protection\<close> true) and
  \<open>page_fault_not_present\<close>.
\<close>

definition page_fault :: "Bit32u \<Rightarrow> bool \<Rightarrow> bool \<Rightarrow> bool \<Rightarrow> 'a bx" where
  "page_fault laddr pl isWrite protection = (\<lambda>s.
     (let error_code = of_bool protection OR (push_bit 2 (of_bool pl) OR push_bit 1 (of_bool isWrite));
          s1 = invalidate_TLB (BX_TLB_INDEX_OF (LPFOf laddr)) (s\<lparr>cr2 := laddr\<rparr>)
      in raise BX_PF_EXCEPTION error_code s1))"

definition priv_index :: "bool \<Rightarrow> bool \<Rightarrow> Bit32u \<Rightarrow> bool \<Rightarrow> nat" where
  "priv_index wp pl combined_access isWrite =
     unat (push_bit 4 (of_bool wp) OR push_bit 3 (of_bool pl) OR (combined_access AND 0x06)
           OR (of_bool isWrite :: Bit32u))"

text \<open>Accessed and dirty bits are written back where they are not set yet.\<close>

definition update_entry :: "Bit32u \<Rightarrow> Bit32u \<Rightarrow> bool \<Rightarrow> unit bx" where
  "update_entry entry_addr entry isWrite =
     (if entry AND 0x20 = 0 \<or> (isWrite \<and> entry AND 0x40 = 0)
      then write_dword entry_addr (entry OR (0x20 OR push_bit 6 (of_bool isWrite)))
      else ret ())"

definition update_accessed :: "Bit32u \<Rightarrow> Bit32u \<Rightarrow> unit bx" where
  "update_accessed entry_addr entry =
     (if entry AND 0x20 = 0 then write_dword entry_addr (entry OR 0x20) else ret ())"

text \<open>A large page: the directory entry maps it, \<open>frame_mask\<close> selects its frame.\<close>

definition walk_large ::
    "Bit32u \<Rightarrow> bool \<Rightarrow> bool \<Rightarrow> Bit32u \<Rightarrow> Bit32u \<Rightarrow> Bit32u \<Rightarrow> Bit32u \<Rightarrow> (Bit32u \<times> Bit32u) bx" where
  "walk_large laddr pl isWrite pde_addr pde frame_mask offset_mask = (\<lambda>s.
     (let combined_access = (pde AND 0x06) OR (if get_PGE s then pde AND TLB_GlobalPage else 0);
          frame = (pde AND frame_mask) OR (laddr AND offset_mask)
      in if \<not> priv_check (priv_index (cr0_wp (cr0 s)) pl combined_access isWrite)
         then page_fault laddr pl isWrite True s
         else and_then (update_entry pde_addr pde isWrite) (\<lambda>_. ret (frame, combined_access)) s))"

text \<open>A 4 KB page: the access rights of both levels are combined.\<close>

definition walk_small ::
    "Bit32u \<Rightarrow> bool \<Rightarrow> bool \<Rightarrow> Bit32u \<Rightarrow> Bit32u \<Rightarrow> Bit32u \<Rightarrow> (Bit32u \<times> Bit32u) bx" where
  "walk_small laddr pl isWrite pde_addr pde pte_addr =
     and_then (read_dword pte_addr) (\<lambda>pte.
       if pte AND 0x01 = 0 then page_fault laddr pl isWrite False
       else (\<lambda>s.
         (let combined_access = ((pde AND pte) AND 0x06) OR (if get_PGE s then pte AND TLB_GlobalPage else 0);
              frame = pte AND 0xfffff000
          in if \<not> priv_check (priv_index (cr0_wp (cr0 s)) pl combined_access isWrite)
             then page_fault laddr pl isWrite True s
             else and_then (update_accessed pde_addr pde) (\<lambda>_.
                  and_then (update_entry pte_addr pte isWrite) (\<lambda>_. ret (frame, combined_access))) s)))"

text \<open>CR4.PAE = 1: three levels of (the low halves of) 64-bit entries.\<close>

definition walk_pae :: "Bit32u \<Rightarrow> bool \<Rightarrow> bool \<Rightarrow> (Bit32u \<times> Bit32u) bx" where
  "walk_pae laddr pl isWrite = and_then (gets cr3_masked) (\<lambda>base.
     (let pdp_addr = base OR drop_bit 27 (laddr AND 0xc0000000) in
      and_then (read_dword pdp_addr) (\<lambda>pdp.
        if pdp AND 0x01 = 0 then page_fault laddr pl isWrite False
        else and_then (update_accessed pdp_addr pdp) (\<lambda>_.
          let pde_addr = (pdp AND 0xfffff000) OR drop_bit 18 (laddr AND 0x3fe00000) in
          and_then (read_dword pde_addr) (\<lambda>pde.
            if pde AND 0x01 = 0 then page_fault laddr pl isWrite False
            else if pde AND 0x80 \<noteq> 0 then
              walk_large laddr pl isWrite pde_addr pde 0xffe00000 0x001ff000
            else
              walk_small laddr pl isWrite pde_addr pde
                ((pde AND 0xfffff000) OR drop_bit 9 (laddr AND 0x001ff000)))))))"

text \<open>CR4.PAE = 0: two levels of 32-bit entries.\<close>

definition walk_32 :: "Bit32u \<Rightarrow> bool \<Rightarrow> bool \<Rightarrow> (Bit32u \<times> Bit32u) bx" where
  "walk_32 laddr pl isWrite = and_then (gets cr3_masked) (\<lambda>base.
     (let pde_addr = base OR drop_bit 20 (laddr AND 0xffc00000) in
      and_then (read_dword pde_addr) (\<lambda>pde s.
        if pde AND 0x01 = 0 then page_fault laddr pl isWrite False s
        else if pde AND 0x80 \<noteq> 0 \<and> get_PSE s then
          walk_large laddr pl isWrite pde_addr pde 0xFFC00000 0x003FF000 s
        else
          walk_small laddr pl isWrite pde_addr pde
            ((pde AND 0xfffff000) OR drop_bit 10 (laddr AND 0x003ff000)) s)))"

text \<open>The rights a TLB entry grants after a successful walk.\<close>

definition granted_bits :: "Bit32u \<Rightarrow> bool \<Rightarrow> Bit32u" where
  "granted_bits combined_access isWrite =
     (if combined_access AND 4 \<noteq> 0 then
        (if isWrite then
           (if combined_access AND 2 \<noteq> 0
            then TLB_ReadUserOK OR TLB_ReadSysOK OR (TLB_WriteUserOK OR TLB_WriteSysOK)
            else TLB_ReadUserOK OR TLB_ReadSysOK OR TLB_WriteSysOK)
         else TLB_ReadUserOK OR TLB_ReadSysOK)
      else
        (if isWrite then TLB_ReadSysOK OR TLB_WriteSysOK else TLB_ReadSysOK))
     OR (combined_access AND TLB_GlobalPage)"

definition fill_TLB :: "Bit32u \<Rightarrow> access_op \<Rightarrow> Bit32u \<Rightarrow> Bit32u \<Rightarrow> cpu \<Rightarrow> cpu" where
  "fill_TLB laddr rw ppf' combined_access s =
     (let isWrite = (rw \<noteq> BX_READ);
          bits = granted_bits combined_access isWrite;
          host = getHostMemAddr (A20ADDR s ppf') rw s;
          bits' = (if host \<noteq> None then bits OR drop_bit 4 (bits AND 0xf0) else bits)
      in set_TLB (BX_TLB_INDEX_OF (LPFOf laddr))
           \<lparr>lpf = LPFOf laddr, ppf = ppf', accessBits = bits', hostPageAddr = host\<rparr> s)"

definition translate_linear :: "Bit32u \<Rightarrow> bool \<Rightarrow> access_op \<Rightarrow> Bit32u bx" where
  "translate_linear laddr pl rw = (\<lambda>s.
     (let isWrite = (rw \<noteq> BX_READ);
          poffset = laddr AND 0x00000fff;
          tlbEntry = TLB s (BX_TLB_INDEX_OF (LPFOf laddr))
      in if lpf tlbEntry = LPFOf laddr \<and>
            accessBits tlbEntry AND push_bit ((if isWrite then 2 else 0) OR (if pl then 1 else 0)) 0x10 \<noteq> 0
         then Done (ppf tlbEntry OR poffset) s
         else and_then (if get_PAE s then walk_pae laddr pl isWrite else walk_32 laddr pl isWrite)
                (\<lambda>(ppf', combined_access). and_then (update (fill_TLB laddr rw ppf' combined_access))
                  (\<lambda>_. ret (ppf' OR poffset))) s))"

section \<open>The debugger's translation\<close>

text \<open>
  \<open>dbg_xlate_linear2phy\<close> walks the tables without privilege checks and without a page
  fault; the result is the physical address and whether it is valid. The recursions count the
  levels that are left.
\<close>

fun dbg_walk_pae :: "nat \<Rightarrow> Bit64u \<Rightarrow> Bit32u \<Rightarrow> (Bit32u \<times> bool) bx" where
  "dbg_walk_pae 0 pt_address laddr = ret (ucast (pt_address + ucast (laddr AND 0xfff)), True)"
| "dbg_walk_pae (Suc level) pt_address laddr =
     and_then (readPhysicalPage (ucast (pt_address + 8 * ucast (drop_bit (12 + 9 * level) laddr AND 511))) 8)
       (\<lambda>bs. let pte = le_word bs :: Bit64u; pt' = pte AND 0x000ffffffffff000 in
         if pte AND 1 = 0 then ret (0, False)
         else if level = 1 \<and> pte AND 0x80 \<noteq> 0
         then ret (ucast (pt' + ucast (laddr AND 0x1fffff)), True)
         else dbg_walk_pae level pt' laddr)"

fun dbg_walk_32 :: "nat \<Rightarrow> Bit32u \<Rightarrow> Bit32u \<Rightarrow> (Bit32u \<times> bool) bx" where
  "dbg_walk_32 0 pt_address laddr = ret (pt_address + (laddr AND 0xfff), True)"
| "dbg_walk_32 (Suc level) pt_address laddr =
     and_then (readPhysicalPage (pt_address + 4 * (drop_bit (12 + 10 * level) laddr AND 1023)) 4)
       (\<lambda>bs. let pte = le_word bs; pt' = pte AND 0xfffff000 in
         if pte AND 1 = 0 then ret (0, False)
         else if level = 1 \<and> pte AND 0x80 \<noteq> 0 then ret (pt' + (laddr AND 0x3fffff), True)
         else dbg_walk_32 level pt' laddr)"

definition dbg_xlate_linear2phy :: "Bit32u \<Rightarrow> (Bit32u \<times> bool) bx" where
  "dbg_xlate_linear2phy laddr = (\<lambda>s.
     (let tlbEntry = TLB s (BX_TLB_INDEX_OF (LPFOf laddr)); poffset = laddr AND 0x00000fff in
      if \<not> cr0_pg (cr0 s) then Done (laddr, True) s
      else if lpf tlbEntry = LPFOf laddr then Done (ppf tlbEntry OR poffset, True) s
      else if get_PAE s then dbg_walk_pae 3 (ucast (cr3_masked s)) laddr s
      else dbg_walk_32 2 (cr3_masked s) laddr s))"

section \<open>Access through a linear address\<close>

text \<open>
  With paging off the TLB still caches host pointers of the pages touched. A read asks for a
  write pointer first and settles for a read pointer; a write takes a write pointer or none.
\<close>

definition fill_TLB_off_read :: "Bit32u \<Rightarrow> cpu \<Rightarrow> cpu" where
  "fill_TLB_off_read laddr s =
     (let p = LPFOf laddr in
      case getHostMemAddr (A20ADDR s p) BX_WRITE s of
        Some h \<Rightarrow> set_TLB (BX_TLB_INDEX_OF laddr)
          \<lparr>lpf = p, ppf = p, accessBits = 0xff, hostPageAddr = Some h\<rparr> s
      | None \<Rightarrow>
         (case getHostMemAddr (A20ADDR s p) BX_READ s of
            Some h \<Rightarrow> set_TLB (BX_TLB_INDEX_OF laddr)
              \<lparr>lpf = p, ppf = p,
               accessBits = TLB_ReadSysOK OR TLB_ReadUserOK OR TLB_ReadSysPtrOK OR TLB_ReadUserPtrOK,
               hostPageAddr = Some h\<rparr> s
          | None \<Rightarrow> set_TLB (BX_TLB_INDEX_OF laddr)
              \<lparr>lpf = p, ppf = p, accessBits = 0, hostPageAddr = None\<rparr> s))"

definition fill_TLB_off_write :: "Bit32u \<Rightarrow> cpu \<Rightarrow> cpu" where
  "fill_TLB_off_write laddr s =
     (let p = LPFOf laddr; host = getHostMemAddr (A20ADDR s p) BX_WRITE s in
      set_TLB (BX_TLB_INDEX_OF laddr)
        \<lparr>lpf = p, ppf = p, accessBits = (if host \<noteq> None then 0xff else 0), hostPageAddr = host\<rparr> s)"

text \<open>
  \<open>access_linear\<close> with \<open>rw\<close> equal to \<open>BX_READ\<close> or \<open>BX_RW\<close> returns the bytes
  read; \<open>BX_RW\<close> translates for a write.
\<close>

definition read_paged :: "Bit32u \<Rightarrow> nat \<Rightarrow> bool \<Rightarrow> access_op \<Rightarrow> Bit8u list bx" where
  "read_paged laddr len pl xlate_rw =
     (let pageOffset = unat (laddr AND 0x00000fff); l1 = 4096 - pageOffset; l2 = len - l1 in
      if pageOffset + len \<le> 4096 then
        and_then (translate_linear laddr pl xlate_rw) (\<lambda>pa.
        and_then (update (\<lambda>s. s\<lparr>paddress1 := pa, pages := Pages 1\<rparr>)) (\<lambda>_.
        readPhysicalPage pa len))
      else
        and_then (translate_linear laddr pl xlate_rw) (\<lambda>pa1.
        and_then (update (\<lambda>s. s\<lparr>paddress1 := pa1, len1 := l1, len2 := l2, pages := Pages 2\<rparr>)) (\<lambda>_.
        and_then (translate_linear (laddr + word_of_nat l1) pl xlate_rw) (\<lambda>pa2.
        and_then (update (\<lambda>s. s\<lparr>paddress2 := pa2\<rparr>)) (\<lambda>_.
        and_then (readPhysicalPage pa1 l1) (\<lambda>bs1.
        and_then (readPhysicalPage pa2 l2) (\<lambda>bs2. ret (bs1 @ bs2))))))))"

definition read_unpaged :: "Bit32u \<Rightarrow> nat \<Rightarrow> Bit8u list bx" where
  "read_unpaged laddr len =
     (let pageOffset = unat (laddr AND 0x00000fff); l1 = 4096 - pageOffset; l2 = len - l1 in
      if pageOffset + len \<le> 4096 then
        and_then (update (\<lambda>s. s\<lparr>paddress1 := laddr, pages := Pages 1\<rparr>)) (\<lambda>_ s.
          if lpf (TLB s (BX_TLB_INDEX_OF laddr)) = LPFOf laddr then readPhysicalPage laddr len s
          else and_then (update (fill_TLB_off_read laddr)) (\<lambda>_. readPhysicalPage laddr len) s)
      else
        and_then (update (\<lambda>s. s\<lparr>paddress1 := laddr, paddress2 := laddr + word_of_nat l1,
          len1 := l1, len2 := l2, pages := Pages 2\<rparr>)) (\<lambda>_.
        and_then (readPhysicalPage laddr l1) (\<lambda>bs1.
        and_then (readPhysicalPage (laddr + word_of_nat l1) l2) (\<lambda>bs2. ret (bs1 @ bs2)))))"

definition access_linear_read :: "Bit32u \<Rightarrow> nat \<Rightarrow> bool \<Rightarrow> access_op \<Rightarrow> Bit8u list bx" where
  "access_linear_read laddr len pl xlate_rw = (\<lambda>s.
     if cr0_pg (cr0 s) then read_paged laddr len pl xlate_rw s else read_unpaged laddr len s)"

definition write_paged :: "Bit32u \<Rightarrow> Bit8u list \<Rightarrow> bool \<Rightarrow> unit bx" where
  "write_paged laddr data pl =
     (let pageOffset = unat (laddr AND 0x00000fff); len = length data; l1 = 4096 - pageOffset; l2 = len - l1 in
      if pageOffset + len \<le> 4096 then
        and_then (translate_linear laddr pl BX_WRITE) (\<lambda>pa.
        and_then (update (\<lambda>s. s\<lparr>paddress1 := pa, pages := Pages 1\<rparr>)) (\<lambda>_.
        writePhysicalPage pa data))
      else
        and_then (translate_linear laddr pl BX_WRITE) (\<lambda>pa1.
        and_then (update (\<lambda>s. s\<lparr>paddress1 := pa1, len1 := l1, len2 := l2, pages := Pages 2\<rparr>)) (\<lambda>_.
        and_then (translate_linear (laddr + word_of_nat l1) pl BX_WRITE) (\<lambda>pa2.
        and_then (update (\<lambda>s. s\<lparr>paddress2 := pa2\<rparr>)) (\<lambda>_.
        and_then (writePhysicalPage pa1 (take l1 data)) (\<lambda>_.
        writePhysicalPage pa2 (drop l1 data)))))))"

definition write_unpaged :: "Bit32u \<Rightarrow> Bit8u list \<Rightarrow> unit bx" where
  "write_unpaged laddr data =
     (let pageOffset = unat (laddr AND 0x00000fff); len = length data; l1 = 4096 - pageOffset; l2 = len - l1 in
      if pageOffset + len \<le> 4096 then
        and_then (update (\<lambda>s. s\<lparr>paddress1 := laddr, pages := Pages 1\<rparr>)) (\<lambda>_ s.
          if lpf (TLB s (BX_TLB_INDEX_OF laddr)) = LPFOf laddr then writePhysicalPage laddr data s
          else and_then (update (fill_TLB_off_write laddr)) (\<lambda>_. writePhysicalPage laddr data) s)
      else
        and_then (update (\<lambda>s. s\<lparr>paddress1 := laddr, paddress2 := laddr + word_of_nat l1,
          len1 := l1, len2 := l2, pages := Pages 2\<rparr>)) (\<lambda>_.
        and_then (writePhysicalPage laddr (take l1 data)) (\<lambda>_.
        writePhysicalPage (laddr + word_of_nat l1) (drop l1 data))))"

definition access_linear_write :: "Bit32u \<Rightarrow> Bit8u list \<Rightarrow> bool \<Rightarrow> unit bx" where
  "access_linear_write laddr data pl = (\<lambda>s.
     if cr0_pg (cr0 s) then write_paged laddr data pl s else write_unpaged laddr data s)"

end
