(* ===== verification/BxMemorySpec.thy ===== *)
theory BxMemorySpec
  imports BxMemory
begin

text \<open>
  What physical memory promises: every address has a byte (\<open>phys_byte\<close>: RAM, ROM, or
  ones), \<open>readPhysicalPage\<close> and \<open>writePhysicalPage\<close> read and write those bytes
  without leaving the allocated block, and a host pointer of \<open>getHostMemAddr\<close> is a
  shortcut to the same bytes.
\<close>

section \<open>Pages\<close>

definition in_page :: "Bit32u \<Rightarrow> nat \<Rightarrow> bool" where
  "in_page a n \<longleftrightarrow> unat a mod 4096 + n \<le> 4096"

definition page_of :: "Bit32u \<Rightarrow> Bit32u" where
  "page_of a = a AND NOT 0xfff"

lemma nat_page_arith:
  fixes x k :: nat
  assumes "x < 0x100000000" "x mod 4096 + k < 4096"
  shows "x + k < 0x100000000" and "(x + k) div 4096 = x div 4096"
proof -
  have d: "x = 4096 * (x div 4096) + x mod 4096" by simp
  have q: "x div 4096 < 0x100000"
    using assms(1) by (simp add: less_mult_imp_div_less)
  show "x + k < 0x100000000"
    using d q assms(2) by linarith
  have "(4096 * q + r) div 4096 = q" if "r < 4096" for q r :: nat
    using that by simp
  from this [OF assms(2), of "x div 4096"] show "(x + k) div 4096 = x div 4096"
    using d by (metis add.assoc)
qed

lemma unat_less_32: "unat (a :: Bit32u) < 0x100000000"
  using unsigned_less [of a] by simp

lemma unat_add_in_page:
  assumes "in_page a n" "k < n"
  shows "unat (a + word_of_nat k) = unat a + k"
proof -
  have "unat a + k < 0x100000000"
    using assms unat_less_32 [of a] unfolding in_page_def by (intro nat_page_arith) simp_all
  then show ?thesis
    by (simp add: unat_word_ariths unat_of_nat)
qed

lemma and_not_mask: "a AND NOT (mask n) = push_bit n (drop_bit n (a :: 'a::len word))"
  by (rule bit_word_eqI) (auto simp: bit_simps)

lemma drop_bit_12_add:
  assumes "in_page a n" "k < n"
  shows "drop_bit 12 (a + word_of_nat k) = drop_bit 12 a"
proof -
  have "(unat a + k) div 4096 = unat a div 4096"
    using assms unat_less_32 [of a] unfolding in_page_def by (intro nat_page_arith) simp_all
  then have "drop_bit 12 (unat (a + word_of_nat k)) = drop_bit 12 (unat a)"
    by (simp add: unat_add_in_page [OF assms] drop_bit_eq_div)
  then show ?thesis
    by (simp only: word_unat_eq_iff unat_drop_bit_eq)
qed

text \<open>A mask of high bits does not see the offset in a page.\<close>

lemma and_high_add:
  assumes "M = NOT (mask m)" "12 \<le> m" "in_page a n" "k < n"
  shows "(a + word_of_nat k) AND M = a AND M"
proof -
  have "drop_bit m w = drop_bit (m - 12) (drop_bit 12 w)" for w :: Bit32u
    using assms(2) by (simp add: drop_bit_drop_bit)
  then have "drop_bit m (a + word_of_nat k) = drop_bit m a"
    by (simp only: drop_bit_12_add [OF assms(3,4)])
  then show ?thesis
    by (simp only: assms(1) and_not_mask)
qed

lemma high_bits_eq:
  fixes a :: Bit32u
  assumes "M = NOT (mask n)" "C = push_bit n c" "drop_bit n C = c"
  shows "a AND M = C \<longleftrightarrow> unat a div 2 ^ n = unat c"
proof -
  have "drop_bit n (push_bit n (drop_bit n a)) = drop_bit n a"
    by (rule bit_word_eqI) (auto simp: bit_simps dest: bit_imp_le_length)
  then have "a AND M = C \<longleftrightarrow> drop_bit n a = c"
    using assms by (metis and_not_mask)
  also have "\<dots> \<longleftrightarrow> drop_bit n (unat a) = unat c"
    by (simp only: word_unat_eq_iff [of "drop_bit n a"] unat_drop_bit_eq)
  finally show ?thesis
    by (simp only: drop_bit_eq_div)
qed

section \<open>Byte-wise reference semantics\<close>

text \<open>
  Where the byte of a guest physical address lives in the host block; \<open>None\<close> is an
  address that nothing answers.
\<close>

definition phys_index :: "bx_mem \<Rightarrow> Bit32u \<Rightarrow> nat option" where
  "phys_index m a = (
     if unat a < mem_len m then
       (if a AND 0xfffc0000 \<noteq> 0x000c0000 then Some (unat a)
        else if a AND 0xfffe0000 = 0x000e0000 then Some (rom_index m (unat (a AND BIOS_MASK)))
        else Some (rom_index m (unat (a AND EXROM_MASK) + BIOSROMSZ)))
     else if a \<ge> NOT BIOS_MASK then Some (rom_index m (unat (a AND BIOS_MASK)))
     else None)"

definition phys_byte :: "bx_mem \<Rightarrow> Bit32u \<Rightarrow> Bit8u" where
  "phys_byte m a = (case phys_index m a of Some i \<Rightarrow> vector m i | None \<Rightarrow> 0xff)"

text \<open>RAM of whole megabytes that leaves the top ROM area free.\<close>

definition mem_wf :: "bx_mem \<Rightarrow> bool" where
  "mem_wf m \<longleftrightarrow> 0x100000 \<le> mem_len m \<and> mem_len m \<le> 0xfff80000 \<and> 0x100000 dvd mem_len m"

text \<open>No device claims the address.\<close>

definition plain_ram :: "cpu \<Rightarrow> Bit32u \<Rightarrow> bool" where
  "plain_ram s a \<longleftrightarrow> \<not> handled (mem s) (A20ADDR s a) \<and>
     \<not> is_selected (local_apic_base s) a \<and> \<not> is_selected (ioapic_base s) a"

lemma load_host_Done: "i < host_size (mem s) \<Longrightarrow> load_host i s = Done (vector (mem s) i) s"
  by (simp add: load_host_def)

lemma load_hosts_Done:
  assumes "i + n \<le> host_size (mem s)"
  shows "load_hosts i n s = Done (map (vector (mem s)) [i..<i + n]) s"
  using assms
proof (induction n arbitrary: i)
  case (Suc n)
  then have "load_hosts (Suc i) n s = Done (map (vector (mem s)) [Suc i..<Suc i + n]) s"
    by simp
  with Suc.prems show ?case
    by (simp add: load_host_Done upt_conv_Cons del: upt_Suc)
qed simp

lemma unat_and_mask_less:
  "unat (a AND BIOS_MASK) < BIOSROMSZ" "unat (a AND EXROM_MASK) < EXROMSIZE"
proof -
  have "a AND BIOS_MASK \<le> BIOS_MASK" "a AND EXROM_MASK \<le> EXROM_MASK"
    by (rule word_and_le1)+
  then show "unat (a AND BIOS_MASK) < BIOSROMSZ" "unat (a AND EXROM_MASK) < EXROMSIZE"
    by (simp_all add: BIOS_MASK_def BIOSROMSZ_def EXROM_MASK_def EXROMSIZE_def word_le_nat_alt)
qed

lemma phys_index_less: "phys_index m a = Some i \<Longrightarrow> i < host_size m"
  using unat_and_mask_less [of a]
  by (auto simp: phys_index_def rom_index_def host_size_def split: if_splits)

lemma upper_half_iff: "a AND 0xfff80000 = (0x00080000 :: Bit32u) \<longleftrightarrow> unat a div 0x80000 = 1"
  by (rule trans, rule high_bits_eq [where n = 19 and c = 1]) (simp_all add: mask_eq_exp_minus_1)

lemma rom_area_iff: "a AND 0xfffc0000 = (0x000c0000 :: Bit32u) \<longleftrightarrow> unat a div 0x40000 = 3"
  by (rule trans, rule high_bits_eq [where n = 18 and c = 3]) (simp_all add: mask_eq_exp_minus_1)

lemma bios_area_iff: "a AND 0xfffe0000 = (0x000e0000 :: Bit32u) \<longleftrightarrow> unat a div 0x20000 = 7"
  by (rule trans, rule high_bits_eq [where n = 17 and c = 7]) (simp_all add: mask_eq_exp_minus_1)

lemma vga_area_iff: "a AND 0xfffe0000 = (0x000a0000 :: Bit32u) \<longleftrightarrow> unat a div 0x20000 = 5"
  by (rule trans, rule high_bits_eq [where n = 17 and c = 5]) (simp_all add: mask_eq_exp_minus_1)

section \<open>Reads\<close>

abbreviation phys_bytes :: "bx_mem \<Rightarrow> Bit32u \<Rightarrow> nat \<Rightarrow> Bit8u list" where
  "phys_bytes \<equiv> bytes_at phys_byte"

lemma read_byte_inside_Done:
  assumes "mem_wf (mem s)" "unat a < mem_len (mem s)"
  shows "read_byte_inside a s = Done (phys_byte (mem s) a) s"
proof -
  have "\<exists>i. phys_index (mem s) a = Some i \<and> read_byte_inside a s = load_host i s"
    using assms by (auto simp: read_byte_inside_def phys_index_def upper_half_iff rom_area_iff bios_area_iff)
  then obtain i where "phys_index (mem s) a = Some i" "read_byte_inside a s = load_host i s"
    by blast
  then show ?thesis
    by (simp add: load_host_Done [OF phys_index_less] phys_byte_def)
qed

lemma read_one_Done:
  assumes "mem_wf (mem s)" "unat a + n \<le> mem_len (mem s)" "mem_len (mem s) < 0x100000000"
  shows "read_one a n s = Done (phys_bytes (mem s) a n) s"
  using assms(2)
proof (induction n arbitrary: a)
  case (Suc n)
  then have "unat (a + 1) = unat a + 1" if "n \<noteq> 0"
    using that assms(3) by (simp add: unat_word_ariths)
  then have "read_one (a + 1) n s = Done (phys_bytes (mem s) (a + 1) n) s"
    using Suc.IH [of "a + 1"] Suc.prems by (cases "n = 0") simp_all
  then show ?case
    using Suc.prems assms(1) by (simp add: read_byte_inside_Done bytes_at_Suc)
qed simp

lemma read_byte_outside_Done:
  assumes "mem_len (mem s) \<le> unat a"
  shows "read_byte_outside a s = Done (phys_byte (mem s) a) s"
  using assms unat_and_mask_less [of a]
  by (simp add: read_byte_outside_def phys_byte_def phys_index_def load_host_def rom_index_def host_size_def)

lemma read_outside_Done:
  assumes "mem_len (mem s) \<le> unat a" "unat a + n \<le> 0x100000000"
  shows "read_outside a a n s = Done (phys_bytes (mem s) a n) s"
  using assms
proof (induction n arbitrary: a)
  case (Suc n)
  then have "unat (a + 1) = unat a + 1" if "n \<noteq> 0"
    using that by (simp add: unat_word_ariths)
  then have "read_outside (a + 1) (a + 1) n s = Done (phys_bytes (mem s) (a + 1) n) s"
    using Suc.IH [of "a + 1"] Suc.prems by (cases "n = 0") simp_all
  then show ?case
    using Suc.prems by (simp add: read_byte_outside_Done bytes_at_Suc)
qed simp

lemma phys_bytes_ram:
  assumes "in_page a n" "unat a + n \<le> mem_len m" "a AND 0xfff80000 \<noteq> 0x00080000"
  shows "phys_bytes m a n = map (vector m) [unat a..<unat a + n]"
proof -
  have "phys_byte m (a + word_of_nat k) = vector m (unat a + k)" if k: "k < n" for k
  proof -
    have "(a + word_of_nat k) AND 0xfff80000 = a AND 0xfff80000"
      by (rule and_high_add [OF _ _ assms(1) k, where m = 19]) (simp_all add: mask_eq_exp_minus_1)
    with assms(3) have "\<not> unat (a + word_of_nat k) div 0x80000 = 1"
      by (simp only: upper_half_iff [symmetric]) simp
    then have "\<not> unat (a + word_of_nat k) div 0x40000 = 3"
      using div_mult2_eq [of "unat (a + word_of_nat k)" "0x40000" 2] by auto
    then show ?thesis
      using assms(2) k unat_add_in_page [OF assms(1) k] by (simp add: phys_byte_def phys_index_def rom_area_iff)
  qed
  then show ?thesis
    by (auto simp: bytes_at_def list_eq_iff_nth_eq)
qed

lemma page_inside_or_outside:
  assumes "mem_wf m" "in_page a n" "\<not> unat a + n \<le> mem_len m"
  shows "mem_len m \<le> unat a"
proof -
  have "4096 dvd mem_len m"
    using assms(1) by (auto simp: mem_wf_def intro: dvd_trans [of 4096 "0x100000"])
  then obtain q where "mem_len m = 4096 * q" ..
  have d: "unat a = 4096 * (unat a div 4096) + unat a mod 4096"
    by simp
  show ?thesis
  proof (rule ccontr)
    assume "\<not> mem_len m \<le> unat a"
    then have "unat a div 4096 < q"
      using \<open>mem_len m = 4096 * q\<close> by (simp add: less_mult_imp_div_less)
    then show False
      using assms(2,3) d \<open>mem_len m = 4096 * q\<close> unfolding in_page_def by linarith
  qed
qed

lemma read_spec:
  assumes wf: "mem_wf (mem s)" and plain: "plain_ram s addr"
    and page: "in_page (A20ADDR s addr) n"
    and nowrap: "unat (A20ADDR s addr) + n < 0x100000000"
    and a20: "A20ADDR s addr = addr \<or> n = 1 \<or> unat (A20ADDR s addr) + n \<le> mem_len (mem s)"
  shows "readPhysicalPage addr n s = Done (phys_bytes (mem s) (A20ADDR s addr) n) s"
proof -
  define a where "a = A20ADDR s addr"
  have len: "mem_len (mem s) < 0x100000000"
    using wf by (simp add: mem_wf_def)
  have sum: "unat (a + word_of_nat n) = unat a + n"
    using nowrap by (simp add: unat_word_ariths unat_of_nat a_def)
  have dev: "\<not> handled (mem s) a" "\<not> is_selected (local_apic_base s) addr" "\<not> is_selected (ioapic_base s) addr"
    using plain by (simp_all add: plain_ram_def a_def)
  show ?thesis
  proof (cases "unat a + n \<le> mem_len (mem s)")
    case True
    then have "unat a + n \<le> host_size (mem s)"
      by (simp add: host_size_def)
    with True show ?thesis
      using dev page wf len
      by (auto simp: readPhysicalPage_def Let_def sum load_hosts_Done phys_bytes_ram read_one_Done simp flip: a_def)
  next
    case False
    then have out: "mem_len (mem s) \<le> unat a"
      using page_inside_or_outside wf page a_def by blast
    have "read_outside a addr n s = Done (phys_bytes (mem s) a n) s"
    proof (cases "a = addr")
      case True
      then show ?thesis
        using read_outside_Done [of s a n] out nowrap a_def by simp
    next
      case False
      with a20 \<open>\<not> unat a + n \<le> mem_len (mem s)\<close> have "n = Suc 0"
        by (simp add: a_def)
      then show ?thesis
        by (simp add: read_byte_outside_Done [OF out] bytes_at_Suc)
    qed
    with False show ?thesis
      using dev by (simp add: readPhysicalPage_def Let_def sum flip: a_def)
  qed
qed

section \<open>Writes\<close>

definition writable :: "bx_mem \<Rightarrow> Bit32u \<Rightarrow> bool" where
  "writable m a \<longleftrightarrow> unat a < mem_len m \<and> \<not> (0xa0000 \<le> unat a \<and> unat a < 0x100000)"

definition phys_write :: "Bit32u \<Rightarrow> Bit8u \<Rightarrow> bx_mem \<Rightarrow> bx_mem" where
  "phys_write a b m = (if writable m a then m\<lparr>vector := (vector m)(unat a := b)\<rparr> else m)"

abbreviation phys_writes :: "Bit32u \<Rightarrow> Bit8u list \<Rightarrow> bx_mem \<Rightarrow> bx_mem" where
  "phys_writes \<equiv> write_bytes phys_write"

lemma phys_write_fields [simp]:
  "mem_len (phys_write a b m) = mem_len m"
  "memory_handlers (phys_write a b m) = memory_handlers m"
  "rom_present (phys_write a b m) = rom_present m"
  "writable (phys_write a b m) c = writable m c"
  "phys_index (phys_write a b m) c = phys_index m c"
  "host_size (phys_write a b m) = host_size m"
  by (simp_all add: phys_write_def writable_def phys_index_def rom_index_def host_size_def)

lemma phys_writes_fields [simp]:
  "mem_len (phys_writes a bs m) = mem_len m"
  "memory_handlers (phys_writes a bs m) = memory_handlers m"
  "rom_present (phys_writes a bs m) = rom_present m"
  "writable (phys_writes a bs m) c = writable m c"
  "phys_index (phys_writes a bs m) c = phys_index m c"
  "host_size (phys_writes a bs m) = host_size m"
  by (induction bs arbitrary: a m) simp_all

lemma phys_index_writable: "writable m a \<Longrightarrow> phys_index m a = Some (unat a)"
  by (auto simp: writable_def phys_index_def rom_area_iff)

lemma phys_index_eq_unat:
  assumes "phys_index m c = Some i" "i < mem_len m"
  shows "unat c = i"
  using assms by (auto simp: phys_index_def rom_index_def split: if_splits)

lemma phys_byte_write:
  "phys_byte (phys_write a b m) c = (if writable m a \<and> c = a then b else phys_byte m c)"
proof (cases "writable m a")
  case True
  then have "unat a < mem_len m"
    by (simp add: writable_def)
  then have "phys_index m c = Some (unat a) \<Longrightarrow> c = a"
    using phys_index_eq_unat by (metis word_unat_eq_iff)
  moreover have "vector (phys_write a b m) i = (if i = unat a then b else vector m i)" for i
    using True by (simp add: phys_write_def)
  ultimately show ?thesis
    using True phys_index_writable [OF True] by (auto simp: phys_byte_def split: option.split)
next
  case False
  then show ?thesis by (simp add: phys_write_def)
qed

text \<open>Physical memory is a byte store.\<close>

interpretation phys: byte_store phys_byte phys_write writable
  by unfold_locales (simp_all add: phys_byte_write)

abbreviation with_mem :: "cpu \<Rightarrow> bx_mem \<Rightarrow> cpu" where
  "with_mem s m \<equiv> s\<lparr>mem := m\<rparr>"

lemma write_byte_inside_Done:
  assumes "unat a < mem_len (mem s)"
  shows "write_byte_inside a b s = Done () (with_mem s (phys_write a b (mem s)))"
proof -
  have "a \<le> 0x0009ffff \<longleftrightarrow> unat a < 0xa0000"
    by (auto simp: word_le_nat_alt)
  moreover have "unat a div 0x80000 = 1 \<longleftrightarrow> 0x80000 \<le> unat a \<and> unat a < 0x100000"
    by (auto simp: div_nat_eqI)
  moreover have "unat a < host_size (mem s)"
    using assms by (simp add: host_size_def)
  ultimately show ?thesis
    using assms
    by (auto simp: write_byte_inside_def store_host_def phys_write_def writable_def upper_half_iff)
qed

lemma write_one_Done:
  assumes "unat a + length bs \<le> mem_len (mem s)" "mem_len (mem s) < 0x100000000"
  shows "write_one a bs s = Done () (with_mem s (phys_writes a bs (mem s)))"
  using assms
proof (induction bs arbitrary: a s)
  case (Cons b bs)
  define t where "t = with_mem s (phys_write a b (mem s))"
  have "unat (a + 1) = unat a + 1" if "bs \<noteq> []"
    using that Cons.prems by (cases bs) (simp_all add: unat_word_ariths)
  then have "write_one (a + 1) bs t = Done () (with_mem t (phys_writes (a + 1) bs (mem t)))"
    using Cons.IH [of "a + 1" t] Cons.prems by (cases "bs = []") (simp_all add: t_def)
  then show ?case
    using Cons.prems by (simp add: write_byte_inside_Done t_def)
qed simp

lemma write_outside_Done:
  assumes "mem_len (mem s) \<le> unat a" "unat a + length bs \<le> 0x100000000"
  shows "write_outside a a bs s = Done () s"
  using assms
proof (induction bs arbitrary: a)
  case (Cons b bs)
  have "unat (a + 1) = unat a + 1" if "bs \<noteq> []"
    using that Cons.prems by (cases bs) (simp_all add: unat_word_ariths)
  then have "write_outside (a + 1) (a + 1) bs s = Done () s"
    using Cons.IH [of "a + 1"] Cons.prems by (cases "bs = []") simp_all
  then show ?case
    using Cons.prems by (simp add: write_byte_outside_def)
qed simp

lemma phys_writes_outside:
  assumes "mem_len m \<le> unat a" "unat a + length bs \<le> 0x100000000"
  shows "phys_writes a bs m = m"
  using assms
proof (induction bs arbitrary: a)
  case (Cons b bs)
  have "unat (a + 1) = unat a + 1" if "bs \<noteq> []"
    using that Cons.prems by (cases bs) (simp_all add: unat_word_ariths)
  then have "phys_writes (a + 1) bs m = m"
    using Cons.IH [of "a + 1"] Cons.prems by (cases "bs = []") simp_all
  moreover have "phys_write a b m = m"
    using Cons.prems by (simp add: phys_write_def writable_def)
  ultimately show ?case by simp
qed simp

lemma store_hosts_Done:
  assumes "unat a + length bs \<le> mem_len (mem s)"
    and "\<And>k. k < length bs \<Longrightarrow> writable (mem s) (a + word_of_nat k) \<and> unat (a + word_of_nat k) = unat a + k"
  shows "store_hosts (unat a) bs s = Done () (with_mem s (phys_writes a bs (mem s)))"
  using assms
proof (induction bs arbitrary: a s)
  case (Cons b bs)
  define t where "t = with_mem s (phys_write a b (mem s))"
  have "writable (mem s) a"
    using Cons.prems(2) [of 0] by simp
  then have "store_host (unat a) b s = Done () t"
    by (simp add: store_host_def t_def phys_write_def writable_def host_size_def)
  moreover have "store_hosts (Suc (unat a)) bs t = Done () (with_mem t (phys_writes (a + 1) bs (mem t)))"
  proof (cases "bs = []")
    case False
    have a1: "unat (a + 1) = Suc (unat a)"
      using Cons.prems(2) [of 1] False by simp
    have "writable (mem t) (a + 1 + word_of_nat k) \<and> unat (a + 1 + word_of_nat k) = unat (a + 1) + k"
      if "k < length bs" for k
      using Cons.prems(2) [of "Suc k"] that a1 by (simp add: algebra_simps t_def)
    then show ?thesis
      using Cons.IH [of "a + 1" t] Cons.prems(1) by (simp add: t_def a1)
  qed simp
  ultimately show ?case
    by (simp add: t_def)
qed simp

lemma write_spec:
  assumes wf: "mem_wf (mem s)"
    and dev: "\<not> handled (mem s) (A20ADDR s addr)" "\<not> is_selected (local_apic_base s) (A20ADDR s addr)"
      "\<not> is_selected (ioapic_base s) (A20ADDR s addr)"
    and page: "in_page (A20ADDR s addr) (length bs)"
    and nowrap: "unat (A20ADDR s addr) + length bs < 0x100000000"
    and a20: "A20ADDR s addr = addr \<or> length bs = 1 \<or> unat (A20ADDR s addr) + length bs \<le> mem_len (mem s)"
  shows "writePhysicalPage addr bs s = Done () (with_mem s (phys_writes (A20ADDR s addr) bs (mem s)))"
proof -
  define a where "a = A20ADDR s addr"
  have len: "mem_len (mem s) < 0x100000000"
    using wf by (simp add: mem_wf_def)
  have sum: "unat (a + word_of_nat (length bs)) = unat a + length bs"
    using nowrap by (simp add: unat_word_ariths unat_of_nat a_def)
  show ?thesis
  proof (cases "unat a + length bs \<le> mem_len (mem s)")
    case True
    have "store_hosts (unat a) bs s = Done () (with_mem s (phys_writes a bs (mem s)))"
      if "a AND 0xfff80000 \<noteq> 0x00080000"
    proof (rule store_hosts_Done [OF True])
      fix k assume k: "k < length bs"
      have "(a + word_of_nat k) AND 0xfff80000 = a AND 0xfff80000"
        by (rule and_high_add [OF _ _ _ k, where m = 19]) (simp_all add: mask_eq_exp_minus_1 page a_def)
      with that have "unat (a + word_of_nat k) div 0x80000 \<noteq> 1"
        by (simp only: upper_half_iff [symmetric]) simp
      then have "\<not> (0xa0000 \<le> unat (a + word_of_nat k) \<and> unat (a + word_of_nat k) < 0x100000)"
        by (auto simp: div_nat_eqI)
      then show "writable (mem s) (a + word_of_nat k) \<and> unat (a + word_of_nat k) = unat a + k"
        using unat_add_in_page [OF page k] True k by (simp add: writable_def a_def)
    qed
    with True show ?thesis
      using dev wf len
      by (auto simp: writePhysicalPage_def Let_def sum write_one_Done simp flip: a_def)
  next
    case False
    then have out: "mem_len (mem s) \<le> unat a"
      using page_inside_or_outside wf page a_def by blast
    have "write_outside a addr bs s = Done () s"
    proof (cases "a = addr")
      case True
      then show ?thesis
        using write_outside_Done [of s a bs] out nowrap a_def by simp
    next
      case False
      with a20 \<open>\<not> unat a + length bs \<le> mem_len (mem s)\<close> obtain b where "bs = [b]"
        by (auto simp: a_def length_Suc_conv)
      then show ?thesis
        using out by (simp add: write_byte_outside_def)
    qed
    moreover have "phys_writes a bs (mem s) = mem s"
      using phys_writes_outside out nowrap a_def by simp
    ultimately show ?thesis
      using False dev by (simp add: writePhysicalPage_def Let_def sum flip: a_def)
  qed
qed

section \<open>Direct host pointers\<close>

lemma unat_and_mask_eq:
  "unat (a AND BIOS_MASK) = unat a mod 0x80000" "unat (a AND EXROM_MASK) = unat a mod 0x20000"
proof -
  have "a AND BIOS_MASK = take_bit 19 a" "a AND EXROM_MASK = take_bit 17 a"
    by (simp_all add: BIOS_MASK_def EXROM_MASK_def take_bit_eq_mask mask_eq_exp_minus_1)
  then have "unat (a AND BIOS_MASK) = take_bit 19 (unat a)" "unat (a AND EXROM_MASK) = take_bit 17 (unat a)"
    by (simp_all only: unsigned_take_bit_eq)
  then show "unat (a AND BIOS_MASK) = unat a mod 0x80000" "unat (a AND EXROM_MASK) = unat a mod 0x20000"
    by (simp_all add: take_bit_eq_mod)
qed

lemma top_rom_iff: "a \<ge> NOT BIOS_MASK \<longleftrightarrow> 0xfff80000 \<le> unat a"
  by (simp add: BIOS_MASK_def word_le_nat_alt)

lemma nat_mod_page_add:
  fixes x k M :: nat
  assumes "4096 dvd x" "4096 dvd M" "k < 4096" "0 < M"
  shows "(x + k) mod M = x mod M + k"
proof -
  have "4096 dvd x mod M"
    using assms(1,2) by (simp add: dvd_mod_iff)
  moreover have "x mod M < M"
    using assms(4) by simp
  ultimately have "x mod M + k < M"
    using assms(2,3) by (auto elim!: dvdE)
  then show ?thesis
    by (metis mod_add_left_eq mod_less)
qed

lemma nat_div_page_add:
  fixes x k M :: nat
  assumes "4096 dvd x" "4096 dvd M" "k < 4096" "0 < M"
  shows "(x + k) div M = x div M"
proof -
  have "x mod M + k < M"
    using nat_mod_page_add [OF assms] assms(4) mod_less_divisor [of M "x + k"] by simp
  moreover have "x + k = M * (x div M) + (x mod M + k)"
    by simp
  ultimately show ?thesis
    by (metis div_mult_self4 div_less add.right_neutral assms(4) neq0_conv add.commute)
qed

definition page_aligned :: "Bit32u \<Rightarrow> bool" where
  "page_aligned p \<longleftrightarrow> 4096 dvd unat p"

lemma unat_page_add:
  assumes "page_aligned p" "k < 4096"
  shows "unat (p + word_of_nat k) = unat p + k"
  by (rule unat_add_in_page [where n = 4096]) (use assms in \<open>auto simp: in_page_def page_aligned_def\<close>)

lemma phys_index_page:
  assumes p: "page_aligned p" and k: "k < 4096" and wf: "mem_wf m"
  shows "phys_index m (p + word_of_nat k) = map_option (\<lambda>i. i + k) (phys_index m p)"
proof -
  have d: "4096 dvd unat p"
    using p by (simp add: page_aligned_def)
  note ops = nat_div_page_add [OF d _ k] nat_mod_page_add [OF d _ k]
  have "4096 dvd mem_len m"
    using wf by (auto simp: mem_wf_def intro: dvd_trans [of 4096 "0x100000"])
  then have "unat p + k < mem_len m \<longleftrightarrow> unat p < mem_len m"
    using d k by (auto elim!: dvdE)
  moreover have "(0xfff80000 :: nat) \<le> unat p + k \<longleftrightarrow> 0xfff80000 \<le> unat p"
    using d k by (auto elim!: dvdE)
  ultimately show ?thesis
    unfolding phys_index_def rom_area_iff bios_area_iff top_rom_iff unat_and_mask_eq
      unat_page_add [OF p k] rom_index_def
    by (simp add: ops)
qed

text \<open>Device ranges made of whole pages, as all registered ones are.\<close>

definition handlers_paged :: "bx_mem \<Rightarrow> bool" where
  "handlers_paged m \<longleftrightarrow>
     (\<forall>i. list_all (\<lambda>h. 4096 dvd mh_begin h \<and> 4096 dvd Suc (mh_end h)) (memory_handlers m i))"

lemma handled_page:
  assumes p: "page_aligned p" and k: "k < 4096" and m: "handlers_paged m"
  shows "handled m (p + word_of_nat k) = handled m p"
proof -
  have d: "4096 dvd unat p"
    using p by (simp add: page_aligned_def)
  have "unat (drop_bit 20 (p + word_of_nat k)) = unat (drop_bit 20 p)"
    using nat_div_page_add [OF d _ k, of "0x100000"]
    by (simp only: unat_drop_bit_eq unat_page_add [OF p k]) (simp add: drop_bit_eq_div)
  moreover have "handler_covers (unat p + k) h = handler_covers (unat p) h"
    if "4096 dvd mh_begin h" "4096 dvd Suc (mh_end h)" for h
  proof -
    have "mh_begin h \<le> unat p + k \<longleftrightarrow> mh_begin h \<le> unat p"
      using d k that(1) by (auto elim!: dvdE)
    moreover have "unat p + k < Suc (mh_end h) \<longleftrightarrow> unat p < Suc (mh_end h)"
      using d k that(2) by (auto elim!: dvdE)
    ultimately show ?thesis by (simp add: handler_covers_def less_Suc_eq_le)
  qed
  ultimately show ?thesis
    using m unfolding handled_def handlers_paged_def unat_page_add [OF p k]
    by (auto simp: list_ex_iff list_all_iff)
qed

lemma getHostMemAddr_BX_READ:
  assumes wf: "mem_wf (mem s)"
    and h: "getHostMemAddr a BX_READ s = Some h"
  shows "\<not> handled (mem s) a" "local_apic_base s \<noteq> a AND NOT 0xfff" "ioapic_base s \<noteq> a AND NOT 0xfff"
    and "h = (case phys_index (mem s) a of Some i \<Rightarrow> i | None \<Rightarrow> bogus_index (mem s) (unat (a AND 0x0fff)))"
  using h by (auto simp: getHostMemAddr_def phys_index_def split: if_splits)

lemma getHostMemAddr_BX_WRITE:
  assumes wf: "mem_wf (mem s)"
    and h: "getHostMemAddr a acc s = Some h" and acc: "acc \<noteq> BX_READ"
  shows "\<not> handled (mem s) a" "local_apic_base s \<noteq> a AND NOT 0xfff" "ioapic_base s \<noteq> a AND NOT 0xfff"
    and "h = unat a" "writable (mem s) a"
proof -
  show "\<not> handled (mem s) a" "local_apic_base s \<noteq> a AND NOT 0xfff" "ioapic_base s \<noteq> a AND NOT 0xfff" "h = unat a"
    using h acc by (auto simp: getHostMemAddr_def split: if_splits)
  have "unat a < mem_len (mem s)" "unat a div 0x20000 \<noteq> 5" "unat a div 0x40000 \<noteq> 3"
    using h acc by (auto simp: getHostMemAddr_def vga_area_iff rom_area_iff split: if_splits)
  moreover have "unat a div 0x20000 = 5" if "0xa0000 \<le> unat a" "unat a < 0xc0000"
    using that by (intro div_nat_eqI) simp_all
  moreover have "unat a div 0x40000 = 3" if "0xc0000 \<le> unat a" "unat a < 0x100000"
    using that by (intro div_nat_eqI) simp_all
  ultimately show "writable (mem s) a"
    unfolding writable_def by linarith
qed

text \<open>The page of missing memory reads as ones; nothing can write it.\<close>

definition bogus_ones :: "bx_mem \<Rightarrow> bool" where
  "bogus_ones m \<longleftrightarrow> (\<forall>k<4096. vector m (bogus_index m k) = 0xff)"

lemma bogus_ones_writes [simp]: "bogus_ones m \<Longrightarrow> bogus_ones (phys_writes a bs m)"
proof (induction bs arbitrary: a m)
  case (Cons b bs)
  then have "bogus_ones (phys_write a b m)"
    by (auto simp: bogus_ones_def phys_write_def writable_def bogus_index_def)
  with Cons.IH show ?case by simp
qed simp

lemma mem_wf_writes [simp]: "mem_wf (phys_writes a bs m) = mem_wf m"
  by (simp add: mem_wf_def)

lemma init_memory_wf:
  assumes "0x100000 \<le> memsize" "memsize \<le> 0xfff80000" "0x100000 dvd memsize"
  shows "mem_wf (init_memory memsize m) \<and> bogus_ones (init_memory memsize m)"
  using assms by (auto simp: mem_wf_def init_memory_def bogus_ones_def bogus_index_def)

text \<open>A host pointer to a page reads exactly what \<open>readPhysicalPage\<close> would.\<close>

lemma and_0xfff_page: "page_aligned p \<Longrightarrow> p AND 0x0fff = 0"
proof -
  have "p AND 0x0fff = take_bit 12 p"
    by (simp add: take_bit_eq_mask mask_eq_exp_minus_1)
  then have "unat (p AND 0x0fff) = unat p mod 4096"
    by (simp only: unsigned_take_bit_eq) (simp add: take_bit_eq_mod)
  then show "page_aligned p \<Longrightarrow> p AND 0x0fff = 0"
    by (simp add: page_aligned_def unat_eq_zero)
qed

lemma host_page_bytes:
  assumes wf: "mem_wf (mem s)" "bogus_ones (mem s)"
    and p: "page_aligned p" and h: "getHostMemAddr p BX_READ s = Some h" and kn: "k + n \<le> 4096"
  shows "load_hosts (h + k) n s = Done (phys_bytes (mem s) (p + word_of_nat k) n) s"
proof -
  have b: "vector (mem s) (h + k + j) = phys_byte (mem s) (p + word_of_nat k + word_of_nat j)" if "j < n" for j
  proof -
    have "k + j < 4096" using that kn by simp
    then have "phys_index (mem s) (p + word_of_nat (k + j)) = map_option (\<lambda>i. i + (k + j)) (phys_index (mem s) p)"
      by (rule phys_index_page [OF p _ wf(1)])
    then show ?thesis
      using getHostMemAddr_BX_READ(4) [OF wf(1) h] wf(2) \<open>k + j < 4096\<close>
      by (cases "phys_index (mem s) p")
        (simp_all add: phys_byte_def add.assoc and_0xfff_page [OF p] bogus_ones_def bogus_index_def)
  qed
  have "h + 4096 \<le> host_size (mem s)"
  proof (cases "phys_index (mem s) p")
    case None
    then show ?thesis
      using getHostMemAddr_BX_READ(4) [OF wf(1) h] and_0xfff_page [OF p]
      by (simp add: bogus_index_def host_size_def)
  next
    case (Some i)
    then have "phys_index (mem s) (p + word_of_nat 4095) = Some (i + 4095)"
      using phys_index_page [OF p _ wf(1), of 4095] by simp
    then have "i + 4095 < host_size (mem s)"
      by (rule phys_index_less)
    then show ?thesis
      using getHostMemAddr_BX_READ(4) [OF wf(1) h] Some by simp
  qed
  with kn have "load_hosts (h + k) n s = Done (map (vector (mem s)) [h + k..<h + k + n]) s"
    by (intro load_hosts_Done) simp
  also have "map (vector (mem s)) [h + k..<h + k + n] = phys_bytes (mem s) (p + word_of_nat k) n"
    using b by (auto simp: bytes_at_def list_eq_iff_nth_eq)
  finally show ?thesis .
qed

definition a20_mask_ok :: "cpu \<Rightarrow> bool" where
  "a20_mask_ok s \<longleftrightarrow> a20_mask s = 0xffffffff \<or> a20_mask s = 0xffefffff"

lemma and_not_push_bit_1:
  "x AND NOT (push_bit n 1) = x \<longleftrightarrow> \<not> bit (x :: 'a::len word) n"
proof -
  have *: "bit (x AND NOT (push_bit n 1)) k = (bit x k \<and> k \<noteq> n)" for k
    by (auto simp: bit_simps dest: bit_imp_le_length)
  show ?thesis
  proof
    assume "x AND NOT (push_bit n 1) = x"
    with * [of n] show "\<not> bit x n" by metis
  next
    assume "\<not> bit x n"
    with * show "x AND NOT (push_bit n 1) = x" by (intro bit_word_eqI) metis
  qed
qed

lemma A20ADDR_page:
  assumes "a20_mask_ok s" "page_aligned p" "k < 4096" "A20ADDR s p = p"
  shows "A20ADDR s (p + word_of_nat k) = p + word_of_nat k"
proof -
  have *: "x AND 0xffefffff = x \<longleftrightarrow> drop_bit 20 x AND 1 = 0" for x :: Bit32u
  proof -
    have m: "(0xffefffff :: Bit32u) = NOT (push_bit 20 1)" by simp
    have "drop_bit 20 x AND 1 = 0 \<longleftrightarrow> \<not> bit x 20"
      by (simp add: and_one_eq bit_iff_odd_drop_bit odd_iff_mod_2_eq_one)
    then show ?thesis
      by (simp only: m and_not_push_bit_1)
  qed
  have "drop_bit 20 (p + word_of_nat k) = drop_bit 8 (drop_bit 12 (p + word_of_nat k))"
    by (simp only: drop_bit_drop_bit) simp
  also have "\<dots> = drop_bit 8 (drop_bit 12 p)"
    by (subst drop_bit_12_add [where n = 4096]) (use assms(2,3) in \<open>auto simp: in_page_def page_aligned_def\<close>)
  finally have "drop_bit 20 (p + word_of_nat k) = drop_bit 20 p"
    by (simp only: drop_bit_drop_bit) simp
  moreover have "x AND 0xffffffff = x" for x :: Bit32u
  proof -
    have "(0xffffffff :: Bit32u) = - 1" by simp
    then show ?thesis by (simp only: and.right_neutral)
  qed
  ultimately show ?thesis
    using assms(1,4) unfolding A20ADDR_def a20_mask_ok_def by (auto simp: *)
qed

lemma page_base_add:
  assumes "page_aligned p" "k < 4096"
  shows "(p + word_of_nat k) AND NOT 0xfff = p AND NOT 0xfff"
  by (rule and_high_add [where m = 12 and n = 4096])
    (use assms in \<open>auto simp: mask_eq_exp_minus_1 in_page_def page_aligned_def\<close>)

lemma direct_read:
  assumes wf: "mem_wf (mem s)" "bogus_ones (mem s)" "handlers_paged (mem s)" "a20_mask_ok s"
    and p: "page_aligned p" "A20ADDR s p = p"
    and h: "getHostMemAddr p BX_READ s = Some h"
    and n: "0 < n" "k + n \<le> 4096" "unat p + k + n < 0x100000000"
  shows "readPhysicalPage (p + word_of_nat k) n s = load_hosts (h + k) n s"
proof -
  have k: "k < 4096" using n by simp
  note h' = getHostMemAddr_BX_READ [OF wf(1) h]
  note a = A20ADDR_page [OF wf(4) p(1) k p(2)]
  note u = unat_page_add [OF p(1) k]
  have "plain_ram s (p + word_of_nat k)"
    using h'(1-3) handled_page [OF p(1) k wf(3)] page_base_add [OF p(1) k]
    by (simp add: plain_ram_def a is_selected_def)
  then have "readPhysicalPage (p + word_of_nat k) n s = Done (phys_bytes (mem s) (p + word_of_nat k) n) s"
    using read_spec [of s "p + word_of_nat k" n] wf(1) n p(1) k
    by (auto simp: a u in_page_def page_aligned_def nat_mod_page_add)
  then show ?thesis
    using host_page_bytes [OF wf(1,2) p(1) h n(2)] by simp
qed

lemma direct_write_Done:
  assumes wf: "mem_wf (mem s)" "handlers_paged (mem s)" "a20_mask_ok s"
    and p: "page_aligned p" "A20ADDR s p = p"
    and h: "getHostMemAddr p acc s = Some h" "acc \<noteq> BX_READ"
    and n: "bs \<noteq> []" "k + length bs \<le> 4096"
  shows "writePhysicalPage (p + word_of_nat k) bs s = Done () (with_mem s (phys_writes (p + word_of_nat k) bs (mem s)))"
    and "store_hosts (h + k) bs s = Done () (with_mem s (phys_writes (p + word_of_nat k) bs (mem s)))"
proof -
  have k: "k < 4096" using n by (cases bs) simp_all
  note h' = getHostMemAddr_BX_WRITE [OF wf(1) h]
  note a = A20ADDR_page [OF wf(3) p(1) k p(2)]
  note u = unat_page_add [OF p(1) k]
  have d: "4096 dvd unat p" using p(1) by (simp add: page_aligned_def)
  have len: "mem_len (mem s) \<le> 0xfff80000" "4096 dvd mem_len (mem s)"
    using wf(1) by (auto simp: mem_wf_def intro: dvd_trans [of 4096 "0x100000"])
  have inside: "unat p + 4096 \<le> mem_len (mem s)"
    using h'(5) d len(2) by (auto simp: writable_def elim!: dvdE)
  have w: "writable (mem s) (p + word_of_nat j)" if "j < 4096" for j
    using h'(5) d that inside by (auto simp: writable_def unat_page_add [OF p(1) that] elim!: dvdE)
  have dev: "\<not> handled (mem s) (p + word_of_nat k)" "\<not> is_selected (local_apic_base s) (p + word_of_nat k)"
    "\<not> is_selected (ioapic_base s) (p + word_of_nat k)"
    using h'(1-3) handled_page [OF p(1) k wf(2)] page_base_add [OF p(1) k]
    by (simp_all add: is_selected_def)
  show "writePhysicalPage (p + word_of_nat k) bs s = Done () (with_mem s (phys_writes (p + word_of_nat k) bs (mem s)))"
    using write_spec [of s "p + word_of_nat k" bs] wf(1) n dev inside len(1) d
    by (auto simp: a u in_page_def nat_mod_page_add [OF d _ k])
  have "store_hosts (unat (p + word_of_nat k)) bs s = Done () (with_mem s (phys_writes (p + word_of_nat k) bs (mem s)))"
  proof (rule store_hosts_Done)
    show "unat (p + word_of_nat k) + length bs \<le> mem_len (mem s)"
      using inside n by (simp add: u)
    fix j assume "j < length bs"
    then show "writable (mem s) (p + word_of_nat k + word_of_nat j) \<and>
        unat (p + word_of_nat k + word_of_nat j) = unat (p + word_of_nat k) + j"
      using w [of "k + j"] unat_page_add [OF p(1), of "k + j"] n u by (simp add: add.assoc)
  qed
  then show "store_hosts (h + k) bs s = Done () (with_mem s (phys_writes (p + word_of_nat k) bs (mem s)))"
    by (simp add: u h'(4))
qed

lemma direct_write:
  assumes "mem_wf (mem s)" "handlers_paged (mem s)" "a20_mask_ok s"
    and "page_aligned p" "A20ADDR s p = p"
    and "getHostMemAddr p acc s = Some h" "acc \<noteq> BX_READ"
    and "bs \<noteq> []" "k + length bs \<le> 4096"
  shows "writePhysicalPage (p + word_of_nat k) bs s = store_hosts (h + k) bs s"
  using direct_write_Done [OF assms] by simp

section \<open>Where the code departs from its contract\<close>

text \<open>The size test wraps at the last bytes of the address space.\<close>

lemma load_hosts_outside:
  "0 < n \<Longrightarrow> host_size (mem s) \<le> i \<Longrightarrow> load_hosts i n s = Panic ''read outside the allocated memory'' s"
  by (cases n) (simp_all add: load_host_def and_then_def)

lemma read_last_dword_panics:
  assumes "mem_wf (mem s)" "mem_len (mem s) \<le> 0xfff00000" "a20_mask s = 0xffffffff"
    and "\<not> handled (mem s) 0xfffffffc" "local_apic_base s = 0xfee00000" "ioapic_base s = 0xfec00000"
  shows "readPhysicalPage 0xfffffffc 4 s = Panic ''read outside the allocated memory'' s"
  using assms
  by (simp add: readPhysicalPage_def Let_def A20ADDR_def is_selected_def load_hosts_outside
    host_size_def BIOSROMSZ_def EXROMSIZE_def)

text \<open>After the first byte outside RAM the A20 mask is forgotten.\<close>

lemma read_outside_1_2:
  "read_outside a b 1 = and_then (read_byte_outside a) (\<lambda>x. ret [x])"
  "read_outside a b 2 = and_then (read_byte_outside a) (\<lambda>x.
     and_then (read_byte_outside (b + 1)) (\<lambda>y. ret [x, y]))"
  by (simp_all add: numeral_2_eq_2 ret_def and_then_assoc)

lemma read_outside_forgets_a20:
  assumes "mem_wf (mem s)" "mem_len (mem s) \<le> 0xffe00000" "a20_mask s = 0xffefffff"
    and "\<not> handled (mem s) 0xffeffff0" "\<not> handled (mem s) 0xffeffff1"
    and "local_apic_base s = 0xfee00000" "ioapic_base s = 0xfec00000"
  shows "readPhysicalPage 0xfffffff1 1 s = Done [0xff] s"
    and "readPhysicalPage 0xfffffff0 2 s = Done [0xff, vector (mem s) (rom_index (mem s) 0x7fff1)] s"
  using assms
  by (simp_all add: readPhysicalPage_def Let_def A20ADDR_def is_selected_def read_outside_1_2 and_then_def
    read_byte_outside_def BIOS_MASK_def load_host_def host_size_def rom_index_def BIOSROMSZ_def EXROMSIZE_def)

text \<open>
  Two ranges of one device in the same megabyte: unregistering the older one drops the newer one
  and reports success.
\<close>

lemma unregister_drops_other_range:
  assumes "0 < rd" "0 < wr" "b1 \<le> e1" "b2 \<le> e2"
    and "b1 div 2 ^ 20 = p" "e1 div 2 ^ 20 = p" "b2 div 2 ^ 20 = p" "e2 div 2 ^ 20 = p"
    and "m1 = snd (registerMemoryHandlers rd wr b1 e1 m)" "m2 = snd (registerMemoryHandlers rd wr b2 e2 m1)"
    and "unregisterMemoryHandlers rd wr b1 e1 m2 = (r, m3)"
  shows "r \<and> memory_handlers m3 p =
    \<lparr>mh_begin = b1, mh_end = e1, read_handler = rd, write_handler = wr\<rparr> # memory_handlers m p"
  using assms by (auto simp: registerMemoryHandlers_def unregisterMemoryHandlers_def Let_def)

text \<open>With distinct callbacks and bounds, unregistering undoes registering.\<close>

lemma unregister_register:
  assumes "0 < rd" "0 < wr" "b \<le> e" "registerMemoryHandlers rd wr b e m = (r, m1)"
  shows "r \<and> unregisterMemoryHandlers rd wr b e m1 = (True, m)"
proof -
  have m1: "m1 = m\<lparr>memory_handlers := (\<lambda>p. if b div 2 ^ 20 \<le> p \<and> p \<le> e div 2 ^ 20
      then \<lparr>mh_begin = b, mh_end = e, read_handler = rd, write_handler = wr\<rparr> # memory_handlers m p
      else memory_handlers m p)\<rparr>" and r
    using assms by (auto simp: registerMemoryHandlers_def)
  define unlink where "unlink = (\<lambda>p. unlink_handler rd wr b e (memory_handlers m1 p))"
  define pages where "pages = [b div 2 ^ 20..<e div 2 ^ 20 + 1]"
  have found: "unlink p = Some (memory_handlers m p)" if "p \<in> set pages" for p
    using that by (auto simp: m1 unlink_def pages_def)
  have "memory_handlers m1 p = memory_handlers m p" if "p \<notin> set pages" for p
    using that by (auto simp: m1 pages_def)
  with found have "(\<lambda>p. if p \<in> set pages \<and> unlink p \<noteq> None then the (unlink p) else memory_handlers m1 p)
      = memory_handlers m"
    by (intro ext) simp
  moreover have "list_all (\<lambda>p. unlink p \<noteq> None) pages"
    using found by (simp add: list_all_iff)
  moreover have "m1\<lparr>memory_handlers := memory_handlers m\<rparr> = m"
    by (simp add: m1)
  ultimately show ?thesis
    using \<open>r\<close> unfolding unregisterMemoryHandlers_def Let_def unlink_def pages_def by simp
qed

section \<open>ROM images\<close>

text \<open>
  A system BIOS loaded without an explicit address ends at the top of the address space, where
  the reset vector is.
\<close>

lemma load_ROM_bios_top:
  assumes "0 < length img" "load_ROM (Some img) 0 0 m = Inr (bad, m')" "mem_wf m" "k < length img"
  shows "phys_byte m' (- word_of_nat (length img) + word_of_nat k) = img ! k"
proof -
  define n where "n = length img"
  have n: "0 < n" "n \<le> 0x80000" "k < n"
    using assms by (auto simp: load_ROM_def Let_def n_def BIOSROMSZ_def split: if_splits)
  have u: "unat (- word_of_nat n + word_of_nat j :: Bit32u) = 0x100000000 - n + j" if "j < n" for j
  proof -
    have "(- word_of_nat n + word_of_nat j :: Bit32u) = word_of_nat (0x100000000 - n + j)"
      using n(2) by (simp add: of_nat_diff)
    then have "unat (- word_of_nat n + word_of_nat j :: Bit32u) = (0x100000000 - n + j) mod 2 ^ 32"
      by (simp only: unat_of_nat) simp
    then show ?thesis
      using that n(2) by simp
  qed
  define off where "off = unat ((- word_of_nat n :: Bit32u) AND BIOS_MASK)"
  have off: "off = 0x80000 - n"
  proof -
    have "unat (- word_of_nat n :: Bit32u) = 0x100000000 - n"
      using u [of 0] n(1) by simp
    then have A: "off = (0x100000000 - n) mod 0x80000"
      by (simp add: off_def unat_and_mask_eq)
    have B: "0x100000000 - n = 0x80000 * 0x1fff + (0x80000 - n)"
      using n(2) by simp
    have C: "(0x80000 * q + r) mod 0x80000 = r" if "r < 0x80000" for q r :: nat
      using that by simp
    show ?thesis
      unfolding A B by (rule C) (use n(1,2) in simp)
  qed
  have "vector m' = vector (write_rom off img m) \<and> mem_len m' = mem_len m"
    using assms(2) by (auto simp: load_ROM_def Let_def off_def n_def write_rom_def rom_index_def split: if_splits)
  then have "vector m' (rom_index m' (off + k)) = img ! k"
    using n(3) by (simp add: write_rom_def rom_index_def n_def)
  moreover have "phys_index m' (- word_of_nat n + word_of_nat k) = Some (rom_index m' (off + k))"
  proof -
    have "(0x100000000 - n + k) mod 0x80000 = 0x80000 - n + k"
    proof -
      have B: "0x100000000 - n + k = 0x80000 * 0x1fff + (0x80000 - n + k)"
        using n(2) by simp
      have C: "(0x80000 * q + r) mod 0x80000 = r" if "r < 0x80000" for q r :: nat
        using that by simp
      show ?thesis
        unfolding B by (rule C) (use n(2,3) in simp)
    qed
    moreover have "mem_len m' \<le> 0xfff80000"
      using assms(3) \<open>_ \<and> mem_len m' = mem_len m\<close> by (simp add: mem_wf_def)
    moreover have "phys_index m' c = Some (rom_index m' (unat c mod 0x80000))"
      if "0xfff80000 \<le> unat c" "mem_len m' \<le> 0xfff80000" for c
      using that by (simp add: phys_index_def top_rom_iff unat_and_mask_eq)
    from this [of "- word_of_nat n + word_of_nat k"] calculation show ?thesis
      using n unfolding u [OF n(3)] off by simp
  qed
  ultimately show ?thesis
    by (simp add: phys_byte_def n_def)
qed

text \<open>
  The signature test compares one byte with both signature bytes, so an image at e0000 is never
  checked; the last 32 KB of the expansion area are refused; an image of more than 2 KB at e0000
  claims past the end of \<open>rom_present\<close>.
\<close>

lemma rom_checksum_e0000: "\<not> rom_checksum_bad 0xe0000 offset sz m"
  by (simp add: rom_checksum_bad_def)

lemma load_ROM_last_expansion_slot:
  "length img = 0x8000 \<Longrightarrow> load_ROM (Some img) 0xd8000 2 m = Inl AddressOutOfRange"
  by (simp add: load_ROM_def)

text \<open>
  With a 64-bit \<open>unsigned long\<close> a system BIOS at the top of the 4 GB space is refused: the sum
  that the test compares with 0 does not wrap around.
\<close>

lemma load_ROM_top_of_space:
  "length img = 0x20000 \<Longrightarrow> load_ROM (Some img) 0xfffe0000 0 m = Inl BiosMustEndAtFFFFF"
  by (simp add: load_ROM_def BIOSROMSZ_def)

lemma claim_rom_2:
  "claim_rom i 2 m =
    (if i \<ge> 65 then Inl (PresentOverrun i) else if rom_present m i then Inl (AddressInUse i)
     else claim_rom (Suc i) 1 (m\<lparr>rom_present := (rom_present m)(i := True)\<rparr>))"
  by (simp add: numeral_2_eq_2)

lemma load_ROM_e0000_overrun:
  "length img = 0x1000 \<Longrightarrow> \<not> rom_present m 64 \<Longrightarrow>
     load_ROM (Some img) 0xe0000 2 m = Inl (PresentOverrun 65)"
  by (simp add: load_ROM_def Let_def claim_rom_2)

end
