(* ===== verification/BxPagingSpec.thy ===== *)
theory BxPagingSpec
  imports BxPaging BxMemorySpec
begin

text \<open>
  What address translation promises. The page tables are read as an architecture manual reads
  them, with numeric indices and frames (\<open>walk32\<close>); the lemmas show that the shifts
  and masks of \<open>translate_linear\<close> compute exactly that, that the privilege table is the
  architectural rule, that only accessed and dirty bits change in memory, and that every entry
  of the TLB grants no more than the tables do and points to the bytes of its page.
\<close>

section \<open>Pages of linear addresses\<close>

lemma page_mask_32: "(0xfffff000 :: Bit32u) = NOT (mask 12)"
  by (simp add: mask_eq_exp_minus_1)

lemma page_offset_mask: "(0x00000fff :: Bit32u) = mask 12"
  by (simp add: mask_eq_exp_minus_1)

lemma page_aligned_take_bit: "page_aligned p \<longleftrightarrow> take_bit 12 p = 0"
proof -
  have "take_bit 12 p = 0 \<longleftrightarrow> unat (take_bit 12 p) = 0"
    by (simp only: unsigned_eq_0_iff)
  also have "\<dots> \<longleftrightarrow> unat p mod 4096 = 0"
    by (simp only: unsigned_take_bit_eq) (simp add: take_bit_eq_mod)
  finally show ?thesis
    by (simp add: page_aligned_def dvd_eq_mod_eq_0)
qed

text \<open>Joining a page base and an offset with \<open>|\<close> adds them.\<close>

lemma aligned_or_add:
  assumes "take_bit n (p :: 'a::len word) = 0" "drop_bit n x = 0"
  shows "p OR x = p + x"
proof -
  have "\<not> (bit p k \<and> bit x k)" for k
  proof (cases "k < n")
    case True
    then have "bit (take_bit n p) k \<longleftrightarrow> bit p k" by (simp add: bit_simps)
    with assms(1) show ?thesis by simp
  next
    case False
    then have "bit (drop_bit n x) (k - n) \<longleftrightarrow> bit x k" by (simp add: bit_simps)
    with assms(2) show ?thesis by simp
  qed
  then have "p AND x = 0"
    by (intro bit_eqI) (simp add: bit_simps)
  then show ?thesis
    by (simp add: disjunctive_add_eq_or)
qed

lemma page_or_eq_add: "page_aligned p \<Longrightarrow> drop_bit 12 x = 0 \<Longrightarrow> p OR x = p + x"
  by (simp add: aligned_or_add page_aligned_take_bit)

lemma LPFOf_eq: "LPFOf a = push_bit 12 (drop_bit 12 a)"
  by (simp only: LPFOf_def page_mask_32 and_not_mask)

lemma page_aligned_push_bit [simp]: "page_aligned (push_bit 12 x)"
  by (simp add: page_aligned_take_bit take_bit_push_bit)

lemma page_aligned_LPFOf [simp]: "page_aligned (LPFOf a)"
  by (simp add: LPFOf_eq)

lemma LPFOf_plus_offset: "LPFOf a + (a AND 0x00000fff) = a"
  by (simp only: LPFOf_eq page_offset_mask take_bit_eq_mask [symmetric] bits_ident)

lemma drop_bit_offset [simp]: "drop_bit 12 (a AND 0x00000fff :: Bit32u) = 0"
  by (simp only: page_offset_mask take_bit_eq_mask [symmetric]) (simp add: drop_bit_take_bit)

lemma LPFOf_idem [simp]: "LPFOf (LPFOf a) = LPFOf a"
  by (simp add: LPFOf_def and.assoc)

lemma LPFOf_page: "page_aligned p \<Longrightarrow> LPFOf p = p"
  using LPFOf_plus_offset [of p]
  by (simp only: page_offset_mask take_bit_eq_mask [symmetric] page_aligned_take_bit) simp

lemma LPFOf_in_page: "in_page a n \<Longrightarrow> k < n \<Longrightarrow> LPFOf (a + word_of_nat k) = LPFOf a"
  by (simp add: LPFOf_eq drop_bit_12_add)

lemma LPFOf_not_invalid [simp]: "LPFOf a \<noteq> BX_INVALID_TLB_ENTRY"
proof -
  have "\<not> page_aligned BX_INVALID_TLB_ENTRY"
    by (simp add: page_aligned_def BX_INVALID_TLB_ENTRY_def)
  then show ?thesis by (metis page_aligned_LPFOf)
qed

lemma TLB_index_LPFOf [simp]: "BX_TLB_INDEX_OF (LPFOf a) = BX_TLB_INDEX_OF a"
proof -
  have "LPFOf a AND 0x003ff000 = a AND 0x003ff000"
    by (simp add: LPFOf_def and.assoc)
  then show ?thesis by (simp only: BX_TLB_INDEX_OF_def)
qed

section \<open>The privilege rule\<close>

text \<open>
  \<open>rights\<close> holds U/S in bit 2 and R/W in bit 1. A user may touch user pages only; a
  write needs a writable page, unless a supervisor writes while CR0.WP is clear.
\<close>

definition allowed :: "bool \<Rightarrow> bool \<Rightarrow> bool \<Rightarrow> Bit32u \<Rightarrow> bool" where
  "allowed wp user write rights \<longleftrightarrow>
     (user \<longrightarrow> bit rights 2) \<and> (write \<longrightarrow> bit rights 1 \<or> (\<not> user \<and> \<not> wp))"

lemma bit_rights_mask: "bit (0x06 :: Bit32u) k \<longleftrightarrow> k = 1 \<or> k = 2"
proof -
  have "(0x06 :: Bit32u) = push_bit 1 (mask 2)" by (simp add: mask_eq_exp_minus_1)
  then show ?thesis by (simp only: bit_simps) auto
qed

lemma bit_of_bool_push:
  "bit (push_bit n (of_bool b) :: 'a::len word) k \<longleftrightarrow> b \<and> k = n \<and> n < LENGTH('a)"
  by (cases b) (auto simp: bit_simps)

lemma bit_of_bool_word: "bit (of_bool b :: 'a::len word) k \<longleftrightarrow> b \<and> k = 0"
  by (cases b) (auto simp: bit_simps)

lemma bit_priv_index:
  "bit (priv_index wp pl c w) k \<longleftrightarrow>
     (wp \<and> k = 4) \<or> (pl \<and> k = 3) \<or> (bit c k \<and> (k = 1 \<or> k = 2)) \<or> (w \<and> k = 0)"
  unfolding priv_index_def
  by (simp only: bit_unsigned_iff bit_or_iff bit_and_iff bit_of_bool_push bit_of_bool_word
        bit_rights_mask) (auto dest: bit_imp_le_length)

lemma priv_check_allowed: "priv_check (priv_index wp user c write) = allowed wp user write c"
  unfolding priv_check_def allowed_def Let_def by (auto simp: bit_priv_index)

text \<open>The tests of single bits in the page table entries.\<close>

lemma and_bit_mask_iff: "(w :: 'a::len word) AND push_bit n 1 = 0 \<longleftrightarrow> \<not> bit w n"
proof -
  have "bit (w AND push_bit n 1) k \<longleftrightarrow> bit w n \<and> k = n" for k
    by (auto simp: bit_simps dest: bit_imp_le_length)
  then show ?thesis by (metis bit_0_eq bot_apply bot_bool_def bit_eq_iff)
qed

lemmas entry_tests =
  and_bit_mask_iff [where 'a = 32 and n = 0, simplified]
  and_bit_mask_iff [where 'a = 32 and n = 1, simplified]
  and_bit_mask_iff [where 'a = 32 and n = 2, simplified]
  and_bit_mask_iff [where 'a = 32 and n = 5, simplified]
  and_bit_mask_iff [where 'a = 32 and n = 6, simplified]
  and_bit_mask_iff [where 'a = 32 and n = 7, simplified]
  and_bit_mask_iff [where 'a = 32 and n = 8, simplified]

section \<open>Page table entries in memory\<close>

lemma aligned4_add:
  assumes "take_bit 2 (a :: Bit32u) = 0" "k < 4"
  shows "drop_bit 2 (a + word_of_nat k) = drop_bit 2 a" "take_bit 2 (a + word_of_nat k) = word_of_nat k"
proof -
  have k: "k = 0 \<or> k = 1 \<or> k = 2 \<or> k = 3" using assms(2) by auto
  have "drop_bit 2 (word_of_nat k :: Bit32u) = 0" "take_bit 2 (word_of_nat k :: Bit32u) = word_of_nat k"
    using k by auto
  moreover from this(1) have "a + word_of_nat k = a OR word_of_nat k"
    by (simp add: aligned_or_add [OF assms(1)])
  ultimately show "drop_bit 2 (a + word_of_nat k) = drop_bit 2 a"
    "take_bit 2 (a + word_of_nat k) = word_of_nat k"
    using assms(1) by (simp_all add: drop_bit_or take_bit_or)
qed

lemma aligned4_disjoint:
  assumes "take_bit 2 (a :: Bit32u) = 0" "take_bit 2 b = 0" "a \<noteq> b" "j < 4" "k < 4"
  shows "a + word_of_nat j \<noteq> b + word_of_nat k"
proof
  assume "a + word_of_nat j = b + word_of_nat k"
  then have "drop_bit 2 a = drop_bit 2 b"
    by (metis aligned4_add(1) assms)
  then have "push_bit 2 (drop_bit 2 a) + take_bit 2 a = push_bit 2 (drop_bit 2 b) + take_bit 2 b"
    using assms by simp
  with \<open>a \<noteq> b\<close> show False
    by (simp only: bits_ident)
qed

text \<open>Aligned double words in any byte store: a store is read back and disturbs no other.\<close>

context byte_store
begin

lemma dword_store:
  assumes "\<And>k. k < 4 \<Longrightarrow> ok m (a + word_of_nat k)" "take_bit 2 a = 0" "take_bit 2 b = 0"
  shows "(le_word (bytes_at rd (write_bytes wr a (le_bytes 4 (v :: Bit32u)) m) b 4) :: Bit32u)
       = (if a = b then v else le_word (bytes_at rd m b 4))"
proof (cases "a = b")
  case True
  then show ?thesis
    using le_word_write_bytes [of 4 m a v] assms(1) by simp
next
  case False
  then have "rd (write_bytes wr a (le_bytes 4 v) m) (b + word_of_nat k) = rd m (b + word_of_nat k)" if "k < 4" for k
    using that assms by (intro rd_write_bytes_other) (metis aligned4_disjoint length_le_bytes)
  then have "bytes_at rd (write_bytes wr a (le_bytes 4 v) m) b 4 = bytes_at rd m b 4"
    by (simp add: bytes_at_def)
  with False show ?thesis by simp
qed

end

text \<open>
  Pages of ordinary RAM that the processor reaches unchanged through the A20 gate, and aligned
  entries in such pages.
\<close>

definition vm_ok :: "cpu \<Rightarrow> bool" where
  "vm_ok s \<longleftrightarrow> mem_wf (mem s) \<and> handlers_paged (mem s) \<and> a20_mask_ok s"

definition ram_page :: "cpu \<Rightarrow> Bit32u \<Rightarrow> bool" where
  "ram_page s p \<longleftrightarrow> page_aligned p \<and> unat p + 4096 \<le> mem_len (mem s) \<and>
     \<not> (0xa0000 \<le> unat p \<and> unat p < 0x100000) \<and> A20ADDR s p = p \<and>
     \<not> handled (mem s) p \<and> local_apic_base s \<noteq> p \<and> ioapic_base s \<noteq> p"

definition ram_slot :: "cpu \<Rightarrow> Bit32u \<Rightarrow> bool" where
  "ram_slot s a \<longleftrightarrow> take_bit 2 a = 0 \<and> ram_page s (LPFOf a)"

definition entry_at :: "bx_mem \<Rightarrow> Bit32u \<Rightarrow> Bit32u" where
  "entry_at m a = le_word (phys_bytes m a 4)"

definition set_entry :: "Bit32u \<Rightarrow> Bit32u \<Rightarrow> bx_mem \<Rightarrow> bx_mem" where
  "set_entry a v m = phys_writes a (le_bytes 4 v) m"

lemma unat_offset: "unat (a AND 0x00000fff :: Bit32u) = unat a mod 4096"
  by (simp only: page_offset_mask take_bit_eq_mask [symmetric] unsigned_take_bit_eq)
    (simp add: take_bit_eq_mod)

lemma page_decomp: "a = LPFOf a + word_of_nat (unat a mod 4096)"
  using LPFOf_plus_offset [of a] by (simp flip: unat_offset)

lemma unat_LPFOf: "unat a = unat (LPFOf a) + unat a mod 4096"
  using unat_page_add [of "LPFOf a" "unat a mod 4096"] page_decomp [of a] by simp

lemma aligned4_in_page: "take_bit 2 (a :: Bit32u) = 0 \<Longrightarrow> in_page a 4"
proof -
  assume "take_bit 2 a = 0"
  then have "unat (take_bit 2 a) = 0" by simp
  then have "unat a mod 4 = 0"
    by (simp only: unsigned_take_bit_eq) (simp add: take_bit_eq_mod)
  then obtain q where q: "unat a = 4 * q" by auto
  have "(4 * q) mod (4 * 1024) = 4 * (q mod 1024)" for q :: nat by (rule mult_mod_right [symmetric])
  from this [of q] have "unat a mod 4096 = 4 * (q mod 1024)" by (simp add: q)
  moreover have "q mod 1024 < 1024" by simp
  ultimately show ?thesis unfolding in_page_def by linarith
qed

lemma ram_slot_plain:
  assumes "vm_ok s" "ram_slot s a"
  shows "A20ADDR s a = a" "in_page a 4" "unat a + 4 \<le> mem_len (mem s)" "\<not> handled (mem s) a"
    "\<not> is_selected (local_apic_base s) a" "\<not> is_selected (ioapic_base s) a"
    and "\<And>k. k < 4 \<Longrightarrow> writable (mem s) (a + word_of_nat k)"
proof -
  define p where "p = LPFOf a"
  define k where "k = unat a mod 4096"
  have p: "ram_page s p" "page_aligned p" and k: "k < 4096" and a: "a = p + word_of_nat k"
    using assms(2) page_decomp [of a] by (simp_all add: ram_slot_def p_def k_def)
  have k4: "k + 4 \<le> 4096"
    using aligned4_in_page [of a] assms(2) by (simp add: ram_slot_def in_page_def k_def)
  note u = unat_page_add [OF p(2)]
  show "A20ADDR s a = a"
    using A20ADDR_page [of s p k] assms(1) p k by (simp add: a vm_ok_def ram_page_def)
  show "in_page a 4" using k4 by (simp add: in_page_def k_def)
  show "unat a + 4 \<le> mem_len (mem s)"
    using p(1) k4 u [OF k] by (simp add: ram_page_def a)
  show "\<not> handled (mem s) a"
    using handled_page [OF p(2) k] assms(1) p(1) by (simp add: vm_ok_def ram_page_def a)
  have "(0xfffff000 :: Bit32u) = NOT 0xfff" by simp
  then have "p AND NOT 0xfff = p"
    using LPFOf_page [OF p(2)] by (simp only: LPFOf_def)
  then show "\<not> is_selected (local_apic_base s) a" "\<not> is_selected (ioapic_base s) a"
    using page_base_add [OF p(2) k] p(1) by (auto simp: is_selected_def ram_page_def a)
  show "writable (mem s) (a + word_of_nat j)" if "j < 4" for j
  proof -
    have "a + word_of_nat j = p + word_of_nat (k + j)" by (simp add: a algebra_simps)
    then have uj: "unat (a + word_of_nat j) = unat p + (k + j)"
      using u [of "k + j"] k4 that by (simp add: add.assoc)
    have d: "4096 dvd unat p" using p(2) by (simp add: page_aligned_def)
    have "unat p + (k + j) < 0xa0000" if "unat p < 0xa0000"
      using that d k4 \<open>j < 4\<close> by (elim dvdE) simp
    with p(1) k4 that uj show ?thesis
      unfolding writable_def ram_page_def by linarith
  qed
qed

lemma read_dword_ram:
  assumes "vm_ok s" "ram_slot s a"
  shows "read_dword a s = Done (entry_at (mem s) a) s"
proof -
  note f = ram_slot_plain [OF assms]
  have "readPhysicalPage a 4 s = Done (phys_bytes (mem s) a 4) s"
    using read_spec [of s a 4] f assms(1) by (simp add: vm_ok_def plain_ram_def mem_wf_def)
  then show ?thesis
    by (simp add: read_dword_def entry_at_def)
qed

lemma write_dword_ram:
  assumes "vm_ok s" "ram_slot s a"
  shows "write_dword a v s = Done () (with_mem s (set_entry a v (mem s)))"
proof -
  note f = ram_slot_plain [OF assms]
  show ?thesis
    using write_spec [of s a "le_bytes 4 v"] f assms(1)
    by (simp add: vm_ok_def mem_wf_def write_dword_def set_entry_def)
qed

lemma entry_at_set_entry:
  assumes "vm_ok s" "ram_slot s a" "take_bit 2 b = 0"
  shows "entry_at (set_entry a v (mem s)) b = (if a = b then v else entry_at (mem s) b)"
  unfolding entry_at_def set_entry_def
  using phys.dword_store [of "mem s" a b v] ram_slot_plain(7) [OF assms(1,2)] assms(2,3)
  by (simp add: ram_slot_def)

lemma set_entry_fields [simp]:
  "mem_len (set_entry a v m) = mem_len m"
  "memory_handlers (set_entry a v m) = memory_handlers m"
  "rom_present (set_entry a v m) = rom_present m"
  by (simp_all add: set_entry_def)

section \<open>Slots and frames in numbers\<close>

lemma high_mask_div:
  assumes "M = NOT (mask n)" "C = 2 ^ n"
  shows "(a :: Bit32u) AND M = a div C * C"
  by (simp only: assms and_not_mask push_bit_eq_mult drop_bit_eq_div)

lemma low_mask_mod:
  assumes "M = mask n" "C = 2 ^ n"
  shows "(a :: Bit32u) AND M = a mod C"
  by (simp only: assms take_bit_eq_mask [symmetric] take_bit_eq_mod)

lemma mid_mask: "(a :: Bit32u) AND 0x003ff000 = push_bit 12 (take_bit 10 (drop_bit 12 a))"
proof -
  have m: "(0x003ff000 :: Bit32u) = push_bit 12 (mask 10)" by (simp add: mask_eq_exp_minus_1)
  show ?thesis
    by (simp only: m) (rule bit_word_eqI, auto simp: bit_simps)
qed

lemma page_aligned_div [simp]: "page_aligned (a div 4096 * 4096)"
proof -
  have "a div 4096 * 4096 = push_bit 12 (drop_bit 12 a)"
    by (simp add: push_bit_eq_mult drop_bit_eq_div)
  then show ?thesis by simp
qed

lemma page_frame_div: "(a :: Bit32u) AND 0xfffff000 = a div 4096 * 4096"
  by (rule high_mask_div [where n = 12]) (simp_all add: mask_eq_exp_minus_1)

lemma dir_slot:
  assumes "page_aligned base"
  shows "base OR drop_bit 20 (laddr AND 0xffc00000) = base + 4 * (laddr div 0x400000)"
proof -
  have "(0xffc00000 :: Bit32u) = NOT (mask 22)" by (simp add: mask_eq_exp_minus_1)
  then have "drop_bit 20 (laddr AND 0xffc00000) = push_bit 2 (drop_bit 22 laddr)"
    by (simp only: and_not_mask) (rule bit_word_eqI, auto simp: bit_simps dest: bit_imp_le_length)
  moreover have "drop_bit 12 (push_bit 2 (drop_bit 22 laddr)) = 0"
    by (rule bit_word_eqI) (auto simp: bit_simps dest: bit_imp_le_length)
  moreover have "push_bit 2 (drop_bit 22 laddr) = 4 * (laddr div 0x400000)"
    by (simp add: push_bit_eq_mult drop_bit_eq_div)
  ultimately show ?thesis
    using page_or_eq_add [OF assms] by metis
qed

lemma tab_slot:
  fixes pde laddr :: Bit32u
  shows "(pde AND 0xfffff000) OR drop_bit 10 (laddr AND 0x003ff000) = pde div 4096 * 4096 + 4 * (laddr div 4096 mod 1024)"
proof -
  define x where "x = take_bit 10 (drop_bit 12 laddr)"
  have "drop_bit 10 (laddr AND 0x003ff000) = push_bit 2 x"
    unfolding mid_mask x_def by (rule bit_word_eqI) (auto simp: bit_simps)
  moreover have "drop_bit 12 (push_bit 2 x) = 0"
    unfolding x_def by (rule bit_word_eqI) (auto simp: bit_simps)
  moreover have "push_bit 2 x = 4 * (laddr div 4096 mod 1024)"
    by (simp add: x_def push_bit_eq_mult drop_bit_eq_div take_bit_eq_mod)
  ultimately show ?thesis
    using page_or_eq_add [of "pde div 4096 * 4096" "push_bit 2 x"] by (simp only: page_frame_div page_aligned_div)
qed

lemma small_frame:
  "(pte AND 0xfffff000) OR (laddr AND 0x00000fff) = pte div 4096 * 4096 + laddr mod (4096 :: Bit32u)"
proof -
  have "laddr AND 0x00000fff = laddr mod 4096"
    by (rule low_mask_mod [where n = 12]) (simp_all add: mask_eq_exp_minus_1)
  then show ?thesis
    using page_or_eq_add [of "pte div 4096 * 4096" "laddr AND 0x00000fff"] drop_bit_offset [of laddr]
    by (simp only: page_frame_div page_aligned_div)
qed

lemma large_frame:
  "((pde AND 0xFFC00000) OR (laddr AND 0x003FF000)) OR (laddr AND 0x00000fff)
     = pde div 0x400000 * 0x400000 + laddr mod (0x400000 :: Bit32u)"
proof -
  have m: "(0xffc00000 :: Bit32u) = NOT (mask 22)" "(0x003ff000 :: Bit32u) = push_bit 12 (mask 10)"
    "(0xfff :: Bit32u) = mask 12" by (simp_all add: mask_eq_exp_minus_1)
  have "(laddr AND 0x003FF000) OR (laddr AND 0x00000fff) = take_bit 22 laddr"
    by (simp only: m) (rule bit_word_eqI, auto simp: bit_simps)
  moreover have "pde AND 0xffc00000 = push_bit 22 (drop_bit 22 pde)"
    by (simp only: m and_not_mask)
  moreover have "push_bit 22 (drop_bit 22 pde) OR take_bit 22 laddr = push_bit 22 (drop_bit 22 pde) + take_bit 22 laddr"
    by (rule aligned_or_add [where n = 22]) (simp_all add: take_bit_push_bit drop_bit_take_bit)
  ultimately have "((pde AND 0xFFC00000) OR (laddr AND 0x003FF000)) OR (laddr AND 0x00000fff)
      = push_bit 22 (drop_bit 22 pde) + take_bit 22 laddr"
    by (simp add: or.assoc)
  then show ?thesis
    by (simp add: push_bit_eq_mult drop_bit_eq_div take_bit_eq_mod)
qed

section \<open>The two-level tables as the architecture defines them\<close>

text \<open>
  A walk that succeeds names the directory entries it goes through, the entry that maps the
  page, the physical address and the rights: U/S and R/W in bits 2 and 1, the global bit 8.
\<close>

datatype walk =
    Unmapped
  | Mapped "Bit32u list" Bit32u Bit32u Bit32u

definition walk32 :: "bool \<Rightarrow> bx_mem \<Rightarrow> Bit32u \<Rightarrow> Bit32u \<Rightarrow> walk" where
  "walk32 pse m base laddr =
     (let dir = base + 4 * (laddr div 0x400000); pde = entry_at m dir;
          tab = pde div 4096 * 4096 + 4 * (laddr div 4096 mod 1024); pte = entry_at m tab
      in if \<not> bit pde 0 then Unmapped
         else if bit pde 7 \<and> pse then
           Mapped [] dir (pde div 0x400000 * 0x400000 + laddr mod 0x400000) (pde AND 0x106)
         else if \<not> bit pte 0 then Unmapped
         else Mapped [dir] tab (pte div 4096 * 4096 + laddr mod 4096)
                (((pde AND pte) AND 0x06) OR (pte AND 0x100)))"

definition mark_entry :: "Bit32u \<Rightarrow> Bit32u \<Rightarrow> bx_mem \<Rightarrow> bx_mem" where
  "mark_entry v a m = set_entry a (entry_at m a OR v) m"

text \<open>Accessed bits on the way, accessed and, for a write, dirty at the end.\<close>

fun marked :: "bool \<Rightarrow> walk \<Rightarrow> bx_mem \<Rightarrow> bx_mem" where
  "marked write Unmapped m = m"
| "marked write (Mapped dirs leaf pa rights) m =
     mark_entry (if write then 0x60 else 0x20) leaf (fold (mark_entry 0x20) dirs m)"

definition tables_in_ram :: "cpu \<Rightarrow> Bit32u \<Rightarrow> bool" where
  "tables_in_ram s laddr \<longleftrightarrow> ram_page s (cr3_masked s) \<and>
     (let pde = entry_at (mem s) (cr3_masked s + 4 * (laddr div 0x400000)) in
        bit pde 0 \<and> \<not> (bit pde 7 \<and> get_PSE s) \<longrightarrow> ram_page s (pde div 4096 * 4096))"

lemma take_bit_2_12: "take_bit 12 p = 0 \<Longrightarrow> take_bit 2 p = (0::Bit32u)"
proof -
  assume a: "take_bit 12 p = 0"
  have "take_bit 2 p = take_bit 2 (take_bit 12 p)" by (simp add: take_bit_take_bit)
  then show ?thesis by (simp only: a take_bit_of_0)
qed

lemma slot_or:
  assumes "page_aligned p" "drop_bit 10 x = 0"
  shows "p + 4 * x = p OR push_bit 2 x" and "drop_bit 12 (push_bit 2 x) = 0"
    and "take_bit 2 (p + 4 * x) = 0"
proof -
  show x: "drop_bit 12 (push_bit 2 x) = 0"
  proof (rule bit_word_eqI)
    fix n assume "n < LENGTH(32)"
    moreover have "bit (drop_bit 10 x) n \<longleftrightarrow> bit x (10 + n)" by (simp add: bit_simps)
    ultimately show "bit (drop_bit 12 (push_bit 2 x)) n = bit 0 n"
      using assms(2) by (simp add: bit_simps)
  qed
  show or: "p + 4 * x = p OR push_bit 2 x"
    using page_or_eq_add [OF assms(1) x] by (simp add: push_bit_eq_mult mult.commute)
  have "take_bit 2 p = 0" using assms(1) by (simp add: page_aligned_take_bit take_bit_2_12)
  then show "take_bit 2 (p + 4 * x) = 0"
    by (simp add: or take_bit_or take_bit_push_bit)
qed

lemma ram_slotI:
  assumes "ram_page s p" "drop_bit 10 x = 0"
  shows "ram_slot s (p + 4 * x)"
proof -
  have p: "page_aligned p" using assms(1) by (simp add: ram_page_def)
  note or = slot_or [OF p assms(2)]
  have "drop_bit 12 (p OR push_bit 2 x) = drop_bit 12 p"
    using or(2) by (simp add: drop_bit_or)
  then show ?thesis
    using assms(1) or(3) LPFOf_page [OF p] by (simp add: ram_slot_def or(1) LPFOf_eq)
qed

lemma dir_index_small: "drop_bit 10 (laddr div 0x400000 :: Bit32u) = 0"
proof -
  have "laddr div 0x400000 = drop_bit 22 laddr" by (simp add: drop_bit_eq_div)
  then show ?thesis
    by (simp only:) (rule bit_word_eqI, auto simp: bit_simps dest: bit_imp_le_length)
qed

lemma tab_index_small: "drop_bit 10 (laddr div 4096 mod 1024 :: Bit32u) = 0"
proof -
  have "laddr div 4096 mod 1024 = take_bit 10 (drop_bit 12 laddr)"
    by (simp add: drop_bit_eq_div take_bit_eq_mod)
  then show ?thesis by (simp only:) (simp add: drop_bit_take_bit)
qed

lemma tables_in_ram_slots:
  assumes "tables_in_ram s laddr"
  defines "pde \<equiv> entry_at (mem s) (cr3_masked s + 4 * (laddr div 0x400000))"
  shows "ram_slot s (cr3_masked s + 4 * (laddr div 0x400000))"
    and "bit pde 0 \<Longrightarrow> \<not> (bit pde 7 \<and> get_PSE s) \<Longrightarrow>
           ram_slot s (pde div 4096 * 4096 + 4 * (laddr div 4096 mod 1024))"
  using assms(1) unfolding tables_in_ram_def Let_def pde_def
  by (blast intro: ram_slotI dir_index_small tab_index_small)+

lemma tables_in_ram_aligned: "tables_in_ram s laddr \<Longrightarrow> page_aligned (cr3_masked s)"
  by (simp add: tables_in_ram_def ram_page_def)

section \<open>Setting accessed and dirty bits\<close>

lemma bit_le_word_imp: "bit (le_word bs :: 'a::len word) k \<Longrightarrow> k < 8 * length bs"
proof (induction bs arbitrary: k)
  case (Cons b bs)
  from Cons.prems have "bit (ucast b :: 'a word) k \<or> (8 \<le> k \<and> bit (le_word bs :: 'a word) (k - 8))"
    by (auto simp: bit_or_iff bit_push_bit_iff)
  moreover have "k < 8" if "bit (ucast b :: 'a word) k"
    using that by (auto simp: bit_ucast_iff dest: bit_imp_le_length)
  ultimately show ?case
    using Cons.IH [of "k - 8"] by auto
qed simp

lemma le_bytes_le_word:
  "8 * length bs \<le> LENGTH('a) \<Longrightarrow> le_bytes (length bs) (le_word bs :: 'a::len word) = bs"
proof (induction bs)
  case (Cons b bs)
  define w :: "'a word" where "w = le_word bs"
  have w: "k < 8 * length bs" if "bit w k" for k
    using that bit_le_word_imp [of bs k] by (simp add: w_def)
  have "ucast (ucast b OR push_bit 8 w) = b"
    by (rule bit_word_eqI) (use Cons.prems in \<open>auto simp: bit_simps\<close>)
  moreover have "drop_bit 8 (ucast b OR push_bit 8 w) = w"
  proof (rule bit_word_eqI)
    fix n assume "n < LENGTH('a)"
    have "\<not> bit b (8 + n)" by (auto dest: bit_imp_le_length)
    moreover have "8 + n < LENGTH('a)" if "bit w n"
      using w [OF that] Cons.prems by simp
    ultimately show "bit (drop_bit 8 (ucast b OR push_bit 8 w)) n = bit w n"
      by (auto simp: bit_drop_bit_eq bit_or_iff bit_ucast_iff bit_push_bit_iff)
  qed
  ultimately show ?case
    using Cons by (simp flip: w_def)
qed simp

lemma phys_write_same: "phys_write a (phys_byte m a) m = m"
  by (simp add: phys_write_def phys_byte_def phys_index_writable)

lemma phys_writes_same: "phys_writes a (phys_bytes m a n) m = m"
  by (induction n arbitrary: a) (simp_all add: bytes_at_Suc phys_write_same)

lemma set_entry_same: "set_entry a (entry_at m a) m = m"
proof -
  have "le_bytes (length (phys_bytes m a 4)) (entry_at m a) = phys_bytes m a 4"
    unfolding entry_at_def by (rule le_bytes_le_word) simp
  then show ?thesis
    by (simp add: set_entry_def phys_writes_same)
qed

lemma or_absorb_bits:
  "bit (e :: Bit32u) 5 \<Longrightarrow> e OR 0x20 = e"
  "bit e 5 \<Longrightarrow> bit e 6 \<Longrightarrow> e OR 0x60 = e"
proof -
  have m: "(0x20 :: Bit32u) = push_bit 5 1" "(0x60 :: Bit32u) = push_bit 5 1 OR push_bit 6 1"
    by simp_all
  show "bit e 5 \<Longrightarrow> e OR 0x20 = e"
    by (simp only: m(1)) (rule bit_word_eqI, auto simp: bit_simps simp del: push_bit_of_1)
  show "bit e 5 \<Longrightarrow> bit e 6 \<Longrightarrow> e OR 0x60 = e"
    by (simp only: m(2)) (rule bit_word_eqI, auto simp: bit_simps simp del: push_bit_of_1)
qed

lemma update_accessed_ram:
  assumes "vm_ok s" "ram_slot s a"
  shows "update_accessed a (entry_at (mem s) a) s = Done () (with_mem s (mark_entry 0x20 a (mem s)))"
  using assms
  by (simp add: update_accessed_def entry_tests write_dword_ram mark_entry_def or_absorb_bits set_entry_same)

lemma env_mark [simp]:
  "vm_ok (with_mem s (mark_entry v a (mem s))) = vm_ok s"
  "ram_page (with_mem s (mark_entry v a (mem s))) p = ram_page s p"
  "ram_slot (with_mem s (mark_entry v a (mem s))) b = ram_slot s b"
proof -
  let ?t = "with_mem s (mark_entry v a (mem s))"
  have m: "mem_wf (mem ?t) = mem_wf (mem s)" "handlers_paged (mem ?t) = handlers_paged (mem s)"
    "\<And>x. handled (mem ?t) x = handled (mem s) x" "mem_len (mem ?t) = mem_len (mem s)"
    by (simp_all add: mem_wf_def handlers_paged_def handled_def mark_entry_def)
  then show "vm_ok ?t = vm_ok s" by (simp add: vm_ok_def a20_mask_ok_def)
  show p: "ram_page ?t p = ram_page s p" for p
    using m by (simp add: ram_page_def A20ADDR_def)
  show "ram_slot ?t b = ram_slot s b" by (simp add: ram_slot_def p)
qed

lemma mark_bits: "(0x20 :: Bit32u) OR push_bit 6 (of_bool w) = (if w then 0x60 else 0x20)"
  by simp

lemma update_entry_ram:
  assumes "vm_ok s" "ram_slot s a" "entry_at (mem s) a = e \<or> entry_at (mem s) a = e OR 0x20"
  shows "update_entry a e w s = Done () (with_mem s (mark_entry (if w then 0x60 else 0x20) a (mem s)))"
proof (cases "e AND 0x20 = 0 \<or> (w \<and> e AND 0x40 = 0)")
  case True
  have "(e OR 0x20) OR (if w then 0x60 else 0x20) = e OR (if w then 0x60 else 0x20)"
    by (simp add: or.assoc)
  then have "set_entry a (e OR (if w then 0x60 else 0x20)) (mem s) = mark_entry (if w then 0x60 else 0x20) a (mem s)"
    using assms(3) unfolding mark_entry_def by metis
  with True show ?thesis
    by (simp only: update_entry_def mark_bits if_True write_dword_ram [OF assms(1,2)])
next
  case False
  then have e: "bit e 5" "w \<Longrightarrow> bit e 6" by (auto simp: entry_tests)
  then have "entry_at (mem s) a = e"
    using assms(3) or_absorb_bits(1) by metis
  then have "mark_entry (if w then 0x60 else 0x20) a (mem s) = mem s"
    using e or_absorb_bits [of e] by (simp add: mark_entry_def) (metis set_entry_same)
  with False show ?thesis
    by (auto simp: update_entry_def)
qed

definition mask_rights :: "bool \<Rightarrow> Bit32u \<Rightarrow> Bit32u" where
  "mask_rights pge rights = (if pge then rights else rights AND 0x06)"


lemma combined_rights:
  "(pde AND 0x06) OR (if pge then pde AND TLB_GlobalPage else 0) = mask_rights pge (pde AND 0x106)"
  "((pde AND pte) AND 0x06) OR (if pge then pte AND TLB_GlobalPage else 0)
     = mask_rights pge (((pde AND pte) AND 0x06) OR (pte AND 0x100))"
proof -
  have m: "(0x106 :: Bit32u) = 0x06 OR 0x100" by simp
  have "x AND 0x106 = (x AND 0x06) OR (x AND 0x100)" for x :: Bit32u
    by (simp only: m bit.conj_disj_distrib)
  then show "(pde AND 0x06) OR (if pge then pde AND TLB_GlobalPage else 0) = mask_rights pge (pde AND 0x106)"
    by (simp add: mask_rights_def TLB_GlobalPage_def and.assoc bit.conj_disj_distrib2)
  show "((pde AND pte) AND 0x06) OR (if pge then pte AND TLB_GlobalPage else 0)
     = mask_rights pge (((pde AND pte) AND 0x06) OR (pte AND 0x100))"
    by (simp add: mask_rights_def TLB_GlobalPage_def and.assoc bit.conj_disj_distrib2)
qed

lemma allowed_mask_rights [simp]: "allowed wp user w (mask_rights pge r) = allowed wp user w r"
  by (cases pge) (simp_all only: allowed_def mask_rights_def bit_and_iff bit_rights_mask if_True if_False, auto)

definition walk_result ::
    "Bit32u \<Rightarrow> bool \<Rightarrow> bool \<Rightarrow> walk \<Rightarrow> (Bit32u \<times> Bit32u) bx" where
  "walk_result laddr user write w = (\<lambda>s.
     (case w of
        Unmapped \<Rightarrow> page_fault laddr user write False s
      | Mapped dirs leaf pa rights \<Rightarrow>
          if allowed (cr0_wp (cr0 s)) user write rights
          then Done (LPFOf pa, mask_rights (get_PGE s) rights) (with_mem s (marked write w (mem s)))
          else page_fault laddr user write True s))"

lemma LPFOf_frame:
  "LPFOf (pte div 4096 * 4096 + laddr mod 4096) = pte AND 0xfffff000"
  "LPFOf (pde div 0x400000 * 0x400000 + laddr mod 0x400000) = (pde AND 0xFFC00000) OR (laddr AND 0x003FF000)"
proof -
  have "LPFOf (p OR (laddr AND 0x00000fff)) = p" if "page_aligned p" for p
    using LPFOf_page [OF that] by (simp add: LPFOf_def bit.conj_disj_distrib2 and.assoc)
  note * = this
  show "LPFOf (pte div 4096 * 4096 + laddr mod 4096) = pte AND 0xfffff000"
    using * [of "pte AND 0xfffff000"] small_frame [of pte laddr] page_frame_div [of pte] page_aligned_div by metis
  have m: "(0xffc00000 :: Bit32u) = NOT (mask 22)" "(0x003ff000 :: Bit32u) = push_bit 12 (mask 10)"
    by (simp_all add: mask_eq_exp_minus_1)
  have "page_aligned ((pde AND 0xFFC00000) OR (laddr AND 0x003FF000))"
    unfolding page_aligned_take_bit by (simp only: m) (rule bit_word_eqI, auto simp: bit_simps)
  then show "LPFOf (pde div 0x400000 * 0x400000 + laddr mod 0x400000) = (pde AND 0xFFC00000) OR (laddr AND 0x003FF000)"
    using * large_frame [of pde laddr] by metis
qed

lemma walk_large_ram:
  assumes "vm_ok s" "ram_slot s dir"
  shows "walk_large laddr user w dir (entry_at (mem s) dir) 0xFFC00000 0x003FF000 s =
     walk_result laddr user w (Mapped [] dir (entry_at (mem s) dir div 0x400000 * 0x400000 + laddr mod 0x400000)
       (entry_at (mem s) dir AND 0x106)) s"
  using assms unfolding walk_large_def walk_result_def Let_def combined_rights priv_check_allowed
  by (simp add: update_entry_ram LPFOf_frame)


lemma walk_small_ram:
  assumes "vm_ok s" "ram_slot s dir" "ram_slot s tab"
  defines "pde \<equiv> entry_at (mem s) dir" and "pte \<equiv> entry_at (mem s) tab"
  shows "walk_small laddr user w dir pde tab s =
     (if \<not> bit pte 0 then page_fault laddr user w False s
      else walk_result laddr user w (Mapped [dir] tab (pte div 4096 * 4096 + laddr mod 4096)
             (((pde AND pte) AND 0x06) OR (pte AND 0x100))) s)"
proof -
  define t where "t = with_mem s (mark_entry 0x20 dir (mem s))"
  have t: "vm_ok t" "ram_slot t tab" "mem t = mark_entry 0x20 dir (mem s)"
    using assms(1-3) by (simp_all add: t_def)
  have "entry_at (mem t) tab = (if dir = tab then pte OR 0x20 else pte)"
    using entry_at_set_entry [OF assms(1,2), of tab] assms(3)
    by (simp add: t(3) mark_entry_def pte_def ram_slot_def)
  then have "entry_at (mem t) tab = pte \<or> entry_at (mem t) tab = pte OR 0x20" by simp
  note u = update_entry_ram [OF t(1,2) this]
  have "update_accessed dir pde s = Done () t"
    using update_accessed_ram [OF assms(1,2)] by (simp add: pde_def t_def)
  then show ?thesis
    unfolding walk_small_def walk_result_def Let_def combined_rights priv_check_allowed
    using read_dword_ram [OF assms(1,3)] u
    by (simp add: entry_tests LPFOf_frame t(3) pte_def [symmetric]) (simp add: t_def)
qed

lemma walk_32_ram:
  assumes "vm_ok s" "tables_in_ram s laddr"
  shows "walk_32 laddr user w s = walk_result laddr user w (walk32 (get_PSE s) (mem s) (cr3_masked s) laddr) s"
proof -
  note slots = tables_in_ram_slots [OF assms(2)]
  note dir = dir_slot [OF tables_in_ram_aligned [OF assms(2)]]
  show ?thesis
    unfolding walk_32_def and_then_gets Let_def dir tab_slot walk32_def
    using slots read_dword_ram [OF assms(1) slots(1)] assms(1)
    by (auto simp: entry_tests walk_large_ram walk_small_ram walk_result_def)
qed

end
