(* ===== verification/BxTLB.thy ===== *)
theory BxTLB
  imports BxPagingSpec
begin

text \<open>
  The TLB: what a hit returns, what an entry may grant, and the invariant that makes the host
  pointers in its entries safe to use (\<open>tlb_wf\<close>), kept by every routine of
  \<open>paging.cc\<close>.
\<close>

section \<open>Rights of an entry\<close>

text \<open>Bit 4 upwards: read by the supervisor, read by the user, then the two writes.\<close>

definition right_bit :: "bool \<Rightarrow> bool \<Rightarrow> nat" where
  "right_bit user write = (if write then 2 else 0) OR (if user then 1 else 0)"

definition grants :: "bx_TLB_entry \<Rightarrow> bool \<Rightarrow> bool \<Rightarrow> bool" where
  "grants e user write \<longleftrightarrow> bit (accessBits e) (4 + right_bit user write)"

definition grants_pointer :: "bx_TLB_entry \<Rightarrow> bool \<Rightarrow> bool \<Rightarrow> bool" where
  "grants_pointer e user write \<longleftrightarrow> bit (accessBits e) (right_bit user write)"

definition tlb_hit :: "cpu \<Rightarrow> Bit32u \<Rightarrow> bool \<Rightarrow> bool \<Rightarrow> bool" where
  "tlb_hit s laddr user write \<longleftrightarrow>
     (let e = TLB s (BX_TLB_INDEX_OF laddr) in lpf e = LPFOf laddr \<and> grants e user write)"

lemma right_bit_less: "right_bit user write < 4"
  by (simp add: right_bit_def)

lemma right_bit_read: "right_bit user False < 2"
  by (simp add: right_bit_def)

lemma right_bit_write: "2 \<le> right_bit user True"
  by (simp add: right_bit_def)

lemma right_mask: "(w :: Bit32u) AND push_bit (right_bit user write) 0x10 \<noteq> 0 \<longleftrightarrow> bit w (4 + right_bit user write)"
proof -
  have "(0x10 :: Bit32u) = push_bit 4 1" by simp
  then have "push_bit (right_bit user write) (0x10 :: Bit32u) = push_bit (4 + right_bit user write) 1"
    by (simp only: push_bit_push_bit add.commute)
  then show ?thesis
    by (simp add: and_bit_mask_iff del: push_bit_of_1)
qed

lemma bit_granted:
  "bit (granted_bits c w) (4 + right_bit user write) \<longleftrightarrow>
     (if user then bit c 2 else True) \<and> (write \<longrightarrow> w \<and> (user \<longrightarrow> bit c 1))"
proof -
  have g: "\<not> bit (TLB_GlobalPage) (4 + right_bit user write)"
    by (simp add: TLB_GlobalPage_def right_bit_def)
  show ?thesis
    unfolding granted_bits_def bit_or_iff bit_and_iff entry_tests
    using g
    by (simp add: right_bit_def TLB_ReadUserOK_def TLB_ReadSysOK_def TLB_WriteUserOK_def TLB_WriteSysOK_def entry_tests)
qed

lemma bit_entry_bits:
  "bit (b OR drop_bit 4 (b AND 0xf0)) k \<longleftrightarrow> bit b k \<or> (k < 4 \<and> bit (b :: Bit32u) (4 + k))"
proof -
  have m: "(0xf0 :: Bit32u) = push_bit 4 (mask 4)" by (simp add: mask_eq_exp_minus_1)
  show ?thesis
    by (simp only: m) (auto simp: bit_simps dest: bit_imp_le_length)
qed

lemma granted_low: "k < 4 \<Longrightarrow> \<not> bit (granted_bits c w) k"
proof -
  assume k: "k < 4"
  have "take_bit 4 (granted_bits c w) = 0"
    unfolding granted_bits_def
    by (simp add: TLB_ReadUserOK_def TLB_ReadSysOK_def TLB_WriteUserOK_def TLB_WriteSysOK_def
        TLB_GlobalPage_def take_bit_or take_bit_and)
  then have "\<not> bit (take_bit 4 (granted_bits c w)) k" by simp
  with k show ?thesis by (simp add: bit_take_bit_iff)
qed

text \<open>An entry filled after a permitted access grants only what the tables permit.\<close>

lemma granted_sound:
  assumes "allowed wp pl w c" "bit (granted_bits c w) (4 + right_bit user write)"
  shows "allowed wp user write c" "write \<Longrightarrow> w"
  using assms unfolding bit_granted allowed_def by (auto split: if_splits)

section \<open>Hits and misses\<close>

lemma translate_hit:
  assumes "tlb_hit s laddr user (rw \<noteq> BX_READ)"
  shows "translate_linear laddr user rw s = Done (ppf (TLB s (BX_TLB_INDEX_OF laddr)) OR (laddr AND 0xfff)) s"
  using assms right_mask [of "accessBits (TLB s (BX_TLB_INDEX_OF laddr))" user "rw \<noteq> BX_READ"]
  unfolding tlb_hit_def grants_def translate_linear_def Let_def TLB_index_LPFOf right_bit_def
  by simp

lemma translate_miss:
  assumes "\<not> tlb_hit s laddr user (rw \<noteq> BX_READ)"
  shows "translate_linear laddr user rw s =
     and_then (if get_PAE s then walk_pae laddr user (rw \<noteq> BX_READ) else walk_32 laddr user (rw \<noteq> BX_READ))
       (\<lambda>(p, c). and_then (update (fill_TLB laddr rw p c)) (\<lambda>_. ret (p OR (laddr AND 0xfff)))) s"
proof -
  have "\<not> (lpf (TLB s (BX_TLB_INDEX_OF laddr)) = LPFOf laddr \<and>
      accessBits (TLB s (BX_TLB_INDEX_OF laddr)) AND push_bit (right_bit user (rw \<noteq> BX_READ)) 0x10 \<noteq> 0)"
    using assms unfolding tlb_hit_def grants_def right_mask Let_def .
  then show ?thesis
    unfolding translate_linear_def Let_def TLB_index_LPFOf right_bit_def by (simp only: if_False)
qed

lemma walk32_offset:
  "walk32 pse m base laddr = Mapped dirs leaf pa r \<Longrightarrow> LPFOf pa OR (laddr AND 0x00000fff) = pa"
  by (auto simp: walk32_def Let_def LPFOf_frame small_frame large_frame split: if_splits)

text \<open>
  The complete behaviour of a miss on two-level tables: the fault, or the physical address
  together with the updated memory and TLB.
\<close>

definition fault_state :: "Bit32u \<Rightarrow> cpu \<Rightarrow> cpu" where
  "fault_state laddr s = invalidate_TLB (BX_TLB_INDEX_OF laddr) (s\<lparr>cr2 := laddr\<rparr>)"

definition fault_code :: "bool \<Rightarrow> bool \<Rightarrow> bool \<Rightarrow> Bit16u" where
  "fault_code present write user =
     (if present then 1 else 0) + (if write then 2 else 0) + (if user then 4 else 0)"

lemma page_fault_eq:
  "page_fault laddr user write present s =
     Except BX_PF_EXCEPTION (fault_code present write user) (fault_state laddr s)"
  by (simp add: page_fault_def fault_code_def fault_state_def Let_def)

definition filled :: "Bit32u \<Rightarrow> access_op \<Rightarrow> walk \<Rightarrow> cpu \<Rightarrow> cpu" where
  "filled laddr rw w s = (case w of
     Unmapped \<Rightarrow> s
   | Mapped dirs leaf pa rights \<Rightarrow>
       fill_TLB laddr rw (LPFOf pa) (mask_rights (get_PGE s) rights)
         (with_mem s (marked (rw \<noteq> BX_READ) w (mem s))))"

lemma translate_miss_32:
  assumes "\<not> tlb_hit s laddr user (rw \<noteq> BX_READ)" "\<not> get_PAE s" "vm_ok s" "tables_in_ram s laddr"
  shows "translate_linear laddr user rw s =
     (let w = walk32 (get_PSE s) (mem s) (cr3_masked s) laddr; write = (rw \<noteq> BX_READ) in
      case w of
        Unmapped \<Rightarrow> Except BX_PF_EXCEPTION (fault_code False write user) (fault_state laddr s)
      | Mapped dirs leaf pa rights \<Rightarrow>
          if allowed (cr0_wp (cr0 s)) user write rights then Done pa (filled laddr rw w s)
          else Except BX_PF_EXCEPTION (fault_code True write user) (fault_state laddr s))"
proof -
  note walk = walk_32_ram [OF assms(3,4), of user "rw \<noteq> BX_READ"]
  show ?thesis
  proof (cases "walk32 (get_PSE s) (mem s) (cr3_masked s) laddr")
    case Unmapped
    with walk show ?thesis
      by (simp add: translate_miss [OF assms(1)] assms(2) walk_result_def page_fault_eq and_then_def)
  next
    case (Mapped dirs leaf pa rights)
    with walk walk32_offset [OF Mapped] show ?thesis
      by (simp add: translate_miss [OF assms(1)] assms(2) walk_result_def page_fault_eq and_then_def filled_def)
  qed
qed

section \<open>The invariant of the TLB\<close>

text \<open>
  A valid entry sits at the index of its page; a pointer right comes with the right itself and
  with a host pointer that the memory system would hand out for that access now.
\<close>

definition tlb_entry_ok :: "cpu \<Rightarrow> 10 word \<Rightarrow> bool" where
  "tlb_entry_ok s i \<longleftrightarrow>
     (let e = TLB s i in lpf e \<noteq> BX_INVALID_TLB_ENTRY \<longrightarrow>
        page_aligned (lpf e) \<and> BX_TLB_INDEX_OF (lpf e) = i \<and> page_aligned (ppf e) \<and>
        (\<forall>user write. grants_pointer e user write \<longrightarrow> grants e user write \<and> hostPageAddr e \<noteq> None \<and>
           getHostMemAddr (A20ADDR s (ppf e)) (if write then BX_WRITE else BX_READ) s = hostPageAddr e))"

definition tlb_wf :: "cpu \<Rightarrow> bool" where
  "tlb_wf s \<longleftrightarrow> (\<forall>i. tlb_entry_ok s i)"

lemma tlb_wfI: "(\<And>i. tlb_entry_ok s i) \<Longrightarrow> tlb_wf s"
  by (simp add: tlb_wf_def)

text \<open>The pointer of a page depends on the devices and the size of memory, not on its bytes.\<close>

lemma getHostMemAddr_cong:
  assumes "local_apic_base t = local_apic_base s" "ioapic_base t = ioapic_base s"
    "memory_handlers (mem t) = memory_handlers (mem s)" "mem_len (mem t) = mem_len (mem s)"
  shows "getHostMemAddr a acc t = getHostMemAddr a acc s"
  using assms by (simp add: getHostMemAddr_def handled_def rom_index_def bogus_index_def)

lemma tlb_wf_cong:
  assumes "TLB t = TLB s" "local_apic_base t = local_apic_base s" "ioapic_base t = ioapic_base s"
    "a20_mask t = a20_mask s" "memory_handlers (mem t) = memory_handlers (mem s)"
    "mem_len (mem t) = mem_len (mem s)"
  shows "tlb_wf t = tlb_wf s"
  using assms getHostMemAddr_cong [of t s]
  by (simp add: tlb_wf_def tlb_entry_ok_def A20ADDR_def)

lemma getHostMemAddr_read_of_write:
  "getHostMemAddr a acc s = Some h \<Longrightarrow> acc \<noteq> BX_READ \<Longrightarrow> getHostMemAddr a BX_READ s = Some h"
  by (auto simp: getHostMemAddr_def split: if_splits)

lemma getHostMemAddr_RW: "acc \<noteq> BX_READ \<Longrightarrow> getHostMemAddr a acc s = getHostMemAddr a BX_WRITE s"
  by (simp add: getHostMemAddr_def)

lemma tlb_entry_ok_set:
  assumes "tlb_wf s" "tlb_entry_ok (set_TLB i e s) i"
  shows "tlb_wf (set_TLB i e s)"
proof (rule tlb_wfI)
  fix j
  show "tlb_entry_ok (set_TLB i e s) j"
  proof (cases "j = i")
    case False
    then have "TLB (set_TLB i e s) j = TLB s j" by (simp add: set_TLB_def)
    moreover have "getHostMemAddr a acc (set_TLB i e s) = getHostMemAddr a acc s" for a acc
      by (rule getHostMemAddr_cong) (simp_all add: set_TLB_def)
    moreover have "tlb_entry_ok s j" using assms(1) by (simp add: tlb_wf_def)
    ultimately show ?thesis
      by (simp add: tlb_entry_ok_def A20ADDR_def set_TLB_def)
  qed (use assms(2) in simp)
qed

lemma tlb_wf_set_TLB:
  assumes "tlb_wf s" "lpf e = LPFOf laddr" "page_aligned (ppf e)"
    and "\<And>user wr. grants_pointer e user wr \<Longrightarrow> grants e user wr \<and> hostPageAddr e \<noteq> None \<and>
           getHostMemAddr (A20ADDR s (ppf e)) (if wr then BX_WRITE else BX_READ) s = hostPageAddr e"
  shows "tlb_wf (set_TLB (BX_TLB_INDEX_OF laddr) e s)"
proof (rule tlb_entry_ok_set [OF assms(1)])
  let ?t = "set_TLB (BX_TLB_INDEX_OF laddr) e s"
  have "getHostMemAddr a acc ?t = getHostMemAddr a acc s" for a acc
    by (rule getHostMemAddr_cong) (simp_all add: set_TLB_def)
  moreover have "TLB ?t (BX_TLB_INDEX_OF laddr) = e" "A20ADDR ?t a = A20ADDR s a" for a
    by (simp_all add: set_TLB_def A20ADDR_def)
  ultimately show "tlb_entry_ok ?t (BX_TLB_INDEX_OF laddr)"
    using assms(2-4) by (simp add: tlb_entry_ok_def)
qed

lemma tlb_wf_invalid: "(\<And>i. lpf (TLB s i) = BX_INVALID_TLB_ENTRY) \<Longrightarrow> tlb_wf s"
  by (simp add: tlb_wf_def tlb_entry_ok_def)

lemma tlb_wf_invalidate: "tlb_wf s \<Longrightarrow> tlb_wf (invalidate_TLB i s)"
  unfolding invalidate_TLB_def by (rule tlb_entry_ok_set) (simp_all add: tlb_entry_ok_def set_TLB_def)

lemma tlb_wf_flush: "tlb_wf s \<Longrightarrow> tlb_wf (TLB_flush g s)"
proof -
  assume wf: "tlb_wf s"
  have "getHostMemAddr a acc (TLB_flush g s) = getHostMemAddr a acc s" for a acc
    by (rule getHostMemAddr_cong) (simp_all add: TLB_flush_def)
  with wf show ?thesis
    by (auto simp: tlb_wf_def tlb_entry_ok_def A20ADDR_def TLB_flush_def Let_def grants_def grants_pointer_def
        split: if_splits)
qed

lemma tlb_wf_fill_TLB:
  assumes "tlb_wf s" "page_aligned p"
  shows "tlb_wf (fill_TLB laddr rw p c s)"
proof -
  define h where "h = getHostMemAddr (A20ADDR s p) rw s"
  define b where "b = granted_bits c (rw \<noteq> BX_READ)"
  define c' where "c' = b OR drop_bit 4 (b AND 0xf0)"
  have c': "bit c' k \<longleftrightarrow> bit b k \<or> (k < 4 \<and> bit b (4 + k))" for k
    unfolding c'_def by (rule bit_entry_bits)
  define e where "e = \<lparr>lpf = LPFOf laddr, ppf = p,
    accessBits = (if h \<noteq> None then c' else b), hostPageAddr = h\<rparr>"
  define i where "i = BX_TLB_INDEX_OF laddr"
  have eq: "fill_TLB laddr rw p c s = set_TLB i e s"
    by (simp only: fill_TLB_def Let_def e_def h_def b_def i_def c'_def TLB_index_LPFOf)
  have ptr: "grants e user wr \<and> h \<noteq> None \<and> (wr \<longrightarrow> rw \<noteq> BX_READ)" if "grants_pointer e user wr" for user wr
  proof -
    have low: "\<not> bit b (right_bit user wr)"
      unfolding b_def by (rule granted_low) (rule right_bit_less)
    with that have "h \<noteq> None" "bit b (4 + right_bit user wr)"
      by (auto simp: grants_pointer_def e_def c' right_bit_less split: if_splits)
    with low show ?thesis
      by (auto simp: grants_def e_def c' b_def bit_granted split: if_splits)
  qed
  have host: "getHostMemAddr (A20ADDR s p) (if wr then BX_WRITE else BX_READ) s = h" if "grants_pointer e user wr" for user wr
  proof -
    from ptr [OF that] obtain h' where h': "h = Some h'" and w: "wr \<longrightarrow> rw \<noteq> BX_READ" by auto
    show ?thesis
    proof (cases "rw = BX_READ")
      case True
      with w show ?thesis by (simp add: h_def)
    next
      case False
      then have "getHostMemAddr (A20ADDR s p) BX_READ s = h"
        using getHostMemAddr_read_of_write h' h_def by metis
      with False show ?thesis
        using getHostMemAddr_RW [OF False] by (simp add: h_def)
    qed
  qed
  have f: "lpf e = LPFOf laddr" "ppf e = p" "hostPageAddr e = h"
    by (simp_all add: e_def)
  show ?thesis
    unfolding eq i_def
  proof (rule tlb_wf_set_TLB [OF assms(1) f(1)])
    show "page_aligned (ppf e)" unfolding f by (rule assms(2))
  next
    fix user wr assume g: "grants_pointer e user wr"
    show "grants e user wr \<and> hostPageAddr e \<noteq> None \<and>
        getHostMemAddr (A20ADDR s (ppf e)) (if wr then BX_WRITE else BX_READ) s = hostPageAddr e"
      unfolding f using ptr [OF g] host [OF g] by blast
  qed
qed

lemma bit_0x33: "user_wr < 4 \<Longrightarrow> bit (0x33 :: Bit32u) user_wr \<longleftrightarrow> user_wr < 2"
proof -
  assume "user_wr < 4"
  then have "user_wr = 0 \<or> user_wr = 1 \<or> user_wr = 2 \<or> user_wr = 3" by auto
  then show ?thesis by auto
qed

lemma tlb_wf_direct:
  assumes "tlb_wf s" "p = LPFOf laddr"
    and "bits = 0xff \<and> getHostMemAddr (A20ADDR s p) BX_WRITE s \<noteq> None \<and> h = getHostMemAddr (A20ADDR s p) BX_WRITE s \<or>
         bits = 0x33 \<and> getHostMemAddr (A20ADDR s p) BX_READ s \<noteq> None \<and> h = getHostMemAddr (A20ADDR s p) BX_READ s \<or>
         bits = 0"
  shows "tlb_wf (set_TLB (BX_TLB_INDEX_OF laddr) \<lparr>lpf = p, ppf = p, accessBits = bits, hostPageAddr = h\<rparr> s)"
proof (rule tlb_wf_set_TLB [OF assms(1)])
  let ?e = "\<lparr>lpf = p, ppf = p, accessBits = bits, hostPageAddr = h\<rparr>"
  fix user wr assume "grants_pointer ?e user wr"
  then have b: "bit bits (right_bit user wr)" by (simp add: grants_pointer_def)
  have "bit (0xff :: Bit32u) (4 + right_bit user wr)" by (simp add: right_bit_def)
  moreover have wr: "right_bit user wr < 2 \<longleftrightarrow> \<not> wr"
    by (cases wr) (use right_bit_write [of user] in \<open>simp_all add: right_bit_read\<close>)
  moreover have "bit (0x33 :: Bit32u) (4 + right_bit user wr)" if "right_bit user wr < 2"
    using that wr by (simp add: right_bit_def)
  ultimately show "grants ?e user wr \<and> hostPageAddr ?e \<noteq> None \<and>
      getHostMemAddr (A20ADDR s (ppf ?e)) (if wr then BX_WRITE else BX_READ) s = hostPageAddr ?e"
    using assms(3) b bit_0x33 [OF right_bit_less [of user wr]] getHostMemAddr_read_of_write [of "A20ADDR s p" BX_WRITE s]
    by (auto simp: grants_def)
qed (simp_all add: assms(2))

lemma read_rights_0x33:
  "TLB_ReadSysOK OR TLB_ReadUserOK OR TLB_ReadSysPtrOK OR TLB_ReadUserPtrOK = 0x33"
  by (simp add: TLB_ReadSysOK_def TLB_ReadUserOK_def TLB_ReadSysPtrOK_def TLB_ReadUserPtrOK_def)

lemma tlb_wf_off_read: "tlb_wf s \<Longrightarrow> tlb_wf (fill_TLB_off_read laddr s)"
  unfolding fill_TLB_off_read_def Let_def read_rights_0x33
  by (auto intro!: tlb_wf_direct split: option.split)

lemma tlb_wf_off_write: "tlb_wf s \<Longrightarrow> tlb_wf (fill_TLB_off_write laddr s)"
  unfolding fill_TLB_off_write_def Let_def by (auto intro!: tlb_wf_direct)

lemma readPhysicalPage_state: "state_of (readPhysicalPage a n s) = s"
proof -
  have host: "state_of (load_host i s) = s" for i by (simp add: load_host_def)
  have seq: "state_of (and_then m (\<lambda>b. and_then (k b) (\<lambda>bs. ret (b # bs))) s) = s"
    if "state_of (m s) = s" "\<And>b. state_of (k b s) = s" for m :: "Bit8u bx" and k :: "Bit8u \<Rightarrow> Bit8u list bx"
  proof (cases "m s")
    case (Done b t)
    with that have "state_of (k b s) = s" "t = s" by auto
    with Done show ?thesis by (cases "k b s") (auto simp: and_then_def)
  qed (use that in \<open>auto simp: and_then_def\<close>)
  have "state_of (load_hosts i n s) = s" for i n
    by (induction n arbitrary: i) (simp_all add: seq host)
  moreover have "state_of (read_byte_inside a s) = s" "state_of (read_byte_outside a s) = s" for a
    by (simp_all add: read_byte_inside_def read_byte_outside_def host)
  then have "state_of (read_one a n s) = s" "state_of (read_outside a b n s) = s" for a b n
    by (induction n arbitrary: a b) (simp_all add: seq)
  ultimately show ?thesis
    by (simp add: readPhysicalPage_def Let_def)
qed

lemma stable_readPhysicalPage [stable_intros]: "stable I (readPhysicalPage a n)"
  by (simp add: stable_def readPhysicalPage_state)

text \<open>The frame a walk returns is the base of a page.\<close>

lemma frames_aligned:
  "page_aligned (pte AND 0xfffff000)"
  "page_aligned ((pde AND 0xFFC00000) OR (laddr AND 0x003FF000))"
  "page_aligned ((pde AND 0xffe00000) OR (laddr AND 0x001ff000))"
proof -
  have m: "(0xffc00000 :: Bit32u) = NOT (mask 22)" "(0x003ff000 :: Bit32u) = push_bit 12 (mask 10)"
    "(0xffe00000 :: Bit32u) = NOT (mask 21)" "(0x001ff000 :: Bit32u) = push_bit 12 (mask 9)"
    by (simp_all add: mask_eq_exp_minus_1)
  show "page_aligned (pte AND 0xfffff000)" by (metis page_aligned_LPFOf LPFOf_def)
  show "page_aligned ((pde AND 0xFFC00000) OR (laddr AND 0x003FF000))"
    unfolding page_aligned_take_bit by (simp only: m(1,2)) (rule bit_word_eqI, auto simp: bit_simps)
  show "page_aligned ((pde AND 0xffe00000) OR (laddr AND 0x001ff000))"
    unfolding page_aligned_take_bit by (simp only: m(3,4)) (rule bit_word_eqI, auto simp: bit_simps)
qed

lemma page_fault_not_Done [simp]: "page_fault laddr user wr present s \<noteq> Done x t"
  by (simp add: page_fault_eq)

lemma walk_large_frame:
  "walk_large laddr user wr a e fm om s = Done (p, c) t \<Longrightarrow> p = (e AND fm) OR (laddr AND om)"
  by (auto simp: walk_large_def Let_def and_then_Done_iff split: if_splits)

lemma walk_small_frame:
  "walk_small laddr user wr a e b s = Done (p, c) t \<Longrightarrow> page_aligned p"
  by (auto simp: walk_small_def Let_def and_then_Done_iff frames_aligned simp del: drop_bit_and split: if_splits)

lemma walks_frame_aligned:
  "walk_pae laddr user wr s = Done (p, c) t \<Longrightarrow> page_aligned p"
  "walk_32 laddr user wr s = Done (p, c) t \<Longrightarrow> page_aligned p"
  by (auto simp: walk_pae_def walk_32_def Let_def and_then_Done_iff frames_aligned simp del: drop_bit_and
      split: if_splits dest!: walk_large_frame dest: walk_small_frame)

section \<open>What address translation can change\<close>

text \<open>
  The contract between the routines of \<open>memory.cc\<close> and \<open>paging.cc\<close> and a
  property of the machine state: a property that survives the elementary steps (a store into the
  host block, a fault, a TLB fill, the bookkeeping of the last translation) survives every
  routine built from them.
\<close>

locale store_invariant =
  fixes I :: "cpu \<Rightarrow> bool"
  assumes store: "I s \<Longrightarrow> I (s\<lparr>mem := (mem s)\<lparr>vector := v\<rparr>\<rparr>)"
begin

lemma store_host: "stable I (store_host i b)"
  by (rule stableI) (simp add: store_host_def store)

lemma store_hosts: "stable I (store_hosts i bs)"
  by (induction bs arbitrary: i) (auto intro: stable_intros store_host)

lemma write_one: "stable I (write_one a bs)"
  by (induction bs arbitrary: a) (auto simp: write_byte_inside_def intro!: stable_intros store_host)

lemma write_byte_outside: "stable I (write_byte_outside a b)"
  unfolding write_byte_outside_def
  by (rule stableI) (auto intro: stableD stable_intros store_host)

lemma write_outside: "stable I (write_outside a a' bs)"
  by (induction bs arbitrary: a a') (auto intro!: stable_intros write_byte_outside)

lemma writePhysicalPage: "stable I (writePhysicalPage a bs)"
  unfolding writePhysicalPage_def Let_def
  by (rule stableI) (auto intro: stableD stable_intros store_hosts write_one write_outside)

lemma entries:
  "stable I (read_dword a)"
  "stable I (write_dword a v)"
  "stable I (update_entry a e w)"
  "stable I (update_accessed a e)"
  by (auto simp: read_dword_def write_dword_def update_entry_def update_accessed_def
      intro!: stable_intros writePhysicalPage)

end

locale paging_invariant = store_invariant +
  assumes fault: "I s \<Longrightarrow> I (fault_state laddr s)"
    and fill: "I s \<Longrightarrow> page_aligned p \<Longrightarrow> I (fill_TLB laddr rw p c s)"
begin

lemma page_fault: "stable I (page_fault laddr user wr present)"
  by (rule stableI) (simp add: page_fault_eq fault)

lemma walk_large: "stable I (walk_large laddr user wr a e fm om)"
  unfolding walk_large_def Let_def
  by (rule stable_state) (intro stable_intros page_fault entries)

lemma walk_small: "stable I (walk_small laddr user wr a e b)"
  unfolding walk_small_def Let_def
  by (intro stable_intros entries page_fault, rule stable_state) (intro stable_intros page_fault entries)

lemma walks: "stable I (walk_pae laddr user wr)" "stable I (walk_32 laddr user wr)"
  unfolding walk_pae_def walk_32_def Let_def
  by (intro stable_intros page_fault entries walk_large walk_small)+

lemma translate_linear: "stable I (translate_linear laddr user rw)"
proof (rule stableI)
  fix s assume wf: "I s"
  let ?walk = "if get_PAE s then walk_pae laddr user (rw \<noteq> BX_READ) else walk_32 laddr user (rw \<noteq> BX_READ)"
  have walk: "stable I ?walk" by (intro stable_intros walks)
  show "I (state_of (translate_linear laddr user rw s))"
  proof (cases "tlb_hit s laddr user (rw \<noteq> BX_READ)")
    case True
    with wf show ?thesis by (simp add: translate_hit)
  next
    case False
    note miss = translate_miss [OF False]
    show ?thesis
    proof (cases "?walk s")
      case (Done r t)
      obtain p c where r: "r = (p, c)" by (cases r)
      have "page_aligned p"
        using Done r by (cases "get_PAE s") (auto dest: walks_frame_aligned)
      moreover have "I t" using stable_Done [OF walk Done wf] .
      ultimately show ?thesis
        using Done r by (simp add: miss fill)
    qed (use stableD [OF walk wf] in \<open>simp_all add: miss and_then_def\<close>)
  qed
qed

end

text \<open>The same for the accesses themselves: first with paging off, then in general.\<close>

locale unpaged_invariant = store_invariant +
  assumes off_read: "I s \<Longrightarrow> I (fill_TLB_off_read laddr s)"
    and off_write: "I s \<Longrightarrow> I (fill_TLB_off_write laddr s)"
    and xlation: "I s \<Longrightarrow> I (s\<lparr>paddress1 := a, paddress2 := b, len1 := l, len2 := k, pages := n\<rparr>)"
begin

lemma xlation_one_page: "stable I (update (\<lambda>s. s\<lparr>paddress1 := a, pages := n\<rparr>))"
proof (rule stable_update)
  fix s assume "I s"
  then show "I (s\<lparr>paddress1 := a, pages := n\<rparr>)"
    using xlation [of s n "len2 s" "len1 s" "paddress2 s" a] by simp
qed

lemma xlation_two_pages: "stable I (update (\<lambda>s. s\<lparr>paddress1 := a, len1 := l, len2 := k, pages := n\<rparr>))"
proof (rule stable_update)
  fix s assume "I s"
  then show "I (s\<lparr>paddress1 := a, len1 := l, len2 := k, pages := n\<rparr>)"
    using xlation [of s n k l "paddress2 s" a] by simp
qed

lemma xlation_second_page: "stable I (update (\<lambda>s. s\<lparr>paddress2 := b\<rparr>))"
proof (rule stable_update)
  fix s assume "I s"
  then show "I (s\<lparr>paddress2 := b\<rparr>)"
    using xlation [of s "pages s" "len2 s" "len1 s" b "paddress1 s"] by simp
qed

lemma xlation_host_page: "stable I (update (\<lambda>s. s\<lparr>pages := n\<rparr>))"
proof (rule stable_update)
  fix s assume "I s"
  then show "I (s\<lparr>pages := n\<rparr>)"
    using xlation [of s n "len2 s" "len1 s" "paddress2 s" "paddress1 s"] by simp
qed

lemma xlation_off_two_pages: "stable I (update (\<lambda>s. s\<lparr>paddress1 := a, paddress2 := b, len1 := l, len2 := k, pages := n\<rparr>))"
proof (rule stable_update)
  fix s assume "I s"
  then show "I (s\<lparr>paddress1 := a, paddress2 := b, len1 := l, len2 := k, pages := n\<rparr>)"
    using xlation [of s n k l b a] by simp
qed

lemmas xlation_steps = xlation_one_page xlation_two_pages xlation_second_page xlation_host_page
  xlation_off_two_pages

lemma fill_steps:
  "stable I (update (fill_TLB_off_read laddr))" "stable I (update (fill_TLB_off_write laddr))"
  by (rule stable_update, erule off_read off_write)+

lemma unpaged:
  "stable I (read_unpaged laddr n)" "stable I (write_unpaged laddr bs)"
  unfolding read_unpaged_def write_unpaged_def Let_def
  by (intro stable_intros xlation_steps fill_steps writePhysicalPage)+

end

locale linear_invariant = paging_invariant I + unpaged_invariant I for I
begin

lemma access_linear:
  "stable I (access_linear_read laddr n user rw)" "stable I (access_linear_write laddr bs user)"
  unfolding access_linear_read_def access_linear_write_def read_paged_def write_paged_def Let_def
  by (intro stable_intros xlation_steps translate_linear unpaged writePhysicalPage)+

end

section \<open>The invariants that address translation keeps\<close>

lemma tlb_wf_xlation:
  "tlb_wf (s\<lparr>paddress1 := a, paddress2 := b, len1 := l, len2 := k, pages := n\<rparr>) = tlb_wf s"
  "tlb_wf (s\<lparr>cr2 := a\<rparr>) = tlb_wf s"
  "tlb_wf (s\<lparr>mem := (mem s)\<lparr>vector := v\<rparr>\<rparr>) = tlb_wf s"
  by (rule tlb_wf_cong, simp_all)+

interpretation tlb: linear_invariant tlb_wf
proof
  show "tlb_wf s \<Longrightarrow> tlb_wf (fault_state laddr s)" for s laddr
    by (simp add: fault_state_def tlb_wf_invalidate tlb_wf_xlation)
qed (simp_all add: tlb_wf_xlation tlb_wf_fill_TLB tlb_wf_off_read tlb_wf_off_write)

text \<open>
  Everything but the bytes of memory, the TLB, CR2 and the record of the last translation:
  registers, flags, segments, control registers, the layout of memory.
\<close>

definition core :: "cpu \<Rightarrow> cpu" where
  "core s = s\<lparr>TLB := (\<lambda>_. \<lparr>lpf = 0, ppf = 0, accessBits = 0, hostPageAddr = None\<rparr>), cr2 := 0,
     paddress1 := 0, paddress2 := 0, len1 := 0, len2 := 0, pages := Pages 0,
     mem := (mem s)\<lparr>vector := (\<lambda>_. 0)\<rparr>\<rparr>"

interpretation core: linear_invariant "\<lambda>s. core s = c"
  by unfold_locales
    (auto simp: core_def fault_state_def invalidate_TLB_def set_TLB_def fill_TLB_def
      fill_TLB_off_read_def fill_TLB_off_write_def Let_def split: option.split)

text \<open>With paging off an entry maps a page to itself.\<close>

definition tlb_identity :: "cpu \<Rightarrow> bool" where
  "tlb_identity s \<longleftrightarrow> (\<forall>i. lpf (TLB s i) \<noteq> BX_INVALID_TLB_ENTRY \<longrightarrow> ppf (TLB s i) = lpf (TLB s i))"

interpretation tlb_id: unpaged_invariant tlb_identity
  by unfold_locales
    (auto simp: tlb_identity_def set_TLB_def fill_TLB_off_read_def fill_TLB_off_write_def Let_def split: option.split)

end
