(* ===== verification/BxAccess.thy ===== *)
theory BxAccess
  imports BxTLB
begin

text \<open>
  Access to memory through a segment (\<open>cpu/access.cc\<close>): the checks on the segment
  descriptor, the shortcut through a host pointer of the TLB, the slow path through
  \<open>access_linear\<close>, and the read-modify-write pairs that keep the translation between the
  read and the write.
\<close>

section \<open>Segment checks\<close>

definition SegValidCache :: Bit32u where "SegValidCache = 0x1"
definition SegAccessROK :: Bit32u where "SegAccessROK = 0x2"
definition SegAccessWOK :: Bit32u where "SegAccessWOK = 0x4"

definition int_number :: "seg_reg \<Rightarrow> nat" where
  "int_number seg = (if seg = SS then BX_SS_EXCEPTION else BX_GP_EXCEPTION)"

definition set_seg_valid :: "seg_reg \<Rightarrow> Bit32u \<Rightarrow> cpu \<Rightarrow> cpu" where
  "set_seg_valid sg v s =
     s\<lparr>sregs := (sregs s)(sg := (sregs s sg)\<lparr>seg_valid := seg_valid (sregs s sg) OR v\<rparr>)\<rparr>"

text \<open>The limit checks of a normal and of an expand-down segment.\<close>

definition beyond_limit :: "Bit32u \<Rightarrow> Bit32u \<Rightarrow> Bit32u \<Rightarrow> bool" where
  "beyond_limit offset limit_scaled len \<longleftrightarrow>
     offset > limit_scaled - len + 1 \<or> len - 1 > limit_scaled"

definition beyond_limit_ED :: "bool \<Rightarrow> Bit32u \<Rightarrow> Bit32u \<Rightarrow> Bit32u \<Rightarrow> bool" where
  "beyond_limit_ED d_b offset limit_scaled len \<longleftrightarrow>
     (let upper_limit = (if d_b then 0xffffffff else 0x0000ffff) in
      offset \<le> limit_scaled \<or> offset > upper_limit \<or> upper_limit - offset < len - 1)"

definition write_virtual_checks :: "seg_reg \<Rightarrow> Bit32u \<Rightarrow> Bit32u \<Rightarrow> unit bx" where
  "write_virtual_checks sg offset len = (\<lambda>s.
     (let c = sregs s sg;
          mark = update (\<lambda>s. if seg_limit_scaled c \<ge> 7 then set_seg_valid sg SegAccessWOK s else s)
      in if protected_mode s then
           (if seg_valid c = 0 then raise BX_GP_EXCEPTION 0 s
            else if \<not> seg_p c then raise (int_number sg) 0 s
            else if seg_type c \<in> {0, 1, 4, 5, 8, 9, 10, 11, 12, 13, 14, 15} then raise (int_number sg) 0 s
            else if seg_type c \<in> {2, 3} then
              (if beyond_limit offset (seg_limit_scaled c) len then raise (int_number sg) 0 s else mark s)
            else if seg_type c \<in> {6, 7} then
              (if beyond_limit_ED (seg_d_b c) offset (seg_limit_scaled c) len
               then raise (int_number sg) 0 s else ret () s)
            else ret () s)
         else if beyond_limit offset (seg_limit_scaled c) len then raise (int_number sg) 0 s
         else mark s))"

definition read_virtual_checks :: "seg_reg \<Rightarrow> Bit32u \<Rightarrow> Bit32u \<Rightarrow> unit bx" where
  "read_virtual_checks sg offset len = (\<lambda>s.
     (let c = sregs s sg;
          mark = update (\<lambda>s. if seg_limit_scaled c \<ge> 7 then set_seg_valid sg SegAccessROK s else s)
      in if protected_mode s then
           (if seg_valid c = 0 then raise BX_GP_EXCEPTION 0 s
            else if \<not> seg_p c then raise (int_number sg) 0 s
            else if seg_type c \<in> {0, 1, 10, 11, 14, 15} then
              (if beyond_limit offset (seg_limit_scaled c) len then raise (int_number sg) 0 s else mark s)
            else if seg_type c \<in> {2, 3} then
              (if beyond_limit offset (seg_limit_scaled c) len then raise (int_number sg) 0 s else mark s)
            else if seg_type c \<in> {4, 5} then
              (if beyond_limit_ED (seg_d_b c) offset (seg_limit_scaled c) len
               then raise (int_number sg) 0 s else ret () s)
            else if seg_type c \<in> {6, 7} then
              (if beyond_limit_ED (seg_d_b c) offset (seg_limit_scaled c) len
               then raise (int_number sg) 0 s else ret () s)
            else if seg_type c \<in> {8, 9, 12, 13} then raise (int_number sg) 0 s
            else ret () s)
         else if beyond_limit offset (seg_limit_scaled c) len then raise (int_number sg) 0 s
         else mark s))"

section \<open>Host pointers from the TLB\<close>

text \<open>
  \<open>v2h_read_byte/word/dword/qword\<close> for \<open>n\<close> = 1, 2, 4, 8: the constants
  \<open>0xffe\<close>, \<open>0xffc\<close>, \<open>0xff8\<close> are \<open>4096 - n\<close>. A host address is
  the page address or-ed with the page offset. An entry that grants the access has a page address
  under the TLB invariant \<open>tlb_wf\<close>; without one the model yields no pointer.
\<close>

definition v2h_read :: "nat \<Rightarrow> Bit32u \<Rightarrow> bool \<Rightarrow> cpu \<Rightarrow> nat option" where
  "v2h_read n laddr pl s =
     (let pageOffset = laddr AND 0xfff; tlbEntry = TLB s (BX_TLB_INDEX_OF laddr) in
      if pageOffset \<le> word_of_nat (4096 - n) \<and> lpf tlbEntry = LPFOf laddr \<and>
         accessBits tlbEntry AND push_bit (of_bool pl) 1 \<noteq> 0
      then map_option (\<lambda>h. h OR unat pageOffset) (hostPageAddr tlbEntry) else None)"

definition v2h_write :: "nat \<Rightarrow> Bit32u \<Rightarrow> bool \<Rightarrow> cpu \<Rightarrow> nat option" where
  "v2h_write n laddr pl s =
     (let pageOffset = laddr AND 0xfff; tlbEntry = TLB s (BX_TLB_INDEX_OF laddr) in
      if pageOffset \<le> word_of_nat (4096 - n) \<and> lpf tlbEntry = LPFOf laddr \<and>
         accessBits tlbEntry AND push_bit (of_bool pl) 0x04 \<noteq> 0
      then map_option (\<lambda>h. h OR unat pageOffset) (hostPageAddr tlbEntry) else None)"

section \<open>Reads and writes\<close>

text \<open>What the four routines of a kind share, from the label \<open>accessOK\<close> on.\<close>

definition accessOK_read :: "nat \<Rightarrow> seg_reg \<Rightarrow> Bit32u \<Rightarrow> Bit8u list bx" where
  "accessOK_read n sg offset = (\<lambda>s.
     (let laddr = get_segment_base sg s + offset; pl = (CPL s = 3) in
      case v2h_read n laddr pl s of
        Some hostAddr \<Rightarrow> load_hosts hostAddr n s
      | None \<Rightarrow> access_linear_read laddr n pl BX_READ s))"

definition accessOK_write :: "seg_reg \<Rightarrow> Bit32u \<Rightarrow> Bit8u list \<Rightarrow> unit bx" where
  "accessOK_write sg offset data = (\<lambda>s.
     (let laddr = get_segment_base sg s + offset; pl = (CPL s = 3) in
      case v2h_write (length data) laddr pl s of
        Some hostAddr \<Rightarrow> store_hosts hostAddr data s
      | None \<Rightarrow> access_linear_write laddr data pl s))"

definition accessOK_RMW :: "nat \<Rightarrow> seg_reg \<Rightarrow> Bit32u \<Rightarrow> Bit8u list bx" where
  "accessOK_RMW n sg offset = (\<lambda>s.
     (let laddr = get_segment_base sg s + offset; pl = (CPL s = 3) in
      case v2h_write n laddr pl s of
        Some hostAddr \<Rightarrow>
          and_then (load_hosts hostAddr n) (\<lambda>bs.
          and_then (update (\<lambda>s. s\<lparr>pages := HostPtr hostAddr\<rparr>)) (\<lambda>_. ret bs)) s
      | None \<Rightarrow> access_linear_read laddr n pl BX_RW s))"

text \<open>The quick limit tests; \<open>SegAccessROK/WOK\<close> is set for limits of at least 7 only.\<close>

definition in_limit_byte :: "Bit32u \<Rightarrow> Bit32u \<Rightarrow> bool" where
  "in_limit_byte offset limit_scaled \<longleftrightarrow> offset \<le> limit_scaled"

definition in_limit_word :: "Bit32u \<Rightarrow> Bit32u \<Rightarrow> bool" where
  "in_limit_word offset limit_scaled \<longleftrightarrow> offset < limit_scaled"

definition in_limit_dword :: "Bit32u \<Rightarrow> Bit32u \<Rightarrow> bool" where
  "in_limit_dword offset limit_scaled \<longleftrightarrow> offset < limit_scaled - 2"

definition in_limit_qword :: "Bit32u \<Rightarrow> Bit32u \<Rightarrow> bool" where
  "in_limit_qword offset limit_scaled \<longleftrightarrow> offset \<le> limit_scaled - 7"

definition quick_segment :: "Bit32u \<Rightarrow> (Bit32u \<Rightarrow> Bit32u \<Rightarrow> bool) \<Rightarrow> seg_reg \<Rightarrow> Bit32u \<Rightarrow> cpu \<Rightarrow> bool" where
  "quick_segment acc in_limit sg offset s \<longleftrightarrow>
     seg_valid (sregs s sg) AND acc \<noteq> 0 \<and> in_limit offset (seg_limit_scaled (sregs s sg))"

definition read_virtual ::
    "(Bit32u \<Rightarrow> Bit32u \<Rightarrow> bool) \<Rightarrow> nat \<Rightarrow> seg_reg \<Rightarrow> Bit32u \<Rightarrow> Bit8u list bx" where
  "read_virtual in_limit n sg offset = (\<lambda>s.
     if quick_segment SegAccessROK in_limit sg offset s then accessOK_read n sg offset s
     else and_then (read_virtual_checks sg offset (word_of_nat n)) (\<lambda>_. accessOK_read n sg offset) s)"

definition write_virtual ::
    "(Bit32u \<Rightarrow> Bit32u \<Rightarrow> bool) \<Rightarrow> seg_reg \<Rightarrow> Bit32u \<Rightarrow> Bit8u list \<Rightarrow> unit bx" where
  "write_virtual in_limit sg offset data = (\<lambda>s.
     if quick_segment SegAccessWOK in_limit sg offset s then accessOK_write sg offset data s
     else and_then (write_virtual_checks sg offset (word_of_nat (length data)))
            (\<lambda>_. accessOK_write sg offset data) s)"

definition read_RMW_virtual ::
    "(Bit32u \<Rightarrow> Bit32u \<Rightarrow> bool) \<Rightarrow> nat \<Rightarrow> seg_reg \<Rightarrow> Bit32u \<Rightarrow> Bit8u list bx" where
  "read_RMW_virtual in_limit n sg offset = (\<lambda>s.
     if quick_segment SegAccessWOK in_limit sg offset s then accessOK_RMW n sg offset s
     else and_then (write_virtual_checks sg offset (word_of_nat n)) (\<lambda>_. accessOK_RMW n sg offset) s)"

definition read_virtual_byte :: "seg_reg \<Rightarrow> Bit32u \<Rightarrow> Bit8u bx" where
  "read_virtual_byte sg offset = and_then (read_virtual in_limit_byte 1 sg offset) (\<lambda>bs. ret (le_word bs))"

definition read_virtual_word :: "seg_reg \<Rightarrow> Bit32u \<Rightarrow> Bit16u bx" where
  "read_virtual_word sg offset = and_then (read_virtual in_limit_word 2 sg offset) (\<lambda>bs. ret (le_word bs))"

definition read_virtual_dword :: "seg_reg \<Rightarrow> Bit32u \<Rightarrow> Bit32u bx" where
  "read_virtual_dword sg offset = and_then (read_virtual in_limit_dword 4 sg offset) (\<lambda>bs. ret (le_word bs))"

definition read_virtual_qword :: "seg_reg \<Rightarrow> Bit32u \<Rightarrow> Bit64u bx" where
  "read_virtual_qword sg offset = and_then (read_virtual in_limit_qword 8 sg offset) (\<lambda>bs. ret (le_word bs))"

definition write_virtual_byte :: "seg_reg \<Rightarrow> Bit32u \<Rightarrow> Bit8u \<Rightarrow> unit bx" where
  "write_virtual_byte sg offset data = write_virtual in_limit_byte sg offset (le_bytes 1 data)"

definition write_virtual_word :: "seg_reg \<Rightarrow> Bit32u \<Rightarrow> Bit16u \<Rightarrow> unit bx" where
  "write_virtual_word sg offset data = write_virtual in_limit_word sg offset (le_bytes 2 data)"

definition write_virtual_dword :: "seg_reg \<Rightarrow> Bit32u \<Rightarrow> Bit32u \<Rightarrow> unit bx" where
  "write_virtual_dword sg offset data = write_virtual in_limit_dword sg offset (le_bytes 4 data)"

definition write_virtual_qword :: "seg_reg \<Rightarrow> Bit32u \<Rightarrow> Bit64u \<Rightarrow> unit bx" where
  "write_virtual_qword sg offset data = write_virtual in_limit_qword sg offset (le_bytes 8 data)"

definition read_RMW_virtual_byte :: "seg_reg \<Rightarrow> Bit32u \<Rightarrow> Bit8u bx" where
  "read_RMW_virtual_byte sg offset =
     and_then (read_RMW_virtual in_limit_byte 1 sg offset) (\<lambda>bs. ret (le_word bs))"

definition read_RMW_virtual_word :: "seg_reg \<Rightarrow> Bit32u \<Rightarrow> Bit16u bx" where
  "read_RMW_virtual_word sg offset =
     and_then (read_RMW_virtual in_limit_word 2 sg offset) (\<lambda>bs. ret (le_word bs))"

definition read_RMW_virtual_dword :: "seg_reg \<Rightarrow> Bit32u \<Rightarrow> Bit32u bx" where
  "read_RMW_virtual_dword sg offset =
     and_then (read_RMW_virtual in_limit_dword 4 sg offset) (\<lambda>bs. ret (le_word bs))"

definition read_RMW_virtual_qword :: "seg_reg \<Rightarrow> Bit32u \<Rightarrow> Bit64u bx" where
  "read_RMW_virtual_qword sg offset =
     and_then (read_RMW_virtual in_limit_qword 8 sg offset) (\<lambda>bs. ret (le_word bs))"

section \<open>The write half of a read-modify-write\<close>

definition write_RMW_virtual_byte :: "Bit8u \<Rightarrow> unit bx" where
  "write_RMW_virtual_byte val8 = (\<lambda>s.
     case pages s of
       HostPtr hostAddr \<Rightarrow> store_hosts hostAddr (le_bytes 1 val8) s
     | Pages _ \<Rightarrow> writePhysicalPage (paddress1 s) (le_bytes 1 val8) s)"

definition write_RMW_virtual_word :: "Bit16u \<Rightarrow> unit bx" where
  "write_RMW_virtual_word val16 = (\<lambda>s.
     case pages s of
       HostPtr hostAddr \<Rightarrow> store_hosts hostAddr (le_bytes 2 val16) s
     | Pages k \<Rightarrow>
         if k = 1 then writePhysicalPage (paddress1 s) (le_bytes 2 val16) s
         else and_then (writePhysicalPage (paddress1 s) (take 1 (le_bytes 2 val16)))
                (\<lambda>_ t. writePhysicalPage (paddress2 t) (drop 1 (le_bytes 2 val16)) t) s)"

definition write_RMW_virtual_dword :: "Bit32u \<Rightarrow> unit bx" where
  "write_RMW_virtual_dword val32 = (\<lambda>s.
     case pages s of
       HostPtr hostAddr \<Rightarrow> store_hosts hostAddr (le_bytes 4 val32) s
     | Pages k \<Rightarrow>
         if k = 1 then writePhysicalPage (paddress1 s) (le_bytes 4 val32) s
         else and_then (writePhysicalPage (paddress1 s) (take (len1 s) (le_bytes 4 val32)))
                (\<lambda>_ t. writePhysicalPage (paddress2 t) (take (len2 t) (drop (len1 t) (le_bytes 4 val32))) t) s)"

definition write_RMW_virtual_qword :: "Bit64u \<Rightarrow> unit bx" where
  "write_RMW_virtual_qword val64 = (\<lambda>s.
     case pages s of
       HostPtr hostAddr \<Rightarrow> store_hosts hostAddr (le_bytes 8 val64) s
     | Pages k \<Rightarrow>
         if k = 1 then writePhysicalPage (paddress1 s) (le_bytes 8 val64) s
         else and_then (writePhysicalPage (paddress1 s) (take (len1 s) (le_bytes 8 val64)))
                (\<lambda>_ t. writePhysicalPage (paddress2 t) (take (len2 t) (drop (len1 t) (le_bytes 8 val64))) t) s)"

section \<open>Double quadwords\<close>

definition read_virtual_dqword :: "seg_reg \<Rightarrow> Bit32u \<Rightarrow> (Bit64u \<times> Bit64u) bx" where
  "read_virtual_dqword sg offset =
     and_then (read_virtual_qword sg offset) (\<lambda>lo.
     and_then (read_virtual_qword sg (offset + 8)) (\<lambda>hi. ret (lo, hi)))"

definition read_virtual_dqword_aligned :: "seg_reg \<Rightarrow> Bit32u \<Rightarrow> (Bit64u \<times> Bit64u) bx" where
  "read_virtual_dqword_aligned sg offset =
     (if offset AND 0xf \<noteq> 0 then raise BX_GP_EXCEPTION 0 else read_virtual_dqword sg offset)"

definition write_virtual_dqword :: "seg_reg \<Rightarrow> Bit32u \<Rightarrow> Bit64u \<times> Bit64u \<Rightarrow> unit bx" where
  "write_virtual_dqword sg offset data =
     and_then (write_virtual_qword sg offset (fst data)) (\<lambda>_.
     write_virtual_qword sg (offset + 8) (snd data))"

definition write_virtual_dqword_aligned :: "seg_reg \<Rightarrow> Bit32u \<Rightarrow> Bit64u \<times> Bit64u \<Rightarrow> unit bx" where
  "write_virtual_dqword_aligned sg offset data =
     (if offset AND 0xf \<noteq> 0 then raise BX_GP_EXCEPTION 0 else write_virtual_dqword sg offset data)"

end
