(* ===== verification/BxAccessSpec.thy ===== *)
theory BxAccessSpec
  imports BxAccess
begin

text \<open>
  The shortcuts of \<open>access.cc\<close> give what the long path gives: the quick limit tests
  equal the full checks, and a host pointer taken from the TLB reads and writes the bytes that
  \<open>access_linear\<close> would.
\<close>

section \<open>Limits\<close>

lemma unat_small_32: "n < 0x100000000 \<Longrightarrow> unat (word_of_nat n :: Bit32u) = n"
  by (simp add: unat_of_nat)

text \<open>A normal segment holds the bytes up to its limit.\<close>

lemma beyond_limit_iff:
  assumes "0 < n" "n \<le> 4096"
  shows "beyond_limit offset lim (word_of_nat n) \<longleftrightarrow> unat lim < unat offset + n - 1"
proof -
  have n: "unat (word_of_nat n :: Bit32u) = n" "unat (word_of_nat n - 1 :: Bit32u) = n - 1"
    using assms unat_small_32 [of n] unat_small_32 [of "n - 1"] by (simp_all add: of_nat_diff)
  show ?thesis
  proof (cases "unat lim < n - 1")
    case True
    then show ?thesis
      using n assms by (auto simp: beyond_limit_def word_less_nat_alt)
  next
    case False
    have "lim - word_of_nat n + 1 = lim - word_of_nat (n - 1)"
      using assms(1) by (simp add: of_nat_diff)
    moreover have "unat (lim - word_of_nat (n - 1)) = unat lim - (n - 1)"
      using False assms unat_small_32 [of "n - 1"] by (subst unat_sub) (simp_all add: word_le_nat_alt)
    ultimately have eq: "unat (lim - word_of_nat n + 1) = unat lim - (n - 1)"
      by (simp only:)
    show ?thesis
      unfolding beyond_limit_def word_less_nat_alt eq n using False assms by auto
  qed
qed

lemma beyond_limit_ED_iff:
  fixes d_b :: bool
  assumes "0 < n" "n \<le> 4096"
  defines "upper \<equiv> (if d_b then 0xffffffff else 0xffff)"
  shows "beyond_limit_ED d_b offset lim (word_of_nat n) \<longleftrightarrow>
     \<not> (unat lim < unat offset \<and> unat offset + n - 1 \<le> upper)"
proof -
  define u :: Bit32u where "u = (if d_b then 0xffffffff else 0xffff)"
  have u: "unat u = upper" by (simp add: u_def upper_def)
  have n: "unat (word_of_nat n - 1 :: Bit32u) = n - 1"
    using assms unat_small_32 [of "n - 1"] by (simp add: of_nat_diff)
  show ?thesis
  proof (cases "u < offset")
    case True
    then show ?thesis
      using u assms(1) by (auto simp: beyond_limit_ED_def u_def [symmetric] word_less_nat_alt)
  next
    case False
    then have le: "unat offset \<le> upper"
      by (simp add: u [symmetric] word_less_nat_alt)
    then have sub: "unat (u - offset) = upper - unat offset"
      using u by (subst unat_sub) (simp_all add: word_le_nat_alt)
    show ?thesis
      unfolding beyond_limit_ED_def Let_def u_def [symmetric] word_less_nat_alt word_le_nat_alt sub n u
      using le assms(1) by auto
  qed
qed

text \<open>The quick tests.\<close>

lemma in_limit_iff:
  assumes "7 \<le> lim"
  shows "in_limit_byte offset lim \<longleftrightarrow> \<not> beyond_limit offset lim (word_of_nat 1)"
    and "in_limit_word offset lim \<longleftrightarrow> \<not> beyond_limit offset lim (word_of_nat 2)"
    and "in_limit_dword offset lim \<longleftrightarrow> \<not> beyond_limit offset lim (word_of_nat 4)"
    and "in_limit_qword offset lim \<longleftrightarrow> \<not> beyond_limit offset lim (word_of_nat 8)"
proof -
  have sub: "unat (lim - 2) = unat lim - 2" "unat (lim - 7) = unat lim - 7" and "7 \<le> unat lim"
    using assms by (simp_all add: unat_sub word_le_nat_alt)
  then show "in_limit_byte offset lim \<longleftrightarrow> \<not> beyond_limit offset lim (word_of_nat 1)"
    "in_limit_word offset lim \<longleftrightarrow> \<not> beyond_limit offset lim (word_of_nat 2)"
    "in_limit_dword offset lim \<longleftrightarrow> \<not> beyond_limit offset lim (word_of_nat 4)"
    "in_limit_qword offset lim \<longleftrightarrow> \<not> beyond_limit offset lim (word_of_nat 8)"
    using beyond_limit_iff [of 1 offset lim] beyond_limit_iff [of 2 offset lim]
      beyond_limit_iff [of 4 offset lim] beyond_limit_iff [of 8 offset lim]
    by (auto simp: in_limit_byte_def in_limit_word_def in_limit_dword_def in_limit_qword_def
          word_le_nat_alt word_less_nat_alt)
qed

definition quick_test :: "(Bit32u \<Rightarrow> Bit32u \<Rightarrow> bool) \<Rightarrow> nat \<Rightarrow> bool" where
  "quick_test t n \<longleftrightarrow> (\<forall>offset lim. 7 \<le> lim \<longrightarrow> t offset lim = (\<not> beyond_limit offset lim (word_of_nat n)))"

lemma quick_tests:
  "quick_test in_limit_byte 1" "quick_test in_limit_word 2" "quick_test in_limit_dword 4"
  "quick_test in_limit_qword 8"
  using in_limit_iff by (simp_all add: quick_test_def)

section \<open>The cached segment rights\<close>

text \<open>
  The rights cached in \<open>valid\<close> are those of a present segment with room for eight
  bytes and, in protected mode, of a type that allows the access.
\<close>

definition seg_cache_ok :: "cpu \<Rightarrow> bool" where
  "seg_cache_ok s \<longleftrightarrow> (\<forall>sg. let c = sregs s sg in
     (seg_valid c AND SegAccessROK \<noteq> 0 \<longrightarrow> 7 \<le> seg_limit_scaled c \<and>
        (protected_mode s \<longrightarrow> seg_p c \<and> seg_type c \<in> {0, 1, 2, 3, 10, 11, 14, 15})) \<and>
     (seg_valid c AND SegAccessWOK \<noteq> 0 \<longrightarrow> 7 \<le> seg_limit_scaled c \<and>
        (protected_mode s \<longrightarrow> seg_p c \<and> seg_type c \<in> {2, 3})))"

lemma or_single_bit: "(v :: Bit32u) AND push_bit n 1 \<noteq> 0 \<Longrightarrow> v OR push_bit n 1 = v"
  by (subst (asm) and_bit_mask_iff) (rule bit_word_eqI, auto simp: bit_simps simp del: push_bit_of_1)

lemma seg_bits: "SegAccessROK = push_bit 1 1" "SegAccessWOK = push_bit 2 1"
  by (simp_all add: SegAccessROK_def SegAccessWOK_def)

lemma set_seg_valid_same:
  "seg_valid (sregs s sg) AND SegAccessROK \<noteq> 0 \<Longrightarrow> set_seg_valid sg SegAccessROK s = s"
  "seg_valid (sregs s sg) AND SegAccessWOK \<noteq> 0 \<Longrightarrow> set_seg_valid sg SegAccessWOK s = s"
  using or_single_bit [of "seg_valid (sregs s sg)" 1, folded seg_bits]
    or_single_bit [of "seg_valid (sregs s sg)" 2, folded seg_bits]
  by (simp_all add: set_seg_valid_def)

lemma read_checks_quick:
  assumes "seg_cache_ok s" "quick_test t n" "quick_segment SegAccessROK t sg offset s"
  shows "read_virtual_checks sg offset (word_of_nat n) s = Done () s"
proof -
  let ?c = "sregs s sg"
  have acc: "seg_valid ?c AND SegAccessROK \<noteq> 0" and "t offset (seg_limit_scaled ?c)"
    using assms(3) by (simp_all add: quick_segment_def)
  moreover have lim: "7 \<le> seg_limit_scaled ?c"
    and seg: "protected_mode s \<Longrightarrow> seg_p ?c \<and> seg_type ?c \<in> {0, 1, 2, 3, 10, 11, 14, 15}"
    using assms(1) acc by (simp_all add: seg_cache_ok_def Let_def)
  moreover have "seg_valid ?c \<noteq> 0" using acc by auto
  ultimately show ?thesis
    using assms(2) set_seg_valid_same(1) [OF acc]
    by (auto simp: read_virtual_checks_def quick_test_def Let_def)
qed

lemma write_checks_quick:
  assumes "seg_cache_ok s" "quick_test t n" "quick_segment SegAccessWOK t sg offset s"
  shows "write_virtual_checks sg offset (word_of_nat n) s = Done () s"
proof -
  let ?c = "sregs s sg"
  have acc: "seg_valid ?c AND SegAccessWOK \<noteq> 0" and "t offset (seg_limit_scaled ?c)"
    using assms(3) by (simp_all add: quick_segment_def)
  moreover have lim: "7 \<le> seg_limit_scaled ?c"
    and seg: "protected_mode s \<Longrightarrow> seg_p ?c \<and> seg_type ?c \<in> {2, 3}"
    using assms(1) acc by (simp_all add: seg_cache_ok_def Let_def)
  moreover have "seg_valid ?c \<noteq> 0" using acc by auto
  ultimately show ?thesis
    using assms(2) set_seg_valid_same(2) [OF acc]
    by (auto simp: write_virtual_checks_def quick_test_def Let_def)
qed

text \<open>The quick path is the checked path.\<close>

lemma read_virtual_checked:
  assumes "seg_cache_ok s" "quick_test t n"
  shows "read_virtual t n sg offset s =
     and_then (read_virtual_checks sg offset (word_of_nat n)) (\<lambda>_. accessOK_read n sg offset) s"
  using read_checks_quick [OF assms, of sg offset] by (simp add: read_virtual_def)

lemma write_virtual_checked:
  assumes "seg_cache_ok s" "quick_test t (length data)"
  shows "write_virtual t sg offset data s =
     and_then (write_virtual_checks sg offset (word_of_nat (length data))) (\<lambda>_. accessOK_write sg offset data) s"
  using write_checks_quick [OF assms, of sg offset] by (simp add: write_virtual_def)

lemma read_RMW_virtual_checked:
  assumes "seg_cache_ok s" "quick_test t n"
  shows "read_RMW_virtual t n sg offset s =
     and_then (write_virtual_checks sg offset (word_of_nat n)) (\<lambda>_. accessOK_RMW n sg offset) s"
  using write_checks_quick [OF assms, of sg offset] by (simp add: read_RMW_virtual_def)

text \<open>The checks keep the cached rights sound.\<close>

lemma seg_cache_ok_mark:
  assumes "seg_cache_ok s" "7 \<le> seg_limit_scaled (sregs s sg)"
    and "protected_mode s \<Longrightarrow> seg_p (sregs s sg) \<and> seg_type (sregs s sg) \<in> {2, 3}"
  shows "seg_cache_ok (set_seg_valid sg SegAccessWOK s)"
proof -
  have "(v OR SegAccessWOK) AND SegAccessROK = v AND SegAccessROK" for v
    by (simp add: SegAccessROK_def SegAccessWOK_def bit.conj_disj_distrib2)
  with assms show ?thesis
    by (auto simp: seg_cache_ok_def Let_def set_seg_valid_def protected_mode_def)
qed

lemma seg_cache_ok_mark_read:
  assumes "seg_cache_ok s" "7 \<le> seg_limit_scaled (sregs s sg)"
    and "protected_mode s \<Longrightarrow> seg_p (sregs s sg) \<and> seg_type (sregs s sg) \<in> {0, 1, 2, 3, 10, 11, 14, 15}"
  shows "seg_cache_ok (set_seg_valid sg SegAccessROK s)"
proof -
  have "(v OR SegAccessROK) AND SegAccessWOK = v AND SegAccessWOK" for v
    by (simp add: SegAccessROK_def SegAccessWOK_def bit.conj_disj_distrib2)
  with assms show ?thesis
    by (auto simp: seg_cache_ok_def Let_def set_seg_valid_def protected_mode_def)
qed

lemma stable_checks:
  "stable seg_cache_ok (write_virtual_checks sg offset n)"
  "stable seg_cache_ok (read_virtual_checks sg offset n)"
  by (rule stableI, auto simp: write_virtual_checks_def read_virtual_checks_def Let_def
      intro!: seg_cache_ok_mark seg_cache_ok_mark_read)+

section \<open>Host pointers\<close>

definition mem_ok :: "cpu \<Rightarrow> bool" where
  "mem_ok s \<longleftrightarrow> vm_ok s \<and> bogus_ones (mem s)"

lemma host_page_aligned:
  assumes "mem_wf (mem s)" "page_aligned p" "getHostMemAddr p BX_READ s = Some h"
  shows "4096 dvd h"
proof -
  have m: "4096 dvd mem_len (mem s)"
    using assms(1) by (auto simp: mem_wf_def intro: dvd_trans [of 4096 "0x100000"])
  have z: "take_bit 12 p = 0" using assms(2) by (simp add: page_aligned_take_bit)
  have am: "4096 dvd unat (p AND M)" for M
  proof -
    have "page_aligned (p AND M)" using z by (simp add: page_aligned_take_bit take_bit_and)
    then show ?thesis by (simp add: page_aligned_def)
  qed
  have p0: "4096 dvd unat p" using assms(2) by (simp add: page_aligned_def)
  have "4096 dvd i" if "phys_index (mem s) p = Some i" for i
    using that m am p0
    by (auto simp: phys_index_def rom_index_def BIOSROMSZ_def intro!: dvd_add split: if_splits)
  moreover have "4096 dvd bogus_index (mem s) (unat (p AND 0x0fff))"
    using m and_0xfff_page [OF assms(2)] by (simp add: bogus_index_def BIOSROMSZ_def EXROMSIZE_def dvd_add)
  ultimately show ?thesis
    using getHostMemAddr_BX_READ(4) [OF assms(1,3)] by (auto split: option.split_asm)
qed

lemma nat_page_or: "4096 dvd h \<Longrightarrow> k < 4096 \<Longrightarrow> h OR k = h + (k :: nat)"
proof -
  assume h: "4096 dvd h" and k: "k < 4096"
  then obtain q where q: "h = push_bit 12 q" by (auto simp: push_bit_eq_mult elim: dvdE)
  have k': "k = take_bit 12 k" using k by (simp add: take_bit_eq_mod)
  have "h AND k = 0"
    by (subst q, subst k') (rule bit_eqI, auto simp: bit_simps)
  then show ?thesis by (simp add: disjunctive_add_eq_or)
qed

lemma page_offset_or:
  assumes "page_aligned p"
  shows "p OR (laddr AND 0x00000fff) = p + word_of_nat (unat laddr mod 4096)"
  using page_or_eq_add [OF assms drop_bit_offset [of laddr]] by (simp flip: unat_offset)

text \<open>What a host pointer of a well-formed TLB stands for.\<close>

lemma pointer_tests:
  "(w :: Bit32u) AND push_bit (of_bool user) 1 \<noteq> 0 \<longleftrightarrow> bit w (right_bit user False)"
  "(w :: Bit32u) AND push_bit (of_bool user) 0x04 \<noteq> 0 \<longleftrightarrow> bit w (right_bit user True)"
proof -
  have m: "push_bit (of_bool user) (0x04 :: Bit32u) = push_bit (right_bit user True) 1"
    "right_bit user False = of_bool user"
    by (simp_all add: right_bit_def)
  show "(w :: Bit32u) AND push_bit (of_bool user) 1 \<noteq> 0 \<longleftrightarrow> bit w (right_bit user False)"
    "(w :: Bit32u) AND push_bit (of_bool user) 0x04 \<noteq> 0 \<longleftrightarrow> bit w (right_bit user True)"
    by (simp_all only: m and_bit_mask_iff not_not)
qed

lemma v2h_pointer:
  assumes wf: "tlb_wf s" "mem_wf (mem s)" and n: "0 < n" "n \<le> 8"
    and a20: "A20ADDR s (ppf (TLB s (BX_TLB_INDEX_OF laddr))) = ppf (TLB s (BX_TLB_INDEX_OF laddr))"
    and v: "(if wr then v2h_write n laddr user s else v2h_read n laddr user s) = Some h"
  defines "e \<equiv> TLB s (BX_TLB_INDEX_OF laddr)" and "k \<equiv> unat laddr mod 4096"
  obtains hp where "lpf e = LPFOf laddr" "tlb_hit s laddr user wr" "page_aligned (ppf e)"
    "getHostMemAddr (ppf e) (if wr then BX_WRITE else BX_READ) s = Some hp" "h = hp + k" "k + n \<le> 4096"
proof -
  have "unat (word_of_nat (4096 - n) :: Bit32u) = 4096 - n"
    using n by (intro unat_small_32) simp
  then have off: "laddr AND 0xfff \<le> word_of_nat (4096 - n) \<longleftrightarrow> k \<le> 4096 - n"
    using unat_offset [of laddr] by (simp add: word_le_nat_alt k_def)
  have l: "lpf e = LPFOf laddr" and ptr: "grants_pointer e user wr" and kn: "k \<le> 4096 - n"
    and h: "map_option (\<lambda>h. h OR unat (laddr AND 0xfff)) (hostPageAddr e) = Some h"
    using v off pointer_tests [of "accessBits e" user]
    by (auto simp: v2h_read_def v2h_write_def Let_def e_def grants_pointer_def split: if_split_asm)
  have "tlb_entry_ok s (BX_TLB_INDEX_OF laddr)" using wf(1) by (simp add: tlb_wf_def)
  then have p: "page_aligned (ppf e)" and g: "grants e user wr"
    and get: "getHostMemAddr (ppf e) (if wr then BX_WRITE else BX_READ) s = hostPageAddr e"
    using ptr l a20 by (auto simp: tlb_entry_ok_def e_def [symmetric] Let_def)
  obtain hp where hp: "hostPageAddr e = Some hp" "h = hp OR k"
    using h unat_offset [of laddr] by (auto simp: k_def)
  have "getHostMemAddr (ppf e) BX_READ s = Some hp"
    using get hp getHostMemAddr_read_of_write [of "ppf e" BX_WRITE s hp] by (cases wr) auto
  then have "4096 dvd hp" by (rule host_page_aligned [OF wf(2) p])
  moreover have "k < 4096" by (simp add: k_def)
  ultimately have "h = hp + k" using hp by (simp add: nat_page_or)
  moreover have "tlb_hit s laddr user wr"
    using l g by (simp add: tlb_hit_def e_def Let_def)
  ultimately show ?thesis
    using that l p get hp kn n by simp
qed

text \<open>A read through a host pointer returns the bytes of the long path.\<close>

lemma env_xlation [simp]:
  "mem (s\<lparr>paddress1 := a, pages := n\<rparr>) = mem s"
  "A20ADDR (s\<lparr>paddress1 := a, pages := n\<rparr>) = A20ADDR s"
  "a20_mask_ok (s\<lparr>paddress1 := a, pages := n\<rparr>) = a20_mask_ok s"
  "getHostMemAddr p acc (s\<lparr>paddress1 := a, pages := n\<rparr>) = getHostMemAddr p acc s"
  by (simp_all add: A20ADDR_def fun_eq_iff a20_mask_ok_def getHostMemAddr_def)

lemma v2h_read_long_path:
  assumes ok: "mem_ok s" "tlb_wf s" "\<not> cr0_pg (cr0 s) \<Longrightarrow> tlb_identity s" and n: "0 < n" "n \<le> 8"
    and a20: "A20ADDR s (ppf (TLB s (BX_TLB_INDEX_OF laddr))) = ppf (TLB s (BX_TLB_INDEX_OF laddr))"
    and top: "unat (ppf (TLB s (BX_TLB_INDEX_OF laddr))) + unat laddr mod 4096 + n < 0x100000000"
    and v: "v2h_read n laddr user s = Some h"
  obtains bs pa where "load_hosts h n s = Done bs s"
    "access_linear_read laddr n user BX_READ s = Done bs (s\<lparr>paddress1 := pa, pages := Pages 1\<rparr>)"
proof -
  define e where "e = TLB s (BX_TLB_INDEX_OF laddr)"
  define k where "k = unat laddr mod 4096"
  have wf: "mem_wf (mem s)" "bogus_ones (mem s)" "handlers_paged (mem s)" "a20_mask_ok s"
    using ok(1) by (simp_all add: mem_ok_def vm_ok_def)
  from v have v': "(if False then v2h_write n laddr user s else v2h_read n laddr user s) = Some h" by simp
  obtain hp where l: "lpf e = LPFOf laddr" and hit: "tlb_hit s laddr user False"
    and p: "page_aligned (ppf e)" and get: "getHostMemAddr (ppf e) BX_READ s = Some hp"
    and h: "h = hp + k" and kn: "k + n \<le> 4096"
    by (rule v2h_pointer [OF ok(2) wf(1) n a20 v']) (simp_all add: e_def k_def)
  define pa where "pa = ppf e + word_of_nat k"
  define t where "t = s\<lparr>paddress1 := pa, pages := Pages 1\<rparr>"
  have bytes: "load_hosts h n u = Done (phys_bytes (mem s) pa n) u" if "mem u = mem s"
    "getHostMemAddr (ppf e) BX_READ u = Some hp" for u
    using host_page_bytes [of u "ppf e" hp k n] that wf p kn by (simp add: h pa_def)
  have "readPhysicalPage pa n t = load_hosts h n t"
    using direct_read [of t "ppf e" hp n k] wf p a20 get n kn top
    by (simp add: pa_def h t_def k_def e_def)
  also have "\<dots> = Done (phys_bytes (mem s) pa n) t"
    by (rule bytes) (simp_all add: t_def get)
  finally have read: "readPhysicalPage pa n t = Done (phys_bytes (mem s) pa n) t" .
  have inpage: "unat (laddr AND 0x00000fff) + n \<le> 4096"
    using kn by (simp add: unat_offset k_def)
  have "access_linear_read laddr n user BX_READ s = Done (phys_bytes (mem s) pa n) t"
  proof (cases "cr0_pg (cr0 s)")
    case True
    have "translate_linear laddr user BX_READ s = Done pa s"
      using translate_hit [of s laddr user BX_READ] hit page_offset_or [OF p, of laddr]
      by (simp add: e_def pa_def k_def)
    with True inpage read show ?thesis
      by (simp add: access_linear_read_def read_paged_def Let_def t_def)
  next
    case False
    have "ppf e = LPFOf laddr"
      using ok(3) [OF False] l by (simp add: tlb_identity_def e_def)
    then have "pa = laddr" using page_decomp [of laddr] by (simp add: pa_def k_def)
    with False inpage read l show ?thesis
      by (simp add: access_linear_read_def read_unpaged_def Let_def t_def e_def)
  qed
  then show ?thesis
    using that bytes [of s] get by (simp add: t_def)
qed

text \<open>A write through a host pointer leaves the memory of the long path.\<close>

lemma v2h_write_long_path:
  assumes ok: "mem_ok s" "tlb_wf s" "\<not> cr0_pg (cr0 s) \<Longrightarrow> tlb_identity s" and n: "data \<noteq> []" "length data \<le> 8"
    and a20: "A20ADDR s (ppf (TLB s (BX_TLB_INDEX_OF laddr))) = ppf (TLB s (BX_TLB_INDEX_OF laddr))"
    and v: "v2h_write (length data) laddr user s = Some h"
  obtains m pa where "store_hosts h data s = Done () (with_mem s m)"
    "access_linear_write laddr data user s = Done () (with_mem (s\<lparr>paddress1 := pa, pages := Pages 1\<rparr>) m)"
proof -
  define e where "e = TLB s (BX_TLB_INDEX_OF laddr)"
  define k where "k = unat laddr mod 4096"
  have wf: "mem_wf (mem s)" "bogus_ones (mem s)" "handlers_paged (mem s)" "a20_mask_ok s"
    using ok(1) by (simp_all add: mem_ok_def vm_ok_def)
  from v have v': "(if True then v2h_write (length data) laddr user s else v2h_read (length data) laddr user s) = Some h"
    by simp
  have n': "0 < length data" using n by simp
  obtain hp where l: "lpf e = LPFOf laddr" and hit: "tlb_hit s laddr user True"
    and p: "page_aligned (ppf e)" and get: "getHostMemAddr (ppf e) BX_WRITE s = Some hp"
    and h: "h = hp + k" and kn: "k + length data \<le> 4096"
    by (rule v2h_pointer [OF ok(2) wf(1) n' n(2) a20 v']) (simp_all add: e_def k_def)
  define pa where "pa = ppf e + word_of_nat k"
  define t where "t = s\<lparr>paddress1 := pa, pages := Pages 1\<rparr>"
  define m where "m = phys_writes pa data (mem s)"
  have stored: "writePhysicalPage pa data t = Done () (with_mem t m)"
    using direct_write_Done(1) [of t "ppf e" BX_WRITE hp data k] wf p a20 get n kn
    by (simp add: pa_def t_def m_def e_def)
  have inpage: "unat (laddr AND 0x00000fff) + length data \<le> 4096"
    using kn by (simp add: unat_offset k_def)
  have "access_linear_write laddr data user s = Done () (with_mem t m)"
  proof (cases "cr0_pg (cr0 s)")
    case True
    have "translate_linear laddr user BX_WRITE s = Done pa s"
      using translate_hit [of s laddr user BX_WRITE] hit page_offset_or [OF p, of laddr]
      by (simp add: e_def pa_def k_def)
    with True inpage stored show ?thesis
      by (simp add: access_linear_write_def write_paged_def Let_def t_def)
  next
    case False
    have "ppf e = LPFOf laddr"
      using ok(3) [OF False] l by (simp add: tlb_identity_def e_def)
    then have "pa = laddr" using page_decomp [of laddr] by (simp add: pa_def k_def)
    with False inpage stored l show ?thesis
      by (simp add: access_linear_write_def write_unpaged_def Let_def t_def e_def)
  qed
  moreover have "store_hosts h data s = Done () (with_mem s m)"
    using direct_write_Done(2) [of s "ppf e" BX_WRITE hp data k] wf p a20 get n kn
    by (simp add: pa_def m_def e_def h)
  ultimately show ?thesis
    using that by (simp add: t_def)
qed

end
