(* ===== verification/BxReset.thy ===== *)
theory BxReset
  imports BxFlagCtrl BxAccessSpec
begin

text \<open>
  The reset of the processor (\<open>BX_CPU_C::reset\<close> of \<open>cpu/init.cc\<close>,
  \<open>get_cpu_version_information\<close> of \<open>cpu/cpuid.cc\<close>) for one processor with
  a local APIC, and the self test \<open>sanity_checks\<close>. The x87 and SSE state is not
  modelled. The reset state satisfies the invariants of the components.
\<close>

section \<open>Reset\<close>

definition APIC_BASE_ADDR :: Bit32u where "APIC_BASE_ADDR = 0xfee00000"

definition get_cpu_version_information :: Bit32u where
  "get_cpu_version_information =
     (let extended_family = 0; extended_model = 0; family = 0xf; model = 0; stepping = 0 in
      push_bit 20 extended_family OR push_bit 16 extended_model OR push_bit 8 family OR
      push_bit 4 model OR stepping)"

definition reset_CS :: bx_segment_reg where
  "reset_CS = \<lparr>
     sel_value = 0xF000, sel_index = 0x0000, sel_ti = False, sel_rpl = 0,
     seg_valid = 1, seg_p = True, seg_dpl = 0, seg_segment = True, seg_type = 11,
     seg_executable = True, seg_c_ed = False, seg_r_w = True, seg_a = True,
     seg_base = 0xFFFF0000, seg_limit = 0xFFFF, seg_limit_scaled = 0xFFFF,
     seg_g = False, seg_d_b = False, seg_avl = False\<rparr>"

text \<open>SS, DS, ES, FS and GS.\<close>

definition reset_data_segment :: bx_segment_reg where
  "reset_data_segment = \<lparr>
     sel_value = 0x0000, sel_index = 0x0000, sel_ti = False, sel_rpl = 0,
     seg_valid = 1, seg_p = True, seg_dpl = 0, seg_segment = True, seg_type = 3,
     seg_executable = False, seg_c_ed = False, seg_r_w = True, seg_a = True,
     seg_base = 0x00000000, seg_limit = 0xFFFF, seg_limit_scaled = 0xFFFF,
     seg_g = False, seg_d_b = False, seg_avl = False\<rparr>"

definition reset_ldtr :: bx_system_segment where
  "reset_ldtr = \<lparr>
     sys_value = 0x0000, sys_index = 0x0000, sys_ti = False, sys_rpl = 0,
     sys_valid = 1, sys_p = True, sys_dpl = 0, sys_segment = False, sys_type = 2,
     sys_base = 0x00000000, sys_limit = 0xFFFF\<rparr>"

definition reset_tr :: bx_system_segment where
  "reset_tr = \<lparr>
     sys_value = 0x0000, sys_index = 0x0000, sys_ti = False, sys_rpl = 0,
     sys_valid = 1, sys_p = True, sys_dpl = 0, sys_segment = False, sys_type = 3,
     sys_base = 0x00000000, sys_limit = 0xFFFF\<rparr>"

definition reset_registers :: "cpu \<Rightarrow> cpu" where
  "reset_registers s =
     (let s1 = s\<lparr>gen_reg := (\<lambda>r. if r = 2 then get_cpu_version_information else 0),
                 lf_flags_status := 0\<rparr>;
          s2 = set_VM False (clear_eflag 16 (clear_eflag 9 (setEFlags 0x2 s1)));
          s3 = clear_eflag 18 s2
      in s3\<lparr>inhibit_mask := 0, debug_trap := 0, eip := 0x0000FFF0,
            sys := (sys s3)\<lparr>prev_eip := 0x0000FFF0\<rparr>\<rparr>)"

definition reset_descriptors :: "cpu \<Rightarrow> cpu" where
  "reset_descriptors s = s\<lparr>
     sregs := (\<lambda>sg. if sg = CS then reset_CS else reset_data_segment),
     sys := (sys s)\<lparr>gdtr_base := 0, gdtr_limit := 0xFFFF, idtr_base := 0, idtr_limit := 0xFFFF,
       ldtr := reset_ldtr, tr := reset_tr\<rparr>\<rparr>"

definition reset_controls :: "cpu \<Rightarrow> cpu" where
  "reset_controls s = s\<lparr>
     sys := (sys s)\<lparr>dr0 := 0, dr1 := 0, dr2 := 0, dr3 := 0, dr6 := 0xFFFF0FF0, dr7 := 0x00000400\<rparr>,
     cpu_mode := BX_MODE_IA32_REAL,
     cr0 := \<lparr>cr0_val32 = 0x00000010, cr0_pg = False, cr0_cd = False, cr0_nw = False, cr0_am = False,
       cr0_wp = False, cr0_ne = False, cr0_ts = False, cr0_em = False, cr0_mp = False, cr0_pe = False\<rparr>,
     cr2 := 0, cr3 := 0, cr3_masked := 0, cr4 := 0\<rparr>"

definition reset :: "cpu \<Rightarrow> cpu" where
  "reset s =
     (let s1 = reset_controls (reset_descriptors (reset_registers s));
          s2 = s1\<lparr>local_apic_base := APIC_BASE_ADDR,
            sys := (sys s1)\<lparr>apicbase := ucast APIC_BASE_ADDR OR 0x900, EXT := False\<rparr>\<rparr>;
          s3 = TLB_init s2
      in s3\<lparr>sys := (sys s3)\<lparr>eipPageBias := 0, eipPageWindowSize := 0, eipFetchPtr := None,
              kill_bochs_request := 0\<rparr>,
            async_event := 2\<rparr>)"

section \<open>The self test\<close>

definition sanity_registers :: "3 word \<Rightarrow> Bit32u" where
  "sanity_registers r =
     [0xFFEEDDCC, 0xBBAA9988, 0x77665544, 0x332211FF, 0xEEDDCCBB, 0xAA998877, 0x66554433, 0x2211FFEE] ! unat r"

text \<open>
  Byte register \<open>r\<close> is the low byte of register \<open>r\<close>, byte register
  \<open>4 + r\<close> its second byte. The checks of the sizes of the C types have no counterpart.
\<close>

definition sanity_checks :: "unit bx" where
  "sanity_checks =
     and_then (update (\<lambda>s. s\<lparr>gen_reg := sanity_registers\<rparr>)) (\<lambda>_ s.
       if list_ex (\<lambda>r. BX_READ_8BIT_REG r s \<noteq> ucast (gen_reg s r AND 0xFF) \<or>
                       BX_READ_8BIT_REG (4 + r) s \<noteq> ucast (drop_bit 8 (gen_reg s r) AND 0xFF)) [0, 1, 2, 3]
       then panic ''problems using BX_READ_8BIT_REGx()!'' s
       else if list_ex (\<lambda>r. BX_READ_16BIT_REG r s \<noteq> ucast (gen_reg s r AND 0xFFFF)) [0, 1, 2, 3, 4, 5, 6, 7]
       then panic ''problems using BX_READ_16BIT_REG()!'' s
       else ret () s)"

section \<open>The reset state\<close>

lemma sregs_reset: "sregs (reset s) sg = (if sg = CS then reset_CS else reset_data_segment)"
  by (simp add: reset_def Let_def TLB_init_def reset_controls_def reset_descriptors_def)

lemma reset_fields [simp]:
  "mem (reset s) = mem s" "a20_mask (reset s) = a20_mask s" "ioapic_base (reset s) = ioapic_base s"
  "local_apic_base (reset s) = APIC_BASE_ADDR" "cpu_mode (reset s) = BX_MODE_IA32_REAL"
  "\<not> cr0_pg (cr0 (reset s))" "\<not> cr0_pe (cr0 (reset s))" "cr3_masked (reset s) = 0" "cr4 (reset s) = 0"
  "eip (reset s) = 0x0000FFF0" "lf_flags_status (reset s) = 0"
  by (simp_all add: reset_def Let_def TLB_init_def reset_controls_def reset_descriptors_def reset_registers_def
      set_VM_def clear_eflag_def setEFlags_def)

lemma eflags_reset: "eflags_val32 (reset s) = 0x2"
  by (simp add: reset_def Let_def TLB_init_def reset_controls_def reset_descriptors_def reset_registers_def
      set_VM_def clear_eflag_def setEFlags_def EFlagsVMMask_def)

lemma lpf_reset: "lpf (TLB (reset s) i) = BX_INVALID_TLB_ENTRY"
  by (simp add: reset_def Let_def TLB_init_def)

lemma lf_wf_reset: "lf_wf (reset s)"
  by (simp add: lf_wf_def flag_of_def)

lemma tlb_wf_reset: "tlb_wf (reset s)"
  by (rule tlb_wf_invalid) (rule lpf_reset)

lemma tlb_identity_reset: "tlb_identity (reset s)"
  by (simp add: tlb_identity_def lpf_reset)

lemma seg_cache_ok_reset: "seg_cache_ok (reset s)"
  by (simp add: seg_cache_ok_def sregs_reset reset_CS_def reset_data_segment_def SegAccessROK_def SegAccessWOK_def)

lemma sanity_checks_pass: "sanity_checks s = Done () (s\<lparr>gen_reg := sanity_registers\<rparr>)"
  by (simp add: sanity_checks_def BX_READ_8BIT_REG_def BX_READ_16BIT_REG_def reg_rl_def reg_rh_def
      sanity_registers_def)

section \<open>A machine after power-on\<close>

text \<open>
  One megabyte of memory filled by \<open>fill\<close>, no devices, no I/O APIC in the first
  megabytes, A20 enabled, and the processor reset. The registers that reset does not touch are
  those of \<open>junk\<close>.
\<close>

definition power_on :: "(nat \<Rightarrow> Bit8u) \<Rightarrow> cpu \<Rightarrow> cpu" where
  "power_on fill junk =
     reset (junk\<lparr>mem := init_memory 0x100000 ((mem junk)\<lparr>vector := fill, memory_handlers := (\<lambda>_. [])\<rparr>),
                 a20_mask := 0xffffffff, ioapic_base := 0xfec00000\<rparr>)"

lemma no_handlers: "handlers_paged (init_memory n (m\<lparr>memory_handlers := (\<lambda>_. [])\<rparr>))"
  by (simp add: handlers_paged_def init_memory_def)

lemma power_on_wf:
  "mem_ok (power_on fill junk)" "lf_wf (power_on fill junk)" "tlb_wf (power_on fill junk)"
  "tlb_identity (power_on fill junk)" "seg_cache_ok (power_on fill junk)"
proof -
  show "lf_wf (power_on fill junk)" "tlb_wf (power_on fill junk)"
    "tlb_identity (power_on fill junk)" "seg_cache_ok (power_on fill junk)"
    unfolding power_on_def by (rule lf_wf_reset tlb_wf_reset tlb_identity_reset seg_cache_ok_reset)+
  have "mem_wf (init_memory 0x100000 m) \<and> bogus_ones (init_memory 0x100000 m)" for m
    by (rule init_memory_wf) simp_all
  then show "mem_ok (power_on fill junk)"
    using no_handlers
    by (simp add: power_on_def mem_ok_def vm_ok_def a20_mask_ok_def)
qed

end
