(* ===== verification/BxOperands.thy ===== *)
theory BxOperands
  imports BxAccess
begin

text \<open>
  The operands of the integer instructions. The handlers of \<open>cpu/*8.cc\<close>,
  \<open>cpu/*16.cc\<close> and \<open>cpu/*32.cc\<close> all branch on \<open>i->modC0()\<close>: the operand
  named by the ModRM byte is a register or memory at \<open>RMAddr(i)\<close>. These branches are
  written once per width here: \<open>load_E\<close> and \<open>store_E\<close> read and write it,
  \<open>fetch_E\<close> and \<open>put_E\<close> are the two halves of a read-modify-write, and
  \<open>rmw_E i f\<close> puts \<open>f op1\<close> for the \<open>op1\<close> it fetched and returns
  \<open>op1\<close>.
\<close>

section \<open>8 bits\<close>

definition load_Eb :: "bxInstruction \<Rightarrow> Bit8u bx" where
  "load_Eb i =
     (if modC0 i then gets (BX_READ_8BIT_REG (rm i))
      else and_then (gets rm_addr) (\<lambda>a. read_virtual_byte (i_seg i) a))"

definition store_Eb :: "bxInstruction \<Rightarrow> Bit8u \<Rightarrow> unit bx" where
  "store_Eb i v =
     (if modC0 i then update (BX_WRITE_8BIT_REG (rm i) v)
      else and_then (gets rm_addr) (\<lambda>a. write_virtual_byte (i_seg i) a v))"

definition fetch_Eb :: "bxInstruction \<Rightarrow> Bit8u bx" where
  "fetch_Eb i =
     (if modC0 i then gets (BX_READ_8BIT_REG (rm i))
      else and_then (gets rm_addr) (\<lambda>a. read_RMW_virtual_byte (i_seg i) a))"

definition put_Eb :: "bxInstruction \<Rightarrow> Bit8u \<Rightarrow> unit bx" where
  "put_Eb i v = (if modC0 i then update (BX_WRITE_8BIT_REG (rm i) v) else write_RMW_virtual_byte v)"

definition rmw_Eb :: "bxInstruction \<Rightarrow> (Bit8u \<Rightarrow> Bit8u) \<Rightarrow> Bit8u bx" where
  "rmw_Eb i f = and_then (fetch_Eb i) (\<lambda>op1. and_then (put_Eb i (f op1)) (\<lambda>_. ret op1))"

section \<open>16 bits\<close>

definition load_Ew :: "bxInstruction \<Rightarrow> Bit16u bx" where
  "load_Ew i =
     (if modC0 i then gets (BX_READ_16BIT_REG (rm i))
      else and_then (gets rm_addr) (\<lambda>a. read_virtual_word (i_seg i) a))"

definition store_Ew :: "bxInstruction \<Rightarrow> Bit16u \<Rightarrow> unit bx" where
  "store_Ew i v =
     (if modC0 i then update (BX_WRITE_16BIT_REG (rm i) v)
      else and_then (gets rm_addr) (\<lambda>a. write_virtual_word (i_seg i) a v))"

definition fetch_Ew :: "bxInstruction \<Rightarrow> Bit16u bx" where
  "fetch_Ew i =
     (if modC0 i then gets (BX_READ_16BIT_REG (rm i))
      else and_then (gets rm_addr) (\<lambda>a. read_RMW_virtual_word (i_seg i) a))"

definition put_Ew :: "bxInstruction \<Rightarrow> Bit16u \<Rightarrow> unit bx" where
  "put_Ew i v = (if modC0 i then update (BX_WRITE_16BIT_REG (rm i) v) else write_RMW_virtual_word v)"

definition rmw_Ew :: "bxInstruction \<Rightarrow> (Bit16u \<Rightarrow> Bit16u) \<Rightarrow> Bit16u bx" where
  "rmw_Ew i f = and_then (fetch_Ew i) (\<lambda>op1. and_then (put_Ew i (f op1)) (\<lambda>_. ret op1))"

section \<open>32 bits\<close>

definition load_Ed :: "bxInstruction \<Rightarrow> Bit32u bx" where
  "load_Ed i =
     (if modC0 i then gets (BX_READ_32BIT_REG (rm i))
      else and_then (gets rm_addr) (\<lambda>a. read_virtual_dword (i_seg i) a))"

definition store_Ed :: "bxInstruction \<Rightarrow> Bit32u \<Rightarrow> unit bx" where
  "store_Ed i v =
     (if modC0 i then update (BX_WRITE_32BIT_REG (rm i) v)
      else and_then (gets rm_addr) (\<lambda>a. write_virtual_dword (i_seg i) a v))"

definition fetch_Ed :: "bxInstruction \<Rightarrow> Bit32u bx" where
  "fetch_Ed i =
     (if modC0 i then gets (BX_READ_32BIT_REG (rm i))
      else and_then (gets rm_addr) (\<lambda>a. read_RMW_virtual_dword (i_seg i) a))"

definition put_Ed :: "bxInstruction \<Rightarrow> Bit32u \<Rightarrow> unit bx" where
  "put_Ed i v = (if modC0 i then update (BX_WRITE_32BIT_REG (rm i) v) else write_RMW_virtual_dword v)"

definition rmw_Ed :: "bxInstruction \<Rightarrow> (Bit32u \<Rightarrow> Bit32u) \<Rightarrow> Bit32u bx" where
  "rmw_Ed i f = and_then (fetch_Ed i) (\<lambda>op1. and_then (put_Ed i (f op1)) (\<lambda>_. ret op1))"

end
