(* ===== verification/BxArith.thy ===== *)
theory BxArith
  imports BxOperands BxFlagCtrl
begin

text \<open>
  Integer addition and subtraction (\<open>cpu/arith8.cc\<close>, \<open>cpu/arith16.cc\<close>,
  \<open>cpu/arith32.cc\<close>), the branches without host assembler. A handler reads its operands,
  writes the result and records operands and result for the lazy flags, in the order of the
  source.
\<close>

section \<open>8 bits\<close>

definition ADD_EbGb :: "bxInstruction \<Rightarrow> unit bx" where
  "ADD_EbGb i =
     and_then (gets (BX_READ_8BIT_REG (nnn i))) (\<lambda>op2.
     and_then (rmw_Eb i (\<lambda>op1. op1 + op2)) (\<lambda>op1.
     update (SET_FLAGS_OSZAPC_8 op1 op2 (op1 + op2) BX_INSTR_ADD8)))"

definition ADD_GbEb :: "bxInstruction \<Rightarrow> unit bx" where
  "ADD_GbEb i =
     and_then (gets (BX_READ_8BIT_REG (nnn i))) (\<lambda>op1.
     and_then (load_Eb i) (\<lambda>op2.
     and_then (update (BX_WRITE_8BIT_REG (nnn i) (op1 + op2))) (\<lambda>_.
     update (SET_FLAGS_OSZAPC_8 op1 op2 (op1 + op2) BX_INSTR_ADD8))))"

definition ADD_ALIb :: "bxInstruction \<Rightarrow> unit bx" where
  "ADD_ALIb i =
     and_then (gets (\<lambda>s. (AL s, i_Ib i))) (\<lambda>(op1, op2).
     and_then (update (write_reg_rl 0 (op1 + op2))) (\<lambda>_.
     update (SET_FLAGS_OSZAPC_8 op1 op2 (op1 + op2) BX_INSTR_ADD8)))"

definition ADD_EbIb :: "bxInstruction \<Rightarrow> unit bx" where
  "ADD_EbIb i =
     and_then (gets (\<lambda>_. i_Ib i)) (\<lambda>op2.
     and_then (rmw_Eb i (\<lambda>op1. op1 + op2)) (\<lambda>op1.
     update (SET_FLAGS_OSZAPC_8 op1 op2 (op1 + op2) BX_INSTR_ADD8)))"

definition ADC_EbGb :: "bxInstruction \<Rightarrow> unit bx" where
  "ADC_EbGb i =
     and_then (get_flag CF) (\<lambda>cf.
     and_then (gets (BX_READ_8BIT_REG (nnn i))) (\<lambda>op2.
     and_then (rmw_Eb i (\<lambda>op1. op1 + op2 + of_bool cf)) (\<lambda>op1.
     update (SET_FLAGS_OSZAPC_8 op1 op2 (op1 + op2 + of_bool cf) (BX_INSTR_ADD_ADC8 cf)))))"

definition ADC_GbEb :: "bxInstruction \<Rightarrow> unit bx" where
  "ADC_GbEb i =
     and_then (get_flag CF) (\<lambda>cf.
     and_then (gets (BX_READ_8BIT_REG (nnn i))) (\<lambda>op1.
     and_then (load_Eb i) (\<lambda>op2.
     and_then (update (SET_FLAGS_OSZAPC_8 op1 op2 (op1 + op2 + of_bool cf) (BX_INSTR_ADD_ADC8 cf))) (\<lambda>_.
     update (BX_WRITE_8BIT_REG (nnn i) (op1 + op2 + of_bool cf))))))"

definition ADC_ALIb :: "bxInstruction \<Rightarrow> unit bx" where
  "ADC_ALIb i =
     and_then (get_flag CF) (\<lambda>cf.
     and_then (gets (\<lambda>s. (AL s, i_Ib i))) (\<lambda>(op1, op2).
     and_then (update (write_reg_rl 0 (op1 + op2 + of_bool cf))) (\<lambda>_.
     update (SET_FLAGS_OSZAPC_8 op1 op2 (op1 + op2 + of_bool cf) (BX_INSTR_ADD_ADC8 cf)))))"

definition ADC_EbIb :: "bxInstruction \<Rightarrow> unit bx" where
  "ADC_EbIb i =
     and_then (get_flag CF) (\<lambda>cf.
     and_then (gets (\<lambda>_. i_Ib i)) (\<lambda>op2.
     and_then (rmw_Eb i (\<lambda>op1. op1 + op2 + of_bool cf)) (\<lambda>op1.
     update (SET_FLAGS_OSZAPC_8 op1 op2 (op1 + op2 + of_bool cf) (BX_INSTR_ADD_ADC8 cf)))))"

definition SBB_EbGb :: "bxInstruction \<Rightarrow> unit bx" where
  "SBB_EbGb i =
     and_then (get_flag CF) (\<lambda>cf.
     and_then (gets (BX_READ_8BIT_REG (nnn i))) (\<lambda>op2.
     and_then (rmw_Eb i (\<lambda>op1. op1 - (op2 + of_bool cf))) (\<lambda>op1.
     update (SET_FLAGS_OSZAPC_8 op1 op2 (op1 - (op2 + of_bool cf)) (BX_INSTR_SUB_SBB8 cf)))))"

definition SBB_GbEb :: "bxInstruction \<Rightarrow> unit bx" where
  "SBB_GbEb i =
     and_then (get_flag CF) (\<lambda>cf.
     and_then (gets (BX_READ_8BIT_REG (nnn i))) (\<lambda>op1.
     and_then (load_Eb i) (\<lambda>op2.
     and_then (update (BX_WRITE_8BIT_REG (nnn i) (op1 - (op2 + of_bool cf)))) (\<lambda>_.
     update (SET_FLAGS_OSZAPC_8 op1 op2 (op1 - (op2 + of_bool cf)) (BX_INSTR_SUB_SBB8 cf))))))"

definition SBB_ALIb :: "bxInstruction \<Rightarrow> unit bx" where
  "SBB_ALIb i =
     and_then (get_flag CF) (\<lambda>cf.
     and_then (gets (\<lambda>s. (AL s, i_Ib i))) (\<lambda>(op1, op2).
     and_then (update (write_reg_rl 0 (op1 - (op2 + of_bool cf)))) (\<lambda>_.
     update (SET_FLAGS_OSZAPC_8 op1 op2 (op1 - (op2 + of_bool cf)) (BX_INSTR_SUB_SBB8 cf)))))"

definition SBB_EbIb :: "bxInstruction \<Rightarrow> unit bx" where
  "SBB_EbIb i =
     and_then (get_flag CF) (\<lambda>cf.
     and_then (gets (\<lambda>_. i_Ib i)) (\<lambda>op2.
     and_then (rmw_Eb i (\<lambda>op1. op1 - (op2 + of_bool cf))) (\<lambda>op1.
     update (SET_FLAGS_OSZAPC_8 op1 op2 (op1 - (op2 + of_bool cf)) (BX_INSTR_SUB_SBB8 cf)))))"

definition SUB_EbGb :: "bxInstruction \<Rightarrow> unit bx" where
  "SUB_EbGb i =
     and_then (gets (BX_READ_8BIT_REG (nnn i))) (\<lambda>op2.
     and_then (rmw_Eb i (\<lambda>op1. op1 - op2)) (\<lambda>op1.
     update (SET_FLAGS_OSZAPC_8 op1 op2 (op1 - op2) BX_INSTR_SUB8)))"

definition SUB_GbEb :: "bxInstruction \<Rightarrow> unit bx" where
  "SUB_GbEb i =
     and_then (gets (BX_READ_8BIT_REG (nnn i))) (\<lambda>op1.
     and_then (load_Eb i) (\<lambda>op2.
     and_then (update (BX_WRITE_8BIT_REG (nnn i) (op1 - op2))) (\<lambda>_.
     update (SET_FLAGS_OSZAPC_8 op1 op2 (op1 - op2) BX_INSTR_SUB8))))"

definition SUB_ALIb :: "bxInstruction \<Rightarrow> unit bx" where
  "SUB_ALIb i =
     and_then (gets (\<lambda>s. (AL s, i_Ib i))) (\<lambda>(op1, op2).
     and_then (update (write_reg_rl 0 (op1 - op2))) (\<lambda>_.
     update (SET_FLAGS_OSZAPC_8 op1 op2 (op1 - op2) BX_INSTR_SUB8)))"

definition SUB_EbIb :: "bxInstruction \<Rightarrow> unit bx" where
  "SUB_EbIb i =
     and_then (gets (\<lambda>_. i_Ib i)) (\<lambda>op2.
     and_then (rmw_Eb i (\<lambda>op1. op1 - op2)) (\<lambda>op1.
     update (SET_FLAGS_OSZAPC_8 op1 op2 (op1 - op2) BX_INSTR_SUB8)))"

definition CMP_EbGb :: "bxInstruction \<Rightarrow> unit bx" where
  "CMP_EbGb i =
     and_then (gets (BX_READ_8BIT_REG (nnn i))) (\<lambda>op2.
     and_then (load_Eb i) (\<lambda>op1.
     update (SET_FLAGS_OSZAPC_8 op1 op2 (op1 - op2) BX_INSTR_COMPARE8)))"

definition CMP_GbEb :: "bxInstruction \<Rightarrow> unit bx" where
  "CMP_GbEb i =
     and_then (gets (BX_READ_8BIT_REG (nnn i))) (\<lambda>op1.
     and_then (load_Eb i) (\<lambda>op2.
     update (SET_FLAGS_OSZAPC_8 op1 op2 (op1 - op2) BX_INSTR_COMPARE8)))"

definition CMP_ALIb :: "bxInstruction \<Rightarrow> unit bx" where
  "CMP_ALIb i =
     and_then (gets (\<lambda>s. (AL s, i_Ib i))) (\<lambda>(op1, op2).
     update (SET_FLAGS_OSZAPC_8 op1 op2 (op1 - op2) BX_INSTR_COMPARE8))"

definition CMP_EbIb :: "bxInstruction \<Rightarrow> unit bx" where
  "CMP_EbIb i =
     and_then (gets (\<lambda>_. i_Ib i)) (\<lambda>op2.
     and_then (load_Eb i) (\<lambda>op1.
     update (SET_FLAGS_OSZAPC_8 op1 op2 (op1 - op2) BX_INSTR_COMPARE8)))"

definition NEG_Eb :: "bxInstruction \<Rightarrow> unit bx" where
  "NEG_Eb i =
     and_then (rmw_Eb i (\<lambda>op1. - op1)) (\<lambda>op1.
     update (SET_FLAGS_OSZAPC_RESULT_8 (- op1) BX_INSTR_NEG8))"

definition INC_Eb :: "bxInstruction \<Rightarrow> unit bx" where
  "INC_Eb i =
     and_then (rmw_Eb i (\<lambda>op1. op1 + 1)) (\<lambda>op1.
     update (SET_FLAGS_OSZAP_RESULT_8 (op1 + 1) BX_INSTR_INC8))"

definition DEC_Eb :: "bxInstruction \<Rightarrow> unit bx" where
  "DEC_Eb i =
     and_then (rmw_Eb i (\<lambda>op1. op1 - 1)) (\<lambda>op1.
     update (SET_FLAGS_OSZAP_RESULT_8 (op1 - 1) BX_INSTR_DEC8))"

definition XADD_EbGb :: "bxInstruction \<Rightarrow> unit bx" where
  "XADD_EbGb i =
     and_then (gets (BX_READ_8BIT_REG (nnn i))) (\<lambda>op2.
     and_then (
       if modC0 i then
         and_then (gets (BX_READ_8BIT_REG (rm i))) (\<lambda>op1.
         and_then (update (BX_WRITE_8BIT_REG (nnn i) op1)) (\<lambda>_.
         and_then (update (BX_WRITE_8BIT_REG (rm i) (op1 + op2))) (\<lambda>_. ret op1)))
       else
         and_then (fetch_Eb i) (\<lambda>op1.
         and_then (write_RMW_virtual_byte (op1 + op2)) (\<lambda>_.
         and_then (update (BX_WRITE_8BIT_REG (nnn i) op1)) (\<lambda>_. ret op1)))) (\<lambda>op1.
     update (SET_FLAGS_OSZAPC_8 op1 op2 (op1 + op2) BX_INSTR_ADD8)))"

definition CMPXCHG_EbGb :: "bxInstruction \<Rightarrow> unit bx" where
  "CMPXCHG_EbGb i =
     and_then (fetch_Eb i) (\<lambda>op1.
     and_then (gets (\<lambda>s. AL s)) (\<lambda>acc.
     and_then (update (SET_FLAGS_OSZAPC_8 acc op1 (acc - op1) BX_INSTR_COMPARE8)) (\<lambda>_.
       if acc - op1 = 0 then
         and_then (gets (BX_READ_8BIT_REG (nnn i))) (\<lambda>op2. put_Eb i op2)
       else update (write_reg_rl 0 op1))))"

section \<open>16 bits\<close>

definition ADD_EwGw :: "bxInstruction \<Rightarrow> unit bx" where
  "ADD_EwGw i =
     and_then (gets (BX_READ_16BIT_REG (nnn i))) (\<lambda>op2.
     and_then (rmw_Ew i (\<lambda>op1. op1 + op2)) (\<lambda>op1.
     update (SET_FLAGS_OSZAPC_16 op1 op2 (op1 + op2) BX_INSTR_ADD16)))"

definition ADD_GwEEw :: "bxInstruction \<Rightarrow> unit bx" where
  "ADD_GwEEw i =
     and_then (gets (BX_READ_16BIT_REG (nnn i))) (\<lambda>op1.
     and_then (and_then (gets rm_addr) (\<lambda>a. read_virtual_word (i_seg i) a)) (\<lambda>op2.
     and_then (update (SET_FLAGS_OSZAPC_16 op1 op2 (op1 + op2) BX_INSTR_ADD16)) (\<lambda>_.
     update (BX_WRITE_16BIT_REG (nnn i) (op1 + op2)))))"

definition ADD_GwEGw :: "bxInstruction \<Rightarrow> unit bx" where
  "ADD_GwEGw i =
     and_then (gets (BX_READ_16BIT_REG (nnn i))) (\<lambda>op1.
     and_then (gets (BX_READ_16BIT_REG (rm i))) (\<lambda>op2.
     and_then (update (SET_FLAGS_OSZAPC_16 op1 op2 (op1 + op2) BX_INSTR_ADD16)) (\<lambda>_.
     update (BX_WRITE_16BIT_REG (nnn i) (op1 + op2)))))"

definition ADD_AXIw :: "bxInstruction \<Rightarrow> unit bx" where
  "ADD_AXIw i =
     and_then (gets (\<lambda>s. (AX s, i_Iw i))) (\<lambda>(op1, op2).
     and_then (update (BX_WRITE_16BIT_REG 0 (op1 + op2))) (\<lambda>_.
     update (SET_FLAGS_OSZAPC_16 op1 op2 (op1 + op2) BX_INSTR_ADD16)))"

definition ADD_EEwIw :: "bxInstruction \<Rightarrow> unit bx" where
  "ADD_EEwIw i =
     and_then (gets (\<lambda>_. i_Iw i)) (\<lambda>op2.
     and_then (and_then (gets rm_addr) (\<lambda>a. read_RMW_virtual_word (i_seg i) a)) (\<lambda>op1.
     and_then (update (SET_FLAGS_OSZAPC_16 op1 op2 (op1 + op2) BX_INSTR_ADD16)) (\<lambda>_.
     write_RMW_virtual_word (op1 + op2))))"

definition ADD_EGwIw :: "bxInstruction \<Rightarrow> unit bx" where
  "ADD_EGwIw i =
     and_then (gets (\<lambda>_. i_Iw i)) (\<lambda>op2.
     and_then (gets (BX_READ_16BIT_REG (rm i))) (\<lambda>op1.
     and_then (update (SET_FLAGS_OSZAPC_16 op1 op2 (op1 + op2) BX_INSTR_ADD16)) (\<lambda>_.
     update (BX_WRITE_16BIT_REG (rm i) (op1 + op2)))))"

definition ADC_EwGw :: "bxInstruction \<Rightarrow> unit bx" where
  "ADC_EwGw i =
     and_then (get_flag CF) (\<lambda>cf.
     and_then (gets (BX_READ_16BIT_REG (nnn i))) (\<lambda>op2.
     and_then (rmw_Ew i (\<lambda>op1. op1 + op2 + of_bool cf)) (\<lambda>op1.
     update (SET_FLAGS_OSZAPC_16 op1 op2 (op1 + op2 + of_bool cf) (BX_INSTR_ADD_ADC16 cf)))))"

definition ADC_GwEw :: "bxInstruction \<Rightarrow> unit bx" where
  "ADC_GwEw i =
     and_then (get_flag CF) (\<lambda>cf.
     and_then (gets (BX_READ_16BIT_REG (nnn i))) (\<lambda>op1.
     and_then (load_Ew i) (\<lambda>op2.
     and_then (update (BX_WRITE_16BIT_REG (nnn i) (op1 + op2 + of_bool cf))) (\<lambda>_.
     update (SET_FLAGS_OSZAPC_16 op1 op2 (op1 + op2 + of_bool cf) (BX_INSTR_ADD_ADC16 cf))))))"

definition ADC_AXIw :: "bxInstruction \<Rightarrow> unit bx" where
  "ADC_AXIw i =
     and_then (get_flag CF) (\<lambda>cf.
     and_then (gets (\<lambda>s. (AX s, i_Iw i))) (\<lambda>(op1, op2).
     and_then (update (BX_WRITE_16BIT_REG 0 (op1 + op2 + of_bool cf))) (\<lambda>_.
     update (SET_FLAGS_OSZAPC_16 op1 op2 (op1 + op2 + of_bool cf) (BX_INSTR_ADD_ADC16 cf)))))"

definition ADC_EwIw :: "bxInstruction \<Rightarrow> unit bx" where
  "ADC_EwIw i =
     and_then (get_flag CF) (\<lambda>cf.
     and_then (gets (\<lambda>_. i_Iw i)) (\<lambda>op2.
     and_then (rmw_Ew i (\<lambda>op1. op1 + op2 + of_bool cf)) (\<lambda>op1.
     update (SET_FLAGS_OSZAPC_16 op1 op2 (op1 + op2 + of_bool cf) (BX_INSTR_ADD_ADC16 cf)))))"

definition SBB_EwGw :: "bxInstruction \<Rightarrow> unit bx" where
  "SBB_EwGw i =
     and_then (get_flag CF) (\<lambda>cf.
     and_then (gets (BX_READ_16BIT_REG (nnn i))) (\<lambda>op2.
     and_then (rmw_Ew i (\<lambda>op1. op1 - (op2 + of_bool cf))) (\<lambda>op1.
     update (SET_FLAGS_OSZAPC_16 op1 op2 (op1 - (op2 + of_bool cf)) (BX_INSTR_SUB_SBB16 cf)))))"

definition SBB_GwEw :: "bxInstruction \<Rightarrow> unit bx" where
  "SBB_GwEw i =
     and_then (get_flag CF) (\<lambda>cf.
     and_then (gets (BX_READ_16BIT_REG (nnn i))) (\<lambda>op1.
     and_then (load_Ew i) (\<lambda>op2.
     and_then (update (BX_WRITE_16BIT_REG (nnn i) (op1 - (op2 + of_bool cf)))) (\<lambda>_.
     update (SET_FLAGS_OSZAPC_16 op1 op2 (op1 - (op2 + of_bool cf)) (BX_INSTR_SUB_SBB16 cf))))))"

definition SBB_AXIw :: "bxInstruction \<Rightarrow> unit bx" where
  "SBB_AXIw i =
     and_then (get_flag CF) (\<lambda>cf.
     and_then (gets (\<lambda>s. (AX s, i_Iw i))) (\<lambda>(op1, op2).
     and_then (update (BX_WRITE_16BIT_REG 0 (op1 - (op2 + of_bool cf)))) (\<lambda>_.
     update (SET_FLAGS_OSZAPC_16 op1 op2 (op1 - (op2 + of_bool cf)) (BX_INSTR_SUB_SBB16 cf)))))"

definition SBB_EwIw :: "bxInstruction \<Rightarrow> unit bx" where
  "SBB_EwIw i =
     and_then (get_flag CF) (\<lambda>cf.
     and_then (gets (\<lambda>_. i_Iw i)) (\<lambda>op2.
     and_then (rmw_Ew i (\<lambda>op1. op1 - (op2 + of_bool cf))) (\<lambda>op1.
     update (SET_FLAGS_OSZAPC_16 op1 op2 (op1 - (op2 + of_bool cf)) (BX_INSTR_SUB_SBB16 cf)))))"

definition SUB_EwGw :: "bxInstruction \<Rightarrow> unit bx" where
  "SUB_EwGw i =
     and_then (gets (BX_READ_16BIT_REG (nnn i))) (\<lambda>op2.
     and_then (rmw_Ew i (\<lambda>op1. op1 - op2)) (\<lambda>op1.
     update (SET_FLAGS_OSZAPC_16 op1 op2 (op1 - op2) BX_INSTR_SUB16)))"

definition SUB_GwEw :: "bxInstruction \<Rightarrow> unit bx" where
  "SUB_GwEw i =
     and_then (gets (BX_READ_16BIT_REG (nnn i))) (\<lambda>op1.
     and_then (load_Ew i) (\<lambda>op2.
     and_then (update (SET_FLAGS_OSZAPC_16 op1 op2 (op1 - op2) BX_INSTR_SUB16)) (\<lambda>_.
     update (BX_WRITE_16BIT_REG (nnn i) (op1 - op2)))))"

definition SUB_AXIw :: "bxInstruction \<Rightarrow> unit bx" where
  "SUB_AXIw i =
     and_then (gets (\<lambda>s. (AX s, i_Iw i))) (\<lambda>(op1, op2).
     and_then (update (BX_WRITE_16BIT_REG 0 (op1 - op2))) (\<lambda>_.
     update (SET_FLAGS_OSZAPC_16 op1 op2 (op1 - op2) BX_INSTR_SUB16)))"

definition SUB_EwIw :: "bxInstruction \<Rightarrow> unit bx" where
  "SUB_EwIw i =
     and_then (gets (\<lambda>_. i_Iw i)) (\<lambda>op2.
     and_then (rmw_Ew i (\<lambda>op1. op1 - op2)) (\<lambda>op1.
     update (SET_FLAGS_OSZAPC_16 op1 op2 (op1 - op2) BX_INSTR_SUB16)))"

definition CMP_EwGw :: "bxInstruction \<Rightarrow> unit bx" where
  "CMP_EwGw i =
     and_then (gets (BX_READ_16BIT_REG (nnn i))) (\<lambda>op2.
     and_then (load_Ew i) (\<lambda>op1.
     update (SET_FLAGS_OSZAPC_16 op1 op2 (op1 - op2) BX_INSTR_COMPARE16)))"

definition CMP_GwEw :: "bxInstruction \<Rightarrow> unit bx" where
  "CMP_GwEw i =
     and_then (gets (BX_READ_16BIT_REG (nnn i))) (\<lambda>op1.
     and_then (load_Ew i) (\<lambda>op2.
     update (SET_FLAGS_OSZAPC_16 op1 op2 (op1 - op2) BX_INSTR_COMPARE16)))"

definition CMP_AXIw :: "bxInstruction \<Rightarrow> unit bx" where
  "CMP_AXIw i =
     and_then (gets (\<lambda>s. (AX s, i_Iw i))) (\<lambda>(op1, op2).
     update (SET_FLAGS_OSZAPC_16 op1 op2 (op1 - op2) BX_INSTR_COMPARE16))"

definition CMP_EwIw :: "bxInstruction \<Rightarrow> unit bx" where
  "CMP_EwIw i =
     and_then (gets (\<lambda>_. i_Iw i)) (\<lambda>op2.
     and_then (load_Ew i) (\<lambda>op1.
     update (SET_FLAGS_OSZAPC_16 op1 op2 (op1 - op2) BX_INSTR_COMPARE16)))"

definition NEG_Ew :: "bxInstruction \<Rightarrow> unit bx" where
  "NEG_Ew i =
     and_then (rmw_Ew i (\<lambda>op1. - op1)) (\<lambda>op1.
     update (SET_FLAGS_OSZAPC_RESULT_16 (- op1) BX_INSTR_NEG16))"

definition INC_Ew :: "bxInstruction \<Rightarrow> unit bx" where
  "INC_Ew i =
     and_then (rmw_Ew i (\<lambda>op1. op1 + 1)) (\<lambda>op1.
     update (SET_FLAGS_OSZAP_RESULT_16 (op1 + 1) BX_INSTR_INC16))"

definition DEC_Ew :: "bxInstruction \<Rightarrow> unit bx" where
  "DEC_Ew i =
     and_then (rmw_Ew i (\<lambda>op1. op1 - 1)) (\<lambda>op1.
     update (SET_FLAGS_OSZAP_RESULT_16 (op1 - 1) BX_INSTR_DEC16))"

definition INC_RX :: "bxInstruction \<Rightarrow> unit bx" where
  "INC_RX i =
     and_then (gets (BX_READ_16BIT_REG (opcodeReg i))) (\<lambda>r.
     and_then (update (BX_WRITE_16BIT_REG (opcodeReg i) (r + 1))) (\<lambda>_.
     update (SET_FLAGS_OSZAP_RESULT_16 (r + 1) BX_INSTR_INC16)))"

definition DEC_RX :: "bxInstruction \<Rightarrow> unit bx" where
  "DEC_RX i =
     and_then (gets (BX_READ_16BIT_REG (opcodeReg i))) (\<lambda>r.
     and_then (update (BX_WRITE_16BIT_REG (opcodeReg i) (r - 1))) (\<lambda>_.
     update (SET_FLAGS_OSZAP_RESULT_16 (r - 1) BX_INSTR_DEC16)))"

definition XADD_EwGw :: "bxInstruction \<Rightarrow> unit bx" where
  "XADD_EwGw i =
     and_then (gets (BX_READ_16BIT_REG (nnn i))) (\<lambda>op2.
     and_then (
       if modC0 i then
         and_then (gets (BX_READ_16BIT_REG (rm i))) (\<lambda>op1.
         and_then (update (BX_WRITE_16BIT_REG (nnn i) op1)) (\<lambda>_.
         and_then (update (BX_WRITE_16BIT_REG (rm i) (op1 + op2))) (\<lambda>_. ret op1)))
       else
         and_then (fetch_Ew i) (\<lambda>op1.
         and_then (write_RMW_virtual_word (op1 + op2)) (\<lambda>_.
         and_then (update (BX_WRITE_16BIT_REG (nnn i) op1)) (\<lambda>_. ret op1)))) (\<lambda>op1.
     update (SET_FLAGS_OSZAPC_16 op1 op2 (op1 + op2) BX_INSTR_ADD16)))"

definition CMPXCHG_EwGw :: "bxInstruction \<Rightarrow> unit bx" where
  "CMPXCHG_EwGw i =
     and_then (fetch_Ew i) (\<lambda>op1.
     and_then (gets (\<lambda>s. AX s)) (\<lambda>acc.
     and_then (update (SET_FLAGS_OSZAPC_16 acc op1 (acc - op1) BX_INSTR_COMPARE16)) (\<lambda>_.
       if acc - op1 = 0 then
         and_then (gets (BX_READ_16BIT_REG (nnn i))) (\<lambda>op2. put_Ew i op2)
       else update (BX_WRITE_16BIT_REG 0 op1))))"

section \<open>32 bits\<close>

definition ADD_EdGd :: "bxInstruction \<Rightarrow> unit bx" where
  "ADD_EdGd i =
     and_then (gets (BX_READ_32BIT_REG (nnn i))) (\<lambda>op2.
     and_then (rmw_Ed i (\<lambda>op1. op1 + op2)) (\<lambda>op1.
     update (SET_FLAGS_OSZAPC_32 op1 op2 (op1 + op2) BX_INSTR_ADD32)))"

definition ADD_GdEEd :: "bxInstruction \<Rightarrow> unit bx" where
  "ADD_GdEEd i =
     and_then (gets (BX_READ_32BIT_REG (nnn i))) (\<lambda>op1.
     and_then (and_then (gets rm_addr) (\<lambda>a. read_virtual_dword (i_seg i) a)) (\<lambda>op2.
     and_then (update (SET_FLAGS_OSZAPC_32 op1 op2 (op1 + op2) BX_INSTR_ADD32)) (\<lambda>_.
     update (BX_WRITE_32BIT_REG (nnn i) (op1 + op2)))))"

definition ADD_GdEGd :: "bxInstruction \<Rightarrow> unit bx" where
  "ADD_GdEGd i =
     and_then (gets (BX_READ_32BIT_REG (nnn i))) (\<lambda>op1.
     and_then (gets (BX_READ_32BIT_REG (rm i))) (\<lambda>op2.
     and_then (update (SET_FLAGS_OSZAPC_32 op1 op2 (op1 + op2) BX_INSTR_ADD32)) (\<lambda>_.
     update (BX_WRITE_32BIT_REG (nnn i) (op1 + op2)))))"

definition ADD_EAXId :: "bxInstruction \<Rightarrow> unit bx" where
  "ADD_EAXId i =
     and_then (gets (\<lambda>s. (EAX s, i_Id i))) (\<lambda>(op1, op2).
     and_then (update (BX_WRITE_32BIT_REG 0 (op1 + op2))) (\<lambda>_.
     update (SET_FLAGS_OSZAPC_32 op1 op2 (op1 + op2) BX_INSTR_ADD32)))"

definition ADD_EEdId :: "bxInstruction \<Rightarrow> unit bx" where
  "ADD_EEdId i =
     and_then (gets (\<lambda>_. i_Id i)) (\<lambda>op2.
     and_then (and_then (gets rm_addr) (\<lambda>a. read_RMW_virtual_dword (i_seg i) a)) (\<lambda>op1.
     and_then (update (SET_FLAGS_OSZAPC_32 op1 op2 (op1 + op2) BX_INSTR_ADD32)) (\<lambda>_.
     write_RMW_virtual_dword (op1 + op2))))"

definition ADD_EGdId :: "bxInstruction \<Rightarrow> unit bx" where
  "ADD_EGdId i =
     and_then (gets (\<lambda>_. i_Id i)) (\<lambda>op2.
     and_then (gets (BX_READ_32BIT_REG (rm i))) (\<lambda>op1.
     and_then (update (SET_FLAGS_OSZAPC_32 op1 op2 (op1 + op2) BX_INSTR_ADD32)) (\<lambda>_.
     update (BX_WRITE_32BIT_REG (rm i) (op1 + op2)))))"

definition ADC_EdGd :: "bxInstruction \<Rightarrow> unit bx" where
  "ADC_EdGd i =
     and_then (get_flag CF) (\<lambda>cf.
     and_then (gets (BX_READ_32BIT_REG (nnn i))) (\<lambda>op2.
     and_then (rmw_Ed i (\<lambda>op1. op1 + op2 + of_bool cf)) (\<lambda>op1.
     update (SET_FLAGS_OSZAPC_32 op1 op2 (op1 + op2 + of_bool cf) (BX_INSTR_ADD_ADC32 cf)))))"

definition ADC_GdEd :: "bxInstruction \<Rightarrow> unit bx" where
  "ADC_GdEd i =
     and_then (get_flag CF) (\<lambda>cf.
     and_then (gets (BX_READ_32BIT_REG (nnn i))) (\<lambda>op1.
     and_then (load_Ed i) (\<lambda>op2.
     and_then (update (BX_WRITE_32BIT_REG (nnn i) (op1 + op2 + of_bool cf))) (\<lambda>_.
     update (SET_FLAGS_OSZAPC_32 op1 op2 (op1 + op2 + of_bool cf) (BX_INSTR_ADD_ADC32 cf))))))"

definition ADC_EAXId :: "bxInstruction \<Rightarrow> unit bx" where
  "ADC_EAXId i =
     and_then (get_flag CF) (\<lambda>cf.
     and_then (gets (\<lambda>s. (EAX s, i_Id i))) (\<lambda>(op1, op2).
     and_then (update (BX_WRITE_32BIT_REG 0 (op1 + op2 + of_bool cf))) (\<lambda>_.
     update (SET_FLAGS_OSZAPC_32 op1 op2 (op1 + op2 + of_bool cf) (BX_INSTR_ADD_ADC32 cf)))))"

definition ADC_EdId :: "bxInstruction \<Rightarrow> unit bx" where
  "ADC_EdId i =
     and_then (get_flag CF) (\<lambda>cf.
     and_then (gets (\<lambda>_. i_Id i)) (\<lambda>op2.
     and_then (rmw_Ed i (\<lambda>op1. op1 + op2 + of_bool cf)) (\<lambda>op1.
     update (SET_FLAGS_OSZAPC_32 op1 op2 (op1 + op2 + of_bool cf) (BX_INSTR_ADD_ADC32 cf)))))"

definition SBB_EdGd :: "bxInstruction \<Rightarrow> unit bx" where
  "SBB_EdGd i =
     and_then (get_flag CF) (\<lambda>cf.
     and_then (gets (BX_READ_32BIT_REG (nnn i))) (\<lambda>op2.
     and_then (rmw_Ed i (\<lambda>op1. op1 - (op2 + of_bool cf))) (\<lambda>op1.
     update (SET_FLAGS_OSZAPC_32 op1 op2 (op1 - (op2 + of_bool cf)) (BX_INSTR_SUB_SBB32 cf)))))"

definition SBB_GdEd :: "bxInstruction \<Rightarrow> unit bx" where
  "SBB_GdEd i =
     and_then (get_flag CF) (\<lambda>cf.
     and_then (gets (BX_READ_32BIT_REG (nnn i))) (\<lambda>op1.
     and_then (load_Ed i) (\<lambda>op2.
     and_then (update (BX_WRITE_32BIT_REG (nnn i) (op1 - (op2 + of_bool cf)))) (\<lambda>_.
     update (SET_FLAGS_OSZAPC_32 op1 op2 (op1 - (op2 + of_bool cf)) (BX_INSTR_SUB_SBB32 cf))))))"

definition SBB_EAXId :: "bxInstruction \<Rightarrow> unit bx" where
  "SBB_EAXId i =
     and_then (get_flag CF) (\<lambda>cf.
     and_then (gets (\<lambda>s. (EAX s, i_Id i))) (\<lambda>(op1, op2).
     and_then (update (BX_WRITE_32BIT_REG 0 (op1 - (op2 + of_bool cf)))) (\<lambda>_.
     update (SET_FLAGS_OSZAPC_32 op1 op2 (op1 - (op2 + of_bool cf)) (BX_INSTR_SUB_SBB32 cf)))))"

definition SBB_EdId :: "bxInstruction \<Rightarrow> unit bx" where
  "SBB_EdId i =
     and_then (get_flag CF) (\<lambda>cf.
     and_then (gets (\<lambda>_. i_Id i)) (\<lambda>op2.
     and_then (rmw_Ed i (\<lambda>op1. op1 - (op2 + of_bool cf))) (\<lambda>op1.
     update (SET_FLAGS_OSZAPC_32 op1 op2 (op1 - (op2 + of_bool cf)) (BX_INSTR_SUB_SBB32 cf)))))"

definition SUB_EdGd :: "bxInstruction \<Rightarrow> unit bx" where
  "SUB_EdGd i =
     and_then (gets (BX_READ_32BIT_REG (nnn i))) (\<lambda>op2.
     and_then (rmw_Ed i (\<lambda>op1. op1 - op2)) (\<lambda>op1.
     update (SET_FLAGS_OSZAPC_32 op1 op2 (op1 - op2) BX_INSTR_SUB32)))"

definition SUB_GdEd :: "bxInstruction \<Rightarrow> unit bx" where
  "SUB_GdEd i =
     and_then (gets (BX_READ_32BIT_REG (nnn i))) (\<lambda>op1.
     and_then (load_Ed i) (\<lambda>op2.
     and_then (update (SET_FLAGS_OSZAPC_32 op1 op2 (op1 - op2) BX_INSTR_SUB32)) (\<lambda>_.
     update (BX_WRITE_32BIT_REG (nnn i) (op1 - op2)))))"

definition SUB_EAXId :: "bxInstruction \<Rightarrow> unit bx" where
  "SUB_EAXId i =
     and_then (gets (\<lambda>s. (EAX s, i_Id i))) (\<lambda>(op1, op2).
     and_then (update (BX_WRITE_32BIT_REG 0 (op1 - op2))) (\<lambda>_.
     update (SET_FLAGS_OSZAPC_32 op1 op2 (op1 - op2) BX_INSTR_SUB32)))"

definition SUB_EdId :: "bxInstruction \<Rightarrow> unit bx" where
  "SUB_EdId i =
     and_then (gets (\<lambda>_. i_Id i)) (\<lambda>op2.
     and_then (rmw_Ed i (\<lambda>op1. op1 - op2)) (\<lambda>op1.
     update (SET_FLAGS_OSZAPC_32 op1 op2 (op1 - op2) BX_INSTR_SUB32)))"

definition CMP_EdGd :: "bxInstruction \<Rightarrow> unit bx" where
  "CMP_EdGd i =
     and_then (gets (BX_READ_32BIT_REG (nnn i))) (\<lambda>op2.
     and_then (load_Ed i) (\<lambda>op1.
     update (SET_FLAGS_OSZAPC_32 op1 op2 (op1 - op2) BX_INSTR_COMPARE32)))"

definition CMP_GdEd :: "bxInstruction \<Rightarrow> unit bx" where
  "CMP_GdEd i =
     and_then (gets (BX_READ_32BIT_REG (nnn i))) (\<lambda>op1.
     and_then (load_Ed i) (\<lambda>op2.
     update (SET_FLAGS_OSZAPC_32 op1 op2 (op1 - op2) BX_INSTR_COMPARE32)))"

definition CMP_EAXId :: "bxInstruction \<Rightarrow> unit bx" where
  "CMP_EAXId i =
     and_then (gets (\<lambda>s. (EAX s, i_Id i))) (\<lambda>(op1, op2).
     update (SET_FLAGS_OSZAPC_32 op1 op2 (op1 - op2) BX_INSTR_COMPARE32))"

definition CMP_EdId :: "bxInstruction \<Rightarrow> unit bx" where
  "CMP_EdId i =
     and_then (gets (\<lambda>_. i_Id i)) (\<lambda>op2.
     and_then (load_Ed i) (\<lambda>op1.
     update (SET_FLAGS_OSZAPC_32 op1 op2 (op1 - op2) BX_INSTR_COMPARE32)))"

definition NEG_Ed :: "bxInstruction \<Rightarrow> unit bx" where
  "NEG_Ed i =
     and_then (rmw_Ed i (\<lambda>op1. - op1)) (\<lambda>op1.
     update (SET_FLAGS_OSZAPC_RESULT_32 (- op1) BX_INSTR_NEG32))"

definition INC_Ed :: "bxInstruction \<Rightarrow> unit bx" where
  "INC_Ed i =
     and_then (rmw_Ed i (\<lambda>op1. op1 + 1)) (\<lambda>op1.
     update (SET_FLAGS_OSZAP_RESULT_32 (op1 + 1) BX_INSTR_INC32))"

definition DEC_Ed :: "bxInstruction \<Rightarrow> unit bx" where
  "DEC_Ed i =
     and_then (rmw_Ed i (\<lambda>op1. op1 - 1)) (\<lambda>op1.
     update (SET_FLAGS_OSZAP_RESULT_32 (op1 - 1) BX_INSTR_DEC32))"

definition INC_ERX :: "bxInstruction \<Rightarrow> unit bx" where
  "INC_ERX i =
     and_then (gets (BX_READ_32BIT_REG (opcodeReg i))) (\<lambda>r.
     and_then (update (BX_WRITE_32BIT_REG (opcodeReg i) (r + 1))) (\<lambda>_.
     update (SET_FLAGS_OSZAP_RESULT_32 (r + 1) BX_INSTR_INC32)))"

definition DEC_ERX :: "bxInstruction \<Rightarrow> unit bx" where
  "DEC_ERX i =
     and_then (gets (BX_READ_32BIT_REG (opcodeReg i))) (\<lambda>r.
     and_then (update (BX_WRITE_32BIT_REG (opcodeReg i) (r - 1))) (\<lambda>_.
     update (SET_FLAGS_OSZAP_RESULT_32 (r - 1) BX_INSTR_DEC32)))"

definition XADD_EdGd :: "bxInstruction \<Rightarrow> unit bx" where
  "XADD_EdGd i =
     and_then (gets (BX_READ_32BIT_REG (nnn i))) (\<lambda>op2.
     and_then (
       if modC0 i then
         and_then (gets (BX_READ_32BIT_REG (rm i))) (\<lambda>op1.
         and_then (update (BX_WRITE_32BIT_REG (nnn i) op1)) (\<lambda>_.
         and_then (update (BX_WRITE_32BIT_REG (rm i) (op1 + op2))) (\<lambda>_. ret op1)))
       else
         and_then (fetch_Ed i) (\<lambda>op1.
         and_then (write_RMW_virtual_dword (op1 + op2)) (\<lambda>_.
         and_then (update (BX_WRITE_32BIT_REG (nnn i) op1)) (\<lambda>_. ret op1)))) (\<lambda>op1.
     update (SET_FLAGS_OSZAPC_32 op1 op2 (op1 + op2) BX_INSTR_ADD32)))"

definition CMPXCHG_EdGd :: "bxInstruction \<Rightarrow> unit bx" where
  "CMPXCHG_EdGd i =
     and_then (fetch_Ed i) (\<lambda>op1.
     and_then (gets (\<lambda>s. EAX s)) (\<lambda>acc.
     and_then (update (SET_FLAGS_OSZAPC_32 acc op1 (acc - op1) BX_INSTR_COMPARE32)) (\<lambda>_.
       if acc - op1 = 0 then
         and_then (gets (BX_READ_32BIT_REG (nnn i))) (\<lambda>op2. put_Ed i op2)
       else update (BX_WRITE_32BIT_REG 0 op1))))"

section \<open>Sign extension of the accumulator\<close>

definition CBW :: "bxInstruction \<Rightarrow> unit bx" where
  "CBW i = update (\<lambda>s. BX_WRITE_16BIT_REG 0 (scast (AL s)) s)"

definition CWD :: "bxInstruction \<Rightarrow> unit bx" where
  "CWD i = update (\<lambda>s. BX_WRITE_16BIT_REG 2 (if AX s AND 0x8000 \<noteq> 0 then 0xFFFF else 0x0000) s)"

definition CWDE :: "bxInstruction \<Rightarrow> unit bx" where
  "CWDE i = update (\<lambda>s. BX_WRITE_32BIT_REG 0 (scast (AX s)) s)"

definition CDQ :: "bxInstruction \<Rightarrow> unit bx" where
  "CDQ i = update (\<lambda>s. BX_WRITE_32BIT_REG 2 (if EAX s AND 0x80000000 \<noteq> 0 then 0xFFFFFFFF else 0x00000000) s)"

section \<open>CMPXCHG8B\<close>

definition CMPXCHG8B :: "bxInstruction \<Rightarrow> unit bx" where
  "CMPXCHG8B i =
     (if modC0 i then raise BX_UD_EXCEPTION 0
      else
        and_then (gets rm_addr) (\<lambda>a.
        and_then (read_virtual_dword (i_seg i) a) (\<lambda>op1_64_lo.
        and_then (read_RMW_virtual_dword (i_seg i) (a + 4)) (\<lambda>op1_64_hi s.
          (let diff = (EAX s - op1_64_lo) OR (EDX s - op1_64_hi) in
           if diff = 0 then
             and_then (update (set_flag ZF True)) (\<lambda>_ t.
             and_then (write_RMW_virtual_dword (ECX t)) (\<lambda>_ u.
             write_virtual_dword (i_seg i) a (EBX u) u) t) s
           else
             and_then (update (set_flag ZF False)) (\<lambda>_.
             and_then (update (BX_WRITE_32BIT_REG 0 op1_64_lo)) (\<lambda>_.
             update (BX_WRITE_32BIT_REG 2 op1_64_hi))) s)))))"

end
