(* ===== verification/BxMachine.thy ===== *)
theory BxMachine
  imports BxReset BxArith
begin

text \<open>
  Concrete machines: the processor of a one megabyte machine just after power-on, with zeroed
  memory, and variations of it. The witnesses of the properties are evaluated on them.
\<close>

definition blank_lf :: bx_lf_flags_entry where
  "blank_lf = \<lparr>op1_8 = 0, op2_8 = 0, result_8 = 0, op1_16 = 0, op2_16 = 0, result_16 = 0,
     op1_32 = 0, op2_32 = 0, result_32 = 0, instr = BX_INSTR_NONE\<rparr>"

definition blank_sys :: bx_sysregs where
  "blank_sys = \<lparr>gdtr_base = 0, gdtr_limit = 0, idtr_base = 0, idtr_limit = 0, ldtr = reset_ldtr,
     tr = reset_tr, dr0 = 0, dr1 = 0, dr2 = 0, dr3 = 0, dr6 = 0, dr7 = 0, apicbase = 0, EXT = False,
     prev_eip = 0, prev_esp = 0, eipPageBias = 0, eipPageWindowSize = 0, eipFetchPtr = None,
     kill_bochs_request = 0, errorno = 0, curr_exception0 = 0, curr_exception1 = 0,
     save_cs = reset_data_segment, save_ss = reset_data_segment, save_eip = 0, save_esp = 0,
     except_chk = False, except_cs = 0, except_ss = 0, INTR = False,
     sysenter_cs_msr = 0, sysenter_esp_msr = 0, sysenter_eip_msr = 0\<rparr>"

definition blank_cpu :: cpu where
  "blank_cpu = \<lparr>gen_reg = (\<lambda>_. 0), eip = 0, eflags_val32 = 0, VM_cached = False, lf_flags_status = 0,
     oszapc = blank_lf, oszap = blank_lf, inhibit_mask = 0, debug_trap = 0, async_event = 0,
     cpu_mode = BX_MODE_IA32_REAL, sregs = (\<lambda>_. reset_data_segment),
     cr0 = \<lparr>cr0_val32 = 0, cr0_pg = False, cr0_cd = False, cr0_nw = False, cr0_am = False,
       cr0_wp = False, cr0_ne = False, cr0_ts = False, cr0_em = False, cr0_mp = False, cr0_pe = False\<rparr>,
     cr2 = 0, cr3 = 0, cr3_masked = 0, cr4 = 0,
     TLB = (\<lambda>_. \<lparr>lpf = 0, ppf = 0, accessBits = 0, hostPageAddr = None\<rparr>),
     rm_addr = 0, paddress1 = 0, paddress2 = 0, len1 = 0, len2 = 0, pages = Pages 0,
     local_apic_base = 0, ioapic_base = 0, a20_mask = 0, currCountdown = 0xffffffff, sys = blank_sys,
     mem = \<lparr>vector = (\<lambda>_. 0), mem_len = 0, rom_present = (\<lambda>_. False), memory_handlers = (\<lambda>_. [])\<rparr>\<rparr>"

definition boot :: cpu where
  "boot = power_on (\<lambda>_. 0) blank_cpu"

lemmas boot_wf = power_on_wf [of "\<lambda>_. 0" blank_cpu, folded boot_def]

lemma boot_parts: "mem_wf (mem boot)" "handlers_paged (mem boot)" "a20_mask_ok boot" "bogus_ones (mem boot)"
  using boot_wf(1) by (simp_all add: mem_ok_def vm_ok_def)

lemma and_ones_32 [simp]: "(a :: Bit32u) AND 0xffffffff = a"
  by (simp only: word_all_ones and.right_neutral)

lemma boot_fields [simp]:
  "mem_len (mem boot) = 0x100000" "memory_handlers (mem boot) p = []" "a20_mask boot = 0xffffffff"
  "local_apic_base boot = 0xfee00000" "ioapic_base boot = 0xfec00000"
  "A20ADDR boot a = a" "\<not> handled (mem boot) a" "\<not> cr0_pg (cr0 boot)" "lf_flags_status boot = 0"
  "lpf (TLB boot i) = BX_INVALID_TLB_ENTRY"
  by (simp_all add: boot_def power_on_def init_memory_def APIC_BASE_ADDR_def A20ADDR_def handled_def
      lpf_reset)

text \<open>A register-to-register instruction with the given operands, and an immediate form.\<close>

definition reg_instr :: "3 word \<Rightarrow> 3 word \<Rightarrow> bxInstruction" where
  "reg_instr dst src = \<lparr>modC0 = True, nnn = src, rm = dst, opcodeReg = dst, i_seg = DS, i_b1 = 0,
     i_Ib = 0, i_Iw = 0, i_Id = 0, displ16u = 0, displ32u = 0, sibScale = 0, sibIndex = 0, sibBase = 0,
     i_Iw2 = 0, i_Ib2 = 0, as32L = True, os32L = True, null_seg = False,
     repUsedValue = 0, repeatableL = False, repeatableZFL = False, i_ilen = 2, ResolveModrm = None\<rparr>"

lemma reg_instr_fields [simp]:
  "modC0 (reg_instr d s)" "nnn (reg_instr d s) = s" "rm (reg_instr d s) = d" "opcodeReg (reg_instr d s) = d"
  "i_seg (reg_instr d s) = DS"
  by (simp_all add: reg_instr_def)

text \<open>The machine with other register contents.\<close>

definition boot_regs :: "Bit32u \<Rightarrow> Bit32u \<Rightarrow> Bit32u \<Rightarrow> cpu" where
  "boot_regs eax ecx edx = boot\<lparr>gen_reg := (\<lambda>r. if r = 0 then eax else if r = 1 then ecx
     else if r = 2 then edx else 0)\<rparr>"

lemma boot_regs_fields [simp]:
  "gen_reg (boot_regs a c d) 0 = a" "gen_reg (boot_regs a c d) 1 = c" "gen_reg (boot_regs a c d) 2 = d"
  "BX_READ_16BIT_REG 0 (boot_regs a c d) = ucast a" "BX_READ_16BIT_REG 1 (boot_regs a c d) = ucast c"
  "BX_READ_16BIT_REG 2 (boot_regs a c d) = ucast d"
  "reg_rl 0 (boot_regs a c d) = ucast a" "reg_rl 1 (boot_regs a c d) = ucast c"
  by (simp_all add: boot_regs_def BX_READ_16BIT_REG_def reg_rl_def)

end
