(* ===== verification/BxMemoryTheorems.thy ===== *)
theory BxMemoryTheorems
  imports BxMachine
begin

text \<open>
  The properties of the physical memory and of loading, mapping and unmapping its parts.
\<close>

section \<open>Reading what was written\<close>

lemma nth_bytes_at: "k < n \<Longrightarrow> bytes_at rd m a n ! k = rd m (a + word_of_nat k)"
  by (simp add: bytes_at_def)

lemma phys_byte_writes:
  assumes "unat a + length data \<le> 0x100000000"
  shows "phys_byte (phys_writes a data m) c =
     (if unat a \<le> unat c \<and> unat c < unat a + length data \<and> writable m c
      then data ! (unat c - unat a) else phys_byte m c)"
  using assms
proof (induction data arbitrary: a m)
  case (Cons x xs)
  show ?case
  proof (cases "xs = []")
    case True
    then show ?thesis
      by (auto simp: phys_byte_write) (metis le_antisym less_Suc_eq_le word_unat_eq_iff)+
  next
    case False
    then have "unat a + 1 < 0x100000000"
      using Cons.prems by (cases xs) auto
    then have a1: "unat (a + 1) = unat a + 1"
      by (simp add: unat_plus_if')
    have "unat (a + 1) + length xs \<le> 0x100000000"
      using Cons.prems a1 by simp
    note IH = Cons.IH [OF this, of "phys_write a x m"]
    have "c = a \<longleftrightarrow> unat c = unat a"
      by (simp add: word_unat_eq_iff)
    then show ?thesis
      by (auto simp: IH a1 phys_byte_write nth_Cons' Suc_diff_le)
  qed
qed auto

text \<open>C3
  Physical memory is a byte store. A write of up to a page of bytes by \<open>writePhysicalPage\<close>
  at an address no device claims, followed by a read of the same number of bytes at any other
  such address by \<open>readPhysicalPage\<close>, gives byte by byte what was written where the two
  ranges meet on a writable byte (below the end of memory, outside 0xa0000-0xfffff), and otherwise
  what the same read gave before. In particular ROM and the VGA window never change.\<close>

theorem write_then_read:
  assumes ok: "mem_wf (mem s)"
    and w: "\<not> handled (mem s) a" "\<not> is_selected (local_apic_base s) a" "\<not> is_selected (ioapic_base s) a"
      "A20ADDR s a = a" "in_page a (length data)" "unat a + length data < 0x100000000"
    and r: "plain_ram s b" "A20ADDR s b = b" "in_page b n" "unat b + n < 0x100000000"
  shows "\<exists>t old new. writePhysicalPage a data s = Done () t \<and> readPhysicalPage b n s = Done old s \<and>
     readPhysicalPage b n t = Done new t \<and> length old = n \<and> length new = n \<and>
     (\<forall>k<n. new ! k =
        (let c = unat b + k in
         if unat a \<le> c \<and> c < unat a + length data \<and> c < mem_len (mem s) \<and> \<not> (0xa0000 \<le> c \<and> c < 0x100000)
         then data ! (c - unat a) else old ! k))"
proof -
  let ?t = "with_mem s (phys_writes a data (mem s))"
  have wr: "writePhysicalPage a data s = Done () ?t"
    using write_spec [of s a data] ok w by simp
  have rd: "readPhysicalPage b n s = Done (phys_bytes (mem s) b n) s"
    using read_spec [of s b n] ok r by simp
  have "plain_ram ?t b" "A20ADDR ?t b = b"
    using r by (simp_all add: plain_ram_def A20ADDR_def handled_def del: drop_bit_and)
  then have rd': "readPhysicalPage b n ?t = Done (phys_bytes (mem ?t) b n) ?t"
    using read_spec [of ?t b n] ok r by simp
  have "phys_byte (phys_writes a data (mem s)) (b + word_of_nat k) =
      (let c = unat b + k in
       if unat a \<le> c \<and> c < unat a + length data \<and> c < mem_len (mem s) \<and> \<not> (0xa0000 \<le> c \<and> c < 0x100000)
       then data ! (c - unat a) else phys_byte (mem s) (b + word_of_nat k))" if "k < n" for k
    using phys_byte_writes [of a data "mem s" "b + word_of_nat k"] w(6) unat_add_in_page [OF r(3) that]
    by (auto simp: writable_def Let_def)
  then have nth: "phys_bytes (mem ?t) b n ! k =
      (let c = unat b + k in
       if unat a \<le> c \<and> c < unat a + length data \<and> c < mem_len (mem s) \<and> \<not> (0xa0000 \<le> c \<and> c < 0x100000)
       then data ! (c - unat a) else phys_bytes (mem s) b n ! k)" if "k < n" for k
    using that by (auto simp: nth_bytes_at Let_def)
  show ?thesis
    by (rule exI [of _ ?t], rule_tac exI [of _ "phys_bytes (mem s) b n"],
        rule exI [of _ "phys_bytes (mem ?t) b n"])
      (use wr rd rd' nth in \<open>intro conjI allI impI; simp only: length_bytes_at\<close>)
qed

lemma write_then_read_witness:
  "\<exists>t old new. writePhysicalPage 0x1000 [1, 2] boot = Done () t \<and> readPhysicalPage 0x1001 2 boot = Done old boot \<and>
     readPhysicalPage 0x1001 2 t = Done new t \<and> length old = 2 \<and> length new = 2 \<and> new ! 0 = 2 \<and> new ! 1 = old ! 1"
proof -
  have "\<exists>t old new. writePhysicalPage 0x1000 [1, 2] boot = Done () t \<and> readPhysicalPage 0x1001 2 boot = Done old boot \<and>
     readPhysicalPage 0x1001 2 t = Done new t \<and> length old = 2 \<and> length new = 2 \<and>
     (\<forall>k<2. new ! k =
        (let c = unat (0x1001 :: Bit32u) + k in
         if unat (0x1000 :: Bit32u) \<le> c \<and> c < unat (0x1000 :: Bit32u) + length [1, 2 :: Bit8u] \<and>
            c < mem_len (mem boot) \<and> \<not> (0xa0000 \<le> c \<and> c < 0x100000)
         then [1, 2] ! (c - unat (0x1000 :: Bit32u)) else old ! k))"
    by (rule write_then_read) (simp_all add: boot_parts plain_ram_def is_selected_def in_page_def)
  then show ?thesis
    by (auto simp: less_2_cases_iff all_conj_distrib)
qed

section \<open>Host pointers\<close>

text \<open>
  The host pointers that \<open>getHostMemAddr\<close> hands to the TLB are equivalent to going
  through the memory object. If the page at physical address \<open>p\<close> has a pointer for
  reading, every read of \<open>n\<close> bytes at offset \<open>k\<close> of the page loads exactly what
  the pointer gives, in particular ROM and the all-ones page of absent memory; if it has one for
  writing, every write stores through the pointer exactly what \<open>writePhysicalPage\<close>
  stores. This is what lets a TLB hit bypass the address decoding.\<close>

lemma host_pointer_equivalent:
  assumes ok: "mem_wf (mem s)" "bogus_ones (mem s)" "handlers_paged (mem s)" "a20_mask_ok s"
    and p: "page_aligned p" "A20ADDR s p = p"
  shows "(\<forall>h k n. getHostMemAddr p BX_READ s = Some h \<and> 0 < n \<and> k + n \<le> 4096 \<and> unat p + k + n < 0x100000000 \<longrightarrow>
            readPhysicalPage (p + word_of_nat k) n s = load_hosts (h + k) n s) \<and>
         (\<forall>h k data. getHostMemAddr p BX_WRITE s = Some h \<and> data \<noteq> [] \<and> k + length data \<le> 4096 \<longrightarrow>
            writePhysicalPage (p + word_of_nat k) data s = store_hosts (h + k) data s)"
  using ok p by (auto intro!: direct_read direct_write)

lemma host_pointer_witness:
  "writePhysicalPage (0x2000 + word_of_nat 5) [7] boot = store_hosts (0x2000 + 5) [7] boot"
proof -
  have "page_aligned 0x2000"
    by (simp add: page_aligned_def)
  then have eq: "\<forall>h k data. getHostMemAddr 0x2000 BX_WRITE boot = Some h \<and> data \<noteq> [] \<and> k + length data \<le> 4096 \<longrightarrow>
      writePhysicalPage (0x2000 + word_of_nat k) data boot = store_hosts (h + k) data boot"
    by (rule host_pointer_equivalent [THEN conjunct2, OF boot_parts(1,4,2,3)]) simp
  have "getHostMemAddr 0x2000 BX_WRITE boot = Some 0x2000"
    by (simp add: getHostMemAddr_def BIOS_MASK_def)
  moreover from eq have "getHostMemAddr 0x2000 BX_WRITE boot = Some 0x2000 \<and> [7] \<noteq> [] \<and> 5 + length [7 :: Bit8u] \<le> 4096 \<longrightarrow>
      writePhysicalPage (0x2000 + word_of_nat 5) [7] boot = store_hosts (0x2000 + 5) [7] boot"
    by blast
  ultimately show ?thesis by simp
qed

section \<open>Device ranges and ROM images\<close>

text \<open>
  Registering a device range and unregistering it restores the handler lists of every megabyte,
  whatever ranges were registered before.\<close>

theorem register_unregister_roundtrip:
  assumes "0 < rd" "0 < wr" "b \<le> e"
  shows "\<exists>m1. registerMemoryHandlers rd wr b e m = (True, m1) \<and> unregisterMemoryHandlers rd wr b e m1 = (True, m)"
  using unregister_register [OF assms, of m] by (cases "registerMemoryHandlers rd wr b e m") auto

lemma register_unregister_witness:
  "\<exists>m1. registerMemoryHandlers 1 2 0xa0000 0xbffff (mem boot) = (True, m1) \<and>
     unregisterMemoryHandlers 1 2 0xa0000 0xbffff m1 = (True, mem boot)"
  by (rule register_unregister_roundtrip) simp_all

text \<open>
  \<open>load_ROM\<close> of a BIOS image places the image so that its last byte is the last byte of
  the address space, where the processor fetches its first instruction.\<close>

theorem load_ROM_maps_bios:
  assumes "mem_wf m" "0 < length img" "length img \<le> 0x80000"
  shows "\<exists>bad m'. load_ROM (Some img) 0 0 m = Inr (bad, m') \<and>
     (\<forall>k<length img. phys_byte m' (- word_of_nat (length img) + word_of_nat k) = img ! k)"
proof -
  obtain bad m' where "load_ROM (Some img) 0 0 m = Inr (bad, m')"
    using assms(3) by (auto simp: load_ROM_def Let_def BIOSROMSZ_def)
  then show ?thesis
    using load_ROM_bios_top assms by blast
qed

lemma load_ROM_witness:
  "\<exists>bad m'. load_ROM (Some [0xea, 0x5b]) 0 0 (mem boot) = Inr (bad, m') \<and>
     (\<forall>k<length [0xea, 0x5b :: Bit8u]. phys_byte m' (- word_of_nat (length [0xea, 0x5b :: Bit8u]) + word_of_nat k)
        = [0xea, 0x5b] ! k)"
  by (rule load_ROM_maps_bios) (simp_all add: boot_parts)

text \<open>C23
  A four byte read that reaches the last byte of the address space leaves the allocated block: it
  is served from the ROM area, whose pointer it follows past the end, because the test of the
  range wraps around.\<close>

theorem read_last_dword_leaves_memory:
  assumes "mem_wf (mem s)" "mem_len (mem s) \<le> 0xfff00000" "a20_mask s = 0xffffffff"
    and "\<not> handled (mem s) 0xfffffffc" "local_apic_base s = 0xfee00000" "ioapic_base s = 0xfec00000"
  shows "readPhysicalPage 0xfffffffc 4 s = Panic ''read outside the allocated memory'' s"
  using assms by (rule read_last_dword_panics)

lemma read_last_dword_witness:
  "readPhysicalPage 0xfffffffc 4 boot = Panic ''read outside the allocated memory'' boot"
  by (rule read_last_dword_leaves_memory) (simp_all add: boot_parts)

end
