(* ===== verification/BxWalk.thy ===== *)
theory BxWalk
  imports BxTLB
begin

text \<open>
  Accessed and dirty bits do not change where a linear address leads: a second walk over the
  marked tables gives the same frame and rights and finds nothing to mark.
\<close>

section \<open>Entries that differ in the accessed and dirty bits\<close>

definition ad_equal :: "Bit32u \<Rightarrow> Bit32u \<Rightarrow> bool" where
  "ad_equal e e' \<longleftrightarrow> (\<forall>n. n \<noteq> 5 \<longrightarrow> n \<noteq> 6 \<longrightarrow> bit e n = bit e' n)"

lemma ad_equal_refl [simp]: "ad_equal e e"
  by (simp add: ad_equal_def)

lemma ad_equal_trans: "ad_equal a b \<Longrightarrow> ad_equal b c \<Longrightarrow> ad_equal a c"
  by (simp add: ad_equal_def)

lemma bit_0x20_0x60:
  "bit (0x20 :: Bit32u) n \<longleftrightarrow> n = 5" "bit (0x60 :: Bit32u) n \<longleftrightarrow> n = 5 \<or> n = 6"
proof -
  have "(0x20 :: Bit32u) = push_bit 5 1" "(0x60 :: Bit32u) = push_bit 5 1 OR push_bit 6 1"
    by simp_all
  then show "bit (0x20 :: Bit32u) n \<longleftrightarrow> n = 5" "bit (0x60 :: Bit32u) n \<longleftrightarrow> n = 5 \<or> n = 6"
    by (simp_all only: bit_simps) auto
qed

lemma ad_equal_or [simp]: "ad_equal e (e OR 0x20)" "ad_equal e (e OR 0x60)"
  by (simp_all only: ad_equal_def bit_or_iff bit_0x20_0x60) simp_all

lemma ad_equal_and:
  assumes "ad_equal e e'" "\<not> bit m 5" "\<not> bit m 6"
  shows "e AND m = e' AND m"
proof (rule bit_word_eqI)
  fix n
  show "bit (e AND m) n \<longleftrightarrow> bit (e' AND m) n"
    using assms unfolding ad_equal_def bit_and_iff by (cases "n = 5 \<or> n = 6") auto
qed

lemma ad_equal_drop:
  assumes "ad_equal e e'" "6 < n"
  shows "drop_bit n e = drop_bit n e'"
  using assms by (intro bit_word_eqI) (simp add: bit_drop_bit_eq ad_equal_def)

lemma word_div_drop: "(e :: Bit32u) div 4096 = drop_bit 12 e" "e div 0x400000 = drop_bit 22 e"
  by (simp_all add: drop_bit_eq_div)

lemma ad_equal_uses:
  assumes "ad_equal e e'"
  shows "bit e 0 = bit e' 0" "bit e 7 = bit e' 7" "e div 4096 = e' div 4096" "e div 0x400000 = e' div 0x400000"
    "e AND 0x106 = e' AND 0x106" "e AND 0x06 = e' AND 0x06" "e AND 0x100 = e' AND 0x100"
proof -
  show "bit e 0 = bit e' 0" "bit e 7 = bit e' 7"
    using assms by (simp_all add: ad_equal_def)
  show "e div 4096 = e' div 4096" "e div 0x400000 = e' div 0x400000"
    unfolding word_div_drop by (rule ad_equal_drop [OF assms]; simp)+
  show "e AND 0x106 = e' AND 0x106" "e AND 0x06 = e' AND 0x06" "e AND 0x100 = e' AND 0x100"
    by (rule ad_equal_and [OF assms]; simp)+
qed

section \<open>Marking\<close>

lemma entry_at_mark:
  assumes "vm_ok s" "ram_slot s a" "take_bit 2 b = 0"
  shows "entry_at (mark_entry v a (mem s)) b = (if a = b then entry_at (mem s) a OR v else entry_at (mem s) b)"
  using assms by (simp add: mark_entry_def entry_at_set_entry)

lemma ad_equal_mark:
  assumes "vm_ok s" "ram_slot s a" "take_bit 2 b = 0" "v = 0x20 \<or> v = 0x60"
  shows "ad_equal (entry_at (mem s) b) (entry_at (mark_entry v a (mem s)) b)"
  using assms by (auto simp: entry_at_mark)

definition slots_of :: "walk \<Rightarrow> Bit32u list" where
  "slots_of w = (case w of Unmapped \<Rightarrow> [] | Mapped dirs leaf pa rights \<Rightarrow> leaf # dirs)"

lemma walk32_shape:
  assumes "walk32 pse m base laddr = Mapped dirs leaf pa rights"
  obtains "dirs = []" | d where "dirs = [d]"
  using assms by (auto simp: walk32_def Let_def split: if_splits)

lemma walk32_slots:
  assumes "vm_ok s" "tables_in_ram s laddr" "a \<in> set (slots_of (walk32 (get_PSE s) (mem s) (cr3_masked s) laddr))"
  shows "ram_slot s a"
  using assms tables_in_ram_slots [OF assms(2)]
  by (auto simp: slots_of_def walk32_def Let_def split: if_splits)

lemma marked_cases:
  assumes ok: "vm_ok s" and sl: "\<And>a. a \<in> set (slots_of w) \<Longrightarrow> ram_slot s a"
    and w: "w = Mapped dirs leaf pa rights" "dirs = [] \<or> dirs = [d]"
    and v: "v = (if wr then 0x60 else 0x20)"
  shows "marked wr w (mem s) = (if dirs = [] then mark_entry v leaf (mem s)
           else mark_entry v leaf (mem (with_mem s (mark_entry 0x20 d (mem s)))))"
    and "dirs \<noteq> [] \<Longrightarrow> ram_slot s d" and "ram_slot s leaf"
  using w sl by (auto simp: v slots_of_def)

lemma ad_equal_marked:
  assumes ok: "vm_ok s" and sl: "\<And>a. a \<in> set (slots_of w) \<Longrightarrow> ram_slot s a" and b: "take_bit 2 b = 0"
    and w: "w = Mapped dirs leaf pa rights" "dirs = [] \<or> dirs = [d]"
  shows "ad_equal (entry_at (mem s) b) (entry_at (marked wr w (mem s)) b)"
proof -
  have v: "(if wr then 0x60 else 0x20) = (if wr then 0x60 else (0x20 :: Bit32u))" by (rule refl)
  note m = marked_cases [OF ok sl w v]
  show ?thesis
  proof (cases "dirs = []")
    case True
    with m(1,3) show ?thesis using ok b by (simp add: ad_equal_mark)
  next
    case False
    let ?t = "with_mem s (mark_entry 0x20 d (mem s))"
    have "ad_equal (entry_at (mem s) b) (entry_at (mem ?t) b)"
      using ad_equal_mark [OF ok m(2) b] False by simp
    moreover have "ad_equal (entry_at (mem ?t) b) (entry_at (mark_entry (if wr then 0x60 else 0x20) leaf (mem ?t)) b)"
      by (rule ad_equal_mark) (use ok m(3) b in simp_all)
    moreover have "marked wr w (mem s) = mark_entry (if wr then 0x60 else 0x20) leaf (mem ?t)"
      using m(1) False by simp
    ultimately show ?thesis
      by (simp only:) (rule ad_equal_trans)
  qed
qed

text \<open>The walk over the marked tables.\<close>

lemma ad_equal_marked_walk:
  assumes "vm_ok s" "tables_in_ram s laddr" "take_bit 2 b = 0"
  defines "w \<equiv> walk32 (get_PSE s) (mem s) (cr3_masked s) laddr"
  shows "ad_equal (entry_at (mem s) b) (entry_at (marked wr w (mem s)) b)"
proof (cases w)
  case (Mapped dirs leaf pa rights)
  then obtain d where "dirs = [] \<or> dirs = [d]"
    unfolding w_def by (rule walk32_shape) auto
  with Mapped show ?thesis
    using ad_equal_marked [OF assms(1) _ assms(3) Mapped] walk32_slots [OF assms(1,2)] unfolding w_def by blast
qed simp

lemma walk32_aligned:
  assumes "tables_in_ram s laddr"
  shows "take_bit 2 (cr3_masked s + 4 * (laddr div 0x400000)) = 0"
    and "take_bit 2 (e div 4096 * 4096 + 4 * (laddr div 4096 mod 1024) :: Bit32u) = 0"
  using tables_in_ram_aligned [OF assms] dir_index_small tab_index_small by (simp_all add: slot_or(3))

lemma walk32_marked:
  assumes ok: "vm_ok s" and tab: "tables_in_ram s laddr"
  defines "w \<equiv> walk32 (get_PSE s) (mem s) (cr3_masked s) laddr"
  shows "walk32 (get_PSE s) (marked wr w (mem s)) (cr3_masked s) laddr = w"
proof -
  define dir where "dir = cr3_masked s + 4 * (laddr div 0x400000)"
  define pde where "pde = entry_at (mem s) dir"
  define tab where "tab = pde div 4096 * 4096 + 4 * (laddr div 4096 mod 1024)"
  define pte where "pte = entry_at (mem s) tab"
  let ?m = "marked wr w (mem s)"
  have "ad_equal pde (entry_at ?m dir)" "ad_equal pte (entry_at ?m tab)"
    unfolding pde_def pte_def w_def
    using ad_equal_marked_walk [OF ok assms(2)] walk32_aligned [OF assms(2)] by (simp_all add: dir_def tab_def)
  note d = ad_equal_uses [OF this(1), symmetric] and t = ad_equal_uses [OF this(2), symmetric]
  have and6: "(x AND y) AND 0x06 = (x AND 0x06) AND (y AND 0x06)" for x y :: Bit32u
    by (rule bit_word_eqI) (auto simp: bit_and_iff)
  show ?thesis
    unfolding walk32_def Let_def dir_def [symmetric] d tab_def [symmetric] and6 t
    unfolding w_def walk32_def Let_def dir_def [symmetric] pde_def [symmetric] tab_def [symmetric]
      pte_def [symmetric] and6 by (rule refl)
qed

lemma marked_marked:
  assumes ok: "vm_ok s" and tab: "tables_in_ram s laddr"
  defines "w \<equiv> walk32 (get_PSE s) (mem s) (cr3_masked s) laddr"
  shows "marked wr w (marked wr w (mem s)) = marked wr w (mem s)"
proof (cases w)
  case (Mapped dirs leaf pa rights)
  then obtain d where d: "dirs = [] \<or> dirs = [d]"
    unfolding w_def by (rule walk32_shape) auto
  have sl: "ram_slot s leaf" "dirs \<noteq> [] \<Longrightarrow> ram_slot s d"
    using walk32_slots [OF ok tab] d Mapped unfolding w_def slots_of_def by auto
  define v :: Bit32u where "v = (if wr then 0x60 else 0x20)"
  have v20: "v OR 0x20 = v" by (simp add: v_def)
  have same: "mark_entry u a m = m" if "entry_at m a OR u = entry_at m a" for u a m
    using that by (simp add: mark_entry_def set_entry_same)
  let ?t = "with_mem s (mark_entry 0x20 d (mem s))"
  show ?thesis
  proof (cases "dirs = []")
    case True
    have "mark_entry v leaf (mark_entry v leaf (mem s)) = mark_entry v leaf (mem s)"
      by (rule same) (use ok sl in \<open>simp add: entry_at_mark ram_slot_def or.assoc\<close>)
    then show ?thesis by (simp add: Mapped True v_def)
  next
    case False
    note sd = sl(2) [OF this]
    have a: "take_bit 2 d = 0" "take_bit 2 leaf = 0"
      using sl sd by (simp_all add: ram_slot_def)
    let ?m = "mark_entry 0x20 d (mem s)"
    have t: "entry_at (mark_entry v leaf ?m) b = (if leaf = b then entry_at ?m leaf OR v else entry_at ?m b)"
      if "take_bit 2 b = 0" for b
      using entry_at_mark [of ?t leaf b v] ok sl(1) that by simp
    have "mark_entry 0x20 d (mark_entry v leaf ?m) = mark_entry v leaf ?m"
      by (rule same) (use ok sd a v20 in \<open>auto simp: t entry_at_mark or.assoc\<close>)
    moreover have "mark_entry v leaf (mark_entry v leaf ?m) = mark_entry v leaf ?m"
      by (rule same) (use a in \<open>simp add: t or.assoc\<close>)
    ultimately show ?thesis
      using d False by (auto simp: Mapped v_def)
  qed
qed simp

end
