(* ===== verification/BxPagingTheorems.thy ===== *)
theory BxPagingTheorems
  imports BxWalk BxMachine
begin

text \<open>
  The properties of linear address translation and of the TLB, and a machine with paging enabled
  on which they are instantiated.
\<close>

section \<open>A machine with paging enabled\<close>

text \<open>
  Page directory at 0x1000, one page table at 0x2000, linear page 0 mapped to the frame 0x3000
  with user write access.
\<close>

definition paged :: cpu where
  "paged = boot\<lparr>cr0 := (cr0 boot)\<lparr>cr0_pg := True\<rparr>, cr3 := 0x1000, cr3_masked := 0x1000,
     mem := set_entry 0x2000 0x3007 (set_entry 0x1000 0x2007 (mem boot))\<rparr>"

lemma boot_ram_slot:
  assumes "take_bit 2 a = 0" "unat (LPFOf a) + 4096 \<le> 0xa0000"
  shows "ram_slot boot a"
proof -
  have "LPFOf a \<noteq> 0xfee00000" "LPFOf a \<noteq> 0xfec00000"
    using assms(2) by auto
  then show ?thesis
    using assms by (auto simp: ram_slot_def ram_page_def)
qed

lemma LPFOf_tables [simp]: "LPFOf 0x1000 = 0x1000" "LPFOf 0x2000 = 0x2000"
  by (simp_all add: LPFOf_def)

lemma boot_vm_ok: "vm_ok boot"
  using boot_wf(1) by (simp add: mem_ok_def)

lemma paged_env:
  "vm_ok paged" "ram_page paged p = ram_page boot p"
  using boot_vm_ok
  by (simp_all add: vm_ok_def ram_page_def paged_def handlers_paged_def mem_wf_def a20_mask_ok_def A20ADDR_def
      handled_def)

lemma paged_entries:
  "entry_at (mem paged) 0x1000 = 0x2007" "entry_at (mem paged) 0x2000 = 0x3007"
proof -
  let ?s = "with_mem boot (set_entry 0x1000 0x2007 (mem boot))"
  have "ram_slot boot 0x1000" "ram_slot boot 0x2000"
    by (rule boot_ram_slot; simp)+
  moreover from this have "vm_ok ?s" "ram_slot ?s 0x2000"
    using boot_vm_ok by (simp_all add: vm_ok_def ram_page_def ram_slot_def handlers_paged_def mem_wf_def
        a20_mask_ok_def A20ADDR_def handled_def)
  ultimately show "entry_at (mem paged) 0x1000 = 0x2007" "entry_at (mem paged) 0x2000 = 0x3007"
    using boot_vm_ok entry_at_set_entry [of ?s "0x2000" _ "0x3007"]
    by (simp_all add: paged_def entry_at_set_entry)
qed

lemma paged_fields [simp]:
  "cr3_masked paged = 0x1000" "\<not> get_PAE paged" "\<not> get_PSE paged" "\<not> get_PGE paged"
  "lpf (TLB paged i) = BX_INVALID_TLB_ENTRY" "cr0_wp (cr0 paged) = cr0_wp (cr0 boot)"
  by (simp_all add: paged_def get_PAE_def get_PSE_def get_PGE_def)
    (simp_all add: boot_def power_on_def)

lemma paged_tables: "tables_in_ram paged 0x123"
proof -
  have "ram_page paged 0x1000" "ram_page paged 0x2000"
    unfolding paged_env(2) using boot_ram_slot [of "0x1000"] boot_ram_slot [of "0x2000"]
    by (simp_all add: ram_slot_def)
  then show ?thesis
    by (simp add: tables_in_ram_def Let_def paged_entries)
qed

lemma paged_walk: "walk32 False (mem paged) 0x1000 0x123 = Mapped [0x1000] 0x2000 0x3123 0x06"
  by (simp add: walk32_def Let_def paged_entries)

lemma paged_no_hit: "\<not> tlb_hit paged laddr user wr"
  by (simp add: tlb_hit_def LPFOf_not_invalid [symmetric])

section \<open>Translation\<close>

text \<open>C1
  A TLB miss with 32-bit paging refines the page walk of the architecture: \<open>translate_linear\<close>
  returns the physical address that the directory entry and table entry in memory determine and
  marks the entries it used accessed, and the last one dirty for a write, whenever the entries are
  present and the rights of both levels admit the access; otherwise it raises a page fault with
  the architectural error code, CR2 is the faulting address and the TLB entry of the page is
  invalid.\<close>

theorem translate_linear_refines_walk:
  assumes "\<not> tlb_hit s laddr user (rw \<noteq> BX_READ)" "\<not> get_PAE s" "vm_ok s" "tables_in_ram s laddr"
  shows "translate_linear laddr user rw s =
     (let w = walk32 (get_PSE s) (mem s) (cr3_masked s) laddr; write = (rw \<noteq> BX_READ) in
      case w of
        Unmapped \<Rightarrow> Except BX_PF_EXCEPTION (fault_code False write user) (fault_state laddr s)
      | Mapped dirs leaf pa rights \<Rightarrow>
          if allowed (cr0_wp (cr0 s)) user write rights then Done pa (filled laddr rw w s)
          else Except BX_PF_EXCEPTION (fault_code True write user) (fault_state laddr s))"
  using assms by (rule translate_miss_32)

lemma translate_linear_witness:
  "translate_linear 0x123 True BX_WRITE paged = Done 0x3123 (filled 0x123 BX_WRITE (Mapped [0x1000] 0x2000 0x3123 0x06) paged)"
proof -
  have "allowed wp True True 0x06" for wp
    by (simp only: allowed_def bit_rights_mask) simp
  then show ?thesis
    using translate_linear_refines_walk [of paged "0x123" True BX_WRITE, OF paged_no_hit _ _ paged_tables]
      paged_env(1) boot_vm_ok by (simp add: paged_walk)
qed

lemma filled_parts:
  assumes "w = Mapped dirs leaf pa rights" "vm_ok s"
  shows "mem (filled laddr rw w s) = marked (rw \<noteq> BX_READ) w (mem s)"
    and "cr0 (filled laddr rw w s) = cr0 s" "cr4 (filled laddr rw w s) = cr4 s"
    and "cr3_masked (filled laddr rw w s) = cr3_masked s"
  using assms by (simp_all add: filled_def fill_TLB_def Let_def set_TLB_def)

lemma marked_fields [simp]:
  "mem_len (marked wr w m) = mem_len m" "memory_handlers (marked wr w m) = memory_handlers m"
proof -
  have "mem_len (fold (mark_entry v) ds m) = mem_len m \<and>
      memory_handlers (fold (mark_entry v) ds m) = memory_handlers m" for v ds m
    by (induction ds arbitrary: m) (simp_all add: mark_entry_def)
  then show "mem_len (marked wr w m) = mem_len m" "memory_handlers (marked wr w m) = memory_handlers m"
    by (cases w; simp add: mark_entry_def)+
qed

lemma env_same:
  assumes "mem_len (mem t) = mem_len (mem s)" "memory_handlers (mem t) = memory_handlers (mem s)"
    "local_apic_base t = local_apic_base s" "ioapic_base t = ioapic_base s" "a20_mask t = a20_mask s"
  shows "vm_ok t = vm_ok s" "ram_page t p = ram_page s p"
  using assms by (simp_all add: vm_ok_def ram_page_def handlers_paged_def mem_wf_def a20_mask_ok_def
      A20ADDR_def handled_def)

lemma granted_allowed:
  assumes "allowed wp user wr c"
  shows "bit (granted_bits c wr) (4 + right_bit user wr)"
  using assms by (auto simp: bit_granted allowed_def)

lemma tlb_hit_fill:
  assumes "allowed wp user (rw \<noteq> BX_READ) c"
  shows "tlb_hit (fill_TLB laddr rw p c s) laddr user (rw \<noteq> BX_READ)"
    and "ppf (TLB (fill_TLB laddr rw p c s) (BX_TLB_INDEX_OF laddr)) = p"
  using granted_allowed [OF assms]
  by (auto simp: tlb_hit_def fill_TLB_def Let_def set_TLB_def grants_def bit_or_iff)

lemma no_hit_after_flush: "\<not> tlb_hit (TLB_flush True s) laddr user wr"
  by (simp add: tlb_hit_def TLB_flush_def Let_def) (metis LPFOf_not_invalid)

lemma TLB_flush_fields [simp]:
  "mem (TLB_flush g s) = mem s" "cr0 (TLB_flush g s) = cr0 s" "cr3_masked (TLB_flush g s) = cr3_masked s"
  "get_PAE (TLB_flush g s) = get_PAE s" "get_PSE (TLB_flush g s) = get_PSE s"
  "local_apic_base (TLB_flush g s) = local_apic_base s" "ioapic_base (TLB_flush g s) = ioapic_base s"
  "a20_mask (TLB_flush g s) = a20_mask s"
  by (simp_all add: TLB_flush_def get_PAE_def get_PSE_def)

lemma translate_miss_Done:
  assumes "\<not> tlb_hit s laddr user (rw \<noteq> BX_READ)" "\<not> get_PAE s" "vm_ok s" "tables_in_ram s laddr"
    and "translate_linear laddr user rw s = Done pa t"
  obtains dirs leaf rights where
    "walk32 (get_PSE s) (mem s) (cr3_masked s) laddr = Mapped dirs leaf pa rights"
    "allowed (cr0_wp (cr0 s)) user (rw \<noteq> BX_READ) rights"
    "t = fill_TLB laddr rw (LPFOf pa) (mask_rights (get_PGE s) rights)
       (with_mem s (marked (rw \<noteq> BX_READ) (Mapped dirs leaf pa rights) (mem s)))"
  using assms(5) unfolding translate_miss_32 [OF assms(1-4)] Let_def
  by (auto simp: filled_def split: walk.splits if_splits)

text \<open>C2
  Translation is repeatable. After a successful translation the same access hits the TLB: it
  returns the same physical address and changes nothing. If the whole TLB is flushed in between,
  the page tables are walked again, with the accessed and dirty bits the first walk set: the walk
  returns the same address and leaves memory as it is.\<close>

theorem translation_repeatable:
  assumes miss: "\<not> tlb_hit s laddr user (rw \<noteq> BX_READ)" and env: "\<not> get_PAE s" "vm_ok s" "tables_in_ram s laddr"
    and res: "translate_linear laddr user rw s = Done pa t"
  shows "translate_linear laddr user rw t = Done pa t \<and>
    (\<exists>t'. translate_linear laddr user rw (TLB_flush True t) = Done pa t' \<and> mem t' = mem t)"
proof (rule conjI)
  obtain dirs leaf rights where w: "walk32 (get_PSE s) (mem s) (cr3_masked s) laddr = Mapped dirs leaf pa rights"
    and ok: "allowed (cr0_wp (cr0 s)) user (rw \<noteq> BX_READ) rights"
    and t: "t = fill_TLB laddr rw (LPFOf pa) (mask_rights (get_PGE s) rights)
       (with_mem s (marked (rw \<noteq> BX_READ) (Mapped dirs leaf pa rights) (mem s)))"
    using translate_miss_Done [OF miss env res] .
  have "allowed (cr0_wp (cr0 s)) user (rw \<noteq> BX_READ) (mask_rights (get_PGE s) rights)"
    using ok by simp
  note hit = tlb_hit_fill [OF this]
  show "translate_linear laddr user rw t = Done pa t"
    unfolding t translate_hit [OF hit(1)] hit(2) using walk32_offset [OF w] by simp
  let ?u = "TLB_flush True t"
  have tf: "mem t = marked (rw \<noteq> BX_READ) (Mapped dirs leaf pa rights) (mem s)" "cr0 t = cr0 s"
    "cr3_masked t = cr3_masked s" "get_PSE t = get_PSE s" "get_PAE t = get_PAE s"
    "local_apic_base t = local_apic_base s" "ioapic_base t = ioapic_base s" "a20_mask t = a20_mask s"
    by (simp_all add: t fill_TLB_def Let_def set_TLB_def get_PSE_def get_PAE_def del: marked.simps)
  have same: "vm_ok ?u = vm_ok s" "ram_page ?u p = ram_page s p" for p
    by (rule env_same; simp add: tf del: marked.simps)+
  have ad: "ad_equal (entry_at (mem s) b) (entry_at (mem ?u) b)" if "take_bit 2 b = 0" for b
    using ad_equal_marked_walk [OF env(2,3) that] by (simp add: tf w)
  have u: "walk32 (get_PSE ?u) (mem ?u) (cr3_masked ?u) laddr = Mapped dirs leaf pa rights"
    using walk32_marked [OF env(2,3), of "rw \<noteq> BX_READ"] by (simp add: tf w)
  have "tables_in_ram ?u laddr"
    using env(3) ad_equal_uses [OF ad [OF walk32_aligned(1) [OF env(3)]]]
    by (simp add: tables_in_ram_def Let_def same tf)
  then have "translate_linear laddr user rw ?u = Done pa (filled laddr rw (Mapped dirs leaf pa rights) ?u)"
    using translate_miss_32 [of ?u laddr user rw, OF no_hit_after_flush] env(1,2) same(1) ok
    unfolding u Let_def by (simp add: tf del: marked.simps)
  moreover have "mem (filled laddr rw (Mapped dirs leaf pa rights) ?u) = mem t"
    using filled_parts(1) [OF refl, of ?u laddr rw dirs leaf pa rights] env(2) same(1)
      marked_marked [OF env(2,3), of "rw \<noteq> BX_READ"] by (simp add: tf w del: marked.simps)
  ultimately show "\<exists>t'. translate_linear laddr user rw ?u = Done pa t' \<and> mem t' = mem t"
    by blast
qed

lemma translation_repeatable_witness:
  "\<exists>t. translate_linear 0x123 True BX_WRITE paged = Done 0x3123 t \<and> translate_linear 0x123 True BX_WRITE t = Done 0x3123 t"
proof -
  have "allowed wp True True 0x06" for wp
    by (simp only: allowed_def bit_rights_mask) simp
  then have step: "translate_linear 0x123 True BX_WRITE paged = Done 0x3123 (filled 0x123 BX_WRITE (Mapped [0x1000] 0x2000 0x3123 0x06) paged)"
    using translate_miss_32 [of paged "0x123" True BX_WRITE, OF paged_no_hit _ _ paged_tables]
      paged_env(1) boot_vm_ok by (simp add: paged_walk)
  have "vm_ok paged" "\<not> get_PAE paged"
    using paged_env(1) boot_vm_ok by simp_all
  note translation_repeatable [OF paged_no_hit this(2,1) paged_tables step, THEN conjunct1]
  with step show ?thesis by blast
qed

section \<open>The TLB\<close>

text \<open>C19
  The TLB invariant: a valid entry sits at the index of its page, and each direct pointer right
  comes with the right itself and with the host pointer that the memory system hands out for that
  access now. Reads and writes of any length through \<open>access_linear\<close>, with paging on or
  off, in one page or across two, whether they succeed or fault, keep it.\<close>

theorem access_keeps_tlb_wf:
  assumes "tlb_wf s"
  shows "tlb_wf (state_of (access_linear_read laddr n user rw s)) \<and>
    tlb_wf (state_of (access_linear_write laddr data user s))"
  using assms tlb.access_linear by (blast intro: stableD)

lemma access_keeps_tlb_wf_witness:
  "tlb_wf (state_of (access_linear_read 0x7c00 4 True BX_READ boot)) \<and>
    tlb_wf (state_of (access_linear_write 0x7c00 [1, 2] True boot))"
  by (rule access_keeps_tlb_wf) (rule boot_wf)

text \<open>
  Accesses change only memory contents, TLB entries, CR2 and the saved translation: every other
  part of the processor and the memory layout is the same after an access, successful or not.\<close>

theorem access_frame:
  "core (state_of (access_linear_read laddr n user rw s)) = core s \<and>
   core (state_of (access_linear_write laddr data user s)) = core s"
proof -
  have "stable (\<lambda>t. core t = core s) (access_linear_read laddr n user rw)"
    "stable (\<lambda>t. core t = core s) (access_linear_write laddr data user)"
    by (rule core.access_linear)+
  then show ?thesis by (auto dest: stableD)
qed

text \<open>
  Flushing. After \<open>CR3_change\<close> an access hits the TLB only through an entry that was a hit
  before and is global; after a CR0 or CR4 write that changes paging, or a change of the A20 line,
  no access hits; after \<open>INVLPG\<close> the page of its operand does not hit and every page of
  another index hits as before.\<close>

theorem flush_forgets:
  "(tlb_hit (CR3_change val s) laddr user wr \<longleftrightarrow> tlb_hit s laddr user wr \<and>
      accessBits (TLB s (BX_TLB_INDEX_OF laddr)) AND TLB_GlobalPage \<noteq> 0) \<and>
   (old AND 0x80010001 \<noteq> new AND 0x80010001 \<longrightarrow> \<not> tlb_hit (pagingCR0Changed old new s) laddr user wr) \<and>
   (old AND 0x000000b0 \<noteq> new AND 0x000000b0 \<longrightarrow> \<not> tlb_hit (pagingCR4Changed old new s) laddr user wr) \<and>
   \<not> tlb_hit (pagingA20Changed s) laddr user wr \<and>
   (INVLPG i s = Done () t \<longrightarrow>
      \<not> tlb_hit t (get_segment_base (i_seg i) s + rm_addr s) user wr \<and>
      (BX_TLB_INDEX_OF laddr \<noteq> BX_TLB_INDEX_OF (get_segment_base (i_seg i) s + rm_addr s) \<longrightarrow>
         tlb_hit t laddr user wr = tlb_hit s laddr user wr))"
proof -
  have hit_cong: "tlb_hit u laddr user wr = tlb_hit v laddr user wr" if "TLB u = TLB v" for u v
    using that by (simp add: tlb_hit_def)
  have "tlb_hit (CR3_change val s) laddr user wr = tlb_hit (TLB_flush False s) laddr user wr"
    by (rule hit_cong) (simp add: CR3_change_def Let_def)
  moreover have "tlb_hit (TLB_flush False s) laddr user wr \<longleftrightarrow> tlb_hit s laddr user wr \<and>
      accessBits (TLB s (BX_TLB_INDEX_OF laddr)) AND TLB_GlobalPage \<noteq> 0"
    by (auto simp: tlb_hit_def TLB_flush_def Let_def LPFOf_not_invalid dest: sym)
  moreover have "tlb_hit (pagingCR4Changed old new s) laddr user wr = tlb_hit (TLB_flush True s) laddr user wr"
    if "old AND 0x000000b0 \<noteq> new AND 0x000000b0"
    using that by (intro hit_cong) (simp add: pagingCR4Changed_def Let_def)
  moreover have "\<not> tlb_hit (invalidate_TLB (BX_TLB_INDEX_OF a) u) a user wr" for a u
    by (simp add: tlb_hit_def invalidate_TLB_def set_TLB_def Let_def) (metis LPFOf_not_invalid)
  moreover have "tlb_hit (invalidate_TLB k (invalidate_prefetch_q s)) laddr user wr = tlb_hit s laddr user wr"
    if "BX_TLB_INDEX_OF laddr \<noteq> k" for k
    using that by (simp add: tlb_hit_def invalidate_TLB_def set_TLB_def Let_def invalidate_prefetch_q_def)
  moreover have "get_segment_base sg (invalidate_prefetch_q s) + rm_addr (invalidate_prefetch_q s) =
      get_segment_base sg s + rm_addr s" for sg
    by (simp add: get_segment_base_def invalidate_prefetch_q_def)
  ultimately show ?thesis
    using no_hit_after_flush
    by (auto simp: pagingCR0Changed_def pagingA20Changed_def INVLPG_def split: if_splits)
qed

lemma flush_forgets_witness:
  "\<not> tlb_hit (pagingCR0Changed 0x10 0x80000010 boot) 0x1000 True False \<and>
   \<not> tlb_hit (pagingCR4Changed 0 0x80 boot) 0x1000 True False \<and>
   (\<exists>t. INVLPG ((reg_instr 0 0)\<lparr>modC0 := False\<rparr>) boot = Done () t \<and>
      \<not> tlb_hit t (get_segment_base DS boot + rm_addr boot) True False)"
proof -
  let ?i = "(reg_instr 0 0)\<lparr>modC0 := False\<rparr>"
  have "\<not> v8086_mode (invalidate_prefetch_q boot)" "\<not> cr0_pe (cr0 (invalidate_prefetch_q boot))"
    by (simp_all add: invalidate_prefetch_q_def v8086_mode_def boot_def power_on_def)
  then obtain t where t: "INVLPG ?i boot = Done () t"
    by (simp add: INVLPG_def)
  moreover have "i_seg ?i = DS" by (simp add: reg_instr_def)
  ultimately show ?thesis
    using flush_forgets [of 0 boot "0x1000" True False "0x10" "0x80000010" ?i t]
      flush_forgets [of 0 boot "0x1000" True False 0 "0x80" ?i t] by auto
qed

end
