(* ===== verification/BxAccessTheorems.thy ===== *)
theory BxAccessTheorems
  imports BxMachine
begin

text \<open>
  The properties of segmented accesses: the limit checks in plain numbers, the quick test and the
  host pointer as shortcuts that change nothing, and the reset state.
\<close>

section \<open>Segment checks\<close>

definition bytes_in_segment :: "bx_segment_reg \<Rightarrow> bool \<Rightarrow> nat \<Rightarrow> nat \<Rightarrow> bool" where
  "bytes_in_segment c expand_down first n \<longleftrightarrow>
     (if expand_down
      then unat (seg_limit_scaled c) < first \<and> first + n - 1 \<le> (if seg_d_b c then 0xffffffff else 0xffff)
      else first + n - 1 \<le> unat (seg_limit_scaled c))"

definition write_permitted :: "cpu \<Rightarrow> seg_reg \<Rightarrow> nat \<Rightarrow> nat \<Rightarrow> bool" where
  "write_permitted s sg first n \<longleftrightarrow> (let c = sregs s sg in
     if protected_mode s
     then seg_valid c \<noteq> 0 \<and> seg_p c \<and> seg_type c \<in> {2, 3, 6, 7} \<and> bytes_in_segment c (seg_type c \<in> {6, 7}) first n
     else bytes_in_segment c False first n)"

definition read_permitted :: "cpu \<Rightarrow> seg_reg \<Rightarrow> nat \<Rightarrow> nat \<Rightarrow> bool" where
  "read_permitted s sg first n \<longleftrightarrow> (let c = sregs s sg in
     if protected_mode s
     then seg_valid c \<noteq> 0 \<and> seg_p c \<and> seg_type c \<notin> {8, 9, 12, 13} \<and>
        bytes_in_segment c (seg_type c \<in> {4, 5, 6, 7}) first n
     else bytes_in_segment c False first n)"

definition check_fault :: "cpu \<Rightarrow> seg_reg \<Rightarrow> nat" where
  "check_fault s sg = (if protected_mode s \<and> seg_valid (sregs s sg) = 0 then BX_GP_EXCEPTION
     else if sg = SS then BX_SS_EXCEPTION else BX_GP_EXCEPTION)"

lemma bytes_in_segment_iff:
  assumes "0 < n" "n \<le> 4096"
  shows "bytes_in_segment c False (unat offset) n \<longleftrightarrow> \<not> beyond_limit offset (seg_limit_scaled c) (word_of_nat n)"
    and "bytes_in_segment c True (unat offset) n \<longleftrightarrow>
      \<not> beyond_limit_ED (seg_d_b c) offset (seg_limit_scaled c) (word_of_nat n)"
  using beyond_limit_iff [OF assms] beyond_limit_ED_iff [OF assms]
  by (auto simp: bytes_in_segment_def)

lemma seg_type_cases:
  assumes "seg_type c < (16 :: nat)"
  obtains "seg_type c \<in> {2, 3}" | "seg_type c \<in> {6, 7}" | "seg_type c \<in> {4, 5}" | "seg_type c \<in> {0, 1, 10, 11, 14, 15}"
    | "seg_type c \<in> {8, 9, 12, 13}"
proof -
  have "seg_type c \<in> set [0..<16]"
    using assms by simp
  then have "seg_type c \<in> {2, 3} \<union> {6, 7} \<union> {4, 5} \<union> {0, 1, 10, 11, 14, 15} \<union> {8, 9, 12, 13}"
    by (simp add: upt_rec) (elim disjE; simp)
  then show ?thesis
    using that by blast
qed

text \<open>C4
  The segment checks admit an access of \<open>n\<close> bytes exactly when every byte lies inside the
  segment, in unbounded arithmetic (no wrap-around of offset plus length is missed), the segment
  is usable for it, and otherwise raise \<open>#SS\<close> for the stack segment and \<open>#GP\<close>
  for the others, with error code 0 and the state unchanged. An unusable (null) selector raises
  \<open>#GP\<close> even in SS.\<close>

theorem segment_checks_exact:
  assumes "0 < n" "n \<le> 4096" "seg_type (sregs s sg) < 16"
  shows "(if write_permitted s sg (unat offset) n
          then write_virtual_checks sg offset (word_of_nat n) s \<in> {Done () s, Done () (set_seg_valid sg SegAccessWOK s)}
          else write_virtual_checks sg offset (word_of_nat n) s = Except (check_fault s sg) 0 s) \<and>
         (if read_permitted s sg (unat offset) n
          then read_virtual_checks sg offset (word_of_nat n) s \<in> {Done () s, Done () (set_seg_valid sg SegAccessROK s)}
          else read_virtual_checks sg offset (word_of_nat n) s = Except (check_fault s sg) 0 s)"
proof -
  note lim = bytes_in_segment_iff [OF assms(1,2)]
  show ?thesis
  proof (cases "protected_mode s")
    case False
    then show ?thesis
      by (simp add: write_permitted_def read_permitted_def check_fault_def lim Let_def int_number_def
          write_virtual_checks_def read_virtual_checks_def)
  next
    case True
    from assms(3) show ?thesis
      by (rule seg_type_cases)
        (use True in \<open>auto simp: write_permitted_def read_permitted_def check_fault_def lim Let_def int_number_def
          write_virtual_checks_def read_virtual_checks_def\<close>)
  qed
qed

lemma segment_checks_witness:
  "write_virtual_checks SS 0xffff 1 boot \<in> {Done () boot, Done () (set_seg_valid SS SegAccessWOK boot)} \<and>
   write_virtual_checks SS 0xffff 2 boot = Except BX_SS_EXCEPTION 0 boot"
proof -
  have p: "\<not> protected_mode boot" "seg_limit_scaled (sregs boot SS) = 0xffff" "seg_type (sregs boot SS) < 16"
    by (simp_all add: boot_def power_on_def sregs_reset reset_data_segment_def protected_mode_def)
  then have "write_permitted boot SS (unat (0xffff :: Bit32u)) 1" "\<not> write_permitted boot SS (unat (0xffff :: Bit32u)) 2"
    by (simp_all add: write_permitted_def bytes_in_segment_def Let_def)
  then show ?thesis
    using segment_checks_exact [of 1 boot SS "0xffff"] segment_checks_exact [of 2 boot SS "0xffff"] p
    by (simp add: check_fault_def)
qed

text \<open>C5
  The quick test is only a shortcut. While the cached access bits are sound (an invariant the
  checks themselves keep), a read, write or read-modify-write of a byte, word, dword or quadword
  behaves exactly as if the full checks ran every time.\<close>

theorem quick_test_is_shortcut:
  assumes "seg_cache_ok s"
  shows "list_all (\<lambda>(t, n).
      read_virtual t n sg offset s =
        and_then (read_virtual_checks sg offset (word_of_nat n)) (\<lambda>_. accessOK_read n sg offset) s \<and>
      read_RMW_virtual t n sg offset s =
        and_then (write_virtual_checks sg offset (word_of_nat n)) (\<lambda>_. accessOK_RMW n sg offset) s \<and>
      (\<forall>data. length data = n \<longrightarrow> write_virtual t sg offset data s =
        and_then (write_virtual_checks sg offset (word_of_nat n)) (\<lambda>_. accessOK_write sg offset data) s) \<and>
      seg_cache_ok (state_of (read_virtual_checks sg offset (word_of_nat n) s)) \<and>
      seg_cache_ok (state_of (write_virtual_checks sg offset (word_of_nat n) s)))
    [(in_limit_byte, 1), (in_limit_word, 2), (in_limit_dword, 4), (in_limit_qword, 8)]"
  using read_virtual_checked [OF assms] read_RMW_virtual_checked [OF assms] write_virtual_checked [OF assms]
    quick_tests stableD [OF stable_checks(1) assms] stableD [OF stable_checks(2) assms]
  by (auto simp: list_all_def)

lemma quick_test_witness:
  "read_virtual in_limit_dword 4 DS 0x10 boot =
     and_then (read_virtual_checks DS 0x10 (word_of_nat 4)) (\<lambda>_. accessOK_read 4 DS 0x10) boot"
  using quick_test_is_shortcut [OF boot_wf(5), of DS "0x10"] by simp

section \<open>Host pointers\<close>

text \<open>C6
  The direct path is equivalent to the slow path, for a page whose physical address the A20 gate
  leaves as it is. When the TLB yields a host pointer for a write of 1 to 8 bytes, storing through
  the pointer gives the memory that \<open>access_linear\<close> gives by translating and going through
  the memory object. When it yields one for a read of 1 to 8 bytes whose physical range ends below the
  last byte of the address space, loading through the pointer gives the bytes that
  \<open>access_linear\<close> gives. Apart from the saved translation the states agree. The bound on reads
  is needed: the TLB also yields a pointer to the page 0xfffff000, and there a read up to the last
  byte fails on the slow path, because the range test of \<open>readPhysicalPage\<close> wraps around.\<close>

theorem host_pointer_is_shortcut:
  assumes ok: "mem_ok s" "tlb_wf s" "\<not> cr0_pg (cr0 s) \<Longrightarrow> tlb_identity s"
    and a20: "A20ADDR s (ppf (TLB s (BX_TLB_INDEX_OF laddr))) = ppf (TLB s (BX_TLB_INDEX_OF laddr))"
  shows "(\<forall>n h. v2h_read n laddr user s = Some h \<and> 0 < n \<and> n \<le> 8 \<and>
            unat (ppf (TLB s (BX_TLB_INDEX_OF laddr))) + unat laddr mod 4096 + n < 0x100000000 \<longrightarrow>
          (\<exists>bs pa. load_hosts h n s = Done bs s \<and>
             access_linear_read laddr n user BX_READ s = Done bs (s\<lparr>paddress1 := pa, pages := Pages 1\<rparr>))) \<and>
         (\<forall>data h. v2h_write (length data) laddr user s = Some h \<and> data \<noteq> [] \<and> length data \<le> 8 \<longrightarrow>
          (\<exists>m pa. store_hosts h data s = Done () (with_mem s m) \<and>
             access_linear_write laddr data user s = Done () (with_mem (s\<lparr>paddress1 := pa, pages := Pages 1\<rparr>) m)))"
proof (intro conjI allI impI; elim conjE)
  fix n h assume "v2h_read n laddr user s = Some h" "0 < n" "n \<le> 8"
    "unat (ppf (TLB s (BX_TLB_INDEX_OF laddr))) + unat laddr mod 4096 + n < 0x100000000"
  then show "\<exists>bs pa. load_hosts h n s = Done bs s \<and>
      access_linear_read laddr n user BX_READ s = Done bs (s\<lparr>paddress1 := pa, pages := Pages 1\<rparr>)"
    using v2h_read_long_path [OF ok _ _ a20] by metis
next
  fix data :: "Bit8u list" and h assume "v2h_write (length data) laddr user s = Some h" "data \<noteq> []" "length data \<le> 8"
  then show "\<exists>m pa. store_hosts h data s = Done () (with_mem s m) \<and>
      access_linear_write laddr data user s = Done () (with_mem (s\<lparr>paddress1 := pa, pages := Pages 1\<rparr>) m)"
    using v2h_write_long_path [OF ok _ _ a20] by metis
qed

text \<open>The machine after its first access to the boot sector.\<close>

definition warm :: cpu where
  "warm = fill_TLB_off_read 0x7c00 boot"

lemma warm_entry:
  "TLB warm (BX_TLB_INDEX_OF 0x7c00) = \<lparr>lpf = 0x7000, ppf = 0x7000, accessBits = 0xff, hostPageAddr = Some 0x7000\<rparr>"
proof -
  have "LPFOf 0x7c00 = 0x7000" by (simp add: LPFOf_def)
  moreover have "getHostMemAddr 0x7000 BX_WRITE boot = Some 0x7000"
    by (simp add: getHostMemAddr_def BIOS_MASK_def)
  ultimately show ?thesis
    by (simp add: warm_def fill_TLB_off_read_def Let_def set_TLB_def)
qed

lemma warm_ok: "mem_ok warm" "tlb_wf warm" "tlb_identity warm" "A20ADDR warm a = a"
proof -
  have "mem warm = mem boot" "a20_mask warm = a20_mask boot"
    by (simp_all add: warm_def fill_TLB_off_read_def Let_def set_TLB_def split: option.splits)
  then show "mem_ok warm" "A20ADDR warm a = a"
    using boot_wf(1) by (simp_all add: mem_ok_def vm_ok_def a20_mask_ok_def A20ADDR_def)
  show "tlb_wf warm"
    unfolding warm_def by (rule tlb_wf_off_read) (rule boot_wf)
  show "tlb_identity warm"
    unfolding warm_def by (rule tlb_id.off_read) (simp add: boot_wf)
qed

lemma host_pointer_shortcut_witness:
  "\<exists>bs pa. load_hosts 0x7c00 4 warm = Done bs warm \<and>
     access_linear_read 0x7c00 4 True BX_READ warm = Done bs (warm\<lparr>paddress1 := pa, pages := Pages 1\<rparr>)"
proof -
  have "LPFOf 0x7c00 = 0x7000" by (simp add: LPFOf_def)
  then have "v2h_read 4 0x7c00 True warm = Some 0x7c00"
    by (simp add: v2h_read_def Let_def warm_entry)
  moreover note host_pointer_is_shortcut [OF warm_ok(1,2) warm_ok(3) warm_ok(4), of "0x7c00" True,
      THEN conjunct1, THEN spec, THEN spec, THEN mp, of 4 "0x7c00"]
  ultimately show ?thesis by (simp add: warm_entry)
qed

section \<open>Reset\<close>

text \<open>C22
  A hardware reset, from any state of the registers, leaves a processor that satisfies every
  invariant the other components rely on: each lazy flag has a value, the TLB is empty, the segment
  caches are sound; it runs in real mode at F000:FFF0 with base FFFF0000, and keeps memory. The
  start-up self test of the register aliasing then passes.\<close>

theorem reset_establishes_invariants:
  "lf_wf (reset s) \<and> tlb_wf (reset s) \<and> tlb_identity (reset s) \<and> seg_cache_ok (reset s) \<and>
   (\<forall>laddr user wr. \<not> tlb_hit (reset s) laddr user wr) \<and> real_mode (reset s) \<and>
   get_segment_base CS (reset s) + eip (reset s) = 0xfffffff0 \<and> eflags_val32 (reset s) = 0x2 \<and>
   mem (reset s) = mem s \<and> sanity_checks (reset s) = Done () ((reset s)\<lparr>gen_reg := sanity_registers\<rparr>)"
proof -
  have "\<not> tlb_hit (reset s) laddr user wr" for laddr user wr
    by (simp add: tlb_hit_def lpf_reset Let_def) (metis LPFOf_not_invalid)
  then show ?thesis
    by (simp add: lf_wf_reset tlb_wf_reset tlb_identity_reset seg_cache_ok_reset real_mode_def eflags_reset
        sanity_checks_pass get_segment_base_def sregs_reset reset_CS_def)
qed

end
