(* ===== verification/BxAluTheorems.thy ===== *)
theory BxAluTheorems
  imports BxMachine
begin

text \<open>
  The properties of the lazily evaluated flags and of integer addition and subtraction.
\<close>

section \<open>Lazy flags\<close>

text \<open>
  Reading EFLAGS forces the lazy flags: while every flag has a value, \<open>read_eflags\<close>
  returns a word in which each of CF, PF, AF, ZF, SF and OF is the value the lazy getters compute
  from the recorded operands, and which agrees with the stored EFLAGS in all other bits. It changes
  nothing else, and after it every flag is read from the stored word. That the computed values are
  those of exact integer arithmetic is shown in \<open>BxLazyTheorems\<close>.\<close>

lemma read_eflags_forces:
  assumes "lf_wf s"
  shows "\<exists>t. read_eflags s = Done (eflags_val32 t) t \<and> arith_only s t \<and> lf_wf t \<and>
     (\<forall>f. bit (eflags_val32 t) (eflagsBitShift f) = flag f s \<and> flag f t = flag f s \<and>
          lf_nibble f (lf_flags_status t) = 0)"
  using force_flags_wf [OF assms] arith_only_forced [OF assms] assms
  by (auto simp: read_eflags_def and_then_def bit_forced)

text \<open>
  The parity table is right: entry \<open>v\<close> of \<open>bx_parity_lookup\<close> holds exactly if the
  number of set bits of \<open>v\<close> is even.\<close>

lemma parity_table_correct: "bx_parity_lookup v \<longleftrightarrow> even (card {k. k < 8 \<and> bit v k})"
proof -
  have "{k. k < 8 \<and> bit v k} = set (filter (bit v) [0..<8])"
    by auto
  then have "card {k. k < 8 \<and> bit v k} = length (filter (bit v) [0..<8])"
    by (simp only: distinct_card distinct_filter distinct_upt)
  then show ?thesis
    by (simp add: bx_parity_lookup_correct even_parity_def)
qed

section \<open>Register operands\<close>

lemma rmw_Ed_reg: "modC0 i \<Longrightarrow>
   rmw_Ed i f s = Done (gen_reg s (rm i)) (BX_WRITE_32BIT_REG (rm i) (f (gen_reg s (rm i))) s)"
  by (simp add: rmw_Ed_def fetch_Ed_def put_Ed_def BX_READ_32BIT_REG_def)

lemma load_Ed_reg: "modC0 i \<Longrightarrow> load_Ed i s = Done (gen_reg s (rm i)) s"
  by (simp add: load_Ed_def BX_READ_32BIT_REG_def)

lemma gen_reg_SET_FLAGS [simp]:
  "gen_reg (SET_FLAGS_OSZAPC_32 a b r i s) = gen_reg s"
  "gen_reg (SET_FLAGS_OSZAP_RESULT_32 r i s) = gen_reg s"
  "gen_reg (SET_FLAGS_OSZAPC_RESULT_32 r i s) = gen_reg s"
  by (simp_all add: SET_FLAGS_OSZAPC_32_def SET_FLAGS_OSZAP_RESULT_32_def SET_FLAGS_OSZAPC_RESULT_32_def)

lemma gen_reg_WRITE_32 [simp]: "gen_reg (BX_WRITE_32BIT_REG r v s) = (gen_reg s)(r := v)"
  by (simp add: BX_WRITE_32BIT_REG_def)

lemmas flag_of_plain32 [flag_simps] =
  flag_of_ADD32 [where c = False, simplified BX_INSTR_ADD_ADC32_def, simplified]
  flag_of_SUB32 [where c = False, simplified BX_INSTR_SUB_SBB32_def, simplified]

lemma lf_wf_SET_FLAGS_32:
  "lf_wf (SET_FLAGS_OSZAPC_32 a b (a + b + of_bool c) (BX_INSTR_ADD_ADC32 c) s)"
  "lf_wf (SET_FLAGS_OSZAPC_32 a b (a - (b + of_bool c)) (BX_INSTR_SUB_SBB32 c) s)"
  "lf_wf (SET_FLAGS_OSZAPC_32 a b (a + b) BX_INSTR_ADD32 s)"
  "lf_wf (SET_FLAGS_OSZAPC_32 a b (a - b) BX_INSTR_SUB32 s)"
  by (rule lf_wfI, rule flag_simps)+

lemma flag_SET_FLAGS_32:
  "flag f (SET_FLAGS_OSZAPC_32 a b (a + b + of_bool c) (BX_INSTR_ADD_ADC32 c) s) = add_flags a b c f"
  "flag f (SET_FLAGS_OSZAPC_32 a b (a - (b + of_bool c)) (BX_INSTR_SUB_SBB32 c) s) = sub_flags a b c f"
  "flag f (SET_FLAGS_OSZAPC_32 a b (a + b) BX_INSTR_ADD32 s) = add_flags a b False f"
  "flag f (SET_FLAGS_OSZAPC_32 a b (a - b) BX_INSTR_SUB32 s) = sub_flags a b False f"
  by (simp_all only: flag_def flag_simps option.inject) simp_all

lemma gen_reg_after_get [simp]: "gen_reg (after_get f s) = gen_reg s"
  by (simp add: after_get_def stored_def)

lemma ADD_EdGd_reg: "modC0 i \<Longrightarrow> ADD_EdGd i s =
   Done () (SET_FLAGS_OSZAPC_32 (gen_reg s (rm i)) (gen_reg s (nnn i)) (gen_reg s (rm i) + gen_reg s (nnn i)) BX_INSTR_ADD32
     (BX_WRITE_32BIT_REG (rm i) (gen_reg s (rm i) + gen_reg s (nnn i)) s))"
  by (simp add: ADD_EdGd_def rmw_Ed_reg BX_READ_32BIT_REG_def)

lemma SUB_EdGd_reg: "modC0 i \<Longrightarrow> SUB_EdGd i s =
   Done () (SET_FLAGS_OSZAPC_32 (gen_reg s (rm i)) (gen_reg s (nnn i)) (gen_reg s (rm i) - gen_reg s (nnn i)) BX_INSTR_SUB32
     (BX_WRITE_32BIT_REG (rm i) (gen_reg s (rm i) - gen_reg s (nnn i)) s))"
  by (simp add: SUB_EdGd_def rmw_Ed_reg BX_READ_32BIT_REG_def)

lemma ADC_EdGd_reg: "modC0 i \<Longrightarrow> lf_wf s \<Longrightarrow> \<exists>u. ADC_EdGd i s =
   Done () (SET_FLAGS_OSZAPC_32 (gen_reg s (rm i)) (gen_reg s (nnn i))
       (gen_reg s (rm i) + gen_reg s (nnn i) + of_bool (flag CF s)) (BX_INSTR_ADD_ADC32 (flag CF s))
     (BX_WRITE_32BIT_REG (rm i) (gen_reg s (rm i) + gen_reg s (nnn i) + of_bool (flag CF s)) u)) \<and> gen_reg u = gen_reg s"
  by (rule exI [of _ "after_get CF s"]) (simp add: ADC_EdGd_def rmw_Ed_reg BX_READ_32BIT_REG_def)

lemma SBB_EdGd_reg: "modC0 i \<Longrightarrow> lf_wf s \<Longrightarrow> \<exists>u. SBB_EdGd i s =
   Done () (SET_FLAGS_OSZAPC_32 (gen_reg s (rm i)) (gen_reg s (nnn i))
       (gen_reg s (rm i) - (gen_reg s (nnn i) + of_bool (flag CF s))) (BX_INSTR_SUB_SBB32 (flag CF s))
     (BX_WRITE_32BIT_REG (rm i) (gen_reg s (rm i) - (gen_reg s (nnn i) + of_bool (flag CF s))) u)) \<and> gen_reg u = gen_reg s"
  by (rule exI [of _ "after_get CF s"]) (simp add: SBB_EdGd_def rmw_Ed_reg BX_READ_32BIT_REG_def)

section \<open>Double-precision arithmetic\<close>

definition reg_pair :: "3 word \<Rightarrow> 3 word \<Rightarrow> cpu \<Rightarrow> int" where
  "reg_pair hi lo s = uint (gen_reg s lo) + 2 ^ 32 * uint (gen_reg s hi)"

lemma pair_mod:
  fixes l h z m q :: int
  assumes "0 \<le> l" "l < m" "0 \<le> h" "h < m" "l + m * h = z + m * m * q"
  shows "l + m * h = z mod (m * m)"
proof -
  have "m * h \<le> m * (m - 1)"
    using assms(1-4) by (intro mult_left_mono) auto
  then have "0 \<le> l + m * h" "l + m * h < m * m"
    using assms(1-4) by (simp_all add: right_diff_distrib)
  then have "l + m * h = (l + m * h) mod (m * m)"
    by simp
  also have "\<dots> = z mod (m * m)"
    unfolding assms(5) by simp
  finally show ?thesis .
qed

lemma pair_compare:
  fixes a b c d m :: int
  assumes "0 \<le> a" "a < m" "0 \<le> b" "b < m"
  shows "a + m * c < b + m * d \<longleftrightarrow> c < d + of_bool (a < b)"
proof (cases "c < d")
  case True
  then have "m * (c + 1) \<le> m * d"
    using assms by (intro mult_left_mono) auto
  with True assms show ?thesis by (simp add: distrib_left)
next
  case False
  show ?thesis
  proof (cases "c = d")
    case c: False
    with False have "m * (d + 1) \<le> m * c"
      using assms by (intro mult_left_mono) auto
    with False c assms show ?thesis by (simp add: distrib_left)
  qed (use False in simp)
qed

lemma uint_less_32: "0 \<le> uint (w :: Bit32u)" "uint (w :: Bit32u) < 2 ^ 32"
  using unsigned_less [of w, where ?'a = int] by simp_all

lemma of_bool_range: "0 \<le> (of_bool c :: int)" "(of_bool c :: int) \<le> 1"
  by simp_all

lemma int_mod_once:
  fixes r m :: int
  shows "0 \<le> r \<Longrightarrow> r < 2 * m \<Longrightarrow> r mod m = r - m * of_bool (m \<le> r)"
    and "- m \<le> r \<Longrightarrow> r < m \<Longrightarrow> r mod m = r + m * of_bool (r < 0)"
proof -
  assume "0 \<le> r" "r < 2 * m"
  then have "(r - m) mod m = r - m" if "m \<le> r"
    using that by (intro mod_pos_pos_trivial) auto
  with \<open>0 \<le> r\<close> show "r mod m = r - m * of_bool (m \<le> r)"
    by (cases "m \<le> r") simp_all
next
  assume "- m \<le> r" "r < m"
  then have "(r + m) mod m = r + m" if "r < 0"
    using that by (intro mod_pos_pos_trivial) auto
  with \<open>r < m\<close> show "r mod m = r + m * of_bool (r < 0)"
    by (cases "r < 0") simp_all
qed

lemma uint_add_carry:
  fixes x y :: Bit32u
  shows "uint (x + y + of_bool c) = uint x + uint y + of_bool c - 2 ^ 32 * of_bool (2 ^ 32 \<le> uint x + uint y + of_bool c)"
proof -
  define r where "r = uint x + uint y + of_bool c"
  have "uint (x + y + of_bool c) = r mod 2 ^ 32"
    by (simp add: r_def uint_word_ariths mod_simps)
  also have "\<dots> = r - 2 ^ 32 * of_bool (2 ^ 32 \<le> r)"
    by (rule int_mod_once(1)) (use uint_less_32 [of x] uint_less_32 [of y] of_bool_range [of c] r_def in linarith)+
  finally show ?thesis by (simp only: r_def)
qed

lemma uint_sub_borrow:
  fixes x y :: Bit32u
  shows "uint (x - (y + of_bool c)) = uint x - uint y - of_bool c + 2 ^ 32 * of_bool (uint x < uint y + of_bool c)"
proof -
  define r where "r = uint x - uint y - of_bool c"
  have "uint (x - (y + of_bool c)) = r mod 2 ^ 32"
    by (simp add: r_def uint_word_ariths mod_simps algebra_simps)
  also have "\<dots> = r + 2 ^ 32 * of_bool (r < 0)"
    by (rule int_mod_once(2)) (use uint_less_32 [of x] uint_less_32 [of y] of_bool_range [of c] r_def in linarith)+
  finally show ?thesis by (simp add: r_def)
qed

lemma carry_uint:
  fixes x y :: Bit32u
  shows "add_flags x y c CF \<longleftrightarrow> 2 ^ 32 \<le> uint x + uint y + of_bool c"
    and "sub_flags x y c CF \<longleftrightarrow> uint x < uint y + of_bool c"
proof -
  obtain a b where ab: "unat x = a" "unat y = b" "uint x = int a" "uint y = int b"
    by (simp add: uint_nat)
  show "add_flags x y c CF \<longleftrightarrow> 2 ^ 32 \<le> uint x + uint y + of_bool c"
    by (cases c) (auto simp: ab)
  show "sub_flags x y c CF \<longleftrightarrow> uint x < uint y + of_bool c"
    by (cases c) (auto simp: ab)
qed

text \<open>C20
  ADD of the low halves followed by ADC of the high halves adds two 64-bit numbers held in register
  pairs: the pair holds the sum modulo 2^64 and CF is the carry out, provided the first
  instruction does not overwrite an operand of the second.\<close>

theorem add_adc_is_64_bit_addition:
  assumes "modC0 i" "modC0 j" "rm j \<noteq> rm i" "nnn j \<noteq> rm i"
  defines "x \<equiv> reg_pair (rm j) (rm i)" and "y \<equiv> reg_pair (nnn j) (nnn i)"
  shows "\<exists>t. and_then (ADD_EdGd i) (\<lambda>_. ADC_EdGd j) s = Done () t \<and> lf_wf t \<and>
     x t = (x s + y s) mod 2 ^ 64 \<and> (flag CF t \<longleftrightarrow> 2 ^ 64 \<le> x s + y s)"
proof -
  let ?lo = "gen_reg s (rm i)" and ?lo' = "gen_reg s (nnn i)" and ?hi = "gen_reg s (rm j)" and ?hi' = "gen_reg s (nnn j)"
  obtain t1 where t1: "ADD_EdGd i s = Done () t1" "gen_reg t1 = (gen_reg s)(rm i := ?lo + ?lo')"
    "lf_wf t1" "flag CF t1 = add_flags ?lo ?lo' False CF"
    using ADD_EdGd_reg [OF assms(1)] by (simp add: lf_wf_SET_FLAGS_32 flag_SET_FLAGS_32)
  define c where "c = flag CF t1"
  obtain t where t: "ADC_EdGd j t1 = Done () t" "gen_reg t = (gen_reg t1)(rm j := ?hi + ?hi' + of_bool c)"
    "lf_wf t" "flag CF t = add_flags ?hi ?hi' c CF"
    using ADC_EdGd_reg [OF assms(2) t1(3)] assms(3,4) t1(2)
    by (auto simp: c_def lf_wf_SET_FLAGS_32 flag_SET_FLAGS_32)
  have c: "c \<longleftrightarrow> 2 ^ 32 \<le> uint ?lo + uint ?lo'"
    using carry_uint(1) [of ?lo ?lo' False] by (simp add: c_def t1(4))
  have q: "flag CF t \<longleftrightarrow> 2 ^ 32 \<le> uint ?hi + uint ?hi' + of_bool c"
    unfolding t(4) by (rule carry_uint)
  define L where "L = uint ?lo + uint ?lo' - 2 ^ 32 * of_bool c"
  have lo: "uint (gen_reg t (rm i)) = L"
    using uint_add_carry [of ?lo ?lo' False] assms(3) by (simp add: t(2) t1(2) c L_def)
  have hi: "uint (gen_reg t (rm j)) = uint ?hi + uint ?hi' + of_bool c - 2 ^ 32 * of_bool (flag CF t)"
    using uint_add_carry [of ?hi ?hi' c] by (simp only: t(2) fun_upd_same q)
  have s: "x s + y s = L + 2 ^ 32 * (uint ?hi + uint ?hi' + of_bool c)"
    by (simp add: x_def y_def reg_pair_def L_def)
  then have "x t = x s + y s + 2 ^ 32 * 2 ^ 32 * (- of_bool (flag CF t))"
    by (simp add: x_def reg_pair_def lo hi)
  then have "x t = (x s + y s) mod (2 ^ 32 * 2 ^ 32)"
    unfolding x_def reg_pair_def by (intro pair_mod uint_less_32)
  moreover have "x s + y s < 0 + 2 ^ 32 * 2 ^ 32 \<longleftrightarrow> \<not> flag CF t"
    unfolding s q using uint_less_32 [of "gen_reg t (rm i)"] unfolding lo
    by (subst pair_compare) auto
  then have "flag CF t \<longleftrightarrow> 2 ^ 64 \<le> x s + y s"
    by auto
  ultimately show ?thesis
    using t1(1) t(1,3) by (intro exI [of _ t]) simp
qed

lemma add_adc_witness:
  "\<exists>t. and_then (ADD_EdGd (reg_instr 0 1)) (\<lambda>_. ADC_EdGd (reg_instr 2 3)) boot = Done () t \<and> lf_wf t \<and>
     reg_pair 2 0 t = (reg_pair 2 0 boot + reg_pair 3 1 boot) mod 2 ^ 64 \<and>
     (flag CF t \<longleftrightarrow> 2 ^ 64 \<le> reg_pair 2 0 boot + reg_pair 3 1 boot)"
  using add_adc_is_64_bit_addition [of "reg_instr 0 1" "reg_instr 2 3"] by simp

text \<open>
  SUB of the low halves followed by SBB of the high halves subtracts two 64-bit numbers held in
  register pairs: the pair holds the difference modulo 2^64, and CF is set exactly if the first
  number was below the second.\<close>

lemma sub_sbb_is_64_bit_subtraction:
  assumes "modC0 i" "modC0 j" "rm j \<noteq> rm i" "nnn j \<noteq> rm i"
  defines "x \<equiv> reg_pair (rm j) (rm i)" and "y \<equiv> reg_pair (nnn j) (nnn i)"
  shows "\<exists>t. and_then (SUB_EdGd i) (\<lambda>_. SBB_EdGd j) s = Done () t \<and> lf_wf t \<and>
     x t = (x s - y s) mod 2 ^ 64 \<and> (flag CF t \<longleftrightarrow> x s < y s)"
proof -
  let ?lo = "gen_reg s (rm i)" and ?lo' = "gen_reg s (nnn i)" and ?hi = "gen_reg s (rm j)" and ?hi' = "gen_reg s (nnn j)"
  obtain t1 where t1: "SUB_EdGd i s = Done () t1" "gen_reg t1 = (gen_reg s)(rm i := ?lo - ?lo')"
    "lf_wf t1" "flag CF t1 = sub_flags ?lo ?lo' False CF"
    using SUB_EdGd_reg [OF assms(1)] by (simp add: lf_wf_SET_FLAGS_32 flag_SET_FLAGS_32)
  define c where "c = flag CF t1"
  obtain t where t: "SBB_EdGd j t1 = Done () t" "gen_reg t = (gen_reg t1)(rm j := ?hi - (?hi' + of_bool c))"
    "lf_wf t" "flag CF t = sub_flags ?hi ?hi' c CF"
    using SBB_EdGd_reg [OF assms(2) t1(3)] assms(3,4) t1(2)
    by (auto simp: c_def lf_wf_SET_FLAGS_32 flag_SET_FLAGS_32)
  have c: "c \<longleftrightarrow> uint ?lo < uint ?lo'"
    using carry_uint(2) [of ?lo ?lo' False] by (simp add: c_def t1(4))
  have q: "flag CF t \<longleftrightarrow> uint ?hi < uint ?hi' + of_bool c"
    unfolding t(4) by (rule carry_uint)
  have lo: "uint (gen_reg t (rm i)) = uint ?lo - uint ?lo' + 2 ^ 32 * of_bool c"
    using uint_sub_borrow [of ?lo ?lo' False] assms(3) by (simp add: t(2) t1(2) c)
  have hi: "uint (gen_reg t (rm j)) = uint ?hi - uint ?hi' - of_bool c + 2 ^ 32 * of_bool (flag CF t)"
    using uint_sub_borrow [of ?hi ?hi' c] by (simp only: t(2) fun_upd_same q)
  have "x t = x s - y s + 2 ^ 32 * 2 ^ 32 * of_bool (flag CF t)"
    by (simp add: x_def y_def reg_pair_def lo hi)
  then have "x t = (x s - y s) mod (2 ^ 32 * 2 ^ 32)"
    unfolding x_def reg_pair_def by (intro pair_mod uint_less_32)
  moreover have "x s < y s \<longleftrightarrow> flag CF t"
    unfolding x_def y_def reg_pair_def q c by (rule pair_compare) (rule uint_less_32)+
  ultimately show ?thesis
    using t1(1) t(1,3) by (intro exI [of _ t]) simp
qed

lemma sub_sbb_witness:
  "\<exists>t. and_then (SUB_EdGd (reg_instr 0 1)) (\<lambda>_. SBB_EdGd (reg_instr 2 3)) boot = Done () t \<and> lf_wf t \<and>
     reg_pair 2 0 t = (reg_pair 2 0 boot - reg_pair 3 1 boot) mod 2 ^ 64 \<and>
     (flag CF t \<longleftrightarrow> reg_pair 2 0 boot < reg_pair 3 1 boot)"
  using sub_sbb_is_64_bit_subtraction [of "reg_instr 0 1" "reg_instr 2 3"] by simp

end
