(* ===== verification/BxMult.thy ===== *)
theory BxMult
  imports BxOperands BxFlagCtrl "HOL-Library.Signed_Division"
begin

text \<open>
  Multiplication and division (\<open>cpu/mult8.cc\<close>, \<open>cpu/mult16.cc\<close>,
  \<open>cpu/mult32.cc\<close>). C++ multiplies and divides at twice the operand's width; signed
  division truncates towards zero (\<open>sdiv\<close>, \<open>smod\<close> on integers), and a
  signed value that is stored in a narrower variable is truncated. \<open>INTEL_DIV_FLAG_BUG\<close>
  is not defined, so division leaves the flags alone.
\<close>

section \<open>8 bits\<close>

definition MUL_ALEb :: "bxInstruction \<Rightarrow> unit bx" where
  "MUL_ALEb i =
     and_then (gets (\<lambda>s. AL s)) (\<lambda>op1.
     and_then (load_Eb i) (\<lambda>op2.
     let product = (ucast op1 * ucast op2 :: Bit16u);
          product_l = (ucast product :: Bit8u);
          product_h = (ucast (drop_bit 8 product) :: Bit8u) in
     and_then (update (SET_FLAGS_OSZAPC_S1S2_8 product_l product_h BX_INSTR_MUL8)) (\<lambda>_.
     update (BX_WRITE_16BIT_REG 0 product))))"

definition IMUL_ALEb :: "bxInstruction \<Rightarrow> unit bx" where
  "IMUL_ALEb i =
     and_then (gets (\<lambda>s. AL s)) (\<lambda>op1.
     and_then (load_Eb i) (\<lambda>op2.
     let product = (scast op1 * scast op2 :: Bit16u);
          product_l = (ucast product :: Bit8u);
          product_h = (ucast (drop_bit 8 product) :: Bit8u) in
     and_then (update (SET_FLAGS_OSZAPC_S1S2_8 product_l product_h BX_INSTR_IMUL8)) (\<lambda>_.
     update (BX_WRITE_16BIT_REG 0 product))))"

definition DIV_ALEb :: "bxInstruction \<Rightarrow> unit bx" where
  "DIV_ALEb i =
     and_then (gets (\<lambda>s. AX s :: Bit16u)) (\<lambda>op1.
     and_then (load_Eb i) (\<lambda>op2.
       if op2 = 0 then raise BX_DE_EXCEPTION 0
       else
         (let quotient = op1 div ucast op2;
              remainder = (ucast (op1 mod ucast op2) :: Bit8u);
              quotient_l = (ucast quotient :: Bit8u) in
          if quotient \<noteq> ucast quotient_l then raise BX_DE_EXCEPTION 0
          else update (write_reg_rh 0 remainder \<circ> write_reg_rl 0 quotient_l))))"

definition IDIV_ALEb :: "bxInstruction \<Rightarrow> unit bx" where
  "IDIV_ALEb i =
     and_then (gets (\<lambda>s. AX s :: Bit16u)) (\<lambda>op1.
     and_then (load_Eb i) (\<lambda>op2.
       if op2 = 0 then raise BX_DE_EXCEPTION 0
       else if op1 = 0x8000 \<and> op2 = -1 then raise BX_DE_EXCEPTION 0
       else
         (let quotient = (word_of_int (sint op1 sdiv sint op2) :: Bit16u);
              remainder = (word_of_int (sint op1 smod sint op2) :: Bit8u);
              quotient_l = (ucast quotient :: Bit8u) in
          if sint quotient \<noteq> sint quotient_l then raise BX_DE_EXCEPTION 0
          else update (write_reg_rh 0 remainder \<circ> write_reg_rl 0 quotient_l))))"

section \<open>16 bits\<close>

definition MUL_AXEw :: "bxInstruction \<Rightarrow> unit bx" where
  "MUL_AXEw i =
     and_then (gets (\<lambda>s. AX s)) (\<lambda>op1.
     and_then (load_Ew i) (\<lambda>op2.
     let product = (ucast op1 * ucast op2 :: Bit32u);
          product_l = (ucast product :: Bit16u);
          product_h = (ucast (drop_bit 16 product) :: Bit16u) in
     and_then (update (SET_FLAGS_OSZAPC_S1S2_16 product_l product_h BX_INSTR_MUL16)) (\<lambda>_.
     update (BX_WRITE_16BIT_REG 2 product_h \<circ> BX_WRITE_16BIT_REG 0 product_l))))"

definition IMUL_AXEw :: "bxInstruction \<Rightarrow> unit bx" where
  "IMUL_AXEw i =
     and_then (gets (\<lambda>s. AX s)) (\<lambda>op1.
     and_then (load_Ew i) (\<lambda>op2.
     let product = (scast op1 * scast op2 :: Bit32u);
          product_l = (ucast product :: Bit16u);
          product_h = (ucast (drop_bit 16 product) :: Bit16u) in
     and_then (update (BX_WRITE_16BIT_REG 2 product_h \<circ> BX_WRITE_16BIT_REG 0 product_l)) (\<lambda>_.
     update (SET_FLAGS_OSZAPC_S1S2_16 product_l product_h BX_INSTR_IMUL16))))"

definition IMUL_GwEwIw :: "bxInstruction \<Rightarrow> unit bx" where
  "IMUL_GwEwIw i =
     and_then (gets (\<lambda>_. i_Iw i)) (\<lambda>op3.
     and_then (load_Ew i) (\<lambda>op2.
     let product = (scast op2 * scast op3 :: Bit32u);
          product_l = (ucast product :: Bit16u);
          product_h = (ucast (drop_bit 16 product) :: Bit16u) in
     and_then (update (BX_WRITE_16BIT_REG (nnn i) product_l)) (\<lambda>_.
     update (SET_FLAGS_OSZAPC_S1S2_16 product_l product_h BX_INSTR_IMUL16))))"

definition IMUL_GwEw :: "bxInstruction \<Rightarrow> unit bx" where
  "IMUL_GwEw i =
     and_then (load_Ew i) (\<lambda>op2.
     and_then (gets (BX_READ_16BIT_REG (nnn i))) (\<lambda>op1.
     let product = (scast op1 * scast op2 :: Bit32u);
          product_l = (ucast product :: Bit16u);
          product_h = (ucast (drop_bit 16 product) :: Bit16u) in
     and_then (update (BX_WRITE_16BIT_REG (nnn i) product_l)) (\<lambda>_.
     update (SET_FLAGS_OSZAPC_S1S2_16 product_l product_h BX_INSTR_IMUL16))))"

definition DIV_AXEw :: "bxInstruction \<Rightarrow> unit bx" where
  "DIV_AXEw i =
     and_then (gets (\<lambda>s. push_bit 16 (ucast (DX s)) OR ucast (AX s) :: Bit32u)) (\<lambda>op1.
     and_then (load_Ew i) (\<lambda>op2.
       if op2 = 0 then raise BX_DE_EXCEPTION 0
       else
         (let quotient = op1 div ucast op2;
              remainder = (ucast (op1 mod ucast op2) :: Bit16u);
              quotient_l = (ucast quotient :: Bit16u) in
          if quotient \<noteq> ucast quotient_l then raise BX_DE_EXCEPTION 0
          else update (BX_WRITE_16BIT_REG 2 remainder \<circ> BX_WRITE_16BIT_REG 0 quotient_l))))"

definition IDIV_AXEw :: "bxInstruction \<Rightarrow> unit bx" where
  "IDIV_AXEw i =
     and_then (gets (\<lambda>s. push_bit 16 (ucast (DX s)) OR ucast (AX s) :: Bit32u)) (\<lambda>op1.
     and_then (load_Ew i) (\<lambda>op2.
       if op2 = 0 then raise BX_DE_EXCEPTION 0
       else if op1 = 0x80000000 \<and> op2 = -1 then raise BX_DE_EXCEPTION 0
       else
         (let quotient = (word_of_int (sint op1 sdiv sint op2) :: Bit32u);
              remainder = (word_of_int (sint op1 smod sint op2) :: Bit16u);
              quotient_l = (ucast quotient :: Bit16u) in
          if sint quotient \<noteq> sint quotient_l then raise BX_DE_EXCEPTION 0
          else update (BX_WRITE_16BIT_REG 2 remainder \<circ> BX_WRITE_16BIT_REG 0 quotient_l))))"

section \<open>32 bits\<close>

definition MUL_EAXEd :: "bxInstruction \<Rightarrow> unit bx" where
  "MUL_EAXEd i =
     and_then (gets (\<lambda>s. EAX s)) (\<lambda>op1.
     and_then (load_Ed i) (\<lambda>op2.
     let product = (ucast op1 * ucast op2 :: Bit64u);
          product_l = (ucast product :: Bit32u);
          product_h = (ucast (drop_bit 32 product) :: Bit32u) in
     and_then (update (SET_FLAGS_OSZAPC_S1S2_32 product_l product_h BX_INSTR_MUL32)) (\<lambda>_.
     update (BX_WRITE_32BIT_REG 2 product_h \<circ> BX_WRITE_32BIT_REG 0 product_l))))"

definition IMUL_EAXEd :: "bxInstruction \<Rightarrow> unit bx" where
  "IMUL_EAXEd i =
     and_then (gets (\<lambda>s. EAX s)) (\<lambda>op1.
     and_then (load_Ed i) (\<lambda>op2.
     let product = (scast op1 * scast op2 :: Bit64u);
          product_l = (ucast product :: Bit32u);
          product_h = (ucast (drop_bit 32 product) :: Bit32u) in
     and_then (update (BX_WRITE_32BIT_REG 2 product_h \<circ> BX_WRITE_32BIT_REG 0 product_l)) (\<lambda>_.
     update (SET_FLAGS_OSZAPC_S1S2_32 product_l product_h BX_INSTR_IMUL32))))"

definition IMUL_GdEdId :: "bxInstruction \<Rightarrow> unit bx" where
  "IMUL_GdEdId i =
     and_then (gets (\<lambda>_. i_Id i)) (\<lambda>op3.
     and_then (load_Ed i) (\<lambda>op2.
     let product = (scast op2 * scast op3 :: Bit64u);
          product_l = (ucast product :: Bit32u);
          product_h = (ucast (drop_bit 32 product) :: Bit32u) in
     and_then (update (BX_WRITE_32BIT_REG (nnn i) product_l)) (\<lambda>_.
     update (SET_FLAGS_OSZAPC_S1S2_32 product_l product_h BX_INSTR_IMUL32))))"

definition IMUL_GdEd :: "bxInstruction \<Rightarrow> unit bx" where
  "IMUL_GdEd i =
     and_then (load_Ed i) (\<lambda>op2.
     and_then (gets (BX_READ_32BIT_REG (nnn i))) (\<lambda>op1.
     let product = (scast op1 * scast op2 :: Bit64u);
          product_l = (ucast product :: Bit32u);
          product_h = (ucast (drop_bit 32 product) :: Bit32u) in
     and_then (update (BX_WRITE_32BIT_REG (nnn i) product_l)) (\<lambda>_.
     update (SET_FLAGS_OSZAPC_S1S2_32 product_l product_h BX_INSTR_IMUL32))))"

definition DIV_EAXEd :: "bxInstruction \<Rightarrow> unit bx" where
  "DIV_EAXEd i =
     and_then (gets (\<lambda>s. push_bit 32 (ucast (EDX s)) + ucast (EAX s) :: Bit64u)) (\<lambda>op1.
     and_then (load_Ed i) (\<lambda>op2.
       if op2 = 0 then raise BX_DE_EXCEPTION 0
       else
         (let quotient = op1 div ucast op2;
              remainder = (ucast (op1 mod ucast op2) :: Bit32u);
              quotient_l = (ucast quotient :: Bit32u) in
          if quotient \<noteq> ucast quotient_l then raise BX_DE_EXCEPTION 0
          else update (BX_WRITE_32BIT_REG 2 remainder \<circ> BX_WRITE_32BIT_REG 0 quotient_l))))"

definition IDIV_EAXEd :: "bxInstruction \<Rightarrow> unit bx" where
  "IDIV_EAXEd i =
     and_then (gets (\<lambda>s. push_bit 32 (ucast (EDX s)) OR ucast (EAX s) :: Bit64u)) (\<lambda>op1.
     and_then (load_Ed i) (\<lambda>op2.
       if op2 = 0 then raise BX_DE_EXCEPTION 0
       else if op1 = 0x8000000000000000 \<and> op2 = -1 then raise BX_DE_EXCEPTION 0
       else
         (let quotient = (word_of_int (sint op1 sdiv sint op2) :: Bit64u);
              remainder = (word_of_int (sint op1 smod sint op2) :: Bit32u);
              quotient_l = (ucast quotient :: Bit32u) in
          if sint quotient \<noteq> sint quotient_l then raise BX_DE_EXCEPTION 0
          else update (BX_WRITE_32BIT_REG 2 remainder \<circ> BX_WRITE_32BIT_REG 0 quotient_l))))"

end
