(* ===== verification/BxMultTheorems.thy ===== *)
theory BxMultTheorems
  imports BxMult BxAluTheorems
begin

text \<open>
  Multiplication and division against integer arithmetic: products with their overflow flags,
  quotients and remainders with the divide error exactly where the quotient does not fit.
\<close>

section \<open>Words at twice their width\<close>

lemma uint_ucast_up:
  fixes a :: "'a::len word"
  assumes "LENGTH('a) \<le> LENGTH('b::len)"
  shows "uint (ucast a :: 'b word) = uint a"
proof -
  have "uint a < 2 ^ LENGTH('a)" by (rule unsigned_less)
  also have "(2::int) ^ LENGTH('a) \<le> 2 ^ LENGTH('b)" using assms by (intro power_increasing) auto
  finally show ?thesis by (simp add: unsigned_ucast_eq take_bit_int_eq_self)
qed

lemma sint_range:
  fixes a :: "'a::len word"
  shows "- (2 ^ (LENGTH('a) - 1)) \<le> sint a" "sint a < 2 ^ (LENGTH('a) - 1)"
  using sint_greater_eq [of a] sint_less [of a] by simp_all

lemma sint_scast_up:
  fixes a :: "'a::len word"
  assumes "LENGTH('a) \<le> LENGTH('b::len)"
  shows "sint (scast a :: 'b word) = sint a"
proof -
  have "(2::int) ^ (LENGTH('a) - 1) \<le> 2 ^ (LENGTH('b) - 1)" using assms by (intro power_increasing) auto
  then have "- (2 ^ (LENGTH('b) - 1)) \<le> sint a" "sint a < 2 ^ (LENGTH('b) - 1)"
    using sint_range [of a] by linarith+
  then show ?thesis by (simp add: signed_scast_eq signed_take_bit_int_eq_self)
qed

text \<open>The two halves of a word.\<close>

lemma uint_halves:
  fixes p :: "'b::len word"
  assumes "LENGTH('b) = 2 * LENGTH('a::len)"
  shows "uint p = uint (ucast (drop_bit LENGTH('a) p) :: 'a word) * 2 ^ LENGTH('a) + uint (ucast p :: 'a word)"
proof -
  have "uint (ucast (drop_bit LENGTH('a) p) :: 'a word) = drop_bit LENGTH('a) (uint p)"
    by (rule bit_eqI) (use assms in \<open>auto simp: bit_simps dest: bit_imp_le_length\<close>)
  then show ?thesis
    by (simp only: drop_bit_eq_div unsigned_ucast_eq take_bit_eq_mod div_mult_mod_eq)
qed

lemma uint_product:
  fixes a b :: "'a::len word"
  assumes "LENGTH('b::len) = 2 * LENGTH('a)"
  shows "uint (ucast a * ucast b :: 'b word) = uint a * uint b"
proof -
  have "uint a * uint b < 2 ^ LENGTH('a) * 2 ^ LENGTH('a)"
    using unsigned_less [of a, where ?'a = int] unsigned_less [of b, where ?'a = int]
    by (intro mult_strict_mono) auto
  moreover have "uint (ucast a :: 'b word) = uint a" "uint (ucast b :: 'b word) = uint b"
    using assms by (simp_all add: uint_ucast_up)
  ultimately show ?thesis
    using assms by (simp add: uint_word_ariths mult_2 power_add)
qed

lemma sint_product:
  fixes a b :: "'a::len word"
  assumes "LENGTH('b::len) = 2 * LENGTH('a)"
  shows "sint (scast a * scast b :: 'b word) = sint a * sint b"
proof -
  define m :: int where "m = 2 ^ (LENGTH('a) - 1)"
  have "\<bar>sint a\<bar> \<le> m" "\<bar>sint b\<bar> \<le> m"
    using sint_range [of a] sint_range [of b] by (auto simp: m_def)
  then have "\<bar>sint a * sint b\<bar> \<le> m * m"
    unfolding abs_mult by (intro mult_mono) (auto simp: m_def)
  moreover have "2 * (m * m) = 2 ^ (LENGTH('b) - 1)"
  proof -
    have "LENGTH('b) - 1 = Suc ((LENGTH('a) - 1) + (LENGTH('a) - 1))"
      using assms len_gt_0 [where ?'a = 'a] by linarith
    then show ?thesis by (simp only: m_def power_Suc power_add)
  qed
  moreover have "0 < m * m" by (simp add: m_def)
  ultimately have "- (2 ^ (LENGTH('b) - 1)) \<le> sint a * sint b" "sint a * sint b < 2 ^ (LENGTH('b) - 1)"
    by linarith+
  moreover have "sint (scast a :: 'b word) = sint a" "sint (scast b :: 'b word) = sint b"
    using assms by (simp_all add: sint_scast_up)
  ultimately show ?thesis
    by (simp add: sint_word_ariths signed_take_bit_int_eq_self)
qed

lemma uint_of_sint:
  fixes a :: "'a::len word"
  shows "uint a = sint a + 2 ^ LENGTH('a) * of_bool (sint a < 0)"
proof -
  have "(2::int) ^ (LENGTH('a) - 1) \<le> 2 ^ LENGTH('a)" by (intro power_increasing) auto
  then show ?thesis
    unfolding uint_sint take_bit_eq_mod using sint_range [of a]
    by (intro int_mod_once(2)) linarith+
qed

lemma sint_halves:
  fixes p :: "'b::len word"
  assumes "LENGTH('b) = 2 * LENGTH('a::len)"
  shows "sint p = sint (ucast (drop_bit LENGTH('a) p) :: 'a word) * 2 ^ LENGTH('a) + uint (ucast p :: 'a word)"
proof -
  have n: "0 < LENGTH('a)" by (rule len_gt_0)
  have "sint (ucast (drop_bit LENGTH('a) p) :: 'a word) = drop_bit LENGTH('a) (sint p)"
    by (rule bit_eqI) (use assms n in \<open>auto simp: bit_simps min_def dest: bit_imp_le_length intro!: arg_cong [of _ _ "bit p"]\<close>)
  moreover have "uint (ucast p :: 'a word) = take_bit LENGTH('a) (sint p)"
    by (rule bit_eqI) (use assms n in \<open>auto simp: bit_simps min_def dest: bit_imp_le_length\<close>)
  ultimately show ?thesis
    by (simp only: drop_bit_eq_div take_bit_eq_mod div_mult_mod_eq)
qed

text \<open>The low half holds a signed product exactly if the high half repeats its sign.\<close>

lemma fits_low_half:
  fixes p :: "'b::len word"
  assumes "LENGTH('b) = 2 * LENGTH('a::len)"
  defines "h \<equiv> (ucast (drop_bit LENGTH('a) p) :: 'a word)" and "l \<equiv> (ucast p :: 'a word)"
  shows "sint p = sint l \<longleftrightarrow> h = (if sint l < 0 then - 1 else 0)"
proof -
  define m :: int where "m = 2 ^ LENGTH('a)"
  have u: "uint l = sint l + m * of_bool (sint l < 0)"
    unfolding m_def by (rule uint_of_sint)
  have "sint p = sint h * m + uint l"
    using sint_halves [OF assms(1)] by (simp add: h_def l_def m_def)
  then have "sint p = sint l \<longleftrightarrow> m * (sint h + of_bool (sint l < 0)) = 0"
    by (simp add: u algebra_simps)
  also have "\<dots> \<longleftrightarrow> sint h + of_bool (sint l < 0) = 0"
    by (simp add: m_def)
  finally have "sint p = sint l \<longleftrightarrow> sint h + of_bool (sint l < 0) = 0" .
  moreover have "h = - 1 \<longleftrightarrow> sint h = - 1" "h = 0 \<longleftrightarrow> sint h = 0"
    using signed_word_eqI [of h "- 1"] signed_word_eqI [of h 0] by auto
  ultimately show ?thesis
    by auto
qed

section \<open>Flags of a product\<close>

lemma sign_less:
  "(w8 :: Bit8u) < 0x80 \<longleftrightarrow> \<not> sint w8 < 0"
  "(w16 :: Bit16u) < 0x8000 \<longleftrightarrow> \<not> sint w16 < 0"
  "(w32 :: Bit32u) < 0x80000000 \<longleftrightarrow> \<not> sint w32 < 0"
  using sign_ge_8 [of w8] sign_ge_16 [of w16] sign_ge_32 [of w32] by (simp_all only: not_le [symmetric])

lemma ones:
  "(0xff :: Bit8u) = - 1" "(0xffff :: Bit16u) = - 1" "(0xffffffff :: Bit32u) = - 1"
  by simp_all

lemmas imul_rules = and_sign_8 and_sign_16 and_sign_32 msb_of_iff_sint sign_less ones not_not

lemma imul_flag:
  "(\<not> ((\<not> n \<and> h = 0) \<or> (n \<and>
    h = - 1))) = (h \<noteq> (if n then - 1 else (0 :: 'a::len word)))"
  by auto

lemma flag_of_MUL:
  "flag_of f (SET_FLAGS_OSZAPC_S1S2_8 l8 h8 BX_INSTR_MUL8 s) =
     Some (if f \<in> {CF, OF} then h8 \<noteq> 0 else result_flags l8 f)"
  "flag_of f (SET_FLAGS_OSZAPC_S1S2_16 l16 h16 BX_INSTR_MUL16 s) =
     Some (if f \<in> {CF, OF} then h16 \<noteq> 0 else result_flags l16 f)"
  "flag_of f (SET_FLAGS_OSZAPC_S1S2_32 l32 h32 BX_INSTR_MUL32 s) =
     Some (if f \<in> {CF, OF} then h32 \<noteq> 0 else result_flags l32 f)"
  by (cases f; simp add: flag_of_SET_FLAGS_OSZAPC oszapc_value_defs mask_tests)+

lemma flag_of_IMUL:
  "flag_of f (SET_FLAGS_OSZAPC_S1S2_8 l8 h8 BX_INSTR_IMUL8 s) =
     Some (if f \<in> {CF, OF} then h8 \<noteq> (if sint l8 < 0 then - 1 else 0) else result_flags l8 f)"
  "flag_of f (SET_FLAGS_OSZAPC_S1S2_16 l16 h16 BX_INSTR_IMUL16 s) =
     Some (if f \<in> {CF, OF} then h16 \<noteq> (if sint l16 < 0 then - 1 else 0) else result_flags l16 f)"
  "flag_of f (SET_FLAGS_OSZAPC_S1S2_32 l32 h32 BX_INSTR_IMUL32 s) =
     Some (if f \<in> {CF, OF} then h32 \<noteq> (if sint l32 < 0 then - 1 else 0) else result_flags l32 f)"
  unfolding flag_of_SET_FLAGS_OSZAPC
  by (cases f; simp add: oszapc_value_defs imul_rules imul_flag mask_tests)+

lemma flag_of_WRITE [simp]:
  "flag_of f (BX_WRITE_32BIT_REG r v s) = flag_of f s"
  "flag_of f (BX_WRITE_16BIT_REG r v16 s) = flag_of f s"
  by (simp_all add: flag_of_def BX_WRITE_32BIT_REG_def BX_WRITE_16BIT_REG_def)

lemma flag_from_flag_of: "flag_of f s = Some b \<Longrightarrow> flag f s = b"
  by (simp add: flag_def)

lemma reg_SET_FLAGS_S1S2 [simp]:
  "gen_reg (SET_FLAGS_OSZAPC_S1S2_8 l8 h8 i s) = gen_reg s"
  "gen_reg (SET_FLAGS_OSZAPC_S1S2_16 l16 h16 i s) = gen_reg s"
  "gen_reg (SET_FLAGS_OSZAPC_S1S2_32 l32 h32 i s) = gen_reg s"
  "BX_READ_16BIT_REG r (SET_FLAGS_OSZAPC_S1S2_16 l16 h16 i s) = BX_READ_16BIT_REG r s"
  by (simp_all add: SET_FLAGS_OSZAPC_S1S2_8_def SET_FLAGS_OSZAPC_S1S2_16_def SET_FLAGS_OSZAPC_S1S2_32_def
      BX_READ_16BIT_REG_def)

section \<open>Multiplication\<close>

text \<open>\<open>overflow u b\<close>: CF and OF both say \<open>b\<close>.\<close>

abbreviation overflow :: "cpu \<Rightarrow> bool \<Rightarrow> bool" where
  "overflow u b \<equiv> lf_wf u \<and> flag CF u = b \<and> flag OF u = b"

lemma high_half_0:
  fixes p :: "'b::len word"
  assumes "LENGTH('b) = 2 * LENGTH('a::len)"
  shows "(ucast (drop_bit LENGTH('a) p) :: 'a word) \<noteq> 0 \<longleftrightarrow> 2 ^ LENGTH('a) \<le> uint p"
proof -
  define m :: int where "m = 2 ^ LENGTH('a)"
  let ?h = "ucast (drop_bit LENGTH('a) p) :: 'a word" and ?l = "ucast p :: 'a word"
  have "uint p = uint ?h * m + uint ?l"
    using uint_halves [OF assms] by (simp add: m_def)
  moreover have "0 \<le> uint ?l" "uint ?l < m"
    using unsigned_less [of ?l, where ?'a = int] by (simp_all add: m_def)
  moreover have "m \<le> uint ?h * m" if "1 \<le> uint ?h"
    using mult_right_mono [OF that, of m] by (simp add: m_def)
  moreover have "?h \<noteq> 0 \<longleftrightarrow> 1 \<le> uint ?h"
    using unsigned_greater_eq [of ?h, where ?'a = int] unsigned_eq_0_iff [of ?h, where ?'a = int] by linarith
  ultimately show ?thesis
    unfolding m_def [symmetric] by (cases "?h = 0") (simp, linarith)
qed

lemma fits_signed_product:
  fixes p :: "'b::len word"
  assumes "LENGTH('b) = 2 * LENGTH('a::len)"
  defines "h \<equiv> (ucast (drop_bit LENGTH('a) p) :: 'a word)" and "l \<equiv> (ucast p :: 'a word)"
  shows "h \<noteq> (if sint l < 0 then - 1 else 0) \<longleftrightarrow> \<not> fits_signed TYPE('a) (sint p)"
proof -
  have "sint l = signed_take_bit (LENGTH('a) - 1) (sint p)"
    unfolding l_def by (rule bit_eqI)
      (use assms(1) in \<open>auto simp: bit_simps min_def dest: bit_imp_le_length\<close>)
  then have "sint p = sint l \<longleftrightarrow> fits_signed TYPE('a) (sint p)"
    using signed_take_bit_int_eq_self_iff [of "LENGTH('a) - 1" "sint p"] by (auto simp: fits_signed_def)
  then show ?thesis
    using fits_low_half [OF assms(1)] by (simp add: h_def l_def)
qed

text \<open>
  The six one-operand multiplications: the product in the accumulator pair is exact, and CF and
  OF tell that its upper half is significant.
\<close>

lemma MUL_8:
  assumes "load_Eb i s = Done b t"
  shows "\<exists>u. MUL_ALEb i s = Done () u \<and> uint (AX u) = uint (AL s) * uint b \<and>
    overflow u (2 ^ 8 \<le> uint (AL s) * uint b)"
proof -
  define p :: Bit16u where "p = ucast (AL s) * ucast b"
  have p: "uint p = uint (AL s) * uint b"
    unfolding p_def by (rule uint_product) simp
  have h: "(ucast (drop_bit 8 p) :: Bit8u) \<noteq> 0 \<longleftrightarrow> 2 ^ 8 \<le> uint p"
    using high_half_0 [of p, where ?'a = 8] by simp
  have e: "uint p = uint (ucast (drop_bit 8 p) :: Bit8u) * 2 ^ 8 + uint (ucast p :: Bit8u)"
    using uint_halves [of p, where ?'a = 8] by simp
  let ?u = "BX_WRITE_16BIT_REG 0 p (SET_FLAGS_OSZAPC_S1S2_8 (ucast p :: Bit8u)
    (ucast (drop_bit 8 p) :: Bit8u) BX_INSTR_MUL8 t)"
  have "MUL_ALEb i s = Done () ?u"
    by (simp add: MUL_ALEb_def assms Let_def p_def)
  moreover have "flag_of f ?u = Some (if f \<in> {CF, OF} then (ucast (drop_bit 8 p) :: Bit8u) \<noteq> 0 else result_flags (ucast p :: Bit8u) f)" for f
    by (simp add: flag_of_MUL)
  then have "overflow ?u (2 ^ 8 \<le> uint p)"
    using h by (auto intro: lf_wfI simp: flag_def)
  ultimately show ?thesis
    using e p by (intro exI [of _ ?u]) simp
qed

lemma IMUL_8:
  assumes "load_Eb i s = Done b t"
  shows "\<exists>u. IMUL_ALEb i s = Done () u \<and> sint (AX u) = sint (AL s) * sint b \<and>
    overflow u (\<not> fits_signed TYPE(8) (sint (AL s) * sint b))"
proof -
  define p :: Bit16u where "p = scast (AL s) * scast b"
  have p: "sint p = sint (AL s) * sint b"
    unfolding p_def by (rule sint_product) simp
  have h: "(ucast (drop_bit 8 p) :: Bit8u) \<noteq> (if sint (ucast p :: Bit8u) < 0 then - 1 else 0) \<longleftrightarrow> \<not> fits_signed TYPE(8) (sint p)"
    using fits_signed_product [of p, where ?'a = 8] by simp
  have e: "sint p = sint (ucast (drop_bit 8 p) :: Bit8u) * 2 ^ 8 + uint (ucast p :: Bit8u)"
    using sint_halves [of p, where ?'a = 8] by simp
  let ?u = "BX_WRITE_16BIT_REG 0 p (SET_FLAGS_OSZAPC_S1S2_8 (ucast p :: Bit8u)
    (ucast (drop_bit 8 p) :: Bit8u) BX_INSTR_IMUL8 t)"
  have "IMUL_ALEb i s = Done () ?u"
    by (simp add: IMUL_ALEb_def assms Let_def p_def)
  moreover have "flag_of f ?u = Some (if f \<in> {CF, OF} then (ucast (drop_bit 8 p) :: Bit8u) \<noteq> (if sint (ucast p :: Bit8u) < 0 then - 1 else 0) else result_flags (ucast p :: Bit8u) f)" for f
    by (simp add: flag_of_IMUL)
  then have "overflow ?u (\<not> fits_signed TYPE(8) (sint p))"
    using h by (auto intro: lf_wfI simp: flag_def)
  ultimately show ?thesis
    using e p by (intro exI [of _ ?u]) simp
qed

lemma MUL_16:
  assumes "load_Ew i s = Done b t"
  shows "\<exists>u. MUL_AXEw i s = Done () u \<and>
    uint (DX u) * 2 ^ 16 + uint (AX u) = uint (AX s) * uint b \<and>
    overflow u (2 ^ 16 \<le> uint (AX s) * uint b)"
proof -
  define p :: Bit32u where "p = ucast (AX s) * ucast b"
  have p: "uint p = uint (AX s) * uint b"
    unfolding p_def by (rule uint_product) simp
  have h: "(ucast (drop_bit 16 p) :: Bit16u) \<noteq> 0 \<longleftrightarrow> 2 ^ 16 \<le> uint p"
    using high_half_0 [of p, where ?'a = 16] by simp
  have e: "uint p = uint (ucast (drop_bit 16 p) :: Bit16u) * 2 ^ 16 + uint (ucast p :: Bit16u)"
    using uint_halves [of p, where ?'a = 16] by simp
  let ?u = "BX_WRITE_16BIT_REG 2 (ucast (drop_bit 16 p) :: Bit16u) (BX_WRITE_16BIT_REG 0 (ucast p :: Bit16u)
    (SET_FLAGS_OSZAPC_S1S2_16 (ucast p :: Bit16u) (ucast (drop_bit 16 p) :: Bit16u) BX_INSTR_MUL16 t))"
  have "MUL_AXEw i s = Done () ?u"
    by (simp add: MUL_AXEw_def assms Let_def p_def)
  moreover have "flag_of f ?u = Some (if f \<in> {CF, OF} then (ucast (drop_bit 16 p) :: Bit16u) \<noteq> 0 else result_flags (ucast p :: Bit16u) f)" for f
    by (simp add: flag_of_MUL)
  then have "overflow ?u (2 ^ 16 \<le> uint p)"
    using h by (auto intro: lf_wfI simp: flag_def)
  ultimately show ?thesis
    using e p by (intro exI [of _ ?u]) simp
qed

lemma IMUL_16:
  assumes "load_Ew i s = Done b t"
  shows "\<exists>u. IMUL_AXEw i s = Done () u \<and>
    sint (DX u) * 2 ^ 16 + uint (AX u) = sint (AX s) * sint b \<and> overflow u (\<not> fits_signed TYPE(16)
    (sint (AX s) * sint b))"
proof -
  define p :: Bit32u where "p = scast (AX s) * scast b"
  have p: "sint p = sint (AX s) * sint b"
    unfolding p_def by (rule sint_product) simp
  have h: "(ucast (drop_bit 16 p) :: Bit16u) \<noteq> (if sint (ucast p :: Bit16u) < 0 then - 1 else 0) \<longleftrightarrow> \<not> fits_signed TYPE(16) (sint p)"
    using fits_signed_product [of p, where ?'a = 16] by simp
  have e: "sint p = sint (ucast (drop_bit 16 p) :: Bit16u) * 2 ^ 16 + uint (ucast p :: Bit16u)"
    using sint_halves [of p, where ?'a = 16] by simp
  let ?u = "SET_FLAGS_OSZAPC_S1S2_16 (ucast p :: Bit16u)
    (ucast (drop_bit 16 p) :: Bit16u) BX_INSTR_IMUL16 (BX_WRITE_16BIT_REG 2 (ucast (drop_bit 16 p) :: Bit16u) (BX_WRITE_16BIT_REG 0 (ucast p :: Bit16u) t))"
  have "IMUL_AXEw i s = Done () ?u"
    by (simp add: IMUL_AXEw_def assms Let_def p_def)
  moreover have "flag_of f ?u = Some (if f \<in> {CF, OF} then (ucast (drop_bit 16 p) :: Bit16u) \<noteq> (if sint (ucast p :: Bit16u) < 0 then - 1 else 0) else result_flags (ucast p :: Bit16u) f)" for f
    by (simp add: flag_of_IMUL)
  then have "overflow ?u (\<not> fits_signed TYPE(16) (sint p))"
    using h by (auto intro: lf_wfI simp: flag_def)
  ultimately show ?thesis
    using e p by (intro exI [of _ ?u]) simp
qed

lemma MUL_32:
  assumes "load_Ed i s = Done b t"
  shows "\<exists>u. MUL_EAXEd i s = Done () u \<and>
    uint (EDX u) * 2 ^ 32 + uint (EAX u) = uint (EAX s) * uint b \<and>
    overflow u (2 ^ 32 \<le> uint (EAX s) * uint b)"
proof -
  define p :: Bit64u where "p = ucast (EAX s) * ucast b"
  have p: "uint p = uint (EAX s) * uint b"
    unfolding p_def by (rule uint_product) simp
  have h: "(ucast (drop_bit 32 p) :: Bit32u) \<noteq> 0 \<longleftrightarrow> 2 ^ 32 \<le> uint p"
    using high_half_0 [of p, where ?'a = 32] by simp
  have e: "uint p = uint (ucast (drop_bit 32 p) :: Bit32u) * 2 ^ 32 + uint (ucast p :: Bit32u)"
    using uint_halves [of p, where ?'a = 32] by simp
  let ?u = "BX_WRITE_32BIT_REG 2 (ucast (drop_bit 32 p) :: Bit32u) (BX_WRITE_32BIT_REG 0 (ucast p :: Bit32u)
    (SET_FLAGS_OSZAPC_S1S2_32 (ucast p :: Bit32u) (ucast (drop_bit 32 p) :: Bit32u) BX_INSTR_MUL32 t))"
  have "MUL_EAXEd i s = Done () ?u"
    by (simp add: MUL_EAXEd_def assms Let_def p_def)
  moreover have "flag_of f ?u = Some (if f \<in> {CF, OF} then (ucast (drop_bit 32 p) :: Bit32u) \<noteq> 0 else result_flags (ucast p :: Bit32u) f)" for f
    by (simp add: flag_of_MUL)
  then have "overflow ?u (2 ^ 32 \<le> uint p)"
    using h by (auto intro: lf_wfI simp: flag_def)
  ultimately show ?thesis
    using e p by (intro exI [of _ ?u]) simp
qed

lemma IMUL_32:
  assumes "load_Ed i s = Done b t"
  shows "\<exists>u. IMUL_EAXEd i s = Done () u \<and>
    sint (EDX u) * 2 ^ 32 + uint (EAX u) = sint (EAX s) * sint b \<and>
    overflow u (\<not> fits_signed TYPE(32) (sint (EAX s) * sint b))"
proof -
  define p :: Bit64u where "p = scast (EAX s) * scast b"
  have p: "sint p = sint (EAX s) * sint b"
    unfolding p_def by (rule sint_product) simp
  have h: "(ucast (drop_bit 32 p) :: Bit32u) \<noteq> (if sint (ucast p :: Bit32u) < 0 then - 1 else 0) \<longleftrightarrow> \<not> fits_signed TYPE(32) (sint p)"
    using fits_signed_product [of p, where ?'a = 32] by simp
  have e: "sint p = sint (ucast (drop_bit 32 p) :: Bit32u) * 2 ^ 32 + uint (ucast p :: Bit32u)"
    using sint_halves [of p, where ?'a = 32] by simp
  let ?u = "SET_FLAGS_OSZAPC_S1S2_32 (ucast p :: Bit32u)
    (ucast (drop_bit 32 p) :: Bit32u) BX_INSTR_IMUL32 (BX_WRITE_32BIT_REG 2 (ucast (drop_bit 32 p) :: Bit32u) (BX_WRITE_32BIT_REG 0 (ucast p :: Bit32u) t))"
  have "IMUL_EAXEd i s = Done () ?u"
    by (simp add: IMUL_EAXEd_def assms Let_def p_def)
  moreover have "flag_of f ?u = Some (if f \<in> {CF, OF} then (ucast (drop_bit 32 p) :: Bit32u) \<noteq> (if sint (ucast p :: Bit32u) < 0 then - 1 else 0) else result_flags (ucast p :: Bit32u) f)" for f
    by (simp add: flag_of_IMUL)
  then have "overflow ?u (\<not> fits_signed TYPE(32) (sint p))"
    using h by (auto intro: lf_wfI simp: flag_def)
  ultimately show ?thesis
    using e p by (intro exI [of _ ?u]) simp
qed

text \<open>C24
  Unsigned multiplication is exact at every width: if the operand (register or memory) is read,
  the accumulator pair holds the product of the accumulator and the operand as an unsigned number,
  and CF and OF are set exactly if the product does not fit in the operand's width.\<close>

theorem mul_exact:
  "(load_Eb i s = Done b8 t \<longrightarrow>
     (\<exists>u. MUL_ALEb i s = Done () u \<and> uint (AX u) = uint (AL s) * uint b8 \<and>
       overflow u (2 ^ 8 \<le> uint (AL s) * uint b8))) \<and>
   (load_Ew i s = Done b16 t \<longrightarrow>
     (\<exists>u. MUL_AXEw i s = Done () u \<and>
       uint (DX u) * 2 ^ 16 + uint (AX u) = uint (AX s) * uint b16 \<and>
       overflow u (2 ^ 16 \<le> uint (AX s) * uint b16))) \<and>
   (load_Ed i s = Done b32 t \<longrightarrow>
     (\<exists>u. MUL_EAXEd i s = Done () u \<and>
       uint (EDX u) * 2 ^ 32 + uint (EAX u) = uint (EAX s) * uint b32 \<and>
       overflow u (2 ^ 32 \<le> uint (EAX s) * uint b32)))"
  using MUL_8 [of i s b8 t] MUL_16 [of i s b16 t] MUL_32 [of i s b32 t] by blast

lemma mul_exact_witness:
  "(\<exists>u. MUL_ALEb (reg_instr 1 0) (boot_regs 0xfffffff1 0x1f 0) = Done () u \<and>
    uint (AX u) = uint (AL (boot_regs 0xfffffff1 0x1f 0)) * uint (0x1f :: Bit8u) \<and>
    overflow u (2 ^ 8 \<le> uint (AL (boot_regs 0xfffffff1 0x1f 0)) * uint (0x1f :: Bit8u))) \<and>
   (\<exists>u. MUL_AXEw (reg_instr 1 0) (boot_regs 0xfffffff1 0x1f 0) = Done () u \<and>
     uint (DX u) * 2 ^ 16 + uint (AX u) = uint (AX (boot_regs 0xfffffff1 0x1f 0)) * uint (0x1f :: Bit16u) \<and> overflow u (2 ^ 16 \<le> uint (AX (boot_regs 0xfffffff1 0x1f 0)) * uint (0x1f :: Bit16u))) \<and>
   (\<exists>u. MUL_EAXEd (reg_instr 1 0) (boot_regs 0xfffffff1 0x1f 0) = Done () u \<and>
     uint (EDX u) * 2 ^ 32 + uint (EAX u) = uint (EAX (boot_regs 0xfffffff1 0x1f 0)) * uint (0x1f :: Bit32u) \<and> overflow u (2 ^ 32 \<le> uint (EAX (boot_regs 0xfffffff1 0x1f 0)) * uint (0x1f :: Bit32u)))"
  using mul_exact [of "reg_instr 1 0" "boot_regs 0xfffffff1 0x1f 0" "0x1f" "boot_regs 0xfffffff1 0x1f 0" "0x1f" "0x1f"]
  by (simp add: load_Eb_def load_Ew_def load_Ed_def BX_READ_8BIT_REG_def BX_READ_32BIT_REG_def)

text \<open>C25
  Signed multiplication is exact at every width: the accumulator pair holds the product as a
  signed number, and CF and OF are set exactly if it does not fit in the operand's width.\<close>

theorem imul_exact:
  "(load_Eb i s = Done b8 t \<longrightarrow>
     (\<exists>u. IMUL_ALEb i s = Done () u \<and> sint (AX u) = sint (AL s) * sint b8 \<and>
       overflow u (\<not> fits_signed TYPE(8) (sint (AL s) * sint b8)))) \<and>
   (load_Ew i s = Done b16 t \<longrightarrow>
     (\<exists>u. IMUL_AXEw i s = Done () u \<and>
       sint (DX u) * 2 ^ 16 + uint (AX u) = sint (AX s) * sint b16 \<and>
       overflow u (\<not> fits_signed TYPE(16) (sint (AX s) * sint b16)))) \<and>
   (load_Ed i s = Done b32 t \<longrightarrow>
     (\<exists>u. IMUL_EAXEd i s = Done () u \<and>
       sint (EDX u) * 2 ^ 32 + uint (EAX u) = sint (EAX s) * sint b32 \<and>
       overflow u (\<not> fits_signed TYPE(32) (sint (EAX s) * sint b32))))"
  using IMUL_8 [of i s b8 t] IMUL_16 [of i s b16 t] IMUL_32 [of i s b32 t] by blast

lemma imul_exact_witness:
  "(\<exists>u. IMUL_ALEb (reg_instr 1 0) (boot_regs 0xfffffff1 0x1f 0) = Done () u \<and>
    sint (AX u) = sint (AL (boot_regs 0xfffffff1 0x1f 0)) * sint (0x1f :: Bit8u) \<and>
    overflow u (\<not> fits_signed TYPE(8)
    (sint (AL (boot_regs 0xfffffff1 0x1f 0)) * sint (0x1f :: Bit8u)))) \<and>
   (\<exists>u. IMUL_AXEw (reg_instr 1 0) (boot_regs 0xfffffff1 0x1f 0) = Done () u \<and>
     sint (DX u) * 2 ^ 16 + uint (AX u) = sint (AX (boot_regs 0xfffffff1 0x1f 0)) * sint (0x1f :: Bit16u) \<and> overflow u (\<not> fits_signed TYPE(16) (sint (AX (boot_regs 0xfffffff1 0x1f 0)) * sint (0x1f :: Bit16u)))) \<and>
   (\<exists>u. IMUL_EAXEd (reg_instr 1 0) (boot_regs 0xfffffff1 0x1f 0) = Done () u \<and>
     sint (EDX u) * 2 ^ 32 + uint (EAX u) = sint (EAX (boot_regs 0xfffffff1 0x1f 0)) * sint (0x1f :: Bit32u) \<and> overflow u (\<not> fits_signed TYPE(32) (sint (EAX (boot_regs 0xfffffff1 0x1f 0)) * sint (0x1f :: Bit32u))))"
  using imul_exact [of "reg_instr 1 0" "boot_regs 0xfffffff1 0x1f 0" "0x1f" "boot_regs 0xfffffff1 0x1f 0" "0x1f" "0x1f"]
  by (simp add: load_Eb_def load_Ew_def load_Ed_def BX_READ_8BIT_REG_def BX_READ_32BIT_REG_def)section \<open>Division\<close>

text \<open>
  Truncating division over the integers: \<open>n = q * d + r\<close> with a remainder smaller than
  the divisor that has the sign of the dividend. For \<open>d \<noteq> 0\<close> exactly one pair fits,
  for \<open>d = 0\<close> none.
\<close>

definition quot_rem :: "int \<Rightarrow> int \<Rightarrow> int \<Rightarrow> int \<Rightarrow> bool" where
  "quot_rem n d q r \<longleftrightarrow> n = q * d + r \<and> \<bar>r\<bar> < \<bar>d\<bar> \<and>
    (r \<noteq> 0 \<longrightarrow> sgn r = sgn n)"

lemma quot_rem_exists:
  assumes "d \<noteq> 0"
  shows "quot_rem n d (n sdiv d) (n smod d)"
proof -
  have *: "n smod d = sgn n * (\<bar>n\<bar> mod \<bar>d\<bar>)"
    by (rule smod_int_alt_def)
  have "\<bar>n\<bar> mod \<bar>d\<bar> < \<bar>d\<bar>" "0 \<le> \<bar>n\<bar> mod \<bar>d\<bar>" using assms by simp_all
  then have "\<bar>n smod d\<bar> < \<bar>d\<bar>" "n smod d \<noteq> 0 \<longrightarrow>
    sgn (n smod d) = sgn n"
    unfolding * by (auto simp: abs_mult sgn_mult abs_sgn_eq)
  then show ?thesis
    by (simp add: quot_rem_def smod_sdiv_mult_eq sdiv_mult_smod_eq)
qed

lemma quot_rem_unique:
  assumes "quot_rem n d q r"
  shows "q = n sdiv d" "r = n smod d"
proof -
  let ?q = "n sdiv d" and ?r = "n smod d"
  have "d \<noteq> 0" using assms by (auto simp: quot_rem_def)
  then have e: "quot_rem n d ?q ?r" by (rule quot_rem_exists)
  have "(q - ?q) * d = ?r - r"
    using assms e by (simp add: quot_rem_def algebra_simps)
  moreover have "\<bar>?r - r\<bar> < \<bar>d\<bar>"
    using assms e by (auto simp: quot_rem_def sgn_if split: if_splits)
  ultimately have "\<bar>q - ?q\<bar> * \<bar>d\<bar> < 1 * \<bar>d\<bar>"
    by (simp flip: abs_mult)
  then have "\<bar>q - ?q\<bar> < 1"
    using mult_less_cancel_right_pos [of "\<bar>d\<bar>" "\<bar>q - ?q\<bar>" 1] \<open>d \<noteq> 0\<close> by simp
  then show "q = ?q" by simp
  with \<open>(q - ?q) * d = ?r - r\<close> show "r = ?r" by simp
qed

lemma ucast_down_up:
  fixes w :: "'a::len word"
  assumes "LENGTH('b::len) = 2 * LENGTH('a)"
  shows "ucast (ucast w :: 'b word) = w"
  by (rule bit_word_eqI) (use assms in \<open>auto simp: bit_simps\<close>)

text \<open>Unsigned division of a double-width word.\<close>

lemma quot_rem_unsigned:
  fixes n :: "'b::len word" and d :: "'a::len word"
  assumes "LENGTH('b) = 2 * LENGTH('a)" "d \<noteq> 0"
  defines "q \<equiv> (ucast (n div ucast d) :: 'a word)"
  shows "n div ucast d = ucast q \<Longrightarrow> quot_rem (uint n) (uint d) (uint q)
    (uint (ucast (n mod ucast d) :: 'a word))"
    and "n div ucast d \<noteq> ucast q \<Longrightarrow> \<not> quot_rem (uint n) (uint d)
      (uint (q' :: 'a word)) r"
proof -
  have up: "uint (ucast w :: 'b word) = uint w" for w :: "'a word"
    using assms(1) by (simp add: uint_ucast_up)
  have d: "0 < uint d"
    using assms(2) unsigned_greater_eq [of d, where ?'a = int] unsigned_eq_0_iff [of d, where ?'a = int] by linarith
  have div: "uint (n div ucast d) = uint n div uint d" "uint (n mod ucast d) = uint n mod uint d"
    by (simp_all add: uint_div_distrib uint_mod_distrib up)
  have s: "uint n sdiv uint d = uint n div uint d" "uint n smod uint d = uint n mod uint d"
    using assms(2) by (simp_all add: signed_divide_int_eq_divide_int signed_modulo_int_eq_modulo_int)
  have r: "uint (ucast (n mod ucast d) :: 'a word) = uint n mod uint d"
  proof -
    have "uint n mod uint d < 2 ^ LENGTH('a)"
      using pos_mod_bound [OF d, of "uint n"] unsigned_less [of d, where ?'a = int] by linarith
    then show ?thesis
      using d by (simp add: unsigned_ucast_eq div take_bit_int_eq_self)
  qed
  show "quot_rem (uint n) (uint d) (uint q)
    (uint (ucast (n mod ucast d) :: 'a word))" if "n div ucast d = ucast q"
  proof -
    have "uint q = uint n div uint d"
      by (simp only: up [symmetric, of q] that [symmetric] div)
    with quot_rem_exists [of "uint d" "uint n"] d show ?thesis
      by (simp only: s r)
  qed
  show "\<not> quot_rem (uint n) (uint d) (uint q') r" if "n div ucast d \<noteq> ucast q"
  proof
    assume "quot_rem (uint n) (uint d) (uint q') r"
    then have "uint q' = uint (n div ucast d)"
      by (auto dest: quot_rem_unique(1) simp: s div)
    then have "n div ucast d = ucast q'"
      by (intro unsigned_word_eqI [where ?'a = int]) (simp add: up)
    then have "q = q'"
      unfolding q_def by (simp add: ucast_down_up [OF assms(1)])
    with that \<open>n div ucast d = ucast q'\<close> show False by simp
  qed
qed

lemma sint_of_in_range:
  "sint (word_of_int k :: 'a::len word) = k" if "- (2 ^ (LENGTH('a) - 1)) \<le> k" "k < 2 ^ (LENGTH('a) - 1)"
  unfolding sint_sbintrunc' using that by (simp add: signed_take_bit_int_eq_self)

text \<open>Signed division; only the smallest number divided by \<open>- 1\<close> leaves the double width.\<close>

lemma sdiv_in_range:
  fixes n :: "'b::len word" and d :: "'a::len word"
  assumes "\<not> (sint n = - (2 ^ (LENGTH('b) - 1)) \<and> d = - 1)"
  shows "sint (word_of_int (sint n sdiv sint d) :: 'b word) = sint n sdiv sint d"
proof -
  define m :: int where "m = 2 ^ (LENGTH('b) - 1)"
  have n: "- m \<le> sint n" "sint n < m" using sint_range [of n] by (simp_all add: m_def)
  have "- m \<le> sint n sdiv sint d \<and> sint n sdiv sint d < m"
  proof (cases "sint d = - 1")
    case True
    then have "d = - 1" using signed_word_eqI [of d "- 1"] by simp
    with assms n True show ?thesis by (auto simp: m_def)
  next
    case False
    define q where "q = sint n sdiv sint d"
    have "- \<bar>sint n\<bar> \<le> q" "q \<le> \<bar>sint n\<bar>"
      using sdiv_int_range [of "sint n" "sint d"] by (simp_all add: q_def)
    moreover have "q \<noteq> - sint n" if "sint n = - m"
      using that False int_sdiv_negated_is_minus1 [of "sint n" "sint d"] by (simp add: q_def m_def)
    ultimately have "- m \<le> q \<and> q < m"
      using n by (cases "sint n = - m") linarith+
    then show ?thesis by (simp only: q_def)
  qed
  then show ?thesis
    unfolding m_def by (intro sint_of_in_range) simp_all
qed

lemma quot_rem_signed:
  fixes n :: "'b::len word" and d :: "'a::len word"
  assumes "LENGTH('b) = 2 * LENGTH('a)" "d \<noteq> 0" "\<not> (sint n = - (2 ^ (LENGTH('b) - 1)) \<and>
    d = - 1)"
  defines "Q \<equiv> (word_of_int (sint n sdiv sint d) :: 'b word)"
  defines "q \<equiv> (ucast Q :: 'a word)"
  shows "sint Q = sint q \<Longrightarrow> quot_rem (sint n) (sint d) (sint q)
    (sint (word_of_int (sint n smod sint d) :: 'a word))"
    and "sint Q \<noteq> sint q \<Longrightarrow> \<not> quot_rem (sint n) (sint d) (sint (q' :: 'a word)) r"
proof -
  have d: "sint d \<noteq> 0" using assms(2) signed_word_eqI [of d 0] by auto
  have Q: "sint Q = sint n sdiv sint d"
    unfolding Q_def by (rule sdiv_in_range) (rule assms(3))
  have "\<bar>sint n smod sint d\<bar> < \<bar>sint d\<bar>"
    using quot_rem_exists [OF d, of "sint n"] by (simp add: quot_rem_def)
  then have r: "sint (word_of_int (sint n smod sint d) :: 'a word) = sint n smod sint d"
    using sint_range [of d] by (intro sint_of_in_range) linarith+
  show "quot_rem (sint n) (sint d) (sint q)
    (sint (word_of_int (sint n smod sint d) :: 'a word))" if "sint Q = sint q"
    using quot_rem_exists [OF d, of "sint n"] by (simp only: r flip: that Q)
  show "\<not> quot_rem (sint n) (sint d) (sint q') r" if "sint Q \<noteq> sint q"
  proof
    assume "quot_rem (sint n) (sint d) (sint q') r"
    then have q': "sint q' = sint Q"
      by (auto dest: quot_rem_unique(1) simp: Q)
    have "sint q = signed_take_bit (LENGTH('a) - 1) (sint Q)"
      unfolding q_def by (rule bit_eqI)
        (use assms(1) in \<open>auto simp: bit_simps min_def dest: bit_imp_le_length\<close>)
    also have "\<dots> = sint Q"
      unfolding q' [symmetric] using sint_range [of q'] by (intro signed_take_bit_int_eq_self) simp_all
    finally show False using that by simp
  qed
qed


lemma division_outcome:
  assumes "C \<Longrightarrow> Q q0 r0" and "\<And>q r. \<not> C \<Longrightarrow> \<not> Q' q r" and "run = (if \<not> C then E else D q0 r0)"
  shows "(\<exists>q r. Q q r \<and> run = D q r) \<or> ((\<nexists>q r. Q' q r) \<and> run = E)"
  using assms by auto

text \<open>The dividend in a register pair.\<close>

lemma concat_halves:
  fixes h l :: "'a::len word"
  assumes "LENGTH('b::len) = 2 * LENGTH('a)"
  defines "p \<equiv> (push_bit LENGTH('a) (ucast h) OR ucast l :: 'b word)"
  shows "uint p = uint h * 2 ^ LENGTH('a) + uint l" "sint p = sint h * 2 ^ LENGTH('a) + uint l"
proof -
  have "ucast (drop_bit LENGTH('a) p) = h" "ucast p = l"
    unfolding p_def by (rule bit_word_eqI; use assms(1) in \<open>auto simp: bit_simps dest: bit_imp_le_length\<close>)+
  then show "uint p = uint h * 2 ^ LENGTH('a) + uint l" "sint p = sint h * 2 ^ LENGTH('a) + uint l"
    using uint_halves [OF assms(1), of p] sint_halves [OF assms(1), of p] by simp_all
qed

lemma plus_eq_or_halves:
  "push_bit 32 (ucast (h :: Bit32u)) + ucast (l :: Bit32u) = (push_bit 32 (ucast h) OR ucast l :: Bit64u)"
proof (rule disjunctive_add)
  fix k show "\<not> bit (push_bit 32 (ucast h) :: Bit64u) k \<or> \<not> bit (ucast l :: Bit64u) k"
    by (auto simp: bit_simps dest: bit_imp_le_length)
qed

lemma DIV_8:
  assumes "load_Eb i s = Done d t"
  shows "((\<exists>q r. quot_rem (uint (AX s)) (uint d) (uint q) (uint r) \<and> DIV_ALEb i s = Done ()
    (write_reg_rh 0 r (write_reg_rl 0 q t))) \<or>
      ((\<nexists>q r. quot_rem (uint (AX s)) (uint d) (uint (q :: Bit8u)) r) \<and> DIV_ALEb i s =
        Except BX_DE_EXCEPTION 0 t))"
proof -
  define p :: Bit16u where "p = AX s"
  have p: "uint p = uint (AX s)"
    by (simp add: p_def)
  show ?thesis
  proof (cases "d = 0")
    case True
    then show ?thesis by (simp add: DIV_ALEb_def assms quot_rem_def)
  next
    case False
    note q = quot_rem_unsigned [of d p, OF _ False]
    have "DIV_ALEb i s = (if p div ucast d \<noteq> ucast (ucast (p div ucast d) :: Bit8u) then Except BX_DE_EXCEPTION 0 t
        else Done () (write_reg_rh 0 (ucast (p mod ucast d)) (write_reg_rl 0 (ucast (p div ucast d)) t)))"
      using False by (simp add: DIV_ALEb_def assms Let_def p_def)
    then show ?thesis
      unfolding p [symmetric] by (rule division_outcome [of "p div ucast d = ucast (ucast (p div ucast d) :: Bit8u)", rotated 2]) (use q in simp_all)
  qed
qed

lemma IDIV_8:
  assumes "load_Eb i s = Done d t"
  shows "((\<exists>q r. quot_rem (sint (AX s)) (sint d) (sint q) (sint r) \<and> IDIV_ALEb i s = Done ()
    (write_reg_rh 0 r (write_reg_rl 0 q t))) \<or>
      ((\<nexists>q r. quot_rem (sint (AX s)) (sint d) (sint (q :: Bit8u)) r) \<and> IDIV_ALEb i s =
        Except BX_DE_EXCEPTION 0 t))"
proof -
  define p :: Bit16u where "p = AX s"
  have p: "sint p = sint (AX s)"
    by (simp add: p_def)
  have mn: "p = 0x8000 \<longleftrightarrow> sint p = - (2 ^ 15)"
    using signed_word_eqI [of p "0x8000"] by auto
  define Q :: Bit16u where "Q = word_of_int (sint p sdiv sint d)"
  define R :: Bit8u where "R = word_of_int (sint p smod sint d)"
  have run: "IDIV_ALEb i s = (if d = 0 then Except BX_DE_EXCEPTION 0 t
      else if p = 0x8000 \<and> d = - 1 then Except BX_DE_EXCEPTION 0 t
      else if sint Q \<noteq> sint (ucast Q :: Bit8u) then Except BX_DE_EXCEPTION 0 t
      else Done () (write_reg_rh 0 R (write_reg_rl 0 (ucast Q) t)))"
    by (simp add: IDIV_ALEb_def assms Let_def p_def Q_def R_def)
  consider "d = 0" | "sint p = - (2 ^ 15)" "d = - 1"
    | "d \<noteq> 0" "\<not> (sint p = - (2 ^ (LENGTH(16) - 1)) \<and> d = - 1)"
    by auto
  then show ?thesis
  proof cases
    case 1
    then show ?thesis by (simp add: run quot_rem_def)
  next
    case 2
    have "sint q \<noteq> 2 ^ 15" for q :: Bit8u
      using sint_range(2) [of q] by simp
    then have "\<nexists>q r. quot_rem (sint p) (sint d) (sint (q :: Bit8u)) r"
      using 2 by (auto simp: quot_rem_def)
    with 2 show ?thesis unfolding p [symmetric] by (simp add: run mn)
  next
    case 3
    note q = quot_rem_signed [of d p, OF _ 3, folded Q_def R_def]
    have "IDIV_ALEb i s = (if sint Q \<noteq> sint (ucast Q :: Bit8u) then Except BX_DE_EXCEPTION 0 t
        else Done () (write_reg_rh 0 R (write_reg_rl 0 (ucast Q) t)))"
      using 3 by (auto simp: run mn)
    then show ?thesis
      unfolding p [symmetric] by (rule division_outcome [of "sint Q = sint (ucast Q :: Bit8u)", rotated 2])
        (use q in simp_all)
  qed
qed

lemma DIV_16:
  assumes "load_Ew i s = Done d t"
  shows "((\<exists>q r. quot_rem (uint (DX s) * 2 ^ 16 + uint (AX s)) (uint d) (uint q) (uint r) \<and>
    DIV_AXEw i s = Done () (BX_WRITE_16BIT_REG 2 r (BX_WRITE_16BIT_REG 0 q t))) \<or>
      ((\<nexists>q r. quot_rem (uint (DX s) * 2 ^ 16 + uint (AX s)) (uint d) (uint (q :: Bit16u)) r) \<and>
        DIV_AXEw i s = Except BX_DE_EXCEPTION 0 t))"
proof -
  define p :: Bit32u where "p = push_bit 16 (ucast (DX s)) OR ucast (AX s)"
  have p: "uint p = uint (DX s) * 2 ^ 16 + uint (AX s)"
    using concat_halves [of "DX s" "AX s", where ?'b = 32] by (simp add: p_def)
  show ?thesis
  proof (cases "d = 0")
    case True
    then show ?thesis by (simp add: DIV_AXEw_def assms quot_rem_def)
  next
    case False
    note q = quot_rem_unsigned [of d p, OF _ False]
    have "DIV_AXEw i s = (if p div ucast d \<noteq> ucast (ucast (p div ucast d) :: Bit16u) then Except BX_DE_EXCEPTION 0 t
        else Done () (BX_WRITE_16BIT_REG 2 (ucast (p mod ucast d))
          (BX_WRITE_16BIT_REG 0 (ucast (p div ucast d)) t)))"
      using False by (simp add: DIV_AXEw_def assms Let_def p_def)
    then show ?thesis
      unfolding p [symmetric] by (rule division_outcome [of "p div ucast d = ucast (ucast (p div ucast d) :: Bit16u)", rotated 2]) (use q in simp_all)
  qed
qed

lemma IDIV_16:
  assumes "load_Ew i s = Done d t"
  shows "((\<exists>q r. quot_rem (sint (DX s) * 2 ^ 16 + uint (AX s)) (sint d) (sint q) (sint r) \<and>
    IDIV_AXEw i s = Done () (BX_WRITE_16BIT_REG 2 r (BX_WRITE_16BIT_REG 0 q t))) \<or>
      ((\<nexists>q r. quot_rem (sint (DX s) * 2 ^ 16 + uint (AX s)) (sint d) (sint (q :: Bit16u)) r) \<and>
        IDIV_AXEw i s = Except BX_DE_EXCEPTION 0 t))"
proof -
  define p :: Bit32u where "p = push_bit 16 (ucast (DX s)) OR ucast (AX s)"
  have p: "sint p = sint (DX s) * 2 ^ 16 + uint (AX s)"
    using concat_halves [of "DX s" "AX s", where ?'b = 32] by (simp add: p_def)
  have mn: "p = 0x80000000 \<longleftrightarrow> sint p = - (2 ^ 31)"
    using signed_word_eqI [of p "0x80000000"] by auto
  define Q :: Bit32u where "Q = word_of_int (sint p sdiv sint d)"
  define R :: Bit16u where "R = word_of_int (sint p smod sint d)"
  have run: "IDIV_AXEw i s = (if d = 0 then Except BX_DE_EXCEPTION 0 t
      else if p = 0x80000000 \<and> d = - 1 then Except BX_DE_EXCEPTION 0 t
      else if sint Q \<noteq> sint (ucast Q :: Bit16u) then Except BX_DE_EXCEPTION 0 t
      else Done () (BX_WRITE_16BIT_REG 2 R (BX_WRITE_16BIT_REG 0 (ucast Q) t)))"
    by (simp add: IDIV_AXEw_def assms Let_def p_def Q_def R_def)
  consider "d = 0" | "sint p = - (2 ^ 31)" "d = - 1"
    | "d \<noteq> 0" "\<not> (sint p = - (2 ^ (LENGTH(32) - 1)) \<and> d = - 1)"
    by auto
  then show ?thesis
  proof cases
    case 1
    then show ?thesis by (simp add: run quot_rem_def)
  next
    case 2
    have "sint q \<noteq> 2 ^ 31" for q :: Bit16u
      using sint_range(2) [of q] by simp
    then have "\<nexists>q r. quot_rem (sint p) (sint d) (sint (q :: Bit16u)) r"
      using 2 by (auto simp: quot_rem_def)
    with 2 show ?thesis unfolding p [symmetric] by (simp add: run mn)
  next
    case 3
    note q = quot_rem_signed [of d p, OF _ 3, folded Q_def R_def]
    have "IDIV_AXEw i s = (if sint Q \<noteq> sint (ucast Q :: Bit16u) then Except BX_DE_EXCEPTION 0 t
        else Done () (BX_WRITE_16BIT_REG 2 R (BX_WRITE_16BIT_REG 0 (ucast Q) t)))"
      using 3 by (auto simp: run mn)
    then show ?thesis
      unfolding p [symmetric] by (rule division_outcome [of "sint Q = sint (ucast Q :: Bit16u)", rotated 2])
        (use q in simp_all)
  qed
qed

lemma DIV_32:
  assumes "load_Ed i s = Done d t"
  shows "((\<exists>q r. quot_rem (uint (EDX s) * 2 ^ 32 + uint (EAX s)) (uint d) (uint q) (uint r) \<and>
    DIV_EAXEd i s = Done () (BX_WRITE_32BIT_REG 2 r (BX_WRITE_32BIT_REG 0 q t))) \<or>
      ((\<nexists>q r. quot_rem (uint (EDX s) * 2 ^ 32 + uint (EAX s)) (uint d)
        (uint (q :: Bit32u)) r) \<and> DIV_EAXEd i s = Except BX_DE_EXCEPTION 0 t))"
proof -
  define p :: Bit64u where "p = push_bit 32 (ucast (EDX s)) OR ucast (EAX s)"
  have p: "uint p = uint (EDX s) * 2 ^ 32 + uint (EAX s)"
    using concat_halves [of "EDX s" "EAX s", where ?'b = 64] by (simp add: p_def)
  show ?thesis
  proof (cases "d = 0")
    case True
    then show ?thesis by (simp add: DIV_EAXEd_def assms quot_rem_def plus_eq_or_halves)
  next
    case False
    note q = quot_rem_unsigned [of d p, OF _ False]
    have "DIV_EAXEd i s = (if p div ucast d \<noteq> ucast (ucast (p div ucast d) :: Bit32u) then Except BX_DE_EXCEPTION 0 t
        else Done () (BX_WRITE_32BIT_REG 2 (ucast (p mod ucast d))
          (BX_WRITE_32BIT_REG 0 (ucast (p div ucast d)) t)))"
      using False by (simp add: DIV_EAXEd_def assms Let_def p_def plus_eq_or_halves)
    then show ?thesis
      unfolding p [symmetric] by (rule division_outcome [of "p div ucast d = ucast (ucast (p div ucast d) :: Bit32u)", rotated 2]) (use q in simp_all)
  qed
qed

lemma IDIV_32:
  assumes "load_Ed i s = Done d t"
  shows "((\<exists>q r. quot_rem (sint (EDX s) * 2 ^ 32 + uint (EAX s)) (sint d) (sint q) (sint r) \<and>
    IDIV_EAXEd i s = Done () (BX_WRITE_32BIT_REG 2 r (BX_WRITE_32BIT_REG 0 q t))) \<or>
      ((\<nexists>q r. quot_rem (sint (EDX s) * 2 ^ 32 + uint (EAX s)) (sint d)
        (sint (q :: Bit32u)) r) \<and> IDIV_EAXEd i s = Except BX_DE_EXCEPTION 0 t))"
proof -
  define p :: Bit64u where "p = push_bit 32 (ucast (EDX s)) OR ucast (EAX s)"
  have p: "sint p = sint (EDX s) * 2 ^ 32 + uint (EAX s)"
    using concat_halves [of "EDX s" "EAX s", where ?'b = 64] by (simp add: p_def)
  have mn: "p = 0x8000000000000000 \<longleftrightarrow> sint p = - (2 ^ 63)"
    using signed_word_eqI [of p "0x8000000000000000"] by auto
  define Q :: Bit64u where "Q = word_of_int (sint p sdiv sint d)"
  define R :: Bit32u where "R = word_of_int (sint p smod sint d)"
  have run: "IDIV_EAXEd i s = (if d = 0 then Except BX_DE_EXCEPTION 0 t
      else if p = 0x8000000000000000 \<and> d = - 1 then Except BX_DE_EXCEPTION 0 t
      else if sint Q \<noteq> sint (ucast Q :: Bit32u) then Except BX_DE_EXCEPTION 0 t
      else Done () (BX_WRITE_32BIT_REG 2 R (BX_WRITE_32BIT_REG 0 (ucast Q) t)))"
    by (simp add: IDIV_EAXEd_def assms Let_def p_def Q_def R_def)
  consider "d = 0" | "sint p = - (2 ^ 63)" "d = - 1"
    | "d \<noteq> 0" "\<not> (sint p = - (2 ^ (LENGTH(64) - 1)) \<and> d = - 1)"
    by auto
  then show ?thesis
  proof cases
    case 1
    then show ?thesis by (simp add: run quot_rem_def)
  next
    case 2
    have "sint q \<noteq> 2 ^ 63" for q :: Bit32u
      using sint_range(2) [of q] by simp
    then have "\<nexists>q r. quot_rem (sint p) (sint d) (sint (q :: Bit32u)) r"
      using 2 by (auto simp: quot_rem_def)
    with 2 show ?thesis unfolding p [symmetric] by (simp add: run mn)
  next
    case 3
    note q = quot_rem_signed [of d p, OF _ 3, folded Q_def R_def]
    have "IDIV_EAXEd i s = (if sint Q \<noteq> sint (ucast Q :: Bit32u) then Except BX_DE_EXCEPTION 0 t
        else Done () (BX_WRITE_32BIT_REG 2 R (BX_WRITE_32BIT_REG 0 (ucast Q) t)))"
      using 3 by (auto simp: run mn)
    then show ?thesis
      unfolding p [symmetric] by (rule division_outcome [of "sint Q = sint (ucast Q :: Bit32u)", rotated 2])
        (use q in simp_all)
  qed
qed

text \<open>C26
  Unsigned division at every width: for the dividend in the accumulator pair and the divisor
  read, the instruction ends with quotient and remainder in the pair where the quotient fits in
  its register, and raises a divide error that changes no register exactly where no quotient fits,
  which includes a divisor 0.\<close>

theorem div_exact:
  "(load_Eb i s = Done b8 t \<longrightarrow>
     ((\<exists>q r. quot_rem (uint (AX s)) (uint b8) (uint q) (uint r) \<and> DIV_ALEb i s = Done ()
       (write_reg_rh 0 r (write_reg_rl 0 q t))) \<or>
      ((\<nexists>q r. quot_rem (uint (AX s)) (uint b8) (uint (q :: Bit8u)) r) \<and> DIV_ALEb i s =
        Except BX_DE_EXCEPTION 0 t))) \<and>
   (load_Ew i s = Done b16 t \<longrightarrow>
     ((\<exists>q r. quot_rem (uint (DX s) * 2 ^ 16 + uint (AX s)) (uint b16) (uint q) (uint r) \<and>
       DIV_AXEw i s = Done () (BX_WRITE_16BIT_REG 2 r (BX_WRITE_16BIT_REG 0 q t))) \<or>
      ((\<nexists>q r. quot_rem (uint (DX s) * 2 ^ 16 + uint (AX s)) (uint b16)
        (uint (q :: Bit16u)) r) \<and> DIV_AXEw i s = Except BX_DE_EXCEPTION 0 t))) \<and>
   (load_Ed i s = Done b32 t \<longrightarrow>
     ((\<exists>q r. quot_rem (uint (EDX s) * 2 ^ 32 + uint (EAX s)) (uint b32) (uint q) (uint r) \<and>
       DIV_EAXEd i s = Done () (BX_WRITE_32BIT_REG 2 r (BX_WRITE_32BIT_REG 0 q t))) \<or>
      ((\<nexists>q r. quot_rem (uint (EDX s) * 2 ^ 32 + uint (EAX s)) (uint b32)
        (uint (q :: Bit32u)) r) \<and> DIV_EAXEd i s = Except BX_DE_EXCEPTION 0 t)))"
  using DIV_8 [of i s b8 t] DIV_16 [of i s b16 t] DIV_32 [of i s b32 t] by blast

lemma div_exact_witness:
  "((\<exists>q r. quot_rem (uint (AX (boot_regs 0xffffff38 7 0xffffffff))) (uint (7 :: Bit8u)) (uint q)
    (uint r) \<and> DIV_ALEb (reg_instr 1 0) (boot_regs 0xffffff38 7 0xffffffff) = Done ()
    (write_reg_rh 0 r (write_reg_rl 0 q (boot_regs 0xffffff38 7 0xffffffff)))) \<or>
      ((\<nexists>q r. quot_rem (uint (AX (boot_regs 0xffffff38 7 0xffffffff))) (uint (7 :: Bit8u))
        (uint (q :: Bit8u)) r) \<and> DIV_ALEb (reg_instr 1 0) (boot_regs 0xffffff38 7 0xffffffff) =
        Except BX_DE_EXCEPTION 0 (boot_regs 0xffffff38 7 0xffffffff))) \<and>
   ((\<exists>q r. quot_rem (uint (DX (boot_regs 0xffffff38 7 0xffffffff)) * 2 ^ 16 + uint (AX (boot_regs 0xffffff38 7 0xffffffff))) (uint (7 :: Bit16u)) (uint q) (uint r) \<and> DIV_AXEw (reg_instr 1 0) (boot_regs 0xffffff38 7 0xffffffff) = Done () (BX_WRITE_16BIT_REG 2 r (BX_WRITE_16BIT_REG 0 q (boot_regs 0xffffff38 7 0xffffffff)))) \<or>
      ((\<nexists>q r. quot_rem (uint (DX (boot_regs 0xffffff38 7 0xffffffff)) * 2 ^ 16 + uint (AX (boot_regs 0xffffff38 7 0xffffffff))) (uint (7 :: Bit16u)) (uint (q :: Bit16u)) r) \<and> DIV_AXEw (reg_instr 1 0) (boot_regs 0xffffff38 7 0xffffffff) = Except BX_DE_EXCEPTION 0 (boot_regs 0xffffff38 7 0xffffffff))) \<and>
   ((\<exists>q r. quot_rem (uint (EDX (boot_regs 0xffffff38 7 0xffffffff)) * 2 ^ 32 + uint (EAX (boot_regs 0xffffff38 7 0xffffffff))) (uint (7 :: Bit32u)) (uint q) (uint r) \<and> DIV_EAXEd (reg_instr 1 0) (boot_regs 0xffffff38 7 0xffffffff) = Done () (BX_WRITE_32BIT_REG 2 r (BX_WRITE_32BIT_REG 0 q (boot_regs 0xffffff38 7 0xffffffff)))) \<or>
      ((\<nexists>q r. quot_rem (uint (EDX (boot_regs 0xffffff38 7 0xffffffff)) * 2 ^ 32 + uint (EAX (boot_regs 0xffffff38 7 0xffffffff))) (uint (7 :: Bit32u)) (uint (q :: Bit32u)) r) \<and> DIV_EAXEd (reg_instr 1 0) (boot_regs 0xffffff38 7 0xffffffff) = Except BX_DE_EXCEPTION 0 (boot_regs 0xffffff38 7 0xffffffff)))"
proof -
  have "load_Eb (reg_instr 1 0) (boot_regs a 7 d) = Done 7 (boot_regs a 7 d)"
    "load_Ew (reg_instr 1 0) (boot_regs a 7 d) = Done 7 (boot_regs a 7 d)"
    "load_Ed (reg_instr 1 0) (boot_regs a 7 d) = Done 7 (boot_regs a 7 d)" for a d
    by (simp_all add: load_Eb_def load_Ew_def load_Ed_def BX_READ_8BIT_REG_def BX_READ_32BIT_REG_def)
  then show ?thesis
    using div_exact [of "reg_instr 1 0" "boot_regs 0xffffff38 7 0xffffffff" 7 "boot_regs 0xffffff38 7 0xffffffff" 7 7] by blast
qed

text \<open>C27
  Signed division at every width: quotient and remainder of truncating division where the
  quotient fits in its register as a signed number, and otherwise a divide error that changes no
  register; the largest negative dividend divided by minus one is such a case.\<close>

theorem idiv_exact:
  "(load_Eb i s = Done b8 t \<longrightarrow>
     ((\<exists>q r. quot_rem (sint (AX s)) (sint b8) (sint q) (sint r) \<and> IDIV_ALEb i s = Done ()
       (write_reg_rh 0 r (write_reg_rl 0 q t))) \<or>
      ((\<nexists>q r. quot_rem (sint (AX s)) (sint b8) (sint (q :: Bit8u)) r) \<and> IDIV_ALEb i s =
        Except BX_DE_EXCEPTION 0 t))) \<and>
   (load_Ew i s = Done b16 t \<longrightarrow>
     ((\<exists>q r. quot_rem (sint (DX s) * 2 ^ 16 + uint (AX s)) (sint b16) (sint q) (sint r) \<and>
       IDIV_AXEw i s = Done () (BX_WRITE_16BIT_REG 2 r (BX_WRITE_16BIT_REG 0 q t))) \<or>
      ((\<nexists>q r. quot_rem (sint (DX s) * 2 ^ 16 + uint (AX s)) (sint b16)
        (sint (q :: Bit16u)) r) \<and> IDIV_AXEw i s = Except BX_DE_EXCEPTION 0 t))) \<and>
   (load_Ed i s = Done b32 t \<longrightarrow>
     ((\<exists>q r. quot_rem (sint (EDX s) * 2 ^ 32 + uint (EAX s)) (sint b32) (sint q) (sint r) \<and>
       IDIV_EAXEd i s = Done () (BX_WRITE_32BIT_REG 2 r (BX_WRITE_32BIT_REG 0 q t))) \<or>
      ((\<nexists>q r. quot_rem (sint (EDX s) * 2 ^ 32 + uint (EAX s)) (sint b32)
        (sint (q :: Bit32u)) r) \<and> IDIV_EAXEd i s = Except BX_DE_EXCEPTION 0 t)))"
  using IDIV_8 [of i s b8 t] IDIV_16 [of i s b16 t] IDIV_32 [of i s b32 t] by blast

lemma idiv_exact_witness:
  "((\<exists>q r. quot_rem (sint (AX (boot_regs 0xffffff38 7 0xffffffff))) (sint (7 :: Bit8u)) (sint q)
    (sint r) \<and> IDIV_ALEb (reg_instr 1 0) (boot_regs 0xffffff38 7 0xffffffff) = Done ()
    (write_reg_rh 0 r (write_reg_rl 0 q (boot_regs 0xffffff38 7 0xffffffff)))) \<or>
      ((\<nexists>q r. quot_rem (sint (AX (boot_regs 0xffffff38 7 0xffffffff))) (sint (7 :: Bit8u))
        (sint (q :: Bit8u)) r) \<and> IDIV_ALEb (reg_instr 1 0) (boot_regs 0xffffff38 7 0xffffffff) =
        Except BX_DE_EXCEPTION 0 (boot_regs 0xffffff38 7 0xffffffff))) \<and>
   ((\<exists>q r. quot_rem (sint (DX (boot_regs 0xffffff38 7 0xffffffff)) * 2 ^ 16 + uint (AX (boot_regs 0xffffff38 7 0xffffffff))) (sint (7 :: Bit16u)) (sint q) (sint r) \<and> IDIV_AXEw (reg_instr 1 0) (boot_regs 0xffffff38 7 0xffffffff) = Done () (BX_WRITE_16BIT_REG 2 r (BX_WRITE_16BIT_REG 0 q (boot_regs 0xffffff38 7 0xffffffff)))) \<or>
      ((\<nexists>q r. quot_rem (sint (DX (boot_regs 0xffffff38 7 0xffffffff)) * 2 ^ 16 + uint (AX (boot_regs 0xffffff38 7 0xffffffff))) (sint (7 :: Bit16u)) (sint (q :: Bit16u)) r) \<and> IDIV_AXEw (reg_instr 1 0) (boot_regs 0xffffff38 7 0xffffffff) = Except BX_DE_EXCEPTION 0 (boot_regs 0xffffff38 7 0xffffffff))) \<and>
   ((\<exists>q r. quot_rem (sint (EDX (boot_regs 0xffffff38 7 0xffffffff)) * 2 ^ 32 + uint (EAX (boot_regs 0xffffff38 7 0xffffffff))) (sint (7 :: Bit32u)) (sint q) (sint r) \<and> IDIV_EAXEd (reg_instr 1 0) (boot_regs 0xffffff38 7 0xffffffff) = Done () (BX_WRITE_32BIT_REG 2 r (BX_WRITE_32BIT_REG 0 q (boot_regs 0xffffff38 7 0xffffffff)))) \<or>
      ((\<nexists>q r. quot_rem (sint (EDX (boot_regs 0xffffff38 7 0xffffffff)) * 2 ^ 32 + uint (EAX (boot_regs 0xffffff38 7 0xffffffff))) (sint (7 :: Bit32u)) (sint (q :: Bit32u)) r) \<and> IDIV_EAXEd (reg_instr 1 0) (boot_regs 0xffffff38 7 0xffffffff) = Except BX_DE_EXCEPTION 0 (boot_regs 0xffffff38 7 0xffffffff)))"
proof -
  have "load_Eb (reg_instr 1 0) (boot_regs a 7 d) = Done 7 (boot_regs a 7 d)"
    "load_Ew (reg_instr 1 0) (boot_regs a 7 d) = Done 7 (boot_regs a 7 d)"
    "load_Ed (reg_instr 1 0) (boot_regs a 7 d) = Done 7 (boot_regs a 7 d)" for a d
    by (simp_all add: load_Eb_def load_Ew_def load_Ed_def BX_READ_8BIT_REG_def BX_READ_32BIT_REG_def)
  then show ?thesis
    using idiv_exact [of "reg_instr 1 0" "boot_regs 0xffffff38 7 0xffffffff" 7 "boot_regs 0xffffff38 7 0xffffffff" 7 7] by blast
qed

end
