(* ===== verification/BxShift.thy ===== *)
theory BxShift
  imports BxOperands BxFlagCtrl
begin

text \<open>
  Shifts and rotates (\<open>cpu/shift8.cc\<close>, \<open>cpu/shift16.cc\<close>,
  \<open>cpu/shift32.cc\<close>), the branches without host assembler. Every handler fetches its
  operand before it looks at the count, so a zero count still checks the memory access. C promotes
  byte and word operands to \<open>int\<close> before a shift; the bits that leave the operand's
  width are lost when the result is stored, so the shifts are taken at that width.
\<close>

text \<open>The count of the forms with an immediate, with the constant 1 and with CL.\<close>

definition shift_count :: "nat \<Rightarrow> nat \<Rightarrow> bxInstruction \<Rightarrow> Bit8u bx" where
  "shift_count imm one i =
     (if i_b1 i = imm then gets (\<lambda>_. i_Ib i)
      else if i_b1 i = one then ret 1
      else gets CL)"

section \<open>8 bits\<close>

definition ROL_Eb :: "bxInstruction \<Rightarrow> unit bx" where
  "ROL_Eb i =
     and_then (shift_count 0xc0 0xd0 i) (\<lambda>cnt.
     and_then (fetch_Eb i) (\<lambda>op1.
       if cnt AND 0x07 = 0 then
         (if cnt AND 0x18 \<noteq> 0 then update (set_flag OF ((op1 AND 1) XOR drop_bit 7 op1 \<noteq> 0) \<circ>
            set_flag CF (op1 AND 1 \<noteq> 0)) else ret ())
       else
         (let count = unat (cnt AND 0x07);
              result = push_bit count op1 OR drop_bit (8 - count) op1 in
          and_then (put_Eb i result) (\<lambda>_. update (set_flag OF (of_bool (result AND 1 \<noteq> 0) XOR drop_bit 7 result \<noteq> 0) \<circ>
            set_flag CF (result AND 1 \<noteq> 0))))))"

definition ROR_Eb :: "bxInstruction \<Rightarrow> unit bx" where
  "ROR_Eb i =
     and_then (shift_count 0xc0 0xd0 i) (\<lambda>cnt.
     and_then (fetch_Eb i) (\<lambda>op1.
       if cnt AND 0x07 = 0 then
         (if cnt AND 0x18 \<noteq> 0 then update (set_flag OF (drop_bit 7 op1 XOR (drop_bit 6 op1 AND 1) \<noteq> 0) \<circ>
            set_flag CF (drop_bit 7 op1 \<noteq> 0)) else ret ())
       else
         (let count = unat (cnt AND 0x07);
              result = drop_bit count op1 OR push_bit (8 - count) op1 in
          and_then (put_Eb i result) (\<lambda>_. update (set_flag OF ((result AND 0x80 \<noteq> 0) \<noteq> (result AND 0x40 \<noteq> 0)) \<circ>
            set_flag CF (result AND 0x80 \<noteq> 0))))))"

definition RCL_Eb :: "bxInstruction \<Rightarrow> unit bx" where
  "RCL_Eb i =
     and_then (shift_count 0xc0 0xd0 i) (\<lambda>cnt.
     let count = unat (cnt AND 0x1f) mod 9 in
     and_then (fetch_Eb i) (\<lambda>op1.
       if count = 0 then ret ()
       else
         and_then (get_flag CF) (\<lambda>cf.
         let result = (if count = 1 then push_bit 1 op1 OR of_bool cf
                        else push_bit count op1 OR push_bit (count - 1) (of_bool cf) OR drop_bit (9 - count) op1);
             temp_CF = (drop_bit (8 - count) op1 AND 1 \<noteq> 0) in
         and_then (put_Eb i result) (\<lambda>_.
           update (set_flag OF (of_bool temp_CF XOR drop_bit 7 result \<noteq> 0) \<circ> set_flag CF temp_CF)))))"

definition RCR_Eb :: "bxInstruction \<Rightarrow> unit bx" where
  "RCR_Eb i =
     and_then (shift_count 0xc0 0xd0 i) (\<lambda>cnt.
     let count = unat (cnt AND 0x1f) mod 9 in
     and_then (fetch_Eb i) (\<lambda>op1.
       if count = 0 then ret ()
       else
         and_then (get_flag CF) (\<lambda>cf.
         let result = drop_bit count op1 OR push_bit (8 - count) (of_bool cf) OR push_bit (9 - count) op1 in
         and_then (put_Eb i result) (\<lambda>_.
           update (set_flag OF ((push_bit 1 result XOR result) AND 0x80 > 0) \<circ>
                   set_flag CF (drop_bit (count - 1) op1 AND 1 \<noteq> 0))))))"

definition SHL_Eb :: "bxInstruction \<Rightarrow> unit bx" where
  "SHL_Eb i =
     and_then (shift_count 0xc0 0xd0 i) (\<lambda>cnt.
     let count = unat (cnt AND 0x1f) in
     and_then (fetch_Eb i) (\<lambda>op1.
       if count = 0 then ret ()
       else
         (let result = push_bit count op1 in
          and_then (put_Eb i result) (\<lambda>_.
          update (SET_FLAGS_OSZAPC_8 op1 (word_of_nat count) result BX_INSTR_SHL8)))))"

definition SHR_Eb :: "bxInstruction \<Rightarrow> unit bx" where
  "SHR_Eb i =
     and_then (shift_count 0xc0 0xd0 i) (\<lambda>cnt.
     let count = unat (cnt AND 0x1f) in
     and_then (fetch_Eb i) (\<lambda>op1.
       if count = 0 then ret ()
       else
         (let result = drop_bit count op1 in
          and_then (put_Eb i result) (\<lambda>_.
          update (SET_FLAGS_OSZAPC_8 op1 (word_of_nat count) result BX_INSTR_SHR8)))))"

definition SAR_Eb :: "bxInstruction \<Rightarrow> unit bx" where
  "SAR_Eb i =
     and_then (shift_count 0xc0 0xd0 i) (\<lambda>cnt.
     let count = unat (cnt AND 0x1f) in
     and_then (fetch_Eb i) (\<lambda>op1.
       if count = 0 then ret ()
       else
         (let result = (if count < 8 then
                 (if op1 AND 0x80 \<noteq> 0 then drop_bit count op1 OR push_bit (8 - count) 0xff else drop_bit count op1)
               else (if op1 AND 0x80 \<noteq> 0 then 0xff else 0)) in
          and_then (put_Eb i result) (\<lambda>_.
          update (SET_FLAGS_OSZAPC_8 op1 (word_of_nat count) result BX_INSTR_SAR8)))))"

section \<open>16 bits\<close>

definition ROL_Ew :: "bxInstruction \<Rightarrow> unit bx" where
  "ROL_Ew i =
     and_then (shift_count 0xc1 0xd1 i) (\<lambda>cnt.
     and_then (fetch_Ew i) (\<lambda>op1.
       if cnt AND 0x0f = 0 then
         (if cnt AND 0x10 \<noteq> 0 then update (set_flag CF (op1 AND 1 \<noteq> 0)) else ret ())
       else
         (let count = unat (cnt AND 0x0f);
              result = push_bit count op1 OR drop_bit (16 - count) op1 in
          and_then (put_Ew i result) (\<lambda>_. update (set_flag OF (of_bool (result AND 1 \<noteq> 0) XOR drop_bit 15 result \<noteq> 0) \<circ>
            set_flag CF (result AND 1 \<noteq> 0))))))"

definition ROR_Ew :: "bxInstruction \<Rightarrow> unit bx" where
  "ROR_Ew i =
     and_then (shift_count 0xc1 0xd1 i) (\<lambda>cnt.
     and_then (fetch_Ew i) (\<lambda>op1.
       if cnt AND 0x0f = 0 then
         (if cnt AND 0x10 \<noteq> 0 then update (set_flag CF (drop_bit 15 op1 \<noteq> 0)) else ret ())
       else
         (let count = unat (cnt AND 0x0f);
              result = drop_bit count op1 OR push_bit (16 - count) op1 in
          and_then (put_Ew i result) (\<lambda>_. update (set_flag OF ((result AND 0x8000 \<noteq> 0) \<noteq> (result AND 0x4000 \<noteq> 0)) \<circ>
            set_flag CF (result AND 0x8000 \<noteq> 0))))))"

definition RCL_Ew :: "bxInstruction \<Rightarrow> unit bx" where
  "RCL_Ew i =
     and_then (shift_count 0xc1 0xd1 i) (\<lambda>cnt.
     let count = unat (cnt AND 0x1f) mod 17 in
     and_then (fetch_Ew i) (\<lambda>op1.
       if count = 0 then ret ()
       else
         and_then (get_flag CF) (\<lambda>cf.
         let result = (if count = 1 then push_bit 1 op1 OR of_bool cf
                        else if count = 16 then push_bit 15 (of_bool cf) OR drop_bit 1 op1
                        else push_bit count op1 OR push_bit (count - 1) (of_bool cf) OR drop_bit (17 - count) op1);
             temp_CF = (drop_bit (16 - count) op1 AND 1 \<noteq> 0) in
         and_then (put_Ew i result) (\<lambda>_.
           update (set_flag OF (of_bool temp_CF XOR drop_bit 15 result \<noteq> 0) \<circ> set_flag CF temp_CF)))))"

definition RCR_Ew :: "bxInstruction \<Rightarrow> unit bx" where
  "RCR_Ew i =
     and_then (shift_count 0xc1 0xd1 i) (\<lambda>cnt.
     let count = unat (cnt AND 0x1f) mod 17 in
     and_then (fetch_Ew i) (\<lambda>op1.
       if count = 0 then ret ()
       else
         and_then (get_flag CF) (\<lambda>cf.
         let result = drop_bit count op1 OR push_bit (16 - count) (of_bool cf) OR push_bit (17 - count) op1 in
         and_then (put_Ew i result) (\<lambda>_.
           update (set_flag OF ((push_bit 1 result XOR result) AND 0x8000 > 0) \<circ>
                   set_flag CF (drop_bit (count - 1) op1 AND 1 \<noteq> 0))))))"

definition SHL_Ew :: "bxInstruction \<Rightarrow> unit bx" where
  "SHL_Ew i =
     and_then (shift_count 0xc1 0xd1 i) (\<lambda>cnt.
     let count = unat (cnt AND 0x1f) in
     and_then (fetch_Ew i) (\<lambda>op1.
       if count = 0 then ret ()
       else
         (let result = push_bit count op1 in
          and_then (put_Ew i result) (\<lambda>_.
          update (SET_FLAGS_OSZAPC_16 op1 (word_of_nat count) result BX_INSTR_SHL16)))))"

definition SHR_Ew :: "bxInstruction \<Rightarrow> unit bx" where
  "SHR_Ew i =
     and_then (shift_count 0xc1 0xd1 i) (\<lambda>cnt.
     let count = unat (cnt AND 0x1f) in
     and_then (fetch_Ew i) (\<lambda>op1.
       if count = 0 then ret ()
       else
         (let result = drop_bit count op1 in
          and_then (update (SET_FLAGS_OSZAPC_16 op1 (word_of_nat count) result BX_INSTR_SHR16)) (\<lambda>_.
          put_Ew i result))))"

definition SAR_Ew :: "bxInstruction \<Rightarrow> unit bx" where
  "SAR_Ew i =
     and_then (shift_count 0xc1 0xd1 i) (\<lambda>cnt.
     let count = unat (cnt AND 0x1f) in
     and_then (fetch_Ew i) (\<lambda>op1.
       if count = 0 then ret ()
       else
         (let result = (if count < 16 then
                 (if op1 AND 0x8000 \<noteq> 0 then drop_bit count op1 OR push_bit (16 - count) 0xffff else drop_bit count op1)
               else (if op1 AND 0x8000 \<noteq> 0 then 0xffff else 0)) in
          and_then (put_Ew i result) (\<lambda>_.
          update (SET_FLAGS_OSZAPC_16 op1 (word_of_nat count) result BX_INSTR_SAR16)))))"

definition SHLD_EwGw :: "bxInstruction \<Rightarrow> unit bx" where
  "SHLD_EwGw i =
     and_then (if i_b1 i = 0x1a4 then gets (\<lambda>_. i_Ib i) else gets CL) (\<lambda>cnt.
     let count = unat (cnt AND 0x1f) in
     and_then (fetch_Ew i) (\<lambda>op1.
       if count = 0 then ret ()
       else
         and_then (gets (BX_READ_16BIT_REG (nnn i))) (\<lambda>op2.
         let temp_32 = (push_bit 16 (ucast op1) OR ucast op2 :: Bit32u);
             result_32 = (if count > 16 then push_bit count temp_32 OR push_bit (count - 16) (ucast op1)
                          else push_bit count temp_32);
             result = (ucast (drop_bit 16 result_32) :: Bit16u) in
         and_then (put_Ew i result) (\<lambda>_.
           update (SET_FLAGS_OSZAPC_16 op1 (word_of_nat count) result BX_INSTR_SHL16)))))"

definition SHRD_EwGw :: "bxInstruction \<Rightarrow> unit bx" where
  "SHRD_EwGw i =
     and_then (if i_b1 i = 0x1ac then gets (\<lambda>_. i_Ib i) else gets CL) (\<lambda>cnt.
     let count = unat (cnt AND 0x1f) in
     and_then (fetch_Ew i) (\<lambda>op1.
       if count = 0 then ret ()
       else
         and_then (gets (BX_READ_16BIT_REG (nnn i))) (\<lambda>op2.
         let temp_32 = (push_bit 16 (ucast op2) OR ucast op1 :: Bit32u);
             result_32 = (if count > 16 then drop_bit count temp_32 OR push_bit (32 - count) (ucast op1)
                          else drop_bit count temp_32);
             result = (ucast result_32 :: Bit16u) in
         and_then (put_Ew i result) (\<lambda>_.
           update (SET_FLAGS_OSZAPC_16 op1 (word_of_nat count) result BX_INSTR_SHRD16)))))"

section \<open>32 bits\<close>

definition ROL_Ed :: "bxInstruction \<Rightarrow> unit bx" where
  "ROL_Ed i =
     and_then (shift_count 0xc1 0xd1 i) (\<lambda>cnt.
     and_then (fetch_Ed i) (\<lambda>op1.
       if cnt AND 0x1f = 0 then
         ret ()
       else
         (let count = unat (cnt AND 0x1f);
              result = push_bit count op1 OR drop_bit (32 - count) op1 in
          and_then (put_Ed i result) (\<lambda>_. update (set_flag OF (of_bool (result AND 1 \<noteq> 0) XOR drop_bit 31 result \<noteq> 0) \<circ>
            set_flag CF (result AND 1 \<noteq> 0))))))"

definition ROR_Ed :: "bxInstruction \<Rightarrow> unit bx" where
  "ROR_Ed i =
     and_then (shift_count 0xc1 0xd1 i) (\<lambda>cnt.
     and_then (fetch_Ed i) (\<lambda>op1.
       if cnt AND 0x1f = 0 then
         ret ()
       else
         (let count = unat (cnt AND 0x1f);
              result = drop_bit count op1 OR push_bit (32 - count) op1 in
          and_then (put_Ed i result) (\<lambda>_. update (set_flag OF ((result AND 0x80000000 \<noteq> 0) \<noteq> (result AND 0x40000000 \<noteq> 0)) \<circ>
            set_flag CF (result AND 0x80000000 \<noteq> 0))))))"

definition RCL_Ed :: "bxInstruction \<Rightarrow> unit bx" where
  "RCL_Ed i =
     and_then (shift_count 0xc1 0xd1 i) (\<lambda>cnt.
     let count = unat (cnt AND 0x1f) in
     and_then (fetch_Ed i) (\<lambda>op1.
       if count = 0 then ret ()
       else
         and_then (get_flag CF) (\<lambda>cf.
         let result = (if count = 1 then push_bit 1 op1 OR of_bool cf
                        else push_bit count op1 OR push_bit (count - 1) (of_bool cf) OR drop_bit (33 - count) op1);
             temp_CF = (drop_bit (32 - count) op1 AND 1 \<noteq> 0) in
         and_then (put_Ed i result) (\<lambda>_.
           update (set_flag OF (of_bool temp_CF XOR drop_bit 31 result \<noteq> 0) \<circ> set_flag CF temp_CF)))))"

definition RCR_Ed :: "bxInstruction \<Rightarrow> unit bx" where
  "RCR_Ed i =
     and_then (shift_count 0xc1 0xd1 i) (\<lambda>cnt.
     let count = unat (cnt AND 0x1f) in
     and_then (fetch_Ed i) (\<lambda>op1.
       if count = 0 then ret ()
       else
         and_then (get_flag CF) (\<lambda>cf.
         let result = (if count = 1 then drop_bit 1 op1 OR push_bit 31 (of_bool cf)
                        else drop_bit count op1 OR push_bit (32 - count) (of_bool cf) OR push_bit (33 - count) op1) in
         and_then (put_Ed i result) (\<lambda>_.
           update (set_flag OF ((push_bit 1 result XOR result) AND 0x80000000 > 0) \<circ>
                   set_flag CF (drop_bit (count - 1) op1 AND 1 \<noteq> 0))))))"

definition SHL_Ed :: "bxInstruction \<Rightarrow> unit bx" where
  "SHL_Ed i =
     and_then (shift_count 0xc1 0xd1 i) (\<lambda>cnt.
     let count = unat (cnt AND 0x1f) in
     and_then (fetch_Ed i) (\<lambda>op1.
       if count = 0 then ret ()
       else
         (let result = push_bit count op1 in
          and_then (put_Ed i result) (\<lambda>_.
          update (SET_FLAGS_OSZAPC_32 op1 (word_of_nat count) result BX_INSTR_SHL32)))))"

definition SHR_Ed :: "bxInstruction \<Rightarrow> unit bx" where
  "SHR_Ed i =
     and_then (shift_count 0xc1 0xd1 i) (\<lambda>cnt.
     let count = unat (cnt AND 0x1f) in
     and_then (fetch_Ed i) (\<lambda>op1.
       if count = 0 then ret ()
       else
         (let result = drop_bit count op1 in
          and_then (update (SET_FLAGS_OSZAPC_32 op1 (word_of_nat count) result BX_INSTR_SHR32)) (\<lambda>_.
          put_Ed i result))))"

definition SAR_Ed :: "bxInstruction \<Rightarrow> unit bx" where
  "SAR_Ed i =
     and_then (shift_count 0xc1 0xd1 i) (\<lambda>cnt.
     let count = unat (cnt AND 0x1f) in
     and_then (fetch_Ed i) (\<lambda>op1.
       if count = 0 then ret ()
       else
         (let result = (if op1 AND 0x80000000 \<noteq> 0 then drop_bit count op1 OR push_bit (32 - count) 0xffffffff else drop_bit count op1) in
          and_then (put_Ed i result) (\<lambda>_.
          update (SET_FLAGS_OSZAPC_32 op1 (word_of_nat count) result BX_INSTR_SAR32)))))"

definition SHLD_EdGd :: "bxInstruction \<Rightarrow> unit bx" where
  "SHLD_EdGd i =
     and_then (if i_b1 i = 0x1a4 then gets (\<lambda>_. i_Ib i) else gets CL) (\<lambda>cnt.
     let count = unat (cnt AND 0x1f) in
     and_then (fetch_Ed i) (\<lambda>op1.
       if count = 0 then ret ()
       else
         and_then (gets (BX_READ_32BIT_REG (nnn i))) (\<lambda>op2.
         let result = push_bit count op1 OR drop_bit (32 - count) op2 in
         and_then (put_Ed i result) (\<lambda>_.
           update (SET_FLAGS_OSZAPC_32 op1 (word_of_nat count) result BX_INSTR_SHL32)))))"

definition SHRD_EdGd :: "bxInstruction \<Rightarrow> unit bx" where
  "SHRD_EdGd i =
     and_then (if i_b1 i = 0x1ac then gets (\<lambda>_. i_Ib i) else gets CL) (\<lambda>cnt.
     let count = unat (cnt AND 0x1f) in
     and_then (fetch_Ed i) (\<lambda>op1.
       if count = 0 then ret ()
       else
         and_then (gets (BX_READ_32BIT_REG (nnn i))) (\<lambda>op2.
         let result = push_bit (32 - count) op2 OR drop_bit count op1 in
         and_then (put_Ed i result) (\<lambda>_.
           update (SET_FLAGS_OSZAPC_32 op1 (word_of_nat count) result BX_INSTR_SHRD32)))))"

end
