(* ===== verification/BxShiftTheorems.thy ===== *)
theory BxShiftTheorems
  imports BxShift BxMultTheorems
begin

text \<open>
  Shifts and rotates on a register operand against their definitions on bit positions and on
  integers.
\<close>

section \<open>Setting single flags\<close>

lemma flag_of_set_flag [simp]: "flag_of g (set_flag f b s) = (if g = f then Some b else flag_of g s)"
  by (auto simp: flag_of_def set_flag_def bit_put_bit simp del: push_bit_of_1)

lemma flag_set_flag [simp]: "flag g (set_flag f b s) = (if g = f then b else flag g s)"
  by (simp add: flag_def)

lemma gen_reg_set_flag [simp]: "gen_reg (set_flag f b s) = gen_reg s"
  by (simp add: set_flag_def)

lemma read_reg_set_flag [simp]:
  "BX_READ_8BIT_REG r (set_flag f b s) = BX_READ_8BIT_REG r s"
  "BX_READ_16BIT_REG r (set_flag f b s) = BX_READ_16BIT_REG r s"
  "BX_READ_32BIT_REG r (set_flag f b s) = BX_READ_32BIT_REG r s"
  by (simp_all add: BX_READ_8BIT_REG_def BX_READ_16BIT_REG_def BX_READ_32BIT_REG_def
      reg_rl_def reg_rh_def)

section \<open>Register operands of the shifts\<close>

lemma fetch_reg [simp]:
  assumes "modC0 i"
  shows "fetch_Eb i = gets (BX_READ_8BIT_REG (rm i))" "put_Eb i b = update (BX_WRITE_8BIT_REG (rm i) b)"
    "fetch_Ew i = gets (BX_READ_16BIT_REG (rm i))" "put_Ew i w = update (BX_WRITE_16BIT_REG (rm i) w)"
    "fetch_Ed i = gets (BX_READ_32BIT_REG (rm i))" "put_Ed i d = update (BX_WRITE_32BIT_REG (rm i) d)"
  using assms by (simp_all add: fetch_Eb_def put_Eb_def fetch_Ew_def put_Ew_def fetch_Ed_def put_Ed_def)

text \<open>The count an instruction uses, as the three encodings give it.\<close>

lemma shift_count_state: "\<exists>c. shift_count a b i s = Done c s"
  by (simp add: shift_count_def)

text \<open>The low bits of a count.\<close>

lemma count_mod:
  "unat (c AND 0x07) = unat (c :: Bit8u) mod 8" "unat (c AND 0x0f) = unat c mod 16"
  "unat (c AND 0x1f) = unat c mod 32"
proof -
  have "unat (c AND mask n) = unat c mod 2 ^ n" for n
    by (simp only: take_bit_eq_mask [symmetric] unsigned_take_bit_eq) (simp add: take_bit_eq_mod)
  from this [of 3] this [of 4] this [of 5]
  show "unat (c AND 0x07) = unat c mod 8" "unat (c AND 0x0f) = unat c mod 16" "unat (c AND 0x1f) = unat c mod 32"
    by (simp_all add: mask_eq_exp_minus_1)
qed

text \<open>Rotation as two shifts.\<close>

lemma rotl_shifts:
  fixes w :: "'a::len word"
  assumes "0 < k" "k < LENGTH('a)"
  shows "push_bit k w OR drop_bit (LENGTH('a) - k) w = word_rotl k w"
proof (rule bit_word_eqI)
  fix n assume "n < LENGTH('a)"
  with assms show "bit (push_bit k w OR drop_bit (LENGTH('a) - k) w) n \<longleftrightarrow> bit (word_rotl k w) n"
    by (cases "n < k") (auto simp: bit_simps mod_if ac_simps dest: bit_imp_le_length)
qed

lemma rotr_shifts:
  fixes w :: "'a::len word"
  assumes "0 < k" "k < LENGTH('a)"
  shows "drop_bit k w OR push_bit (LENGTH('a) - k) w = word_rotr k w"
proof (rule bit_word_eqI)
  fix n assume "n < LENGTH('a)"
  with assms show "bit (drop_bit k w OR push_bit (LENGTH('a) - k) w) n \<longleftrightarrow> bit (word_rotr k w) n"
    by (cases "n + k < LENGTH('a)") (auto simp: bit_simps mod_if ac_simps dest: bit_imp_le_length)
qed

section \<open>Rotates\<close>

lemma word_rot_mod [simp]:
  fixes w :: "'a::len word"
  shows "word_rotl (k mod LENGTH('a)) w = word_rotl k w" "word_rotr (k mod LENGTH('a)) w = word_rotr k w"
  by (rule bit_word_eqI; simp add: bit_simps mod_simps)+

lemmas word_rot_mods =
  word_rot_mod [where ?'a = 8, simplified] word_rot_mod [where ?'a = 16, simplified]
  word_rot_mod [where ?'a = 32, simplified]

lemma rot_by_0 [simp]: "word_rotl 0 w = w" "word_rotr 0 w = (w :: 'a::len word)"
  by (rule bit_word_eqI; simp add: bit_simps)+

lemma rotl_carry: "k mod LENGTH('a) = 0 \<Longrightarrow> word_rotl k w = (w :: 'a::len word)"
  "k mod LENGTH('a) = 0 \<Longrightarrow> word_rotr k w = w"
  using word_rot_mod [of k w] by simp_all

lemma unat_pos: "c \<noteq> 0 \<Longrightarrow> 0 < unat (c :: Bit8u)"
  by (simp add: unat_gt_0)

text \<open>The highest bit, as the handlers test it.\<close>

lemma top_bit:
  "(w8 :: Bit8u) AND 0x80 \<noteq> 0 \<longleftrightarrow> bit w8 7" "drop_bit 7 w8 \<noteq> 0 \<longleftrightarrow> bit w8 7"
  "(w16 :: Bit16u) AND 0x8000 \<noteq> 0 \<longleftrightarrow> bit w16 15" "drop_bit 15 w16 \<noteq> 0 \<longleftrightarrow> bit w16 15"
  "(w32 :: Bit32u) AND 0x80000000 \<noteq> 0 \<longleftrightarrow> bit w32 31" "drop_bit 31 w32 \<noteq> 0 \<longleftrightarrow> bit w32 31"
proof -
  have d: "drop_bit (LENGTH('a) - 1) w \<noteq> 0 \<longleftrightarrow> bit w (LENGTH('a) - 1)" for w :: "'a::len word"
  proof -
    have "bit (drop_bit (LENGTH('a) - 1) w) k \<longleftrightarrow> k = 0 \<and> bit w (LENGTH('a) - 1)" for k
      by (cases k) (auto simp: bit_simps dest: bit_imp_le_length)
    then show ?thesis by (auto simp: bit_eq_iff)
  qed
  from d [of w8] d [of w16] d [of w32]
  show "drop_bit 7 w8 \<noteq> 0 \<longleftrightarrow> bit w8 7" "drop_bit 15 w16 \<noteq> 0 \<longleftrightarrow> bit w16 15" "drop_bit 31 w32 \<noteq> 0 \<longleftrightarrow> bit w32 31"
    by simp_all
  show "w8 AND 0x80 \<noteq> 0 \<longleftrightarrow> bit w8 7" "w16 AND 0x8000 \<noteq> 0 \<longleftrightarrow> bit w16 15" "w32 AND 0x80000000 \<noteq> 0 \<longleftrightarrow> bit w32 31"
    using and_sign_8 [of w8] and_sign_16 [of w16] and_sign_32 [of w32] by (simp_all add: msb_of_def)
qed

lemma bit_0_and_1: "(w :: 'a::len word) AND 1 \<noteq> 0 \<longleftrightarrow> bit w 0"
  by (simp add: and_one_eq mod_2_eq_odd bit_0)

lemma ROL_8:
  assumes "modC0 i" "shift_count 0xc0 0xd0 i s = Done c s"
  shows "\<exists>t. ROL_Eb i s = Done () t \<and> BX_READ_8BIT_REG (rm i) t = word_rotl (unat c) (BX_READ_8BIT_REG (rm i) s) \<and>
      (c AND 0x1f \<noteq> 0 \<longrightarrow> flag CF t = bit (BX_READ_8BIT_REG (rm i) t) 0)"
proof -
  let ?w = "BX_READ_8BIT_REG (rm i) s"
  have m: "unat (c AND 0x07) = unat c mod 8" by (rule count_mod)
  show ?thesis
  proof (cases "c AND 0x07 = 0")
    case True
    then have "word_rotl (unat c) ?w = ?w"
      using m by (intro rotl_carry) simp
    moreover have "c AND 0x18 \<noteq> 0" if "c AND 0x1f \<noteq> 0"
      using that True word_ao_dist2 [of c "0x07" "0x18"] by simp
    ultimately show ?thesis
      using assms True by (auto simp: ROL_Eb_def bit_0_and_1 top_bit)
  next
    case False
    then have "0 < unat c mod 8" using unat_pos [OF False] m by simp
    then have "push_bit (unat c mod 8) ?w OR drop_bit (8 - unat c mod 8) ?w = word_rotl (unat c) ?w"
      using rotl_shifts [of "unat c mod 8" ?w] by (simp add: word_rot_mods)
    with assms False m show ?thesis
      by (simp add: ROL_Eb_def Let_def bit_0_and_1 top_bit)
  qed
qed

lemma ROR_8:
  assumes "modC0 i" "shift_count 0xc0 0xd0 i s = Done c s"
  shows "\<exists>t. ROR_Eb i s = Done () t \<and> BX_READ_8BIT_REG (rm i) t = word_rotr (unat c) (BX_READ_8BIT_REG (rm i) s) \<and>
      (c AND 0x1f \<noteq> 0 \<longrightarrow> flag CF t = bit (BX_READ_8BIT_REG (rm i) t) 7)"
proof -
  let ?w = "BX_READ_8BIT_REG (rm i) s"
  have m: "unat (c AND 0x07) = unat c mod 8" by (rule count_mod)
  show ?thesis
  proof (cases "c AND 0x07 = 0")
    case True
    then have "word_rotr (unat c) ?w = ?w"
      using m by (intro rotl_carry) simp
    moreover have "c AND 0x18 \<noteq> 0" if "c AND 0x1f \<noteq> 0"
      using that True word_ao_dist2 [of c "0x07" "0x18"] by simp
    ultimately show ?thesis
      using assms True by (auto simp: ROR_Eb_def bit_0_and_1 top_bit)
  next
    case False
    then have "0 < unat c mod 8" using unat_pos [OF False] m by simp
    then have "drop_bit (unat c mod 8) ?w OR push_bit (8 - unat c mod 8) ?w = word_rotr (unat c) ?w"
      using rotr_shifts [of "unat c mod 8" ?w] by (simp add: word_rot_mods)
    with assms False m show ?thesis
      by (simp add: ROR_Eb_def Let_def bit_0_and_1 top_bit)
  qed
qed

lemma ROL_16:
  assumes "modC0 i" "shift_count 0xc1 0xd1 i s = Done c s"
  shows "\<exists>t. ROL_Ew i s = Done () t \<and> BX_READ_16BIT_REG (rm i) t = word_rotl (unat c) (BX_READ_16BIT_REG (rm i) s) \<and>
      (c AND 0x1f \<noteq> 0 \<longrightarrow> flag CF t = bit (BX_READ_16BIT_REG (rm i) t) 0)"
proof -
  let ?w = "BX_READ_16BIT_REG (rm i) s"
  have m: "unat (c AND 0x0f) = unat c mod 16" by (rule count_mod)
  show ?thesis
  proof (cases "c AND 0x0f = 0")
    case True
    then have "word_rotl (unat c) ?w = ?w"
      using m by (intro rotl_carry) simp
    moreover have "c AND 0x10 \<noteq> 0" if "c AND 0x1f \<noteq> 0"
      using that True word_ao_dist2 [of c "0x0f" "0x10"] by simp
    ultimately show ?thesis
      using assms True by (auto simp: ROL_Ew_def bit_0_and_1 top_bit)
  next
    case False
    then have "0 < unat c mod 16" using unat_pos [OF False] m by simp
    then have "push_bit (unat c mod 16) ?w OR drop_bit (16 - unat c mod 16) ?w = word_rotl (unat c) ?w"
      using rotl_shifts [of "unat c mod 16" ?w] by (simp add: word_rot_mods)
    with assms False m show ?thesis
      by (simp add: ROL_Ew_def Let_def bit_0_and_1 top_bit)
  qed
qed

lemma ROR_16:
  assumes "modC0 i" "shift_count 0xc1 0xd1 i s = Done c s"
  shows "\<exists>t. ROR_Ew i s = Done () t \<and> BX_READ_16BIT_REG (rm i) t = word_rotr (unat c) (BX_READ_16BIT_REG (rm i) s) \<and>
      (c AND 0x1f \<noteq> 0 \<longrightarrow> flag CF t = bit (BX_READ_16BIT_REG (rm i) t) 15)"
proof -
  let ?w = "BX_READ_16BIT_REG (rm i) s"
  have m: "unat (c AND 0x0f) = unat c mod 16" by (rule count_mod)
  show ?thesis
  proof (cases "c AND 0x0f = 0")
    case True
    then have "word_rotr (unat c) ?w = ?w"
      using m by (intro rotl_carry) simp
    moreover have "c AND 0x10 \<noteq> 0" if "c AND 0x1f \<noteq> 0"
      using that True word_ao_dist2 [of c "0x0f" "0x10"] by simp
    ultimately show ?thesis
      using assms True by (auto simp: ROR_Ew_def bit_0_and_1 top_bit)
  next
    case False
    then have "0 < unat c mod 16" using unat_pos [OF False] m by simp
    then have "drop_bit (unat c mod 16) ?w OR push_bit (16 - unat c mod 16) ?w = word_rotr (unat c) ?w"
      using rotr_shifts [of "unat c mod 16" ?w] by (simp add: word_rot_mods)
    with assms False m show ?thesis
      by (simp add: ROR_Ew_def Let_def bit_0_and_1 top_bit)
  qed
qed

lemma ROL_32:
  assumes "modC0 i" "shift_count 0xc1 0xd1 i s = Done c s"
  shows "\<exists>t. ROL_Ed i s = Done () t \<and> BX_READ_32BIT_REG (rm i) t = word_rotl (unat c) (BX_READ_32BIT_REG (rm i) s) \<and>
      (c AND 0x1f \<noteq> 0 \<longrightarrow> flag CF t = bit (BX_READ_32BIT_REG (rm i) t) 0)"
proof -
  let ?w = "BX_READ_32BIT_REG (rm i) s"
  have m: "unat (c AND 0x1f) = unat c mod 32" by (rule count_mod)
  show ?thesis
  proof (cases "c AND 0x1f = 0")
    case True
    then have "word_rotl (unat c) ?w = ?w"
      using m by (intro rotl_carry) simp
    then show ?thesis
      using assms True by (auto simp: ROL_Ed_def bit_0_and_1 top_bit)
  next
    case False
    then have "0 < unat c mod 32" using unat_pos [OF False] m by simp
    then have "push_bit (unat c mod 32) ?w OR drop_bit (32 - unat c mod 32) ?w = word_rotl (unat c) ?w"
      using rotl_shifts [of "unat c mod 32" ?w] by (simp add: word_rot_mods)
    with assms False m show ?thesis
      by (simp add: ROL_Ed_def Let_def bit_0_and_1 top_bit)
  qed
qed

lemma ROR_32:
  assumes "modC0 i" "shift_count 0xc1 0xd1 i s = Done c s"
  shows "\<exists>t. ROR_Ed i s = Done () t \<and> BX_READ_32BIT_REG (rm i) t = word_rotr (unat c) (BX_READ_32BIT_REG (rm i) s) \<and>
      (c AND 0x1f \<noteq> 0 \<longrightarrow> flag CF t = bit (BX_READ_32BIT_REG (rm i) t) 31)"
proof -
  let ?w = "BX_READ_32BIT_REG (rm i) s"
  have m: "unat (c AND 0x1f) = unat c mod 32" by (rule count_mod)
  show ?thesis
  proof (cases "c AND 0x1f = 0")
    case True
    then have "word_rotr (unat c) ?w = ?w"
      using m by (intro rotl_carry) simp
    then show ?thesis
      using assms True by (auto simp: ROR_Ed_def bit_0_and_1 top_bit)
  next
    case False
    then have "0 < unat c mod 32" using unat_pos [OF False] m by simp
    then have "drop_bit (unat c mod 32) ?w OR push_bit (32 - unat c mod 32) ?w = word_rotr (unat c) ?w"
      using rotr_shifts [of "unat c mod 32" ?w] by (simp add: word_rot_mods)
    with assms False m show ?thesis
      by (simp add: ROR_Ed_def Let_def bit_0_and_1 top_bit)
  qed
qed

section \<open>Rotates through the carry\<close>

definition rcl :: "nat \<Rightarrow> 'a::len word \<Rightarrow> bool \<Rightarrow> 'a word" where
  "rcl k w cf = push_bit k w OR push_bit (k - 1) (of_bool cf) OR drop_bit (LENGTH('a) + 1 - k) w"

definition rcr :: "nat \<Rightarrow> 'a::len word \<Rightarrow> bool \<Rightarrow> 'a word" where
  "rcr k w cf = drop_bit k w OR push_bit (LENGTH('a) - k) (of_bool cf) OR push_bit (LENGTH('a) + 1 - k) w"

lemma bit_rcl:
  fixes w :: "'a::len word"
  assumes "0 < k" "k \<le> LENGTH('a)" "j < LENGTH('a)"
  shows "bit (rcl k w cf) j \<longleftrightarrow>
    (if k \<le> j then bit w (j - k) else if j = k - 1 then cf else bit w (LENGTH('a) + 1 - k + j))"
  using assms by (auto simp: rcl_def bit_simps ac_simps dest: bit_imp_le_length)

lemma bit_rcr:
  fixes w :: "'a::len word"
  assumes "0 < k" "k \<le> LENGTH('a)" "j < LENGTH('a)"
  shows "bit (rcr k w cf) j \<longleftrightarrow>
    (if j + k < LENGTH('a) then bit w (j + k) else if j + k = LENGTH('a) then cf else bit w (j + k - LENGTH('a) - 1))"
  using assms by (auto simp: rcr_def bit_simps ac_simps dest: bit_imp_le_length)

lemma rcr_rcl:
  fixes w :: "'a::len word"
  assumes "0 < k" "k \<le> LENGTH('a)"
  shows "rcr k (rcl k w cf) (bit w (LENGTH('a) - k)) = w" "bit (rcl k w cf) (k - 1) = cf"
proof -
  show "rcr k (rcl k w cf) (bit w (LENGTH('a) - k)) = w"
  proof (rule bit_word_eqI)
    fix j assume j: "j < LENGTH('a)"
    have "j + k = LENGTH('a) \<Longrightarrow> LENGTH('a) - k = j" by simp
    with j assms show "bit (rcr k (rcl k w cf) (bit w (LENGTH('a) - k))) j \<longleftrightarrow> bit w j"
      by (auto simp: bit_rcr bit_rcl)
  qed
  show "bit (rcl k w cf) (k - 1) = cf"
    using assms by (subst bit_rcl) auto
qed

section \<open>Shifts\<close>

lemma flag_of_WRITE_8 [simp]: "flag_of f (BX_WRITE_8BIT_REG r v s) = flag_of f s"
  by (simp add: flag_of_def BX_WRITE_8BIT_REG_def write_reg_rl_def write_reg_rh_def)

lemma read_reg_SET_FLAGS [simp]:
  "BX_READ_8BIT_REG r (SET_FLAGS_OSZAPC_8 a8 b8 r8 n s) = BX_READ_8BIT_REG r s"
  "BX_READ_16BIT_REG r (SET_FLAGS_OSZAPC_16 a16 b16 r16 n s) = BX_READ_16BIT_REG r s"
  "BX_READ_32BIT_REG r (SET_FLAGS_OSZAPC_32 a32 b32 r32 n s) = BX_READ_32BIT_REG r s"
  by (simp_all add: BX_READ_8BIT_REG_def BX_READ_16BIT_REG_def BX_READ_32BIT_REG_def reg_rl_def reg_rh_def
      SET_FLAGS_OSZAPC_8_def SET_FLAGS_OSZAPC_16_def SET_FLAGS_OSZAPC_32_def)

lemma unat_count: "k < 32 \<Longrightarrow> 8 \<le> LENGTH('a::len) \<Longrightarrow> unat (word_of_nat k :: 'a word) = k"
proof -
  assume "k < 32" "8 \<le> LENGTH('a)"
  have "(2::nat) ^ 8 \<le> 2 ^ LENGTH('a)" using \<open>8 \<le> LENGTH('a)\<close> by (intro power_increasing) auto
  with \<open>k < 32\<close> show ?thesis by (subst unat_of_nat, intro mod_less) simp
qed

lemma and_1_drop: "drop_bit k (w :: 'a::len word) AND 1 \<noteq> 0 \<longleftrightarrow> bit w k"
  by (rule drop_bit_and_1)

text \<open>The last bit out, as a bit of the integer that is shifted.\<close>

lemma odd_div: "odd (a div 2 ^ k) \<longleftrightarrow> bit (a :: int) k"
  by (simp add: bit_iff_odd)

lemma uint_shifts:
  fixes w :: "'a::len word"
  shows "uint (push_bit k w) = uint w * 2 ^ k mod 2 ^ LENGTH('a)" "uint (drop_bit k w) = uint w div 2 ^ k"
proof -
  have "uint (push_bit k w) = take_bit LENGTH('a) (push_bit k (uint w))"
    by (rule bit_eqI) (auto simp: bit_simps)
  then show "uint (push_bit k w) = uint w * 2 ^ k mod 2 ^ LENGTH('a)"
    by (simp only: take_bit_eq_mod push_bit_eq_mult)
  have "uint (drop_bit k w) = drop_bit k (uint w)"
    by (rule bit_eqI) (auto simp: bit_simps dest: bit_imp_le_length)
  then show "uint (drop_bit k w) = uint w div 2 ^ k"
    by (simp only: drop_bit_eq_div)
qed

lemma bit_sint_min: "bit (sint w) j \<longleftrightarrow> bit w (min j (LENGTH('a) - 1))" for w :: "'a::len word"
proof (cases "j < LENGTH('a) - 1")
  case False
  then have "j < LENGTH('a) \<Longrightarrow> j = LENGTH('a) - 1" by simp
  with False show ?thesis by (auto simp: bit_simps min_def)
qed (auto simp: bit_simps)

lemma sint_sar:
  fixes w r :: "'a::len word"
  assumes "\<And>j. j < LENGTH('a) \<Longrightarrow> bit r j \<longleftrightarrow> bit w (min (j + k) (LENGTH('a) - 1))"
  shows "sint r = sint w div 2 ^ k"
proof -
  have "sint r = drop_bit k (sint w)"
  proof (rule bit_eqI)
    fix j
    have "min (min j (LENGTH('a) - 1) + k) (LENGTH('a) - 1) = min (j + k) (LENGTH('a) - 1)" by simp
    moreover have "min j (LENGTH('a) - 1) < LENGTH('a)"
      using len_gt_0 [where ?'a = 'a] by linarith
    ultimately show "bit (sint r) j \<longleftrightarrow> bit (drop_bit k (sint w)) j"
      by (simp add: bit_sint_min assms bit_drop_bit_eq add.commute)
  qed
  then show ?thesis by (simp only: drop_bit_eq_div)
qed

lemma flag_of_shift_8:
  assumes "0 < k" "k < 32"
  shows "flag_of f (SET_FLAGS_OSZAPC_8 w (word_of_nat k) r BX_INSTR_SHL8 s) \<noteq> None"
    "flag_of CF (SET_FLAGS_OSZAPC_8 w (word_of_nat k) r BX_INSTR_SHL8 s) = Some (odd (uint w * 2 ^ k div 2 ^ 8))"
    "flag_of f (SET_FLAGS_OSZAPC_8 w (word_of_nat k) r BX_INSTR_SHR8 s) \<noteq> None"
    "flag_of CF (SET_FLAGS_OSZAPC_8 w (word_of_nat k) r BX_INSTR_SHR8 s) = Some (odd (uint w div 2 ^ (k - 1)))"
    "flag_of f (SET_FLAGS_OSZAPC_8 w (word_of_nat k) r BX_INSTR_SAR8 s) \<noteq> None"
    "flag_of CF (SET_FLAGS_OSZAPC_8 w (word_of_nat k) r BX_INSTR_SAR8 s) = Some (odd (sint w div 2 ^ (k - 1)))"
proof -
  have k: "unat (word_of_nat k :: Bit8u) = k" using assms by (simp add: unat_count)
  have le: "(word_of_nat k :: Bit8u) \<le> 8 \<longleftrightarrow> k \<le> 8" "(word_of_nat k :: Bit8u) < 8 \<longleftrightarrow> k < 8"
    using k by (simp_all add: word_le_nat_alt word_less_nat_alt)
  have out: "odd (uint w * 2 ^ k div 2 ^ 8) \<longleftrightarrow> k \<le> 8 \<and> bit w (8 - k)"
    by (simp only: odd_div flip: push_bit_eq_mult) (auto simp: bit_simps dest: bit_imp_le_length)
  show "flag_of CF (SET_FLAGS_OSZAPC_8 w (word_of_nat k) r BX_INSTR_SHL8 s) = Some (odd (uint w * 2 ^ k div 2 ^ 8))"
    unfolding out using assms by (auto simp: flag_of_SET_FLAGS_OSZAPC oszapc_value_defs k le and_1_drop)
  show "flag_of CF (SET_FLAGS_OSZAPC_8 w (word_of_nat k) r BX_INSTR_SHR8 s) = Some (odd (uint w div 2 ^ (k - 1)))"
    using assms by (auto simp: flag_of_SET_FLAGS_OSZAPC oszapc_value_defs k and_1_drop odd_div bit_simps dest: bit_imp_le_length)
  show "flag_of CF (SET_FLAGS_OSZAPC_8 w (word_of_nat k) r BX_INSTR_SAR8 s) = Some (odd (sint w div 2 ^ (k - 1)))"
    using assms by (auto simp: flag_of_SET_FLAGS_OSZAPC oszapc_value_defs k le and_1_drop top_bit word_gt_0 odd_div bit_simps min_def dest: bit_imp_le_length)
qed (cases f; simp add: flag_of_SET_FLAGS_OSZAPC oszapc_value_defs)+

lemma flag_of_shift_16:
  assumes "0 < k" "k < 32"
  shows "flag_of f (SET_FLAGS_OSZAPC_16 w (word_of_nat k) r BX_INSTR_SHL16 s) \<noteq> None"
    "flag_of CF (SET_FLAGS_OSZAPC_16 w (word_of_nat k) r BX_INSTR_SHL16 s) = Some (odd (uint w * 2 ^ k div 2 ^ 16))"
    "flag_of f (SET_FLAGS_OSZAPC_16 w (word_of_nat k) r BX_INSTR_SHR16 s) \<noteq> None"
    "flag_of CF (SET_FLAGS_OSZAPC_16 w (word_of_nat k) r BX_INSTR_SHR16 s) = Some (odd (uint w div 2 ^ (k - 1)))"
    "flag_of f (SET_FLAGS_OSZAPC_16 w (word_of_nat k) r BX_INSTR_SAR16 s) \<noteq> None"
    "flag_of CF (SET_FLAGS_OSZAPC_16 w (word_of_nat k) r BX_INSTR_SAR16 s) = Some (odd (sint w div 2 ^ (k - 1)))"
proof -
  have k: "unat (word_of_nat k :: Bit16u) = k" using assms by (simp add: unat_count)
  have le: "(word_of_nat k :: Bit16u) \<le> 16 \<longleftrightarrow> k \<le> 16" "(word_of_nat k :: Bit16u) < 16 \<longleftrightarrow> k < 16"
    using k by (simp_all add: word_le_nat_alt word_less_nat_alt)
  have out: "odd (uint w * 2 ^ k div 2 ^ 16) \<longleftrightarrow> k \<le> 16 \<and> bit w (16 - k)"
    by (simp only: odd_div flip: push_bit_eq_mult) (auto simp: bit_simps dest: bit_imp_le_length)
  show "flag_of CF (SET_FLAGS_OSZAPC_16 w (word_of_nat k) r BX_INSTR_SHL16 s) = Some (odd (uint w * 2 ^ k div 2 ^ 16))"
    unfolding out using assms by (auto simp: flag_of_SET_FLAGS_OSZAPC oszapc_value_defs k le and_1_drop)
  show "flag_of CF (SET_FLAGS_OSZAPC_16 w (word_of_nat k) r BX_INSTR_SHR16 s) = Some (odd (uint w div 2 ^ (k - 1)))"
    using assms by (auto simp: flag_of_SET_FLAGS_OSZAPC oszapc_value_defs k and_1_drop odd_div bit_simps dest: bit_imp_le_length)
  show "flag_of CF (SET_FLAGS_OSZAPC_16 w (word_of_nat k) r BX_INSTR_SAR16 s) = Some (odd (sint w div 2 ^ (k - 1)))"
    using assms by (auto simp: flag_of_SET_FLAGS_OSZAPC oszapc_value_defs k le and_1_drop top_bit word_gt_0 odd_div bit_simps min_def dest: bit_imp_le_length)
qed (cases f; simp add: flag_of_SET_FLAGS_OSZAPC oszapc_value_defs)+

lemma flag_of_shift_32:
  assumes "0 < k" "k < 32"
  shows "flag_of f (SET_FLAGS_OSZAPC_32 w (word_of_nat k) r BX_INSTR_SHL32 s) \<noteq> None"
    "flag_of CF (SET_FLAGS_OSZAPC_32 w (word_of_nat k) r BX_INSTR_SHL32 s) = Some (odd (uint w * 2 ^ k div 2 ^ 32))"
    "flag_of f (SET_FLAGS_OSZAPC_32 w (word_of_nat k) r BX_INSTR_SHR32 s) \<noteq> None"
    "flag_of CF (SET_FLAGS_OSZAPC_32 w (word_of_nat k) r BX_INSTR_SHR32 s) = Some (odd (uint w div 2 ^ (k - 1)))"
    "flag_of f (SET_FLAGS_OSZAPC_32 w (word_of_nat k) r BX_INSTR_SAR32 s) \<noteq> None"
    "flag_of CF (SET_FLAGS_OSZAPC_32 w (word_of_nat k) r BX_INSTR_SAR32 s) = Some (odd (sint w div 2 ^ (k - 1)))"
proof -
  have k: "unat (word_of_nat k :: Bit32u) = k" using assms by (simp add: unat_count)
  have le: "(word_of_nat k :: Bit32u) \<le> 32 \<longleftrightarrow> k \<le> 32" "(word_of_nat k :: Bit32u) < 32 \<longleftrightarrow> k < 32"
    using k by (simp_all add: word_le_nat_alt word_less_nat_alt)
  have out: "odd (uint w * 2 ^ k div 2 ^ 32) \<longleftrightarrow> k \<le> 32 \<and> bit w (32 - k)"
    by (simp only: odd_div flip: push_bit_eq_mult) (auto simp: bit_simps dest: bit_imp_le_length)
  show "flag_of CF (SET_FLAGS_OSZAPC_32 w (word_of_nat k) r BX_INSTR_SHL32 s) = Some (odd (uint w * 2 ^ k div 2 ^ 32))"
    unfolding out using assms by (auto simp: flag_of_SET_FLAGS_OSZAPC oszapc_value_defs k le and_1_drop)
  show "flag_of CF (SET_FLAGS_OSZAPC_32 w (word_of_nat k) r BX_INSTR_SHR32 s) = Some (odd (uint w div 2 ^ (k - 1)))"
    using assms by (auto simp: flag_of_SET_FLAGS_OSZAPC oszapc_value_defs k and_1_drop odd_div bit_simps dest: bit_imp_le_length)
  show "flag_of CF (SET_FLAGS_OSZAPC_32 w (word_of_nat k) r BX_INSTR_SAR32 s) = Some (odd (sint w div 2 ^ (k - 1)))"
    using assms by (auto simp: flag_of_SET_FLAGS_OSZAPC oszapc_value_defs k le and_1_drop top_bit word_gt_0 odd_div bit_simps min_def dest: bit_imp_le_length)
qed (cases f; simp add: flag_of_SET_FLAGS_OSZAPC oszapc_value_defs)+


lemma bit_all_ones:
  "bit (0xff :: int) j \<longleftrightarrow> j < 8" "bit (0xffff :: int) j \<longleftrightarrow> j < 16"
  "bit (0xffffffff :: int) j \<longleftrightarrow> j < 32"
  using bit_mask_iff [where 'a = int, of 8 j] bit_mask_iff [where 'a = int, of 16 j]
    bit_mask_iff [where 'a = int, of 32 j] by (simp_all add: mask_eq_exp_minus_1)

lemma uint_mod_width:
  "uint (w :: Bit8u) mod 256 = uint w" "uint (v :: Bit16u) mod 65536 = uint v"
  "uint (u :: Bit32u) mod 4294967296 = uint u"
  using uint_bounded [of w] uint_bounded [of v] uint_bounded [of u] by (simp_all add: mod_pos_pos_trivial)

lemma shifts_8:
  assumes "modC0 i" "shift_count 0xc0 0xd0 i s = Done c s" "lf_wf s"
  defines "k \<equiv> unat c mod 32"
  shows "\<exists>t. SHL_Eb i s = Done () t \<and> lf_wf t \<and> uint (BX_READ_8BIT_REG (rm i) t) = uint (BX_READ_8BIT_REG (rm i) s) * 2 ^ k mod 2 ^ 8 \<and>
      (k \<noteq> 0 \<longrightarrow> flag CF t = odd (uint (BX_READ_8BIT_REG (rm i) s) * 2 ^ k div 2 ^ 8))"
    and "\<exists>t. SHR_Eb i s = Done () t \<and> lf_wf t \<and> uint (BX_READ_8BIT_REG (rm i) t) = uint (BX_READ_8BIT_REG (rm i) s) div 2 ^ k \<and>
      (k \<noteq> 0 \<longrightarrow> flag CF t = odd (uint (BX_READ_8BIT_REG (rm i) s) div 2 ^ (k - 1)))"
    and "\<exists>t. SAR_Eb i s = Done () t \<and> lf_wf t \<and> sint (BX_READ_8BIT_REG (rm i) t) = sint (BX_READ_8BIT_REG (rm i) s) div 2 ^ k \<and>
      (k \<noteq> 0 \<longrightarrow> flag CF t = odd (sint (BX_READ_8BIT_REG (rm i) s) div 2 ^ (k - 1)))"
proof -
  let ?w = "BX_READ_8BIT_REG (rm i) s"
  have k: "unat (c AND 0x1f) = k" "k < 32" by (simp_all add: k_def count_mod)
  have SHL: "SHL_Eb i s = (if k = 0 then Done () s else Done () (SET_FLAGS_OSZAPC_8 ?w (word_of_nat k) (push_bit k ?w) BX_INSTR_SHL8
      (BX_WRITE_8BIT_REG (rm i) (push_bit k ?w) s)))"
    using assms(1,2) k(1) by (simp add: SHL_Eb_def Let_def)
  show "\<exists>t. SHL_Eb i s = Done () t \<and> lf_wf t \<and> uint (BX_READ_8BIT_REG (rm i) t) = uint (BX_READ_8BIT_REG (rm i) s) * 2 ^ k mod 2 ^ 8 \<and>
      (k \<noteq> 0 \<longrightarrow> flag CF t = odd (uint (BX_READ_8BIT_REG (rm i) s) * 2 ^ k div 2 ^ 8))"
  proof (cases "k = 0")
    case False
    then show ?thesis
      using flag_of_shift_8(1,2) [where k = k and w = ?w] k(2)
      by (auto simp: SHL uint_shifts lf_wf_def flag_def)
  qed (simp add: SHL assms(3) uint_mod_width)
  have SHR: "SHR_Eb i s = (if k = 0 then Done () s else Done () (SET_FLAGS_OSZAPC_8 ?w (word_of_nat k) (drop_bit k ?w) BX_INSTR_SHR8 (BX_WRITE_8BIT_REG (rm i) (drop_bit k ?w) s)))"
    using assms(1,2) k(1) by (simp add: SHR_Eb_def Let_def)
  show "\<exists>t. SHR_Eb i s = Done () t \<and> lf_wf t \<and> uint (BX_READ_8BIT_REG (rm i) t) = uint (BX_READ_8BIT_REG (rm i) s) div 2 ^ k \<and>
      (k \<noteq> 0 \<longrightarrow> flag CF t = odd (uint (BX_READ_8BIT_REG (rm i) s) div 2 ^ (k - 1)))"
  proof (cases "k = 0")
    case False
    then show ?thesis
      using flag_of_shift_8(3,4) [where k = k and w = ?w] k(2)
      by (auto simp: SHR uint_shifts lf_wf_def flag_def)
  qed (simp add: SHR assms(3))
  define r where "r = (if k < 8 then (if ?w AND 0x80 \<noteq> 0 then drop_bit k ?w OR push_bit (8 - k) 0xff else drop_bit k ?w) else (if ?w AND 0x80 \<noteq> 0 then 0xff else 0))"
  have r: "sint r = sint ?w div 2 ^ k" if "k \<noteq> 0"
    by (rule sint_sar) (use that k(2) in \<open>auto simp: r_def top_bit bit_simps bit_all_ones min_def add.commute [of k] dest: bit_imp_le_length\<close>)
  have SAR: "SAR_Eb i s = (if k = 0 then Done () s else Done () (SET_FLAGS_OSZAPC_8 ?w (word_of_nat k) r BX_INSTR_SAR8
      (BX_WRITE_8BIT_REG (rm i) r s)))"
    using assms(1,2) k(1) by (simp add: SAR_Eb_def Let_def r_def)
  show "\<exists>t. SAR_Eb i s = Done () t \<and> lf_wf t \<and> sint (BX_READ_8BIT_REG (rm i) t) = sint (BX_READ_8BIT_REG (rm i) s) div 2 ^ k \<and>
      (k \<noteq> 0 \<longrightarrow> flag CF t = odd (sint (BX_READ_8BIT_REG (rm i) s) div 2 ^ (k - 1)))"
  proof (cases "k = 0")
    case False
    then show ?thesis
      using flag_of_shift_8(5,6) [where k = k and w = ?w] k(2)
      by (auto simp: SAR r lf_wf_def flag_def)
  qed (simp add: SAR assms(3))
qed

lemma shifts_16:
  assumes "modC0 i" "shift_count 0xc1 0xd1 i s = Done c s" "lf_wf s"
  defines "k \<equiv> unat c mod 32"
  shows "\<exists>t. SHL_Ew i s = Done () t \<and> lf_wf t \<and> uint (BX_READ_16BIT_REG (rm i) t) = uint (BX_READ_16BIT_REG (rm i) s) * 2 ^ k mod 2 ^ 16 \<and>
      (k \<noteq> 0 \<longrightarrow> flag CF t = odd (uint (BX_READ_16BIT_REG (rm i) s) * 2 ^ k div 2 ^ 16))"
    and "\<exists>t. SHR_Ew i s = Done () t \<and> lf_wf t \<and> uint (BX_READ_16BIT_REG (rm i) t) = uint (BX_READ_16BIT_REG (rm i) s) div 2 ^ k \<and>
      (k \<noteq> 0 \<longrightarrow> flag CF t = odd (uint (BX_READ_16BIT_REG (rm i) s) div 2 ^ (k - 1)))"
    and "\<exists>t. SAR_Ew i s = Done () t \<and> lf_wf t \<and> sint (BX_READ_16BIT_REG (rm i) t) = sint (BX_READ_16BIT_REG (rm i) s) div 2 ^ k \<and>
      (k \<noteq> 0 \<longrightarrow> flag CF t = odd (sint (BX_READ_16BIT_REG (rm i) s) div 2 ^ (k - 1)))"
proof -
  let ?w = "BX_READ_16BIT_REG (rm i) s"
  have k: "unat (c AND 0x1f) = k" "k < 32" by (simp_all add: k_def count_mod)
  have SHL: "SHL_Ew i s = (if k = 0 then Done () s else Done () (SET_FLAGS_OSZAPC_16 ?w (word_of_nat k) (push_bit k ?w) BX_INSTR_SHL16
      (BX_WRITE_16BIT_REG (rm i) (push_bit k ?w) s)))"
    using assms(1,2) k(1) by (simp add: SHL_Ew_def Let_def)
  show "\<exists>t. SHL_Ew i s = Done () t \<and> lf_wf t \<and> uint (BX_READ_16BIT_REG (rm i) t) = uint (BX_READ_16BIT_REG (rm i) s) * 2 ^ k mod 2 ^ 16 \<and>
      (k \<noteq> 0 \<longrightarrow> flag CF t = odd (uint (BX_READ_16BIT_REG (rm i) s) * 2 ^ k div 2 ^ 16))"
  proof (cases "k = 0")
    case False
    then show ?thesis
      using flag_of_shift_16(1,2) [where k = k and w = ?w] k(2)
      by (auto simp: SHL uint_shifts lf_wf_def flag_def)
  qed (simp add: SHL assms(3) uint_mod_width)
  have SHR: "SHR_Ew i s = (if k = 0 then Done () s else Done () (BX_WRITE_16BIT_REG (rm i) (drop_bit k ?w) (SET_FLAGS_OSZAPC_16 ?w (word_of_nat k) (drop_bit k ?w) BX_INSTR_SHR16 s)))"
    using assms(1,2) k(1) by (simp add: SHR_Ew_def Let_def)
  show "\<exists>t. SHR_Ew i s = Done () t \<and> lf_wf t \<and> uint (BX_READ_16BIT_REG (rm i) t) = uint (BX_READ_16BIT_REG (rm i) s) div 2 ^ k \<and>
      (k \<noteq> 0 \<longrightarrow> flag CF t = odd (uint (BX_READ_16BIT_REG (rm i) s) div 2 ^ (k - 1)))"
  proof (cases "k = 0")
    case False
    then show ?thesis
      using flag_of_shift_16(3,4) [where k = k and w = ?w] k(2)
      by (auto simp: SHR uint_shifts lf_wf_def flag_def)
  qed (simp add: SHR assms(3))
  define r where "r = (if k < 16 then (if ?w AND 0x8000 \<noteq> 0 then drop_bit k ?w OR push_bit (16 - k) 0xffff else drop_bit k ?w) else (if ?w AND 0x8000 \<noteq> 0 then 0xffff else 0))"
  have r: "sint r = sint ?w div 2 ^ k" if "k \<noteq> 0"
    by (rule sint_sar) (use that k(2) in \<open>auto simp: r_def top_bit bit_simps bit_all_ones min_def add.commute [of k] dest: bit_imp_le_length\<close>)
  have SAR: "SAR_Ew i s = (if k = 0 then Done () s else Done () (SET_FLAGS_OSZAPC_16 ?w (word_of_nat k) r BX_INSTR_SAR16
      (BX_WRITE_16BIT_REG (rm i) r s)))"
    using assms(1,2) k(1) by (simp add: SAR_Ew_def Let_def r_def)
  show "\<exists>t. SAR_Ew i s = Done () t \<and> lf_wf t \<and> sint (BX_READ_16BIT_REG (rm i) t) = sint (BX_READ_16BIT_REG (rm i) s) div 2 ^ k \<and>
      (k \<noteq> 0 \<longrightarrow> flag CF t = odd (sint (BX_READ_16BIT_REG (rm i) s) div 2 ^ (k - 1)))"
  proof (cases "k = 0")
    case False
    then show ?thesis
      using flag_of_shift_16(5,6) [where k = k and w = ?w] k(2)
      by (auto simp: SAR r lf_wf_def flag_def)
  qed (simp add: SAR assms(3))
qed

lemma shifts_32:
  assumes "modC0 i" "shift_count 0xc1 0xd1 i s = Done c s" "lf_wf s"
  defines "k \<equiv> unat c mod 32"
  shows "\<exists>t. SHL_Ed i s = Done () t \<and> lf_wf t \<and> uint (BX_READ_32BIT_REG (rm i) t) = uint (BX_READ_32BIT_REG (rm i) s) * 2 ^ k mod 2 ^ 32 \<and>
      (k \<noteq> 0 \<longrightarrow> flag CF t = odd (uint (BX_READ_32BIT_REG (rm i) s) * 2 ^ k div 2 ^ 32))"
    and "\<exists>t. SHR_Ed i s = Done () t \<and> lf_wf t \<and> uint (BX_READ_32BIT_REG (rm i) t) = uint (BX_READ_32BIT_REG (rm i) s) div 2 ^ k \<and>
      (k \<noteq> 0 \<longrightarrow> flag CF t = odd (uint (BX_READ_32BIT_REG (rm i) s) div 2 ^ (k - 1)))"
    and "\<exists>t. SAR_Ed i s = Done () t \<and> lf_wf t \<and> sint (BX_READ_32BIT_REG (rm i) t) = sint (BX_READ_32BIT_REG (rm i) s) div 2 ^ k \<and>
      (k \<noteq> 0 \<longrightarrow> flag CF t = odd (sint (BX_READ_32BIT_REG (rm i) s) div 2 ^ (k - 1)))"
proof -
  let ?w = "BX_READ_32BIT_REG (rm i) s"
  have k: "unat (c AND 0x1f) = k" "k < 32" by (simp_all add: k_def count_mod)
  have SHL: "SHL_Ed i s = (if k = 0 then Done () s else Done () (SET_FLAGS_OSZAPC_32 ?w (word_of_nat k) (push_bit k ?w) BX_INSTR_SHL32
      (BX_WRITE_32BIT_REG (rm i) (push_bit k ?w) s)))"
    using assms(1,2) k(1) by (simp add: SHL_Ed_def Let_def)
  show "\<exists>t. SHL_Ed i s = Done () t \<and> lf_wf t \<and> uint (BX_READ_32BIT_REG (rm i) t) = uint (BX_READ_32BIT_REG (rm i) s) * 2 ^ k mod 2 ^ 32 \<and>
      (k \<noteq> 0 \<longrightarrow> flag CF t = odd (uint (BX_READ_32BIT_REG (rm i) s) * 2 ^ k div 2 ^ 32))"
  proof (cases "k = 0")
    case False
    then show ?thesis
      using flag_of_shift_32(1,2) [where k = k and w = ?w] k(2)
      by (auto simp: SHL uint_shifts lf_wf_def flag_def)
  qed (simp add: SHL assms(3) uint_mod_width)
  have SHR: "SHR_Ed i s = (if k = 0 then Done () s else Done () (BX_WRITE_32BIT_REG (rm i) (drop_bit k ?w) (SET_FLAGS_OSZAPC_32 ?w (word_of_nat k) (drop_bit k ?w) BX_INSTR_SHR32 s)))"
    using assms(1,2) k(1) by (simp add: SHR_Ed_def Let_def)
  show "\<exists>t. SHR_Ed i s = Done () t \<and> lf_wf t \<and> uint (BX_READ_32BIT_REG (rm i) t) = uint (BX_READ_32BIT_REG (rm i) s) div 2 ^ k \<and>
      (k \<noteq> 0 \<longrightarrow> flag CF t = odd (uint (BX_READ_32BIT_REG (rm i) s) div 2 ^ (k - 1)))"
  proof (cases "k = 0")
    case False
    then show ?thesis
      using flag_of_shift_32(3,4) [where k = k and w = ?w] k(2)
      by (auto simp: SHR uint_shifts lf_wf_def flag_def)
  qed (simp add: SHR assms(3))
  define r where "r = (if ?w AND 0x80000000 \<noteq> 0 then drop_bit k ?w OR push_bit (32 - k) 0xffffffff else drop_bit k ?w)"
  have r: "sint r = sint ?w div 2 ^ k" if "k \<noteq> 0"
    by (rule sint_sar) (use that k(2) in \<open>auto simp: r_def top_bit bit_simps bit_all_ones min_def add.commute [of k] dest: bit_imp_le_length\<close>)
  have SAR: "SAR_Ed i s = (if k = 0 then Done () s else Done () (SET_FLAGS_OSZAPC_32 ?w (word_of_nat k) r BX_INSTR_SAR32
      (BX_WRITE_32BIT_REG (rm i) r s)))"
    using assms(1,2) k(1) by (simp add: SAR_Ed_def Let_def r_def)
  show "\<exists>t. SAR_Ed i s = Done () t \<and> lf_wf t \<and> sint (BX_READ_32BIT_REG (rm i) t) = sint (BX_READ_32BIT_REG (rm i) s) div 2 ^ k \<and>
      (k \<noteq> 0 \<longrightarrow> flag CF t = odd (sint (BX_READ_32BIT_REG (rm i) s) div 2 ^ (k - 1)))"
  proof (cases "k = 0")
    case False
    then show ?thesis
      using flag_of_shift_32(5,6) [where k = k and w = ?w] k(2)
      by (auto simp: SAR r lf_wf_def flag_def)
  qed (simp add: SAR assms(3))
qed


section \<open>Rotates through the carry undo each other\<close>

lemma after_get_frame [simp]: "gen_reg (after_get f s) = gen_reg s"
  by (simp add: after_get_def stored_def)

lemma read_reg_after_get [simp]:
  "BX_READ_8BIT_REG r (after_get f s) = BX_READ_8BIT_REG r s"
  "BX_READ_16BIT_REG r (after_get f s) = BX_READ_16BIT_REG r s"
  "BX_READ_32BIT_REG r (after_get f s) = BX_READ_32BIT_REG r s"
  by (simp_all add: BX_READ_8BIT_REG_def BX_READ_16BIT_REG_def BX_READ_32BIT_REG_def reg_rl_def reg_rh_def)

lemma lf_wf_set_flag [simp]: "lf_wf s \<Longrightarrow> lf_wf (set_flag f b s)"
  by (simp add: lf_wf_def)

lemma lf_wf_WRITE [simp]:
  "lf_wf (BX_WRITE_8BIT_REG r b s) = lf_wf s" "lf_wf (BX_WRITE_16BIT_REG r w s) = lf_wf s"
  "lf_wf (BX_WRITE_32BIT_REG r d s) = lf_wf s"
  by (simp_all add: lf_wf_def)

lemma rcr_1: "rcr 1 w cf = drop_bit 1 w OR push_bit (LENGTH('a) - 1) (of_bool cf)" for w :: "'a::len word"
  by (rule bit_word_eqI) (auto simp: rcr_def bit_simps)

lemma rotate_carry_8:
  assumes "modC0 i" "i_b1 i = 0xc0" "lf_wf s"
  defines "k \<equiv> unat (i_Ib i AND 0x1f) mod 9"
  shows "\<exists>t. RCL_Eb i s = Done () t \<and> lf_wf t \<and>
      BX_READ_8BIT_REG (rm i) t = (if k = 0 then BX_READ_8BIT_REG (rm i) s else rcl k (BX_READ_8BIT_REG (rm i) s) (flag CF s)) \<and>
      flag CF t = (if k = 0 then flag CF s else bit (BX_READ_8BIT_REG (rm i) s) (8 - k))"
    and "\<exists>t. RCR_Eb i s = Done () t \<and> lf_wf t \<and>
      BX_READ_8BIT_REG (rm i) t = (if k = 0 then BX_READ_8BIT_REG (rm i) s else rcr k (BX_READ_8BIT_REG (rm i) s) (flag CF s)) \<and>
      flag CF t = (if k = 0 then flag CF s else bit (BX_READ_8BIT_REG (rm i) s) (k - 1))"
proof -
  show "\<exists>t. RCL_Eb i s = Done () t \<and> lf_wf t \<and>
      BX_READ_8BIT_REG (rm i) t = (if k = 0 then BX_READ_8BIT_REG (rm i) s else rcl k (BX_READ_8BIT_REG (rm i) s) (flag CF s)) \<and>
      flag CF t = (if k = 0 then flag CF s else bit (BX_READ_8BIT_REG (rm i) s) (8 - k))"
    using assms(1,2,3) by (auto simp: RCL_Eb_def shift_count_def Let_def k_def [symmetric] rcl_def and_1_drop or.commute)
  show "\<exists>t. RCR_Eb i s = Done () t \<and> lf_wf t \<and>
      BX_READ_8BIT_REG (rm i) t = (if k = 0 then BX_READ_8BIT_REG (rm i) s else rcr k (BX_READ_8BIT_REG (rm i) s) (flag CF s)) \<and>
      flag CF t = (if k = 0 then flag CF s else bit (BX_READ_8BIT_REG (rm i) s) (k - 1))"
    using assms(1,2,3) by (auto simp: RCR_Eb_def shift_count_def Let_def k_def [symmetric] rcr_def and_1_drop)
qed

lemma rotate_carry_16:
  assumes "modC0 i" "i_b1 i = 0xc1" "lf_wf s"
  defines "k \<equiv> unat (i_Ib i AND 0x1f) mod 17"
  shows "\<exists>t. RCL_Ew i s = Done () t \<and> lf_wf t \<and>
      BX_READ_16BIT_REG (rm i) t = (if k = 0 then BX_READ_16BIT_REG (rm i) s else rcl k (BX_READ_16BIT_REG (rm i) s) (flag CF s)) \<and>
      flag CF t = (if k = 0 then flag CF s else bit (BX_READ_16BIT_REG (rm i) s) (16 - k))"
    and "\<exists>t. RCR_Ew i s = Done () t \<and> lf_wf t \<and>
      BX_READ_16BIT_REG (rm i) t = (if k = 0 then BX_READ_16BIT_REG (rm i) s else rcr k (BX_READ_16BIT_REG (rm i) s) (flag CF s)) \<and>
      flag CF t = (if k = 0 then flag CF s else bit (BX_READ_16BIT_REG (rm i) s) (k - 1))"
proof -
  show "\<exists>t. RCL_Ew i s = Done () t \<and> lf_wf t \<and>
      BX_READ_16BIT_REG (rm i) t = (if k = 0 then BX_READ_16BIT_REG (rm i) s else rcl k (BX_READ_16BIT_REG (rm i) s) (flag CF s)) \<and>
      flag CF t = (if k = 0 then flag CF s else bit (BX_READ_16BIT_REG (rm i) s) (16 - k))"
    using assms(1,2,3) by (auto simp: RCL_Ew_def shift_count_def Let_def k_def [symmetric] rcl_def and_1_drop or.commute)
  show "\<exists>t. RCR_Ew i s = Done () t \<and> lf_wf t \<and>
      BX_READ_16BIT_REG (rm i) t = (if k = 0 then BX_READ_16BIT_REG (rm i) s else rcr k (BX_READ_16BIT_REG (rm i) s) (flag CF s)) \<and>
      flag CF t = (if k = 0 then flag CF s else bit (BX_READ_16BIT_REG (rm i) s) (k - 1))"
    using assms(1,2,3) by (auto simp: RCR_Ew_def shift_count_def Let_def k_def [symmetric] rcr_def and_1_drop)
qed

lemma rotate_carry_32:
  assumes "modC0 i" "i_b1 i = 0xc1" "lf_wf s"
  defines "k \<equiv> unat (i_Ib i AND 0x1f)"
  shows "\<exists>t. RCL_Ed i s = Done () t \<and> lf_wf t \<and>
      BX_READ_32BIT_REG (rm i) t = (if k = 0 then BX_READ_32BIT_REG (rm i) s else rcl k (BX_READ_32BIT_REG (rm i) s) (flag CF s)) \<and>
      flag CF t = (if k = 0 then flag CF s else bit (BX_READ_32BIT_REG (rm i) s) (32 - k))"
    and "\<exists>t. RCR_Ed i s = Done () t \<and> lf_wf t \<and>
      BX_READ_32BIT_REG (rm i) t = (if k = 0 then BX_READ_32BIT_REG (rm i) s else rcr k (BX_READ_32BIT_REG (rm i) s) (flag CF s)) \<and>
      flag CF t = (if k = 0 then flag CF s else bit (BX_READ_32BIT_REG (rm i) s) (k - 1))"
proof -
  show "\<exists>t. RCL_Ed i s = Done () t \<and> lf_wf t \<and>
      BX_READ_32BIT_REG (rm i) t = (if k = 0 then BX_READ_32BIT_REG (rm i) s else rcl k (BX_READ_32BIT_REG (rm i) s) (flag CF s)) \<and>
      flag CF t = (if k = 0 then flag CF s else bit (BX_READ_32BIT_REG (rm i) s) (32 - k))"
    using assms(1,2,3) by (auto simp: RCL_Ed_def shift_count_def Let_def k_def [symmetric] rcl_def and_1_drop or.commute)
  show "\<exists>t. RCR_Ed i s = Done () t \<and> lf_wf t \<and>
      BX_READ_32BIT_REG (rm i) t = (if k = 0 then BX_READ_32BIT_REG (rm i) s else rcr k (BX_READ_32BIT_REG (rm i) s) (flag CF s)) \<and>
      flag CF t = (if k = 0 then flag CF s else bit (BX_READ_32BIT_REG (rm i) s) (k - 1))"
    using assms(1,2,3) by (auto simp: RCR_Ed_def shift_count_def Let_def k_def [symmetric] rcr_def and_1_drop)
qed


section \<open>Properties\<close>

text \<open>What the rotates, the shifts and the rotates through the carry promise of the operand
  that a function reads in the state.\<close>

abbreviation rotates :: "unit bx \<Rightarrow> (cpu \<Rightarrow> 'a::len word) \<Rightarrow> (nat \<Rightarrow> 'a word \<Rightarrow> 'a word) \<Rightarrow> nat \<Rightarrow> Bit8u \<Rightarrow> cpu \<Rightarrow> bool" where
  "rotates op reg f b c s \<equiv> \<exists>t. op s = Done () t \<and> reg t = f (unat c) (reg s) \<and>
     (c AND 0x1f \<noteq> 0 \<longrightarrow> flag CF t = bit (reg t) b)"

abbreviation shifts_left :: "unit bx \<Rightarrow> (cpu \<Rightarrow> 'a::len word) \<Rightarrow> nat \<Rightarrow> nat \<Rightarrow> cpu \<Rightarrow> bool" where
  "shifts_left op reg n k s \<equiv> \<exists>t. op s = Done () t \<and> lf_wf t \<and> uint (reg t) = uint (reg s) * 2 ^ k mod 2 ^ n \<and>
     (k \<noteq> 0 \<longrightarrow> flag CF t = odd (uint (reg s) * 2 ^ k div 2 ^ n))"

abbreviation shifts_right :: "unit bx \<Rightarrow> (cpu \<Rightarrow> 'a::len word) \<Rightarrow> ('a word \<Rightarrow> int) \<Rightarrow> nat \<Rightarrow> cpu \<Rightarrow> bool" where
  "shifts_right op reg v k s \<equiv> \<exists>t. op s = Done () t \<and> lf_wf t \<and> v (reg t) = v (reg s) div 2 ^ k \<and>
     (k \<noteq> 0 \<longrightarrow> flag CF t = odd (v (reg s) div 2 ^ (k - 1)))"

abbreviation undoes :: "unit bx \<Rightarrow> unit bx \<Rightarrow> (cpu \<Rightarrow> 'a::len word) \<Rightarrow> cpu \<Rightarrow> bool" where
  "undoes op back reg s \<equiv> \<exists>t u. op s = Done () t \<and> back t = Done () u \<and> reg u = reg s \<and> flag CF u = flag CF s"

text \<open>The operands of the witnesses: shifts of EAX by five.\<close>

abbreviation by_5 :: "nat \<Rightarrow> bxInstruction" where
  "by_5 opcode \<equiv> (reg_instr 0 0)\<lparr>i_b1 := opcode, i_Ib := 5\<rparr>"

lemma shift_count_by_5:
  "shift_count 0xc0 0xd0 (by_5 0xc0) s = Done 5 s" "shift_count 0xc1 0xd1 (by_5 0xc1) s = Done 5 s"
  by (simp_all add: shift_count_def)

lemma lf_wf_boot_regs: "lf_wf (boot_regs a c d)"
  using boot_wf unfolding boot_regs_def by (simp add: lf_wf_def flag_of_def)

text \<open>C28
  ROL and ROR rotate a register operand of any width by the whole count modulo the width, and a
  count that is not zero modulo 32 leaves the last bit moved around in CF, also if the rotated
  value is the old one.\<close>

theorem rotates_exact:
  assumes "modC0 i"
  shows "(shift_count 0xc0 0xd0 i s = Done c s \<longrightarrow>
     rotates (ROL_Eb i) (BX_READ_8BIT_REG (rm i)) word_rotl 0 c s \<and>
     rotates (ROR_Eb i) (BX_READ_8BIT_REG (rm i)) word_rotr 7 c s) \<and>
   (shift_count 0xc1 0xd1 i s = Done c s \<longrightarrow>
     rotates (ROL_Ew i) (BX_READ_16BIT_REG (rm i)) word_rotl 0 c s \<and>
     rotates (ROR_Ew i) (BX_READ_16BIT_REG (rm i)) word_rotr 15 c s \<and>
     rotates (ROL_Ed i) (BX_READ_32BIT_REG (rm i)) word_rotl 0 c s \<and>
     rotates (ROR_Ed i) (BX_READ_32BIT_REG (rm i)) word_rotr 31 c s)"
  by (intro conjI impI; rule ROL_8 ROR_8 ROL_16 ROR_16 ROL_32 ROR_32; (rule assms | assumption))

lemma rotates_exact_witness:
  fixes eax :: cpu
  defines "eax \<equiv> boot_regs 0x8badf00d 0 0"
  shows "rotates (ROL_Eb (by_5 0xc0)) (BX_READ_8BIT_REG 0) word_rotl 0 5 eax \<and>
     rotates (ROR_Eb (by_5 0xc0)) (BX_READ_8BIT_REG 0) word_rotr 7 5 eax \<and>
     rotates (ROL_Ew (by_5 0xc1)) (BX_READ_16BIT_REG 0) word_rotl 0 5 eax \<and>
     rotates (ROR_Ew (by_5 0xc1)) (BX_READ_16BIT_REG 0) word_rotr 15 5 eax \<and>
     rotates (ROL_Ed (by_5 0xc1)) (BX_READ_32BIT_REG 0) word_rotl 0 5 eax \<and>
     rotates (ROR_Ed (by_5 0xc1)) (BX_READ_32BIT_REG 0) word_rotr 31 5 eax"
  using rotates_exact [of "by_5 0xc0" eax 5] rotates_exact [of "by_5 0xc1" eax 5]
    shift_count_by_5 [of eax] lf_wf_boot_regs [of "0x8badf00d" 0 0]
  by (simp add: eax_def [symmetric])

text \<open>C29
  SHL, SHR and SAR of a register operand multiply and divide by the power of two the count modulo
  32 gives: SHL modulo the width, SHR of the unsigned and SAR of the signed number rounding
  towards minus infinity, and CF is the last bit moved out, also for counts beyond the width.\<close>

theorem shifts_exact:
  assumes "modC0 i"
    and "lf_wf s"
  shows "(shift_count 0xc0 0xd0 i s = Done c s \<longrightarrow>
     shifts_left (SHL_Eb i) (BX_READ_8BIT_REG (rm i)) 8 (unat c mod 32) s \<and>
     shifts_right (SHR_Eb i) (BX_READ_8BIT_REG (rm i)) uint (unat c mod 32) s \<and>
     shifts_right (SAR_Eb i) (BX_READ_8BIT_REG (rm i)) sint (unat c mod 32) s) \<and>
   (shift_count 0xc1 0xd1 i s = Done c s \<longrightarrow>
     shifts_left (SHL_Ew i) (BX_READ_16BIT_REG (rm i)) 16 (unat c mod 32) s \<and>
     shifts_right (SHR_Ew i) (BX_READ_16BIT_REG (rm i)) uint (unat c mod 32) s \<and>
     shifts_right (SAR_Ew i) (BX_READ_16BIT_REG (rm i)) sint (unat c mod 32) s \<and>
     shifts_left (SHL_Ed i) (BX_READ_32BIT_REG (rm i)) 32 (unat c mod 32) s \<and>
     shifts_right (SHR_Ed i) (BX_READ_32BIT_REG (rm i)) uint (unat c mod 32) s \<and>
     shifts_right (SAR_Ed i) (BX_READ_32BIT_REG (rm i)) sint (unat c mod 32) s)"
  by (intro conjI impI; rule shifts_8 shifts_16 shifts_32; (rule assms | assumption))

lemma shifts_exact_witness:
  fixes eax :: cpu
  defines "eax \<equiv> boot_regs 0x8badf00d 0 0"
  shows "shifts_left (SHL_Eb (by_5 0xc0)) (BX_READ_8BIT_REG 0) 8 5 eax \<and>
     shifts_right (SHR_Eb (by_5 0xc0)) (BX_READ_8BIT_REG 0) uint 5 eax \<and>
     shifts_right (SAR_Eb (by_5 0xc0)) (BX_READ_8BIT_REG 0) sint 5 eax \<and>
     shifts_left (SHL_Ew (by_5 0xc1)) (BX_READ_16BIT_REG 0) 16 5 eax \<and>
     shifts_right (SHR_Ew (by_5 0xc1)) (BX_READ_16BIT_REG 0) uint 5 eax \<and>
     shifts_right (SAR_Ew (by_5 0xc1)) (BX_READ_16BIT_REG 0) sint 5 eax \<and>
     shifts_left (SHL_Ed (by_5 0xc1)) (BX_READ_32BIT_REG 0) 32 5 eax \<and>
     shifts_right (SHR_Ed (by_5 0xc1)) (BX_READ_32BIT_REG 0) uint 5 eax \<and>
     shifts_right (SAR_Ed (by_5 0xc1)) (BX_READ_32BIT_REG 0) sint 5 eax"
  using shifts_exact [of "by_5 0xc0" eax 5] shifts_exact [of "by_5 0xc1" eax 5]
    shift_count_by_5 [of eax] lf_wf_boot_regs [of "0x8badf00d" 0 0]
  by (simp add: eax_def [symmetric])

lemma rcl_rcr_8:
  assumes "modC0 i" "i_b1 i = 0xc0" "lf_wf s"
  shows "undoes (RCL_Eb i) (RCR_Eb i) (BX_READ_8BIT_REG (rm i)) s"
proof -
  define k where "k = unat (i_Ib i AND 0x1f) mod 9"
  have k: "k < 9" by (simp add: k_def count_mod)
  obtain t where t: "RCL_Eb i s = Done () t" "lf_wf t"
      "BX_READ_8BIT_REG (rm i) t = (if k = 0 then BX_READ_8BIT_REG (rm i) s else rcl k (BX_READ_8BIT_REG (rm i) s) (flag CF s))"
      "flag CF t = (if k = 0 then flag CF s else bit (BX_READ_8BIT_REG (rm i) s) (8 - k))"
    using rotate_carry_8(1) [OF assms] unfolding k_def by blast
  obtain u where u: "RCR_Eb i t = Done () u"
      "BX_READ_8BIT_REG (rm i) u = (if k = 0 then BX_READ_8BIT_REG (rm i) t else rcr k (BX_READ_8BIT_REG (rm i) t) (flag CF t))"
      "flag CF u = (if k = 0 then flag CF t else bit (BX_READ_8BIT_REG (rm i) t) (k - 1))"
    using rotate_carry_8(2) [OF assms(1,2) t(2)] unfolding k_def by blast
  show ?thesis
  proof (cases "k = 0")
    case True
    with t u show ?thesis by simp
  next
    case False
    with k t u show ?thesis
      using rcr_rcl [of k "BX_READ_8BIT_REG (rm i) s" "flag CF s"] by simp
  qed
qed

lemma rcl_rcr_16:
  assumes "modC0 i" "i_b1 i = 0xc1" "lf_wf s"
  shows "undoes (RCL_Ew i) (RCR_Ew i) (BX_READ_16BIT_REG (rm i)) s"
proof -
  define k where "k = unat (i_Ib i AND 0x1f) mod 17"
  have k: "k < 17" by (simp add: k_def count_mod)
  obtain t where t: "RCL_Ew i s = Done () t" "lf_wf t"
      "BX_READ_16BIT_REG (rm i) t = (if k = 0 then BX_READ_16BIT_REG (rm i) s else rcl k (BX_READ_16BIT_REG (rm i) s) (flag CF s))"
      "flag CF t = (if k = 0 then flag CF s else bit (BX_READ_16BIT_REG (rm i) s) (16 - k))"
    using rotate_carry_16(1) [OF assms] unfolding k_def by blast
  obtain u where u: "RCR_Ew i t = Done () u"
      "BX_READ_16BIT_REG (rm i) u = (if k = 0 then BX_READ_16BIT_REG (rm i) t else rcr k (BX_READ_16BIT_REG (rm i) t) (flag CF t))"
      "flag CF u = (if k = 0 then flag CF t else bit (BX_READ_16BIT_REG (rm i) t) (k - 1))"
    using rotate_carry_16(2) [OF assms(1,2) t(2)] unfolding k_def by blast
  show ?thesis
  proof (cases "k = 0")
    case True
    with t u show ?thesis by simp
  next
    case False
    with k t u show ?thesis
      using rcr_rcl [of k "BX_READ_16BIT_REG (rm i) s" "flag CF s"] by simp
  qed
qed

lemma rcl_rcr_32:
  assumes "modC0 i" "i_b1 i = 0xc1" "lf_wf s"
  shows "undoes (RCL_Ed i) (RCR_Ed i) (BX_READ_32BIT_REG (rm i)) s"
proof -
  define k where "k = unat (i_Ib i AND 0x1f)"
  have k: "k < 32" by (simp add: k_def count_mod)
  obtain t where t: "RCL_Ed i s = Done () t" "lf_wf t"
      "BX_READ_32BIT_REG (rm i) t = (if k = 0 then BX_READ_32BIT_REG (rm i) s else rcl k (BX_READ_32BIT_REG (rm i) s) (flag CF s))"
      "flag CF t = (if k = 0 then flag CF s else bit (BX_READ_32BIT_REG (rm i) s) (32 - k))"
    using rotate_carry_32(1) [OF assms] unfolding k_def by blast
  obtain u where u: "RCR_Ed i t = Done () u"
      "BX_READ_32BIT_REG (rm i) u = (if k = 0 then BX_READ_32BIT_REG (rm i) t else rcr k (BX_READ_32BIT_REG (rm i) t) (flag CF t))"
      "flag CF u = (if k = 0 then flag CF t else bit (BX_READ_32BIT_REG (rm i) t) (k - 1))"
    using rotate_carry_32(2) [OF assms(1,2) t(2)] unfolding k_def by blast
  show ?thesis
  proof (cases "k = 0")
    case True
    with t u show ?thesis by simp
  next
    case False
    with k t u show ?thesis
      using rcr_rcl [of k "BX_READ_32BIT_REG (rm i) s" "flag CF s"] by simp
  qed
qed

text \<open>C30
  Rotating through the carry to the right by an immediate count undoes rotating to the left by the
  same count at every width: the operand and CF are as before.\<close>

theorem rcl_rcr_roundtrip:
  assumes "modC0 i" "lf_wf s"
  shows "(i_b1 i = 0xc0 \<longrightarrow>
     undoes (RCL_Eb i) (RCR_Eb i) (BX_READ_8BIT_REG (rm i)) s) \<and>
   (i_b1 i = 0xc1 \<longrightarrow>
     undoes (RCL_Ew i) (RCR_Ew i) (BX_READ_16BIT_REG (rm i)) s \<and>
     undoes (RCL_Ed i) (RCR_Ed i) (BX_READ_32BIT_REG (rm i)) s)"
  by (intro conjI impI; rule rcl_rcr_8 rcl_rcr_16 rcl_rcr_32; (rule assms | assumption))

lemma rcl_rcr_witness:
  fixes eax :: cpu
  defines "eax \<equiv> boot_regs 0x8badf00d 0 0"
  shows "undoes (RCL_Eb (by_5 0xc0)) (RCR_Eb (by_5 0xc0)) (BX_READ_8BIT_REG 0) eax \<and>
     undoes (RCL_Ew (by_5 0xc1)) (RCR_Ew (by_5 0xc1)) (BX_READ_16BIT_REG 0) eax \<and>
     undoes (RCL_Ed (by_5 0xc1)) (RCR_Ed (by_5 0xc1)) (BX_READ_32BIT_REG 0) eax"
  using rcl_rcr_roundtrip [of "by_5 0xc0" eax] rcl_rcr_roundtrip [of "by_5 0xc1" eax]
    lf_wf_boot_regs [of "0x8badf00d" 0 0]
  by (simp add: eax_def [symmetric])


section \<open>Double shifts\<close>

lemma append_bits:
  fixes b :: "'a::len word"
  shows "x * 2 ^ LENGTH('a) + uint b = push_bit LENGTH('a) x OR uint b"
proof -
  have "push_bit LENGTH('a) x + uint b = push_bit LENGTH('a) x OR uint b"
    by (rule disjunctive_add) (auto simp: bit_simps not_le dest: bit_imp_le_length)
  then show ?thesis by (simp add: push_bit_eq_mult)
qed

lemma window_16:
  fixes a b :: Bit16u
  assumes "k < 32" "0 < k"
  shows "uint (ucast (drop_bit 16 (if 16 < k then push_bit k (push_bit 16 (ucast a) OR ucast b) OR push_bit (k - 16) (ucast a)
           else push_bit k (push_bit 16 (ucast a) OR ucast b) :: Bit32u)) :: Bit16u) =
     (uint (a :: Bit16u) * 2 ^ 32 + uint b * 2 ^ 16 + uint a) div 2 ^ (32 - k) mod 2 ^ 16"
    and "uint (ucast (if 16 < k then drop_bit k (push_bit 16 (ucast b) OR ucast a) OR push_bit (32 - k) (ucast a)
           else drop_bit k (push_bit 16 (ucast b) OR ucast a) :: Bit32u) :: Bit16u) =
     (uint (a :: Bit16u) * 2 ^ 32 + uint b * 2 ^ 16 + uint a) div 2 ^ k mod 2 ^ 16"
proof -
  have "uint a * 2 ^ 32 + uint b * 2 ^ 16 + uint a = (uint a * 2 ^ 16 + uint b) * 2 ^ 16 + uint a"
    by simp
  also have "\<dots> = push_bit 16 (push_bit 16 (uint a) OR uint b) OR uint a"
    using append_bits [of "uint a" b] append_bits [of "push_bit 16 (uint a) OR uint b" a] by simp
  finally have w: "uint a * 2 ^ 32 + uint b * 2 ^ 16 + uint a = push_bit 32 (uint a) OR push_bit 16 (uint b) OR uint a"
    by (simp add: push_bit_or or.assoc)
  show "uint (ucast (drop_bit 16 (if 16 < k then push_bit k (push_bit 16 (ucast a) OR ucast b) OR push_bit (k - 16) (ucast a)
           else push_bit k (push_bit 16 (ucast a) OR ucast b) :: Bit32u)) :: Bit16u) =
     (uint (a :: Bit16u) * 2 ^ 32 + uint b * 2 ^ 16 + uint a) div 2 ^ (32 - k) mod 2 ^ 16"
    unfolding w drop_bit_eq_div [symmetric] take_bit_eq_mod [symmetric]
    using assms by (intro bit_eqI) (auto simp: bit_simps ac_simps dest: bit_imp_le_length)
  show "uint (ucast (if 16 < k then drop_bit k (push_bit 16 (ucast b) OR ucast a) OR push_bit (32 - k) (ucast a)
           else drop_bit k (push_bit 16 (ucast b) OR ucast a) :: Bit32u) :: Bit16u) =
     (uint (a :: Bit16u) * 2 ^ 32 + uint b * 2 ^ 16 + uint a) div 2 ^ k mod 2 ^ 16"
    unfolding w drop_bit_eq_div [symmetric] take_bit_eq_mod [symmetric]
    using assms by (intro bit_eqI) (auto simp: bit_simps ac_simps dest: bit_imp_le_length)
qed

lemma window_32:
  assumes "k < 32" "0 < k"
  shows "uint (push_bit k a OR drop_bit (32 - k) b) =
     (uint (a :: Bit32u) * 2 ^ 32 + uint b) div 2 ^ (32 - k) mod 2 ^ 32"
    and "uint (push_bit (32 - k) b OR drop_bit k a) =
     (uint (b :: Bit32u) * 2 ^ 32 + uint a) div 2 ^ k mod 2 ^ 32"
proof -
  have w: "uint a * 2 ^ 32 + uint b = push_bit 32 (uint a) OR uint b" for a b :: Bit32u
    using append_bits [of "uint a" b] by simp
  show "uint (push_bit k a OR drop_bit (32 - k) b) =
     (uint (a :: Bit32u) * 2 ^ 32 + uint b) div 2 ^ (32 - k) mod 2 ^ 32"
    unfolding w drop_bit_eq_div [symmetric] take_bit_eq_mod [symmetric]
    using assms by (intro bit_eqI) (auto simp: bit_simps ac_simps dest: bit_imp_le_length)
  show "uint (push_bit (32 - k) b OR drop_bit k a) =
     (uint (b :: Bit32u) * 2 ^ 32 + uint a) div 2 ^ k mod 2 ^ 32"
    unfolding w drop_bit_eq_div [symmetric] take_bit_eq_mod [symmetric]
    using assms by (intro bit_eqI) (auto simp: bit_simps ac_simps dest: bit_imp_le_length)
qed

abbreviation window_of :: "unit bx \<Rightarrow> (cpu \<Rightarrow> 'a::len word) \<Rightarrow> int \<Rightarrow> nat \<Rightarrow> cpu \<Rightarrow> bool" where
  "window_of op reg v k s \<equiv> \<exists>t. op s = Done () t \<and> uint (reg t) = v div 2 ^ k mod 2 ^ LENGTH('a)"

text \<open>The count of the forms with opcode \<open>imm\<close>, an immediate, and of the others, CL.\<close>

definition double_count :: "nat \<Rightarrow> bxInstruction \<Rightarrow> cpu \<Rightarrow> nat" where
  "double_count imm i s = unat (if i_b1 i = imm then i_Ib i else CL s) mod 32"

lemma double_count_cases:
  "i_b1 i = imm \<Longrightarrow> unat (i_Ib i AND 0x1f) = double_count imm i s"
  "i_b1 i \<noteq> imm \<Longrightarrow> unat (CL s AND 0x1f) = double_count imm i s"
  by (simp_all add: double_count_def count_mod)

text \<open>With the count read, the routines go on with \<open>double_count\<close>.\<close>

lemma double_read:
  "SHLD_EwGw i s = SHLD_EwGw (i\<lparr>i_b1 := 0x1a4, i_Ib := word_of_nat (double_count 0x1a4 i s)\<rparr>) s"
  "SHRD_EwGw i s = SHRD_EwGw (i\<lparr>i_b1 := 0x1ac, i_Ib := word_of_nat (double_count 0x1ac i s)\<rparr>) s"
  "SHLD_EdGd i s = SHLD_EdGd (i\<lparr>i_b1 := 0x1a4, i_Ib := word_of_nat (double_count 0x1a4 i s)\<rparr>) s"
  "SHRD_EdGd i s = SHRD_EdGd (i\<lparr>i_b1 := 0x1ac, i_Ib := word_of_nat (double_count 0x1ac i s)\<rparr>) s"
proof -
  have "unat (word_of_nat (double_count imm i s) AND (0x1f :: Bit8u)) = double_count imm i s" for imm
    by (simp add: count_mod double_count_def unat_of_nat)
  then have c: "word_of_nat (double_count imm i s) AND 0x1f = (if i_b1 i = imm then i_Ib i else CL s) AND 0x1f" for imm
    using double_count_cases [of i imm s] by (simp add: word_unat_eq_iff)
  have f: "fetch_Ew (i\<lparr>i_b1 := x, i_Ib := y\<rparr>) = fetch_Ew i" "put_Ew (i\<lparr>i_b1 := x, i_Ib := y\<rparr>) = put_Ew i"
    "fetch_Ed (i\<lparr>i_b1 := x, i_Ib := y\<rparr>) = fetch_Ed i" "put_Ed (i\<lparr>i_b1 := x, i_Ib := y\<rparr>) = put_Ed i" for x y
    by (simp_all add: fetch_Ew_def put_Ew_def fetch_Ed_def put_Ed_def fun_eq_iff)
  show "SHLD_EwGw i s = SHLD_EwGw (i\<lparr>i_b1 := 0x1a4, i_Ib := word_of_nat (double_count 0x1a4 i s)\<rparr>) s"
    using c [of "0x1a4"] by (cases "i_b1 i = 0x1a4") (simp_all add: SHLD_EwGw_def f Let_def cong: if_cong)
  show "SHRD_EwGw i s = SHRD_EwGw (i\<lparr>i_b1 := 0x1ac, i_Ib := word_of_nat (double_count 0x1ac i s)\<rparr>) s"
    using c [of "0x1ac"] by (cases "i_b1 i = 0x1ac") (simp_all add: SHRD_EwGw_def f Let_def cong: if_cong)
  show "SHLD_EdGd i s = SHLD_EdGd (i\<lparr>i_b1 := 0x1a4, i_Ib := word_of_nat (double_count 0x1a4 i s)\<rparr>) s"
    using c [of "0x1a4"] by (cases "i_b1 i = 0x1a4") (simp_all add: SHLD_EdGd_def f Let_def cong: if_cong)
  show "SHRD_EdGd i s = SHRD_EdGd (i\<lparr>i_b1 := 0x1ac, i_Ib := word_of_nat (double_count 0x1ac i s)\<rparr>) s"
    using c [of "0x1ac"] by (cases "i_b1 i = 0x1ac") (simp_all add: SHRD_EdGd_def f Let_def cong: if_cong)
qed

lemma SHLD_SHRD_imm_16:
  fixes s :: cpu and i :: bxInstruction
  defines "a \<equiv> BX_READ_16BIT_REG (rm i) s" and "b \<equiv> BX_READ_16BIT_REG (nnn i) s"
  assumes "modC0 i"
  shows "i_b1 i = 0x1a4 \<Longrightarrow> window_of (SHLD_EwGw i) (BX_READ_16BIT_REG (rm i)) (uint a * 2 ^ 32 + uint b * 2 ^ 16 + uint a) (32 - unat (i_Ib i) mod 32) s"
    "i_b1 i = 0x1ac \<Longrightarrow> window_of (SHRD_EwGw i) (BX_READ_16BIT_REG (rm i)) (uint a * 2 ^ 32 + uint b * 2 ^ 16 + uint a) (unat (i_Ib i) mod 32) s"
proof -
  define k where "k = unat (i_Ib i) mod 32"
  have k: "unat (i_Ib i AND 0x1f) = k" "k < 32" by (simp_all add: k_def count_mod)
  have 0: "(uint a * 2 ^ 32 + uint b * 2 ^ 16 + uint a) mod 2 ^ 16 = uint a"
    using mod_mult_self2 [of "uint a" "65536" "uint a * 65536 + uint b"] uint_mod_width(2) [of a]
    by (simp add: algebra_simps)
  have "(uint b * 2 ^ 16 + uint a + uint a * 2 ^ 32) div 2 ^ 32 = uint a + (uint b * 2 ^ 16 + uint a) div 2 ^ 32"
    by (rule div_mult_self1) simp
  also have "(uint b * 2 ^ 16 + uint a) div 2 ^ 32 = 0"
    using uint_bounded [of a] uint_bounded [of b] by (intro div_pos_pos_trivial) simp_all
  finally have 1: "(uint a * 2 ^ 32 + uint b * 2 ^ 16 + uint a) div 2 ^ 32 = uint a"
    by (simp add: algebra_simps)
  show "window_of (SHLD_EwGw i) (BX_READ_16BIT_REG (rm i)) (uint a * 2 ^ 32 + uint b * 2 ^ 16 + uint a) (32 - unat (i_Ib i) mod 32) s" if "i_b1 i = 0x1a4"
    using that assms(3) k window_16(1) [where k = k and a = a and b = b] 1 uint_mod_width(2) [of a]
    by (cases "k = 0") (auto simp: SHLD_EwGw_def Let_def k_def [symmetric] a_def [symmetric] b_def [symmetric])
  show "window_of (SHRD_EwGw i) (BX_READ_16BIT_REG (rm i)) (uint a * 2 ^ 32 + uint b * 2 ^ 16 + uint a) (unat (i_Ib i) mod 32) s" if "i_b1 i = 0x1ac"
    using that assms(3) k window_16(2) [where k = k and a = a and b = b] 0
    by (cases "k = 0") (auto simp: SHRD_EwGw_def Let_def k_def [symmetric] a_def [symmetric] b_def [symmetric])
qed

lemma SHLD_SHRD_imm_32:
  fixes s :: cpu and i :: bxInstruction
  defines "a \<equiv> BX_READ_32BIT_REG (rm i) s" and "b \<equiv> BX_READ_32BIT_REG (nnn i) s"
  assumes "modC0 i"
  shows "i_b1 i = 0x1a4 \<Longrightarrow> window_of (SHLD_EdGd i) (BX_READ_32BIT_REG (rm i)) (uint a * 2 ^ 32 + uint b) (32 - unat (i_Ib i) mod 32) s"
    "i_b1 i = 0x1ac \<Longrightarrow> window_of (SHRD_EdGd i) (BX_READ_32BIT_REG (rm i)) (uint b * 2 ^ 32 + uint a) (unat (i_Ib i) mod 32) s"
proof -
  define k where "k = unat (i_Ib i) mod 32"
  have k: "unat (i_Ib i AND 0x1f) = k" "k < 32" by (simp_all add: k_def count_mod)
  show "window_of (SHLD_EdGd i) (BX_READ_32BIT_REG (rm i)) (uint a * 2 ^ 32 + uint b) (32 - unat (i_Ib i) mod 32) s" if "i_b1 i = 0x1a4"
    using that assms(3) k window_32(1) [where k = k and a = a and b = b] uint_mod_width(3) [of a] uint_bounded [of b]
    by (cases "k = 0") (auto simp: SHLD_EdGd_def Let_def k_def [symmetric] a_def [symmetric] b_def [symmetric])
  show "window_of (SHRD_EdGd i) (BX_READ_32BIT_REG (rm i)) (uint b * 2 ^ 32 + uint a) (unat (i_Ib i) mod 32) s" if "i_b1 i = 0x1ac"
    using that assms(3) k window_32(2) [where k = k and a = a and b = b] uint_mod_width(3) [of a]
    by (cases "k = 0") (auto simp: SHRD_EdGd_def Let_def k_def [symmetric] a_def [symmetric] b_def [symmetric])
qed

lemma SHLD_SHRD:
  assumes "modC0 i"
  shows "window_of (SHLD_EwGw i) (BX_READ_16BIT_REG (rm i)) (uint (BX_READ_16BIT_REG (rm i) s) * 2 ^ 32 +
      uint (BX_READ_16BIT_REG (nnn i) s) * 2 ^ 16 + uint (BX_READ_16BIT_REG (rm i) s)) (32 - double_count 0x1a4 i s) s"
    "window_of (SHRD_EwGw i) (BX_READ_16BIT_REG (rm i)) (uint (BX_READ_16BIT_REG (rm i) s) * 2 ^ 32 +
      uint (BX_READ_16BIT_REG (nnn i) s) * 2 ^ 16 + uint (BX_READ_16BIT_REG (rm i) s)) (double_count 0x1ac i s) s"
    "window_of (SHLD_EdGd i) (BX_READ_32BIT_REG (rm i)) (uint (BX_READ_32BIT_REG (rm i) s) * 2 ^ 32 +
      uint (BX_READ_32BIT_REG (nnn i) s)) (32 - double_count 0x1a4 i s) s"
    "window_of (SHRD_EdGd i) (BX_READ_32BIT_REG (rm i)) (uint (BX_READ_32BIT_REG (nnn i) s) * 2 ^ 32 +
      uint (BX_READ_32BIT_REG (rm i) s)) (double_count 0x1ac i s) s"
proof -
  have k: "unat (word_of_nat (double_count imm i s) :: Bit8u) mod 32 = double_count imm i s" for imm
    by (simp add: double_count_def unat_of_nat)
  let ?l = "i\<lparr>i_b1 := 0x1a4, i_Ib := word_of_nat (double_count 0x1a4 i s)\<rparr>"
  let ?r = "i\<lparr>i_b1 := 0x1ac, i_Ib := word_of_nat (double_count 0x1ac i s)\<rparr>"
  have m: "modC0 ?l" "modC0 ?r" "i_b1 ?l = 0x1a4" "i_b1 ?r = 0x1ac" using assms by simp_all
  note shifts = SHLD_SHRD_imm_16(1) [OF m(1,3), of s] SHLD_SHRD_imm_16(2) [OF m(2,4), of s]
    SHLD_SHRD_imm_32(1) [OF m(1,3), of s] SHLD_SHRD_imm_32(2) [OF m(2,4), of s]
  show "window_of (SHLD_EwGw i) (BX_READ_16BIT_REG (rm i)) (uint (BX_READ_16BIT_REG (rm i) s) * 2 ^ 32 +
      uint (BX_READ_16BIT_REG (nnn i) s) * 2 ^ 16 + uint (BX_READ_16BIT_REG (rm i) s)) (32 - double_count 0x1a4 i s) s"
    using shifts(1) k by (subst double_read) simp
  show "window_of (SHRD_EwGw i) (BX_READ_16BIT_REG (rm i)) (uint (BX_READ_16BIT_REG (rm i) s) * 2 ^ 32 +
      uint (BX_READ_16BIT_REG (nnn i) s) * 2 ^ 16 + uint (BX_READ_16BIT_REG (rm i) s)) (double_count 0x1ac i s) s"
    using shifts(2) k by (subst double_read) simp
  show "window_of (SHLD_EdGd i) (BX_READ_32BIT_REG (rm i)) (uint (BX_READ_32BIT_REG (rm i) s) * 2 ^ 32 +
      uint (BX_READ_32BIT_REG (nnn i) s)) (32 - double_count 0x1a4 i s) s"
    using shifts(3) k by (subst double_read) simp
  show "window_of (SHRD_EdGd i) (BX_READ_32BIT_REG (rm i)) (uint (BX_READ_32BIT_REG (nnn i) s) * 2 ^ 32 +
      uint (BX_READ_32BIT_REG (rm i) s)) (double_count 0x1ac i s) s"
    using shifts(4) k by (subst double_read) simp
qed

text \<open>C31
  SHLD and SHRD with a register destination, with an immediate count and with CL, move a window over
  the bits of their operands: at 32 bits over the destination and the source, at 16 bits, where the
  count may exceed the width, over the destination, the source and the destination once more. The
  result is the window that the count modulo 32 selects. For 16-bit counts above 16 this is what the
  code computes and not what its comments say: the comment of \<open>SHLD_EwGw\<close> gives the bits as
  op1:op2:op2, the one of \<open>SHRD_EwGw\<close> as op2:op2:op1, while both routines fill in op1.\<close>

theorem shld_shrd_windows:
  fixes s :: cpu and i :: bxInstruction
  defines "a \<equiv> BX_READ_16BIT_REG (rm i) s" and "b \<equiv> BX_READ_16BIT_REG (nnn i) s"
    and "c \<equiv> BX_READ_32BIT_REG (rm i) s" and "d \<equiv> BX_READ_32BIT_REG (nnn i) s"
    and "k \<equiv> unat (if i_b1 i = 0x1a4 then i_Ib i else CL s) mod 32"
    and "l \<equiv> unat (if i_b1 i = 0x1ac then i_Ib i else CL s) mod 32"
  assumes "modC0 i"
  shows "window_of (SHLD_EwGw i) (BX_READ_16BIT_REG (rm i)) (uint a * 2 ^ 32 + uint b * 2 ^ 16 + uint a) (32 - k) s \<and>
    window_of (SHLD_EdGd i) (BX_READ_32BIT_REG (rm i)) (uint c * 2 ^ 32 + uint d) (32 - k) s \<and>
    window_of (SHRD_EwGw i) (BX_READ_16BIT_REG (rm i)) (uint a * 2 ^ 32 + uint b * 2 ^ 16 + uint a) l s \<and>
    window_of (SHRD_EdGd i) (BX_READ_32BIT_REG (rm i)) (uint d * 2 ^ 32 + uint c) l s"
  unfolding a_def b_def c_def d_def k_def l_def double_count_def [symmetric]
  by (intro conjI SHLD_SHRD assms)

lemma shld_shrd_witness:
  "window_of (SHLD_EwGw ((reg_instr 0 1)\<lparr>i_b1 := 0x1a4, i_Ib := 20\<rparr>)) (BX_READ_16BIT_REG 0) 0x123456781234 12 (boot_regs 0x1234 0x5678 0) \<and>
   window_of (SHRD_EdGd ((reg_instr 0 1)\<lparr>i_b1 := 0x1ac, i_Ib := 20\<rparr>)) (BX_READ_32BIT_REG 0) 0x567800001234 20 (boot_regs 0x1234 0x5678 0)"
  using shld_shrd_windows [of "(reg_instr 0 1)\<lparr>i_b1 := 0x1a4, i_Ib := 20\<rparr>" "boot_regs 0x1234 0x5678 0"]
    shld_shrd_windows [of "(reg_instr 0 1)\<lparr>i_b1 := 0x1ac, i_Ib := 20\<rparr>" "boot_regs 0x1234 0x5678 0"]
  by (simp add: BX_READ_32BIT_REG_def)

end
