(* ===== verification/BxLogic.thy ===== *)
theory BxLogic
  imports BxOperands BxFlagCtrl
begin


text \<open>
  The bitwise instructions (\<open>cpu/logical8.cc\<close>, \<open>cpu/logical16.cc\<close>,
  \<open>cpu/logical32.cc\<close>), the branches without host assembler: the result is recorded for
  the lazy flags before or after the register is written, as each handler does; \<open>NOT\<close>
  records nothing and \<open>TEST\<close> writes nothing.
\<close>

section \<open>8 bits\<close>

definition XOR_EbGb :: "bxInstruction \<Rightarrow> unit bx" where
  "XOR_EbGb i =
     and_then (gets (BX_READ_8BIT_REG (nnn i))) (\<lambda>op2.
     and_then (rmw_Eb i (\<lambda>op1. op1 XOR op2)) (\<lambda>op1.
     update (SET_FLAGS_OSZAPC_RESULT_8 (op1 XOR op2) BX_INSTR_LOGIC8)))"

definition XOR_GbEb :: "bxInstruction \<Rightarrow> unit bx" where
  "XOR_GbEb i =
     and_then (gets (BX_READ_8BIT_REG (nnn i))) (\<lambda>op1.
     and_then (load_Eb i) (\<lambda>op2.
     and_then (update (BX_WRITE_8BIT_REG (nnn i) (op1 XOR op2))) (\<lambda>_.
     update (SET_FLAGS_OSZAPC_RESULT_8 (op1 XOR op2) BX_INSTR_LOGIC8))))"

definition XOR_ALIb :: "bxInstruction \<Rightarrow> unit bx" where
  "XOR_ALIb i =
     and_then (gets (\<lambda>s. (AL s, i_Ib i))) (\<lambda>(op1, op2).
     and_then (update (write_reg_rl 0 (op1 XOR op2))) (\<lambda>_.
     update (SET_FLAGS_OSZAPC_RESULT_8 (op1 XOR op2) BX_INSTR_LOGIC8)))"

definition XOR_EbIb :: "bxInstruction \<Rightarrow> unit bx" where
  "XOR_EbIb i =
     and_then (gets (\<lambda>_. i_Ib i)) (\<lambda>op2.
     and_then (rmw_Eb i (\<lambda>op1. op1 XOR op2)) (\<lambda>op1.
     update (SET_FLAGS_OSZAPC_RESULT_8 (op1 XOR op2) BX_INSTR_LOGIC8)))"

definition OR_EbGb :: "bxInstruction \<Rightarrow> unit bx" where
  "OR_EbGb i =
     and_then (gets (BX_READ_8BIT_REG (nnn i))) (\<lambda>op2.
     and_then (rmw_Eb i (\<lambda>op1. op1 OR op2)) (\<lambda>op1.
     update (SET_FLAGS_OSZAPC_RESULT_8 (op1 OR op2) BX_INSTR_LOGIC8)))"

definition OR_GbEb :: "bxInstruction \<Rightarrow> unit bx" where
  "OR_GbEb i =
     and_then (gets (BX_READ_8BIT_REG (nnn i))) (\<lambda>op1.
     and_then (load_Eb i) (\<lambda>op2.
     and_then (update (SET_FLAGS_OSZAPC_RESULT_8 (op1 OR op2) BX_INSTR_LOGIC8)) (\<lambda>_.
     update (BX_WRITE_8BIT_REG (nnn i) (op1 OR op2)))))"

definition OR_ALIb :: "bxInstruction \<Rightarrow> unit bx" where
  "OR_ALIb i =
     and_then (gets (\<lambda>s. (AL s, i_Ib i))) (\<lambda>(op1, op2).
     and_then (update (SET_FLAGS_OSZAPC_RESULT_8 (op1 OR op2) BX_INSTR_LOGIC8)) (\<lambda>_.
     update (write_reg_rl 0 (op1 OR op2))))"

definition OR_EbIb :: "bxInstruction \<Rightarrow> unit bx" where
  "OR_EbIb i =
     and_then (gets (\<lambda>_. i_Ib i)) (\<lambda>op2.
     and_then (rmw_Eb i (\<lambda>op1. op1 OR op2)) (\<lambda>op1.
     update (SET_FLAGS_OSZAPC_RESULT_8 (op1 OR op2) BX_INSTR_LOGIC8)))"

definition AND_EbGb :: "bxInstruction \<Rightarrow> unit bx" where
  "AND_EbGb i =
     and_then (gets (BX_READ_8BIT_REG (nnn i))) (\<lambda>op2.
     and_then (rmw_Eb i (\<lambda>op1. op1 AND op2)) (\<lambda>op1.
     update (SET_FLAGS_OSZAPC_RESULT_8 (op1 AND op2) BX_INSTR_LOGIC8)))"

definition AND_GbEb :: "bxInstruction \<Rightarrow> unit bx" where
  "AND_GbEb i =
     and_then (gets (BX_READ_8BIT_REG (nnn i))) (\<lambda>op1.
     and_then (load_Eb i) (\<lambda>op2.
     and_then (update (SET_FLAGS_OSZAPC_RESULT_8 (op1 AND op2) BX_INSTR_LOGIC8)) (\<lambda>_.
     update (BX_WRITE_8BIT_REG (nnn i) (op1 AND op2)))))"

definition AND_ALIb :: "bxInstruction \<Rightarrow> unit bx" where
  "AND_ALIb i =
     and_then (gets (\<lambda>s. (AL s, i_Ib i))) (\<lambda>(op1, op2).
     and_then (update (SET_FLAGS_OSZAPC_RESULT_8 (op1 AND op2) BX_INSTR_LOGIC8)) (\<lambda>_.
     update (write_reg_rl 0 (op1 AND op2))))"

definition AND_EbIb :: "bxInstruction \<Rightarrow> unit bx" where
  "AND_EbIb i =
     and_then (gets (\<lambda>_. i_Ib i)) (\<lambda>op2.
     and_then (rmw_Eb i (\<lambda>op1. op1 AND op2)) (\<lambda>op1.
     update (SET_FLAGS_OSZAPC_RESULT_8 (op1 AND op2) BX_INSTR_LOGIC8)))"

definition NOT_Eb :: "bxInstruction \<Rightarrow> unit bx" where
  "NOT_Eb i =
     and_then (rmw_Eb i NOT) (\<lambda>_. ret ())"

definition TEST_EbGb :: "bxInstruction \<Rightarrow> unit bx" where
  "TEST_EbGb i =
     and_then (gets (BX_READ_8BIT_REG (nnn i))) (\<lambda>op2.
     and_then (load_Eb i) (\<lambda>op1.
     update (SET_FLAGS_OSZAPC_RESULT_8 (op1 AND op2) BX_INSTR_LOGIC8)))"

definition TEST_ALIb :: "bxInstruction \<Rightarrow> unit bx" where
  "TEST_ALIb i =
     and_then (gets (\<lambda>s. (AL s, i_Ib i))) (\<lambda>(op1, op2).
     update (SET_FLAGS_OSZAPC_RESULT_8 (op1 AND op2) BX_INSTR_LOGIC8))"

definition TEST_EbIb :: "bxInstruction \<Rightarrow> unit bx" where
  "TEST_EbIb i =
     and_then (gets (\<lambda>_. i_Ib i)) (\<lambda>op2.
     and_then (load_Eb i) (\<lambda>op1.
     update (SET_FLAGS_OSZAPC_RESULT_8 (op1 AND op2) BX_INSTR_LOGIC8)))"

section \<open>16 bits\<close>

definition XOR_EwGw :: "bxInstruction \<Rightarrow> unit bx" where
  "XOR_EwGw i =
     and_then (gets (BX_READ_16BIT_REG (nnn i))) (\<lambda>op2.
     and_then (rmw_Ew i (\<lambda>op1. op1 XOR op2)) (\<lambda>op1.
     update (SET_FLAGS_OSZAPC_RESULT_16 (op1 XOR op2) BX_INSTR_LOGIC16)))"

definition XOR_GwEw :: "bxInstruction \<Rightarrow> unit bx" where
  "XOR_GwEw i =
     and_then (gets (BX_READ_16BIT_REG (nnn i))) (\<lambda>op1.
     and_then (load_Ew i) (\<lambda>op2.
     and_then (update (BX_WRITE_16BIT_REG (nnn i) (op1 XOR op2))) (\<lambda>_.
     update (SET_FLAGS_OSZAPC_RESULT_16 (op1 XOR op2) BX_INSTR_LOGIC16))))"

definition XOR_AXIw :: "bxInstruction \<Rightarrow> unit bx" where
  "XOR_AXIw i =
     and_then (gets (\<lambda>s. (AX s, i_Iw i))) (\<lambda>(op1, op2).
     and_then (update (BX_WRITE_16BIT_REG 0 (op1 XOR op2))) (\<lambda>_.
     update (SET_FLAGS_OSZAPC_RESULT_16 (op1 XOR op2) BX_INSTR_LOGIC16)))"

definition XOR_EwIw :: "bxInstruction \<Rightarrow> unit bx" where
  "XOR_EwIw i =
     and_then (gets (\<lambda>_. i_Iw i)) (\<lambda>op2.
     and_then (rmw_Ew i (\<lambda>op1. op1 XOR op2)) (\<lambda>op1.
     update (SET_FLAGS_OSZAPC_RESULT_16 (op1 XOR op2) BX_INSTR_LOGIC16)))"

definition OR_EwGw :: "bxInstruction \<Rightarrow> unit bx" where
  "OR_EwGw i =
     and_then (gets (BX_READ_16BIT_REG (nnn i))) (\<lambda>op2.
     and_then (rmw_Ew i (\<lambda>op1. op1 OR op2)) (\<lambda>op1.
     update (SET_FLAGS_OSZAPC_RESULT_16 (op1 OR op2) BX_INSTR_LOGIC16)))"

definition OR_GwEw :: "bxInstruction \<Rightarrow> unit bx" where
  "OR_GwEw i =
     and_then (gets (BX_READ_16BIT_REG (nnn i))) (\<lambda>op1.
     and_then (load_Ew i) (\<lambda>op2.
     and_then (update (SET_FLAGS_OSZAPC_RESULT_16 (op1 OR op2) BX_INSTR_LOGIC16)) (\<lambda>_.
     update (BX_WRITE_16BIT_REG (nnn i) (op1 OR op2)))))"

definition OR_AXIw :: "bxInstruction \<Rightarrow> unit bx" where
  "OR_AXIw i =
     and_then (gets (\<lambda>s. (AX s, i_Iw i))) (\<lambda>(op1, op2).
     and_then (update (BX_WRITE_16BIT_REG 0 (op1 OR op2))) (\<lambda>_.
     update (SET_FLAGS_OSZAPC_RESULT_16 (op1 OR op2) BX_INSTR_LOGIC16)))"

definition OR_EwIw :: "bxInstruction \<Rightarrow> unit bx" where
  "OR_EwIw i =
     and_then (gets (\<lambda>_. i_Iw i)) (\<lambda>op2.
     and_then (rmw_Ew i (\<lambda>op1. op1 OR op2)) (\<lambda>op1.
     update (SET_FLAGS_OSZAPC_RESULT_16 (op1 OR op2) BX_INSTR_LOGIC16)))"

definition AND_EwGw :: "bxInstruction \<Rightarrow> unit bx" where
  "AND_EwGw i =
     and_then (gets (BX_READ_16BIT_REG (nnn i))) (\<lambda>op2.
     and_then (rmw_Ew i (\<lambda>op1. op1 AND op2)) (\<lambda>op1.
     update (SET_FLAGS_OSZAPC_RESULT_16 (op1 AND op2) BX_INSTR_LOGIC16)))"

definition AND_GwEw :: "bxInstruction \<Rightarrow> unit bx" where
  "AND_GwEw i =
     and_then (gets (BX_READ_16BIT_REG (nnn i))) (\<lambda>op1.
     and_then (load_Ew i) (\<lambda>op2.
     and_then (update (SET_FLAGS_OSZAPC_RESULT_16 (op1 AND op2) BX_INSTR_LOGIC16)) (\<lambda>_.
     update (BX_WRITE_16BIT_REG (nnn i) (op1 AND op2)))))"

definition AND_AXIw :: "bxInstruction \<Rightarrow> unit bx" where
  "AND_AXIw i =
     and_then (gets (\<lambda>s. (AX s, i_Iw i))) (\<lambda>(op1, op2).
     and_then (update (SET_FLAGS_OSZAPC_RESULT_16 (op1 AND op2) BX_INSTR_LOGIC16)) (\<lambda>_.
     update (BX_WRITE_16BIT_REG 0 (op1 AND op2))))"

definition AND_EwIw :: "bxInstruction \<Rightarrow> unit bx" where
  "AND_EwIw i =
     and_then (gets (\<lambda>_. i_Iw i)) (\<lambda>op2.
     and_then (rmw_Ew i (\<lambda>op1. op1 AND op2)) (\<lambda>op1.
     update (SET_FLAGS_OSZAPC_RESULT_16 (op1 AND op2) BX_INSTR_LOGIC16)))"

definition NOT_Ew :: "bxInstruction \<Rightarrow> unit bx" where
  "NOT_Ew i =
     and_then (rmw_Ew i NOT) (\<lambda>_. ret ())"

definition TEST_EwGw :: "bxInstruction \<Rightarrow> unit bx" where
  "TEST_EwGw i =
     and_then (gets (BX_READ_16BIT_REG (nnn i))) (\<lambda>op2.
     and_then (load_Ew i) (\<lambda>op1.
     update (SET_FLAGS_OSZAPC_RESULT_16 (op1 AND op2) BX_INSTR_LOGIC16)))"

definition TEST_AXIw :: "bxInstruction \<Rightarrow> unit bx" where
  "TEST_AXIw i =
     and_then (gets (\<lambda>s. (AX s, i_Iw i))) (\<lambda>(op1, op2).
     update (SET_FLAGS_OSZAPC_RESULT_16 (op1 AND op2) BX_INSTR_LOGIC16))"

definition TEST_EwIw :: "bxInstruction \<Rightarrow> unit bx" where
  "TEST_EwIw i =
     and_then (gets (\<lambda>_. i_Iw i)) (\<lambda>op2.
     and_then (load_Ew i) (\<lambda>op1.
     update (SET_FLAGS_OSZAPC_RESULT_16 (op1 AND op2) BX_INSTR_LOGIC16)))"

section \<open>32 bits\<close>

definition XOR_EdGd :: "bxInstruction \<Rightarrow> unit bx" where
  "XOR_EdGd i =
     and_then (gets (BX_READ_32BIT_REG (nnn i))) (\<lambda>op2.
     and_then (rmw_Ed i (\<lambda>op1. op1 XOR op2)) (\<lambda>op1.
     update (SET_FLAGS_OSZAPC_RESULT_32 (op1 XOR op2) BX_INSTR_LOGIC32)))"

definition XOR_GdEd :: "bxInstruction \<Rightarrow> unit bx" where
  "XOR_GdEd i =
     and_then (gets (BX_READ_32BIT_REG (nnn i))) (\<lambda>op1.
     and_then (load_Ed i) (\<lambda>op2.
     and_then (update (BX_WRITE_32BIT_REG (nnn i) (op1 XOR op2))) (\<lambda>_.
     update (SET_FLAGS_OSZAPC_RESULT_32 (op1 XOR op2) BX_INSTR_LOGIC32))))"

definition XOR_EAXId :: "bxInstruction \<Rightarrow> unit bx" where
  "XOR_EAXId i =
     and_then (gets (\<lambda>s. (EAX s, i_Id i))) (\<lambda>(op1, op2).
     and_then (update (BX_WRITE_32BIT_REG 0 (op1 XOR op2))) (\<lambda>_.
     update (SET_FLAGS_OSZAPC_RESULT_32 (op1 XOR op2) BX_INSTR_LOGIC32)))"

definition XOR_EdId :: "bxInstruction \<Rightarrow> unit bx" where
  "XOR_EdId i =
     and_then (gets (\<lambda>_. i_Id i)) (\<lambda>op2.
     and_then (rmw_Ed i (\<lambda>op1. op1 XOR op2)) (\<lambda>op1.
     update (SET_FLAGS_OSZAPC_RESULT_32 (op1 XOR op2) BX_INSTR_LOGIC32)))"

definition OR_EdGd :: "bxInstruction \<Rightarrow> unit bx" where
  "OR_EdGd i =
     and_then (gets (BX_READ_32BIT_REG (nnn i))) (\<lambda>op2.
     and_then (rmw_Ed i (\<lambda>op1. op1 OR op2)) (\<lambda>op1.
     update (SET_FLAGS_OSZAPC_RESULT_32 (op1 OR op2) BX_INSTR_LOGIC32)))"

definition OR_GdEd :: "bxInstruction \<Rightarrow> unit bx" where
  "OR_GdEd i =
     and_then (gets (BX_READ_32BIT_REG (nnn i))) (\<lambda>op1.
     and_then (load_Ed i) (\<lambda>op2.
     and_then (update (SET_FLAGS_OSZAPC_RESULT_32 (op1 OR op2) BX_INSTR_LOGIC32)) (\<lambda>_.
     update (BX_WRITE_32BIT_REG (nnn i) (op1 OR op2)))))"

definition OR_EAXId :: "bxInstruction \<Rightarrow> unit bx" where
  "OR_EAXId i =
     and_then (gets (\<lambda>s. (EAX s, i_Id i))) (\<lambda>(op1, op2).
     and_then (update (BX_WRITE_32BIT_REG 0 (op1 OR op2))) (\<lambda>_.
     update (SET_FLAGS_OSZAPC_RESULT_32 (op1 OR op2) BX_INSTR_LOGIC32)))"

definition OR_EdId :: "bxInstruction \<Rightarrow> unit bx" where
  "OR_EdId i =
     and_then (gets (\<lambda>_. i_Id i)) (\<lambda>op2.
     and_then (rmw_Ed i (\<lambda>op1. op1 OR op2)) (\<lambda>op1.
     update (SET_FLAGS_OSZAPC_RESULT_32 (op1 OR op2) BX_INSTR_LOGIC32)))"

definition AND_EdGd :: "bxInstruction \<Rightarrow> unit bx" where
  "AND_EdGd i =
     and_then (gets (BX_READ_32BIT_REG (nnn i))) (\<lambda>op2.
     and_then (rmw_Ed i (\<lambda>op1. op1 AND op2)) (\<lambda>op1.
     update (SET_FLAGS_OSZAPC_RESULT_32 (op1 AND op2) BX_INSTR_LOGIC32)))"

definition AND_GdEd :: "bxInstruction \<Rightarrow> unit bx" where
  "AND_GdEd i =
     and_then (gets (BX_READ_32BIT_REG (nnn i))) (\<lambda>op1.
     and_then (load_Ed i) (\<lambda>op2.
     and_then (update (SET_FLAGS_OSZAPC_RESULT_32 (op1 AND op2) BX_INSTR_LOGIC32)) (\<lambda>_.
     update (BX_WRITE_32BIT_REG (nnn i) (op1 AND op2)))))"

definition AND_EAXId :: "bxInstruction \<Rightarrow> unit bx" where
  "AND_EAXId i =
     and_then (gets (\<lambda>s. (EAX s, i_Id i))) (\<lambda>(op1, op2).
     and_then (update (SET_FLAGS_OSZAPC_RESULT_32 (op1 AND op2) BX_INSTR_LOGIC32)) (\<lambda>_.
     update (BX_WRITE_32BIT_REG 0 (op1 AND op2))))"

definition AND_EdId :: "bxInstruction \<Rightarrow> unit bx" where
  "AND_EdId i =
     and_then (gets (\<lambda>_. i_Id i)) (\<lambda>op2.
     and_then (rmw_Ed i (\<lambda>op1. op1 AND op2)) (\<lambda>op1.
     update (SET_FLAGS_OSZAPC_RESULT_32 (op1 AND op2) BX_INSTR_LOGIC32)))"

definition NOT_Ed :: "bxInstruction \<Rightarrow> unit bx" where
  "NOT_Ed i =
     and_then (rmw_Ed i NOT) (\<lambda>_. ret ())"

definition TEST_EdGd :: "bxInstruction \<Rightarrow> unit bx" where
  "TEST_EdGd i =
     and_then (gets (BX_READ_32BIT_REG (nnn i))) (\<lambda>op2.
     and_then (load_Ed i) (\<lambda>op1.
     update (SET_FLAGS_OSZAPC_RESULT_32 (op1 AND op2) BX_INSTR_LOGIC32)))"

definition TEST_EAXId :: "bxInstruction \<Rightarrow> unit bx" where
  "TEST_EAXId i =
     and_then (gets (\<lambda>s. (EAX s, i_Id i))) (\<lambda>(op1, op2).
     update (SET_FLAGS_OSZAPC_RESULT_32 (op1 AND op2) BX_INSTR_LOGIC32))"

definition TEST_EdId :: "bxInstruction \<Rightarrow> unit bx" where
  "TEST_EdId i =
     and_then (gets (\<lambda>_. i_Id i)) (\<lambda>op2.
     and_then (load_Ed i) (\<lambda>op1.
     update (SET_FLAGS_OSZAPC_RESULT_32 (op1 AND op2) BX_INSTR_LOGIC32)))"

end
