(* ===== verification/BxLazyTheorems.thy ===== *)
theory BxLazyTheorems
  imports BxShiftTheorems BxLogic
begin

text \<open>
  The lazy flags against a processor that has none: any sequence of arithmetic and logical register
  instructions leaves the flags of an eager processor, one that computes all six from exact
  integers after every instruction and stores them.
\<close>

section \<open>The eager processor\<close>

text \<open>
  Its state is the register file and the six flags. \<open>eager_result\<close> gives the new
  destination and flags of an operation on operands of any width, from integer sums and
  differences and from the bits of the result. After a bitwise operation CF, OF and AF are
  clear; NOT changes no flag; INC and DEC keep CF.
\<close>

datatype alu_op = Op_ADD | Op_ADC | Op_SUB | Op_SBB | Op_CMP | Op_NEG | Op_INC | Op_DEC
  | Op_AND | Op_OR | Op_XOR | Op_TEST | Op_NOT

datatype operand_size = Size8 | Size16 | Size32

datatype alu_instr = ALU operand_size alu_op bxInstruction | Carry_clear bxInstruction
  | Carry_set bxInstruction | Carry_flip bxInstruction | Read_EFLAGS

type_synonym eager_state = "(3 word \<Rightarrow> Bit32u) \<times> (aflag \<Rightarrow> bool)"

fun eager_result :: "alu_op \<Rightarrow> 'a::len word \<Rightarrow> 'a word \<Rightarrow> (aflag \<Rightarrow> bool) \<Rightarrow> 'a word \<times> (aflag \<Rightarrow> bool)" where
  "eager_result Op_ADD a b fl = (a + b, add_flags a b False)"
| "eager_result Op_ADC a b fl = (a + b + of_bool (fl CF), add_flags a b (fl CF))"
| "eager_result Op_SUB a b fl = (a - b, sub_flags a b False)"
| "eager_result Op_SBB a b fl = (a - b - of_bool (fl CF), sub_flags a b (fl CF))"
| "eager_result Op_CMP a b fl = (a, sub_flags a b False)"
| "eager_result Op_NEG a b fl = (- a, sub_flags 0 a False)"
| "eager_result Op_INC a b fl = (a + 1, (add_flags a 1 False)(CF := fl CF))"
| "eager_result Op_DEC a b fl = (a - 1, (sub_flags a 1 False)(CF := fl CF))"
| "eager_result Op_AND a b fl = (a AND b, result_flags (a AND b))"
| "eager_result Op_OR a b fl = (a OR b, result_flags (a OR b))"
| "eager_result Op_XOR a b fl = (a XOR b, result_flags (a XOR b))"
| "eager_result Op_TEST a b fl = (a, result_flags (a AND b))"
| "eager_result Op_NOT a b fl = (NOT a, fl)"

text \<open>
  A register operand of \<open>n\<close> bits: byte registers 4 to 7 are bits 8 to 15 of registers 0
  to 3, every other operand starts at bit 0. Writing it leaves the other bits of the register.
\<close>

definition place :: "nat \<Rightarrow> 3 word \<Rightarrow> 3 word \<times> nat" where
  "place n r = (if n = 8 \<and> 4 \<le> r then (r - 4, 8) else (r, 0))"

definition get_operand :: "3 word \<Rightarrow> (3 word \<Rightarrow> Bit32u) \<Rightarrow> 'a::len word" where
  "get_operand r g = (let (q, p) = place LENGTH('a) r in ucast (drop_bit p (g q)))"

definition put_operand :: "3 word \<Rightarrow> 'a::len word \<Rightarrow> (3 word \<Rightarrow> Bit32u) \<Rightarrow> 3 word \<Rightarrow> Bit32u" where
  "put_operand r v g = (let (q, p) = place LENGTH('a) r in
     g(q := (g q AND NOT (push_bit p (mask LENGTH('a)))) OR push_bit p (ucast v)))"

definition eager_alu :: "'a::len itself \<Rightarrow> alu_op \<Rightarrow> bxInstruction \<Rightarrow> eager_state \<Rightarrow> eager_state" where
  "eager_alu _ op i = (\<lambda>(g, fl).
     let (v, fl') = eager_result op (get_operand (rm i) g :: 'a word) (get_operand (nnn i) g) fl
     in (put_operand (rm i) v g, fl'))"

fun eager_step :: "alu_instr \<Rightarrow> eager_state \<Rightarrow> eager_state" where
  "eager_step (ALU Size8 op i) st = eager_alu TYPE(8) op i st"
| "eager_step (ALU Size16 op i) st = eager_alu TYPE(16) op i st"
| "eager_step (ALU Size32 op i) st = eager_alu TYPE(32) op i st"
| "eager_step (Carry_clear i) (g, fl) = (g, fl(CF := False))"
| "eager_step (Carry_set i) (g, fl) = (g, fl(CF := True))"
| "eager_step (Carry_flip i) (g, fl) = (g, fl(CF := \<not> fl CF))"
| "eager_step Read_EFLAGS st = st"

text \<open>Where the six flags stand in EFLAGS.\<close>

fun flag_place :: "aflag \<Rightarrow> nat" where
  "flag_place CF = 0"
| "flag_place PF = 2"
| "flag_place AF = 4"
| "flag_place ZF = 6"
| "flag_place SF = 7"
| "flag_place OF = 11"

section \<open>The lazy processor\<close>

text \<open>The handler the decoder calls for each instruction with a register operand.\<close>

fun alu_byte :: "alu_op \<Rightarrow> bxInstruction \<Rightarrow> unit bx" where
  "alu_byte Op_ADD = ADD_EbGb"
| "alu_byte Op_ADC = ADC_EbGb"
| "alu_byte Op_SUB = SUB_EbGb"
| "alu_byte Op_SBB = SBB_EbGb"
| "alu_byte Op_CMP = CMP_EbGb"
| "alu_byte Op_NEG = NEG_Eb"
| "alu_byte Op_INC = INC_Eb"
| "alu_byte Op_DEC = DEC_Eb"
| "alu_byte Op_AND = AND_EbGb"
| "alu_byte Op_OR = OR_EbGb"
| "alu_byte Op_XOR = XOR_EbGb"
| "alu_byte Op_TEST = TEST_EbGb"
| "alu_byte Op_NOT = NOT_Eb"

fun alu_word :: "alu_op \<Rightarrow> bxInstruction \<Rightarrow> unit bx" where
  "alu_word Op_ADD = ADD_EwGw"
| "alu_word Op_ADC = ADC_EwGw"
| "alu_word Op_SUB = SUB_EwGw"
| "alu_word Op_SBB = SBB_EwGw"
| "alu_word Op_CMP = CMP_EwGw"
| "alu_word Op_NEG = NEG_Ew"
| "alu_word Op_INC = INC_Ew"
| "alu_word Op_DEC = DEC_Ew"
| "alu_word Op_AND = AND_EwGw"
| "alu_word Op_OR = OR_EwGw"
| "alu_word Op_XOR = XOR_EwGw"
| "alu_word Op_TEST = TEST_EwGw"
| "alu_word Op_NOT = NOT_Ew"

fun alu_dword :: "alu_op \<Rightarrow> bxInstruction \<Rightarrow> unit bx" where
  "alu_dword Op_ADD = ADD_EdGd"
| "alu_dword Op_ADC = ADC_EdGd"
| "alu_dword Op_SUB = SUB_EdGd"
| "alu_dword Op_SBB = SBB_EdGd"
| "alu_dword Op_CMP = CMP_EdGd"
| "alu_dword Op_NEG = NEG_Ed"
| "alu_dword Op_INC = INC_Ed"
| "alu_dword Op_DEC = DEC_Ed"
| "alu_dword Op_AND = AND_EdGd"
| "alu_dword Op_OR = OR_EdGd"
| "alu_dword Op_XOR = XOR_EdGd"
| "alu_dword Op_TEST = TEST_EdGd"
| "alu_dword Op_NOT = NOT_Ed"

fun lazy_step :: "alu_instr \<Rightarrow> unit bx" where
  "lazy_step (ALU Size8 op i) = alu_byte op i"
| "lazy_step (ALU Size16 op i) = alu_word op i"
| "lazy_step (ALU Size32 op i) = alu_dword op i"
| "lazy_step (Carry_clear i) = CLC i"
| "lazy_step (Carry_set i) = STC i"
| "lazy_step (Carry_flip i) = CMC i"
| "lazy_step Read_EFLAGS = and_then read_eflags (\<lambda>_. ret ())"

fun lazy_run :: "alu_instr list \<Rightarrow> unit bx" where
  "lazy_run [] = ret ()"
| "lazy_run (x # xs) = and_then (lazy_step x) (\<lambda>_. lazy_run xs)"

text \<open>The operand is a register.\<close>

fun register_form :: "alu_instr \<Rightarrow> bool" where
  "register_form (ALU _ _ i) = modC0 i"
| "register_form _ = True"

section \<open>The simulation\<close>

text \<open>
  The relation: the same registers, and every flag the lazy state would compute is the eager one.
\<close>

fun agrees :: "cpu \<Rightarrow> eager_state \<Rightarrow> bool" where
  "agrees s (g, fl) \<longleftrightarrow> gen_reg s = g \<and> (\<forall>f. flag_of f s = Some (fl f))"

definition rest_kept :: "cpu \<Rightarrow> cpu \<Rightarrow> bool" where
  "rest_kept s t \<longleftrightarrow>
     t\<lparr>gen_reg := gen_reg s, lf_flags_status := lf_flags_status s, oszapc := oszapc s,
       oszap := oszap s, eflags_val32 := eflags_val32 s\<rparr> = s \<and>
     (\<forall>n. n \<notin> range flag_place \<longrightarrow> bit (eflags_val32 t) n = bit (eflags_val32 s) n)"

lemma flag_place_code [simp]: "eflagsBitShift = flag_place"
proof
  show "eflagsBitShift f = flag_place f" for f by (cases f) simp_all
qed

subsection \<open>Operands\<close>

lemma read_operand:
  "BX_READ_8BIT_REG r s = get_operand r (gen_reg s)"
  "BX_READ_16BIT_REG r s = get_operand r (gen_reg s)"
  "BX_READ_32BIT_REG r s = get_operand r (gen_reg s)"
  by (simp_all add: BX_READ_8BIT_REG_def BX_READ_16BIT_REG_def BX_READ_32BIT_REG_def reg_rl_def
    reg_rh_def get_operand_def place_def linorder_not_le [symmetric])

lemma other_bits:
  "(0xFFFFFF00 :: Bit32u) = NOT (mask 8)" "(0xFFFF00FF :: Bit32u) = NOT (push_bit 8 (mask 8))"
  "(0xFFFF0000 :: Bit32u) = NOT (mask 16)" "NOT (mask 32 :: Bit32u) = 0"
  by (simp_all add: mask_eq_exp_minus_1)

lemma write_operand:
  "gen_reg (BX_WRITE_8BIT_REG r v8 s) = put_operand r v8 (gen_reg s)"
  "gen_reg (BX_WRITE_16BIT_REG r v16 s) = put_operand r v16 (gen_reg s)"
  "gen_reg (BX_WRITE_32BIT_REG r v32 s) = put_operand r v32 (gen_reg s)"
  by (simp_all add: BX_WRITE_8BIT_REG_def BX_WRITE_16BIT_REG_def write_reg_rl_def
    BX_WRITE_32BIT_REG_def write_reg_rh_def put_operand_def place_def other_bits
    linorder_not_le [symmetric])

lemma put_get_operand:
  assumes "LENGTH('a::len) = 8 \<or> LENGTH('a) = 16 \<or> LENGTH('a) = 32"
  shows "put_operand r (get_operand r g :: 'a word) g = g"
proof -
  obtain q p where qp: "place LENGTH('a) r = (q, p)" by fastforce
  then have p: "p + LENGTH('a) \<le> 32"
    using assms by (auto simp: place_def split: if_splits)
  have "(g q AND NOT (push_bit p (mask LENGTH('a)))) OR
      push_bit p (ucast (ucast (drop_bit p (g q)) :: 'a word)) = g q"
    by (rule bit_word_eqI) (use p in \<open>auto simp: bit_simps\<close>)
  then show ?thesis
    by (simp add: put_operand_def get_operand_def qp)
qed

subsection \<open>What the primitives do\<close>

lemma agrees_after_get:
  assumes "agrees s (g, fl)"
  shows "get_flag f s = Done (fl f) (after_get f s)" and "agrees (after_get f s) (g, fl)"
    and "gen_reg (after_get f s) = g"
proof -
  have w: "lf_wf s" using assms by (auto intro: lf_wfI)
  then show "get_flag f s = Done (fl f) (after_get f s)"
    using assms by (simp add: flag_def)
  show "agrees (after_get f s) (g, fl)" "gen_reg (after_get f s) = g"
    using w assms by (simp_all add: flag_of_after_get)
qed

lemma rest_kept_refl [simp]: "rest_kept s s"
  by (simp add: rest_kept_def)

lemma rest_kept_trans: "rest_kept s t \<Longrightarrow> rest_kept t u \<Longrightarrow> rest_kept s u"
  by (cases s; cases t; cases u) (simp add: rest_kept_def)

lemma rest_kept_arith_only: "arith_only s t \<Longrightarrow> rest_kept s t"
  by (cases s; cases t) (simp add: rest_kept_def arith_only_def)

lemma rest_kept_WRITE:
  "rest_kept s t \<Longrightarrow> rest_kept s (BX_WRITE_8BIT_REG r v8 t)"
  "rest_kept s t \<Longrightarrow> rest_kept s (BX_WRITE_16BIT_REG r v16 t)"
  "rest_kept s t \<Longrightarrow> rest_kept s (BX_WRITE_32BIT_REG r v32 t)"
  by (simp_all add: rest_kept_def BX_WRITE_8BIT_REG_def BX_WRITE_16BIT_REG_def
    BX_WRITE_32BIT_REG_def write_reg_rl_def write_reg_rh_def)

lemma rest_kept_SET_FLAGS:
  "rest_kept s t \<Longrightarrow> rest_kept s (SET_FLAGS_OSZAPC_8 a8 b8 r8 i t)"
  "rest_kept s t \<Longrightarrow> rest_kept s (SET_FLAGS_OSZAPC_16 a16 b16 r16 i t)"
  "rest_kept s t \<Longrightarrow> rest_kept s (SET_FLAGS_OSZAPC_32 a32 b32 r32 i t)"
  "rest_kept s t \<Longrightarrow> rest_kept s (SET_FLAGS_OSZAPC_RESULT_8 r8 i t)"
  "rest_kept s t \<Longrightarrow> rest_kept s (SET_FLAGS_OSZAPC_RESULT_16 r16 i t)"
  "rest_kept s t \<Longrightarrow> rest_kept s (SET_FLAGS_OSZAPC_RESULT_32 r32 i t)"
  "rest_kept s t \<Longrightarrow> rest_kept s (SET_FLAGS_OSZAP_RESULT_8 r8 i t)"
  "rest_kept s t \<Longrightarrow> rest_kept s (SET_FLAGS_OSZAP_RESULT_16 r16 i t)"
  "rest_kept s t \<Longrightarrow> rest_kept s (SET_FLAGS_OSZAP_RESULT_32 r32 i t)"
  by (simp_all add: rest_kept_def SET_FLAGS_OSZAPC_8_def SET_FLAGS_OSZAPC_16_def
    SET_FLAGS_OSZAPC_32_def SET_FLAGS_OSZAPC_RESULT_8_def SET_FLAGS_OSZAPC_RESULT_16_def
    SET_FLAGS_OSZAPC_RESULT_32_def SET_FLAGS_OSZAP_RESULT_8_def SET_FLAGS_OSZAP_RESULT_16_def
    SET_FLAGS_OSZAP_RESULT_32_def)

lemma gen_reg_RECORD:
  "gen_reg (SET_FLAGS_OSZAPC_8 a8 b8 r8 i t) = gen_reg t"
  "gen_reg (SET_FLAGS_OSZAPC_16 a16 b16 r16 i t) = gen_reg t"
  "gen_reg (SET_FLAGS_OSZAPC_RESULT_8 r8 i t) = gen_reg t"
  "gen_reg (SET_FLAGS_OSZAPC_RESULT_16 r16 i t) = gen_reg t"
  "gen_reg (SET_FLAGS_OSZAP_RESULT_8 r8 i t) = gen_reg t"
  "gen_reg (SET_FLAGS_OSZAP_RESULT_16 r16 i t) = gen_reg t"
  by (simp_all add: SET_FLAGS_OSZAPC_8_def SET_FLAGS_OSZAPC_16_def SET_FLAGS_OSZAPC_RESULT_8_def
    SET_FLAGS_OSZAPC_RESULT_16_def SET_FLAGS_OSZAP_RESULT_8_def SET_FLAGS_OSZAP_RESULT_16_def)


lemmas flag_of_plain [flag_simps] =
  flag_of_ADD8 [where c = False, simplified BX_INSTR_ADD_ADC8_def, simplified]
  flag_of_SUB8 [where c = False, simplified BX_INSTR_SUB_SBB8_def, simplified]
  flag_of_ADD16 [where c = False, simplified BX_INSTR_ADD_ADC16_def, simplified]
  flag_of_SUB16 [where c = False, simplified BX_INSTR_SUB_SBB16_def, simplified]

lemmas record_simps = flag_simps gen_reg_RECORD write_operand diff_diff_eq
  rest_kept_SET_FLAGS rest_kept_WRITE rest_kept_arith_only eager_alu_def

lemmas register_simps = rmw_Eb_def fetch_Eb_def put_Eb_def load_Eb_def
  rmw_Ew_def fetch_Ew_def put_Ew_def load_Ew_def rmw_Ed_def fetch_Ed_def put_Ed_def load_Ed_def
  read_operand

lemma byte_step:
  assumes a: "agrees s (g, fl)" and m: "modC0 i"
  shows "\<exists>t. alu_byte op i s = Done () t \<and> agrees t (eager_alu TYPE(8) op i (g, fl)) \<and> rest_kept s t"
proof -
  have [simp]: "gen_reg s = g" "flag_of f s = Some (fl f)" for f
    using a by simp_all
  note [simp] = agrees_after_get [OF a] put_get_operand m
  show ?thesis
    by (cases op) (simp_all add: ADD_EbGb_def ADC_EbGb_def SUB_EbGb_def SBB_EbGb_def CMP_EbGb_def
      NEG_Eb_def INC_Eb_def DEC_Eb_def AND_EbGb_def OR_EbGb_def XOR_EbGb_def TEST_EbGb_def
      NOT_Eb_def register_simps record_simps)
qed

lemma word_step:
  assumes a: "agrees s (g, fl)" and m: "modC0 i"
  shows "\<exists>t. alu_word op i s = Done () t \<and> agrees t (eager_alu TYPE(16) op i (g, fl)) \<and> rest_kept s t"
proof -
  have [simp]: "gen_reg s = g" "flag_of f s = Some (fl f)" for f
    using a by simp_all
  note [simp] = agrees_after_get [OF a] put_get_operand m
  show ?thesis
    by (cases op) (simp_all add: ADD_EwGw_def ADC_EwGw_def SUB_EwGw_def SBB_EwGw_def CMP_EwGw_def
      NEG_Ew_def INC_Ew_def DEC_Ew_def AND_EwGw_def OR_EwGw_def XOR_EwGw_def TEST_EwGw_def
      NOT_Ew_def register_simps record_simps)
qed

lemma dword_step:
  assumes a: "agrees s (g, fl)" and m: "modC0 i"
  shows "\<exists>t. alu_dword op i s = Done () t \<and> agrees t (eager_alu TYPE(32) op i (g, fl)) \<and> rest_kept s t"
proof -
  have [simp]: "gen_reg s = g" "flag_of f s = Some (fl f)" for f
    using a by simp_all
  note [simp] = agrees_after_get [OF a] put_get_operand m
  show ?thesis
    by (cases op) (simp_all add: ADD_EdGd_def ADC_EdGd_def SUB_EdGd_def SBB_EdGd_def CMP_EdGd_def
      NEG_Ed_def INC_Ed_def DEC_Ed_def AND_EdGd_def OR_EdGd_def XOR_EdGd_def TEST_EdGd_def
      NOT_Ed_def register_simps record_simps
      del: gen_reg_WRITE_32)
qed

lemma bit_set_flag: "bit (eflags_val32 (set_flag f b u)) n \<longleftrightarrow>
    (if n = flag_place f then b else bit (eflags_val32 u) n)"
  using bit_put_bit [of "flag_place f" "eflags_val32 u" b n] eflagsBitShift_less [of f]
  by (simp add: set_flag_def del: push_bit_of_1 eflagsBitShift_less)

lemma carry_step:
  assumes a: "agrees s (g, fl)"
  shows "\<exists>t. CLC i s = Done () t \<and> agrees t (g, fl(CF := False)) \<and> rest_kept s t"
    and "\<exists>t. STC i s = Done () t \<and> agrees t (g, fl(CF := True)) \<and> rest_kept s t"
    and "\<exists>t. CMC i s = Done () t \<and> agrees t (g, fl(CF := \<not> fl CF)) \<and> rest_kept s t"
proof -
  note [simp] = agrees_after_get [OF a]
  have set: "agrees (set_flag CF b u) (g, fl(CF := b))" if "agrees u (g, fl)" for b u
    using that by simp
  have kept: "rest_kept u (set_flag CF b u)" for b u
    using bit_set_flag [of CF b u] rangeI [of flag_place CF]
    by (auto simp: rest_kept_def) (simp add: set_flag_def)
  have clear: "clear_flag CF s = set_flag CF False s"
    by (simp add: clear_flag_def set_flag_def)
  have "w OR 1 = (w AND NOT 1) OR 1" for w :: Bit32u
    by (rule bit_word_eqI) (auto simp: bit_simps)
  then have assert: "assert_flag CF s = set_flag CF True s"
    by (simp add: assert_flag_def set_flag_def)
  show "\<exists>t. CLC i s = Done () t \<and> agrees t (g, fl(CF := False)) \<and> rest_kept s t"
    using set [OF a] kept by (simp add: CLC_def clear del: agrees.simps)
  show "\<exists>t. STC i s = Done () t \<and> agrees t (g, fl(CF := True)) \<and> rest_kept s t"
    using set [OF a] kept by (simp add: STC_def assert del: agrees.simps)
  show "\<exists>t. CMC i s = Done () t \<and> agrees t (g, fl(CF := \<not> fl CF)) \<and> rest_kept s t"
    using set [OF agrees_after_get(2) [OF a]]
      rest_kept_trans [OF rest_kept_arith_only [OF arith_only_after_get] kept]
    by (simp add: CMC_def del: agrees.simps)
qed

lemma read_step:
  assumes a: "agrees s (g, fl)"
  shows "\<exists>t. read_eflags s = Done (eflags_val32 t) t \<and> agrees t (g, fl) \<and> rest_kept s t \<and>
     (\<forall>f. bit (eflags_val32 t) (flag_place f) = fl f)"
proof -
  have w: "lf_wf s" using a by (auto intro: lf_wfI)
  have fl: "flag f s = fl f" for f
    using a by (simp add: flag_def)
  have "flag_of f (forced s) = Some (fl f)" for f
    using flag_of_eq_flag [OF lf_wf_forced [OF w]] w fl by simp
  moreover have "gen_reg (forced s) = g"
    using a by (simp add: forced_def)
  ultimately show ?thesis
    using force_flags_wf [OF w] rest_kept_arith_only [OF arith_only_forced [OF w]] bit_forced [OF w] fl
    by (simp add: read_eflags_def)
qed

lemma simulation_step:
  assumes "agrees s st" and "register_form x"
  shows "\<exists>t. lazy_step x s = Done () t \<and> agrees t (eager_step x st) \<and> rest_kept s t"
proof -
  obtain g fl where st: "st = (g, fl)" by fastforce
  show ?thesis
  proof (cases x)
    case (ALU sz op i)
    then show ?thesis
      using assms byte_step word_step dword_step unfolding st by (cases sz) (simp_all del: agrees.simps)
  next
    case Read_EFLAGS
    then show ?thesis
      using read_step assms(1) unfolding st by (fastforce simp del: agrees.simps)
  qed (use assms(1) carry_step in \<open>simp_all add: st del: agrees.simps\<close>)
qed

lemma simulation_run:
  assumes "agrees s st" and "list_all register_form xs"
  shows "\<exists>t. lazy_run xs s = Done () t \<and> agrees t (fold eager_step xs st) \<and> rest_kept s t"
  using assms
proof (induction xs arbitrary: s st)
  case (Cons x xs)
  then obtain u where u: "lazy_step x s = Done () u" "agrees u (eager_step x st)" "rest_kept s u"
    using simulation_step by fastforce
  with Cons.IH [OF u(2)] Cons.prems(2) show ?case
    by (auto intro: rest_kept_trans)
qed simp

section \<open>The property\<close>

text \<open>C21
  The lazy flags refine the flags of an eager processor. Take any state whose flags stand in
  EFLAGS (as they do after reset) and any sequence of register instructions ADD, ADC, SUB, SBB, CMP,
  NEG, INC, DEC, AND, OR, XOR, TEST and NOT on 8, 16 or 32 bits, mixed with CLC, STC, CMC and reads
  of EFLAGS. The sequence ends without a panic, the registers are those of the eager processor,
  which computes the six flags of every instruction from integer sums and differences, and reading
  EFLAGS then returns a word that holds the eager CF, PF, AF, ZF, SF and OF in bits 0, 2, 4, 6, 7 and
  11 and the old EFLAGS in all others. Nothing else of the processor changed but the records of the
  lazy flags.\<close>

theorem lazy_flags_refine_eager:
  assumes "lf_flags_status s = 0" and "list_all register_form xs"
  defines "start \<equiv> (gen_reg s, \<lambda>f. bit (eflags_val32 s) (flag_place f))"
  shows "\<exists>t. and_then (lazy_run xs) (\<lambda>_. read_eflags) s = Done (eflags_val32 t) t \<and> rest_kept s t \<and>
     gen_reg t = fst (fold eager_step xs start) \<and>
     (\<forall>f. bit (eflags_val32 t) (flag_place f) = snd (fold eager_step xs start) f)"
proof -
  have "agrees s start"
    using assms(1) by (simp add: start_def flag_of_def)
  from simulation_run [OF this assms(2)] obtain u where u: "lazy_run xs s = Done () u"
    "agrees u (fold eager_step xs start)" "rest_kept s u"
    by blast
  moreover obtain g fl where "fold eager_step xs start = (g, fl)"
    by fastforce
  ultimately show ?thesis
    using read_step [of u g fl] by (auto simp: rest_kept_trans)
qed

lemma lazy_flags_witness:
  defines "p \<equiv> [ALU Size32 Op_SUB (reg_instr 0 1), ALU Size8 Op_INC (reg_instr 4 0), Read_EFLAGS,
     Carry_flip (reg_instr 0 0), ALU Size16 Op_SBB (reg_instr 2 0)]"
  shows "\<exists>t. and_then (lazy_run p) (\<lambda>_. read_eflags) boot = Done (eflags_val32 t) t \<and> rest_kept boot t \<and>
     gen_reg t = fst (fold eager_step p (gen_reg boot, \<lambda>f. bit (eflags_val32 boot) (flag_place f))) \<and>
     (\<forall>f. bit (eflags_val32 t) (flag_place f) =
        snd (fold eager_step p (gen_reg boot, \<lambda>f. bit (eflags_val32 boot) (flag_place f))) f)"
  by (rule lazy_flags_refine_eager) (simp_all add: p_def)

end
