(* ===== verification/BxBcd.thy ===== *)
theory BxBcd
  imports BxOperands BxFlagCtrl
begin

text \<open>
  Decimal adjustment (\<open>cpu/bcd.cc\<close>). The conditions are evaluated with the
  short-circuit of C: a lazy flag is read, and thereby stored, only where the source reads it.
\<close>

text \<open>\<open>c || get()\<close> of the conditions.\<close>

definition or_flag :: "bool \<Rightarrow> aflag \<Rightarrow> bool bx" where
  "or_flag c f = (if c then ret True else get_flag f)"

text \<open>The flags the adjusted accumulator sets.\<close>

definition set_AL_flags :: "cpu \<Rightarrow> cpu" where
  "set_AL_flags s = set_PF_base (AL s) (set_flag ZF (AL s = 0) (set_flag SF (AL s \<ge> 0x80) s))"

definition AAA_flags :: "cpu \<Rightarrow> cpu" where
  "AAA_flags s = set_PF_base (AL s) (set_flag ZF (AL s = 0) (set_flag SF False (set_flag OF False s)))"

definition AAA :: "bxInstruction \<Rightarrow> unit bx" where
  "AAA i =
     and_then (gets (\<lambda>s. AL s)) (\<lambda>al.
     and_then (or_flag (al AND 0x0f > 9) AF) (\<lambda>adjust.
     and_then (if adjust then
         update (set_flag CF True \<circ> set_flag AF True \<circ>
                 (\<lambda>s. BX_WRITE_16BIT_REG 0 (AX s + 0x106) s))
       else update (set_flag CF False \<circ> set_flag AF False)) (\<lambda>_.
     update (AAA_flags \<circ> (\<lambda>s. write_reg_rl 0 (AL s AND 0x0f) s)))))"

definition AAS :: "bxInstruction \<Rightarrow> unit bx" where
  "AAS i =
     and_then (gets (\<lambda>s. AL s)) (\<lambda>al.
     and_then (or_flag (al AND 0x0f > 9) AF) (\<lambda>adjust.
     and_then (if adjust then
         update (set_flag CF True \<circ> set_flag AF True \<circ>
                 (\<lambda>s. BX_WRITE_16BIT_REG 0 (AX s - 0x106) s))
       else update (set_flag AF False \<circ> set_flag CF False)) (\<lambda>_.
     update (AAA_flags \<circ> (\<lambda>s. write_reg_rl 0 (AL s AND 0x0f) s)))))"

definition AAM :: "bxInstruction \<Rightarrow> unit bx" where
  "AAM i =
     (if i_Ib i = 0 then raise BX_DE_EXCEPTION 0
      else
        and_then (gets (\<lambda>s. AL s)) (\<lambda>al.
        and_then (update (write_reg_rl 0 (al mod i_Ib i) \<circ> write_reg_rh 0 (al div i_Ib i))) (\<lambda>_.
        update (set_AL_flags \<circ> clear_flag CF \<circ> clear_flag AF \<circ> clear_flag OF))))"

definition AAD :: "bxInstruction \<Rightarrow> unit bx" where
  "AAD i =
     and_then (gets (\<lambda>s. ucast (AH s) * ucast (i_Ib i) + ucast (AL s) :: Bit16u)) (\<lambda>tmp.
     and_then (update (write_reg_rh 0 0 \<circ> write_reg_rl 0 (ucast tmp))) (\<lambda>_.
     update (set_AL_flags \<circ> clear_flag CF \<circ> clear_flag AF \<circ> clear_flag OF)))"

definition DAA :: "bxInstruction \<Rightarrow> unit bx" where
  "DAA i =
     and_then (gets (\<lambda>s. AL s)) (\<lambda>tmpAL.
     and_then (or_flag (tmpAL AND 0x0f > 0x09) AF) (\<lambda>low.
     and_then (if low then
         and_then (or_flag (tmpAL > 0xf9) CF) (\<lambda>_.
         update (set_flag AF True \<circ> (\<lambda>s. write_reg_rl 0 (AL s + 0x06) s)))
       else update (set_flag AF False)) (\<lambda>_.
     and_then (or_flag (tmpAL > 0x99) CF) (\<lambda>high.
     and_then (if high then update (\<lambda>s. write_reg_rl 0 (AL s + 0x60) s) else ret ()) (\<lambda>_.
     update (set_flag CF high \<circ> set_AL_flags \<circ> set_flag OF False))))))"

definition DAS :: "bxInstruction \<Rightarrow> unit bx" where
  "DAS i =
     and_then (gets (\<lambda>s. AL s)) (\<lambda>tmpAL.
     and_then (or_flag (tmpAL AND 0x0f > 0x09) AF) (\<lambda>low.
     and_then (if low then
         and_then (or_flag (tmpAL < 0x06) CF) (\<lambda>borrow.
         and_then (update (set_flag AF True \<circ> (\<lambda>s. write_reg_rl 0 (AL s - 0x06) s))) (\<lambda>_.
         ret borrow))
       else and_then (update (set_flag AF False)) (\<lambda>_. ret False)) (\<lambda>tmpCF.
     and_then (or_flag (tmpAL > 0x99) CF) (\<lambda>high.
     and_then (if high then update (\<lambda>s. write_reg_rl 0 (AL s - 0x60) s) else ret ()) (\<lambda>_.
     update (set_flag CF (tmpCF \<or> high) \<circ> set_AL_flags \<circ> set_flag OF False))))))"

end
