(* ===== verification/BxBit.thy ===== *)
theory BxBit
  imports BxOperands BxFlagCtrl "HOL-Library.Signed_Division"
begin

text \<open>
  Conditions on the flags and the bit instructions of \<open>cpu/bit.cc\<close>: \<open>SETcc\<close>,
  bit scans, byte swaps and bit tests. The loops of the scans are partial functions: \<open>None\<close>
  is a loop that does not end, which \<open>scan_result\<close> turns into a panic that no scan
  reaches.
\<close>

section \<open>Conditions\<close>

text \<open>
  The sixteen conditions of \<open>SETcc\<close>, \<open>Jcc\<close> and \<open>CMOVcc\<close>. A
  condition of two flags reads the second one only where the C operator does.
\<close>

definition cond_O :: "bool bx" where "cond_O = get_flag OF"
definition cond_B :: "bool bx" where "cond_B = get_flag CF"
definition cond_Z :: "bool bx" where "cond_Z = get_flag ZF"
definition cond_S :: "bool bx" where "cond_S = get_flag SF"
definition cond_P :: "bool bx" where "cond_P = get_flag PF"

definition cond_not :: "bool bx \<Rightarrow> bool bx" where
  "cond_not c = and_then c (\<lambda>b. ret (\<not> b))"

definition cond_BE :: "bool bx" where
  "cond_BE = and_then (get_flag CF) (\<lambda>c. if c then ret True else get_flag ZF)"

definition cond_NBE :: "bool bx" where
  "cond_NBE = and_then (get_flag CF) (\<lambda>c. if c then ret False else cond_not (get_flag ZF))"

definition cond_L :: "bool bx" where
  "cond_L = and_then (get_flag SF) (\<lambda>sf. and_then (get_flag OF) (\<lambda>ovf. ret (sf \<noteq> ovf)))"

definition cond_LE :: "bool bx" where
  "cond_LE = and_then (get_flag ZF) (\<lambda>z. if z then ret True else cond_L)"

definition cond_NLE :: "bool bx" where
  "cond_NLE = and_then (get_flag ZF) (\<lambda>z. if z then ret False else cond_not cond_L)"

section \<open>SETcc\<close>

definition set_Eb :: "bool bx \<Rightarrow> bxInstruction \<Rightarrow> unit bx" where
  "set_Eb c i = and_then c (\<lambda>b. store_Eb i (if b then 1 else 0))"

definition SETO_Eb :: "bxInstruction \<Rightarrow> unit bx" where "SETO_Eb = set_Eb cond_O"
definition SETNO_Eb :: "bxInstruction \<Rightarrow> unit bx" where "SETNO_Eb = set_Eb (cond_not cond_O)"
definition SETB_Eb :: "bxInstruction \<Rightarrow> unit bx" where "SETB_Eb = set_Eb cond_B"
definition SETNB_Eb :: "bxInstruction \<Rightarrow> unit bx" where "SETNB_Eb = set_Eb (cond_not cond_B)"
definition SETZ_Eb :: "bxInstruction \<Rightarrow> unit bx" where "SETZ_Eb = set_Eb cond_Z"
definition SETNZ_Eb :: "bxInstruction \<Rightarrow> unit bx" where "SETNZ_Eb = set_Eb (cond_not cond_Z)"
definition SETBE_Eb :: "bxInstruction \<Rightarrow> unit bx" where "SETBE_Eb = set_Eb cond_BE"
definition SETNBE_Eb :: "bxInstruction \<Rightarrow> unit bx" where "SETNBE_Eb = set_Eb cond_NBE"
definition SETS_Eb :: "bxInstruction \<Rightarrow> unit bx" where "SETS_Eb = set_Eb cond_S"
definition SETNS_Eb :: "bxInstruction \<Rightarrow> unit bx" where "SETNS_Eb = set_Eb (cond_not cond_S)"
definition SETP_Eb :: "bxInstruction \<Rightarrow> unit bx" where "SETP_Eb = set_Eb cond_P"
definition SETNP_Eb :: "bxInstruction \<Rightarrow> unit bx" where "SETNP_Eb = set_Eb (cond_not cond_P)"
definition SETL_Eb :: "bxInstruction \<Rightarrow> unit bx" where "SETL_Eb = set_Eb cond_L"
definition SETNL_Eb :: "bxInstruction \<Rightarrow> unit bx" where "SETNL_Eb = set_Eb (cond_not cond_L)"
definition SETLE_Eb :: "bxInstruction \<Rightarrow> unit bx" where "SETLE_Eb = set_Eb cond_LE"
definition SETNLE_Eb :: "bxInstruction \<Rightarrow> unit bx" where "SETNLE_Eb = set_Eb cond_NLE"

section \<open>Bit scans\<close>

definition scan_result :: "'a option \<Rightarrow> 'a bx" where
  "scan_result r = (case r of Some x \<Rightarrow> ret x | None \<Rightarrow> panic ''the scan does not end'')"

partial_function (option) bsf_loop_16 :: "Bit16u \<Rightarrow> Bit16u \<Rightarrow> Bit16u option" where
  "bsf_loop_16 op1 op2 =
     (if op2 AND 0x01 = 0 then bsf_loop_16 (op1 + 1) (drop_bit 1 op2) else Some op1)"

partial_function (option) bsr_loop_16 :: "Bit16u \<Rightarrow> Bit16u \<Rightarrow> Bit16u option" where
  "bsr_loop_16 op1 op2 =
     (if op2 AND 0x8000 = 0 then bsr_loop_16 (op1 - 1) (push_bit 1 op2) else Some op1)"

definition BSF_GwEw :: "bxInstruction \<Rightarrow> unit bx" where
  "BSF_GwEw i =
     and_then (load_Ew i) (\<lambda>op2.
       if op2 = 0 then update (assert_flag ZF)
       else
         and_then (scan_result (bsf_loop_16 0 op2)) (\<lambda>op1.
         and_then (update (SET_FLAGS_OSZAPC_RESULT_16 op1 BX_INSTR_BITSCAN16)) (\<lambda>_.
         update (BX_WRITE_16BIT_REG (nnn i) op1))))"

definition BSR_GwEw :: "bxInstruction \<Rightarrow> unit bx" where
  "BSR_GwEw i =
     and_then (load_Ew i) (\<lambda>op2.
       if op2 = 0 then update (assert_flag ZF)
       else
         and_then (scan_result (bsr_loop_16 15 op2)) (\<lambda>op1.
         and_then (update (SET_FLAGS_OSZAPC_RESULT_16 op1 BX_INSTR_BITSCAN16)) (\<lambda>_.
         update (BX_WRITE_16BIT_REG (nnn i) op1))))"

partial_function (option) bsf_loop_32 :: "Bit32u \<Rightarrow> Bit32u \<Rightarrow> Bit32u option" where
  "bsf_loop_32 op1 op2 =
     (if op2 AND 0x01 = 0 then bsf_loop_32 (op1 + 1) (drop_bit 1 op2) else Some op1)"

partial_function (option) bsr_loop_32 :: "Bit32u \<Rightarrow> Bit32u \<Rightarrow> Bit32u option" where
  "bsr_loop_32 op1 op2 =
     (if op2 AND 0x80000000 = 0 then bsr_loop_32 (op1 - 1) (push_bit 1 op2) else Some op1)"

definition BSF_GdEd :: "bxInstruction \<Rightarrow> unit bx" where
  "BSF_GdEd i =
     and_then (load_Ed i) (\<lambda>op2.
       if op2 = 0 then update (assert_flag ZF)
       else
         and_then (scan_result (bsf_loop_32 0 op2)) (\<lambda>op1.
         and_then (update (SET_FLAGS_OSZAPC_RESULT_32 op1 BX_INSTR_BITSCAN32)) (\<lambda>_.
         update (BX_WRITE_32BIT_REG (nnn i) op1))))"

definition BSR_GdEd :: "bxInstruction \<Rightarrow> unit bx" where
  "BSR_GdEd i =
     and_then (load_Ed i) (\<lambda>op2.
       if op2 = 0 then update (assert_flag ZF)
       else
         and_then (scan_result (bsr_loop_32 31 op2)) (\<lambda>op1.
         and_then (update (SET_FLAGS_OSZAPC_RESULT_32 op1 BX_INSTR_BITSCAN32)) (\<lambda>_.
         update (BX_WRITE_32BIT_REG (nnn i) op1))))"

section \<open>Byte swaps\<close>

definition bswap :: "Bit32u \<Rightarrow> Bit32u" where
  "bswap r =
     (let b0 = r AND 0xff;
          b1 = drop_bit 8 r AND 0xff;
          b2 = drop_bit 16 r AND 0xff;
          b3 = drop_bit 24 r
      in push_bit 24 b0 OR push_bit 16 b1 OR push_bit 8 b2 OR b3)"

definition BSWAP :: "3 word \<Rightarrow> unit bx" where
  "BSWAP r = update (\<lambda>s. BX_WRITE_32BIT_REG r (bswap (gen_reg s r)) s)"

definition BSWAP_EAX :: "bxInstruction \<Rightarrow> unit bx" where "BSWAP_EAX i = BSWAP 0"
definition BSWAP_ECX :: "bxInstruction \<Rightarrow> unit bx" where "BSWAP_ECX i = BSWAP 1"
definition BSWAP_EDX :: "bxInstruction \<Rightarrow> unit bx" where "BSWAP_EDX i = BSWAP 2"
definition BSWAP_EBX :: "bxInstruction \<Rightarrow> unit bx" where "BSWAP_EBX i = BSWAP 3"
definition BSWAP_ESP :: "bxInstruction \<Rightarrow> unit bx" where "BSWAP_ESP i = BSWAP 4"
definition BSWAP_EBP :: "bxInstruction \<Rightarrow> unit bx" where "BSWAP_EBP i = BSWAP 5"
definition BSWAP_ESI :: "bxInstruction \<Rightarrow> unit bx" where "BSWAP_ESI i = BSWAP 6"
definition BSWAP_EDI :: "bxInstruction \<Rightarrow> unit bx" where "BSWAP_EDI i = BSWAP 7"

text \<open>
  The 64-bit form of the accumulator. It is not compiled in the checked-in configuration, and it
  is not the pattern of its seven siblings.
\<close>

definition BSWAP_RAX :: "Bit64u \<Rightarrow> Bit64u" where
  "BSWAP_RAX r =
     (let b0 = r AND 0xff;
          b1 = drop_bit 8 r AND 0xff;
          b2 = drop_bit 16 r AND 0xff;
          b3 = drop_bit 24 r AND 0xff;
          b4 = drop_bit 32 r AND 0xff;
          b7 = drop_bit 56 r
      in push_bit 56 b0 OR push_bit 48 b1 OR push_bit 40 b2 OR push_bit 32 b3 OR
         push_bit 24 b4 OR push_bit 16 b4 OR push_bit 8 b4 OR b7)"

definition BSWAP_RCX :: "Bit64u \<Rightarrow> Bit64u" where
  "BSWAP_RCX r =
     (let b0 = r AND 0xff;
          b1 = drop_bit 8 r AND 0xff;
          b2 = drop_bit 16 r AND 0xff;
          b3 = drop_bit 24 r AND 0xff;
          b4 = drop_bit 32 r AND 0xff;
          b5 = drop_bit 40 r AND 0xff;
          b6 = drop_bit 48 r AND 0xff;
          b7 = drop_bit 56 r
      in push_bit 56 b0 OR push_bit 48 b1 OR push_bit 40 b2 OR push_bit 32 b3 OR
         push_bit 24 b4 OR push_bit 16 b5 OR push_bit 8 b6 OR b7)"

section \<open>Bit tests\<close>

text \<open>
  With a register index the bit string of a memory operand extends on both sides of its address:
  the index, as a signed number, selects the word that is accessed.
\<close>

definition bit_addr_16 :: "Bit16u \<Rightarrow> cpu \<Rightarrow> Bit32u" where
  "bit_addr_16 op2 s = rm_addr s + word_of_int (2 * (sint (op2 AND 0xfff0) sdiv 16))"

definition BT_EwGw :: "bxInstruction \<Rightarrow> unit bx" where
  "BT_EwGw i =
     and_then (gets (BX_READ_16BIT_REG (nnn i))) (\<lambda>op2.
     let index = unat (op2 AND 0x0f) in
       if modC0 i then
         and_then (gets (BX_READ_16BIT_REG (rm i))) (\<lambda>op1.
         update (set_flag CF (drop_bit index op1 AND 1 \<noteq> 0)))
       else
         and_then (gets (bit_addr_16 op2)) (\<lambda>op1_addr.
         and_then (read_virtual_word (i_seg i) op1_addr) (\<lambda>op1.
         update (set_flag CF (drop_bit index op1 AND 1 \<noteq> 0)))))"

definition BTS_EwGw :: "bxInstruction \<Rightarrow> unit bx" where
  "BTS_EwGw i =
     and_then (gets (BX_READ_16BIT_REG (nnn i))) (\<lambda>op2.
     let index = unat (op2 AND 0x0f) in
       if modC0 i then
         and_then (gets (BX_READ_16BIT_REG (rm i))) (\<lambda>op1.
         and_then (update (set_flag CF (drop_bit index op1 AND 1 \<noteq> 0))) (\<lambda>_.
         update (BX_WRITE_16BIT_REG (rm i) (op1 OR push_bit index 1))))
       else
         and_then (gets (bit_addr_16 op2)) (\<lambda>op1_addr.
         and_then (read_RMW_virtual_word (i_seg i) op1_addr) (\<lambda>op1.
         and_then (write_RMW_virtual_word (op1 OR push_bit index 1)) (\<lambda>_.
         update (set_flag CF (drop_bit index op1 AND 1 \<noteq> 0))))))"

definition BTR_EwGw :: "bxInstruction \<Rightarrow> unit bx" where
  "BTR_EwGw i =
     and_then (gets (BX_READ_16BIT_REG (nnn i))) (\<lambda>op2.
     let index = unat (op2 AND 0x0f) in
       if modC0 i then
         and_then (gets (BX_READ_16BIT_REG (rm i))) (\<lambda>op1.
         and_then (update (set_flag CF (drop_bit index op1 AND 1 \<noteq> 0))) (\<lambda>_.
         update (BX_WRITE_16BIT_REG (rm i) (op1 AND NOT (push_bit index 1)))))
       else
         and_then (gets (bit_addr_16 op2)) (\<lambda>op1_addr.
         and_then (read_RMW_virtual_word (i_seg i) op1_addr) (\<lambda>op1.
         and_then (write_RMW_virtual_word (op1 AND NOT (push_bit index 1))) (\<lambda>_.
         update (set_flag CF (drop_bit index op1 AND 1 \<noteq> 0))))))"

definition BTC_EwGw :: "bxInstruction \<Rightarrow> unit bx" where
  "BTC_EwGw i =
     and_then (gets (BX_READ_16BIT_REG (nnn i))) (\<lambda>op2.
     let index = unat (op2 AND 0x0f) in
     and_then (if modC0 i then gets (BX_READ_16BIT_REG (rm i))
         else and_then (gets (bit_addr_16 op2)) (\<lambda>op1_addr. read_RMW_virtual_word (i_seg i) op1_addr)) (\<lambda>op1.
     and_then (update (set_flag CF (drop_bit index op1 AND 1 \<noteq> 0))) (\<lambda>_.
         and_then (put_Ew i (op1 XOR push_bit index 1)) (\<lambda>_.
         update (set_flag CF (drop_bit index op1 AND 1 \<noteq> 0))))))"

definition BT_EwIb :: "bxInstruction \<Rightarrow> unit bx" where
  "BT_EwIb i =
     (let index = unat (i_Ib i AND 0xf) in
     and_then (load_Ew i) (\<lambda>op1.
     update (set_flag CF (drop_bit index op1 AND 1 \<noteq> 0))))"

definition BTS_EwIb :: "bxInstruction \<Rightarrow> unit bx" where
  "BTS_EwIb i =
     (let index = unat (i_Ib i AND 0xf) in
     and_then (rmw_Ew i (\<lambda>op1. op1 OR push_bit index 1)) (\<lambda>op1.
     update (set_flag CF (drop_bit index op1 AND 1 \<noteq> 0))))"

definition BTR_EwIb :: "bxInstruction \<Rightarrow> unit bx" where
  "BTR_EwIb i =
     (let index = unat (i_Ib i AND 0xf) in
     and_then (rmw_Ew i (\<lambda>op1. op1 AND NOT (push_bit index 1))) (\<lambda>op1.
     update (set_flag CF (drop_bit index op1 AND 1 \<noteq> 0))))"

definition BTC_EwIb :: "bxInstruction \<Rightarrow> unit bx" where
  "BTC_EwIb i =
     (let index = unat (i_Ib i AND 0xf) in
     and_then (fetch_Ew i) (\<lambda>op1.
     and_then (update (set_flag CF (drop_bit index op1 AND 1 \<noteq> 0))) (\<lambda>_.
     put_Ew i (op1 XOR push_bit index 1))))"

definition bit_addr_32 :: "Bit32u \<Rightarrow> cpu \<Rightarrow> Bit32u" where
  "bit_addr_32 op2 s = rm_addr s + word_of_int (4 * (sint (op2 AND 0xffffffe0) sdiv 32))"

definition BT_EdGd :: "bxInstruction \<Rightarrow> unit bx" where
  "BT_EdGd i =
     and_then (gets (BX_READ_32BIT_REG (nnn i))) (\<lambda>op2.
     let index = unat (op2 AND 0x1f) in
       if modC0 i then
         and_then (gets (BX_READ_32BIT_REG (rm i))) (\<lambda>op1.
         update (set_flag CF (drop_bit index op1 AND 1 \<noteq> 0)))
       else
         and_then (gets (bit_addr_32 op2)) (\<lambda>op1_addr.
         and_then (read_virtual_dword (i_seg i) op1_addr) (\<lambda>op1.
         update (set_flag CF (drop_bit index op1 AND 1 \<noteq> 0)))))"

definition BTS_EdGd :: "bxInstruction \<Rightarrow> unit bx" where
  "BTS_EdGd i =
     and_then (gets (BX_READ_32BIT_REG (nnn i))) (\<lambda>op2.
     let index = unat (op2 AND 0x1f) in
       if modC0 i then
         and_then (gets (BX_READ_32BIT_REG (rm i))) (\<lambda>op1.
         and_then (update (set_flag CF (drop_bit index op1 AND 1 \<noteq> 0))) (\<lambda>_.
         update (BX_WRITE_32BIT_REG (rm i) (op1 OR push_bit index 1))))
       else
         and_then (gets (bit_addr_32 op2)) (\<lambda>op1_addr.
         and_then (read_RMW_virtual_dword (i_seg i) op1_addr) (\<lambda>op1.
         and_then (write_RMW_virtual_dword (op1 OR push_bit index 1)) (\<lambda>_.
         update (set_flag CF (drop_bit index op1 AND 1 \<noteq> 0))))))"

definition BTR_EdGd :: "bxInstruction \<Rightarrow> unit bx" where
  "BTR_EdGd i =
     and_then (gets (BX_READ_32BIT_REG (nnn i))) (\<lambda>op2.
     let index = unat (op2 AND 0x1f) in
       if modC0 i then
         and_then (gets (BX_READ_32BIT_REG (rm i))) (\<lambda>op1.
         and_then (update (set_flag CF (drop_bit index op1 AND 1 \<noteq> 0))) (\<lambda>_.
         update (BX_WRITE_32BIT_REG (rm i) (op1 AND NOT (push_bit index 1)))))
       else
         and_then (gets (bit_addr_32 op2)) (\<lambda>op1_addr.
         and_then (read_RMW_virtual_dword (i_seg i) op1_addr) (\<lambda>op1.
         and_then (write_RMW_virtual_dword (op1 AND NOT (push_bit index 1))) (\<lambda>_.
         update (set_flag CF (drop_bit index op1 AND 1 \<noteq> 0))))))"

definition BTC_EdGd :: "bxInstruction \<Rightarrow> unit bx" where
  "BTC_EdGd i =
     and_then (gets (BX_READ_32BIT_REG (nnn i))) (\<lambda>op2.
     let index = unat (op2 AND 0x1f) in
     and_then (if modC0 i then gets (BX_READ_32BIT_REG (rm i))
         else and_then (gets (bit_addr_32 op2)) (\<lambda>op1_addr. read_RMW_virtual_dword (i_seg i) op1_addr)) (\<lambda>op1.
     and_then (update (set_flag CF (drop_bit index op1 AND 1 \<noteq> 0))) (\<lambda>_.
         put_Ed i (op1 XOR push_bit index 1))))"

definition BT_EdIb :: "bxInstruction \<Rightarrow> unit bx" where
  "BT_EdIb i =
     (let index = unat (i_Ib i AND 0x1f) in
     and_then (load_Ed i) (\<lambda>op1.
     update (set_flag CF (drop_bit index op1 AND 1 \<noteq> 0))))"

definition BTS_EdIb :: "bxInstruction \<Rightarrow> unit bx" where
  "BTS_EdIb i =
     (let index = unat (i_Ib i AND 0x1f) in
     and_then (rmw_Ed i (\<lambda>op1. op1 OR push_bit index 1)) (\<lambda>op1.
     update (set_flag CF (drop_bit index op1 AND 1 \<noteq> 0))))"

definition BTR_EdIb :: "bxInstruction \<Rightarrow> unit bx" where
  "BTR_EdIb i =
     (let index = unat (i_Ib i AND 0x1f) in
     and_then (rmw_Ed i (\<lambda>op1. op1 AND NOT (push_bit index 1))) (\<lambda>op1.
     update (set_flag CF (drop_bit index op1 AND 1 \<noteq> 0))))"

definition BTC_EdIb :: "bxInstruction \<Rightarrow> unit bx" where
  "BTC_EdIb i =
     (let index = unat (i_Ib i AND 0x1f) in
     and_then (fetch_Ed i) (\<lambda>op1.
     and_then (update (set_flag CF (drop_bit index op1 AND 1 \<noteq> 0))) (\<lambda>_.
     put_Ed i (op1 XOR push_bit index 1))))"

end
