(* ===== verification/BxResolve.thy ===== *)
theory BxResolve
  imports BxState
begin

text \<open>
  Effective addresses: the methods of \<open>cpu/resolve16.cc\<close> and
  \<open>cpu/resolve32.cc\<close>, which store the address of the memory operand in
  \<open>address_xlation.rm_addr\<close> (\<open>RMAddr(i)\<close>), and the decoder's tables of
  them (\<open>cpu/fetchdecode.cc\<close>).
\<close>

abbreviation BX :: "cpu \<Rightarrow> Bit16u" where "BX s \<equiv> BX_READ_16BIT_REG 3 s"
abbreviation SP :: "cpu \<Rightarrow> Bit16u" where "SP s \<equiv> BX_READ_16BIT_REG 4 s"
abbreviation BP :: "cpu \<Rightarrow> Bit16u" where "BP s \<equiv> BX_READ_16BIT_REG 5 s"
abbreviation SI :: "cpu \<Rightarrow> Bit16u" where "SI s \<equiv> BX_READ_16BIT_REG 6 s"
abbreviation DI :: "cpu \<Rightarrow> Bit16u" where "DI s \<equiv> BX_READ_16BIT_REG 7 s"
abbreviation ESP :: "cpu \<Rightarrow> Bit32u" where "ESP s \<equiv> gen_reg s 4"
abbreviation EBP :: "cpu \<Rightarrow> Bit32u" where "EBP s \<equiv> gen_reg s 5"
abbreviation ESI :: "cpu \<Rightarrow> Bit32u" where "ESI s \<equiv> gen_reg s 6"
abbreviation EDI :: "cpu \<Rightarrow> Bit32u" where "EDI s \<equiv> gen_reg s 7"

section \<open>16-bit addressing\<close>

definition Resolve16Mod0Rm0 :: "bxInstruction \<Rightarrow> cpu \<Rightarrow> cpu" where
  "Resolve16Mod0Rm0 i s = s\<lparr>rm_addr := ucast (BX s + SI s)\<rparr>"

definition Resolve16Mod0Rm1 :: "bxInstruction \<Rightarrow> cpu \<Rightarrow> cpu" where
  "Resolve16Mod0Rm1 i s = s\<lparr>rm_addr := ucast (BX s + DI s)\<rparr>"

definition Resolve16Mod0Rm2 :: "bxInstruction \<Rightarrow> cpu \<Rightarrow> cpu" where
  "Resolve16Mod0Rm2 i s = s\<lparr>rm_addr := ucast (BP s + SI s)\<rparr>"

definition Resolve16Mod0Rm3 :: "bxInstruction \<Rightarrow> cpu \<Rightarrow> cpu" where
  "Resolve16Mod0Rm3 i s = s\<lparr>rm_addr := ucast (BP s + DI s)\<rparr>"

definition Resolve16Mod0Rm4 :: "bxInstruction \<Rightarrow> cpu \<Rightarrow> cpu" where
  "Resolve16Mod0Rm4 i s = s\<lparr>rm_addr := ucast (SI s)\<rparr>"

definition Resolve16Mod0Rm5 :: "bxInstruction \<Rightarrow> cpu \<Rightarrow> cpu" where
  "Resolve16Mod0Rm5 i s = s\<lparr>rm_addr := ucast (DI s)\<rparr>"

definition Resolve16Mod0Rm6 :: "bxInstruction \<Rightarrow> cpu \<Rightarrow> cpu" where
  "Resolve16Mod0Rm6 i s = s\<lparr>rm_addr := ucast (displ16u i)\<rparr>"

definition Resolve16Mod0Rm7 :: "bxInstruction \<Rightarrow> cpu \<Rightarrow> cpu" where
  "Resolve16Mod0Rm7 i s = s\<lparr>rm_addr := ucast (BX s)\<rparr>"

definition Resolve16Mod1or2Rm0 :: "bxInstruction \<Rightarrow> cpu \<Rightarrow> cpu" where
  "Resolve16Mod1or2Rm0 i s = s\<lparr>rm_addr := ucast (BX s + SI s + displ16u i)\<rparr>"

definition Resolve16Mod1or2Rm1 :: "bxInstruction \<Rightarrow> cpu \<Rightarrow> cpu" where
  "Resolve16Mod1or2Rm1 i s = s\<lparr>rm_addr := ucast (BX s + DI s + displ16u i)\<rparr>"

definition Resolve16Mod1or2Rm2 :: "bxInstruction \<Rightarrow> cpu \<Rightarrow> cpu" where
  "Resolve16Mod1or2Rm2 i s = s\<lparr>rm_addr := ucast (BP s + SI s + displ16u i)\<rparr>"

definition Resolve16Mod1or2Rm3 :: "bxInstruction \<Rightarrow> cpu \<Rightarrow> cpu" where
  "Resolve16Mod1or2Rm3 i s = s\<lparr>rm_addr := ucast (BP s + DI s + displ16u i)\<rparr>"

definition Resolve16Mod1or2Rm4 :: "bxInstruction \<Rightarrow> cpu \<Rightarrow> cpu" where
  "Resolve16Mod1or2Rm4 i s = s\<lparr>rm_addr := ucast (SI s + displ16u i)\<rparr>"

definition Resolve16Mod1or2Rm5 :: "bxInstruction \<Rightarrow> cpu \<Rightarrow> cpu" where
  "Resolve16Mod1or2Rm5 i s = s\<lparr>rm_addr := ucast (DI s + displ16u i)\<rparr>"

definition Resolve16Mod1or2Rm6 :: "bxInstruction \<Rightarrow> cpu \<Rightarrow> cpu" where
  "Resolve16Mod1or2Rm6 i s = s\<lparr>rm_addr := ucast (BP s + displ16u i)\<rparr>"

definition Resolve16Mod1or2Rm7 :: "bxInstruction \<Rightarrow> cpu \<Rightarrow> cpu" where
  "Resolve16Mod1or2Rm7 i s = s\<lparr>rm_addr := ucast (BX s + displ16u i)\<rparr>"

section \<open>32-bit addressing\<close>

definition Resolve32Mod0Rm0 :: "bxInstruction \<Rightarrow> cpu \<Rightarrow> cpu" where
  "Resolve32Mod0Rm0 i s = s\<lparr>rm_addr := EAX s\<rparr>"

definition Resolve32Mod0Rm1 :: "bxInstruction \<Rightarrow> cpu \<Rightarrow> cpu" where
  "Resolve32Mod0Rm1 i s = s\<lparr>rm_addr := ECX s\<rparr>"

definition Resolve32Mod0Rm2 :: "bxInstruction \<Rightarrow> cpu \<Rightarrow> cpu" where
  "Resolve32Mod0Rm2 i s = s\<lparr>rm_addr := EDX s\<rparr>"

definition Resolve32Mod0Rm3 :: "bxInstruction \<Rightarrow> cpu \<Rightarrow> cpu" where
  "Resolve32Mod0Rm3 i s = s\<lparr>rm_addr := EBX s\<rparr>"

definition Resolve32Mod0Rm5 :: "bxInstruction \<Rightarrow> cpu \<Rightarrow> cpu" where
  "Resolve32Mod0Rm5 i s = s\<lparr>rm_addr := displ32u i\<rparr>"

definition Resolve32Mod0Rm6 :: "bxInstruction \<Rightarrow> cpu \<Rightarrow> cpu" where
  "Resolve32Mod0Rm6 i s = s\<lparr>rm_addr := ESI s\<rparr>"

definition Resolve32Mod0Rm7 :: "bxInstruction \<Rightarrow> cpu \<Rightarrow> cpu" where
  "Resolve32Mod0Rm7 i s = s\<lparr>rm_addr := EDI s\<rparr>"

definition Resolve32Mod1or2Rm0 :: "bxInstruction \<Rightarrow> cpu \<Rightarrow> cpu" where
  "Resolve32Mod1or2Rm0 i s = s\<lparr>rm_addr := EAX s + displ32u i\<rparr>"

definition Resolve32Mod1or2Rm1 :: "bxInstruction \<Rightarrow> cpu \<Rightarrow> cpu" where
  "Resolve32Mod1or2Rm1 i s = s\<lparr>rm_addr := ECX s + displ32u i\<rparr>"

definition Resolve32Mod1or2Rm2 :: "bxInstruction \<Rightarrow> cpu \<Rightarrow> cpu" where
  "Resolve32Mod1or2Rm2 i s = s\<lparr>rm_addr := EDX s + displ32u i\<rparr>"

definition Resolve32Mod1or2Rm3 :: "bxInstruction \<Rightarrow> cpu \<Rightarrow> cpu" where
  "Resolve32Mod1or2Rm3 i s = s\<lparr>rm_addr := EBX s + displ32u i\<rparr>"

definition Resolve32Mod1or2Rm5 :: "bxInstruction \<Rightarrow> cpu \<Rightarrow> cpu" where
  "Resolve32Mod1or2Rm5 i s = s\<lparr>rm_addr := EBP s + displ32u i\<rparr>"

definition Resolve32Mod1or2Rm6 :: "bxInstruction \<Rightarrow> cpu \<Rightarrow> cpu" where
  "Resolve32Mod1or2Rm6 i s = s\<lparr>rm_addr := ESI s + displ32u i\<rparr>"

definition Resolve32Mod1or2Rm7 :: "bxInstruction \<Rightarrow> cpu \<Rightarrow> cpu" where
  "Resolve32Mod1or2Rm7 i s = s\<lparr>rm_addr := EDI s + displ32u i\<rparr>"

definition scaled_index :: "bxInstruction \<Rightarrow> cpu \<Rightarrow> Bit32u" where
  "scaled_index i s =
     (if sibIndex i \<noteq> 4 then push_bit (sibScale i) (BX_READ_32BIT_REG (sibIndex i) s) else 0)"

definition Resolve32Mod0Base0 :: "bxInstruction \<Rightarrow> cpu \<Rightarrow> cpu" where
  "Resolve32Mod0Base0 i s = s\<lparr>rm_addr := EAX s + scaled_index i s\<rparr>"

definition Resolve32Mod0Base1 :: "bxInstruction \<Rightarrow> cpu \<Rightarrow> cpu" where
  "Resolve32Mod0Base1 i s = s\<lparr>rm_addr := ECX s + scaled_index i s\<rparr>"

definition Resolve32Mod0Base2 :: "bxInstruction \<Rightarrow> cpu \<Rightarrow> cpu" where
  "Resolve32Mod0Base2 i s = s\<lparr>rm_addr := EDX s + scaled_index i s\<rparr>"

definition Resolve32Mod0Base3 :: "bxInstruction \<Rightarrow> cpu \<Rightarrow> cpu" where
  "Resolve32Mod0Base3 i s = s\<lparr>rm_addr := EBX s + scaled_index i s\<rparr>"

definition Resolve32Mod0Base4 :: "bxInstruction \<Rightarrow> cpu \<Rightarrow> cpu" where
  "Resolve32Mod0Base4 i s = s\<lparr>rm_addr := ESP s + scaled_index i s\<rparr>"

definition Resolve32Mod0Base5 :: "bxInstruction \<Rightarrow> cpu \<Rightarrow> cpu" where
  "Resolve32Mod0Base5 i s = s\<lparr>rm_addr := displ32u i + scaled_index i s\<rparr>"

definition Resolve32Mod0Base6 :: "bxInstruction \<Rightarrow> cpu \<Rightarrow> cpu" where
  "Resolve32Mod0Base6 i s = s\<lparr>rm_addr := ESI s + scaled_index i s\<rparr>"

definition Resolve32Mod0Base7 :: "bxInstruction \<Rightarrow> cpu \<Rightarrow> cpu" where
  "Resolve32Mod0Base7 i s = s\<lparr>rm_addr := EDI s + scaled_index i s\<rparr>"

definition Resolve32Mod1or2Base0 :: "bxInstruction \<Rightarrow> cpu \<Rightarrow> cpu" where
  "Resolve32Mod1or2Base0 i s = s\<lparr>rm_addr := EAX s + scaled_index i s + displ32u i\<rparr>"

definition Resolve32Mod1or2Base1 :: "bxInstruction \<Rightarrow> cpu \<Rightarrow> cpu" where
  "Resolve32Mod1or2Base1 i s = s\<lparr>rm_addr := ECX s + scaled_index i s + displ32u i\<rparr>"

definition Resolve32Mod1or2Base2 :: "bxInstruction \<Rightarrow> cpu \<Rightarrow> cpu" where
  "Resolve32Mod1or2Base2 i s = s\<lparr>rm_addr := EDX s + scaled_index i s + displ32u i\<rparr>"

definition Resolve32Mod1or2Base3 :: "bxInstruction \<Rightarrow> cpu \<Rightarrow> cpu" where
  "Resolve32Mod1or2Base3 i s = s\<lparr>rm_addr := EBX s + scaled_index i s + displ32u i\<rparr>"

definition Resolve32Mod1or2Base4 :: "bxInstruction \<Rightarrow> cpu \<Rightarrow> cpu" where
  "Resolve32Mod1or2Base4 i s = s\<lparr>rm_addr := ESP s + scaled_index i s + displ32u i\<rparr>"

definition Resolve32Mod1or2Base5 :: "bxInstruction \<Rightarrow> cpu \<Rightarrow> cpu" where
  "Resolve32Mod1or2Base5 i s = s\<lparr>rm_addr := EBP s + scaled_index i s + displ32u i\<rparr>"

definition Resolve32Mod1or2Base6 :: "bxInstruction \<Rightarrow> cpu \<Rightarrow> cpu" where
  "Resolve32Mod1or2Base6 i s = s\<lparr>rm_addr := ESI s + scaled_index i s + displ32u i\<rparr>"

definition Resolve32Mod1or2Base7 :: "bxInstruction \<Rightarrow> cpu \<Rightarrow> cpu" where
  "Resolve32Mod1or2Base7 i s = s\<lparr>rm_addr := EDI s + scaled_index i s + displ32u i\<rparr>"

section \<open>The decoder's tables\<close>

text \<open>
  \<open>BX_CPU_CALL_METHODR (i->ResolveModrm, (i))\<close>. The fifth entry of the 32-bit tables without
  s-i-b byte is null, as is the pointer of an instruction without memory operand; a call through
  it is a panic here. \<open>BxResolveError\<close> is in none of the tables.
\<close>

definition BxResolveError :: "bxInstruction \<Rightarrow> unit bx" where
  "BxResolveError i = panic ''BxResolveError''"

fun call_resolve :: "resolve_modrm \<Rightarrow> bxInstruction \<Rightarrow> unit bx" where
  "call_resolve (BxResolve16Mod0 k) i =
     [update (Resolve16Mod0Rm0 i),
      update (Resolve16Mod0Rm1 i),
      update (Resolve16Mod0Rm2 i),
      update (Resolve16Mod0Rm3 i),
      update (Resolve16Mod0Rm4 i),
      update (Resolve16Mod0Rm5 i),
      update (Resolve16Mod0Rm6 i),
      update (Resolve16Mod0Rm7 i)] ! k"
| "call_resolve (BxResolve16Mod1or2 k) i =
     [update (Resolve16Mod1or2Rm0 i),
      update (Resolve16Mod1or2Rm1 i),
      update (Resolve16Mod1or2Rm2 i),
      update (Resolve16Mod1or2Rm3 i),
      update (Resolve16Mod1or2Rm4 i),
      update (Resolve16Mod1or2Rm5 i),
      update (Resolve16Mod1or2Rm6 i),
      update (Resolve16Mod1or2Rm7 i)] ! k"
| "call_resolve (BxResolve32Mod0 k) i =
     [update (Resolve32Mod0Rm0 i),
      update (Resolve32Mod0Rm1 i),
      update (Resolve32Mod0Rm2 i),
      update (Resolve32Mod0Rm3 i),
      panic ''null ResolveModrm'',
      update (Resolve32Mod0Rm5 i),
      update (Resolve32Mod0Rm6 i),
      update (Resolve32Mod0Rm7 i)] ! k"
| "call_resolve (BxResolve32Mod1or2 k) i =
     [update (Resolve32Mod1or2Rm0 i),
      update (Resolve32Mod1or2Rm1 i),
      update (Resolve32Mod1or2Rm2 i),
      update (Resolve32Mod1or2Rm3 i),
      panic ''null ResolveModrm'',
      update (Resolve32Mod1or2Rm5 i),
      update (Resolve32Mod1or2Rm6 i),
      update (Resolve32Mod1or2Rm7 i)] ! k"
| "call_resolve (BxResolve32Mod0Base k) i =
     [update (Resolve32Mod0Base0 i),
      update (Resolve32Mod0Base1 i),
      update (Resolve32Mod0Base2 i),
      update (Resolve32Mod0Base3 i),
      update (Resolve32Mod0Base4 i),
      update (Resolve32Mod0Base5 i),
      update (Resolve32Mod0Base6 i),
      update (Resolve32Mod0Base7 i)] ! k"
| "call_resolve (BxResolve32Mod1or2Base k) i =
     [update (Resolve32Mod1or2Base0 i),
      update (Resolve32Mod1or2Base1 i),
      update (Resolve32Mod1or2Base2 i),
      update (Resolve32Mod1or2Base3 i),
      update (Resolve32Mod1or2Base4 i),
      update (Resolve32Mod1or2Base5 i),
      update (Resolve32Mod1or2Base6 i),
      update (Resolve32Mod1or2Base7 i)] ! k"

definition resolve :: "bxInstruction \<Rightarrow> unit bx" where
  "resolve i = (case ResolveModrm i of None \<Rightarrow> panic ''null ResolveModrm'' | Some m \<Rightarrow> call_resolve m i)"

end
