(* ===== verification/BxSegment.thy ===== *)
theory BxSegment
  imports BxFlagCtrl BxAccess BxResolve
begin

text \<open>
  Segment registers and descriptors (\<open>cpu/segment_ctrl_pro.cc\<close>,
  \<open>cpu/descriptor.h\<close>) and the checks of code segments and branches
  (\<open>cpu/ctrl_xfer_pro.cc\<close>). A raw descriptor is two double words of the GDT or LDT; the
  union of \<open>bx_descriptor_t\<close> is a datatype with a constructor per member.
\<close>

section \<open>Selectors and descriptors\<close>

record bx_selector_t =
  sl_value :: Bit16u
  sl_index :: Bit16u
  sl_ti :: bool
  sl_rpl :: nat

record seg_descriptor =
  sd_executable :: bool
  sd_c_ed :: bool
  sd_r_w :: bool
  sd_a :: bool
  sd_base :: Bit32u
  sd_limit :: Bit32u
  sd_limit_scaled :: Bit32u
  sd_g :: bool
  sd_d_b :: bool
  sd_avl :: bool

record tss386_descriptor =
  t3_base :: Bit32u
  t3_limit :: Bit32u
  t3_limit_scaled :: Bit32u
  t3_g :: bool
  t3_avl :: bool

datatype descriptor_u =
    U_none
  | U_segment (u_segment: seg_descriptor)
  | U_gate286 Bit8u Bit16u Bit16u
  | U_taskgate Bit16u
  | U_gate386 Bit8u Bit16u Bit32u
  | U_tss286 Bit32u Bit16u
  | U_tss386 tss386_descriptor
  | U_ldt (ldt_base: Bit32u) (ldt_limit: Bit16u)

record bx_descriptor_t =
  d_valid :: Bit32u
  d_p :: bool
  d_dpl :: nat
  d_segment :: bool
  d_type :: nat
  d_u :: descriptor_u

definition parse_selector :: "Bit16u \<Rightarrow> bx_selector_t" where
  "parse_selector raw_selector = \<lparr>sl_value = raw_selector, sl_index = drop_bit 3 raw_selector,
     sl_ti = (drop_bit 2 raw_selector AND 0x01 \<noteq> 0), sl_rpl = unat (raw_selector AND 0x03)\<rparr>"

text \<open>The base of segments, LDTs and 386 TSSs, and the base that a 286 TSS keeps.\<close>

definition descriptor_base24 :: "Bit32u \<Rightarrow> Bit32u \<Rightarrow> Bit32u" where
  "descriptor_base24 dword1 dword2 = drop_bit 16 dword1 OR push_bit 16 (dword2 AND 0xFF)"

definition descriptor_base :: "Bit32u \<Rightarrow> Bit32u \<Rightarrow> Bit32u" where
  "descriptor_base dword1 dword2 = descriptor_base24 dword1 dword2 OR (dword2 AND 0xFF000000)"

definition parse_segment :: "Bit32u \<Rightarrow> Bit32u \<Rightarrow> seg_descriptor" where
  "parse_segment dword1 dword2 =
     (let AR_byte = drop_bit 8 dword2;
          executable = (drop_bit 3 AR_byte AND 0x01 \<noteq> 0);
          c_ed = (drop_bit 2 AR_byte AND 0x01 \<noteq> 0);
          limit = (dword1 AND 0xffff) OR (dword2 AND 0x000F0000);
          g = (dword2 AND 0x00800000 > 0) in
      \<lparr>sd_executable = executable, sd_c_ed = c_ed, sd_r_w = (drop_bit 1 AR_byte AND 0x01 \<noteq> 0),
       sd_a = (drop_bit 0 AR_byte AND 0x01 \<noteq> 0), sd_base = descriptor_base dword1 dword2,
       sd_limit = limit,
       sd_limit_scaled =
         (if g then (if \<not> executable \<and> c_ed then push_bit 12 limit else push_bit 12 limit OR 0x0fff)
          else limit),
       sd_g = g, sd_d_b = (dword2 AND 0x00400000 > 0), sd_avl = (dword2 AND 0x00100000 > 0)\<rparr>)"

definition parse_tss386 :: "Bit32u \<Rightarrow> Bit32u \<Rightarrow> tss386_descriptor" where
  "parse_tss386 dword1 dword2 =
     (let limit = (dword1 AND 0x0000ffff) OR (dword2 AND 0x000f0000);
          g = (dword2 AND 0x00800000 > 0) in
      \<lparr>t3_base = descriptor_base dword1 dword2, t3_limit = limit,
       t3_limit_scaled = (if g then push_bit 12 limit OR 0x0fff else limit),
       t3_g = g, t3_avl = (dword2 AND 0x00100000 > 0)\<rparr>)"

text \<open>
  The switch over the types of system descriptors covers all sixteen values; the
  \<open>default\<close> branch is not reachable.
\<close>

definition parse_system :: "nat \<Rightarrow> Bit32u \<Rightarrow> Bit32u \<Rightarrow> Bit32u \<times> descriptor_u" where
  "parse_system type dword1 dword2 =
     (if type \<in> {0, 8, 10, 13} then (0, U_none)
      else if type \<in> {1, 3} then (1, U_tss286 (descriptor_base24 dword1 dword2) (ucast (dword1 AND 0xffff)))
      else if type = 2 then (1, U_ldt (descriptor_base dword1 dword2) (ucast (dword1 AND 0xffff)))
      else if type \<in> {4, 6, 7} then
        (1, U_gate286 (ucast (dword2 AND 0x1f)) (ucast (drop_bit 16 dword1)) (ucast (dword1 AND 0xffff)))
      else if type = 5 then (1, U_taskgate (ucast (drop_bit 16 dword1)))
      else if type \<in> {9, 11} then (1, U_tss386 (parse_tss386 dword1 dword2))
      else (1, U_gate386 (ucast (dword2 AND 0x1f)) (ucast (drop_bit 16 dword1))
              ((dword2 AND 0xffff0000) OR (dword1 AND 0x0000ffff))))"

definition parse_descriptor :: "Bit32u \<Rightarrow> Bit32u \<Rightarrow> bx_descriptor_t" where
  "parse_descriptor dword1 dword2 =
     (let AR_byte = drop_bit 8 dword2;
          segment = (drop_bit 4 AR_byte AND 0x01 \<noteq> 0);
          type = unat (AR_byte AND 0x0f);
          (valid, u) = (if segment then (1, U_segment (parse_segment dword1 dword2))
                        else parse_system type dword1 dword2) in
      \<lparr>d_valid = valid, d_p = (drop_bit 7 AR_byte AND 0x01 \<noteq> 0),
       d_dpl = unat (drop_bit 5 AR_byte AND 0x03), d_segment = segment, d_type = type, d_u = u\<rparr>)"

section \<open>Fetching a descriptor\<close>

definition error_code :: "Bit16u \<Rightarrow> Bit16u" where
  "error_code raw = raw AND 0xfffc"

definition read_descriptor :: "Bit32u \<Rightarrow> Bit16u \<Rightarrow> (Bit32u \<times> Bit32u) bx" where
  "read_descriptor base index =
     and_then (access_linear_read (base + ucast index * 8) 4 False BX_READ) (\<lambda>b1.
     and_then (access_linear_read (base + ucast index * 8 + 4) 4 False BX_READ) (\<lambda>b2.
     ret (le_word b1, le_word b2)))"

definition fetch_raw_descriptor :: "bx_selector_t \<Rightarrow> nat \<Rightarrow> (Bit32u \<times> Bit32u) bx" where
  "fetch_raw_descriptor selector exception_no = (\<lambda>s.
     if \<not> sl_ti selector then
       (if unat (sl_index selector) * 8 + 7 > unat (gdtr_limit (sys s))
        then raise exception_no (error_code (sl_value selector)) s
        else read_descriptor (gdtr_base (sys s)) (sl_index selector) s)
     else
       (if sys_valid (ldtr (sys s)) = 0 then panic ''fetch_raw_descriptor: LDTR.valid=0'' s
        else if unat (sl_index selector) * 8 + 7 > unat (sys_limit (ldtr (sys s)))
        then raise exception_no (error_code (sl_value selector)) s
        else read_descriptor (sys_base (ldtr (sys s))) (sl_index selector) s))"

definition fetch_raw_descriptor2 :: "bx_selector_t \<Rightarrow> (Bit32u \<times> Bit32u) option bx" where
  "fetch_raw_descriptor2 selector = (\<lambda>s.
     if \<not> sl_ti selector then
       (if unat (sl_index selector) * 8 + 7 > unat (gdtr_limit (sys s)) then ret None s
        else and_then (read_descriptor (gdtr_base (sys s)) (sl_index selector)) (\<lambda>d. ret (Some d)) s)
     else
       (if sys_valid (ldtr (sys s)) = 0 then panic ''fetch_raw_descriptor2: LDTR.valid=0'' s
        else if unat (sl_index selector) * 8 + 7 > unat (sys_limit (ldtr (sys s))) then ret None s
        else and_then (read_descriptor (sys_base (ldtr (sys s))) (sl_index selector)) (\<lambda>d. ret (Some d)) s))"

text \<open>The write-back of the second double word with the accessed bit.\<close>

definition write_accessed :: "bx_selector_t \<Rightarrow> Bit32u \<Rightarrow> unit bx" where
  "write_accessed selector dword2 = (\<lambda>s.
     (let base = (if \<not> sl_ti selector then gdtr_base (sys s) else sys_base (ldtr (sys s))) in
      access_linear_write (base + ucast (sl_index selector) * 8 + 4)
        (le_bytes 4 (dword2 OR 0x0100)) False s))"

section \<open>Loading a segment register\<close>

text \<open>Selector and descriptor cache of a code or data segment, with \<open>valid\<close> 1.\<close>

definition loaded_segment :: "bx_selector_t \<Rightarrow> bx_descriptor_t \<Rightarrow> bx_segment_reg" where
  "loaded_segment sel d =
     (let u = u_segment (d_u d) in
      \<lparr>sel_value = sl_value sel, sel_index = sl_index sel, sel_ti = sl_ti sel, sel_rpl = sl_rpl sel,
       seg_valid = 1, seg_p = d_p d, seg_dpl = d_dpl d, seg_segment = d_segment d, seg_type = d_type d,
       seg_executable = sd_executable u, seg_c_ed = sd_c_ed u, seg_r_w = sd_r_w u, seg_a = sd_a u,
       seg_base = sd_base u, seg_limit = sd_limit u, seg_limit_scaled = sd_limit_scaled u,
       seg_g = sd_g u, seg_d_b = sd_d_b u, seg_avl = sd_avl u\<rparr>)"

definition set_sreg :: "seg_reg \<Rightarrow> bx_segment_reg \<Rightarrow> cpu \<Rightarrow> cpu" where
  "set_sreg sg r s = s\<lparr>sregs := (sregs s)(sg := r)\<rparr>"

definition load_SS_protected :: "Bit16u \<Rightarrow> unit bx" where
  "load_SS_protected new_value =
     (if new_value AND 0xfffc = 0 then raise BX_GP_EXCEPTION 0
      else
        (let ss_selector = parse_selector new_value; ec = error_code new_value in
         and_then (fetch_raw_descriptor ss_selector BX_GP_EXCEPTION) (\<lambda>(dword1, dword2) s.
           (let descriptor = parse_descriptor dword1 dword2; u = u_segment (d_u descriptor) in
            if sl_rpl ss_selector \<noteq> CPL s then raise BX_GP_EXCEPTION ec s
            else if d_valid descriptor = 0 then raise BX_GP_EXCEPTION ec s
            else if \<not> d_segment descriptor \<or> sd_executable u \<or> \<not> sd_r_w u then raise BX_GP_EXCEPTION ec s
            else if d_dpl descriptor \<noteq> CPL s then raise BX_GP_EXCEPTION ec s
            else if \<not> d_p descriptor then raise BX_SS_EXCEPTION ec s
            else
              and_then (update (set_sreg SS (loaded_segment ss_selector descriptor))) (\<lambda>_.
              write_accessed ss_selector dword2) s))))"

definition null_segment :: "bx_segment_reg \<Rightarrow> bx_segment_reg" where
  "null_segment r = r\<lparr>sel_index := 0, sel_ti := False, sel_rpl := 0, sel_value := 0, seg_valid := 0\<rparr>"

definition load_data_protected :: "seg_reg \<Rightarrow> Bit16u \<Rightarrow> unit bx" where
  "load_data_protected sg new_value =
     (if new_value AND 0xfffc = 0 then update (\<lambda>s. set_sreg sg (null_segment (sregs s sg)) s)
      else
        (let selector = parse_selector new_value; ec = error_code new_value in
         and_then (fetch_raw_descriptor selector BX_GP_EXCEPTION) (\<lambda>(dword1, dword2) s.
           (let descriptor = parse_descriptor dword1 dword2; u = u_segment (d_u descriptor) in
            if d_valid descriptor = 0 then raise BX_GP_EXCEPTION ec s
            else if \<not> d_segment descriptor \<or> (sd_executable u \<and> \<not> sd_r_w u) then raise BX_GP_EXCEPTION ec s
            else if (\<not> sd_executable u \<or> \<not> sd_c_ed u) \<and>
                    (sl_rpl selector > d_dpl descriptor \<or> CPL s > d_dpl descriptor)
            then raise BX_GP_EXCEPTION ec s
            else if \<not> d_p descriptor then raise BX_NP_EXCEPTION ec s
            else
              and_then (update (set_sreg sg (loaded_segment selector descriptor))) (\<lambda>_.
              if dword2 AND 0x0100 = 0 then write_accessed selector dword2 else ret ()) s))))"

text \<open>
  Real and virtual-8086 mode. In real mode the limit and the access rights stay what they
  were.
\<close>

definition real_segment :: "seg_reg \<Rightarrow> Bit16u \<Rightarrow> bx_segment_reg \<Rightarrow> cpu \<Rightarrow> bx_segment_reg" where
  "real_segment sg new_value r s =
     (let r1 = r\<lparr>sel_value := new_value, sel_rpl := (if real_mode s then 0 else 3), seg_valid := 1,
            seg_base := push_bit 4 (ucast new_value), seg_segment := True, seg_p := True,
            seg_executable := (sg = CS)\<rparr> in
      if real_mode s then r1
      else r1\<lparr>seg_dpl := 3, seg_c_ed := False, seg_r_w := True, seg_a := True, seg_limit := 0xffff,
              seg_limit_scaled := 0xffff, seg_g := False, seg_d_b := False, seg_avl := False\<rparr>)"

definition load_seg_reg :: "seg_reg \<Rightarrow> Bit16u \<Rightarrow> unit bx" where
  "load_seg_reg sg new_value = (\<lambda>s.
     if protected_mode s then
       (if sg = SS then load_SS_protected new_value s
        else if sg \<noteq> CS then load_data_protected sg new_value s
        else panic ''load_seg_reg(): invalid segment register passed!'' s)
     else
       (let s1 = set_sreg sg (real_segment sg new_value (sregs s sg) s) s in
        Done () (if sg = CS then invalidate_prefetch_q s1 else s1)))"

definition invalidate_lower :: "seg_reg \<Rightarrow> nat \<Rightarrow> cpu \<Rightarrow> cpu" where
  "invalidate_lower sg cs_dpl s =
     (if seg_dpl (sregs s sg) < cs_dpl
      then set_sreg sg ((sregs s sg)\<lparr>seg_valid := 0, sel_value := 0\<rparr>) s else s)"

definition validate_seg_regs :: "cpu \<Rightarrow> cpu" where
  "validate_seg_regs s =
     (let cs_dpl = seg_dpl (sregs s CS) in
      invalidate_lower GS cs_dpl (invalidate_lower FS cs_dpl
        (invalidate_lower DS cs_dpl (invalidate_lower ES cs_dpl s))))"

definition load_ss :: "bx_selector_t \<Rightarrow> bx_descriptor_t \<Rightarrow> nat \<Rightarrow> unit bx" where
  "load_ss selector descriptor cpl =
     and_then (update (set_sreg SS ((loaded_segment selector descriptor)
       \<lparr>seg_valid := d_valid descriptor, sel_rpl := cpl\<rparr>))) (\<lambda>_ s.
       if sel_value (sregs s SS) AND 0xfffc = 0 then panic ''load_ss(): null selector passed'' s
       else if seg_valid (sregs s SS) = 0 then panic ''load_ss(): invalid selector/descriptor passed.'' s
       else ret () s)"

text \<open>\<open>None\<close> is the null pointer that the callers pass with a null selector.\<close>

definition load_ldtr :: "bx_selector_t \<Rightarrow> bx_descriptor_t option \<Rightarrow> unit bx" where
  "load_ldtr selector descriptor =
     (if sl_value selector AND 0xfffc = 0 then
        update (\<lambda>s. s\<lparr>sys := (sys s)\<lparr>ldtr := (ldtr (sys s))\<lparr>sys_value := sl_value selector,
          sys_index := sl_index selector, sys_ti := sl_ti selector, sys_rpl := sl_rpl selector,
          sys_valid := 0\<rparr>\<rparr>\<rparr>)
      else case descriptor of
        None \<Rightarrow> panic ''load_ldtr(): descriptor == NULL !''
      | Some d \<Rightarrow>
        (let r = \<lparr>sys_value = sl_value selector, sys_index = sl_index selector, sys_ti = sl_ti selector,
               sys_rpl = sl_rpl selector, sys_valid = d_valid d, sys_p = d_p d, sys_dpl = d_dpl d,
               sys_segment = d_segment d, sys_type = d_type d, sys_base = ldt_base (d_u d),
               sys_limit = ucast (ldt_limit (d_u d))\<rparr> in
         and_then (update (\<lambda>s. s\<lparr>sys := (sys s)\<lparr>ldtr := r\<rparr>\<rparr>)) (\<lambda>_.
           if ldt_limit (d_u d) < 7 then panic ''load_ldtr(): ldtr.limit < 7''
           else update (\<lambda>s. s\<lparr>sys := (sys s)\<lparr>ldtr := r\<lparr>sys_valid := 1\<rparr>\<rparr>\<rparr>))))"

section \<open>Code segments and branches\<close>

definition check_cs :: "bx_descriptor_t \<Rightarrow> Bit16u \<Rightarrow> nat \<Rightarrow> nat \<Rightarrow> unit bx" where
  "check_cs descriptor cs_raw check_rpl check_cpl =
     (let ec = error_code cs_raw; u = u_segment (d_u descriptor) in
      if d_valid descriptor = 0 \<or> \<not> d_segment descriptor \<or> \<not> sd_executable u then raise BX_GP_EXCEPTION ec
      else if \<not> sd_c_ed u \<and> d_dpl descriptor \<noteq> check_cpl then raise BX_GP_EXCEPTION ec
      else if \<not> sd_c_ed u \<and> check_rpl > check_cpl then raise BX_GP_EXCEPTION ec
      else if sd_c_ed u \<and> d_dpl descriptor > check_cpl then raise BX_GP_EXCEPTION ec
      else if \<not> d_p descriptor then raise BX_NP_EXCEPTION ec
      else ret ())"

definition load_cs :: "bx_selector_t \<Rightarrow> bx_descriptor_t \<Rightarrow> nat \<Rightarrow> cpu \<Rightarrow> cpu" where
  "load_cs selector descriptor cpl s =
     invalidate_prefetch_q (set_sreg CS ((loaded_segment selector descriptor)
       \<lparr>sel_rpl := cpl, sel_value := (0xfffc AND sl_value selector) OR word_of_nat cpl\<rparr>) s)"

definition branch_near32 :: "Bit32u \<Rightarrow> unit bx" where
  "branch_near32 new_EIP = (\<lambda>s.
     if new_EIP > seg_limit_scaled (sregs s CS) then raise BX_GP_EXCEPTION 0 s
     else Done () (s\<lparr>eip := new_EIP\<rparr>))"

definition branch_far32 :: "bx_selector_t \<Rightarrow> bx_descriptor_t \<Rightarrow> Bit32u \<Rightarrow> nat \<Rightarrow> unit bx" where
  "branch_far32 selector descriptor new_eip cpl =
     (if new_eip > sd_limit_scaled (u_segment (d_u descriptor)) then raise BX_GP_EXCEPTION 0
      else update (\<lambda>s. (load_cs selector descriptor cpl s)\<lparr>eip := new_eip\<rparr>))"

definition branch_far64 :: "bx_selector_t \<Rightarrow> bx_descriptor_t \<Rightarrow> Bit32u \<Rightarrow> nat \<Rightarrow> unit bx" where
  "branch_far64 selector descriptor rip cpl =
     (if rip > sd_limit_scaled (u_segment (d_u descriptor)) then raise BX_GP_EXCEPTION 0
      else update (\<lambda>s. (load_cs selector descriptor cpl s)\<lparr>eip := rip\<rparr>))"

end
