(* ===== verification/BxStack.thy ===== *)
theory BxStack
  imports BxOperands BxSegment
begin

text \<open>
  The stack (\<open>cpu/stack_pro.cc\<close>, \<open>cpu/stack16.cc\<close>,
  \<open>cpu/stack32.cc\<close>) and the EFLAGS instructions that use it
  (\<open>cpu/flag_ctrl.cc\<close>). The B bit of SS (\<open>d_b\<close>) selects ESP or SP. The
  pointer moves after the memory access, so an access that faults leaves it.
\<close>

section \<open>Push and pop\<close>

abbreviation ss32 :: "cpu \<Rightarrow> bool" where "ss32 s \<equiv> seg_d_b (sregs s SS)"

text \<open>\<open>ESP += n\<close> or \<open>SP += n\<close>.\<close>

definition add_eSP :: "Bit32u \<Rightarrow> cpu \<Rightarrow> cpu" where
  "add_eSP n s =
     (if ss32 s then BX_WRITE_32BIT_REG 4 (ESP s + n) s else BX_WRITE_16BIT_REG 4 (SP s + ucast n) s)"

definition push_16 :: "Bit16u \<Rightarrow> unit bx" where
  "push_16 value16 = (\<lambda>s.
     if ss32 s then
       and_then (write_virtual_word SS (ESP s - 2) value16) (\<lambda>_.
       update (\<lambda>s. BX_WRITE_32BIT_REG 4 (ESP s - 2) s)) s
     else
       and_then (write_virtual_word SS (ucast (SP s - 2)) value16) (\<lambda>_.
       update (\<lambda>s. BX_WRITE_16BIT_REG 4 (SP s - 2) s)) s)"

definition push_32 :: "Bit32u \<Rightarrow> unit bx" where
  "push_32 value32 = (\<lambda>s.
     if ss32 s then
       and_then (write_virtual_dword SS (ESP s - 4) value32) (\<lambda>_.
       update (\<lambda>s. BX_WRITE_32BIT_REG 4 (ESP s - 4) s)) s
     else
       and_then (write_virtual_dword SS (ucast (SP s - 4)) value32) (\<lambda>_.
       update (\<lambda>s. BX_WRITE_16BIT_REG 4 (SP s - 4) s)) s)"

definition push_64 :: "Bit64u \<Rightarrow> unit bx" where
  "push_64 value64 = (\<lambda>s.
     if ss32 s then
       and_then (write_virtual_qword SS (ESP s - 8) value64) (\<lambda>_.
       update (\<lambda>s. BX_WRITE_32BIT_REG 4 (ESP s - 8) s)) s
     else
       and_then (write_virtual_qword SS (ucast (SP s - 8)) value64) (\<lambda>_.
       update (\<lambda>s. BX_WRITE_16BIT_REG 4 (SP s - 8) s)) s)"

definition temp_RSP :: "cpu \<Rightarrow> Bit32u" where
  "temp_RSP s = (if ss32 s then ESP s else ucast (SP s))"

definition pop_16 :: "Bit16u bx" where
  "pop_16 = and_then (gets temp_RSP) (\<lambda>a.
     and_then (read_virtual_word SS a) (\<lambda>v. and_then (update (add_eSP 2)) (\<lambda>_. ret v)))"

definition pop_32 :: "Bit32u bx" where
  "pop_32 = and_then (gets temp_RSP) (\<lambda>a.
     and_then (read_virtual_dword SS a) (\<lambda>v. and_then (update (add_eSP 4)) (\<lambda>_. ret v)))"

definition pop_64 :: "Bit64u bx" where
  "pop_64 = and_then (gets temp_RSP) (\<lambda>a.
     and_then (read_virtual_qword SS a) (\<lambda>v. and_then (update (add_eSP 8)) (\<lambda>_. ret v)))"

section \<open>Room on the stack\<close>

definition can_push :: "bx_segment_reg \<Rightarrow> Bit32u \<Rightarrow> Bit32u \<Rightarrow> bool bx" where
  "can_push descriptor esp0 bytes =
     (let esp = (if \<not> seg_d_b descriptor then esp0 AND 0x0000ffff else esp0);
          limit_scaled = seg_limit_scaled descriptor in
      if seg_valid descriptor = 0 then panic ''can_push(): SS invalidated.''
      else if \<not> seg_p descriptor then panic ''can_push(): descriptor not present''
      else if seg_c_ed descriptor then
        (let expand_down_limit = (if seg_d_b descriptor then 0xffffffff else 0x0000ffff) in
         if esp = 0 then panic ''can_push(): esp=0, wraparound?''
         else if esp < bytes then panic ''can_push(): expand-down: esp < N''
         else if esp - bytes \<le> limit_scaled then panic ''can_push(): expand-down: esp-N < limit''
         else if esp > expand_down_limit then panic ''can_push(): esp > expand-down-limit''
         else ret True)
      else if limit_scaled = 0 then panic ''can_push(): found limit of 0''
      else if esp = 0 then
        (if seg_d_b descriptor \<and> limit_scaled = 0xffffffff then ret True
         else if \<not> seg_d_b descriptor \<and> limit_scaled \<ge> 0xffff then ret True
         else ret False)
      else
        (let esp' = (if \<not> seg_d_b descriptor then ((esp - bytes) AND 0xffff) + bytes else esp) in
         if esp' < bytes then ret False
         else if esp' - 1 > limit_scaled then ret False
         else ret True))"

definition can_pop :: "Bit32u \<Rightarrow> bool bx" where
  "can_pop bytes = (\<lambda>s.
     (let ss = sregs s SS; temp_ESP = temp_RSP s;
          expand_down_limit = (if ss32 s then 0xFFFFFFFF else 0xFFFF) in
      if seg_valid ss = 0 then panic ''can_pop(): SS invalidated.'' s
      else if \<not> seg_p ss then panic ''can_pop(): SS.p = 0'' s
      else if seg_c_ed ss then
        (if temp_ESP = expand_down_limit then panic ''can_pop(): found SP=ffff'' s
         else ret ((expand_down_limit - temp_ESP) + 1 \<ge> bytes) s)
      else if seg_limit_scaled ss = 0 then panic ''can_pop(): SS.limit = 0'' s
      else if temp_ESP = expand_down_limit then panic ''can_pop(): found SP=ffff'' s
      else if temp_ESP > seg_limit_scaled ss then panic ''can_pop(): eSP > SS.limit'' s
      else ret ((seg_limit_scaled ss - temp_ESP) + 1 \<ge> bytes) s))"

definition decrementESPForPush :: "Bit32u \<Rightarrow> Bit32u bx" where
  "decrementESPForPush nBytes = (\<lambda>s.
     (let eSP = temp_RSP s in
      and_then (if protected_mode s then
          and_then (can_push (sregs s SS) eSP nBytes) (\<lambda>ok. if ok then ret () else raise BX_SS_EXCEPTION 0)
        else if eSP \<ge> 1 \<and> eSP < nBytes then panic ''decrementESPForPush: eSP''
        else ret ()) (\<lambda>_.
      and_then (update (add_eSP (- nBytes))) (\<lambda>_. gets temp_RSP)) s))"

section \<open>16-bit operands\<close>

definition PUSH_RX :: "bxInstruction \<Rightarrow> unit bx" where
  "PUSH_RX i = and_then (gets (BX_READ_16BIT_REG (opcodeReg i))) push_16"

definition push_16_sreg :: "seg_reg \<Rightarrow> unit bx" where
  "push_16_sreg sg = and_then (gets (\<lambda>s. sel_value (sregs s sg))) push_16"

definition PUSH16_CS :: "bxInstruction \<Rightarrow> unit bx" where "PUSH16_CS i = push_16_sreg CS"
definition PUSH16_DS :: "bxInstruction \<Rightarrow> unit bx" where "PUSH16_DS i = push_16_sreg DS"
definition PUSH16_ES :: "bxInstruction \<Rightarrow> unit bx" where "PUSH16_ES i = push_16_sreg ES"
definition PUSH16_FS :: "bxInstruction \<Rightarrow> unit bx" where "PUSH16_FS i = push_16_sreg FS"
definition PUSH16_GS :: "bxInstruction \<Rightarrow> unit bx" where "PUSH16_GS i = push_16_sreg GS"
definition PUSH16_SS :: "bxInstruction \<Rightarrow> unit bx" where "PUSH16_SS i = push_16_sreg SS"

definition pop_16_sreg :: "seg_reg \<Rightarrow> unit bx" where
  "pop_16_sreg sg = and_then pop_16 (load_seg_reg sg)"

definition POP16_DS :: "bxInstruction \<Rightarrow> unit bx" where "POP16_DS i = pop_16_sreg DS"
definition POP16_ES :: "bxInstruction \<Rightarrow> unit bx" where "POP16_ES i = pop_16_sreg ES"
definition POP16_FS :: "bxInstruction \<Rightarrow> unit bx" where "POP16_FS i = pop_16_sreg FS"
definition POP16_GS :: "bxInstruction \<Rightarrow> unit bx" where "POP16_GS i = pop_16_sreg GS"

text \<open>After POP SS and MOV SS interrupts wait for the end of the next instruction.\<close>

definition BX_INHIBIT_DEBUG :: Bit32u where "BX_INHIBIT_DEBUG = 0x02"

definition inhibit_after_SS :: "cpu \<Rightarrow> cpu" where
  "inhibit_after_SS s = s\<lparr>inhibit_mask := inhibit_mask s OR (BX_INHIBIT_INTERRUPTS OR BX_INHIBIT_DEBUG),
     async_event := 1\<rparr>"

definition POP16_SS :: "bxInstruction \<Rightarrow> unit bx" where
  "POP16_SS i = and_then (pop_16_sreg SS) (\<lambda>_. update inhibit_after_SS)"

definition POP_RX :: "bxInstruction \<Rightarrow> unit bx" where
  "POP_RX i = and_then pop_16 (\<lambda>rx. update (BX_WRITE_16BIT_REG (opcodeReg i) rx))"

text \<open>An address that uses ESP is computed again with the value after the pop.\<close>

definition resolve_after_pop :: "bxInstruction \<Rightarrow> unit bx" where
  "resolve_after_pop i = (if as32L i \<and> \<not> modC0 i \<and> rm i = 4 \<and> sibBase i = 4 then resolve i else ret ())"

definition POP_Ew :: "bxInstruction \<Rightarrow> unit bx" where
  "POP_Ew i = and_then pop_16 (\<lambda>val16.
     if modC0 i then update (BX_WRITE_16BIT_REG (rm i) val16)
     else
       and_then (resolve_after_pop i) (\<lambda>_.
       and_then (gets rm_addr) (\<lambda>a. write_virtual_word (i_seg i) a val16)))"

text \<open>\<open>PUSHA\<close> needs room for all eight registers before the first push.\<close>

definition pusha_room :: "Bit32u \<Rightarrow> string \<Rightarrow> unit bx" where
  "pusha_room bytes msg = (\<lambda>s.
     (let temp_ESP = temp_RSP s in
      if protected_mode s then
        and_then (can_push (sregs s SS) temp_ESP bytes) (\<lambda>ok. if ok then ret () else raise BX_SS_EXCEPTION 0) s
      else if temp_ESP < bytes then panic msg s
      else ret () s))"

definition popa_room :: "Bit32u \<Rightarrow> unit bx" where
  "popa_room bytes = (\<lambda>s.
     if protected_mode s then
       and_then (can_pop bytes) (\<lambda>ok. if ok then ret () else raise BX_SS_EXCEPTION 0) s
     else ret () s)"

definition PUSHAD16 :: "bxInstruction \<Rightarrow> unit bx" where
  "PUSHAD16 i =
     and_then (pusha_room 16 ''PUSHAD: eSP < 16'') (\<lambda>_.
     and_then (gets SP) (\<lambda>sp.
     and_then (and_then (gets AX) push_16) (\<lambda>_.
     and_then (and_then (gets CX) push_16) (\<lambda>_.
     and_then (and_then (gets DX) push_16) (\<lambda>_.
     and_then (and_then (gets BX) push_16) (\<lambda>_.
     and_then (push_16 sp) (\<lambda>_.
     and_then (and_then (gets BP) push_16) (\<lambda>_.
     and_then (and_then (gets SI) push_16) (\<lambda>_.
     and_then (gets DI) push_16)))))))))"

definition POPAD16 :: "bxInstruction \<Rightarrow> unit bx" where
  "POPAD16 i =
     and_then (popa_room 16) (\<lambda>_.
     and_then pop_16 (\<lambda>di. and_then pop_16 (\<lambda>si. and_then pop_16 (\<lambda>bp. and_then pop_16 (\<lambda>_.
     and_then pop_16 (\<lambda>bx. and_then pop_16 (\<lambda>dx. and_then pop_16 (\<lambda>cx. and_then pop_16 (\<lambda>ax.
     update (BX_WRITE_16BIT_REG 0 ax \<circ> BX_WRITE_16BIT_REG 1 cx \<circ> BX_WRITE_16BIT_REG 2 dx \<circ>
             BX_WRITE_16BIT_REG 3 bx \<circ> BX_WRITE_16BIT_REG 5 bp \<circ> BX_WRITE_16BIT_REG 6 si \<circ>
             BX_WRITE_16BIT_REG 7 di))))))))))"

definition PUSH_Iw :: "bxInstruction \<Rightarrow> unit bx" where
  "PUSH_Iw i = push_16 (i_Iw i)"

definition PUSH_Ew :: "bxInstruction \<Rightarrow> unit bx" where
  "PUSH_Ew i = and_then (load_Ew i) push_16"

section \<open>32-bit operands\<close>

definition POP_Ed :: "bxInstruction \<Rightarrow> unit bx" where
  "POP_Ed i = and_then pop_32 (\<lambda>val32.
     if modC0 i then update (BX_WRITE_32BIT_REG (rm i) val32)
     else
       and_then (resolve_after_pop i) (\<lambda>_.
       and_then (gets rm_addr) (\<lambda>a. write_virtual_dword (i_seg i) a val32)))"

definition PUSH_ERX :: "bxInstruction \<Rightarrow> unit bx" where
  "PUSH_ERX i = and_then (gets (BX_READ_32BIT_REG (opcodeReg i))) push_32"

definition POP_ERX :: "bxInstruction \<Rightarrow> unit bx" where
  "POP_ERX i = and_then pop_32 (\<lambda>erx. update (BX_WRITE_32BIT_REG (opcodeReg i) erx))"

text \<open>A selector is written as a word at the lower end of its four bytes.\<close>

definition push_32_sreg :: "seg_reg \<Rightarrow> unit bx" where
  "push_32_sreg sg = and_then (decrementESPForPush 4) (\<lambda>eSP s.
     write_virtual_word SS eSP (sel_value (sregs s sg)) s)"

definition PUSH32_CS :: "bxInstruction \<Rightarrow> unit bx" where "PUSH32_CS i = push_32_sreg CS"
definition PUSH32_DS :: "bxInstruction \<Rightarrow> unit bx" where "PUSH32_DS i = push_32_sreg DS"
definition PUSH32_ES :: "bxInstruction \<Rightarrow> unit bx" where "PUSH32_ES i = push_32_sreg ES"
definition PUSH32_FS :: "bxInstruction \<Rightarrow> unit bx" where "PUSH32_FS i = push_32_sreg FS"
definition PUSH32_GS :: "bxInstruction \<Rightarrow> unit bx" where "PUSH32_GS i = push_32_sreg GS"
definition PUSH32_SS :: "bxInstruction \<Rightarrow> unit bx" where "PUSH32_SS i = push_32_sreg SS"

definition pop_32_sreg :: "seg_reg \<Rightarrow> unit bx" where
  "pop_32_sreg sg = and_then pop_32 (\<lambda>v. load_seg_reg sg (ucast v))"

definition POP32_DS :: "bxInstruction \<Rightarrow> unit bx" where "POP32_DS i = pop_32_sreg DS"
definition POP32_ES :: "bxInstruction \<Rightarrow> unit bx" where "POP32_ES i = pop_32_sreg ES"
definition POP32_FS :: "bxInstruction \<Rightarrow> unit bx" where "POP32_FS i = pop_32_sreg FS"
definition POP32_GS :: "bxInstruction \<Rightarrow> unit bx" where "POP32_GS i = pop_32_sreg GS"

definition POP32_SS :: "bxInstruction \<Rightarrow> unit bx" where
  "POP32_SS i = and_then (pop_32_sreg SS) (\<lambda>_. update inhibit_after_SS)"

definition PUSHAD32 :: "bxInstruction \<Rightarrow> unit bx" where
  "PUSHAD32 i =
     and_then (pusha_room 32 ''pushad: eSP < 32'') (\<lambda>_.
     and_then (gets ESP) (\<lambda>esp.
     and_then (and_then (gets EAX) push_32) (\<lambda>_.
     and_then (and_then (gets ECX) push_32) (\<lambda>_.
     and_then (and_then (gets EDX) push_32) (\<lambda>_.
     and_then (and_then (gets EBX) push_32) (\<lambda>_.
     and_then (push_32 esp) (\<lambda>_.
     and_then (and_then (gets EBP) push_32) (\<lambda>_.
     and_then (and_then (gets ESI) push_32) (\<lambda>_.
     and_then (gets EDI) push_32)))))))))"

definition POPAD32 :: "bxInstruction \<Rightarrow> unit bx" where
  "POPAD32 i =
     and_then (popa_room 32) (\<lambda>_.
     and_then pop_32 (\<lambda>edi. and_then pop_32 (\<lambda>esi. and_then pop_32 (\<lambda>ebp. and_then pop_32 (\<lambda>_.
     and_then pop_32 (\<lambda>ebx. and_then pop_32 (\<lambda>edx. and_then pop_32 (\<lambda>ecx. and_then pop_32 (\<lambda>eax.
     update (BX_WRITE_32BIT_REG 0 eax \<circ> BX_WRITE_32BIT_REG 1 ecx \<circ> BX_WRITE_32BIT_REG 2 edx \<circ>
             BX_WRITE_32BIT_REG 3 ebx \<circ> BX_WRITE_32BIT_REG 5 ebp \<circ> BX_WRITE_32BIT_REG 6 esi \<circ>
             BX_WRITE_32BIT_REG 7 edi))))))))))"

definition PUSH_Id :: "bxInstruction \<Rightarrow> unit bx" where
  "PUSH_Id i = push_32 (i_Id i)"

definition PUSH_Ed :: "bxInstruction \<Rightarrow> unit bx" where
  "PUSH_Ed i = and_then (load_Ed i) push_32"

section \<open>Stack frames\<close>

text \<open>The loop \<open>while (--level)\<close>, with the number of rounds that are left.\<close>

primrec enter_loop :: "bool \<Rightarrow> bool \<Rightarrow> nat \<Rightarrow> Bit32u \<Rightarrow> unit bx" where
  "enter_loop os32 big 0 ebp = ret ()"
| "enter_loop os32 big (Suc n) ebp =
     (if os32 then
        (let ebp' = (if big then ebp - 4 else (ebp - 4) AND 0xffff) in
         and_then (read_virtual_dword SS ebp') (\<lambda>temp32.
         and_then (push_32 temp32) (\<lambda>_. enter_loop os32 big n ebp')))
      else
        (let ebp' = (if big then ebp - 2 else (ebp - 2) AND 0xffff) in
         and_then (read_virtual_word SS ebp') (\<lambda>temp16.
         and_then (push_16 temp16) (\<lambda>_. enter_loop os32 big n ebp'))))"

definition ENTER_IwIb :: "bxInstruction \<Rightarrow> unit bx" where
  "ENTER_IwIb i = (\<lambda>s.
     (let big = ss32 s; imm16 = i_Iw i; level = unat (i_Ib2 i AND 0x1F) in
      and_then (if os32L i then and_then (gets EBP) push_32 else and_then (gets BP) push_16) (\<lambda>_.
      and_then (gets ESP) (\<lambda>frame_ptr32.
      and_then (gets (\<lambda>s. if big then EBP s else ucast (BP s))) (\<lambda>ebp.
      and_then (if level > 0 then
          and_then (enter_loop (os32L i) big (level - 1) ebp) (\<lambda>_.
          if os32L i then push_32 frame_ptr32 else push_16 (ucast frame_ptr32))
        else ret ()) (\<lambda>_.
      if big then
        update ((\<lambda>s. BX_WRITE_32BIT_REG 4 (ESP s - ucast imm16) s) \<circ> BX_WRITE_32BIT_REG 5 frame_ptr32)
      else
        update ((\<lambda>s. BX_WRITE_16BIT_REG 4 (SP s - imm16) s) \<circ> BX_WRITE_16BIT_REG 5 (ucast frame_ptr32)))))) s))"

definition LEAVE :: "bxInstruction \<Rightarrow> unit bx" where
  "LEAVE i = (\<lambda>s.
     (let temp_EBP = (if ss32 s then EBP s else ucast (BP s)); ss = sregs s SS in
      if protected_mode s \<and>
         (if seg_c_ed ss then temp_EBP \<le> seg_limit_scaled ss else temp_EBP > seg_limit_scaled ss)
      then panic ''LEAVE: BP > BX_CPU_THIS_PTR sregs[BX_SEG_REG_SS].limit'' s
      else
        and_then (update (\<lambda>s. if ss32 s then BX_WRITE_32BIT_REG 4 (EBP s) s
                               else BX_WRITE_16BIT_REG 4 (BP s) s)) (\<lambda>_.
        if os32L i then and_then pop_32 (\<lambda>temp32. update (BX_WRITE_32BIT_REG 5 temp32))
        else and_then pop_16 (\<lambda>temp16. update (BX_WRITE_16BIT_REG 5 temp16))) s))"

section \<open>EFLAGS on the stack\<close>

definition EFlagsOSZAPCMask :: Bit32u where "EFlagsOSZAPCMask = 0x8d5"
definition EFlagsDFMask :: Bit32u where "EFlagsDFMask = push_bit 10 1"
definition EFlagsRFMask :: Bit32u where "EFlagsRFMask = push_bit 16 1"

definition PUSHF_Fw :: "bxInstruction \<Rightarrow> unit bx" where
  "PUSHF_Fw i = and_then read_flags (\<lambda>flags s.
     if v8086_mode s \<and> get_IOPL s < 3 then raise BX_GP_EXCEPTION 0 s else push_16 flags s)"

definition POPF_Fw :: "bxInstruction \<Rightarrow> unit bx" where
  "POPF_Fw i = (\<lambda>s.
     (let changeMask = EFlagsOSZAPCMask OR EFlagsTFMask OR EFlagsDFMask OR EFlagsNTMask in
      if protected_mode s then
        and_then pop_16 (\<lambda>flags16 t.
          (let m1 = (if CPL t = 0 then changeMask OR EFlagsIOPLMask else changeMask);
               m2 = (if CPL t \<le> get_IOPL t then m1 OR EFlagsIFMask else m1) in
           update (writeEFlags (ucast flags16) m2) t)) s
      else if v8086_mode s then
        (if get_IOPL s < 3 then raise BX_GP_EXCEPTION 0 s
         else and_then pop_16 (\<lambda>flags16.
                update (writeEFlags (ucast flags16) (changeMask OR EFlagsIFMask))) s)
      else and_then pop_16 (\<lambda>flags16.
             update (writeEFlags (ucast flags16) (changeMask OR (EFlagsIOPLMask OR EFlagsIFMask)))) s))"

definition PUSHF_Fd :: "bxInstruction \<Rightarrow> unit bx" where
  "PUSHF_Fd i = (\<lambda>s.
     if v8086_mode s \<and> get_IOPL s < 3 then raise BX_GP_EXCEPTION 0 s
     else and_then read_eflags (\<lambda>flags. push_32 (flags AND 0x00fcffff)) s)"

definition POPF_Fd :: "bxInstruction \<Rightarrow> unit bx" where
  "POPF_Fd i = (\<lambda>s.
     (let changeMask = EFlagsOSZAPCMask OR EFlagsTFMask OR EFlagsDFMask OR EFlagsNTMask OR
            EFlagsRFMask OR (EFlagsIDMask OR EFlagsACMask) in
      if protected_mode s then
        and_then pop_32 (\<lambda>flags32 t.
          (let m1 = (if CPL t = 0 then changeMask OR EFlagsIOPLMask else changeMask);
               m2 = (if CPL t \<le> get_IOPL t then m1 OR EFlagsIFMask else m1) in
           update (writeEFlags flags32 m2) t)) s
      else if v8086_mode s then
        (if get_IOPL s < 3 then raise BX_GP_EXCEPTION 0 s
         else and_then pop_32 (\<lambda>flags32.
                update (writeEFlags flags32 (changeMask OR EFlagsIFMask))) s)
      else and_then pop_32 (\<lambda>flags32.
             update (writeEFlags flags32 (changeMask OR (EFlagsIOPLMask OR EFlagsIFMask)))) s))"

end
