(* ===== verification/BxJump.thy ===== *)
theory BxJump
  imports BxStack BxBit
begin

text \<open>
  Near control transfer (\<open>cpu/ctrl_xfer8.cc\<close>, \<open>cpu/ctrl_xfer16.cc\<close>,
  \<open>cpu/ctrl_xfer32.cc\<close>): jumps, conditional jumps, loops, calls and returns inside the
  code segment. The target is checked against the limit of CS before EIP, the stack or the loop
  counter changes. \<open>revalidate_prefetch_q\<close> does nothing.
\<close>

section \<open>Conditional jumps\<close>

definition cond_JNLE :: "bool bx" where
  "cond_JNLE = and_then cond_L (\<lambda>l. if l then ret False else cond_not (get_flag ZF))"

text \<open>The switch of \<open>JCC_Jd\<close> and \<open>JCC_Jw\<close> over \<open>b1 & 0x0f\<close>.\<close>

definition jcc_condition :: "nat \<Rightarrow> bool bx" where
  "jcc_condition b1 =
     [cond_O, cond_not cond_O, cond_B, cond_not cond_B, cond_Z, cond_not cond_Z, cond_BE, cond_NBE,
      cond_S, cond_not cond_S, cond_P, cond_not cond_P, cond_L, cond_not cond_L, cond_LE, cond_JNLE]
       ! (b1 mod 16)"

definition jump_32 :: "bxInstruction \<Rightarrow> unit bx" where
  "jump_32 i = and_then (gets (\<lambda>s. eip s + i_Id i)) branch_near32"

definition jump_16 :: "bxInstruction \<Rightarrow> unit bx" where
  "jump_16 i = and_then (gets (\<lambda>s. (eip s + i_Id i) AND 0x0000ffff)) branch_near32"

definition JMP_Jd :: "bxInstruction \<Rightarrow> unit bx" where
  "JMP_Jd i = jump_32 i"

definition JCC_Jd :: "bxInstruction \<Rightarrow> unit bx" where
  "JCC_Jd i = and_then (jcc_condition (i_b1 i)) (\<lambda>condition. if condition then jump_32 i else ret ())"

definition JZ_Jd :: "bxInstruction \<Rightarrow> unit bx" where
  "JZ_Jd i = and_then (get_flag ZF) (\<lambda>z. if z then jump_32 i else ret ())"

definition JNZ_Jd :: "bxInstruction \<Rightarrow> unit bx" where
  "JNZ_Jd i = and_then (get_flag ZF) (\<lambda>z. if \<not> z then jump_32 i else ret ())"

definition JMP_Ed :: "bxInstruction \<Rightarrow> unit bx" where
  "JMP_Ed i = and_then (load_Ed i) branch_near32"

definition JMP_Jw :: "bxInstruction \<Rightarrow> unit bx" where
  "JMP_Jw i = jump_16 i"

definition JCC_Jw :: "bxInstruction \<Rightarrow> unit bx" where
  "JCC_Jw i = and_then (jcc_condition (i_b1 i)) (\<lambda>condition. if condition then jump_16 i else ret ())"

definition JZ_Jw :: "bxInstruction \<Rightarrow> unit bx" where
  "JZ_Jw i = and_then (get_flag ZF) (\<lambda>z. if z then jump_16 i else ret ())"

definition JNZ_Jw :: "bxInstruction \<Rightarrow> unit bx" where
  "JNZ_Jw i = and_then (get_flag ZF) (\<lambda>z. if \<not> z then jump_16 i else ret ())"

definition JMP_Ew :: "bxInstruction \<Rightarrow> unit bx" where
  "JMP_Ew i = and_then (load_Ew i) (\<lambda>op1. branch_near32 (ucast op1))"

section \<open>Loops\<close>

text \<open>The branch of the loop instructions, for both operand sizes.\<close>

definition jump_os :: "bxInstruction \<Rightarrow> unit bx" where
  "jump_os i = (if os32L i then jump_32 i else jump_16 i)"

definition loop_counter :: "bxInstruction \<Rightarrow> cpu \<Rightarrow> Bit32u" where
  "loop_counter i s = (if as32L i then ECX s else ucast (CX s))"

definition decrement_counter :: "bxInstruction \<Rightarrow> cpu \<Rightarrow> cpu" where
  "decrement_counter i s =
     (if as32L i then BX_WRITE_32BIT_REG 1 (ECX s - 1) s else BX_WRITE_16BIT_REG 1 (CX s - 1) s)"

definition JCXZ_Jb :: "bxInstruction \<Rightarrow> unit bx" where
  "JCXZ_Jb i = and_then (gets (loop_counter i)) (\<lambda>temp_ECX. if temp_ECX = 0 then jump_os i else ret ())"

definition LOOPNE_Jb :: "bxInstruction \<Rightarrow> unit bx" where
  "LOOPNE_Jb i =
     and_then (gets (\<lambda>s. loop_counter i s - 1)) (\<lambda>count.
     and_then (if count \<noteq> 0 then cond_not (get_flag ZF) else ret False) (\<lambda>again.
     and_then (if again then jump_os i else ret ()) (\<lambda>_.
     update (decrement_counter i))))"

definition LOOPE_Jb :: "bxInstruction \<Rightarrow> unit bx" where
  "LOOPE_Jb i =
     and_then (gets (\<lambda>s. loop_counter i s - 1)) (\<lambda>count.
     and_then (if count \<noteq> 0 then get_flag ZF else ret False) (\<lambda>again.
     and_then (if again then jump_os i else ret ()) (\<lambda>_.
     update (decrement_counter i))))"

definition LOOP_Jb :: "bxInstruction \<Rightarrow> unit bx" where
  "LOOP_Jb i =
     and_then (gets (\<lambda>s. loop_counter i s - 1)) (\<lambda>count.
     and_then (if count \<noteq> 0 then jump_os i else ret ()) (\<lambda>_.
     update (decrement_counter i)))"

section \<open>Near calls and returns\<close>

definition check_CS_limit :: "Bit32u \<Rightarrow> unit bx" where
  "check_CS_limit a = (\<lambda>s. if a > seg_limit_scaled (sregs s CS) then raise BX_GP_EXCEPTION 0 s else ret () s)"

definition set_EIP :: "Bit32u \<Rightarrow> unit bx" where
  "set_EIP a = update (\<lambda>s. s\<lparr>eip := a\<rparr>)"

definition CALL_Ad :: "bxInstruction \<Rightarrow> unit bx" where
  "CALL_Ad i =
     and_then (gets (\<lambda>s. eip s + i_Id i)) (\<lambda>new_EIP.
     and_then (check_CS_limit new_EIP) (\<lambda>_.
     and_then (and_then (gets eip) push_32) (\<lambda>_. set_EIP new_EIP)))"

definition CALL_Ed :: "bxInstruction \<Rightarrow> unit bx" where
  "CALL_Ed i =
     and_then (load_Ed i) (\<lambda>op1.
     and_then (check_CS_limit op1) (\<lambda>_.
     and_then (and_then (gets eip) push_32) (\<lambda>_. set_EIP op1)))"

definition CALL_Aw :: "bxInstruction \<Rightarrow> unit bx" where
  "CALL_Aw i =
     and_then (gets (\<lambda>s. (eip s + i_Id i) AND 0x0000ffff)) (\<lambda>new_EIP.
     and_then (check_CS_limit new_EIP) (\<lambda>_.
     and_then (and_then (gets (\<lambda>s. ucast (eip s))) push_16) (\<lambda>_. set_EIP new_EIP)))"

definition CALL_Ew :: "bxInstruction \<Rightarrow> unit bx" where
  "CALL_Ew i =
     and_then (load_Ew i) (\<lambda>op1.
     and_then (check_CS_limit (ucast op1)) (\<lambda>_.
     and_then (and_then (gets (\<lambda>s. ucast (eip s))) push_16) (\<lambda>_. set_EIP (ucast op1))))"

definition RETnear32 :: "bxInstruction \<Rightarrow> unit bx" where
  "RETnear32 i = and_then pop_32 branch_near32"

definition RETnear32_Iw :: "bxInstruction \<Rightarrow> unit bx" where
  "RETnear32_Iw i =
     and_then pop_32 (\<lambda>return_EIP.
     and_then (branch_near32 return_EIP) (\<lambda>_. update (add_eSP (ucast (i_Iw i)))))"

definition RETnear16 :: "bxInstruction \<Rightarrow> unit bx" where
  "RETnear16 i =
     and_then pop_16 (\<lambda>return_IP.
     and_then (check_CS_limit (ucast return_IP)) (\<lambda>_. set_EIP (ucast return_IP)))"

definition RETnear16_Iw :: "bxInstruction \<Rightarrow> unit bx" where
  "RETnear16_Iw i =
     and_then pop_16 (\<lambda>return_IP.
     and_then (check_CS_limit (ucast return_IP)) (\<lambda>_.
     and_then (set_EIP (ucast return_IP)) (\<lambda>_. update (add_eSP (ucast (i_Iw i))))))"

end
