(* ===== verification/BxData.thy ===== *)
theory BxData
  imports BxStack BxBit
begin

text \<open>
  Data transfer (\<open>cpu/data_xfer8.cc\<close>, \<open>cpu/data_xfer16.cc\<close>,
  \<open>cpu/data_xfer32.cc\<close>). \<open>UndefinedOpcode\<close> raises #UD.
\<close>

section \<open>8 bits\<close>

definition MOV_RLIb :: "bxInstruction \<Rightarrow> unit bx" where
  "MOV_RLIb i = update (BX_WRITE_8BIT_REG (opcodeReg i) (i_Ib i))"

definition MOV_RHIb :: "bxInstruction \<Rightarrow> unit bx" where
  "MOV_RHIb i = update (write_reg_rh (word_of_nat (i_b1 i mod 4)) (i_Ib i))"

definition MOV_EEbGb :: "bxInstruction \<Rightarrow> unit bx" where
  "MOV_EEbGb i = (\<lambda>s. write_virtual_byte (i_seg i) (rm_addr s) (BX_READ_8BIT_REG (nnn i) s) s)"

definition MOV_EGbGb :: "bxInstruction \<Rightarrow> unit bx" where
  "MOV_EGbGb i = and_then (gets (BX_READ_8BIT_REG (nnn i))) (\<lambda>op2. update (BX_WRITE_8BIT_REG (rm i) op2))"

definition MOV_GbEEb :: "bxInstruction \<Rightarrow> unit bx" where
  "MOV_GbEEb i = and_then (\<lambda>s. read_virtual_byte (i_seg i) (rm_addr s) s) (\<lambda>v. update (BX_WRITE_8BIT_REG (nnn i) v))"

definition MOV_GbEGb :: "bxInstruction \<Rightarrow> unit bx" where
  "MOV_GbEGb i = and_then (gets (BX_READ_8BIT_REG (rm i))) (\<lambda>op2. update (BX_WRITE_8BIT_REG (nnn i) op2))"

definition MOV_ALOb :: "bxInstruction \<Rightarrow> unit bx" where
  "MOV_ALOb i = and_then (read_virtual_byte (i_seg i) (i_Id i)) (\<lambda>v. update (write_reg_rl 0 v))"

definition MOV_ObAL :: "bxInstruction \<Rightarrow> unit bx" where
  "MOV_ObAL i = (\<lambda>s. write_virtual_byte (i_seg i) (i_Id i) (AL s) s)"

definition MOV_EbIb :: "bxInstruction \<Rightarrow> unit bx" where
  "MOV_EbIb i = store_Eb i (i_Ib i)"

text \<open>C promotes BX and AL to \<open>int\<close>, so the 16-bit sum keeps its carry.\<close>

definition XLAT :: "bxInstruction \<Rightarrow> unit bx" where
  "XLAT i =
     and_then (gets (\<lambda>s. if as32L i then EBX s + ucast (AL s) else ucast (BX s) + ucast (AL s))) (\<lambda>offset.
     and_then (read_virtual_byte (if \<not> null_seg i then i_seg i else DS) offset) (\<lambda>v.
     update (write_reg_rl 0 v)))"

definition XCHG_EbGb :: "bxInstruction \<Rightarrow> unit bx" where
  "XCHG_EbGb i =
     and_then (gets (BX_READ_8BIT_REG (nnn i))) (\<lambda>op2.
     and_then (rmw_Eb i (\<lambda>_. op2)) (\<lambda>op1.
     update (BX_WRITE_8BIT_REG (nnn i) op1)))"

section \<open>16 bits\<close>

definition MOV_RXIw :: "bxInstruction \<Rightarrow> unit bx" where
  "MOV_RXIw i = update (BX_WRITE_16BIT_REG (opcodeReg i) (i_Iw i))"

definition XCHG_RXAX :: "bxInstruction \<Rightarrow> unit bx" where
  "XCHG_RXAX i =
     and_then (gets AX) (\<lambda>temp16.
     and_then (update (\<lambda>s. BX_WRITE_16BIT_REG 0 (BX_READ_16BIT_REG (opcodeReg i) s) s)) (\<lambda>_.
     update (BX_WRITE_16BIT_REG (opcodeReg i) temp16)))"

definition MOV_EEwGw :: "bxInstruction \<Rightarrow> unit bx" where
  "MOV_EEwGw i = (\<lambda>s. write_virtual_word (i_seg i) (rm_addr s) (BX_READ_16BIT_REG (nnn i) s) s)"

definition MOV_EGwGw :: "bxInstruction \<Rightarrow> unit bx" where
  "MOV_EGwGw i = and_then (gets (BX_READ_16BIT_REG (nnn i))) (\<lambda>op2. update (BX_WRITE_16BIT_REG (rm i) op2))"

definition MOV_GwEGw :: "bxInstruction \<Rightarrow> unit bx" where
  "MOV_GwEGw i = and_then (gets (BX_READ_16BIT_REG (rm i))) (\<lambda>op2. update (BX_WRITE_16BIT_REG (nnn i) op2))"

definition MOV_GwEEw :: "bxInstruction \<Rightarrow> unit bx" where
  "MOV_GwEEw i = and_then (\<lambda>s. read_virtual_word (i_seg i) (rm_addr s) s) (\<lambda>v. update (BX_WRITE_16BIT_REG (nnn i) v))"

text \<open>The segment register a register number names; 6 and 7 name none.\<close>

definition sreg_of :: "3 word \<Rightarrow> seg_reg option" where
  "sreg_of r = (if r < 6 then Some ([ES, CS, SS, DS, FS, GS] ! unat r) else None)"

definition MOV_EwSw :: "bxInstruction \<Rightarrow> unit bx" where
  "MOV_EwSw i = (case sreg_of (nnn i) of
       None \<Rightarrow> raise BX_UD_EXCEPTION 0
     | Some sg \<Rightarrow>
         and_then (gets (\<lambda>s. sel_value (sregs s sg))) (\<lambda>v.
         if modC0 i then
           (if os32L i then update (BX_WRITE_32BIT_REG (rm i) (ucast v))
            else update (BX_WRITE_16BIT_REG (rm i) v))
         else and_then (gets rm_addr) (\<lambda>a. write_virtual_word (i_seg i) a v)))"

definition MOV_SwEw :: "bxInstruction \<Rightarrow> unit bx" where
  "MOV_SwEw i = (case sreg_of (nnn i) of
       None \<Rightarrow> raise BX_UD_EXCEPTION 0
     | Some sg \<Rightarrow>
         if sg = CS then raise BX_UD_EXCEPTION 0
         else
           and_then (load_Ew i) (\<lambda>op2.
           and_then (load_seg_reg sg op2) (\<lambda>_.
           if sg = SS then update inhibit_after_SS else ret ())))"

definition LEA_GwM :: "bxInstruction \<Rightarrow> unit bx" where
  "LEA_GwM i = (if modC0 i then raise BX_UD_EXCEPTION 0
     else update (\<lambda>s. BX_WRITE_16BIT_REG (nnn i) (ucast (rm_addr s)) s))"

definition MOV_AXOw :: "bxInstruction \<Rightarrow> unit bx" where
  "MOV_AXOw i = and_then (read_virtual_word (i_seg i) (i_Id i)) (\<lambda>v. update (BX_WRITE_16BIT_REG 0 v))"

definition MOV_OwAX :: "bxInstruction \<Rightarrow> unit bx" where
  "MOV_OwAX i = (\<lambda>s. write_virtual_word (i_seg i) (i_Id i) (AX s) s)"

definition MOV_EwIw :: "bxInstruction \<Rightarrow> unit bx" where
  "MOV_EwIw i = store_Ew i (i_Iw i)"

definition MOVZX_GwEb :: "bxInstruction \<Rightarrow> unit bx" where
  "MOVZX_GwEb i = and_then (load_Eb i) (\<lambda>op2. update (BX_WRITE_16BIT_REG (nnn i) (ucast op2)))"

definition MOVSX_GwEb :: "bxInstruction \<Rightarrow> unit bx" where
  "MOVSX_GwEb i = and_then (load_Eb i) (\<lambda>op2. update (BX_WRITE_16BIT_REG (nnn i) (scast op2)))"

definition XCHG_EwGw :: "bxInstruction \<Rightarrow> unit bx" where
  "XCHG_EwGw i =
     and_then (gets (BX_READ_16BIT_REG (nnn i))) (\<lambda>op2.
     and_then (rmw_Ew i (\<lambda>_. op2)) (\<lambda>op1.
     update (BX_WRITE_16BIT_REG (nnn i) op1)))"

text \<open>The switch of the two \<open>CMOV\<close> handlers.\<close>

definition cmov_condition :: "nat \<Rightarrow> bool bx" where
  "cmov_condition b1 =
     (if 0x140 \<le> b1 \<and> b1 \<le> 0x14f then
        [cond_O, cond_not cond_O, cond_B, cond_not cond_B, cond_Z, cond_not cond_Z, cond_BE, cond_NBE,
         cond_S, cond_not cond_S, cond_P, cond_not cond_P, cond_L, cond_not cond_L, cond_LE, cond_NLE]
          ! (b1 - 0x140)
      else panic ''CMOV: default case'')"

definition CMOV_GwEw :: "bxInstruction \<Rightarrow> unit bx" where
  "CMOV_GwEw i =
     and_then (cmov_condition (i_b1 i)) (\<lambda>condition.
     and_then (load_Ew i) (\<lambda>op2.
     if condition then update (BX_WRITE_16BIT_REG (nnn i) op2) else ret ()))"

section \<open>32 bits\<close>

definition XCHG_ERXEAX :: "bxInstruction \<Rightarrow> unit bx" where
  "XCHG_ERXEAX i =
     and_then (gets EAX) (\<lambda>temp32.
     and_then (update (\<lambda>s. BX_WRITE_32BIT_REG 0 (gen_reg s (opcodeReg i)) s)) (\<lambda>_.
     update (BX_WRITE_32BIT_REG (opcodeReg i) temp32)))"

definition MOV_ERXId :: "bxInstruction \<Rightarrow> unit bx" where
  "MOV_ERXId i = update (BX_WRITE_32BIT_REG (opcodeReg i) (i_Id i))"

definition MOV_EEdGd :: "bxInstruction \<Rightarrow> unit bx" where
  "MOV_EEdGd i = (\<lambda>s. write_virtual_dword (i_seg i) (rm_addr s) (BX_READ_32BIT_REG (nnn i) s) s)"

definition MOV_EGdGd :: "bxInstruction \<Rightarrow> unit bx" where
  "MOV_EGdGd i = and_then (gets (BX_READ_32BIT_REG (nnn i))) (\<lambda>op2. update (BX_WRITE_32BIT_REG (rm i) op2))"

definition MOV_GdEGd :: "bxInstruction \<Rightarrow> unit bx" where
  "MOV_GdEGd i = and_then (gets (BX_READ_32BIT_REG (rm i))) (\<lambda>op2. update (BX_WRITE_32BIT_REG (nnn i) op2))"

definition MOV_GdEEd :: "bxInstruction \<Rightarrow> unit bx" where
  "MOV_GdEEd i = and_then (\<lambda>s. read_virtual_dword (i_seg i) (rm_addr s) s) (\<lambda>v. update (BX_WRITE_32BIT_REG (nnn i) v))"

definition LEA_GdM :: "bxInstruction \<Rightarrow> unit bx" where
  "LEA_GdM i = (if modC0 i then raise BX_UD_EXCEPTION 0
     else update (\<lambda>s. BX_WRITE_32BIT_REG (nnn i) (rm_addr s) s))"

definition MOV_EAXOd :: "bxInstruction \<Rightarrow> unit bx" where
  "MOV_EAXOd i = and_then (read_virtual_dword (i_seg i) (i_Id i)) (\<lambda>v. update (BX_WRITE_32BIT_REG 0 v))"

definition MOV_OdEAX :: "bxInstruction \<Rightarrow> unit bx" where
  "MOV_OdEAX i = (\<lambda>s. write_virtual_dword (i_seg i) (i_Id i) (EAX s) s)"

definition MOV_EdId :: "bxInstruction \<Rightarrow> unit bx" where
  "MOV_EdId i = store_Ed i (i_Id i)"

definition MOVZX_GdEb :: "bxInstruction \<Rightarrow> unit bx" where
  "MOVZX_GdEb i = and_then (load_Eb i) (\<lambda>op2. update (BX_WRITE_32BIT_REG (nnn i) (ucast op2)))"

definition MOVZX_GdEw :: "bxInstruction \<Rightarrow> unit bx" where
  "MOVZX_GdEw i = and_then (load_Ew i) (\<lambda>op2. update (BX_WRITE_32BIT_REG (nnn i) (ucast op2)))"

definition MOVSX_GdEb :: "bxInstruction \<Rightarrow> unit bx" where
  "MOVSX_GdEb i = and_then (load_Eb i) (\<lambda>op2. update (BX_WRITE_32BIT_REG (nnn i) (scast op2)))"

definition MOVSX_GdEw :: "bxInstruction \<Rightarrow> unit bx" where
  "MOVSX_GdEw i = and_then (load_Ew i) (\<lambda>op2. update (BX_WRITE_32BIT_REG (nnn i) (scast op2)))"

definition XCHG_EdGd :: "bxInstruction \<Rightarrow> unit bx" where
  "XCHG_EdGd i =
     and_then (gets (BX_READ_32BIT_REG (nnn i))) (\<lambda>op2.
     and_then (rmw_Ed i (\<lambda>_. op2)) (\<lambda>op1.
     update (BX_WRITE_32BIT_REG (nnn i) op1)))"

definition CMOV_GdEd :: "bxInstruction \<Rightarrow> unit bx" where
  "CMOV_GdEd i =
     and_then (cmov_condition (i_b1 i)) (\<lambda>condition.
     and_then (load_Ed i) (\<lambda>op2.
     if condition then update (BX_WRITE_32BIT_REG (nnn i) op2) else ret ()))"

end
