(* ===== verification/BxString.thy ===== *)
theory BxString
  imports BxStack
begin

text \<open>
  The string instructions (\<open>cpu/string.cc\<close>) and the repetition of an instruction with
  a REP prefix in \<open>cpu_loop\<close> (\<open>cpu/cpu.cc\<close>). With \<open>BX_SupportRepeatSpeedups\<close>
  a repeated \<open>MOVS\<close> or \<open>STOS\<close> tries to do many elements at once directly in the
  memory block; \<open>FastRep*\<close> return the number of elements done, 0 to fall back on one
  ordinary step. The number of ticks until the next timer event,
  \<open>bx_pc_system.currCountdown\<close>, bounds a batch.
\<close>

section \<open>Common parts\<close>

definition string_seg :: "bxInstruction \<Rightarrow> seg_reg" where
  "string_seg i = (if \<not> null_seg i then i_seg i else DS)"

abbreviation (input) get_DF :: "cpu \<Rightarrow> bool" where "get_DF \<equiv> get_eflag 10"

text \<open>The index register moves down or up by the bytes of the elements done.\<close>

definition advance_16 :: "3 word \<Rightarrow> Bit16u \<Rightarrow> Bit16u \<Rightarrow> unit bx" where
  "advance_16 r v incr =
     update (\<lambda>s. BX_WRITE_16BIT_REG r (if get_DF s then v - incr else v + incr) s)"

definition advance_32 :: "3 word \<Rightarrow> Bit32u \<Rightarrow> Bit32u \<Rightarrow> unit bx" where
  "advance_32 r v incr =
     update (\<lambda>s. BX_WRITE_32BIT_REG r (if get_DF s then v - incr else v + incr) s)"

definition advance_SI_DI_16 :: "Bit16u \<Rightarrow> Bit16u \<Rightarrow> Bit16u \<Rightarrow> unit bx" where
  "advance_SI_DI_16 si di incr = and_then (advance_16 6 si incr) (\<lambda>_. advance_16 7 di incr)"

definition advance_SI_DI_32 :: "Bit32u \<Rightarrow> Bit32u \<Rightarrow> Bit32u \<Rightarrow> unit bx" where
  "advance_SI_DI_32 esi edi incr = and_then (advance_32 6 esi incr) (\<lambda>_. advance_32 7 edi incr)"

text \<open>
  \<open>BX_TICKN\<close>. An event due within the ticks hands control to the device timers, outside
  this model: the outcome \<open>Device\<close>.
\<close>

definition tickn :: "Bit32u \<Rightarrow> unit bx" where
  "tickn n = (\<lambda>s. if n \<ge> currCountdown s then to_device 0 s
                  else Done () (s\<lparr>currCountdown := currCountdown s - n\<rparr>))"

section \<open>Batches\<close>

text \<open>Checks of the first element, its physical address and the host pointer to its page.\<close>

definition fast_src :: "seg_reg \<Rightarrow> Bit32u \<Rightarrow> Bit32u \<Rightarrow> (Bit32u \<times> nat option) bx" where
  "fast_src sg off n =
     and_then (read_virtual_checks sg off n) (\<lambda>_ s.
       (let laddr = get_segment_base sg s + off in
        and_then (if cr0_pg (cr0 s) then translate_linear laddr (CPL s = 3) BX_READ else ret laddr) (\<lambda>p s.
          (let paddr = A20ADDR s p in ret (paddr, getHostMemAddr paddr BX_READ s) s)) s))"

definition fast_dst :: "seg_reg \<Rightarrow> Bit32u \<Rightarrow> Bit32u \<Rightarrow> (Bit32u \<times> nat option) bx" where
  "fast_dst sg off n =
     and_then (write_virtual_checks sg off n) (\<lambda>_ s.
       (let laddr = get_segment_base sg s + off in
        and_then (if cr0_pg (cr0 s) then translate_linear laddr (CPL s = 3) BX_WRITE else ret laddr) (\<lambda>p s.
          (let paddr = A20ADDR s p in ret (paddr, getHostMemAddr paddr BX_WRITE s) s)) s))"

text \<open>
  The elements of \<open>2 ^ sh\<close> bytes from \<open>paddr\<close> to the end of the page, downward or
  upward; the limit of a segment seen by 16-bit addressing; the limit tests, in 32-bit
  arithmetic that wraps around as it does in the code.
\<close>

definition elements_fit :: "nat \<Rightarrow> bool \<Rightarrow> Bit32u \<Rightarrow> Bit32u" where
  "elements_fit sh df paddr =
     (if df then drop_bit sh (push_bit sh 1 + (paddr AND 0xfff))
      else drop_bit sh (0x1000 - (paddr AND 0xfff)))"

definition clamp_limit :: "bxInstruction \<Rightarrow> Bit32u \<Rightarrow> Bit32u" where
  "clamp_limit i limit = (if \<not> as32L i \<and> limit > 0xffff then 0xffff else limit)"

definition outside_limit :: "nat \<Rightarrow> bool \<Rightarrow> Bit32u \<Rightarrow> Bit32u \<Rightarrow> Bit32u \<Rightarrow> bool" where
  "outside_limit sh df limit off count =
     (if df then off < push_bit sh (count - 1)
      else off > (limit - push_bit sh count) + 1)"

definition restrict_count :: "Bit32u \<Rightarrow> Bit32u \<Rightarrow> Bit32u" where
  "restrict_count bound count = (if count > bound then bound else count)"

text \<open>
  The copy and fill loops over host pointers. The pointer after the last element downward is not
  used, so that it does not matter that \<open>-\<close> stops at 0.
\<close>

fun host_copy :: "nat \<Rightarrow> bool \<Rightarrow> nat \<Rightarrow> nat \<Rightarrow> nat \<Rightarrow> unit bx" where
  "host_copy k df 0 dst src = ret ()"
| "host_copy k df (Suc n) dst src =
     and_then (load_hosts src k) (\<lambda>bs.
     and_then (store_hosts dst bs) (\<lambda>_.
     host_copy k df n (if df then dst - k else dst + k) (if df then src - k else src + k)))"

fun host_fill :: "bool \<Rightarrow> nat \<Rightarrow> nat \<Rightarrow> Bit8u list \<Rightarrow> unit bx" where
  "host_fill df 0 dst bs = ret ()"
| "host_fill df (Suc n) dst bs =
     and_then (store_hosts dst bs) (\<lambda>_.
     host_fill df n (if df then dst - length bs else dst + length bs) bs)"


definition FastRepMOVSB ::
  "bxInstruction \<Rightarrow> seg_reg \<Rightarrow> Bit32u \<Rightarrow> seg_reg \<Rightarrow> Bit32u \<Rightarrow> Bit32u \<Rightarrow> Bit32u bx" where
  "FastRepMOVSB i srcSeg srcOff dstSeg dstOff count0 =
     and_then (fast_src srcSeg srcOff 1) (\<lambda>(paddrSrc, hostSrc).
     case hostSrc of None \<Rightarrow> ret 0
     | Some hostAddrSrc \<Rightarrow>
       and_then (fast_dst dstSeg dstOff 1) (\<lambda>(paddrDst, hostDst).
       case hostDst of None \<Rightarrow> ret 0
       | Some hostAddrDst \<Rightarrow> (\<lambda>s.
         (let df = get_DF s;
              count1 = restrict_count (elements_fit 0 df paddrSrc) count0;
              count2 = restrict_count (elements_fit 0 df paddrDst) count1;
              count = restrict_count (currCountdown s) count2 in
          if count = 0 then ret 0 s
          else if seg_valid (sregs s srcSeg) AND SegAccessROK = 0 \<or>
                  seg_valid (sregs s dstSeg) AND SegAccessWOK = 0 then ret 0 s
          else if outside_limit 0 df (clamp_limit i (seg_limit_scaled (sregs s srcSeg))) srcOff count \<or>
                  outside_limit 0 df (clamp_limit i (seg_limit_scaled (sregs s dstSeg))) dstOff count
          then ret 0 s
          else and_then (host_copy 1 df (unat count) hostAddrDst hostAddrSrc) (\<lambda>_. ret count) s))))"

definition FastRepMOVSW ::
  "bxInstruction \<Rightarrow> seg_reg \<Rightarrow> Bit32u \<Rightarrow> seg_reg \<Rightarrow> Bit32u \<Rightarrow> Bit32u \<Rightarrow> Bit32u bx" where
  "FastRepMOVSW i srcSeg srcOff dstSeg dstOff count0 =
     and_then (fast_src srcSeg srcOff 2) (\<lambda>(paddrSrc, hostSrc).
     case hostSrc of None \<Rightarrow> ret 0
     | Some hostAddrSrc \<Rightarrow>
       and_then (fast_dst dstSeg dstOff 2) (\<lambda>(paddrDst, hostDst).
       case hostDst of None \<Rightarrow> ret 0
       | Some hostAddrDst \<Rightarrow> (\<lambda>s.
          if get_DF s \<and> (paddrSrc AND 0xfff > 0xffe \<or> paddrDst AND 0xfff > 0xffe) then ret 0 s else
         (let df = get_DF s;
              count1 = restrict_count (elements_fit 1 df paddrSrc) count0;
              count2 = restrict_count (elements_fit 1 df paddrDst) count1;
              count = restrict_count (currCountdown s) count2 in
          if count = 0 then ret 0 s
          else if seg_valid (sregs s srcSeg) AND SegAccessROK = 0 \<or>
                  seg_valid (sregs s dstSeg) AND SegAccessWOK = 0 then ret 0 s
          else if outside_limit 1 df (clamp_limit i (seg_limit_scaled (sregs s srcSeg))) srcOff count \<or>
                  outside_limit 1 df (clamp_limit i (seg_limit_scaled (sregs s dstSeg))) dstOff count
          then ret 0 s
          else and_then (host_copy 2 df (unat count) hostAddrDst hostAddrSrc) (\<lambda>_. ret count) s))))"

definition FastRepMOVSD ::
  "bxInstruction \<Rightarrow> seg_reg \<Rightarrow> Bit32u \<Rightarrow> seg_reg \<Rightarrow> Bit32u \<Rightarrow> Bit32u \<Rightarrow> Bit32u bx" where
  "FastRepMOVSD i srcSeg srcOff dstSeg dstOff count0 =
     and_then (fast_src srcSeg srcOff 4) (\<lambda>(paddrSrc, hostSrc).
     case hostSrc of None \<Rightarrow> ret 0
     | Some hostAddrSrc \<Rightarrow>
       and_then (fast_dst dstSeg dstOff 4) (\<lambda>(paddrDst, hostDst).
       case hostDst of None \<Rightarrow> ret 0
       | Some hostAddrDst \<Rightarrow> (\<lambda>s.
          if get_DF s \<and> (paddrSrc AND 0xfff > 0xffc \<or> paddrDst AND 0xfff > 0xffc) then ret 0 s else
         (let df = get_DF s;
              count1 = restrict_count (elements_fit 2 df paddrSrc) count0;
              count2 = restrict_count (elements_fit 2 df paddrDst) count1;
              count = restrict_count (currCountdown s) count2 in
          if count = 0 then ret 0 s
          else if seg_valid (sregs s srcSeg) AND SegAccessROK = 0 \<or>
                  seg_valid (sregs s dstSeg) AND SegAccessWOK = 0 then ret 0 s
          else if outside_limit 2 df (clamp_limit i (seg_limit_scaled (sregs s srcSeg))) srcOff count \<or>
                  outside_limit 2 df (clamp_limit i (seg_limit_scaled (sregs s dstSeg))) dstOff count
          then ret 0 s
          else and_then (host_copy 4 df (unat count) hostAddrDst hostAddrSrc) (\<lambda>_. ret count) s))))"

definition FastRepSTOSB ::
  "bxInstruction \<Rightarrow> seg_reg \<Rightarrow> Bit32u \<Rightarrow> Bit8u \<Rightarrow> Bit32u \<Rightarrow> Bit32u bx" where
  "FastRepSTOSB i dstSeg dstOff val count0 =
     and_then (fast_dst dstSeg dstOff 1) (\<lambda>(paddrDst, hostDst).
     case hostDst of None \<Rightarrow> ret 0
     | Some hostAddrDst \<Rightarrow> (\<lambda>s.
       (let df = get_DF s;
            count1 = restrict_count (elements_fit 0 df paddrDst) count0;
            count = restrict_count (currCountdown s) count1 in
        if count = 0 then ret 0 s
        else if seg_valid (sregs s dstSeg) AND SegAccessWOK = 0 then ret 0 s
        else if outside_limit 0 df (clamp_limit i (seg_limit_scaled (sregs s dstSeg))) dstOff count
        then ret 0 s
        else and_then (host_fill df (unat count) hostAddrDst (le_bytes 1 val)) (\<lambda>_. ret count) s)))"

definition FastRepSTOSW ::
  "bxInstruction \<Rightarrow> seg_reg \<Rightarrow> Bit32u \<Rightarrow> Bit16u \<Rightarrow> Bit32u \<Rightarrow> Bit32u bx" where
  "FastRepSTOSW i dstSeg dstOff val count0 =
     and_then (fast_dst dstSeg dstOff 2) (\<lambda>(paddrDst, hostDst).
     case hostDst of None \<Rightarrow> ret 0
     | Some hostAddrDst \<Rightarrow> (\<lambda>s.
         if get_DF s \<and> paddrDst AND 0xfff > 0xffe then ret 0 s else
       (let df = get_DF s;
            count1 = restrict_count (elements_fit 1 df paddrDst) count0;
            count = restrict_count (currCountdown s) count1 in
        if count = 0 then ret 0 s
        else if seg_valid (sregs s dstSeg) AND SegAccessWOK = 0 then ret 0 s
        else if outside_limit 1 df (clamp_limit i (seg_limit_scaled (sregs s dstSeg))) dstOff count
        then ret 0 s
        else and_then (host_fill df (unat count) hostAddrDst (le_bytes 2 val)) (\<lambda>_. ret count) s)))"

definition FastRepSTOSD ::
  "bxInstruction \<Rightarrow> seg_reg \<Rightarrow> Bit32u \<Rightarrow> Bit32u \<Rightarrow> Bit32u \<Rightarrow> Bit32u bx" where
  "FastRepSTOSD i dstSeg dstOff val count0 =
     and_then (fast_dst dstSeg dstOff 4) (\<lambda>(paddrDst, hostDst).
     case hostDst of None \<Rightarrow> ret 0
     | Some hostAddrDst \<Rightarrow> (\<lambda>s.
         if get_DF s \<and> paddrDst AND 0xfff > 0xffc then ret 0 s else
       (let df = get_DF s;
            count1 = restrict_count (elements_fit 2 df paddrDst) count0;
            count = restrict_count (currCountdown s) count1 in
        if count = 0 then ret 0 s
        else if seg_valid (sregs s dstSeg) AND SegAccessWOK = 0 then ret 0 s
        else if outside_limit 2 df (clamp_limit i (seg_limit_scaled (sregs s dstSeg))) dstOff count
        then ret 0 s
        else and_then (host_fill df (unat count) hostAddrDst (le_bytes 4 val)) (\<lambda>_. ret count) s)))"

section \<open>Moves\<close>

text \<open>
  The batch of a repeated instruction: the count is CX or ECX, which the repeat loop decrements
  once more, as it does with the ticks.
\<close>

definition try_batch_16 :: "bxInstruction \<Rightarrow> (Bit32u \<Rightarrow> Bit32u bx) \<Rightarrow> Bit32u bx" where
  "try_batch_16 i f = (\<lambda>s.
     if repUsedValue i \<noteq> 0 \<and> async_event s = 0 then
       (if CX s = 0 then panic ''failed assertion count > 0'' s
        else
          and_then (f (ucast (CX s))) (\<lambda>count.
            if count \<noteq> 0 then
              and_then (tickn (count - 1)) (\<lambda>_.
              and_then (update (\<lambda>s. BX_WRITE_16BIT_REG 1 (CX s - ucast (count - 1)) s)) (\<lambda>_. ret count))
            else ret 0) s)
     else ret 0 s)"

definition try_batch_32 :: "bxInstruction \<Rightarrow> (Bit32u \<Rightarrow> Bit32u bx) \<Rightarrow> Bit32u bx" where
  "try_batch_32 i f = (\<lambda>s.
     if repUsedValue i \<noteq> 0 \<and> async_event s = 0 then
       (if ECX s = 0 then panic ''failed assertion count > 0'' s
        else
          and_then (f (ECX s)) (\<lambda>count.
            if count \<noteq> 0 then
              and_then (tickn (count - 1)) (\<lambda>_.
              and_then (update (\<lambda>s. BX_WRITE_32BIT_REG 1 (ECX s - (count - 1)) s)) (\<lambda>_. ret count))
            else ret 0) s)
     else ret 0 s)"


definition MOVSB_XbYb :: "bxInstruction \<Rightarrow> unit bx" where
  "MOVSB_XbYb i = (\<lambda>s.
     (let seg = string_seg i in
      if as32L i then
       (let esi = ESI s; edi = EDI s in
        and_then (read_virtual_byte seg esi) (\<lambda>temp.
        and_then (write_virtual_byte ES edi temp) (\<lambda>_. advance_SI_DI_32 esi edi 1)) s)
      else
       (let si = SI s; di = DI s in
        and_then (try_batch_16 i (FastRepMOVSB i seg (ucast si) ES (ucast di))) (\<lambda>count.
        if count \<noteq> 0 then advance_SI_DI_16 si di (ucast count)
        else
          and_then (read_virtual_byte seg (ucast si)) (\<lambda>temp.
          and_then (write_virtual_byte ES (ucast di) temp) (\<lambda>_. advance_SI_DI_16 si di 1))) s)))"

definition MOVSW_XwYw :: "bxInstruction \<Rightarrow> unit bx" where
  "MOVSW_XwYw i = (\<lambda>s.
     (let seg = string_seg i in
      if as32L i then
       (let esi = ESI s; edi = EDI s in
        and_then (read_virtual_word seg esi) (\<lambda>temp.
        and_then (write_virtual_word ES edi temp) (\<lambda>_. advance_SI_DI_32 esi edi 2)) s)
      else
       (let si = SI s; di = DI s in
        and_then (try_batch_16 i (FastRepMOVSW i seg (ucast si) ES (ucast di))) (\<lambda>count.
        if count \<noteq> 0 then advance_SI_DI_16 si di (ucast (push_bit 1 count))
        else
          and_then (read_virtual_word seg (ucast si)) (\<lambda>temp.
          and_then (write_virtual_word ES (ucast di) temp) (\<lambda>_. advance_SI_DI_16 si di 2))) s)))"

definition MOVSD_XdYd :: "bxInstruction \<Rightarrow> unit bx" where
  "MOVSD_XdYd i = (\<lambda>s.
     (let seg = string_seg i in
      if as32L i then
       (let esi = ESI s; edi = EDI s in
        and_then (try_batch_32 i (FastRepMOVSD i seg esi ES edi)) (\<lambda>count.
        if count \<noteq> 0 then advance_SI_DI_32 esi edi (push_bit 2 count)
        else
          and_then (read_virtual_dword seg esi) (\<lambda>temp.
          and_then (write_virtual_dword ES edi temp) (\<lambda>_. advance_SI_DI_32 esi edi 4))) s)
      else
       (let si = SI s; di = DI s in
        and_then (read_virtual_dword seg (ucast si)) (\<lambda>temp.
        and_then (write_virtual_dword ES (ucast di) temp) (\<lambda>_. advance_SI_DI_16 si di 4)) s)))"

section \<open>Comparisons\<close>


definition CMPSB_XbYb :: "bxInstruction \<Rightarrow> unit bx" where
  "CMPSB_XbYb i = (\<lambda>s.
     (let seg = string_seg i in
      if as32L i then
       (let esi = ESI s; edi = EDI s in
        and_then (read_virtual_byte seg esi) (\<lambda>op1.
        and_then (read_virtual_byte ES edi) (\<lambda>op2.
        and_then (update (SET_FLAGS_OSZAPC_8 op1 op2 (op1 - op2) BX_INSTR_COMPARE8)) (\<lambda>_.
        advance_SI_DI_32 esi edi 1))) s)
      else
       (let si = SI s; di = DI s in
        and_then (read_virtual_byte seg (ucast si)) (\<lambda>op1.
        and_then (read_virtual_byte ES (ucast di)) (\<lambda>op2.
        and_then (update (SET_FLAGS_OSZAPC_8 op1 op2 (op1 - op2) BX_INSTR_COMPARE8)) (\<lambda>_.
        advance_SI_DI_16 si di 1))) s)))"

definition CMPSW_XwYw :: "bxInstruction \<Rightarrow> unit bx" where
  "CMPSW_XwYw i = (\<lambda>s.
     (let seg = string_seg i in
      if as32L i then
       (let esi = ESI s; edi = EDI s in
        and_then (read_virtual_word seg esi) (\<lambda>op1.
        and_then (read_virtual_word ES edi) (\<lambda>op2.
        and_then (update (SET_FLAGS_OSZAPC_16 op1 op2 (op1 - op2) BX_INSTR_COMPARE16)) (\<lambda>_.
        advance_SI_DI_32 esi edi 2))) s)
      else
       (let si = SI s; di = DI s in
        and_then (read_virtual_word seg (ucast si)) (\<lambda>op1.
        and_then (read_virtual_word ES (ucast di)) (\<lambda>op2.
        and_then (update (SET_FLAGS_OSZAPC_16 op1 op2 (op1 - op2) BX_INSTR_COMPARE16)) (\<lambda>_.
        advance_SI_DI_16 si di 2))) s)))"

definition CMPSD_XdYd :: "bxInstruction \<Rightarrow> unit bx" where
  "CMPSD_XdYd i = (\<lambda>s.
     (let seg = string_seg i in
      if as32L i then
       (let esi = ESI s; edi = EDI s in
        and_then (read_virtual_dword seg esi) (\<lambda>op1.
        and_then (read_virtual_dword ES edi) (\<lambda>op2.
        and_then (update (SET_FLAGS_OSZAPC_32 op1 op2 (op1 - op2) BX_INSTR_COMPARE32)) (\<lambda>_.
        advance_SI_DI_32 esi edi 4))) s)
      else
       (let si = SI s; di = DI s in
        and_then (read_virtual_dword seg (ucast si)) (\<lambda>op1.
        and_then (read_virtual_dword ES (ucast di)) (\<lambda>op2.
        and_then (update (SET_FLAGS_OSZAPC_32 op1 op2 (op1 - op2) BX_INSTR_COMPARE32)) (\<lambda>_.
        advance_SI_DI_16 si di 4))) s)))"

definition SCASB_ALXb :: "bxInstruction \<Rightarrow> unit bx" where
  "SCASB_ALXb i = (\<lambda>s.
     (let op1 = AL s in
      if as32L i then
       (let edi = EDI s in
        and_then (read_virtual_byte ES edi) (\<lambda>op2.
        and_then (update (SET_FLAGS_OSZAPC_8 op1 op2 (op1 - op2) BX_INSTR_COMPARE8)) (\<lambda>_.
        advance_32 7 edi 1)) s)
      else
       (let di = DI s in
        and_then (read_virtual_byte ES (ucast di)) (\<lambda>op2.
        and_then (update (SET_FLAGS_OSZAPC_8 op1 op2 (op1 - op2) BX_INSTR_COMPARE8)) (\<lambda>_.
        advance_16 7 di 1)) s)))"

definition SCASW_AXXw :: "bxInstruction \<Rightarrow> unit bx" where
  "SCASW_AXXw i = (\<lambda>s.
     (let op1 = AX s in
      if as32L i then
       (let edi = EDI s in
        and_then (read_virtual_word ES edi) (\<lambda>op2.
        and_then (update (SET_FLAGS_OSZAPC_16 op1 op2 (op1 - op2) BX_INSTR_COMPARE16)) (\<lambda>_.
        advance_32 7 edi 2)) s)
      else
       (let di = DI s in
        and_then (read_virtual_word ES (ucast di)) (\<lambda>op2.
        and_then (update (SET_FLAGS_OSZAPC_16 op1 op2 (op1 - op2) BX_INSTR_COMPARE16)) (\<lambda>_.
        advance_16 7 di 2)) s)))"

definition SCASD_EAXXd :: "bxInstruction \<Rightarrow> unit bx" where
  "SCASD_EAXXd i = (\<lambda>s.
     (let op1 = EAX s in
      if as32L i then
       (let edi = EDI s in
        and_then (read_virtual_dword ES edi) (\<lambda>op2.
        and_then (update (SET_FLAGS_OSZAPC_32 op1 op2 (op1 - op2) BX_INSTR_COMPARE32)) (\<lambda>_.
        advance_32 7 edi 4)) s)
      else
       (let di = DI s in
        and_then (read_virtual_dword ES (ucast di)) (\<lambda>op2.
        and_then (update (SET_FLAGS_OSZAPC_32 op1 op2 (op1 - op2) BX_INSTR_COMPARE32)) (\<lambda>_.
        advance_16 7 di 4)) s)))"

section \<open>Stores and loads\<close>


definition STOSB_YbAL :: "bxInstruction \<Rightarrow> unit bx" where
  "STOSB_YbAL i = (\<lambda>s.
     (let al = AL s;
          edi = (if as32L i then EDI s else ucast (DI s)) in
      and_then ((if as32L i then try_batch_32 else try_batch_16) i (FastRepSTOSB i ES edi al)) (\<lambda>count.
      and_then (if count \<noteq> 0 then ret count
                else and_then (write_virtual_byte ES edi al) (\<lambda>_. ret 1)) (\<lambda>incr.
      if as32L i then advance_32 7 edi incr else advance_16 7 (ucast edi) (ucast incr))) s))"

definition STOSW_YwAX :: "bxInstruction \<Rightarrow> unit bx" where
  "STOSW_YwAX i = (\<lambda>s.
     if as32L i then
      (let edi = EDI s in
       and_then (write_virtual_word ES edi (AX s)) (\<lambda>_. advance_32 7 edi 2) s)
     else
      (let di = DI s in
       and_then (write_virtual_word ES (ucast di) (AX s)) (\<lambda>_. advance_16 7 di 2) s))"

definition STOSD_YdEAX :: "bxInstruction \<Rightarrow> unit bx" where
  "STOSD_YdEAX i = (\<lambda>s.
     if as32L i then
      (let edi = EDI s in
       and_then (write_virtual_dword ES edi (EAX s)) (\<lambda>_. advance_32 7 edi 4) s)
     else
      (let di = DI s in
       and_then (write_virtual_dword ES (ucast di) (EAX s)) (\<lambda>_. advance_16 7 di 4) s))"

definition LODSB_ALXb :: "bxInstruction \<Rightarrow> unit bx" where
  "LODSB_ALXb i = (\<lambda>s.
     (let seg = string_seg i in
      if as32L i then
       (let esi = ESI s in
        and_then (read_virtual_byte seg esi) (\<lambda>v. and_then (update (BX_WRITE_8BIT_REG 0 v)) (\<lambda>_. advance_32 6 esi 1)) s)
      else
       (let si = SI s in
        and_then (read_virtual_byte seg (ucast si)) (\<lambda>v. and_then (update (BX_WRITE_8BIT_REG 0 v)) (\<lambda>_. advance_16 6 si 1)) s)))"

definition LODSW_AXXw :: "bxInstruction \<Rightarrow> unit bx" where
  "LODSW_AXXw i = (\<lambda>s.
     (let seg = string_seg i in
      if as32L i then
       (let esi = ESI s in
        and_then (read_virtual_word seg esi) (\<lambda>v. and_then (update (BX_WRITE_16BIT_REG 0 v)) (\<lambda>_. advance_32 6 esi 2)) s)
      else
       (let si = SI s in
        and_then (read_virtual_word seg (ucast si)) (\<lambda>v. and_then (update (BX_WRITE_16BIT_REG 0 v)) (\<lambda>_. advance_16 6 si 2)) s)))"

definition LODSD_EAXXd :: "bxInstruction \<Rightarrow> unit bx" where
  "LODSD_EAXXd i = (\<lambda>s.
     (let seg = string_seg i in
      if as32L i then
       (let esi = ESI s in
        and_then (read_virtual_dword seg esi) (\<lambda>v. and_then (update (BX_WRITE_32BIT_REG 0 v)) (\<lambda>_. advance_32 6 esi 4)) s)
      else
       (let si = SI s in
        and_then (read_virtual_dword seg (ucast si)) (\<lambda>v. and_then (update (BX_WRITE_32BIT_REG 0 v)) (\<lambda>_. advance_16 6 si 4)) s)))"

section \<open>Repetition\<close>

text \<open>
  The loop of \<open>cpu_loop\<close> at \<open>repeat_loop\<close>. The result \<open>Some True\<close> is
  \<open>repeat_done\<close>, \<open>Some False\<close> the way out for an asynchronous event with the
  instruction to be executed again, \<open>None\<close> that the iterations in the first argument ran
  out. One iteration is \<open>repeat_once\<close>, which tells whether the loop goes on.
\<close>

definition repeat_count :: "bxInstruction \<Rightarrow> cpu \<Rightarrow> Bit32u" where
  "repeat_count i s = (if as32L i then ECX s else ucast (CX s))"

definition decrement_count :: "bxInstruction \<Rightarrow> cpu \<Rightarrow> cpu" where
  "decrement_count i s =
     (if as32L i then BX_WRITE_32BIT_REG 1 (ECX s - 1) s else BX_WRITE_16BIT_REG 1 (CX s - 1) s)"

definition repeat_once :: "(bxInstruction \<Rightarrow> unit bx) \<Rightarrow> bxInstruction \<Rightarrow> bool bx" where
  "repeat_once execute i =
     and_then (\<lambda>s. if repeat_count i s \<noteq> 0
                 then and_then (execute i) (\<lambda>_. update (decrement_count i)) s else ret () s) (\<lambda>_.
     and_then (if repeatableZFL i \<and> repUsedValue i = 3 then and_then (get_flag ZF) (\<lambda>z. ret (\<not> z)) else ret False) (\<lambda>stop3.
     if stop3 then ret False
     else
       and_then (if repeatableZFL i \<and> repUsedValue i = 2 then get_flag ZF else ret False) (\<lambda>stop2.
       if stop2 then ret False else gets (\<lambda>s. repeat_count i s \<noteq> 0))))"

definition tick1 :: "unit bx" where
  "tick1 = (\<lambda>s. if currCountdown s - 1 = 0 then to_device 0 (s\<lparr>currCountdown := 0\<rparr>)
               else Done () (s\<lparr>currCountdown := currCountdown s - 1\<rparr>))"

fun repeat_loop :: "nat \<Rightarrow> (bxInstruction \<Rightarrow> unit bx) \<Rightarrow> bxInstruction \<Rightarrow> bool option bx" where
  "repeat_loop 0 execute i = ret None"
| "repeat_loop (Suc n) execute i =
     and_then (repeat_once execute i) (\<lambda>go.
     if go then
       and_then tick1 (\<lambda>_ s.
         if async_event s \<noteq> 0 then Done (Some False) (invalidate_prefetch_q s)
         else repeat_loop n execute i s)
     else ret (Some True))"

text \<open>\<open>repeat_done\<close>: the instruction is complete.\<close>

definition commit_eip :: "Bit32u \<Rightarrow> unit bx" where
  "commit_eip next_RIP =
     and_then (update (\<lambda>s. s\<lparr>eip := next_RIP, sys := (sys s)\<lparr>prev_eip := next_RIP, prev_esp := ESP s\<rparr>\<rparr>)) (\<lambda>_.
     tick1)"

end
