(* ===== verification/BxTimers.thy ===== *)
theory BxTimers
  imports BxPrelude
begin

text \<open>
  The clock and the timers of \<open>pc_system.cc\<close> and \<open>pc_system.h\<close>: the table of timers,
  their registration and activation, the countdown of ticks to the next event, and the event that
  calls back the devices whose timers are due.
\<close>

section \<open>State\<close>

text \<open>
  A slot of the timer table. \<open>funct\<close> names the callback together with the object it is
  called for; \<open>None\<close> is the null pointer. The identification string is not modelled.
\<close>

record bx_timer =
  inUse :: bool
  period :: Bit64u
  timeToFire :: Bit64u
  active :: bool
  continuous :: bool
  funct :: "nat option"

text \<open>
  The private state of \<open>bx_pc_system_c\<close>, with the state of the devices, which only the
  callbacks look at.
\<close>

record 'd pc_system =
  timer :: "nat \<Rightarrow> bx_timer"
  numTimers :: nat
  triggeredTimer :: nat
  countdown :: Bit32u
  countdownPeriod :: Bit32u
  ticksTotal :: Bit64u
  lastTimeUsec :: Bit64u
  usecSinceLast :: Bit64u
  devices :: 'd

abbreviation BX_MAX_TIMERS :: nat where "BX_MAX_TIMERS \<equiv> 64"

abbreviation (input) MinAllowableTimerPeriod :: Bit64u where "MinAllowableTimerPeriod \<equiv> 1"

text \<open>\<open>ICacheWriteStampMax\<close>\<close>

definition NullTimerInterval :: Bit64u where
  "NullTimerInterval = 0x1fffffff"

definition set_timer :: "nat \<Rightarrow> (bx_timer \<Rightarrow> bx_timer) \<Rightarrow> 'd pc_system \<Rightarrow> 'd pc_system" where
  "set_timer i f s = s\<lparr>timer := (timer s)(i := f (timer s i))\<rparr>"

text \<open>
  The constructor on the object, which is global and therefore starts as zeros: the null timer
  in slot 0 is callback 0.
\<close>

definition zero_timer :: bx_timer where
  "zero_timer = \<lparr>inUse = False, period = 0, timeToFire = 0, active = False, continuous = False, funct = None\<rparr>"

definition construct :: "'d \<Rightarrow> 'd pc_system" where
  "construct d =
     \<lparr>timer = (\<lambda>_. zero_timer)(0 := zero_timer\<lparr>period := NullTimerInterval, timeToFire := 0 + NullTimerInterval,
        active := True, continuous := True, funct := Some 0\<rparr>),
      numTimers = 1, triggeredTimer = 0, countdown = ucast NullTimerInterval,
      countdownPeriod = ucast NullTimerInterval, ticksTotal = 0, lastTimeUsec = 0, usecSinceLast = 0,
      devices = d\<rparr>"

definition time_ticks :: "'d pc_system \<Rightarrow> Bit64u" where
  "time_ticks s = ticksTotal s + ucast (countdownPeriod s - countdown s)"

definition getNumCpuTicksLeftNextEvent :: "'d pc_system \<Rightarrow> Bit32u" where
  "getNumCpuTicksLeftNextEvent s = countdown s"

section \<open>Registration and activation\<close>

text \<open>A timer that is due before the end of the current countdown shortens the countdown.\<close>

definition skew :: "Bit64u \<Rightarrow> 'd pc_system \<Rightarrow> 'd pc_system" where
  "skew ticks s =
     (if ticks < ucast (countdown s)
      then s\<lparr>countdownPeriod := countdownPeriod s - (countdown s - ucast ticks), countdown := ucast ticks\<rparr>
      else s)"

definition register_timer_ticks ::
  "nat option \<Rightarrow> Bit64u \<Rightarrow> bool \<Rightarrow> bool \<Rightarrow> (nat, 'd pc_system) routine" where
  "register_timer_ticks f ticks cont act = (\<lambda>s.
     if numTimers s \<ge> BX_MAX_TIMERS then Panic ''register_timer: too many registered timers.'' s
     else if f = None then Panic ''register_timer_ticks: funct is NULL'' s
     else
       (let ticks = (if ticks < MinAllowableTimerPeriod then MinAllowableTimerPeriod else ticks);
            i = length (takeWhile (\<lambda>i. inUse (timer s i)) [0..<numTimers s]);
            t = s\<lparr>timer := (timer s)(i := \<lparr>inUse = True, period = ticks, timeToFire = time_ticks s + ticks,
                   active = act, continuous = cont, funct = f\<rparr>)\<rparr>;
            u = (if act then skew ticks t else t)
        in Done i (if i = numTimers s then u\<lparr>numTimers := numTimers s + 1\<rparr> else u)))"

text \<open>
  Microseconds become ticks by a multiplication with a floating point number of instructions
  per microsecond, a parameter here.
\<close>

definition register_timer ::
  "(Bit32u \<Rightarrow> Bit64u) \<Rightarrow> nat option \<Rightarrow> Bit32u \<Rightarrow> bool \<Rightarrow> bool \<Rightarrow> (nat, 'd pc_system) routine" where
  "register_timer ticks_of f useconds cont act = register_timer_ticks f (ticks_of useconds) cont act"

definition activate_timer_ticks :: "nat \<Rightarrow> Bit64u \<Rightarrow> bool \<Rightarrow> (unit, 'd pc_system) routine" where
  "activate_timer_ticks i ticks cont = (\<lambda>s.
     if i \<ge> numTimers s then Panic ''activate_timer_ticks: timer OOB'' s
     else if period (timer s i) < MinAllowableTimerPeriod then Panic ''activate_timer_ticks: timer.period < min'' s
     else
       (let ticks = (if ticks < MinAllowableTimerPeriod then MinAllowableTimerPeriod else ticks)
        in Done () (skew ticks (set_timer i (\<lambda>t. t\<lparr>period := ticks, timeToFire := time_ticks s + ticks,
              active := True, continuous := cont\<rparr>) s))))"

definition activate_timer :: "(Bit32u \<Rightarrow> Bit64u) \<Rightarrow> nat \<Rightarrow> Bit32u \<Rightarrow> bool \<Rightarrow> (unit, 'd pc_system) routine" where
  "activate_timer ticks_of i useconds cont = (\<lambda>s.
     if i \<ge> numTimers s then Panic ''activate_timer: timer OOB'' s
     else if useconds = 0 then activate_timer_ticks i (period (timer s i)) cont s
     else
       (let ticks = (if ticks_of useconds < MinAllowableTimerPeriod then MinAllowableTimerPeriod else ticks_of useconds)
        in activate_timer_ticks i ticks cont (set_timer i (\<lambda>t. t\<lparr>period := ticks\<rparr>) s)))"

definition deactivate_timer :: "nat \<Rightarrow> (unit, 'd pc_system) routine" where
  "deactivate_timer i = (\<lambda>s.
     if i \<ge> numTimers s then Panic ''deactivate_timer: timer OOB'' s
     else Done () (set_timer i (\<lambda>t. t\<lparr>active := False\<rparr>) s))"

definition unregisterTimer :: "nat \<Rightarrow> (bool, 'd pc_system) routine" where
  "unregisterTimer i = (\<lambda>s.
     if i \<ge> numTimers s then Panic ''unregisterTimer: timer OOB'' s
     else if i = 0 then Panic ''unregisterTimer: timer 0 is the nullTimer!'' s
     else if \<not> inUse (timer s i) then Panic ''unregisterTimer: timer is not in-use!'' s
     else if active (timer s i) then Panic ''unregisterTimer: timer is still active!'' s
     else Done True (set_timer i (\<lambda>t. t\<lparr>inUse := False, period := 0x7fffffffffffffff,
            timeToFire := 0x7fffffffffffffff, continuous := False, funct := None\<rparr>) s))"

section \<open>The event\<close>

text \<open>
  The first loop of \<open>countdownEvent\<close> for one timer: the new minimum and whether the timer is
  triggered.
\<close>

definition scan_timer :: "nat \<Rightarrow> Bit64u \<Rightarrow> (Bit64u \<times> bool, 'd pc_system) routine" where
  "scan_timer i minTimeToFire = (\<lambda>s.
     (let t = timer s i in
      if active t then
        (if ticksTotal s > timeToFire t then Panic ''countdownEvent: ticksTotal > timeToFire'' s
         else if ticksTotal s = timeToFire t then
           (if \<not> continuous t then Done (minTimeToFire, True) (set_timer i (\<lambda>t. t\<lparr>active := False\<rparr>) s)
            else
              (let next = timeToFire t + period t
               in Done (if next < minTimeToFire then next else minTimeToFire, True)
                    (set_timer i (\<lambda>t. t\<lparr>timeToFire := next\<rparr>) s)))
         else Done (if timeToFire t < minTimeToFire then timeToFire t else minTimeToFire, False) s)
      else Done (minTimeToFire, False) s))"

fun scan_timers :: "nat list \<Rightarrow> Bit64u \<Rightarrow> (Bit64u \<times> nat list, 'd pc_system) routine" where
  "scan_timers [] m = ret (m, [])"
| "scan_timers (i # is) m =
     and_then (scan_timer i m) (\<lambda>(m, hit).
     and_then (scan_timers is m) (\<lambda>(m, hits). ret (m, if hit then i # hits else hits)))"

text \<open>
  The second loop calls the triggered timers. A timer that was unregistered meanwhile is a call of
  the null pointer; a timer added meanwhile makes the loop read a flag the first loop has not set.
  Both are panics here.
\<close>

type_synonym 'd callbacks = "nat \<Rightarrow> (unit, 'd pc_system) routine"

definition call_timer :: "'d callbacks \<Rightarrow> nat \<Rightarrow> (unit, 'd pc_system) routine" where
  "call_timer call i =
     and_then (update (\<lambda>s. s\<lparr>triggeredTimer := i\<rparr>)) (\<lambda>_.
     and_then (\<lambda>s. case funct (timer s i) of Some f \<Rightarrow> call f s | None \<Rightarrow> Panic ''null callback'' s) (\<lambda>_.
     update (\<lambda>s. s\<lparr>triggeredTimer := 0\<rparr>)))"

fun call_timers :: "'d callbacks \<Rightarrow> nat \<Rightarrow> nat list \<Rightarrow> (unit, 'd pc_system) routine" where
  "call_timers call n [] = (\<lambda>s. if numTimers s > n then Panic ''flag not set'' s else Done () s)"
| "call_timers call n (i # is) = and_then (call_timer call i) (\<lambda>_. call_timers call n is)"

definition countdownEvent :: "'d callbacks \<Rightarrow> (unit, 'd pc_system) routine" where
  "countdownEvent call = (\<lambda>s.
     if countdown s \<noteq> 0 then Panic ''countdownEvent: ticks!=0'' s
     else
       and_then (update (\<lambda>s. s\<lparr>ticksTotal := ticksTotal s + ucast (countdownPeriod s)\<rparr>)) (\<lambda>_ s.
       and_then (scan_timers [0..<numTimers s] 0xffffffffffffffff) (\<lambda>(minTimeToFire, hits).
       and_then (update (\<lambda>s. s\<lparr>countdown := ucast (minTimeToFire - ticksTotal s),
                               countdownPeriod := ucast (minTimeToFire - ticksTotal s)\<rparr>)) (\<lambda>_ s.
       call_timers call (numTimers s) hits s)) s) s)"

text \<open>
  \<open>nullTimer\<close>, the callback of slot 0: besides the purge of the instruction caches, which
  are not modelled, it does nothing.
\<close>

definition nullTimer :: "(unit, 'd pc_system) routine" where
  "nullTimer = ret ()"

section \<open>Ticks\<close>

definition pc_tick1 :: "'d callbacks \<Rightarrow> (unit, 'd pc_system) routine" where
  "pc_tick1 call =
     and_then (update (\<lambda>s. s\<lparr>countdown := countdown s - 1\<rparr>)) (\<lambda>_ s.
     if countdown s = 0 then countdownEvent call s else Done () s)"

text \<open>
  The loop of \<open>tickn\<close> does not end if a countdown of 0 comes up: the first argument bounds
  the rounds, and the value tells whether the loop ended within it.
\<close>

fun pc_tickn :: "nat \<Rightarrow> 'd callbacks \<Rightarrow> Bit64u \<Rightarrow> (bool, 'd pc_system) routine" where
  "pc_tickn 0 call n = ret False"
| "pc_tickn (Suc k) call n = (\<lambda>s.
     if n \<ge> ucast (countdown s) then
       (let n = n - ucast (countdown s)
        in and_then (countdownEvent call) (\<lambda>_. pc_tickn k call n) (s\<lparr>countdown := 0\<rparr>))
     else Done True (s\<lparr>countdown := countdown s - ucast n\<rparr>))"

text \<open>
  Time in microseconds, from the ticks by a floating point division that is a parameter, and the
  sequence of distinct times.
\<close>

definition time_usec :: "(Bit64u \<Rightarrow> Bit64u) \<Rightarrow> 'd pc_system \<Rightarrow> Bit64u" where
  "time_usec usec_of s = usec_of (time_ticks s)"

definition time_usec_sequential :: "(Bit64u \<Rightarrow> Bit64u) \<Rightarrow> (Bit64u, 'd pc_system) routine" where
  "time_usec_sequential usec_of = (\<lambda>s.
     (let this_time_usec = time_usec usec_of s;
          diff_usec = this_time_usec - lastTimeUsec s;
          t = (if this_time_usec \<noteq> lastTimeUsec s
               then s\<lparr>lastTimeUsec := this_time_usec,
                      usecSinceLast := (if diff_usec \<ge> usecSinceLast s then 0 else usecSinceLast s - diff_usec)\<rparr>
               else s);
          u = t\<lparr>usecSinceLast := usecSinceLast t + 1\<rparr>
      in Done (this_time_usec + usecSinceLast u) u))"

end
