(* ===== verification/BxTimerTheorems.thy ===== *)
theory BxTimerTheorems
  imports BxTimers
begin

text \<open>
  The countdown implements a clock that looks at every timer on every tick. The invariant needs one
  timer that keeps running with a period below \<open>2 ^ 32\<close> ticks, the part the null timer has
  in the design.
\<close>

section \<open>The invariant\<close>

definition now :: "'d pc_system \<Rightarrow> nat" where
  "now s = unat (ticksTotal s) + (unat (countdownPeriod s) - unat (countdown s))"

abbreviation horizon :: nat where "horizon \<equiv> 2 ^ 62"

definition timer_ok :: "nat \<Rightarrow> bx_timer \<Rightarrow> bool" where
  "timer_ok limit t \<longleftrightarrow>
     (inUse t \<longrightarrow> funct t \<noteq> None \<and> 0 < period t) \<and>
     (active t \<longrightarrow> inUse t \<and> limit \<le> unat (timeToFire t) \<and> unat (period t) \<le> horizon)"

definition heartbeat :: "nat \<Rightarrow> bx_timer \<Rightarrow> bool" where
  "heartbeat base t \<longleftrightarrow> active t \<and> continuous t \<and> unat (period t) < 2 ^ 32 \<and> unat (timeToFire t) < base + 2 ^ 32"

definition timers_ok :: "nat \<Rightarrow> 'd pc_system \<Rightarrow> bool" where
  "timers_ok h s \<longleftrightarrow>
     0 < countdown s \<and> countdown s \<le> countdownPeriod s \<and> unat (ticksTotal s) \<le> horizon \<and>
     h < numTimers s \<and> numTimers s \<le> BX_MAX_TIMERS \<and>
     (\<forall>i<numTimers s. timer_ok (unat (ticksTotal s) + unat (countdownPeriod s)) (timer s i)) \<and>
     heartbeat (unat (ticksTotal s)) (timer s h)"

lemma unat_up [simp]: "unat (ucast (w :: Bit32u) :: Bit64u) = unat w"
  using unsigned_less [of w, where 'a = nat] by (simp add: unsigned_ucast_eq take_bit_nat_eq_self)

lemma unat_plus: "unat a + unat b < 2 ^ 64 \<Longrightarrow> unat (a + b :: Bit64u) = unat a + unat b"
  by (rule unat_add_lem [THEN iffD1]) simp

lemma unat_time_ticks:
  assumes "timers_ok h s"
  shows "unat (time_ticks s) = now s"
proof -
  have "unat (ucast (countdownPeriod s - countdown s) :: Bit64u) = unat (countdownPeriod s) - unat (countdown s)"
    using assms by (simp add: timers_ok_def unat_sub_if' word_le_nat_alt)
  moreover have "unat (countdownPeriod s) < 2 ^ 32" using unsigned_less [of "countdownPeriod s"] by simp
  moreover have "unat (ticksTotal s) \<le> horizon" using assms by (simp add: timers_ok_def)
  ultimately show ?thesis
    unfolding time_ticks_def now_def by (subst unat_plus) simp_all
qed

lemma timer_set_timer [simp]:
  "timer (set_timer i f s) = (timer s)(i := f (timer s i))"
  "numTimers (set_timer i f s) = numTimers s" "countdown (set_timer i f s) = countdown s"
  "countdownPeriod (set_timer i f s) = countdownPeriod s" "ticksTotal (set_timer i f s) = ticksTotal s"
  "devices (set_timer i f s) = devices s"
  by (simp_all add: set_timer_def)

lemma active_ahead:
  assumes "timers_ok h s" "i < numTimers s" "active (timer s i)"
  shows "now s < unat (timeToFire (timer s i))"
proof -
  have "unat (ticksTotal s) + unat (countdownPeriod s) \<le> unat (timeToFire (timer s i))"
    "0 < unat (countdown s)" "unat (countdown s) \<le> unat (countdownPeriod s)"
    using assms by (auto simp: timers_ok_def timer_ok_def word_less_nat_alt word_le_nat_alt)
  then show ?thesis by (simp add: now_def)
qed

section \<open>One pass over the timers\<close>

definition due :: "nat \<Rightarrow> bx_timer \<Rightarrow> bool" where
  "due T t \<longleftrightarrow> active t \<and> unat (timeToFire t) = T"

definition expire :: "nat \<Rightarrow> bx_timer \<Rightarrow> bx_timer" where
  "expire T t = (if due T t then (if continuous t then t\<lparr>timeToFire := timeToFire t + period t\<rparr> else t\<lparr>active := False\<rparr>) else t)"

lemma scan_timer_spec:
  assumes "active (timer s i) \<longrightarrow> ticksTotal s \<le> timeToFire (timer s i)"
  shows "scan_timer i m s =
     Done (if active (expire (unat (ticksTotal s)) (timer s i)) then min (timeToFire (expire (unat (ticksTotal s)) (timer s i))) m else m,
           due (unat (ticksTotal s)) (timer s i)) (set_timer i (expire (unat (ticksTotal s))) s)"
  using assms by (auto simp: scan_timer_def expire_def due_def set_timer_def Let_def min_def word_unat_eq_iff)

lemma scan_timers_spec:
  assumes "distinct is" "\<forall>i\<in>set is. active (timer s i) \<longrightarrow> ticksTotal s \<le> timeToFire (timer s i)"
  defines "e \<equiv> \<lambda>i. expire (unat (ticksTotal s)) (timer s i)"
  shows "\<exists>m'. scan_timers is m s =
      Done (m', filter (\<lambda>i. due (unat (ticksTotal s)) (timer s i)) is)
        (s\<lparr>timer := (\<lambda>i. if i \<in> set is then e i else timer s i)\<rparr>) \<and>
      m' \<le> m \<and> (\<forall>i\<in>set is. active (e i) \<longrightarrow> m' \<le> timeToFire (e i)) \<and>
      (m' = m \<or> (\<exists>i\<in>set is. active (e i) \<and> m' = timeToFire (e i)))"
  using assms(1,2) unfolding e_def
proof (induction "is" arbitrary: s m)
  case Nil
  show ?case by simp
next
  case (Cons i "is")
  let ?T = "unat (ticksTotal s)" and ?s = "set_timer i (expire (unat (ticksTotal s))) s"
  let ?e = "expire ?T (timer s i)"
  define m1 where "m1 = (if active ?e then min (timeToFire ?e) m else m)"
  have scan: "scan_timer i m s = Done (m1, due ?T (timer s i)) ?s"
    unfolding m1_def by (rule scan_timer_spec) (use Cons.prems in simp)
  have same: "timer ?s j = timer s j" if "j \<in> set is" for j
    using that Cons.prems(1) by auto
  have "\<forall>j\<in>set is. active (timer ?s j) \<longrightarrow> ticksTotal s \<le> timeToFire (timer ?s j)"
    using Cons.prems(2) by (metis list.set_intros(2) same)
  with Cons.IH [where s = "?s" and m = m1, unfolded timer_set_timer(5)] Cons.prems(1)
  obtain m' where m': "scan_timers is m1 ?s = Done (m', filter (\<lambda>i. due ?T (timer ?s i)) is)
        (?s\<lparr>timer := (\<lambda>j. if j \<in> set is then expire ?T (timer ?s j) else timer ?s j)\<rparr>)"
      "m' \<le> m1" "\<forall>j\<in>set is. active (expire ?T (timer ?s j)) \<longrightarrow> m' \<le> timeToFire (expire ?T (timer ?s j))"
      "m' = m1 \<or> (\<exists>j\<in>set is. active (expire ?T (timer ?s j)) \<and> m' = timeToFire (expire ?T (timer ?s j)))"
    by auto
  have filt: "filter (\<lambda>i. due ?T (timer ?s i)) is = filter (\<lambda>i. due ?T (timer s i)) is"
    by (rule filter_cong) (simp_all only: same)
  have st: "?s\<lparr>timer := (\<lambda>j. if j \<in> set is then expire ?T (timer ?s j) else timer ?s j)\<rparr> =
      s\<lparr>timer := (\<lambda>j. if j \<in> set (i # is) then expire ?T (timer s j) else timer s j)\<rparr>"
    using Cons.prems(1) unfolding set_timer_def
    by (auto intro!: arg_cong [where f = "\<lambda>f. s\<lparr>timer := f\<rparr>"])
  have m1: "m1 \<le> m" "active ?e \<longrightarrow> m1 \<le> timeToFire ?e" "m1 = m \<or> active ?e \<and> m1 = timeToFire ?e"
    by (auto simp: m1_def min_def)
  have m3: "\<forall>j\<in>set is. active (expire ?T (timer s j)) \<longrightarrow> m' \<le> timeToFire (expire ?T (timer s j))"
    and m4: "m' = m1 \<or> (\<exists>j\<in>set is. active (expire ?T (timer s j)) \<and> m' = timeToFire (expire ?T (timer s j)))"
    using m'(3,4) by (simp_all add: same del: timer_set_timer)
  show ?case
  proof (intro exI conjI)
    show "scan_timers (i # is) m s = Done (m', filter (\<lambda>i. due ?T (timer s i)) (i # is))
        (s\<lparr>timer := (\<lambda>j. if j \<in> set (i # is) then expire ?T (timer s j) else timer s j)\<rparr>)"
      using scan m'(1) unfolding filt st by simp
    show "m' \<le> m" using m'(2) m1(1) by simp
    show "\<forall>j\<in>set (i # is). active (expire ?T (timer s j)) \<longrightarrow> m' \<le> timeToFire (expire ?T (timer s j))"
      using m3 m'(2) m1(2) by auto
    show "m' = m \<or> (\<exists>j\<in>set (i # is). active (expire ?T (timer s j)) \<and> m' = timeToFire (expire ?T (timer s j)))"
      using m4 m1(3) by auto
  qed
qed

lemma scan_timers_at:
  assumes "ticksTotal s = T" "timer s = ts" "\<forall>i<n. active (ts i) \<longrightarrow> T \<le> timeToFire (ts i)"
  obtains m' where "scan_timers [0..<n] m s = Done (m', filter (\<lambda>i. due (unat T) (ts i)) [0..<n])
        (s\<lparr>timer := (\<lambda>i. if i < n then expire (unat T) (ts i) else ts i)\<rparr>)"
      "\<And>i. i < n \<Longrightarrow> active (expire (unat T) (ts i)) \<Longrightarrow> m' \<le> timeToFire (expire (unat T) (ts i))"
      "m' = m \<or> (\<exists>i<n. active (expire (unat T) (ts i)) \<and> m' = timeToFire (expire (unat T) (ts i)))"
proof -
  let ?e = "\<lambda>i. expire (unat T) (ts i)"
  obtain m' where m': "scan_timers [0..<n] m s = Done (m', filter (\<lambda>i. due (unat T) (ts i)) [0..<n])
        (s\<lparr>timer := (\<lambda>i. if i \<in> set [0..<n] then ?e i else ts i)\<rparr>)"
      "\<forall>i\<in>set [0..<n]. active (?e i) \<longrightarrow> m' \<le> timeToFire (?e i)"
      "m' = m \<or> (\<exists>i\<in>set [0..<n]. active (?e i) \<and> m' = timeToFire (?e i))"
    using scan_timers_spec [of "[0..<n]" s m] assms(3) unfolding assms(1,2) by auto
  show thesis
    by (rule that [of m']) (use m' in auto)
qed

section \<open>A tick\<close>

definition due_timers :: "'d pc_system \<Rightarrow> nat list" where
  "due_timers s = filter (\<lambda>i. due (now s + 1) (timer s i)) [0..<numTimers s]"

lemma timer_ok_expire:
  assumes "timer_ok (unat T) t" "unat T \<le> horizon"
  shows "active (expire (unat T) t) \<Longrightarrow> T < timeToFire (expire (unat T) t)"
    "inUse (expire (unat T) t) = inUse t" "funct (expire (unat T) t) = funct t" "period (expire (unat T) t) = period t"
proof -
  have next_time: "unat (timeToFire t + period t) = unat T + unat (period t)" "0 < unat (period t)"
    if "due (unat T) t"
    using that assms by (auto simp: unat_plus due_def timer_ok_def word_less_nat_alt)
  show "T < timeToFire (expire (unat T) t)" if "active (expire (unat T) t)"
    using that assms next_time
    by (auto simp: expire_def timer_ok_def due_def word_less_nat_alt split: if_splits)
qed (simp_all add: expire_def)

lemma expire_active: "active (expire T t) \<Longrightarrow> active t"
  by (simp add: expire_def split: if_splits)

lemma heartbeat_expire:
  assumes "timer_ok (unat T) t" "unat T \<le> horizon" "heartbeat base t" "base \<le> unat T"
  shows "heartbeat (unat T) (expire (unat T) t)"
  using assms by (auto simp: heartbeat_def expire_def due_def timer_ok_def unat_plus)

lemma event_spec:
  assumes ok: "timers_ok h s" and hz: "now s < horizon" and c: "countdown s = 1"
  shows "\<exists>u. pc_tick1 call s = call_timers call (numTimers s) (due_timers s) u \<and> timers_ok h u \<and>
    now u = now s + 1 \<and> numTimers u = numTimers s \<and> devices u = devices s \<and>
    (\<forall>i<numTimers s. timer u i = expire (now s + 1) (timer s i))"
proof -
  define T where "T = ticksTotal s + ucast (countdownPeriod s)"
  have P: "0 < unat (countdownPeriod s)" "unat (countdownPeriod s) < 2 ^ 32"
    using ok c unsigned_less [of "countdownPeriod s", where 'a = nat]
    by (auto simp: timers_ok_def word_le_nat_alt)
  have tt: "unat (ticksTotal s) \<le> horizon" using ok by (simp add: timers_ok_def)
  have T: "unat T = now s + 1" "unat T = unat (ticksTotal s) + unat (countdownPeriod s)"
    unfolding T_def using P tt by (simp_all add: now_def c unat_plus)
  then have Th: "unat T \<le> horizon" using hz by simp
  have t_ok: "timer_ok (unat T) (timer s i)" if "i < numTimers s" for i
    using ok that by (simp add: timers_ok_def T(2))
  let ?e = "\<lambda>i. expire (unat T) (timer s i)"
  let ?s = "s\<lparr>countdown := 0, ticksTotal := T\<rparr>"
  have after: "active (?e i) \<longrightarrow> T < timeToFire (?e i)" if "i < numTimers s" for i
    using timer_ok_expire(1) [OF t_ok [OF that] Th] by simp
  have "\<forall>i<numTimers s. active (timer s i) \<longrightarrow> T \<le> timeToFire (timer s i)"
    using t_ok by (auto simp: timer_ok_def word_le_nat_alt)
  then obtain m where m: "scan_timers [0..<numTimers s] 0xffffffffffffffff ?s =
      Done (m, filter (\<lambda>i. due (unat T) (timer s i)) [0..<numTimers s])
        (?s\<lparr>timer := (\<lambda>i. if i < numTimers s then ?e i else timer s i)\<rparr>)"
      "\<And>i. i < numTimers s \<Longrightarrow> active (?e i) \<Longrightarrow> m \<le> timeToFire (?e i)"
      "m = 0xffffffffffffffff \<or> (\<exists>i<numTimers s. active (?e i) \<and> m = timeToFire (?e i))"
    using scan_timers_at [of "?s" T "timer s" "numTimers s" "0xffffffffffffffff"] by auto
  have h: "h < numTimers s" "heartbeat (unat T) (?e h)"
    using ok heartbeat_expire [OF t_ok Th, of h "unat (ticksTotal s)"] by (simp_all add: timers_ok_def T(2))
  have mh: "m \<le> timeToFire (?e h)" using m(2) h by (simp add: heartbeat_def)
  have "T < m"
    using m(3)
  proof
    assume "m = 0xffffffffffffffff"
    then show "T < m" using Th by (simp add: word_less_nat_alt)
  next
    assume "\<exists>i<numTimers s. active (?e i) \<and> m = timeToFire (?e i)"
    then show "T < m" using after by auto
  qed
  moreover have "unat m < unat T + 2 ^ 32"
    using mh h(2) by (auto simp: heartbeat_def word_le_nat_alt)
  ultimately have gap: "0 < unat (m - T)" "unat (m - T) < 2 ^ 32" "unat T + unat (m - T) = unat m"
    by (auto simp: unat_sub_if' word_less_nat_alt)
  define c' where "c' = (ucast (m - T) :: Bit32u)"
  have c': "unat c' = unat (m - T)"
    using gap(2) by (simp add: c'_def unsigned_ucast_eq take_bit_nat_eq_self)
  define u where "u = s\<lparr>ticksTotal := T, timer := (\<lambda>i. if i < numTimers s then ?e i else timer s i),
     countdown := c', countdownPeriod := c'\<rparr>"
  have due: "due_timers s = filter (\<lambda>i. due (unat T) (timer s i)) [0..<numTimers s]"
    by (simp add: due_timers_def T(1))
  have run: "pc_tick1 call s = call_timers call (numTimers s) (due_timers s) u"
    using m(1) c unfolding due u_def c'_def
    by (simp add: pc_tick1_def countdownEvent_def and_then_def T_def [symmetric])
  have "timer_ok (unat T + unat c') (?e i)" if i: "i < numTimers s" for i
    using t_ok [OF i] after [OF i] m(2) i timer_ok_expire(2,3,4) [OF t_ok [OF i] Th]
    by (auto dest: expire_active simp: timer_ok_def c' gap(3) word_le_nat_alt)
  then have "timers_ok h u"
    using ok h Th gap(1) c' unfolding timers_ok_def u_def
    by (auto simp: word_less_nat_alt)
  moreover have "now u = now s + 1"
    using T(1) by (simp add: now_def u_def)
  moreover have "\<forall>i<numTimers s. timer u i = expire (now s + 1) (timer s i)"
    unfolding T(1) [symmetric] by (simp add: u_def)
  moreover have "numTimers u = numTimers s" "devices u = devices s"
    by (simp_all add: u_def)
  ultimately show ?thesis using run by blast
qed

lemma quiet_tick:
  assumes ok: "timers_ok h s" and c: "countdown s \<noteq> 1"
  shows "pc_tick1 call s = Done () (s\<lparr>countdown := countdown s - 1\<rparr>)"
    "timers_ok h (s\<lparr>countdown := countdown s - 1\<rparr>)" "now (s\<lparr>countdown := countdown s - 1\<rparr>) = now s + 1"
    "due_timers s = []" "i < numTimers s \<Longrightarrow> expire (now s + 1) (timer s i) = timer s i"
proof -
  have c2: "unat (countdown s - 1) = unat (countdown s) - 1" "1 < unat (countdown s)"
    "unat (countdown s) \<le> unat (countdownPeriod s)"
    using ok c by (auto simp: timers_ok_def unat_sub_if' word_less_nat_alt word_le_nat_alt word_unat_eq_iff)
  show "pc_tick1 call s = Done () (s\<lparr>countdown := countdown s - 1\<rparr>)"
    using c2 by (auto simp: pc_tick1_def)
  show "timers_ok h (s\<lparr>countdown := countdown s - 1\<rparr>)"
    using ok c2 by (auto simp: timers_ok_def word_less_nat_alt word_le_nat_alt)
  show "now (s\<lparr>countdown := countdown s - 1\<rparr>) = now s + 1"
    using c2 by (simp add: now_def)
  have late: "\<not> due (now s + 1) (timer s i)" if "i < numTimers s" for i
    using ok that c2 by (auto simp: timers_ok_def timer_ok_def due_def now_def)
  then show "due_timers s = []" by (simp add: due_timers_def filter_empty_conv)
  show "expire (now s + 1) (timer s i) = timer s i" if "i < numTimers s"
    using late [OF that] by (simp add: expire_def)
qed

lemma tick_spec:
  assumes ok: "timers_ok h s" and hz: "now s < horizon"
  shows "\<exists>u. pc_tick1 call s = call_timers call (numTimers s) (due_timers s) u \<and> timers_ok h u \<and>
    now u = now s + 1 \<and> numTimers u = numTimers s \<and> devices u = devices s \<and>
    (\<forall>i<numTimers s. timer u i = expire (now s + 1) (timer s i))"
proof (cases "countdown s = 1")
  case False
  note quiet = quiet_tick [OF ok False]
  show ?thesis
    by (rule exI [of _ "s\<lparr>countdown := countdown s - 1\<rparr>"]) (use quiet in simp)
qed (rule event_spec [OF ok hz])

section \<open>The interface to the devices\<close>

text \<open>
  What a timer callback may do: work on its device and reprogram timers, at the time it is called,
  without adding or removing any.
\<close>

definition well_behaved :: "nat \<Rightarrow> (unit, 'd pc_system) routine \<Rightarrow> bool" where
  "well_behaved h m \<longleftrightarrow> (\<forall>s. timers_ok h s \<longrightarrow>
     (\<exists>t. m s = Done () t \<and> timers_ok h t \<and> now t = now s \<and> numTimers t = numTimers s \<and>
       (\<forall>i<numTimers s. inUse (timer t i) = inUse (timer s i) \<and> funct (timer t i) = funct (timer s i))))"

lemma triggered_irrelevant [simp]:
  "timers_ok h (s\<lparr>triggeredTimer := i\<rparr>) = timers_ok h s" "now (s\<lparr>triggeredTimer := i\<rparr>) = now s"
  by (simp_all add: timers_ok_def now_def)

locale timer_clients =
  fixes call :: "'d callbacks" and h :: nat
  assumes behaved: "well_behaved h (call f)"
begin

lemma call_timer:
  assumes "timers_ok h s" "i < numTimers s" "inUse (timer s i)"
  shows "\<exists>t. call_timer call i s = Done () t \<and> timers_ok h t \<and> now t = now s \<and> numTimers t = numTimers s \<and>
     (\<forall>i<numTimers s. inUse (timer t i) = inUse (timer s i) \<and> funct (timer t i) = funct (timer s i))"
proof -
  obtain f where f: "funct (timer s i) = Some f"
    using assms by (auto simp: timers_ok_def timer_ok_def)
  then show ?thesis
    using behaved [of f, unfolded well_behaved_def, rule_format, of "s\<lparr>triggeredTimer := i\<rparr>"] assms(1)
    by (auto simp: call_timer_def and_then_def)
qed

lemma call_timers:
  assumes "timers_ok h s" "numTimers s = n" "\<forall>i\<in>set is. i < n \<and> inUse (timer s i)"
  shows "\<exists>t. call_timers call n is s = Done () t \<and> timers_ok h t \<and> now t = now s \<and> numTimers t = n"
  using assms
proof (induction "is" arbitrary: s)
  case (Cons i "is")
  then obtain t where t: "call_timer call i s = Done () t" "timers_ok h t" "now t = now s" "numTimers t = n"
     "\<forall>i<n. inUse (timer t i) = inUse (timer s i)"
    using call_timer [of s i] by auto
  with Cons.prems have "\<forall>i\<in>set is. i < n \<and> inUse (timer t i)" by auto
  from Cons.IH [OF t(2,4) this] t show ?case by simp
qed simp

lemma tick:
  assumes "timers_ok h s" "now s < horizon"
  shows "\<exists>t. pc_tick1 call s = Done () t \<and> timers_ok h t \<and> now t = now s + 1 \<and> numTimers t = numTimers s"
proof -
  obtain u where u: "pc_tick1 call s = call_timers call (numTimers s) (due_timers s) u" "timers_ok h u"
      "now u = now s + 1" "numTimers u = numTimers s"
      "\<forall>i<numTimers s. timer u i = expire (now s + 1) (timer s i)"
    using tick_spec [OF assms] by blast
  have "inUse (timer u i)" if "i < numTimers s" "due (now s + 1) (timer s i)" for i
    using that u(5) assms(1) by (auto simp: timers_ok_def timer_ok_def due_def expire_def)
  then have "\<forall>i\<in>set (due_timers s). i < numTimers s \<and> inUse (timer u i)"
    by (auto simp: due_timers_def)
  with u call_timers [OF u(2,4)] show ?thesis by simp
qed

end

section \<open>Many ticks\<close>

fun ticks :: "nat \<Rightarrow> 'd callbacks \<Rightarrow> (unit, 'd pc_system) routine" where
  "ticks 0 call = ret ()"
| "ticks (Suc n) call = and_then (pc_tick1 call) (\<lambda>_. ticks n call)"

lemma and_then_return: "and_then m ret = m"
  by (rule ext) (simp add: and_then_def ret_def split: outcome.splits)

lemma ticks_add: "ticks (m + n) call = and_then (ticks m call) (\<lambda>_. ticks n call)"
  by (induction m) (simp_all add: and_then_assoc)

lemma ticks_quiet:
  assumes "timers_ok h s" "n < unat (countdown s)"
  shows "ticks n call s = Done () (s\<lparr>countdown := countdown s - word_of_nat n\<rparr>)"
  using assms
proof (induction n arbitrary: s)
  case (Suc n)
  let ?s = "s\<lparr>countdown := countdown s - 1\<rparr>"
  have c: "countdown s \<noteq> 1" "n < unat (countdown ?s)"
    using Suc.prems by (auto simp: unat_sub_if' word_le_nat_alt)
  note q = quiet_tick [OF Suc.prems(1) c(1)]
  from q(1) Suc.IH [OF q(2) c(2)]
  show ?case by (simp add: algebra_simps)
qed simp

context timer_clients
begin

lemma ticks_ok:
  assumes "timers_ok h s" "now s + n \<le> horizon"
  shows "\<exists>t. ticks n call s = Done () t \<and> timers_ok h t \<and> now t = now s + n \<and> numTimers t = numTimers s"
  using assms
proof (induction n arbitrary: s)
  case (Suc n)
  then obtain t where "pc_tick1 call s = Done () t" "timers_ok h t" "now t = now s + 1" "numTimers t = numTimers s"
    using tick [of s] by auto
  with Suc.IH [of t] Suc.prems show ?case by simp
qed simp

text \<open>A countdown is over after as many single ticks as it shows.\<close>

lemma countdown_ticks:
  assumes "timers_ok h s"
  shows "ticks (unat (countdown s)) call s = countdownEvent call (s\<lparr>countdown := 0\<rparr>)"
proof -
  define n where "n = unat (countdown s) - 1"
  have n: "unat (countdown s) = n + 1" "n < unat (countdown s)" "countdown s - word_of_nat n = 1"
    using assms by (auto simp: n_def timers_ok_def word_less_nat_alt of_nat_diff)
  show ?thesis
    unfolding n(1) ticks_add
    using ticks_quiet [OF assms n(2), of call] n(3)
    by (simp add: and_then_return pc_tick1_def)
qed

lemma tickn:
  assumes "timers_ok h s" "now s + unat n \<le> horizon" "unat n < k"
  shows "pc_tickn k call n s = and_then (ticks (unat n) call) (\<lambda>_. ret True) s"
  using assms
proof (induction k arbitrary: s n)
  case (Suc k)
  show ?case
  proof (cases "n \<ge> ucast (countdown s)")
    case False
    then have n: "unat n < unat (countdown s)" by (simp add: word_le_nat_alt)
    moreover have "word_of_nat (unat n) = (ucast n :: Bit32u)" by (simp add: word_unat_eq_iff unsigned_ucast_eq unat_of_nat take_bit_eq_mod)
    ultimately show ?thesis
      using False ticks_quiet [OF Suc.prems(1) n, of call] by simp
  next
    case True
    define c where "c = unat (countdown s)"
    define n' where "n' = n - ucast (countdown s)"
    have n': "unat n = c + unat n'" "0 < c"
      using True Suc.prems(1)
      by (auto simp: n'_def c_def unat_sub_if' word_le_nat_alt timers_ok_def word_less_nat_alt)
    obtain t where t: "ticks c call s = Done () t" "timers_ok h t" "now t = now s + c"
      using ticks_ok [of s c] Suc.prems n'(1) by auto
    have "pc_tickn (Suc k) call n s = and_then (ticks c call) (\<lambda>_. pc_tickn k call n') s"
      using True countdown_ticks [OF Suc.prems(1)] by (simp add: and_then_def n'_def c_def)
    also have "\<dots> = and_then (ticks (unat n') call) (\<lambda>_. ret True) t"
      using t Suc.IH [of t n'] Suc.prems n' by (simp add: ret_def)
    also have "\<dots> = and_then (ticks (unat n) call) (\<lambda>_. ret True) s"
      unfolding n'(1) ticks_add and_then_assoc using t(1) by simp
    finally show ?thesis .
  qed
qed simp

end

section \<open>The operations keep the invariant\<close>

lemma set_timer_ok:
  assumes ok: "timers_ok h s" and i: "i \<le> numTimers s" "i < BX_MAX_TIMERS"
    and t: "\<And>limit. limit \<le> unat (ticksTotal s) + unat (countdownPeriod s) \<Longrightarrow> limit \<le> now s + unat k \<Longrightarrow> timer_ok limit t"
    and h: "i = h \<Longrightarrow> heartbeat (unat (ticksTotal s)) t" and k: "0 < k"
  shows "timers_ok h (skew k (s\<lparr>timer := (timer s)(i := t), numTimers := max (numTimers s) (i + 1)\<rparr>))"
    "now (skew k (s\<lparr>timer := (timer s)(i := t), numTimers := max (numTimers s) (i + 1)\<rparr>)) = now s"
proof -
  let ?s = "s\<lparr>timer := (timer s)(i := t), numTimers := max (numTimers s) (i + 1)\<rparr>"
  have cc: "unat (countdown s) \<le> unat (countdownPeriod s)" "0 < unat (countdown s)"
    using ok by (auto simp: timers_ok_def word_le_nat_alt word_less_nat_alt)
  have later: "timer_ok limit (timer s j)" if "j < numTimers s" "limit \<le> unat (ticksTotal s) + unat (countdownPeriod s)" for j limit
    using ok that by (auto simp: timers_ok_def timer_ok_def)
  show "timers_ok h (skew k ?s)"
  proof (cases "k < ucast (countdown s)")
    case False
    then have "unat (countdown s) \<le> unat k" by (simp add: word_less_nat_alt not_less)
    then have "timer_ok (unat (ticksTotal s) + unat (countdownPeriod s)) t"
      using cc by (intro t) (auto simp: now_def)
    then show ?thesis
      using False ok i h by (auto simp: skew_def timers_ok_def less_Suc_eq max_def split: if_splits)
  next
    case True
    then have kc: "unat k < unat (countdown s)" "unat (ucast k :: Bit32u) = unat k"
      using unsigned_less [of "countdown s", where 'a = nat]
      by (auto simp: word_less_nat_alt unsigned_ucast_eq take_bit_nat_eq_self)
    define p where "p = countdownPeriod s - (countdown s - ucast k)"
    have p: "unat p = unat (countdownPeriod s) - (unat (countdown s) - unat k)"
      using cc kc unfolding p_def by (simp add: unat_sub_if' word_le_nat_alt)
    then have lim: "unat (ticksTotal s) + unat p \<le> unat (ticksTotal s) + unat (countdownPeriod s)"
      "unat (ticksTotal s) + unat p \<le> now s + unat k"
      using cc kc by (auto simp: now_def)
    have skew: "skew k ?s = ?s\<lparr>countdownPeriod := p, countdown := ucast k\<rparr>"
      using True by (simp add: skew_def p_def)
    have "0 < (ucast k :: Bit32u)" "(ucast k :: Bit32u) \<le> p"
      using k kc p cc by (auto simp: word_less_nat_alt word_le_nat_alt)
    then show ?thesis
      unfolding skew using ok i h t [OF lim] later [OF _ lim(1)]
      by (auto simp: timers_ok_def less_Suc_eq max_def split: if_splits)
  qed
  show "now (skew k ?s) = now s"
    using cc unsigned_less [of "countdown s", where 'a = nat]
    by (auto simp: now_def skew_def word_less_nat_alt unat_sub_if' word_le_nat_alt unsigned_ucast_eq take_bit_nat_eq_self)
qed

lemma set_inactive_ok:
  assumes ok: "timers_ok h s" and i: "i \<le> numTimers s" "i < BX_MAX_TIMERS" "i \<noteq> h"
    and t: "\<not> active t" "inUse t \<longrightarrow> funct t \<noteq> None \<and> 0 < period t"
  shows "timers_ok h (s\<lparr>timer := (timer s)(i := t), numTimers := max (numTimers s) (i + 1)\<rparr>)"
    "now (s\<lparr>timer := (timer s)(i := t), numTimers := max (numTimers s) (i + 1)\<rparr>) = now s"
  using ok i t by (auto simp: timers_ok_def timer_ok_def now_def less_Suc_eq max_def split: if_splits)

lemma skew_fields [simp]:
  "timer (skew k s) = timer s" "numTimers (skew k s) = numTimers s" "devices (skew k s) = devices s"
  by (simp_all add: skew_def)

lemma set_timer_update: "i < numTimers s \<Longrightarrow> set_timer i f s =
    s\<lparr>timer := (timer s)(i := f (timer s i)), numTimers := max (numTimers s) (i + 1)\<rparr>"
  by (simp add: set_timer_def max_def)

lemma heartbeat_in_use:
  assumes "timers_ok h s"
  shows "active (timer s h)" "inUse (timer s h)" "h < numTimers s"
  using assms by (auto simp: timers_ok_def heartbeat_def timer_ok_def)

lemma new_time:
  assumes "timers_ok h s" "unat k \<le> horizon"
  shows "unat (time_ticks s + k) = now s + unat k"
proof -
  have "now s \<le> horizon + 2 ^ 32"
    using assms(1) unsigned_less [of "countdownPeriod s", where 'a = nat] by (auto simp: timers_ok_def now_def)
  with assms unat_time_ticks [OF assms(1)] show ?thesis by (simp add: unat_plus)
qed

definition at_least_1 :: "Bit64u \<Rightarrow> Bit64u" where
  "at_least_1 k = (if k < 1 then 1 else k)"

lemma at_least_1: "0 < at_least_1 k" "unat k \<le> horizon \<Longrightarrow> unat (at_least_1 k) \<le> horizon"
  by (auto simp: at_least_1_def word_less_nat_alt)

lemma activate_ok:
  assumes ok: "timers_ok h s" and i: "i < numTimers s" "inUse (timer s i)" "i \<noteq> h" and k: "unat k \<le> horizon"
  shows "\<exists>t. activate_timer_ticks i k cont s = Done () t \<and> timers_ok h t \<and> now t = now s \<and>
    timer t = (timer s)(i := (timer s i)\<lparr>period := at_least_1 k, timeToFire := time_ticks s + at_least_1 k,
      active := True, continuous := cont\<rparr>) \<and> numTimers t = numTimers s \<and> devices t = devices s"
proof -
  let ?k = "at_least_1 k"
  let ?t = "(timer s i)\<lparr>period := ?k, timeToFire := time_ticks s + ?k, active := True, continuous := cont\<rparr>"
  let ?s = "s\<lparr>timer := (timer s)(i := ?t), numTimers := max (numTimers s) (i + 1)\<rparr>"
  have use: "funct (timer s i) \<noteq> None" "0 < period (timer s i)" and small: "i < BX_MAX_TIMERS"
    using ok i by (auto simp: timers_ok_def timer_ok_def)
  have t: "timer_ok limit ?t" if "limit \<le> now s + unat ?k" for limit
    using that i use at_least_1 [of k] k new_time [OF ok at_least_1(2) [OF k]] by (simp add: timer_ok_def)
  have ok': "timers_ok h (skew ?k ?s)" "now (skew ?k ?s) = now s"
    by (rule set_timer_ok [OF ok]; use i t small at_least_1 in \<open>simp\<close>)+
  have "activate_timer_ticks i k cont s = Done () (skew ?k ?s)"
    using i use by (simp add: activate_timer_ticks_def Let_def at_least_1_def set_timer_update word_less_1)
  with ok' i show ?thesis by (simp add: max_def)
qed

lemma deactivate_ok:
  assumes ok: "timers_ok h s" and i: "i < numTimers s" "i \<noteq> h"
  shows "\<exists>t. deactivate_timer i s = Done () t \<and> timers_ok h t \<and> now t = now s \<and>
    timer t = (timer s)(i := (timer s i)\<lparr>active := False\<rparr>) \<and> numTimers t = numTimers s \<and> devices t = devices s"
proof -
  have "inUse (timer s i) \<longrightarrow> funct (timer s i) \<noteq> None \<and> 0 < period (timer s i)" "i < BX_MAX_TIMERS"
    using ok i by (auto simp: timers_ok_def timer_ok_def)
  with set_inactive_ok [OF ok, of i "(timer s i)\<lparr>active := False\<rparr>"] i show ?thesis
    by (simp add: deactivate_timer_def set_timer_update max_def)
qed

lemma unregister_ok:
  assumes ok: "timers_ok h s" and i: "i < numTimers s" "i \<noteq> 0" "inUse (timer s i)" "\<not> active (timer s i)"
  shows "\<exists>t. unregisterTimer i s = Done True t \<and> timers_ok h t \<and> now t = now s \<and> \<not> inUse (timer t i) \<and>
    (\<forall>j. j \<noteq> i \<longrightarrow> timer t j = timer s j) \<and> numTimers t = numTimers s \<and> devices t = devices s"
proof -
  let ?t = "(timer s i)\<lparr>inUse := False, period := 0x7fffffffffffffff, timeToFire := 0x7fffffffffffffff,
      continuous := False, funct := None\<rparr>"
  have "i \<noteq> h" "i < BX_MAX_TIMERS"
    using heartbeat_in_use [OF ok] i ok by (auto simp: timers_ok_def)
  with set_inactive_ok [OF ok, of i ?t] i show ?thesis
    by (simp add: unregisterTimer_def set_timer_update max_def)
qed

lemma free_slot:
  assumes "i = length (takeWhile P [0..<n])"
  shows "i \<le> n" "i < n \<Longrightarrow> \<not> P i" "j < i \<Longrightarrow> P j"
proof -
  have "i \<le> length [0..<n]" unfolding assms by (rule length_takeWhile_le)
  then show "i \<le> n" by simp
  show "\<not> P i" if "i < n"
    using nth_length_takeWhile [of P "[0..<n]"] that unfolding assms by simp
  show "P j" if "j < i"
    using set_takeWhileD [of j P "[0..<n]"] nth_mem [of j "takeWhile P [0..<n]"] takeWhile_nth [of j P "[0..<n]"] that \<open>i \<le> n\<close>
    unfolding assms by auto
qed

lemma register_ok:
  assumes ok: "timers_ok h s" and n: "numTimers s < BX_MAX_TIMERS" and f: "f \<noteq> None" and k: "unat k \<le> horizon"
  shows "\<exists>i t. register_timer_ticks f k cont act s = Done i t \<and> timers_ok h t \<and> now t = now s \<and>
    i \<le> numTimers s \<and> \<not> (i < numTimers s \<and> inUse (timer s i)) \<and>
    timer t = (timer s)(i := \<lparr>inUse = True, period = at_least_1 k, timeToFire = time_ticks s + at_least_1 k,
      active = act, continuous = cont, funct = f\<rparr>) \<and> numTimers t = max (numTimers s) (i + 1) \<and> devices t = devices s"
proof -
  define i where "i = length (takeWhile (\<lambda>i. inUse (timer s i)) [0..<numTimers s])"
  note slot = free_slot [OF i_def]
  let ?k = "at_least_1 k"
  let ?t = "\<lparr>inUse = True, period = ?k, timeToFire = time_ticks s + ?k, active = act, continuous = cont, funct = f\<rparr>"
  let ?s = "s\<lparr>timer := (timer s)(i := ?t), numTimers := max (numTimers s) (i + 1)\<rparr>"
  have i: "i \<le> numTimers s" "i < BX_MAX_TIMERS" "i \<noteq> h"
    using slot heartbeat_in_use [OF ok] n by auto
  have t: "timer_ok limit ?t" if "limit \<le> now s + unat ?k" for limit
    using that f at_least_1 [of k] k new_time [OF ok at_least_1(2) [OF k]] by (simp add: timer_ok_def)
  let ?u = "if act then skew ?k ?s else ?s"
  have "timers_ok h ?u \<and> now ?u = now s"
  proof (cases act)
    case True
    have "timers_ok h (skew ?k ?s)" "now (skew ?k ?s) = now s"
      by (rule set_timer_ok [OF ok]; use i t at_least_1 in \<open>simp\<close>)+
    with True show ?thesis by simp
  next
    case False
    with set_inactive_ok [OF ok i, of ?t] f at_least_1(1) [of k] show ?thesis by simp
  qed
  moreover have "register_timer_ticks f k cont act s = Done i ?u"
    using n f i(1) by (auto simp: register_timer_ticks_def Let_def i_def [symmetric] at_least_1_def skew_def max_def)
  ultimately show ?thesis
    using slot by (intro exI [of _ i] exI [of _ ?u]) auto
qed

section \<open>Callbacks\<close>

lemma nullTimer_behaved: "well_behaved h nullTimer"
  by (simp add: well_behaved_def nullTimer_def)

interpretation null_timers: timer_clients "\<lambda>_. nullTimer" h for h
  by unfold_locales (rule nullTimer_behaved)

text \<open>A callback that starts one of the timers anew, as the one-shot timers of the devices do.\<close>

lemma rearm_behaved:
  assumes "unat k \<le> horizon" "i \<noteq> h"
  shows "well_behaved h (\<lambda>s. if i < numTimers s \<and> inUse (timer s i) then activate_timer_ticks i k cont s else Done () s)"
  unfolding well_behaved_def
proof (intro allI impI)
  fix s :: "'a pc_system" assume ok: "timers_ok h s"
  show "\<exists>t. (if i < numTimers s \<and> inUse (timer s i) then activate_timer_ticks i k cont s else Done () s) = Done () t \<and>
    timers_ok h t \<and> now t = now s \<and> numTimers t = numTimers s \<and>
    (\<forall>i<numTimers s. inUse (timer t i) = inUse (timer s i) \<and> funct (timer t i) = funct (timer s i))"
  proof (cases "i < numTimers s \<and> inUse (timer s i)")
    case True
    with activate_ok [OF ok, of i k cont] assms
    obtain t where t: "activate_timer_ticks i k cont s = Done () t" "timers_ok h t" "now t = now s"
      "numTimers t = numTimers s" "timer t = (timer s)(i := (timer s i)\<lparr>period := at_least_1 k,
         timeToFire := time_ticks s + at_least_1 k, active := True, continuous := cont\<rparr>)"
      by auto
    with True show ?thesis by simp
  qed (use ok in auto)
qed

interpretation rearming: timer_clients
    "\<lambda>i s. if i \<noteq> 0 \<and> i < numTimers s \<and> inUse (timer s i) then activate_timer_ticks i 1000 False s else Done () s" 0
proof
  fix i
  show "well_behaved 0 (\<lambda>s :: 'a pc_system. if i \<noteq> 0 \<and> i < numTimers s \<and> inUse (timer s i) then activate_timer_ticks i 1000 False s else Done () s)"
    using rearm_behaved [of 1000 i 0 False] nullTimer_behaved [of 0]
    by (cases "i = 0") (simp_all add: nullTimer_def ret_def [abs_def])
qed

section \<open>A timer fires when its time comes\<close>

context timer_clients
begin

text \<open>A timer that no callback reprograms comes due at its time and at every period after it.\<close>

lemma comes_due:
  assumes own: "\<And>f s t. call f s = Done () t \<Longrightarrow> timer t i = timer s i"
    and ok: "timers_ok h s" and i: "i < numTimers s" "active (timer s i)" "k = 0 \<or> continuous (timer s i)"
    and T: "T = unat (timeToFire (timer s i)) + k * unat (period (timer s i))" "T \<le> horizon"
  shows "\<exists>u. ticks (T - 1 - now s) call s = Done () u \<and> timers_ok h u \<and> now u = T - 1 \<and> now s < T \<and>
    numTimers u = numTimers s \<and> i \<in> set (due_timers u) \<and> funct (timer u i) = funct (timer s i)"
  using ok i T
proof (induction "T - now s" arbitrary: s k)
  case 0
  then have "now s < unat (timeToFire (timer s i))"
    using active_ahead by blast
  with 0 show ?case by simp
next
  case (Suc d)
  have ahead: "now s < unat (timeToFire (timer s i))"
    using Suc.prems active_ahead by blast
  show ?case
  proof (cases "d = 0")
    case True
    then have T: "T = now s + 1" using Suc.hyps(2) by simp
    have "unat (timeToFire (timer s i)) = T"
      using ahead Suc.prems(5) T by linarith
    then have "i \<in> set (due_timers s)"
      using Suc.prems T by (simp add: due_timers_def due_def)
    then show ?thesis using Suc.prems T by simp
  next
    case False
    then have hz: "now s < horizon" "now s + 1 < T" using Suc.hyps(2) Suc.prems by auto
    obtain u where u: "pc_tick1 call s = call_timers call (numTimers s) (due_timers s) u" "timers_ok h u"
        "now u = now s + 1" "numTimers u = numTimers s"
        "\<forall>i<numTimers s. timer u i = expire (now s + 1) (timer s i)"
      using tick_spec [OF Suc.prems(1) hz(1)] by blast
    obtain t where t: "pc_tick1 call s = Done () t" "timers_ok h t" "now t = now s + 1" "numTimers t = numTimers s"
      using tick [OF Suc.prems(1) hz(1)] by blast
    have keep: "timer v i = timer w i" if "call_timers call n is w = Done () v" for n "is" v w
      using that
    proof (induction "is" arbitrary: w)
      case (Cons j "is")
      then obtain w' where w': "call_timer call j w = Done () w'" "call_timers call n is w' = Done () v"
        by (auto elim: and_then_DoneE)
      then have "timer w' i = timer w i"
        using own by (fastforce simp: call_timer_def and_then_def split: option.splits outcome.splits)
      with Cons.IH [OF w'(2)] show ?case by simp
    qed (auto split: if_splits)
    have ti: "timer t i = expire (now s + 1) (timer s i)"
      using keep [of "numTimers s" "due_timers s" u t] u t(1) Suc.prems(2) by simp
    obtain k' where k': "T = unat (timeToFire (timer t i)) + k' * unat (period (timer t i))" "active (timer t i)"
        "k' = 0 \<or> continuous (timer t i)" "funct (timer t i) = funct (timer s i)"
    proof (cases "due (now s + 1) (timer s i)")
      case False
      with that [of k] ti Suc.prems show thesis by (simp add: expire_def)
    next
      case True
      then have "k \<noteq> 0" using hz(2) Suc.prems(5) by (auto simp: due_def)
      then obtain j where j: "k = Suc j" by (cases k) auto
      with Suc.prems(4) have c: "continuous (timer s i)" by simp
      have "unat (timeToFire (timer s i) + period (timer s i)) = unat (timeToFire (timer s i)) + unat (period (timer s i))"
        using True Suc.prems(1,2) hz(1) by (auto simp: unat_plus due_def timers_ok_def timer_ok_def)
      with that [of j] True c j ti Suc.prems(3,5) show thesis by (simp add: expire_def)
    qed
    have "\<exists>u. ticks (T - 1 - now t) call t = Done () u \<and> timers_ok h u \<and> now u = T - 1 \<and> now t < T \<and>
      numTimers u = numTimers t \<and> i \<in> set (due_timers u) \<and> funct (timer u i) = funct (timer t i)"
      using Suc.hyps(2) Suc.prems(2,6) t k' by (intro Suc.hyps(1)) auto
    moreover have "T - 1 - now s = Suc (T - 1 - now t)" using hz t(3) by simp
    ultimately show ?thesis using t k'(4) by auto
  qed
qed

end

section \<open>Witnesses\<close>

text \<open>
  The machine after construction with slot 0 in use, as the null timer should be, and a timer of
  five ticks for callback 7.
\<close>

definition constructed :: "unit pc_system" where
  "constructed = set_timer 0 (\<lambda>t. t\<lparr>inUse := True\<rparr>) (construct ())"

definition ticking :: "unit pc_system" where
  "ticking = state_of (register_timer_ticks (Some 7) 5 True True constructed)"

lemma constructed_ok: "timers_ok 0 constructed" "now constructed = 0" "numTimers constructed = 1"
  "time_ticks constructed = 0" "inUse (timer constructed 0)"
  by (simp_all add: constructed_def construct_def set_timer_def timers_ok_def timer_ok_def heartbeat_def
      NullTimerInterval_def now_def time_ticks_def)

lemma ticking_ok: "timers_ok 0 ticking" "now ticking = 0" "numTimers ticking = 2"
  "timer ticking 1 = \<lparr>inUse = True, period = 5, timeToFire = 5, active = True, continuous = True, funct = Some 7\<rparr>"
proof -
  obtain i t where t: "register_timer_ticks (Some 7) 5 True True constructed = Done i t" "timers_ok 0 t" "now t = 0"
      "i \<le> 1" "\<not> (i < 1 \<and> inUse (timer constructed i))" "numTimers t = max 1 (i + 1)"
      "timer t = (timer constructed)(i := \<lparr>inUse = True, period = at_least_1 5, timeToFire = 0 + at_least_1 5,
        active = True, continuous = True, funct = Some 7\<rparr>)"
    using register_ok [OF constructed_ok(1), of "Some 7" 5 True True] constructed_ok by auto
  have "i = 1"
  proof (rule ccontr)
    assume "i \<noteq> 1"
    with t(4) have "i = 0" by simp
    with t(5) show False using constructed_ok(5) by simp
  qed
  with t show "timers_ok 0 ticking" "now ticking = 0" "numTimers ticking = 2"
    "timer ticking 1 = \<lparr>inUse = True, period = 5, timeToFire = 5, active = True, continuous = True, funct = Some 7\<rparr>"
    by (simp_all add: ticking_def at_least_1_def)
qed

section \<open>Properties\<close>

text \<open>C32
  On every tick exactly the active timers whose time has come are called back, in the order of
  their slots, after the one-shot ones were switched off and the continuous ones advanced by their
  period: the countdown to the nearest event refines a clock that looks at all timers on every
  tick.  The clock then shows one tick more and the invariant of the timers holds.\<close>

theorem tick_calls_exactly_the_due:
  assumes "timers_ok h s" "now s < horizon"
  shows "\<exists>u. pc_tick1 call s = call_timers call (numTimers s)
       (filter (\<lambda>i. active (timer s i) \<and> unat (timeToFire (timer s i)) = now s + 1) [0..<numTimers s]) u \<and>
    timers_ok h u \<and> now u = now s + 1 \<and> devices u = devices s \<and>
    (\<forall>i<numTimers s. timer u i = expire (now s + 1) (timer s i))"
  using tick_spec [OF assms, of call] unfolding due_timers_def due_def by blast

lemma tick_calls_witness:
  "\<exists>u. pc_tick1 (\<lambda>_. nullTimer) ticking = call_timers (\<lambda>_. nullTimer) (numTimers ticking)
       (filter (\<lambda>i. active (timer ticking i) \<and> unat (timeToFire (timer ticking i)) = now ticking + 1) [0..<numTimers ticking]) u \<and>
    timers_ok 0 u \<and> now u = now ticking + 1 \<and> devices u = devices ticking \<and>
    (\<forall>i<numTimers ticking. timer u i = expire (now ticking + 1) (timer ticking i))"
  by (rule tick_calls_exactly_the_due [OF ticking_ok(1)]) (simp add: ticking_ok)

text \<open>C33
  Advancing the clock by a batch of ticks is the same as that many single ticks, for all callbacks
  that keep to the interface: the loop of tickn ends within as many rounds as ticks and reaches the
  same state.\<close>

theorem tickn_is_ticks:
  assumes "\<And>f. well_behaved h (call f)" "timers_ok h s" "now s + unat n \<le> horizon" "unat n < k"
  shows "\<exists>t. pc_tickn k call n s = Done True t \<and> ticks (unat n) call s = Done () t \<and> now t = now s + unat n"
proof -
  have clients: "timer_clients call h" using assms(1) by (simp add: timer_clients_def)
  obtain t where "ticks (unat n) call s = Done () t" "now t = now s + unat n"
    using timer_clients.ticks_ok [OF clients assms(2,3)] by blast
  with timer_clients.tickn [OF clients assms(2,3,4)] show ?thesis by simp
qed

lemma tickn_is_ticks_witness:
  "\<exists>t. pc_tickn 20 (\<lambda>_. nullTimer) 12 ticking = Done True t \<and> ticks 12 (\<lambda>_. nullTimer) ticking = Done () t \<and> now t = 12"
  using tickn_is_ticks [OF nullTimer_behaved ticking_ok(1), of 12 20] ticking_ok(2) by simp

text \<open>C34
  A running timer fires: if no callback reprograms it, single ticks lead to the tick before its
  time, and on the next tick it is among the timers that are called back.  A continuous timer does
  so again after every further period.\<close>

theorem timer_fires:
  assumes "\<And>f. well_behaved h (call f)"
    and "\<And>f s t. call f s = Done () t \<Longrightarrow> timer t i = timer s i"
    and "timers_ok h s" "i < numTimers s" "active (timer s i)" "k = 0 \<or> continuous (timer s i)"
    and "T = unat (timeToFire (timer s i)) + k * unat (period (timer s i))" "T \<le> horizon"
  shows "\<exists>u v due. ticks (T - 1 - now s) call s = Done () u \<and> now u = T - 1 \<and>
    pc_tick1 call u = call_timers call (numTimers s) due v \<and> i \<in> set due \<and> now v = T \<and>
    funct (timer v i) = funct (timer s i)"
proof -
  have clients: "timer_clients call h" using assms(1) by (simp add: timer_clients_def)
  have "\<exists>u. ticks (T - 1 - now s) call s = Done () u \<and> timers_ok h u \<and> now u = T - 1 \<and> now s < T \<and>
      numTimers u = numTimers s \<and> i \<in> set (due_timers u) \<and> funct (timer u i) = funct (timer s i)"
    by (rule timer_clients.comes_due [OF clients]) (fact assms)+
  then obtain u where u: "ticks (T - 1 - now s) call s = Done () u" "timers_ok h u" "now u = T - 1" "now s < T"
      "numTimers u = numTimers s" "i \<in> set (due_timers u)" "funct (timer u i) = funct (timer s i)"
    by blast
  have hz: "now u < horizon" using u(3,4) assms(8) by linarith
  obtain v where "pc_tick1 call u = call_timers call (numTimers u) (due_timers u) v" "now v = now u + 1"
      "\<forall>i<numTimers u. timer v i = expire (now u + 1) (timer u i)"
    using tick_spec [OF u(2) hz, of call] by blast
  with u assms(4) show ?thesis
    by (intro exI [of _ u] exI [of _ v] exI [of _ "due_timers u"]) (simp add: expire_def)
qed

lemma timer_fires_witness:
  "\<exists>u v due. ticks 14 (\<lambda>_. nullTimer) ticking = Done () u \<and> now u = 14 \<and>
    pc_tick1 (\<lambda>_. nullTimer) u = call_timers (\<lambda>_. nullTimer) 2 due v \<and> 1 \<in> set due \<and> now v = 15 \<and>
    funct (timer v 1) = Some 7"
  using timer_fires [OF nullTimer_behaved _ ticking_ok(1), of 1 2 15] ticking_ok(2,3,4)
  by (simp add: nullTimer_def)

text \<open>
  Registering, activating, deactivating and unregistering a timer keep the invariant of the clock
  and its time, touch no other slot, and a new timer takes a slot not in use.  Only the one timer
  that keeps the clock running is off limits.\<close>

lemma timer_interface_keeps_clock:
  assumes "timers_ok h s" "unat k \<le> horizon"
  shows "(numTimers s < BX_MAX_TIMERS \<longrightarrow>
     (\<exists>i t. register_timer_ticks (Some f) k cont act s = Done i t \<and> timers_ok h t \<and> now t = now s \<and>
       \<not> (i < numTimers s \<and> inUse (timer s i)) \<and> i < numTimers t \<and> inUse (timer t i) \<and> active (timer t i) = act \<and>
       unat (timeToFire (timer t i)) = now s + max 1 (unat k) \<and> (\<forall>j. j \<noteq> i \<longrightarrow> timer t j = timer s j))) \<and>
   (i < numTimers s \<and> inUse (timer s i) \<and> i \<noteq> h \<longrightarrow>
     (\<exists>t. activate_timer_ticks i k cont s = Done () t \<and> timers_ok h t \<and> now t = now s \<and> active (timer t i) \<and>
       unat (timeToFire (timer t i)) = now s + max 1 (unat k) \<and> (\<forall>j. j \<noteq> i \<longrightarrow> timer t j = timer s j))) \<and>
   (i < numTimers s \<and> i \<noteq> h \<longrightarrow>
     (\<exists>t. deactivate_timer i s = Done () t \<and> timers_ok h t \<and> now t = now s \<and> \<not> active (timer t i) \<and>
       (\<forall>j. j \<noteq> i \<longrightarrow> timer t j = timer s j))) \<and>
   (i < numTimers s \<and> i \<noteq> 0 \<and> inUse (timer s i) \<and> \<not> active (timer s i) \<longrightarrow>
     (\<exists>t. unregisterTimer i s = Done True t \<and> timers_ok h t \<and> now t = now s \<and> \<not> inUse (timer t i) \<and>
       (\<forall>j. j \<noteq> i \<longrightarrow> timer t j = timer s j)))"
proof -
  have k: "unat (time_ticks s + at_least_1 k) = now s + max 1 (unat k)"
    using new_time [OF assms(1) at_least_1(2) [OF assms(2)]]
    by (auto simp: at_least_1_def word_less_nat_alt)
  have 1: "\<exists>i t. register_timer_ticks (Some f) k cont act s = Done i t \<and> timers_ok h t \<and> now t = now s \<and>
       \<not> (i < numTimers s \<and> inUse (timer s i)) \<and> i < numTimers t \<and> inUse (timer t i) \<and> active (timer t i) = act \<and>
       unat (timeToFire (timer t i)) = now s + max 1 (unat k) \<and> (\<forall>j. j \<noteq> i \<longrightarrow> timer t j = timer s j)"
    if n: "numTimers s < BX_MAX_TIMERS"
  proof -
    from register_ok [OF assms(1) n _ assms(2), of "Some f" cont act]
    obtain i t where "register_timer_ticks (Some f) k cont act s = Done i t" "timers_ok h t" "now t = now s"
      "\<not> (i < numTimers s \<and> inUse (timer s i))" "numTimers t = max (numTimers s) (i + 1)"
      "timer t = (timer s)(i := \<lparr>inUse = True, period = at_least_1 k, timeToFire = time_ticks s + at_least_1 k,
        active = act, continuous = cont, funct = Some f\<rparr>)" by auto
    then show ?thesis using k by (intro exI [of _ i] exI [of _ t]) simp
  qed
  have 2: "\<exists>t. activate_timer_ticks i k cont s = Done () t \<and> timers_ok h t \<and> now t = now s \<and> active (timer t i) \<and>
       unat (timeToFire (timer t i)) = now s + max 1 (unat k) \<and> (\<forall>j. j \<noteq> i \<longrightarrow> timer t j = timer s j)"
    if "i < numTimers s" "inUse (timer s i)" "i \<noteq> h"
    using activate_ok [OF assms(1) that assms(2), of cont] k by auto
  have 3: "\<exists>t. deactivate_timer i s = Done () t \<and> timers_ok h t \<and> now t = now s \<and> \<not> active (timer t i) \<and>
       (\<forall>j. j \<noteq> i \<longrightarrow> timer t j = timer s j)"
    if "i < numTimers s" "i \<noteq> h"
    using deactivate_ok [OF assms(1) that] by auto
  have 4: "\<exists>t. unregisterTimer i s = Done True t \<and> timers_ok h t \<and> now t = now s \<and> \<not> inUse (timer t i) \<and>
       (\<forall>j. j \<noteq> i \<longrightarrow> timer t j = timer s j)"
    if "i < numTimers s" "i \<noteq> 0" "inUse (timer s i)" "\<not> active (timer s i)"
    using unregister_ok [OF assms(1) that] by blast
  from 1 2 3 4 show ?thesis by blast
qed

lemma timer_interface_witness:
  "(\<exists>i t. register_timer_ticks (Some 9) 3 False True ticking = Done i t \<and> timers_ok 0 t \<and> now t = 0 \<and>
       \<not> (i < 2 \<and> inUse (timer ticking i)) \<and> unat (timeToFire (timer t i)) = 3) \<and>
   (\<exists>t. activate_timer_ticks 1 3 False ticking = Done () t \<and> timers_ok 0 t \<and> unat (timeToFire (timer t 1)) = 3) \<and>
   (\<exists>t. deactivate_timer 1 ticking = Done () t \<and> timers_ok 0 t \<and> \<not> active (timer t 1))"
  using timer_interface_keeps_clock [OF ticking_ok(1), of 3 9 False True 1] ticking_ok(2,3,4)
  by (simp; blast)

text \<open>
  The constructor leaves the slot of the null timer free, so the first timer that is registered
  takes its place: it gets the number 0, the null timer is gone, and it can never be unregistered,
  because slot 0 counts as the null timer there.\<close>

theorem first_timer_replaces_null_timer:
  "\<exists>t. register_timer_ticks (Some f) k cont act (construct d) = Done 0 t \<and> numTimers t = 1 \<and>
    funct (timer t 0) = Some f \<and> active (timer t 0) = act \<and>
    (\<exists>u. deactivate_timer 0 t = Done () u \<and> unregisterTimer 0 u = Panic ''unregisterTimer: timer 0 is the nullTimer!'' u)"
  by (simp add: register_timer_ticks_def construct_def zero_timer_def Let_def upt_rec skew_def
      deactivate_timer_def unregisterTimer_def)

end
