(* ===== verification/BxFrame.thy ===== *)
theory BxFrame
  imports BxStack
begin

text \<open>
  Sequences of routines and tests for the protection mechanisms, and what the accesses to memory
  and the stack leave alone: an invariant that survives the elementary steps of the locale
  \<open>stack_invariant\<close> survives every access through a segment, push and pop.
\<close>

section \<open>Sequences, checks and linear accesses\<close>

text \<open>Routines one after the other, and the tests that end an instruction.\<close>

definition and_next :: "unit bx \<Rightarrow> 'a bx \<Rightarrow> 'a bx" where
  "and_next m n = and_then m (\<lambda>_. n)"

primrec in_order :: "unit bx list \<Rightarrow> unit bx" where
  "in_order [] = ret ()"
| "in_order (m # ms) = and_next m (in_order ms)"

definition raise_if :: "bool \<Rightarrow> nat \<Rightarrow> Bit16u \<Rightarrow> unit bx" where
  "raise_if b vec ec = (if b then raise vec ec else ret ())"

definition panic_if :: "bool \<Rightarrow> string \<Rightarrow> unit bx" where
  "panic_if b msg = (if b then panic msg else ret ())"

lemma raise_if_simps [simp]: "raise_if True v e = raise v e" "raise_if False v e = ret ()"
  by (simp_all add: raise_if_def)

lemma panic_if_simps [simp]: "panic_if True m = panic m" "panic_if False m = ret ()"
  by (simp_all add: panic_if_def)

lemma and_next_simps [simp]:
  "and_next (ret ()) n = n" "and_next (raise v e) n = raise v e" "and_next (update f) n s = n (f s)"
  by (simp_all add: and_next_def)

text \<open>An invariant through sequences, tests and case distinctions on the state.\<close>

lemma stable_sequences [stable_intros]:
  "stable I m \<Longrightarrow> stable I n \<Longrightarrow> stable I (and_next m n)"
  "stable I (raise_if b v e)" "stable I (panic_if b msg)"
  by (simp_all add: and_next_def raise_if_def panic_if_def stable_and_then stable_raise stable_panic stable_ret)

lemma stable_in_order [stable_intros]: "list_all (stable I) ms \<Longrightarrow> stable I (in_order ms)"
  by (induction ms) (auto intro: stable_intros)

lemma stable_cases [stable_intros]:
  "(\<And>x. stable I (f x)) \<Longrightarrow> stable I (Let v f)"
  "(\<And>x. stable I (m x)) \<Longrightarrow> stable I (\<lambda>s. let x = w s in m x s)"
  "(\<And>a b. stable I (g a b)) \<Longrightarrow> stable I (case p of (a, b) \<Rightarrow> g a b)"
  "(\<And>a b. stable I (g a b)) \<Longrightarrow> stable I (\<lambda>s. case q s of (a, b) \<Rightarrow> g a b s)"
  "stable I n \<Longrightarrow> (\<And>x. stable I (m x)) \<Longrightarrow> stable I (case r of None \<Rightarrow> n | Some x \<Rightarrow> m x)"
  "stable I n \<Longrightarrow> (\<And>x. stable I (m x)) \<Longrightarrow> stable I (\<lambda>s. case z s of None \<Rightarrow> n s | Some x \<Rightarrow> m x s)"
  by (auto simp: stable_def Let_def split: prod.split option.split)

text \<open>A routine whose arguments are read from the state it runs in.\<close>

lemma stable_at: "(\<And>x. stable I (m x)) \<Longrightarrow> stable I (\<lambda>s. m (w s) s)"
  "(\<And>x y. stable I (n x y)) \<Longrightarrow> stable I (\<lambda>s. n (w s) (w' s) s)"
  by (simp_all add: stable_def)

lemma stable_at_sequences [stable_intros]:
  "(\<And>t. stable I (m t)) \<Longrightarrow> (\<And>t x. stable I (f t x)) \<Longrightarrow> stable I (\<lambda>s. and_then (m s) (f s) s)"
  "(\<And>t. stable I (m' t)) \<Longrightarrow> (\<And>t. stable I (n t)) \<Longrightarrow> stable I (\<lambda>s. and_next (m' s) (n s) s)"
  using stable_and_then [of I "m _" "f _"] stable_sequences(1) [of I "m' _" "n _"]
  by (auto simp: stable_def)

lemma stable_at_tests [stable_intros]:
  "stable I (\<lambda>s. raise_if (b s) v e s)" "stable I (\<lambda>s. raise v e s)" "stable I (\<lambda>s. panic msg s)"
  "stable I (\<lambda>s. Done x s)" "stable I (\<lambda>s. ret x s)"
  "(\<And>t. list_all (stable I) (ms t)) \<Longrightarrow> stable I (\<lambda>s. in_order (ms s) s)"
  using stable_in_order by (auto simp: stable_def raise_if_def)

text \<open>\<open>access_linear\<close> with supervisor rights, for the tables the processor keeps in memory.\<close>

definition read_lin16 :: "Bit32u \<Rightarrow> Bit16u bx" where
  "read_lin16 a = and_then (access_linear_read a 2 False BX_READ) (\<lambda>b. ret (le_word b))"

definition read_lin32 :: "Bit32u \<Rightarrow> Bit32u bx" where
  "read_lin32 a = and_then (access_linear_read a 4 False BX_READ) (\<lambda>b. ret (le_word b))"

definition write_lin16 :: "Bit32u \<Rightarrow> Bit16u \<Rightarrow> unit bx" where
  "write_lin16 a v = access_linear_write a (le_bytes 2 v) False"

definition write_lin32 :: "Bit32u \<Rightarrow> Bit32u \<Rightarrow> unit bx" where
  "write_lin32 a v = access_linear_write a (le_bytes 4 v) False"

definition update_sys :: "(bx_sysregs \<Rightarrow> bx_sysregs) \<Rightarrow> unit bx" where
  "update_sys f = update (\<lambda>s. s\<lparr>sys := f (sys s)\<rparr>)"

section \<open>Invariants of segmented accesses and of the stack\<close>

lemma stable_load_hosts [stable_intros]: "stable I (load_hosts i n)"
proof (induction n arbitrary: i)
  case (Suc n)
  have "stable I (load_host i)" by (simp add: load_host_def stable_def)
  with Suc show ?case by (auto intro!: stable_intros)
qed (auto intro: stable_intros)

lemma stable_can_push [stable_intros]: "stable I (can_push r esp k)" "stable I (can_pop k)"
  unfolding can_push_def can_pop_def by (intro stable_intros)+

context linear_invariant
begin

lemma lin: "stable I (read_lin16 a)" "stable I (read_lin32 a)" "stable I (write_lin16 a v)" "stable I (write_lin32 a w)"
  unfolding read_lin16_def read_lin32_def write_lin16_def write_lin32_def
  by (intro stable_intros access_linear)+

lemma lin_at: "stable I (\<lambda>s. read_lin32 (f s) s)" "stable I (\<lambda>s. read_lin16 (f s) s)"
  by (rule stable_at(1), rule lin)+

lemma fetch: "stable I (read_descriptor b i)" "stable I (fetch_raw_descriptor sl v)" "stable I (fetch_raw_descriptor2 sl)"
proof -
  show rd: "stable I (read_descriptor b i)" for b i
    unfolding read_descriptor_def by (intro stable_intros access_linear)
  show "stable I (fetch_raw_descriptor sl v)" "stable I (fetch_raw_descriptor2 sl)"
    unfolding fetch_raw_descriptor_def fetch_raw_descriptor2_def
    by (intro stable_intros rd; rule stable_at(2) [of _ read_descriptor] stable_at(1), rule rd)+
qed

end

locale stack_invariant = linear_invariant I for I +
  assumes seg_valid: "I s \<Longrightarrow> I (set_seg_valid sg v s)"
    and regs: "I s \<Longrightarrow> I (s\<lparr>gen_reg := g\<rparr>)"
    and flags: "I s \<Longrightarrow> I (s\<lparr>lf_flags_status := l, eflags_val32 := w\<rparr>)"
begin

lemma checks: "stable I (write_virtual_checks sg a n)" "stable I (read_virtual_checks sg a n)"
  by (auto simp: stable_def write_virtual_checks_def read_virtual_checks_def Let_def seg_valid)

lemma access_ok: "stable I (accessOK_read k sg a)" "stable I (accessOK_write sg a bs)"
  unfolding accessOK_read_def accessOK_write_def
  by (rule stableI, auto simp: Let_def split: option.split intro: stable_intros access_linear store_hosts stableD)+

lemma virtual: "stable I (read_virtual t k sg a)" "stable I (write_virtual t sg a bs)"
  "stable I (read_virtual_word sg a)" "stable I (read_virtual_dword sg a)"
  "stable I (write_virtual_word sg a w)" "stable I (write_virtual_dword sg a d)"
  unfolding read_virtual_word_def read_virtual_dword_def write_virtual_word_def write_virtual_dword_def
    read_virtual_def write_virtual_def
  by (intro stable_intros checks access_ok)+

lemma add_eSP: "I s \<Longrightarrow> I (add_eSP k s)"
  by (simp add: add_eSP_def BX_WRITE_32BIT_REG_def BX_WRITE_16BIT_REG_def regs)

lemma push_pop: "stable I (push_16 w)" "stable I (push_32 d)" "stable I pop_16" "stable I pop_32"
  unfolding push_16_def push_32_def pop_16_def pop_32_def
  by (intro stable_intros virtual stable_update add_eSP regs;
      simp add: BX_WRITE_32BIT_REG_def BX_WRITE_16BIT_REG_def regs)+

lemma flag: "stable I (get_flag f)"
proof (rule stableI)
  fix s assume "I s"
  then show "I (state_of (get_flag f s))"
    using get_flag_Done [of f s] get_flag_Panic [of f s] flags [of s]
    by (cases "flag_of f s") (auto simp: stored_def)
qed

lemma read_all_flags: "stable I read_flags" "stable I read_eflags"
  unfolding read_flags_def read_eflags_def force_flags_def by (intro stable_intros flag)+

end

end
