(* ===== verification/BxTask.thy ===== *)
theory BxTask
  imports BxFrame
begin

text \<open>
  Task switching (\<open>cpu/tasking.cc\<close>): the state of the old task is saved in its TSS, the
  new one loaded from the TSS the descriptor names; up to the commit point every exception leaves
  the registers of the old task, after it the exception belongs to the new task. Also the stack
  of an inner privilege level that the TSS names. Numbers 9 and 11 are the types of the available
  and busy 386 TSS, 1 and 3 of the 286 TSS, 2 the LDT.
\<close>

section \<open>Descriptors of system segments\<close>

datatype task_source = BX_TASK_FROM_JUMP | BX_TASK_FROM_CALL_OR_INT | BX_TASK_FROM_IRET

text \<open>
  Base and (scaled) limit of a TSS or LDT descriptor; the other members of the union have none.
  A loaded LDTR or TR keeps these two.
\<close>

definition system_base :: "bx_descriptor_t \<Rightarrow> Bit32u" where
  "system_base d = (case d_u d of U_tss286 b l \<Rightarrow> b | U_tss386 t \<Rightarrow> t3_base t | U_ldt b l \<Rightarrow> b | _ \<Rightarrow> 0)"

definition system_limit :: "bx_descriptor_t \<Rightarrow> Bit32u" where
  "system_limit d =
     (case d_u d of U_tss286 b l \<Rightarrow> ucast l | U_tss386 t \<Rightarrow> t3_limit_scaled t | U_ldt b l \<Rightarrow> ucast l | _ \<Rightarrow> 0)"

definition system_segment :: "bx_selector_t \<Rightarrow> bx_descriptor_t \<Rightarrow> bx_system_segment" where
  "system_segment sl d =
     \<lparr>sys_value = sl_value sl, sys_index = sl_index sl, sys_ti = sl_ti sl, sys_rpl = sl_rpl sl,
      sys_valid = d_valid d, sys_p = d_p d, sys_dpl = d_dpl d, sys_segment = d_segment d,
      sys_type = d_type d, sys_base = system_base d, sys_limit = system_limit d\<rparr>"

text \<open>\<open>type & ~2\<close>: the busy bit of a TSS type.\<close>

definition clear_busy :: "nat \<Rightarrow> nat" where
  "clear_busy t = (if odd (t div 2) then t - 2 else t)"

definition set_selector :: "bx_selector_t \<Rightarrow> bx_segment_reg \<Rightarrow> bx_segment_reg" where
  "set_selector sl r =
     r\<lparr>sel_value := sl_value sl, sel_index := sl_index sl, sel_ti := sl_ti sl, sel_rpl := sl_rpl sl\<rparr>"

definition set_cache :: "bx_descriptor_t \<Rightarrow> bx_segment_reg \<Rightarrow> bx_segment_reg" where
  "set_cache d r =
     (loaded_segment \<lparr>sl_value = sel_value r, sl_index = sel_index r, sl_ti = sel_ti r, sl_rpl = sel_rpl r\<rparr> d)
       \<lparr>seg_valid := d_valid d\<rparr>"

definition update_sreg :: "seg_reg \<Rightarrow> (bx_segment_reg \<Rightarrow> bx_segment_reg) \<Rightarrow> unit bx" where
  "update_sreg sg f = update (\<lambda>s. set_sreg sg (f (sregs s sg)) s)"

section \<open>Saving and loading the dynamic state\<close>

definition EFlagsValidMask :: Bit32u where "EFlagsValidMask = 0x003f7fd5"

definition save16 :: "Bit32u \<Rightarrow> (cpu \<Rightarrow> Bit16u) \<Rightarrow> unit bx" where
  "save16 a f = and_then (gets f) (write_lin16 a)"

definition save32 :: "Bit32u \<Rightarrow> (cpu \<Rightarrow> Bit32u) \<Rightarrow> unit bx" where
  "save32 a f = and_then (gets f) (write_lin32 a)"

definition save_sel :: "Bit32u \<Rightarrow> seg_reg \<Rightarrow> unit bx" where
  "save_sel a sg = save16 a (\<lambda>s. sel_value (sregs s sg))"

definition save_task_286 :: "Bit32u \<Rightarrow> Bit32u \<Rightarrow> unit bx" where
  "save_task_286 obase32 oldEFLAGS = in_order
     [save16 (obase32 + 14) (\<lambda>s. ucast (eip s)), save16 (obase32 + 16) (\<lambda>_. ucast oldEFLAGS),
      save16 (obase32 + 18) (BX_READ_16BIT_REG 0), save16 (obase32 + 20) (BX_READ_16BIT_REG 1),
      save16 (obase32 + 22) (BX_READ_16BIT_REG 2), save16 (obase32 + 24) (BX_READ_16BIT_REG 3),
      save16 (obase32 + 26) (BX_READ_16BIT_REG 4), save16 (obase32 + 28) (BX_READ_16BIT_REG 5),
      save16 (obase32 + 30) (BX_READ_16BIT_REG 6), save16 (obase32 + 32) (BX_READ_16BIT_REG 7),
      save_sel (obase32 + 34) ES, save_sel (obase32 + 36) CS, save_sel (obase32 + 38) SS,
      save_sel (obase32 + 40) DS]"

definition save_task_386 :: "Bit32u \<Rightarrow> Bit32u \<Rightarrow> unit bx" where
  "save_task_386 obase32 oldEFLAGS = in_order
     [save32 (obase32 + 0x20) eip, save32 (obase32 + 0x24) (\<lambda>_. oldEFLAGS),
      save32 (obase32 + 0x28) (BX_READ_32BIT_REG 0), save32 (obase32 + 0x2c) (BX_READ_32BIT_REG 1),
      save32 (obase32 + 0x30) (BX_READ_32BIT_REG 2), save32 (obase32 + 0x34) (BX_READ_32BIT_REG 3),
      save32 (obase32 + 0x38) (BX_READ_32BIT_REG 4), save32 (obase32 + 0x3c) (BX_READ_32BIT_REG 5),
      save32 (obase32 + 0x40) (BX_READ_32BIT_REG 6), save32 (obase32 + 0x44) (BX_READ_32BIT_REG 7),
      save_sel (obase32 + 0x48) ES, save_sel (obase32 + 0x4c) CS, save_sel (obase32 + 0x50) SS,
      save_sel (obase32 + 0x54) DS, save_sel (obase32 + 0x58) FS, save_sel (obase32 + 0x5c) GS]"

record task_image =
  newCR3 :: Bit32u
  newEIP :: Bit32u
  newEFLAGS :: Bit32u
  newRegs :: "Bit32u list"
  raw_es :: Bit16u
  raw_cs :: Bit16u
  raw_ss :: Bit16u
  raw_ds :: Bit16u
  raw_fs :: Bit16u
  raw_gs :: Bit16u
  raw_ldt :: Bit16u
  trap_word :: Bit16u

primrec read_all :: "'a bx list \<Rightarrow> 'a list bx" where
  "read_all [] = ret []"
| "read_all (m # ms) = and_then m (\<lambda>x. and_then (read_all ms) (\<lambda>xs. ret (x # xs)))"

definition load_task_286 :: "Bit32u \<Rightarrow> task_image bx" where
  "load_task_286 nbase32 =
     and_then (read_all (map (\<lambda>off. read_lin16 (nbase32 + off))
       [14, 16, 18, 20, 22, 24, 26, 28, 30, 32, 34, 36, 38, 40, 42])) (\<lambda>w.
     ret \<lparr>newCR3 = 0, newEIP = ucast (w ! 0), newEFLAGS = ucast (w ! 1),
       newRegs = map (\<lambda>v. 0xffff0000 OR ucast v) (take 8 (drop 2 w)),
       raw_es = w ! 10, raw_cs = w ! 11, raw_ss = w ! 12, raw_ds = w ! 13, raw_fs = 0, raw_gs = 0,
       raw_ldt = w ! 14, trap_word = 0\<rparr>)"

definition load_task_386 :: "Bit32u \<Rightarrow> task_image bx" where
  "load_task_386 nbase32 = (\<lambda>s.
     and_then (if cr0_pg (cr0 s) then read_lin32 (nbase32 + 0x1c) else ret 0) (\<lambda>cr3'.
     and_then (read_all (map (\<lambda>off. read_lin32 (nbase32 + off))
       [0x20, 0x24, 0x28, 0x2c, 0x30, 0x34, 0x38, 0x3c, 0x40, 0x44])) (\<lambda>d.
     and_then (read_all (map (\<lambda>off. read_lin16 (nbase32 + off))
       [0x48, 0x4c, 0x50, 0x54, 0x58, 0x5c, 0x60, 0x64])) (\<lambda>w.
     ret \<lparr>newCR3 = cr3', newEIP = d ! 0, newEFLAGS = d ! 1, newRegs = drop 2 d,
       raw_es = w ! 0, raw_cs = w ! 1, raw_ss = w ! 2, raw_ds = w ! 3, raw_fs = w ! 4, raw_gs = w ! 5,
       raw_ldt = w ! 6, trap_word = w ! 7\<rparr>))) s)"

text \<open>The tables a task switch touches must be paged in.\<close>

definition probe :: "Bit32u \<Rightarrow> access_op \<Rightarrow> unit bx" where
  "probe a rw = and_then (translate_linear a False rw) (\<lambda>_. ret ())"

definition probe_tss :: "task_source \<Rightarrow> Bit32u \<Rightarrow> Bit32u \<Rightarrow> Bit32u \<Rightarrow> Bit32u \<Rightarrow> unit bx" where
  "probe_tss source obase32 old_TSS_max nbase32 new_TSS_max = (\<lambda>s.
     if cr0_pg (cr0 s) then
       in_order ([probe obase32 BX_WRITE, probe (obase32 + old_TSS_max) BX_WRITE,
                  probe nbase32 BX_READ, probe (nbase32 + new_TSS_max) BX_READ] @
                 (if source = BX_TASK_FROM_CALL_OR_INT
                  then [probe nbase32 BX_WRITE, probe (nbase32 + 2) BX_WRITE] else [])) s
     else ret () s)"

text \<open>The busy bit of the TSS descriptor with the given index in the GDT.\<close>

definition rmw_busy :: "Bit16u \<Rightarrow> (Bit32u \<Rightarrow> Bit32u) \<Rightarrow> unit bx" where
  "rmw_busy index f =
     and_then (gets (\<lambda>s. gdtr_base (sys s) + push_bit 3 (ucast index) + 4)) (\<lambda>laddr.
     and_then (read_lin32 laddr) (\<lambda>d. write_lin32 laddr (f d)))"

text \<open>
  From the commit point on: the task register, CR0.TS, DR7, CR3, the general registers, EFLAGS
  and the selectors of the new task. The descriptor caches start out invalid.
\<close>

definition commit_task :: "bx_selector_t \<Rightarrow> bx_descriptor_t \<Rightarrow> cpu \<Rightarrow> cpu" where
  "commit_task tss_selector tss_descriptor s =
     (let t = system_segment tss_selector tss_descriptor in
      s\<lparr>sys := (sys s)\<lparr>tr := t\<lparr>sys_type := clear_busy (sys_type t)\<rparr>, dr7 := dr7 (sys s) AND NOT 0x00000155\<rparr>,
        cr0 := (cr0 s)\<lparr>cr0_ts := True, cr0_val32 := cr0_val32 (cr0 s) OR 0x00000008\<rparr>\<rparr>)"

definition load_dynamic_state :: "bx_descriptor_t \<Rightarrow> task_image \<Rightarrow> cpu \<Rightarrow> cpu" where
  "load_dynamic_state tss_descriptor im s =
     (let s1 = (if d_type tss_descriptor \<ge> 9 \<and> cr0_pg (cr0 s) \<and> newCR3 im \<noteq> cr3 s
                then CR3_change (newCR3 im) s else s);
          s2 = s1\<lparr>eip := newEIP im, sys := (sys s1)\<lparr>prev_eip := newEIP im\<rparr>,
                  gen_reg := (\<lambda>r. newRegs im ! unat r)\<rparr> in
      writeEFlags (newEFLAGS im) EFlagsValidMask s2)"

definition task_sreg :: "seg_reg \<Rightarrow> Bit16u \<Rightarrow> cpu \<Rightarrow> cpu" where
  "task_sreg sg raw s =
     set_sreg sg ((set_selector (parse_selector raw) (sregs s sg))\<lparr>seg_valid := 0\<rparr>) s"

definition load_selectors :: "task_image \<Rightarrow> cpu \<Rightarrow> cpu" where
  "load_selectors im s =
     (let s1 = task_sreg GS (raw_gs im) (task_sreg FS (raw_fs im) (task_sreg SS (raw_ss im)
                 (task_sreg ES (raw_es im) (task_sreg DS (raw_ds im) (task_sreg CS (raw_cs im) s)))));
          l = parse_selector (raw_ldt im) in
      s1\<lparr>sys := (sys s1)\<lparr>ldtr := (ldtr (sys s1))\<lparr>sys_value := sl_value l, sys_index := sl_index l,
        sys_ti := sl_ti l, sys_rpl := sl_rpl l, sys_valid := 0, sys_limit := 0\<rparr>\<rparr>\<rparr>)"

section \<open>The segments of the new task\<close>

text \<open>The label \<open>post_exception\<close>.\<close>

definition post_exception :: "nat \<Rightarrow> Bit16u \<Rightarrow> 'a bx" where
  "post_exception vec raw =
     and_next (update (\<lambda>s. s\<lparr>debug_trap := 0, inhibit_mask := 0\<rparr>)) (raise vec (error_code raw))"

definition post_if :: "bool \<Rightarrow> nat \<Rightarrow> Bit16u \<Rightarrow> unit bx" where
  "post_if b vec raw = (if b then post_exception vec raw else ret ())"

definition task_load_LDTR :: "Bit16u \<Rightarrow> unit bx" where
  "task_load_LDTR raw =
     (let sl = parse_selector raw in
      if sl_ti sl then post_exception BX_TS_EXCEPTION raw
      else if raw AND 0xfffc \<noteq> 0 then
        and_then (fetch_raw_descriptor2 sl) (\<lambda>fetched. case fetched of
          None \<Rightarrow> post_exception BX_TS_EXCEPTION raw
        | Some (dword1, dword2) \<Rightarrow>
          (let d = parse_descriptor dword1 dword2 in
           if d_valid d = 0 \<or> d_type d \<noteq> 2 \<or> d_segment d then post_exception BX_TS_EXCEPTION raw
           else if \<not> d_p d then post_exception BX_TS_EXCEPTION raw
           else update_sys (\<lambda>y. y\<lparr>ldtr := system_segment
             \<lparr>sl_value = sys_value (ldtr y), sl_index = sys_index (ldtr y), sl_ti = sys_ti (ldtr y),
              sl_rpl = sys_rpl (ldtr y)\<rparr> d\<rparr>)))
      else ret ())"

definition task_load_CS :: "Bit16u \<Rightarrow> unit bx" where
  "task_load_CS raw =
     (let sl = parse_selector raw in
      if raw AND 0xfffc \<noteq> 0 then
        and_then (fetch_raw_descriptor2 sl) (\<lambda>fetched. case fetched of
          None \<Rightarrow> post_exception BX_TS_EXCEPTION raw
        | Some (dword1, dword2) \<Rightarrow>
          (let d = parse_descriptor dword1 dword2; u = u_segment (d_u d) in
           if d_valid d = 0 \<or> \<not> d_segment d \<or> \<not> sd_executable u
           then panic ''task_switch: CS not valid executable seg''
           else if \<not> sd_c_ed u \<and> d_dpl d \<noteq> sl_rpl sl then post_exception BX_TS_EXCEPTION raw
           else if sd_c_ed u \<and> d_dpl d > sl_rpl sl then post_exception BX_TS_EXCEPTION raw
           else if \<not> d_p d then panic ''task_switch: CS.p==0''
           else update_sreg CS (set_cache d)))
      else panic ''task_switch: CS NULL'')"

definition task_load_SS :: "Bit16u \<Rightarrow> nat \<Rightarrow> unit bx" where
  "task_load_SS raw cs_rpl =
     (let sl = parse_selector raw in
      if raw AND 0xfffc \<noteq> 0 then
        and_then (fetch_raw_descriptor2 sl) (\<lambda>fetched. case fetched of
          None \<Rightarrow> post_exception BX_TS_EXCEPTION raw
        | Some (dword1, dword2) \<Rightarrow>
          (let d = parse_descriptor dword1 dword2; u = u_segment (d_u d) in
           if d_valid d = 0 \<or> \<not> d_segment d \<or> sd_executable u \<or> \<not> sd_r_w u
           then post_exception BX_TS_EXCEPTION raw
           else if \<not> d_p d then panic ''task_switch: SS not present''
           else if d_dpl d \<noteq> cs_rpl then panic ''task_switch: SS.rpl != CS.RPL''
           else if d_dpl d \<noteq> sl_rpl sl then panic ''task_switch: SS.dpl != SS.rpl''
           else update_sreg SS (set_cache d)))
      else panic ''task_switch: SS NULL'')"

definition task_switch_load_selector :: "seg_reg \<Rightarrow> Bit16u \<Rightarrow> nat \<Rightarrow> unit bx" where
  "task_switch_load_selector sg raw cs_rpl =
     (let sl = parse_selector raw; ec = error_code raw in
      if raw AND 0xfffc \<noteq> 0 then
        and_then (fetch_raw_descriptor2 sl) (\<lambda>fetched. case fetched of
          None \<Rightarrow> raise BX_TS_EXCEPTION ec
        | Some (dword1, dword2) \<Rightarrow>
          (let d = parse_descriptor dword1 dword2; u = u_segment (d_u d) in
           if d_valid d = 0 \<or> \<not> d_segment d \<or> (sd_executable u \<and> \<not> sd_r_w u)
           then raise BX_TS_EXCEPTION ec
           else if d_type d < 12 \<and> (d_dpl d < cs_rpl \<or> d_dpl d < sl_rpl sl) then raise BX_TS_EXCEPTION ec
           else if \<not> d_p d then raise BX_NP_EXCEPTION ec
           else update_sreg sg (set_cache d)))
      else ret ())"

definition task_segments :: "task_image \<Rightarrow> unit bx" where
  "task_segments im =
     and_next (task_load_LDTR (raw_ldt im)) (\<lambda>s.
       if v8086_mode s then
         in_order [load_seg_reg CS (raw_cs im), load_seg_reg SS (raw_ss im), load_seg_reg DS (raw_ds im),
                   load_seg_reg ES (raw_es im), load_seg_reg FS (raw_fs im), load_seg_reg GS (raw_gs im)] s
       else
         (let cs_rpl = sl_rpl (parse_selector (raw_cs im)) in
          in_order [task_load_CS (raw_cs im), task_load_SS (raw_ss im) cs_rpl,
                    task_switch_load_selector DS (raw_ds im) cs_rpl,
                    task_switch_load_selector ES (raw_es im) cs_rpl,
                    task_switch_load_selector FS (raw_fs im) cs_rpl,
                    task_switch_load_selector GS (raw_gs im) cs_rpl] s))"

section \<open>The task switch\<close>

text \<open>\<open>OR EFlagsNTMask\<close> for a nested task, the T bit of the TSS as a trap.\<close>

definition nest_flags :: "task_source \<Rightarrow> task_image \<Rightarrow> task_image" where
  "nest_flags source im =
     (if source = BX_TASK_FROM_CALL_OR_INT then im\<lparr>newEFLAGS := newEFLAGS im OR EFlagsNTMask\<rparr> else im)"

definition task_trap :: "bx_descriptor_t \<Rightarrow> task_image \<Rightarrow> unit bx" where
  "task_trap tss_descriptor im =
     (if d_type tss_descriptor \<ge> 9 \<and> trap_word im AND 0x0001 \<noteq> 0
      then update (\<lambda>s. s\<lparr>debug_trap := debug_trap s OR 0x00008000, async_event := 1\<rparr>) else ret ())"

definition task_switch :: "bx_selector_t \<Rightarrow> bx_descriptor_t \<Rightarrow> task_source \<Rightarrow> unit bx" where
  "task_switch tss_selector tss_descriptor source =
     (let ec = error_code (sl_value tss_selector);
          nbase32 = system_base tss_descriptor;
          new_TSS_max = (if d_type tss_descriptor \<le> 3 then 43 else 103) in
      and_next (update (\<lambda>s. (invalidate_prefetch_q s)\<lparr>debug_trap := 0, inhibit_mask := 0\<rparr>)) (
      and_next (raise_if (\<not> d_p tss_descriptor) BX_NP_EXCEPTION ec) (
      and_next (raise_if (sl_ti tss_selector \<or> d_valid tss_descriptor = 0 \<or>
                          system_limit tss_descriptor < new_TSS_max) BX_TS_EXCEPTION ec) (
      and_then (gets (\<lambda>s. tr (sys s))) (\<lambda>old.
        (let obase32 = sys_base old; old_286 = (sys_type old \<le> 3) in
      and_next (probe_tss source obase32 (if old_286 then 43 else 103) nbase32 new_TSS_max) (
      and_then read_eflags (\<lambda>eflags.
        (let oldEFLAGS = (if d_type tss_descriptor \<in> {3, 11} then eflags AND NOT EFlagsNTMask else eflags) in
      and_next (if old_286 then save_task_286 obase32 oldEFLAGS else save_task_386 obase32 oldEFLAGS) (
      and_next (if source = BX_TASK_FROM_CALL_OR_INT then write_lin16 (nbase32 + 2) (sys_value old) else ret ()) (
      and_then (if d_type tss_descriptor \<le> 3 then load_task_286 nbase32 else load_task_386 nbase32) (\<lambda>im.
      and_next (if source \<noteq> BX_TASK_FROM_IRET
                then rmw_busy (sl_index tss_selector) (\<lambda>d. d OR 0x00000200) else ret ()) (
      and_next (if source \<noteq> BX_TASK_FROM_CALL_OR_INT
                then rmw_busy (sys_index old) (\<lambda>d. d AND NOT 0x00000200) else ret ()) (
      and_next (update (commit_task tss_selector tss_descriptor)) (
      and_next (update (load_dynamic_state tss_descriptor (nest_flags source im))) (
      and_next (update (load_selectors im)) (
      and_next (task_segments im) (
      task_trap tss_descriptor im))))))))))))))))))"

section \<open>The stack of an inner privilege level\<close>

definition get_SS_ESP_from_TSS :: "nat \<Rightarrow> (Bit16u \<times> Bit32u) bx" where
  "get_SS_ESP_from_TSS pl = (\<lambda>s.
     (let t = tr (sys s); ec = error_code (sys_value t) in
      if sys_valid t = 0 then panic ''get_SS_ESP_from_TSS: TR.cache invalid'' s
      else if sys_type t = 9 then
        (let TSSstackaddr = word_of_nat (8 * pl + 4) in
         if TSSstackaddr + 7 > sys_limit t then raise BX_TS_EXCEPTION ec s
         else
           and_then (read_lin16 (sys_base t + TSSstackaddr + 4)) (\<lambda>ss.
           and_then (read_lin32 (sys_base t + TSSstackaddr)) (\<lambda>esp. ret (ss, esp))) s)
      else if sys_type t = 1 then
        (let TSSstackaddr = word_of_nat (4 * pl + 2) in
         if TSSstackaddr + 4 > sys_limit t then raise BX_TS_EXCEPTION ec s
         else
           and_then (read_lin16 (sys_base t + TSSstackaddr + 2)) (\<lambda>ss.
           and_then (read_lin16 (sys_base t + TSSstackaddr)) (\<lambda>temp16. ret (ss, ucast temp16))) s)
      else panic ''get_SS_ESP_from_TSS: TR is bogus type'' s))"

end
