(* ===== verification/BxInterrupt.thy ===== *)
theory BxInterrupt
  imports BxTask
begin

text \<open>
  Entry into an interrupt or exception handler (\<open>cpu/exception.cc\<close>:
  \<open>protected_mode_int\<close>, \<open>real_mode_int\<close>, \<open>interrupt\<close>): task gates,
  interrupt and trap gates of the 286 and the 386, to the same or to an inner privilege level,
  out of virtual-8086 mode, and the vector table of real mode.
\<close>

section \<open>Through a task gate\<close>

definition push_code :: "bool \<Rightarrow> Bit16u \<Rightarrow> unit bx" where
  "push_code wide ec = (if wide then push_32 (ucast ec) else push_16 ec)"

definition int_task_gate :: "Bit16u \<Rightarrow> bool \<Rightarrow> Bit16u \<Rightarrow> unit bx" where
  "int_task_gate raw is_error_code ec =
     (let tss_selector = parse_selector raw; sel_ec = error_code raw in
      if sl_ti tss_selector then panic ''interrupt: tss_selector.ti=1''
      else
        and_then (fetch_raw_descriptor tss_selector BX_GP_EXCEPTION) (\<lambda>(dword1, dword2).
          (let d = parse_descriptor dword1 dword2 in
           if d_valid d = 0 \<or> d_segment d then panic ''exception: TSS selector points to bad TSS''
           else if d_type d \<noteq> 9 \<and> d_type d \<noteq> 1 then raise BX_GP_EXCEPTION sel_ec
           else if \<not> d_p d then raise BX_NP_EXCEPTION sel_ec
           else
             and_next (task_switch tss_selector d BX_TASK_FROM_CALL_OR_INT) (
             and_next (if is_error_code then (\<lambda>s. push_code (seg_d_b (sregs s CS)) ec s) else ret ()) (\<lambda>s.
               raise_if (eip s > seg_limit_scaled (sregs s CS)) BX_GP_EXCEPTION 0 s)))))"

section \<open>Through an interrupt or trap gate\<close>

text \<open>The flags a handler starts with: an interrupt gate (even type) also clears IF.\<close>

definition enter_flags :: "nat \<Rightarrow> cpu \<Rightarrow> cpu" where
  "enter_flags gate_type s =
     (let s1 = (if even gate_type then clear_eflag 9 s else s) in
      clear_eflag 14 (clear_eflag 16 (set_VM False (clear_eflag 8 s1))))"

text \<open>\<open>push_32\<close> for a 386 gate, \<open>push_16\<close> of the low half for a 286 gate.\<close>

definition push_gate :: "bool \<Rightarrow> Bit32u \<Rightarrow> unit bx" where
  "push_gate gate386 v = (if gate386 then push_32 v else push_16 (ucast v))"

definition push_gate_sel :: "bool \<Rightarrow> seg_reg \<Rightarrow> unit bx" where
  "push_gate_sel gate386 sg = and_then (gets (\<lambda>s. sel_value (sregs s sg))) (\<lambda>v. push_gate gate386 (ucast v))"

definition drop_sreg :: "seg_reg \<Rightarrow> unit bx" where
  "drop_sreg sg = update_sreg sg (\<lambda>r. r\<lparr>seg_valid := 0, sel_value := 0\<rparr>)"

definition handler_frame :: "bool \<Rightarrow> bool \<Rightarrow> bool \<Rightarrow> nat" where
  "handler_frame gate386 is_error_code from_v86 =
     (if gate386 then (if is_error_code then 24 else 20) + (if from_v86 then 16 else 0)
      else (if is_error_code then 12 else 10))"

text \<open>
  The checks of the new stack segment. Those that end in \<open>BX_PANIC\<close> stop the emulator
  before the exception is raised.
\<close>

definition check_inner_SS :: "Bit16u \<Rightarrow> bx_selector_t \<Rightarrow> bx_descriptor_t \<Rightarrow> nat \<Rightarrow> unit bx" where
  "check_inner_SS raw ss_selector ss_descriptor cs_dpl =
     (let u = u_segment (d_u ss_descriptor) in
      if sl_rpl ss_selector \<noteq> cs_dpl then panic ''interrupt(): SS.rpl != CS.dpl''
      else if d_dpl ss_descriptor \<noteq> cs_dpl then panic ''interrupt(): SS.dpl != CS.dpl''
      else if d_valid ss_descriptor = 0 \<or> \<not> d_segment ss_descriptor \<or> sd_executable u \<or> \<not> sd_r_w u
      then panic ''interrupt(): SS not writable data segment''
      else if \<not> d_p ss_descriptor then raise BX_SS_EXCEPTION (error_code raw)
      else ret ())"

definition descriptor_stack :: "bx_selector_t \<Rightarrow> bx_descriptor_t \<Rightarrow> bx_segment_reg" where
  "descriptor_stack sl d = (loaded_segment sl d)\<lparr>seg_valid := d_valid d\<rparr>"

definition set_stack_pointer :: "bool \<Rightarrow> Bit32u \<Rightarrow> cpu \<Rightarrow> cpu" where
  "set_stack_pointer big esp s =
     (if big then BX_WRITE_32BIT_REG 4 esp s else BX_WRITE_16BIT_REG 4 (ucast esp) s)"

definition int_inner ::
    "nat \<Rightarrow> bx_selector_t \<Rightarrow> bx_descriptor_t \<Rightarrow> Bit32u \<Rightarrow> bool \<Rightarrow> Bit16u \<Rightarrow> unit bx" where
  "int_inner gate_type cs_selector cs_descriptor dest is_error_code ec =
     (let gate386 = (gate_type \<ge> 14); cs_dpl = d_dpl cs_descriptor in
      and_then (gets v8086_mode) (\<lambda>from_v86.
      and_next (raise_if (from_v86 \<and> cs_dpl \<noteq> 0) BX_GP_EXCEPTION (error_code (sl_value cs_selector))) (
      and_then (get_SS_ESP_from_TSS cs_dpl) (\<lambda>(ss_raw, new_esp).
      and_next (panic_if (ss_raw AND 0xfffc = 0) ''interrupt(): SS selector null'') (
        (let ss_selector = parse_selector ss_raw in
      and_then (fetch_raw_descriptor ss_selector BX_TS_EXCEPTION) (\<lambda>(dword1, dword2).
        (let ss_descriptor = parse_descriptor dword1 dword2 in
      and_next (check_inner_SS ss_raw ss_selector ss_descriptor cs_dpl) (
      and_next (panic_if (\<not> gate386 \<and> from_v86) ''interrupt: int/trap gate VM'') (
      and_then (can_push (descriptor_stack ss_selector ss_descriptor) new_esp
                  (word_of_nat (handler_frame gate386 is_error_code from_v86))) (\<lambda>room.
      and_next (raise_if (\<not> room) BX_SS_EXCEPTION (error_code ss_raw)) (
      and_next (raise_if (dest > sd_limit_scaled (u_segment (d_u cs_descriptor))) BX_GP_EXCEPTION 0) (
      and_then (gets (\<lambda>s. (ESP s, sel_value (sregs s SS), eip s, sel_value (sregs s CS))))
        (\<lambda>(old_ESP, old_SS, old_EIP, old_CS).
      and_next (load_ss ss_selector ss_descriptor cs_dpl) (
      and_next (update (set_stack_pointer (sd_d_b (u_segment (d_u ss_descriptor))) new_esp)) (
      and_next (update (load_cs cs_selector cs_descriptor cs_dpl)) (
      and_next (update (\<lambda>s. s\<lparr>eip := dest\<rparr>)) (
      and_then read_eflags (\<lambda>eflags.
      and_next (update (enter_flags gate_type)) (
      and_next (in_order (if from_v86 then
                  [push_gate_sel gate386 GS, push_gate_sel gate386 FS, push_gate_sel gate386 DS,
                   push_gate_sel gate386 ES, drop_sreg GS, drop_sreg FS, drop_sreg DS, drop_sreg ES]
                else [])) (
      in_order
        ([push_gate gate386 (ucast old_SS), push_gate gate386 old_ESP, push_gate gate386 eflags,
          push_gate gate386 (ucast old_CS), push_gate gate386 old_EIP] @
         (if is_error_code then [push_gate gate386 (ucast ec)] else [])))))))))))))))))))))))"

definition int_same ::
    "nat \<Rightarrow> bx_selector_t \<Rightarrow> bx_descriptor_t \<Rightarrow> Bit32u \<Rightarrow> bool \<Rightarrow> Bit16u \<Rightarrow> unit bx" where
  "int_same gate_type cs_selector cs_descriptor dest is_error_code ec =
     (let gate386 = (gate_type \<ge> 14);
          bytes = (if gate386 then (if is_error_code then 16 else 12) else (if is_error_code then 8 else 6)) in
      and_then (\<lambda>s. can_push (sregs s SS) (temp_RSP s) bytes s) (\<lambda>room.
      and_next (raise_if (\<not> room) BX_SS_EXCEPTION 0) (
      and_next (raise_if (dest > sd_limit_scaled (u_segment (d_u cs_descriptor))) BX_GP_EXCEPTION 0) (
      and_next (and_then read_eflags (push_gate gate386)) (
      and_next (push_gate_sel gate386 CS) (
      and_next (and_then (gets eip) (push_gate gate386)) (
      and_next (if is_error_code then push_gate gate386 (ucast ec) else ret ()) (
      and_next (update (\<lambda>s. load_cs cs_selector cs_descriptor (CPL s) s)) (
      and_next (update (\<lambda>s. s\<lparr>eip := dest\<rparr>)) (
      update (enter_flags gate_type)))))))))))"

definition gate_target :: "bx_descriptor_t \<Rightarrow> Bit16u \<times> Bit32u" where
  "gate_target g = (case d_u g of U_gate386 n sel dest \<Rightarrow> (sel, dest) | U_gate286 n sel dest \<Rightarrow> (sel, ucast dest) | _ \<Rightarrow> (0, 0))"

definition int_trap_gate :: "bx_descriptor_t \<Rightarrow> bool \<Rightarrow> Bit16u \<Rightarrow> unit bx" where
  "int_trap_gate gate is_error_code ec =
     (case gate_target gate of (cs_raw, dest) \<Rightarrow>
      if cs_raw AND 0xfffc = 0 then raise BX_GP_EXCEPTION 0
      else
        (let cs_selector = parse_selector cs_raw; cs_ec = error_code cs_raw in
         and_then (fetch_raw_descriptor cs_selector BX_GP_EXCEPTION) (\<lambda>(dword1, dword2) s.
           (let d = parse_descriptor dword1 dword2; u = u_segment (d_u d) in
            if d_valid d = 0 \<or> \<not> d_segment d \<or> \<not> sd_executable u \<or> d_dpl d > CPL s
            then raise BX_GP_EXCEPTION cs_ec s
            else if \<not> d_p d then raise BX_NP_EXCEPTION cs_ec s
            else if \<not> sd_c_ed u \<and> d_dpl d < CPL s then int_inner (d_type gate) cs_selector d dest is_error_code ec s
            else if v8086_mode s then raise BX_GP_EXCEPTION cs_ec s
            else if sd_c_ed u \<or> d_dpl d = CPL s then int_same (d_type gate) cs_selector d dest is_error_code ec s
            else raise BX_GP_EXCEPTION cs_ec s))))"

section \<open>Protected mode\<close>

definition protected_mode_int :: "nat \<Rightarrow> bool \<Rightarrow> bool \<Rightarrow> Bit16u \<Rightarrow> unit bx" where
  "protected_mode_int vec is_INT is_error_code ec =
     (let gate_ec = word_of_nat (vec * 8 + 2) in
      and_next (\<lambda>s. raise_if (vec * 8 + 7 > unat (idtr_limit (sys s))) BX_GP_EXCEPTION gate_ec s) (
      and_then (\<lambda>s. read_lin32 (idtr_base (sys s) + word_of_nat (vec * 8)) s) (\<lambda>dword1.
      and_then (\<lambda>s. read_lin32 (idtr_base (sys s) + word_of_nat (vec * 8) + 4) s) (\<lambda>dword2 s.
        (let gate = parse_descriptor dword1 dword2 in
         if d_valid gate = 0 \<or> d_segment gate then raise BX_GP_EXCEPTION gate_ec s
         else if d_type gate \<notin> {5, 6, 7, 14, 15} then raise BX_GP_EXCEPTION gate_ec s
         else if is_INT \<and> d_dpl gate < CPL s then raise BX_GP_EXCEPTION gate_ec s
         else if \<not> d_p gate then raise BX_NP_EXCEPTION gate_ec s
         else case d_u gate of
             U_taskgate raw_tss \<Rightarrow> int_task_gate raw_tss is_error_code ec s
           | _ \<Rightarrow> int_trap_gate gate is_error_code ec s)))))"

section \<open>Real mode\<close>

definition real_mode_int :: "nat \<Rightarrow> unit bx" where
  "real_mode_int vec =
     and_next (\<lambda>s. raise_if (vec * 4 + 3 > unat (idtr_limit (sys s))) BX_GP_EXCEPTION 0 s) (
     and_next (and_then read_flags push_16) (
     and_next (push_16_sreg CS) (
     and_next (and_then (gets (\<lambda>s. ucast (eip s))) push_16) (
     and_then (\<lambda>s. read_lin16 (idtr_base (sys s) + word_of_nat (4 * vec)) s) (\<lambda>ip.
     and_next (update (\<lambda>s. s\<lparr>eip := ucast ip\<rparr>)) (
     and_then (\<lambda>s. read_lin16 (idtr_base (sys s) + word_of_nat (4 * vec) + 2) s) (\<lambda>cs_selector.
     and_next (load_seg_reg CS cs_selector) (
     update (\<lambda>s. clear_eflag 16 (clear_eflag 18 (clear_eflag 8 (clear_eflag 9 s))))))))))))"

section \<open>Interrupts\<close>

definition interrupt :: "nat \<Rightarrow> bool \<Rightarrow> bool \<Rightarrow> Bit16u \<Rightarrow> unit bx" where
  "interrupt vec is_INT is_error_code ec =
     and_next (update (\<lambda>s. (invalidate_prefetch_q s)\<lparr>debug_trap := 0, inhibit_mask := 0\<rparr>)) (
     and_next (update (\<lambda>s. s\<lparr>sys := (sys s)\<lparr>save_cs := sregs s CS, save_ss := sregs s SS,
                 save_eip := eip s, save_esp := ESP s\<rparr>\<rparr>)) (\<lambda>s.
       if real_mode s then real_mode_int vec s
       else protected_mode_int vec is_INT is_error_code ec s))"

section \<open>Software interrupts\<close>

definition UndefinedOpcode :: "unit bx" where
  "UndefinedOpcode = raise BX_UD_EXCEPTION 0"

definition BOUND_GwMa :: "bxInstruction \<Rightarrow> unit bx" where
  "BOUND_GwMa i =
     (if modC0 i then UndefinedOpcode
      else
        and_then (gets (BX_READ_16BIT_REG (nnn i))) (\<lambda>op1_16.
        and_then (\<lambda>s. read_virtual_word (i_seg i) (rm_addr s) s) (\<lambda>bound_min.
        and_then (\<lambda>s. read_virtual_word (i_seg i) (rm_addr s + 2) s) (\<lambda>bound_max.
        raise_if (op1_16 <s bound_min \<or> bound_max <s op1_16) BX_BR_EXCEPTION 0))))"

definition BOUND_GdMa :: "bxInstruction \<Rightarrow> unit bx" where
  "BOUND_GdMa i =
     (if modC0 i then UndefinedOpcode
      else
        and_then (gets (BX_READ_32BIT_REG (nnn i))) (\<lambda>op1_32.
        and_then (\<lambda>s. read_virtual_dword (i_seg i) (rm_addr s) s) (\<lambda>bound_min.
        and_then (\<lambda>s. read_virtual_dword (i_seg i) (rm_addr s + 4) s) (\<lambda>bound_max.
        raise_if (op1_32 <s bound_min \<or> bound_max <s op1_32) BX_BR_EXCEPTION 0))))"

definition INT1 :: "bxInstruction \<Rightarrow> unit bx" where
  "INT1 i = interrupt 1 True False 0"

definition INT3 :: "bxInstruction \<Rightarrow> unit bx" where
  "INT3 i = interrupt 3 True False 0"

definition INT_Ib :: "bxInstruction \<Rightarrow> unit bx" where
  "INT_Ib i =
     and_next (\<lambda>s. raise_if (v8086_mode s \<and> get_IOPL s < 3) BX_GP_EXCEPTION 0 s) (
     interrupt (unat (i_Ib i)) True False 0)"

definition INTO :: "bxInstruction \<Rightarrow> unit bx" where
  "INTO i = and_then (get_flag OF) (\<lambda>b. if b then interrupt 4 True False 0 else ret ())"

end
