(* ===== verification/BxException.thy ===== *)
theory BxException
  imports BxInterrupt
begin

text \<open>
  \<open>BX_CPU_C::exception\<close> (\<open>cpu/exception.cc\<close>): the class of a vector, the
  double fault, the shutdown on a third exception, and the delivery itself. A fault while the
  handler is entered calls \<open>exception\<close> again; that the nesting ends is the termination
  proof of the function. \<open>BX_RESET_ON_TRIPLE_FAULT\<close> is 0, so a shutdown is a panic.
\<close>

section \<open>What entering a handler leaves alone\<close>

definition handler_state :: "cpu \<Rightarrow> nat \<times> nat \<times> nat \<times> bool" where
  "handler_state s = (errorno (sys s), curr_exception0 (sys s), curr_exception1 (sys s), EXT (sys s))"

named_theorems delivery_intros \<open>a routine leaves the progress of exception delivery alone\<close>

abbreviation leaves :: "nat \<times> nat \<times> nat \<times> bool \<Rightarrow> 'a bx \<Rightarrow> bool" where
  "leaves h \<equiv> stable (\<lambda>s. handler_state s = h)"

lemma handler_state_simps [simp]:
  "handler_state (s\<lparr>gen_reg := g\<rparr>) = handler_state s" "handler_state (s\<lparr>eip := e\<rparr>) = handler_state s"
  "handler_state (s\<lparr>eflags_val32 := w\<rparr>) = handler_state s" "handler_state (s\<lparr>VM_cached := b\<rparr>) = handler_state s"
  "handler_state (s\<lparr>lf_flags_status := w\<rparr>) = handler_state s" "handler_state (s\<lparr>sregs := r\<rparr>) = handler_state s"
  "handler_state (s\<lparr>cpu_mode := m\<rparr>) = handler_state s" "handler_state (s\<lparr>async_event := k\<rparr>) = handler_state s"
  "handler_state (s\<lparr>debug_trap := d\<rparr>) = handler_state s" "handler_state (s\<lparr>inhibit_mask := d\<rparr>) = handler_state s"
  "handler_state (s\<lparr>pages := p\<rparr>) = handler_state s" "handler_state (s\<lparr>mem := q\<rparr>) = handler_state s"
  "handler_state (s\<lparr>TLB := t\<rparr>) = handler_state s" "handler_state (s\<lparr>cr0 := c\<rparr>) = handler_state s"
  "handler_state (s\<lparr>cr3 := w\<rparr>) = handler_state s" "handler_state (s\<lparr>cr3_masked := w\<rparr>) = handler_state s"
  by (simp_all add: handler_state_def)

lemma handler_state_steps [simp]:
  "handler_state (set_sreg sg r s) = handler_state s"
  "handler_state (clear_eflag n s) = handler_state s" "handler_state (assert_eflag n s) = handler_state s"
  "handler_state (set_VM b s) = handler_state s" "handler_state (enter_flags t s) = handler_state s"
  "handler_state (setEFlags v s) = handler_state s" "handler_state (writeEFlags v m s) = handler_state s"
  "handler_state (invalidate_prefetch_q s) = handler_state s"
  "handler_state (load_cs sl d c s) = handler_state s" "handler_state (set_stack_pointer big esp s) = handler_state s"
  "handler_state (set_seg_valid sg v s) = handler_state s" "handler_state (CR3_change w s) = handler_state s"
  "handler_state (BX_WRITE_16BIT_REG i w16 s) = handler_state s" "handler_state (BX_WRITE_32BIT_REG i w s) = handler_state s"
  by (simp_all add: set_sreg_def clear_eflag_def assert_eflag_def set_VM_def enter_flags_def setEFlags_def
      writeEFlags_def invalidate_prefetch_q_def load_cs_def set_stack_pointer_def set_seg_valid_def
      CR3_change_def TLB_flush_def BX_WRITE_16BIT_REG_def BX_WRITE_32BIT_REG_def Let_def handler_state_def)

interpretation handler: stack_invariant "\<lambda>s. handler_state s = h" for h
  by unfold_locales
    (auto simp: fault_state_def invalidate_TLB_def set_TLB_def fill_TLB_def
      fill_TLB_off_read_def fill_TLB_off_write_def Let_def set_seg_valid_def handler_state_def split: option.split)

lemmas leaves_accesses [delivery_intros] = handler.access_linear handler.translate_linear handler.lin
  handler.push_pop handler.read_all_flags handler.fetch

lemma leaves_update [delivery_intros]: "(\<And>s. handler_state (f s) = handler_state s) \<Longrightarrow> leaves h (update f)"
  by (simp add: stable_def)

lemma leaves_sreg [delivery_intros]: "leaves h (update_sreg sg f)"
  by (auto simp: stable_def update_sreg_def)

lemma leaves_read_all: "list_all (stable I) ms \<Longrightarrow> stable I (read_all ms)"
  by (induction ms) (auto intro!: stable_intros)

lemma leaves_load_seg_reg [delivery_intros]: "leaves h (write_accessed sl d)" "leaves h (load_seg_reg sg v)"
proof -
  show a: "leaves h (write_accessed sl d)" for sl d
    unfolding write_accessed_def by (intro stable_intros) (rule stable_at(1), rule handler.access_linear)
  show "leaves h (load_seg_reg sg v)"
    unfolding load_seg_reg_def load_SS_protected_def load_data_protected_def Let_def
    by (intro stable_intros delivery_intros a; simp add: stable_def)
qed

lemma leaves_load_ss [delivery_intros]: "leaves h (load_ss sl d c)"
  unfolding load_ss_def by (intro stable_intros delivery_intros; simp)

lemma leaves_TSS_stack [delivery_intros]: "leaves h (get_SS_ESP_from_TSS pl)"
  unfolding get_SS_ESP_from_TSS_def by (intro stable_intros delivery_intros)

lemma leaves_task_steps [delivery_intros]:
  "leaves h (save16 a f)" "leaves h (save32 a g)" "leaves h (save_sel a sg)" "leaves h (probe a rw)"
  "leaves h (rmw_busy i k)" "leaves h (post_exception v r)"
  unfolding save16_def save32_def save_sel_def probe_def rmw_busy_def post_exception_def
  by (intro stable_intros delivery_intros; simp)+

lemma leaves_task_state [delivery_intros]:
  "leaves h (save_task_286 a w)" "leaves h (save_task_386 a w)" "leaves h (probe_tss src a k b l)"
  "leaves h (load_task_286 a)" "leaves h (load_task_386 a)"
  unfolding save_task_286_def save_task_386_def probe_tss_def load_task_286_def load_task_386_def
  by ((intro stable_intros delivery_intros leaves_read_all; simp add: delivery_intros stable_intros)+)

lemma handler_state_task [simp]:
  "handler_state (commit_task sl d s) = handler_state s"
  "handler_state (load_dynamic_state d im s) = handler_state s"
  "handler_state (load_selectors im s) = handler_state s"
proof -
  show "handler_state (commit_task sl d s) = handler_state s"
    by (simp add: commit_task_def Let_def handler_state_def)
  have ps: "handler_state (s\<lparr>eip := e, sys := (sys s)\<lparr>prev_eip := e\<rparr>\<rparr>) = handler_state s" for s e
    by (simp add: handler_state_def)
  show "handler_state (load_dynamic_state d im s) = handler_state s"
    by (simp add: load_dynamic_state_def Let_def ps)
  have ts: "handler_state (task_sreg sg r s) = handler_state s" for sg r s
    by (simp add: task_sreg_def)
  have "handler_state (load_selectors im s) = handler_state (task_sreg GS (raw_gs im) (task_sreg FS (raw_fs im)
      (task_sreg SS (raw_ss im) (task_sreg ES (raw_es im) (task_sreg DS (raw_ds im) (task_sreg CS (raw_cs im) s))))))"
    unfolding load_selectors_def Let_def by (simp add: handler_state_def)
  then show "handler_state (load_selectors im s) = handler_state s" by (simp add: ts)
qed

lemma leaves_task_loads [delivery_intros]:
  "leaves h (task_load_LDTR r)" "leaves h (task_load_CS r)" "leaves h (task_load_SS r c)"
  "leaves h (task_switch_load_selector sg r c)" "leaves h (task_trap d im)"
proof -
  have ldt: "leaves h (update_sys (\<lambda>y. y\<lparr>ldtr := f y\<rparr>))" for f
    by (simp add: update_sys_def stable_def handler_state_def)
  show "leaves h (task_load_LDTR r)"
    unfolding task_load_LDTR_def by (intro stable_intros delivery_intros ldt)
  show "leaves h (task_load_CS r)" "leaves h (task_load_SS r c)" "leaves h (task_switch_load_selector sg r c)"
    unfolding task_load_CS_def task_load_SS_def task_switch_load_selector_def
    by (intro stable_intros delivery_intros)+
  show "leaves h (task_trap d im)"
    unfolding task_trap_def by (intro stable_intros delivery_intros) simp
qed

lemma leaves_task_segments [delivery_intros]: "leaves h (task_segments im)"
  unfolding task_segments_def
  by (intro stable_intros delivery_intros) (simp_all add: delivery_intros)

lemma leaves_task_switch [delivery_intros]: "leaves h (task_switch sl d src)"
  unfolding task_switch_def
  by (intro stable_intros delivery_intros) simp_all

lemma leaves_gate_steps [delivery_intros]:
  "leaves h (push_code w e)" "leaves h (push_gate g d)" "leaves h (push_gate_sel g sg)" "leaves h (drop_sreg sg)"
  "leaves h (push_16_sreg sg)" "leaves h (check_inner_SS r sl dsc c)"
  unfolding push_code_def push_gate_def push_gate_sel_def drop_sreg_def push_16_sreg_def check_inner_SS_def
  by (intro stable_intros delivery_intros)+

lemma leaves_can_push_here: "leaves h (\<lambda>s. can_push (sregs s SS) (temp_RSP s) k s)"
  by (rule stable_at(2) [of _ "\<lambda>r e. can_push r e k"]) (rule stable_intros)

lemma leaves_int_inner [delivery_intros]: "leaves h (int_inner g sl d dest b e)"
  unfolding int_inner_def
  by (intro stable_intros delivery_intros) (simp_all add: delivery_intros)

lemma leaves_int_same [delivery_intros]: "leaves h (int_same g sl d dest b e)"
  unfolding int_same_def
  by (intro stable_intros delivery_intros leaves_can_push_here) simp_all

lemma leaves_int_trap_gate [delivery_intros]: "leaves h (int_trap_gate g b e)"
  unfolding int_trap_gate_def
  by (intro stable_intros delivery_intros)

lemma leaves_int_task_gate [delivery_intros]: "leaves h (int_task_gate r b e)"
proof -
  have p: "leaves h (\<lambda>s. push_code (seg_d_b (sregs s CS)) e s)"
    by (rule stable_at(1)) (rule delivery_intros)
  show ?thesis
    unfolding int_task_gate_def by (intro stable_intros delivery_intros p)
qed

lemma leaves_protected_mode_int [delivery_intros]: "leaves h (protected_mode_int v i b e)"
proof -
  have gate: "leaves h (\<lambda>s. case u of U_taskgate raw_tss \<Rightarrow> int_task_gate raw_tss b e s
    | _ \<Rightarrow> int_trap_gate gate b e s)" for u gate
    by (cases u) (simp_all add: delivery_intros)
  show ?thesis
    unfolding protected_mode_int_def by (intro stable_intros delivery_intros handler.lin_at gate)
qed

lemma leaves_real_mode_int [delivery_intros]: "leaves h (real_mode_int v)"
  unfolding real_mode_int_def
  by (intro stable_intros delivery_intros handler.lin_at) simp_all

lemma leaves_interrupt [delivery_intros]: "leaves h (interrupt v i b e)"
proof -
  have s: "handler_state (s\<lparr>sys := (sys s)\<lparr>save_cs := a, save_ss := b, save_eip := c, save_esp := d\<rparr>\<rparr>) = handler_state s"
    for s a b c d by (simp add: handler_state_def)
  show ?thesis
    unfolding interrupt_def by (intro stable_intros delivery_intros) (simp_all add: s)
qed

section \<open>The class of an exception\<close>

definition BX_ET_BENIGN :: nat where "BX_ET_BENIGN = 0"
definition BX_ET_CONTRIBUTORY :: nat where "BX_ET_CONTRIBUTORY = 1"
definition BX_ET_PAGE_FAULT :: nat where "BX_ET_PAGE_FAULT = 2"
definition BX_ET_DOUBLE_FAULT :: nat where "BX_ET_DOUBLE_FAULT = 10"

definition is_exception_OK :: "nat \<Rightarrow> nat \<Rightarrow> bool" where
  "is_exception_OK first second =
     [[True, True, True],
      [True, False, True],
      [True, False, False]] ! first ! second"

text \<open>
  The switch over the vector: whether an error code is pushed, the class, whether RF is set in
  the saved EFLAGS. The vectors 9, 15, 17, 18 and all from 19 on end in \<open>BX_PANIC\<close>.
\<close>

definition exception_class :: "nat \<Rightarrow> (bool \<times> nat \<times> bool) option" where
  "exception_class vec =
     (if vec = 0 then Some (False, BX_ET_CONTRIBUTORY, True)
      else if vec \<in> {1, 2, 3, 4} then Some (False, BX_ET_BENIGN, False)
      else if vec \<in> {5, 6, 7} then Some (False, BX_ET_BENIGN, True)
      else if vec = 8 then Some (True, BX_ET_DOUBLE_FAULT, False)
      else if vec \<in> {10, 11, 12, 13} then Some (True, BX_ET_CONTRIBUTORY, True)
      else if vec = 14 then Some (True, BX_ET_PAGE_FAULT, True)
      else if vec = 16 then Some (False, BX_ET_BENIGN, True)
      else None)"

section \<open>The steps before the handler is entered\<close>

definition restore_attempt :: "cpu \<Rightarrow> cpu" where
  "restore_attempt s =
     (let y = sys s in
      if errorno y \<noteq> 0 then
        s\<lparr>sregs := (sregs s)(CS := save_cs y, SS := save_ss y), eip := save_eip y,
          gen_reg := (gen_reg s)(4 := save_esp y)\<rparr>
      else s)"

text \<open>\<open>except_chk\<close>: a page fault in the middle of a call through a gate.\<close>

definition restore_selectors :: "cpu \<Rightarrow> cpu" where
  "restore_selectors s =
     (if except_chk (sys s) then
        s\<lparr>sregs := (sregs s)(CS := (sregs s CS)\<lparr>sel_value := except_cs (sys s)\<rparr>,
                             SS := (sregs s SS)\<lparr>sel_value := except_ss (sys s)\<rparr>),
          sys := (sys s)\<lparr>except_chk := False\<rparr>\<rparr>
      else s)"

text \<open>
  The vector to deliver after the double-fault table is consulted, with the record of the class
  of this exception. \<open>errorno\<close> is already incremented.
\<close>

definition note_exception :: "nat \<Rightarrow> nat \<Rightarrow> cpu \<Rightarrow> nat \<times> cpu" where
  "note_exception vec cls s =
     (if errorno (sys s) \<ge> 2 then
        (if is_exception_OK (curr_exception0 (sys s)) cls
         then (vec, s\<lparr>sys := (sys s)\<lparr>curr_exception1 := cls\<rparr>\<rparr>)
         else (8, s\<lparr>sys := (sys s)\<lparr>curr_exception1 := BX_ET_DOUBLE_FAULT\<rparr>\<rparr>))
      else (vec, s\<lparr>sys := (sys s)\<lparr>curr_exception0 := cls\<rparr>\<rparr>))"

definition begin_exception :: "cpu \<Rightarrow> cpu" where
  "begin_exception s =
     (let s1 = restore_attempt (invalidate_prefetch_q s) in s1\<lparr>sys := (sys s1)\<lparr>errorno := errorno (sys s1) + 1\<rparr>\<rparr>)"

text \<open>Back to the start of the instruction, with the flags and the error code of the handler.\<close>

definition prepare_exception :: "nat \<Rightarrow> nat \<Rightarrow> bool \<Rightarrow> cpu \<Rightarrow> cpu" where
  "prepare_exception vec cls rf s =
     (let s1 = s\<lparr>eip := prev_eip (sys s), gen_reg := (gen_reg s)(4 := prev_esp (sys s))\<rparr>;
          s2 = (if vec = 14 then restore_selectors s1 else s1);
          s3 = (if rf then assert_eflag 16 s2 else s2) in
      s3\<lparr>sys := (sys s3)\<lparr>EXT := True\<rparr>\<rparr>)"

definition exception_code :: "nat \<Rightarrow> Bit16u \<Rightarrow> cpu \<Rightarrow> Bit16u" where
  "exception_code cls ec s =
     (if cls \<noteq> BX_ET_PAGE_FAULT then (ec AND 0xfffe) OR of_bool (EXT (sys s)) else ec)"

text \<open>The result is the vector, whether to push an error code, and the code.\<close>

definition exception_setup :: "nat \<Rightarrow> Bit16u \<Rightarrow> (nat \<times> bool \<times> Bit16u) bx" where
  "exception_setup vec ec s =
     (let s1 = begin_exception s in
      if errorno (sys s1) \<ge> 3 then Panic ''exception(): 3rd exception with no resolution'' s1
      else if errorno (sys s1) = 2 \<and> curr_exception0 (sys s1) = BX_ET_DOUBLE_FAULT
      then Panic ''exception(): triple fault encountered'' s1
      else case exception_class vec of
        None \<Rightarrow> Panic ''exception(): bad vector'' s1
      | Some (push_error, cls, rf) \<Rightarrow>
        (let (vec', s2) = note_exception vec cls (prepare_exception vec cls rf s1) in
         if real_mode s2 then Done (vec', False, 0) s2
         else Done (vec', push_error, exception_code cls ec s1) s2))"

lemma sys_restore_attempt [simp]: "sys (restore_attempt s) = sys s"
  by (simp add: restore_attempt_def Let_def)

lemma errorno_begin [simp]: "errorno (sys (begin_exception s)) = errorno (sys s) + 1"
  by (simp add: begin_exception_def Let_def invalidate_prefetch_q_def)

lemma errorno_prepare [simp]: "errorno (sys (prepare_exception v c b s)) = errorno (sys s)"
  by (simp add: prepare_exception_def restore_selectors_def assert_eflag_def Let_def)

lemma errorno_note [simp]: "errorno (sys (snd (note_exception v c s))) = errorno (sys s)"
  by (simp add: note_exception_def)

lemma errorno_noted: "note_exception v c s = (v', t) \<Longrightarrow> errorno (sys t) = errorno (sys s)"
  using errorno_note [of v c s] by simp

lemma exception_setup_Done:
  assumes "exception_setup vec ec s = Done r t"
  shows "errorno (sys t) = errorno (sys s) + 1 \<and> errorno (sys s) < 2"
  using assms
  by (auto simp: exception_setup_def Let_def split: option.splits if_splits prod.splits dest!: errorno_noted)

lemma exception_setup_not_Except: "exception_setup vec ec s \<noteq> Except v e t" "exception_setup vec ec s \<noteq> Device a t"
  by (auto simp: exception_setup_def Let_def split: option.splits prod.splits)

section \<open>Delivery\<close>

function exception :: "nat \<Rightarrow> Bit16u \<Rightarrow> cpu \<Rightarrow> (unit, cpu) outcome" where
  "exception vec ec s =
     (case exception_setup vec ec s of
        Done (vec', push_error, ec') s1 \<Rightarrow>
          (case interrupt vec' False push_error ec' s1 of
             Done u t \<Rightarrow> Done () (t\<lparr>sys := (sys t)\<lparr>errorno := 0\<rparr>\<rparr>)
           | Except v e t \<Rightarrow> exception v e t
           | Device a t \<Rightarrow> Device a t
           | Panic msg t \<Rightarrow> Panic msg t)
      | Except v e t \<Rightarrow> Except v e t
      | Device a t \<Rightarrow> Device a t
      | Panic msg t \<Rightarrow> Panic msg t)"
  by pat_completeness auto

lemma errorno_handler: "handler_state s = handler_state t \<Longrightarrow> errorno (sys s) = errorno (sys t)"
  by (simp add: handler_state_def)

lemma interrupt_errorno:
  "interrupt v i b e s = Except v' e' t \<Longrightarrow> errorno (sys t) = errorno (sys s)"
  using stableD [OF leaves_interrupt [of "handler_state s" v i b e], of s] errorno_handler [of t s] by simp

termination exception
proof (relation "measure (\<lambda>(vec, ec, s). 2 - errorno (sys s))")
qed (auto dest!: interrupt_errorno exception_setup_Done)

declare exception.simps [simp del]

end
