(* ===== verification/BxFar.thy ===== *)
theory BxFar
  imports BxInterrupt
begin

text \<open>
  Far transfers of control: \<open>cpu/jmp_far.cc\<close>, \<open>cpu/call_far.cc\<close>,
  \<open>cpu/ret_far.cc\<close>, \<open>cpu/iret.cc\<close>, \<open>cpu/vm8086.cc\<close> and the far
  instructions of \<open>cpu/ctrl_xfer16.cc\<close> and \<open>cpu/ctrl_xfer32.cc\<close>; also the loads
  of far pointers of \<open>cpu/segment_ctrl.cc\<close>. In protected mode a transfer goes through
  the descriptor the selector names: a code segment, a TSS, or a gate.
\<close>

section \<open>Jumps\<close>

definition check_EIP_limit :: "unit bx" where
  "check_EIP_limit = (\<lambda>s. raise_if (eip s > seg_limit_scaled (sregs s CS)) BX_GP_EXCEPTION 0 s)"

text \<open>After a task gate the offset is EIP or IP, as the D bit of the new CS says.\<close>

definition check_eIP_limit :: "unit bx" where
  "check_eIP_limit = (\<lambda>s.
     (let temp_eIP = (if seg_d_b (sregs s CS) then eip s else eip s AND 0xffff) in
      raise_if (temp_eIP > seg_limit_scaled (sregs s CS)) BX_GP_EXCEPTION 0 s))"

definition far_task_gate :: "task_source \<Rightarrow> Bit16u \<Rightarrow> unit bx" where
  "far_task_gate source raw_tss_selector =
     (let tss_selector = parse_selector raw_tss_selector; ec = error_code raw_tss_selector in
      if sl_ti tss_selector then raise BX_GP_EXCEPTION ec
      else
        and_then (fetch_raw_descriptor tss_selector BX_GP_EXCEPTION) (\<lambda>(dword1, dword2).
          (let d = parse_descriptor dword1 dword2 in
           if d_valid d = 0 \<or> d_segment d then raise BX_GP_EXCEPTION ec
           else if d_type d \<noteq> 9 \<and> d_type d \<noteq> 1 then raise BX_GP_EXCEPTION ec
           else if \<not> d_p d then raise BX_NP_EXCEPTION ec
           else and_next (task_switch tss_selector d source) check_eIP_limit)))"

definition taskgate_selector :: "bx_descriptor_t \<Rightarrow> Bit16u" where
  "taskgate_selector d = (case d_u d of U_taskgate raw_tss \<Rightarrow> raw_tss | _ \<Rightarrow> 0)"

definition jmp_task_gate :: "bx_descriptor_t \<Rightarrow> unit bx" where
  "jmp_task_gate d = far_task_gate BX_TASK_FROM_JUMP (taskgate_selector d)"

definition jmp_call_gate :: "Bit16u \<Rightarrow> Bit32u \<Rightarrow> unit bx" where
  "jmp_call_gate gate_cs_raw dest =
     (if gate_cs_raw AND 0xfffc = 0 then raise BX_GP_EXCEPTION 0
      else
        (let sl = parse_selector gate_cs_raw in
         and_then (fetch_raw_descriptor sl BX_GP_EXCEPTION) (\<lambda>(dword1, dword2) s.
           (let d = parse_descriptor dword1 dword2; cpl = CPL s in
            and_next (check_cs d gate_cs_raw 0 cpl) (branch_far32 sl d dest cpl) s))))"

definition jmp_call_gate16 :: "bx_descriptor_t \<Rightarrow> unit bx" where
  "jmp_call_gate16 d = (case gate_target d of (sel, dest) \<Rightarrow> jmp_call_gate sel dest)"

definition jmp_call_gate32 :: "bx_descriptor_t \<Rightarrow> unit bx" where
  "jmp_call_gate32 d = (case gate_target d of (sel, dest) \<Rightarrow> jmp_call_gate sel dest)"

definition jump_protected :: "Bit16u \<Rightarrow> Bit32u \<Rightarrow> unit bx" where
  "jump_protected cs_raw disp =
     (if cs_raw AND 0xfffc = 0 then raise BX_GP_EXCEPTION 0
      else
        (let sl = parse_selector cs_raw; ec = error_code cs_raw in
         and_then (fetch_raw_descriptor sl BX_GP_EXCEPTION) (\<lambda>(dword1, dword2) s.
           (let d = parse_descriptor dword1 dword2; cpl = CPL s in
            if d_segment d then
              and_next (check_cs d cs_raw (unat (cs_raw AND 3)) cpl) (branch_far64 sl d disp cpl) s
            else if d_dpl d < cpl then raise BX_GP_EXCEPTION ec s
            else if d_dpl d < sl_rpl sl then raise BX_GP_EXCEPTION ec s
            else if \<not> d_p d then raise BX_NP_EXCEPTION ec s
            else if d_type d \<in> {1, 9} then and_next (task_switch sl d BX_TASK_FROM_JUMP) check_EIP_limit s
            else if d_type d = 4 then jmp_call_gate16 d s
            else if d_type d = 5 then jmp_task_gate d s
            else if d_type d = 12 then jmp_call_gate32 d s
            else raise BX_GP_EXCEPTION ec s))))"

section \<open>Calls\<close>

text \<open>The return address, in the size of the instruction or of the gate.\<close>

definition push_CS_EIP :: "bool \<Rightarrow> unit bx" where
  "push_CS_EIP wide = and_next (push_gate_sel wide CS) (and_then (gets eip) (push_gate wide))"

definition gate_count :: "bx_descriptor_t \<Rightarrow> nat" where
  "gate_count d = (case d_u d of U_gate386 n sel dest \<Rightarrow> unat (n AND 0x1f) | U_gate286 n sel dest \<Rightarrow> unat (n AND 0x1f) | _ \<Rightarrow> 0)"

definition check_call_SS :: "Bit16u \<Rightarrow> bx_selector_t \<Rightarrow> bx_descriptor_t \<Rightarrow> nat \<Rightarrow> unit bx" where
  "check_call_SS raw ss_selector ss_descriptor cs_dpl =
     (let u = u_segment (d_u ss_descriptor); ec = error_code raw in
      if sl_rpl ss_selector \<noteq> cs_dpl then raise BX_TS_EXCEPTION ec
      else if d_dpl ss_descriptor \<noteq> cs_dpl then raise BX_TS_EXCEPTION ec
      else if d_valid ss_descriptor = 0 \<or> \<not> d_segment ss_descriptor \<or> sd_executable u \<or> \<not> sd_r_w u
      then raise BX_TS_EXCEPTION ec
      else if \<not> d_p ss_descriptor then raise BX_SS_EXCEPTION ec
      else ret ())"

text \<open>The parameters are read before the stack is switched, the last one first onto the new one.\<close>

definition read_parameters :: "bool \<Rightarrow> Bit32u \<Rightarrow> nat \<Rightarrow> Bit32u list bx" where
  "read_parameters gate386 base count =
     read_all (map (\<lambda>k. if gate386 then read_lin32 (base + word_of_nat (k * 4))
       else and_then (read_lin16 (base + word_of_nat (k * 2))) (\<lambda>w. ret (ucast w))) [0..<count])"

definition note_except_chk :: "cpu \<Rightarrow> cpu" where
  "note_except_chk s = s\<lparr>sys := (sys s)\<lparr>except_chk := True, except_cs := sel_value (sregs s CS),
     except_ss := sel_value (sregs s SS)\<rparr>\<rparr>"

definition call_gate_inner :: "bx_descriptor_t \<Rightarrow> bx_selector_t \<Rightarrow> bx_descriptor_t \<Rightarrow> Bit32u \<Rightarrow> unit bx" where
  "call_gate_inner gate cs_selector cs_descriptor new_EIP =
     (let gate386 = (d_type gate = 12); cs_dpl = d_dpl cs_descriptor; cs_u = u_segment (d_u cs_descriptor);
          param_count = gate_count gate;
          room_needed = (if sd_d_b cs_u then 16 else 8) + param_count * (if gate386 then 4 else 2) in
      and_next (update note_except_chk) (
      and_then (get_SS_ESP_from_TSS cs_dpl) (\<lambda>(ss_raw, new_esp).
      and_next (raise_if (ss_raw AND 0xfffc = 0) BX_TS_EXCEPTION 0) (
        (let ss_selector = parse_selector ss_raw in
      and_then (fetch_raw_descriptor ss_selector BX_TS_EXCEPTION) (\<lambda>(dword1, dword2).
        (let ss_descriptor = parse_descriptor dword1 dword2 in
      and_next (check_call_SS ss_raw ss_selector ss_descriptor cs_dpl) (
      and_then (can_push (descriptor_stack ss_selector ss_descriptor) new_esp (word_of_nat room_needed)) (\<lambda>room.
      and_next (raise_if (\<not> room) BX_SS_EXCEPTION (error_code ss_raw)) (
      and_next (raise_if (new_EIP > sd_limit_scaled cs_u) BX_GP_EXCEPTION 0) (
      and_then (gets (\<lambda>s. (sel_value (sregs s SS), temp_RSP s, get_segment_base SS s, sel_value (sregs s CS),
                           if sd_d_b cs_u then eip s else eip s AND 0xffff)))
        (\<lambda>(return_SS, return_ESP, return_ss_base, return_CS, return_EIP).
      and_then (read_parameters gate386 (return_ss_base + return_ESP) param_count) (\<lambda>parameters.
      and_next (load_ss ss_selector ss_descriptor (d_dpl ss_descriptor)) (
      and_next (update (set_stack_pointer (sd_d_b (u_segment (d_u ss_descriptor))) new_esp)) (
      and_next (update (load_cs cs_selector cs_descriptor cs_dpl)) (
      and_next (update (\<lambda>s. s\<lparr>eip := new_EIP\<rparr>)) (
      and_next (in_order
        ([push_gate gate386 (ucast return_SS), push_gate gate386 return_ESP] @
         map (push_gate gate386) (rev parameters) @
         [push_gate gate386 (ucast return_CS), push_gate gate386 return_EIP])) (
      update_sys (\<lambda>y. y\<lparr>except_chk := False\<rparr>)))))))))))))))))))"

definition call_gate_same :: "bx_descriptor_t \<Rightarrow> bx_selector_t \<Rightarrow> bx_descriptor_t \<Rightarrow> Bit32u \<Rightarrow> unit bx" where
  "call_gate_same gate cs_selector cs_descriptor new_EIP =
     and_next (push_CS_EIP (d_type gate = 12)) (\<lambda>s.
       branch_far32 cs_selector cs_descriptor new_EIP (CPL s) s)"

definition call_gate :: "bx_descriptor_t \<Rightarrow> unit bx" where
  "call_gate gate =
     (case gate_target gate of (dest_selector, new_EIP) \<Rightarrow>
      if dest_selector AND 0xfffc = 0 then raise BX_GP_EXCEPTION 0
      else
        (let sl = parse_selector dest_selector; ec = error_code dest_selector in
         and_then (fetch_raw_descriptor sl BX_GP_EXCEPTION) (\<lambda>(dword1, dword2) s.
           (let d = parse_descriptor dword1 dword2; u = u_segment (d_u d) in
            if d_valid d = 0 \<or> \<not> d_segment d \<or> \<not> sd_executable u \<or> d_dpl d > CPL s
            then raise BX_GP_EXCEPTION ec s
            else if \<not> d_p d then raise BX_NP_EXCEPTION ec s
            else if \<not> sd_c_ed u \<and> d_dpl d < CPL s then call_gate_inner gate sl d new_EIP s
            else call_gate_same gate sl d new_EIP s))))"

definition call_protected :: "bool \<Rightarrow> Bit16u \<Rightarrow> Bit32u \<Rightarrow> unit bx" where
  "call_protected os32 cs_raw disp =
     (if cs_raw AND 0xfffc = 0 then raise BX_GP_EXCEPTION 0
      else
        (let sl = parse_selector cs_raw; ec = error_code cs_raw in
         and_then (fetch_raw_descriptor sl BX_GP_EXCEPTION) (\<lambda>(dword1, dword2) s.
           (let d = parse_descriptor dword1 dword2; cpl = CPL s in
            if d_valid d = 0 then raise BX_GP_EXCEPTION ec s
            else if d_segment d then
              and_next (check_cs d cs_raw (unat (cs_raw AND 3)) cpl) (
              and_next (push_CS_EIP os32) (branch_far64 sl d disp cpl)) s
            else if d_dpl d < cpl then raise BX_GP_EXCEPTION ec s
            else if d_dpl d < sl_rpl sl then raise BX_GP_EXCEPTION ec s
            else if \<not> d_p d then raise BX_NP_EXCEPTION ec s
            else if d_type d \<in> {1, 9} then
              and_next (task_switch sl d BX_TASK_FROM_CALL_OR_INT) check_EIP_limit s
            else if d_type d = 5 then far_task_gate BX_TASK_FROM_CALL_OR_INT (taskgate_selector d) s
            else if d_type d \<in> {4, 12} then call_gate d s
            else raise BX_GP_EXCEPTION ec s))))"

section \<open>Returns\<close>

text \<open>Reads relative to the stack pointer that bypass the segment checks.\<close>

definition stack16 :: "Bit32u \<Rightarrow> bool \<Rightarrow> Bit16u bx" where
  "stack16 off user = (\<lambda>s.
     and_then (access_linear_read (get_segment_base SS s + temp_RSP s + off) 2 user BX_READ) (\<lambda>b. ret (le_word b)) s)"

definition stack32 :: "Bit32u \<Rightarrow> bool \<Rightarrow> Bit32u bx" where
  "stack32 off user = (\<lambda>s.
     and_then (access_linear_read (get_segment_base SS s + temp_RSP s + off) 4 user BX_READ) (\<lambda>b. ret (le_word b)) s)"

definition stack_os :: "bool \<Rightarrow> Bit32u \<Rightarrow> bool \<Rightarrow> Bit32u bx" where
  "stack_os os32 off user = (if os32 then stack32 off user else and_then (stack16 off user) (\<lambda>w. ret (ucast w)))"

definition need_pop :: "Bit32u \<Rightarrow> unit bx" where
  "need_pop bytes = and_then (can_pop bytes) (\<lambda>ok. raise_if (\<not> ok) BX_SS_EXCEPTION 0)"

definition return_outer ::
    "bool \<Rightarrow> Bit16u \<Rightarrow> bx_selector_t \<Rightarrow> bx_descriptor_t \<Rightarrow> Bit32u \<Rightarrow> unit bx" where
  "return_outer os32 pop_bytes cs_selector cs_descriptor return_RIP =
     (let n = ucast pop_bytes in
      and_next (need_pop ((if os32 then 16 else 8) + n)) (
      and_then (stack16 ((if os32 then 12 else 6) + n) False) (\<lambda>raw_ss_selector.
      and_then (stack_os os32 ((if os32 then 8 else 4) + n) False) (\<lambda>return_RSP.
      and_next (raise_if (raw_ss_selector AND 0xfffc = 0) BX_GP_EXCEPTION 0) (
        (let ss_selector = parse_selector raw_ss_selector; ec = error_code raw_ss_selector in
      and_then (fetch_raw_descriptor ss_selector BX_GP_EXCEPTION) (\<lambda>(dword1, dword2).
        (let ss_descriptor = parse_descriptor dword1 dword2; u = u_segment (d_u ss_descriptor) in
         if sl_rpl ss_selector \<noteq> sl_rpl cs_selector then raise BX_GP_EXCEPTION ec
         else if d_valid ss_descriptor = 0 \<or> \<not> d_segment ss_descriptor \<or> sd_executable u \<or> \<not> sd_r_w u
         then panic ''return_protected: SS.AR byte not writable data''
         else if d_dpl ss_descriptor \<noteq> sl_rpl cs_selector then raise BX_GP_EXCEPTION ec
         else if \<not> d_p ss_descriptor then raise BX_SS_EXCEPTION ec
         else
           and_next (branch_far64 cs_selector cs_descriptor return_RIP (sl_rpl cs_selector)) (
           and_next (load_ss ss_selector ss_descriptor (sl_rpl cs_selector)) (
           and_next (update (set_stack_pointer (sd_d_b u) (return_RSP + n))) (
           update validate_seg_regs)))))))))))"

text \<open>The checks of the code segment to return to, and the choice of the level.\<close>

definition return_to :: "bool \<Rightarrow> Bit16u \<Rightarrow> Bit16u \<Rightarrow> Bit32u \<Rightarrow> bx_descriptor_t \<Rightarrow> unit bx" where
  "return_to os32 pop_bytes raw_cs_selector return_RIP cs_descriptor = (\<lambda>s.
     (let cs_selector = parse_selector raw_cs_selector; cpl = CPL s;
          bytes = (if os32 then 8 else 4) + ucast pop_bytes in
      if sl_rpl cs_selector < cpl then raise BX_GP_EXCEPTION (error_code raw_cs_selector) s
      else
        and_next (check_cs cs_descriptor raw_cs_selector 0 (sl_rpl cs_selector)) (
          if sl_rpl cs_selector = cpl then
            and_next (need_pop bytes) (
            and_next (branch_far64 cs_selector cs_descriptor return_RIP cpl) (
            update (add_eSP bytes)))
          else return_outer os32 pop_bytes cs_selector cs_descriptor return_RIP) s))"

definition return_protected :: "bool \<Rightarrow> Bit16u \<Rightarrow> unit bx" where
  "return_protected os32 pop_bytes =
     and_next (need_pop (if os32 then 8 else 4)) (
     and_then (\<lambda>s. stack16 (if os32 then 4 else 2) (CPL s = 3) s) (\<lambda>raw_cs_selector.
     and_then (\<lambda>s. stack_os os32 0 (CPL s = 3) s) (\<lambda>return_RIP.
     and_next (raise_if (raw_cs_selector AND 0xfffc = 0) BX_GP_EXCEPTION 0) (
     and_then (fetch_raw_descriptor (parse_selector raw_cs_selector) BX_GP_EXCEPTION) (\<lambda>(dword1, dword2).
     return_to os32 pop_bytes raw_cs_selector return_RIP (parse_descriptor dword1 dword2))))))"

section \<open>Virtual-8086 mode\<close>

text \<open>\<open>init_v8086_mode\<close> does the same for all six registers; CS is executable.\<close>

definition v8086_segment :: "seg_reg \<Rightarrow> bx_segment_reg \<Rightarrow> bx_segment_reg" where
  "v8086_segment sg r =
     r\<lparr>seg_valid := 1, seg_p := True, seg_dpl := 3, seg_segment := True, seg_executable := (sg = CS),
       seg_c_ed := False, seg_r_w := True, seg_a := True, seg_base := push_bit 4 (ucast (sel_value r)),
       seg_limit := 0xffff, seg_limit_scaled := 0xffff, seg_g := False, seg_d_b := False, seg_avl := False,
       sel_rpl := 3\<rparr>"

definition init_v8086_mode :: "cpu \<Rightarrow> cpu" where
  "init_v8086_mode s = s\<lparr>sregs := (\<lambda>sg. v8086_segment sg (sregs s sg))\<rparr>"

definition set_sel_value :: "seg_reg \<Rightarrow> Bit16u \<Rightarrow> cpu \<Rightarrow> cpu" where
  "set_sel_value sg v s = set_sreg sg ((sregs s sg)\<lparr>sel_value := v\<rparr>) s"

definition stack_return_to_v86 :: "Bit32u \<Rightarrow> Bit16u \<Rightarrow> Bit32u \<Rightarrow> unit bx" where
  "stack_return_to_v86 new_eip raw_cs_selector flags32 =
     and_next (need_pop 36) (
     and_then (gets (\<lambda>s. seg_base (sregs s SS) + temp_RSP s)) (\<lambda>esp_laddr.
     and_then (read_lin32 (esp_laddr + 12)) (\<lambda>new_esp.
     and_then (read_all (map (\<lambda>k. read_lin16 (esp_laddr + k)) [16, 20, 24, 28, 32])) (\<lambda>w.
     and_next (update (writeEFlags flags32 EFlagsValidMask)) (
     and_next (update (set_sel_value CS raw_cs_selector)) (
     and_next (update (\<lambda>s. s\<lparr>eip := new_eip AND 0xffff\<rparr>)) (
     and_next (update (\<lambda>s. set_sel_value SS (w ! 0) (set_sel_value GS (w ! 4) (set_sel_value FS (w ! 3)
       (set_sel_value DS (w ! 2) (set_sel_value ES (w ! 1) s)))))) (
     and_next (update (BX_WRITE_32BIT_REG 4 new_esp)) (
     update init_v8086_mode)))))))))"

definition EFlagsVIFMask :: Bit32u where "EFlagsVIFMask = push_bit 19 1"
definition EFlagsVIPMask :: Bit32u where "EFlagsVIPMask = push_bit 20 1"

text \<open>The mask every 32-bit return of flags starts from.\<close>

definition iret_mask :: Bit32u where
  "iret_mask = EFlagsOSZAPCMask OR EFlagsTFMask OR EFlagsDFMask OR EFlagsNTMask OR EFlagsRFMask OR
     (EFlagsIDMask OR EFlagsACMask)"

definition iret16_stack_return_from_v86 :: "unit bx" where
  "iret16_stack_return_from_v86 =
     and_next (\<lambda>s. raise_if (get_IOPL s < 3) BX_GP_EXCEPTION 0 s) (
     and_next (need_pop 6) (
     and_then pop_16 (\<lambda>ip. and_then pop_16 (\<lambda>cs_raw. and_then pop_16 (\<lambda>flags16.
     and_next (load_seg_reg CS cs_raw) (
     and_next (update (\<lambda>s. s\<lparr>eip := ucast ip\<rparr>)) (
     update (write_flags flags16 False True))))))))"

definition iret32_stack_return_from_v86 :: "unit bx" where
  "iret32_stack_return_from_v86 =
     and_next (\<lambda>s. raise_if (get_IOPL s < 3) BX_GP_EXCEPTION 0 s) (
     and_next (need_pop 12) (
     and_then pop_32 (\<lambda>new_eip. and_then pop_32 (\<lambda>cs_raw. and_then pop_32 (\<lambda>flags32.
     and_next (load_seg_reg CS (ucast cs_raw)) (
     and_next (update (\<lambda>s. s\<lparr>eip := new_eip\<rparr>)) (
     update (writeEFlags flags32 (iret_mask OR EFlagsIFMask)))))))))"

section \<open>Return from an interrupt\<close>

definition iret_nested :: "unit bx" where
  "iret_nested = (\<lambda>s.
     if VM_cached s then panic ''iret_protected: VM sholdnt be set here !'' s
     else if sys_valid (tr (sys s)) = 0 \<or> sys_type (tr (sys s)) \<notin> {1, 9} then panic ''IRET: TR not valid'' s
     else
       and_then (read_lin16 (sys_base (tr (sys s)))) (\<lambda>raw_link_selector.
         (let link_selector = parse_selector raw_link_selector; ec = error_code raw_link_selector in
          if sl_ti link_selector then raise BX_TS_EXCEPTION ec
          else
            and_then (fetch_raw_descriptor link_selector BX_TS_EXCEPTION) (\<lambda>(dword1, dword2).
              (let d = parse_descriptor dword1 dword2 in
               if d_valid d = 0 \<or> d_segment d then raise BX_TS_EXCEPTION ec
               else if d_type d \<noteq> 11 \<and> d_type d \<noteq> 3 then raise BX_TS_EXCEPTION ec
               else if \<not> d_p d then raise BX_NP_EXCEPTION ec
               else and_next (task_switch link_selector d BX_TASK_FROM_IRET) check_EIP_limit)))) s)"

text \<open>
  Which flags a return to the same or an outer level may change: IF needs CPL \<open>\<le>\<close>
  IOPL, IOPL itself level 0; \<open>prev_cpl\<close> is the level before the return.
\<close>

definition iret_change_mask :: "nat \<Rightarrow> cpu \<Rightarrow> Bit32u" where
  "iret_change_mask prev_cpl s =
     (let m0 = iret_mask;
          m1 = (if prev_cpl \<le> get_IOPL s then m0 OR EFlagsIFMask else m0) in
      if prev_cpl = 0 then m1 OR (EFlagsVIPMask OR EFlagsVIFMask OR EFlagsIOPLMask) else m1)"

definition iret_same :: "bool \<Rightarrow> bx_selector_t \<Rightarrow> bx_descriptor_t \<Rightarrow> Bit32u \<Rightarrow> Bit32u \<Rightarrow> unit bx" where
  "iret_same os32 cs_selector cs_descriptor new_eip new_eflags =
     and_next (branch_far32 cs_selector cs_descriptor new_eip (sl_rpl cs_selector)) (
     and_next (update (\<lambda>s.
       if os32 then writeEFlags new_eflags (iret_change_mask (CPL s) s) s
       else write_flags (ucast new_eflags) (CPL s = 0) (CPL s \<le> get_IOPL s) s)) (
     update (add_eSP (if os32 then 12 else 6))))"

definition iret_outer :: "bool \<Rightarrow> bx_selector_t \<Rightarrow> bx_descriptor_t \<Rightarrow> unit bx" where
  "iret_outer os32 cs_selector cs_descriptor =
     and_next (need_pop (if os32 then 20 else 10)) (
     and_then (stack16 (if os32 then 16 else 8) False) (\<lambda>raw_ss_selector.
     and_next (raise_if (raw_ss_selector AND 0xfffc = 0) BX_GP_EXCEPTION 0) (
       (let ss_selector = parse_selector raw_ss_selector; ec = error_code raw_ss_selector in
     and_next (raise_if (sl_rpl ss_selector \<noteq> sl_rpl cs_selector) BX_GP_EXCEPTION ec) (
     and_then (fetch_raw_descriptor ss_selector BX_GP_EXCEPTION) (\<lambda>(dword1, dword2).
       (let ss_descriptor = parse_descriptor dword1 dword2; u = u_segment (d_u ss_descriptor) in
        if d_valid ss_descriptor = 0 \<or> \<not> d_segment ss_descriptor \<or> sd_executable u \<or> \<not> sd_r_w u
        then raise BX_GP_EXCEPTION ec
        else if d_dpl ss_descriptor \<noteq> sl_rpl cs_selector then raise BX_GP_EXCEPTION ec
        else if \<not> d_p ss_descriptor then raise BX_NP_EXCEPTION ec
        else
          and_then (stack_os os32 0 False) (\<lambda>new_eip.
          and_then (stack_os os32 (if os32 then 8 else 4) False) (\<lambda>new_eflags.
          and_then (stack_os os32 (if os32 then 12 else 6) False) (\<lambda>new_esp.
          and_then (gets CPL) (\<lambda>prev_cpl.
          and_next (branch_far32 cs_selector cs_descriptor new_eip (sl_rpl cs_selector)) (
          and_next (update (\<lambda>s.
            (let mask = iret_change_mask prev_cpl s;
                 mask' = (if sd_d_b (u_segment (d_u cs_descriptor)) then mask AND 0xffff else mask) in
             writeEFlags new_eflags mask' s))) (
          and_next (load_ss ss_selector ss_descriptor (sl_rpl cs_selector)) (
          and_next (update (set_stack_pointer (sd_d_b u) new_esp)) (
          update validate_seg_regs)))))))))))))))"

definition iret_to :: "bool \<Rightarrow> Bit16u \<Rightarrow> Bit32u \<Rightarrow> Bit32u \<Rightarrow> bx_descriptor_t \<Rightarrow> unit bx" where
  "iret_to os32 raw_cs_selector new_eip new_eflags cs_descriptor = (\<lambda>s.
     (let cs_selector = parse_selector raw_cs_selector; cpl = CPL s in
      if sl_rpl cs_selector < cpl then raise BX_GP_EXCEPTION (error_code raw_cs_selector) s
      else
        and_next (check_cs cs_descriptor raw_cs_selector 0 (sl_rpl cs_selector)) (
          if sl_rpl cs_selector = cpl then iret_same os32 cs_selector cs_descriptor new_eip new_eflags
          else iret_outer os32 cs_selector cs_descriptor) s))"

definition iret_stack :: "bool \<Rightarrow> unit bx" where
  "iret_stack os32 =
     and_next (need_pop (if os32 then 12 else 6)) (
     and_then (\<lambda>s. stack16 (if os32 then 4 else 2) (CPL s = 3) s) (\<lambda>raw_cs_selector.
     and_then (\<lambda>s. stack_os os32 0 (CPL s = 3) s) (\<lambda>new_eip.
     and_then (\<lambda>s. stack_os os32 (if os32 then 8 else 4) (CPL s = 3) s) (\<lambda>new_eflags s.
       if os32 \<and> new_eflags AND EFlagsVMMask \<noteq> 0 \<and> CPL s = 0
       then stack_return_to_v86 new_eip raw_cs_selector new_eflags s
       else
         and_next (raise_if (raw_cs_selector AND 0xfffc = 0) BX_GP_EXCEPTION 0) (
         and_then (fetch_raw_descriptor (parse_selector raw_cs_selector) BX_GP_EXCEPTION) (\<lambda>(dword1, dword2).
         iret_to os32 raw_cs_selector new_eip new_eflags (parse_descriptor dword1 dword2))) s))))"

definition iret_protected :: "bool \<Rightarrow> unit bx" where
  "iret_protected os32 = (\<lambda>s. if get_eflag 14 s then iret_nested s else iret_stack os32 s)"

section \<open>The far instructions\<close>

definition start_far :: "unit bx \<Rightarrow> unit bx" where
  "start_far m = and_next (update invalidate_prefetch_q) m"

text \<open>Real and virtual-8086 mode: the offset before or after the load of CS, as in the code.\<close>

definition set_eip :: "Bit32u \<Rightarrow> unit bx" where
  "set_eip a = update (\<lambda>s. s\<lparr>eip := a\<rparr>)"

definition real_ret16 :: "unit bx" where
  "real_ret16 = and_then pop_16 (\<lambda>ip. and_then pop_16 (\<lambda>cs_raw.
     and_next (set_eip (ucast ip)) (load_seg_reg CS cs_raw)))"

definition real_ret32 :: "unit bx" where
  "real_ret32 = and_then pop_32 (\<lambda>new_eip. and_then pop_32 (\<lambda>ecs_raw.
     and_next (set_eip new_eip) (load_seg_reg CS (ucast ecs_raw))))"

definition RETfar16 :: "bxInstruction \<Rightarrow> unit bx" where
  "RETfar16 i = start_far (\<lambda>s. if protected_mode s then return_protected (os32L i) 0 s else real_ret16 s)"

text \<open>\<open>imm16\<close> is signed in \<open>RETfar16_Iw\<close>, unsigned in \<open>RETfar32_Iw\<close>.\<close>

definition RETfar16_Iw :: "bxInstruction \<Rightarrow> unit bx" where
  "RETfar16_Iw i = start_far (\<lambda>s.
     if protected_mode s then return_protected (os32L i) (i_Iw i) s
     else and_next real_ret16 (update (add_eSP (scast (i_Iw i)))) s)"

definition RETfar32 :: "bxInstruction \<Rightarrow> unit bx" where
  "RETfar32 i = start_far (\<lambda>s. if protected_mode s then return_protected (os32L i) 0 s else real_ret32 s)"

definition RETfar32_Iw :: "bxInstruction \<Rightarrow> unit bx" where
  "RETfar32_Iw i = start_far (\<lambda>s.
     if protected_mode s then return_protected (os32L i) (i_Iw i) s
     else and_next real_ret32 (update (add_eSP (ucast (i_Iw i)))) s)"

definition real_call :: "bool \<Rightarrow> Bit16u \<Rightarrow> Bit32u \<Rightarrow> unit bx" where
  "real_call wide cs_raw disp =
     and_next (push_CS_EIP wide) (and_next (set_eip disp) (load_seg_reg CS cs_raw))"

definition CALL16_Ap :: "bxInstruction \<Rightarrow> unit bx" where
  "CALL16_Ap i = start_far (\<lambda>s.
     if protected_mode s then call_protected (os32L i) (i_Iw2 i) (ucast (i_Iw i)) s
     else real_call False (i_Iw2 i) (ucast (i_Iw i)) s)"

definition CALL32_Ap :: "bxInstruction \<Rightarrow> unit bx" where
  "CALL32_Ap i = start_far (\<lambda>s.
     if protected_mode s then call_protected (os32L i) (i_Iw2 i) (i_Id i) s
     else real_call True (i_Iw2 i) (i_Id i) s)"

text \<open>The far pointer in memory; a register operand is undefined.\<close>

definition far_pointer16 :: "bxInstruction \<Rightarrow> (Bit16u \<times> Bit16u) bx" where
  "far_pointer16 i =
     and_then (\<lambda>s. read_virtual_word (i_seg i) (rm_addr s) s) (\<lambda>op1_16.
     and_then (\<lambda>s. read_virtual_word (i_seg i) (rm_addr s + 2) s) (\<lambda>sel. ret (op1_16, sel)))"

definition far_pointer32 :: "bxInstruction \<Rightarrow> (Bit32u \<times> Bit16u) bx" where
  "far_pointer32 i =
     and_then (\<lambda>s. read_virtual_dword (i_seg i) (rm_addr s) s) (\<lambda>op1_32.
     and_then (\<lambda>s. read_virtual_word (i_seg i) (rm_addr s + 4) s) (\<lambda>sel. ret (op1_32, sel)))"

definition CALL16_Ep :: "bxInstruction \<Rightarrow> unit bx" where
  "CALL16_Ep i = start_far
     (if modC0 i then raise BX_UD_EXCEPTION 0
      else and_then (far_pointer16 i) (\<lambda>(op1_16, cs_raw) s.
        if protected_mode s then call_protected (os32L i) cs_raw (ucast op1_16) s
        else real_call False cs_raw (ucast op1_16) s))"

definition CALL32_Ep :: "bxInstruction \<Rightarrow> unit bx" where
  "CALL32_Ep i = start_far
     (if modC0 i then raise BX_UD_EXCEPTION 0
      else and_then (far_pointer32 i) (\<lambda>(op1_32, cs_raw) s.
        if protected_mode s then call_protected (os32L i) cs_raw op1_32 s
        else real_call True cs_raw op1_32 s))"

definition JMP_Ap :: "bxInstruction \<Rightarrow> unit bx" where
  "JMP_Ap i = start_far (\<lambda>s.
     (let disp32 = (if os32L i then i_Id i else ucast (i_Iw i)); cs_raw = i_Iw2 i in
      if protected_mode s then jump_protected cs_raw disp32 s
      else and_next (load_seg_reg CS cs_raw) (set_eip disp32) s))"

definition JMP16_Ep :: "bxInstruction \<Rightarrow> unit bx" where
  "JMP16_Ep i = start_far
     (if modC0 i then raise BX_UD_EXCEPTION 0
      else and_then (far_pointer16 i) (\<lambda>(op1_16, cs_raw) s.
        if protected_mode s then jump_protected cs_raw (ucast op1_16) s
        else and_next (set_eip (ucast op1_16)) (load_seg_reg CS cs_raw) s))"

definition JMP32_Ep :: "bxInstruction \<Rightarrow> unit bx" where
  "JMP32_Ep i = start_far
     (if modC0 i then raise BX_UD_EXCEPTION 0
      else and_then (far_pointer32 i) (\<lambda>(op1_32, cs_raw) s.
        if protected_mode s then jump_protected cs_raw op1_32 s
        else and_next (set_eip op1_32) (load_seg_reg CS cs_raw) s))"

definition real_iret16 :: "unit bx" where
  "real_iret16 =
     and_next (and_then (can_pop 6) (\<lambda>ok. panic_if (\<not> ok) ''IRET: top 6 bytes of stack not within stack limits'')) (
     and_then pop_16 (\<lambda>ip. and_then pop_16 (\<lambda>cs_raw. and_then pop_16 (\<lambda>flags.
     and_next (load_seg_reg CS cs_raw) (
     and_next (set_eip (ucast ip)) (
     update (write_flags flags True True)))))))"

definition real_iret32 :: "unit bx" where
  "real_iret32 =
     and_next (and_then (can_pop 12) (\<lambda>ok. panic_if (\<not> ok) ''IRETD: to 12 bytes of stack not within stack limits'')) (
     and_then pop_32 (\<lambda>new_eip.
     and_next (panic_if (new_eip > 0xffff) ''IRETD: instruction pointer not within code segment limits'') (
     and_then pop_32 (\<lambda>ecs. and_then pop_32 (\<lambda>eflags.
     and_next (load_seg_reg CS (ucast ecs)) (
     and_next (set_eip new_eip) (
     update (writeEFlags eflags 0x00257fd5))))))))"

text \<open>
  \<open>IRET16\<close> tests \<open>cr0.pe\<close>, \<open>IRET32\<close> the processor mode.
\<close>

definition IRET16 :: "bxInstruction \<Rightarrow> unit bx" where
  "IRET16 i = start_far (\<lambda>s.
     if v8086_mode s then iret16_stack_return_from_v86 s
     else if cr0_pe (cr0 s) then iret_protected (os32L i) s
     else real_iret16 s)"

definition IRET32 :: "bxInstruction \<Rightarrow> unit bx" where
  "IRET32 i = start_far (\<lambda>s.
     if v8086_mode s then iret32_stack_return_from_v86 s
     else if protected_mode s then iret_protected (os32L i) s
     else real_iret32 s)"

section \<open>Loads of far pointers\<close>

definition load_far_pointer :: "seg_reg \<Rightarrow> bxInstruction \<Rightarrow> unit bx" where
  "load_far_pointer sg i =
     (if modC0 i then UndefinedOpcode
      else if os32L i then
        and_then (far_pointer32 i) (\<lambda>(reg_32, sel).
        and_next (load_seg_reg sg sel) (update (BX_WRITE_32BIT_REG (nnn i) reg_32)))
      else
        and_then (far_pointer16 i) (\<lambda>(reg_16, sel).
        and_next (load_seg_reg sg sel) (update (BX_WRITE_16BIT_REG (nnn i) reg_16))))"

definition LES_GvMp :: "bxInstruction \<Rightarrow> unit bx" where "LES_GvMp i = load_far_pointer ES i"
definition LDS_GvMp :: "bxInstruction \<Rightarrow> unit bx" where "LDS_GvMp i = load_far_pointer DS i"
definition LFS_GvMp :: "bxInstruction \<Rightarrow> unit bx" where "LFS_GvMp i = load_far_pointer FS i"
definition LGS_GvMp :: "bxInstruction \<Rightarrow> unit bx" where "LGS_GvMp i = load_far_pointer GS i"
definition LSS_GvMp :: "bxInstruction \<Rightarrow> unit bx" where "LSS_GvMp i = load_far_pointer SS i"

end
