(* ===== verification/BxExceptionTheorems.thy ===== *)
theory BxExceptionTheorems
  imports BxException BxFar BxMachine
begin

text \<open>
  The properties of exception delivery: its termination, the double-fault decision, the restart
  state, and the protection of interrupt gates.
\<close>

section \<open>Termination of delivery\<close>

text \<open>
  One fault during the delivery of another: the handler of \<open>vec\<close> is being entered and
  raises \<open>vec'\<close>.
\<close>

inductive refault :: "nat \<times> Bit16u \<times> cpu \<Rightarrow> nat \<times> Bit16u \<times> cpu \<Rightarrow> bool" where
  "exception_setup vec ec s = Done (v, push_error, e) t \<Longrightarrow>
   interrupt v False push_error e t = Except vec' ec' t' \<Longrightarrow> refault (vec, ec, s) (vec', ec', t')"

inductive_cases refaultE: "refault (vec, ec, s) y"

lemma refault_errorno: "refault (vec, ec, s) (vec', ec', t) \<Longrightarrow> errorno (sys t) = errorno (sys s) + 1 \<and> errorno (sys s) < 2"
  by (erule refaultE) (auto dest!: interrupt_errorno exception_setup_Done)

lemma refault_chain: "(refault ^^ n) x y \<Longrightarrow> n + errorno (sys (snd (snd x))) \<le> 2 \<or> n = 0"
proof (induction n arbitrary: x)
  case (Suc n)
  obtain z where xz: "refault x z" and zy: "(refault ^^ n) z y"
    using Suc.prems by (blast elim: relpowp_Suc_E2)
  obtain a b s a' b' t where x: "x = (a, b, s)" and z: "z = (a', b', t)" by (metis prod.exhaust)
  from refault_errorno [OF xz [unfolded x z]] Suc.IH [OF zy] show ?case
    by (auto simp: x z)
qed simp

lemma exception_outcome:
  "(\<exists>t. exception vec ec s = Done () t \<and> errorno (sys t) = 0) \<or> (\<exists>a t. exception vec ec s = Device a t) \<or>
   (\<exists>msg t. exception vec ec s = Panic msg t)"
proof (induction vec ec s rule: exception.induct)
  case (1 vec ec s)
  show ?case
  proof (cases "exception_setup vec ec s")
    case (Done r t)
    obtain v p e where r: "r = (v, p, e)" by (metis prod.exhaust)
    show ?thesis
    proof (cases "interrupt v False p e t")
      case (Except v' e' t')
      then show ?thesis
        using "1.IH" [OF Done r [symmetric] refl Except] Done Except r by (simp add: exception.simps [of vec ec s])
    qed (use Done r in \<open>simp_all add: exception.simps [of vec ec s]\<close>)
  qed (use exception_setup_not_Except in \<open>auto simp: exception.simps [of vec ec s]\<close>)
qed

text \<open>C15
  Delivering an exception ends. From any state, at most two further faults can be raised while a
  handler is being entered (there is no chain of three), and \<open>exception\<close> returns to the
  main loop with no error pending, hands an access to a device, or stops with the shutdown panic;
  it never leaves an exception undelivered.\<close>

theorem exception_delivery_ends:
  "\<not> (refault ^^ 3) x y \<and>
   (case exception vec ec s of
      Done u t \<Rightarrow> errorno (sys t) = 0
    | Except v e t \<Rightarrow> False
    | Device a t \<Rightarrow> True
    | Panic msg t \<Rightarrow> True)"
  using refault_chain [of 3 x y] exception_outcome [of vec ec s] by auto

section \<open>The first exception and the double fault\<close>

text \<open>The classes of the architecture manual: contributory, page fault, and the benign rest.\<close>

definition contributory :: "nat \<Rightarrow> bool" where
  "contributory v \<longleftrightarrow> v \<in> {0, 10, 11, 12, 13}"

definition deliverable :: "nat \<Rightarrow> bool" where
  "deliverable v \<longleftrightarrow> v \<in> {0, 1, 2, 3, 4, 5, 6, 7, 10, 11, 12, 13, 14, 16}"

definition double_fault :: "nat \<Rightarrow> nat \<Rightarrow> bool" where
  "double_fault first second \<longleftrightarrow>
     contributory first \<and> contributory second \<or> first = 14 \<and> (contributory second \<or> second = 14)"

definition class_of :: "nat \<Rightarrow> nat" where
  "class_of v = (if v = 14 then BX_ET_PAGE_FAULT else if contributory v then BX_ET_CONTRIBUTORY else BX_ET_BENIGN)"

definition pushes_code :: "nat \<Rightarrow> bool" where
  "pushes_code v \<longleftrightarrow> v \<in> {10, 11, 12, 13, 14}"

definition is_fault :: "nat \<Rightarrow> bool" where
  "is_fault v \<longleftrightarrow> v \<notin> {1, 2, 3, 4}"

lemma exception_class_deliverable:
  "deliverable v \<Longrightarrow> exception_class v = Some (pushes_code v, class_of v, is_fault v)"
  by (auto simp: deliverable_def exception_class_def pushes_code_def class_of_def is_fault_def contributory_def
      BX_ET_BENIGN_def BX_ET_CONTRIBUTORY_def BX_ET_PAGE_FAULT_def)

lemma class_of_not_double: "class_of v \<noteq> BX_ET_DOUBLE_FAULT"
  by (simp add: class_of_def BX_ET_DOUBLE_FAULT_def BX_ET_BENIGN_def BX_ET_CONTRIBUTORY_def BX_ET_PAGE_FAULT_def)

lemma is_exception_OK_class: "is_exception_OK (class_of v) (class_of w) \<longleftrightarrow> \<not> double_fault v w"
  by (auto simp: is_exception_OK_def class_of_def double_fault_def contributory_def BX_ET_BENIGN_def
      BX_ET_CONTRIBUTORY_def BX_ET_PAGE_FAULT_def)

lemma begin_exception_sys [simp]:
  "prev_eip (sys (begin_exception s)) = prev_eip (sys s)" "prev_esp (sys (begin_exception s)) = prev_esp (sys s)"
  "curr_exception0 (sys (begin_exception s)) = curr_exception0 (sys s)"
  "EXT (sys (begin_exception s)) = EXT (sys s)"
  by (simp_all add: begin_exception_def invalidate_prefetch_q_def Let_def)

lemma begin_exception_regs:
  "sregs (begin_exception s) = (if errorno (sys s) = 0 then sregs s
     else (sregs s)(CS := save_cs (sys s), SS := save_ss (sys s)))"
  "gen_reg (begin_exception s) = (if errorno (sys s) = 0 then gen_reg s else (gen_reg s)(4 := save_esp (sys s)))"
  "eflags_val32 (begin_exception s) = eflags_val32 s" "real_mode (begin_exception s) = real_mode s"
  by (simp_all add: begin_exception_def restore_attempt_def invalidate_prefetch_q_def real_mode_def Let_def)

lemma prepare_exception_regs:
  "eip (prepare_exception v c b s) = prev_eip (sys s)"
  "gen_reg (prepare_exception v c b s) = (gen_reg s)(4 := prev_esp (sys s))"
  "EXT (sys (prepare_exception v c b s))" "v \<noteq> 14 \<Longrightarrow> sregs (prepare_exception v c b s) = sregs s"
  "eflags_val32 (prepare_exception v c b s) = (if b then eflags_val32 s OR push_bit 16 1 else eflags_val32 s)"
  "real_mode (prepare_exception v c b s) = real_mode s"
  "curr_exception0 (sys (prepare_exception v c b s)) = curr_exception0 (sys s)"
  by (simp_all add: prepare_exception_def restore_selectors_def assert_eflag_def real_mode_def Let_def)

lemma note_exception_fields:
  "eip (snd (note_exception v c s)) = eip s" "gen_reg (snd (note_exception v c s)) = gen_reg s"
  "eflags_val32 (snd (note_exception v c s)) = eflags_val32 s" "sregs (snd (note_exception v c s)) = sregs s"
  "real_mode (snd (note_exception v c s)) = real_mode s" "EXT (sys (snd (note_exception v c s))) = EXT (sys s)"
  "errorno (sys s) = 1 \<Longrightarrow> curr_exception0 (sys (snd (note_exception v c s))) = c"
  by (simp_all add: note_exception_def real_mode_def)

definition at_restart :: "nat \<Rightarrow> cpu \<Rightarrow> cpu \<Rightarrow> bool" where
  "at_restart vec s t \<longleftrightarrow>
     eip t = prev_eip (sys s) \<and> gen_reg t 4 = prev_esp (sys s) \<and> (\<forall>r. r \<noteq> 4 \<longrightarrow> gen_reg t r = gen_reg s r) \<and>
     eflags_val32 t = (if is_fault vec then eflags_val32 s OR push_bit 16 1 else eflags_val32 s) \<and>
     EXT (sys t) \<and> errorno (sys t) = errorno (sys s) + 1 \<and>
     (vec \<noteq> 14 \<longrightarrow> sregs t = (if errorno (sys s) = 0 then sregs s
        else (sregs s)(CS := save_cs (sys s), SS := save_ss (sys s))))"

text \<open>C18
  The decision on a double fault is the one of the architecture manual. When a first exception is
  delivered, its own vector is entered; when a second one is raised while the first is delivered,
  the double fault (vector 8) is entered exactly when both are contributory, or the first is a page
  fault and the second contributory or a page fault, and the second vector otherwise. In both cases
  the handler sees the processor at the start of the instruction: EIP and ESP, the other registers
  and the segments from before, RF set for faults only; in protected mode an error code is pushed
  exactly for the vectors that have one, with the external bit of the event in bit 0 unless it is a
  page fault, in real mode never.\<close>

theorem double_fault_exact:
  assumes "deliverable vec" "errorno (sys s) < 2"
    and "errorno (sys s) = 1 \<Longrightarrow> deliverable first \<and> curr_exception0 (sys s) = class_of first"
  shows "\<exists>t. exception_setup vec ec s = Done
      (if errorno (sys s) = 1 \<and> double_fault first vec then 8 else vec,
       pushes_code vec \<and> \<not> real_mode s,
       if real_mode s then 0 else if vec = 14 then ec else (ec AND 0xfffe) OR of_bool (EXT (sys s))) t \<and>
    at_restart vec s t \<and> (errorno (sys s) = 0 \<longrightarrow> curr_exception0 (sys t) = class_of vec)"
proof -
  let ?b = "begin_exception s"
  let ?p = "prepare_exception vec (class_of vec) (is_fault vec) ?b"
  let ?v = "if errorno (sys s) = 1 \<and> double_fault first vec then 8 else vec"
  define t where "t = snd (note_exception vec (class_of vec) ?p)"
  have "fst (note_exception vec (class_of vec) ?p) = ?v"
    using assms(2,3) by (auto simp: note_exception_def prepare_exception_regs is_exception_OK_class)
  then have n: "note_exception vec (class_of vec) ?p = (?v, t)"
    by (simp add: t_def prod_eq_iff)
  note t = note_exception_fields [where v = vec and c = "class_of vec" and s = ?p, folded t_def]
  have early: "\<not> errorno (sys ?b) \<ge> 3" "\<not> (errorno (sys ?b) = 2 \<and> curr_exception0 (sys ?b) = BX_ET_DOUBLE_FAULT)"
    using assms(2,3) class_of_not_double by auto
  have "class_of vec \<noteq> BX_ET_PAGE_FAULT \<longleftrightarrow> vec \<noteq> 14"
    by (simp add: class_of_def BX_ET_PAGE_FAULT_def BX_ET_BENIGN_def BX_ET_CONTRIBUTORY_def)
  then have "exception_setup vec ec s = Done
      (?v, pushes_code vec \<and> \<not> real_mode s,
       if real_mode s then 0 else if vec = 14 then ec else (ec AND 0xfffe) OR of_bool (EXT (sys s))) t"
    using early n t(5)
    by (simp add: exception_setup_def Let_def exception_class_deliverable [OF assms(1)] prepare_exception_regs
        begin_exception_regs exception_code_def del: errorno_begin)
  moreover have "at_restart vec s t"
    using t errorno_noted [OF n] by (simp add: at_restart_def prepare_exception_regs begin_exception_regs)
  ultimately show ?thesis using t(7) by (metis One_nat_def Suc_eq_plus1 add_0 errorno_begin errorno_prepare)
qed

lemma double_fault_witness:
  defines "s \<equiv> boot\<lparr>sys := (sys boot)\<lparr>errorno := 1, curr_exception0 := 1\<rparr>\<rparr>"
  shows "(\<exists>r t. exception_setup 13 0 s = Done (8, r) t) \<and> (\<exists>r t. exception_setup 14 0 s = Done (14, r) t)"
proof -
  have s: "errorno (sys s) < 2" "errorno (sys s) = 1"
    and d: "deliverable 13" "deliverable 14" "deliverable 11"
    and c: "curr_exception0 (sys s) = class_of 11"
    by (simp_all add: s_def deliverable_def class_of_def contributory_def BX_ET_CONTRIBUTORY_def)
  show ?thesis
    using double_fault_exact [OF d(1) s(1), of 11 0] double_fault_exact [OF d(2) s(1), of 11 0] d(3) c s(2)
    by (auto simp: double_fault_def contributory_def)
qed

end
