(* ===== verification/BxFarTheorems.thy ===== *)
theory BxFarTheorems
  imports BxFar BxMachine
begin

text \<open>
  The protection that the far transfers give: which privilege level a transfer that completes can
  reach, and which flags a return can change.
\<close>

section \<open>What holds when a routine returns\<close>

definition returns :: "(cpu \<Rightarrow> bool) \<Rightarrow> 'a bx \<Rightarrow> ('a \<Rightarrow> cpu \<Rightarrow> bool) \<Rightarrow> bool" where
  "returns P m Q \<longleftrightarrow> (\<forall>s x t. P s \<longrightarrow> m s = Done x t \<longrightarrow> Q x t)"

named_theorems returns_intros \<open>the result of a routine step by step\<close>

lemma returns_stable: "stable I m \<Longrightarrow> returns I m (\<lambda>_. I)"
  by (auto simp: returns_def dest: stable_Done)

lemma returns_and_then: "stable I m \<Longrightarrow> (\<And>x. returns I (f x) Q) \<Longrightarrow> returns I (and_then m f) Q"
  by (auto simp: returns_def and_then_Done_iff dest: stable_Done)

lemma returns_and_next: "stable I m \<Longrightarrow> returns I n Q \<Longrightarrow> returns I (and_next m n) Q"
  unfolding and_next_def by (rule returns_and_then)

lemma returns_and_then_result:
  "returns I m R \<Longrightarrow> (\<And>x. returns (R x) (f x) Q) \<Longrightarrow> returns I (and_then m f) Q"
  unfolding returns_def by (fastforce simp: and_then_Done_iff)

lemma returns_raise [returns_intros]: "returns I (raise v e) Q" "returns I (panic msg) Q"
  "returns I (\<lambda>s. raise v e s) Q" "returns I (\<lambda>s. panic msg s) Q"
  by (simp_all add: returns_def)

lemma returns_cases [returns_intros]:
  "(\<And>x. returns I (f x) Q) \<Longrightarrow> returns I (Let v f) Q"
  "(\<And>a b. returns I (g a b) Q) \<Longrightarrow> returns I (case p of (a, b) \<Rightarrow> g a b) Q"
  "(b \<Longrightarrow> returns I m Q) \<Longrightarrow> (\<not> b \<Longrightarrow> returns I n Q) \<Longrightarrow> returns I (if b then m else n) Q"
  by (auto simp: returns_def split: prod.split)

lemma returns_state: "(\<And>t. I t \<Longrightarrow> returns (\<lambda>s. s = t) (m t) Q) \<Longrightarrow> returns I (\<lambda>s. m s s) Q"
  by (auto simp: returns_def)

lemma returns_weaken: "returns I m Q \<Longrightarrow> (\<And>s. P s \<Longrightarrow> I s) \<Longrightarrow> (\<And>x t. Q x t \<Longrightarrow> R x t) \<Longrightarrow> returns P m R"
  unfolding returns_def by blast

section \<open>The privilege level along a routine\<close>

abbreviation cpl_is :: "nat \<Rightarrow> cpu \<Rightarrow> bool" where "cpl_is c s \<equiv> CPL s = c"

lemma CPL_simps [simp]:
  "CPL (s\<lparr>gen_reg := g\<rparr>) = CPL s" "CPL (s\<lparr>eip := e\<rparr>) = CPL s" "CPL (s\<lparr>eflags_val32 := w\<rparr>) = CPL s"
  "CPL (s\<lparr>lf_flags_status := w\<rparr>) = CPL s" "CPL (s\<lparr>VM_cached := b\<rparr>) = CPL s" "CPL (s\<lparr>cpu_mode := m\<rparr>) = CPL s"
  "CPL (s\<lparr>async_event := k\<rparr>) = CPL s" "CPL (s\<lparr>sys := y\<rparr>) = CPL s" "CPL (s\<lparr>mem := q\<rparr>) = CPL s"
  "CPL (s\<lparr>TLB := t\<rparr>) = CPL s" "CPL (s\<lparr>debug_trap := d\<rparr>) = CPL s" "CPL (s\<lparr>inhibit_mask := d\<rparr>) = CPL s"
  by (simp_all add: CPL_def)

lemma CPL_set_sreg: "CPL (set_sreg sg r s) = (if sg = CS then sel_rpl r else CPL s)"
  by (simp add: CPL_def set_sreg_def)

lemma CPL_steps [simp]:
  "CPL (clear_eflag n s) = CPL s" "CPL (set_VM b s) = CPL s" "CPL (enter_flags g s) = CPL s"
  "CPL (setEFlags v s) = CPL s" "CPL (writeEFlags v m s) = CPL s" "CPL (write_flags f b c s) = CPL s"
  "CPL (invalidate_prefetch_q s) = CPL s" "CPL (set_stack_pointer big esp s) = CPL s" "CPL (add_eSP k s) = CPL s"
  "CPL (note_except_chk s) = CPL s" "CPL (load_cs sl d k' s) = k'"
  by (simp_all add: clear_eflag_def set_VM_def enter_flags_def setEFlags_def writeEFlags_def write_flags_def
      invalidate_prefetch_q_def set_stack_pointer_def add_eSP_def note_except_chk_def load_cs_def CPL_set_sreg
      BX_WRITE_32BIT_REG_def BX_WRITE_16BIT_REG_def Let_def)

interpretation cpl: stack_invariant "cpl_is c" for c
  by unfold_locales
    (auto simp: CPL_def fault_state_def invalidate_TLB_def set_TLB_def fill_TLB_def set_seg_valid_def
      fill_TLB_off_read_def fill_TLB_off_write_def Let_def split: option.split)

named_theorems cpl_intros \<open>a routine keeps the privilege level\<close>

lemmas cpl_accesses [cpl_intros] = cpl.access_linear cpl.lin cpl.push_pop cpl.read_all_flags cpl.fetch

lemma cpl_update: "(\<And>s. CPL (f s) = CPL s) \<Longrightarrow> stable (cpl_is c) (update f)"
  by (simp add: stable_def)

lemma cpl_sreg [cpl_intros]: "sg \<noteq> CS \<Longrightarrow> stable (cpl_is c) (update_sreg sg f)"
  by (simp add: stable_def update_sreg_def CPL_set_sreg)

lemma cpl_steps [cpl_intros]:
  "stable (cpl_is c) (push_gate g d)" "stable (cpl_is c) (push_gate_sel g sg)" "stable (cpl_is c) (check_inner_SS r sl dsc k)"
  "stable (cpl_is c) (check_call_SS r sl dsc k)" "stable (cpl_is c) (check_cs dsc w k l)" "stable (cpl_is c) (need_pop n)"
  "stable (cpl_is c) (push_CS_EIP g)"
  unfolding push_gate_def push_gate_sel_def check_inner_SS_def check_call_SS_def check_cs_def need_pop_def push_CS_EIP_def Let_def
  by (intro stable_intros cpl_intros)+

lemma cpl_load_ss [cpl_intros]: "stable (cpl_is c) (load_ss sl d k)"
  unfolding load_ss_def by (intro stable_intros cpl_update) (simp add: CPL_set_sreg)

lemma cpl_TSS_stack [cpl_intros]: "stable (cpl_is c) (get_SS_ESP_from_TSS pl)"
  unfolding get_SS_ESP_from_TSS_def by (intro stable_intros cpl_intros)

lemma cpl_read_all: "list_all (stable I) ms \<Longrightarrow> stable I (read_all ms)"
  by (induction ms) (auto intro!: stable_intros)

lemma cpl_stack [cpl_intros]:
  "stable (cpl_is c) (stack16 k b)" "stable (cpl_is c) (stack32 k b)" "stable (cpl_is c) (stack_os w k b)"
  "stable (cpl_is c) (read_parameters g k n)"
proof -
  show s: "stable (cpl_is c) (stack16 k b)" "stable (cpl_is c) (stack32 k b)" for k b
    unfolding stack16_def stack32_def by (intro stable_intros cpl_intros)+
  show "stable (cpl_is c) (stack_os w k b)"
    unfolding stack_os_def by (intro stable_intros s)
  show "stable (cpl_is c) (read_parameters g k n)"
    unfolding read_parameters_def
    by (rule cpl_read_all) (auto simp: list_all_iff intro!: stable_intros cpl_intros)
qed

lemma cpl_parameters: "list_all (stable (cpl_is c)) (map (push_gate g) ps)"
  by (simp add: list_all_iff cpl_intros)

section \<open>Entering a handler or a procedure through a gate\<close>

lemma returns_load_cs:
  "returns (cpl_is k) n Q \<Longrightarrow> returns (cpl_is c) (and_next (update (load_cs sl d k)) n) Q"
  unfolding returns_def by (metis CPL_steps(11) and_next_simps(3))

lemma int_inner_level:
  "returns (cpl_is c) (int_inner g sl d dest b e) (\<lambda>_ t. CPL t = d_dpl d)"
  unfolding int_inner_def Let_def drop_sreg_def
  by (intro returns_intros returns_load_cs returns_and_then returns_and_next returns_stable
      stable_intros cpl_intros cpl_update) (simp_all add: cpl_intros)

lemma call_gate_inner_level:
  "returns (cpl_is c) (call_gate_inner g sl d e) (\<lambda>_ t. CPL t = d_dpl d)"
  unfolding call_gate_inner_def update_sys_def Let_def
  by (intro returns_intros returns_load_cs returns_and_then returns_and_next returns_stable
      stable_intros cpl_intros cpl_update) (simp_all add: cpl_intros list_all_iff)

lemma returnsD: "returns (cpl_is c) m Q \<Longrightarrow> m s = Done x t \<Longrightarrow> CPL s = c \<Longrightarrow> Q x t"
  by (auto simp: returns_def)

lemma can_push_here: "stable I (\<lambda>s. can_push (sregs s SS) (temp_RSP s) k s)"
  by (rule stable_at(2) [of _ "\<lambda>r e. can_push r e k"]) (rule stable_intros)

lemma int_same_level: "stable (cpl_is c) (int_same g sl d dest b e)"
  unfolding int_same_def Let_def
  by (intro stable_intros cpl_intros cpl_update can_push_here) (simp_all add: cpl_intros)

lemma branch_far_level: "stable (cpl_is k) (branch_far32 sl d a k)" "stable (cpl_is k) (branch_far64 sl d a k)"
  by (auto simp: branch_far32_def branch_far64_def stable_def)

lemma branch_far_result: "returns P (branch_far32 sl d a k) (\<lambda>_. cpl_is k)" "returns P (branch_far64 sl d a k) (\<lambda>_. cpl_is k)"
  by (auto simp: returns_def branch_far32_def branch_far64_def)

lemma call_gate_same_level: "stable (cpl_is c) (call_gate_same g sl d e)"
proof -
  have "stable (cpl_is c) (\<lambda>s. branch_far32 sl d e (CPL s) s)"
    using branch_far_level(1) by (auto simp: stable_def)
  then show ?thesis
    unfolding call_gate_same_def by (intro stable_intros cpl_intros)
qed

lemma int_trap_gate_level:
  assumes "int_trap_gate g b e s = Done () t"
  shows "CPL t \<le> CPL s"
proof -
  obtain raw dest where gt: "gate_target g = (raw, dest)" by fastforce
  obtain d1 d2 s' where f: "fetch_raw_descriptor (parse_selector raw) BX_GP_EXCEPTION s = Done (d1, d2) s'"
    and r: "d_dpl (parse_descriptor d1 d2) < CPL s' \<and>
        int_inner (d_type g) (parse_selector raw) (parse_descriptor d1 d2) dest b e s' = Done () t \<or>
      int_same (d_type g) (parse_selector raw) (parse_descriptor d1 d2) dest b e s' = Done () t"
    using assms by (auto simp: int_trap_gate_def gt Let_def and_then_Done_iff split: if_splits)
  have "CPL s' = CPL s" using stable_Done [OF cpl.fetch(2) f] by simp
  with r show ?thesis
    using returnsD [OF int_inner_level] stable_Done [OF int_same_level] by fastforce
qed

lemma call_gate_level:
  assumes "call_gate g s = Done () t"
  shows "CPL t \<le> CPL s"
proof -
  obtain raw dest where gt: "gate_target g = (raw, dest)" by fastforce
  obtain d1 d2 s' where f: "fetch_raw_descriptor (parse_selector raw) BX_GP_EXCEPTION s = Done (d1, d2) s'"
    and r: "d_dpl (parse_descriptor d1 d2) < CPL s' \<and>
        call_gate_inner g (parse_selector raw) (parse_descriptor d1 d2) dest s' = Done () t \<or>
      call_gate_same g (parse_selector raw) (parse_descriptor d1 d2) dest s' = Done () t"
    using assms by (auto simp: call_gate_def gt Let_def and_then_Done_iff split: if_splits)
  have "CPL s' = CPL s" using stable_Done [OF cpl.fetch(2) f] by simp
  with r show ?thesis
    using returnsD [OF call_gate_inner_level] stable_Done [OF call_gate_same_level] by fastforce
qed

lemma jmp_call_gate_level: "stable (cpl_is c) (jmp_call_gate raw dest)"
proof -
  have "stable (cpl_is c) (\<lambda>s. and_next (check_cs d raw 0 (CPL s)) (branch_far32 sl d dest (CPL s)) s)" for d sl
    using stable_sequences(1) [OF cpl_steps(5) branch_far_level(1)] by (auto simp: stable_def)
  then show ?thesis
    unfolding jmp_call_gate_def Let_def
    by (intro stable_if stable_raise stable_and_then cpl.fetch stable_cases(3))
qed

section \<open>Returning\<close>

lemma validate_level [simp]: "CPL (validate_seg_regs s) = CPL s"
  by (simp add: validate_seg_regs_def invalidate_lower_def Let_def CPL_set_sreg)

lemma return_outer_level: "returns (cpl_is c) (return_outer w n sl d a) (\<lambda>_. cpl_is (sl_rpl sl))"
  unfolding return_outer_def Let_def and_next_def
  by (intro returns_intros returns_and_then_result [OF branch_far_result(2)] returns_and_then returns_stable
      stable_intros cpl_intros cpl_update; simp add: cpl_intros)

text \<open>After a return to the same level the level is unchanged, to an outer one it is the RPL of the selector.\<close>

definition level_ok :: "nat \<Rightarrow> nat \<Rightarrow> unit bx \<Rightarrow> bool" where
  "level_ok c k m \<longleftrightarrow> returns (cpl_is c) m (\<lambda>_ t. CPL t = k)"

lemma level_okD: "level_ok c k m \<Longrightarrow> m s = Done () t \<Longrightarrow> CPL s = c \<Longrightarrow> CPL t = k"
  by (auto simp: level_ok_def returns_def)

lemma level_ok_check: "level_ok c k m \<Longrightarrow> level_ok c k (and_next (check_cs d w j l) m)"
  unfolding level_ok_def by (intro returns_and_next cpl_intros)

lemma level_ok_same: "stable (cpl_is c) m \<Longrightarrow> level_ok c c m"
  unfolding level_ok_def by (rule returns_stable)

lemma return_same_level:
  "stable (cpl_is c) (and_next (need_pop n) (and_next (branch_far64 sl d a c) (update (add_eSP m))))"
  by (intro stable_intros cpl_intros branch_far_level cpl_update) simp

lemma iret_same_level: "sl_rpl sl = c \<Longrightarrow> stable (cpl_is c) (iret_same w sl d a f)"
  using branch_far_level(1) [of c sl d a] unfolding iret_same_def
  by (intro stable_intros cpl_update) simp_all

lemma iret_outer_level: "returns (cpl_is c) (iret_outer w sl d) (\<lambda>_. cpl_is (sl_rpl sl))"
  unfolding iret_outer_def Let_def and_next_def
  by (intro returns_intros returns_and_then_result [OF branch_far_result(1)] returns_and_then returns_stable
      stable_intros cpl_intros cpl_update; simp add: cpl_intros)

lemma returns_level: "level_ok c k m \<Longrightarrow> c \<le> k \<Longrightarrow> returns (cpl_is c) m (\<lambda>_ t. c \<le> CPL t)"
  by (auto simp: level_ok_def returns_def)

lemma return_to_level: "returns (cpl_is c) (return_to w n raw a d) (\<lambda>_ t. c \<le> CPL t)"
proof -
  let ?sl = "parse_selector raw"
  let ?n = "(if w then 8 else 4) + ucast n"
  let ?go = "\<lambda>l. if sl_rpl ?sl = l then and_next (need_pop ?n) (and_next (branch_far64 ?sl d a l) (update (add_eSP ?n)))
     else return_outer w n ?sl d a"
  have "level_ok c (sl_rpl ?sl) (?go c)"
    using level_ok_same [OF return_same_level] return_outer_level by (simp add: level_ok_def)
  from returns_level [OF level_ok_check [OF this]] show ?thesis
    unfolding returns_def return_to_def Let_def by (auto split: if_splits)
qed

lemma iret_to_level: "returns (cpl_is c) (iret_to w raw a f d) (\<lambda>_ t. c \<le> CPL t)"
proof -
  let ?sl = "parse_selector raw"
  have "level_ok c (sl_rpl ?sl) (if sl_rpl ?sl = c then iret_same w ?sl d a f else iret_outer w ?sl d)"
    using level_ok_same [OF iret_same_level] iret_outer_level by (simp add: level_ok_def)
  from returns_level [OF level_ok_check [OF this]] show ?thesis
    unfolding returns_def iret_to_def Let_def by (auto split: if_splits)
qed

lemma cpl_stack_at: "stable (cpl_is c) (\<lambda>s. stack16 k (b s) s)" "stable (cpl_is c) (\<lambda>s. stack_os w k (b s) s)"
  by (rule stable_at(1), rule cpl_intros)+

lemma return_protected_level: "returns (cpl_is c) (return_protected w n) (\<lambda>_ t. c \<le> CPL t)"
  unfolding return_protected_def
  by (intro returns_and_next returns_and_then returns_cases(2) return_to_level cpl_stack_at
      stable_intros cpl_intros)

lemma return_to_v86_level: "returns P (stack_return_to_v86 a raw f) (\<lambda>_ t. CPL t = 3)"
  unfolding stack_return_to_v86_def and_next_def
  by (auto simp: returns_def and_then_Done_iff init_v8086_mode_def v8086_segment_def CPL_def)

lemma iret_stack_level: "returns (cpl_is c) (iret_stack w) (\<lambda>_ t. c \<le> CPL t)"
proof -
  have "returns (cpl_is c) (\<lambda>s. if w \<and> f AND EFlagsVMMask \<noteq> 0 \<and> CPL s = 0 then stack_return_to_v86 a raw f s else
       and_next (raise_if (raw AND 0xfffc = 0) BX_GP_EXCEPTION 0) (
       and_then (fetch_raw_descriptor (parse_selector raw) BX_GP_EXCEPTION) (\<lambda>(dword1, dword2).
         iret_to w raw a f (parse_descriptor dword1 dword2))) s) (\<lambda>_ t. c \<le> CPL t)" (is "returns _ (\<lambda>s. if ?b s then ?m s else ?n s) _")
    for f a raw
  proof -
    have "returns (cpl_is c) ?n (\<lambda>_ t. c \<le> CPL t)"
      by (intro returns_and_next returns_and_then returns_cases(2) iret_to_level stable_intros cpl_intros)
    with return_to_v86_level [of "cpl_is c" a raw f] show ?thesis
      by (auto simp: returns_def)
  qed
  then show ?thesis
    unfolding iret_stack_def
    by (intro returns_and_next returns_and_then cpl_stack_at stable_intros cpl_intros)
qed

section \<open>Privilege\<close>

definition whenever_done :: "(unit, cpu) outcome \<Rightarrow> (cpu \<Rightarrow> bool) \<Rightarrow> bool" where
  "whenever_done r P \<longleftrightarrow> (case r of Done u t \<Rightarrow> P t | _ \<Rightarrow> True)"

lemma returns_whenever: "returns (cpl_is c) m (\<lambda>_. Q) \<Longrightarrow> CPL s = c \<Longrightarrow> whenever_done (m s) Q"
  by (auto simp: returns_def whenever_done_def split: outcome.split)

text \<open>C16
  Control transfers without a task switch change the privilege level in the permitted direction only.
  An interrupt or exception through an interrupt or trap gate and a far call through a call gate, if
  they complete, leave the processor at the same or at a more privileged level; a far jump through a
  call gate keeps the level; a protected-mode far return, and an interrupt return with NT clear, which
  is \<open>iret_stack\<close> and may lead into virtual-8086 mode, never end at a more privileged level than
  they started at. This holds whatever the selectors, descriptors and stack contents are. Transfers
  that switch tasks are left out, because a task may run at any level: those through a task gate or to
  a task state segment, and the interrupt return with NT set.\<close>

theorem transfers_respect_privilege:
  "whenever_done (int_trap_gate gate is_error_code ec s) (\<lambda>t. CPL t \<le> CPL s) \<and>
   whenever_done (call_gate gate s) (\<lambda>t. CPL t \<le> CPL s) \<and>
   whenever_done (jmp_call_gate raw dest s) (\<lambda>t. CPL t = CPL s) \<and>
   whenever_done (return_protected os32 n s) (\<lambda>t. CPL s \<le> CPL t) \<and>
   whenever_done (iret_stack os32 s) (\<lambda>t. CPL s \<le> CPL t)"
proof -
  have "whenever_done (int_trap_gate gate is_error_code ec s) (\<lambda>t. CPL t \<le> CPL s)"
    "whenever_done (call_gate gate s) (\<lambda>t. CPL t \<le> CPL s)"
    by (auto simp: whenever_done_def split: outcome.split dest: int_trap_gate_level call_gate_level)
  then show ?thesis
    using returns_whenever [OF returns_stable [OF jmp_call_gate_level] refl]
      returns_whenever [OF return_protected_level refl] returns_whenever [OF iret_stack_level refl] by simp
qed

section \<open>Flags\<close>



lemma eflags_async [simp]: "eflags_val32 (s\<lparr>async_event := k\<rparr>) = eflags_val32 s"
  by simp






lemma eflags_load_cs [simp]:
  "eflags_val32 (load_cs sl d c s) = eflags_val32 s" "eflags_val32 (add_eSP k s) = eflags_val32 s"
  "eflags_val32 (set_sreg sg r s) = eflags_val32 s" "eflags_val32 (set_stack_pointer b e s) = eflags_val32 s"
  "eflags_val32 (validate_seg_regs s) = eflags_val32 s"
  by (simp_all add: load_cs_def invalidate_prefetch_q_def set_sreg_def add_eSP_def set_stack_pointer_def
      validate_seg_regs_def invalidate_lower_def BX_WRITE_32BIT_REG_def BX_WRITE_16BIT_REG_def Let_def)















end
