(* ===== verification/BxProtect.thy ===== *)
theory BxProtect
  imports BxInterrupt
begin

text \<open>
  The instructions of \<open>cpu/protect_ctrl.cc\<close>: adjusting and testing selectors (ARPL,
  LAR, LSL, VERR, VERW), the registers of the system segments (LLDT, SLDT, LTR, STR) and of the
  descriptor tables (LGDT, SGDT, LIDT, SIDT). The first test of most of them refuses real and
  virtual-8086 mode.
\<close>

section \<open>Tests of the mode and the zero flag\<close>

definition in_protected :: "unit bx \<Rightarrow> unit bx" where
  "in_protected m = (\<lambda>s. if real_mode s \<or> v8086_mode s then UndefinedOpcode s else m s)"

definition set_ZF :: "bool \<Rightarrow> unit bx" where
  "set_ZF b = update (set_flag ZF b)"

text \<open>A null selector and one outside of its table clear ZF and end the instruction.\<close>

definition visible_descriptor ::
    "bxInstruction \<Rightarrow> (bx_selector_t \<Rightarrow> Bit32u \<Rightarrow> Bit32u \<Rightarrow> unit bx) \<Rightarrow> unit bx" where
  "visible_descriptor i k =
     and_then (load_Ew i) (\<lambda>raw_selector.
       if raw_selector AND 0xfffc = 0 then set_ZF False
       else
         and_then (fetch_raw_descriptor2 (parse_selector raw_selector)) (\<lambda>r.
           case r of
             None \<Rightarrow> set_ZF False
           | Some (dword1, dword2) \<Rightarrow> k (parse_selector raw_selector) dword1 dword2))"

definition beyond_level :: "nat \<Rightarrow> bx_selector_t \<Rightarrow> cpu \<Rightarrow> bool" where
  "beyond_level dpl selector s \<longleftrightarrow> dpl < CPL s \<or> dpl < sl_rpl selector"

definition put_Gv :: "bxInstruction \<Rightarrow> Bit32u \<Rightarrow> unit bx" where
  "put_Gv i v =
     (if os32L i then update (BX_WRITE_32BIT_REG (nnn i) v) else update (BX_WRITE_16BIT_REG (nnn i) (ucast v)))"

section \<open>Selectors and access rights\<close>

definition ARPL_EwGw :: "bxInstruction \<Rightarrow> unit bx" where
  "ARPL_EwGw i = (\<lambda>s.
     if protected_mode s then
       and_then (fetch_Ew i) (\<lambda>op1_16.
       and_then (gets (BX_READ_16BIT_REG (nnn i))) (\<lambda>op2_16.
         if op1_16 AND 0x03 < op2_16 AND 0x03 then
           (let v = (op1_16 AND 0xfffc) OR (op2_16 AND 0x03) in
            and_next
              (if modC0 i then
                 (if os32L i then
                    update (\<lambda>s. BX_WRITE_32BIT_REG (rm i)
                      (((BX_READ_32BIT_REG (rm i) s AND 0xffff0000) OR ucast v) OR 0xff3f0000) s)
                  else update (BX_WRITE_16BIT_REG (rm i) v))
               else write_RMW_virtual_word v)
              (set_ZF True))
         else set_ZF False)) s
     else UndefinedOpcode s)"

definition lar_type_ok :: "nat \<Rightarrow> bool" where
  "lar_type_ok t \<longleftrightarrow> t \<in> {1, 2, 3, 4, 5, 9, 11, 12}"

definition conforming :: "bx_descriptor_t \<Rightarrow> bool" where
  "conforming d \<longleftrightarrow> sd_executable (u_segment (d_u d)) \<and> sd_c_ed (u_segment (d_u d))"

definition LAR_GvEw :: "bxInstruction \<Rightarrow> unit bx" where
  "LAR_GvEw i = in_protected (visible_descriptor i (\<lambda>selector dword1 dword2 s.
     (let d = parse_descriptor dword1 dword2;
          ok = and_next (set_ZF True)
                 (put_Gv i (if os32L i then dword2 AND 0x00ffff00 else dword2 AND 0xff00)) in
      if d_valid d = 0 then set_ZF False s
      else if d_segment d then
        (if \<not> conforming d \<and> beyond_level (d_dpl d) selector s then set_ZF False s else ok s)
      else if \<not> lar_type_ok (d_type d) then set_ZF False s
      else if beyond_level (d_dpl d) selector s then set_ZF False s
      else ok s)))"

text \<open>\<open>LSL_GvEw\<close> reads the fields from the two words of the descriptor itself.\<close>

definition raw_limit :: "Bit32u \<Rightarrow> Bit32u \<Rightarrow> Bit32u" where
  "raw_limit dword1 dword2 =
     (let limit32 = (dword1 AND 0x0000ffff) OR (dword2 AND 0x000f0000) in
      if dword2 AND 0x00800000 \<noteq> 0 then push_bit 12 limit32 OR 0x00000fff else limit32)"

definition LSL_GvEw :: "bxInstruction \<Rightarrow> unit bx" where
  "LSL_GvEw i = in_protected (visible_descriptor i (\<lambda>selector dword1 dword2 s.
     (let descriptor_dpl = unat (drop_bit 13 dword2 AND 0x03);
          lsl_ok = and_next (set_ZF True) (put_Gv i (raw_limit dword1 dword2)) in
      if dword2 AND 0x00001000 = 0 then
        (if unat (drop_bit 8 dword2 AND 0x0000000f) \<in> {1, 3, 2, 9, 11} then
           (if beyond_level descriptor_dpl selector s then set_ZF False s else lsl_ok s)
         else set_ZF False s)
      else if dword2 AND 0x00000c00 = 0x00000c00 then lsl_ok s
      else if beyond_level descriptor_dpl selector s then set_ZF False s
      else lsl_ok s)))"

definition VERR_Ew :: "bxInstruction \<Rightarrow> unit bx" where
  "VERR_Ew i = in_protected (visible_descriptor i (\<lambda>selector dword1 dword2 s.
     (let d = parse_descriptor dword1 dword2; u = u_segment (d_u d) in
      if \<not> d_segment d then set_ZF False s
      else if d_valid d = 0 then set_ZF False s
      else if sd_executable u then
        (if sd_c_ed u \<and> sd_r_w u then set_ZF True s
         else if \<not> sd_r_w u then set_ZF False s
         else set_ZF (\<not> beyond_level (d_dpl d) selector s) s)
      else set_ZF (\<not> beyond_level (d_dpl d) selector s) s)))"

definition VERW_Ew :: "bxInstruction \<Rightarrow> unit bx" where
  "VERW_Ew i = in_protected (visible_descriptor i (\<lambda>selector dword1 dword2 s.
     (let d = parse_descriptor dword1 dword2; u = u_segment (d_u d) in
      if \<not> d_segment d \<or> sd_executable u then set_ZF False s
      else if d_valid d = 0 then set_ZF False s
      else if sd_r_w u then set_ZF (\<not> beyond_level (d_dpl d) selector s) s
      else set_ZF False s)))"

section \<open>LDTR and TR\<close>

definition SLDT_Ew :: "bxInstruction \<Rightarrow> unit bx" where
  "SLDT_Ew i = in_protected (\<lambda>s. store_Ew i (sys_value (ldtr (sys s))) s)"

definition STR_Ew :: "bxInstruction \<Rightarrow> unit bx" where
  "STR_Ew i = in_protected (\<lambda>s. store_Ew i (sys_value (tr (sys s))) s)"

definition level_0 :: "unit bx \<Rightarrow> unit bx" where
  "level_0 m = (\<lambda>s. if CPL s \<noteq> 0 then raise BX_GP_EXCEPTION 0 s else m s)"

definition LLDT_Ew :: "bxInstruction \<Rightarrow> unit bx" where
  "LLDT_Ew i = in_protected (and_next (update invalidate_prefetch_q) (level_0 (
     and_then (load_Ew i) (\<lambda>raw_selector.
     (let selector = parse_selector raw_selector; ec = error_code raw_selector in
      if raw_selector AND 0xfffc = 0 then
        update_sys (\<lambda>y. y\<lparr>ldtr := (ldtr y)\<lparr>sys_value := raw_selector, sys_valid := 0\<rparr>\<rparr>)
      else if sl_ti selector then raise BX_GP_EXCEPTION ec
      else
        (\<lambda>s. if ucast (gdtr_limit (sys s)) < ucast (sl_index selector) * 8 + (7 :: Bit32u)
             then panic ''LLDT: GDT: index > limit'' s
             else
               and_then (read_lin32 (gdtr_base (sys s) + ucast (sl_index selector) * 8)) (\<lambda>dword1 s.
               and_then (read_lin32 (gdtr_base (sys s) + ucast (sl_index selector) * 8 + 4)) (\<lambda>dword2.
               (let d = parse_descriptor dword1 dword2 in
                if d_valid d = 0 \<or> d_segment d \<or> d_type d \<noteq> 2 then raise BX_GP_EXCEPTION ec
                else if \<not> d_p d then raise BX_NP_EXCEPTION ec
                else update_sys (\<lambda>y. y\<lparr>ldtr := (system_segment selector d)\<lparr>sys_valid := 1\<rparr>\<rparr>))) s) s))))))"

definition LTR_Ew :: "bxInstruction \<Rightarrow> unit bx" where
  "LTR_Ew i = in_protected (and_next (update invalidate_prefetch_q) (level_0 (
     and_then (load_Ew i) (\<lambda>raw_selector.
     (let selector = parse_selector raw_selector; ec = error_code raw_selector in
      if raw_selector AND 0xfffc = 0 then raise BX_GP_EXCEPTION 0
      else if sl_ti selector then raise BX_GP_EXCEPTION ec
      else
        and_then (fetch_raw_descriptor selector BX_GP_EXCEPTION) (\<lambda>(dword1, dword2).
        (let d = parse_descriptor dword1 dword2 in
         if d_valid d = 0 \<or> d_segment d \<or> (d_type d \<noteq> 1 \<and> d_type d \<noteq> 9) then raise BX_GP_EXCEPTION ec
         else if \<not> d_p d then raise BX_NP_EXCEPTION ec
         else
           and_next (update_sys (\<lambda>y. y\<lparr>tr := (system_segment selector d)\<lparr>sys_valid := 1\<rparr>\<rparr>))
             (\<lambda>s. write_lin32 (gdtr_base (sys s) + ucast (sl_index selector) * 8 + 4) (dword2 OR 0x00000200) s))))))))"

section \<open>GDTR and IDTR\<close>

definition store_table :: "bxInstruction \<Rightarrow> (bx_sysregs \<Rightarrow> Bit16u) \<Rightarrow> (bx_sysregs \<Rightarrow> Bit32u) \<Rightarrow> unit bx" where
  "store_table i limit base = (\<lambda>s.
     if modC0 i then UndefinedOpcode s
     else
       and_next (write_virtual_word (i_seg i) (rm_addr s) (limit (sys s)))
         (write_virtual_dword (i_seg i) (rm_addr s + 2) (base (sys s))) s)"

definition SGDT_Ms :: "bxInstruction \<Rightarrow> unit bx" where
  "SGDT_Ms i = store_table i gdtr_limit gdtr_base"

definition SIDT_Ms :: "bxInstruction \<Rightarrow> unit bx" where
  "SIDT_Ms i = store_table i idtr_limit idtr_base"

definition load_table :: "bxInstruction \<Rightarrow> unit bx \<Rightarrow> unit bx" where
  "load_table i m = (\<lambda>s.
     if v8086_mode s then raise BX_GP_EXCEPTION 0 s
     else
       and_next (update invalidate_prefetch_q)
         (\<lambda>s. if \<not> real_mode s \<and> CPL s \<noteq> 0 then raise BX_GP_EXCEPTION 0 s
              else if modC0 i then UndefinedOpcode s else m s) s)"

definition LGDT_Ms :: "bxInstruction \<Rightarrow> unit bx" where
  "LGDT_Ms i = load_table i (\<lambda>s. (let a = rm_addr s; sg = i_seg i in
     if os32L i then
       and_then (read_virtual_word sg a) (\<lambda>limit_16.
       and_then (read_virtual_dword sg (a + 2)) (\<lambda>base0_31.
         update_sys (\<lambda>y. y\<lparr>gdtr_limit := limit_16, gdtr_base := base0_31\<rparr>))) s
     else
       and_then (read_virtual_word sg a) (\<lambda>limit_16.
       and_then (read_virtual_word sg (a + 2)) (\<lambda>base0_15.
       and_then (read_virtual_byte sg (a + 4)) (\<lambda>base16_23.
         update_sys (\<lambda>y. y\<lparr>gdtr_limit := limit_16,
           gdtr_base := push_bit 16 (ucast base16_23) OR ucast base0_15\<rparr>)))) s))"

definition LIDT_Ms :: "bxInstruction \<Rightarrow> unit bx" where
  "LIDT_Ms i = load_table i (\<lambda>s. (let a = rm_addr s; sg = i_seg i in
     and_then (read_virtual_word sg a) (\<lambda>limit_16.
     and_then (read_virtual_dword sg (a + 2)) (\<lambda>base_32.
       update_sys (\<lambda>y. y\<lparr>idtr_limit := limit_16,
         idtr_base := (if os32L i then base_32 else base_32 AND 0x00ffffff)\<rparr>))) s))"

end
