(* ===== verification/BxProcCtrl.thy ===== *)
theory BxProcCtrl
  imports BxProtect
begin

text \<open>
  The processor control instructions of \<open>cpu/proc_ctrl.cc\<close> and the mode changes of
  \<open>cpu/protect_ctrl_pro.cc\<close>: HLT, the cache instructions, debug and control registers,
  LMSW and SMSW, the model specific registers, the time stamp counter, SYSENTER and SYSEXIT.
  The clock is outside of the processor: the time that \<open>bx_pc_system.time_ticks()\<close>
  returns is the argument \<open>ticks\<close>.
\<close>

section \<open>HLT, CLTS and the caches\<close>

definition NOP :: "bxInstruction \<Rightarrow> unit bx" where "NOP i = ret ()"

definition PREFETCH :: "bxInstruction \<Rightarrow> unit bx" where "PREFETCH i = ret ()"

definition HLT :: "bxInstruction \<Rightarrow> unit bx" where
  "HLT i = (\<lambda>s.
     if sel_value (sregs s CS) = 0xf000 then panic ''HALT instruction encountered in the BIOS ROM'' s
     else if \<not> real_mode s \<and> CPL s \<noteq> 0 then raise BX_GP_EXCEPTION 0 s
     else Done () (s\<lparr>debug_trap := debug_trap s OR 0x80000000, async_event := 1\<rparr>))"

definition CLTS :: "bxInstruction \<Rightarrow> unit bx" where
  "CLTS i = (\<lambda>s.
     if \<not> real_mode s \<and> CPL s \<noteq> 0 then raise BX_GP_EXCEPTION 0 s
     else Done () (s\<lparr>cr0 := (cr0 s)\<lparr>cr0_ts := False, cr0_val32 := cr0_val32 (cr0 s) AND NOT 0x08\<rparr>\<rparr>))"

definition flush_caches :: "unit bx" where
  "flush_caches = and_next (update invalidate_prefetch_q) (\<lambda>s.
     if cr0_pe (cr0 s) \<and> CPL s \<noteq> 0 then raise BX_GP_EXCEPTION 0 s else update (TLB_flush True) s)"

definition INVD :: "bxInstruction \<Rightarrow> unit bx" where "INVD i = flush_caches"
definition WBINVD :: "bxInstruction \<Rightarrow> unit bx" where "WBINVD i = flush_caches"

section \<open>Debug registers\<close>

text \<open>Refused in virtual-8086 mode and above level 0 of protected mode.\<close>

definition not_v8086 :: "unit bx \<Rightarrow> unit bx" where
  "not_v8086 m = (\<lambda>s. if v8086_mode s then raise BX_GP_EXCEPTION 0 s else m s)"

definition supervisor :: "unit bx \<Rightarrow> unit bx" where
  "supervisor m = (\<lambda>s. if protected_mode s \<and> CPL s \<noteq> 0 then raise BX_GP_EXCEPTION 0 s else m s)"

definition debug_extensions :: "cpu \<Rightarrow> bool" where
  "debug_extensions s = bit (cr4 s) 3"

text \<open>The two-bit field of DR7 at position \<open>n\<close>.\<close>

definition dr7_field :: "nat \<Rightarrow> Bit32u \<Rightarrow> Bit32u" where
  "dr7_field n w = drop_bit n w AND 3"

definition write_DR7 :: "Bit32u \<Rightarrow> unit bx" where
  "write_DR7 v =
     in_order [
       panic_if (\<exists>n\<in>{16, 20, 24, 28}. dr7_field n v = 2) ''MOV_DdRd: write contains IO breakpoint'',
       panic_if (\<exists>n\<in>{18, 22, 26, 30}. dr7_field n v = 2) ''MOV_DdRd: write contains undefined LENx'',
       panic_if (\<exists>n\<in>{16, 20, 24, 28}. dr7_field n v = 0 \<and> dr7_field (n + 2) v \<noteq> 0)
         ''MOV_DdRd: R/W=00b LEN!=00b'',
       update_sys (\<lambda>y. y\<lparr>dr7 := (v AND 0xffff2fff) OR 0x00000400\<rparr>),
       update (\<lambda>s. if dr7 (sys s) AND 0xff \<noteq> 0 then s\<lparr>async_event := 1\<rparr> else s)]"

definition MOV_DdRd :: "bxInstruction \<Rightarrow> unit bx" where
  "MOV_DdRd i = not_v8086 (and_next (update invalidate_prefetch_q) (supervisor (\<lambda>s.
     (let v = BX_READ_32BIT_REG (rm i) s; r = unat (nnn i) in
      if r = 0 then update_sys (\<lambda>y. y\<lparr>dr0 := v\<rparr>) s
      else if r = 1 then update_sys (\<lambda>y. y\<lparr>dr1 := v\<rparr>) s
      else if r = 2 then update_sys (\<lambda>y. y\<lparr>dr2 := v\<rparr>) s
      else if r = 3 then update_sys (\<lambda>y. y\<lparr>dr3 := v\<rparr>) s
      else if (r = 4 \<or> r = 5) \<and> debug_extensions s then UndefinedOpcode s
      else if r = 4 \<or> r = 6 then
        update_sys (\<lambda>y. y\<lparr>dr6 := (dr6 y AND 0xffff0ff0) OR (v AND 0x0000e00f)\<rparr>) s
      else write_DR7 v s))))"

definition MOV_RdDd :: "bxInstruction \<Rightarrow> unit bx" where
  "MOV_RdDd i = not_v8086 (supervisor (\<lambda>s.
     (let r = unat (nnn i); y = sys s; put = (\<lambda>v. update (BX_WRITE_32BIT_REG (rm i) v)) in
      if r = 0 then put (dr0 y) s
      else if r = 1 then put (dr1 y) s
      else if r = 2 then put (dr2 y) s
      else if r = 3 then put (dr3 y) s
      else if (r = 4 \<or> r = 5) \<and> debug_extensions s then UndefinedOpcode s
      else if r = 4 \<or> r = 6 then put (dr6 y) s
      else put (dr7 y) s)))"

section \<open>Control registers\<close>

definition enter_protected_mode :: "unit bx" where
  "enter_protected_mode = (\<lambda>s.
     if v8086_mode s then panic ''protect_ctrl: v8086 mode unsupported'' s
     else if sel_rpl (sregs s CS) \<noteq> 0 \<or> sel_rpl (sregs s SS) \<noteq> 0
     then panic ''enter_protected_mode: CS or SS rpl != 0'' s else ret () s)"

definition enter_real_mode :: "unit bx" where
  "enter_real_mode = (\<lambda>s.
     if v8086_mode s then panic ''protect_ctrl: v8086 mode unsupported'' s
     else if sel_rpl (sregs s CS) \<noteq> 0 \<or> sel_rpl (sregs s SS) \<noteq> 0
     then panic ''enter_real_mode: CS or SS rpl != 0'' s else ret () s)"

definition cr0_of :: "Bit32u \<Rightarrow> bx_cr0" where
  "cr0_of v =
     \<lparr>cr0_val32 = (v OR 0x00000010) AND 0xe005003f, cr0_pg = bit v 31, cr0_cd = bit v 30, cr0_nw = bit v 29,
      cr0_am = bit v 18, cr0_wp = bit v 16, cr0_ne = bit v 5, cr0_ts = bit v 3, cr0_em = bit v 2,
      cr0_mp = bit v 1, cr0_pe = bit v 0\<rparr>"

definition SetCR0 :: "Bit32u \<Rightarrow> unit bx" where
  "SetCR0 val_32 = (\<lambda>s.
     if bit val_32 31 \<and> \<not> bit val_32 0 then raise BX_GP_EXCEPTION 0 s
     else if bit val_32 29 \<and> \<not> bit val_32 30 then raise BX_GP_EXCEPTION 0 s
     else if bit val_32 0 \<and> VM_cached s then panic ''EFLAGS.VM=1, enter_PM'' s
     else
       (let oldCR0 = cr0_val32 (cr0 s); prev_pe = cr0_pe (cr0 s); c = cr0_of val_32 in
        in_order [
          update (\<lambda>s. s\<lparr>cr0 := c\<rparr>),
          if \<not> prev_pe \<and> cr0_pe c then
            and_next enter_protected_mode (update (\<lambda>s. s\<lparr>cpu_mode := BX_MODE_IA32_PROTECTED\<rparr>))
          else if prev_pe \<and> \<not> cr0_pe c then
            and_next enter_real_mode (update (\<lambda>s. s\<lparr>cpu_mode := BX_MODE_IA32_REAL\<rparr>))
          else ret (),
          update (pagingCR0Changed oldCR0 (cr0_val32 c))] s))"

text \<open>TSD, DE, PSE, PAE, MCE, PGE, OSFXSR and OSXMMEXCPT.\<close>

definition cr4_allowMask :: Bit32u where
  "cr4_allowMask = 0x6fc"

definition SetCR4 :: "Bit32u \<Rightarrow> unit bx" where
  "SetCR4 val_32 = (\<lambda>s.
     if val_32 AND NOT cr4_allowMask \<noteq> 0 then raise BX_GP_EXCEPTION 0 s
     else
       (let oldCR4 = cr4 s; v = val_32 AND cr4_allowMask in
        Done () (pagingCR4Changed oldCR4 v (s\<lparr>cr4 := v\<rparr>))))"

definition MOV_CdRd :: "bxInstruction \<Rightarrow> unit bx" where
  "MOV_CdRd i = not_v8086 (and_next (update invalidate_prefetch_q) (supervisor (\<lambda>s.
     (let v = BX_READ_32BIT_REG (rm i) s; r = unat (nnn i) in
      if r = 0 then SetCR0 v s
      else if r = 1 then panic ''MOV_CdRd: CR1 not implemented yet'' s
      else if r = 2 then update (\<lambda>s. s\<lparr>cr2 := v\<rparr>) s
      else if r = 3 then update (CR3_change v) s
      else if r = 4 then SetCR4 v s
      else panic ''MOV_CdRd: control register index out of range'' s))))"

definition MOV_RdCd :: "bxInstruction \<Rightarrow> unit bx" where
  "MOV_RdCd i = not_v8086 (supervisor (\<lambda>s.
     (let r = unat (nnn i); put = (\<lambda>v. update (BX_WRITE_32BIT_REG (rm i) v)) in
      if r = 0 then put (cr0_val32 (cr0 s)) s
      else if r = 1 then panic ''MOV_RdCd: CR1 not implemented yet'' s
      else if r = 2 then put (cr2 s) s
      else if r = 3 then put (cr3 s) s
      else if r = 4 then put (cr4 s) s
      else panic ''MOV_RdCd: control register index out of range'' s)))"

definition LMSW_Ew :: "bxInstruction \<Rightarrow> unit bx" where
  "LMSW_Ew i = and_next (update invalidate_prefetch_q) (\<lambda>s.
     if (protected_mode s \<or> v8086_mode s) \<and> CPL s \<noteq> 0 then raise BX_GP_EXCEPTION 0 s
     else
       and_then (load_Ew i) (\<lambda>msw s.
         (let m1 = (if cr0_pe (cr0 s) then msw OR 0x0001 else msw); m2 = m1 AND 0x000f in
          SetCR0 ((cr0_val32 (cr0 s) AND 0xfffffff0) OR ucast m2) s)) s)"

definition SMSW_Ew :: "bxInstruction \<Rightarrow> unit bx" where
  "SMSW_Ew i = (\<lambda>s.
     (let msw = ucast (cr0_val32 (cr0 s) AND 0xffff) :: Bit16u in
      if modC0 i then
        (if os32L i then update (BX_WRITE_32BIT_REG (rm i) (ucast msw)) s
         else update (BX_WRITE_16BIT_REG (rm i) msw) s)
      else write_virtual_word (i_seg i) (rm_addr s) msw s))"

definition MOV_TdRd :: "bxInstruction \<Rightarrow> unit bx" where "MOV_TdRd i = UndefinedOpcode"
definition MOV_RdTd :: "bxInstruction \<Rightarrow> unit bx" where "MOV_RdTd i = UndefinedOpcode"

definition RSM :: "bxInstruction \<Rightarrow> unit bx" where
  "RSM i = and_next (update invalidate_prefetch_q) UndefinedOpcode"

section \<open>Counters and model specific registers\<close>

definition set_EAX_EDX :: "Bit32u \<Rightarrow> Bit32u \<Rightarrow> cpu \<Rightarrow> cpu" where
  "set_EAX_EDX a d s = BX_WRITE_32BIT_REG 2 d (BX_WRITE_32BIT_REG 0 a s)"

definition put_ticks :: "Bit64u \<Rightarrow> cpu \<Rightarrow> cpu" where
  "put_ticks ticks = set_EAX_EDX (ucast (ticks AND 0xffffffff)) (ucast (drop_bit 32 ticks AND 0xffffffff))"

definition RDPMC :: "bxInstruction \<Rightarrow> unit bx" where
  "RDPMC i = (\<lambda>s.
     if bit (cr4 s) 8 \<or> CPL s = 0 \<or> real_mode s then
       (if 18 \<le> ECX s AND 0x7fffffff then raise BX_GP_EXCEPTION 0 s else update (set_EAX_EDX 0 0) s)
     else raise BX_GP_EXCEPTION 0 s)"

definition RDTSC :: "Bit64u \<Rightarrow> bxInstruction \<Rightarrow> unit bx" where
  "RDTSC ticks i = (\<lambda>s.
     if \<not> bit (cr4 s) 2 \<or> CPL s = 0 then update (put_ticks ticks) s else raise BX_GP_EXCEPTION 0 s)"

definition BX_MSR_P5_MC_ADDR :: Bit32u where "BX_MSR_P5_MC_ADDR = 0x0000"
definition BX_MSR_MC_TYPE :: Bit32u where "BX_MSR_MC_TYPE = 0x0001"
definition BX_MSR_TSC :: Bit32u where "BX_MSR_TSC = 0x0010"
definition BX_MSR_CESR :: Bit32u where "BX_MSR_CESR = 0x0011"
definition BX_MSR_CTR0 :: Bit32u where "BX_MSR_CTR0 = 0x0012"
definition BX_MSR_CTR1 :: Bit32u where "BX_MSR_CTR1 = 0x0013"
definition BX_MSR_APICBASE :: Bit32u where "BX_MSR_APICBASE = 0x001b"
definition BX_MSR_SYSENTER_CS :: Bit32u where "BX_MSR_SYSENTER_CS = 0x0174"
definition BX_MSR_SYSENTER_ESP :: Bit32u where "BX_MSR_SYSENTER_ESP = 0x0175"
definition BX_MSR_SYSENTER_EIP :: Bit32u where "BX_MSR_SYSENTER_EIP = 0x0176"

text \<open>Unknown registers are ignored: \<open>BX_IGNORE_BAD_MSR\<close> is 1.\<close>

definition read_msr :: "Bit64u \<Rightarrow> unit bx" where
  "read_msr ticks = (\<lambda>s. (let r = ECX s; y = sys s; put = (\<lambda>a d. Done () (set_EAX_EDX a d s)) in
     if r = BX_MSR_SYSENTER_CS then put (sysenter_cs_msr y) 0
     else if r = BX_MSR_SYSENTER_ESP then put (sysenter_esp_msr y) 0
     else if r = BX_MSR_SYSENTER_EIP then put (sysenter_eip_msr y) 0
     else if r = BX_MSR_P5_MC_ADDR \<or> r = BX_MSR_MC_TYPE then ret () s
     else if r = BX_MSR_CESR \<or> r = BX_MSR_CTR0 \<or> r = BX_MSR_CTR1 then raise BX_GP_EXCEPTION 0 s
     else if r = BX_MSR_TSC then Done () (put_ticks ticks s)
     else if r = BX_MSR_APICBASE then put (ucast (apicbase y AND 0xffffffff)) (ucast (drop_bit 32 (apicbase y)))
     else put 0 0))"

definition RDMSR :: "Bit64u \<Rightarrow> bxInstruction \<Rightarrow> unit bx" where
  "RDMSR ticks i = and_next (update invalidate_prefetch_q) (not_v8086 (supervisor (read_msr ticks)))"

text \<open>\<open>local_apic.set_base\<close> drops the low twelve bits.\<close>

definition set_apic_base :: "Bit64u \<Rightarrow> cpu \<Rightarrow> cpu" where
  "set_apic_base v s =
     s\<lparr>sys := (sys s)\<lparr>apicbase := v\<rparr>, local_apic_base := ucast v AND NOT 0xfff\<rparr>"

definition write_msr :: "unit bx" where
  "write_msr = (\<lambda>s. (let r = ECX s; a = EAX s in
     if r = BX_MSR_SYSENTER_CS then
       (if a AND 3 \<noteq> 0 then panic ''writing sysenter_cs_msr with non-kernel mode selector'' s
        else update_sys (\<lambda>y. y\<lparr>sysenter_cs_msr := a\<rparr>) s)
     else if r = BX_MSR_SYSENTER_ESP then update_sys (\<lambda>y. y\<lparr>sysenter_esp_msr := a\<rparr>) s
     else if r = BX_MSR_SYSENTER_EIP then update_sys (\<lambda>y. y\<lparr>sysenter_eip_msr := a\<rparr>) s
     else if r = BX_MSR_P5_MC_ADDR \<or> r = BX_MSR_MC_TYPE then ret () s
     else if r = BX_MSR_CESR \<or> r = BX_MSR_CTR0 \<or> r = BX_MSR_CTR1 then raise BX_GP_EXCEPTION 0 s
     else if r = BX_MSR_APICBASE \<and> apicbase (sys s) AND 0x800 \<noteq> 0 then
       update (set_apic_base (push_bit 32 (ucast (EDX s)) + ucast a)) s
     else ret () s))"

definition WRMSR :: "bxInstruction \<Rightarrow> unit bx" where
  "WRMSR i = and_next (update invalidate_prefetch_q) (not_v8086 (supervisor write_msr))"

section \<open>SYSENTER and SYSEXIT\<close>

text \<open>
  The code loads the selector and the segment part of the cache; presence, level, type and the
  valid bits of the cache stay those of the segment loaded before.
\<close>

definition flat_segment :: "Bit32u \<Rightarrow> Bit16u \<Rightarrow> nat \<Rightarrow> bool \<Rightarrow> bx_segment_reg \<Rightarrow> bx_segment_reg" where
  "flat_segment sel v rpl code r =
     r\<lparr>sel_value := v, sel_index := ucast (drop_bit 3 sel), sel_ti := bit sel 2, sel_rpl := rpl,
       seg_executable := code, seg_c_ed := False, seg_r_w := True, seg_a := True, seg_base := 0,
       seg_limit := 0xFFFF, seg_limit_scaled := 0xFFFFFFFF, seg_g := True, seg_d_b := True, seg_avl := False\<rparr>"

definition set_flat :: "Bit32u \<Rightarrow> (Bit32u \<Rightarrow> Bit16u) \<Rightarrow> nat \<Rightarrow> cpu \<Rightarrow> cpu" where
  "set_flat sel v rpl s =
     set_sreg SS (flat_segment (sel + 8) (v (sel + 8)) rpl False (sregs s SS))
       (set_sreg CS (flat_segment sel (v sel) rpl True (sregs s CS)) s)"

definition SYSENTER :: "bxInstruction \<Rightarrow> unit bx" where
  "SYSENTER i = (\<lambda>s.
     if \<not> protected_mode s then raise BX_GP_EXCEPTION 0 s
     else if sysenter_cs_msr (sys s) AND 0xfffc = 0 then raise BX_GP_EXCEPTION 0 s
     else
       (let y = sys s;
            s1 = clear_eflag 16 (clear_eflag 9 (set_VM False (invalidate_prefetch_q s)));
            s2 = set_flat (sysenter_cs_msr y) (\<lambda>w. ucast (w AND 0xfffc)) 0 s1 in
        Done () ((BX_WRITE_32BIT_REG 4 (sysenter_esp_msr y) s2)\<lparr>eip := sysenter_eip_msr y\<rparr>)))"

definition SYSEXIT :: "bxInstruction \<Rightarrow> unit bx" where
  "SYSEXIT i = (\<lambda>s.
     if \<not> protected_mode s then raise BX_GP_EXCEPTION 0 s
     else if sysenter_cs_msr (sys s) AND 0xfffc = 0 then raise BX_GP_EXCEPTION 0 s
     else if CPL s \<noteq> 0 then raise BX_GP_EXCEPTION 0 s
     else
       (let s1 = invalidate_prefetch_q s;
            s2 = set_flat (sysenter_cs_msr (sys s) + 16) (\<lambda>w. ucast (w OR 3)) 3 s1 in
        Done () ((BX_WRITE_32BIT_REG 4 (ECX s2) s2)\<lparr>eip := EDX s2\<rparr>)))"

end
