(* ===== verification/BxIO.thy ===== *)
theory BxIO
  imports BxString BxFrame
begin

text \<open>
  Port input and output (\<open>cpu/io_pro.cc\<close>, \<open>cpu/io.cc\<close>): the I/O permission bitmap of
  the TSS and the instructions IN, OUT, INS and OUTS. The device bus behind \<open>BX_INP\<close> and
  \<open>BX_OUTP\<close> is an argument of the definitions, so that what is proved holds for every set of
  devices. The batched transfer of INSW and OUTSW is compiled only for 32-bit x86 hosts
  (\<open>__i386__\<close>); the model is that of the other hosts.
\<close>

section \<open>The bus and the permission to use it\<close>

record io_bus =
  BX_INP :: "Bit16u \<Rightarrow> nat \<Rightarrow> Bit32u bx"
  BX_OUTP :: "Bit16u \<Rightarrow> Bit32u \<Rightarrow> nat \<Rightarrow> unit bx"

text \<open>The loop over the bits of the ports accessed.\<close>

fun ports_denied :: "nat \<Rightarrow> Bit16u \<Rightarrow> bool" where
  "ports_denied 0 permission16 = False"
| "ports_denied (Suc n) permission16 =
     (if permission16 AND 0x01 \<noteq> 0 then True else ports_denied n (drop_bit 1 permission16))"

definition allow_io :: "Bit16u \<Rightarrow> nat \<Rightarrow> bool bx" where
  "allow_io addr len = (\<lambda>s.
     (let t = tr (sys s) in
      if sys_valid t = 0 \<or> sys_type t \<noteq> 9 then Done False s
      else if sys_limit t < 103 then Done False s
      else
        and_then (read_lin16 (sys_base t + 102)) (\<lambda>io_base.
          if io_base \<le> 103 then panic ''allow_io(): TR:io_base <= 103''
          else if sint (sys_limit t - ucast io_base) \<le> sint (ucast (addr div 8) :: Bit32u) then ret False
          else
            and_then (read_lin16 (sys_base t + ucast io_base + ucast (addr div 8))) (\<lambda>permission16.
              ret (\<not> ports_denied len (drop_bit (unat (addr AND 0x07)) permission16)))) s))"

definition restricted_io :: "cpu \<Rightarrow> bool" where
  "restricted_io s \<longleftrightarrow> cr0_pe (cr0 s) \<and> (VM_cached s \<or> get_IOPL s < CPL s)"

definition check_io :: "Bit16u \<Rightarrow> nat \<Rightarrow> unit bx" where
  "check_io addr len = (\<lambda>s.
     if restricted_io s then and_then (allow_io addr len) (\<lambda>ok. raise_if (\<not> ok) BX_GP_EXCEPTION 0) s
     else Done () s)"

definition inp8 :: "io_bus \<Rightarrow> Bit16u \<Rightarrow> Bit8u bx" where
  "inp8 bus addr = and_next (check_io addr 1) (and_then (BX_INP bus addr 1) (\<lambda>v. ret (ucast v)))"

definition inp16 :: "io_bus \<Rightarrow> Bit16u \<Rightarrow> Bit16u bx" where
  "inp16 bus addr = and_next (check_io addr 2) (and_then (BX_INP bus addr 2) (\<lambda>v. ret (ucast v)))"

definition inp32 :: "io_bus \<Rightarrow> Bit16u \<Rightarrow> Bit32u bx" where
  "inp32 bus addr = and_next (check_io addr 4) (BX_INP bus addr 4)"

definition outp8 :: "io_bus \<Rightarrow> Bit16u \<Rightarrow> Bit8u \<Rightarrow> unit bx" where
  "outp8 bus addr v = and_next (check_io addr 1) (BX_OUTP bus addr (ucast v) 1)"

definition outp16 :: "io_bus \<Rightarrow> Bit16u \<Rightarrow> Bit16u \<Rightarrow> unit bx" where
  "outp16 bus addr v = and_next (check_io addr 2) (BX_OUTP bus addr (ucast v) 2)"

definition outp32 :: "io_bus \<Rightarrow> Bit16u \<Rightarrow> Bit32u \<Rightarrow> unit bx" where
  "outp32 bus addr v = and_next (check_io addr 4) (BX_OUTP bus addr v 4)"

section \<open>IN and OUT\<close>

definition IN_AL :: "io_bus \<Rightarrow> Bit16u \<Rightarrow> unit bx" where
  "IN_AL bus port = and_then (inp8 bus port) (\<lambda>v. update (write_reg_rl 0 v))"

definition IN_eAX :: "io_bus \<Rightarrow> bxInstruction \<Rightarrow> Bit16u \<Rightarrow> unit bx" where
  "IN_eAX bus i port =
     (if os32L i then and_then (inp32 bus port) (\<lambda>v. update (BX_WRITE_32BIT_REG 0 v))
      else and_then (inp16 bus port) (\<lambda>v. update (BX_WRITE_16BIT_REG 0 v)))"

definition OUT_AL :: "io_bus \<Rightarrow> Bit16u \<Rightarrow> unit bx" where
  "OUT_AL bus port = (\<lambda>s. outp8 bus port (AL s) s)"

definition OUT_eAX :: "io_bus \<Rightarrow> bxInstruction \<Rightarrow> Bit16u \<Rightarrow> unit bx" where
  "OUT_eAX bus i port = (\<lambda>s. if os32L i then outp32 bus port (EAX s) s else outp16 bus port (AX s) s)"

definition IN_ALIb :: "io_bus \<Rightarrow> bxInstruction \<Rightarrow> unit bx" where
  "IN_ALIb bus i = IN_AL bus (ucast (i_Ib i))"

definition IN_eAXIb :: "io_bus \<Rightarrow> bxInstruction \<Rightarrow> unit bx" where
  "IN_eAXIb bus i = IN_eAX bus i (ucast (i_Ib i))"

definition OUT_IbAL :: "io_bus \<Rightarrow> bxInstruction \<Rightarrow> unit bx" where
  "OUT_IbAL bus i = OUT_AL bus (ucast (i_Ib i))"

definition OUT_IbeAX :: "io_bus \<Rightarrow> bxInstruction \<Rightarrow> unit bx" where
  "OUT_IbeAX bus i = OUT_eAX bus i (ucast (i_Ib i))"

definition IN_ALDX :: "io_bus \<Rightarrow> bxInstruction \<Rightarrow> unit bx" where
  "IN_ALDX bus i = (\<lambda>s. IN_AL bus (DX s) s)"

definition IN_eAXDX :: "io_bus \<Rightarrow> bxInstruction \<Rightarrow> unit bx" where
  "IN_eAXDX bus i = (\<lambda>s. IN_eAX bus i (DX s) s)"

definition OUT_DXAL :: "io_bus \<Rightarrow> bxInstruction \<Rightarrow> unit bx" where
  "OUT_DXAL bus i = (\<lambda>s. OUT_AL bus (DX s) s)"

definition OUT_DXeAX :: "io_bus \<Rightarrow> bxInstruction \<Rightarrow> unit bx" where
  "OUT_DXeAX bus i = (\<lambda>s. OUT_eAX bus i (DX s) s)"

section \<open>Strings\<close>

text \<open>The address in ES or the source segment, 16 or 32 bits wide; the step of the index register.\<close>

definition index_reg :: "bxInstruction \<Rightarrow> 3 word \<Rightarrow> cpu \<Rightarrow> Bit32u" where
  "index_reg i r s = (if as32L i then BX_READ_32BIT_REG r s else ucast (BX_READ_16BIT_REG r s))"

definition advance_index :: "bxInstruction \<Rightarrow> 3 word \<Rightarrow> Bit32u \<Rightarrow> unit bx" where
  "advance_index i r incr = (\<lambda>s.
     if as32L i then advance_32 r (BX_READ_32BIT_REG r s) incr s
     else advance_16 r (BX_READ_16BIT_REG r s) (ucast incr) s)"

text \<open>A zero is written first, so that a fault comes before the port is read.\<close>

definition INSB_YbDX :: "io_bus \<Rightarrow> bxInstruction \<Rightarrow> unit bx" where
  "INSB_YbDX bus i = (\<lambda>s.
     and_next (check_io (DX s) 1) (\<lambda>s.
     and_next (write_virtual_byte ES (index_reg i 7 s) 0) (\<lambda>s.
     and_then (BX_INP bus (DX s) 1) (\<lambda>v s.
     and_next (write_virtual_byte ES (index_reg i 7 s) (ucast v)) (advance_index i 7 1) s) s) s) s)"

definition INSW_YvDX :: "io_bus \<Rightarrow> bxInstruction \<Rightarrow> unit bx" where
  "INSW_YvDX bus i = (\<lambda>s.
     (let edi = index_reg i 7 s in
      if os32L i then
        and_next (check_io (DX s) 4) (
        and_next (write_virtual_dword ES edi 0) (\<lambda>s.
        and_then (BX_INP bus (DX s) 4) (\<lambda>v.
        and_next (write_virtual_dword ES edi v) (advance_index i 7 4)) s)) s
      else
        and_next (check_io (DX s) 2) (
        and_next (write_virtual_word ES edi 0) (\<lambda>s.
        and_then (BX_INP bus (DX s) 2) (\<lambda>v.
        and_next (write_virtual_word ES edi (ucast v)) (advance_index i 7 2)) s)) s))"

definition OUTSB_DXXb :: "io_bus \<Rightarrow> bxInstruction \<Rightarrow> unit bx" where
  "OUTSB_DXXb bus i = (\<lambda>s.
     and_next (check_io (DX s) 1) (\<lambda>s.
     and_then (read_virtual_byte (string_seg i) (index_reg i 6 s)) (\<lambda>v s.
     and_next (BX_OUTP bus (DX s) (ucast v) 1) (advance_index i 6 1) s) s) s)"

definition OUTSW_DXXv :: "io_bus \<Rightarrow> bxInstruction \<Rightarrow> unit bx" where
  "OUTSW_DXXv bus i = (\<lambda>s.
     (let seg = string_seg i; esi = index_reg i 6 s in
      if os32L i then
        and_next (check_io (DX s) 4) (
        and_then (read_virtual_dword seg esi) (\<lambda>v s.
        and_next (BX_OUTP bus (DX s) v 4) (advance_index i 6 4) s)) s
      else
        and_next (check_io (DX s) 2) (
        and_then (read_virtual_word seg esi) (\<lambda>v s.
        and_next (BX_OUTP bus (DX s) (ucast v) 2) (advance_index i 6 2) s)) s))"

end
