(* ===== verification/BxPic.thy ===== *)
theory BxPic
  imports BxPrelude
begin

text \<open>
  The two cascaded 8259 interrupt controllers (\<open>iodev/pic.cc\<close>). Lines 0 to 7 enter the
  master, 8 to 15 the slave, whose output is line 2 of the master. The code is written out once
  for each chip; here one definition serves both where the two copies agree, the chip being the
  argument \<open>master\<close>. The levels \<open>irq\<close> and \<open>lowest_priority\<close>, which stay
  below 8, are numbers, the eight request lines a list. \<open>BX_SET_INTR\<close>, the request pin of
  the processor, is the field \<open>INTR_pin\<close>; the calls forwarded to the I/O APIC are recorded
  in order in \<open>ioapic_calls\<close>.
\<close>

section \<open>State\<close>

record bx_pic_t =
  single_PIC :: Bit8u
  interrupt_offset :: Bit8u
  slave_connect :: Bit8u
  sfnm :: Bit8u
  buffered_mode :: Bit8u
  master_slave :: bool
  auto_eoi :: bool
  imr :: Bit8u
  isr :: Bit8u
  irr :: Bit8u
  read_reg_select :: bool
  irq_no :: nat
  lowest_priority :: nat
  INT_pin :: bool
  IRQ_line :: "bool list"
  in_init :: bool
  requires_4 :: bool
  byte_expected :: nat
  special_mask :: bool
  polled :: bool
  rotate_on_autoeoi :: bool
  edge_level :: Bit8u

datatype ioapic_call = Lower_irq nat | Raise_irq nat

record pic_state =
  master_pic :: bx_pic_t
  slave_pic :: bx_pic_t
  INTR_pin :: bool
  ioapic_present :: bool
  ioapic_calls :: "ioapic_call list"

type_synonym 'a pic = "('a, pic_state) routine"

definition chip :: "bool \<Rightarrow> pic_state \<Rightarrow> bx_pic_t" where
  "chip master s = (if master then master_pic s else slave_pic s)"

definition on_chip :: "bool \<Rightarrow> (bx_pic_t \<Rightarrow> bx_pic_t) \<Rightarrow> pic_state \<Rightarrow> pic_state" where
  "on_chip master f s =
     (if master then s\<lparr>master_pic := f (master_pic s)\<rparr> else s\<lparr>slave_pic := f (slave_pic s)\<rparr>)"

text \<open>\<open>1 << n\<close> and the tests and changes of one bit of a register.\<close>

definition pic_bit :: "nat \<Rightarrow> Bit8u" where
  "pic_bit n = push_bit n 1"

definition pic_init_chip :: "bool \<Rightarrow> bx_pic_t" where
  "pic_init_chip master =
     \<lparr>single_PIC = 0, interrupt_offset = (if master then 0x08 else 0x70),
      slave_connect = (if master then 0x04 else 0x02), sfnm = 0, buffered_mode = 0, master_slave = master,
      auto_eoi = False, imr = 0xFF, isr = 0, irr = 0, read_reg_select = False, irq_no = 0,
      lowest_priority = 7, INT_pin = False, IRQ_line = replicate 8 False, in_init = False,
      requires_4 = False, byte_expected = 0, special_mask = False, polled = False,
      rotate_on_autoeoi = False, edge_level = 0\<rparr>"

definition pic_init :: "pic_state \<Rightarrow> pic_state" where
  "pic_init s = s\<lparr>master_pic := pic_init_chip True, slave_pic := pic_init_chip False\<rparr>"

section \<open>Choosing the request to signal\<close>

definition next_irq :: "nat \<Rightarrow> nat" where
  "next_irq n = (if n + 1 > 7 then 0 else n + 1)"

text \<open>
  The loops of the two service routines, each with a bound of eight rounds: the first level in
  service from \<open>n\<close> on, and the first level from \<open>n\<close> up to \<open>stop\<close> that may
  be signalled.
\<close>

primrec first_in_service :: "nat \<Rightarrow> Bit8u \<Rightarrow> nat \<Rightarrow> nat" where
  "first_in_service 0 w n = n"
| "first_in_service (Suc k) w n =
     (if w AND pic_bit n = 0 then first_in_service k w (next_irq n) else n)"

primrec scan_requests :: "nat \<Rightarrow> nat \<Rightarrow> (nat \<Rightarrow> bool) \<Rightarrow> nat \<Rightarrow> nat option" where
  "scan_requests 0 stop ok n = None"
| "scan_requests (Suc k) stop ok n =
     (if ok n then Some n
      else if next_irq n = stop then None
      else scan_requests k stop ok (next_irq n))"

definition irq_to_signal :: "bx_pic_t \<Rightarrow> nat option" where
  "irq_to_signal p =
     (let highest_priority = next_irq (lowest_priority p);
          max_irq = (if special_mask p then highest_priority
                     else if isr p \<noteq> 0 then first_in_service 8 (isr p) highest_priority
                     else highest_priority);
          unmasked_requests = irr p AND NOT (imr p);
          ok = (\<lambda>n. \<not> (special_mask p \<and> isr p AND pic_bit n \<noteq> 0) \<and> unmasked_requests AND pic_bit n \<noteq> 0) in
      if INT_pin p then None
      else if \<not> special_mask p \<and> isr p \<noteq> 0 \<and> max_irq = highest_priority then None
      else if unmasked_requests = 0 then None
      else scan_requests 8 max_irq ok highest_priority)"

definition signal :: "nat \<Rightarrow> bx_pic_t \<Rightarrow> bx_pic_t" where
  "signal n p = p\<lparr>INT_pin := True, irq_no := n\<rparr>"

definition service_master_pic :: "pic_state \<Rightarrow> pic_state" where
  "service_master_pic s =
     (case irq_to_signal (master_pic s) of
        None \<Rightarrow> s
      | Some n \<Rightarrow> s\<lparr>master_pic := signal n (master_pic s), INTR_pin := True\<rparr>)"

section \<open>The request lines\<close>

definition line_up :: "nat \<Rightarrow> bx_pic_t \<Rightarrow> bx_pic_t" where
  "line_up n p = p\<lparr>IRQ_line := (IRQ_line p)[n := True], irr := irr p OR pic_bit n\<rparr>"

definition line_down :: "nat \<Rightarrow> bx_pic_t \<Rightarrow> bx_pic_t" where
  "line_down n p = p\<lparr>IRQ_line := (IRQ_line p)[n := False], irr := irr p AND NOT (pic_bit n)\<rparr>"

definition raise_master :: "nat \<Rightarrow> pic_state \<Rightarrow> pic_state" where
  "raise_master n s =
     (let s1 = s\<lparr>ioapic_calls := ioapic_calls s @ [Raise_irq n]\<rparr> in
      if \<not> IRQ_line (master_pic s1) ! n
      then service_master_pic (on_chip True (line_up n) s1) else s1)"

definition service_slave_pic :: "pic_state \<Rightarrow> pic_state" where
  "service_slave_pic s =
     (case irq_to_signal (slave_pic s) of
        None \<Rightarrow> s
      | Some n \<Rightarrow> raise_master 2 (on_chip False (signal n) s))"

definition service_pic :: "bool \<Rightarrow> pic_state \<Rightarrow> pic_state" where
  "service_pic master s = (if master then service_master_pic s else service_slave_pic s)"

definition raise_irq :: "nat \<Rightarrow> pic_state \<Rightarrow> pic_state" where
  "raise_irq n s =
     (if n \<le> 7 then raise_master n s
      else
        (let s1 = s\<lparr>ioapic_calls := ioapic_calls s @ [Raise_irq n]\<rparr> in
         if n \<le> 15 \<and> \<not> IRQ_line (slave_pic s1) ! (n - 8)
         then service_slave_pic (on_chip False (line_up (n - 8)) s1) else s1))"

definition note_lower :: "nat \<Rightarrow> pic_state \<Rightarrow> pic_state" where
  "note_lower n s = (if ioapic_present s then s\<lparr>ioapic_calls := ioapic_calls s @ [Lower_irq n]\<rparr> else s)"

definition lower_master :: "nat \<Rightarrow> pic_state \<Rightarrow> pic_state" where
  "lower_master n s =
     (let s1 = note_lower n s in
      if IRQ_line (master_pic s1) ! n then
        (let s2 = on_chip True (line_down n) s1 in
         if irr (master_pic s2) AND NOT (imr (master_pic s2)) = 0
         then (on_chip True (\<lambda>p. p\<lparr>INT_pin := False\<rparr>) s2)\<lparr>INTR_pin := False\<rparr> else s2)
      else s1)"

definition lower_irq :: "nat \<Rightarrow> pic_state \<Rightarrow> pic_state" where
  "lower_irq n s =
     (if n \<le> 7 then lower_master n s
      else
        (let s1 = note_lower n s in
         if n \<le> 15 \<and> IRQ_line (slave_pic s1) ! (n - 8) then
           (let s2 = on_chip False (line_down (n - 8)) s1 in
            if irr (slave_pic s2) AND NOT (imr (slave_pic s2)) = 0
            then lower_master 2 (on_chip False (\<lambda>p. p\<lparr>INT_pin := False\<rparr>) s2) else s2)
         else s1))"

definition set_mode :: "bool \<Rightarrow> Bit8u \<Rightarrow> pic_state \<Rightarrow> pic_state" where
  "set_mode ma_sl mode = on_chip ma_sl (\<lambda>p. p\<lparr>edge_level := mode\<rparr>)"

section \<open>End of interrupt and acknowledge\<close>

text \<open>One round of the loop of \<open>check_irq_level\<close>: a level-triggered line requests again.\<close>

definition check_line :: "bool \<Rightarrow> nat \<Rightarrow> pic_state \<Rightarrow> pic_state" where
  "check_line master n s =
     (let p = chip master s in
      if IRQ_line p ! n \<and> edge_level p AND pic_bit n \<noteq> 0
      then service_pic (master_slave p) (on_chip master (\<lambda>p. p\<lparr>irr := irr p OR pic_bit n\<rparr>) s) else s)"

definition check_irq_level :: "bool \<Rightarrow> pic_state \<Rightarrow> pic_state" where
  "check_irq_level master s =
     (if edge_level (chip master s) > 0 then fold (check_line master) [0..<8] s else s)"

definition clear_isr :: "nat \<Rightarrow> bx_pic_t \<Rightarrow> bx_pic_t" where
  "clear_isr n p = p\<lparr>isr := isr p AND NOT (pic_bit n)\<rparr>"

text \<open>The do-loop over the levels in the order of their priority.\<close>

primrec clear_first :: "nat \<Rightarrow> nat \<Rightarrow> nat \<Rightarrow> bx_pic_t \<Rightarrow> bx_pic_t" where
  "clear_first 0 stop n p = p"
| "clear_first (Suc k) stop n p =
     (if isr p AND pic_bit n \<noteq> 0 then clear_isr n p
      else if next_irq n = stop then p else clear_first k stop (next_irq n) p)"

definition clear_highest_interrupt :: "bool \<Rightarrow> pic_state \<Rightarrow> pic_state" where
  "clear_highest_interrupt master s =
     (let h = next_irq (lowest_priority (chip master s)) in
      check_irq_level master (on_chip master (clear_first 8 h h) s))"

definition acknowledge :: "bx_pic_t \<Rightarrow> bx_pic_t" where
  "acknowledge p =
     (let p1 = p\<lparr>irr := irr p AND NOT (pic_bit (irq_no p))\<rparr> in
      if \<not> auto_eoi p1 then p1\<lparr>isr := isr p1 OR pic_bit (irq_no p1)\<rparr>
      else if rotate_on_autoeoi p1 then p1\<lparr>lowest_priority := irq_no p1\<rparr>
      else p1)"

definition IAC :: "pic_state \<Rightarrow> Bit8u \<times> pic_state" where
  "IAC s =
     (let s1 = on_chip True (\<lambda>p. acknowledge (p\<lparr>INT_pin := False\<rparr>)) (s\<lparr>INTR_pin := False\<rparr>) in
      if irq_no (master_pic s1) \<noteq> 2 then
        (of_nat (irq_no (master_pic s1)) + interrupt_offset (master_pic s1), service_master_pic s1)
      else
        (let s2 = on_chip False (\<lambda>p. p\<lparr>INT_pin := False\<rparr>)
                    (on_chip True (\<lambda>p. p\<lparr>IRQ_line := (IRQ_line p)[2 := False]\<rparr>) s1);
             v = of_nat (irq_no (slave_pic s2)) + interrupt_offset (slave_pic s2) in
         (v, service_master_pic (service_slave_pic (on_chip False acknowledge s2)))))"

section \<open>The ports\<close>

definition poll_result :: "nat \<Rightarrow> bx_pic_t \<Rightarrow> Bit32u" where
  "poll_result io_len p =
     (if io_len = 1 then of_nat (irq_no p) else push_bit 8 (of_nat (irq_no p)) OR of_nat (irq_no p))"

definition poll :: "bool \<Rightarrow> nat \<Rightarrow> Bit32u pic" where
  "poll master io_len = (\<lambda>s.
     (let s1 = on_chip master (\<lambda>p. p\<lparr>polled := False\<rparr>) (clear_highest_interrupt master s);
          s2 = service_pic master s1 in
      Done (poll_result io_len (chip master s2)) s2))"

definition pic_read :: "Bit32u \<Rightarrow> nat \<Rightarrow> Bit32u pic" where
  "pic_read address io_len = (\<lambda>s.
     (let status = (\<lambda>p. if read_reg_select p then isr p else irr p) in
      if (address = 0x20 \<or> address = 0x21) \<and> polled (master_pic s) then poll True io_len s
      else if (address = 0xa0 \<or> address = 0xa1) \<and> polled (slave_pic s) then poll False io_len s
      else if address = 0x20 then Done (ucast (status (master_pic s))) s
      else if address = 0x21 then Done (ucast (imr (master_pic s))) s
      else if address = 0xA0 then Done (ucast (status (slave_pic s))) s
      else if address = 0xA1 then Done (ucast (imr (slave_pic s))) s
      else panic ''io read to address'' s))"

text \<open>
  Initialization command 1. The panics for single and level-sensitive mode come after the
  registers are cleared; only the master drops the request pin of the processor.
\<close>

definition icw1_chip :: "Bit32u \<Rightarrow> bx_pic_t \<Rightarrow> bx_pic_t" where
  "icw1_chip v p =
     p\<lparr>in_init := True, requires_4 := (v AND 0x01 \<noteq> 0), byte_expected := 2, imr := 0, isr := 0, irr := 0,
       lowest_priority := 7, INT_pin := False, auto_eoi := False, rotate_on_autoeoi := False\<rparr>"

definition icw1 :: "bool \<Rightarrow> Bit32u \<Rightarrow> unit pic" where
  "icw1 master v = (\<lambda>s.
     (let s1 = on_chip master (icw1_chip v) s in
      if v AND 0x02 \<noteq> 0 then panic ''ICW1: single mode not supported'' s1
      else if v AND 0x08 \<noteq> 0 then panic ''ICW1: level sensitive mode not supported'' s1
      else Done () (if master then s1\<lparr>INTR_pin := False\<rparr> else s1)))"

definition ocw3 :: "bool \<Rightarrow> Bit32u \<Rightarrow> pic_state \<Rightarrow> pic_state" where
  "ocw3 master v s =
     (let mode = drop_bit 5 (v AND 0x60); read_op = v AND 0x03;
          f = (\<lambda>p. if read_op = 0x02 then p\<lparr>read_reg_select := False\<rparr>
                   else if read_op = 0x03 then p\<lparr>read_reg_select := True\<rparr> else p) in
      if v AND 0x04 \<noteq> 0 then on_chip master (\<lambda>p. p\<lparr>polled := True\<rparr>) s
      else if mode = 0x02 then on_chip master (\<lambda>p. (f p)\<lparr>special_mask := False\<rparr>) s
      else if mode = 0x03 then service_pic master (on_chip master (\<lambda>p. (f p)\<lparr>special_mask := True\<rparr>) s)
      else on_chip master f s)"

definition rotate_priority :: "bx_pic_t \<Rightarrow> bx_pic_t" where
  "rotate_priority p = p\<lparr>lowest_priority := (if lowest_priority p + 1 > 7 then 0 else lowest_priority p + 1)\<rparr>"

definition specific_eoi :: "bool \<Rightarrow> nat \<Rightarrow> pic_state \<Rightarrow> pic_state" where
  "specific_eoi master n s = on_chip master (clear_isr n) (check_irq_level master s)"

definition ocw2 :: "bool \<Rightarrow> Bit32u \<Rightarrow> unit pic" where
  "ocw2 master v = (\<lambda>s. (let n = unat (v AND 7) in
     if v = 0x00 \<or> v = 0x80 then Done () (on_chip master (\<lambda>p. p\<lparr>rotate_on_autoeoi := (v \<noteq> 0)\<rparr>) s)
     else if v = 0x0A \<or> v = 0x0B then Done () (on_chip master (\<lambda>p. p\<lparr>read_reg_select := (v = 0x0B)\<rparr>) s)
     else if v = 0xA0 \<or> v = 0x20 then
       (let s1 = clear_highest_interrupt master s;
            s2 = (if v = 0xA0 then on_chip master rotate_priority s1 else s1) in
        Done () (service_pic master s2))
     else if v = 0x40 then Done () s
     else if 0x60 \<le> v \<and> v \<le> 0x67 then Done () (service_pic master (specific_eoi master n s))
     else if 0xC0 \<le> v \<and> v \<le> 0xC7 then Done () (on_chip master (\<lambda>p. p\<lparr>lowest_priority := n\<rparr>) s)
     else if 0xE0 \<le> v \<and> v \<le> 0xE7 then
       Done () (service_pic master (on_chip master (\<lambda>p. p\<lparr>lowest_priority := n\<rparr>) (specific_eoi master n s)))
     else panic ''write to port 20h or A0h'' s))"

text \<open>
  The data port: the initialization bytes 2, 3 and 4, otherwise the mask register. A panic about
  byte 4 comes before \<open>in_init\<close> is cleared.
\<close>

definition icw_byte :: "bool \<Rightarrow> Bit32u \<Rightarrow> unit pic" where
  "icw_byte master v = (\<lambda>s. (let p = chip master s in
     if byte_expected p = 2 then
       Done () (on_chip master (\<lambda>p. p\<lparr>interrupt_offset := ucast (v AND 0xf8), byte_expected := 3\<rparr>) s)
     else if byte_expected p = 3 then
       Done () (on_chip master (\<lambda>p. if requires_4 p then p\<lparr>byte_expected := 4\<rparr> else p\<lparr>in_init := False\<rparr>) s)
     else if byte_expected p = 4 then
       (let s1 = on_chip master (\<lambda>p. p\<lparr>auto_eoi := (v AND 0x02 \<noteq> 0)\<rparr>) s in
        if v AND 0x01 \<noteq> 0 then Done () (on_chip master (\<lambda>p. p\<lparr>in_init := False\<rparr>) s1)
        else panic ''not 80x86 mode'' s1)
     else panic ''expecting bad init command'' s))"

definition write_data :: "bool \<Rightarrow> Bit32u \<Rightarrow> unit pic" where
  "write_data master v = (\<lambda>s.
     if in_init (chip master s) then icw_byte master v s
     else Done () (service_pic master (on_chip master (\<lambda>p. p\<lparr>imr := ucast v\<rparr>) s)))"

definition write_command :: "bool \<Rightarrow> Bit32u \<Rightarrow> unit pic" where
  "write_command master v = (\<lambda>s.
     if v AND 0x10 \<noteq> 0 then icw1 master v s
     else if v AND 0x18 = 0x08 then Done () (ocw3 master v s)
     else ocw2 master v s)"

definition pic_write :: "Bit32u \<Rightarrow> Bit32u \<Rightarrow> unit pic" where
  "pic_write address v =
     (if address = 0x20 then write_command True v
      else if address = 0x21 then write_data True v
      else if address = 0xA0 then write_command False v
      else if address = 0xA1 then write_data False v
      else ret ())"

end
