(* ===== verification/BxPicTheorems.thy ===== *)
theory BxPicTheorems
  imports BxPic
begin

text \<open>
  The interrupt controllers: the request that is signalled is the one the priority rules of the
  8259 select, the state stays well formed, and a request, its acknowledge and the end of
  interrupt form a round trip. Levels are compared by their rank in the rotating priority order.
\<close>

section \<open>The priority order\<close>

lemma pic_bit_iff: "w AND pic_bit n \<noteq> 0 \<longleftrightarrow> bit w n" "w AND pic_bit n = 0 \<longleftrightarrow> \<not> bit w n"
proof -
  show "w AND pic_bit n \<noteq> 0 \<longleftrightarrow> bit w n"
    using and_exp_eq_0_iff_not_bit [of w n] by (simp add: pic_bit_def push_bit_of_1)
  then show "w AND pic_bit n = 0 \<longleftrightarrow> \<not> bit w n" by blast
qed

lemma word8_eq_0_iff: "w = 0 \<longleftrightarrow> (\<forall>n<8. \<not> bit (w :: Bit8u) n)"
  by (auto simp: bit_eq_iff dest: bit_imp_le_length)

text \<open>The level at rank \<open>r\<close> when \<open>h\<close> is the highest, and the rank of a level.\<close>

definition level_at :: "nat \<Rightarrow> nat \<Rightarrow> nat" where
  "level_at h r = (h + r) mod 8"

definition rank :: "bx_pic_t \<Rightarrow> nat \<Rightarrow> nat" where
  "rank p n = (n + 7 - lowest_priority p) mod 8"

lemma below_8: "n < (8::nat) \<Longrightarrow> n = 0 \<or> n = 1 \<or> n = 2 \<or> n = 3 \<or> n = 4 \<or> n = 5 \<or> n = 6 \<or> n = 7"
  by linarith

lemma next_irq_mod: "n < 8 \<Longrightarrow> next_irq n = Suc n mod 8"
  by (auto simp: next_irq_def dest!: below_8)

lemma next_level: "next_irq (level_at h r) = level_at h (Suc r)"
  by (simp add: level_at_def next_irq_mod mod_Suc_eq)

lemma level_at_inj:
  assumes "h < 8" "0 < a" "a \<le> 8" "0 < b" "b \<le> 8"
  shows "level_at h a = level_at h b \<longleftrightarrow> a = b"
proof -
  have "a \<in> {1, 2, 3, 4, 5, 6, 7, 8}" "b \<in> {1, 2, 3, 4, 5, 6, 7, 8}" using assms by auto
  then show ?thesis
    unfolding level_at_def using below_8 [OF assms(1)] by (elim disjE insertE emptyE) simp_all
qed

lemma level_rank:
  assumes "lowest_priority p < 8" "n < 8"
  shows "level_at (next_irq (lowest_priority p)) (rank p n) = n"
  using below_8 [OF assms(1)] below_8 [OF assms(2)]
  by (elim disjE) (simp_all add: level_at_def rank_def next_irq_def)

lemma rank_level:
  assumes "lowest_priority p < 8" "r < 8"
  shows "rank p (level_at (next_irq (lowest_priority p)) r) = r"
  using below_8 [OF assms(1)] below_8 [OF assms(2)]
  by (elim disjE) (simp_all add: level_at_def rank_def next_irq_def)

section \<open>The loops\<close>

lemma scan_requests_find:
  assumes "h < 8" "r < q" "q \<le> 8" "q \<le> r + k"
  shows "scan_requests k (level_at h q) ok (level_at h r) = find ok (map (level_at h) [r..<q])"
  using assms(2-)
proof (induction k arbitrary: r)
  case (Suc k)
  have up: "[r..<q] = r # [Suc r..<q]" using Suc.prems by (simp add: upt_conv_Cons)
  have "level_at h (Suc r) = level_at h q \<longleftrightarrow> Suc r = q"
    using Suc.prems assms(1) by (intro level_at_inj) auto
  with Suc assms(1) show ?case by (auto simp: up next_level)
qed auto

lemma first_in_service_level:
  assumes "h < 8" "r \<le> q" "q < r + k" "bit w (level_at h q)" "\<forall>j\<in>{r..<q}. \<not> bit w (level_at h j)"
  shows "first_in_service k w (level_at h r) = level_at h q"
  using assms(2-)
proof (induction k arbitrary: r)
  case (Suc k)
  show ?case
  proof (cases "r = q")
    case False
    with Suc.prems have "first_in_service k w (level_at h (Suc r)) = level_at h q"
      by (intro Suc.IH) auto
    with False Suc.prems assms(1) show ?thesis by (simp add: pic_bit_iff next_level)
  qed (use Suc.prems in \<open>simp add: pic_bit_iff\<close>)
qed auto

section \<open>The rules of the 8259\<close>

text \<open>
  A level may interrupt if it is requested and not masked and, in special mask mode, is not
  itself in service; otherwise every level in service must be of lower priority.
\<close>

definition eligible :: "bx_pic_t \<Rightarrow> nat \<Rightarrow> bool" where
  "eligible p n \<longleftrightarrow> n < 8 \<and> bit (irr p) n \<and> \<not> bit (imr p) n \<and>
     (if special_mask p then \<not> bit (isr p) n else \<forall>m<8. bit (isr p) m \<longrightarrow> rank p n < rank p m)"

definition best :: "bx_pic_t \<Rightarrow> nat option \<Rightarrow> bool" where
  "best p r = (case r of
     None \<Rightarrow> \<forall>n. \<not> eligible p n
   | Some n \<Rightarrow> eligible p n \<and> (\<forall>m. eligible p m \<longrightarrow> rank p n \<le> rank p m))"

lemma find_best:
  assumes lp: "lowest_priority p < 8" and h: "h = next_irq (lowest_priority p)" and q: "q \<le> 8"
    and ok: "\<And>r. r < q \<Longrightarrow> ok (level_at h r) \<longleftrightarrow> eligible p (level_at h r)"
    and out: "\<And>r. q \<le> r \<Longrightarrow> r < 8 \<Longrightarrow> \<not> eligible p (level_at h r)"
  shows "best p (find ok (map (level_at h) [0..<q]))"
proof -
  have lv: "eligible p n \<Longrightarrow> \<exists>r<q. n = level_at h r" for n
  proof -
    assume e: "eligible p n"
    then have "n < 8" by (simp add: eligible_def)
    then have n: "n = level_at h (rank p n)" using lp by (simp add: h level_rank)
    have "rank p n < 8" by (simp add: rank_def)
    with e out [of "rank p n"] n have "rank p n < q" by (metis not_le)
    with n show ?thesis by blast
  qed
  show ?thesis
  proof (cases "find ok (map (level_at h) [0..<q])")
    case None
    then have "\<forall>r<q. \<not> ok (level_at h r)" by (auto simp: find_None_iff)
    with None lv ok show ?thesis by (auto simp: best_def)
  next
    case (Some n)
    then obtain r where r: "r < q" "n = level_at h r" "ok n" "\<forall>j<r. \<not> ok (level_at h j)"
      by (auto simp: find_Some_iff)
    have "rank p n \<le> rank p m" if e: "eligible p m" for m
    proof -
      obtain j where j: "j < q" "m = level_at h j" using lv [OF e] by blast
      with e ok r(4) have "r \<le> j" by (metis not_le)
      with r(1,2) j q lp show ?thesis by (simp add: h rank_level)
    qed
    with Some r ok show ?thesis by (auto simp: best_def)
  qed
qed

lemma no_isr_eligible:
  assumes "special_mask p \<or> isr p = 0" "n < 8"
  shows "eligible p n \<longleftrightarrow> \<not> (special_mask p \<and> isr p AND pic_bit n \<noteq> 0) \<and>
    (irr p AND NOT (imr p)) AND pic_bit n \<noteq> 0"
  using assms by (auto simp: eligible_def pic_bit_iff bit_and_iff bit_not_iff)

lemma irq_to_signal_best:
  assumes lp: "lowest_priority p < 8" and idle: "\<not> INT_pin p"
  shows "best p (irq_to_signal p)"
proof -
  let ?h = "next_irq (lowest_priority p)"
  let ?ok = "\<lambda>n. \<not> (special_mask p \<and> isr p AND pic_bit n \<noteq> 0) \<and> (irr p AND NOT (imr p)) AND pic_bit n \<noteq> 0"
  have h: "?h < 8" by (simp add: next_irq_def)
  have h0: "level_at ?h 0 = ?h" "level_at ?h 8 = ?h" using h by (simp_all add: level_at_def)
  have lt: "level_at ?h r < 8" for r by (simp add: level_at_def)
  have none: "best p None" if "irr p AND NOT (imr p) = 0"
    using that by (auto simp: best_def eligible_def word8_eq_0_iff bit_and_iff bit_not_iff)
  show ?thesis
  proof (cases "special_mask p \<or> isr p = 0")
    case True
    have s: "scan_requests 8 ?h ?ok ?h = find ?ok (map (level_at ?h) [0..<8])"
      using scan_requests_find [of ?h 0 8 8 ?ok] h by (simp add: h0)
    have "best p (find ?ok (map (level_at ?h) [0..<8]))"
      by (rule find_best [OF lp refl]) (use no_isr_eligible [OF True lt] in auto)
    with True idle none s show ?thesis
      by (auto simp: irq_to_signal_def Let_def)
  next
    case False
    then obtain m where m: "m < 8" "bit (isr p) m" by (auto simp: word8_eq_0_iff)
    define q where "q = (LEAST r. bit (isr p) (level_at ?h r))"
    have mr: "bit (isr p) (level_at ?h (rank p m))" using m lp by (simp add: level_rank)
    then have q: "bit (isr p) (level_at ?h q)" unfolding q_def by (rule LeastI)
    have less: "\<And>r. r < q \<Longrightarrow> \<not> bit (isr p) (level_at ?h r)"
      unfolding q_def by (rule not_less_Least)
    have "q \<le> rank p m" unfolding q_def using mr by (rule Least_le)
    moreover have "rank p m < 8" by (simp add: rank_def)
    ultimately have q8: "q < 8" by simp
    have max: "first_in_service 8 (isr p) ?h = level_at ?h q"
      using first_in_service_level [of ?h 0 q 8 "isr p"] h q q8 less by (simp add: h0)
    have el: "eligible p (level_at ?h r) \<longleftrightarrow> r < q \<and> ?ok (level_at ?h r)" if "r < 8" for r
    proof -
      have "(\<forall>m<8. bit (isr p) m \<longrightarrow> rank p (level_at ?h r) < rank p m) \<longleftrightarrow> r < q"
      proof
        assume "\<forall>m<8. bit (isr p) m \<longrightarrow> rank p (level_at ?h r) < rank p m"
        then have "rank p (level_at ?h r) < rank p (level_at ?h q)" using q lt by blast
        then show "r < q" using that q8 lp by (simp add: rank_level)
      next
        assume "r < q"
        show "\<forall>m<8. bit (isr p) m \<longrightarrow> rank p (level_at ?h r) < rank p m"
        proof (intro allI impI)
          fix m assume "m < 8" "bit (isr p) m"
          then have "\<not> rank p m < q" using less lp by (metis level_rank)
          then show "rank p (level_at ?h r) < rank p m" using \<open>r < q\<close> that lp by (simp add: rank_level)
        qed
      qed
      with False lt show ?thesis by (auto simp: eligible_def pic_bit_iff bit_and_iff bit_not_iff)
    qed
    show ?thesis
    proof (cases "q = 0")
      case True
      then have "best p None"
        using el lp by (auto simp: best_def) (metis eligible_def level_rank rank_def mod_less_divisor zero_less_numeral not_less0)
      with True False idle max show ?thesis by (simp add: irq_to_signal_def Let_def h0)
    next
      case q0: False
      have s: "scan_requests 8 (level_at ?h q) ?ok ?h = find ?ok (map (level_at ?h) [0..<q])"
        using scan_requests_find [of ?h 0 q 8 ?ok] h q0 q8 by (simp add: h0)
      have "level_at ?h q \<noteq> ?h"
        using level_at_inj [OF h, of q 8] q0 q8 by (simp add: h0)
      moreover have "best p (find ?ok (map (level_at ?h) [0..<q]))"
        by (rule find_best [OF lp refl]) (use q8 el in auto)
      ultimately show ?thesis
        using False idle none max s by (auto simp: irq_to_signal_def Let_def)
    qed
  qed
qed

text \<open>C35
  The controller signals exactly the request the rules of the 8259 select. While no interrupt
  waits for its acknowledge, the search finds the eligible level of the highest priority in the
  rotating order, in normal and in special mask mode, and nothing if no level is eligible; while
  one waits it selects nothing.\<close>

theorem signals_the_best_request:
  assumes "lowest_priority p < 8"
  shows "case irq_to_signal p of
      None \<Rightarrow> INT_pin p \<or> (\<forall>n. \<not> eligible p n)
    | Some n \<Rightarrow> \<not> INT_pin p \<and> eligible p n \<and> (\<forall>m. eligible p m \<longrightarrow> rank p n \<le> rank p m)"
proof (cases "INT_pin p")
  case True
  then show ?thesis by (simp add: irq_to_signal_def Let_def)
next
  case False
  with irq_to_signal_best [OF assms] show ?thesis
    by (simp add: best_def split: option.splits)
qed

section \<open>One interrupt from request to end\<close>

lemma bit_pic_bit: "n < 8 \<Longrightarrow> bit (pic_bit n) m \<longleftrightarrow> m = n"
  by (auto simp: pic_bit_def bit_simps dest: bit_imp_le_length)

lemma no_request: "irr p AND NOT (imr p) = 0 \<Longrightarrow> irq_to_signal p = None"
  by (simp add: irq_to_signal_def Let_def)

lemma single_request:
  assumes "lowest_priority p < 8" "\<not> INT_pin p" "irr p = pic_bit n" "isr p = 0" "n < 8" "\<not> bit (imr p) n"
  shows "irq_to_signal p = Some n"
proof -
  have e: "eligible p m \<longleftrightarrow> m = n" for m
    using assms by (auto simp: eligible_def bit_pic_bit)
  from irq_to_signal_best [OF assms(1,2)] show ?thesis
    by (auto simp: best_def e split: option.splits)
qed

lemma clear_single:
  assumes "h < 8" "n < 8" "isr p = pic_bit n"
  shows "clear_first 8 h h p = p\<lparr>isr := 0\<rparr>"
proof -
  have "clear_isr n p = p\<lparr>isr := 0\<rparr>" using assms(3) by (simp add: clear_isr_def)
  moreover have "isr p AND pic_bit m \<noteq> 0 \<longleftrightarrow> m = n" for m
    using assms by (simp add: pic_bit_iff bit_pic_bit)
  ultimately show ?thesis
    using below_8 [OF assms(1)] below_8 [OF assms(2)]
    by (elim disjE) (simp_all add: numeral_nat next_irq_def)
qed

text \<open>A controller at rest: nothing requested or in service, fully nested mode, edge triggered.\<close>

definition at_rest :: "bx_pic_t \<Rightarrow> bool" where
  "at_rest p \<longleftrightarrow> lowest_priority p < 8 \<and> irr p = 0 \<and> isr p = 0 \<and> \<not> INT_pin p \<and> \<not> special_mask p \<and>
     \<not> auto_eoi p \<and> edge_level p = 0 \<and> IRQ_line p = replicate 8 False"

definition unmasked :: "pic_state \<Rightarrow> nat \<Rightarrow> bool" where
  "unmasked s n \<longleftrightarrow>
     (if n < 8 then n \<noteq> 2 \<and> \<not> bit (imr (master_pic s)) n
      else n < 16 \<and> \<not> bit (imr (slave_pic s)) (n - 8) \<and> \<not> bit (imr (master_pic s)) 2)"

definition eoi :: "nat \<Rightarrow> unit pic" where
  "eoi n = (if n < 8 then pic_write 0x20 0x20 else and_then (pic_write 0xA0 0x20) (\<lambda>_. pic_write 0x20 0x20))"

definition vector_of :: "pic_state \<Rightarrow> nat \<Rightarrow> Bit8u" where
  "vector_of s n =
     (if n < 8 then interrupt_offset (master_pic s) + of_nat n else interrupt_offset (slave_pic s) + of_nat (n - 8))"

lemma at_restD:
  assumes "at_rest p"
  shows "lowest_priority p < 8" "irr p = 0" "isr p = 0" "\<not> INT_pin p" "\<not> special_mask p" "\<not> auto_eoi p"
    "edge_level p = 0" "IRQ_line p = replicate 8 False"
  using assms by (simp_all add: at_rest_def)

lemma line_up_rest:
  assumes "at_rest p" "n < 8" "\<not> bit (imr p) n"
  shows "\<not> IRQ_line p ! n" "irq_to_signal (line_up n p) = Some n"
proof -
  show "\<not> IRQ_line p ! n" using assms by (simp add: at_rest_def)
  show "irq_to_signal (line_up n p) = Some n"
    using at_restD [OF assms(1)] assms(2,3) by (intro single_request) (simp_all add: line_up_def)
qed

text \<open>A chip after request and acknowledge of level \<open>n\<close>, and after the line is low again.\<close>

definition in_service :: "nat \<Rightarrow> bx_pic_t \<Rightarrow> bx_pic_t" where
  "in_service n p = p\<lparr>isr := pic_bit n, irq_no := n\<rparr>"

lemma acknowledge_rest:
  assumes "at_rest p" "n < 8"
  shows "acknowledge ((signal n (line_up n p))\<lparr>INT_pin := False\<rparr>) = (in_service n p)\<lparr>IRQ_line := (replicate 8 False)[n := True]\<rparr>"
    "line_down n ((in_service n p)\<lparr>IRQ_line := (replicate 8 False)[n := True]\<rparr>) = in_service n p"
    "irq_to_signal ((in_service n p)\<lparr>IRQ_line := l\<rparr>) = None" "irq_to_signal (in_service n p) = None"
    "clear_first 8 h h (in_service n p) = p\<lparr>irq_no := n\<rparr> \<or> 8 \<le> h"
proof -
  note r = at_restD [OF assms(1)]
  have upd: "(replicate 8 False)[n := True, n := False] = replicate 8 False"
    by (metis list_update_id list_update_overwrite nth_replicate assms(2))
  show "acknowledge ((signal n (line_up n p))\<lparr>INT_pin := False\<rparr>) = (in_service n p)\<lparr>IRQ_line := (replicate 8 False)[n := True]\<rparr>"
    using r by (simp add: acknowledge_def signal_def line_up_def in_service_def Let_def)
  show "line_down n ((in_service n p)\<lparr>IRQ_line := (replicate 8 False)[n := True]\<rparr>) = in_service n p"
    using r upd by (simp add: line_down_def in_service_def)
  show "irq_to_signal ((in_service n p)\<lparr>IRQ_line := l\<rparr>) = None" "irq_to_signal (in_service n p) = None"
    using r by (auto intro!: no_request simp: in_service_def)
  show "clear_first 8 h h (in_service n p) = p\<lparr>irq_no := n\<rparr> \<or> 8 \<le> h"
    using clear_single [of h n "in_service n p"] r assms(2) by (auto simp: in_service_def not_le)
qed

text \<open>The steps of a cycle: request, acknowledge, the device withdraws its line, end of interrupt.\<close>

definition interrupt_cycle :: "nat \<Rightarrow> pic_state \<Rightarrow> (unit, pic_state) outcome" where
  "interrupt_cycle n s = eoi n (lower_irq n (snd (IAC (raise_irq n s))))"

definition restored :: "nat \<Rightarrow> pic_state \<Rightarrow> pic_state \<Rightarrow> bool" where
  "restored n s t \<longleftrightarrow>
     master_pic t = (master_pic s)\<lparr>irq_no := (if n < 8 then n else 2)\<rparr> \<and>
     slave_pic t = (if n < 8 then slave_pic s else (slave_pic s)\<lparr>irq_no := n - 8\<rparr>) \<and> \<not> INTR_pin t"

lemma eoi_command:
  assumes "edge_level (chip m s) = 0" "c = clear_first 8 (next_irq (lowest_priority (chip m s)))
      (next_irq (lowest_priority (chip m s))) (chip m s)" "irq_to_signal c = None" "edge_level c = 0"
  shows "write_command m 0x20 s = Done () (on_chip m (\<lambda>_. c) s)"
  using assms
  by (cases m) (auto simp: write_command_def ocw2_def clear_highest_interrupt_def check_irq_level_def chip_def
      on_chip_def service_pic_def service_master_pic_def service_slave_pic_def Let_def)

lemma raised_master:
  assumes "at_rest (master_pic s)" "n < 8" "\<not> bit (imr (master_pic s)) n"
  shows "raise_master n s = s\<lparr>master_pic := signal n (line_up n (master_pic s)), INTR_pin := True,
    ioapic_calls := ioapic_calls s @ [Raise_irq n]\<rparr>"
  using line_up_rest [OF assms] by (simp add: raise_master_def service_master_pic_def on_chip_def Let_def)

text \<open>The master after the acknowledge of its level \<open>n\<close>, the device still holding line \<open>n\<close>.\<close>

definition served :: "nat \<Rightarrow> bx_pic_t \<Rightarrow> bx_pic_t" where
  "served n p = (in_service n p)\<lparr>IRQ_line := (replicate 8 False)[n := True]\<rparr>"

lemma cycle_master:
  assumes m: "at_rest (master_pic s)" and n: "n < 8" "n \<noteq> 2" "\<not> bit (imr (master_pic s)) n"
  shows "IAC (raise_irq n s) = (of_nat n + interrupt_offset (master_pic s),
      s\<lparr>master_pic := served n (master_pic s), INTR_pin := False, ioapic_calls := ioapic_calls s @ [Raise_irq n]\<rparr>)"
    and "\<exists>t. interrupt_cycle n s = Done () t \<and> restored n s t"
proof -
  let ?s2 = "s\<lparr>master_pic := served n (master_pic s), INTR_pin := False, ioapic_calls := ioapic_calls s @ [Raise_irq n]\<rparr>"
  have irq: "irq_no (in_service n p) = n" "interrupt_offset (in_service n p) = interrupt_offset p" for p
    by (simp_all add: in_service_def)
  show ack: "IAC (raise_irq n s) = (of_nat n + interrupt_offset (master_pic s), ?s2)"
    using n raised_master [OF m n(1,3)] acknowledge_rest(1,3) [OF m n(1)]
    by (simp add: raise_irq_def IAC_def on_chip_def service_master_pic_def served_def Let_def irq)
  let ?p = "in_service n (master_pic s)"
  have low: "\<exists>u. lower_irq n ?s2 = u \<and> master_pic u = ?p \<and> slave_pic u = slave_pic s \<and> \<not> INTR_pin u"
    using n at_restD [OF m] acknowledge_rest(2) [OF m n(1)]
    by (auto simp: lower_irq_def lower_master_def note_lower_def on_chip_def Let_def served_def in_service_def)
  then obtain u where u: "lower_irq n ?s2 = u" "master_pic u = ?p" "slave_pic u = slave_pic s" "\<not> INTR_pin u"
    by blast
  have c: "clear_first 8 h h ?p = (master_pic s)\<lparr>irq_no := n\<rparr>" if "h < 8" for h
    using acknowledge_rest(5) [OF m n(1), of h] that by simp
  have "irq_to_signal ((master_pic s)\<lparr>irq_no := n\<rparr>) = None"
    using at_restD [OF m] by (intro no_request) simp
  moreover have "next_irq k < 8" for k by (simp add: next_irq_def)
  moreover have "edge_level ?p = 0" using at_restD [OF m] by (simp add: in_service_def)
  ultimately have "write_command True 0x20 u = Done () (on_chip True (\<lambda>_. (master_pic s)\<lparr>irq_no := n\<rparr>) u)"
    using u(2) at_restD [OF m] by (intro eoi_command) (simp_all add: chip_def c)
  then show "\<exists>t. interrupt_cycle n s = Done () t \<and> restored n s t"
    using n(1) u ack by (simp add: interrupt_cycle_def eoi_def pic_write_def restored_def on_chip_def)
qed

text \<open>Levels 8 to 15: both chips take part, the master with its line 2.\<close>

lemma raised_slave:
  assumes "at_rest (master_pic s)" "at_rest (slave_pic s)" "8 \<le> n" "n < 16"
    "\<not> bit (imr (slave_pic s)) (n - 8)" "\<not> bit (imr (master_pic s)) 2"
  shows "raise_irq n s = s\<lparr>master_pic := signal 2 (line_up 2 (master_pic s)),
    slave_pic := signal (n - 8) (line_up (n - 8) (slave_pic s)), INTR_pin := True,
    ioapic_calls := ioapic_calls s @ [Raise_irq n, Raise_irq 2]\<rparr>"
proof -
  have "n - 8 < 8" using assms by simp
  from line_up_rest [OF assms(2) this assms(5)] show ?thesis
    using assms(1,3,4,6) by (simp add: raise_irq_def service_slave_pic_def on_chip_def raised_master Let_def)
qed

lemma cycle_slave:
  assumes m: "at_rest (master_pic s)" and sl: "at_rest (slave_pic s)" and n: "8 \<le> n" "n < 16"
    "\<not> bit (imr (slave_pic s)) (n - 8)" "\<not> bit (imr (master_pic s)) 2"
  shows "IAC (raise_irq n s) = (of_nat (n - 8) + interrupt_offset (slave_pic s),
      s\<lparr>master_pic := in_service 2 (master_pic s), slave_pic := served (n - 8) (slave_pic s), INTR_pin := False,
        ioapic_calls := ioapic_calls s @ [Raise_irq n, Raise_irq 2]\<rparr>)"
    and "\<exists>t. interrupt_cycle n s = Done () t \<and> restored n s t"
proof -
  let ?k = "n - 8"
  let ?m = "in_service 2 (master_pic s)" and ?sl = "in_service ?k (slave_pic s)"
  let ?s2 = "s\<lparr>master_pic := ?m, slave_pic := served ?k (slave_pic s), INTR_pin := False,
        ioapic_calls := ioapic_calls s @ [Raise_irq n, Raise_irq 2]\<rparr>"
  have k: "?k < 8" "8 + ?k = n" using n by auto
  have irq: "irq_no (in_service j p) = j" "interrupt_offset (in_service j p) = interrupt_offset p" for p j
    by (simp_all add: in_service_def)
  have up2: "(replicate 8 False)[2 := False] = replicate 8 False"
    by (simp add: numeral_nat)
  have m2: "(in_service 2 (master_pic s))\<lparr>IRQ_line := replicate 8 False\<rparr> = ?m"
    using at_restD(8) [OF m] by (simp add: in_service_def)
  show ack: "IAC (raise_irq n s) = (of_nat ?k + interrupt_offset (slave_pic s), ?s2)"
    using raised_slave [OF assms] acknowledge_rest(1,3,4) [OF m, of 2] acknowledge_rest(1,3,4) [OF sl k(1)]
    by (simp add: IAC_def on_chip_def service_master_pic_def service_slave_pic_def served_def Let_def irq up2 m2)
      (simp add: signal_def line_up_def up2 m2)
  have low: "\<exists>u. lower_irq n ?s2 = u \<and> master_pic u = ?m \<and> slave_pic u = ?sl \<and> \<not> INTR_pin u"
    using n k at_restD [OF sl] at_restD [OF m] acknowledge_rest(2) [OF sl k(1)]
    by (auto simp: lower_irq_def lower_master_def note_lower_def on_chip_def Let_def served_def in_service_def)
  then obtain u where u: "lower_irq n ?s2 = u" "master_pic u = ?m" "slave_pic u = ?sl" "\<not> INTR_pin u" by blast
  have c: "clear_first 8 h h ?m = (master_pic s)\<lparr>irq_no := 2\<rparr>" "clear_first 8 h h ?sl = (slave_pic s)\<lparr>irq_no := ?k\<rparr>"
    if "h < 8" for h
    using acknowledge_rest(5) [OF m, of 2 h] acknowledge_rest(5) [OF sl k(1), of h] that by simp_all
  have quiet: "irq_to_signal (p\<lparr>irq_no := j\<rparr>) = None" if "at_rest p" for p j
    using at_restD [OF that] by (intro no_request) simp
  have e: "next_irq j < 8" "edge_level ?m = 0" "edge_level ?sl = 0" for j
    using at_restD [OF m] at_restD [OF sl] by (simp_all add: next_irq_def in_service_def)
  let ?v = "on_chip False (\<lambda>_. (slave_pic s)\<lparr>irq_no := ?k\<rparr>) u"
  have "write_command False 0x20 u = Done () ?v"
    using u e quiet [OF sl] at_restD [OF sl] by (intro eoi_command) (simp_all add: chip_def c)
  moreover have "write_command True 0x20 ?v = Done () (on_chip True (\<lambda>_. (master_pic s)\<lparr>irq_no := 2\<rparr>) ?v)"
    using u e quiet [OF m] at_restD [OF m] by (intro eoi_command) (simp_all add: chip_def on_chip_def c)
  ultimately show "\<exists>t. interrupt_cycle n s = Done () t \<and> restored n s t"
    using n(1) u ack by (simp add: interrupt_cycle_def eoi_def pic_write_def restored_def on_chip_def)
qed

text \<open>C36
  An interrupt is delivered once and leaves no trace. When both controllers are at rest and line
  \<open>n\<close> (any but the cascade line) is unmasked, raising it asserts the request pin; the
  acknowledge returns the programmed base plus the level, of the slave for lines 8 to 15; and after
  the device has lowered its line, the end-of-interrupt commands bring both chips back to the state
  before, up to the number of the last interrupt, with the request pin low.\<close>

theorem interrupt_cycle_roundtrip:
  assumes "at_rest (master_pic s)" "at_rest (slave_pic s)" "unmasked s n"
  shows "INTR_pin (raise_irq n s) \<and> fst (IAC (raise_irq n s)) = vector_of s n \<and>
    (\<exists>t. interrupt_cycle n s = Done () t \<and> restored n s t)"
proof (cases "n < 8")
  case True
  with assms(3) have n: "n < 8" "n \<noteq> 2" "\<not> bit (imr (master_pic s)) n" by (simp_all add: unmasked_def)
  have "INTR_pin (raise_irq n s)" using raised_master [OF assms(1) n(1,3)] n by (simp add: raise_irq_def)
  then show ?thesis using cycle_master [OF assms(1) n] n by (simp add: vector_of_def add.commute)
next
  case False
  with assms(3) have n: "8 \<le> n" "n < 16" "\<not> bit (imr (slave_pic s)) (n - 8)" "\<not> bit (imr (master_pic s)) 2"
    by (simp_all add: unmasked_def)
  show ?thesis
    using raised_slave [OF assms(1,2) n] cycle_slave [OF assms(1,2) n] n by (simp add: vector_of_def add.commute)
qed

lemma interrupt_cycle_witness:
  fixes s
  defines "s \<equiv> \<lparr>master_pic = (pic_init_chip True)\<lparr>imr := 0\<rparr>, slave_pic = (pic_init_chip False)\<lparr>imr := 0\<rparr>,
    INTR_pin = False, ioapic_present = False, ioapic_calls = []\<rparr>"
  shows "fst (IAC (raise_irq 0 s)) = 8 \<and> fst (IAC (raise_irq 14 s)) = 0x76"
proof -
  have r: "at_rest (master_pic s)" "at_rest (slave_pic s)" "unmasked s 0" "unmasked s 14"
    by (simp_all add: s_def at_rest_def pic_init_chip_def unmasked_def)
  show ?thesis
    using interrupt_cycle_roundtrip [OF r(1,2,3)] interrupt_cycle_roundtrip [OF r(1,2,4)]
    by (simp add: vector_of_def s_def pic_init_chip_def)
qed

lemma signals_the_best_witness:
  "irq_to_signal ((pic_init_chip True)\<lparr>imr := 0, irr := 0x28\<rparr>) = Some 3"
proof -
  let ?p = "(pic_init_chip True)\<lparr>imr := 0, irr := 0x28\<rparr>"
  have e: "eligible ?p m \<longleftrightarrow> m = 3 \<or> m = 5" for m
  proof -
    have "bit (0x28 :: Bit8u) m \<longleftrightarrow> m = 3 \<or> m = 5" if "m < 8"
      using below_8 [OF that] by (elim disjE) simp_all
    then show ?thesis by (auto simp: eligible_def pic_init_chip_def)
  qed
  have "lowest_priority ?p < 8" by (simp add: pic_init_chip_def)
  from signals_the_best_request [OF this] show ?thesis
    by (simp add: e split: option.splits) (auto simp: pic_init_chip_def rank_def)
qed

section \<open>Reachable states\<close>

definition chip_ok :: "bx_pic_t \<Rightarrow> bool" where
  "chip_ok p \<longleftrightarrow> lowest_priority p < 8 \<and> irq_no p < 8 \<and> length (IRQ_line p) = 8 \<and>
     (in_init p \<longrightarrow> byte_expected p \<in> {2, 3, 4})"

definition pic_ok :: "pic_state \<Rightarrow> bool" where
  "pic_ok s \<longleftrightarrow> chip_ok (master_pic s) \<and> chip_ok (slave_pic s) \<and> master_slave (master_pic s) \<and>
     \<not> master_slave (slave_pic s) \<and> (INTR_pin s \<longleftrightarrow> INT_pin (master_pic s))"

text \<open>What devices, processor and programs do with the controllers.\<close>

inductive pic_op :: "pic_state \<Rightarrow> pic_state \<Rightarrow> bool" where
  "n < 16 \<Longrightarrow> pic_op s (raise_irq n s)"
| "n < 16 \<Longrightarrow> pic_op s (lower_irq n s)"
| "pic_op s (snd (IAC s))"
| "pic_op s (set_mode m w s)"
| "pic_read a k s = Done v t \<Longrightarrow> pic_op s t"
| "pic_write a v s = Done () t \<Longrightarrow> pic_op s t"

lemma irq_to_signal_less: "chip_ok p \<Longrightarrow> irq_to_signal p = Some n \<Longrightarrow> n < 8"
  using irq_to_signal_best [of p] by (cases "INT_pin p") (auto simp: best_def eligible_def chip_ok_def irq_to_signal_def Let_def)

lemma signalled_master_ok: "n < 8 \<Longrightarrow> pic_ok s \<Longrightarrow> pic_ok (s\<lparr>master_pic := signal n (master_pic s), INTR_pin := True\<rparr>)"
  by (simp add: pic_ok_def signal_def chip_ok_def)

lemma service_master_ok: "pic_ok s \<Longrightarrow> pic_ok (service_master_pic s)"
  using irq_to_signal_less [of "master_pic s"]
  by (cases "irq_to_signal (master_pic s)")
    (simp_all add: service_master_pic_def signalled_master_ok pic_ok_def [of s])

text \<open>An update of one chip that leaves its request pin and its place in the cascade alone.\<close>

definition keeps_chip :: "(bx_pic_t \<Rightarrow> bx_pic_t) \<Rightarrow> bool" where
  "keeps_chip f \<longleftrightarrow> (\<forall>p. chip_ok p \<longrightarrow> chip_ok (f p)) \<and>
     (\<forall>p. INT_pin (f p) = INT_pin p \<and> master_slave (f p) = master_slave p)"

lemma on_chip_ok: "keeps_chip f \<Longrightarrow> pic_ok s \<Longrightarrow> pic_ok (on_chip m f s)"
  by (simp add: keeps_chip_def pic_ok_def on_chip_def)

lemma on_slave_ok:
  "(\<And>p. chip_ok p \<Longrightarrow> chip_ok (f p)) \<Longrightarrow> (\<And>p. master_slave (f p) = master_slave p) \<Longrightarrow>
   pic_ok s \<Longrightarrow> pic_ok (on_chip False f s)"
  by (simp add: pic_ok_def on_chip_def)

lemma pic_ok_log [simp]: "pic_ok (s\<lparr>ioapic_calls := l\<rparr>) = pic_ok s"
  by (simp add: pic_ok_def)

lemma line_keeps: "n < 8 \<Longrightarrow> keeps_chip (line_up n)" "n < 8 \<Longrightarrow> keeps_chip (line_down n)"
  by (simp_all add: keeps_chip_def line_up_def line_down_def chip_ok_def)

lemma raise_master_ok: "n < 8 \<Longrightarrow> pic_ok s \<Longrightarrow> pic_ok (raise_master n s)"
  by (simp add: raise_master_def Let_def service_master_ok on_chip_ok line_keeps)

lemma signalled_slave_ok: "n < 8 \<Longrightarrow> pic_ok s \<Longrightarrow> pic_ok (on_chip False (signal n) s)"
  by (simp add: pic_ok_def on_chip_def signal_def chip_ok_def)

lemma service_slave_ok: "pic_ok s \<Longrightarrow> pic_ok (service_slave_pic s)"
  using irq_to_signal_less [of "slave_pic s"]
  by (cases "irq_to_signal (slave_pic s)")
    (simp_all add: service_slave_pic_def raise_master_ok signalled_slave_ok pic_ok_def [of s])

lemma service_ok: "pic_ok s \<Longrightarrow> pic_ok (service_pic m s)"
  by (simp add: service_pic_def service_master_ok service_slave_ok)

lemma raise_irq_ok: "n < 16 \<Longrightarrow> pic_ok s \<Longrightarrow> pic_ok (raise_irq n s)"
  by (auto simp: raise_irq_def Let_def intro!: raise_master_ok service_slave_ok on_chip_ok line_keeps)

lemma note_lower_ok [simp]: "pic_ok (note_lower n s) = pic_ok s"
  by (simp add: note_lower_def)

lemma lower_pins_ok: "pic_ok s \<Longrightarrow> pic_ok ((on_chip True (\<lambda>p. p\<lparr>INT_pin := False\<rparr>) s)\<lparr>INTR_pin := False\<rparr>)"
  "pic_ok s \<Longrightarrow> pic_ok (on_chip False (\<lambda>p. p\<lparr>INT_pin := False\<rparr>) s)"
  by (simp_all add: pic_ok_def on_chip_def chip_ok_def)

lemma lower_master_ok: "n < 8 \<Longrightarrow> pic_ok s \<Longrightarrow> pic_ok (lower_master n s)"
  by (simp add: lower_master_def Let_def on_chip_ok line_keeps lower_pins_ok)

lemma lower_irq_ok: "n < 16 \<Longrightarrow> pic_ok s \<Longrightarrow> pic_ok (lower_irq n s)"
  by (auto simp: lower_irq_def Let_def intro!: lower_master_ok on_chip_ok line_keeps lower_pins_ok)

lemma acknowledge_keeps: "keeps_chip acknowledge"
  by (simp add: keeps_chip_def acknowledge_def chip_ok_def Let_def)

lemma IAC_ok: "pic_ok s \<Longrightarrow> pic_ok (snd (IAC s))"
proof -
  assume s: "pic_ok s"
  let ?s1 = "on_chip True (\<lambda>p. acknowledge (p\<lparr>INT_pin := False\<rparr>)) (s\<lparr>INTR_pin := False\<rparr>)"
  have "?s1 = on_chip True acknowledge ((on_chip True (\<lambda>p. p\<lparr>INT_pin := False\<rparr>) s)\<lparr>INTR_pin := False\<rparr>)"
    by (simp add: on_chip_def)
  then have s1: "pic_ok ?s1" using s by (simp add: lower_pins_ok on_chip_ok acknowledge_keeps)
  have l2: "keeps_chip (\<lambda>p. p\<lparr>IRQ_line := (IRQ_line p)[2 := False]\<rparr>)"
    by (simp add: keeps_chip_def chip_ok_def)
  show ?thesis
    unfolding IAC_def Let_def
    using s1 by (simp add: service_master_ok service_slave_ok on_chip_ok acknowledge_keeps lower_pins_ok l2)
qed

lemma check_ok: "pic_ok s \<Longrightarrow> pic_ok (check_line m n s)" "pic_ok s \<Longrightarrow> pic_ok (check_irq_level m s)"
proof -
  show c: "pic_ok s \<Longrightarrow> pic_ok (check_line m n s)" for s n
    by (auto simp: check_line_def Let_def keeps_chip_def chip_ok_def intro!: service_ok on_chip_ok)
  have "pic_ok s \<Longrightarrow> pic_ok (fold (check_line m) ns s)" for ns s
    by (induction ns arbitrary: s) (simp_all add: c)
  then show "pic_ok s \<Longrightarrow> pic_ok (check_irq_level m s)"
    by (simp add: check_irq_level_def)
qed

lemma clear_first_keeps: "keeps_chip (clear_first k stop n)"
proof -
  have "chip_ok (clear_first k stop n p) = chip_ok p \<and> INT_pin (clear_first k stop n p) = INT_pin p \<and>
    master_slave (clear_first k stop n p) = master_slave p" for p
    by (induction k arbitrary: n) (simp_all add: clear_isr_def chip_ok_def)
  then show ?thesis by (simp add: keeps_chip_def)
qed

lemma clear_highest_ok: "pic_ok s \<Longrightarrow> pic_ok (clear_highest_interrupt m s)"
  by (simp add: clear_highest_interrupt_def Let_def check_ok on_chip_ok clear_first_keeps)

lemma specific_eoi_ok: "pic_ok s \<Longrightarrow> pic_ok (specific_eoi m n s)"
  by (simp add: specific_eoi_def check_ok on_chip_ok keeps_chip_def clear_isr_def chip_ok_def)

text \<open>Updates of the registers a command sets.\<close>

lemma register_keeps:
  "keeps_chip (\<lambda>p. p\<lparr>polled := b\<rparr>)" "keeps_chip (\<lambda>p. p\<lparr>rotate_on_autoeoi := b\<rparr>)"
  "keeps_chip (\<lambda>p. p\<lparr>read_reg_select := b\<rparr>)" "keeps_chip (\<lambda>p. p\<lparr>imr := w\<rparr>)" "keeps_chip (\<lambda>p. p\<lparr>edge_level := w\<rparr>)"
  "keeps_chip (\<lambda>p. p\<lparr>in_init := False\<rparr>)" "keeps_chip (\<lambda>p. p\<lparr>auto_eoi := b\<rparr>)"
  "keeps_chip (\<lambda>p. p\<lparr>interrupt_offset := w, byte_expected := 3\<rparr>)"
  "keeps_chip (\<lambda>p. if requires_4 p then p\<lparr>byte_expected := 4\<rparr> else p\<lparr>in_init := False\<rparr>)"
  "keeps_chip rotate_priority"
  by (simp_all add: keeps_chip_def chip_ok_def rotate_priority_def)

lemma lowest_keeps: "n < 8 \<Longrightarrow> keeps_chip (\<lambda>p. p\<lparr>lowest_priority := n\<rparr>)"
  by (simp add: keeps_chip_def chip_ok_def)

lemma ocw3_keeps:
  "keeps_chip (\<lambda>p. if b then p\<lparr>read_reg_select := c\<rparr> else if d then p\<lparr>read_reg_select := e\<rparr> else p)"
  "keeps_chip (\<lambda>p. (if b then p\<lparr>read_reg_select := c\<rparr> else if d then p\<lparr>read_reg_select := e\<rparr> else p)\<lparr>special_mask := g\<rparr>)"
  by (simp_all add: keeps_chip_def chip_ok_def)

lemma ocw3_ok: "pic_ok s \<Longrightarrow> pic_ok (ocw3 m v s)"
  by (simp add: ocw3_def Let_def on_chip_ok service_ok register_keeps ocw3_keeps)

lemma low_3_bits: "unat (v AND 7 :: Bit32u) < 8"
proof -
  have "v AND 7 \<le> 7" by (rule word_and_le1)
  then show ?thesis by (simp add: word_le_nat_alt)
qed

lemma ocw2_ok: "pic_ok s \<Longrightarrow> ocw2 m v s = Done () t \<Longrightarrow> pic_ok t"
  by (auto simp: ocw2_def Let_def on_chip_ok service_ok register_keeps specific_eoi_ok clear_highest_ok
      lowest_keeps low_3_bits split: if_splits)

lemma icw1_chip_ok:
  "pic_ok s \<Longrightarrow> pic_ok ((on_chip True (icw1_chip v) s)\<lparr>INTR_pin := False\<rparr>)" "pic_ok s \<Longrightarrow> pic_ok (on_chip False (icw1_chip v) s)"
  by (simp_all add: pic_ok_def chip_ok_def on_chip_def icw1_chip_def)

lemma icw1_ok: "pic_ok s \<Longrightarrow> icw1 m v s = Done () t \<Longrightarrow> pic_ok t"
  by (cases m) (auto simp: icw1_def Let_def icw1_chip_ok split: if_splits)

lemma icw_byte_ok: "pic_ok s \<Longrightarrow> icw_byte m v s = Done () t \<Longrightarrow> pic_ok t"
  by (auto simp: icw_byte_def Let_def on_chip_ok register_keeps split: if_splits)

lemma pic_write_ok:
  assumes s: "pic_ok s" and w: "pic_write a v s = Done () t"
  shows "pic_ok t"
proof -
  have c: "pic_ok t" if "write_command m v s = Done () t" for m
    using that icw1_ok [OF s] ocw3_ok [OF s] ocw2_ok [OF s] by (auto simp: write_command_def split: if_splits)
  have d: "pic_ok t" if "write_data m v s = Done () t" for m
    using that icw_byte_ok [OF s] s by (auto simp: write_data_def service_ok on_chip_ok register_keeps split: if_splits)
  consider "pic_write a v = write_command True v" | "pic_write a v = write_data True v"
    | "pic_write a v = write_command False v" | "pic_write a v = write_data False v" | "pic_write a v = ret ()"
    unfolding pic_write_def by metis
  then show ?thesis
    using w c d s by cases simp_all
qed

lemma pic_read_ok: "pic_ok s \<Longrightarrow> pic_read a k s = Done v t \<Longrightarrow> pic_ok t"
  by (auto simp: pic_read_def poll_def Let_def service_ok on_chip_ok register_keeps clear_highest_ok split: if_splits)

lemma pic_op_ok: "pic_op s t \<Longrightarrow> pic_ok s \<Longrightarrow> pic_ok t"
  by (induction rule: pic_op.induct)
    (auto simp: set_mode_def raise_irq_ok lower_irq_ok IAC_ok on_chip_ok register_keeps dest: pic_write_ok pic_read_ok)

lemma pic_init_ok: "\<not> INTR_pin s \<Longrightarrow> pic_ok (pic_init s)"
  by (simp add: pic_init_def pic_ok_def chip_ok_def pic_init_chip_def)

lemma pic_reachable_ok: "pic_op\<^sup>*\<^sup>* s t \<Longrightarrow> pic_ok s \<Longrightarrow> pic_ok t"
  by (induction rule: rtranclp_induct) (auto dest: pic_op_ok)

lemma IAC_vector:
  assumes "pic_ok t"
  shows "\<exists>m n. n < 8 \<and> fst (IAC t) = interrupt_offset (chip m t) + of_nat n"
proof (cases "irq_no (master_pic t) = 2")
  case True
  have ak: "irq_no (acknowledge p) = irq_no p" for p by (simp add: acknowledge_def Let_def)
  from True have "fst (IAC t) = interrupt_offset (chip False t) + of_nat (irq_no (slave_pic t))"
    by (simp add: IAC_def Let_def on_chip_def ak chip_def)
  moreover have "irq_no (slave_pic t) < 8" using assms by (simp add: pic_ok_def chip_ok_def)
  ultimately show ?thesis by blast
next
  case False
  have ak: "irq_no (acknowledge p) = irq_no p" "interrupt_offset (acknowledge p) = interrupt_offset p" for p
    by (simp_all add: acknowledge_def Let_def)
  from False have "fst (IAC t) = interrupt_offset (chip True t) + of_nat (irq_no (master_pic t))"
    by (simp add: IAC_def Let_def on_chip_def ak chip_def)
  moreover have "irq_no (master_pic t) < 8" using assms by (simp add: pic_ok_def chip_ok_def)
  ultimately show ?thesis by blast
qed

text \<open>C38
  In every state the controllers can reach from their initialization, by any sequence of requests,
  acknowledges and port accesses, the levels they index with are below 8 and their eight lines are
  there; the request pin of the processor is the output of the master; an initialization sequence
  always waits for one of the bytes 2, 3 and 4, so the panic for a bad initialization command is
  never reached; and an acknowledge returns a level of the programmed base of one of the chips.\<close>

theorem pic_states_well_formed:
  assumes "\<not> INTR_pin s" "pic_op\<^sup>*\<^sup>* (pic_init s) t"
  shows "pic_ok t \<and>
    (\<forall>m v. case write_data m v t of Panic msg u \<Rightarrow> msg = ''not 80x86 mode'' | _ \<Rightarrow> True) \<and>
    (\<exists>m n. n < 8 \<and> fst (IAC t) = interrupt_offset (chip m t) + of_nat n)"
proof -
  have t: "pic_ok t" using pic_reachable_ok [OF assms(2) pic_init_ok [OF assms(1)]] .
  have byte: "in_init (chip m t) \<Longrightarrow> byte_expected (chip m t) \<in> {2, 3, 4}" for m
    using t by (cases m) (simp_all add: pic_ok_def chip_ok_def chip_def)
  have "case write_data m v t of Panic msg u \<Rightarrow> msg = ''not 80x86 mode'' | _ \<Rightarrow> True" for m v
    using byte [of m] by (auto simp: write_data_def icw_byte_def Let_def)
  moreover have "\<exists>m n. n < 8 \<and> fst (IAC t) = interrupt_offset (chip m t) + of_nat n"
    using IAC_vector [OF t] .
  ultimately show ?thesis using t by blast
qed

lemma pic_states_witness:
  fixes s
  defines "s \<equiv> \<lparr>master_pic = pic_init_chip True, slave_pic = pic_init_chip False,
    INTR_pin = False, ioapic_present = False, ioapic_calls = []\<rparr>"
  shows "pic_ok (raise_irq 3 (pic_init s))"
proof -
  have "\<not> INTR_pin s" "pic_op\<^sup>*\<^sup>* (pic_init s) (raise_irq 3 (pic_init s))"
    by (simp add: s_def) (rule r_into_rtranclp, rule pic_op.intros, simp)
  then show ?thesis using pic_states_well_formed by blast
qed

section \<open>A request that is withdrawn\<close>

text \<open>
  \<open>lower_irq\<close> drops the request pin only when no other line requests. If another line does,
  the pin stays up for the level that was signalled first, and the acknowledge puts that level
  in service although its line is low.
\<close>

lemma withdrawn_request_is_delivered:
  assumes "at_rest (master_pic s)" "n < 8" "n \<noteq> 2" "m < 8" "m \<noteq> n"
    "\<not> bit (imr (master_pic s)) n" "\<not> bit (imr (master_pic s)) m"
  shows "fst (IAC (lower_irq n (raise_irq m (raise_irq n s)))) = interrupt_offset (master_pic s) + of_nat n"
proof -
  let ?p = "master_pic s"
  let ?p2 = "line_up m (signal n (line_up n ?p))"
  have r: "\<not> IRQ_line ?p ! m" using assms(1,4) by (simp add: at_rest_def)
  have "irq_to_signal ?p2 = None"
    by (simp add: irq_to_signal_def line_up_def signal_def Let_def)
  then have "master_pic (raise_irq m (raise_irq n s)) = ?p2"
    using assms r raised_master [OF assms(1,2,6)]
    by (simp add: raise_irq_def raise_master_def service_master_pic_def on_chip_def Let_def signal_def line_up_def)
  moreover have "irr (line_down n ?p2) AND NOT (imr (line_down n ?p2)) \<noteq> 0"
  proof -
    have "bit (irr (line_down n ?p2) AND NOT (imr (line_down n ?p2))) m"
      using assms by (simp add: line_down_def line_up_def signal_def bit_simps bit_pic_bit)
    then show ?thesis by auto
  qed
  moreover have "IRQ_line ?p2 ! n" using assms at_restD(8) [OF assms(1)] by (simp add: line_up_def signal_def)
  ultimately have "master_pic (lower_irq n (raise_irq m (raise_irq n s))) = line_down n ?p2"
    using assms(2) by (simp add: lower_irq_def lower_master_def note_lower_def on_chip_def Let_def)
  then show ?thesis
    using assms(3)
    by (simp add: IAC_def on_chip_def acknowledge_def line_down_def line_up_def signal_def Let_def add.commute)
qed

end
