(* ===== verification/BxPit.thy ===== *)
theory BxPit
  imports BxPrelude
begin

text \<open>
  The 82C54 interval timer (\<open>iodev/pit82c54.cc\<close>): three counters with six modes, clocked
  one tick at a time by \<open>clock\<close> or many ticks at once by \<open>clock_multiple\<close>, which
  runs \<open>clock\<close> only at the ticks where \<open>next_change_time\<close> announces something besides
  counting. The field \<open>mode\<close> holds the three bits of the control word as a number;
  the messages of the code, and \<open>seen_problems\<close> that silences one of them, are not modelled.
\<close>

section \<open>State\<close>

datatype rw_status = LSByte | MSByte | LSByte_multiple | MSByte_multiple

record counter_type =
  GATE :: bool
  OUTpin :: bool
  count :: Bit32u
  outlatch :: Bit16u
  inlatch :: Bit16u
  status_latch :: Bit8u
  rw_mode :: Bit8u
  pit_mode :: nat
  bcd_mode :: bool
  null_count :: bool
  count_LSB_latched :: bool
  count_MSB_latched :: bool
  status_latched :: bool
  count_binary :: Bit32u
  triggerGATE :: bool
  write_state :: rw_status
  read_state :: rw_status
  count_written :: bool
  first_pass :: bool
  state_bit_1 :: bool
  state_bit_2 :: bool
  next_change_time :: Bit32u

record pit_82C54 =
  counter :: "counter_type list"
  controlword :: Bit8u

definition pit_init_counter :: "counter_type \<Rightarrow> counter_type" where
  "pit_init_counter c =
     c\<lparr>read_state := LSByte, write_state := LSByte, GATE := True, OUTpin := True, triggerGATE := False,
       pit_mode := 4, first_pass := False, bcd_mode := False, count := 0, count_binary := 0,
       state_bit_1 := False, state_bit_2 := False, null_count := False, rw_mode := 1, count_written := True,
       count_LSB_latched := False, count_MSB_latched := False, status_latched := False, next_change_time := 0\<rparr>"

definition pit_init :: "pit_82C54 \<Rightarrow> pit_82C54" where
  "pit_init s = s\<lparr>counter := map pit_init_counter (counter s)\<rparr>"

section \<open>Counting\<close>

definition to_bcd :: "Bit32u \<Rightarrow> Bit32u" where
  "to_bcd b = (b div 1 mod 10) OR push_bit 4 (b div 10 mod 10) OR push_bit 8 (b div 100 mod 10) OR
     push_bit 12 (b div 1000 mod 10)"

definition from_bcd :: "Bit32u \<Rightarrow> Bit32u" where
  "from_bcd w = 1 * (w AND 0xF) + 10 * (drop_bit 4 w AND 0xF) + 100 * (drop_bit 8 w AND 0xF) +
     1000 * (drop_bit 12 w AND 0xF)"

definition set_count_to_binary :: "counter_type \<Rightarrow> counter_type" where
  "set_count_to_binary c = c\<lparr>count := (if bcd_mode c then to_bcd (count_binary c) else count_binary c)\<rparr>"

definition set_binary_to_count :: "counter_type \<Rightarrow> counter_type" where
  "set_binary_to_count c = c\<lparr>count_binary := (if bcd_mode c then from_bcd (count c) else count c)\<rparr>"

definition set_count :: "Bit32u \<Rightarrow> counter_type \<Rightarrow> counter_type" where
  "set_count v c = set_binary_to_count (c\<lparr>count := v AND 0xFFFF\<rparr>)"

definition set_OUT :: "bool \<Rightarrow> counter_type \<Rightarrow> counter_type" where
  "set_OUT b c = c\<lparr>OUTpin := b\<rparr>"

definition decrement :: "counter_type \<Rightarrow> counter_type" where
  "decrement c =
     (if count c = 0 then
        (if bcd_mode c then c\<lparr>count := 0x9999, count_binary := 9999\<rparr>
         else c\<lparr>count := 0xFFFF, count_binary := 0xFFFF\<rparr>)
      else set_count_to_binary (c\<lparr>count_binary := count_binary c - 1\<rparr>))"

function decrement_multiple :: "counter_type \<Rightarrow> Bit32u \<Rightarrow> counter_type" where
  "decrement_multiple c cycles =
     (if cycles = 0 then c
      else if cycles \<le> count_binary c then
        set_count_to_binary (c\<lparr>count_binary := count_binary c - cycles\<rparr>)
      else
        decrement_multiple (decrement (set_count_to_binary (c\<lparr>count_binary := 0\<rparr>)))
          (cycles - (count_binary c + 1)))"
  by auto

termination
proof (relation "measure (\<lambda>(c, n). unat n)")
  fix c :: counter_type and n :: Bit32u
  assume "n \<noteq> 0" "\<not> n \<le> count_binary c"
  then have lt: "unat (count_binary c) < unat n" by (simp add: word_le_nat_alt)
  then have "unat (count_binary c + 1) = unat (count_binary c) + 1"
    using unsigned_less [of n, where ?'a = nat] by (simp add: unat_word_ariths)
  with lt have "unat (n - (count_binary c + 1)) < unat n"
    by (subst unat_sub) (simp_all add: word_le_nat_alt)
  then show "((decrement (set_count_to_binary (c\<lparr>count_binary := 0\<rparr>)), n - (count_binary c + 1)), (c, n))
      \<in> measure (\<lambda>(c, n). unat n)"
    by (simp add: word_less_nat_alt)
qed simp

declare decrement_multiple.simps [simp del]

section \<open>One tick\<close>

text \<open>
  \<open>next_change_time\<close> when the count runs to zero: 1 for a count of 0. The sixteen bits kept
  of it are those of the count.
\<close>

definition until_zero :: "counter_type \<Rightarrow> Bit32u" where
  "until_zero c = (if count_binary c = 0 then 1 else count_binary c AND 0xFFFF)"

definition set_next :: "Bit32u \<Rightarrow> counter_type \<Rightarrow> counter_type" where
  "set_next t c = c\<lparr>next_change_time := t\<rparr>"

definition clock_mode0 :: "counter_type \<Rightarrow> counter_type" where
  "clock_mode0 c =
     (if null_count c then
        (let c1 = set_count (ucast (inlatch c)) c in
         (set_next (if GATE c1 then until_zero c1 else 0) c1)\<lparr>null_count := False\<rparr>)
      else if GATE c \<and> write_state c \<noteq> MSByte_multiple then
        (let c1 = decrement c in
         if \<not> OUTpin c1 then
           (let c2 = set_next (count_binary c1 AND 0xFFFF) c1 in if count c2 = 0 then set_OUT True c2 else c2)
         else set_next 0 c1)
      else set_next 0 c)"

definition clock_mode1 :: "counter_type \<Rightarrow> counter_type" where
  "clock_mode1 c =
     (if triggerGATE c then
        (let c1 = set_count (ucast (inlatch c)) c in
         set_OUT False ((set_next (until_zero c1) c1)\<lparr>null_count := False\<rparr>))
      else
        (let c1 = decrement c in
         if \<not> OUTpin c1 then
           (let c2 = set_next (until_zero c1) c1 in if count c2 = 0 then set_OUT True c2 else c2)
         else set_next 0 c1))"

definition clock_mode2 :: "counter_type \<Rightarrow> counter_type" where
  "clock_mode2 c =
     (if triggerGATE c \<or> first_pass c then
        (let c1 = set_count (ucast (inlatch c)) c;
             c2 = (set_next ((count_binary c1 - 1) AND 0xFFFF) c1)\<lparr>null_count := False\<rparr>;
             c3 = (if \<not> OUTpin c2 then set_OUT True c2 else c2) in
         c3\<lparr>first_pass := False\<rparr>)
      else if GATE c then
        (let c1 = decrement c; c2 = set_next ((count_binary c1 - 1) AND 0xFFFF) c1 in
         if count c2 = 1 then (set_OUT False (set_next 1 c2))\<lparr>first_pass := True\<rparr> else c2)
      else set_next 0 c)"

text \<open>The half period of mode 3 that remains; \<open>short\<close> is the phase without the extra tick.\<close>

definition clock_mode3 :: "counter_type \<Rightarrow> counter_type" where
  "clock_mode3 c =
     (if (triggerGATE c \<or> first_pass c \<or> state_bit_2 c) \<and> GATE c then
        (let c1 = (set_count (ucast (inlatch c AND 0xFFFE)) c)\<lparr>state_bit_1 := (inlatch c AND 1 \<noteq> 0)\<rparr>;
             short = (\<not> OUTpin c1 \<or> \<not> state_bit_1 c1);
             half = (if short then count_binary c1 div 2 - 1 else count_binary c1 div 2);
             c2 = (set_next (if half = 0 then 1 else half AND 0xFFFF) c1)\<lparr>null_count := False\<rparr>;
             c3 = (if \<not> OUTpin c2 then set_OUT True c2
                   else if \<not> first_pass c2 then set_OUT False c2 else c2) in
         c3\<lparr>state_bit_2 := False, first_pass := False\<rparr>)
      else if GATE c then
        (let c1 = decrement (decrement c);
             short = (\<not> OUTpin c1 \<or> \<not> state_bit_1 c1);
             c2 = set_next ((if short then count_binary c1 div 2 - 1 else count_binary c1 div 2) AND 0xFFFF) c1;
             c3 = (if count c2 = 0 then set_next 1 (c2\<lparr>state_bit_2 := True\<rparr>) else c2) in
         if count c3 = 2 \<and> short then set_next 1 (c3\<lparr>state_bit_2 := True\<rparr>) else c3)
      else set_next 0 c)"

text \<open>Modes 4 and 5: the strobe, low for one tick when the count of the first pass ends.\<close>

definition strobe_count :: "counter_type \<Rightarrow> counter_type" where
  "strobe_count c =
     (let c1 = decrement c in
      if first_pass c1 then
        (let c2 = set_next (count_binary c1 AND 0xFFFF) c1 in
         if count c2 = 0 then (set_next 1 (set_OUT False c2))\<lparr>first_pass := False\<rparr> else c2)
      else set_next 0 c1)"

definition clock_mode4 :: "counter_type \<Rightarrow> counter_type" where
  "clock_mode4 c =
     (let c0 = (if \<not> OUTpin c then set_OUT True c else c) in
      if null_count c0 then
        (let c1 = set_count (ucast (inlatch c0)) c0 in
         (set_next (if GATE c1 then until_zero c1 else 0) c1)\<lparr>null_count := False, first_pass := True\<rparr>)
      else if GATE c0 then strobe_count c0
      else set_next 0 c0)"

definition clock_mode5 :: "counter_type \<Rightarrow> counter_type" where
  "clock_mode5 c =
     (let c0 = (if \<not> OUTpin c then set_OUT True c else c) in
      if triggerGATE c0 then
        (let c1 = set_count (ucast (inlatch c0)) c0 in
         (set_next (until_zero c1) c1)\<lparr>null_count := False, first_pass := True\<rparr>)
      else strobe_count c0)"

definition clock :: "counter_type \<Rightarrow> counter_type" where
  "clock c =
     (let c1 =
        (if pit_mode c > 5 then set_next 0 c
         else if \<not> count_written c then set_next 0 c
         else if pit_mode c = 0 then clock_mode0 c
         else if pit_mode c = 1 then clock_mode1 c
         else if pit_mode c = 2 then clock_mode2 c
         else if pit_mode c = 3 then clock_mode3 c
         else if pit_mode c = 4 then clock_mode4 c
         else clock_mode5 c) in
      c1\<lparr>triggerGATE := False\<rparr>)"

section \<open>Many ticks\<close>

text \<open>The ticks up to the next change only count; \<open>counting\<close> is the test for a counter without one.\<close>

definition counting :: "counter_type \<Rightarrow> bool" where
  "counting c \<longleftrightarrow> count_written c \<and>
     (if pit_mode c = 0 then GATE c \<and> write_state c \<noteq> MSByte_multiple
      else if pit_mode c = 2 \<or> pit_mode c = 3 then \<not> first_pass c \<and> GATE c
      else if pit_mode c = 4 then GATE c
      else pit_mode c \<le> 5)"

definition ticks_counted :: "counter_type \<Rightarrow> Bit32u \<Rightarrow> Bit32u" where
  "ticks_counted c n = (if pit_mode c = 3 then 2 * n else n)"

function clock_multiple :: "counter_type \<Rightarrow> Bit32u \<Rightarrow> counter_type" where
  "clock_multiple c cycles =
     (if cycles = 0 then c
      else if next_change_time c = 0 then
        (if counting c then decrement_multiple c (ticks_counted c cycles) else c)
      else if pit_mode c > 5 then c
      else if cycles < next_change_time c then
        (let c1 = decrement_multiple c (ticks_counted c cycles) in
         set_next (next_change_time c1 - cycles) c1)
      else
        clock_multiple (clock (decrement_multiple c (ticks_counted c (next_change_time c - 1))))
          (cycles - next_change_time c))"
  by auto

termination
proof (relation "measure (\<lambda>(c, n). unat n)")
  fix c :: counter_type and n :: Bit32u
  assume "n \<noteq> 0" "next_change_time c \<noteq> 0" "\<not> n < next_change_time c"
  then have "next_change_time c \<le> n" "0 < unat (next_change_time c)"
    by (simp_all add: unat_gt_0)
  then show "((clock (decrement_multiple c (ticks_counted c (next_change_time c - 1))), n - next_change_time c), (c, n))
      \<in> measure (\<lambda>(c, n). unat n)"
    by (simp add: unat_sub word_le_nat_alt)
qed simp

declare clock_multiple.simps [simp del]

text \<open>The three counters; a number above 2 is only reported.\<close>

definition on_counter :: "nat \<Rightarrow> (counter_type \<Rightarrow> counter_type) \<Rightarrow> pit_82C54 \<Rightarrow> pit_82C54" where
  "on_counter cnum f s = (if cnum > 2 then s else s\<lparr>counter := (counter s)[cnum := f (counter s ! cnum)]\<rparr>)"

definition clock_all :: "Bit32u \<Rightarrow> pit_82C54 \<Rightarrow> pit_82C54" where
  "clock_all cycles s =
     on_counter 2 (\<lambda>c. clock_multiple c cycles) (on_counter 1 (\<lambda>c. clock_multiple c cycles)
       (on_counter 0 (\<lambda>c. clock_multiple c cycles) s))"

section \<open>The ports\<close>

definition latch_counter :: "counter_type \<Rightarrow> counter_type" where
  "latch_counter c =
     (if count_LSB_latched c \<or> count_MSB_latched c then c
      else
        (let c1 = c\<lparr>outlatch := ucast (count c AND 0xFFFF)\<rparr> in
         case read_state c of
           MSByte \<Rightarrow> c1\<lparr>count_MSB_latched := True\<rparr>
         | LSByte \<Rightarrow> c1\<lparr>count_LSB_latched := True\<rparr>
         | LSByte_multiple \<Rightarrow> c1\<lparr>count_LSB_latched := True, count_MSB_latched := True\<rparr>
         | MSByte_multiple \<Rightarrow>
             c1\<lparr>read_state := LSByte_multiple, count_LSB_latched := True, count_MSB_latched := True\<rparr>))"

definition other_byte :: "rw_status \<Rightarrow> rw_status" where
  "other_byte r = (case r of LSByte_multiple \<Rightarrow> MSByte_multiple | MSByte_multiple \<Rightarrow> LSByte_multiple | _ \<Rightarrow> r)"

text \<open>
  A read of a counter: the latched status, the latched bytes of the count, the count itself. A
  latched byte of a two-byte count moves the state only if it is the byte that is due.
\<close>

definition read_counter :: "counter_type \<Rightarrow> Bit8u \<times> counter_type" where
  "read_counter c =
     (if status_latched c then
        (if count_MSB_latched c \<and> read_state c = MSByte_multiple then (0, c)
         else (status_latch c, c\<lparr>status_latched := False\<rparr>))
      else if count_LSB_latched c then
        (ucast (outlatch c AND 0xFF),
         c\<lparr>read_state := (if read_state c = LSByte_multiple then MSByte_multiple else read_state c),
           count_LSB_latched := False\<rparr>)
      else if count_MSB_latched c then
        (ucast (drop_bit 8 (outlatch c) AND 0xFF),
         c\<lparr>read_state := (if read_state c = MSByte_multiple then LSByte_multiple else read_state c),
           count_MSB_latched := False\<rparr>)
      else if read_state c = LSByte \<or> read_state c = LSByte_multiple then
        (ucast (count c AND 0xFF), c\<lparr>read_state := other_byte (read_state c)\<rparr>)
      else (ucast (drop_bit 8 (count c) AND 0xFF), c\<lparr>read_state := other_byte (read_state c)\<rparr>))"

definition pit_read :: "Bit8u \<Rightarrow> pit_82C54 \<Rightarrow> Bit8u \<times> pit_82C54" where
  "pit_read address s =
     (if address \<ge> 3 then (0, s)
      else
        (let k = unat address; (v, c) = read_counter (counter s ! k) in (v, on_counter k (\<lambda>_. c) s)))"

definition status_byte :: "counter_type \<Rightarrow> Bit8u" where
  "status_byte c =
     push_bit 7 (of_bool (OUTpin c)) OR push_bit 6 (of_bool (null_count c)) OR push_bit 4 (rw_mode c AND 3) OR
     push_bit 1 (of_nat (pit_mode c) AND 7) OR of_bool (bcd_mode c)"

definition latch_status :: "counter_type \<Rightarrow> counter_type" where
  "latch_status c = (if status_latched c then c else c\<lparr>status_latch := status_byte c, status_latched := True\<rparr>)"

definition read_back :: "Bit8u \<Rightarrow> nat \<Rightarrow> pit_82C54 \<Rightarrow> pit_82C54" where
  "read_back w i =
     (if bit w (i + 1) then
        on_counter i (\<lambda>c.
          (let c1 = (if \<not> bit w 5 then latch_counter c else c) in if \<not> bit w 4 then latch_status c1 else c1))
      else id)"

definition program_counter :: "Bit8u \<Rightarrow> counter_type \<Rightarrow> counter_type" where
  "program_counter w c =
     (let RW = drop_bit 4 w AND 3; M = drop_bit 1 w AND 7;
          rws = (if RW = 1 then LSByte else if RW = 2 then MSByte else LSByte_multiple) in
      c\<lparr>null_count := True, count_LSB_latched := False, count_MSB_latched := False, status_latched := False,
        inlatch := 0, count_written := False, first_pass := True, rw_mode := RW, bcd_mode := bit w 0,
        pit_mode := unat M, read_state := rws, write_state := rws, OUTpin := (M \<noteq> 0), next_change_time := 0\<rparr>)"

definition write_control :: "Bit8u \<Rightarrow> pit_82C54 \<Rightarrow> pit_82C54" where
  "write_control w s =
     (let SC = unat (drop_bit 6 w AND 3); s1 = s\<lparr>controlword := w\<rparr> in
      if SC = 3 then read_back w 2 (read_back w 1 (read_back w 0 s1))
      else if drop_bit 4 w AND 3 = 0 then on_counter SC latch_counter s1
      else on_counter SC (program_counter w) s1)"

definition write_byte :: "Bit8u \<Rightarrow> counter_type \<Rightarrow> counter_type" where
  "write_byte v c =
     (let low = (inlatch c AND 0xFF00) OR ucast v; high = (inlatch c AND 0xFF) OR push_bit 8 (ucast v) in
      case write_state c of
        LSByte_multiple \<Rightarrow> c\<lparr>inlatch := low, write_state := MSByte_multiple\<rparr>
      | LSByte \<Rightarrow> c\<lparr>inlatch := low, null_count := True, count_written := True\<rparr>
      | MSByte_multiple \<Rightarrow>
          c\<lparr>write_state := LSByte_multiple, inlatch := high, null_count := True, count_written := True\<rparr>
      | MSByte \<Rightarrow> c\<lparr>inlatch := high, null_count := True, count_written := True\<rparr>)"

definition write_counter :: "Bit8u \<Rightarrow> counter_type \<Rightarrow> counter_type" where
  "write_counter v c =
     (let c1 = write_byte v c in
      if pit_mode c1 = 0 then
        set_next 1 (if write_state c1 = MSByte_multiple then set_OUT False c1 else c1)
      else if pit_mode c1 = 1 \<or> pit_mode c1 = 5 then (if triggerGATE c1 then set_next 1 c1 else c1)
      else set_next 1 c1)"

definition pit_write :: "Bit8u \<Rightarrow> Bit8u \<Rightarrow> pit_82C54 \<Rightarrow> pit_82C54" where
  "pit_write address v s =
     (if address > 3 then s
      else if address = 3 then write_control v s
      else on_counter (unat address) (write_counter v) s)"

section \<open>The gate and the outputs\<close>

definition gate_changed :: "bool \<Rightarrow> counter_type \<Rightarrow> counter_type" where
  "gate_changed b c =
     (let up = b \<and> count_written c in
      if pit_mode c = 0 then
        (if null_count c then set_next 1 c
         else if up \<and> \<not> OUTpin c \<and> write_state c \<noteq> MSByte_multiple then set_next (until_zero c) c
         else set_next 0 c)
      else if pit_mode c = 1 \<or> pit_mode c = 5 then (if up then set_next 1 c else c)
      else if pit_mode c = 2 then (if \<not> b then set_next 0 (set_OUT True c) else set_next (if up then 1 else 0) c)
      else if pit_mode c = 3 then
        (if \<not> b then (set_next 0 (set_OUT True c))\<lparr>first_pass := True\<rparr> else set_next (if up then 1 else 0) c)
      else if pit_mode c = 4 then
        (if \<not> OUTpin c \<or> null_count c then set_next 1 c
         else if up \<and> first_pass c then set_next (until_zero c) c
         else set_next 0 c)
      else c)"

definition change_GATE :: "bool \<Rightarrow> counter_type \<Rightarrow> counter_type" where
  "change_GATE b c =
     (if GATE c = b then c
      else gate_changed b (c\<lparr>GATE := b, triggerGATE := (if b then True else triggerGATE c)\<rparr>))"

definition set_GATE :: "nat \<Rightarrow> bool \<Rightarrow> pit_82C54 \<Rightarrow> pit_82C54" where
  "set_GATE cnum b = on_counter cnum (change_GATE b)"

definition read_OUT :: "nat \<Rightarrow> pit_82C54 \<Rightarrow> bool" where
  "read_OUT cnum s = (if cnum > 2 then False else OUTpin (counter s ! cnum))"

definition read_GATE :: "nat \<Rightarrow> pit_82C54 \<Rightarrow> bool" where
  "read_GATE cnum s = (if cnum > 2 then False else GATE (counter s ! cnum))"

definition get_clock_event_time :: "nat \<Rightarrow> pit_82C54 \<Rightarrow> Bit32u" where
  "get_clock_event_time cnum s = (if cnum > 2 then 0 else next_change_time (counter s ! cnum))"

definition get_next_event_time :: "pit_82C54 \<Rightarrow> Bit32u" where
  "get_next_event_time s =
     (let time0 = get_clock_event_time 0 s; time1 = get_clock_event_time 1 s; time2 = get_clock_event_time 2 s;
          out1 = (if time1 \<noteq> 0 \<and> time1 < time0 then time1 else time0) in
      if time2 \<noteq> 0 \<and> time2 < out1 then time2 else out1)"

definition get_inlatch :: "nat \<Rightarrow> pit_82C54 \<Rightarrow> Bit16u" where
  "get_inlatch k s = inlatch (counter s ! k)"

end
