(* ===== verification/BxPitTheorems.thy ===== *)
theory BxPitTheorems
  imports BxPit
begin

text \<open>
  The interval timer: a batch of ticks is that many single ticks, which is what lets the device
  be clocked only when something changes, and the rate generator divides the clock by its count.
\<close>

section \<open>Decimal counts\<close>

lemma word_take_bit_self:
  fixes a :: "'a::len word"
  assumes "unat a < 2 ^ k" shows "take_bit k a = a"
proof (rule word_unat_eq_iff [THEN iffD2])
  show "unat (take_bit k a) = unat a" using assms by (simp add: unsigned_take_bit_eq take_bit_nat_eq_self)
qed

lemma unat_low_or_push:
  fixes a b :: Bit32u
  assumes "unat a < 2 ^ k" "k < 32" "2 ^ k * unat b < 2 ^ 32" "unat a + 2 ^ k * unat b < 2 ^ 32"
  shows "unat (a OR push_bit k b) = unat a + 2 ^ k * unat b"
proof -
  have "bit a n \<Longrightarrow> n < k" for n
    using word_take_bit_self [OF assms(1)] by (metis bit_take_bit_iff)
  then have "a OR push_bit k b = a + push_bit k b"
    by (intro disjunctive_add [symmetric]) (auto simp: bit_simps not_less [symmetric])
  moreover have "unat (push_bit k b) = 2 ^ k * unat b"
    using assms(3) by (simp only: unsigned_push_bit_eq) (simp add: push_bit_eq_mult take_bit_nat_eq_self mult.commute)
  ultimately show ?thesis using assms(4) by (simp add: unat_word_ariths)
qed

lemma unat_digit: "unat ((n :: Bit32u) mod 10) = unat n mod 10" "unat ((n :: Bit32u) div 1 mod 10) = unat n mod 10"
  "unat ((n :: Bit32u) div 10 mod 10) = unat n div 10 mod 10"
  "unat ((n :: Bit32u) div 100 mod 10) = unat n div 100 mod 10"
  "unat ((n :: Bit32u) div 1000 mod 10) = unat n div 1000 mod 10"
  by (simp_all add: unat_div_distrib unat_mod_distrib)

lemma unat_to_bcd:
  "unat (to_bcd n) = unat n mod 10 + 16 * (unat n div 10 mod 10) + 256 * (unat n div 100 mod 10) +
     4096 * (unat n div 1000 mod 10)"
proof -
  have d: "unat n mod 10 < 10" "unat n div 10 mod 10 < 10" "unat n div 100 mod 10 < 10" "unat n div 1000 mod 10 < 10"
    by simp_all
  have 1: "unat ((n div 1 mod 10) OR push_bit 4 (n div 10 mod 10)) = unat n mod 10 + 16 * (unat n div 10 mod 10)"
    using d by (subst unat_low_or_push) (simp_all add: unat_digit unat_div_distrib unat_mod_distrib)
  have 2: "unat (((n div 1 mod 10) OR push_bit 4 (n div 10 mod 10)) OR push_bit 8 (n div 100 mod 10)) =
      unat n mod 10 + 16 * (unat n div 10 mod 10) + 256 * (unat n div 100 mod 10)"
    using d by (subst unat_low_or_push) (simp_all add: unat_digit unat_div_distrib unat_mod_distrib 1 [simplified])
  have "to_bcd n = (((n div 1 mod 10) OR push_bit 4 (n div 10 mod 10)) OR push_bit 8 (n div 100 mod 10)) OR
      push_bit 12 (n div 1000 mod 10)"
    by (simp only: to_bcd_def or.assoc)
  also have "unat \<dots> = unat n mod 10 + 16 * (unat n div 10 mod 10) + 256 * (unat n div 100 mod 10) +
     4096 * (unat n div 1000 mod 10)"
    using d by (subst unat_low_or_push) (simp_all add: unat_digit unat_div_distrib unat_mod_distrib 2 [simplified])
  finally show ?thesis .
qed

lemma unat_nibble: "unat (drop_bit k (w::Bit32u) AND 0xF) = unat w div 2 ^ k mod 16"
  "unat ((w::Bit32u) AND 0xF) = unat w mod 16"
proof -
  have m: "v AND 0xF = take_bit 4 v" for v :: Bit32u by (simp add: take_bit_eq_mask mask_eq_exp_minus_1)
  have d: "unat (drop_bit k w) = unat w div 2 ^ k"
    by (simp only: unsigned_drop_bit_eq) (simp add: drop_bit_eq_div take_bit_nat_eq_self unsigned_less [of w, where ?'a = nat, simplified])
  have n: "unat (v AND 0xF) = unat v mod 16" for v :: Bit32u
    by (simp only: m unsigned_take_bit_eq) (simp add: take_bit_eq_mod)
  show "unat (drop_bit k w AND 0xF) = unat w div 2 ^ k mod 16" "unat (w AND 0xF) = unat w mod 16"
    by (simp_all only: n d)
qed

lemma unat_from_bcd:
  "unat (from_bcd w) = unat w mod 16 + 10 * (unat w div 16 mod 16) + 100 * (unat w div 256 mod 16) +
     1000 * (unat w div 4096 mod 16)"
proof -
  have "unat w mod 16 < 16" "unat w div 16 mod 16 < 16" "unat w div 256 mod 16 < 16" "unat w div 4096 mod 16 < 16"
    by simp_all
  moreover note n = unat_nibble(1) [of 4 w] unat_nibble(1) [of 8 w] unat_nibble(1) [of 12 w] unat_nibble(2) [of w]
  ultimately show ?thesis
    unfolding from_bcd_def unat_word_ariths n by simp
qed
lemma digits_of:
  fixes a b c d :: nat
  assumes "a < 10" "b < 10" "c < 10" "d < 10"
  shows "(a + 16 * b + 256 * c + 4096 * d) mod 16 = a" "(a + 16 * b + 256 * c + 4096 * d) div 16 mod 16 = b"
    "(a + 16 * b + 256 * c + 4096 * d) div 256 mod 16 = c" "(a + 16 * b + 256 * c + 4096 * d) div 4096 mod 16 = d"
proof -
  let ?w = "a + 16 * b + 256 * c + 4096 * d"
  have w: "?w = a + 16 * (b + 16 * (c + 16 * d))" by simp
  have 1: "?w div 16 = b + 16 * (c + 16 * d)" unfolding w using assms by simp
  moreover have "?w div 256 = ?w div 16 div 16" by (simp only: div_mult2_eq [symmetric]) simp
  ultimately have 2: "?w div 256 = c + 16 * d" using assms by simp
  moreover have "?w div 4096 = ?w div 256 div 16" by (simp only: div_mult2_eq [symmetric]) simp
  ultimately have "?w div 4096 = d" using assms by simp
  with assms show "?w div 4096 mod 16 = d" by simp
  have "(b + 16 * (c + 16 * d)) mod 16 = b" "(c + 16 * d) mod 16 = c"
    unfolding mod_mult_self2 using assms by simp_all
  with 1 2 show "?w div 16 mod 16 = b" "?w div 256 mod 16 = c" by (simp_all only:)
  show "?w mod 16 = a" unfolding w using assms by (simp only: mod_mult_self2 mod_less)
qed

lemma decimal_digits:
  fixes n :: nat
  assumes "n \<le> 9999"
  shows "n mod 10 + 10 * (n div 10 mod 10) + 100 * (n div 100 mod 10) + 1000 * (n div 1000 mod 10) = n"
proof -
  have "n = n div 10 * 10 + n mod 10" by simp
  moreover have "n div 10 = n div 100 * 10 + n div 10 mod 10"
    using div_mult_mod_eq [of "n div 10" 10] by (simp add: div_mult2_eq [symmetric])
  moreover have "n div 100 = n div 1000 * 10 + n div 100 mod 10"
    using div_mult_mod_eq [of "n div 100" 10] by (simp add: div_mult2_eq [symmetric])
  moreover have "n div 1000 mod 10 = n div 1000" using assms by simp
  ultimately show ?thesis by linarith
qed

lemma from_to_bcd:
  assumes "n \<le> 9999"
  shows "from_bcd (to_bcd n) = n"
proof (rule word_unat_eq_iff [THEN iffD2])
  have "unat n \<le> 9999" using assms by (simp add: word_le_nat_alt)
  then show "unat (from_bcd (to_bcd n)) = unat n"
    using decimal_digits [of "unat n"]
      digits_of [of "unat n mod 10" "unat n div 10 mod 10" "unat n div 100 mod 10" "unat n div 1000 mod 10"]
    by (simp only: unat_from_bcd unat_to_bcd)
qed

section \<open>Counting\<close>

text \<open>A count as the code shows it, the largest one, and a counter set to a count.\<close>

definition top_count :: "counter_type \<Rightarrow> Bit32u" where
  "top_count c = (if bcd_mode c then 9999 else 0xFFFF)"

definition shown :: "counter_type \<Rightarrow> Bit32u \<Rightarrow> Bit32u" where
  "shown c v = (if bcd_mode c then to_bcd v else v)"

definition at_count :: "Bit32u \<Rightarrow> counter_type \<Rightarrow> counter_type" where
  "at_count v c = c\<lparr>count_binary := v, count := shown c v\<rparr>"

definition count_ok :: "counter_type \<Rightarrow> bool" where
  "count_ok c \<longleftrightarrow> count_binary c \<le> top_count c \<and> count c = shown c (count_binary c)"

lemma at_count_fields [simp]:
  "count_binary (at_count v c) = v" "count (at_count v c) = shown c v" "bcd_mode (at_count v c) = bcd_mode c"
  "top_count (at_count v c) = top_count c" "shown (at_count v c) w = shown c w"
  "at_count v (at_count w c) = at_count v c" "GATE (at_count v c) = GATE c" "OUTpin (at_count v c) = OUTpin c"
  "pit_mode (at_count v c) = pit_mode c" "null_count (at_count v c) = null_count c"
  "first_pass (at_count v c) = first_pass c" "state_bit_1 (at_count v c) = state_bit_1 c"
  "state_bit_2 (at_count v c) = state_bit_2 c" "triggerGATE (at_count v c) = triggerGATE c"
  "write_state (at_count v c) = write_state c" "count_written (at_count v c) = count_written c"
  "inlatch (at_count v c) = inlatch c" "next_change_time (at_count v c) = next_change_time c"
  by (simp_all add: at_count_def top_count_def shown_def)

lemma at_count_ok [simp]: "v \<le> top_count c \<Longrightarrow> count_ok (at_count v c)"
  by (simp add: count_ok_def)

lemma at_own_count: "count_ok c \<Longrightarrow> at_count (count_binary c) c = c"
  by (simp add: at_count_def count_ok_def)

lemma shown_inj:
  assumes "v \<le> top_count c" "w \<le> top_count c"
  shows "shown c v = shown c w \<longleftrightarrow> v = w"
  using assms by (metis from_to_bcd shown_def top_count_def)

lemma to_bcd_small: "to_bcd 0 = 0" "to_bcd 1 = 1" "to_bcd 2 = 2"
  by (simp_all only: word_unat_eq_iff unat_to_bcd) simp_all

lemma shown_small:
  assumes "v \<le> top_count c"
  shows "shown c v = 0 \<longleftrightarrow> v = 0" "shown c v = 1 \<longleftrightarrow> v = 1" "shown c v = 2 \<longleftrightarrow> v = 2"
proof -
  have "shown c 0 = 0" "shown c 1 = 1" "shown c 2 = 2"
    by (simp_all only: shown_def to_bcd_small if_cancel)
  moreover have "1 \<le> top_count c" "2 \<le> top_count c" by (simp_all add: top_count_def)
  ultimately show "shown c v = 0 \<longleftrightarrow> v = 0" "shown c v = 1 \<longleftrightarrow> v = 1" "shown c v = 2 \<longleftrightarrow> v = 2"
    by (metis shown_inj [OF assms] word_zero_le)+
qed

lemma decrement_at:
  assumes "count_ok c"
  shows "decrement c = at_count (if count_binary c = 0 then top_count c else count_binary c - 1) c"
proof -
  have v: "count_binary c \<le> top_count c" "count c = shown c (count_binary c)"
    using assms by (simp_all add: count_ok_def)
  have "to_bcd 9999 = 0x9999" by (simp only: word_unat_eq_iff unat_to_bcd) simp
  with v shown_small(1) [OF v(1)] show ?thesis
    by (simp add: decrement_def at_count_def set_count_to_binary_def shown_def top_count_def)
qed

lemma less_1_le_top:
  assumes "v \<le> top_count c" "v \<noteq> 0"
  shows "v - 1 \<le> top_count c"
  using assms by (simp add: word_le_nat_alt unat_minus_one)

lemma decrement_ok:
  assumes "count_ok c"
  shows "count_ok (decrement c)"
  using assms less_1_le_top [of "count_binary c" c] by (simp add: decrement_at count_ok_def [of c])

lemma unat_minus_of_nat:
  assumes "k \<le> unat (w :: Bit32u)"
  shows "unat (w - of_nat k) = unat w - k"
proof -
  have "unat (of_nat k :: Bit32u) = k"
    using assms unsigned_less [of w, where ?'a = nat] by (simp add: unat_of_nat)
  then show ?thesis using assms by (simp add: unat_sub word_le_nat_alt)
qed

lemma decrements:
  assumes "count_ok c" "k \<le> unat (count_binary c)"
  shows "(decrement ^^ k) c = at_count (count_binary c - of_nat k) c"
  using assms(2)
proof (induction k)
  case 0
  show ?case using at_own_count [OF assms(1)] by simp
next
  case (Suc k)
  have k: "unat (count_binary c - of_nat k) = unat (count_binary c) - k"
    using Suc.prems by (simp add: unat_minus_of_nat)
  have "count_binary c - of_nat k \<le> top_count c" "count_binary c - of_nat k \<noteq> 0"
    using k Suc.prems assms(1) by (auto simp: count_ok_def word_le_nat_alt unat_eq_0 [symmetric])
  then show ?case using Suc by (simp add: decrement_at algebra_simps)
qed

theorem decrement_multiple_is_decrements:
  assumes "count_ok c"
  shows "decrement_multiple c n = (decrement ^^ unat n) c"
  using assms
proof (induction c n rule: decrement_multiple.induct)
  case (1 c n)
  have cb: "count_binary c = of_nat (unat (count_binary c))" by simp
  consider "n = 0" | "n \<noteq> 0" "n \<le> count_binary c" | "n \<noteq> 0" "\<not> n \<le> count_binary c" by blast
  then show ?case
  proof cases
    case 1
    then show ?thesis by (subst decrement_multiple.simps) simp
  next
    case 2
    then show ?thesis using decrements [OF "1.prems", of "unat n"]
      by (simp add: decrement_multiple.simps [of c n] word_le_nat_alt set_count_to_binary_def at_count_def shown_def)
  next
    case 3
    let ?k = "unat (count_binary c)"
    have z: "set_count_to_binary (c\<lparr>count_binary := 0\<rparr>) = (decrement ^^ ?k) c"
      using decrements [OF "1.prems", of ?k] by (simp add: set_count_to_binary_def at_count_def shown_def)
    have lt: "?k < unat n" using 3 by (simp add: word_le_nat_alt)
    have n: "unat (n - (count_binary c + 1)) = unat n - (?k + 1)"
    proof -
      have "unat (count_binary c + 1) = ?k + 1"
        using lt unsigned_less [of n, where ?'a = nat] by (simp add: unat_word_ariths)
      then show ?thesis using lt by (simp add: unat_sub word_le_nat_alt)
    qed
    have ok: "count_ok (decrement (set_count_to_binary (c\<lparr>count_binary := 0\<rparr>)))"
      using z decrements [OF "1.prems", of ?k] by (simp add: decrement_ok)
    have "decrement_multiple c n = (decrement ^^ (unat n - (?k + 1))) (decrement ((decrement ^^ ?k) c))"
      using 3 "1.IH" [OF 3 ok] by (simp add: decrement_multiple.simps [of c n] n z)
    also have "\<dots> = (decrement ^^ (unat n - (?k + 1) + Suc ?k)) c" by (simp only: funpow_add funpow.simps o_apply)
    finally show ?thesis using lt by simp
  qed
qed

section \<open>When the next change is announced\<close>

text \<open>
  \<open>sync c\<close> says that \<open>next_change_time\<close> is right: the counter reloads at the next
  tick, or it counts and the announced tick is the one that changes its output or reloads it.
  \<open>latch_ok\<close> holds of the counts for which it stays right: those of decimal digits in decimal, not
  1 in mode 2 nor 0 in its decimal form, even and not 0 in mode 3. An odd count in mode 3 is
  legal, but there the batches go wrong.
\<close>

definition latched :: "counter_type \<Rightarrow> Bit32u" where
  "latched c = (if bcd_mode c then from_bcd (ucast (inlatch c)) else ucast (inlatch c))"

definition latch_ok :: "counter_type \<Rightarrow> bool" where
  "latch_ok c \<longleftrightarrow> latched c \<le> top_count c \<and> ucast (inlatch c) = shown c (latched c) \<and>
     (pit_mode c = 2 \<longrightarrow> latched c \<noteq> 1 \<and> (bcd_mode c \<longrightarrow> latched c \<noteq> 0)) \<and>
     (pit_mode c = 3 \<longrightarrow> inlatch c AND 1 = 0 \<and> even (unat (latched c)) \<and> latched c \<noteq> 0)"

definition reload :: "counter_type \<Rightarrow> bool" where
  "reload c \<longleftrightarrow>
     (if pit_mode c = 0 \<or> pit_mode c = 4 then null_count c
      else if pit_mode c = 2 then triggerGATE c \<or> first_pass c
      else if pit_mode c = 3 then triggerGATE c \<or> first_pass c \<or> state_bit_2 c
      else triggerGATE c)"

definition half_left :: "Bit32u \<Rightarrow> Bit32u" where
  "half_left v = (if v div 2 - 1 = 0 then 1 else v div 2 - 1)"

definition running :: "counter_type \<Rightarrow> bool" where
  "running c \<longleftrightarrow> \<not> triggerGATE c \<and> count_ok c \<and>
     (let v = count_binary c; t = next_change_time c in
      if pit_mode c \<le> 1 then (if OUTpin c then t = 0 \<or> t = 1 else t = until_zero c)
      else if pit_mode c = 2 then
        t = (if v = 0 then 0xFFFF else v - 1) \<and> v \<noteq> 1 \<and> (v = 0 \<longrightarrow> \<not> bcd_mode c)
      else if pit_mode c = 3 then \<not> state_bit_1 c \<and> even (unat v) \<and> v \<noteq> 0 \<and> t = half_left v
      else if \<not> OUTpin c then \<not> first_pass c \<and> t = 1
      else if first_pass c then t = until_zero c
      else t = 0 \<or> t = 1)"

definition sync :: "counter_type \<Rightarrow> bool" where
  "sync c \<longleftrightarrow> pit_mode c \<le> 5 \<and> GATE c \<and> write_state c \<noteq> MSByte_multiple \<and> count_written c \<and> latch_ok c \<and>
     (if reload c then next_change_time c = 1 \<and> (pit_mode c = 0 \<longrightarrow> \<not> OUTpin c) else running c)"

definition count_step :: "counter_type \<Rightarrow> counter_type" where
  "count_step c = (if pit_mode c = 3 then decrement (decrement c) else decrement c)"

lemma and_FFFF:
  fixes v :: Bit32u
  assumes "v \<le> 0xFFFF"
  shows "v AND 0xFFFF = v"
proof -
  have "v AND 0xFFFF = take_bit 16 v" by (simp add: take_bit_eq_mask mask_eq_exp_minus_1)
  also have "\<dots> = v" using assms by (intro word_take_bit_self) (simp add: word_le_nat_alt)
  finally show ?thesis .
qed

lemma top_le: "v \<le> top_count c \<Longrightarrow> v \<le> 0xFFFF"
  by (auto simp: top_count_def word_le_nat_alt split: if_splits)

lemma latch_and_FFFF: "(ucast w :: Bit32u) AND 0xFFFF = ucast (w :: Bit16u)"
proof (rule and_FFFF)
  have "unat w \<le> 0xFFFF" using unsigned_less [of w, where ?'a = nat] by simp
  then show "(ucast w :: Bit32u) \<le> 0xFFFF" by (simp add: word_le_nat_alt unsigned_ucast_eq take_bit_nat_eq_self)
qed

lemma set_count_latch:
  assumes "latch_ok c"
  shows "set_count (ucast (inlatch c)) c = at_count (latched c) c"
  using assms
  by (simp add: latch_ok_def set_count_def set_binary_to_count_def latched_def at_count_def latch_and_FFFF
      split del: if_split cong: if_cong)

lemma even_latch:
  assumes "w AND 1 = 0"
  shows "w AND 0xFFFE = (w :: Bit16u)"
proof -
  have "(0xFFFE OR 1 :: Bit16u) = - 1" by simp
  then have "w = w AND (0xFFFE OR 1)" by (simp only: and.right_neutral)
  also have "\<dots> = (w AND 0xFFFE) OR (w AND 1)" by (rule bit.conj_disj_distrib)
  finally show ?thesis using assms by simp
qed

lemma until_zero_at: "count_ok c \<Longrightarrow> until_zero c = (if count_binary c = 0 then 1 else count_binary c)"
  using and_FFFF [OF top_le, of "count_binary c" c] by (simp add: until_zero_def count_ok_def)

text \<open>The announced time plays no part in a tick, which sets it anew.\<close>

lemma set_next_fields [simp]:
  "GATE (set_next t c) = GATE c" "OUTpin (set_next t c) = OUTpin c" "count (set_next t c) = count c"
  "inlatch (set_next t c) = inlatch c" "pit_mode (set_next t c) = pit_mode c" "bcd_mode (set_next t c) = bcd_mode c"
  "null_count (set_next t c) = null_count c" "count_binary (set_next t c) = count_binary c"
  "triggerGATE (set_next t c) = triggerGATE c" "write_state (set_next t c) = write_state c"
  "count_written (set_next t c) = count_written c" "first_pass (set_next t c) = first_pass c"
  "state_bit_1 (set_next t c) = state_bit_1 c" "state_bit_2 (set_next t c) = state_bit_2 c"
  "next_change_time (set_next t c) = t" "set_next t (set_next u c) = set_next t c"
  "until_zero (set_next t c) = until_zero c" "count_ok (set_next t c) = count_ok c"
  "top_count (set_next t c) = top_count c" "shown (set_next t c) = shown c"
  by (simp_all add: set_next_def until_zero_def count_ok_def top_count_def shown_def fun_eq_iff)

lemma set_next_outward:
  "set_count v (set_next t c) = set_next t (set_count v c)"
  "decrement (set_next t c) = set_next t (decrement c)"
  "set_OUT b (set_next t c) = set_next t (set_OUT b c)"
  "at_count v (set_next t c) = set_next t (at_count v c)"
  "(set_next t c)\<lparr>null_count := b\<rparr> = set_next t (c\<lparr>null_count := b\<rparr>)"
  "(set_next t c)\<lparr>first_pass := b\<rparr> = set_next t (c\<lparr>first_pass := b\<rparr>)"
  "(set_next t c)\<lparr>state_bit_1 := b\<rparr> = set_next t (c\<lparr>state_bit_1 := b\<rparr>)"
  "(set_next t c)\<lparr>state_bit_2 := b\<rparr> = set_next t (c\<lparr>state_bit_2 := b\<rparr>)"
  "(set_next t c)\<lparr>triggerGATE := b\<rparr> = set_next t (c\<lparr>triggerGATE := b\<rparr>)"
  by (simp_all add: set_next_def set_count_def set_binary_to_count_def decrement_def set_count_to_binary_def
      set_OUT_def at_count_def shown_def)

lemma mode_ignores_next:
  "clock_mode0 (set_next t c) = clock_mode0 c" "clock_mode1 (set_next t c) = clock_mode1 c"
  "clock_mode2 (set_next t c) = clock_mode2 c" "strobe_count (set_next t c) = strobe_count c"
  by (simp_all add: clock_mode0_def clock_mode1_def clock_mode2_def strobe_count_def Let_def set_next_outward)

lemma clock_ignores_next: "clock (set_next t c) = clock c"
proof -
  have "clock_mode3 (set_next t c) = clock_mode3 c"
    by (auto simp add: clock_mode3_def Let_def set_next_outward)
  moreover have "clock_mode4 (set_next t c) = clock_mode4 c" "clock_mode5 (set_next t c) = clock_mode5 c"
    by (simp_all add: clock_mode4_def clock_mode5_def Let_def set_next_outward mode_ignores_next)
  ultimately show ?thesis
    by (simp add: clock_def Let_def set_next_outward mode_ignores_next)
qed

section \<open>Ticks of a counter that is in step\<close>

lemma countdown:
  assumes "count_ok c" "count_binary c \<noteq> 0"
  shows "decrement c = at_count (count_binary c - 1) c" "(count_binary c - 1) AND 0xFFFF = count_binary c - 1"
    "shown c (count_binary c - 1) = 0 \<longleftrightarrow> count_binary c = 1"
    "shown c (count_binary c - 1) = 1 \<longleftrightarrow> count_binary c = 2"
    "count_binary c - 1 \<le> top_count c"
proof -
  have v: "count_binary c - 1 \<le> top_count c"
    using assms less_1_le_top by (simp add: count_ok_def)
  then show "count_binary c - 1 \<le> top_count c" "(count_binary c - 1) AND 0xFFFF = count_binary c - 1"
    using and_FFFF [OF top_le] by auto
  show "decrement c = at_count (count_binary c - 1) c" using decrement_at [OF assms(1)] assms(2) by simp
  show "shown c (count_binary c - 1) = 0 \<longleftrightarrow> count_binary c = 1"
    "shown c (count_binary c - 1) = 1 \<longleftrightarrow> count_binary c = 2"
    using shown_small(1, 2) [OF v] by (simp_all add: diff_eq_eq)
qed

lemmas clock_modes = clock_def clock_mode0_def clock_mode1_def clock_mode2_def clock_mode3_def clock_mode4_def
  clock_mode5_def strobe_count_def set_OUT_def

lemma quiet_tick_01:
  assumes "sync c" "\<not> reload c" "1 < next_change_time c" "pit_mode c \<le> 1"
  shows "clock c = set_next (next_change_time c - 1) (decrement c) \<and> running (clock c)"
proof -
  have r: "\<not> OUTpin c" "next_change_time c = until_zero c" "count_ok c" "\<not> triggerGATE c"
    using assms by (auto simp: sync_def running_def Let_def split: if_splits)
  then have v: "next_change_time c = count_binary c" "count_binary c \<noteq> 0" "count_binary c \<noteq> 1"
    using assms(3) by (auto simp: until_zero_at split: if_splits)
  note cd = countdown [OF r(3) v(2)]
  have t: "(at_count (count_binary c - 1) c)\<lparr>triggerGATE := False\<rparr> = at_count (count_binary c - 1) c"
    using r(4) by (simp add: at_count_def)
  have "clock c = set_next (next_change_time c - 1) (decrement c)"
    using assms r v cd
    by (auto simp: clock_modes Let_def sync_def reload_def t until_zero_at set_next_outward)
  moreover have "running (set_next (next_change_time c - 1) (decrement c))"
    using assms r v cd by (auto simp: running_def Let_def until_zero_at)
  ultimately show ?thesis by simp
qed

lemma no_trigger: "\<not> triggerGATE c \<Longrightarrow> (at_count v c)\<lparr>triggerGATE := False\<rparr> = at_count v c"
  by (simp add: at_count_def)

lemma quiet_tick_2:
  assumes "sync c" "\<not> reload c" "1 < next_change_time c" "pit_mode c = 2"
  shows "clock c = set_next (next_change_time c - 1) (decrement c) \<and> running (clock c)"
proof -
  let ?v = "count_binary c"
  have r: "count_ok c" "\<not> triggerGATE c" "\<not> first_pass c" "next_change_time c = (if ?v = 0 then 0xFFFF else ?v - 1)"
      "?v \<noteq> 1" "?v = 0 \<longrightarrow> \<not> bcd_mode c"
    using assms by (auto simp: sync_def running_def reload_def Let_def)
  show ?thesis
  proof (cases "?v = 0")
    case True
    then have d: "decrement c = at_count 0xFFFF c" "shown c 0xFFFF \<noteq> 1"
      using decrement_at [OF r(1)] r(6) by (simp_all add: top_count_def shown_def)
    with assms r True have "clock c = set_next (next_change_time c - 1) (decrement c)"
      by (auto simp: clock_modes Let_def sync_def reload_def no_trigger set_next_outward)
    moreover have "running (set_next (next_change_time c - 1) (decrement c))"
      using assms r d True by (auto simp: running_def Let_def top_count_def)
    ultimately show ?thesis by simp
  next
    case False
    have v: "?v \<noteq> 2" using assms(3) r(4) False by auto
    note cd = countdown [OF r(1) False]
    have w: "?v - 1 - 1 AND 0xFFFF = ?v - 1 - 1"
    proof -
      have "?v - 1 \<noteq> 0" using r(5) by (simp add: diff_eq_eq)
      then show ?thesis using and_FFFF [OF top_le [OF less_1_le_top [OF cd(5)]]] by simp
    qed
    have "clock c = set_next (next_change_time c - 1) (decrement c)"
      using assms r v cd w False
      by (auto simp: clock_modes Let_def sync_def reload_def no_trigger set_next_outward)
    moreover have "running (set_next (next_change_time c - 1) (decrement c))"
      using assms r v cd False by (auto simp: running_def Let_def diff_eq_eq)
    ultimately show ?thesis by simp
  qed
qed

lemma quiet_tick_45:
  assumes "sync c" "\<not> reload c" "1 < next_change_time c" "4 \<le> pit_mode c"
  shows "clock c = set_next (next_change_time c - 1) (decrement c) \<and> running (clock c)"
proof -
  have r: "OUTpin c" "first_pass c" "next_change_time c = until_zero c" "count_ok c" "\<not> triggerGATE c"
    using assms by (auto simp: sync_def running_def Let_def split: if_splits)
  then have v: "next_change_time c = count_binary c" "count_binary c \<noteq> 0" "count_binary c \<noteq> 1"
    using assms(3) by (auto simp: until_zero_at split: if_splits)
  note cd = countdown [OF r(4) v(2)]
  have "clock c = set_next (next_change_time c - 1) (decrement c)"
    using assms r v cd
    by (auto simp: clock_modes Let_def sync_def reload_def no_trigger set_next_outward split: if_splits)
  moreover have "running (set_next (next_change_time c - 1) (decrement c))"
    using assms r v cd by (auto simp: running_def Let_def until_zero_at)
  ultimately show ?thesis by simp
qed

lemma two_le_even:
  assumes "even (unat v)" "v \<noteq> 0"
  shows "2 \<le> unat v"
proof -
  have "unat v \<noteq> 0" "unat v \<noteq> 1" using assms by (auto simp: unat_eq_0)
  then show ?thesis by linarith
qed

lemma decrement_2:
  assumes "count_ok c" "even (unat (count_binary c))" "count_binary c \<noteq> 0"
  shows "decrement (decrement c) = at_count (count_binary c - 2) c" "count_binary c - 2 \<le> top_count c"
    "unat (count_binary c - 2) = unat (count_binary c) - 2"
    "unat ((count_binary c - 2) div 2) = unat (count_binary c) div 2 - 1"
proof -
  let ?v = "count_binary c"
  note cd = countdown [OF assms(1, 3)]
  have "unat ?v \<noteq> 1" using assms(2) by auto
  then have v: "2 \<le> unat ?v" "?v - 1 \<noteq> 0"
    using assms(3) by (auto simp: unat_eq_0 [symmetric] unat_minus_one)
  have "count_ok (decrement c)" using decrement_ok [OF assms(1)] .
  from countdown(1, 5) [OF this] cd(1) v show "decrement (decrement c) = at_count (?v - 2) c" "?v - 2 \<le> top_count c"
    by simp_all
  show w: "unat (?v - 2) = unat ?v - 2" using v(1) by (simp add: unat_sub word_le_nat_alt)
  show "unat ((?v - 2) div 2) = unat ?v div 2 - 1" unfolding unat_div_distrib w by simp
qed

lemma half_and_FFFF: "v \<le> top_count c \<Longrightarrow> v div 2 AND 0xFFFF = v div 2"
  using top_le [of v c] by (intro and_FFFF) (auto simp: word_le_nat_alt unat_div_distrib intro: le_trans [OF div_le_dividend])

lemma unat_half_left:
  assumes "2 \<le> unat v"
  shows "unat (half_left v) = (if unat v div 2 = 1 then 1 else unat v div 2 - 1)"
proof -
  have "unat (v div 2) = unat v div 2" by (simp add: unat_div_distrib)
  moreover have "1 \<le> unat v div 2" using assms by simp
  moreover from calculation have "unat (v div 2 - 1) = unat v div 2 - 1" by (simp add: unat_sub word_le_nat_alt)
  ultimately show ?thesis by (auto simp: half_left_def unat_eq_0 [symmetric])
qed

lemma quiet_tick_3:
  assumes "sync c" "\<not> reload c" "1 < next_change_time c" "pit_mode c = 3"
  shows "clock c = set_next (next_change_time c - 1) (decrement (decrement c)) \<and> running (clock c)"
proof -
  let ?v = "count_binary c"
  have r: "count_ok c" "\<not> triggerGATE c" "\<not> first_pass c" "\<not> state_bit_1 c" "\<not> state_bit_2 c"
      "even (unat ?v)" "?v \<noteq> 0" "next_change_time c = half_left ?v"
    using assms by (auto simp: sync_def running_def reload_def Let_def)
  note d = decrement_2 [OF r(1, 6, 7)]
  have 2: "2 \<le> unat ?v" using two_le_even [OF r(6, 7)] .
  have 6: "6 \<le> unat ?v"
    using assms(3) r(6) unfolding r(8) by (auto simp: word_less_nat_alt unat_half_left [OF 2] split: if_splits)
  have n: "unat ((?v - 2) div 2 - 1) = unat ?v div 2 - 2"
    using 6 d(4) by (simp add: unat_sub word_le_nat_alt)
  have h: "unat (half_left ?v) = unat ?v div 2 - 1" using 6 unat_half_left [OF 2] by (simp split: if_splits)
  then have "unat (half_left ?v - 1) = unat ?v div 2 - 2"
    using 6 by (simp add: unat_sub word_le_nat_alt)
  moreover have "unat (half_left (?v - 2)) = unat ?v div 2 - 2"
    using 6 d(3) unat_half_left [of "?v - 2"] r(6) by (auto elim!: evenE)
  ultimately have t: "(?v - 2) div 2 - 1 = next_change_time c - 1" "half_left (?v - 2) = next_change_time c - 1"
    unfolding r(8) by (simp_all add: word_unat_eq_iff n)
  have nz: "?v - 2 \<noteq> 0" "?v - 2 \<noteq> 2" using 6 d(3) by (auto simp: word_unat_eq_iff)
  have m: "((?v - 2) div 2 - 1) AND 0xFFFF = (?v - 2) div 2 - 1"
    using n by (intro and_FFFF) (use unsigned_less [of ?v, where ?'a = nat] top_le [OF d(2)] in \<open>auto simp: word_le_nat_alt d(3)\<close>)
  have "clock c = set_next (next_change_time c - 1) (decrement (decrement c))"
    using assms r d nz m t shown_small(1, 3) [OF d(2)]
    by (auto simp: clock_modes Let_def sync_def reload_def no_trigger set_next_outward)
  moreover have "running (set_next (next_change_time c - 1) (decrement (decrement c)))"
    using assms r d nz t by (auto simp: running_def Let_def)
  ultimately show ?thesis by simp
qed

text \<open>The flags of a counter play no part in its counts.\<close>

lemma flags_irrelevant [simp]:
  "top_count (c\<lparr>null_count := b\<rparr>) = top_count c" "shown (c\<lparr>null_count := b\<rparr>) = shown c" "count_ok (c\<lparr>null_count := b\<rparr>) = count_ok c"
  "latched (c\<lparr>null_count := b\<rparr>) = latched c" "latch_ok (c\<lparr>null_count := b\<rparr>) = latch_ok c" "until_zero (c\<lparr>null_count := b\<rparr>) = until_zero c"
  "top_count (c\<lparr>first_pass := b\<rparr>) = top_count c" "shown (c\<lparr>first_pass := b\<rparr>) = shown c" "count_ok (c\<lparr>first_pass := b\<rparr>) = count_ok c"
  "latched (c\<lparr>first_pass := b\<rparr>) = latched c" "latch_ok (c\<lparr>first_pass := b\<rparr>) = latch_ok c" "until_zero (c\<lparr>first_pass := b\<rparr>) = until_zero c"
  "top_count (c\<lparr>triggerGATE := b\<rparr>) = top_count c" "shown (c\<lparr>triggerGATE := b\<rparr>) = shown c" "count_ok (c\<lparr>triggerGATE := b\<rparr>) = count_ok c"
  "latched (c\<lparr>triggerGATE := b\<rparr>) = latched c" "latch_ok (c\<lparr>triggerGATE := b\<rparr>) = latch_ok c" "until_zero (c\<lparr>triggerGATE := b\<rparr>) = until_zero c"
  "top_count (c\<lparr>OUTpin := b\<rparr>) = top_count c" "shown (c\<lparr>OUTpin := b\<rparr>) = shown c" "count_ok (c\<lparr>OUTpin := b\<rparr>) = count_ok c"
  "latched (c\<lparr>OUTpin := b\<rparr>) = latched c" "latch_ok (c\<lparr>OUTpin := b\<rparr>) = latch_ok c" "until_zero (c\<lparr>OUTpin := b\<rparr>) = until_zero c"
  "top_count (c\<lparr>state_bit_1 := b\<rparr>) = top_count c" "shown (c\<lparr>state_bit_1 := b\<rparr>) = shown c" "count_ok (c\<lparr>state_bit_1 := b\<rparr>) = count_ok c"
  "latched (c\<lparr>state_bit_1 := b\<rparr>) = latched c" "latch_ok (c\<lparr>state_bit_1 := b\<rparr>) = latch_ok c" "until_zero (c\<lparr>state_bit_1 := b\<rparr>) = until_zero c"
  "top_count (c\<lparr>state_bit_2 := b\<rparr>) = top_count c" "shown (c\<lparr>state_bit_2 := b\<rparr>) = shown c" "count_ok (c\<lparr>state_bit_2 := b\<rparr>) = count_ok c"
  "latched (c\<lparr>state_bit_2 := b\<rparr>) = latched c" "latch_ok (c\<lparr>state_bit_2 := b\<rparr>) = latch_ok c" "until_zero (c\<lparr>state_bit_2 := b\<rparr>) = until_zero c"
  by (simp_all add: top_count_def shown_def count_ok_def latched_def latch_ok_def until_zero_def fun_eq_iff)

lemma latch_unchanged [simp]:
  "latched (set_next t c) = latched c" "latch_ok (set_next t c) = latch_ok c"
  "latched (at_count v c) = latched c" "latch_ok (at_count v c) = latch_ok c"
  by (simp_all add: latched_def latch_ok_def)

lemma sync_base:
  "sync c \<Longrightarrow> pit_mode c \<le> 5" "sync c \<Longrightarrow> GATE c" "sync c \<Longrightarrow> write_state c \<noteq> MSByte_multiple"
  "sync c \<Longrightarrow> count_written c" "sync c \<Longrightarrow> latch_ok c"
  by (simp_all add: sync_def)

lemma undisturbed_tick:
  assumes "sync c" "1 < next_change_time c"
  shows "clock c = set_next (next_change_time c - 1) (count_step c)" "sync (clock c)"
proof -
  have n: "\<not> reload c" using assms by (auto simp: sync_def)
  consider "pit_mode c \<le> 1" | "pit_mode c = 2" | "pit_mode c = 3" | "4 \<le> pit_mode c" by linarith
  then have t: "clock c = set_next (next_change_time c - 1) (count_step c) \<and> running (clock c)"
    using quiet_tick_01 [OF assms(1) n assms(2)] quiet_tick_2 [OF assms(1) n assms(2)]
      quiet_tick_3 [OF assms(1) n assms(2)] quiet_tick_45 [OF assms(1) n assms(2)]
    by cases (simp_all only: count_step_def if_True if_False simp_thms, auto)
  then show "clock c = set_next (next_change_time c - 1) (count_step c)" by blast
  have "count_ok c" using assms(1) n by (simp add: sync_def running_def)
  then have "\<exists>v. count_step c = at_count v c"
    unfolding count_step_def using decrement_at [of c] decrement_at [OF decrement_ok, of c] by auto
  then obtain v where v: "clock c = set_next (next_change_time c - 1) (at_count v c)" using t by auto
  have "\<not> reload (clock c)" "latch_ok (clock c)" using n sync_base(5) [OF assms(1)] unfolding v
    by (simp_all only: reload_def set_next_fields at_count_fields latch_unchanged not_False_eq_True)
  moreover have "pit_mode (clock c) \<le> 5" "GATE (clock c)" "write_state (clock c) \<noteq> MSByte_multiple" "count_written (clock c)"
    using sync_base(1-4) [OF assms(1)] unfolding v by simp_all
  moreover have "running (clock c)" using t by blast
  ultimately show "sync (clock c)" by (simp only: sync_def if_False simp_thms)
qed

lemma reload_tick:
  assumes "sync c" "reload c"
  shows "sync (clock c)"
proof -
  have b: "GATE c" "count_written c" "latch_ok c" "write_state c \<noteq> MSByte_multiple" "pit_mode c \<le> 5"
    using assms(1) by (simp_all add: sync_def)
  have l: "latched c \<le> top_count c" using b(3) by (simp add: latch_ok_def)
  have o: "latch_ok (c\<lparr>OUTpin := True\<rparr>)" using b(3) by simp
  note set_count_latch [OF b(3), simp] set_count_latch [OF o, simplified, simp]
  consider "pit_mode c = 0" | "pit_mode c = 1" | "pit_mode c = 2" | "pit_mode c = 3" 
    | "pit_mode c = 4" | "pit_mode c = 5"
    using b(5) by linarith
  then show ?thesis
  proof cases
    case 1
    with assms b l show ?thesis
      by (simp add: clock_modes Let_def sync_def reload_def running_def)
  next
    case 2
    with assms b l show ?thesis
      by (simp add: clock_modes Let_def sync_def reload_def running_def)
  next
    case 3
    have "latched c \<noteq> 1" "latched c = 0 \<longrightarrow> \<not> bcd_mode c" using b(3) 3 by (auto simp: latch_ok_def)
    moreover have "(latched c - 1) AND 0xFFFF = (if latched c = 0 then 0xFFFF else latched c - 1)"
      using and_FFFF [OF top_le [OF less_1_le_top [OF l]]] by simp
    ultimately show ?thesis using 3 assms b l
      by (simp add: clock_modes Let_def sync_def reload_def running_def)
  next
    case 4
    have v: "even (unat (latched c))" "latched c \<noteq> 0" "inlatch c AND 1 = 0"
      using b(3) 4 by (simp_all add: latch_ok_def)
    have "latched c div 2 - 1 AND 0xFFFF = latched c div 2 - 1"
    proof -
      have "2 \<le> unat (latched c)" using v(1, 2) two_le_even by blast
      then have "unat (latched c div 2 - 1) = unat (latched c) div 2 - 1"
        by (simp add: unat_sub word_le_nat_alt unat_div_distrib)
      moreover have "unat (latched c) \<le> 0xFFFF" using top_le [OF l] by (simp add: word_le_nat_alt)
      ultimately show ?thesis by (intro and_FFFF) (simp add: word_le_nat_alt)
    qed
    with v show ?thesis using 4 assms b l
      by (simp add: clock_modes Let_def sync_def reload_def running_def even_latch half_left_def)
  next
    case 5
    with assms b l show ?thesis
      by (cases "OUTpin c") (simp_all add: clock_modes Let_def sync_def reload_def running_def)
  next
    case 6
    with assms b l show ?thesis
      by (cases "OUTpin c") (simp_all add: clock_modes Let_def sync_def reload_def running_def)
  qed
qed

text \<open>A counter that announces nothing only counts.\<close>

lemma idle_tick:
  assumes "sync c" "\<not> reload c" "pit_mode c \<le> 1 \<or> 4 \<le> pit_mode c" "OUTpin c"
    "pit_mode c \<le> 1 \<or> \<not> first_pass c"
  shows "clock c = set_next 0 (decrement c) \<and> sync (clock c)"
proof -
  have r: "count_ok c" "\<not> triggerGATE c" using assms(1, 2) by (simp_all add: sync_def running_def)
  obtain v where v: "decrement c = at_count v c" "v \<le> top_count c"
    using decrement_at [OF r(1)] less_1_le_top [of "count_binary c" c] r(1) by (auto simp: count_ok_def split: if_splits)
  have m: "pit_mode c = 0 \<or> pit_mode c = 1 \<or> pit_mode c = 4 \<or> pit_mode c = 5"
    using assms(3) sync_base(1) [OF assms(1)] by linarith
  have "clock c = set_next 0 (decrement c)"
    using m assms(2, 4, 5) r v(1) sync_base [OF assms(1)]
    by (elim disjE) (simp_all add: clock_modes Let_def reload_def no_trigger set_next_outward)
  moreover have "\<not> reload (set_next 0 (decrement c))"
    using assms(2) unfolding v(1) by (simp_all only: reload_def set_next_fields at_count_fields not_False_eq_True)
  moreover have "running (set_next 0 (decrement c))"
    using assms(3-5) r v by (auto simp: running_def Let_def)
  ultimately show ?thesis using sync_base [OF assms(1)] v(1) by (simp add: sync_def)
qed

lemma decremented:
  assumes "count_ok c"
  obtains v where "decrement c = at_count v c" "v \<le> top_count c" "v AND 0xFFFF = v"
    "shown c v = 0 \<longleftrightarrow> v = 0" "count_binary c = 0 \<Longrightarrow> v = top_count c" "count_binary c \<noteq> 0 \<Longrightarrow> v = count_binary c - 1"
proof -
  let ?v = "if count_binary c = 0 then top_count c else count_binary c - 1"
  have le: "?v \<le> top_count c" using assms less_1_le_top by (simp add: count_ok_def)
  show thesis
    by (rule that [of ?v]) (use decrement_at [OF assms] le and_FFFF [OF top_le [OF le]] shown_small(1) [OF le] in simp_all)
qed

lemma change_tick_01:
  assumes "sync c" "\<not> reload c" "pit_mode c \<le> 1" "\<not> OUTpin c" "next_change_time c = 1"
  shows "sync (clock c)"
proof -
  have r: "count_ok c" "\<not> triggerGATE c" using assms(1, 2) by (simp_all add: sync_def running_def)
  obtain v where v: "decrement c = at_count v c" "v \<le> top_count c" "v AND 0xFFFF = v" "shown c v = 0 \<longleftrightarrow> v = 0"
      "count_binary c = 0 \<Longrightarrow> v = top_count c" "count_binary c \<noteq> 0 \<Longrightarrow> v = count_binary c - 1"
    using decremented [OF r(1)] by blast
  consider "pit_mode c = 0" | "pit_mode c = 1" using assms(3) by linarith
  then show ?thesis
  proof cases
    case 1
    with assms(2, 4) r v(1-4) sync_base [OF assms(1)] show ?thesis
      by (cases "v = 0") (simp_all add: clock_modes Let_def sync_def reload_def running_def until_zero_at)
  next
    case 2
    with assms(2, 4) r v(1-4) sync_base [OF assms(1)] show ?thesis
      by (cases "v = 0") (simp_all add: clock_modes Let_def sync_def reload_def running_def until_zero_at)
  qed
qed

lemma change_tick_2:
  assumes "sync c" "\<not> reload c" "pit_mode c = 2" "next_change_time c = 1"
  shows "sync (clock c)"
proof -
  have r: "count_ok c" "\<not> triggerGATE c" "\<not> first_pass c" "count_binary c = 2"
    using assms by (auto simp: sync_def running_def reload_def Let_def diff_eq_eq split: if_splits)
  have d: "decrement c = at_count 1 c" "shown c 1 = 1"
    using countdown(1) [OF r(1)] r(4) shown_small(2) [of 1 c] by (auto simp: top_count_def)
  with assms(2, 3) r sync_base [OF assms(1)] show ?thesis
    by (simp add: clock_modes Let_def sync_def reload_def)
qed

lemma change_tick_3:
  assumes "sync c" "\<not> reload c" "pit_mode c = 3" "next_change_time c = 1"
  shows "sync (clock c)"
proof -
  let ?v = "count_binary c"
  have r: "count_ok c" "\<not> triggerGATE c" "\<not> first_pass c" "\<not> state_bit_1 c" "\<not> state_bit_2 c"
      "even (unat ?v)" "?v \<noteq> 0" "half_left ?v = 1"
    using assms by (auto simp: sync_def running_def reload_def Let_def)
  note d = decrement_2 [OF r(1, 6, 7)]
  have "unat (half_left ?v) = 1" using r(8) by simp
  moreover obtain k where k: "unat ?v = 2 * k" using r(6) by (rule evenE)
  then have h: "unat ?v div 2 = k" by simp
  ultimately have "(if k = 1 then 1 else k - 1) = 1"
    using unat_half_left [OF two_le_even [OF r(6, 7)]] unfolding h by metis
  then have "k = 1 \<or> k - 1 = 1" by (metis (full_types))
  then have "unat ?v = 2 \<or> unat ?v = 4" using k by arith
  then have "unat (?v - 2) = 0 \<or> unat (?v - 2) = unat (2 :: Bit32u)" using d(3) by auto
  then have "?v - 2 = 0 \<or> ?v - 2 = 2" by (simp only: word_unat_eq_iff unat_0)
  then have z: "shown c (?v - 2) = 0 \<or> shown c (?v - 2) = 2" using shown_small(1, 3) [OF d(2)] by blast
  obtain w where w: "?v - 2 = w" by blast
  have n: "\<exists>t. clock_mode3 c = set_next 1 ((set_next t (at_count w c))\<lparr>state_bit_2 := True\<rparr>)"
    using z r(2-5) d(1) sync_base [OF assms(1)] unfolding w
    by (elim disjE) (simp_all add: clock_mode3_def Let_def set_next_outward)
  then obtain t where t: "clock_mode3 c = set_next 1 ((set_next t (at_count w c))\<lparr>state_bit_2 := True\<rparr>)" ..
  show ?thesis using assms(3) sync_base [OF assms(1)]
    by (simp add: clock_def t sync_def reload_def)
qed

lemma decrement_OUT [simp]: "decrement (c\<lparr>OUTpin := b\<rparr>) = (decrement c)\<lparr>OUTpin := b\<rparr>"
  by (simp add: decrement_def set_count_to_binary_def)

lemma change_tick_45:
  assumes "sync c" "\<not> reload c" "4 \<le> pit_mode c" "next_change_time c = 1"
  shows "sync (clock c)"
proof -
  have r: "count_ok c" "\<not> triggerGATE c" "\<not> OUTpin c \<longrightarrow> \<not> first_pass c"
    using assms by (auto simp: sync_def running_def Let_def split: if_splits)
  obtain v where v: "decrement c = at_count v c" "v \<le> top_count c" "v AND 0xFFFF = v" "shown c v = 0 \<longleftrightarrow> v = 0"
    using decremented [OF r(1)] by blast
  consider "pit_mode c = 4" | "pit_mode c = 5" using assms(1, 3) unfolding sync_def by linarith
  then show ?thesis
  proof cases
    case 1
    with assms(2) r v sync_base [OF assms(1)] show ?thesis
      by (cases "v = 0"; cases "OUTpin c"; cases "first_pass c")
        (simp_all add: clock_modes Let_def sync_def reload_def running_def until_zero_at)
  next
    case 2
    with assms(2) r v sync_base [OF assms(1)] show ?thesis
      by (cases "v = 0"; cases "OUTpin c"; cases "first_pass c")
        (simp_all add: clock_modes Let_def sync_def reload_def running_def until_zero_at)
  qed
qed

lemma word_less_1: "1 < (t :: Bit32u) \<longleftrightarrow> t \<noteq> 0 \<and> t \<noteq> 1"
proof -
  have "unat t = 0 \<longleftrightarrow> t = 0" "unat t = 1 \<longleftrightarrow> t = 1" by (simp_all add: word_unat_eq_iff)
  then show ?thesis unfolding word_less_nat_alt by auto
qed

lemma idle_next:
  assumes "sync c" "next_change_time c = 0"
  shows "clock c = set_next 0 (decrement c)" "counting c" "pit_mode c \<noteq> 3" "sync (clock c)"
    "next_change_time (clock c) = 0" "count_ok c"
proof -
  have n: "\<not> reload c" and r: "running c" using assms by (auto simp: sync_def split: if_splits)
  have uz: "until_zero c \<noteq> 0" using r by (auto simp: running_def until_zero_at)
  have hl: "half_left v \<noteq> 0" for v by (simp add: half_left_def)
  from r assms(2) uz hl have k: "pit_mode c \<le> 1 \<or> 4 \<le> pit_mode c" "OUTpin c" "pit_mode c \<le> 1 \<or> \<not> first_pass c"
    by (auto simp: running_def Let_def split: if_splits)
  from idle_tick [OF assms(1) n k] show c: "clock c = set_next 0 (decrement c)" "sync (clock c)" by blast+
  then show "next_change_time (clock c) = 0" by simp
  show "counting c" "pit_mode c \<noteq> 3" using k(1) sync_base [OF assms(1)] by (auto simp: counting_def)
  show "count_ok c" using r by (simp add: running_def)
qed

lemma sync_clock:
  assumes "sync c"
  shows "sync (clock c)"
proof (cases "reload c")
  case True
  then show ?thesis using reload_tick [OF assms] by blast
next
  case False
  consider "next_change_time c = 0" | "next_change_time c = 1" | "1 < next_change_time c"
    using word_less_1 by blast
  then show ?thesis
  proof cases
    case 1
    then show ?thesis using idle_next(4) [OF assms] by blast
  next
    case 3
    then show ?thesis using undisturbed_tick(2) [OF assms] by blast
  next
    case 2
    consider "pit_mode c \<le> 1" "\<not> OUTpin c" | "pit_mode c = 2" | "pit_mode c = 3" | "4 \<le> pit_mode c"
      | "pit_mode c \<le> 1" "OUTpin c" by linarith
    then show ?thesis
      using change_tick_01 [OF assms False] change_tick_2 [OF assms False] change_tick_3 [OF assms False]
        change_tick_45 [OF assms False] idle_tick [OF assms False] 2
      by cases blast+
  qed
qed

lemma sync_clocks: "sync c \<Longrightarrow> sync ((clock ^^ k) c)"
  by (induction k) (simp_all add: sync_clock)

section \<open>A batch is its ticks\<close>

lemma decrement_fields [simp]: "next_change_time (decrement c) = next_change_time c" "pit_mode (decrement c) = pit_mode c"
  by (simp_all add: decrement_def set_count_to_binary_def)

lemma decrements_fields [simp]:
  "next_change_time ((decrement ^^ k) c) = next_change_time c" "pit_mode ((decrement ^^ k) c) = pit_mode c"
  by (induction k) simp_all

lemma count_steps: "(count_step ^^ k) c = (decrement ^^ (if pit_mode c = 3 then 2 * k else k)) c"
  by (induction k) (simp_all add: count_step_def)

lemma decrements_outward: "(decrement ^^ k) (set_next t c) = set_next t ((decrement ^^ k) c)"
  by (induction k) (simp_all add: set_next_outward)

lemma count_step_next: "count_step (set_next t c) = set_next t (count_step c)"
  by (simp add: count_step_def set_next_outward)

lemma quiet_run:
  assumes "sync c" "k < unat (next_change_time c)"
  shows "(clock ^^ k) c = set_next (next_change_time c - of_nat k) ((count_step ^^ k) c)"
  using assms(2)
proof (induction k)
  case 0
  show ?case by (simp add: set_next_def)
next
  case (Suc k)
  let ?d = "(clock ^^ k) c"
  have e: "?d = set_next (next_change_time c - of_nat k) ((count_step ^^ k) c)" using Suc by simp
  have "unat (next_change_time c - of_nat k) = unat (next_change_time c) - k"
    using Suc.prems by (simp add: unat_minus_of_nat)
  then have "1 < next_change_time ?d" using Suc.prems unfolding e by (simp add: word_less_nat_alt)
  then have "clock ?d = set_next (next_change_time ?d - 1) (count_step ?d)"
    by (rule undisturbed_tick(1) [OF sync_clocks [OF assms(1)]])
  also have "\<dots> = set_next (next_change_time c - of_nat k - 1) (count_step ((count_step ^^ k) c))"
    unfolding e count_step_next by simp
  finally show ?case by (simp add: diff_diff_eq add.commute)
qed

lemma ticks_counted_steps:
  assumes "count_ok c" "pit_mode c = 3 \<longrightarrow> unat n < 2 ^ 31"
  shows "decrement_multiple c (ticks_counted c n) = (count_step ^^ unat n) c"
proof -
  have "unat (ticks_counted c n) = (if pit_mode c = 3 then 2 * unat n else unat n)"
    using assms(2) by (simp add: ticks_counted_def unat_word_ariths)
  then show ?thesis
    using decrement_multiple_is_decrements [OF assms(1)] by (simp add: count_steps)
qed

lemma sync_next_bound:
  assumes "sync c" "pit_mode c = 3"
  shows "unat (next_change_time c) \<le> 0x8000"
proof (cases "reload c")
  case True
  then show ?thesis using assms by (simp add: sync_def)
next
  case False
  let ?v = "count_binary c"
  have r: "even (unat ?v)" "?v \<noteq> 0" "next_change_time c = half_left ?v" "?v \<le> top_count c"
    using assms False by (auto simp: sync_def running_def count_ok_def Let_def)
  have "unat ?v \<le> 0xFFFF" using top_le [OF r(4)] by (simp add: word_le_nat_alt)
  then have "unat ?v div 2 - 1 \<le> 0x8000" by linarith
  then show ?thesis unfolding r(3) unat_half_left [OF two_le_even [OF r(1, 2)]] by simp
qed

lemma idle_run:
  assumes "sync c" "next_change_time c = 0"
  shows "(clock ^^ k) c = set_next 0 ((decrement ^^ k) c) \<and> next_change_time ((clock ^^ k) c) = 0"
proof (induction k)
  case 0
  show ?case using assms(2) by (simp add: set_next_def)
next
  case (Suc k)
  then have n: "next_change_time ((clock ^^ k) c) = 0" by blast
  have "clock ((clock ^^ k) c) = set_next 0 (decrement ((clock ^^ k) c))"
    using idle_next(1) [OF sync_clocks [OF assms(1)] n] .
  then show ?case using Suc by (simp add: set_next_outward)
qed

lemma set_next_own: "next_change_time c = t \<Longrightarrow> set_next t c = c"
  by (auto simp: set_next_def)

lemma quiet_ok: "sync c \<Longrightarrow> 1 < next_change_time c \<Longrightarrow> count_ok c"
  by (auto simp: sync_def running_def split: if_splits)

lemma quiet_batch:
  assumes "sync c" "n < next_change_time c"
  shows "set_next (next_change_time c - n) (decrement_multiple c (ticks_counted c n)) = (clock ^^ unat n) c"
proof (cases "n = 0")
  case True
  then show ?thesis by (simp add: ticks_counted_def decrement_multiple.simps [of c 0] set_next_own)
next
  case False
  then have "1 < next_change_time c" "unat n < unat (next_change_time c)"
    using assms(2) unat_gt_0 [of n] by (auto simp: word_less_nat_alt)
  then have "decrement_multiple c (ticks_counted c n) = (count_step ^^ unat n) c"
    using ticks_counted_steps [of c n] quiet_ok [OF assms(1)] sync_next_bound [OF assms(1)] by fastforce
  then show ?thesis using quiet_run [OF assms(1), of "unat n"] assms(2) by (simp add: word_less_nat_alt)
qed

lemma clock_multiple_is_clocks:
  assumes "sync c"
  shows "clock_multiple c n = (clock ^^ unat n) c"
  using assms
proof (induction c n rule: clock_multiple.induct)
  case (1 c n)
  note sc = "1.prems"
  let ?t = "next_change_time c"
  have m: "pit_mode c \<le> 5" using sync_base(1) [OF sc] .
  consider "n = 0" | "n \<noteq> 0" "?t = 0" | "n \<noteq> 0" "?t \<noteq> 0" "n < ?t" | "n \<noteq> 0" "?t \<noteq> 0" "\<not> n < ?t" by blast
  then show ?case
  proof cases
    case 1
    then show ?thesis by (subst clock_multiple.simps) simp
  next
    case 2
    then have "clock_multiple c n = (decrement ^^ unat n) c"
      using idle_next(2, 3, 6) [OF sc 2(2)] ticks_counted_steps [of c n]
      by (subst clock_multiple.simps) (simp add: count_steps)
    then show ?thesis using idle_run [OF sc 2(2), of "unat n"] 2(2) by (simp add: set_next_own)
  next
    case 3
    let ?d = "decrement_multiple c (ticks_counted c n)"
    have q: "set_next (?t - n) ?d = (clock ^^ unat n) c" using quiet_batch [OF sc 3(3)] .
    have "1 < ?t" using 3(1, 3) unat_gt_0 [of n] by (auto simp: word_less_nat_alt)
    then have "next_change_time ?d = ?t"
      using decrement_multiple_is_decrements [OF quiet_ok [OF sc]] by simp
    then have "clock_multiple c n = set_next (?t - n) ?d"
      using 3 m by (subst clock_multiple.simps) (simp add: Let_def)
    then show ?thesis using q by simp
  next
    case 4
    let ?d = "decrement_multiple c (ticks_counted c (?t - 1))"
    have lt: "?t - 1 < ?t" "unat (?t - 1) = unat ?t - 1"
      using 4(2) by (simp_all add: word_less_nat_alt unat_minus_one unat_gt_0)
    have "clock ?d = clock ((clock ^^ (unat ?t - 1)) c)"
      using quiet_batch [OF sc lt(1)] clock_ignores_next lt(2) by metis
    also have "\<dots> = (clock ^^ Suc (unat ?t - 1)) c" by simp
    also have "Suc (unat ?t - 1) = unat ?t" using 4(2) unat_gt_0 [of ?t] by simp
    finally have d: "clock ?d = (clock ^^ unat ?t) c" .
    have "clock_multiple c n = clock_multiple (clock ?d) (n - ?t)"
      using 4 m by (subst clock_multiple.simps) simp
    also have "\<dots> = (clock ^^ unat (n - ?t)) ((clock ^^ unat ?t) c)"
      using "1.IH" [OF 4(1, 2) _ 4(3)] m sync_clocks [OF sc] unfolding d by simp
    also have "\<dots> = (clock ^^ (unat (n - ?t) + unat ?t)) c" by (simp add: funpow_add)
    also have "unat (n - ?t) + unat ?t = unat n"
      using unat_sub [of ?t n] 4(3) by (simp only: not_less word_le_nat_alt)
    finally show ?thesis .
  qed
qed

section \<open>A programmed counter\<close>

text \<open>A counter after the control word \<open>w\<close> for two-byte counts and the two bytes of its count.\<close>

definition programmed :: "Bit8u \<Rightarrow> Bit8u \<Rightarrow> Bit8u \<Rightarrow> counter_type \<Rightarrow> counter_type" where
  "programmed w low high c = write_counter high (write_counter low (program_counter w c))"

lemma write_first_byte:
  assumes "write_state d = LSByte_multiple" "pit_mode d \<noteq> 1" "pit_mode d \<noteq> 5"
  shows "\<exists>v. write_counter low d = set_next 1 ((if pit_mode d = 0 then set_OUT False else id)
      (d\<lparr>inlatch := v, write_state := MSByte_multiple\<rparr>))"
  using assms by (auto simp: write_counter_def write_byte_def Let_def)

lemma write_second_byte:
  assumes "write_state d = MSByte_multiple" "pit_mode d \<noteq> 1" "pit_mode d \<noteq> 5"
  shows "\<exists>v. write_counter high d = set_next 1 (d\<lparr>write_state := LSByte_multiple, inlatch := v, null_count := True,
      count_written := True\<rparr>)"
  using assms by (auto simp: write_counter_def write_byte_def Let_def)

lemma set_OUT_fields [simp]:
  "GATE (set_OUT b c) = GATE c" "pit_mode (set_OUT b c) = pit_mode c" "write_state (set_OUT b c) = write_state c"
  "first_pass (set_OUT b c) = first_pass c" "OUTpin (set_OUT b c) = b" "bcd_mode (set_OUT b c) = bcd_mode c"
  by (simp_all add: set_OUT_def)

lemma programmed_fields:
  assumes "drop_bit 4 w AND 3 = 3" "drop_bit 1 w AND 7 = M" "M \<in> {0, 2, 3, 4}"
  shows "GATE (programmed w low high c) = GATE c \<and> pit_mode (programmed w low high c) = unat M \<and>
    write_state (programmed w low high c) = LSByte_multiple \<and> count_written (programmed w low high c) \<and>
    null_count (programmed w low high c) \<and> first_pass (programmed w low high c) \<and>
    next_change_time (programmed w low high c) = 1 \<and> OUTpin (programmed w low high c) = (unat M \<noteq> 0) \<and>
    bcd_mode (programmed w low high c) = bit w 0"
proof -
  let ?p = "program_counter w c"
  have m: "unat M \<noteq> 1" "unat M \<noteq> 5" using assms(3) by auto
  have p: "write_state ?p = LSByte_multiple" "pit_mode ?p = unat M" "GATE ?p = GATE c" "first_pass ?p"
      "OUTpin ?p = (unat M \<noteq> 0)" "bcd_mode ?p = bit w 0"
    unfolding program_counter_def Let_def assms(1, 2) by (simp_all add: unat_eq_0)
  obtain u where u: "write_counter low ?p = set_next 1 ((if unat M = 0 then set_OUT False else id)
      (?p\<lparr>inlatch := u, write_state := MSByte_multiple\<rparr>))"
    using write_first_byte [of ?p low] p m by auto
  let ?q = "write_counter low ?p"
  have q: "write_state ?q = MSByte_multiple" "pit_mode ?q = unat M" "GATE ?q = GATE c" "first_pass ?q"
      "OUTpin ?q = (unat M \<noteq> 0)" "bcd_mode ?q = bit w 0"
    unfolding u using p by simp_all
  obtain v where v: "write_counter high ?q = set_next 1 (?q\<lparr>write_state := LSByte_multiple, inlatch := v,
      null_count := True, count_written := True\<rparr>)"
    using write_second_byte [of ?q high] q m by auto
  show ?thesis unfolding programmed_def v using q by simp
qed

lemma programmed_sync:
  assumes "GATE c" "drop_bit 4 w AND 3 = 3" "drop_bit 1 w AND 7 \<in> {0, 2, 3, 4}" "latch_ok (programmed w low high c)"
  shows "sync (programmed w low high c)"
proof -
  define M where "M = drop_bit 1 w AND 7"
  have M: "unat M = 0 \<or> unat M = 2 \<or> unat M = 3 \<or> unat M = 4"
    using assms(3) unfolding M_def [symmetric] by auto
  then show ?thesis
    using assms(1, 4) programmed_fields [OF assms(2) M_def [symmetric], of low high c] assms(3)
    unfolding M_def [symmetric] sync_def reload_def by auto
qed

text \<open>C39 Batches are ticks, within a scope: for a counter with its gate high that is programmed with a
  two-byte count in mode 0, 2, 3 or 4, at any later time, \<open>clock_multiple\<close> for \<open>n\<close> ticks gives the
  very state that \<open>n\<close> calls of \<open>clock\<close> give. The count must be one of \<open>latch_ok\<close>: in decimal
  a number of decimal digits; in mode 2 not 1, and in decimal not 0; in mode 3 even and not 0. For the
  odd counts of mode 3, which the counter accepts, the claim is false (\<open>odd_square_wave_batch\<close>), and
  for its count of 0 the announced time is wrong.
\<close>

theorem batch_is_ticks:
  assumes "GATE c" "drop_bit 4 w AND 3 = 3" "drop_bit 1 w AND 7 \<in> {0, 2, 3, 4}"
    and "latch_ok (programmed w low high c)"
  shows "clock_multiple ((clock ^^ k) (programmed w low high c)) n = (clock ^^ (k + unat n)) (programmed w low high c)"
proof -
  let ?c = "(clock ^^ k) (programmed w low high c)"
  have "clock_multiple ?c n = (clock ^^ unat n) ?c"
    by (rule clock_multiple_is_clocks [OF sync_clocks [OF programmed_sync [OF assms]]])
  then show ?thesis by (simp add: funpow_add add.commute [of k])
qed

section \<open>The rate generator\<close>

text \<open>The number a binary count stands for: 0 is 65536.\<close>

definition divisor :: "Bit32u \<Rightarrow> nat" where
  "divisor v = (if v = 0 then 65536 else unat v)"

text \<open>The state \<open>r\<close> ticks into a period of \<open>N\<close> ticks.\<close>

definition in_period :: "nat \<Rightarrow> counter_type \<Rightarrow> bool" where
  "in_period r c \<longleftrightarrow> pit_mode c = 2 \<and> GATE c \<and> count_written c \<and> \<not> bcd_mode c \<and> \<not> triggerGATE c \<and> count_ok c \<and>
     (if r = divisor (latched c) then first_pass c \<and> \<not> OUTpin c
      else \<not> first_pass c \<and> OUTpin c \<and> divisor (count_binary c) + r = divisor (latched c) + 1)"

lemma latched_range:
  assumes "\<not> bcd_mode c"
  shows "latched c \<le> top_count c" "divisor (latched c) \<le> 65536" "1 \<le> divisor (latched c)"
proof -
  have "unat (inlatch c) \<le> 0xFFFF" using unsigned_less [of "inlatch c", where ?'a = nat] by simp
  then have l: "unat (latched c) \<le> 0xFFFF"
    using assms by (simp add: latched_def unsigned_ucast_eq take_bit_nat_eq_self)
  then show "latched c \<le> top_count c" using assms by (simp add: word_le_nat_alt top_count_def)
  show "divisor (latched c) \<le> 65536" "1 \<le> divisor (latched c)"
    using l unat_gt_0 [of "latched c"] by (auto simp: divisor_def)
qed

lemma count_in_period:
  assumes "in_period r c" "r < divisor (latched c)" "1 \<le> r"
  obtains v where "decrement c = at_count v c" "v \<le> top_count c" "divisor v + Suc r = divisor (latched c) + 1"
    "clock c = (if v = 1 then ((set_next 1 (at_count v c))\<lparr>OUTpin := False\<rparr>)\<lparr>first_pass := True\<rparr>
      else set_next ((v - 1) AND 0xFFFF) (at_count v c))"
proof -
  let ?u = "count_binary c"
  have p: "pit_mode c = 2" "GATE c" "count_written c" "\<not> bcd_mode c" "\<not> triggerGATE c" "count_ok c" "\<not> first_pass c"
      "OUTpin c" and d: "divisor ?u + r = divisor (latched c) + 1"
    using assms(1, 2) by (auto simp: in_period_def split: if_splits)
  have u: "?u \<noteq> 1" using d assms(2) by (auto simp: divisor_def)
  obtain v where v: "decrement c = at_count v c" "v \<le> top_count c"
      "?u = 0 \<Longrightarrow> v = top_count c" "?u \<noteq> 0 \<Longrightarrow> v = ?u - 1"
    using decremented [OF p(6)] by blast
  have "divisor v + 1 = divisor ?u"
  proof (cases "?u = 0")
    case True
    then show ?thesis using v(3) p(4) by (simp add: divisor_def top_count_def)
  next
    case False
    then have "unat v = unat ?u - 1" "v \<noteq> 0" "unat ?u \<noteq> 0"
      using v(4) u by (simp_all add: unat_minus_one unat_eq_0)
    then show ?thesis using False by (simp add: divisor_def)
  qed
  then have dv: "divisor v + Suc r = divisor (latched c) + 1" using d by simp
  have "clock c = (if v = 1 then ((set_next 1 (at_count v c))\<lparr>OUTpin := False\<rparr>)\<lparr>first_pass := True\<rparr>
      else set_next ((v - 1) AND 0xFFFF) (at_count v c))"
    using p shown_small(2) [OF v(2)] v(1)
    by (simp add: clock_def clock_mode2_def Let_def set_OUT_def set_next_outward no_trigger)
  with v(1, 2) dv show thesis using that by blast
qed

lemma divisor_eq_1: "v \<le> top_count c \<Longrightarrow> divisor v = 1 \<longleftrightarrow> v = 1"
  by (auto simp: divisor_def word_unat_eq_iff)

lemma period_step:
  assumes "in_period r c" "r < divisor (latched c)" "1 \<le> r"
  shows "in_period (Suc r) (clock c) \<and> latched (clock c) = latched c"
proof -
  obtain v where v: "v \<le> top_count c" "divisor v + Suc r = divisor (latched c) + 1"
      "clock c = (if v = 1 then ((set_next 1 (at_count v c))\<lparr>OUTpin := False\<rparr>)\<lparr>first_pass := True\<rparr>
        else set_next ((v - 1) AND 0xFFFF) (at_count v c))"
    using count_in_period [OF assms] by metis
  have e: "Suc r = divisor (latched c) \<longleftrightarrow> v = 1"
    using v(2) divisor_eq_1 [OF v(1)] by auto
  show ?thesis
  proof (cases "v = 1")
    case True
    then show ?thesis using assms e v(1, 3) by (auto simp: in_period_def)
  next
    case False
    then show ?thesis using assms e v by (auto simp: in_period_def)
  qed
qed

lemma period_reload:
  assumes "pit_mode c = 2" "GATE c" "count_written c" "\<not> bcd_mode c" "first_pass c" "latched c \<noteq> 1" "latch_ok c"
  shows "in_period 1 (clock c) \<and> latched (clock c) = latched c"
proof -
  have l: "latched c \<le> top_count c" using latched_range(1) [OF assms(4)] .
  have "divisor (latched c) \<noteq> 1" using divisor_eq_1 [OF l] assms(6) by simp
  moreover have "clock c = ((set_next ((latched c - 1) AND 0xFFFF) ((at_count (latched c) c)
      \<lparr>null_count := False, OUTpin := True, first_pass := False\<rparr>))\<lparr>triggerGATE := False\<rparr>)"
    using assms set_count_latch [OF assms(7)]
    by (cases "OUTpin c") (simp_all add: clock_def clock_mode2_def Let_def set_OUT_def set_next_def at_count_def)
  ultimately show ?thesis using assms l by (simp add: in_period_def)
qed

lemma latch_ok_binary: "pit_mode c = 2 \<Longrightarrow> \<not> bcd_mode c \<Longrightarrow> latched c \<noteq> 1 \<Longrightarrow> latch_ok c"
  using latched_range(1) [of c] by (simp add: latch_ok_def latched_def shown_def)

lemma in_period_run:
  assumes "in_period 1 c" "latched c \<noteq> 1"
  shows "in_period (k mod divisor (latched c) + 1) ((clock ^^ k) c) \<and> latched ((clock ^^ k) c) = latched c"
proof (induction k)
  case 0
  then show ?case using assms(1) by simp
next
  case (Suc k)
  let ?d = "(clock ^^ k) c" and ?N = "divisor (latched c)"
  have N: "1 \<le> ?N" using latched_range(3) [of c] assms(1) by (simp add: in_period_def)
  have d: "in_period (k mod ?N + 1) ?d" "latched ?d = latched c" using Suc by blast+
  show ?case
  proof (cases "k mod ?N + 1 = ?N")
    case True
    then have p: "pit_mode ?d = 2" "GATE ?d" "count_written ?d" "\<not> bcd_mode ?d" "first_pass ?d"
      using d by (auto simp: in_period_def)
    have "latch_ok ?d" using latch_ok_binary [OF p(1, 4)] d(2) assms(2) by simp
    then have "in_period 1 (clock ?d) \<and> latched (clock ?d) = latched ?d"
      using period_reload [OF p] d(2) assms(2) by simp
    moreover have "Suc k mod ?N = 0" using True by (simp add: mod_Suc)
    ultimately show ?thesis using d(2) by simp
  next
    case False
    then have "k mod ?N + 1 < ?N" using N mod_less_divisor [of ?N k] by linarith
    moreover from this have "Suc k mod ?N = Suc (k mod ?N)" by (simp add: mod_Suc)
    ultimately show ?thesis using period_step [OF d(1)] d(2) by simp
  qed
qed

lemma latched_programmed:
  assumes "drop_bit 4 w AND 3 = 3" "drop_bit 1 w AND 7 = M" "M \<in> {0, 2, 3, 4}" "\<not> bit w 0"
  shows "unat (latched (programmed w low high c)) = unat low + 256 * unat high"
proof -
  let ?p = "program_counter w c"
  have m: "unat M \<noteq> 1" "unat M \<noteq> 5" using assms(3) by auto
  have p: "write_state ?p = LSByte_multiple" "pit_mode ?p = unat M" "inlatch ?p = 0"
    unfolding program_counter_def Let_def assms(1, 2) by simp_all
  then have q: "inlatch (write_counter low ?p) = ucast low" "write_state (write_counter low ?p) = MSByte_multiple"
      "pit_mode (write_counter low ?p) = unat M"
    using m by (simp_all add: write_counter_def write_byte_def Let_def set_OUT_def)
  then have "inlatch (programmed w low high c) = (ucast low AND 0xFF) OR push_bit 8 (ucast high)"
    using m unfolding programmed_def write_counter_def [of high] write_byte_def [of high]
    by (simp add: Let_def)
  moreover have "(ucast ((ucast low AND 0xFF) OR push_bit 8 (ucast high) :: Bit16u) :: Bit32u) =
      ucast low OR push_bit 8 (ucast high)"
  proof -
    have "(ucast low :: Bit16u) AND 0xFF = take_bit 8 (ucast low)"
      by (simp add: take_bit_eq_mask mask_eq_exp_minus_1)
    also have "\<dots> = ucast low"
      using unsigned_less [of low, where ?'a = nat]
      by (intro word_take_bit_self) (simp add: unsigned_ucast_eq take_bit_nat_eq_self)
    finally show ?thesis
      by (simp only:) (intro bit_word_eqI, auto simp: bit_simps dest: bit_imp_le_length)
  qed
  moreover have "unat (ucast low OR push_bit 8 (ucast high) :: Bit32u) = unat low + 256 * unat high"
    using unsigned_less [of low, where ?'a = nat] unsigned_less [of high, where ?'a = nat]
    by (subst unat_low_or_push) (simp_all add: unsigned_ucast_eq take_bit_nat_eq_self)
  moreover have "\<not> bcd_mode (programmed w low high c)"
    using programmed_fields [OF assms(1-3), of low high c] assms(4) by simp
  ultimately show ?thesis by (simp add: latched_def)
qed

text \<open>A counter in batches, one after the other.\<close>

lemma batches_are_clocks:
  assumes "sync c"
  shows "fold (\<lambda>n c. clock_multiple c n) ns c = (clock ^^ sum_list (map unat ns)) c"
  using assms
proof (induction ns arbitrary: c)
  case Nil
  show ?case by simp
next
  case (Cons n ns)
  have "sync ((clock ^^ unat n) c)" using sync_clocks [OF Cons.prems] .
  then show ?case
    using Cons.IH clock_multiple_is_clocks [OF Cons.prems, of n] by (simp add: funpow_add add.commute [of "unat n"])
qed

lemma rate_of_counter:
  assumes "GATE c" "N = (if unat low + 256 * unat high = 0 then 65536 else unat low + 256 * unat high)" "N \<noteq> 1"
    and "ticks = sum_list (map unat ns)"
  shows "OUTpin (fold (\<lambda>n c. clock_multiple c n) ns (programmed 0x34 low high c)) \<longleftrightarrow> ticks = 0 \<or> ticks mod N \<noteq> 0"
proof -
  let ?p = "programmed 0x34 low high c"
  have w: "drop_bit 4 0x34 AND 3 = (3 :: Bit8u)" "drop_bit 1 0x34 AND 7 = (2 :: Bit8u)" "\<not> bit (0x34 :: Bit8u) 0"
    by simp_all
  note f = programmed_fields [OF w(1, 2), of low high c] and l = latched_programmed [OF w(1, 2) _ w(3), of low high c]
  have N: "divisor (latched ?p) = N" using l assms(2) by (auto simp: divisor_def unat_eq_0 [symmetric])
  then have l1: "latched ?p \<noteq> 1" using assms(3) by (auto simp: divisor_def)
  have p: "pit_mode ?p = 2" "GATE ?p" "count_written ?p" "\<not> bcd_mode ?p" "first_pass ?p" "OUTpin ?p"
    using f assms(1) w(3) by simp_all
  have ok: "latch_ok ?p" using latch_ok_binary [OF p(1, 4) l1] .
  have r: "in_period 1 (clock ?p)" "latched (clock ?p) = latched ?p" using period_reload [OF p(1-5) l1 ok] by blast+
  have "fold (\<lambda>n c. clock_multiple c n) ns ?p = (clock ^^ ticks) ?p"
    using batches_are_clocks [OF programmed_sync [OF assms(1) w(1) _ ok]] assms(4) by simp
  moreover have "OUTpin ((clock ^^ ticks) ?p) \<longleftrightarrow> ticks = 0 \<or> ticks mod N \<noteq> 0"
  proof (cases ticks)
    case 0
    then show ?thesis using p(6) by simp
  next
    case (Suc k)
    then have "in_period (k mod N + 1) ((clock ^^ ticks) ?p)" "latched ((clock ^^ ticks) ?p) = latched ?p"
      using in_period_run [OF r(1), of k] r(2) l1 N by (simp_all add: funpow_swap1)
    then have "OUTpin ((clock ^^ ticks) ?p) \<longleftrightarrow> k mod N + 1 \<noteq> N"
      using N by (auto simp: in_period_def)
    moreover have "k mod N + 1 = N \<longleftrightarrow> Suc k mod N = 0" using assms(2) by (auto simp: mod_Suc)
    ultimately show ?thesis using Suc by auto
  qed
  ultimately show ?thesis by simp
qed

lemma clock_all_first:
  "length (counter s) = 3 \<Longrightarrow> length (counter (fold clock_all ns s)) = 3 \<and>
    counter (fold clock_all ns s) ! 0 = fold (\<lambda>n c. clock_multiple c n) ns (counter s ! 0)"
  by (induction ns arbitrary: s) (simp_all add: clock_all_def on_counter_def)

text \<open>C40 The rate generator: counter 0, with its gate high, gets the control word of mode 2 and the two
  bytes of a binary count other than 1, and the device is then clocked in batches of any sizes, one
  after the other. The output after them is low exactly if the number of ticks altogether is a
  multiple of the count and not 0; a count of 0 stands for 65536. So the output after every tick
  does not depend on how the ticks are divided into batches.
\<close>

theorem rate_generator:
  assumes "length (counter s) = 3" "read_GATE 0 s"
    and "N = (if unat low + 256 * unat high = 0 then 65536 else unat low + 256 * unat high)" "N \<noteq> 1"
    and "ticks = sum_list (map unat ns)"
  shows "read_OUT 0 (fold clock_all ns (pit_write 0 high (pit_write 0 low (pit_write 3 0x34 s)))) \<longleftrightarrow>
    ticks = 0 \<or> ticks mod N \<noteq> 0"
proof -
  let ?t = "pit_write 0 high (pit_write 0 low (pit_write 3 0x34 s))"
  obtain a b c where s: "counter s = [a, b, c]"
    using assms(1) by (auto simp: numeral_3_eq_3 length_Suc_conv)
  have "drop_bit 6 (0x34 :: Bit8u) AND 3 = 0" "drop_bit 4 (0x34 :: Bit8u) AND 3 = 3" by simp_all
  then have "counter ?t = [programmed 0x34 low high a, b, c]"
    by (simp add: pit_write_def write_control_def Let_def on_counter_def s programmed_def)
  then have "counter (fold clock_all ns ?t) ! 0 = fold (\<lambda>n c. clock_multiple c n) ns (programmed 0x34 low high a)"
    using clock_all_first [of ?t ns] by simp
  then show ?thesis
    using rate_of_counter [OF _ assms(3-5), of a] assms(2) s
    by (simp add: read_OUT_def read_GATE_def)
qed

section \<open>Witnesses\<close>

definition blank_counter :: counter_type where
  "blank_counter =
     \<lparr>GATE = True, OUTpin = True, count = 0, outlatch = 0, inlatch = 0, status_latch = 0, rw_mode = 1,
      pit_mode = 4, bcd_mode = False, null_count = False, count_LSB_latched = False,
      count_MSB_latched = False, status_latched = False, count_binary = 0, triggerGATE = False,
      write_state = LSByte, read_state = LSByte, count_written = True, first_pass = False,
      state_bit_1 = False, state_bit_2 = False, next_change_time = 0\<rparr>"

text \<open>
  The square wave of an odd count. \<open>odd_wave\<close> is the counter 0 programmed with a count of 5
  in mode 3, after its first tick. One tick at a time the output rises again with the 6th tick;
  a batch of 5 or 6 ticks leaves other states, after 6 with the output low.
\<close>

definition odd_wave :: "Bit32u \<Rightarrow> bool \<Rightarrow> bool \<Rightarrow> Bit32u \<Rightarrow> counter_type" where
  "odd_wave v out toggle next = blank_counter
     \<lparr>OUTpin := out, count := v, count_binary := v, inlatch := 5, rw_mode := 3, pit_mode := 3,
      null_count := False, write_state := LSByte_multiple, read_state := LSByte_multiple,
      state_bit_1 := True, state_bit_2 := toggle, next_change_time := next\<rparr>"

lemmas tick_defs = clock_def clock_mode3_def decrement_def set_count_def set_binary_to_count_def
  set_count_to_binary_def set_next_def set_OUT_def odd_wave_def blank_counter_def Let_def

lemma odd_ticks:
  "clock (programmed 0x36 5 0 blank_counter) = odd_wave 4 True False 2"
  "clock (odd_wave 4 True False 2) = odd_wave 2 True False 1"
  "clock (odd_wave 4 True False 1) = odd_wave 2 True False 1"
  "clock (odd_wave 2 True False 1) = odd_wave 0 True True 1"
  "clock (odd_wave 0 True True 1) = odd_wave 4 False False 2"
  "clock (odd_wave 4 False False 2) = odd_wave 2 False True 1"
  "clock (odd_wave 2 False True 1) = odd_wave 4 True False 1"
  by (simp_all add: tick_defs programmed_def program_counter_def write_counter_def write_byte_def)


lemma odd_rounds:
  "clock (odd_wave 2 True False 2) = odd_wave 0 True True 1"
  "clock (odd_wave 2 False False 2) = odd_wave 0 False True 1"
  by (simp_all add: tick_defs)

lemma odd_counted:
  "decrement_multiple (odd_wave 4 out b n) 2 = odd_wave 2 out b n" "decrement_multiple c 0 = c"
  by (simp_all add: decrement_multiple.simps [of _ 2] decrement_multiple.simps [of _ 0] tick_defs)

lemma odd_wave_fields:
  "next_change_time (odd_wave v out b n) = n" "pit_mode (odd_wave v out b n) = 3"
  "OUTpin (odd_wave v out b n) = out" "state_bit_2 (odd_wave v out b n) = b"
  "set_next m (odd_wave v out b n) = odd_wave v out b m"
  by (simp_all add: odd_wave_def set_next_def)

lemma odd_programmed:
  "next_change_time (programmed 0x36 5 0 blank_counter) = 1"
  "pit_mode (programmed 0x36 5 0 blank_counter) = 3"
  by (simp_all add: tick_defs programmed_def program_counter_def write_counter_def write_byte_def)

lemma odd_batches:
  "clock_multiple (programmed 0x36 5 0 blank_counter) 5 = odd_wave 2 False False 1"
  "clock_multiple (programmed 0x36 5 0 blank_counter) 6 = odd_wave 0 False True 1"
proof -
  note rounds = clock_multiple.simps [of "programmed 0x36 5 0 blank_counter"]
    clock_multiple.simps [of "odd_wave _ _ _ _"] clock_multiple.simps [of _ 0]
    ticks_counted_def odd_wave_fields odd_programmed odd_counted odd_ticks odd_rounds
  show "clock_multiple (programmed 0x36 5 0 blank_counter) 5 = odd_wave 2 False False 1"
    by (simp add: rounds)
  show "clock_multiple (programmed 0x36 5 0 blank_counter) 6 = odd_wave 0 False True 1"
    by (simp add: rounds)
qed

lemma odd_square_wave_batch:
  defines "c \<equiv> programmed 0x36 5 0 blank_counter"
  shows "clock_multiple c 5 \<noteq> (clock ^^ 5) c" and "OUTpin (clock_multiple c 6) \<noteq> OUTpin ((clock ^^ 6) c)"
proof -
  have t: "(clock ^^ 5) c = odd_wave 2 False True 1" "(clock ^^ 6) c = odd_wave 4 True False 1"
    by (simp_all add: c_def eval_nat_numeral odd_ticks)
  show "clock_multiple c 5 \<noteq> (clock ^^ 5) c"
    unfolding t unfolding c_def odd_batches by (auto dest: arg_cong [where f = state_bit_2] simp: odd_wave_fields)
  show "OUTpin (clock_multiple c 6) \<noteq> OUTpin ((clock ^^ 6) c)"
    unfolding t unfolding c_def odd_batches by (simp add: odd_wave_fields)
qed

lemma batch_witness:
  "clock_multiple ((clock ^^ 3) (programmed 0x36 6 0 blank_counter)) 10 =
   (clock ^^ 13) (programmed 0x36 6 0 blank_counter)"
proof -
  have "latch_ok (programmed 0x36 6 0 blank_counter)"
    by (simp add: latch_ok_def latched_def shown_def top_count_def programmed_def program_counter_def
        write_counter_def write_byte_def Let_def set_next_def blank_counter_def)
  then show ?thesis using batch_is_ticks [where c = blank_counter and w = "0x36" and low = 6 and high = 0 and k = 3 and n = 10] by (simp add: blank_counter_def)
qed

lemma rate_witness:
  fixes s
  defines "s \<equiv> \<lparr>counter = [blank_counter, blank_counter, blank_counter], controlword = 0\<rparr>"
  defines "t \<equiv> pit_write 0 0 (pit_write 0 4 (pit_write 3 0x34 s))"
  shows "read_OUT 0 (fold clock_all [1, 5, 1] t) \<and> \<not> read_OUT 0 (fold clock_all [1, 5, 2] t)"
proof -
  have s: "length (counter s) = 3" "read_GATE 0 s"
    by (simp_all add: s_def read_GATE_def blank_counter_def)
  have "read_OUT 0 (fold clock_all [1, 5, 1] t) \<longleftrightarrow> (7 :: nat) = 0 \<or> 7 mod 4 \<noteq> (0 :: nat)"
    unfolding t_def by (rule rate_generator [OF s]) simp_all
  moreover have "read_OUT 0 (fold clock_all [1, 5, 2] t) \<longleftrightarrow> (8 :: nat) = 0 \<or> 8 mod 4 \<noteq> (0 :: nat)"
    unfolding t_def by (rule rate_generator [OF s]) simp_all
  ultimately show ?thesis
    by simp
qed

end
