(* ===== verification/BxOpcodes.thy ===== *)
theory BxOpcodes
  imports BxArith BxShift BxMult BxLogic BxBcd BxBit BxResolve BxSegment BxStack BxJump BxData BxString BxFar BxProcCtrl BxIO BxReset
begin

text \<open>
  The entries of the opcode tables (\<open>cpu/fetchdecode.cc\<close>, \<open>cpu/fetchdecode.h\<close>) and the group tables,
  with the handlers that need no theory of their own: \<open>CPUID\<close> (\<open>cpu/cpuid.cc\<close>) and the
  undefined opcodes. A table entry names the handler itself; the handlers of the x87, MMX and SSE
  instructions, which are not modelled, are names. The tables are those of the compiled
  configuration.
\<close>

section \<open>Remaining handlers\<close>

definition BxError :: "bxInstruction \<Rightarrow> unit bx" where
  "BxError i = UndefinedOpcode"

definition CMPXCHG_XBTS :: "bxInstruction \<Rightarrow> unit bx" where
  "CMPXCHG_XBTS i = UndefinedOpcode"

definition CMPXCHG_IBTS :: "bxInstruction \<Rightarrow> unit bx" where
  "CMPXCHG_IBTS i = UndefinedOpcode"

definition get_extended_cpuid_features :: Bit32u where
  "get_extended_cpuid_features = 0"

definition get_std_cpuid_features :: "cpu \<Rightarrow> Bit32u" where
  "get_std_cpuid_features s =
     foldr (\<lambda>n w. push_bit n 1 OR w) [0, 4, 5, 8, 23, 24, 15] 0 OR
     (if apicbase (sys s) AND 0x800 \<noteq> 0 then push_bit 9 1 else 0) OR
     foldr (\<lambda>n w. push_bit n 1 OR w) [25, 26, 3, 13, 6, 11] 0"

definition set_EABCDX :: "Bit32u \<Rightarrow> Bit32u \<Rightarrow> Bit32u \<Rightarrow> Bit32u \<Rightarrow> cpu \<Rightarrow> cpu" where
  "set_EABCDX a b c d s =
     BX_WRITE_32BIT_REG 2 d (BX_WRITE_32BIT_REG 1 c (BX_WRITE_32BIT_REG 3 b (BX_WRITE_32BIT_REG 0 a s)))"

text \<open>The number of the local APIC is an argument.\<close>

definition CPUID :: "Bit32u \<Rightarrow> bxInstruction \<Rightarrow> unit bx" where
  "CPUID apic_id i = update (\<lambda>s.
     (let f = BX_READ_32BIT_REG 0 s in
      if f = 0 then set_EABCDX 1 0x756e6547 0x6c65746e 0x49656e69 s
      else if f = 1 then
        set_EABCDX get_cpu_version_information (push_bit 24 apic_id) get_extended_cpuid_features
          (get_std_cpuid_features s) s
      else if f = 0x80000000 then set_EABCDX 0x80000004 0 0 0 s
      else if f = 0x80000001 then set_EABCDX 0 0 0 0 s
      else if f = 0x80000002 then set_EABCDX 0x20202020 0x20202020 0x20202020 0x6E492020 s
      else if f = 0x80000003 then set_EABCDX 0x286C6574 0x50202952 0x69746E65 0x52286D75 s
      else if f = 0x80000004 then set_EABCDX 0x20342029 0x20555043 0x20202020 0x00202020 s
      else set_EABCDX 0 0 0 0 s))"

section \<open>Attributes\<close>

definition BxImmediate :: Bit16u where "BxImmediate = 0x000f"
definition BxImmediate_Ib :: Bit16u where "BxImmediate_Ib = 0x0001"
definition BxImmediate_Ib_SE :: Bit16u where "BxImmediate_Ib_SE = 0x0002"
definition BxImmediate_Iv :: Bit16u where "BxImmediate_Iv = 0x0003"
definition BxImmediate_Iw :: Bit16u where "BxImmediate_Iw = 0x0004"
definition BxImmediate_IvIw :: Bit16u where "BxImmediate_IvIw = 0x0005"
definition BxImmediate_IwIb :: Bit16u where "BxImmediate_IwIb = 0x0006"
definition BxImmediate_O :: Bit16u where "BxImmediate_O = 0x0007"
definition BxImmediate_BrOff8 :: Bit16u where "BxImmediate_BrOff8 = 0x0008"
definition BxImmediate_BrOff16 :: Bit16u where "BxImmediate_BrOff16 = 0x0009"
definition BxImmediate_BrOff32 :: Bit16u where "BxImmediate_BrOff32 = BxImmediate_Iv"
definition BxGroupX :: Bit16u where "BxGroupX = 0x0070"
definition BxGroupN :: Bit16u where "BxGroupN = 0x0010"
definition BxPrefixSSE :: Bit16u where "BxPrefixSSE = 0x0020"
definition BxSplitMod11b :: Bit16u where "BxSplitMod11b = 0x0030"
definition BxFPGroup :: Bit16u where "BxFPGroup = 0x0040"
definition BxPrefix :: Bit16u where "BxPrefix = 0x0080"
definition BxAnother :: Bit16u where "BxAnother = 0x0100"
definition BxLockable :: Bit16u where "BxLockable = 0x0200"
definition BxRepeatable :: Bit16u where "BxRepeatable = 0x0800"
definition BxRepeatableZF :: Bit16u where "BxRepeatableZF = 0x1000"
definition BxGroup1 :: Bit16u where "BxGroup1 = BxGroupN"
definition BxGroup2 :: Bit16u where "BxGroup2 = BxGroupN"
definition BxGroup3 :: Bit16u where "BxGroup3 = BxGroupN"
definition BxGroup4 :: Bit16u where "BxGroup4 = BxGroupN"
definition BxGroup5 :: Bit16u where "BxGroup5 = BxGroupN"
definition BxGroup6 :: Bit16u where "BxGroup6 = BxGroupN"
definition BxGroup7 :: Bit16u where "BxGroup7 = BxGroupN"
definition BxGroup8 :: Bit16u where "BxGroup8 = BxGroupN"
definition BxGroup9 :: Bit16u where "BxGroup9 = BxGroupN"
definition BxGroup12 :: Bit16u where "BxGroup12 = BxGroupN"
definition BxGroup13 :: Bit16u where "BxGroup13 = BxGroupN"
definition BxGroup14 :: Bit16u where "BxGroup14 = BxGroupN"
definition BxGroup15 :: Bit16u where "BxGroup15 = BxGroupN"
definition BxGroup16 :: Bit16u where "BxGroup16 = BxGroupN"

lemmas opcode_attributes = BxImmediate_def BxImmediate_Ib_def BxImmediate_Ib_SE_def BxImmediate_Iv_def
  BxImmediate_Iw_def BxImmediate_IvIw_def BxImmediate_IwIb_def BxImmediate_O_def
  BxImmediate_BrOff8_def BxImmediate_BrOff16_def BxImmediate_BrOff32_def BxGroupX_def
  BxGroupN_def BxPrefixSSE_def BxSplitMod11b_def BxFPGroup_def
  BxPrefix_def BxAnother_def BxLockable_def BxRepeatable_def
  BxRepeatableZF_def BxGroup1_def BxGroup2_def BxGroup3_def
  BxGroup4_def BxGroup5_def BxGroup6_def BxGroup7_def
  BxGroup8_def BxGroup9_def BxGroup12_def BxGroup13_def
  BxGroup14_def BxGroup15_def BxGroup16_def

section \<open>Entries\<close>

text \<open>
  What the tables do not know: the port bus, the time stamp and the number of the local APIC.
\<close>

record environment =
  env_bus :: io_bus
  env_ticks :: Bit64u
  env_apic_id :: Bit32u

datatype execute_ptr =
    Handler "bxInstruction \<Rightarrow> unit bx"
  | Env_handler "environment \<Rightarrow> bxInstruction \<Rightarrow> unit bx"
  | Extension string

datatype BxOpcodeInfo_t =
  BxOpcodeInfo_t (Attr: Bit16u) (ExecutePtr: "execute_ptr option") (AnotherArray: "BxOpcodeInfo_t list")

abbreviation opcode :: "Bit16u \<Rightarrow> (bxInstruction \<Rightarrow> unit bx) \<Rightarrow> BxOpcodeInfo_t" where
  "opcode a f \<equiv> BxOpcodeInfo_t a (Some (Handler f)) []"

abbreviation port_opcode :: "Bit16u \<Rightarrow> (io_bus \<Rightarrow> bxInstruction \<Rightarrow> unit bx) \<Rightarrow> BxOpcodeInfo_t" where
  "port_opcode a f \<equiv> BxOpcodeInfo_t a (Some (Env_handler (\<lambda>e. f (env_bus e)))) []"

abbreviation tick_opcode :: "Bit16u \<Rightarrow> (Bit64u \<Rightarrow> bxInstruction \<Rightarrow> unit bx) \<Rightarrow> BxOpcodeInfo_t" where
  "tick_opcode a f \<equiv> BxOpcodeInfo_t a (Some (Env_handler (\<lambda>e. f (env_ticks e)))) []"

abbreviation apic_opcode :: "Bit16u \<Rightarrow> (Bit32u \<Rightarrow> bxInstruction \<Rightarrow> unit bx) \<Rightarrow> BxOpcodeInfo_t" where
  "apic_opcode a f \<equiv> BxOpcodeInfo_t a (Some (Env_handler (\<lambda>e. f (env_apic_id e)))) []"

abbreviation extension :: "Bit16u \<Rightarrow> string \<Rightarrow> BxOpcodeInfo_t" where
  "extension a n \<equiv> BxOpcodeInfo_t a (Some (Extension n)) []"

abbreviation group :: "Bit16u \<Rightarrow> BxOpcodeInfo_t list \<Rightarrow> BxOpcodeInfo_t" where
  "group a t \<equiv> BxOpcodeInfo_t a None t"

section \<open>Group tables\<close>

definition opcodesADD_EwIw :: "BxOpcodeInfo_t list" where
  "opcodesADD_EwIw = [
     opcode BxLockable ADD_EEwIw,
     opcode 0 ADD_EGwIw]"

definition opcodesADD_EdId :: "BxOpcodeInfo_t list" where
  "opcodesADD_EdId = [
     opcode BxLockable ADD_EEdId,
     opcode 0 ADD_EGdId]"

definition opcodesADD_GwEw :: "BxOpcodeInfo_t list" where
  "opcodesADD_GwEw = [
     opcode 0 ADD_GwEEw,
     opcode 0 ADD_GwEGw]"

definition opcodesADD_GdEd :: "BxOpcodeInfo_t list" where
  "opcodesADD_GdEd = [
     opcode 0 ADD_GdEEd,
     opcode 0 ADD_GdEGd]"

definition opcodesMOV_GbEb :: "BxOpcodeInfo_t list" where
  "opcodesMOV_GbEb = [
     opcode 0 MOV_GbEEb,
     opcode 0 MOV_GbEGb]"

definition opcodesMOV_GwEw :: "BxOpcodeInfo_t list" where
  "opcodesMOV_GwEw = [
     opcode 0 MOV_GwEEw,
     opcode 0 MOV_GwEGw]"

definition opcodesMOV_GdEd :: "BxOpcodeInfo_t list" where
  "opcodesMOV_GdEd = [
     opcode 0 MOV_GdEEd,
     opcode 0 MOV_GdEGd]"

definition opcodesMOV_EbGb :: "BxOpcodeInfo_t list" where
  "opcodesMOV_EbGb = [
     opcode 0 MOV_EEbGb,
     opcode 0 MOV_EGbGb]"

definition opcodesMOV_EwGw :: "BxOpcodeInfo_t list" where
  "opcodesMOV_EwGw = [
     opcode 0 MOV_EEwGw,
     opcode 0 MOV_EGwGw]"

definition opcodesMOV_EdGd :: "BxOpcodeInfo_t list" where
  "opcodesMOV_EdGd = [
     opcode 0 MOV_EEdGd,
     opcode 0 MOV_EGdGd]"

definition BxOpcodeInfo_FPGroupD8 :: "BxOpcodeInfo_t list" where
  "BxOpcodeInfo_FPGroupD8 = [
     extension 0 ''FADD_SINGLE_REAL'',
     extension 0 ''FMUL_SINGLE_REAL'',
     extension 0 ''FCOM_SINGLE_REAL'',
     extension 0 ''FCOM_SINGLE_REAL'',
     extension 0 ''FSUB_SINGLE_REAL'',
     extension 0 ''FSUBR_SINGLE_REAL'',
     extension 0 ''FDIV_SINGLE_REAL'',
     extension 0 ''FDIVR_SINGLE_REAL'']"

definition BxOpcodeInfo_FPGroupD9 :: "BxOpcodeInfo_t list" where
  "BxOpcodeInfo_FPGroupD9 = [
     extension 0 ''FLD_SINGLE_REAL'',
     opcode 0 BxError,
     extension 0 ''FST_SINGLE_REAL'',
     extension 0 ''FST_SINGLE_REAL'',
     extension 0 ''FLDENV'',
     extension 0 ''FLDCW'',
     extension 0 ''FNSTENV'',
     extension 0 ''FNSTCW'']"

definition BxOpcodeInfo_FPGroupDA :: "BxOpcodeInfo_t list" where
  "BxOpcodeInfo_FPGroupDA = [
     extension 0 ''FIADD_DWORD_INTEGER'',
     extension 0 ''FIMUL_DWORD_INTEGER'',
     extension 0 ''FICOM_DWORD_INTEGER'',
     extension 0 ''FICOM_DWORD_INTEGER'',
     extension 0 ''FISUB_DWORD_INTEGER'',
     extension 0 ''FISUBR_DWORD_INTEGER'',
     extension 0 ''FIDIV_DWORD_INTEGER'',
     extension 0 ''FIDIVR_DWORD_INTEGER'']"

definition BxOpcodeInfo_FPGroupDB :: "BxOpcodeInfo_t list" where
  "BxOpcodeInfo_FPGroupDB = [
     extension 0 ''FILD_DWORD_INTEGER'',
     extension 0 ''FISTTP32'',
     extension 0 ''FIST_DWORD_INTEGER'',
     extension 0 ''FIST_DWORD_INTEGER'',
     opcode 0 BxError,
     extension 0 ''FLD_EXTENDED_REAL'',
     opcode 0 BxError,
     extension 0 ''FSTP_EXTENDED_REAL'']"

definition BxOpcodeInfo_FPGroupDC :: "BxOpcodeInfo_t list" where
  "BxOpcodeInfo_FPGroupDC = [
     extension 0 ''FADD_DOUBLE_REAL'',
     extension 0 ''FMUL_DOUBLE_REAL'',
     extension 0 ''FCOM_DOUBLE_REAL'',
     extension 0 ''FCOM_DOUBLE_REAL'',
     extension 0 ''FSUB_DOUBLE_REAL'',
     extension 0 ''FSUBR_DOUBLE_REAL'',
     extension 0 ''FDIV_DOUBLE_REAL'',
     extension 0 ''FDIVR_DOUBLE_REAL'']"

definition BxOpcodeInfo_FPGroupDD :: "BxOpcodeInfo_t list" where
  "BxOpcodeInfo_FPGroupDD = [
     extension 0 ''FLD_DOUBLE_REAL'',
     extension 0 ''FISTTP64'',
     extension 0 ''FST_DOUBLE_REAL'',
     extension 0 ''FST_DOUBLE_REAL'',
     extension 0 ''FRSTOR'',
     opcode 0 BxError,
     extension 0 ''FNSAVE'',
     extension 0 ''FNSTSW'']"

definition BxOpcodeInfo_FPGroupDE :: "BxOpcodeInfo_t list" where
  "BxOpcodeInfo_FPGroupDE = [
     extension 0 ''FIADD_WORD_INTEGER'',
     extension 0 ''FIMUL_WORD_INTEGER'',
     extension 0 ''FICOM_WORD_INTEGER'',
     extension 0 ''FICOM_WORD_INTEGER'',
     extension 0 ''FISUB_WORD_INTEGER'',
     extension 0 ''FISUBR_WORD_INTEGER'',
     extension 0 ''FIDIV_WORD_INTEGER'',
     extension 0 ''FIDIVR_WORD_INTEGER'']"

definition BxOpcodeInfo_FPGroupDF :: "BxOpcodeInfo_t list" where
  "BxOpcodeInfo_FPGroupDF = [
     extension 0 ''FILD_WORD_INTEGER'',
     extension 0 ''FISTTP16'',
     extension 0 ''FIST_WORD_INTEGER'',
     extension 0 ''FIST_WORD_INTEGER'',
     extension 0 ''FBLD_PACKED_BCD'',
     extension 0 ''FILD_QWORD_INTEGER'',
     extension 0 ''FBSTP_PACKED_BCD'',
     extension 0 ''FISTP_QWORD_INTEGER'']"

definition BxOpcodeGroupSSE_0f10 :: "BxOpcodeInfo_t list" where
  "BxOpcodeGroupSSE_0f10 = [
     extension 0 ''MOVUPS_VpsWps'',
     extension 0 ''MOVUPD_VpdWpd'',
     extension 0 ''MOVSD_VsdWsd'',
     extension 0 ''MOVSS_VssWss'']"

definition BxOpcodeGroupSSE_0f11 :: "BxOpcodeInfo_t list" where
  "BxOpcodeGroupSSE_0f11 = [
     extension 0 ''MOVUPS_WpsVps'',
     extension 0 ''MOVUPD_WpdVpd'',
     extension 0 ''MOVSD_WsdVsd'',
     extension 0 ''MOVSS_WssVss'']"

definition BxOpcodeGroupSSE_0f12 :: "BxOpcodeInfo_t list" where
  "BxOpcodeGroupSSE_0f12 = [
     extension 0 ''MOVLPS_VpsMq'',
     extension 0 ''MOVLPD_VsdMq'',
     extension 0 ''MOVDDUP_VpdWq'',
     extension 0 ''MOVSLDUP_VpsWps'']"

definition BxOpcodeGroupSSE_0f13 :: "BxOpcodeInfo_t list" where
  "BxOpcodeGroupSSE_0f13 = [
     extension 0 ''MOVLPS_MqVps'',
     extension 0 ''MOVLPD_MqVsd'',
     opcode 0 BxError,
     opcode 0 BxError]"

definition BxOpcodeGroupSSE_0f14 :: "BxOpcodeInfo_t list" where
  "BxOpcodeGroupSSE_0f14 = [
     extension 0 ''UNPCKLPS_VpsWq'',
     extension 0 ''UNPCKLPD_VpdWq'',
     opcode 0 BxError,
     opcode 0 BxError]"

definition BxOpcodeGroupSSE_0f15 :: "BxOpcodeInfo_t list" where
  "BxOpcodeGroupSSE_0f15 = [
     extension 0 ''UNPCKHPS_VpsWq'',
     extension 0 ''UNPCKHPD_VpdWq'',
     opcode 0 BxError,
     opcode 0 BxError]"

definition BxOpcodeGroupSSE_0f16 :: "BxOpcodeInfo_t list" where
  "BxOpcodeGroupSSE_0f16 = [
     extension 0 ''MOVHPS_VpsMq'',
     extension 0 ''MOVHPD_VsdMq'',
     opcode 0 BxError,
     extension 0 ''MOVSHDUP_VpsWps'']"

definition BxOpcodeGroupSSE_0f17 :: "BxOpcodeInfo_t list" where
  "BxOpcodeGroupSSE_0f17 = [
     extension 0 ''MOVHPS_MqVps'',
     extension 0 ''MOVHPD_MqVsd'',
     opcode 0 BxError,
     opcode 0 BxError]"

definition BxOpcodeGroupSSE_0f28 :: "BxOpcodeInfo_t list" where
  "BxOpcodeGroupSSE_0f28 = [
     extension 0 ''MOVAPS_VpsWps'',
     extension 0 ''MOVAPD_VpdWpd'',
     opcode 0 BxError,
     opcode 0 BxError]"

definition BxOpcodeGroupSSE_0f29 :: "BxOpcodeInfo_t list" where
  "BxOpcodeGroupSSE_0f29 = [
     extension 0 ''MOVAPS_WpsVps'',
     extension 0 ''MOVAPD_WpdVpd'',
     opcode 0 BxError,
     opcode 0 BxError]"

definition BxOpcodeGroupSSE_0f2a :: "BxOpcodeInfo_t list" where
  "BxOpcodeGroupSSE_0f2a = [
     extension 0 ''CVTPI2PS_VpsQq'',
     extension 0 ''CVTPI2PD_VpdQq'',
     extension 0 ''CVTSI2SD_VsdEd'',
     extension 0 ''CVTSI2SS_VssEd'']"

definition BxOpcodeGroupSSE_0f2b :: "BxOpcodeInfo_t list" where
  "BxOpcodeGroupSSE_0f2b = [
     extension 0 ''MOVNTPS_MdqVps'',
     extension 0 ''MOVNTPD_MdqVpd'',
     opcode 0 BxError,
     opcode 0 BxError]"

definition BxOpcodeGroupSSE_0f2c :: "BxOpcodeInfo_t list" where
  "BxOpcodeGroupSSE_0f2c = [
     extension 0 ''CVTTPS2PI_PqWps'',
     extension 0 ''CVTTPD2PI_PqWpd'',
     extension 0 ''CVTTSD2SI_GdWsd'',
     extension 0 ''CVTTSS2SI_GdWss'']"

definition BxOpcodeGroupSSE_0f2d :: "BxOpcodeInfo_t list" where
  "BxOpcodeGroupSSE_0f2d = [
     extension 0 ''CVTPS2PI_PqWps'',
     extension 0 ''CVTPD2PI_PqWpd'',
     extension 0 ''CVTSD2SI_GdWsd'',
     extension 0 ''CVTSS2SI_GdWss'']"

definition BxOpcodeGroupSSE_0f2e :: "BxOpcodeInfo_t list" where
  "BxOpcodeGroupSSE_0f2e = [
     extension 0 ''UCOMISS_VssWss'',
     extension 0 ''UCOMISD_VsdWsd'',
     opcode 0 BxError,
     opcode 0 BxError]"

definition BxOpcodeGroupSSE_0f2f :: "BxOpcodeInfo_t list" where
  "BxOpcodeGroupSSE_0f2f = [
     extension 0 ''COMISS_VpsWps'',
     extension 0 ''COMISD_VpdWpd'',
     opcode 0 BxError,
     opcode 0 BxError]"

definition BxOpcodeGroupSSE_0f50 :: "BxOpcodeInfo_t list" where
  "BxOpcodeGroupSSE_0f50 = [
     extension 0 ''MOVMSKPS_GdVRps'',
     extension 0 ''MOVMSKPD_GdVRpd'',
     opcode 0 BxError,
     opcode 0 BxError]"

definition BxOpcodeGroupSSE_0f51 :: "BxOpcodeInfo_t list" where
  "BxOpcodeGroupSSE_0f51 = [
     extension 0 ''SQRTPS_VpsWps'',
     extension 0 ''SQRTPD_VpdWpd'',
     extension 0 ''SQRTSD_VsdWsd'',
     extension 0 ''SQRTSS_VssWss'']"

definition BxOpcodeGroupSSE_0f52 :: "BxOpcodeInfo_t list" where
  "BxOpcodeGroupSSE_0f52 = [
     extension 0 ''RSQRTPS_VpsWps'',
     opcode 0 BxError,
     opcode 0 BxError,
     extension 0 ''RSQRTSS_VssWss'']"

definition BxOpcodeGroupSSE_0f53 :: "BxOpcodeInfo_t list" where
  "BxOpcodeGroupSSE_0f53 = [
     extension 0 ''RCPPS_VpsWps'',
     opcode 0 BxError,
     opcode 0 BxError,
     extension 0 ''RCPSS_VssWss'']"

definition BxOpcodeGroupSSE_0f54 :: "BxOpcodeInfo_t list" where
  "BxOpcodeGroupSSE_0f54 = [
     extension 0 ''ANDPS_VpsWps'',
     extension 0 ''ANDPD_VpdWpd'',
     opcode 0 BxError,
     opcode 0 BxError]"

definition BxOpcodeGroupSSE_0f55 :: "BxOpcodeInfo_t list" where
  "BxOpcodeGroupSSE_0f55 = [
     extension 0 ''ANDNPS_VpsWps'',
     extension 0 ''ANDNPD_VpdWpd'',
     opcode 0 BxError,
     opcode 0 BxError]"

definition BxOpcodeGroupSSE_0f56 :: "BxOpcodeInfo_t list" where
  "BxOpcodeGroupSSE_0f56 = [
     extension 0 ''ORPS_VpsWps'',
     extension 0 ''ORPD_VpdWpd'',
     opcode 0 BxError,
     opcode 0 BxError]"

definition BxOpcodeGroupSSE_0f57 :: "BxOpcodeInfo_t list" where
  "BxOpcodeGroupSSE_0f57 = [
     extension 0 ''XORPS_VpsWps'',
     extension 0 ''XORPD_VpdWpd'',
     opcode 0 BxError,
     opcode 0 BxError]"

definition BxOpcodeGroupSSE_0f58 :: "BxOpcodeInfo_t list" where
  "BxOpcodeGroupSSE_0f58 = [
     extension 0 ''ADDPS_VpsWps'',
     extension 0 ''ADDPD_VpdWpd'',
     extension 0 ''ADDSD_VsdWsd'',
     extension 0 ''ADDSS_VssWss'']"

definition BxOpcodeGroupSSE_0f59 :: "BxOpcodeInfo_t list" where
  "BxOpcodeGroupSSE_0f59 = [
     extension 0 ''MULPS_VpsWps'',
     extension 0 ''MULPD_VpdWpd'',
     extension 0 ''MULSD_VsdWsd'',
     extension 0 ''MULSS_VssWss'']"

definition BxOpcodeGroupSSE_0f5a :: "BxOpcodeInfo_t list" where
  "BxOpcodeGroupSSE_0f5a = [
     extension 0 ''CVTPS2PD_VpsWps'',
     extension 0 ''CVTPD2PS_VpdWpd'',
     extension 0 ''CVTSD2SS_VsdWsd'',
     extension 0 ''CVTSS2SD_VssWss'']"

definition BxOpcodeGroupSSE_0f5b :: "BxOpcodeInfo_t list" where
  "BxOpcodeGroupSSE_0f5b = [
     extension 0 ''CVTDQ2PS_VpsWdq'',
     extension 0 ''CVTPS2DQ_VdqWps'',
     opcode 0 BxError,
     extension 0 ''CVTTPS2DQ_VdqWps'']"

definition BxOpcodeGroupSSE_0f5c :: "BxOpcodeInfo_t list" where
  "BxOpcodeGroupSSE_0f5c = [
     extension 0 ''SUBPS_VpsWps'',
     extension 0 ''SUBPD_VpdWpd'',
     extension 0 ''SUBSD_VsdWsd'',
     extension 0 ''SUBSS_VssWss'']"

definition BxOpcodeGroupSSE_0f5d :: "BxOpcodeInfo_t list" where
  "BxOpcodeGroupSSE_0f5d = [
     extension 0 ''MINPS_VpsWps'',
     extension 0 ''MINPD_VpdWpd'',
     extension 0 ''MINSD_VsdWsd'',
     extension 0 ''MINSS_VssWss'']"

definition BxOpcodeGroupSSE_0f5e :: "BxOpcodeInfo_t list" where
  "BxOpcodeGroupSSE_0f5e = [
     extension 0 ''DIVPS_VpsWps'',
     extension 0 ''DIVPD_VpdWpd'',
     extension 0 ''DIVSD_VsdWsd'',
     extension 0 ''DIVSS_VssWss'']"

definition BxOpcodeGroupSSE_0f5f :: "BxOpcodeInfo_t list" where
  "BxOpcodeGroupSSE_0f5f = [
     extension 0 ''MAXPS_VpsWps'',
     extension 0 ''MAXPD_VpdWpd'',
     extension 0 ''MAXSD_VsdWsd'',
     extension 0 ''MAXSS_VssWss'']"

definition BxOpcodeGroupSSE_0f60 :: "BxOpcodeInfo_t list" where
  "BxOpcodeGroupSSE_0f60 = [
     extension 0 ''PUNPCKLBW_PqQd'',
     extension 0 ''PUNPCKLBW_VdqWq'',
     opcode 0 BxError,
     opcode 0 BxError]"

definition BxOpcodeGroupSSE_0f61 :: "BxOpcodeInfo_t list" where
  "BxOpcodeGroupSSE_0f61 = [
     extension 0 ''PUNPCKLWD_PqQd'',
     extension 0 ''PUNPCKLWD_VdqWq'',
     opcode 0 BxError,
     opcode 0 BxError]"

definition BxOpcodeGroupSSE_0f62 :: "BxOpcodeInfo_t list" where
  "BxOpcodeGroupSSE_0f62 = [
     extension 0 ''PUNPCKLDQ_PqQd'',
     extension 0 ''PUNPCKLDQ_VdqWq'',
     opcode 0 BxError,
     opcode 0 BxError]"

definition BxOpcodeGroupSSE_0f63 :: "BxOpcodeInfo_t list" where
  "BxOpcodeGroupSSE_0f63 = [
     extension 0 ''PACKSSWB_PqQq'',
     extension 0 ''PACKSSWB_VdqWq'',
     opcode 0 BxError,
     opcode 0 BxError]"

definition BxOpcodeGroupSSE_0f64 :: "BxOpcodeInfo_t list" where
  "BxOpcodeGroupSSE_0f64 = [
     extension 0 ''PCMPGTB_PqQq'',
     extension 0 ''PCMPGTB_VdqWq'',
     opcode 0 BxError,
     opcode 0 BxError]"

definition BxOpcodeGroupSSE_0f65 :: "BxOpcodeInfo_t list" where
  "BxOpcodeGroupSSE_0f65 = [
     extension 0 ''PCMPGTW_PqQq'',
     extension 0 ''PCMPGTW_VdqWq'',
     opcode 0 BxError,
     opcode 0 BxError]"

definition BxOpcodeGroupSSE_0f66 :: "BxOpcodeInfo_t list" where
  "BxOpcodeGroupSSE_0f66 = [
     extension 0 ''PCMPGTD_PqQq'',
     extension 0 ''PCMPGTD_VdqWdq'',
     opcode 0 BxError,
     opcode 0 BxError]"

definition BxOpcodeGroupSSE_0f67 :: "BxOpcodeInfo_t list" where
  "BxOpcodeGroupSSE_0f67 = [
     extension 0 ''PACKUSWB_PqQq'',
     extension 0 ''PACKUSWB_VdqWdq'',
     opcode 0 BxError,
     opcode 0 BxError]"

definition BxOpcodeGroupSSE_0f68 :: "BxOpcodeInfo_t list" where
  "BxOpcodeGroupSSE_0f68 = [
     extension 0 ''PUNPCKHBW_PqQq'',
     extension 0 ''PUNPCKHBW_VdqWq'',
     opcode 0 BxError,
     opcode 0 BxError]"

definition BxOpcodeGroupSSE_0f69 :: "BxOpcodeInfo_t list" where
  "BxOpcodeGroupSSE_0f69 = [
     extension 0 ''PUNPCKHWD_PqQq'',
     extension 0 ''PUNPCKHWD_VdqWq'',
     opcode 0 BxError,
     opcode 0 BxError]"

definition BxOpcodeGroupSSE_0f6a :: "BxOpcodeInfo_t list" where
  "BxOpcodeGroupSSE_0f6a = [
     extension 0 ''PUNPCKHDQ_PqQq'',
     extension 0 ''PUNPCKHDQ_VdqWq'',
     opcode 0 BxError,
     opcode 0 BxError]"

definition BxOpcodeGroupSSE_0f6b :: "BxOpcodeInfo_t list" where
  "BxOpcodeGroupSSE_0f6b = [
     extension 0 ''PACKSSDW_PqQq'',
     extension 0 ''PACKSSDW_VdqWdq'',
     opcode 0 BxError,
     opcode 0 BxError]"

definition BxOpcodeGroupSSE_0f6c :: "BxOpcodeInfo_t list" where
  "BxOpcodeGroupSSE_0f6c = [
     opcode 0 BxError,
     extension 0 ''PUNPCKLQDQ_VdqWq'',
     opcode 0 BxError,
     opcode 0 BxError]"

definition BxOpcodeGroupSSE_0f6d :: "BxOpcodeInfo_t list" where
  "BxOpcodeGroupSSE_0f6d = [
     opcode 0 BxError,
     extension 0 ''PUNPCKHQDQ_VdqWq'',
     opcode 0 BxError,
     opcode 0 BxError]"

definition BxOpcodeGroupSSE_0f6e :: "BxOpcodeInfo_t list" where
  "BxOpcodeGroupSSE_0f6e = [
     extension 0 ''MOVD_PqEd'',
     extension 0 ''MOVD_VdqEd'',
     opcode 0 BxError,
     opcode 0 BxError]"

definition BxOpcodeGroupSSE_0f6f :: "BxOpcodeInfo_t list" where
  "BxOpcodeGroupSSE_0f6f = [
     extension 0 ''MOVQ_PqQq'',
     extension 0 ''MOVDQA_VdqWdq'',
     opcode 0 BxError,
     extension 0 ''MOVDQU_VdqWdq'']"

definition BxOpcodeGroupSSE_0f70 :: "BxOpcodeInfo_t list" where
  "BxOpcodeGroupSSE_0f70 = [
     extension 0 ''PSHUFW_PqQqIb'',
     extension 0 ''PSHUFD_VdqWdqIb'',
     extension 0 ''PSHUFHW_VqWqIb'',
     extension 0 ''PSHUFLW_VqWqIb'']"

definition BxOpcodeGroupSSE_0f74 :: "BxOpcodeInfo_t list" where
  "BxOpcodeGroupSSE_0f74 = [
     extension 0 ''PCMPEQB_PqQq'',
     extension 0 ''PCMPEQB_VdqWdq'',
     opcode 0 BxError,
     opcode 0 BxError]"

definition BxOpcodeGroupSSE_0f75 :: "BxOpcodeInfo_t list" where
  "BxOpcodeGroupSSE_0f75 = [
     extension 0 ''PCMPEQW_PqQq'',
     extension 0 ''PCMPEQW_VdqWdq'',
     opcode 0 BxError,
     opcode 0 BxError]"

definition BxOpcodeGroupSSE_0f76 :: "BxOpcodeInfo_t list" where
  "BxOpcodeGroupSSE_0f76 = [
     extension 0 ''PCMPEQD_PqQq'',
     extension 0 ''PCMPEQD_VdqWdq'',
     opcode 0 BxError,
     opcode 0 BxError]"

definition BxOpcodeGroupSSE_0f7c :: "BxOpcodeInfo_t list" where
  "BxOpcodeGroupSSE_0f7c = [
     opcode 0 BxError,
     extension 0 ''HADDPD_VpdWpd'',
     extension 0 ''HADDPS_VpsWps'',
     opcode 0 BxError]"

definition BxOpcodeGroupSSE_0f7d :: "BxOpcodeInfo_t list" where
  "BxOpcodeGroupSSE_0f7d = [
     opcode 0 BxError,
     extension 0 ''HSUBPD_VpdWpd'',
     extension 0 ''HSUBPS_VpsWps'',
     opcode 0 BxError]"

definition BxOpcodeGroupSSE_0f7e :: "BxOpcodeInfo_t list" where
  "BxOpcodeGroupSSE_0f7e = [
     extension 0 ''MOVD_EdPd'',
     extension 0 ''MOVD_EdVd'',
     opcode 0 BxError,
     extension 0 ''MOVQ_VqWq'']"

definition BxOpcodeGroupSSE_0f7f :: "BxOpcodeInfo_t list" where
  "BxOpcodeGroupSSE_0f7f = [
     extension 0 ''MOVQ_QqPq'',
     extension 0 ''MOVDQA_WdqVdq'',
     opcode 0 BxError,
     extension 0 ''MOVDQU_WdqVdq'']"

definition BxOpcodeGroupSSE_0fc2 :: "BxOpcodeInfo_t list" where
  "BxOpcodeGroupSSE_0fc2 = [
     extension 0 ''CMPPS_VpsWpsIb'',
     extension 0 ''CMPPD_VpdWpdIb'',
     extension 0 ''CMPSD_VsdWsdIb'',
     extension 0 ''CMPSS_VssWssIb'']"

definition BxOpcodeGroupSSE_0fc3 :: "BxOpcodeInfo_t list" where
  "BxOpcodeGroupSSE_0fc3 = [
     extension 0 ''MOVNTI_MdGd'',
     opcode 0 BxError,
     opcode 0 BxError,
     opcode 0 BxError]"

definition BxOpcodeGroupSSE_0fc4 :: "BxOpcodeInfo_t list" where
  "BxOpcodeGroupSSE_0fc4 = [
     extension BxImmediate_Ib ''PINSRW_PqEdIb'',
     extension BxImmediate_Ib ''PINSRW_VdqEdIb'',
     opcode 0 BxError,
     opcode 0 BxError]"

definition BxOpcodeGroupSSE_0fc5 :: "BxOpcodeInfo_t list" where
  "BxOpcodeGroupSSE_0fc5 = [
     extension BxImmediate_Ib ''PEXTRW_GdPqIb'',
     extension BxImmediate_Ib ''PEXTRW_GdVRdqIb'',
     opcode 0 BxError,
     opcode 0 BxError]"

definition BxOpcodeGroupSSE_0fc6 :: "BxOpcodeInfo_t list" where
  "BxOpcodeGroupSSE_0fc6 = [
     extension BxImmediate_Ib ''SHUFPS_VpsWpsIb'',
     extension BxImmediate_Ib ''SHUFPD_VpdWpdIb'',
     opcode 0 BxError,
     opcode 0 BxError]"

definition BxOpcodeGroupSSE_0fd0 :: "BxOpcodeInfo_t list" where
  "BxOpcodeGroupSSE_0fd0 = [
     opcode 0 BxError,
     extension 0 ''ADDSUBPD_VpdWpd'',
     extension 0 ''ADDSUBPS_VpsWps'',
     opcode 0 BxError]"

definition BxOpcodeGroupSSE_0fd1 :: "BxOpcodeInfo_t list" where
  "BxOpcodeGroupSSE_0fd1 = [
     extension 0 ''PSRLW_PqQq'',
     extension 0 ''PSRLW_VdqWdq'',
     opcode 0 BxError,
     opcode 0 BxError]"

definition BxOpcodeGroupSSE_0fd2 :: "BxOpcodeInfo_t list" where
  "BxOpcodeGroupSSE_0fd2 = [
     extension 0 ''PSRLD_PqQq'',
     extension 0 ''PSRLD_VdqWdq'',
     opcode 0 BxError,
     opcode 0 BxError]"

definition BxOpcodeGroupSSE_0fd3 :: "BxOpcodeInfo_t list" where
  "BxOpcodeGroupSSE_0fd3 = [
     extension 0 ''PSRLQ_PqQq'',
     extension 0 ''PSRLQ_VdqWdq'',
     opcode 0 BxError,
     opcode 0 BxError]"

definition BxOpcodeGroupSSE_0fd4 :: "BxOpcodeInfo_t list" where
  "BxOpcodeGroupSSE_0fd4 = [
     extension 0 ''PADDQ_PqQq'',
     extension 0 ''PADDQ_VdqWdq'',
     opcode 0 BxError,
     opcode 0 BxError]"

definition BxOpcodeGroupSSE_0fd5 :: "BxOpcodeInfo_t list" where
  "BxOpcodeGroupSSE_0fd5 = [
     extension 0 ''PMULLW_PqQq'',
     extension 0 ''PMULLW_VdqWdq'',
     opcode 0 BxError,
     opcode 0 BxError]"

definition BxOpcodeGroupSSE_0fd6 :: "BxOpcodeInfo_t list" where
  "BxOpcodeGroupSSE_0fd6 = [
     opcode 0 BxError,
     extension 0 ''MOVQ_WqVq'',
     extension 0 ''MOVDQ2Q_PqVRq'',
     extension 0 ''MOVQ2DQ_VdqQq'']"

definition BxOpcodeGroupSSE_0fd7 :: "BxOpcodeInfo_t list" where
  "BxOpcodeGroupSSE_0fd7 = [
     extension 0 ''PMOVMSKB_GdPRq'',
     extension 0 ''PMOVMSKB_GdVRdq'',
     opcode 0 BxError,
     opcode 0 BxError]"

definition BxOpcodeGroupSSE_0fd8 :: "BxOpcodeInfo_t list" where
  "BxOpcodeGroupSSE_0fd8 = [
     extension 0 ''PSUBUSB_PqQq'',
     extension 0 ''PSUBUSB_VdqWdq'',
     opcode 0 BxError,
     opcode 0 BxError]"

definition BxOpcodeGroupSSE_0fd9 :: "BxOpcodeInfo_t list" where
  "BxOpcodeGroupSSE_0fd9 = [
     extension 0 ''PSUBUSW_PqQq'',
     extension 0 ''PSUBUSW_VdqWdq'',
     opcode 0 BxError,
     opcode 0 BxError]"

definition BxOpcodeGroupSSE_0fda :: "BxOpcodeInfo_t list" where
  "BxOpcodeGroupSSE_0fda = [
     extension 0 ''PMINUB_PqQq'',
     extension 0 ''PMINUB_VdqWdq'',
     opcode 0 BxError,
     opcode 0 BxError]"

definition BxOpcodeGroupSSE_0fdb :: "BxOpcodeInfo_t list" where
  "BxOpcodeGroupSSE_0fdb = [
     extension 0 ''PAND_PqQq'',
     extension 0 ''PAND_VdqWdq'',
     opcode 0 BxError,
     opcode 0 BxError]"

definition BxOpcodeGroupSSE_0fdc :: "BxOpcodeInfo_t list" where
  "BxOpcodeGroupSSE_0fdc = [
     extension 0 ''PADDUSB_PqQq'',
     extension 0 ''PADDUSB_VdqWdq'',
     opcode 0 BxError,
     opcode 0 BxError]"

definition BxOpcodeGroupSSE_0fdd :: "BxOpcodeInfo_t list" where
  "BxOpcodeGroupSSE_0fdd = [
     extension 0 ''PADDUSW_PqQq'',
     extension 0 ''PADDUSW_VdqWdq'',
     opcode 0 BxError,
     opcode 0 BxError]"

definition BxOpcodeGroupSSE_0fde :: "BxOpcodeInfo_t list" where
  "BxOpcodeGroupSSE_0fde = [
     extension 0 ''PMAXUB_PqQq'',
     extension 0 ''PMAXUB_VdqWdq'',
     opcode 0 BxError,
     opcode 0 BxError]"

definition BxOpcodeGroupSSE_0fdf :: "BxOpcodeInfo_t list" where
  "BxOpcodeGroupSSE_0fdf = [
     extension 0 ''PANDN_PqQq'',
     extension 0 ''PANDN_VdqWdq'',
     opcode 0 BxError,
     opcode 0 BxError]"

definition BxOpcodeGroupSSE_0fe0 :: "BxOpcodeInfo_t list" where
  "BxOpcodeGroupSSE_0fe0 = [
     extension 0 ''PAVGB_PqQq'',
     extension 0 ''PAVGB_VdqWdq'',
     opcode 0 BxError,
     opcode 0 BxError]"

definition BxOpcodeGroupSSE_0fe1 :: "BxOpcodeInfo_t list" where
  "BxOpcodeGroupSSE_0fe1 = [
     extension 0 ''PSRAW_PqQq'',
     extension 0 ''PSRAW_VdqWdq'',
     opcode 0 BxError,
     opcode 0 BxError]"

definition BxOpcodeGroupSSE_0fe2 :: "BxOpcodeInfo_t list" where
  "BxOpcodeGroupSSE_0fe2 = [
     extension 0 ''PSRAD_PqQq'',
     extension 0 ''PSRAD_VdqWdq'',
     opcode 0 BxError,
     opcode 0 BxError]"

definition BxOpcodeGroupSSE_0fe3 :: "BxOpcodeInfo_t list" where
  "BxOpcodeGroupSSE_0fe3 = [
     extension 0 ''PAVGW_PqQq'',
     extension 0 ''PAVGW_VdqWdq'',
     opcode 0 BxError,
     opcode 0 BxError]"

definition BxOpcodeGroupSSE_0fe4 :: "BxOpcodeInfo_t list" where
  "BxOpcodeGroupSSE_0fe4 = [
     extension 0 ''PMULHUW_PqQq'',
     extension 0 ''PMULHUW_VdqWdq'',
     opcode 0 BxError,
     opcode 0 BxError]"

definition BxOpcodeGroupSSE_0fe5 :: "BxOpcodeInfo_t list" where
  "BxOpcodeGroupSSE_0fe5 = [
     extension 0 ''PMULHW_PqQq'',
     extension 0 ''PMULHW_VdqWdq'',
     opcode 0 BxError,
     opcode 0 BxError]"

definition BxOpcodeGroupSSE_0fe6 :: "BxOpcodeInfo_t list" where
  "BxOpcodeGroupSSE_0fe6 = [
     opcode 0 BxError,
     extension 0 ''CVTTPD2DQ_VqWpd'',
     extension 0 ''CVTPD2DQ_VqWpd'',
     extension 0 ''CVTDQ2PD_VpdWq'']"

definition BxOpcodeGroupSSE_0fe7 :: "BxOpcodeInfo_t list" where
  "BxOpcodeGroupSSE_0fe7 = [
     extension 0 ''MOVNTQ_MqPq'',
     extension 0 ''MOVNTDQ_MdqVdq'',
     opcode 0 BxError,
     opcode 0 BxError]"

definition BxOpcodeGroupSSE_0fe8 :: "BxOpcodeInfo_t list" where
  "BxOpcodeGroupSSE_0fe8 = [
     extension 0 ''PSUBSB_PqQq'',
     extension 0 ''PSUBSB_VdqWdq'',
     opcode 0 BxError,
     opcode 0 BxError]"

definition BxOpcodeGroupSSE_0fe9 :: "BxOpcodeInfo_t list" where
  "BxOpcodeGroupSSE_0fe9 = [
     extension 0 ''PSUBSW_PqQq'',
     extension 0 ''PSUBSW_VdqWdq'',
     opcode 0 BxError,
     opcode 0 BxError]"

definition BxOpcodeGroupSSE_0fea :: "BxOpcodeInfo_t list" where
  "BxOpcodeGroupSSE_0fea = [
     extension 0 ''PMINSW_PqQq'',
     extension 0 ''PMINSW_VdqWdq'',
     opcode 0 BxError,
     opcode 0 BxError]"

definition BxOpcodeGroupSSE_0feb :: "BxOpcodeInfo_t list" where
  "BxOpcodeGroupSSE_0feb = [
     extension 0 ''POR_PqQq'',
     extension 0 ''POR_VdqWdq'',
     opcode 0 BxError,
     opcode 0 BxError]"

definition BxOpcodeGroupSSE_0fec :: "BxOpcodeInfo_t list" where
  "BxOpcodeGroupSSE_0fec = [
     extension 0 ''PADDSB_PqQq'',
     extension 0 ''PADDSB_VdqWdq'',
     opcode 0 BxError,
     opcode 0 BxError]"

definition BxOpcodeGroupSSE_0fed :: "BxOpcodeInfo_t list" where
  "BxOpcodeGroupSSE_0fed = [
     extension 0 ''PADDSW_PqQq'',
     extension 0 ''PADDSW_VdqWdq'',
     opcode 0 BxError,
     opcode 0 BxError]"

definition BxOpcodeGroupSSE_0fee :: "BxOpcodeInfo_t list" where
  "BxOpcodeGroupSSE_0fee = [
     extension 0 ''PMAXSW_PqQq'',
     extension 0 ''PMAXSW_VdqWdq'',
     opcode 0 BxError,
     opcode 0 BxError]"

definition BxOpcodeGroupSSE_0fef :: "BxOpcodeInfo_t list" where
  "BxOpcodeGroupSSE_0fef = [
     extension 0 ''PXOR_PqQq'',
     extension 0 ''PXOR_VdqWdq'',
     opcode 0 BxError,
     opcode 0 BxError]"

definition BxOpcodeGroupSSE_0ff0 :: "BxOpcodeInfo_t list" where
  "BxOpcodeGroupSSE_0ff0 = [
     opcode 0 BxError,
     opcode 0 BxError,
     extension 0 ''LDDQU_VdqMdq'',
     opcode 0 BxError]"

definition BxOpcodeGroupSSE_0ff1 :: "BxOpcodeInfo_t list" where
  "BxOpcodeGroupSSE_0ff1 = [
     extension 0 ''PSLLW_PqQq'',
     extension 0 ''PSLLW_VdqWdq'',
     opcode 0 BxError,
     opcode 0 BxError]"

definition BxOpcodeGroupSSE_0ff2 :: "BxOpcodeInfo_t list" where
  "BxOpcodeGroupSSE_0ff2 = [
     extension 0 ''PSLLD_PqQq'',
     extension 0 ''PSLLD_VdqWdq'',
     opcode 0 BxError,
     opcode 0 BxError]"

definition BxOpcodeGroupSSE_0ff3 :: "BxOpcodeInfo_t list" where
  "BxOpcodeGroupSSE_0ff3 = [
     extension 0 ''PSLLQ_PqQq'',
     extension 0 ''PSLLQ_VdqWdq'',
     opcode 0 BxError,
     opcode 0 BxError]"

definition BxOpcodeGroupSSE_0ff4 :: "BxOpcodeInfo_t list" where
  "BxOpcodeGroupSSE_0ff4 = [
     extension 0 ''PMULUDQ_PqQq'',
     extension 0 ''PMULUDQ_VdqWdq'',
     opcode 0 BxError,
     opcode 0 BxError]"

definition BxOpcodeGroupSSE_0ff5 :: "BxOpcodeInfo_t list" where
  "BxOpcodeGroupSSE_0ff5 = [
     extension 0 ''PMADDWD_PqQq'',
     extension 0 ''PMADDWD_VdqWdq'',
     opcode 0 BxError,
     opcode 0 BxError]"

definition BxOpcodeGroupSSE_0ff6 :: "BxOpcodeInfo_t list" where
  "BxOpcodeGroupSSE_0ff6 = [
     extension 0 ''PSADBW_PqQq'',
     extension 0 ''PSADBW_VdqWdq'',
     opcode 0 BxError,
     opcode 0 BxError]"

definition BxOpcodeGroupSSE_0ff7 :: "BxOpcodeInfo_t list" where
  "BxOpcodeGroupSSE_0ff7 = [
     extension 0 ''MASKMOVQ_PqPRq'',
     extension 0 ''MASKMOVDQU_VdqVRdq'',
     opcode 0 BxError,
     opcode 0 BxError]"

definition BxOpcodeGroupSSE_0ff8 :: "BxOpcodeInfo_t list" where
  "BxOpcodeGroupSSE_0ff8 = [
     extension 0 ''PSUBB_PqQq'',
     extension 0 ''PSUBB_VdqWdq'',
     opcode 0 BxError,
     opcode 0 BxError]"

definition BxOpcodeGroupSSE_0ff9 :: "BxOpcodeInfo_t list" where
  "BxOpcodeGroupSSE_0ff9 = [
     extension 0 ''PSUBW_PqQq'',
     extension 0 ''PSUBW_VdqWdq'',
     opcode 0 BxError,
     opcode 0 BxError]"

definition BxOpcodeGroupSSE_0ffa :: "BxOpcodeInfo_t list" where
  "BxOpcodeGroupSSE_0ffa = [
     extension 0 ''PSUBD_PqQq'',
     extension 0 ''PSUBD_VdqWdq'',
     opcode 0 BxError,
     opcode 0 BxError]"

definition BxOpcodeGroupSSE_0ffb :: "BxOpcodeInfo_t list" where
  "BxOpcodeGroupSSE_0ffb = [
     extension 0 ''PSUBQ_PqQq'',
     extension 0 ''PSUBQ_VdqWdq'',
     opcode 0 BxError,
     opcode 0 BxError]"

definition BxOpcodeGroupSSE_0ffc :: "BxOpcodeInfo_t list" where
  "BxOpcodeGroupSSE_0ffc = [
     extension 0 ''PADDB_PqQq'',
     extension 0 ''PADDB_VdqWdq'',
     opcode 0 BxError,
     opcode 0 BxError]"

definition BxOpcodeGroupSSE_0ffd :: "BxOpcodeInfo_t list" where
  "BxOpcodeGroupSSE_0ffd = [
     extension 0 ''PADDW_PqQq'',
     extension 0 ''PADDW_VdqWdq'',
     opcode 0 BxError,
     opcode 0 BxError]"

definition BxOpcodeGroupSSE_0ffe :: "BxOpcodeInfo_t list" where
  "BxOpcodeGroupSSE_0ffe = [
     extension 0 ''PADDD_PqQq'',
     extension 0 ''PADDD_VdqWdq'',
     opcode 0 BxError,
     opcode 0 BxError]"

definition BxOpcodeGroupSSE_G1202 :: "BxOpcodeInfo_t list" where
  "BxOpcodeGroupSSE_G1202 = [
     extension 0 ''PSRLW_PqIb'',
     extension 0 ''PSRLW_PdqIb'',
     opcode 0 BxError,
     opcode 0 BxError]"

definition BxOpcodeGroupSSE_G1204 :: "BxOpcodeInfo_t list" where
  "BxOpcodeGroupSSE_G1204 = [
     extension 0 ''PSRAW_PqIb'',
     extension 0 ''PSRAW_PdqIb'',
     opcode 0 BxError,
     opcode 0 BxError]"

definition BxOpcodeGroupSSE_G1206 :: "BxOpcodeInfo_t list" where
  "BxOpcodeGroupSSE_G1206 = [
     extension 0 ''PSLLW_PqIb'',
     extension 0 ''PSLLW_PdqIb'',
     opcode 0 BxError,
     opcode 0 BxError]"

definition BxOpcodeGroupSSE_G1302 :: "BxOpcodeInfo_t list" where
  "BxOpcodeGroupSSE_G1302 = [
     extension 0 ''PSRLD_PqIb'',
     extension 0 ''PSRLD_PdqIb'',
     opcode 0 BxError,
     opcode 0 BxError]"

definition BxOpcodeGroupSSE_G1304 :: "BxOpcodeInfo_t list" where
  "BxOpcodeGroupSSE_G1304 = [
     extension 0 ''PSRAD_PqIb'',
     extension 0 ''PSRAD_PdqIb'',
     opcode 0 BxError,
     opcode 0 BxError]"

definition BxOpcodeGroupSSE_G1306 :: "BxOpcodeInfo_t list" where
  "BxOpcodeGroupSSE_G1306 = [
     extension 0 ''PSLLD_PqIb'',
     extension 0 ''PSLLD_PdqIb'',
     opcode 0 BxError,
     opcode 0 BxError]"

definition BxOpcodeGroupSSE_G1402 :: "BxOpcodeInfo_t list" where
  "BxOpcodeGroupSSE_G1402 = [
     extension 0 ''PSRLQ_PqIb'',
     extension 0 ''PSRLQ_PdqIb'',
     opcode 0 BxError,
     opcode 0 BxError]"

definition BxOpcodeGroupSSE_G1403 :: "BxOpcodeInfo_t list" where
  "BxOpcodeGroupSSE_G1403 = [
     opcode 0 BxError,
     extension 0 ''PSRLDQ_WdqIb'',
     opcode 0 BxError,
     opcode 0 BxError]"

definition BxOpcodeGroupSSE_G1406 :: "BxOpcodeInfo_t list" where
  "BxOpcodeGroupSSE_G1406 = [
     extension 0 ''PSLLQ_PqIb'',
     extension 0 ''PSLLQ_PdqIb'',
     opcode 0 BxError,
     opcode 0 BxError]"

definition BxOpcodeGroupSSE_G1407 :: "BxOpcodeInfo_t list" where
  "BxOpcodeGroupSSE_G1407 = [
     opcode 0 BxError,
     extension 0 ''PSLLDQ_WdqIb'',
     opcode 0 BxError,
     opcode 0 BxError]"

definition BxOpcodeInfoG1EbIb :: "BxOpcodeInfo_t list" where
  "BxOpcodeInfoG1EbIb = [
     opcode (BxImmediate_Ib OR BxLockable) ADD_EbIb,
     opcode (BxImmediate_Ib OR BxLockable) OR_EbIb,
     opcode (BxImmediate_Ib OR BxLockable) ADC_EbIb,
     opcode (BxImmediate_Ib OR BxLockable) SBB_EbIb,
     opcode (BxImmediate_Ib OR BxLockable) AND_EbIb,
     opcode (BxImmediate_Ib OR BxLockable) SUB_EbIb,
     opcode (BxImmediate_Ib OR BxLockable) XOR_EbIb,
     opcode BxImmediate_Ib CMP_EbIb]"

definition BxOpcodeInfoG1Ew :: "BxOpcodeInfo_t list" where
  "BxOpcodeInfoG1Ew = [
     group BxSplitMod11b opcodesADD_EwIw,
     opcode BxLockable OR_EwIw,
     opcode BxLockable ADC_EwIw,
     opcode BxLockable SBB_EwIw,
     opcode BxLockable AND_EwIw,
     opcode BxLockable SUB_EwIw,
     opcode BxLockable XOR_EwIw,
     opcode 0 CMP_EwIw]"

definition BxOpcodeInfoG1Ed :: "BxOpcodeInfo_t list" where
  "BxOpcodeInfoG1Ed = [
     group BxSplitMod11b opcodesADD_EdId,
     opcode BxLockable OR_EdId,
     opcode BxLockable ADC_EdId,
     opcode BxLockable SBB_EdId,
     opcode BxLockable AND_EdId,
     opcode BxLockable SUB_EdId,
     opcode BxLockable XOR_EdId,
     opcode 0 CMP_EdId]"

definition BxOpcodeInfoG2Eb :: "BxOpcodeInfo_t list" where
  "BxOpcodeInfoG2Eb = [
     opcode 0 ROL_Eb,
     opcode 0 ROR_Eb,
     opcode 0 RCL_Eb,
     opcode 0 RCR_Eb,
     opcode 0 SHL_Eb,
     opcode 0 SHR_Eb,
     opcode 0 SHL_Eb,
     opcode 0 SAR_Eb]"

definition BxOpcodeInfoG2Ew :: "BxOpcodeInfo_t list" where
  "BxOpcodeInfoG2Ew = [
     opcode 0 ROL_Ew,
     opcode 0 ROR_Ew,
     opcode 0 RCL_Ew,
     opcode 0 RCR_Ew,
     opcode 0 SHL_Ew,
     opcode 0 SHR_Ew,
     opcode 0 SHL_Ew,
     opcode 0 SAR_Ew]"

definition BxOpcodeInfoG2Ed :: "BxOpcodeInfo_t list" where
  "BxOpcodeInfoG2Ed = [
     opcode 0 ROL_Ed,
     opcode 0 ROR_Ed,
     opcode 0 RCL_Ed,
     opcode 0 RCR_Ed,
     opcode 0 SHL_Ed,
     opcode 0 SHR_Ed,
     opcode 0 SHL_Ed,
     opcode 0 SAR_Ed]"

definition BxOpcodeInfoG3Eb :: "BxOpcodeInfo_t list" where
  "BxOpcodeInfoG3Eb = [
     opcode BxImmediate_Ib TEST_EbIb,
     opcode BxImmediate_Ib TEST_EbIb,
     opcode BxLockable NOT_Eb,
     opcode BxLockable NEG_Eb,
     opcode 0 MUL_ALEb,
     opcode 0 IMUL_ALEb,
     opcode 0 DIV_ALEb,
     opcode 0 IDIV_ALEb]"

definition BxOpcodeInfoG3Ew :: "BxOpcodeInfo_t list" where
  "BxOpcodeInfoG3Ew = [
     opcode BxImmediate_Iw TEST_EwIw,
     opcode BxImmediate_Iw TEST_EwIw,
     opcode BxLockable NOT_Ew,
     opcode BxLockable NEG_Ew,
     opcode 0 MUL_AXEw,
     opcode 0 IMUL_AXEw,
     opcode 0 DIV_AXEw,
     opcode 0 IDIV_AXEw]"

definition BxOpcodeInfoG3Ed :: "BxOpcodeInfo_t list" where
  "BxOpcodeInfoG3Ed = [
     opcode BxImmediate_Iv TEST_EdId,
     opcode BxImmediate_Iv TEST_EdId,
     opcode BxLockable NOT_Ed,
     opcode BxLockable NEG_Ed,
     opcode 0 MUL_EAXEd,
     opcode 0 IMUL_EAXEd,
     opcode 0 DIV_EAXEd,
     opcode 0 IDIV_EAXEd]"

definition BxOpcodeInfoG4 :: "BxOpcodeInfo_t list" where
  "BxOpcodeInfoG4 = [
     opcode BxLockable INC_Eb,
     opcode BxLockable DEC_Eb,
     opcode 0 BxError,
     opcode 0 BxError,
     opcode 0 BxError,
     opcode 0 BxError,
     opcode 0 BxError,
     opcode 0 BxError]"

definition BxOpcodeInfoG5w :: "BxOpcodeInfo_t list" where
  "BxOpcodeInfoG5w = [
     opcode BxLockable INC_Ew,
     opcode BxLockable DEC_Ew,
     opcode 0 CALL_Ew,
     opcode 0 CALL16_Ep,
     opcode 0 JMP_Ew,
     opcode 0 JMP16_Ep,
     opcode 0 PUSH_Ew,
     opcode 0 BxError]"

definition BxOpcodeInfoG5d :: "BxOpcodeInfo_t list" where
  "BxOpcodeInfoG5d = [
     opcode BxLockable INC_Ed,
     opcode BxLockable DEC_Ed,
     opcode 0 CALL_Ed,
     opcode 0 CALL32_Ep,
     opcode 0 JMP_Ed,
     opcode 0 JMP32_Ep,
     opcode 0 PUSH_Ed,
     opcode 0 BxError]"

definition BxOpcodeInfoG6 :: "BxOpcodeInfo_t list" where
  "BxOpcodeInfoG6 = [
     opcode 0 SLDT_Ew,
     opcode 0 STR_Ew,
     opcode 0 LLDT_Ew,
     opcode 0 LTR_Ew,
     opcode 0 VERR_Ew,
     opcode 0 VERW_Ew,
     opcode 0 BxError,
     opcode 0 BxError]"

definition BxOpcodeInfoG7 :: "BxOpcodeInfo_t list" where
  "BxOpcodeInfoG7 = [
     opcode 0 SGDT_Ms,
     opcode 0 SIDT_Ms,
     opcode 0 LGDT_Ms,
     opcode 0 LIDT_Ms,
     opcode 0 SMSW_Ew,
     opcode 0 BxError,
     opcode 0 LMSW_Ew,
     opcode 0 INVLPG]"

definition BxOpcodeInfoG8EwIb :: "BxOpcodeInfo_t list" where
  "BxOpcodeInfoG8EwIb = [
     opcode 0 BxError,
     opcode 0 BxError,
     opcode 0 BxError,
     opcode 0 BxError,
     opcode BxImmediate_Ib BT_EwIb,
     opcode (BxImmediate_Ib OR BxLockable) BTS_EwIb,
     opcode (BxImmediate_Ib OR BxLockable) BTR_EwIb,
     opcode (BxImmediate_Ib OR BxLockable) BTC_EwIb]"

definition BxOpcodeInfoG8EdIb :: "BxOpcodeInfo_t list" where
  "BxOpcodeInfoG8EdIb = [
     opcode 0 BxError,
     opcode 0 BxError,
     opcode 0 BxError,
     opcode 0 BxError,
     opcode BxImmediate_Ib BT_EdIb,
     opcode (BxImmediate_Ib OR BxLockable) BTS_EdIb,
     opcode (BxImmediate_Ib OR BxLockable) BTR_EdIb,
     opcode (BxImmediate_Ib OR BxLockable) BTC_EdIb]"

definition BxOpcodeInfoG9 :: "BxOpcodeInfo_t list" where
  "BxOpcodeInfoG9 = [
     opcode 0 BxError,
     opcode BxLockable CMPXCHG8B,
     opcode 0 BxError,
     opcode 0 BxError,
     opcode 0 BxError,
     opcode 0 BxError,
     opcode 0 BxError,
     opcode 0 BxError]"

definition BxOpcodeInfoG12 :: "BxOpcodeInfo_t list" where
  "BxOpcodeInfoG12 = [
     opcode 0 BxError,
     opcode 0 BxError,
     group (BxImmediate_Ib OR BxPrefixSSE) BxOpcodeGroupSSE_G1202,
     opcode 0 BxError,
     group (BxImmediate_Ib OR BxPrefixSSE) BxOpcodeGroupSSE_G1204,
     opcode 0 BxError,
     group (BxImmediate_Ib OR BxPrefixSSE) BxOpcodeGroupSSE_G1206,
     opcode 0 BxError]"

definition BxOpcodeInfoG13 :: "BxOpcodeInfo_t list" where
  "BxOpcodeInfoG13 = [
     opcode 0 BxError,
     opcode 0 BxError,
     group (BxImmediate_Ib OR BxPrefixSSE) BxOpcodeGroupSSE_G1302,
     opcode 0 BxError,
     group (BxImmediate_Ib OR BxPrefixSSE) BxOpcodeGroupSSE_G1304,
     opcode 0 BxError,
     group (BxImmediate_Ib OR BxPrefixSSE) BxOpcodeGroupSSE_G1306,
     opcode 0 BxError]"

definition BxOpcodeInfoG14 :: "BxOpcodeInfo_t list" where
  "BxOpcodeInfoG14 = [
     opcode 0 BxError,
     opcode 0 BxError,
     group (BxImmediate_Ib OR BxPrefixSSE) BxOpcodeGroupSSE_G1402,
     group (BxImmediate_Ib OR BxPrefixSSE) BxOpcodeGroupSSE_G1403,
     opcode 0 BxError,
     opcode 0 BxError,
     group (BxImmediate_Ib OR BxPrefixSSE) BxOpcodeGroupSSE_G1406,
     group (BxImmediate_Ib OR BxPrefixSSE) BxOpcodeGroupSSE_G1407]"

definition BxOpcodeInfoG15 :: "BxOpcodeInfo_t list" where
  "BxOpcodeInfoG15 = [
     extension 0 ''FXSAVE'',
     extension 0 ''FXRSTOR'',
     extension 0 ''LDMXCSR'',
     extension 0 ''STMXCSR'',
     opcode 0 BxError,
     opcode 0 NOP,
     opcode 0 NOP,
     opcode 0 NOP]"

definition BxOpcodeInfoG16 :: "BxOpcodeInfo_t list" where
  "BxOpcodeInfoG16 = [
     opcode 0 PREFETCH,
     opcode 0 PREFETCH,
     opcode 0 PREFETCH,
     opcode 0 PREFETCH,
     opcode 0 BxError,
     opcode 0 BxError,
     opcode 0 BxError,
     opcode 0 BxError]"

end
