(* ===== verification/BxOpcodeTable.thy ===== *)
theory BxOpcodeTable
  imports BxOpcodes
begin

text \<open>
  The tables of the x87 opcodes with a register operand and of the one- and two-byte opcodes, in
  pieces of 128 entries. The first half of \<open>BxOpcodeInfo\<close> is for 16-bit operands, the second for
  32-bit operands; an index above 255 is a two-byte opcode.
\<close>

section \<open>Register operands of the x87\<close>

definition x87_opcodes_0 :: "BxOpcodeInfo_t list" where
  "x87_opcodes_0 = [
     extension 0 ''FADD_ST0_STj'',
     extension 0 ''FADD_ST0_STj'',
     extension 0 ''FADD_ST0_STj'',
     extension 0 ''FADD_ST0_STj'',
     extension 0 ''FADD_ST0_STj'',
     extension 0 ''FADD_ST0_STj'',
     extension 0 ''FADD_ST0_STj'',
     extension 0 ''FADD_ST0_STj'',
     extension 0 ''FMUL_ST0_STj'',
     extension 0 ''FMUL_ST0_STj'',
     extension 0 ''FMUL_ST0_STj'',
     extension 0 ''FMUL_ST0_STj'',
     extension 0 ''FMUL_ST0_STj'',
     extension 0 ''FMUL_ST0_STj'',
     extension 0 ''FMUL_ST0_STj'',
     extension 0 ''FMUL_ST0_STj'',
     extension 0 ''FCOM_STi'',
     extension 0 ''FCOM_STi'',
     extension 0 ''FCOM_STi'',
     extension 0 ''FCOM_STi'',
     extension 0 ''FCOM_STi'',
     extension 0 ''FCOM_STi'',
     extension 0 ''FCOM_STi'',
     extension 0 ''FCOM_STi'',
     extension 0 ''FCOM_STi'',
     extension 0 ''FCOM_STi'',
     extension 0 ''FCOM_STi'',
     extension 0 ''FCOM_STi'',
     extension 0 ''FCOM_STi'',
     extension 0 ''FCOM_STi'',
     extension 0 ''FCOM_STi'',
     extension 0 ''FCOM_STi'',
     extension 0 ''FSUB_ST0_STj'',
     extension 0 ''FSUB_ST0_STj'',
     extension 0 ''FSUB_ST0_STj'',
     extension 0 ''FSUB_ST0_STj'',
     extension 0 ''FSUB_ST0_STj'',
     extension 0 ''FSUB_ST0_STj'',
     extension 0 ''FSUB_ST0_STj'',
     extension 0 ''FSUB_ST0_STj'',
     extension 0 ''FSUBR_ST0_STj'',
     extension 0 ''FSUBR_ST0_STj'',
     extension 0 ''FSUBR_ST0_STj'',
     extension 0 ''FSUBR_ST0_STj'',
     extension 0 ''FSUBR_ST0_STj'',
     extension 0 ''FSUBR_ST0_STj'',
     extension 0 ''FSUBR_ST0_STj'',
     extension 0 ''FSUBR_ST0_STj'',
     extension 0 ''FDIV_ST0_STj'',
     extension 0 ''FDIV_ST0_STj'',
     extension 0 ''FDIV_ST0_STj'',
     extension 0 ''FDIV_ST0_STj'',
     extension 0 ''FDIV_ST0_STj'',
     extension 0 ''FDIV_ST0_STj'',
     extension 0 ''FDIV_ST0_STj'',
     extension 0 ''FDIV_ST0_STj'',
     extension 0 ''FDIVR_ST0_STj'',
     extension 0 ''FDIVR_ST0_STj'',
     extension 0 ''FDIVR_ST0_STj'',
     extension 0 ''FDIVR_ST0_STj'',
     extension 0 ''FDIVR_ST0_STj'',
     extension 0 ''FDIVR_ST0_STj'',
     extension 0 ''FDIVR_ST0_STj'',
     extension 0 ''FDIVR_ST0_STj'',
     extension 0 ''FLD_STi'',
     extension 0 ''FLD_STi'',
     extension 0 ''FLD_STi'',
     extension 0 ''FLD_STi'',
     extension 0 ''FLD_STi'',
     extension 0 ''FLD_STi'',
     extension 0 ''FLD_STi'',
     extension 0 ''FLD_STi'',
     extension 0 ''FXCH_STi'',
     extension 0 ''FXCH_STi'',
     extension 0 ''FXCH_STi'',
     extension 0 ''FXCH_STi'',
     extension 0 ''FXCH_STi'',
     extension 0 ''FXCH_STi'',
     extension 0 ''FXCH_STi'',
     extension 0 ''FXCH_STi'',
     extension 0 ''FNOP'',
     opcode 0 BxError,
     opcode 0 BxError,
     opcode 0 BxError,
     opcode 0 BxError,
     opcode 0 BxError,
     opcode 0 BxError,
     opcode 0 BxError,
     opcode 0 BxError,
     opcode 0 BxError,
     opcode 0 BxError,
     opcode 0 BxError,
     opcode 0 BxError,
     opcode 0 BxError,
     opcode 0 BxError,
     opcode 0 BxError,
     extension 0 ''FCHS'',
     extension 0 ''FABS'',
     opcode 0 BxError,
     opcode 0 BxError,
     extension 0 ''FTST'',
     extension 0 ''FXAM'',
     opcode 0 BxError,
     opcode 0 BxError,
     extension 0 ''FLD1'',
     extension 0 ''FLDL2T'',
     extension 0 ''FLDL2E'',
     extension 0 ''FLDPI'',
     extension 0 ''FLDLG2'',
     extension 0 ''FLDLN2'',
     extension 0 ''FLDZ'',
     opcode 0 BxError,
     extension 0 ''F2XM1'',
     extension 0 ''FYL2X'',
     extension 0 ''FPTAN'',
     extension 0 ''FPATAN'',
     extension 0 ''FXTRACT'',
     extension 0 ''FPREM1'',
     extension 0 ''FDECSTP'',
     extension 0 ''FINCSTP'',
     extension 0 ''FPREM'',
     extension 0 ''FYL2XP1'',
     extension 0 ''FSQRT'',
     extension 0 ''FSINCOS'',
     extension 0 ''FRNDINT'',
     extension 0 ''FSCALE'',
     extension 0 ''FSIN'',
     extension 0 ''FCOS'']"

definition x87_opcodes_1 :: "BxOpcodeInfo_t list" where
  "x87_opcodes_1 = [
     extension 0 ''FCMOV_ST0_STj'',
     extension 0 ''FCMOV_ST0_STj'',
     extension 0 ''FCMOV_ST0_STj'',
     extension 0 ''FCMOV_ST0_STj'',
     extension 0 ''FCMOV_ST0_STj'',
     extension 0 ''FCMOV_ST0_STj'',
     extension 0 ''FCMOV_ST0_STj'',
     extension 0 ''FCMOV_ST0_STj'',
     extension 0 ''FCMOV_ST0_STj'',
     extension 0 ''FCMOV_ST0_STj'',
     extension 0 ''FCMOV_ST0_STj'',
     extension 0 ''FCMOV_ST0_STj'',
     extension 0 ''FCMOV_ST0_STj'',
     extension 0 ''FCMOV_ST0_STj'',
     extension 0 ''FCMOV_ST0_STj'',
     extension 0 ''FCMOV_ST0_STj'',
     extension 0 ''FCMOV_ST0_STj'',
     extension 0 ''FCMOV_ST0_STj'',
     extension 0 ''FCMOV_ST0_STj'',
     extension 0 ''FCMOV_ST0_STj'',
     extension 0 ''FCMOV_ST0_STj'',
     extension 0 ''FCMOV_ST0_STj'',
     extension 0 ''FCMOV_ST0_STj'',
     extension 0 ''FCMOV_ST0_STj'',
     extension 0 ''FCMOV_ST0_STj'',
     extension 0 ''FCMOV_ST0_STj'',
     extension 0 ''FCMOV_ST0_STj'',
     extension 0 ''FCMOV_ST0_STj'',
     extension 0 ''FCMOV_ST0_STj'',
     extension 0 ''FCMOV_ST0_STj'',
     extension 0 ''FCMOV_ST0_STj'',
     extension 0 ''FCMOV_ST0_STj'',
     opcode 0 BxError,
     opcode 0 BxError,
     opcode 0 BxError,
     opcode 0 BxError,
     opcode 0 BxError,
     opcode 0 BxError,
     opcode 0 BxError,
     opcode 0 BxError,
     opcode 0 BxError,
     extension 0 ''FUCOMPP'',
     opcode 0 BxError,
     opcode 0 BxError,
     opcode 0 BxError,
     opcode 0 BxError,
     opcode 0 BxError,
     opcode 0 BxError,
     opcode 0 BxError,
     opcode 0 BxError,
     opcode 0 BxError,
     opcode 0 BxError,
     opcode 0 BxError,
     opcode 0 BxError,
     opcode 0 BxError,
     opcode 0 BxError,
     opcode 0 BxError,
     opcode 0 BxError,
     opcode 0 BxError,
     opcode 0 BxError,
     opcode 0 BxError,
     opcode 0 BxError,
     opcode 0 BxError,
     opcode 0 BxError,
     extension 0 ''FCMOV_ST0_STj'',
     extension 0 ''FCMOV_ST0_STj'',
     extension 0 ''FCMOV_ST0_STj'',
     extension 0 ''FCMOV_ST0_STj'',
     extension 0 ''FCMOV_ST0_STj'',
     extension 0 ''FCMOV_ST0_STj'',
     extension 0 ''FCMOV_ST0_STj'',
     extension 0 ''FCMOV_ST0_STj'',
     extension 0 ''FCMOV_ST0_STj'',
     extension 0 ''FCMOV_ST0_STj'',
     extension 0 ''FCMOV_ST0_STj'',
     extension 0 ''FCMOV_ST0_STj'',
     extension 0 ''FCMOV_ST0_STj'',
     extension 0 ''FCMOV_ST0_STj'',
     extension 0 ''FCMOV_ST0_STj'',
     extension 0 ''FCMOV_ST0_STj'',
     extension 0 ''FCMOV_ST0_STj'',
     extension 0 ''FCMOV_ST0_STj'',
     extension 0 ''FCMOV_ST0_STj'',
     extension 0 ''FCMOV_ST0_STj'',
     extension 0 ''FCMOV_ST0_STj'',
     extension 0 ''FCMOV_ST0_STj'',
     extension 0 ''FCMOV_ST0_STj'',
     extension 0 ''FCMOV_ST0_STj'',
     extension 0 ''FCMOV_ST0_STj'',
     extension 0 ''FCMOV_ST0_STj'',
     extension 0 ''FCMOV_ST0_STj'',
     extension 0 ''FCMOV_ST0_STj'',
     extension 0 ''FCMOV_ST0_STj'',
     extension 0 ''FCMOV_ST0_STj'',
     extension 0 ''FCMOV_ST0_STj'',
     extension 0 ''FCMOV_ST0_STj'',
     extension 0 ''FPLEGACY'',
     extension 0 ''FPLEGACY'',
     extension 0 ''FNCLEX'',
     extension 0 ''FNINIT'',
     extension 0 ''FPLEGACY'',
     opcode 0 BxError,
     opcode 0 BxError,
     opcode 0 BxError,
     extension 0 ''FUCOMI_ST0_STj'',
     extension 0 ''FUCOMI_ST0_STj'',
     extension 0 ''FUCOMI_ST0_STj'',
     extension 0 ''FUCOMI_ST0_STj'',
     extension 0 ''FUCOMI_ST0_STj'',
     extension 0 ''FUCOMI_ST0_STj'',
     extension 0 ''FUCOMI_ST0_STj'',
     extension 0 ''FUCOMI_ST0_STj'',
     extension 0 ''FCOMI_ST0_STj'',
     extension 0 ''FCOMI_ST0_STj'',
     extension 0 ''FCOMI_ST0_STj'',
     extension 0 ''FCOMI_ST0_STj'',
     extension 0 ''FCOMI_ST0_STj'',
     extension 0 ''FCOMI_ST0_STj'',
     extension 0 ''FCOMI_ST0_STj'',
     extension 0 ''FCOMI_ST0_STj'',
     opcode 0 BxError,
     opcode 0 BxError,
     opcode 0 BxError,
     opcode 0 BxError,
     opcode 0 BxError,
     opcode 0 BxError,
     opcode 0 BxError,
     opcode 0 BxError]"

definition x87_opcodes_2 :: "BxOpcodeInfo_t list" where
  "x87_opcodes_2 = [
     extension 0 ''FADD_STi_ST0'',
     extension 0 ''FADD_STi_ST0'',
     extension 0 ''FADD_STi_ST0'',
     extension 0 ''FADD_STi_ST0'',
     extension 0 ''FADD_STi_ST0'',
     extension 0 ''FADD_STi_ST0'',
     extension 0 ''FADD_STi_ST0'',
     extension 0 ''FADD_STi_ST0'',
     extension 0 ''FMUL_STi_ST0'',
     extension 0 ''FMUL_STi_ST0'',
     extension 0 ''FMUL_STi_ST0'',
     extension 0 ''FMUL_STi_ST0'',
     extension 0 ''FMUL_STi_ST0'',
     extension 0 ''FMUL_STi_ST0'',
     extension 0 ''FMUL_STi_ST0'',
     extension 0 ''FMUL_STi_ST0'',
     opcode 0 BxError,
     opcode 0 BxError,
     opcode 0 BxError,
     opcode 0 BxError,
     opcode 0 BxError,
     opcode 0 BxError,
     opcode 0 BxError,
     opcode 0 BxError,
     opcode 0 BxError,
     opcode 0 BxError,
     opcode 0 BxError,
     opcode 0 BxError,
     opcode 0 BxError,
     opcode 0 BxError,
     opcode 0 BxError,
     opcode 0 BxError,
     extension 0 ''FSUBR_STi_ST0'',
     extension 0 ''FSUBR_STi_ST0'',
     extension 0 ''FSUBR_STi_ST0'',
     extension 0 ''FSUBR_STi_ST0'',
     extension 0 ''FSUBR_STi_ST0'',
     extension 0 ''FSUBR_STi_ST0'',
     extension 0 ''FSUBR_STi_ST0'',
     extension 0 ''FSUBR_STi_ST0'',
     extension 0 ''FSUB_STi_ST0'',
     extension 0 ''FSUB_STi_ST0'',
     extension 0 ''FSUB_STi_ST0'',
     extension 0 ''FSUB_STi_ST0'',
     extension 0 ''FSUB_STi_ST0'',
     extension 0 ''FSUB_STi_ST0'',
     extension 0 ''FSUB_STi_ST0'',
     extension 0 ''FSUB_STi_ST0'',
     extension 0 ''FDIVR_STi_ST0'',
     extension 0 ''FDIVR_STi_ST0'',
     extension 0 ''FDIVR_STi_ST0'',
     extension 0 ''FDIVR_STi_ST0'',
     extension 0 ''FDIVR_STi_ST0'',
     extension 0 ''FDIVR_STi_ST0'',
     extension 0 ''FDIVR_STi_ST0'',
     extension 0 ''FDIVR_STi_ST0'',
     extension 0 ''FDIV_STi_ST0'',
     extension 0 ''FDIV_STi_ST0'',
     extension 0 ''FDIV_STi_ST0'',
     extension 0 ''FDIV_STi_ST0'',
     extension 0 ''FDIV_STi_ST0'',
     extension 0 ''FDIV_STi_ST0'',
     extension 0 ''FDIV_STi_ST0'',
     extension 0 ''FDIV_STi_ST0'',
     extension 0 ''FFREE_STi'',
     extension 0 ''FFREE_STi'',
     extension 0 ''FFREE_STi'',
     extension 0 ''FFREE_STi'',
     extension 0 ''FFREE_STi'',
     extension 0 ''FFREE_STi'',
     extension 0 ''FFREE_STi'',
     extension 0 ''FFREE_STi'',
     opcode 0 BxError,
     opcode 0 BxError,
     opcode 0 BxError,
     opcode 0 BxError,
     opcode 0 BxError,
     opcode 0 BxError,
     opcode 0 BxError,
     opcode 0 BxError,
     extension 0 ''FST_STi'',
     extension 0 ''FST_STi'',
     extension 0 ''FST_STi'',
     extension 0 ''FST_STi'',
     extension 0 ''FST_STi'',
     extension 0 ''FST_STi'',
     extension 0 ''FST_STi'',
     extension 0 ''FST_STi'',
     extension 0 ''FST_STi'',
     extension 0 ''FST_STi'',
     extension 0 ''FST_STi'',
     extension 0 ''FST_STi'',
     extension 0 ''FST_STi'',
     extension 0 ''FST_STi'',
     extension 0 ''FST_STi'',
     extension 0 ''FST_STi'',
     extension 0 ''FUCOM_STi'',
     extension 0 ''FUCOM_STi'',
     extension 0 ''FUCOM_STi'',
     extension 0 ''FUCOM_STi'',
     extension 0 ''FUCOM_STi'',
     extension 0 ''FUCOM_STi'',
     extension 0 ''FUCOM_STi'',
     extension 0 ''FUCOM_STi'',
     extension 0 ''FUCOM_STi'',
     extension 0 ''FUCOM_STi'',
     extension 0 ''FUCOM_STi'',
     extension 0 ''FUCOM_STi'',
     extension 0 ''FUCOM_STi'',
     extension 0 ''FUCOM_STi'',
     extension 0 ''FUCOM_STi'',
     extension 0 ''FUCOM_STi'',
     opcode 0 BxError,
     opcode 0 BxError,
     opcode 0 BxError,
     opcode 0 BxError,
     opcode 0 BxError,
     opcode 0 BxError,
     opcode 0 BxError,
     opcode 0 BxError,
     opcode 0 BxError,
     opcode 0 BxError,
     opcode 0 BxError,
     opcode 0 BxError,
     opcode 0 BxError,
     opcode 0 BxError,
     opcode 0 BxError,
     opcode 0 BxError]"

definition x87_opcodes_3 :: "BxOpcodeInfo_t list" where
  "x87_opcodes_3 = [
     extension 0 ''FADD_STi_ST0'',
     extension 0 ''FADD_STi_ST0'',
     extension 0 ''FADD_STi_ST0'',
     extension 0 ''FADD_STi_ST0'',
     extension 0 ''FADD_STi_ST0'',
     extension 0 ''FADD_STi_ST0'',
     extension 0 ''FADD_STi_ST0'',
     extension 0 ''FADD_STi_ST0'',
     extension 0 ''FMUL_STi_ST0'',
     extension 0 ''FMUL_STi_ST0'',
     extension 0 ''FMUL_STi_ST0'',
     extension 0 ''FMUL_STi_ST0'',
     extension 0 ''FMUL_STi_ST0'',
     extension 0 ''FMUL_STi_ST0'',
     extension 0 ''FMUL_STi_ST0'',
     extension 0 ''FMUL_STi_ST0'',
     opcode 0 BxError,
     opcode 0 BxError,
     opcode 0 BxError,
     opcode 0 BxError,
     opcode 0 BxError,
     opcode 0 BxError,
     opcode 0 BxError,
     opcode 0 BxError,
     opcode 0 BxError,
     extension 0 ''FCOMPP'',
     opcode 0 BxError,
     opcode 0 BxError,
     opcode 0 BxError,
     opcode 0 BxError,
     opcode 0 BxError,
     opcode 0 BxError,
     extension 0 ''FSUBR_STi_ST0'',
     extension 0 ''FSUBR_STi_ST0'',
     extension 0 ''FSUBR_STi_ST0'',
     extension 0 ''FSUBR_STi_ST0'',
     extension 0 ''FSUBR_STi_ST0'',
     extension 0 ''FSUBR_STi_ST0'',
     extension 0 ''FSUBR_STi_ST0'',
     extension 0 ''FSUBR_STi_ST0'',
     extension 0 ''FSUB_STi_ST0'',
     extension 0 ''FSUB_STi_ST0'',
     extension 0 ''FSUB_STi_ST0'',
     extension 0 ''FSUB_STi_ST0'',
     extension 0 ''FSUB_STi_ST0'',
     extension 0 ''FSUB_STi_ST0'',
     extension 0 ''FSUB_STi_ST0'',
     extension 0 ''FSUB_STi_ST0'',
     extension 0 ''FDIVR_STi_ST0'',
     extension 0 ''FDIVR_STi_ST0'',
     extension 0 ''FDIVR_STi_ST0'',
     extension 0 ''FDIVR_STi_ST0'',
     extension 0 ''FDIVR_STi_ST0'',
     extension 0 ''FDIVR_STi_ST0'',
     extension 0 ''FDIVR_STi_ST0'',
     extension 0 ''FDIVR_STi_ST0'',
     extension 0 ''FDIV_STi_ST0'',
     extension 0 ''FDIV_STi_ST0'',
     extension 0 ''FDIV_STi_ST0'',
     extension 0 ''FDIV_STi_ST0'',
     extension 0 ''FDIV_STi_ST0'',
     extension 0 ''FDIV_STi_ST0'',
     extension 0 ''FDIV_STi_ST0'',
     extension 0 ''FDIV_STi_ST0'',
     extension 0 ''FFREEP_STi'',
     extension 0 ''FFREEP_STi'',
     extension 0 ''FFREEP_STi'',
     extension 0 ''FFREEP_STi'',
     extension 0 ''FFREEP_STi'',
     extension 0 ''FFREEP_STi'',
     extension 0 ''FFREEP_STi'',
     extension 0 ''FFREEP_STi'',
     opcode 0 BxError,
     opcode 0 BxError,
     opcode 0 BxError,
     opcode 0 BxError,
     opcode 0 BxError,
     opcode 0 BxError,
     opcode 0 BxError,
     opcode 0 BxError,
     opcode 0 BxError,
     opcode 0 BxError,
     opcode 0 BxError,
     opcode 0 BxError,
     opcode 0 BxError,
     opcode 0 BxError,
     opcode 0 BxError,
     opcode 0 BxError,
     opcode 0 BxError,
     opcode 0 BxError,
     opcode 0 BxError,
     opcode 0 BxError,
     opcode 0 BxError,
     opcode 0 BxError,
     opcode 0 BxError,
     opcode 0 BxError,
     extension 0 ''FNSTSW_AX'',
     opcode 0 BxError,
     opcode 0 BxError,
     opcode 0 BxError,
     opcode 0 BxError,
     opcode 0 BxError,
     opcode 0 BxError,
     opcode 0 BxError,
     extension 0 ''FUCOMI_ST0_STj'',
     extension 0 ''FUCOMI_ST0_STj'',
     extension 0 ''FUCOMI_ST0_STj'',
     extension 0 ''FUCOMI_ST0_STj'',
     extension 0 ''FUCOMI_ST0_STj'',
     extension 0 ''FUCOMI_ST0_STj'',
     extension 0 ''FUCOMI_ST0_STj'',
     extension 0 ''FUCOMI_ST0_STj'',
     extension 0 ''FCOMI_ST0_STj'',
     extension 0 ''FCOMI_ST0_STj'',
     extension 0 ''FCOMI_ST0_STj'',
     extension 0 ''FCOMI_ST0_STj'',
     extension 0 ''FCOMI_ST0_STj'',
     extension 0 ''FCOMI_ST0_STj'',
     extension 0 ''FCOMI_ST0_STj'',
     extension 0 ''FCOMI_ST0_STj'',
     opcode 0 BxError,
     opcode 0 BxError,
     opcode 0 BxError,
     opcode 0 BxError,
     opcode 0 BxError,
     opcode 0 BxError,
     opcode 0 BxError,
     opcode 0 BxError]"

definition BxOpcodeInfo_FloatingPoint :: "BxOpcodeInfo_t list" where
  "BxOpcodeInfo_FloatingPoint =
     x87_opcodes_0 @ x87_opcodes_1 @ x87_opcodes_2 @ x87_opcodes_3"

section \<open>One- and two-byte opcodes\<close>

definition opcodes_0 :: "BxOpcodeInfo_t list" where
  "opcodes_0 = [
     opcode (BxAnother OR BxLockable) ADD_EbGb,
     opcode (BxAnother OR BxLockable) ADD_EwGw,
     opcode BxAnother ADD_GbEb,
     group (BxAnother OR BxSplitMod11b) opcodesADD_GwEw,
     opcode BxImmediate_Ib ADD_ALIb,
     opcode BxImmediate_Iv ADD_AXIw,
     opcode 0 PUSH16_ES,
     opcode 0 POP16_ES,
     opcode (BxAnother OR BxLockable) OR_EbGb,
     opcode (BxAnother OR BxLockable) OR_EwGw,
     opcode BxAnother OR_GbEb,
     opcode BxAnother OR_GwEw,
     opcode BxImmediate_Ib OR_ALIb,
     opcode BxImmediate_Iv OR_AXIw,
     opcode 0 PUSH16_CS,
     opcode BxAnother BxError,
     opcode (BxAnother OR BxLockable) ADC_EbGb,
     opcode (BxAnother OR BxLockable) ADC_EwGw,
     opcode BxAnother ADC_GbEb,
     opcode BxAnother ADC_GwEw,
     opcode BxImmediate_Ib ADC_ALIb,
     opcode BxImmediate_Iv ADC_AXIw,
     opcode 0 PUSH16_SS,
     opcode 0 POP16_SS,
     opcode (BxAnother OR BxLockable) SBB_EbGb,
     opcode (BxAnother OR BxLockable) SBB_EwGw,
     opcode BxAnother SBB_GbEb,
     opcode BxAnother SBB_GwEw,
     opcode BxImmediate_Ib SBB_ALIb,
     opcode BxImmediate_Iv SBB_AXIw,
     opcode 0 PUSH16_DS,
     opcode 0 POP16_DS,
     opcode (BxAnother OR BxLockable) AND_EbGb,
     opcode (BxAnother OR BxLockable) AND_EwGw,
     opcode BxAnother AND_GbEb,
     opcode BxAnother AND_GwEw,
     opcode BxImmediate_Ib AND_ALIb,
     opcode BxImmediate_Iv AND_AXIw,
     opcode (BxPrefix OR BxAnother) BxError,
     opcode 0 DAA,
     opcode (BxAnother OR BxLockable) SUB_EbGb,
     opcode (BxAnother OR BxLockable) SUB_EwGw,
     opcode BxAnother SUB_GbEb,
     opcode BxAnother SUB_GwEw,
     opcode BxImmediate_Ib SUB_ALIb,
     opcode BxImmediate_Iv SUB_AXIw,
     opcode (BxPrefix OR BxAnother) BxError,
     opcode 0 DAS,
     opcode (BxAnother OR BxLockable) XOR_EbGb,
     opcode (BxAnother OR BxLockable) XOR_EwGw,
     opcode BxAnother XOR_GbEb,
     opcode BxAnother XOR_GwEw,
     opcode BxImmediate_Ib XOR_ALIb,
     opcode BxImmediate_Iv XOR_AXIw,
     opcode (BxPrefix OR BxAnother) BxError,
     opcode 0 AAA,
     opcode BxAnother CMP_EbGb,
     opcode BxAnother CMP_EwGw,
     opcode BxAnother CMP_GbEb,
     opcode BxAnother CMP_GwEw,
     opcode BxImmediate_Ib CMP_ALIb,
     opcode BxImmediate_Iv CMP_AXIw,
     opcode (BxPrefix OR BxAnother) BxError,
     opcode 0 AAS,
     opcode 0 INC_RX,
     opcode 0 INC_RX,
     opcode 0 INC_RX,
     opcode 0 INC_RX,
     opcode 0 INC_RX,
     opcode 0 INC_RX,
     opcode 0 INC_RX,
     opcode 0 INC_RX,
     opcode 0 DEC_RX,
     opcode 0 DEC_RX,
     opcode 0 DEC_RX,
     opcode 0 DEC_RX,
     opcode 0 DEC_RX,
     opcode 0 DEC_RX,
     opcode 0 DEC_RX,
     opcode 0 DEC_RX,
     opcode 0 PUSH_RX,
     opcode 0 PUSH_RX,
     opcode 0 PUSH_RX,
     opcode 0 PUSH_RX,
     opcode 0 PUSH_RX,
     opcode 0 PUSH_RX,
     opcode 0 PUSH_RX,
     opcode 0 PUSH_RX,
     opcode 0 POP_RX,
     opcode 0 POP_RX,
     opcode 0 POP_RX,
     opcode 0 POP_RX,
     opcode 0 POP_RX,
     opcode 0 POP_RX,
     opcode 0 POP_RX,
     opcode 0 POP_RX,
     opcode 0 PUSHAD16,
     opcode 0 POPAD16,
     opcode BxAnother BOUND_GwMa,
     opcode BxAnother ARPL_EwGw,
     opcode (BxPrefix OR BxAnother) BxError,
     opcode (BxPrefix OR BxAnother) BxError,
     opcode (BxPrefix OR BxAnother) BxError,
     opcode (BxPrefix OR BxAnother) BxError,
     opcode BxImmediate_Iv PUSH_Iw,
     opcode (BxAnother OR BxImmediate_Iv) IMUL_GwEwIw,
     opcode BxImmediate_Ib_SE PUSH_Iw,
     opcode (BxAnother OR BxImmediate_Ib_SE) IMUL_GwEwIw,
     port_opcode BxRepeatable INSB_YbDX,
     port_opcode BxRepeatable INSW_YvDX,
     port_opcode BxRepeatable OUTSB_DXXb,
     port_opcode BxRepeatable OUTSW_DXXv,
     opcode BxImmediate_BrOff8 JCC_Jw,
     opcode BxImmediate_BrOff8 JCC_Jw,
     opcode BxImmediate_BrOff8 JCC_Jw,
     opcode BxImmediate_BrOff8 JCC_Jw,
     opcode BxImmediate_BrOff8 JZ_Jw,
     opcode BxImmediate_BrOff8 JNZ_Jw,
     opcode BxImmediate_BrOff8 JCC_Jw,
     opcode BxImmediate_BrOff8 JCC_Jw,
     opcode BxImmediate_BrOff8 JCC_Jw,
     opcode BxImmediate_BrOff8 JCC_Jw,
     opcode BxImmediate_BrOff8 JCC_Jw,
     opcode BxImmediate_BrOff8 JCC_Jw,
     opcode BxImmediate_BrOff8 JCC_Jw,
     opcode BxImmediate_BrOff8 JCC_Jw,
     opcode BxImmediate_BrOff8 JCC_Jw,
     opcode BxImmediate_BrOff8 JCC_Jw]"

definition opcodes_1 :: "BxOpcodeInfo_t list" where
  "opcodes_1 = [
     group (BxAnother OR BxGroup1) BxOpcodeInfoG1EbIb,
     group (BxAnother OR BxGroup1 OR BxImmediate_Iv) BxOpcodeInfoG1Ew,
     group (BxAnother OR BxGroup1) BxOpcodeInfoG1EbIb,
     group (BxAnother OR BxGroup1 OR BxImmediate_Ib_SE) BxOpcodeInfoG1Ew,
     opcode BxAnother TEST_EbGb,
     opcode BxAnother TEST_EwGw,
     opcode (BxAnother OR BxLockable) XCHG_EbGb,
     opcode (BxAnother OR BxLockable) XCHG_EwGw,
     group (BxAnother OR BxSplitMod11b) opcodesMOV_EbGb,
     group (BxAnother OR BxSplitMod11b) opcodesMOV_EwGw,
     group (BxAnother OR BxSplitMod11b) opcodesMOV_GbEb,
     group (BxAnother OR BxSplitMod11b) opcodesMOV_GwEw,
     opcode BxAnother MOV_EwSw,
     opcode BxAnother LEA_GwM,
     opcode BxAnother MOV_SwEw,
     opcode BxAnother POP_Ew,
     opcode 0 NOP,
     opcode 0 XCHG_RXAX,
     opcode 0 XCHG_RXAX,
     opcode 0 XCHG_RXAX,
     opcode 0 XCHG_RXAX,
     opcode 0 XCHG_RXAX,
     opcode 0 XCHG_RXAX,
     opcode 0 XCHG_RXAX,
     opcode 0 CBW,
     opcode 0 CWD,
     opcode BxImmediate_IvIw CALL16_Ap,
     extension 0 ''FWAIT'',
     opcode 0 PUSHF_Fw,
     opcode 0 POPF_Fw,
     opcode 0 SAHF,
     opcode 0 LAHF,
     opcode BxImmediate_O MOV_ALOb,
     opcode BxImmediate_O MOV_AXOw,
     opcode BxImmediate_O MOV_ObAL,
     opcode BxImmediate_O MOV_OwAX,
     opcode BxRepeatable MOVSB_XbYb,
     opcode BxRepeatable MOVSW_XwYw,
     opcode (BxRepeatable OR BxRepeatableZF) CMPSB_XbYb,
     opcode (BxRepeatable OR BxRepeatableZF) CMPSW_XwYw,
     opcode BxImmediate_Ib TEST_ALIb,
     opcode BxImmediate_Iv TEST_AXIw,
     opcode BxRepeatable STOSB_YbAL,
     opcode BxRepeatable STOSW_YwAX,
     opcode BxRepeatable LODSB_ALXb,
     opcode BxRepeatable LODSW_AXXw,
     opcode (BxRepeatable OR BxRepeatableZF) SCASB_ALXb,
     opcode (BxRepeatable OR BxRepeatableZF) SCASW_AXXw,
     opcode BxImmediate_Ib MOV_RLIb,
     opcode BxImmediate_Ib MOV_RLIb,
     opcode BxImmediate_Ib MOV_RLIb,
     opcode BxImmediate_Ib MOV_RLIb,
     opcode BxImmediate_Ib MOV_RHIb,
     opcode BxImmediate_Ib MOV_RHIb,
     opcode BxImmediate_Ib MOV_RHIb,
     opcode BxImmediate_Ib MOV_RHIb,
     opcode BxImmediate_Iv MOV_RXIw,
     opcode BxImmediate_Iv MOV_RXIw,
     opcode BxImmediate_Iv MOV_RXIw,
     opcode BxImmediate_Iv MOV_RXIw,
     opcode BxImmediate_Iv MOV_RXIw,
     opcode BxImmediate_Iv MOV_RXIw,
     opcode BxImmediate_Iv MOV_RXIw,
     opcode BxImmediate_Iv MOV_RXIw,
     group (BxAnother OR BxGroup2 OR BxImmediate_Ib) BxOpcodeInfoG2Eb,
     group (BxAnother OR BxGroup2 OR BxImmediate_Ib) BxOpcodeInfoG2Ew,
     opcode BxImmediate_Iw RETnear16_Iw,
     opcode 0 RETnear16,
     opcode BxAnother LES_GvMp,
     opcode BxAnother LDS_GvMp,
     opcode (BxAnother OR BxImmediate_Ib) MOV_EbIb,
     opcode (BxAnother OR BxImmediate_Iv) MOV_EwIw,
     opcode BxImmediate_IwIb ENTER_IwIb,
     opcode 0 LEAVE,
     opcode BxImmediate_Iw RETfar16_Iw,
     opcode 0 RETfar16,
     opcode 0 INT3,
     opcode BxImmediate_Ib INT_Ib,
     opcode 0 INTO,
     opcode 0 IRET16,
     group (BxAnother OR BxGroup2) BxOpcodeInfoG2Eb,
     group (BxAnother OR BxGroup2) BxOpcodeInfoG2Ew,
     group (BxAnother OR BxGroup2) BxOpcodeInfoG2Eb,
     group (BxAnother OR BxGroup2) BxOpcodeInfoG2Ew,
     opcode BxImmediate_Ib AAM,
     opcode BxImmediate_Ib AAD,
     opcode 0 SALC,
     opcode 0 XLAT,
     group (BxAnother OR BxFPGroup) BxOpcodeInfo_FPGroupD8,
     group (BxAnother OR BxFPGroup) BxOpcodeInfo_FPGroupD9,
     group (BxAnother OR BxFPGroup) BxOpcodeInfo_FPGroupDA,
     group (BxAnother OR BxFPGroup) BxOpcodeInfo_FPGroupDB,
     group (BxAnother OR BxFPGroup) BxOpcodeInfo_FPGroupDC,
     group (BxAnother OR BxFPGroup) BxOpcodeInfo_FPGroupDD,
     group (BxAnother OR BxFPGroup) BxOpcodeInfo_FPGroupDE,
     group (BxAnother OR BxFPGroup) BxOpcodeInfo_FPGroupDF,
     opcode BxImmediate_BrOff8 LOOPNE_Jb,
     opcode BxImmediate_BrOff8 LOOPE_Jb,
     opcode BxImmediate_BrOff8 LOOP_Jb,
     opcode BxImmediate_BrOff8 JCXZ_Jb,
     port_opcode BxImmediate_Ib IN_ALIb,
     port_opcode BxImmediate_Ib IN_eAXIb,
     port_opcode BxImmediate_Ib OUT_IbAL,
     port_opcode BxImmediate_Ib OUT_IbeAX,
     opcode BxImmediate_BrOff16 CALL_Aw,
     opcode BxImmediate_BrOff16 JMP_Jw,
     opcode BxImmediate_IvIw JMP_Ap,
     opcode BxImmediate_BrOff8 JMP_Jw,
     port_opcode 0 IN_ALDX,
     port_opcode 0 IN_eAXDX,
     port_opcode 0 OUT_DXAL,
     port_opcode 0 OUT_DXeAX,
     opcode (BxPrefix OR BxAnother) BxError,
     opcode 0 INT1,
     opcode (BxPrefix OR BxAnother) BxError,
     opcode (BxPrefix OR BxAnother) BxError,
     opcode 0 HLT,
     opcode 0 CMC,
     group (BxAnother OR BxGroup3) BxOpcodeInfoG3Eb,
     group (BxAnother OR BxGroup3) BxOpcodeInfoG3Ew,
     opcode 0 CLC,
     opcode 0 STC,
     opcode 0 CLI,
     opcode 0 STI,
     opcode 0 CLD,
     opcode 0 STD,
     group (BxAnother OR BxGroup4) BxOpcodeInfoG4,
     group (BxAnother OR BxGroup5) BxOpcodeInfoG5w]"

definition opcodes_2 :: "BxOpcodeInfo_t list" where
  "opcodes_2 = [
     group (BxAnother OR BxGroup6) BxOpcodeInfoG6,
     group (BxAnother OR BxGroup7) BxOpcodeInfoG7,
     opcode BxAnother LAR_GvEw,
     opcode BxAnother LSL_GvEw,
     opcode 0 BxError,
     opcode 0 BxError,
     opcode 0 CLTS,
     opcode 0 BxError,
     opcode 0 INVD,
     opcode 0 WBINVD,
     opcode 0 BxError,
     opcode 0 (\<lambda>i. UndefinedOpcode),
     opcode 0 BxError,
     opcode 0 BxError,
     opcode 0 BxError,
     opcode 0 BxError,
     group (BxAnother OR BxPrefixSSE) BxOpcodeGroupSSE_0f10,
     group (BxAnother OR BxPrefixSSE) BxOpcodeGroupSSE_0f11,
     group (BxAnother OR BxPrefixSSE) BxOpcodeGroupSSE_0f12,
     group (BxAnother OR BxPrefixSSE) BxOpcodeGroupSSE_0f13,
     group (BxAnother OR BxPrefixSSE) BxOpcodeGroupSSE_0f14,
     group (BxAnother OR BxPrefixSSE) BxOpcodeGroupSSE_0f15,
     group (BxAnother OR BxPrefixSSE) BxOpcodeGroupSSE_0f16,
     group (BxAnother OR BxPrefixSSE) BxOpcodeGroupSSE_0f17,
     group (BxAnother OR BxGroup16) BxOpcodeInfoG16,
     opcode 0 BxError,
     opcode 0 BxError,
     opcode 0 BxError,
     opcode 0 BxError,
     opcode 0 BxError,
     opcode 0 BxError,
     opcode 0 BxError,
     opcode BxAnother MOV_RdCd,
     opcode BxAnother MOV_RdDd,
     opcode BxAnother MOV_CdRd,
     opcode BxAnother MOV_DdRd,
     opcode BxAnother MOV_RdTd,
     opcode 0 BxError,
     opcode BxAnother MOV_TdRd,
     opcode 0 BxError,
     group (BxAnother OR BxPrefixSSE) BxOpcodeGroupSSE_0f28,
     group (BxAnother OR BxPrefixSSE) BxOpcodeGroupSSE_0f29,
     group (BxAnother OR BxPrefixSSE) BxOpcodeGroupSSE_0f2a,
     group (BxAnother OR BxPrefixSSE) BxOpcodeGroupSSE_0f2b,
     group (BxAnother OR BxPrefixSSE) BxOpcodeGroupSSE_0f2c,
     group (BxAnother OR BxPrefixSSE) BxOpcodeGroupSSE_0f2d,
     group (BxAnother OR BxPrefixSSE) BxOpcodeGroupSSE_0f2e,
     group (BxAnother OR BxPrefixSSE) BxOpcodeGroupSSE_0f2f,
     opcode 0 WRMSR,
     tick_opcode 0 RDTSC,
     tick_opcode 0 RDMSR,
     opcode 0 RDPMC,
     opcode 0 SYSENTER,
     opcode 0 SYSEXIT,
     opcode 0 BxError,
     opcode 0 BxError,
     opcode 0 BxError,
     opcode 0 BxError,
     opcode 0 BxError,
     opcode 0 BxError,
     opcode 0 BxError,
     opcode 0 BxError,
     opcode 0 BxError,
     opcode 0 BxError,
     opcode BxAnother CMOV_GwEw,
     opcode BxAnother CMOV_GwEw,
     opcode BxAnother CMOV_GwEw,
     opcode BxAnother CMOV_GwEw,
     opcode BxAnother CMOV_GwEw,
     opcode BxAnother CMOV_GwEw,
     opcode BxAnother CMOV_GwEw,
     opcode BxAnother CMOV_GwEw,
     opcode BxAnother CMOV_GwEw,
     opcode BxAnother CMOV_GwEw,
     opcode BxAnother CMOV_GwEw,
     opcode BxAnother CMOV_GwEw,
     opcode BxAnother CMOV_GwEw,
     opcode BxAnother CMOV_GwEw,
     opcode BxAnother CMOV_GwEw,
     opcode BxAnother CMOV_GwEw,
     group (BxAnother OR BxPrefixSSE) BxOpcodeGroupSSE_0f50,
     group (BxAnother OR BxPrefixSSE) BxOpcodeGroupSSE_0f51,
     group (BxAnother OR BxPrefixSSE) BxOpcodeGroupSSE_0f52,
     group (BxAnother OR BxPrefixSSE) BxOpcodeGroupSSE_0f53,
     group (BxAnother OR BxPrefixSSE) BxOpcodeGroupSSE_0f54,
     group (BxAnother OR BxPrefixSSE) BxOpcodeGroupSSE_0f55,
     group (BxAnother OR BxPrefixSSE) BxOpcodeGroupSSE_0f56,
     group (BxAnother OR BxPrefixSSE) BxOpcodeGroupSSE_0f57,
     group (BxAnother OR BxPrefixSSE) BxOpcodeGroupSSE_0f58,
     group (BxAnother OR BxPrefixSSE) BxOpcodeGroupSSE_0f59,
     group (BxAnother OR BxPrefixSSE) BxOpcodeGroupSSE_0f5a,
     group (BxAnother OR BxPrefixSSE) BxOpcodeGroupSSE_0f5b,
     group (BxAnother OR BxPrefixSSE) BxOpcodeGroupSSE_0f5c,
     group (BxAnother OR BxPrefixSSE) BxOpcodeGroupSSE_0f5d,
     group (BxAnother OR BxPrefixSSE) BxOpcodeGroupSSE_0f5e,
     group (BxAnother OR BxPrefixSSE) BxOpcodeGroupSSE_0f5f,
     group (BxAnother OR BxPrefixSSE) BxOpcodeGroupSSE_0f60,
     group (BxAnother OR BxPrefixSSE) BxOpcodeGroupSSE_0f61,
     group (BxAnother OR BxPrefixSSE) BxOpcodeGroupSSE_0f62,
     group (BxAnother OR BxPrefixSSE) BxOpcodeGroupSSE_0f63,
     group (BxAnother OR BxPrefixSSE) BxOpcodeGroupSSE_0f64,
     group (BxAnother OR BxPrefixSSE) BxOpcodeGroupSSE_0f65,
     group (BxAnother OR BxPrefixSSE) BxOpcodeGroupSSE_0f66,
     group (BxAnother OR BxPrefixSSE) BxOpcodeGroupSSE_0f67,
     group (BxAnother OR BxPrefixSSE) BxOpcodeGroupSSE_0f68,
     group (BxAnother OR BxPrefixSSE) BxOpcodeGroupSSE_0f69,
     group (BxAnother OR BxPrefixSSE) BxOpcodeGroupSSE_0f6a,
     group (BxAnother OR BxPrefixSSE) BxOpcodeGroupSSE_0f6b,
     group (BxAnother OR BxPrefixSSE) BxOpcodeGroupSSE_0f6c,
     group (BxAnother OR BxPrefixSSE) BxOpcodeGroupSSE_0f6d,
     group (BxAnother OR BxPrefixSSE) BxOpcodeGroupSSE_0f6e,
     group (BxAnother OR BxPrefixSSE) BxOpcodeGroupSSE_0f6f,
     group (BxAnother OR BxImmediate_Ib OR BxPrefixSSE) BxOpcodeGroupSSE_0f70,
     group (BxAnother OR BxGroup12) BxOpcodeInfoG12,
     group (BxAnother OR BxGroup13) BxOpcodeInfoG13,
     group (BxAnother OR BxGroup14) BxOpcodeInfoG14,
     group (BxAnother OR BxPrefixSSE) BxOpcodeGroupSSE_0f74,
     group (BxAnother OR BxPrefixSSE) BxOpcodeGroupSSE_0f75,
     group (BxAnother OR BxPrefixSSE) BxOpcodeGroupSSE_0f76,
     extension 0 ''EMMS'',
     opcode 0 BxError,
     opcode 0 BxError,
     opcode 0 BxError,
     opcode 0 BxError,
     group (BxAnother OR BxPrefixSSE) BxOpcodeGroupSSE_0f7c,
     group (BxAnother OR BxPrefixSSE) BxOpcodeGroupSSE_0f7d,
     group (BxAnother OR BxPrefixSSE) BxOpcodeGroupSSE_0f7e,
     group (BxAnother OR BxPrefixSSE) BxOpcodeGroupSSE_0f7f]"

definition opcodes_3 :: "BxOpcodeInfo_t list" where
  "opcodes_3 = [
     opcode BxImmediate_BrOff16 JCC_Jw,
     opcode BxImmediate_BrOff16 JCC_Jw,
     opcode BxImmediate_BrOff16 JCC_Jw,
     opcode BxImmediate_BrOff16 JCC_Jw,
     opcode BxImmediate_BrOff16 JZ_Jw,
     opcode BxImmediate_BrOff16 JNZ_Jw,
     opcode BxImmediate_BrOff16 JCC_Jw,
     opcode BxImmediate_BrOff16 JCC_Jw,
     opcode BxImmediate_BrOff16 JCC_Jw,
     opcode BxImmediate_BrOff16 JCC_Jw,
     opcode BxImmediate_BrOff16 JCC_Jw,
     opcode BxImmediate_BrOff16 JCC_Jw,
     opcode BxImmediate_BrOff16 JCC_Jw,
     opcode BxImmediate_BrOff16 JCC_Jw,
     opcode BxImmediate_BrOff16 JCC_Jw,
     opcode BxImmediate_BrOff16 JCC_Jw,
     opcode BxAnother SETO_Eb,
     opcode BxAnother SETNO_Eb,
     opcode BxAnother SETB_Eb,
     opcode BxAnother SETNB_Eb,
     opcode BxAnother SETZ_Eb,
     opcode BxAnother SETNZ_Eb,
     opcode BxAnother SETBE_Eb,
     opcode BxAnother SETNBE_Eb,
     opcode BxAnother SETS_Eb,
     opcode BxAnother SETNS_Eb,
     opcode BxAnother SETP_Eb,
     opcode BxAnother SETNP_Eb,
     opcode BxAnother SETL_Eb,
     opcode BxAnother SETNL_Eb,
     opcode BxAnother SETLE_Eb,
     opcode BxAnother SETNLE_Eb,
     opcode 0 PUSH16_FS,
     opcode 0 POP16_FS,
     apic_opcode 0 CPUID,
     opcode BxAnother BT_EwGw,
     opcode (BxAnother OR BxImmediate_Ib) SHLD_EwGw,
     opcode BxAnother SHLD_EwGw,
     opcode 0 CMPXCHG_XBTS,
     opcode 0 CMPXCHG_IBTS,
     opcode 0 PUSH16_GS,
     opcode 0 POP16_GS,
     opcode 0 RSM,
     opcode (BxAnother OR BxLockable) BTS_EwGw,
     opcode (BxAnother OR BxImmediate_Ib) SHRD_EwGw,
     opcode BxAnother SHRD_EwGw,
     group (BxAnother OR BxGroup15) BxOpcodeInfoG15,
     opcode BxAnother IMUL_GwEw,
     opcode (BxAnother OR BxLockable) CMPXCHG_EbGb,
     opcode (BxAnother OR BxLockable) CMPXCHG_EwGw,
     opcode BxAnother LSS_GvMp,
     opcode (BxAnother OR BxLockable) BTR_EwGw,
     opcode BxAnother LFS_GvMp,
     opcode BxAnother LGS_GvMp,
     opcode BxAnother MOVZX_GwEb,
     group (BxAnother OR BxSplitMod11b) opcodesMOV_GwEw,
     opcode 0 BxError,
     opcode 0 (\<lambda>i. UndefinedOpcode),
     group (BxAnother OR BxGroup8) BxOpcodeInfoG8EwIb,
     opcode (BxAnother OR BxLockable) BTC_EwGw,
     opcode BxAnother BSF_GwEw,
     opcode BxAnother BSR_GwEw,
     opcode BxAnother MOVSX_GwEb,
     group (BxAnother OR BxSplitMod11b) opcodesMOV_GwEw,
     opcode (BxAnother OR BxLockable) XADD_EbGb,
     opcode (BxAnother OR BxLockable) XADD_EwGw,
     group (BxAnother OR BxImmediate_Ib OR BxPrefixSSE) BxOpcodeGroupSSE_0fc2,
     group (BxAnother OR BxPrefixSSE) BxOpcodeGroupSSE_0fc3,
     group (BxAnother OR BxPrefixSSE) BxOpcodeGroupSSE_0fc4,
     group (BxAnother OR BxPrefixSSE) BxOpcodeGroupSSE_0fc5,
     group (BxAnother OR BxPrefixSSE) BxOpcodeGroupSSE_0fc6,
     group (BxAnother OR BxGroup9) BxOpcodeInfoG9,
     opcode 0 BSWAP_EAX,
     opcode 0 BSWAP_ECX,
     opcode 0 BSWAP_EDX,
     opcode 0 BSWAP_EBX,
     opcode 0 BSWAP_ESP,
     opcode 0 BSWAP_EBP,
     opcode 0 BSWAP_ESI,
     opcode 0 BSWAP_EDI,
     group (BxAnother OR BxPrefixSSE) BxOpcodeGroupSSE_0fd0,
     group (BxAnother OR BxPrefixSSE) BxOpcodeGroupSSE_0fd1,
     group (BxAnother OR BxPrefixSSE) BxOpcodeGroupSSE_0fd2,
     group (BxAnother OR BxPrefixSSE) BxOpcodeGroupSSE_0fd3,
     group (BxAnother OR BxPrefixSSE) BxOpcodeGroupSSE_0fd4,
     group (BxAnother OR BxPrefixSSE) BxOpcodeGroupSSE_0fd5,
     group (BxAnother OR BxPrefixSSE) BxOpcodeGroupSSE_0fd6,
     group (BxAnother OR BxPrefixSSE) BxOpcodeGroupSSE_0fd7,
     group (BxAnother OR BxPrefixSSE) BxOpcodeGroupSSE_0fd8,
     group (BxAnother OR BxPrefixSSE) BxOpcodeGroupSSE_0fd9,
     group (BxAnother OR BxPrefixSSE) BxOpcodeGroupSSE_0fda,
     group (BxAnother OR BxPrefixSSE) BxOpcodeGroupSSE_0fdb,
     group (BxAnother OR BxPrefixSSE) BxOpcodeGroupSSE_0fdc,
     group (BxAnother OR BxPrefixSSE) BxOpcodeGroupSSE_0fdd,
     group (BxAnother OR BxPrefixSSE) BxOpcodeGroupSSE_0fde,
     group (BxAnother OR BxPrefixSSE) BxOpcodeGroupSSE_0fdf,
     group (BxAnother OR BxPrefixSSE) BxOpcodeGroupSSE_0fe0,
     group (BxAnother OR BxPrefixSSE) BxOpcodeGroupSSE_0fe1,
     group (BxAnother OR BxPrefixSSE) BxOpcodeGroupSSE_0fe2,
     group (BxAnother OR BxPrefixSSE) BxOpcodeGroupSSE_0fe3,
     group (BxAnother OR BxPrefixSSE) BxOpcodeGroupSSE_0fe4,
     group (BxAnother OR BxPrefixSSE) BxOpcodeGroupSSE_0fe5,
     group (BxAnother OR BxPrefixSSE) BxOpcodeGroupSSE_0fe6,
     group (BxAnother OR BxPrefixSSE) BxOpcodeGroupSSE_0fe7,
     group (BxAnother OR BxPrefixSSE) BxOpcodeGroupSSE_0fe8,
     group (BxAnother OR BxPrefixSSE) BxOpcodeGroupSSE_0fe9,
     group (BxAnother OR BxPrefixSSE) BxOpcodeGroupSSE_0fea,
     group (BxAnother OR BxPrefixSSE) BxOpcodeGroupSSE_0feb,
     group (BxAnother OR BxPrefixSSE) BxOpcodeGroupSSE_0fec,
     group (BxAnother OR BxPrefixSSE) BxOpcodeGroupSSE_0fed,
     group (BxAnother OR BxPrefixSSE) BxOpcodeGroupSSE_0fee,
     group (BxAnother OR BxPrefixSSE) BxOpcodeGroupSSE_0fef,
     group (BxAnother OR BxPrefixSSE) BxOpcodeGroupSSE_0ff0,
     group (BxAnother OR BxPrefixSSE) BxOpcodeGroupSSE_0ff1,
     group (BxAnother OR BxPrefixSSE) BxOpcodeGroupSSE_0ff2,
     group (BxAnother OR BxPrefixSSE) BxOpcodeGroupSSE_0ff3,
     group (BxAnother OR BxPrefixSSE) BxOpcodeGroupSSE_0ff4,
     group (BxAnother OR BxPrefixSSE) BxOpcodeGroupSSE_0ff5,
     group (BxAnother OR BxPrefixSSE) BxOpcodeGroupSSE_0ff6,
     group (BxAnother OR BxPrefixSSE) BxOpcodeGroupSSE_0ff7,
     group (BxAnother OR BxPrefixSSE) BxOpcodeGroupSSE_0ff8,
     group (BxAnother OR BxPrefixSSE) BxOpcodeGroupSSE_0ff9,
     group (BxAnother OR BxPrefixSSE) BxOpcodeGroupSSE_0ffa,
     group (BxAnother OR BxPrefixSSE) BxOpcodeGroupSSE_0ffb,
     group (BxAnother OR BxPrefixSSE) BxOpcodeGroupSSE_0ffc,
     group (BxAnother OR BxPrefixSSE) BxOpcodeGroupSSE_0ffd,
     group (BxAnother OR BxPrefixSSE) BxOpcodeGroupSSE_0ffe,
     opcode 0 BxError]"

definition opcodes_4 :: "BxOpcodeInfo_t list" where
  "opcodes_4 = [
     opcode (BxAnother OR BxLockable) ADD_EbGb,
     opcode (BxAnother OR BxLockable) ADD_EdGd,
     opcode BxAnother ADD_GbEb,
     group (BxAnother OR BxSplitMod11b) opcodesADD_GdEd,
     opcode BxImmediate_Ib ADD_ALIb,
     opcode BxImmediate_Iv ADD_EAXId,
     opcode 0 PUSH32_ES,
     opcode 0 POP32_ES,
     opcode (BxAnother OR BxLockable) OR_EbGb,
     opcode (BxAnother OR BxLockable) OR_EdGd,
     opcode BxAnother OR_GbEb,
     opcode BxAnother OR_GdEd,
     opcode BxImmediate_Ib OR_ALIb,
     opcode BxImmediate_Iv OR_EAXId,
     opcode 0 PUSH32_CS,
     opcode BxAnother BxError,
     opcode (BxAnother OR BxLockable) ADC_EbGb,
     opcode (BxAnother OR BxLockable) ADC_EdGd,
     opcode BxAnother ADC_GbEb,
     opcode BxAnother ADC_GdEd,
     opcode BxImmediate_Ib ADC_ALIb,
     opcode BxImmediate_Iv ADC_EAXId,
     opcode 0 PUSH32_SS,
     opcode 0 POP32_SS,
     opcode (BxAnother OR BxLockable) SBB_EbGb,
     opcode (BxAnother OR BxLockable) SBB_EdGd,
     opcode BxAnother SBB_GbEb,
     opcode BxAnother SBB_GdEd,
     opcode BxImmediate_Ib SBB_ALIb,
     opcode BxImmediate_Iv SBB_EAXId,
     opcode 0 PUSH32_DS,
     opcode 0 POP32_DS,
     opcode (BxAnother OR BxLockable) AND_EbGb,
     opcode (BxAnother OR BxLockable) AND_EdGd,
     opcode BxAnother AND_GbEb,
     opcode BxAnother AND_GdEd,
     opcode BxImmediate_Ib AND_ALIb,
     opcode BxImmediate_Iv AND_EAXId,
     opcode (BxPrefix OR BxAnother) BxError,
     opcode 0 DAA,
     opcode (BxAnother OR BxLockable) SUB_EbGb,
     opcode (BxAnother OR BxLockable) SUB_EdGd,
     opcode BxAnother SUB_GbEb,
     opcode BxAnother SUB_GdEd,
     opcode BxImmediate_Ib SUB_ALIb,
     opcode BxImmediate_Iv SUB_EAXId,
     opcode (BxPrefix OR BxAnother) BxError,
     opcode 0 DAS,
     opcode (BxAnother OR BxLockable) XOR_EbGb,
     opcode (BxAnother OR BxLockable) XOR_EdGd,
     opcode BxAnother XOR_GbEb,
     opcode BxAnother XOR_GdEd,
     opcode BxImmediate_Ib XOR_ALIb,
     opcode BxImmediate_Iv XOR_EAXId,
     opcode (BxPrefix OR BxAnother) BxError,
     opcode 0 AAA,
     opcode BxAnother CMP_EbGb,
     opcode BxAnother CMP_EdGd,
     opcode BxAnother CMP_GbEb,
     opcode BxAnother CMP_GdEd,
     opcode BxImmediate_Ib CMP_ALIb,
     opcode BxImmediate_Iv CMP_EAXId,
     opcode (BxPrefix OR BxAnother) BxError,
     opcode 0 AAS,
     opcode 0 INC_ERX,
     opcode 0 INC_ERX,
     opcode 0 INC_ERX,
     opcode 0 INC_ERX,
     opcode 0 INC_ERX,
     opcode 0 INC_ERX,
     opcode 0 INC_ERX,
     opcode 0 INC_ERX,
     opcode 0 DEC_ERX,
     opcode 0 DEC_ERX,
     opcode 0 DEC_ERX,
     opcode 0 DEC_ERX,
     opcode 0 DEC_ERX,
     opcode 0 DEC_ERX,
     opcode 0 DEC_ERX,
     opcode 0 DEC_ERX,
     opcode 0 PUSH_ERX,
     opcode 0 PUSH_ERX,
     opcode 0 PUSH_ERX,
     opcode 0 PUSH_ERX,
     opcode 0 PUSH_ERX,
     opcode 0 PUSH_ERX,
     opcode 0 PUSH_ERX,
     opcode 0 PUSH_ERX,
     opcode 0 POP_ERX,
     opcode 0 POP_ERX,
     opcode 0 POP_ERX,
     opcode 0 POP_ERX,
     opcode 0 POP_ERX,
     opcode 0 POP_ERX,
     opcode 0 POP_ERX,
     opcode 0 POP_ERX,
     opcode 0 PUSHAD32,
     opcode 0 POPAD32,
     opcode BxAnother BOUND_GdMa,
     opcode BxAnother ARPL_EwGw,
     opcode (BxPrefix OR BxAnother) BxError,
     opcode (BxPrefix OR BxAnother) BxError,
     opcode (BxPrefix OR BxAnother) BxError,
     opcode (BxPrefix OR BxAnother) BxError,
     opcode BxImmediate_Iv PUSH_Id,
     opcode (BxAnother OR BxImmediate_Iv) IMUL_GdEdId,
     opcode BxImmediate_Ib_SE PUSH_Id,
     opcode (BxAnother OR BxImmediate_Ib_SE) IMUL_GdEdId,
     port_opcode BxRepeatable INSB_YbDX,
     port_opcode BxRepeatable INSW_YvDX,
     port_opcode BxRepeatable OUTSB_DXXb,
     port_opcode BxRepeatable OUTSW_DXXv,
     opcode BxImmediate_BrOff8 JCC_Jd,
     opcode BxImmediate_BrOff8 JCC_Jd,
     opcode BxImmediate_BrOff8 JCC_Jd,
     opcode BxImmediate_BrOff8 JCC_Jd,
     opcode BxImmediate_BrOff8 JZ_Jd,
     opcode BxImmediate_BrOff8 JNZ_Jd,
     opcode BxImmediate_BrOff8 JCC_Jd,
     opcode BxImmediate_BrOff8 JCC_Jd,
     opcode BxImmediate_BrOff8 JCC_Jd,
     opcode BxImmediate_BrOff8 JCC_Jd,
     opcode BxImmediate_BrOff8 JCC_Jd,
     opcode BxImmediate_BrOff8 JCC_Jd,
     opcode BxImmediate_BrOff8 JCC_Jd,
     opcode BxImmediate_BrOff8 JCC_Jd,
     opcode BxImmediate_BrOff8 JCC_Jd,
     opcode BxImmediate_BrOff8 JCC_Jd]"

definition opcodes_5 :: "BxOpcodeInfo_t list" where
  "opcodes_5 = [
     group (BxAnother OR BxGroup1) BxOpcodeInfoG1EbIb,
     group (BxAnother OR BxGroup1 OR BxImmediate_Iv) BxOpcodeInfoG1Ed,
     group (BxAnother OR BxGroup1) BxOpcodeInfoG1EbIb,
     group (BxAnother OR BxGroup1 OR BxImmediate_Ib_SE) BxOpcodeInfoG1Ed,
     opcode BxAnother TEST_EbGb,
     opcode BxAnother TEST_EdGd,
     opcode (BxAnother OR BxLockable) XCHG_EbGb,
     opcode (BxAnother OR BxLockable) XCHG_EdGd,
     group (BxAnother OR BxSplitMod11b) opcodesMOV_EbGb,
     group (BxAnother OR BxSplitMod11b) opcodesMOV_EdGd,
     group (BxAnother OR BxSplitMod11b) opcodesMOV_GbEb,
     group (BxAnother OR BxSplitMod11b) opcodesMOV_GdEd,
     opcode BxAnother MOV_EwSw,
     opcode BxAnother LEA_GdM,
     opcode BxAnother MOV_SwEw,
     opcode BxAnother POP_Ed,
     opcode 0 NOP,
     opcode 0 XCHG_ERXEAX,
     opcode 0 XCHG_ERXEAX,
     opcode 0 XCHG_ERXEAX,
     opcode 0 XCHG_ERXEAX,
     opcode 0 XCHG_ERXEAX,
     opcode 0 XCHG_ERXEAX,
     opcode 0 XCHG_ERXEAX,
     opcode 0 CWDE,
     opcode 0 CDQ,
     opcode BxImmediate_IvIw CALL32_Ap,
     extension 0 ''FWAIT'',
     opcode 0 PUSHF_Fd,
     opcode 0 POPF_Fd,
     opcode 0 SAHF,
     opcode 0 LAHF,
     opcode BxImmediate_O MOV_ALOb,
     opcode BxImmediate_O MOV_EAXOd,
     opcode BxImmediate_O MOV_ObAL,
     opcode BxImmediate_O MOV_OdEAX,
     opcode BxRepeatable MOVSB_XbYb,
     opcode BxRepeatable MOVSD_XdYd,
     opcode (BxRepeatable OR BxRepeatableZF) CMPSB_XbYb,
     opcode (BxRepeatable OR BxRepeatableZF) CMPSD_XdYd,
     opcode BxImmediate_Ib TEST_ALIb,
     opcode BxImmediate_Iv TEST_EAXId,
     opcode BxRepeatable STOSB_YbAL,
     opcode BxRepeatable STOSD_YdEAX,
     opcode BxRepeatable LODSB_ALXb,
     opcode BxRepeatable LODSD_EAXXd,
     opcode (BxRepeatable OR BxRepeatableZF) SCASB_ALXb,
     opcode (BxRepeatable OR BxRepeatableZF) SCASD_EAXXd,
     opcode BxImmediate_Ib MOV_RLIb,
     opcode BxImmediate_Ib MOV_RLIb,
     opcode BxImmediate_Ib MOV_RLIb,
     opcode BxImmediate_Ib MOV_RLIb,
     opcode BxImmediate_Ib MOV_RHIb,
     opcode BxImmediate_Ib MOV_RHIb,
     opcode BxImmediate_Ib MOV_RHIb,
     opcode BxImmediate_Ib MOV_RHIb,
     opcode BxImmediate_Iv MOV_ERXId,
     opcode BxImmediate_Iv MOV_ERXId,
     opcode BxImmediate_Iv MOV_ERXId,
     opcode BxImmediate_Iv MOV_ERXId,
     opcode BxImmediate_Iv MOV_ERXId,
     opcode BxImmediate_Iv MOV_ERXId,
     opcode BxImmediate_Iv MOV_ERXId,
     opcode BxImmediate_Iv MOV_ERXId,
     group (BxAnother OR BxGroup2 OR BxImmediate_Ib) BxOpcodeInfoG2Eb,
     group (BxAnother OR BxGroup2 OR BxImmediate_Ib) BxOpcodeInfoG2Ed,
     opcode BxImmediate_Iw RETnear32_Iw,
     opcode 0 RETnear32,
     opcode BxAnother LES_GvMp,
     opcode BxAnother LDS_GvMp,
     opcode (BxAnother OR BxImmediate_Ib) MOV_EbIb,
     opcode (BxAnother OR BxImmediate_Iv) MOV_EdId,
     opcode BxImmediate_IwIb ENTER_IwIb,
     opcode 0 LEAVE,
     opcode BxImmediate_Iw RETfar32_Iw,
     opcode 0 RETfar32,
     opcode 0 INT3,
     opcode BxImmediate_Ib INT_Ib,
     opcode 0 INTO,
     opcode 0 IRET32,
     group (BxAnother OR BxGroup2) BxOpcodeInfoG2Eb,
     group (BxAnother OR BxGroup2) BxOpcodeInfoG2Ed,
     group (BxAnother OR BxGroup2) BxOpcodeInfoG2Eb,
     group (BxAnother OR BxGroup2) BxOpcodeInfoG2Ed,
     opcode BxImmediate_Ib AAM,
     opcode BxImmediate_Ib AAD,
     opcode 0 SALC,
     opcode 0 XLAT,
     group (BxAnother OR BxFPGroup) BxOpcodeInfo_FPGroupD8,
     group (BxAnother OR BxFPGroup) BxOpcodeInfo_FPGroupD9,
     group (BxAnother OR BxFPGroup) BxOpcodeInfo_FPGroupDA,
     group (BxAnother OR BxFPGroup) BxOpcodeInfo_FPGroupDB,
     group (BxAnother OR BxFPGroup) BxOpcodeInfo_FPGroupDC,
     group (BxAnother OR BxFPGroup) BxOpcodeInfo_FPGroupDD,
     group (BxAnother OR BxFPGroup) BxOpcodeInfo_FPGroupDE,
     group (BxAnother OR BxFPGroup) BxOpcodeInfo_FPGroupDF,
     opcode BxImmediate_BrOff8 LOOPNE_Jb,
     opcode BxImmediate_BrOff8 LOOPE_Jb,
     opcode BxImmediate_BrOff8 LOOP_Jb,
     opcode BxImmediate_BrOff8 JCXZ_Jb,
     port_opcode BxImmediate_Ib IN_ALIb,
     port_opcode BxImmediate_Ib IN_eAXIb,
     port_opcode BxImmediate_Ib OUT_IbAL,
     port_opcode BxImmediate_Ib OUT_IbeAX,
     opcode BxImmediate_BrOff32 CALL_Ad,
     opcode BxImmediate_BrOff32 JMP_Jd,
     opcode BxImmediate_IvIw JMP_Ap,
     opcode BxImmediate_BrOff8 JMP_Jd,
     port_opcode 0 IN_ALDX,
     port_opcode 0 IN_eAXDX,
     port_opcode 0 OUT_DXAL,
     port_opcode 0 OUT_DXeAX,
     opcode (BxPrefix OR BxAnother) BxError,
     opcode 0 INT1,
     opcode (BxPrefix OR BxAnother) BxError,
     opcode (BxPrefix OR BxAnother) BxError,
     opcode 0 HLT,
     opcode 0 CMC,
     group (BxAnother OR BxGroup3) BxOpcodeInfoG3Eb,
     group (BxAnother OR BxGroup3) BxOpcodeInfoG3Ed,
     opcode 0 CLC,
     opcode 0 STC,
     opcode 0 CLI,
     opcode 0 STI,
     opcode 0 CLD,
     opcode 0 STD,
     group (BxAnother OR BxGroup4) BxOpcodeInfoG4,
     group (BxAnother OR BxGroup5) BxOpcodeInfoG5d]"

definition opcodes_6 :: "BxOpcodeInfo_t list" where
  "opcodes_6 = [
     group (BxAnother OR BxGroup6) BxOpcodeInfoG6,
     group (BxAnother OR BxGroup7) BxOpcodeInfoG7,
     opcode BxAnother LAR_GvEw,
     opcode BxAnother LSL_GvEw,
     opcode 0 BxError,
     opcode 0 BxError,
     opcode 0 CLTS,
     opcode 0 BxError,
     opcode 0 INVD,
     opcode 0 WBINVD,
     opcode 0 BxError,
     opcode 0 (\<lambda>i. UndefinedOpcode),
     opcode 0 BxError,
     opcode 0 BxError,
     opcode 0 BxError,
     opcode 0 BxError,
     group (BxAnother OR BxPrefixSSE) BxOpcodeGroupSSE_0f10,
     group (BxAnother OR BxPrefixSSE) BxOpcodeGroupSSE_0f11,
     group (BxAnother OR BxPrefixSSE) BxOpcodeGroupSSE_0f12,
     group (BxAnother OR BxPrefixSSE) BxOpcodeGroupSSE_0f13,
     group (BxAnother OR BxPrefixSSE) BxOpcodeGroupSSE_0f14,
     group (BxAnother OR BxPrefixSSE) BxOpcodeGroupSSE_0f15,
     group (BxAnother OR BxPrefixSSE) BxOpcodeGroupSSE_0f16,
     group (BxAnother OR BxPrefixSSE) BxOpcodeGroupSSE_0f17,
     group (BxAnother OR BxGroup16) BxOpcodeInfoG16,
     opcode 0 BxError,
     opcode 0 BxError,
     opcode 0 BxError,
     opcode 0 BxError,
     opcode 0 BxError,
     opcode 0 BxError,
     opcode 0 BxError,
     opcode BxAnother MOV_RdCd,
     opcode BxAnother MOV_RdDd,
     opcode BxAnother MOV_CdRd,
     opcode BxAnother MOV_DdRd,
     opcode BxAnother MOV_RdTd,
     opcode 0 BxError,
     opcode BxAnother MOV_TdRd,
     opcode 0 BxError,
     group (BxAnother OR BxPrefixSSE) BxOpcodeGroupSSE_0f28,
     group (BxAnother OR BxPrefixSSE) BxOpcodeGroupSSE_0f29,
     group (BxAnother OR BxPrefixSSE) BxOpcodeGroupSSE_0f2a,
     group (BxAnother OR BxPrefixSSE) BxOpcodeGroupSSE_0f2b,
     group (BxAnother OR BxPrefixSSE) BxOpcodeGroupSSE_0f2c,
     group (BxAnother OR BxPrefixSSE) BxOpcodeGroupSSE_0f2d,
     group (BxAnother OR BxPrefixSSE) BxOpcodeGroupSSE_0f2e,
     group (BxAnother OR BxPrefixSSE) BxOpcodeGroupSSE_0f2f,
     opcode 0 WRMSR,
     tick_opcode 0 RDTSC,
     tick_opcode 0 RDMSR,
     opcode 0 RDPMC,
     opcode 0 SYSENTER,
     opcode 0 SYSEXIT,
     opcode 0 BxError,
     opcode 0 BxError,
     opcode 0 BxError,
     opcode 0 BxError,
     opcode 0 BxError,
     opcode 0 BxError,
     opcode 0 BxError,
     opcode 0 BxError,
     opcode 0 BxError,
     opcode 0 BxError,
     opcode BxAnother CMOV_GdEd,
     opcode BxAnother CMOV_GdEd,
     opcode BxAnother CMOV_GdEd,
     opcode BxAnother CMOV_GdEd,
     opcode BxAnother CMOV_GdEd,
     opcode BxAnother CMOV_GdEd,
     opcode BxAnother CMOV_GdEd,
     opcode BxAnother CMOV_GdEd,
     opcode BxAnother CMOV_GdEd,
     opcode BxAnother CMOV_GdEd,
     opcode BxAnother CMOV_GdEd,
     opcode BxAnother CMOV_GdEd,
     opcode BxAnother CMOV_GdEd,
     opcode BxAnother CMOV_GdEd,
     opcode BxAnother CMOV_GdEd,
     opcode BxAnother CMOV_GdEd,
     group (BxAnother OR BxPrefixSSE) BxOpcodeGroupSSE_0f50,
     group (BxAnother OR BxPrefixSSE) BxOpcodeGroupSSE_0f51,
     group (BxAnother OR BxPrefixSSE) BxOpcodeGroupSSE_0f52,
     group (BxAnother OR BxPrefixSSE) BxOpcodeGroupSSE_0f53,
     group (BxAnother OR BxPrefixSSE) BxOpcodeGroupSSE_0f54,
     group (BxAnother OR BxPrefixSSE) BxOpcodeGroupSSE_0f55,
     group (BxAnother OR BxPrefixSSE) BxOpcodeGroupSSE_0f56,
     group (BxAnother OR BxPrefixSSE) BxOpcodeGroupSSE_0f57,
     group (BxAnother OR BxPrefixSSE) BxOpcodeGroupSSE_0f58,
     group (BxAnother OR BxPrefixSSE) BxOpcodeGroupSSE_0f59,
     group (BxAnother OR BxPrefixSSE) BxOpcodeGroupSSE_0f5a,
     group (BxAnother OR BxPrefixSSE) BxOpcodeGroupSSE_0f5b,
     group (BxAnother OR BxPrefixSSE) BxOpcodeGroupSSE_0f5c,
     group (BxAnother OR BxPrefixSSE) BxOpcodeGroupSSE_0f5d,
     group (BxAnother OR BxPrefixSSE) BxOpcodeGroupSSE_0f5e,
     group (BxAnother OR BxPrefixSSE) BxOpcodeGroupSSE_0f5f,
     group (BxAnother OR BxPrefixSSE) BxOpcodeGroupSSE_0f60,
     group (BxAnother OR BxPrefixSSE) BxOpcodeGroupSSE_0f61,
     group (BxAnother OR BxPrefixSSE) BxOpcodeGroupSSE_0f62,
     group (BxAnother OR BxPrefixSSE) BxOpcodeGroupSSE_0f63,
     group (BxAnother OR BxPrefixSSE) BxOpcodeGroupSSE_0f64,
     group (BxAnother OR BxPrefixSSE) BxOpcodeGroupSSE_0f65,
     group (BxAnother OR BxPrefixSSE) BxOpcodeGroupSSE_0f66,
     group (BxAnother OR BxPrefixSSE) BxOpcodeGroupSSE_0f67,
     group (BxAnother OR BxPrefixSSE) BxOpcodeGroupSSE_0f68,
     group (BxAnother OR BxPrefixSSE) BxOpcodeGroupSSE_0f69,
     group (BxAnother OR BxPrefixSSE) BxOpcodeGroupSSE_0f6a,
     group (BxAnother OR BxPrefixSSE) BxOpcodeGroupSSE_0f6b,
     group (BxAnother OR BxPrefixSSE) BxOpcodeGroupSSE_0f6c,
     group (BxAnother OR BxPrefixSSE) BxOpcodeGroupSSE_0f6d,
     group (BxAnother OR BxPrefixSSE) BxOpcodeGroupSSE_0f6e,
     group (BxAnother OR BxPrefixSSE) BxOpcodeGroupSSE_0f6f,
     group (BxAnother OR BxImmediate_Ib OR BxPrefixSSE) BxOpcodeGroupSSE_0f70,
     group (BxAnother OR BxGroup12) BxOpcodeInfoG12,
     group (BxAnother OR BxGroup13) BxOpcodeInfoG13,
     group (BxAnother OR BxGroup14) BxOpcodeInfoG14,
     group (BxAnother OR BxPrefixSSE) BxOpcodeGroupSSE_0f74,
     group (BxAnother OR BxPrefixSSE) BxOpcodeGroupSSE_0f75,
     group (BxAnother OR BxPrefixSSE) BxOpcodeGroupSSE_0f76,
     extension 0 ''EMMS'',
     opcode 0 BxError,
     opcode 0 BxError,
     opcode 0 BxError,
     opcode 0 BxError,
     group (BxAnother OR BxPrefixSSE) BxOpcodeGroupSSE_0f7c,
     group (BxAnother OR BxPrefixSSE) BxOpcodeGroupSSE_0f7d,
     group (BxAnother OR BxPrefixSSE) BxOpcodeGroupSSE_0f7e,
     group (BxAnother OR BxPrefixSSE) BxOpcodeGroupSSE_0f7f]"

definition opcodes_7 :: "BxOpcodeInfo_t list" where
  "opcodes_7 = [
     opcode BxImmediate_BrOff32 JCC_Jd,
     opcode BxImmediate_BrOff32 JCC_Jd,
     opcode BxImmediate_BrOff32 JCC_Jd,
     opcode BxImmediate_BrOff32 JCC_Jd,
     opcode BxImmediate_BrOff32 JZ_Jd,
     opcode BxImmediate_BrOff32 JNZ_Jd,
     opcode BxImmediate_BrOff32 JCC_Jd,
     opcode BxImmediate_BrOff32 JCC_Jd,
     opcode BxImmediate_BrOff32 JCC_Jd,
     opcode BxImmediate_BrOff32 JCC_Jd,
     opcode BxImmediate_BrOff32 JCC_Jd,
     opcode BxImmediate_BrOff32 JCC_Jd,
     opcode BxImmediate_BrOff32 JCC_Jd,
     opcode BxImmediate_BrOff32 JCC_Jd,
     opcode BxImmediate_BrOff32 JCC_Jd,
     opcode BxImmediate_BrOff32 JCC_Jd,
     opcode BxAnother SETO_Eb,
     opcode BxAnother SETNO_Eb,
     opcode BxAnother SETB_Eb,
     opcode BxAnother SETNB_Eb,
     opcode BxAnother SETZ_Eb,
     opcode BxAnother SETNZ_Eb,
     opcode BxAnother SETBE_Eb,
     opcode BxAnother SETNBE_Eb,
     opcode BxAnother SETS_Eb,
     opcode BxAnother SETNS_Eb,
     opcode BxAnother SETP_Eb,
     opcode BxAnother SETNP_Eb,
     opcode BxAnother SETL_Eb,
     opcode BxAnother SETNL_Eb,
     opcode BxAnother SETLE_Eb,
     opcode BxAnother SETNLE_Eb,
     opcode 0 PUSH32_FS,
     opcode 0 POP32_FS,
     apic_opcode 0 CPUID,
     opcode BxAnother BT_EdGd,
     opcode (BxAnother OR BxImmediate_Ib) SHLD_EdGd,
     opcode BxAnother SHLD_EdGd,
     opcode 0 CMPXCHG_XBTS,
     opcode 0 CMPXCHG_IBTS,
     opcode 0 PUSH32_GS,
     opcode 0 POP32_GS,
     opcode 0 RSM,
     opcode (BxAnother OR BxLockable) BTS_EdGd,
     opcode (BxAnother OR BxImmediate_Ib) SHRD_EdGd,
     opcode BxAnother SHRD_EdGd,
     group (BxAnother OR BxGroup15) BxOpcodeInfoG15,
     opcode BxAnother IMUL_GdEd,
     opcode (BxAnother OR BxLockable) CMPXCHG_EbGb,
     opcode (BxAnother OR BxLockable) CMPXCHG_EdGd,
     opcode BxAnother LSS_GvMp,
     opcode (BxAnother OR BxLockable) BTR_EdGd,
     opcode BxAnother LFS_GvMp,
     opcode BxAnother LGS_GvMp,
     opcode BxAnother MOVZX_GdEb,
     opcode BxAnother MOVZX_GdEw,
     opcode 0 BxError,
     opcode 0 (\<lambda>i. UndefinedOpcode),
     group (BxAnother OR BxGroup8) BxOpcodeInfoG8EdIb,
     opcode (BxAnother OR BxLockable) BTC_EdGd,
     opcode BxAnother BSF_GdEd,
     opcode BxAnother BSR_GdEd,
     opcode BxAnother MOVSX_GdEb,
     opcode BxAnother MOVSX_GdEw,
     opcode (BxAnother OR BxLockable) XADD_EbGb,
     opcode (BxAnother OR BxLockable) XADD_EdGd,
     group (BxAnother OR BxImmediate_Ib OR BxPrefixSSE) BxOpcodeGroupSSE_0fc2,
     group (BxAnother OR BxPrefixSSE) BxOpcodeGroupSSE_0fc3,
     group (BxAnother OR BxPrefixSSE) BxOpcodeGroupSSE_0fc4,
     group (BxAnother OR BxPrefixSSE) BxOpcodeGroupSSE_0fc5,
     group (BxAnother OR BxPrefixSSE) BxOpcodeGroupSSE_0fc6,
     group (BxAnother OR BxGroup9) BxOpcodeInfoG9,
     opcode 0 BSWAP_EAX,
     opcode 0 BSWAP_ECX,
     opcode 0 BSWAP_EDX,
     opcode 0 BSWAP_EBX,
     opcode 0 BSWAP_ESP,
     opcode 0 BSWAP_EBP,
     opcode 0 BSWAP_ESI,
     opcode 0 BSWAP_EDI,
     group (BxAnother OR BxPrefixSSE) BxOpcodeGroupSSE_0fd0,
     group (BxAnother OR BxPrefixSSE) BxOpcodeGroupSSE_0fd1,
     group (BxAnother OR BxPrefixSSE) BxOpcodeGroupSSE_0fd2,
     group (BxAnother OR BxPrefixSSE) BxOpcodeGroupSSE_0fd3,
     group (BxAnother OR BxPrefixSSE) BxOpcodeGroupSSE_0fd4,
     group (BxAnother OR BxPrefixSSE) BxOpcodeGroupSSE_0fd5,
     group (BxAnother OR BxPrefixSSE) BxOpcodeGroupSSE_0fd6,
     group (BxAnother OR BxPrefixSSE) BxOpcodeGroupSSE_0fd7,
     group (BxAnother OR BxPrefixSSE) BxOpcodeGroupSSE_0fd8,
     group (BxAnother OR BxPrefixSSE) BxOpcodeGroupSSE_0fd9,
     group (BxAnother OR BxPrefixSSE) BxOpcodeGroupSSE_0fda,
     group (BxAnother OR BxPrefixSSE) BxOpcodeGroupSSE_0fdb,
     group (BxAnother OR BxPrefixSSE) BxOpcodeGroupSSE_0fdc,
     group (BxAnother OR BxPrefixSSE) BxOpcodeGroupSSE_0fdd,
     group (BxAnother OR BxPrefixSSE) BxOpcodeGroupSSE_0fde,
     group (BxAnother OR BxPrefixSSE) BxOpcodeGroupSSE_0fdf,
     group (BxAnother OR BxPrefixSSE) BxOpcodeGroupSSE_0fe0,
     group (BxAnother OR BxPrefixSSE) BxOpcodeGroupSSE_0fe1,
     group (BxAnother OR BxPrefixSSE) BxOpcodeGroupSSE_0fe2,
     group (BxAnother OR BxPrefixSSE) BxOpcodeGroupSSE_0fe3,
     group (BxAnother OR BxPrefixSSE) BxOpcodeGroupSSE_0fe4,
     group (BxAnother OR BxPrefixSSE) BxOpcodeGroupSSE_0fe5,
     group (BxAnother OR BxPrefixSSE) BxOpcodeGroupSSE_0fe6,
     group (BxAnother OR BxPrefixSSE) BxOpcodeGroupSSE_0fe7,
     group (BxAnother OR BxPrefixSSE) BxOpcodeGroupSSE_0fe8,
     group (BxAnother OR BxPrefixSSE) BxOpcodeGroupSSE_0fe9,
     group (BxAnother OR BxPrefixSSE) BxOpcodeGroupSSE_0fea,
     group (BxAnother OR BxPrefixSSE) BxOpcodeGroupSSE_0feb,
     group (BxAnother OR BxPrefixSSE) BxOpcodeGroupSSE_0fec,
     group (BxAnother OR BxPrefixSSE) BxOpcodeGroupSSE_0fed,
     group (BxAnother OR BxPrefixSSE) BxOpcodeGroupSSE_0fee,
     group (BxAnother OR BxPrefixSSE) BxOpcodeGroupSSE_0fef,
     group (BxAnother OR BxPrefixSSE) BxOpcodeGroupSSE_0ff0,
     group (BxAnother OR BxPrefixSSE) BxOpcodeGroupSSE_0ff1,
     group (BxAnother OR BxPrefixSSE) BxOpcodeGroupSSE_0ff2,
     group (BxAnother OR BxPrefixSSE) BxOpcodeGroupSSE_0ff3,
     group (BxAnother OR BxPrefixSSE) BxOpcodeGroupSSE_0ff4,
     group (BxAnother OR BxPrefixSSE) BxOpcodeGroupSSE_0ff5,
     group (BxAnother OR BxPrefixSSE) BxOpcodeGroupSSE_0ff6,
     group (BxAnother OR BxPrefixSSE) BxOpcodeGroupSSE_0ff7,
     group (BxAnother OR BxPrefixSSE) BxOpcodeGroupSSE_0ff8,
     group (BxAnother OR BxPrefixSSE) BxOpcodeGroupSSE_0ff9,
     group (BxAnother OR BxPrefixSSE) BxOpcodeGroupSSE_0ffa,
     group (BxAnother OR BxPrefixSSE) BxOpcodeGroupSSE_0ffb,
     group (BxAnother OR BxPrefixSSE) BxOpcodeGroupSSE_0ffc,
     group (BxAnother OR BxPrefixSSE) BxOpcodeGroupSSE_0ffd,
     group (BxAnother OR BxPrefixSSE) BxOpcodeGroupSSE_0ffe,
     opcode 0 BxError]"

definition BxOpcodeInfo :: "BxOpcodeInfo_t list" where
  "BxOpcodeInfo =
     opcodes_0 @ opcodes_1 @ opcodes_2 @ opcodes_3 @
     opcodes_4 @ opcodes_5 @ opcodes_6 @ opcodes_7"

end
