(* ===== verification/BxDecode.thy ===== *)
theory BxDecode
  imports BxOpcodeTable
begin

text \<open>
  The instruction decoder \<open>fetchDecode\<close> (\<open>cpu/fetchdecode.cc\<close>): prefixes, one- and
  two-byte opcodes, the ModRM and SIB bytes with their default segments (\<open>cpu/init.cc\<close>), the
  displacement, the group tables, the LOCK check and the immediate operand. \<open>decode\<close> is the
  decoder without the processor; the bytes that may be read are a list, as long as the
  parameter \<open>remain\<close>, and the instruction length \<open>ilen\<close> is the number of bytes consumed. The
  fields of \<open>modRMData\<close> are separate fields of the instruction. What the unions leave of older
  contents is kept as on a little-endian host.
\<close>

section \<open>Fetching\<close>

text \<open>
  \<open>Short\<close> is the return value 0, more bytes are needed; \<open>Undefined\<close> is the call of
  \<open>UndefinedOpcode\<close>, which does not return; \<open>Unknown\<close> is a panic.
\<close>

datatype 'a fetch = Fetched 'a "Bit8u list" | Short | Undefined | Unknown string

type_synonym 'a fetcher = "Bit8u list \<Rightarrow> 'a fetch"

definition fetched :: "'a \<Rightarrow> 'a fetcher" where
  "fetched x = (\<lambda>bs. Fetched x bs)"

definition fthen :: "'a fetcher \<Rightarrow> ('a \<Rightarrow> 'b fetcher) \<Rightarrow> 'b fetcher" where
  "fthen m f = (\<lambda>bs. case m bs of
      Fetched x r \<Rightarrow> f x r
    | Short \<Rightarrow> Short
    | Undefined \<Rightarrow> Undefined
    | Unknown msg \<Rightarrow> Unknown msg)"

definition fundefined :: "'a fetcher" where
  "fundefined = (\<lambda>bs. Undefined)"

definition funknown :: "string \<Rightarrow> 'a fetcher" where
  "funknown msg = (\<lambda>bs. Unknown msg)"

fun FetchBYTE :: "Bit8u fetcher" where
  "FetchBYTE (b # r) = Fetched b r"
| "FetchBYTE [] = Short"

fun FetchWORD :: "Bit16u fetcher" where
  "FetchWORD (b0 # b1 # r) = Fetched (ucast b0 OR push_bit 8 (ucast b1)) r"
| "FetchWORD bs = Short"

fun FetchDWORD :: "Bit32u fetcher" where
  "FetchDWORD (b0 # b1 # b2 # b3 # r) =
     Fetched (ucast b0 OR push_bit 8 (ucast b1) OR push_bit 16 (ucast b2) OR push_bit 24 (ucast b3)) r"
| "FetchDWORD bs = Short"

lemma fetched_apply [simp]: "fetched x bs = Fetched x bs"
  by (simp add: fetched_def)

lemma fundefined_apply [simp]: "fundefined bs = Undefined"
  by (simp add: fundefined_def)

lemma funknown_apply [simp]: "funknown msg bs = Unknown msg"
  by (simp add: funknown_def)

lemma fthen_Fetched [simp]: "m bs = Fetched x r \<Longrightarrow> fthen m f bs = f x r"
  by (simp add: fthen_def)

lemma fthen_fetched [simp]: "fthen (fetched x) f = f x"
  by (simp add: fthen_def fun_eq_iff)

lemma fthen_Short [simp]: "m bs = Short \<Longrightarrow> fthen m f bs = Short"
  by (simp add: fthen_def)

section \<open>The fields of the instruction\<close>

text \<open>\<open>initMetaInfo\<close>, with no segment; the length and the opcode are cleared with the rest.\<close>

definition initMetaInfo :: "bool \<Rightarrow> bool \<Rightarrow> bxInstruction \<Rightarrow> bxInstruction" where
  "initMetaInfo os as i = i\<lparr>null_seg := True, os32L := os, as32L := as, repUsedValue := 0,
     repeatableL := False, repeatableZFL := False, i_b1 := 0, modC0 := False, i_ilen := 0\<rparr>"

definition setSeg :: "seg_reg option \<Rightarrow> bxInstruction \<Rightarrow> bxInstruction" where
  "setSeg r i = (case r of
      None \<Rightarrow> i\<lparr>null_seg := True\<rparr>
    | Some x \<Rightarrow> i\<lparr>null_seg := False, i_seg := x\<rparr>)"

definition default_seg :: "seg_reg option \<Rightarrow> bxInstruction \<Rightarrow> bxInstruction" where
  "default_seg r i = (if null_seg i then setSeg r i else i)"

definition setRepAttr :: "Bit16u \<Rightarrow> bxInstruction \<Rightarrow> bxInstruction" where
  "setRepAttr a i = i\<lparr>repeatableL := repeatableL i \<or> a AND BxRepeatable \<noteq> 0,
     repeatableZFL := repeatableZFL i \<or> a AND BxRepeatableZF \<noteq> 0\<rparr>"

definition set_opcodeReg :: "3 word \<Rightarrow> bxInstruction \<Rightarrow> bxInstruction" where
  "set_opcodeReg r i =
     i\<lparr>opcodeReg := r, rm := r, nnn := 0, sibScale := 0, sibIndex := 0, sibBase := 0\<rparr>"

definition set_modRMData :: "Bit8u \<Rightarrow> bxInstruction \<Rightarrow> bxInstruction" where
  "set_modRMData b2 i =
     i\<lparr>nnn := ucast (drop_bit 3 b2), rm := ucast b2, sibScale := 0, sibIndex := 0, sibBase := 0\<rparr>"

definition set_sib :: "Bit8u \<Rightarrow> bxInstruction \<Rightarrow> bxInstruction" where
  "set_sib sib i = i\<lparr>sibBase := ucast sib, sibIndex := ucast (drop_bit 3 sib),
     sibScale := unat (drop_bit 6 sib)\<rparr>"

definition set_Id :: "Bit32u \<Rightarrow> bxInstruction \<Rightarrow> bxInstruction" where
  "set_Id v i = i\<lparr>i_Id := v, i_Iw := ucast v, i_Ib := ucast v\<rparr>"

definition set_Iw :: "Bit16u \<Rightarrow> bxInstruction \<Rightarrow> bxInstruction" where
  "set_Iw v i = set_Id ((i_Id i AND 0xffff0000) OR ucast v) i"

definition set_Ib :: "Bit8u \<Rightarrow> bxInstruction \<Rightarrow> bxInstruction" where
  "set_Ib v i = set_Id ((i_Id i AND 0xffffff00) OR ucast v) i"

definition set_displ32u :: "Bit32u \<Rightarrow> bxInstruction \<Rightarrow> bxInstruction" where
  "set_displ32u v i = i\<lparr>displ32u := v, displ16u := ucast v, i_Iw2 := ucast v, i_Ib2 := ucast v\<rparr>"

definition set_displ16u :: "Bit16u \<Rightarrow> bxInstruction \<Rightarrow> bxInstruction" where
  "set_displ16u v i = set_displ32u ((displ32u i AND 0xffff0000) OR ucast v) i"

definition set_Ib2 :: "Bit8u \<Rightarrow> bxInstruction \<Rightarrow> bxInstruction" where
  "set_Ib2 v i = set_displ32u ((displ32u i AND 0xffffff00) OR ucast v) i"

section \<open>Prefixes and opcode\<close>

text \<open>The local variables of the routine; \<open>d_is_32\<close> is the default size of the code segment.\<close>

record decode_state =
  d_insn :: bxInstruction
  d_is_32 :: bool
  d_os_32 :: bool
  d_sse_prefix :: nat
  d_lock :: bool

definition SSE_PREFIX_66 :: nat where "SSE_PREFIX_66 = 1"
definition SSE_PREFIX_F2 :: nat where "SSE_PREFIX_F2 = 2"
definition SSE_PREFIX_F3 :: nat where "SSE_PREFIX_F3 = 4"

definition set_insn :: "(bxInstruction \<Rightarrow> bxInstruction) \<Rightarrow> decode_state \<Rightarrow> decode_state" where
  "set_insn f d = d\<lparr>d_insn := f (d_insn d)\<rparr>"

definition opcode_info :: "decode_state \<Rightarrow> nat \<Rightarrow> BxOpcodeInfo_t" where
  "opcode_info d b1 = BxOpcodeInfo ! (b1 + (if d_os_32 d then 512 else 0))"

definition prefix_byte :: "nat \<Rightarrow> decode_state \<Rightarrow> decode_state option" where
  "prefix_byte b1 d =
     (if b1 = 0x66 then
        Some (set_insn (\<lambda>i. i\<lparr>os32L := \<not> d_is_32 d\<rparr>)
          (d\<lparr>d_os_32 := \<not> d_is_32 d, d_sse_prefix := d_sse_prefix d OR SSE_PREFIX_66\<rparr>))
      else if b1 = 0x67 then Some (set_insn (\<lambda>i. i\<lparr>as32L := \<not> d_is_32 d\<rparr>) d)
      else if b1 = 0xf2 then
        Some (set_insn (\<lambda>i. i\<lparr>repUsedValue := 2\<rparr>)
          (d\<lparr>d_sse_prefix := d_sse_prefix d OR SSE_PREFIX_F2\<rparr>))
      else if b1 = 0xf3 then
        Some (set_insn (\<lambda>i. i\<lparr>repUsedValue := 3\<rparr>)
          (d\<lparr>d_sse_prefix := d_sse_prefix d OR SSE_PREFIX_F3\<rparr>))
      else if b1 = 0x2e then Some (set_insn (setSeg (Some CS)) d)
      else if b1 = 0x26 then Some (set_insn (setSeg (Some ES)) d)
      else if b1 = 0x36 then Some (set_insn (setSeg (Some SS)) d)
      else if b1 = 0x3e then Some (set_insn (setSeg (Some DS)) d)
      else if b1 = 0x64 then Some (set_insn (setSeg (Some FS)) d)
      else if b1 = 0x65 then Some (set_insn (setSeg (Some GS)) d)
      else if b1 = 0xf0 then Some (d\<lparr>d_lock := True\<rparr>)
      else None)"

text \<open>
  The labels \<open>fetch_b1\<close> and \<open>another_byte\<close>: the prefixes are consumed, then a one- or
  two-byte opcode. The result is the opcode number with the state.
\<close>

fun fetch_b1 :: "decode_state \<Rightarrow> (decode_state \<times> nat) fetcher" where
  "fetch_b1 d [] = Short"
| "fetch_b1 d (b # bs) =
     (let b1 = unat b; a = Attr (opcode_info d b1); d1 = set_insn (setRepAttr a) d in
      if a AND BxAnother \<noteq> 0 \<and> a AND BxPrefix \<noteq> 0 then
        (case prefix_byte b1 d1 of
           Some d2 \<Rightarrow> fetch_b1 d2 bs
         | None \<Rightarrow> Unknown ''fetch_decode: prefix default'')
      else if a AND BxAnother \<noteq> 0 \<and> b1 = 0x0f then
        (case bs of
           [] \<Rightarrow> Short
         | b2 # r \<Rightarrow>
             (let b1 = 256 + unat b2; a = Attr (opcode_info d1 b1) in
              if a AND BxAnother \<noteq> 0 \<and> a AND BxPrefix \<noteq> 0
              then Unknown ''fetch_decode: prefix default''
              else Fetched (set_insn (setRepAttr a) d1, b1) r))
      else Fetched (d1, b1) bs)"

section \<open>ModRM, SIB, displacement\<close>

definition sreg_mod00_rm16 :: "seg_reg option list" where
  "sreg_mod00_rm16 = map Some [DS, DS, SS, SS, DS, DS, DS, DS]"

definition sreg_mod01or10_rm16 :: "seg_reg option list" where
  "sreg_mod01or10_rm16 = map Some [DS, DS, SS, SS, DS, DS, SS, DS]"

definition sreg_mod01or10_rm32 :: "seg_reg option list" where
  "sreg_mod01or10_rm32 = map Some [DS, DS, DS, DS] @ [None] @ map Some [SS, DS, DS]"

definition sreg_mod0_base32 :: "seg_reg option list" where
  "sreg_mod0_base32 = map Some [DS, DS, DS, DS, SS, DS, DS, DS]"

definition sreg_mod1or2_base32 :: "seg_reg option list" where
  "sreg_mod1or2_base32 = map Some [DS, DS, DS, DS, SS, SS, DS, DS]"

definition resolve_with :: "resolve_modrm \<Rightarrow> seg_reg option \<Rightarrow> bxInstruction \<Rightarrow> bxInstruction" where
  "resolve_with r sg i = default_seg sg (i\<lparr>ResolveModrm := Some r\<rparr>)"

definition get_8bit_displ :: "bxInstruction \<Rightarrow> bxInstruction fetcher" where
  "get_8bit_displ i = fthen FetchBYTE (\<lambda>b. fetched (set_displ32u (scast b) i))"

definition get_32bit_displ :: "bxInstruction \<Rightarrow> bxInstruction fetcher" where
  "get_32bit_displ i = fthen FetchDWORD (\<lambda>w. fetched (set_displ32u w i))"

definition get_8bit_displ16 :: "bxInstruction \<Rightarrow> bxInstruction fetcher" where
  "get_8bit_displ16 i = fthen FetchBYTE (\<lambda>b. fetched (set_displ16u (scast b) i))"

definition get_16bit_displ :: "bxInstruction \<Rightarrow> bxInstruction fetcher" where
  "get_16bit_displ i = fthen FetchWORD (\<lambda>w. fetched (set_displ16u w i))"

definition modrm_sib :: "Bit8u \<Rightarrow> bxInstruction \<Rightarrow> bxInstruction fetcher" where
  "modrm_sib m i = fthen FetchBYTE (\<lambda>sib.
     (let i = set_sib sib i; base = unat (sibBase i) in
      if m = 0x00 then
        (let i = resolve_with (BxResolve32Mod0Base base) (sreg_mod0_base32 ! base) i in
         if base = 5 then get_32bit_displ i else fetched i)
      else
        (let i = resolve_with (BxResolve32Mod1or2Base base) (sreg_mod1or2_base32 ! base) i in
         if m = 0x40 then get_8bit_displ i else get_32bit_displ i)))"

definition modrm_32 :: "Bit8u \<Rightarrow> bxInstruction \<Rightarrow> bxInstruction fetcher" where
  "modrm_32 m i =
     (let r = unat (rm i) in
      if r = 4 then modrm_sib m i
      else if m = 0x00 then
        (let i = resolve_with (BxResolve32Mod0 r) (Some DS) i in
         if r = 5 then get_32bit_displ i else fetched i)
      else
        (let i = resolve_with (BxResolve32Mod1or2 r) (sreg_mod01or10_rm32 ! r) i in
         if m = 0x40 then get_8bit_displ i else get_32bit_displ i))"

definition modrm_16 :: "Bit8u \<Rightarrow> bxInstruction \<Rightarrow> bxInstruction fetcher" where
  "modrm_16 m i =
     (let r = unat (rm i) in
      if m = 0x00 then
        (let i = resolve_with (BxResolve16Mod0 r) (sreg_mod00_rm16 ! r) i in
         if r = 6 then get_16bit_displ i else fetched i)
      else
        (let i = resolve_with (BxResolve16Mod1or2 r) (sreg_mod01or10_rm16 ! r) i in
         if m = 0x40 then get_8bit_displ16 i else get_16bit_displ i))"

text \<open>
  The field \<open>mod\<close>, unshifted; the moves of control and debug registers ignore it.
\<close>

definition modrm_mod :: "nat \<Rightarrow> Bit8u \<Rightarrow> Bit8u" where
  "modrm_mod b1 b2 = (if 0x120 \<le> b1 \<and> b1 \<le> 0x123 then 0xc0 else b2 AND 0xc0)"

definition fetch_modrm :: "nat \<Rightarrow> Bit8u \<Rightarrow> bxInstruction \<Rightarrow> bxInstruction fetcher" where
  "fetch_modrm b1 b2 i =
     (let i = set_modRMData b2 i; m = modrm_mod b1 b2 in
      if m = 0xc0 then fetched (i\<lparr>modC0 := True\<rparr>)
      else if as32L i then modrm_32 m i
      else modrm_16 m i)"

section \<open>Group tables\<close>

definition sse_prefix_index :: "nat option list" where
  "sse_prefix_index = [Some 0, Some 1, Some 2, None, Some 3, None, None, None]"

text \<open>
  The loop over the group tables; \<open>group_depth\<close> is the depth of the tables. The opcodes
  \<open>D8\<close> to \<open>DF\<close> with a register operand use a table of their own.
\<close>

definition group_depth :: nat where "group_depth = 4"

fun resolve_group :: "nat \<Rightarrow> nat \<Rightarrow> Bit8u \<Rightarrow> Bit8u \<Rightarrow> nat \<Rightarrow> Bit16u \<Rightarrow> BxOpcodeInfo_t \<Rightarrow> (Bit16u \<times> BxOpcodeInfo_t) fetcher" where
  "resolve_group fuel b1 b2 m sse a info =
     (let g = a AND BxGroupX; a = a AND NOT BxGroupX;
          enter = (\<lambda>info'. case fuel of
             0 \<Rightarrow> funknown ''fetchdecode: group tables too deep''
           | Suc k \<Rightarrow> resolve_group k b1 b2 m sse (a OR Attr info') info') in
      if g = 0 then fetched (a, info)
      else if g = BxGroupN then enter (AnotherArray info ! unat (drop_bit 3 b2 AND 7))
      else if g = BxPrefixSSE then
        (case sse_prefix_index ! sse of
           None \<Rightarrow> fundefined
         | Some op \<Rightarrow> enter (AnotherArray info ! op))
      else if g = BxSplitMod11b then enter (AnotherArray info ! (if m = 0xc0 then 1 else 0))
      else if g = BxFPGroup then
        (if m \<noteq> 0xc0 then enter (AnotherArray info ! unat (drop_bit 3 b2 AND 7))
         else enter (BxOpcodeInfo_FloatingPoint ! ((b1 - 0xD8) * 64 + unat (b2 AND 0x3f))))
      else funknown ''fetchdecode: Unknown opcode group'')"

declare resolve_group.simps [simp del]

section \<open>Immediate operands\<close>

definition fetch_Iv :: "bxInstruction \<Rightarrow> bxInstruction fetcher" where
  "fetch_Iv i =
     (if os32L i then fthen FetchDWORD (\<lambda>w. fetched (set_Id w i))
      else fthen FetchWORD (\<lambda>w. fetched (set_Iw w i)))"

definition fetch_immediate :: "Bit16u \<Rightarrow> bxInstruction \<Rightarrow> bxInstruction fetcher" where
  "fetch_immediate a i =
     (let m = a AND BxImmediate in
      if m = 0 then fetched i
      else if m = BxImmediate_Ib then fthen FetchBYTE (\<lambda>b. fetched (set_Ib b i))
      else if m = BxImmediate_Ib_SE then
        fthen FetchBYTE (\<lambda>b. fetched (if os32L i then set_Id (scast b) i else set_Iw (scast b) i))
      else if m = BxImmediate_Iv then fetch_Iv i
      else if m = BxImmediate_IvIw then
        fthen (fetch_Iv i) (\<lambda>i. fthen FetchWORD (\<lambda>w. fetched (set_displ16u w i)))
      else if m = BxImmediate_O then
        fthen (if as32L i then FetchDWORD else fthen FetchWORD (\<lambda>w. fetched (ucast w)))
          (\<lambda>w. fetched (default_seg (Some DS) (set_Id w i)))
      else if m = BxImmediate_Iw then fthen FetchWORD (\<lambda>w. fetched (set_Iw w i))
      else if m = BxImmediate_IwIb then
        fthen FetchWORD (\<lambda>w. fthen FetchBYTE (\<lambda>b. fetched (set_Ib2 b (set_Iw w i))))
      else if m = BxImmediate_BrOff8 then fthen FetchBYTE (\<lambda>b. fetched (set_Id (scast b) i))
      else if m = BxImmediate_BrOff16 then fthen FetchWORD (\<lambda>w. fetched (set_Id (scast w) i))
      else funknown ''fetchdecode: imm_mode'')"

section \<open>The decoder\<close>

text \<open>
  The part with ModRM yields \<open>mod\<close>, the attributes, the table entry and the instruction.
\<close>

definition decode_modrm :: "decode_state \<Rightarrow> nat \<Rightarrow> (Bit8u \<times> Bit16u \<times> execute_ptr option \<times> bxInstruction) fetcher" where
  "decode_modrm d b1 = fthen FetchBYTE (\<lambda>b2.
     fthen (fetch_modrm b1 b2 (d_insn d)) (\<lambda>i.
     (let m = modrm_mod b1 b2; info = opcode_info d b1 in
      fthen (resolve_group group_depth b1 b2 m (d_sse_prefix d) (Attr info) info)
        (\<lambda>(a, info). fetched (m, a, ExecutePtr info, setRepAttr a i)))))"

definition decode_plain :: "decode_state \<Rightarrow> nat \<Rightarrow> (Bit8u \<times> Bit16u \<times> execute_ptr option \<times> bxInstruction) fetcher" where
  "decode_plain d b1 =
     (let info = opcode_info d b1 in
      fetched (0, Attr info, ExecutePtr info, set_opcodeReg (of_nat b1) (d_insn d)))"

definition decode_init :: "bool \<Rightarrow> bxInstruction \<Rightarrow> decode_state" where
  "decode_init is_32 i =
     \<lparr>d_insn = initMetaInfo is_32 is_32 (i\<lparr>ResolveModrm := None\<rparr>), d_is_32 = is_32, d_os_32 = is_32,
      d_sse_prefix = 0, d_lock = False\<rparr>"

definition decode_bytes :: "bool \<Rightarrow> bxInstruction \<Rightarrow> (execute_ptr option \<times> bxInstruction) fetcher" where
  "decode_bytes is_32 i =
     fthen (fetch_b1 (decode_init is_32 i)) (\<lambda>(d, b1).
     fthen (if Attr (opcode_info d b1) AND BxAnother \<noteq> 0 then decode_modrm d b1 else decode_plain d b1)
       (\<lambda>(m, a, e, i).
          if d_lock d \<and> (m = 0xc0 \<or> a AND BxLockable = 0) then fundefined
          else fthen (fetch_immediate a i) (\<lambda>i. fetched (e, i\<lparr>i_b1 := b1\<rparr>))))"

definition decode :: "bool \<Rightarrow> Bit8u list \<Rightarrow> bxInstruction \<Rightarrow> (execute_ptr option \<times> bxInstruction) fetch" where
  "decode is_32 bs i = (case decode_bytes is_32 i bs of
      Fetched (e, j) r \<Rightarrow> Fetched (e, j\<lparr>i_ilen := length bs - length r\<rparr>) r
    | Short \<Rightarrow> Short
    | Undefined \<Rightarrow> Undefined
    | Unknown msg \<Rightarrow> Unknown msg)"

definition fetchDecode :: "Bit8u list \<Rightarrow> bxInstruction \<Rightarrow> (execute_ptr option \<times> bxInstruction) option bx" where
  "fetchDecode bs i = and_then (gets (\<lambda>s. seg_d_b (sregs s CS))) (\<lambda>is_32.
     (case decode is_32 bs i of
        Fetched x r \<Rightarrow> ret (Some x)
      | Short \<Rightarrow> ret None
      | Undefined \<Rightarrow> and_then UndefinedOpcode (\<lambda>_. ret None)
      | Unknown msg \<Rightarrow> panic msg))"

end
