(* ===== verification/BxModrmTheorems.thy ===== *)
theory BxModrmTheorems
  imports BxDecode BxMachine
begin

text \<open>
  Memory operands: the decoder's choice of resolver, segment and displacement together with the
  resolvers of \<open>cpu/resolve16.cc\<close> and \<open>cpu/resolve32.cc\<close> give the address the processor manual
  defines for the ModRM and SIB bytes.
\<close>

section \<open>The manual's addresses\<close>

definition word_at :: "Bit8u list \<Rightarrow> Bit16u" where
  "word_at bs = ucast (bs ! 0) OR push_bit 8 (ucast (bs ! 1))"

definition dword_at :: "Bit8u list \<Rightarrow> Bit32u" where
  "dword_at bs = ucast (bs ! 0) OR push_bit 8 (ucast (bs ! 1)) OR push_bit 16 (ucast (bs ! 2)) OR
     push_bit 24 (ucast (bs ! 3))"

text \<open>
  16-bit addressing: two of BX, BP, SI, DI, or one of them, plus no, an 8-bit or a 16-bit
  displacement; \<open>[BP]\<close> without displacement is a 16-bit address instead. \<open>f\<close> is the field
  \<open>mod\<close>, \<open>r\<close> the field \<open>rm\<close>.
\<close>

definition ea_16 :: "Bit8u \<Rightarrow> nat \<Rightarrow> Bit8u list \<Rightarrow> cpu \<Rightarrow> Bit16u" where
  "ea_16 f r bs s =
     (if f = 0 \<and> r = 6 then word_at bs
      else (if r \<in> {0, 1, 7} then BX s else if r \<in> {2, 3, 6} then BP s else 0) +
           (if r \<in> {0, 2, 4} then SI s else if r \<in> {1, 3, 5} then DI s else 0) +
           (if f = 0 then 0 else if f = 0x40 then scast (bs ! 0) else word_at bs))"

definition seg_16 :: "Bit8u \<Rightarrow> nat \<Rightarrow> seg_reg" where
  "seg_16 f r = (if r \<in> {2, 3} \<or> r = 6 \<and> f \<noteq> 0 then SS else DS)"

text \<open>
  32-bit addressing: a base register, with an SIB byte also an index register other than ESP,
  scaled, plus a displacement; without displacement, EBP as the base stands for a 32-bit address.
\<close>

definition ea_32 :: "Bit8u \<Rightarrow> nat \<Rightarrow> Bit8u list \<Rightarrow> cpu \<Rightarrow> Bit32u" where
  "ea_32 f r bs s =
     (let sib = bs ! 0;
          b = (if r = 4 then unat (sib AND 7) else r);
          x = unat (drop_bit 3 sib AND 7);
          rest = (if r = 4 then tl bs else bs) in
      (if f = 0 \<and> b = 5 then dword_at rest else gen_reg s (of_nat b)) +
      (if r = 4 \<and> x \<noteq> 4 then gen_reg s (of_nat x) * 2 ^ unat (drop_bit 6 sib) else 0) +
      (if f = 0 then 0 else if f = 0x40 then scast (rest ! 0) else dword_at rest))"

definition seg_32 :: "Bit8u \<Rightarrow> nat \<Rightarrow> Bit8u list \<Rightarrow> seg_reg" where
  "seg_32 f r bs =
     (let b = (if r = 4 then unat (bs ! 0 AND 7) else r) in
      if r = 4 \<and> b = 4 \<or> b = 5 \<and> f \<noteq> 0 then SS else DS)"

definition operand_address :: "bxInstruction \<Rightarrow> Bit8u \<Rightarrow> Bit8u list \<Rightarrow> cpu \<Rightarrow> Bit32u" where
  "operand_address i b2 bs s =
     (if as32L i then ea_32 (b2 AND 0xc0) (unat (b2 AND 7)) bs s
      else ucast (ea_16 (b2 AND 0xc0) (unat (b2 AND 7)) bs s))"

definition operand_segment :: "bxInstruction \<Rightarrow> Bit8u \<Rightarrow> Bit8u list \<Rightarrow> seg_reg" where
  "operand_segment i b2 bs =
     (if \<not> null_seg i then i_seg i
      else if as32L i then seg_32 (b2 AND 0xc0) (unat (b2 AND 7)) bs
      else seg_16 (b2 AND 0xc0) (unat (b2 AND 7)))"

section \<open>Fields of the bytes\<close>

lemma low_bits_3: "unat (ucast (b :: Bit8u) :: 3 word) = unat (b AND 7)"
proof -
  have "b AND 7 = take_bit 3 b"
    by (simp add: take_bit_eq_mask mask_eq_exp_minus_1)
  then show ?thesis
    by (simp add: unsigned_ucast_eq unsigned_take_bit_eq)
qed

lemma octal_cases:
  assumes "(n :: nat) < 8"
  obtains "n = 0" | "n = 1" | "n = 2" | "n = 3" | "n = 4" | "n = 5" | "n = 6" | "n = 7"
  using assms by linarith

section \<open>Addresses\<close>

lemma FetchBYTE_iff: "FetchBYTE bs = Fetched x r \<longleftrightarrow> bs \<noteq> [] \<and>
  x = bs ! 0 \<and> r = tl bs"
  by (cases bs rule: FetchBYTE.cases) auto

lemma FetchWORD_iff: "FetchWORD bs = Fetched x r \<longleftrightarrow> 2 \<le> length bs \<and>
  x = word_at bs \<and> r = drop 2 bs"
  by (cases bs rule: FetchWORD.cases) (auto simp: word_at_def)

lemma FetchDWORD_iff: "FetchDWORD bs = Fetched x r \<longleftrightarrow> 4 \<le> length bs \<and>
  x = dword_at bs \<and> r = drop 4 bs"
  by (cases bs rule: FetchDWORD.cases) (auto simp: dword_at_def)

lemma fthen_iff: "fthen m f bs = Fetched y t \<longleftrightarrow> (\<exists>x r. m bs = Fetched x r \<and>
  f x r = Fetched y t)"
  by (auto simp: fthen_def split: fetch.splits)

lemma displ_D:
  "get_8bit_displ i bs = Fetched j r \<Longrightarrow> j = set_displ32u (scast (bs ! 0)) i"
  "get_32bit_displ i bs = Fetched j r \<Longrightarrow> j = set_displ32u (dword_at bs) i"
  "get_8bit_displ16 i bs = Fetched j r \<Longrightarrow> j = set_displ16u (scast (bs ! 0)) i"
  "get_16bit_displ i bs = Fetched j r \<Longrightarrow> j = set_displ16u (word_at bs) i"
  by (auto simp: get_8bit_displ_def get_32bit_displ_def get_8bit_displ16_def get_16bit_displ_def
      fthen_iff FetchBYTE_iff FetchWORD_iff FetchDWORD_iff)

lemma low_half: "(ucast ((x :: Bit32u) AND 0xffff0000 OR ucast (v :: Bit16u)) :: Bit16u) = v"
proof (rule bit_word_eqI)
  fix n
  assume "n < LENGTH(16)"
  then have n: "n < 16" by simp
  have "\<not> bit (0xffff0000 :: Bit32u) n"
  proof -
    have "(0xffff0000 :: Bit32u) = push_bit 16 0xffff"
      by simp
    then show ?thesis
      using n by (simp only: bit_push_bit_iff) simp
  qed
  then show "bit (ucast (x AND 0xffff0000 OR ucast v) :: Bit16u) n = bit v n"
    using n by (simp add: bit_simps)
qed

lemma set_displ_fields [simp]:
  "displ32u (set_displ32u v i) = v" "displ16u (set_displ16u w i) = w"
  "ResolveModrm (set_displ32u v i) = ResolveModrm i" "ResolveModrm (set_displ16u w i) = ResolveModrm i"
  "null_seg (set_displ32u v i) = null_seg i" "null_seg (set_displ16u w i) = null_seg i"
  "i_seg (set_displ32u v i) = i_seg i" "i_seg (set_displ16u w i) = i_seg i"
  "sibIndex (set_displ32u v i) = sibIndex i" "sibScale (set_displ32u v i) = sibScale i"
  by (simp_all add: set_displ32u_def set_displ16u_def low_half)

lemma resolve_with_fields [simp]:
  "ResolveModrm (resolve_with m (Some sg) i) = Some m" "\<not> null_seg (resolve_with m (Some sg) i)"
  "i_seg (resolve_with m (Some sg) i) = (if null_seg i then sg else i_seg i)"
  "sibIndex (resolve_with m (Some sg) i) = sibIndex i" "sibScale (resolve_with m (Some sg) i) = sibScale i"
  by (simp_all add: resolve_with_def default_seg_def setSeg_def)

definition resolved :: "bxInstruction \<Rightarrow> bxInstruction \<Rightarrow> seg_reg \<Rightarrow> (cpu \<Rightarrow> Bit32u) \<Rightarrow> bool" where
  "resolved i j sg a \<longleftrightarrow> \<not> null_seg j \<and>
    i_seg j = (if null_seg i then sg else i_seg i) \<and>
     (\<forall>s. resolve j s = Done () (s\<lparr>rm_addr := a s\<rparr>))"

lemma resolvedI:
  assumes "\<not> null_seg j" and "i_seg j = (if null_seg i then sg else i_seg i)" and "ResolveModrm j = Some m"
    and "\<And>s. call_resolve m j s = Done () (s\<lparr>rm_addr := a s\<rparr>)"
  shows "resolved i j sg a"
  using assms by (simp add: resolved_def resolve_def)

declare call_resolve.simps [simp del]

lemmas resolvers_16 = call_resolve.simps Resolve16Mod0Rm0_def Resolve16Mod0Rm1_def Resolve16Mod0Rm2_def
  Resolve16Mod0Rm3_def Resolve16Mod0Rm4_def Resolve16Mod0Rm5_def Resolve16Mod0Rm6_def
  Resolve16Mod0Rm7_def Resolve16Mod1or2Rm0_def Resolve16Mod1or2Rm1_def Resolve16Mod1or2Rm2_def
  Resolve16Mod1or2Rm3_def Resolve16Mod1or2Rm4_def Resolve16Mod1or2Rm5_def Resolve16Mod1or2Rm6_def
  Resolve16Mod1or2Rm7_def

lemma segments_16:
  assumes "n < 8"
  shows "sreg_mod00_rm16 ! n = Some (seg_16 0 n)" "f \<noteq> 0 \<Longrightarrow> sreg_mod01or10_rm16 ! n = Some (seg_16 f n)"
  using assms by (cases rule: octal_cases; simp add: sreg_mod00_rm16_def sreg_mod01or10_rm16_def seg_16_def)+

lemma call_mod0_16:
  assumes "n < 8"
  shows "call_resolve (BxResolve16Mod0 n) j s =
    Done () (s\<lparr>rm_addr := ucast (if n = 6 then displ16u j else ea_16 0 n bs s)\<rparr>)"
  using assms by (cases rule: octal_cases) (simp_all add: resolvers_16 ea_16_def)

lemma call_mod1or2_16:
  assumes "n < 8" and "f \<noteq> 0" and "displ16u j = (if f = 0x40 then scast (bs ! 0) else word_at bs)"
  shows "call_resolve (BxResolve16Mod1or2 n) j s = Done () (s\<lparr>rm_addr := ucast (ea_16 f n bs s)\<rparr>)"
  using assms by (cases rule: octal_cases) (simp_all add: resolvers_16 ea_16_def)

lemma modrm_16_resolved:
  assumes "modrm_16 f i bs = Fetched j r" and "unat (rm i) = n"
  shows "resolved i j (seg_16 f n) (\<lambda>s. ucast (ea_16 f n bs s))"
proof -
  have n: "n < 8"
    using unsigned_less [of "rm i", where ?'a = nat] assms(2) by simp
  show ?thesis
  proof (cases "f = 0")
    case True
    define k where "k = resolve_with (BxResolve16Mod0 n) (Some (seg_16 0 n)) i"
    have "(if n = 6 then get_16bit_displ k else fetched k) bs = Fetched j r"
      using assms(1) by (simp only: modrm_16_def Let_def assms(2) True segments_16 [OF n] k_def simp_thms if_True)
    then have "j = (if n = 6 then set_displ16u (word_at bs) k else k)"
      by (auto split: if_splits dest: displ_D)
    then show ?thesis
      using n True by (intro resolvedI)
        (auto simp: k_def call_mod0_16 [where bs = bs] ea_16_def split: if_splits)
  next
    case False
    define k where "k = resolve_with (BxResolve16Mod1or2 n) (Some (seg_16 f n)) i"
    have "(if f = 0x40 then get_8bit_displ16 k else get_16bit_displ k) bs = Fetched j r"
      using assms(1)
      by (simp only: modrm_16_def Let_def assms(2) False segments_16(2) [OF n False] k_def simp_thms if_False)
    then have j: "j = set_displ16u (if f = 0x40 then scast (bs ! 0) else word_at bs) k"
      by (auto split: if_splits dest: displ_D)
    have "call_resolve (BxResolve16Mod1or2 n) j s = Done ()
      (s\<lparr>rm_addr := ucast (ea_16 f n bs s)\<rparr>)" for s
      by (rule call_mod1or2_16 [OF n False]) (simp add: j)
    then show ?thesis
      by (intro resolvedI [where m = "BxResolve16Mod1or2 n"]) (simp_all add: j k_def)
  qed
qed

lemmas resolvers_32 = call_resolve.simps Resolve32Mod0Rm0_def Resolve32Mod0Rm1_def Resolve32Mod0Rm2_def
  Resolve32Mod0Rm3_def Resolve32Mod0Rm5_def Resolve32Mod0Rm6_def Resolve32Mod0Rm7_def
  Resolve32Mod1or2Rm0_def Resolve32Mod1or2Rm1_def Resolve32Mod1or2Rm2_def Resolve32Mod1or2Rm3_def
  Resolve32Mod1or2Rm5_def Resolve32Mod1or2Rm6_def Resolve32Mod1or2Rm7_def
  Resolve32Mod0Base0_def Resolve32Mod0Base1_def Resolve32Mod0Base2_def Resolve32Mod0Base3_def
  Resolve32Mod0Base4_def Resolve32Mod0Base5_def Resolve32Mod0Base6_def Resolve32Mod0Base7_def
  Resolve32Mod1or2Base0_def Resolve32Mod1or2Base1_def Resolve32Mod1or2Base2_def
  Resolve32Mod1or2Base3_def Resolve32Mod1or2Base4_def Resolve32Mod1or2Base5_def
  Resolve32Mod1or2Base6_def Resolve32Mod1or2Base7_def

text \<open>The address from a base (\<open>None\<close> for none), an index part and a displacement.\<close>

lemma call_mod0_32:
  assumes "n < 8" and "n \<noteq> 4"
  shows "call_resolve (BxResolve32Mod0 n) j s =
    Done () (s\<lparr>rm_addr := if n = 5 then displ32u j else gen_reg s (of_nat n)\<rparr>)"
  using assms by (cases rule: octal_cases) (simp_all add: resolvers_32)

lemma call_mod1or2_32:
  assumes "n < 8" and "n \<noteq> 4"
  shows "call_resolve (BxResolve32Mod1or2 n) j s = Done ()
    (s\<lparr>rm_addr := gen_reg s (of_nat n) + displ32u j\<rparr>)"
  using assms by (cases rule: octal_cases) (simp_all add: resolvers_32)

lemma call_mod0_base:
  assumes "n < 8"
  shows "call_resolve (BxResolve32Mod0Base n) j s =
    Done () (s\<lparr>rm_addr := (if n = 5 then displ32u j else gen_reg s (of_nat n)) + scaled_index j s\<rparr>)"
  using assms by (cases rule: octal_cases) (simp_all add: resolvers_32)

lemma call_mod1or2_base:
  assumes "n < 8"
  shows "call_resolve (BxResolve32Mod1or2Base n) j s =
    Done () (s\<lparr>rm_addr := gen_reg s (of_nat n) + scaled_index j s + displ32u j\<rparr>)"
  using assms by (cases rule: octal_cases) (simp_all add: resolvers_32)

lemma segment_mod1or2: "n < 8 \<Longrightarrow> n \<noteq> 4 \<Longrightarrow> f \<noteq> 0 \<Longrightarrow> sreg_mod01or10_rm32 ! n = Some (seg_32 f n bs)"
  by (erule octal_cases) (simp_all add: sreg_mod01or10_rm32_def seg_32_def Let_def)

lemma segment_mod0: "n < 8 \<Longrightarrow> n \<noteq> 4 \<Longrightarrow> seg_32 0 n bs = DS"
  by (erule octal_cases) (simp_all add: seg_32_def Let_def)

lemma segment_mod0_base:
  "n < 8 \<Longrightarrow> unat (bs ! 0 AND 7) = n \<Longrightarrow> sreg_mod0_base32 ! n = Some (seg_32 0 4 bs)"
  by (erule octal_cases) (simp_all add: sreg_mod0_base32_def seg_32_def Let_def)

lemma segment_mod1or2_base:
  "n < 8 \<Longrightarrow> unat (bs ! 0 AND 7) = n \<Longrightarrow> f \<noteq> 0 \<Longrightarrow> sreg_mod1or2_base32 ! n = Some (seg_32 f 4 bs)"
  by (erule octal_cases) (simp_all add: sreg_mod1or2_base32_def seg_32_def Let_def)

lemmas segments_32 = segment_mod1or2 segment_mod0 segment_mod0_base segment_mod1or2_base

lemma scaled_index_sib:
  "scaled_index (set_sib sib i) s =
     (if unat (drop_bit 3 sib AND 7) \<noteq> 4
      then gen_reg s (of_nat (unat (drop_bit 3 sib AND 7))) * 2 ^ unat (drop_bit 6 sib) else 0)"
proof -
  define x where "x = (ucast (drop_bit 3 sib) :: 3 word)"
  have "unat x = unat (drop_bit 3 sib AND 7)"
    by (simp add: x_def low_bits_3)
  moreover have "of_nat (unat x) = x" "unat x = 4 \<longleftrightarrow> x = 4"
    by (simp_all add: word_unat_eq_iff)
  ultimately have "of_nat (unat (drop_bit 3 sib AND 7)) = x" "unat (drop_bit 3 sib AND 7) = 4 \<longleftrightarrow> x = 4"
    by simp_all
  then show ?thesis
    by (simp add: scaled_index_def set_sib_def x_def BX_READ_32BIT_REG_def push_bit_eq_mult mult.commute)
qed

lemma modrm_sib_resolved:
  assumes "modrm_sib f i bs = Fetched j r"
  shows "resolved i j (seg_32 f 4 bs) (ea_32 f 4 bs)"
proof -
  obtain sib rest where bs: "bs = sib # rest"
    using assms by (cases bs) (simp_all add: modrm_sib_def)
  define n where "n = unat (sib AND 7)"
  define i' where "i' = set_sib sib i"
  have i': "unat (sibBase i') = n" "null_seg i' = null_seg i" "i_seg i' = i_seg i"
    by (simp_all add: i'_def n_def set_sib_def low_bits_3)
  have n: "n < 8"
    using unsigned_less [of "sibBase i'", where ?'a = nat] i'(1) by simp
  have seg: "unat ((sib # rest) ! 0 AND 7) = n"
    by (simp add: n_def)
  have ix: "scaled_index k s = scaled_index i' s" if "sibIndex k = sibIndex i'" "sibScale k = sibScale i'" for k s
    using that by (simp add: scaled_index_def)
  show ?thesis
  proof (cases "f = 0")
    case True
    define k where "k = resolve_with (BxResolve32Mod0Base n) (Some (seg_32 0 4 bs)) i'"
    have "(if n = 5 then get_32bit_displ k else fetched k) rest = Fetched j r"
      using assms unfolding modrm_sib_def bs
      by (simp only: Let_def fthen_Fetched FetchBYTE.simps i'_def [symmetric] i' True simp_thms if_True k_def
          segments_32(3) [OF n seg] bs)
    then have "j = (if n = 5 then set_displ32u (dword_at rest) k else k)"
      by (auto split: if_splits dest: displ_D)
    then show ?thesis
      using n i' True
      by (intro resolvedI [where m = "BxResolve32Mod0Base n"])
        (auto simp: k_def call_mod0_base ix ea_32_def Let_def bs n_def scaled_index_sib i'_def)
  next
    case False
    define k where "k = resolve_with (BxResolve32Mod1or2Base n) (Some (seg_32 f 4 bs)) i'"
    have "(if f = 0x40 then get_8bit_displ k else get_32bit_displ k) rest = Fetched j r"
      using assms unfolding modrm_sib_def bs
      by (simp only: Let_def fthen_Fetched FetchBYTE.simps i'_def [symmetric] i' False simp_thms if_False k_def
          segments_32(4) [OF n seg False] bs)
    then have "j = set_displ32u (if f = 0x40 then scast (rest ! 0) else dword_at rest) k"
      by (auto split: if_splits dest: displ_D)
    then show ?thesis
      using n i' False
      by (intro resolvedI [where m = "BxResolve32Mod1or2Base n"])
        (auto simp: k_def call_mod1or2_base ix ea_32_def Let_def bs n_def scaled_index_sib i'_def)
  qed
qed

lemma modrm_32_resolved:
  assumes "modrm_32 f i bs = Fetched j r" and "unat (rm i) = n"
  shows "resolved i j (seg_32 f n bs) (ea_32 f n bs)"
proof (cases "n = 4")
  case True
  then show ?thesis
    using assms modrm_sib_resolved [of f i bs j r] by (simp add: modrm_32_def)
next
  case n4: False
  have n: "n < 8"
    using unsigned_less [of "rm i", where ?'a = nat] assms(2) by simp
  show ?thesis
  proof (cases "f = 0")
    case True
    define k where "k = resolve_with (BxResolve32Mod0 n) (Some DS) i"
    have "(if n = 5 then get_32bit_displ k else fetched k) bs = Fetched j r"
      using assms(1) by (simp only: modrm_32_def Let_def assms(2) n4 True k_def simp_thms if_True if_False)
    then have "j = (if n = 5 then set_displ32u (dword_at bs) k else k)"
      by (auto split: if_splits dest: displ_D)
    then show ?thesis
      using n n4 True
      by (intro resolvedI [where m = "BxResolve32Mod0 n"])
        (auto simp: k_def call_mod0_32 ea_32_def Let_def segments_32(2))
  next
    case False
    define k where "k = resolve_with (BxResolve32Mod1or2 n) (Some (seg_32 f n bs)) i"
    have "(if f = 0x40 then get_8bit_displ k else get_32bit_displ k) bs = Fetched j r"
      using assms(1)
      by (simp only: modrm_32_def Let_def assms(2) n4 False segments_32(1) [OF n n4 False, of bs] k_def
          simp_thms if_False)
    then have "j = set_displ32u (if f = 0x40 then scast (bs ! 0) else dword_at bs) k"
      by (auto split: if_splits dest: displ_D)
    then show ?thesis
      using n n4 False
      by (intro resolvedI [where m = "BxResolve32Mod1or2 n"])
        (auto simp: k_def call_mod1or2_32 ea_32_def Let_def)
  qed
qed

lemma operand_resolves:
  assumes "fetch_modrm b1 b2 i bs = Fetched j r" and "modrm_mod b1 b2 \<noteq> 0xc0"
  shows "resolve j s = Done () (s\<lparr>rm_addr := operand_address i b2 bs s\<rparr>)"
    and "\<not> null_seg j" and "i_seg j = operand_segment i b2 bs"
proof -
  define i' where "i' = set_modRMData b2 i"
  have i': "as32L i' = as32L i" "null_seg i' = null_seg i" "i_seg i' = i_seg i" "unat (rm i') = unat (b2 AND 7)"
    by (simp_all add: i'_def set_modRMData_def low_bits_3)
  have m: "modrm_mod b1 b2 = b2 AND 0xc0"
    using assms(2) by (auto simp: modrm_mod_def split: if_splits)
  have "(if as32L i then modrm_32 (b2 AND 0xc0) i' else modrm_16 (b2 AND 0xc0) i') bs = Fetched j r"
    using assms by (simp add: fetch_modrm_def Let_def m i'_def [symmetric] i')
  then have "resolved i' j
      (if as32L i then seg_32 (b2 AND 0xc0) (unat (b2 AND 7)) bs else seg_16 (b2 AND 0xc0) (unat (b2 AND 7)))
      (operand_address i b2 bs)"
    using modrm_32_resolved [OF _ i'(4), where j = j and r = r] modrm_16_resolved [OF _ i'(4), where j = j and r = r]
    by (cases "as32L i") (auto simp: operand_address_def [abs_def])
  then show "resolve j s = Done () (s\<lparr>rm_addr := operand_address i b2 bs s\<rparr>)"
    and "\<not> null_seg j" and "i_seg j = operand_segment i b2 bs"
    by (auto simp: resolved_def operand_segment_def i')
qed

text \<open>C13
  For every ModRM byte with a memory operand, the instruction the decoder builds addresses its
  operand at the address the processor manual defines for the bytes, from the registers at the time
  of execution, in the segment of the override prefix or, without one, in the default segment, SS
  exactly for BP, EBP and ESP as the base.\<close>

theorem effective_address_exact:
  assumes "fetch_modrm b1 b2 i bs = Fetched j r" and "modrm_mod b1 b2 \<noteq> 0xc0"
  shows "resolve j s = Done () (s\<lparr>rm_addr := operand_address i b2 bs s\<rparr>) \<and>
    \<not> null_seg j \<and> i_seg j = operand_segment i b2 bs"
  by (intro conjI operand_resolves [OF assms])

lemma effective_address_witness:
  fixes i defines "i \<equiv> (reg_instr 0 0)\<lparr>null_seg := True, i_seg := DS\<rparr>"
  shows "\<exists>j. fetch_modrm 0x8b 0x44 i [0x24, 0xfc] = Fetched j [] \<and>
     resolve j (boot_regs 1 2 3) = Done () ((boot_regs 1 2 3)\<lparr>rm_addr := 0xfffffffc\<rparr>) \<and>
       i_seg j = SS"
proof -
  obtain j where j: "fetch_modrm 0x8b 0x44 i [0x24, 0xfc] = Fetched j []"
    by (simp add: fetch_modrm_def modrm_mod_def modrm_32_def modrm_sib_def set_modRMData_def set_sib_def
        get_8bit_displ_def i_def reg_instr_def Let_def)
  have "modrm_mod 0x8b 0x44 \<noteq> 0xc0"
    by (simp add: modrm_mod_def)
  note e = effective_address_exact [OF j this]
  have "operand_address i 0x44 [0x24, 0xfc] (boot_regs 1 2 3) = 0xfffffffc"
    by (simp add: operand_address_def ea_32_def i_def reg_instr_def boot_regs_def Let_def)
  moreover have "operand_segment i 0x44 [0x24, 0xfc] = SS"
    by (simp add: operand_segment_def seg_32_def i_def reg_instr_def Let_def)
  ultimately show ?thesis
    using e [of "boot_regs 1 2 3"] j by auto
qed

end
