(* ===== verification/BxBoard.thy ===== *)
theory BxBoard
  imports BxPic BxTimers BxSegment
begin

text \<open>
  The machine around the processor: the devices the execution loop and the interrupt path know, and
  the lines between them (\<open>cpu/init.cc\<close>, \<open>pc_system.cc\<close>). The configuration has one
  processor, so \<open>local_apic_index\<close> has one entry and \<open>BX_CPU(0)\<close> is the processor.
\<close>

section \<open>The local APIC and the I/O APIC\<close>

text \<open>
  \<open>bx_local_apic_c\<close> (\<open>cpu/apic.h\<close>), without the base address, which is a field of the
  processor's state. The arrays of 256 vectors hold 0 and 1.
\<close>

record local_apic =
  lapic_id :: Bit8u
  spurious_vector :: Bit32u
  software_enabled :: bool
  focus_disable :: bool
  arb_id :: Bit32u
  task_priority :: Bit32u
  log_dest :: Bit32u
  dest_format :: Bit32u
  lapic_isr :: "nat \<Rightarrow> bool"
  lapic_tmr :: "nat \<Rightarrow> bool"
  lapic_irr :: "nat \<Rightarrow> bool"
  error_status :: Bit32u
  shadow_error_status :: Bit32u
  icr_hi :: Bit32u
  icr_lo :: Bit32u
  lvt :: "Bit32u list"
  timer_initial :: Bit32u
  timer_current :: Bit32u
  timer_divconf :: Bit32u
  timer_divide_factor :: Bit32u
  timer_active :: bool
  timer_handle :: nat
  ticksInitial :: Bit64u
  lapic_INTR :: bool
  bypass_irr_isr :: bool

text \<open>
  An entry of the redirection table keeps its two words; the fields that \<open>parse_value\<close> fills
  are read from them.
\<close>

record bx_io_redirect_entry =
  redirect_hi :: Bit32u
  redirect_lo :: Bit32u

record ioapic =
  ioapic_id :: Bit8u
  ioregsel :: Bit32u
  ioapic_irr :: Bit32u
  ioredtbl :: "bx_io_redirect_entry list"

section \<open>The DMA controllers\<close>

text \<open>
  The members of \<open>bx_dma_c\<close> (\<open>iodev/dma.h\<close>). A handler of an attached device is named by a
  number, \<open>None\<close> being the null pointer; what it does is a parameter.
\<close>

record dma_channel =
  mode_type :: Bit8u
  address_decrement :: Bit8u
  autoinit_enable :: Bit8u
  transfer_type :: Bit8u
  base_address :: Bit16u
  current_address :: Bit16u
  base_count :: Bit16u
  current_count :: Bit16u
  page_reg :: Bit8u
  chan_used :: bool

record dma_controller =
  DRQ :: "bool list"
  DACK :: "bool list"
  mask_reg :: "bool list"
  flip_flop :: bool
  status_reg :: Bit8u
  command_reg :: Bit8u
  ctrl_disabled :: bool
  chan :: "dma_channel list"

record dma_handlers =
  dmaRead8 :: "nat option"
  dmaWrite8 :: "nat option"
  dmaRead16 :: "nat option"
  dmaWrite16 :: "nat option"

record dma_state =
  dma_1 :: dma_controller
  dma_2 :: dma_controller
  HLDA :: bool
  TC :: bool
  ext_page_reg :: "Bit8u list"
  dma_h :: "dma_handlers list"

section \<open>The machine\<close>

text \<open>
  The devices of the machine; the extension \<open>'x\<close> of the record is the state of the others.
  \<open>apic_index\<close> tells which of the two APICs answers to an identification, and
  \<open>local_index\<close> whether \<open>local_apic_index[0]\<close> is set.
\<close>

datatype apic_type = APIC_TYPE_IOAPIC | APIC_TYPE_LOCAL_APIC

record board =
  processor :: cpu
  pic :: pic_state
  HRQ :: bool
  enable_a20 :: bool
  lapic :: local_apic
  io_apic :: ioapic
  apic_index :: "apic_type option list"
  local_index :: bool
  dma :: dma_state

type_synonym 'x machine = "'x board_scheme pc_system"

definition cpu_of :: "'x machine \<Rightarrow> cpu" where
  "cpu_of b = (processor (devices b))\<lparr>currCountdown := countdown b\<rparr>"

definition put_cpu :: "cpu \<Rightarrow> 'x machine \<Rightarrow> 'x machine" where
  "put_cpu s b = b\<lparr>devices := (devices b)\<lparr>processor := s\<rparr>, countdown := currCountdown s\<rparr>"

text \<open>A routine of the processor as a routine of the machine; they share the countdown.\<close>

definition on_cpu :: "'a bx \<Rightarrow> ('a, 'x machine) routine" where
  "on_cpu m = (\<lambda>b. case m (cpu_of b) of
      Done x s \<Rightarrow> Done x (put_cpu s b)
    | Except v e s \<Rightarrow> Except v e (put_cpu s b)
    | Device a s \<Rightarrow> Device a (put_cpu s b)
    | Panic msg s \<Rightarrow> Panic msg (put_cpu s b))"

definition change_cpu :: "(cpu \<Rightarrow> cpu) \<Rightarrow> 'x machine \<Rightarrow> 'x machine" where
  "change_cpu f b = put_cpu (f (cpu_of b)) b"

definition on_lapic :: "(local_apic \<Rightarrow> local_apic) \<Rightarrow> 'x machine \<Rightarrow> 'x machine" where
  "on_lapic f b = b\<lparr>devices := (devices b)\<lparr>lapic := f (lapic (devices b))\<rparr>\<rparr>"

definition on_ioapic :: "(ioapic \<Rightarrow> ioapic) \<Rightarrow> 'x machine \<Rightarrow> 'x machine" where
  "on_ioapic f b = b\<lparr>devices := (devices b)\<lparr>io_apic := f (io_apic (devices b))\<rparr>\<rparr>"

definition on_dma :: "(dma_state \<Rightarrow> dma_state) \<Rightarrow> 'x machine \<Rightarrow> 'x machine" where
  "on_dma f b = b\<lparr>devices := (devices b)\<lparr>dma := f (dma (devices b))\<rparr>\<rparr>"

abbreviation (input) lapic_of :: "'x machine \<Rightarrow> local_apic" where "lapic_of b \<equiv> lapic (devices b)"
abbreviation (input) ioapic_of :: "'x machine \<Rightarrow> ioapic" where "ioapic_of b \<equiv> io_apic (devices b)"
abbreviation (input) dma_of :: "'x machine \<Rightarrow> dma_state" where "dma_of b \<equiv> dma (devices b)"

section \<open>Lines\<close>

definition set_INTR :: "bool \<Rightarrow> cpu \<Rightarrow> cpu" where
  "set_INTR value s = s\<lparr>sys := (sys s)\<lparr>INTR := value\<rparr>, async_event := 1\<rparr>"

definition set_HRQ :: "bool \<Rightarrow> 'x machine \<Rightarrow> 'x machine" where
  "set_HRQ val b =
     (let b1 = b\<lparr>devices := (devices b)\<lparr>HRQ := val\<rparr>\<rparr> in
      if val then change_cpu (\<lambda>s. s\<lparr>async_event := 1\<rparr>) b1 else b1)"

definition set_enable_a20 :: "Bit8u \<Rightarrow> 'x machine \<Rightarrow> 'x machine" where
  "set_enable_a20 value b =
     (let old = enable_a20 (devices b);
          b1 = change_cpu (\<lambda>s. s\<lparr>a20_mask := if value \<noteq> 0 then 0xffffffff else 0xffefffff\<rparr>)
                 (b\<lparr>devices := (devices b)\<lparr>enable_a20 := (value \<noteq> 0)\<rparr>\<rparr>) in
      if old \<noteq> (value \<noteq> 0) then change_cpu pagingA20Changed b1 else b1)"

definition BX_CPU_INTR :: "'x machine \<Rightarrow> bool" where
  "BX_CPU_INTR b \<longleftrightarrow> INTR (sys (cpu_of b)) \<or> lapic_INTR (lapic_of b)"

lemma cpu_of_put [simp]: "cpu_of (put_cpu s b) = s"
  by (simp add: cpu_of_def put_cpu_def)

lemma put_cpu_put [simp]: "put_cpu s (put_cpu t b) = put_cpu s b"
  by (simp add: put_cpu_def)

lemma put_cpu_devices [simp]:
  "pic (devices (put_cpu s b)) = pic (devices b)" "HRQ (devices (put_cpu s b)) = HRQ (devices b)"
  "lapic (devices (put_cpu s b)) = lapic (devices b)" "io_apic (devices (put_cpu s b)) = io_apic (devices b)"
  "enable_a20 (devices (put_cpu s b)) = enable_a20 (devices b)" "dma (devices (put_cpu s b)) = dma (devices b)"
  "apic_index (devices (put_cpu s b)) = apic_index (devices b)"
  "local_index (devices (put_cpu s b)) = local_index (devices b)"
  "board.more (devices (put_cpu s b)) = board.more (devices b)"
  by (simp_all add: put_cpu_def)

lemma put_cpu_clock [simp]:
  "timer (put_cpu s b) = timer b" "numTimers (put_cpu s b) = numTimers b"
  by (simp_all add: put_cpu_def)

lemma change_cpu_fields [simp]:
  "cpu_of (change_cpu f b) = f (cpu_of b)"
  "pic (devices (change_cpu f b)) = pic (devices b)" "HRQ (devices (change_cpu f b)) = HRQ (devices b)"
  "lapic (devices (change_cpu f b)) = lapic (devices b)" "io_apic (devices (change_cpu f b)) = io_apic (devices b)"
  "enable_a20 (devices (change_cpu f b)) = enable_a20 (devices b)" "dma (devices (change_cpu f b)) = dma (devices b)"
  "apic_index (devices (change_cpu f b)) = apic_index (devices b)"
  "local_index (devices (change_cpu f b)) = local_index (devices b)"
  "board.more (devices (change_cpu f b)) = board.more (devices b)"
  "timer (change_cpu f b) = timer b" "numTimers (change_cpu f b) = numTimers b"
  by (simp_all add: change_cpu_def)

lemma on_lapic_fields [simp]:
  "cpu_of (on_lapic f b) = cpu_of b" "lapic (devices (on_lapic f b)) = f (lapic (devices b))"
  "pic (devices (on_lapic f b)) = pic (devices b)" "HRQ (devices (on_lapic f b)) = HRQ (devices b)"
  "io_apic (devices (on_lapic f b)) = io_apic (devices b)" "dma (devices (on_lapic f b)) = dma (devices b)"
  "apic_index (devices (on_lapic f b)) = apic_index (devices b)"
  "local_index (devices (on_lapic f b)) = local_index (devices b)"
  "timer (on_lapic f b) = timer b" "numTimers (on_lapic f b) = numTimers b"
  by (simp_all add: on_lapic_def cpu_of_def)

lemma on_ioapic_fields [simp]:
  "cpu_of (on_ioapic f b) = cpu_of b" "io_apic (devices (on_ioapic f b)) = f (io_apic (devices b))"
  "pic (devices (on_ioapic f b)) = pic (devices b)" "HRQ (devices (on_ioapic f b)) = HRQ (devices b)"
  "lapic (devices (on_ioapic f b)) = lapic (devices b)" "dma (devices (on_ioapic f b)) = dma (devices b)"
  "apic_index (devices (on_ioapic f b)) = apic_index (devices b)"
  "local_index (devices (on_ioapic f b)) = local_index (devices b)"
  by (simp_all add: on_ioapic_def cpu_of_def)

lemma on_dma_fields [simp]:
  "cpu_of (on_dma f b) = cpu_of b" "dma (devices (on_dma f b)) = f (dma (devices b))"
  "pic (devices (on_dma f b)) = pic (devices b)" "HRQ (devices (on_dma f b)) = HRQ (devices b)"
  "lapic (devices (on_dma f b)) = lapic (devices b)" "io_apic (devices (on_dma f b)) = io_apic (devices b)"
  "board.more (devices (on_dma f b)) = board.more (devices b)"
  by (simp_all add: on_dma_def cpu_of_def)

lemma set_HRQ_fields [simp]:
  "HRQ (devices (set_HRQ v b)) = v" "dma (devices (set_HRQ v b)) = dma (devices b)"
  "lapic (devices (set_HRQ v b)) = lapic (devices b)" "pic (devices (set_HRQ v b)) = pic (devices b)"
  "board.more (devices (set_HRQ v b)) = board.more (devices b)"
  by (simp_all add: set_HRQ_def Let_def)

end
