(* ===== verification/BxApic.thy ===== *)
theory BxApic
  imports BxBoard BxReset
begin

text \<open>
  The local APIC (\<open>cpu/apic.cc\<close>) and the I/O APIC (\<open>iodev/ioapic.cc\<close>) of a machine with one
  processor. A failed \<open>BX_ASSERT\<close>, an index outside an array and a shift by 32 or more end in a
  panic. The messages and the names of the processors are not modelled.
\<close>

section \<open>Vectors in service and requested\<close>

definition highest_priority_int :: "(nat \<Rightarrow> bool) \<Rightarrow> nat option" where
  "highest_priority_int a = find a (rev [0..<256])"

definition lapic_event :: "'x machine \<Rightarrow> 'x machine" where
  "lapic_event = change_cpu (\<lambda>s. s\<lparr>async_event := 1\<rparr>)"

definition service_local_apic :: "'x machine \<Rightarrow> 'x machine" where
  "service_local_apic b =
     (let a = lapic_of b in
      if lapic_INTR a then b
      else
        (case highest_priority_int (lapic_irr a) of
           None \<Rightarrow> b
         | Some first_irr \<Rightarrow>
             if (case highest_priority_int (lapic_isr a) of
                   None \<Rightarrow> False
                 | Some first_isr \<Rightarrow> first_irr \<ge> first_isr) then b
             else if first_irr AND 0xf0 \<le> unat (task_priority a AND 0xf0) then b
             else lapic_event (on_lapic (\<lambda>a. a\<lparr>lapic_INTR := True\<rparr>) b)))"

definition service_vector :: "nat \<Rightarrow> bool \<Rightarrow> 'x machine \<Rightarrow> 'x machine" where
  "service_vector vec trigger_mode b =
     service_local_apic (on_lapic (\<lambda>a. a\<lparr>lapic_irr := (lapic_irr a)(vec := True),
       lapic_tmr := (lapic_tmr a)(vec := trigger_mode)\<rparr>) b)"

definition trigger_irq :: "nat \<Rightarrow> nat \<Rightarrow> bool \<Rightarrow> (unit, 'x machine) routine" where
  "trigger_irq vec from trigger_mode = (\<lambda>b.
     (let a = lapic_of b in
      if from \<noteq> unat (lapic_id a) then Panic ''BX_ASSERT (from == id)'' b
      else if vec > 0xfe \<or> vec < 0x10 then
        Done () (on_lapic (\<lambda>a. a\<lparr>shadow_error_status := shadow_error_status a OR 0x40\<rparr>) b)
      else if bypass_irr_isr a then
        Done () (service_vector vec trigger_mode (on_lapic (\<lambda>a. a\<lparr>bypass_irr_isr := False\<rparr>) b))
      else if lapic_irr a vec then Done () b
      else Done () (service_vector vec trigger_mode b)))"

definition untrigger_irq :: "nat \<Rightarrow> (unit, 'x machine) routine" where
  "untrigger_irq vec = (\<lambda>b.
     if \<not> lapic_irr (lapic_of b) vec then Panic ''BX_ASSERT (irr[vector] == 1)'' b
     else Done () (on_lapic (\<lambda>a. a\<lparr>lapic_irr := (lapic_irr a)(vec := False)\<rparr>) b))"

section \<open>Priorities\<close>

definition get_ppr :: "local_apic \<Rightarrow> Bit8u" where
  "get_ppr a = (case highest_priority_int (lapic_isr a) of
      None \<Rightarrow> ucast (task_priority a)
    | Some ppr \<Rightarrow>
        if task_priority a AND 0xF0 \<ge> of_nat (ppr AND 0xF0) then ucast (task_priority a)
        else of_nat (ppr AND 0xF0))"

text \<open>The priority class of a search result; the search returns \<open>-1\<close> if there is no vector.\<close>

definition class_of_int :: "nat option \<Rightarrow> Bit32u" where
  "class_of_int r = (case r of None \<Rightarrow> 0xf | Some v \<Rightarrow> of_nat (v div 16) AND 0xf)"

definition get_apr :: "local_apic \<Rightarrow> Bit8u" where
  "get_apr a =
     (let tpr = drop_bit 4 (task_priority a) AND 0xf;
          isrv = class_of_int (highest_priority_int (lapic_isr a));
          irrv = class_of_int (highest_priority_int (lapic_irr a)) in
      if tpr \<ge> irrv \<and> tpr > isrv then ucast (task_priority a AND 0xff)
      else push_bit 4 (ucast (if tpr AND isrv > irrv then tpr AND isrv else irrv)))"

definition get_tpr :: "local_apic \<Rightarrow> Bit8u" where
  "get_tpr a = ucast (task_priority a)"

definition set_tpr :: "Bit8u \<Rightarrow> 'x machine \<Rightarrow> 'x machine" where
  "set_tpr priority b =
     (let b1 = on_lapic (\<lambda>a. a\<lparr>task_priority := ucast priority\<rparr>) b in
      if ucast priority < task_priority (lapic_of b) then service_local_apic b1 else b1)"

definition is_focus :: "nat \<Rightarrow> local_apic \<Rightarrow> bool" where
  "is_focus vec a \<longleftrightarrow> \<not> focus_disable a \<and> (lapic_irr a vec \<or> lapic_isr a vec)"

definition match_logical_addr :: "Bit8u \<Rightarrow> (bool, 'x machine) routine" where
  "match_logical_addr address = (\<lambda>b.
     if dest_format (lapic_of b) \<noteq> 0xf
     then Panic ''match_logical_addr: cluster model addressing not implemented'' b
     else Done (ucast address AND log_dest (lapic_of b) \<noteq> 0) b)"

section \<open>Acknowledge and end of interrupt\<close>

definition spurious_int :: "(Bit8u, 'x machine) routine" where
  "spurious_int = (\<lambda>b. Done (ucast (spurious_vector (lapic_of b)))
     (lapic_event (on_lapic (\<lambda>a. a\<lparr>lapic_INTR := False\<rparr>) b)))"

definition acknowledge_int :: "(Bit8u, 'x machine) routine" where
  "acknowledge_int = (\<lambda>b.
     (let a = lapic_of b in
      if \<not> lapic_INTR a then Panic ''acknowledged an interrupt, but INTR=0'' b
      else
        (case highest_priority_int (lapic_irr a) of
           None \<Rightarrow> spurious_int b
         | Some vec \<Rightarrow>
             if vec AND 0xf0 \<le> unat (get_ppr a) then spurious_int b
             else
               Done (of_nat vec) (service_local_apic (lapic_event (on_lapic
                 (\<lambda>a. a\<lparr>lapic_irr := (lapic_irr a)(vec := False),
                        lapic_isr := (lapic_isr a)(vec := True), lapic_INTR := False\<rparr>) b))))))"

definition receive_EOI :: "'x machine \<Rightarrow> 'x machine" where
  "receive_EOI b =
     (case highest_priority_int (lapic_isr (lapic_of b)) of
        None \<Rightarrow> b
      | Some vec \<Rightarrow>
          if vec \<noteq> unat (spurious_vector (lapic_of b))
          then service_local_apic (on_lapic (\<lambda>a. a\<lparr>lapic_isr := (lapic_isr a)(vec := False)\<rparr>) b)
          else b)"

section \<open>The timer\<close>

definition set_divide_configuration :: "Bit32u \<Rightarrow> (unit, 'x machine) routine" where
  "set_divide_configuration value = (\<lambda>b.
     if value \<noteq> value AND 0x0b then Panic ''BX_ASSERT (value == (value & 0x0b))'' b
     else
       (let value = drop_bit 1 (value AND 8) OR (value AND 3) in
        Done () (on_lapic (\<lambda>a. a\<lparr>timer_divide_factor :=
          (if value = 7 then 1 else push_bit (unat value) 2)\<rparr>) b)))"

definition stop_timer :: "(unit, 'x machine) routine" where
  "stop_timer = (\<lambda>b.
     if timer_active (lapic_of b) then
       and_then (deactivate_timer (timer_handle (lapic_of b)))
         (\<lambda>_. update (on_lapic (\<lambda>a. a\<lparr>timer_active := False\<rparr>))) b
     else Done () b)"

definition set_initial_timer_count :: "Bit32u \<Rightarrow> (unit, 'x machine) routine" where
  "set_initial_timer_count value =
     and_then stop_timer (\<lambda>_.
     and_then (update (on_lapic (\<lambda>a. a\<lparr>timer_initial := value, timer_current := 0\<rparr>))) (\<lambda>_.
     if value = 0 then ret ()
     else (\<lambda>b.
       (let b1 = on_lapic (\<lambda>a. a\<lparr>timer_current := timer_initial a, timer_active := True,
                   ticksInitial := time_ticks b\<rparr>) b;
            a = lapic_of b1 in
        activate_timer_ticks (timer_handle a)
          (ucast (timer_initial a) * ucast (timer_divide_factor a)) (lvt a ! 0 AND 0x20000 \<noteq> 0) b1))))"

text \<open>The callback of the timer.\<close>

definition timer_irq :: "(unit, 'x machine) routine" where
  "timer_irq = (\<lambda>b.
     (let timervec = lvt (lapic_of b) ! 0 in
      if timervec AND 0x10000 = 0
      then trigger_irq (unat (timervec AND 0xff)) (unat (lapic_id (lapic_of b))) False b
      else Done () b))"

definition lapic_periodic :: "(unit, 'x machine) routine" where
  "lapic_periodic = (\<lambda>b.
     if \<not> timer_active (lapic_of b) then Done () b
     else if lvt (lapic_of b) ! 0 AND 0x20000 \<noteq> 0 then
       and_then timer_irq (\<lambda>_. update (\<lambda>b. on_lapic (\<lambda>a. a\<lparr>timer_current := timer_initial a,
         ticksInitial := time_ticks b\<rparr>) b)) b
     else
       and_then (update (on_lapic (\<lambda>a. a\<lparr>timer_current := 0\<rparr>))) (\<lambda>_.
       and_then timer_irq (\<lambda>_.
       and_then (update (on_lapic (\<lambda>a. a\<lparr>timer_active := False\<rparr>))) (\<lambda>_ b.
         deactivate_timer (timer_handle (lapic_of b)) b))) b)"

text \<open>The current count; reading it records it.\<close>

definition read_timer_count :: "(Bit32u, 'x machine) routine" where
  "read_timer_count = (\<lambda>b.
     (let a = lapic_of b in
      if \<not> timer_active a then Done (timer_current a) b
      else
        (let delta64 = (time_ticks b - ticksInitial a) div ucast (timer_divide_factor a);
             delta32 = ucast delta64 :: Bit32u in
         if delta32 > timer_initial a then Panic ''APIC: R(curr timer count): delta < initial'' b
         else Done (timer_initial a - delta32)
           (on_lapic (\<lambda>a. a\<lparr>timer_current := timer_initial a - delta32\<rparr>) b))))"

section \<open>Initialisation and identification\<close>

definition lapic_init_regs :: "local_apic \<Rightarrow> local_apic" where
  "lapic_init_regs a = a\<lparr>bypass_irr_isr := False, error_status := 0, shadow_error_status := 0,
     log_dest := 0, dest_format := 0xf, icr_hi := 0, icr_lo := 0, task_priority := 0,
     lapic_irr := (\<lambda>_. False), lapic_isr := (\<lambda>_. False), lapic_tmr := (\<lambda>_. False),
     timer_divconf := 0, timer_divide_factor := 1, timer_initial := 0, timer_current := 0\<rparr>"

definition lapic_init :: "(unit, 'x machine) routine" where
  "lapic_init = (\<lambda>b.
     (let n = unat (lapic_id (lapic_of b)) in
      if n \<noteq> 0xff \<and> n > 0 then Panic ''local_apic_index out of range'' b
      else
        and_then (update (\<lambda>b. if n = 0xff then b else b\<lparr>devices := (devices b)\<lparr>local_index := True\<rparr>\<rparr>)) (\<lambda>_.
        and_then (update (change_cpu (\<lambda>s. s\<lparr>local_apic_base := APIC_BASE_ADDR\<rparr>))) (\<lambda>_.
        and_then (update (on_lapic lapic_init_regs)) (\<lambda>_.
        and_then stop_timer (\<lambda>_.
        update (on_lapic (\<lambda>a. a\<lparr>lvt := replicate 6 0x10000, spurious_vector := 0xff,
          software_enabled := False, focus_disable := False\<rparr>)))))) b))"

definition lapic_reset :: "(unit, 'x machine) routine" where
  "lapic_reset = and_then lapic_init (\<lambda>_. update (on_lapic (\<lambda>a. a\<lparr>arb_id := ucast (lapic_id a)\<rparr>)))"

text \<open>The table \<open>apic_index\<close> has 15 entries.\<close>

definition leave_index :: "apic_type \<Rightarrow> Bit8u \<Rightarrow> (unit, 'x machine) routine" where
  "leave_index ty old = (\<lambda>b.
     if old = 0xff then Done () b
     else if unat old \<ge> 15 then Panic ''BX_ASSERT (id < APIC_MAX_ID)'' b
     else if apic_index (devices b) ! unat old \<noteq> Some ty then Panic ''inconsistent APIC id table'' b
     else Done () (b\<lparr>devices := (devices b)\<lparr>apic_index := (apic_index (devices b))[unat old := None]\<rparr>\<rparr>))"

definition enter_index :: "apic_type \<Rightarrow> Bit8u \<Rightarrow> (unit, 'x machine) routine" where
  "enter_index ty newid = (\<lambda>b.
     if newid = 0xff then Done () b
     else if unat newid \<ge> 15 then Panic ''apic_index out of range'' b
     else if apic_index (devices b) ! unat newid \<noteq> None then Panic ''duplicate APIC id assigned'' b
     else Done () (b\<lparr>devices := (devices b)\<lparr>apic_index := (apic_index (devices b))[unat newid := Some ty]\<rparr>\<rparr>))"

definition ioapic_set_id :: "Bit8u \<Rightarrow> (unit, 'x machine) routine" where
  "ioapic_set_id newid =
     and_then (\<lambda>b. leave_index APIC_TYPE_IOAPIC (ioapic_id (ioapic_of b)) b) (\<lambda>_.
     and_then (update (on_ioapic (\<lambda>a. a\<lparr>ioapic_id := newid\<rparr>))) (\<lambda>_.
     enter_index APIC_TYPE_IOAPIC newid))"

definition set_local_index :: "nat \<Rightarrow> bool \<Rightarrow> (unit, 'x machine) routine" where
  "set_local_index n v = (\<lambda>b.
     if n > 0 then Panic ''local_apic_index out of range'' b
     else Done () (b\<lparr>devices := (devices b)\<lparr>local_index := v\<rparr>\<rparr>))"

definition lapic_set_id :: "Bit8u \<Rightarrow> (unit, 'x machine) routine" where
  "lapic_set_id newid =
     and_then (\<lambda>b. set_local_index (unat (lapic_id (lapic_of b))) False b) (\<lambda>_.
     and_then (\<lambda>b. leave_index APIC_TYPE_LOCAL_APIC (lapic_id (lapic_of b)) b) (\<lambda>_.
     and_then (update (on_lapic (\<lambda>a. a\<lparr>lapic_id := newid\<rparr>))) (\<lambda>_.
     and_then (enter_index APIC_TYPE_LOCAL_APIC newid) (\<lambda>_.
     set_local_index (unat newid) True))))"

section \<open>Delivery\<close>

text \<open>
  \<open>get_delivery_bitmask\<close> of the base class and of the local APIC, whose shorthand is a field of
  its command register. \<open>LOCAL_APIC_ALL_MASK\<close> is 1.
\<close>

definition generic_delivery_bitmask :: "apic_type \<Rightarrow> Bit8u \<Rightarrow> nat \<Rightarrow> (Bit32u, 'x machine) routine" where
  "generic_delivery_bitmask ty dest dest_mode =
     (if dest_mode = 0 then
        (if dest < 0x0f then ret (push_bit (unat dest) 1)
         else if dest = 0x0f then
           (if ty = APIC_TYPE_LOCAL_APIC then ret 1
            else panic ''BX_ASSERT (get_type() == APIC_TYPE_LOCAL_APIC)'')
         else panic ''deliver: illegal physical destination'')
      else if dest = 0 then ret 0
      else (\<lambda>b. if local_index (devices b)
                 then and_then (match_logical_addr dest) (\<lambda>m. ret (if m then 1 else 0)) b
                 else Done 0 b))"

text \<open>Bits of APICs that do not exist, among those of the table, are cleared.\<close>

definition prune :: "'x machine \<Rightarrow> Bit32u \<Rightarrow> Bit32u" where
  "prune b bits = (if local_index (devices b) then bits else bits AND NOT 1)"

definition local_delivery_bitmask :: "Bit8u \<Rightarrow> nat \<Rightarrow> (Bit32u, 'x machine) routine" where
  "local_delivery_bitmask dest dest_mode = (\<lambda>b.
     (let n = unat (lapic_id (lapic_of b)); dest_shorthand = drop_bit 18 (icr_lo (lapic_of b)) AND 3 in
      and_then
        (if dest_shorthand = 0 then generic_delivery_bitmask APIC_TYPE_LOCAL_APIC dest dest_mode
         else if dest_shorthand = 2 then ret 1
         else if n \<ge> 32 then panic ''shift out of range''
         else if dest_shorthand = 1 then ret (push_bit n 1)
         else ret (1 AND NOT (push_bit n 1)))
        (\<lambda>bits b. Done (prune b bits) b) b))"

definition get_delivery_bitmask :: "apic_type \<Rightarrow> Bit8u \<Rightarrow> nat \<Rightarrow> (Bit32u, 'x machine) routine" where
  "get_delivery_bitmask ty dest dest_mode =
     (if ty = APIC_TYPE_LOCAL_APIC then local_delivery_bitmask dest dest_mode
      else generic_delivery_bitmask ty dest dest_mode)"

text \<open>With one APIC that may take part, it wins the bus and drops to the lowest priority.\<close>

definition apic_bus_arbitrate :: "Bit32u \<Rightarrow> (nat, 'x machine) routine" where
  "apic_bus_arbitrate apic_mask =
     (if bit apic_mask 0 then ret 0 else panic ''BX_ASSERT (winning_id >= 0)'')"

definition adjust_arb_id :: "'x machine \<Rightarrow> 'x machine" where
  "adjust_arb_id = on_lapic (\<lambda>a. a\<lparr>arb_id := 0\<rparr>)"

definition arbitrate_and_trigger :: "Bit32u \<Rightarrow> nat \<Rightarrow> bool \<Rightarrow> (unit, 'x machine) routine" where
  "arbitrate_and_trigger deliver_bitmask vec trigger_mode =
     (if bit deliver_bitmask 0 then
        and_then (apic_bus_arbitrate deliver_bitmask) (\<lambda>winner.
        and_then (update adjust_arb_id) (\<lambda>_.
        trigger_irq vec winner trigger_mode))
      else ret ())"

text \<open>
  \<open>generic_deliver\<close> is \<open>bx_generic_apic_c::deliver\<close>. Its value tells whether the interrupt was
  delivered; a bit of an APIC that does not exist and is not in the table counts as delivered.
\<close>

definition fixed_delivery :: "bool \<Rightarrow> Bit32u \<Rightarrow> bool \<Rightarrow> nat \<Rightarrow> bool \<Rightarrow> (bool, 'x machine) routine" where
  "fixed_delivery arbitrate bits broadcast vec trig_mode =
     and_then
       (if arbitrate \<and> \<not> broadcast then arbitrate_and_trigger bits vec trig_mode
        else if bit bits 0 then trigger_irq vec 0 trig_mode
        else ret ()) (\<lambda>_. ret True)"

definition generic_deliver :: "apic_type \<Rightarrow> Bit8u \<Rightarrow> nat \<Rightarrow> nat \<Rightarrow> nat \<Rightarrow> bool \<Rightarrow> (bool, 'x machine) routine" where
  "generic_deliver ty dest dest_mode delivery_mode vec trig_mode =
     and_then (get_delivery_bitmask ty dest dest_mode) (\<lambda>bits0 b.
     (let broadcast = (bits0 = 1); bits = prune b bits0 in
      if bits = 0 then Panic ''deliver failed: no APICs in destination bitmask'' b
      else if delivery_mode = 1 then fixed_delivery False bits broadcast vec trig_mode b
      else if delivery_mode = 5 then
        and_then (if bit bits 0 then lapic_init else ret ()) (\<lambda>_. ret True) b
      else if delivery_mode = 7 then
        and_then (update (\<lambda>b. if bit bits 0 then on_lapic (\<lambda>a. a\<lparr>bypass_irr_isr := True\<rparr>) b else b))
          (\<lambda>_. fixed_delivery True bits broadcast vec trig_mode) b
      else if delivery_mode \<in> {0, 2, 3, 4} then fixed_delivery True bits broadcast vec trig_mode b
      else Panic ''APIC delivery mode not implemented'' b))"

text \<open>The start-up message; \<open>load_seg_reg\<close> takes the low 16 bits of its argument.\<close>

definition startup_msg :: "nat \<Rightarrow> (unit, 'x machine) routine" where
  "startup_msg vec = on_cpu (\<lambda>s.
     if debug_trap s AND 0x80000000 \<noteq> 0
     then load_seg_reg CS (of_nat (vec * 0x100)) (s\<lparr>debug_trap := debug_trap s AND NOT 0x80000000, eip := 0\<rparr>)
     else Done () s)"

definition local_deliver ::
  "Bit8u \<Rightarrow> nat \<Rightarrow> nat \<Rightarrow> nat \<Rightarrow> bool \<Rightarrow> bool \<Rightarrow> (bool, 'x machine) routine" where
  "local_deliver dest dest_mode delivery_mode vec level trig_mode =
     and_then (local_delivery_bitmask dest dest_mode) (\<lambda>bits b.
     (let a = lapic_of b in
      if delivery_mode = 1 then
        (let dest = (if is_focus vec a then lapic_id a else 0) in
         if dest \<noteq> 0 then generic_deliver APIC_TYPE_LOCAL_APIC dest dest_mode delivery_mode vec trig_mode b
         else if local_index (devices b) \<and> is_focus vec a then Done False b
         else if \<not> local_index (devices b) then Panic ''null local APIC'' b
         else generic_deliver APIC_TYPE_LOCAL_APIC 0 dest_mode delivery_mode vec trig_mode b)
      else if delivery_mode = 5 \<and> \<not> level \<and> trig_mode then
        Done True (if local_index (devices b) then on_lapic (\<lambda>a. a\<lparr>arb_id := ucast (lapic_id a)\<rparr>) b else b)
      else if delivery_mode = 6 then
        and_then (if bit bits 0 then startup_msg vec else ret ()) (\<lambda>_. ret True) b
      else generic_deliver APIC_TYPE_LOCAL_APIC dest dest_mode delivery_mode vec trig_mode b))"

section \<open>Registers of the local APIC\<close>

definition write_spurious_interrupt_register :: "Bit32u \<Rightarrow> local_apic \<Rightarrow> local_apic" where
  "write_spurious_interrupt_register value a =
     (let a1 = a\<lparr>spurious_vector := (value AND 0xf0) OR 0xf, software_enabled := bit value 8,
                 focus_disable := bit value 9\<rparr> in
      if \<not> software_enabled a1 then a1\<lparr>lvt := map (\<lambda>v. v OR 0x10000) (lvt a1)\<rparr> else a1)"

definition write_icr :: "Bit32u \<Rightarrow> (unit, 'x machine) routine" where
  "write_icr value =
     and_then (update (on_lapic (\<lambda>a. a\<lparr>icr_lo := value AND NOT (push_bit 12 1)\<rparr>))) (\<lambda>_ b.
     (let a = lapic_of b; lo = icr_lo a in
      and_then (local_deliver (ucast (drop_bit 24 (icr_hi a))) (of_bool (bit lo 11)) (unat (drop_bit 8 lo AND 7))
          (unat (lo AND 0xff)) (bit lo 14) (bit lo 15))
        (\<lambda>accepted. update (\<lambda>b. if accepted then b
           else on_lapic (\<lambda>a. a\<lparr>shadow_error_status := shadow_error_status a OR 0x04\<rparr>) b)) b))"

definition write_lvt :: "nat \<Rightarrow> Bit32u \<Rightarrow> local_apic \<Rightarrow> local_apic" where
  "write_lvt n value a = a\<lparr>lvt := (lvt a)[n := (if software_enabled a then value else value OR 0x10000)]\<rparr>"

definition lapic_read_only :: "Bit32u list" where
  "lapic_read_only = [0x30, 0x90, 0xa0] @ map (\<lambda>k. 0x100 + 0x10 * of_nat k) [0..<24] @ [0x390]"

definition lapic_write :: "Bit32u \<Rightarrow> Bit32u \<Rightarrow> nat \<Rightarrow> (unit, 'x machine) routine" where
  "lapic_write addr value len =
     (let addr = addr AND 0xff0 in
      if len \<noteq> 4 then panic ''local apic write with len (should be 4)''
      else if addr = 0x20 then update (on_lapic (\<lambda>a. a\<lparr>lapic_id := ucast (drop_bit 24 value AND 0x0f)\<rparr>))
      else if addr = 0x80 then update (set_tpr (ucast (value AND 0xff)))
      else if addr = 0xb0 then update receive_EOI
      else if addr = 0xd0 then update (on_lapic (\<lambda>a. a\<lparr>log_dest := drop_bit 24 value AND 0x0f\<rparr>))
      else if addr = 0xe0 then update (on_lapic (\<lambda>a. a\<lparr>dest_format := drop_bit 28 value AND 0xf\<rparr>))
      else if addr = 0xf0 then update (on_lapic (write_spurious_interrupt_register value))
      else if addr = 0x280 then
        update (on_lapic (\<lambda>a. a\<lparr>error_status := shadow_error_status a, shadow_error_status := 0\<rparr>))
      else if addr = 0x300 then write_icr value
      else if addr = 0x310 then update (on_lapic (\<lambda>a. a\<lparr>icr_hi := value AND 0xff000000\<rparr>))
      else if addr = 0x320 then update (on_lapic (write_lvt 0 (value AND 0x300ff)))
      else if addr = 0x330 then update (on_lapic (write_lvt 1 (value AND 0x107ff)))
      else if addr = 0x340 then update (on_lapic (write_lvt 2 (value AND 0x107ff)))
      else if addr = 0x350 then update (on_lapic (write_lvt 3 (value AND 0x1a7ff)))
      else if addr = 0x360 then update (on_lapic (write_lvt 4 (value AND 0x1a7ff)))
      else if addr = 0x370 then update (on_lapic (write_lvt 5 (value AND 0x100ff)))
      else if addr = 0x380 then set_initial_timer_count value
      else if addr = 0x3e0 then
        and_then (update (on_lapic (\<lambda>a. a\<lparr>timer_divconf := value AND 0xb\<rparr>)))
          (\<lambda>_. set_divide_configuration (value AND 0xb))
      else if addr \<in> set lapic_read_only then ret ()
      else
        and_then (update (on_lapic (\<lambda>a. a\<lparr>shadow_error_status := shadow_error_status a OR 0x80\<rparr>)))
          (\<lambda>_. panic ''APIC register not implemented''))"

text \<open>The 32 entries of an array from \<open>index\<close> on, as the bits of a word.\<close>

definition vector_bits :: "(nat \<Rightarrow> bool) \<Rightarrow> nat \<Rightarrow> Bit32u" where
  "vector_bits v index = foldr (\<lambda>i w. if v (index + i) then set_bit i w else w) [0..<32] 0"

definition lapic_read_aligned :: "Bit32u \<Rightarrow> nat \<Rightarrow> (Bit32u, 'x machine) routine" where
  "lapic_read_aligned address len = (\<lambda>b.
     (let a = lapic_of b; addr2 = address AND 0xff0 in
      if len \<noteq> 4 then Panic ''local apic read with len (should be 4)'' b
      else if addr2 = 0x20 then Done (push_bit 24 (ucast (lapic_id a))) b
      else if addr2 = 0x30 then Done 0x00040010 b
      else if addr2 = 0x80 then Done (task_priority a AND 0xff) b
      else if addr2 = 0x90 then Done (ucast (get_apr a)) b
      else if addr2 = 0xa0 then Done (ucast (get_ppr a)) b
      else if addr2 = 0xd0 then Done (push_bit 24 (log_dest a AND 0x0f)) b
      else if addr2 = 0xe0 then Done (push_bit 24 (dest_format a AND 0xf) OR 0x0fffffff) b
      else if addr2 = 0xf0 then
        Done (spurious_vector a OR (if software_enabled a then 0x100 else 0) OR (if focus_disable a then 0x200 else 0)) b
      else if 0x100 \<le> addr2 \<and> addr2 \<le> 0x170 then
        Done (vector_bits (lapic_isr a) (unat (addr2 - 0x100) div 4)) b
      else if 0x180 \<le> addr2 \<and> addr2 \<le> 0x1f0 then
        Done (vector_bits (lapic_tmr a) (unat (addr2 - 0x180) div 4)) b
      else if 0x200 \<le> addr2 \<and> addr2 \<le> 0x270 then
        Done (vector_bits (lapic_irr a) (unat (addr2 - 0x200) div 4)) b
      else if addr2 = 0x280 then Done (error_status a) b
      else if addr2 = 0x300 then Done (icr_lo a) b
      else if addr2 = 0x310 then Done (icr_hi a) b
      else if 0x320 \<le> addr2 \<and> addr2 \<le> 0x370 then Done (lvt a ! (unat (addr2 - 0x320) div 16)) b
      else if addr2 = 0x380 then Done (timer_initial a) b
      else if addr2 = 0x390 then read_timer_count b
      else if addr2 = 0x3e0 then Done (timer_divconf a) b
      else Done 0 b))"

text \<open>The read of the base class: part of an aligned double word.\<close>

definition apic_read :: "(Bit32u \<Rightarrow> nat \<Rightarrow> (Bit32u, 'x machine) routine) \<Rightarrow> Bit32u \<Rightarrow> nat \<Rightarrow> (Bit8u list, 'x machine) routine" where
  "apic_read read_aligned addr len =
     (if addr AND NOT 0xf \<noteq> (addr + of_nat len - 1) AND NOT 0xf
      then panic ''APIC read spans 32-bit boundary''
      else
        and_then (read_aligned addr 4) (\<lambda>value.
          if unat (addr AND 3) + len \<le> 4
          then ret (take len (drop (unat (addr AND 3)) (map (\<lambda>k. ucast (drop_bit (8 * k) value)) [0..<4])))
          else panic ''bytes out of range''))"

section \<open>The I/O APIC\<close>

definition redirect_dest :: "bx_io_redirect_entry \<Rightarrow> Bit8u" where
  "redirect_dest e = ucast (drop_bit 24 (redirect_hi e) AND 0x0f)"

definition redirect_masked :: "bx_io_redirect_entry \<Rightarrow> bool" where
  "redirect_masked e = bit (redirect_lo e) 16"

definition deliver_entry :: "bx_io_redirect_entry \<Rightarrow> (bool, 'x machine) routine" where
  "deliver_entry e =
     generic_deliver APIC_TYPE_IOAPIC (redirect_dest e) (of_bool (bit (redirect_lo e) 11))
       (unat (drop_bit 8 (redirect_lo e) AND 7)) (unat (redirect_lo e AND 0xff)) (bit (redirect_lo e) 15)"

definition service_pin :: "nat \<Rightarrow> (unit, 'x machine) routine" where
  "service_pin n = (\<lambda>b.
     (let a = ioapic_of b; e = ioredtbl a ! n in
      if bit (ioapic_irr a) n \<and> \<not> redirect_masked e then
        and_then (deliver_entry e) (\<lambda>done. update (\<lambda>b.
          if done then on_ioapic (\<lambda>a. a\<lparr>ioapic_irr := ioapic_irr a AND NOT (push_bit n 1)\<rparr>) b else b)) b
      else Done () b))"

fun service_pins :: "nat list \<Rightarrow> (unit, 'x machine) routine" where
  "service_pins [] = ret ()"
| "service_pins (n # ns) = and_then (service_pin n) (\<lambda>_. service_pins ns)"

definition service_ioapic :: "(unit, 'x machine) routine" where
  "service_ioapic = service_pins [0..<24]"

definition ioapic_init :: "(unit, 'x machine) routine" where
  "ioapic_init =
     and_then (update (change_cpu (\<lambda>s. s\<lparr>ioapic_base := 0xfec00000\<rparr>))) (\<lambda>_.
     and_then (ioapic_set_id 1) (\<lambda>_.
     update (on_ioapic (\<lambda>a. a\<lparr>ioregsel := 0,
       ioredtbl := replicate 24 \<lparr>redirect_hi = 0, redirect_lo = 0x00010000\<rparr>, ioapic_irr := 0\<rparr>))))"

definition redirect_index :: "Bit32u \<Rightarrow> nat" where
  "redirect_index sel = unat (drop_bit 1 (sel - 0x10))"

definition ioapic_read_aligned :: "Bit32u \<Rightarrow> nat \<Rightarrow> (Bit32u, 'x machine) routine" where
  "ioapic_read_aligned address len = (\<lambda>b.
     (let a = ioapic_of b; sel = ioregsel a in
      if len \<noteq> 4 then Panic ''BX_ASSERT (len == 4)'' b
      else if address AND 0xff = 0x00 then Done sel b
      else if address AND 0xff \<noteq> 0x10 then Panic ''IOAPIC: read from unsupported address'' b
      else if sel = 0 then Done (push_bit 24 (ucast (ioapic_id a) AND 0x0f)) b
      else if sel = 1 then Done 0x00170011 b
      else if sel = 2 then Done 0 b
      else if redirect_index sel < 24 then
        Done (let e = ioredtbl a ! redirect_index sel in if bit sel 0 then redirect_hi e else redirect_lo e) b
      else Panic ''IOAPIC: IOREGSEL points to undefined register'' b))"

definition ioapic_write :: "Bit32u \<Rightarrow> Bit32u \<Rightarrow> nat \<Rightarrow> (unit, 'x machine) routine" where
  "ioapic_write address value len = (\<lambda>b.
     (let sel = ioregsel (ioapic_of b); n = redirect_index sel in
      if address AND 0xff = 0x00 then Done () (on_ioapic (\<lambda>a. a\<lparr>ioregsel := value\<rparr>) b)
      else if address AND 0xff \<noteq> 0x10 then Panic ''IOAPIC: write to unsupported address'' b
      else if sel = 0 then ioapic_set_id (ucast (drop_bit 24 value AND 0x0f)) b
      else if sel = 1 \<or> sel = 2 then Done () b
      else if n < 24 then
        service_ioapic (on_ioapic (\<lambda>a. a\<lparr>ioredtbl := (ioredtbl a)[n :=
          (if bit sel 0 then (ioredtbl a ! n)\<lparr>redirect_hi := value\<rparr>
           else (ioredtbl a ! n)\<lparr>redirect_lo := value\<rparr>)]\<rparr>) b)
      else Panic ''IOAPIC: IOREGSEL points to undefined register'' b))"

definition ioapic_raise_irq :: "nat \<Rightarrow> (unit, 'x machine) routine" where
  "ioapic_raise_irq vec = (\<lambda>b.
     if vec > 0xfe then Panic ''IOAPIC: vector out of range'' b
     else if vec \<ge> 32 then Panic ''shift out of range'' b
     else if bit (ioapic_irr (ioapic_of b)) vec then Done () b
     else service_ioapic (on_ioapic (\<lambda>a. a\<lparr>ioapic_irr := ioapic_irr a OR push_bit vec 1\<rparr>) b))"

section \<open>The 8259 controllers on the machine\<close>

text \<open>
  The controllers forward every change of a line to the I/O APIC, whose \<open>lower_irq\<close> does nothing,
  and move the request pin of the processor by \<open>set_INTR\<close>.
\<close>

fun forward_call :: "ioapic_call \<Rightarrow> (unit, 'x machine) routine" where
  "forward_call (Raise_irq n) = ioapic_raise_irq n"
| "forward_call (Lower_irq n) = ret ()"

fun forward_calls :: "ioapic_call list \<Rightarrow> (unit, 'x machine) routine" where
  "forward_calls [] = ret ()"
| "forward_calls (c # cs) = and_then (forward_call c) (\<lambda>_. forward_calls cs)"

definition put_pic :: "pic_state \<Rightarrow> 'x machine \<Rightarrow> 'x machine" where
  "put_pic p b = b\<lparr>devices := (devices b)\<lparr>pic := p\<lparr>ioapic_calls := []\<rparr>\<rparr>\<rparr>"

definition DEV_pic_raise_irq :: "nat \<Rightarrow> (unit, 'x machine) routine" where
  "DEV_pic_raise_irq n = (\<lambda>b.
     (let p0 = (pic (devices b))\<lparr>ioapic_calls := []\<rparr>; p = raise_irq n p0 in
      and_then (forward_calls (ioapic_calls p)) (\<lambda>_. update (\<lambda>b1.
        (let b2 = put_pic p b1 in
         if INT_pin (master_pic p) \<and> \<not> INT_pin (master_pic p0)
         then change_cpu (set_INTR True) b2 else b2))) b))"

definition DEV_pic_lower_irq :: "nat \<Rightarrow> (unit, 'x machine) routine" where
  "DEV_pic_lower_irq n = (\<lambda>b.
     (let p0 = (pic (devices b))\<lparr>ioapic_calls := []\<rparr>; p = lower_irq n p0 in
      and_then (forward_calls (ioapic_calls p)) (\<lambda>_. update (\<lambda>b1.
        (let b2 = put_pic p b1 in
         if irr (master_pic p) AND NOT (imr (master_pic p)) = 0 \<and>
            IRQ_line (master_pic p) \<noteq> IRQ_line (master_pic p0)
         then change_cpu (set_INTR False) b2 else b2))) b))"

text \<open>
  The interrupt acknowledge: the controllers lower the pin and raise it again if another request is
  waiting.
\<close>

definition DEV_pic_iac :: "(Bit8u, 'x machine) routine" where
  "DEV_pic_iac = (\<lambda>b.
     (let (v, p) = IAC ((pic (devices b))\<lparr>ioapic_calls := []\<rparr>) in
      and_then (forward_calls (ioapic_calls p)) (\<lambda>_ b1.
        Done v (change_cpu (set_INTR (INTR_pin p)) (put_pic p b1))) b))"

end
