(* ===== verification/BxDma.thy ===== *)
theory BxDma
  imports BxBoard
begin

text \<open>
  The two cascaded 8237 DMA controllers (\<open>iodev/dma.cc\<close>). \<open>False\<close> is DMA-1 with the 8-bit
  channels 0 to 3, \<open>True\<close> DMA-2 with the 16-bit channels, whose channel 0 is the cascade. The
  handlers of the attached devices are a parameter: what the byte or word is that a device puts on
  the bus, and what it does with one it takes. The messages are not modelled.
\<close>

section \<open>State\<close>

definition dma_ctrl :: "bool \<Rightarrow> dma_state \<Rightarrow> dma_controller" where
  "dma_ctrl ma_sl d = (if ma_sl then dma_2 d else dma_1 d)"

definition on_ctrl :: "bool \<Rightarrow> (dma_controller \<Rightarrow> dma_controller) \<Rightarrow> dma_state \<Rightarrow> dma_state" where
  "on_ctrl ma_sl f d = (if ma_sl then d\<lparr>dma_2 := f (dma_2 d)\<rparr> else d\<lparr>dma_1 := f (dma_1 d)\<rparr>)"

definition on_chan :: "nat \<Rightarrow> (dma_channel \<Rightarrow> dma_channel) \<Rightarrow> dma_controller \<Rightarrow> dma_controller" where
  "on_chan c f s = s\<lparr>chan := (chan s)[c := f (chan s ! c)]\<rparr>"

abbreviation (input) ctrl_of :: "bool \<Rightarrow> 'x machine \<Rightarrow> dma_controller" where
  "ctrl_of ma_sl b \<equiv> dma_ctrl ma_sl (dma_of b)"

text \<open>What the named handlers do.\<close>

record 'x dma_callbacks =
  call_dmaRead8 :: "nat \<Rightarrow> Bit8u \<Rightarrow> (unit, 'x machine) routine"
  call_dmaWrite8 :: "nat \<Rightarrow> (Bit8u, 'x machine) routine"
  call_dmaRead16 :: "nat \<Rightarrow> Bit16u \<Rightarrow> (unit, 'x machine) routine"
  call_dmaWrite16 :: "nat \<Rightarrow> (Bit16u, 'x machine) routine"

definition init_channel :: dma_channel where
  "init_channel = \<lparr>mode_type = 0, address_decrement = 0, autoinit_enable = 0, transfer_type = 0,
     base_address = 0, current_address = 0, base_count = 0, current_count = 0, page_reg = 0, chan_used = False\<rparr>"

definition init_controller :: "dma_controller \<Rightarrow> dma_controller" where
  "init_controller s = s\<lparr>DRQ := replicate 4 False, DACK := replicate 4 False, chan := replicate 4 init_channel\<rparr>"

definition dma_init :: "dma_state \<Rightarrow> dma_state" where
  "dma_init d = d\<lparr>dma_1 := init_controller (dma_1 d),
     dma_2 := on_chan 0 (\<lambda>c. c\<lparr>chan_used := True\<rparr>) (init_controller (dma_2 d)),
     HLDA := False, TC := False, ext_page_reg := replicate 16 0\<rparr>"

definition reset_controller :: "dma_controller \<Rightarrow> dma_controller" where
  "reset_controller s = s\<lparr>mask_reg := replicate 4 True, ctrl_disabled := False, command_reg := 0,
     status_reg := 0, flip_flop := False\<rparr>"

definition dma_reset :: "dma_state \<Rightarrow> dma_state" where
  "dma_reset d = on_ctrl True reset_controller (on_ctrl False reset_controller d)"

section \<open>Attaching devices\<close>

definition registerDMA8Channel :: "nat \<Rightarrow> nat option \<Rightarrow> nat option \<Rightarrow> (unit, 'x machine) routine" where
  "registerDMA8Channel channel dmaRead dmaWrite = (\<lambda>b.
     if channel > 3 then Panic ''registerDMA8Channel: invalid channel number'' b
     else if chan_used (chan (ctrl_of False b) ! channel) then Panic ''registerDMA8Channel: already in use'' b
     else Done () (on_dma (\<lambda>d. on_ctrl False (on_chan channel (\<lambda>c. c\<lparr>chan_used := True\<rparr>))
       (d\<lparr>dma_h := (dma_h d)[channel := (dma_h d ! channel)\<lparr>dmaRead8 := dmaRead, dmaWrite8 := dmaWrite\<rparr>]\<rparr>)) b))"

definition registerDMA16Channel :: "nat \<Rightarrow> nat option \<Rightarrow> nat option \<Rightarrow> (unit, 'x machine) routine" where
  "registerDMA16Channel channel dmaRead dmaWrite = (\<lambda>b.
     if channel < 4 \<or> channel > 7 then Panic ''registerDMA16Channel: invalid channel number'' b
     else if chan_used (chan (ctrl_of True b) ! (channel - 4)) then Panic ''registerDMA16Channel: already in use'' b
     else
       (let n = channel - 4 in
        Done () (on_dma (\<lambda>d. on_ctrl True (on_chan n (\<lambda>c. c\<lparr>chan_used := True\<rparr>))
          (d\<lparr>dma_h := (dma_h d)[n := (dma_h d ! n)\<lparr>dmaRead16 := dmaRead, dmaWrite16 := dmaWrite\<rparr>]\<rparr>)) b)))"

definition unregisterDMAChannel :: "nat \<Rightarrow> 'x machine \<Rightarrow> 'x machine" where
  "unregisterDMAChannel channel =
     on_dma (on_ctrl (channel > 3) (on_chan (channel mod 4) (\<lambda>c. c\<lparr>chan_used := False\<rparr>)))"

definition get_TC :: "dma_state \<Rightarrow> bool" where
  "get_TC d = TC d"

section \<open>The hold request\<close>

text \<open>The bit of a request in the status register.\<close>

definition request_bit :: "nat \<Rightarrow> Bit8u" where
  "request_bit channel = push_bit (channel + 4) 1"

definition requests :: "dma_controller \<Rightarrow> nat \<Rightarrow> bool" where
  "requests s channel \<longleftrightarrow> status_reg s AND request_bit channel \<noteq> 0 \<and> \<not> mask_reg s ! channel"

text \<open>The channel of highest priority, the loop's counter being 4 if there is none.\<close>

definition first_channel :: "dma_controller \<Rightarrow> nat option" where
  "first_channel s = find (requests s) [0..<4]"

definition dma_shift :: "bool \<Rightarrow> Bit16u \<Rightarrow> Bit32u" where
  "dma_shift ma_sl v = push_bit (if ma_sl then 1 else 0) (ucast v)"

definition outside_boundary :: "bool \<Rightarrow> dma_channel \<Rightarrow> bool" where
  "outside_boundary ma_sl c =
     (let dma_base = push_bit 16 (ucast (page_reg c)) OR dma_shift ma_sl (base_address c);
          dma_roof = (if address_decrement c = 0 then dma_base + dma_shift ma_sl (base_count c)
                      else dma_base - dma_shift ma_sl (base_count c));
          m = push_bit (if ma_sl then 1 else 0) 0x7fff0000 :: Bit32u in
      dma_base AND m \<noteq> dma_roof AND m)"

text \<open>
  \<open>control_HRQ\<close> of the slave calls \<open>set_DRQ\<close> of the cascade channel, which calls \<open>control_HRQ\<close> of
  the master: \<open>master_HRQ\<close>, and \<open>request_line\<close> for the part of \<open>set_DRQ\<close> before the call.
\<close>

definition master_HRQ :: "'x machine \<Rightarrow> 'x machine" where
  "master_HRQ b =
     (let s = ctrl_of True b in
      if ctrl_disabled s then b
      else if status_reg s AND 0xf0 = 0 then set_HRQ False b
      else if first_channel s \<noteq> None then set_HRQ True b
      else b)"

definition request_line :: "bool \<Rightarrow> nat \<Rightarrow> bool \<Rightarrow> (unit, 'x machine) routine" where
  "request_line ma_sl n val = (\<lambda>b.
     (let b1 = on_dma (on_ctrl ma_sl (\<lambda>s. s\<lparr>DRQ := (DRQ s)[n := val]\<rparr>)) b; c = chan (ctrl_of ma_sl b1) ! n in
      if \<not> chan_used c then Panic ''set_DRQ(): channel not connected to device'' b1
      else if \<not> val then
        Done () (on_dma (on_ctrl ma_sl (\<lambda>s. s\<lparr>status_reg := status_reg s AND NOT (request_bit n)\<rparr>)) b1)
      else
        (let b2 = on_dma (on_ctrl ma_sl (\<lambda>s. s\<lparr>status_reg := status_reg s OR request_bit n\<rparr>)) b1 in
         if mode_type c \<notin> {0, 1, 3} then Panic ''set_DRQ: mode_type not handled'' b2
         else if outside_boundary ma_sl c then Panic ''request outside boundary'' b2
         else Done () b2)))"

definition set_DRQ_cascade :: "bool \<Rightarrow> (unit, 'x machine) routine" where
  "set_DRQ_cascade val = and_then (request_line True 0 val) (\<lambda>_. update master_HRQ)"

definition control_HRQ :: "bool \<Rightarrow> (unit, 'x machine) routine" where
  "control_HRQ ma_sl = (\<lambda>b.
     if ma_sl then Done () (master_HRQ b)
     else
       (let s = ctrl_of False b in
        if ctrl_disabled s then Done () b
        else if status_reg s AND 0xf0 = 0 then set_DRQ_cascade False b
        else if first_channel s \<noteq> None then set_DRQ_cascade True b
        else Done () b))"

definition set_DRQ :: "nat \<Rightarrow> bool \<Rightarrow> (unit, 'x machine) routine" where
  "set_DRQ channel val =
     (if channel > 7 then panic ''set_DRQ() channel > 7''
      else and_then (request_line (channel > 3) (channel mod 4) val) (\<lambda>_. control_HRQ (channel > 3)))"

section \<open>Ports\<close>

definition channelindex :: "nat list" where
  "channelindex = [2, 3, 1, 0, 0, 0, 0]"

definition address_ports :: "Bit32u list" where
  "address_ports = [0x00, 0x02, 0x04, 0x06, 0xc0, 0xc4, 0xc8, 0xcc]"

definition count_ports :: "Bit32u list" where
  "count_ports = [0x01, 0x03, 0x05, 0x07, 0xc2, 0xc6, 0xca, 0xce]"

definition extra_ports :: "Bit32u list" where
  "extra_ports = [0x80, 0x84, 0x85, 0x86, 0x88, 0x8c, 0x8d, 0x8e]"

definition channel_of_port :: "Bit32u \<Rightarrow> nat" where
  "channel_of_port address = unat (drop_bit (if address \<ge> 0xc0 then 2 else 1) address AND 3)"

definition toggle_flip_flop :: "dma_controller \<Rightarrow> dma_controller" where
  "toggle_flip_flop s = s\<lparr>flip_flop := \<not> flip_flop s\<rparr>"

text \<open>A half of a 16-bit register, by the byte flip-flop.\<close>

definition read_half :: "bool \<Rightarrow> Bit16u \<Rightarrow> (Bit32u, 'x machine) routine" where
  "read_half ma_sl v = (\<lambda>b.
     Done (if \<not> flip_flop (ctrl_of ma_sl b) then ucast (v AND 0xff) else ucast (drop_bit 8 v))
       (on_dma (on_ctrl ma_sl toggle_flip_flop) b))"

definition dma_read :: "Bit32u \<Rightarrow> nat \<Rightarrow> (Bit32u, 'x machine) routine" where
  "dma_read address io_len = (\<lambda>b.
     (let ma_sl = (address \<ge> 0xc0); s = ctrl_of ma_sl b in
      if address \<in> set address_ports then read_half ma_sl (current_address (chan s ! channel_of_port address)) b
      else if address \<in> set count_ports then read_half ma_sl (current_count (chan s ! channel_of_port address)) b
      else if address = 0x08 \<or> address = 0xd0 then
        Done (ucast (status_reg s)) (on_dma (on_ctrl ma_sl (\<lambda>s. s\<lparr>status_reg := status_reg s AND 0xf0\<rparr>)) b)
      else if address \<in> {0x81, 0x82, 0x83, 0x87} then
        Done (ucast (page_reg (chan (ctrl_of False b) ! (channelindex ! unat (address - 0x81))))) b
      else if address \<in> {0x89, 0x8a, 0x8b, 0x8f} then
        Done (ucast (page_reg (chan (ctrl_of True b) ! (channelindex ! unat (address - 0x89))))) b
      else if address \<in> set extra_ports then Done (ucast (ext_page_reg (dma_of b) ! unat (address AND 0x0f))) b
      else if address = 0x0f \<or> address = 0xde then
        Done (0xf0 OR foldr (\<lambda>c w. if mask_reg s ! c then set_bit c w else w) [0..<4] 0) b
      else Done 0 b))"

text \<open>A write of one half sets or completes the base and the current register.\<close>

definition write_half :: "bool \<Rightarrow> Bit32u \<Rightarrow> Bit16u \<Rightarrow> Bit16u" where
  "write_half second value v = (if second then v OR ucast (push_bit 8 value) else ucast value)"

definition write_address :: "Bit32u \<Rightarrow> nat \<Rightarrow> dma_controller \<Rightarrow> dma_controller" where
  "write_address value n s =
     toggle_flip_flop (on_chan n (\<lambda>c. c\<lparr>base_address := write_half (flip_flop s) value (base_address c),
       current_address := write_half (flip_flop s) value (current_address c)\<rparr>) s)"

definition write_count :: "Bit32u \<Rightarrow> nat \<Rightarrow> dma_controller \<Rightarrow> dma_controller" where
  "write_count value n s =
     toggle_flip_flop (on_chan n (\<lambda>c. c\<lparr>base_count := write_half (flip_flop s) value (base_count c),
       current_count := write_half (flip_flop s) value (current_count c)\<rparr>) s)"

definition write_mode :: "Bit32u \<Rightarrow> dma_controller \<Rightarrow> dma_controller" where
  "write_mode value = on_chan (unat (value AND 3)) (\<lambda>c. c\<lparr>mode_type := ucast (drop_bit 6 value AND 3),
     address_decrement := ucast (drop_bit 5 value AND 1), autoinit_enable := ucast (drop_bit 4 value AND 1),
     transfer_type := ucast (drop_bit 2 value AND 3)\<rparr>)"

definition write_request :: "Bit32u \<Rightarrow> dma_controller \<Rightarrow> dma_controller" where
  "write_request value s =
     (let r = request_bit (unat (value AND 3)) in
      s\<lparr>status_reg := (if value AND 4 \<noteq> 0 then status_reg s OR r else status_reg s AND NOT r)\<rparr>)"

definition dma_write_byte :: "Bit32u \<Rightarrow> Bit32u \<Rightarrow> (unit, 'x machine) routine" where
  "dma_write_byte address value =
     (let ma_sl = (address \<ge> 0xc0);
          change = (\<lambda>f. update (on_dma (on_ctrl ma_sl f)));
          then_HRQ = (\<lambda>f. and_then (update (on_dma (on_ctrl ma_sl f))) (\<lambda>_. control_HRQ ma_sl)) in
      if address \<in> set address_ports then change (write_address value (channel_of_port address))
      else if address \<in> set count_ports then change (write_count value (channel_of_port address))
      else if address = 0x08 \<or> address = 0xd0 then
        then_HRQ (\<lambda>s. s\<lparr>command_reg := ucast value, ctrl_disabled := bit value 2\<rparr>)
      else if address = 0x09 \<or> address = 0xd2 then then_HRQ (write_request value)
      else if address = 0x0a \<or> address = 0xd4 then
        then_HRQ (\<lambda>s. s\<lparr>mask_reg := (mask_reg s)[unat (value AND 3) := (value AND 4 \<noteq> 0)]\<rparr>)
      else if address = 0x0b \<or> address = 0xd6 then change (write_mode value)
      else if address = 0x0c \<or> address = 0xd8 then change (\<lambda>s. s\<lparr>flip_flop := False\<rparr>)
      else if address = 0x0d \<or> address = 0xda then change reset_controller
      else if address = 0x0e \<or> address = 0xdc then then_HRQ (\<lambda>s. s\<lparr>mask_reg := replicate 4 False\<rparr>)
      else if address = 0x0f \<or> address = 0xde then
        then_HRQ (\<lambda>s. s\<lparr>mask_reg := map (\<lambda>c. bit value c) [0..<4]\<rparr>)
      else if address \<in> {0x81, 0x82, 0x83, 0x87} then
        update (on_dma (on_ctrl False (on_chan (channelindex ! unat (address - 0x81))
          (\<lambda>c. c\<lparr>page_reg := ucast value\<rparr>))))
      else if address \<in> {0x89, 0x8a, 0x8b, 0x8f} then
        update (on_dma (on_ctrl True (on_chan (channelindex ! unat (address - 0x89))
          (\<lambda>c. c\<lparr>page_reg := ucast value\<rparr>))))
      else if address \<in> set extra_ports then
        update (on_dma (\<lambda>d. d\<lparr>ext_page_reg := (ext_page_reg d)[unat (address AND 0x0f) := ucast value]\<rparr>))
      else ret ())"

definition dma_write :: "Bit32u \<Rightarrow> Bit32u \<Rightarrow> nat \<Rightarrow> (unit, 'x machine) routine" where
  "dma_write address value io_len =
     (if io_len > 1 then
        (if io_len = 2 \<and> address = 0x0b then
           and_then (dma_write_byte address (value AND 0xff)) (\<lambda>_. dma_write_byte (address + 1) (drop_bit 8 value))
         else ret ())
      else dma_write_byte address value)"

section \<open>A transfer\<close>

text \<open>One step of the address and the count of a channel, and whether the count expires.\<close>

definition count_expired :: "dma_channel \<Rightarrow> bool" where
  "count_expired c \<longleftrightarrow> current_count c = 0"

definition step_channel :: "dma_channel \<Rightarrow> dma_channel" where
  "step_channel c =
     (let c1 = c\<lparr>current_address := (if address_decrement c = 0 then current_address c + 1 else current_address c - 1),
                 current_count := current_count c - 1\<rparr> in
      if current_count c1 = 0xffff \<and> autoinit_enable c \<noteq> 0
      then c1\<lparr>current_address := base_address c, current_count := base_count c\<rparr> else c1)"

definition step_controller :: "nat \<Rightarrow> dma_controller \<Rightarrow> dma_controller" where
  "step_controller n s =
     (let c = chan s ! n; s1 = on_chan n step_channel (s\<lparr>DACK := (DACK s)[n := True]\<rparr>) in
      if count_expired c then
        s1\<lparr>status_reg := status_reg s1 OR push_bit n 1,
           mask_reg := (if autoinit_enable c = 0 then (mask_reg s1)[n := True] else mask_reg s1)\<rparr>
      else s1)"

text \<open>The bytes the device puts on the bus, and its taking of bytes.\<close>

definition from_device :: "'x dma_callbacks \<Rightarrow> bool \<Rightarrow> nat \<Rightarrow> (Bit8u list, 'x machine) routine" where
  "from_device hw ma_sl n = (\<lambda>b.
     (let h = dma_h (dma_of b) ! n in
      case (if ma_sl then dmaWrite16 h else dmaWrite8 h) of
        None \<Rightarrow> Panic ''no dmaWrite handler for channel'' b
      | Some f \<Rightarrow>
          if ma_sl then and_then (call_dmaWrite16 hw f) (\<lambda>w. ret [ucast w, ucast (drop_bit 8 w)]) b
          else and_then (call_dmaWrite8 hw f) (\<lambda>v. ret [v]) b))"

definition to_dma_device :: "'x dma_callbacks \<Rightarrow> bool \<Rightarrow> nat \<Rightarrow> Bit8u list \<Rightarrow> (unit, 'x machine) routine" where
  "to_dma_device hw ma_sl n bytes = (\<lambda>b.
     (let h = dma_h (dma_of b) ! n in
      case (if ma_sl then dmaRead16 h else dmaRead8 h) of
        None \<Rightarrow> Done () b
      | Some f \<Rightarrow>
          if ma_sl then call_dmaRead16 hw f (ucast (bytes ! 0) OR push_bit 8 (ucast (bytes ! 1))) b
          else call_dmaRead8 hw f (bytes ! 0) b))"

definition transfer :: "'x dma_callbacks \<Rightarrow> bool \<Rightarrow> nat \<Rightarrow> Bit32u \<Rightarrow> Bit8u \<Rightarrow> (unit, 'x machine) routine" where
  "transfer hw ma_sl n phy_addr ty =
     (if ty = 1 then and_then (from_device hw ma_sl n) (\<lambda>bytes. on_cpu (writePhysicalPage phy_addr bytes))
      else if ty = 2 then
        and_then (on_cpu (readPhysicalPage phy_addr (if ma_sl then 2 else 1))) (to_dma_device hw ma_sl n)
      else if ty = 0 then and_then (from_device hw ma_sl n) (\<lambda>_. ret ())
      else panic ''hlda: transfer_type 3 is undefined'')"

text \<open>The end of a block: the count has expired and the device has been told.\<close>

definition end_of_block :: "bool \<Rightarrow> nat \<Rightarrow> (unit, 'x machine) routine" where
  "end_of_block ma_sl n =
     and_then (update (\<lambda>b. on_dma (on_ctrl ma_sl (\<lambda>s. s\<lparr>DACK := (DACK s)[n := False]\<rparr>))
       (set_HRQ False (on_dma (\<lambda>d. d\<lparr>TC := False, HLDA := False\<rparr>) b)))) (\<lambda>_.
     if ma_sl then ret ()
     else
       and_then (set_DRQ 4 False) (\<lambda>_.
         update (on_dma (on_ctrl True (\<lambda>s. s\<lparr>DACK := (DACK s)[0 := False]\<rparr>)))))"

text \<open>The channel served: the first of the master or, behind the cascade, the first of the slave.\<close>

definition served_channel :: "dma_state \<Rightarrow> (bool \<times> nat) option" where
  "served_channel d = (case first_channel (dma_2 d) of
      None \<Rightarrow> None
    | Some 0 \<Rightarrow> map_option (Pair False) (first_channel (dma_1 d))
    | Some n \<Rightarrow> Some (True, n))"

definition raise_HLDA :: "'x dma_callbacks \<Rightarrow> (unit, 'x machine) routine" where
  "raise_HLDA hw =
     and_then (update (on_dma (\<lambda>d. (if first_channel (dma_2 d) = Some 0
       then on_ctrl True (\<lambda>s. s\<lparr>DACK := (DACK s)[0 := True]\<rparr>) (d\<lparr>HLDA := True\<rparr>) else d\<lparr>HLDA := True\<rparr>)))) (\<lambda>_ b.
     case served_channel (dma_of b) of
       None \<Rightarrow> Done () b
     | Some (ma_sl, n) \<Rightarrow>
         (let c = chan (ctrl_of ma_sl b) ! n;
              phy_addr = push_bit 16 (ucast (page_reg c)) OR dma_shift ma_sl (current_address c) in
          and_then (update (on_dma (\<lambda>d. let d1 = on_ctrl ma_sl (step_controller n) d in
            if count_expired c then d1\<lparr>TC := True\<rparr> else d1))) (\<lambda>_.
          and_then (transfer hw ma_sl n phy_addr (transfer_type c)) (\<lambda>_.
          if count_expired c then end_of_block ma_sl n else ret ())) b))"

end
