(* ===== verification/BxLoop.thy ===== *)
theory BxLoop
  imports BxDecode BxApic BxDma BxException
begin

text \<open>
  The execution loop \<open>cpu_loop\<close> with \<open>handleAsyncEvent\<close>, \<open>prefetch\<close> and \<open>boundaryFetch\<close>
  (\<open>cpu/cpu.cc\<close>), on the machine of \<open>BxBoard\<close>. The instruction cache is not modelled: an
  instruction is decoded each time it is executed.
\<close>

section \<open>The rest of the machine\<close>

text \<open>
  The parts that are not modelled: the callbacks of the timers, the DMA handlers of the devices, the
  port bus, and the handlers of the x87, MMX and SSE instructions.
\<close>

record 'x hardware =
  hw_timers :: "'x board_scheme callbacks"
  hw_dma :: "'x dma_callbacks"
  hw_bus :: io_bus
  hw_extension :: "string \<Rightarrow> bxInstruction \<Rightarrow> unit bx"

abbreviation (input) machine_IF :: "'x machine \<Rightarrow> bool" where "machine_IF b \<equiv> get_eflag 9 (cpu_of b)"
abbreviation (input) machine_TF :: "'x machine \<Rightarrow> bool" where "machine_TF b \<equiv> get_eflag 8 (cpu_of b)"

section \<open>Asynchronous events\<close>

text \<open>
  The loop of a halted processor. The first argument bounds the ticks; the value tells whether the
  loop ended within them.
\<close>

fun wait_in_halt :: "nat \<Rightarrow> 'x hardware \<Rightarrow> (bool, 'x machine) routine" where
  "wait_in_halt 0 hw = ret False"
| "wait_in_halt (Suc n) hw = (\<lambda>b.
     if BX_CPU_INTR b \<and> machine_IF b then Done True b
     else if async_event (cpu_of b) = 2 then Done True b
     else and_then (pc_tick1 (hw_timers hw)) (\<lambda>_. wait_in_halt n hw) b)"

text \<open>The next instruction boundary is the place an exception returns to.\<close>

definition commit_boundary :: "cpu \<Rightarrow> cpu" where
  "commit_boundary s = s\<lparr>sys := (sys s)\<lparr>prev_eip := eip s, prev_esp := ESP s, EXT := False, errorno := 0\<rparr>\<rparr>"

definition debug_exception :: "(unit, 'x machine) routine" where
  "debug_exception =
     and_then (on_cpu (update (\<lambda>s. s\<lparr>sys := (sys s)\<lparr>dr6 := dr6 (sys s) OR debug_trap s\<rparr>\<rparr>))) (\<lambda>_.
     raise BX_DB_EXCEPTION 0)"

definition external_interrupt :: "'x hardware \<Rightarrow> (unit, 'x machine) routine" where
  "external_interrupt hw =
     and_then (\<lambda>b. if lapic_INTR (lapic_of b) then acknowledge_int b else DEV_pic_iac b)
       (\<lambda>vec.
     and_then (on_cpu (update (\<lambda>s. s\<lparr>sys := (sys s)\<lparr>errorno := 0, EXT := True\<rparr>\<rparr>))) (\<lambda>_.
     and_then (on_cpu (interrupt (unat vec) False False 0)) (\<lambda>_.
     on_cpu (update commit_boundary))))"

definition end_of_events :: "(unit, 'x machine) routine" where
  "end_of_events =
     and_then (on_cpu (update (\<lambda>s. if get_eflag 8 s then s\<lparr>debug_trap := debug_trap s OR 0x4000\<rparr> else s))) (\<lambda>_.
     and_then (on_cpu (update (\<lambda>s. if get_eflag 16 s then clear_eflag 16 s else s))) (\<lambda>_.
     and_then (on_cpu (update (\<lambda>s. s\<lparr>inhibit_mask := 0\<rparr>))) (\<lambda>_ b.
       (let s = cpu_of b in
        if \<not> (BX_CPU_INTR b \<or> debug_trap s \<noteq> 0 \<or> HRQ (devices b) \<or> get_eflag 8 s)
        then Done () (put_cpu (s\<lparr>async_event := 0\<rparr>) b)
        else Done () b))))"

definition pending_events :: "'x hardware \<Rightarrow> (unit, 'x machine) routine" where
  "pending_events hw = (\<lambda>b.
     (let s = cpu_of b in
      if debug_trap s AND 0x8000 \<noteq> 0 then debug_exception b
      else if debug_trap s \<noteq> 0 \<and> inhibit_mask s AND BX_INHIBIT_DEBUG = 0 then debug_exception b
      else
        and_then (\<lambda>b.
          if inhibit_mask s AND BX_INHIBIT_INTERRUPTS \<noteq> 0 then Done () b
          else if BX_CPU_INTR b \<and> machine_IF b then external_interrupt hw b
          else if HRQ (devices b) then raise_HLDA (hw_dma hw) b
          else Done () b) (\<lambda>_. end_of_events) b))"

text \<open>
  \<open>Some True\<close> is the return value 1, \<open>Some False\<close> the value 0, \<open>None\<close> a halted processor that
  the ticks of the first argument did not wake.
\<close>

definition handleAsyncEvent :: "nat \<Rightarrow> 'x hardware \<Rightarrow> (bool option, 'x machine) routine" where
  "handleAsyncEvent n hw = (\<lambda>b.
     if debug_trap (cpu_of b) AND 0x80000000 \<noteq> 0 then
       and_then (on_cpu (update (\<lambda>s. s\<lparr>debug_trap := 0, inhibit_mask := 0\<rparr>))) (\<lambda>_.
       and_then (wait_in_halt n hw) (\<lambda>woken.
       if woken then and_then (pending_events hw) (\<lambda>_. ret (Some False)) else ret None)) b
     else if kill_bochs_request (sys (cpu_of b)) \<noteq> 0 then Done (Some True) b
     else and_then (pending_events hw) (\<lambda>_. ret (Some False)) b)"

section \<open>Fetching\<close>

definition itranslate_linear :: "Bit32u \<Rightarrow> bool \<Rightarrow> Bit32u bx" where
  "itranslate_linear laddr pl = translate_linear laddr pl BX_READ"

text \<open>The window onto the page of the next instruction.\<close>

definition open_window :: "Bit32u \<Rightarrow> Bit32u \<Rightarrow> unit bx" where
  "open_window laddr pAddr = (\<lambda>s.
     (let eipPageOffset0 = eip s - (laddr - (laddr AND 0xfffff000));
          p = getHostMemAddr (pAddr AND 0xfffff000) BX_READ s;
          s1 = s\<lparr>sys := (sys s)\<lparr>eipPageBias := - eipPageOffset0, eipPageWindowSize := 4096, eipFetchPtr := p\<rparr>\<rparr> in
      if p = None then
        panic (if unat pAddr \<ge> mem_len (mem s) then ''prefetch : running in bogus memory''
               else ''prefetch: getHostMemAddr vetoed direct read'') s1
      else Done () s1))"

definition prefetch :: "unit bx" where
  "prefetch = (\<lambda>s.
     (let laddr = get_segment_base CS s + eip s in
      if eip s > seg_limit_scaled (sregs s CS) then panic ''prefetch: RIP > CS.limit'' s
      else
        and_then (\<lambda>s. if cr0_pg (cr0 s) then itranslate_linear laddr (CPL s = 3) s else Done laddr s)
          (\<lambda>pAddr s. open_window laddr (A20ADDR s pAddr) s) s))"

definition fetch_bytes :: "Bit32u \<Rightarrow> nat \<Rightarrow> Bit8u list bx" where
  "fetch_bytes off n = (\<lambda>s. case eipFetchPtr (sys s) of
      Some p \<Rightarrow> load_hosts (p + unat off) n s
    | None \<Rightarrow> panic ''null eipFetchPtr'' s)"

definition boundaryFetch :: "Bit8u list \<Rightarrow> bxInstruction \<Rightarrow> (execute_ptr option \<times> bxInstruction) bx" where
  "boundaryFetch left i =
     (if length left \<ge> 15 then raise BX_GP_EXCEPTION 0
      else
        and_then (update (\<lambda>s. s\<lparr>eip := eip s + of_nat (length left)\<rparr>)) (\<lambda>_.
        and_then prefetch (\<lambda>_.
        and_then (\<lambda>s. if eipPageWindowSize (sys s) < 15 then panic ''fetch_decode: small window size after prefetch'' s
                       else Done () s) (\<lambda>_.
        and_then (fetch_bytes 0 (15 - length left)) (\<lambda>more.
        and_then (fetchDecode (left @ more) i) (\<lambda>r.
          case r of
            None \<Rightarrow> raise BX_GP_EXCEPTION 0
          | Some x \<Rightarrow>
              and_then (update (\<lambda>s. s\<lparr>eip := prev_eip (sys s),
                 sys := (sys s)\<lparr>eipPageWindowSize := 0\<rparr>\<rparr>)) (\<lambda>_. ret x)))))))"

text \<open>\<open>i\<close> is the storage of the decoded instruction with its old contents.\<close>

definition eipBiased :: "cpu \<Rightarrow> Bit32u" where
  "eipBiased s = eip s + eipPageBias (sys s)"

definition fetch_instruction :: "bxInstruction \<Rightarrow> (execute_ptr option \<times> bxInstruction) bx" where
  "fetch_instruction i =
     and_then (\<lambda>s. if eipBiased s \<ge> eipPageWindowSize (sys s) then prefetch s else Done () s)
       (\<lambda>_ s.
       (let remainingInPage = unat (eipPageWindowSize (sys s) - eipBiased s) in
        and_then (fetch_bytes (eipBiased s) (min 15 remainingInPage)) (\<lambda>bs.
        and_then (fetchDecode bs i) (\<lambda>r.
          case r of
            Some x \<Rightarrow> ret x
          | None \<Rightarrow> boundaryFetch bs i)) s))"

section \<open>Executing\<close>

definition call_execute :: "'x hardware \<Rightarrow> execute_ptr option \<Rightarrow> bxInstruction \<Rightarrow> (unit, 'x machine) routine" where
  "call_execute hw e i = (\<lambda>b.
     case e of
       Some (Handler f) \<Rightarrow> on_cpu (f i) b
     | Some (Env_handler f) \<Rightarrow>
         on_cpu (f \<lparr>env_bus = hw_bus hw, env_ticks = time_ticks b, env_apic_id = ucast (lapic_id (lapic_of b))\<rparr> i) b
     | Some (Extension n) \<Rightarrow> on_cpu (hw_extension hw n i) b
     | None \<Rightarrow> Panic ''null execute'' b)"

definition commit_instruction :: "cpu \<Rightarrow> cpu" where
  "commit_instruction s = s\<lparr>sys := (sys s)\<lparr>prev_eip := eip s, prev_esp := ESP s\<rparr>\<rparr>"

text \<open>One round at \<open>repeat_loop\<close>: whether the repetition goes on.\<close>

definition repeat_round :: "'x hardware \<Rightarrow> execute_ptr option \<Rightarrow> bxInstruction \<Rightarrow> (bool, 'x machine) routine" where
  "repeat_round hw e i =
     and_then (\<lambda>b. if repeat_count i (cpu_of b) \<noteq> 0
                 then and_then (call_execute hw e i)
                   (\<lambda>_. on_cpu (update (decrement_count i))) b else Done () b) (\<lambda>_.
     and_then (if repeatableZFL i \<and> repUsedValue i = 3 then and_then (on_cpu (get_flag ZF))
       (\<lambda>z. ret (\<not> z))
               else ret False) (\<lambda>stop3.
     if stop3 then ret False
     else
       and_then (if repeatableZFL i \<and> repUsedValue i = 2 then on_cpu (get_flag ZF) else ret False)
         (\<lambda>stop2.
       if stop2 then ret False else on_cpu (gets (\<lambda>s. repeat_count i s \<noteq> 0)))))"

text \<open>
  The value of the repetition: \<open>Some True\<close> if the instruction is complete, \<open>Some False\<close> if it is
  left for an asynchronous event, to be executed again; \<open>None\<close> if the rounds run out.
\<close>

fun repetition :: "nat \<Rightarrow> 'x hardware \<Rightarrow> execute_ptr option \<Rightarrow> bxInstruction \<Rightarrow> (bool option, 'x machine) routine" where
  "repetition 0 hw e i = ret None"
| "repetition (Suc n) hw e i =
     and_then (repeat_round hw e i) (\<lambda>go.
     if go then
       and_then (pc_tick1 (hw_timers hw)) (\<lambda>_ b.
         if async_event (cpu_of b) \<noteq> 0 then Done (Some False)
           (put_cpu (invalidate_prefetch_q (cpu_of b)) b)
         else repetition n hw e i b)
     else ret (Some True))"

definition execute_instruction :: "nat \<Rightarrow> 'x hardware \<Rightarrow> execute_ptr option \<Rightarrow> bxInstruction \<Rightarrow> (bool, 'x machine) routine" where
  "execute_instruction n hw e i =
     and_then (on_cpu (\<lambda>s. let next_RIP = eip s + of_nat (i_ilen i) in
         if next_RIP - 1 > seg_limit_scaled (sregs s CS) then raise BX_GP_EXCEPTION 0 s else Done next_RIP s))
       (\<lambda>next_RIP.
     and_then (on_cpu (if ResolveModrm i = None then ret () else resolve i)) (\<lambda>_.
     if \<not> (repUsedValue i \<noteq> 0 \<and> repeatableL i) then
       and_then (on_cpu (update (\<lambda>s. s\<lparr>eip := next_RIP\<rparr>))) (\<lambda>_.
       and_then (call_execute hw e i) (\<lambda>_.
       and_then (on_cpu (update commit_instruction)) (\<lambda>_.
       and_then (pc_tick1 (hw_timers hw)) (\<lambda>_. ret True))))
     else
       and_then (repetition n hw e i) (\<lambda>r.
       case r of
         None \<Rightarrow> ret False
       | Some False \<Rightarrow> ret True
       | Some True \<Rightarrow>
           and_then (on_cpu (update (\<lambda>s. commit_instruction (s\<lparr>eip := next_RIP\<rparr>))))
             (\<lambda>_.
           and_then (pc_tick1 (hw_timers hw)) (\<lambda>_. ret True)))))"

section \<open>The loop\<close>

text \<open>
  One turn of the loop: the events of the last boundary, then one instruction, or one turn of a
  repeated instruction that an event interrupts. \<open>Some True\<close>: the loop returns; \<open>Some False\<close>: it
  goes on; \<open>None\<close>: the bound \<open>n\<close> on the ticks of a halt and the rounds of a repetition runs out.
\<close>

definition loop_turn :: "nat \<Rightarrow> 'x hardware \<Rightarrow> bxInstruction \<Rightarrow> (bool option, 'x machine) routine" where
  "loop_turn n hw i0 =
     and_then (\<lambda>b. if async_event (cpu_of b) \<noteq> 0 then handleAsyncEvent n hw b else Done (Some False) b) (\<lambda>r.
     if r \<noteq> Some False then ret r
     else
       and_then (on_cpu (fetch_instruction i0)) (\<lambda>(e, i).
       and_then (execute_instruction n hw e i) (\<lambda>finished.
       ret (if finished then Some False else None))))"

text \<open>
  An exception leaves the turn by \<open>longjmp\<close> after its delivery; the loop starts again behind
  \<open>setjmp\<close>.
\<close>

definition cpu_loop_turn :: "nat \<Rightarrow> 'x hardware \<Rightarrow> bxInstruction \<Rightarrow> (bool option, 'x machine) routine" where
  "cpu_loop_turn n hw i0 = (\<lambda>b. case loop_turn n hw i0 b of
      Except v e b' \<Rightarrow>
        and_then (on_cpu (exception v e)) (\<lambda>_.
        and_then (on_cpu (update commit_boundary)) (\<lambda>_. ret (Some False))) b'
    | Done x b' \<Rightarrow> Done x b'
    | Device a b' \<Rightarrow> Device a b'
    | Panic msg b' \<Rightarrow> Panic msg b')"

text \<open>At most \<open>k\<close> turns; the value tells whether the loop has returned.\<close>

fun cpu_loop_turns :: "nat \<Rightarrow> nat \<Rightarrow> 'x hardware \<Rightarrow> bxInstruction \<Rightarrow> (bool, 'x machine) routine" where
  "cpu_loop_turns 0 n hw i0 = ret False"
| "cpu_loop_turns (Suc k) n hw i0 =
     and_then (cpu_loop_turn n hw i0) (\<lambda>r.
     case r of
       Some True \<Rightarrow> ret True
     | Some False \<Rightarrow> cpu_loop_turns k n hw i0
     | None \<Rightarrow> ret False)"

definition cpu_loop :: "nat \<Rightarrow> nat \<Rightarrow> 'x hardware \<Rightarrow> bxInstruction \<Rightarrow> (bool, 'x machine) routine" where
  "cpu_loop k n hw i0 = and_then (on_cpu (update commit_boundary)) (\<lambda>_. cpu_loop_turns k n hw i0)"

end
