(* ===== verification/BxDecodeTables.thy ===== *)
theory BxDecodeTables
  imports BxDecode
begin

text \<open>
  Well-formed tables: the loop over the group tables finds an entry with a handler and a known
  immediate operand after at most \<open>group_depth\<close> steps, inside the bounds of every table, and the
  prefix entries are those of the eleven prefix bytes. With \<open>cap\<close> bytes for the immediate operand
  an opcode has room for opcode, ModRM, SIB and displacement in eleven bytes.
\<close>

definition imm_size :: "Bit16u \<Rightarrow> nat" where
  "imm_size a =
     (let m = a AND BxImmediate in
      if m = 0 then 0
      else if m = BxImmediate_Iv \<or> m = BxImmediate_O then 4
      else if m = BxImmediate_IvIw then 6
      else if m = BxImmediate_Iw \<or> m = BxImmediate_BrOff16 then 2
      else if m = BxImmediate_IwIb then 3
      else 1)"

definition leaf_ok :: "nat \<Rightarrow> Bit16u \<Rightarrow> BxOpcodeInfo_t \<Rightarrow> bool" where
  "leaf_ok cap a info \<longleftrightarrow>
     a AND BxGroupX = 0 \<and> a AND BxImmediate \<le> BxImmediate_BrOff16 \<and> imm_size a \<le> cap \<and>
       ExecutePtr info \<noteq> None"

definition group_size :: "nat \<Rightarrow> Bit16u \<Rightarrow> nat" where
  "group_size b1 a =
     (let g = a AND BxGroupX in
      if g = BxGroupN then 8
      else if g = BxPrefixSSE then 4
      else if g = BxSplitMod11b then 2
      else if g = BxFPGroup \<and> b1 div 8 = 27 \<and> a AND BxImmediate = 0 then 8
      else 0)"

definition modrm_cap :: "nat \<Rightarrow> nat" where
  "modrm_cap b1 = (if b1 < 256 then 4 else 3)"

primrec info_ok :: "nat \<Rightarrow> nat \<Rightarrow> Bit16u \<Rightarrow> BxOpcodeInfo_t \<Rightarrow> bool" where
  "info_ok 0 b1 a info = leaf_ok (modrm_cap b1) a info"
| "info_ok (Suc k) b1 a info =
     (if a AND BxGroupX = 0 then leaf_ok (modrm_cap b1) a info
      else AnotherArray info \<noteq> [] \<and> length (AnotherArray info) = group_size b1 a \<and>
        list_all (\<lambda>i. info_ok k b1 ((a AND NOT BxGroupX) OR Attr i) i) (AnotherArray info))"

definition prefix_bytes :: "nat list" where
  "prefix_bytes = [0x66, 0x67, 0xf2, 0xf3, 0x2e, 0x26, 0x36, 0x3e, 0x64, 0x65, 0xf0]"

definition entry_ok :: "nat \<Rightarrow> BxOpcodeInfo_t \<Rightarrow> bool" where
  "entry_ok b1 info \<longleftrightarrow>
     (if Attr info AND BxAnother = 0 then leaf_ok 9 (Attr info) info
      else if Attr info AND BxPrefix \<noteq> 0 then b1 \<in> set prefix_bytes
      else b1 = 0x0f \<or> info_ok group_depth b1 (Attr info) info)"

fun table_ok :: "nat \<Rightarrow> BxOpcodeInfo_t list \<Rightarrow> bool" where
  "table_ok n [] = True"
| "table_ok n (x # xs) = (entry_ok n x \<and> table_ok (Suc n) xs)"

lemma group_depth_Suc: "group_depth = Suc (Suc (Suc (Suc 0)))"
  by (simp add: group_depth_def)

lemmas table_rules = leaf_ok_def group_size_def modrm_cap_def imm_size_def prefix_bytes_def entry_ok_def
  group_depth_Suc opcode_attributes

lemmas opcode_groups = opcodesADD_EwIw_def opcodesADD_EdId_def opcodesADD_GwEw_def
  opcodesADD_GdEd_def opcodesMOV_GbEb_def opcodesMOV_GwEw_def opcodesMOV_GdEd_def
  opcodesMOV_EbGb_def opcodesMOV_EwGw_def opcodesMOV_EdGd_def BxOpcodeInfo_FPGroupD8_def
  BxOpcodeInfo_FPGroupD9_def BxOpcodeInfo_FPGroupDA_def BxOpcodeInfo_FPGroupDB_def
  BxOpcodeInfo_FPGroupDC_def BxOpcodeInfo_FPGroupDD_def BxOpcodeInfo_FPGroupDE_def
  BxOpcodeInfo_FPGroupDF_def BxOpcodeGroupSSE_0f10_def BxOpcodeGroupSSE_0f11_def
  BxOpcodeGroupSSE_0f12_def BxOpcodeGroupSSE_0f13_def BxOpcodeGroupSSE_0f14_def
  BxOpcodeGroupSSE_0f15_def BxOpcodeGroupSSE_0f16_def BxOpcodeGroupSSE_0f17_def
  BxOpcodeGroupSSE_0f28_def BxOpcodeGroupSSE_0f29_def BxOpcodeGroupSSE_0f2a_def
  BxOpcodeGroupSSE_0f2b_def BxOpcodeGroupSSE_0f2c_def BxOpcodeGroupSSE_0f2d_def
  BxOpcodeGroupSSE_0f2e_def BxOpcodeGroupSSE_0f2f_def BxOpcodeGroupSSE_0f50_def
  BxOpcodeGroupSSE_0f51_def BxOpcodeGroupSSE_0f52_def BxOpcodeGroupSSE_0f53_def
  BxOpcodeGroupSSE_0f54_def BxOpcodeGroupSSE_0f55_def BxOpcodeGroupSSE_0f56_def
  BxOpcodeGroupSSE_0f57_def BxOpcodeGroupSSE_0f58_def BxOpcodeGroupSSE_0f59_def
  BxOpcodeGroupSSE_0f5a_def BxOpcodeGroupSSE_0f5b_def BxOpcodeGroupSSE_0f5c_def
  BxOpcodeGroupSSE_0f5d_def BxOpcodeGroupSSE_0f5e_def BxOpcodeGroupSSE_0f5f_def
  BxOpcodeGroupSSE_0f60_def BxOpcodeGroupSSE_0f61_def BxOpcodeGroupSSE_0f62_def
  BxOpcodeGroupSSE_0f63_def BxOpcodeGroupSSE_0f64_def BxOpcodeGroupSSE_0f65_def
  BxOpcodeGroupSSE_0f66_def BxOpcodeGroupSSE_0f67_def BxOpcodeGroupSSE_0f68_def
  BxOpcodeGroupSSE_0f69_def BxOpcodeGroupSSE_0f6a_def BxOpcodeGroupSSE_0f6b_def
  BxOpcodeGroupSSE_0f6c_def BxOpcodeGroupSSE_0f6d_def BxOpcodeGroupSSE_0f6e_def
  BxOpcodeGroupSSE_0f6f_def BxOpcodeGroupSSE_0f70_def BxOpcodeGroupSSE_0f74_def
  BxOpcodeGroupSSE_0f75_def BxOpcodeGroupSSE_0f76_def BxOpcodeGroupSSE_0f7c_def
  BxOpcodeGroupSSE_0f7d_def BxOpcodeGroupSSE_0f7e_def BxOpcodeGroupSSE_0f7f_def
  BxOpcodeGroupSSE_0fc2_def BxOpcodeGroupSSE_0fc3_def BxOpcodeGroupSSE_0fc4_def
  BxOpcodeGroupSSE_0fc5_def BxOpcodeGroupSSE_0fc6_def BxOpcodeGroupSSE_0fd0_def
  BxOpcodeGroupSSE_0fd1_def BxOpcodeGroupSSE_0fd2_def BxOpcodeGroupSSE_0fd3_def
  BxOpcodeGroupSSE_0fd4_def BxOpcodeGroupSSE_0fd5_def BxOpcodeGroupSSE_0fd6_def
  BxOpcodeGroupSSE_0fd7_def BxOpcodeGroupSSE_0fd8_def BxOpcodeGroupSSE_0fd9_def
  BxOpcodeGroupSSE_0fda_def BxOpcodeGroupSSE_0fdb_def BxOpcodeGroupSSE_0fdc_def
  BxOpcodeGroupSSE_0fdd_def BxOpcodeGroupSSE_0fde_def BxOpcodeGroupSSE_0fdf_def
  BxOpcodeGroupSSE_0fe0_def BxOpcodeGroupSSE_0fe1_def BxOpcodeGroupSSE_0fe2_def
  BxOpcodeGroupSSE_0fe3_def BxOpcodeGroupSSE_0fe4_def BxOpcodeGroupSSE_0fe5_def
  BxOpcodeGroupSSE_0fe6_def BxOpcodeGroupSSE_0fe7_def BxOpcodeGroupSSE_0fe8_def
  BxOpcodeGroupSSE_0fe9_def BxOpcodeGroupSSE_0fea_def BxOpcodeGroupSSE_0feb_def
  BxOpcodeGroupSSE_0fec_def BxOpcodeGroupSSE_0fed_def BxOpcodeGroupSSE_0fee_def
  BxOpcodeGroupSSE_0fef_def BxOpcodeGroupSSE_0ff0_def BxOpcodeGroupSSE_0ff1_def
  BxOpcodeGroupSSE_0ff2_def BxOpcodeGroupSSE_0ff3_def BxOpcodeGroupSSE_0ff4_def
  BxOpcodeGroupSSE_0ff5_def BxOpcodeGroupSSE_0ff6_def BxOpcodeGroupSSE_0ff7_def
  BxOpcodeGroupSSE_0ff8_def BxOpcodeGroupSSE_0ff9_def BxOpcodeGroupSSE_0ffa_def
  BxOpcodeGroupSSE_0ffb_def BxOpcodeGroupSSE_0ffc_def BxOpcodeGroupSSE_0ffd_def
  BxOpcodeGroupSSE_0ffe_def BxOpcodeGroupSSE_G1202_def BxOpcodeGroupSSE_G1204_def
  BxOpcodeGroupSSE_G1206_def BxOpcodeGroupSSE_G1302_def BxOpcodeGroupSSE_G1304_def
  BxOpcodeGroupSSE_G1306_def BxOpcodeGroupSSE_G1402_def BxOpcodeGroupSSE_G1403_def
  BxOpcodeGroupSSE_G1406_def BxOpcodeGroupSSE_G1407_def BxOpcodeInfoG1EbIb_def BxOpcodeInfoG1Ew_def
  BxOpcodeInfoG1Ed_def BxOpcodeInfoG2Eb_def BxOpcodeInfoG2Ew_def BxOpcodeInfoG2Ed_def
  BxOpcodeInfoG3Eb_def BxOpcodeInfoG3Ew_def BxOpcodeInfoG3Ed_def BxOpcodeInfoG4_def
  BxOpcodeInfoG5w_def BxOpcodeInfoG5d_def BxOpcodeInfoG6_def BxOpcodeInfoG7_def
  BxOpcodeInfoG8EwIb_def BxOpcodeInfoG8EdIb_def BxOpcodeInfoG9_def BxOpcodeInfoG12_def
  BxOpcodeInfoG13_def BxOpcodeInfoG14_def BxOpcodeInfoG15_def BxOpcodeInfoG16_def

lemma opcodes_0_ok: "table_ok 0 opcodes_0"
  by (simp add: opcodes_0_def opcode_groups table_rules)

lemma opcodes_1_ok: "table_ok 128 opcodes_1"
  by (simp add: opcodes_1_def opcode_groups table_rules)

lemma opcodes_2_ok: "table_ok 256 opcodes_2"
  by (simp add: opcodes_2_def opcode_groups table_rules)

lemma opcodes_3_ok: "table_ok 384 opcodes_3"
  by (simp add: opcodes_3_def opcode_groups table_rules)

lemma opcodes_4_ok: "table_ok 0 opcodes_4"
  by (simp add: opcodes_4_def opcode_groups table_rules)

lemma opcodes_5_ok: "table_ok 128 opcodes_5"
  by (simp add: opcodes_5_def opcode_groups table_rules)

lemma opcodes_6_ok: "table_ok 256 opcodes_6"
  by (simp add: opcodes_6_def opcode_groups table_rules)

lemma opcodes_7_ok: "table_ok 384 opcodes_7"
  by (simp add: opcodes_7_def opcode_groups table_rules)

end
