(* ===== verification/BxDecodeTheorems.thy ===== *)
theory BxDecodeTheorems
  imports BxDecodeTables BxMachine
begin

text \<open>
  The decoder looks only at the bytes of the instruction, it never meets an entry of the tables it
  does not know, and every decoded instruction has a handler and a length.
\<close>

section \<open>Fetchers that look only at what they consume\<close>

definition local_at :: "'a fetcher \<Rightarrow> Bit8u list \<Rightarrow> bool" where
  "local_at m bs \<longleftrightarrow> (case m bs of
      Fetched x r \<Rightarrow> (\<exists>p. bs = p @ r \<and> (\<forall>q. m (p @ q) = Fetched x q))
    | Short \<Rightarrow> True
    | Undefined \<Rightarrow> (\<forall>q. m (bs @ q) = Undefined)
    | Unknown msg \<Rightarrow> (\<forall>q. m (bs @ q) = Unknown msg))"

definition local_fetch :: "'a fetcher \<Rightarrow> bool" where
  "local_fetch m \<longleftrightarrow> (\<forall>bs. local_at m bs)"

named_theorems local_intros \<open>fetchers that look only at what they consume\<close>

lemma local_atI: "bs = p @ r \<Longrightarrow> (\<And>q. m (p @ q) = Fetched x q) \<Longrightarrow> local_at m bs"
  by (auto simp: local_at_def)

lemma local_fetchD:
  assumes "local_fetch m" and "m bs = Fetched x r"
  obtains p where "bs = p @ r" and "\<And>q. m (p @ q) = Fetched x q"
proof -
  have "local_at m bs"
    using assms(1) by (simp add: local_fetch_def)
  then show thesis
    using assms(2) that by (auto simp: local_at_def)
qed

lemma local_Undefined: "local_fetch m \<Longrightarrow> m bs = Undefined \<Longrightarrow> m (bs @ q) = Undefined"
  by (drule_tac x = bs in local_fetch_def [THEN iffD1, THEN spec]) (simp add: local_at_def)

lemma local_Unknown: "local_fetch m \<Longrightarrow> m bs = Unknown msg \<Longrightarrow> m (bs @ q) = Unknown msg"
  by (drule_tac x = bs in local_fetch_def [THEN iffD1, THEN spec]) (simp add: local_at_def)

lemma local_fthen [local_intros]:
  assumes m: "local_fetch m" and f: "\<And>x. local_fetch (f x)"
  shows "local_fetch (fthen m f)"
  unfolding local_fetch_def
proof
  fix bs
  show "local_at (fthen m f) bs"
  proof (cases "m bs")
    case (Fetched x r)
    obtain p where p: "bs = p @ r" "\<And>q. m (p @ q) = Fetched x q"
      using local_fetchD [OF m Fetched] by metis
    show ?thesis
    proof (cases "f x r")
      case (Fetched y t)
      obtain p' where "r = p' @ t" "\<And>q. f x (p' @ q) = Fetched y q"
        using local_fetchD [OF f Fetched] by metis
      then show ?thesis
        using p by (auto intro!: local_atI [where p = "p @ p'"])
    qed (use p local_Undefined [OF f, of x r] local_Unknown [OF f, of x r] in \<open>auto simp: local_at_def\<close>)
  qed (use local_Undefined [OF m, of bs] local_Unknown [OF m, of bs] in \<open>auto simp: fthen_def local_at_def\<close>)
qed

lemma local_fetched [local_intros]: "local_fetch (fetched x)"
  by (simp add: local_fetch_def local_at_def)

lemma local_fundefined [local_intros]: "local_fetch fundefined"
  by (simp add: local_fetch_def local_at_def)

lemma local_funknown [local_intros]: "local_fetch (funknown msg)"
  by (simp add: local_fetch_def local_at_def)

lemma local_if [local_intros]: "(b \<Longrightarrow> local_fetch m) \<Longrightarrow> (\<not> b \<Longrightarrow> local_fetch n) \<Longrightarrow> local_fetch (if b then m else n)"
  by simp

lemma local_Let [local_intros]: "(\<And>x. local_fetch (f x)) \<Longrightarrow> local_fetch (let x = v in f x)"
  by simp

lemma local_prod [local_intros]: "(\<And>x y. local_fetch (f x y)) \<Longrightarrow> local_fetch (case z of (x, y) \<Rightarrow> f x y)"
  by (cases z) simp

lemma local_option [local_intros]:
  "local_fetch m \<Longrightarrow> (\<And>x. local_fetch (f x)) \<Longrightarrow> local_fetch (case z of None \<Rightarrow> m | Some x \<Rightarrow> f x)"
  by (cases z) simp_all

lemma local_nat [local_intros]:
  "local_fetch m \<Longrightarrow> (\<And>x. local_fetch (f x)) \<Longrightarrow> local_fetch (case z of 0 \<Rightarrow> m | Suc x \<Rightarrow> f x)"
  by (cases z) simp_all

lemma local_FetchBYTE [local_intros]: "local_fetch FetchBYTE"
  unfolding local_fetch_def local_at_def
proof (rule allI)
  show "case FetchBYTE bs of
      Fetched x r \<Rightarrow> (\<exists>p. bs = p @ r \<and> (\<forall>q. FetchBYTE (p @ q) = Fetched x q))
    | Short \<Rightarrow> True
    | Undefined \<Rightarrow> (\<forall>q. FetchBYTE (bs @ q) = Undefined)
    | Unknown msg \<Rightarrow> (\<forall>q. FetchBYTE (bs @ q) = Unknown msg)" for bs
    by (cases bs rule: FetchBYTE.cases) (auto intro: exI [where x = "[_]"])
qed

lemma local_FetchWORD [local_intros]: "local_fetch FetchWORD"
  unfolding local_fetch_def local_at_def
proof (rule allI)
  show "case FetchWORD bs of
      Fetched x r \<Rightarrow> (\<exists>p. bs = p @ r \<and> (\<forall>q. FetchWORD (p @ q) = Fetched x q))
    | Short \<Rightarrow> True
    | Undefined \<Rightarrow> (\<forall>q. FetchWORD (bs @ q) = Undefined)
    | Unknown msg \<Rightarrow> (\<forall>q. FetchWORD (bs @ q) = Unknown msg)" for bs
    by (cases bs rule: FetchWORD.cases) (auto intro: exI [where x = "[_, _]"])
qed

lemma local_FetchDWORD [local_intros]: "local_fetch FetchDWORD"
  unfolding local_fetch_def local_at_def
proof (rule allI)
  show "case FetchDWORD bs of
      Fetched x r \<Rightarrow> (\<exists>p. bs = p @ r \<and> (\<forall>q. FetchDWORD (p @ q) = Fetched x q))
    | Short \<Rightarrow> True
    | Undefined \<Rightarrow> (\<forall>q. FetchDWORD (bs @ q) = Undefined)
    | Unknown msg \<Rightarrow> (\<forall>q. FetchDWORD (bs @ q) = Unknown msg)" for bs
    by (cases bs rule: FetchDWORD.cases) (auto intro: exI [where x = "[_, _, _, _]"])
qed

lemma local_fetch_modrm [local_intros]: "local_fetch (fetch_modrm b1 b2 i)"
  unfolding fetch_modrm_def modrm_32_def modrm_16_def modrm_sib_def get_8bit_displ_def
    get_32bit_displ_def get_8bit_displ16_def get_16bit_displ_def
  by (intro local_intros)

lemma local_fetch_immediate [local_intros]: "local_fetch (fetch_immediate a i)"
  unfolding fetch_immediate_def fetch_Iv_def by (intro local_intros)

lemma local_resolve_group [local_intros]: "local_fetch (resolve_group fuel b1 b2 m sse a info)"
proof (induction fuel arbitrary: a info)
  case 0
  show ?case
    by (subst resolve_group.simps) (simp add: Let_def local_intros del: fetched_apply split: option.split)
next
  case (Suc fuel)
  show ?case
    by (subst resolve_group.simps) (simp add: Let_def local_intros Suc split: option.split)
qed

lemmas fetch_b1_Cons = fetch_b1.simps(2)

declare fetch_b1.simps(2) [simp del]

lemma local_fetch_b1 [local_intros]: "local_fetch (fetch_b1 d)"
  unfolding local_fetch_def
proof
  fix bs
  show "local_at (fetch_b1 d) bs"
  proof (induction bs arbitrary: d)
    case Nil
    show ?case by (simp add: local_at_def)
  next
    case (Cons b bs)
    define a where "a = Attr (opcode_info d (unat b))"
    define d1 where "d1 = set_insn (setRepAttr a) d"
    consider (prefix) d2 where "a AND BxAnother \<noteq> 0 \<and>
      a AND BxPrefix \<noteq> 0" "prefix_byte (unat b) d1 = Some d2"
      | (bad) "a AND BxAnother \<noteq> 0 \<and> a AND BxPrefix \<noteq> 0" "prefix_byte (unat b) d1 = None"
      | (two) "\<not> (a AND BxAnother \<noteq> 0 \<and>
        a AND BxPrefix \<noteq> 0)" "a AND BxAnother \<noteq> 0 \<and> unat b = 0x0f"
      | (one) "\<not> (a AND BxAnother \<noteq> 0 \<and>
        a AND BxPrefix \<noteq> 0)" "\<not> (a AND BxAnother \<noteq> 0 \<and> unat b = 0x0f)"
      by blast
    then show ?case
    proof cases
      case prefix
      then have eq: "fetch_b1 d (b # xs) = fetch_b1 d2 xs" for xs
        by (simp add: fetch_b1_Cons a_def [symmetric] d1_def [symmetric])
      have IH: "local_at (fetch_b1 d2) bs"
        by (rule Cons.IH)
      show ?thesis
      proof (cases "fetch_b1 d2 bs")
        case (Fetched y r)
        obtain p where "bs = p @ r" "\<And>q. fetch_b1 d2 (p @ q) = Fetched y q"
          using IH Fetched by (auto simp: local_at_def)
        then show ?thesis
          by (intro local_atI [where p = "b # p" and r = r and x = y]) (simp_all add: eq)
      qed (use IH in \<open>simp_all add: local_at_def eq\<close>)
    next
      case bad
      then have eq: "fetch_b1 d (b # xs) = Unknown ''fetch_decode: prefix default''" for xs
        by (simp add: fetch_b1_Cons a_def [symmetric] d1_def [symmetric])
      show ?thesis
        by (simp add: local_at_def eq)
    next
      case two
      have eq: "fetch_b1 d (b # xs) = (case xs of
           [] \<Rightarrow> Short
         | b2 # r \<Rightarrow>
             (let b1 = 256 + unat b2; a = Attr (opcode_info d1 b1) in
              if a AND BxAnother \<noteq> 0 \<and> a AND BxPrefix \<noteq> 0
              then Unknown ''fetch_decode: prefix default''
              else Fetched (set_insn (setRepAttr a) d1, b1) r))" for xs
        by (simp only: fetch_b1_Cons Let_def a_def [symmetric] d1_def [symmetric]
            if_not_P [OF two(1)] if_P [OF two(2)])
      show ?thesis
      proof (cases bs)
        case Nil
        then show ?thesis
          by (simp add: local_at_def eq)
      next
        case (Cons b2 r)
        then show ?thesis
          by (auto simp: local_at_def eq Let_def intro!: exI [where x = "[b, b2]"])
      qed
    next
      case one
      have eq: "fetch_b1 d (b # xs) = Fetched (d1, unat b) xs" for xs
        by (simp only: fetch_b1_Cons Let_def a_def [symmetric] d1_def [symmetric]
            if_not_P [OF one(1)] if_not_P [OF one(2)])
      show ?thesis
        by (auto simp: local_at_def eq intro!: exI [where x = "[b]"])
    qed
  qed
qed

lemma local_decode_bytes: "local_fetch (decode_bytes big i)"
  unfolding decode_bytes_def decode_modrm_def decode_plain_def by (intro local_intros)

section \<open>What a fetcher yields\<close>

text \<open>\<open>fetches P m\<close>: what \<open>m\<close> fetches satisfies \<open>P\<close>, and \<open>m\<close> does not panic.\<close>

definition fetches :: "('a \<Rightarrow> bool) \<Rightarrow> 'a fetcher \<Rightarrow> bool" where
  "fetches P m \<longleftrightarrow> (\<forall>bs. case m bs of
      Fetched x r \<Rightarrow> P x
    | Unknown msg \<Rightarrow> False
    | _ \<Rightarrow> True)"

lemma fetches_fthen:
  assumes "fetches P m" and "\<And>x. P x \<Longrightarrow> fetches Q (f x)"
  shows "fetches Q (fthen m f)"
  using assms by (fastforce simp: fetches_def fthen_def split: fetch.splits)

lemma fetches_fetched [simp]: "fetches P (fetched x) \<longleftrightarrow> P x"
  by (simp add: fetches_def)

lemma fetches_fundefined [simp]: "fetches P fundefined"
  by (simp add: fetches_def)

lemma fetches_if [simp]:
  "fetches P (if b then m else n) \<longleftrightarrow> (b \<longrightarrow> fetches P m) \<and>
    (\<not> b \<longrightarrow> fetches P n)"
  by simp

lemma fetches_bytes [simp]:
  "fetches (\<lambda>x. True) FetchBYTE" "fetches (\<lambda>x. True) FetchWORD" "fetches (\<lambda>x. True) FetchDWORD"
proof -
  show "fetches (\<lambda>x. True) FetchBYTE"
    unfolding fetches_def by (intro allI, case_tac bs rule: FetchBYTE.cases) simp_all
  show "fetches (\<lambda>x. True) FetchWORD"
    unfolding fetches_def by (intro allI, case_tac bs rule: FetchWORD.cases) simp_all
  show "fetches (\<lambda>x. True) FetchDWORD"
    unfolding fetches_def by (intro allI, case_tac bs rule: FetchDWORD.cases) simp_all
qed

lemmas fetches_byte_then = fetches_fthen [OF fetches_bytes(1)] fetches_fthen [OF fetches_bytes(2)]
  fetches_fthen [OF fetches_bytes(3)]

lemma fetches_modrm: "fetches (\<lambda>x. True) (fetch_modrm b1 b2 i)"
  unfolding fetch_modrm_def modrm_32_def modrm_16_def modrm_sib_def get_8bit_displ_def
    get_32bit_displ_def get_8bit_displ16_def get_16bit_displ_def
  by (simp add: Let_def fetches_byte_then)

lemma imm_cases:
  fixes m :: Bit16u
  assumes "m \<le> 9"
  shows "m \<in> {0, 1, 2, 3, 4, 5, 6, 7, 8, 9}"
proof -
  have "unat m \<le> 9"
    using assms by (simp add: word_le_nat_alt)
  then have "unat m \<in> {0, 1, 2, 3, 4, 5, 6, 7, 8, 9}"
    by (simp, presburger)
  then show ?thesis
    by (simp add: word_unat_eq_iff)
qed

lemma fetches_immediate:
  assumes "a AND BxImmediate \<le> BxImmediate_BrOff16"
  shows "fetches (\<lambda>x. True) (fetch_immediate a i)"
proof -
  have "fetches (\<lambda>x. True) (fetch_Iv i)"
    by (simp add: fetch_Iv_def fetches_byte_then)
  then show ?thesis
    using imm_cases [of "a AND BxImmediate"] assms unfolding fetch_immediate_def
    by (auto simp: Let_def opcode_attributes fetches_byte_then
        intro: fetches_fthen [where P = "\<lambda>x. True"])
qed

section \<open>Entries of the tables\<close>

lemma table_ok_append: "table_ok n (xs @ ys) \<longleftrightarrow> table_ok n xs \<and>
  table_ok (n + length xs) ys"
  by (induction xs arbitrary: n) simp_all

lemma table_ok_nth: "table_ok n xs \<Longrightarrow> k < length xs \<Longrightarrow> entry_ok (n + k) (xs ! k)"
proof (induction xs arbitrary: n k)
  case Nil
  then show ?case by simp
next
  case (Cons x xs)
  show ?case
  proof (cases k)
    case 0
    then show ?thesis using Cons.prems by simp
  next
    case (Suc j)
    then show ?thesis using Cons.IH [of "Suc n" j] Cons.prems by simp
  qed
qed

lemma opcodes_length [simp]:
  "length opcodes_0 = 128" "length opcodes_1 = 128" "length opcodes_2 = 128" "length opcodes_3 = 128"
  "length opcodes_4 = 128" "length opcodes_5 = 128" "length opcodes_6 = 128" "length opcodes_7 = 128"
  by (simp_all add: opcodes_0_def opcodes_1_def opcodes_2_def opcodes_3_def opcodes_4_def
      opcodes_5_def opcodes_6_def opcodes_7_def)

lemma BxOpcodeInfo_halves:
  "table_ok 0 (opcodes_0 @ opcodes_1 @ opcodes_2 @ opcodes_3)"
  "table_ok 0 (opcodes_4 @ opcodes_5 @ opcodes_6 @ opcodes_7)"
  by (simp_all add: table_ok_append opcodes_0_ok opcodes_1_ok opcodes_2_ok opcodes_3_ok
      opcodes_4_ok opcodes_5_ok opcodes_6_ok opcodes_7_ok)

lemma opcode_info_ok:
  assumes "b1 < 512"
  shows "entry_ok b1 (opcode_info d b1)"
proof -
  define lo where "lo = opcodes_0 @ opcodes_1 @ opcodes_2 @ opcodes_3"
  define hi where "hi = opcodes_4 @ opcodes_5 @ opcodes_6 @ opcodes_7"
  have split: "BxOpcodeInfo = lo @ hi" "length lo = 512" "length hi = 512"
    by (simp_all add: BxOpcodeInfo_def lo_def hi_def)
  have "entry_ok b1 (lo ! b1)" "entry_ok b1 (hi ! b1)"
    using table_ok_nth [OF BxOpcodeInfo_halves(1), of b1] table_ok_nth [OF BxOpcodeInfo_halves(2), of b1] assms
    by (simp_all add: lo_def hi_def)
  then show ?thesis
    using assms by (simp add: opcode_info_def split nth_append)
qed

lemma floating_point_ok:
  assumes "k < 512"
  shows "Attr (BxOpcodeInfo_FloatingPoint ! k) = 0" "ExecutePtr (BxOpcodeInfo_FloatingPoint ! k) \<noteq> None"
proof -
  have "length BxOpcodeInfo_FloatingPoint = 512"
    "list_all (\<lambda>i. Attr i = 0 \<and> ExecutePtr i \<noteq> None) BxOpcodeInfo_FloatingPoint"
    by (simp_all add: BxOpcodeInfo_FloatingPoint_def x87_opcodes_0_def x87_opcodes_1_def
        x87_opcodes_2_def x87_opcodes_3_def)
  then show "Attr (BxOpcodeInfo_FloatingPoint ! k) = 0" "ExecutePtr (BxOpcodeInfo_FloatingPoint ! k) \<noteq> None"
    using assms by (simp_all add: list_all_length)
qed

section \<open>The decoder knows its tables\<close>

lemma index_lt_8: "unat (drop_bit 3 (b :: Bit8u) AND 7) < 8"
proof -
  have "drop_bit 3 b AND 7 \<le> 7"
    by (rule word_and_le1)
  then show ?thesis
    by (simp add: word_le_nat_alt)
qed

lemma index_lt_64: "unat (b AND 0x3f :: Bit8u) < 64"
proof -
  have "b AND 0x3f \<le> 0x3f"
    by (rule word_and_le1)
  then show ?thesis
    by (simp add: word_le_nat_alt)
qed

text \<open>The loop over the group tables ends at an entry with a handler.\<close>

definition found_handler :: "nat \<Rightarrow> Bit16u \<times> BxOpcodeInfo_t \<Rightarrow> bool" where
  "found_handler cap = (\<lambda>(a, info).
     a AND BxImmediate \<le> BxImmediate_BrOff16 \<and> imm_size a \<le> cap \<and>
       ExecutePtr info \<noteq> None)"

definition sse_ok :: "nat \<Rightarrow> bool" where
  "sse_ok n \<longleftrightarrow> n < 8"

lemma sse_index_lt: "sse_ok n \<Longrightarrow> sse_prefix_index ! n = Some k \<Longrightarrow> k < 4"
proof -
  assume "sse_ok n" and *: "sse_prefix_index ! n = Some k"
  then have "n = 0 \<or> n = 1 \<or> n = 2 \<or> n = 3 \<or> n = 4 \<or> n = 5 \<or> n = 6 \<or> n = 7"
    by (auto simp: sse_ok_def)
  then show "k < 4"
    using * by (elim disjE) (simp_all add: sse_prefix_index_def)
qed

lemma mask_absorb: "(a AND NOT g) AND g = (0 :: Bit16u)"
  by (simp add: and.assoc)

lemma resolve_leaf:
  assumes "leaf_ok cap a info"
  shows "fetches (found_handler cap) (resolve_group fuel b1 b2 m sse a info)"
proof -
  have "a AND BxGroupX = 0"
    using assms by (simp add: leaf_ok_def)
  moreover have *: "(a AND NOT BxGroupX) AND BxImmediate = a AND BxImmediate"
    by (simp add: opcode_attributes and.assoc)
  moreover have "imm_size (a AND NOT BxGroupX) = imm_size a"
    by (simp only: imm_size_def *)
  ultimately show ?thesis
    using assms
    by (subst resolve_group.simps) (simp add: Let_def found_handler_def leaf_ok_def)
qed

lemma resolve_group_fetches:
  assumes "info_ok fuel b1 a info" and "sse_ok sse"
  shows "fetches (found_handler (modrm_cap b1)) (resolve_group fuel b1 b2 m sse a info)"
  using assms(1)
proof (induction fuel arbitrary: a info)
  case 0
  then show ?case
    by (simp add: resolve_leaf)
next
  case (Suc k)
  show ?case
  proof (cases "a AND BxGroupX = 0")
    case True
    then show ?thesis
      using Suc.prems by (simp add: resolve_leaf)
  next
    case False
    define c where "c = a AND NOT BxGroupX"
    define go where "go = (\<lambda>info'. resolve_group k b1 b2 m sse (c OR Attr info') info')"
    define t where "t = AnotherArray info"
    have size: "t \<noteq> []" "length t = group_size b1 a"
      and children: "\<And>j. j < length t \<Longrightarrow> fetches (found_handler (modrm_cap b1))
        (go (t ! j))"
      using Suc.prems False Suc.IH
      by (auto simp: c_def go_def t_def list_all_length)
    have fp: "fetches (found_handler (modrm_cap b1))
      (go (BxOpcodeInfo_FloatingPoint ! ((b1 - 0xD8) * 64 + unat (b2 AND 0x3f))))"
      if "b1 div 8 = 27" "a AND BxImmediate = 0"
    proof -
      define n where "n = (b1 - 0xD8) * 64 + unat (b2 AND 0x3f)"
      have "b1 - 0xD8 \<le> 7"
        using that(1) by linarith
      then have "n < 512"
        using index_lt_64 [of b2] by (simp add: n_def)
      note x = floating_point_ok [OF this]
      have "c AND BxImmediate = 0"
        using that(2) by (simp add: c_def opcode_attributes and.assoc)
      then have "leaf_ok (modrm_cap b1) (c OR Attr (BxOpcodeInfo_FloatingPoint ! n))
        (BxOpcodeInfo_FloatingPoint ! n)"
        using x mask_absorb [of a BxGroupX] by (simp add: leaf_ok_def imm_size_def c_def)
      then show ?thesis
        by (simp add: go_def n_def resolve_leaf)
    qed
    have step: "resolve_group (Suc k) b1 b2 m sse a info =
      (if a AND BxGroupX = BxGroupN then go (t ! unat (drop_bit 3 b2 AND 7))
       else if a AND BxGroupX = BxPrefixSSE then
         (case sse_prefix_index ! sse of None \<Rightarrow> fundefined | Some op \<Rightarrow> go (t ! op))
       else if a AND BxGroupX = BxSplitMod11b then go (t ! (if m = 0xc0 then 1 else 0))
       else if a AND BxGroupX = BxFPGroup then
         (if m \<noteq> 0xc0 then go (t ! unat (drop_bit 3 b2 AND 7))
          else go (BxOpcodeInfo_FloatingPoint ! ((b1 - 0xD8) * 64 + unat (b2 AND 0x3f))))
       else funknown ''fetchdecode: Unknown opcode group'')"
      using False by (subst resolve_group.simps) (simp add: Let_def go_def c_def t_def split: option.split)
    show ?thesis
      using size children fp index_lt_8 [of b2] sse_index_lt [OF assms(2)] unfolding step
      by (auto simp: group_size_def Let_def opcode_attributes split: if_splits option.split)
  qed
qed

text \<open>The state after the opcode.\<close>

definition opcode_state :: "decode_state \<times> nat \<Rightarrow> bool" where
  "opcode_state = (\<lambda>(d, b1). b1 < 512 \<and> sse_ok (d_sse_prefix d) \<and>
     (Attr (opcode_info d b1) AND BxAnother \<noteq> 0 \<longrightarrow>
       Attr (opcode_info d b1) AND BxPrefix = 0 \<and> b1 \<noteq> 0x0f))"

lemma set_insn_fields [simp]:
  "d_sse_prefix (set_insn f d) = d_sse_prefix d" "opcode_info (set_insn f d) = opcode_info d"
  "d_lock (set_insn f d) = d_lock d"
  by (simp_all add: set_insn_def opcode_info_def fun_eq_iff)

lemma sse_ok_or:
  assumes "sse_ok n" and "k \<in> {1, 2, 4}"
  shows "sse_ok (n OR k)"
proof -
  have "n = 0 \<or> n = 1 \<or> n = 2 \<or> n = 3 \<or> n = 4 \<or> n = 5 \<or> n = 6 \<or> n = 7"
    using assms(1) by (auto simp: sse_ok_def)
  then show ?thesis
    using assms(2) unfolding sse_ok_def by (elim disjE) auto
qed

lemma prefix_byte_Some:
  assumes "b1 \<in> set prefix_bytes" and "sse_ok (d_sse_prefix d)"
  obtains d2 where "prefix_byte b1 d = Some d2" and "sse_ok (d_sse_prefix d2)"
  using assms sse_ok_or [OF assms(2)]
  by (auto simp: prefix_bytes_def prefix_byte_def SSE_PREFIX_66_def SSE_PREFIX_F2_def SSE_PREFIX_F3_def)

lemma prefix_entry:
  assumes "b1 < 512" and "Attr (opcode_info d b1) AND BxAnother \<noteq> 0 \<and>
    Attr (opcode_info d b1) AND BxPrefix \<noteq> 0"
  shows "b1 \<in> set prefix_bytes"
  using opcode_info_ok [OF assms(1), of d] assms(2) by (simp add: entry_ok_def)

text \<open>
  The opcode follows the prefixes; their number bounds how far \<open>fetch_b1\<close> reads.
\<close>

definition prefixes :: "Bit8u list \<Rightarrow> nat" where
  "prefixes bs = length (takeWhile (\<lambda>b. unat b \<in> set prefix_bytes) bs)"

lemma fetch_b1_yields:
  assumes "sse_ok (d_sse_prefix d)"
  shows "case fetch_b1 d bs of
      Fetched x r \<Rightarrow> opcode_state x \<and> length r < length bs \<and>
        length bs + (if snd x < 256 then 1 else 0) \<le> length r + prefixes bs + 2
    | Short \<Rightarrow> length bs < prefixes bs + 2
    | Undefined \<Rightarrow> True
    | Unknown msg \<Rightarrow> False"
  using assms
proof (induction bs arbitrary: d)
  case Nil
  then show ?case by simp
next
  case (Cons b bs)
  define a where "a = Attr (opcode_info d (unat b))"
  define d1 where "d1 = set_insn (setRepAttr a) d"
  have b: "unat b < 256"
    using unsigned_less [of b, where ?'a = nat] by simp
  have d1: "sse_ok (d_sse_prefix d1)" "opcode_info d1 = opcode_info d"
    using Cons.prems by (simp_all add: d1_def)
  consider (prefix) "a AND BxAnother \<noteq> 0 \<and> a AND BxPrefix \<noteq> 0"
    | (two) "\<not> (a AND BxAnother \<noteq> 0 \<and>
      a AND BxPrefix \<noteq> 0)" "a AND BxAnother \<noteq> 0 \<and> unat b = 0x0f"
    | (one) "\<not> (a AND BxAnother \<noteq> 0 \<and>
      a AND BxPrefix \<noteq> 0)" "\<not> (a AND BxAnother \<noteq> 0 \<and> unat b = 0x0f)"
    by blast
  then show ?case
  proof cases
    case prefix
    then have p: "unat b \<in> set prefix_bytes"
      using prefix_entry [of "unat b" d] b by (simp add: a_def)
    obtain d2 where d2: "prefix_byte (unat b) d1 = Some d2" "sse_ok (d_sse_prefix d2)"
      by (rule prefix_byte_Some [OF p d1(1)])
    have eq: "fetch_b1 d (b # bs) = fetch_b1 d2 bs"
      using prefix d2 by (simp add: fetch_b1_Cons a_def [symmetric] d1_def [symmetric])
    show ?thesis
      using Cons.IH [OF d2(2)] p unfolding eq
      by (auto simp: prefixes_def split: fetch.splits)
  next
    case two
    have eq: "fetch_b1 d (b # bs) = (case bs of
         [] \<Rightarrow> Short
       | b2 # r \<Rightarrow>
           (let b1 = 256 + unat b2; a = Attr (opcode_info d1 b1) in
            if a AND BxAnother \<noteq> 0 \<and> a AND BxPrefix \<noteq> 0
            then Unknown ''fetch_decode: prefix default''
            else Fetched (set_insn (setRepAttr a) d1, b1) r))"
      by (simp only: fetch_b1_Cons Let_def a_def [symmetric] d1_def [symmetric]
          if_not_P [OF two(1)] if_P [OF two(2)])
    show ?thesis
    proof (cases bs)
      case Nil
      then show ?thesis
        unfolding eq by simp
    next
      case (Cons b2 r)
      have b2: "256 + unat b2 < 512"
        using unsigned_less [of b2, where ?'a = nat] by simp
      have "256 + unat b2 \<notin> set prefix_bytes"
        by (simp add: prefix_bytes_def)
      then have "\<not> (Attr (opcode_info d (256 + unat b2)) AND BxAnother \<noteq> 0 \<and>
          Attr (opcode_info d (256 + unat b2)) AND BxPrefix \<noteq> 0)"
        using prefix_entry [OF b2, of d] by blast
      then show ?thesis
        using Cons b2 d1 unfolding eq by (auto simp: Let_def opcode_state_def)
    qed
  next
    case one
    have eq: "fetch_b1 d (b # bs) = Fetched (d1, unat b) bs"
      by (simp only: fetch_b1_Cons Let_def a_def [symmetric] d1_def [symmetric]
          if_not_P [OF one(1)] if_not_P [OF one(2)])
    show ?thesis
      using one b d1 by (auto simp: eq opcode_state_def a_def)
  qed
qed

section \<open>How far a fetcher reads\<close>

definition at_most :: "nat \<Rightarrow> 'a fetcher \<Rightarrow> bool" where
  "at_most n m \<longleftrightarrow> (\<forall>bs. case m bs of
      Fetched x r \<Rightarrow> length bs \<le> length r + n
    | Short \<Rightarrow> length bs < n
    | _ \<Rightarrow> True)"

lemma at_most_mono: "at_most n m \<Longrightarrow> n \<le> k \<Longrightarrow> at_most k m"
  by (fastforce simp: at_most_def split: fetch.splits)

lemma at_most_fthen:
  assumes "at_most n m" and "\<And>x. at_most k (f x)"
  shows "at_most (n + k) (fthen m f)"
  unfolding at_most_def
proof
  fix bs
  show "case fthen m f bs of
      Fetched x r \<Rightarrow> length bs \<le> length r + (n + k)
    | Short \<Rightarrow> length bs < n + k
    | _ \<Rightarrow> True"
  proof (cases "m bs")
    case (Fetched x r)
    then have "length bs \<le> length r + n"
      using assms(1) by (auto simp: at_most_def dest: spec [where x = bs])
    moreover have "case f x r of
        Fetched y t \<Rightarrow> length r \<le> length t + k
      | Short \<Rightarrow> length r < k
      | _ \<Rightarrow> True"
      using assms(2) [of x] by (simp add: at_most_def)
    ultimately show ?thesis
      using Fetched by (auto split: fetch.splits)
  next
    case Short
    then show ?thesis
      using assms(1) [unfolded at_most_def, THEN spec, of bs] by simp
  qed (simp_all add: fthen_def)
qed

lemma at_most_0 [simp]: "at_most n (fetched x)" "at_most n fundefined" "at_most n (funknown msg)"
  by (simp_all add: at_most_def)

lemma at_most_if [simp]: "at_most n (if b then m else m') \<longleftrightarrow> (b \<longrightarrow>
  at_most n m) \<and> (\<not> b \<longrightarrow> at_most n m')"
  by simp

lemma at_most_bytes: "at_most 1 FetchBYTE" "at_most 2 FetchWORD" "at_most 4 FetchDWORD"
proof -
  show "at_most 1 FetchBYTE"
    unfolding at_most_def by (intro allI, case_tac bs rule: FetchBYTE.cases) simp_all
  show "at_most 2 FetchWORD"
    unfolding at_most_def by (intro allI, case_tac bs rule: FetchWORD.cases) simp_all
  show "at_most 4 FetchDWORD"
    unfolding at_most_def by (intro allI, case_tac bs rule: FetchDWORD.cases) simp_all
qed

lemma at_most_then_fetched:
  "1 \<le> n \<Longrightarrow> at_most n (fthen FetchBYTE (\<lambda>b. fetched (f1 b)))"
  "2 \<le> n \<Longrightarrow> at_most n (fthen FetchWORD (\<lambda>b. fetched (f2 b)))"
  "4 \<le> n \<Longrightarrow> at_most n (fthen FetchDWORD (\<lambda>b. fetched (f4 b)))"
  by (rule at_most_mono [OF at_most_fthen [where k = 0]], (rule at_most_bytes at_most_0)+, simp)+

lemma at_most_displ:
  "at_most 4 (get_8bit_displ i)" "at_most 4 (get_32bit_displ i)" "at_most 4 (get_8bit_displ16 i)"
  "at_most 4 (get_16bit_displ i)"
  by (simp_all add: get_8bit_displ_def get_32bit_displ_def get_8bit_displ16_def get_16bit_displ_def
      at_most_then_fetched)

lemma at_most_modrm: "at_most 5 (fetch_modrm b1 b2 i)"
proof -
  have "at_most (1 + 4) (modrm_sib m i)" for m i
    unfolding modrm_sib_def
    by (rule at_most_fthen [OF at_most_bytes(1)]) (simp add: Let_def at_most_displ)
  then show ?thesis
    using at_most_displ [THEN at_most_mono, of 5]
    by (simp add: fetch_modrm_def modrm_32_def modrm_16_def Let_def)
qed

lemma at_most_resolve_group: "at_most 0 (resolve_group fuel b1 b2 m sse a info)"
proof (induction fuel arbitrary: a info m)
  case 0
  show ?case
    by (subst resolve_group.simps) (simp add: Let_def split: option.split)
next
  case (Suc fuel)
  then show ?case
    by (subst resolve_group.simps) (simp add: Let_def split: option.split)
qed

lemma at_most_immediate:
  assumes "a AND BxImmediate \<le> BxImmediate_BrOff16"
  shows "at_most (imm_size a) (fetch_immediate a i)"
proof -
  have Iv: "at_most 4 (fetch_Iv i)"
    by (simp add: fetch_Iv_def at_most_then_fetched)
  have IvIw: "at_most 6 (fthen (fetch_Iv i)
    (\<lambda>i. fthen FetchWORD (\<lambda>w. fetched (set_displ16u w i))))"
    using at_most_fthen [OF Iv, where k = 2 and f = "\<lambda>i. fthen FetchWORD (\<lambda>w. fetched (set_displ16u w i))"]
    by (simp add: at_most_then_fetched)
  have IwIb: "at_most 3 (fthen FetchWORD (\<lambda>w. fthen FetchBYTE (\<lambda>b. fetched (set_Ib2 b (set_Iw w i)))))"
    using at_most_fthen [OF at_most_bytes(2), where k = 1
        and f = "\<lambda>w. fthen FetchBYTE (\<lambda>b. fetched (set_Ib2 b (set_Iw w i)))"]
    by (simp add: at_most_then_fetched)
  have "at_most 4 (if as32L i then FetchDWORD else fthen FetchWORD (\<lambda>w. fetched (ucast w)))"
    by (simp add: at_most_then_fetched at_most_bytes)
  then have O: "at_most 4 (fthen (if as32L i then FetchDWORD else fthen FetchWORD (\<lambda>w. fetched (ucast w)))
      (\<lambda>w. fetched (default_seg (Some DS) (set_Id w i))))"
    by (rule at_most_fthen [where n = 4 and k = 0, simplified]) simp
  show ?thesis
    using imm_cases [of "a AND BxImmediate"] assms Iv IvIw IwIb O unfolding fetch_immediate_def imm_size_def
    by (auto simp: Let_def opcode_attributes at_most_then_fetched)
qed

section \<open>The decoder\<close>

lemma fetchesD: "fetches P m \<Longrightarrow> m bs = Fetched x r \<Longrightarrow> P x"
  unfolding fetches_def by (drule spec [where x = bs]) simp

definition operand_part :: "decode_state \<Rightarrow> nat \<Rightarrow> (Bit8u \<times> Bit16u \<times> execute_ptr option \<times> bxInstruction) fetcher" where
  "operand_part d b1 =
     (if Attr (opcode_info d b1) AND BxAnother \<noteq> 0 then decode_modrm d b1 else decode_plain d b1)"

definition operand_found :: "nat \<Rightarrow> Bit8u \<times> Bit16u \<times> execute_ptr option \<times> bxInstruction \<Rightarrow> bool" where
  "operand_found cap = (\<lambda>(m, a, e, i).
     a AND BxImmediate \<le> BxImmediate_BrOff16 \<and> imm_size a \<le> cap \<and> e \<noteq> None)"

lemma operand_part_modrm:
  assumes "opcode_state (d, b1)" and "Attr (opcode_info d b1) AND BxAnother \<noteq> 0"
  shows "fetches (operand_found (modrm_cap b1)) (operand_part d b1)" "at_most 6 (operand_part d b1)"
proof -
  have ok: "info_ok group_depth b1 (Attr (opcode_info d b1)) (opcode_info d b1)" "sse_ok (d_sse_prefix d)"
    using assms opcode_info_ok [of b1 d] by (auto simp: opcode_state_def entry_ok_def)
  show "fetches (operand_found (modrm_cap b1)) (operand_part d b1)"
    using assms(2) unfolding operand_part_def decode_modrm_def Let_def
    by (auto intro!: fetches_byte_then(1) fetches_fthen [OF fetches_modrm]
        fetches_fthen [OF resolve_group_fetches [OF ok]] simp: found_handler_def operand_found_def)
  have "at_most (1 + (5 + (0 + 0))) (decode_modrm d b1)"
    unfolding decode_modrm_def Let_def
    by (intro at_most_fthen at_most_bytes at_most_modrm at_most_resolve_group) (simp split: prod.split)
  then show "at_most 6 (operand_part d b1)"
    using assms(2) by (simp add: operand_part_def)
qed

lemma operand_part_plain:
  assumes "opcode_state (d, b1)" and "Attr (opcode_info d b1) AND BxAnother = 0"
  shows "fetches (operand_found 9) (operand_part d b1)" "at_most 0 (operand_part d b1)"
  using assms opcode_info_ok [of b1 d]
  by (simp_all add: operand_part_def decode_plain_def Let_def entry_ok_def leaf_ok_def opcode_state_def
      operand_found_def)

definition last_part :: "decode_state \<Rightarrow> nat \<Rightarrow> (Bit8u \<times> Bit16u \<times> execute_ptr option \<times> bxInstruction) \<Rightarrow>
    (execute_ptr option \<times> bxInstruction) fetcher" where
  "last_part d b1 = (\<lambda>(m, a, e, i).
     if d_lock d \<and> (m = 0xc0 \<or> a AND BxLockable = 0) then fundefined
     else fthen (fetch_immediate a i) (\<lambda>i. fetched (e, i\<lparr>i_b1 := b1\<rparr>)))"

lemma last_part:
  assumes "operand_found cap x"
  shows "fetches (\<lambda>(e, i). e \<noteq> None) (last_part d b1 x)" "at_most cap (last_part d b1 x)"
proof -
  obtain m a e i where x: "x = (m, a, e, i)"
    by (cases x)
  have a: "a AND BxImmediate \<le> BxImmediate_BrOff16" "imm_size a \<le> cap" "e \<noteq> None"
    using assms by (simp_all add: operand_found_def x)
  show "fetches (\<lambda>(e, i). e \<noteq> None) (last_part d b1 x)"
    using a(3) by (auto simp: last_part_def x intro: fetches_fthen [OF fetches_immediate [OF a(1)]])
  have "at_most (imm_size a + 0) (fthen (fetch_immediate a i)
    (\<lambda>i. fetched (e, i\<lparr>i_b1 := b1\<rparr>)))"
    by (rule at_most_fthen [OF at_most_immediate [OF a(1)]]) simp
  then show "at_most cap (last_part d b1 x)"
    using a(2) by (simp add: last_part_def x at_most_mono)
qed

lemma rest_of_instruction:
  assumes "opcode_state (d, b1)"
  shows "fetches (\<lambda>(e, i). e \<noteq> None) (fthen (operand_part d b1) (last_part d b1))"
    "at_most (if b1 < 256 then 10 else 9) (fthen (operand_part d b1) (last_part d b1))"
proof -
  define cap where "cap = (if Attr (opcode_info d b1) AND BxAnother \<noteq> 0 then modrm_cap b1 else 9)"
  define n where "n = (if Attr (opcode_info d b1) AND BxAnother \<noteq> 0 then 6 else 0 :: nat)"
  have f: "fetches (operand_found cap) (operand_part d b1)" and n: "at_most n (operand_part d b1)"
    using operand_part_modrm [OF assms] operand_part_plain [OF assms] by (simp_all add: cap_def n_def)
  show "fetches (\<lambda>(e, i). e \<noteq> None) (fthen (operand_part d b1) (last_part d b1))"
    by (rule fetches_fthen [OF f last_part(1)])
  have "at_most (n + cap) (fthen (operand_part d b1) (last_part d b1))"
    unfolding at_most_def
  proof
    fix bs
    show "case fthen (operand_part d b1) (last_part d b1) bs of
        Fetched x r \<Rightarrow> length bs \<le> length r + (n + cap)
      | Short \<Rightarrow> length bs < n + cap
      | _ \<Rightarrow> True"
    proof (cases "operand_part d b1 bs")
      case (Fetched x r)
      have "length bs \<le> length r + n"
        using n [unfolded at_most_def, THEN spec, of bs] Fetched by simp
      then show ?thesis
        using last_part(2) [OF fetchesD [OF f Fetched], of d b1, unfolded at_most_def, THEN spec, of r] Fetched
        by (auto split: fetch.splits)
    next
      case Short
      then show ?thesis
        using n [unfolded at_most_def, THEN spec, of bs] by simp
    qed (simp_all add: fthen_def)
  qed
  moreover have "n + cap \<le> (if b1 < 256 then 10 else 9)"
    by (simp add: n_def cap_def modrm_cap_def)
  ultimately show "at_most (if b1 < 256 then 10 else 9) (fthen (operand_part d b1) (last_part d b1))"
    by (rule at_most_mono)
qed

lemma decode_bytes_parts:
  "decode_bytes big i =
     fthen (fetch_b1 (decode_init big i)) (\<lambda>(d, b1). fthen (operand_part d b1) (last_part d b1))"
  by (simp add: decode_bytes_def operand_part_def last_part_def)

lemma decode_bytes_yields:
  "case decode_bytes big i bs of
     Fetched (e, j) r \<Rightarrow> e \<noteq> None \<and> length r < length bs \<and>
       length bs \<le> length r + prefixes bs + 11
   | Short \<Rightarrow> length bs < prefixes bs + 11
   | Undefined \<Rightarrow> True
   | Unknown msg \<Rightarrow> False"
proof -
  have first: "case fetch_b1 (decode_init big i) bs of
      Fetched x r \<Rightarrow> opcode_state x \<and> length r < length bs \<and>
        length bs + (if snd x < 256 then 1 else 0) \<le> length r + prefixes bs + 2
    | Short \<Rightarrow> length bs < prefixes bs + 2
    | Undefined \<Rightarrow> True
    | Unknown msg \<Rightarrow> False"
    by (rule fetch_b1_yields) (simp add: decode_init_def sse_ok_def)
  show ?thesis
  proof (cases "fetch_b1 (decode_init big i) bs")
    case (Fetched x r)
    obtain d b1 where x: "x = (d, b1)"
      by (cases x)
    define m where "m = fthen (operand_part d b1) (last_part d b1)"
    have st: "opcode_state (d, b1)" and len: "length r < length bs"
        "length bs + (if b1 < 256 then 1 else 0) \<le> length r + prefixes bs + 2"
      using first Fetched by (simp_all add: x)
    have "decode_bytes big i bs = m r"
      by (simp add: decode_bytes_parts Fetched x m_def)
    moreover have "case m r of Fetched (e, j) t \<Rightarrow> e \<noteq> None | Unknown msg \<Rightarrow> False | _ \<Rightarrow> True"
      using rest_of_instruction(1) [OF st, unfolded fetches_def, THEN spec, of r]
      by (simp add: m_def split: fetch.splits prod.splits)
    moreover have "case m r of
        Fetched x t \<Rightarrow> length r \<le> length t + (if b1 < 256 then 10 else 9)
      | Short \<Rightarrow> length r < (if b1 < 256 then 10 else 9)
      | _ \<Rightarrow> True"
      using rest_of_instruction(2) [OF st, unfolded at_most_def, THEN spec, of r] by (simp only: m_def)
    moreover have "length t \<le> length r" if y: "m r = Fetched y t" for y t
    proof -
      have "local_fetch m"
        unfolding m_def operand_part_def last_part_def decode_modrm_def decode_plain_def
        by (intro local_intros)
      obtain p where "r = p @ t"
        using local_fetchD [OF \<open>local_fetch m\<close> y] by metis
      then show ?thesis by simp
    qed
    ultimately show ?thesis
      using len by (cases "m r") (auto split: if_splits)
  qed (use first in \<open>auto simp: decode_bytes_parts fthen_def\<close>)
qed

text \<open>C12
  No input makes the decoder meet an opcode entry, a group or an operand kind it does not know, and
  the loop over the group tables ends. Every decoded instruction has a handler; its length is at
  least 1, not more than the bytes given and not more than eleven bytes beyond its prefixes. It asks
  for more bytes only when fewer than eleven follow the prefixes.\<close>

theorem decoder_total:
  "case decode big bs i of
     Fetched (e, j) r \<Rightarrow> e \<noteq> None \<and> 0 < i_ilen j \<and> i_ilen j \<le> length bs \<and>
       i_ilen j \<le> prefixes bs + 11 \<and> r = drop (i_ilen j) bs
   | Short \<Rightarrow> length bs < prefixes bs + 11
   | Undefined \<Rightarrow> True
   | Unknown msg \<Rightarrow> False"
proof (cases "decode_bytes big i bs")
  case (Fetched x r)
  obtain e j where x: "x = (e, j)"
    by (cases x)
  obtain p where "bs = p @ r"
    using local_fetchD [OF local_decode_bytes Fetched] by metis
  then show ?thesis
    using decode_bytes_yields [where big = big and i = i and bs = bs] Fetched by (simp add: decode_def x)
qed (use decode_bytes_yields [where big = big and i = i and bs = bs] in \<open>simp_all add: decode_def\<close>)

lemma decode_Fetched:
  assumes "decode big bs i = Fetched (e, j) r"
  shows "decode big (take (i_ilen j) bs @ q) i = Fetched (e, j) q" "i_ilen j \<le> length bs"
proof -
  obtain k where k: "decode_bytes big i bs = Fetched (e, k) r" "j = k\<lparr>i_ilen := length bs - length r\<rparr>"
    using assms by (auto simp: decode_def split: fetch.splits)
  obtain p where p: "bs = p @ r" "\<And>q. decode_bytes big i (p @ q) = Fetched (e, k) q"
    using local_fetchD [OF local_decode_bytes k(1)] by metis
  show "decode big (take (i_ilen j) bs @ q) i = Fetched (e, j) q" "i_ilen j \<le> length bs"
    using k(2) p by (simp_all add: decode_def)
qed

lemma decode_Undefined: "decode big bs i = Undefined \<Longrightarrow> decode big (bs @ q) i = Undefined"
  using local_Undefined [OF local_decode_bytes, of big i bs q]
  by (auto simp: decode_def split: fetch.splits)

lemma decode_take:
  assumes "decode big bs i = Fetched (e, j) r"
  shows "decode big (take n bs) i = (if n < i_ilen j then Short else Fetched (e, j) (drop (i_ilen j)
    (take n bs)))"
proof -
  note same = decode_Fetched [OF assms]
  show ?thesis
  proof (cases "n < i_ilen j")
    case True
    have "decode big (take n bs) i = Short"
    proof (cases "decode big (take n bs) i")
      case (Fetched x t)
      obtain e' j' where x: "x = (e', j')"
        by (cases x)
      have f: "decode big (take n bs) i = Fetched (e', j') t"
        using Fetched x by simp
      have le: "i_ilen j' \<le> n"
        using decode_Fetched(2) [OF f] by simp
      have "decode big (take (i_ilen j') (take n bs) @ drop (i_ilen j') bs) i = Fetched (e', j')
        (drop (i_ilen j') bs)"
        by (rule decode_Fetched(1) [OF f])
      moreover have "take (i_ilen j') (take n bs) @ drop (i_ilen j') bs = bs"
        using le by (simp add: min_absorb1)
      ultimately have "j' = j"
        using assms by simp
      then show ?thesis
        using le True by simp
    next
      case Undefined
      then show ?thesis
        using decode_Undefined [OF Undefined, of "drop n bs"] assms by simp
    next
      case (Unknown msg)
      then show ?thesis
        using decode_bytes_yields [where big = big and i = i and bs = "take n bs"] by (auto simp: decode_def split: fetch.splits)
    qed simp
    then show ?thesis
      using True by simp
  next
    case False
    then have "take n bs = take (i_ilen j) bs @ drop (i_ilen j) (take n bs)"
      by (metis append_take_drop_id linorder_not_less min.absorb1 take_take)
    then show ?thesis
      using same(1) [of "drop (i_ilen j) (take n bs)"] False by simp
  qed
qed

text \<open>C14
  The decoder looks only at the bytes of the instruction: with fewer bytes it asks for more, and
  with these bytes followed by any others it yields the same instruction and handler. So the
  instructions form a prefix code, and a second attempt with more bytes after a page boundary
  decodes the same instruction.\<close>

theorem decoder_is_prefix_code:
  assumes "decode big bs i = Fetched (e, j) r"
  shows "decode big (take n bs) i = (if n < i_ilen j then Short else Fetched (e, j) (drop (i_ilen j)
    (take n bs))) \<and>
    decode big (take (i_ilen j) bs @ q) i = Fetched (e, j) q"
  by (rule conjI [OF decode_take [OF assms] decode_Fetched(1) [OF assms]])

text \<open>\<open>mov eax, [esp - 4]\<close> in 32-bit code, followed by another byte.\<close>

lemma mov_entry:
  "opcode_info d 0x8b = (if d_os_32 d then group (BxAnother OR BxSplitMod11b) opcodesMOV_GdEd
     else group (BxAnother OR BxSplitMod11b) opcodesMOV_GwEw)"
  by (simp add: opcode_info_def BxOpcodeInfo_def nth_append opcodes_1_def opcodes_5_def)

lemma decode_mov:
  "\<exists>j. decode True [0x8b, 0x44, 0x24, 0xfc, 0x90] i = Fetched (Some (Handler MOV_GdEEd), j) [0x90] \<and> i_ilen j = 4"
  by (simp add: decode_def decode_bytes_def decode_init_def fetch_b1_Cons mov_entry decode_modrm_def
      fetch_modrm_def modrm_mod_def modrm_32_def modrm_sib_def set_modRMData_def set_sib_def get_8bit_displ_def
      group_depth_def resolve_group.simps fetch_immediate_def opcodesMOV_GdEd_def opcode_attributes
      set_insn_def initMetaInfo_def setRepAttr_def Let_def)

lemma prefix_code_witness:
  "\<exists>j. decode True [0x8b, 0x44, 0x24] (reg_instr 0 0) = Short \<and>
     decode True [0x8b, 0x44, 0x24, 0xfc, 0xcc] (reg_instr 0 0) = Fetched (Some (Handler MOV_GdEEd), j) [0xcc]"
proof -
  obtain j where j: "decode True [0x8b, 0x44, 0x24, 0xfc, 0x90] (reg_instr 0 0) =
      Fetched (Some (Handler MOV_GdEEd), j) [0x90]" "i_ilen j = 4"
    using decode_mov [of "reg_instr 0 0"] by auto
  show ?thesis
    using decoder_is_prefix_code [OF j(1), of 3 "[0xcc]"] j(2) by auto
qed

end
