(* ===== verification/BxFetchTheorems.thy ===== *)
theory BxFetchTheorems
  imports BxLoop BxDecodeTheorems BxMachine BxPagingSpec
begin

text \<open>
  Fetching: whatever page window is open, and wherever the page boundary falls, the instruction
  fetched is the one the bytes in memory at CS:EIP encode.
\<close>

section \<open>The bytes of the code\<close>

text \<open>Without paging, the byte at a linear address, through the A20 gate.\<close>

definition code_byte :: "cpu \<Rightarrow> Bit32u \<Rightarrow> Bit8u" where
  "code_byte s a = phys_byte (mem s) (A20ADDR s a)"

definition code_bytes :: "cpu \<Rightarrow> Bit32u \<Rightarrow> nat \<Rightarrow> Bit8u list" where
  "code_bytes s a n = map (\<lambda>k. code_byte s (a + word_of_nat k)) [0..<n]"

lemma length_code_bytes [simp]: "length (code_bytes s a n) = n"
  by (simp add: code_bytes_def)

lemma code_bytes_take: "m \<le> n \<Longrightarrow> take m (code_bytes s a n) = code_bytes s a m"
  by (simp add: code_bytes_def take_map min_def)

lemma code_bytes_append: "code_bytes s a m @ code_bytes s (a + word_of_nat m) n = code_bytes s a (m + n)"
proof -
  have "code_bytes s (a + word_of_nat m) n = map (\<lambda>k. code_byte s (a + word_of_nat k))
    (map (\<lambda>k. k + m) [0..<n])"
    by (simp add: code_bytes_def algebra_simps)
  also have "map (\<lambda>k. k + m) [0..<n] = [m..<m + n]"
    by (simp add: map_add_upt add.commute)
  finally show ?thesis
    by (simp add: code_bytes_def upt_add_eq_append [of 0 m n, simplified])
qed

text \<open>The host page of a page of code.\<close>

definition code_page :: "cpu \<Rightarrow> Bit32u \<Rightarrow> nat option" where
  "code_page s p = getHostMemAddr (A20ADDR s p) BX_READ s"

lemma small_offset:
  assumes "k < 4096"
  shows "(word_of_nat k :: Bit32u) AND mask 12 = word_of_nat k" "drop_bit 12 (word_of_nat k :: Bit32u) = 0"
proof -
  have u: "unat (word_of_nat k :: Bit32u) = k"
    using assms by (simp add: unat_of_nat take_bit_nat_eq_self)
  then have "take_bit 12 (word_of_nat k :: Bit32u) = word_of_nat k"
    using assms by (simp add: word_unat_eq_iff unsigned_take_bit_eq take_bit_nat_eq_self)
  then show m: "(word_of_nat k :: Bit32u) AND mask 12 = word_of_nat k"
    by (simp only: take_bit_eq_mask)
  have "drop_bit 12 (take_bit 12 (word_of_nat k :: Bit32u)) = 0"
    by (simp add: drop_bit_take_bit)
  then show "drop_bit 12 (word_of_nat k :: Bit32u) = 0"
    using m by (simp only: take_bit_eq_mask)
qed

lemma small_and_a20:
  assumes "a20_mask_ok s" and "k < 4096"
  shows "word_of_nat k AND a20_mask s = (word_of_nat k :: Bit32u)"
proof -
  have m: "mask 12 AND a20_mask s = mask 12"
    using assms(1) by (auto simp: a20_mask_ok_def mask_eq_exp_minus_1)
  have "word_of_nat k AND a20_mask s = (word_of_nat k AND mask 12) AND a20_mask s"
    by (simp only: small_offset(1) [OF assms(2)])
  also have "\<dots> = word_of_nat k AND (mask 12 AND a20_mask s)"
    by (rule and.assoc)
  also have "\<dots> = word_of_nat k"
    by (simp only: m small_offset(1) [OF assms(2)])
  finally show ?thesis .
qed

lemma A20ADDR_page_add:
  assumes "a20_mask_ok s" and "page_aligned p" and "k < 4096"
  shows "A20ADDR s (p + word_of_nat k) = A20ADDR s p + word_of_nat k" "page_aligned (A20ADDR s p)"
proof -
  note k = small_offset(2) [OF assms(3)]
  show al: "page_aligned (A20ADDR s p)"
    using assms(2) by (simp add: page_aligned_take_bit A20ADDR_def)
  show "A20ADDR s (p + word_of_nat k) = A20ADDR s p + word_of_nat k"
    using small_and_a20 [OF assms(1,3)] page_or_eq_add [OF assms(2) k, symmetric] page_or_eq_add [OF al k, symmetric]
    by (simp add: A20ADDR_def bit.conj_disj_distrib2)
qed

lemma code_page_bytes:
  assumes "mem_wf (mem s)" "bogus_ones (mem s)" "a20_mask_ok s" and p: "page_aligned p"
    and h: "code_page s p = Some h" and "k + n \<le> 4096"
  shows "load_hosts (h + k) n s = Done (code_bytes s (p + word_of_nat k) n) s"
proof -
  have "load_hosts (h + k) n s = Done (phys_bytes (mem s) (A20ADDR s p + word_of_nat k) n) s"
    using host_page_bytes [OF assms(1,2) A20ADDR_page_add(2) [OF assms(3) p, of 0], of h k n] h assms(6)
    by (simp add: code_page_def)
  moreover have "phys_bytes (mem s) (A20ADDR s p + word_of_nat k) n = code_bytes s (p + word_of_nat k) n"
  proof -
    have "A20ADDR s (p + word_of_nat k + word_of_nat j) = A20ADDR s p + word_of_nat k + word_of_nat j" if "j < n" for j
      using A20ADDR_page_add(1) [OF assms(3) p, of "k + j"] that assms(6) by (simp add: add.assoc)
    then show ?thesis
      by (simp add: bytes_at_def code_bytes_def code_byte_def)
  qed
  ultimately show ?thesis by simp
qed

section \<open>The page window\<close>

text \<open>The linear address of the page on which the window is open.\<close>

definition window_page :: "cpu \<Rightarrow> Bit32u" where
  "window_page s = get_segment_base CS s - eipPageBias (sys s)"

definition window_ok :: "cpu \<Rightarrow> bool" where
  "window_ok s \<longleftrightarrow> eipPageWindowSize (sys s) = 0 \<or>
     eipPageWindowSize (sys s) = 4096 \<and> page_aligned (window_page s) \<and>
     eipFetchPtr (sys s) = code_page s (window_page s) \<and> eipFetchPtr (sys s) \<noteq> None"

definition set_window :: "Bit32u \<Rightarrow> Bit32u \<Rightarrow> nat option \<Rightarrow> cpu \<Rightarrow> cpu" where
  "set_window x n p s =
     s\<lparr>sys := (sys s)\<lparr>eipPageBias := x, eipPageWindowSize := n, eipFetchPtr := p\<rparr>\<rparr>"

lemma set_window_fields [simp]:
  "eip (set_window x n p s) = eip s" "sregs (set_window x n p s) = sregs s" "mem (set_window x n p s) = mem s"
  "cr0 (set_window x n p s) = cr0 s" "a20_mask (set_window x n p s) = a20_mask s"
  "eipPageBias (sys (set_window x n p s)) = x" "eipPageWindowSize (sys (set_window x n p s)) = n"
  "eipFetchPtr (sys (set_window x n p s)) = p" "prev_eip (sys (set_window x n p s)) = prev_eip (sys s)"
  "code_page (set_window x n p s) = code_page s" "code_bytes (set_window x n p s) = code_bytes s"
  "get_segment_base sg (set_window x n p s) = get_segment_base sg s"
  "set_window y m q (set_window x n p s) = set_window y m q s"
  by (simp_all add: set_window_def code_page_def code_bytes_def code_byte_def getHostMemAddr_def A20ADDR_def
      get_segment_base_def fun_eq_iff)

definition next_laddr :: "cpu \<Rightarrow> Bit32u" where
  "next_laddr s = get_segment_base CS s + eip s"

text \<open>A window opened at EIP, without paging.\<close>

definition opened :: "cpu \<Rightarrow> cpu" where
  "opened s = set_window (- (eip s - (next_laddr s - LPFOf (next_laddr s)))) 4096
     (code_page s (LPFOf (next_laddr s))) s"

lemma next_laddr_set_window [simp]: "next_laddr (set_window x n p s) = next_laddr s"
  by (simp add: next_laddr_def)

lemma prefetch_unpaged:
  assumes "\<not> cr0_pg (cr0 s)" and "eip s \<le> seg_limit_scaled (sregs s CS)"
    and "code_page s (LPFOf (next_laddr s)) \<noteq> None"
  shows "prefetch s = Done () (opened s)"
proof -
  have "A20ADDR s (next_laddr s) AND 0xfffff000 = A20ADDR s (LPFOf (next_laddr s))"
    by (simp only: A20ADDR_def LPFOf_def ac_simps)
  then have "getHostMemAddr (A20ADDR s (next_laddr s) AND 0xfffff000) BX_READ s = code_page s (LPFOf (next_laddr s))"
    by (simp add: code_page_def)
  then show ?thesis
    using assms
    by (simp add: prefetch_def Let_def open_window_def opened_def set_window_def linorder_not_less
        next_laddr_def [symmetric] LPFOf_def [symmetric])
qed

lemma opened_window:
  assumes "code_page s (LPFOf (next_laddr s)) \<noteq> None"
  shows "window_ok (opened s)" "window_page (opened s) = LPFOf (next_laddr s)"
    "eipPageWindowSize (sys (opened s)) = 4096"
proof -
  show w: "window_page (opened s) = LPFOf (next_laddr s)"
    by (simp add: window_page_def opened_def next_laddr_def)
  show "eipPageWindowSize (sys (opened s)) = 4096"
    by (simp add: opened_def)
  show "window_ok (opened s)"
    using assms w by (simp add: window_ok_def) (simp add: opened_def)
qed

text \<open>Where EIP lies inside an open window.\<close>

lemma in_window:
  assumes "window_ok s" and "eipBiased s < eipPageWindowSize (sys s)"
  obtains off where "eipBiased s = word_of_nat off" and "off < 4096" and "unat (eipBiased s) = off"
    and "next_laddr s = window_page s + word_of_nat off" and "page_aligned (window_page s)"
    and "eipPageWindowSize (sys s) = 4096"
proof
  define off where "off = unat (eipBiased s)"
  have n0: "eipPageWindowSize (sys s) \<noteq> 0"
    using assms(2) by auto
  then show "page_aligned (window_page s)" and w: "eipPageWindowSize (sys s) = 4096"
    using assms(1) by (simp_all add: window_ok_def)
  show "eipBiased s = word_of_nat off" "unat (eipBiased s) = off"
    by (simp_all add: off_def)
  show "off < 4096"
    using assms(2) unfolding w by (simp add: off_def word_less_nat_alt)
  show "next_laddr s = window_page s + word_of_nat off"
    by (simp add: off_def next_laddr_def window_page_def eipBiased_def)
qed

lemma fetch_bytes_window:
  assumes "mem_wf (mem s)" "bogus_ones (mem s)" "a20_mask_ok s"
    and w: "window_ok s" "eipBiased s < eipPageWindowSize (sys s)"
    and n: "n \<le> 4096 - unat (eipBiased s)"
  shows "fetch_bytes (eipBiased s) n s = Done (code_bytes s (next_laddr s) n) s"
proof -
  obtain off where off: "unat (eipBiased s) = off" "off < 4096" "next_laddr s = window_page s + word_of_nat off"
    and al: "page_aligned (window_page s)" and size: "eipPageWindowSize (sys s) = 4096"
    by (rule in_window [OF w]) blast
  obtain h where h: "eipFetchPtr (sys s) = Some h" "code_page s (window_page s) = Some h"
    using w(1) size by (cases "code_page s (window_page s)") (auto simp: window_ok_def)
  have "load_hosts (h + off) n s = Done (code_bytes s (window_page s + word_of_nat off) n) s"
    by (rule code_page_bytes [OF assms(1-3) al h(2)]) (use n off in simp)
  then show ?thesis
    using off h by (simp add: fetch_bytes_def)
qed

section \<open>The instruction at CS:EIP\<close>

lemma fetchDecode_decode:
  "decode (seg_d_b (sregs s CS)) bs i = Fetched x r \<Longrightarrow> fetchDecode bs i s = Done (Some x) s"
  "decode (seg_d_b (sregs s CS)) bs i = Short \<Longrightarrow> fetchDecode bs i s = Done None s"
  by (simp_all add: fetchDecode_def)

text \<open>The remaining bytes of the page, when they are not enough.\<close>

lemma boundaryFetch_unpaged:
  assumes wf: "mem_wf (mem s)" "bogus_ones (mem s)" "a20_mask_ok s"
    and s: "\<not> cr0_pg (cr0 s)" "prev_eip (sys s) = eip s"
    and m: "m < 15" "eip s + word_of_nat m \<le> seg_limit_scaled (sregs s CS)"
    and al: "page_aligned (next_laddr s + word_of_nat m)"
    and page: "code_page s (next_laddr s + word_of_nat m) \<noteq> None"
    and d: "decode (seg_d_b (sregs s CS)) (code_bytes s (next_laddr s) 15) i = Fetched (e, j) r"
  shows "\<exists>x n p. boundaryFetch (code_bytes s (next_laddr s) m) i s = Done (e, j) (set_window x 0 p s)"
proof -
  define s1 where "s1 = s\<lparr>eip := eip s + word_of_nat m\<rparr>"
  have f: "next_laddr s1 = next_laddr s + word_of_nat m" "code_page s1 = code_page s"
    "code_bytes s1 = code_bytes s" "sregs s1 = sregs s" "mem s1 = mem s" "cr0 s1 = cr0 s" "sys s1 = sys s"
    "a20_mask_ok s1 = a20_mask_ok s" "eip s1 = eip s + word_of_nat m"
    by (simp_all add: s1_def next_laddr_def get_segment_base_def code_page_def code_bytes_def code_byte_def
        getHostMemAddr_def A20ADDR_def a20_mask_ok_def fun_eq_iff)
  have L: "LPFOf (next_laddr s1) = next_laddr s1"
    using al by (simp add: LPFOf_page f)
  define s2 where "s2 = opened s1"
  have pf: "prefetch s1 = Done () s2"
    unfolding s2_def by (rule prefetch_unpaged) (use s m(2) page L f in simp_all)
  have w: "window_ok s2" "eipPageWindowSize (sys s2) = 4096" "window_page s2 = next_laddr s1"
    using opened_window [of s1] page L f by (simp_all add: s2_def)
  have nl: "next_laddr s2 = next_laddr s1"
    by (simp add: s2_def opened_def)
  have b0: "eipBiased s2 = 0"
    using w(3) nl by (simp add: eipBiased_def window_page_def next_laddr_def algebra_simps)
  have g: "code_bytes s2 = code_bytes s" "sregs s2 = sregs s" "mem s2 = mem s" "a20_mask_ok s2 = a20_mask_ok s"
    "prev_eip (sys s2) = eip s" "eip s2 = eip s + word_of_nat m"
    using s(2) by (simp_all add: s2_def opened_def f a20_mask_ok_def) (simp add: s1_def a20_mask_ok_def)
  have "fetch_bytes (eipBiased s2) (15 - m) s2 = Done (code_bytes s2 (next_laddr s2) (15 - m)) s2"
    by (rule fetch_bytes_window) (use wf w b0 g in simp_all)
  then have fb: "fetch_bytes 0 (15 - m) s2 = Done (code_bytes s (next_laddr s + word_of_nat m) (15 - m)) s2"
    by (simp add: b0 g nl f)
  have "code_bytes s (next_laddr s) m @ code_bytes s (next_laddr s + word_of_nat m) (15 - m) =
      code_bytes s (next_laddr s) 15"
    using m(1) code_bytes_append [of s "next_laddr s" m "15 - m"] by simp
  then have fd: "fetchDecode (code_bytes s (next_laddr s) m @ code_bytes s (next_laddr s + word_of_nat m)
    (15 - m)) i s2 =
      Done (Some (e, j)) s2"
    using d by (simp add: fetchDecode_decode(1) g)
  have "boundaryFetch (code_bytes s (next_laddr s) m) i s =
      Done (e, j) (s2\<lparr>eip := prev_eip (sys s2), sys := (sys s2)\<lparr>eipPageWindowSize := 0\<rparr>\<rparr>)"
    using m(1) w(2) pf fb fd unfolding boundaryFetch_def s1_def
    by simp
  moreover have "s2\<lparr>eip := prev_eip (sys s2), sys := (sys s2)\<lparr>eipPageWindowSize := 0\<rparr>\<rparr> =
      set_window (eipPageBias (sys s2)) 0 (eipFetchPtr (sys s2)) s"
    using g(5) by (simp add: s2_def opened_def set_window_def s1_def)
  ultimately show ?thesis by auto
qed

text \<open>The window of a state is what \<open>set_window\<close> sets.\<close>

lemma set_window_id: "set_window (eipPageBias (sys s)) (eipPageWindowSize (sys s)) (eipFetchPtr (sys s)) s = s"
  by (simp add: set_window_def)

lemma window_ok_closed: "window_ok (set_window x 0 p s)"
  by (simp add: window_ok_def)

lemma window_now:
  assumes "window_ok s" and "\<not> cr0_pg (cr0 s)" and "eip s \<le> seg_limit_scaled (sregs s CS)"
    and "code_page s (LPFOf (next_laddr s)) \<noteq> None"
  obtains x n p where "(if eipBiased s \<ge> eipPageWindowSize (sys s) then prefetch s else Done () s) =
    Done () (set_window x n p s)"
    and "window_ok (set_window x n p s)" and "eipBiased (set_window x n p s) < n"
proof (cases "eipBiased s \<ge> eipPageWindowSize (sys s)")
  case True
  have pf: "prefetch s = Done () (opened s)"
    by (rule prefetch_unpaged) (use assms in simp_all)
  have "eipBiased (opened s) = next_laddr s - LPFOf (next_laddr s)"
    by (simp add: eipBiased_def opened_def)
  moreover have "\<dots> = next_laddr s AND 0x00000fff"
    using LPFOf_plus_offset [of "next_laddr s"] by (metis add_diff_cancel_left')
  moreover have "next_laddr s AND 0x00000fff < 4096"
  proof -
    have "next_laddr s AND 0x00000fff \<le> 0x00000fff"
      by (rule word_and_le1)
    then show ?thesis
      by (rule order_le_less_trans) simp
  qed
  ultimately have lt: "eipBiased (opened s) < 4096"
    by simp
  define x where "x = - (eip s - (next_laddr s - LPFOf (next_laddr s)))"
  have o: "set_window x 4096 (code_page s (LPFOf (next_laddr s))) s = opened s"
    by (simp only: opened_def x_def)
  show thesis
  proof (rule that)
    show "(if eipBiased s \<ge> eipPageWindowSize (sys s) then prefetch s else Done () s) =
        Done () (set_window x 4096 (code_page s (LPFOf (next_laddr s))) s)"
      using True pf by (simp only: o if_True)
    show "window_ok (set_window x 4096 (code_page s (LPFOf (next_laddr s))) s)"
      using opened_window(1) [OF assms(4)] by (simp only: o)
    show "eipBiased (set_window x 4096 (code_page s (LPFOf (next_laddr s))) s) < 4096"
      using lt by (simp only: o)
  qed
next
  case False
  show thesis
  proof (rule that)
    show "(if eipBiased s \<ge> eipPageWindowSize (sys s) then prefetch s else Done () s) =
        Done () (set_window (eipPageBias (sys s)) (eipPageWindowSize (sys s)) (eipFetchPtr (sys s)) s)"
      using False by (simp only: set_window_id if_False)
    show "window_ok (set_window (eipPageBias (sys s)) (eipPageWindowSize (sys s)) (eipFetchPtr (sys s)) s)"
      using assms(1) by (simp only: set_window_id)
    show "eipBiased (set_window (eipPageBias (sys s)) (eipPageWindowSize (sys s)) (eipFetchPtr (sys s)) s)
        < eipPageWindowSize (sys s)"
      using False by (simp only: set_window_id linorder_not_le)
  qed
qed

text \<open>C11
  Without paging, the instruction fetched is the one that the fifteen bytes of memory at CS:EIP
  encode, whatever window on a page is open when the fetch starts and wherever the end of the page
  falls inside the instruction; only the window changes, and it stays consistent with memory.\<close>

theorem fetch_exact:
  assumes wf: "mem_wf (mem s)" "bogus_ones (mem s)" "a20_mask_ok s" and w: "window_ok s"
    and s: "\<not> cr0_pg (cr0 s)" "prev_eip (sys s) = eip s"
    and lim: "unat (eip s) + 15 \<le> unat (seg_limit_scaled (sregs s CS))"
    and pages: "\<forall>k<15. code_page s (LPFOf (next_laddr s + word_of_nat k)) \<noteq> None"
    and d: "decode (seg_d_b (sregs s CS)) (code_bytes s (next_laddr s) 15) i = Fetched (e, j) r"
  shows "\<exists>x n p. fetch_instruction i s = Done (e, j) (set_window x n p s) \<and>
    window_ok (set_window x n p s)"
proof -
  have lim': "eip s + word_of_nat k \<le> seg_limit_scaled (sregs s CS)" if "k \<le> 15" for k
  proof -
    have "unat (seg_limit_scaled (sregs s CS)) < 2 ^ 32"
      using unsigned_less [of "seg_limit_scaled (sregs s CS)", where ?'a = nat] by simp
    moreover have "unat (word_of_nat k :: Bit32u) = k"
      using that by (simp add: unat_of_nat take_bit_nat_eq_self)
    ultimately have "unat (eip s + word_of_nat k) = unat (eip s) + k"
      using lim that by (simp add: unat_word_ariths)
    then show ?thesis
      using lim that by (simp add: word_le_nat_alt)
  qed
  have page0: "code_page s (LPFOf (next_laddr s)) \<noteq> None"
    using pages [rule_format, of 0] by simp
  obtain x n p where pf: "(if eipBiased s \<ge> eipPageWindowSize (sys s) then prefetch s else Done () s) =
      Done () (set_window x n p s)"
    and w1: "window_ok (set_window x n p s)" "eipBiased (set_window x n p s) < n"
    by (rule window_now [OF w s(1) lim' [of 0, simplified] page0])
  define t where "t = set_window x n p s"
  have wt: "window_ok t" "eipBiased t < eipPageWindowSize (sys t)"
    using w1 by (simp_all add: t_def)
  have ft: "mem_wf (mem t)" "bogus_ones (mem t)" "a20_mask_ok t" "\<not> cr0_pg (cr0 t)" "prev_eip (sys t) = eip t"
    "next_laddr t = next_laddr s" "code_bytes t = code_bytes s" "code_page t = code_page s" "sregs t = sregs s"
    "eip t = eip s"
    using wf s by (simp_all add: t_def a20_mask_ok_def)
  obtain off where off: "unat (eipBiased t) = off" "off < 4096" "next_laddr t = window_page t + word_of_nat off"
    "page_aligned (window_page t)" "eipPageWindowSize (sys t) = 4096"
    by (rule in_window [OF wt]) blast
  define m where "m = min 15 (4096 - off)"
  have rem: "unat (eipPageWindowSize (sys t) - eipBiased t) = 4096 - off"
    using off wt(2) by (simp add: unat_sub word_less_nat_alt word_le_nat_alt)
  have fb: "fetch_bytes (eipBiased t) m t = Done (code_bytes s (next_laddr s) m) t"
    using fetch_bytes_window [OF ft(1-3) wt, of m] off(1) by (simp add: m_def ft)
  have len: "i_ilen j \<le> 15"
    using decode_Fetched(2) [OF d] by simp
  have dm: "decode (seg_d_b (sregs t CS)) (code_bytes s (next_laddr s) m) i =
      (if m < i_ilen j then Short else Fetched (e, j) (drop (i_ilen j) (code_bytes s (next_laddr s) m)))"
    using decode_take [OF d, of m] code_bytes_take [of m 15 s "next_laddr s"]
    by (simp add: m_def ft)
  have first: "fetch_instruction i s = and_then (fetchDecode (code_bytes s (next_laddr s) m) i) (\<lambda>r.
      case r of Some x \<Rightarrow> ret x | None \<Rightarrow> boundaryFetch (code_bytes s (next_laddr s) m) i) t"
    unfolding fetch_instruction_def
      and_then_Done [where m = "\<lambda>s. if eipBiased s \<ge> eipPageWindowSize (sys s) then prefetch s else Done () s", OF pf]
    by (simp only: t_def [symmetric] Let_def rem m_def [symmetric] and_then_Done [where m = "fetch_bytes (eipBiased t) m", OF fb])
  show ?thesis
  proof (cases "m < i_ilen j")
    case False
    then have "fetch_instruction i s = Done (e, j) t"
      using dm by (simp add: first fetchDecode_decode(1))
    then show ?thesis
      using wt(1) by (auto simp: t_def)
  next
    case True
    then have m: "m < 15" "m = 4096 - off"
      using len by (simp_all add: m_def min_def split: if_splits)
    have "next_laddr t + word_of_nat m = window_page t + word_of_nat (off + m)"
      by (simp add: off(3) add.assoc)
    also have "off + m = 4096"
      using m(2) off(2) by simp
    finally have np: "next_laddr t + word_of_nat m = window_page t + 4096"
      by simp
    have al: "page_aligned (next_laddr t + word_of_nat m)"
    proof -
      have "unat (window_page t + 4096) = (unat (window_page t) + 4096) mod 2 ^ 32"
        by (simp add: unat_word_ariths)
      also have "4096 dvd \<dots>"
        using off(4) by (intro dvd_mod) (simp_all add: page_aligned_def)
      finally show ?thesis
        by (simp add: np page_aligned_def)
    qed
    have "code_page t (next_laddr t + word_of_nat m) \<noteq> None"
      using pages m(1) LPFOf_page [OF al] by (auto simp: ft)
    then obtain y k q where b: "boundaryFetch (code_bytes t (next_laddr t) m) i t = Done (e, j)
      (set_window y 0 q t)"
      using boundaryFetch_unpaged [OF ft(1-5) m(1) _ al, of i e j r] lim' [of m] m(1) d by (auto simp: ft)
    have "fetch_instruction i s = Done (e, j) (set_window y 0 q t)"
      using dm True b by (simp add: first fetchDecode_decode(2) ft)
    then show ?thesis
      using window_ok_closed [of y q s] by (auto simp: t_def)
  qed
qed

text \<open>\<open>mov eax, [esp - 4]\<close> in a flat 32-bit segment, two bytes before the end of a page.\<close>

definition crossing :: cpu where
  "crossing = boot\<lparr>eip := 0xffe,
     sregs := (sregs boot)(CS := (sregs boot CS)\<lparr>seg_base := 0, seg_limit_scaled := 0xffffffff, seg_d_b := True\<rparr>),
     sys := (sys boot)\<lparr>prev_eip := 0xffe, eipPageWindowSize := 0\<rparr>,
     mem := (mem boot)\<lparr>vector := (vector (mem boot))(0xffe := 0x8b, 0xfff := 0x44, 0x1000 := 0x24, 0x1001 := 0xfc)\<rparr>\<rparr>"

lemma crossing_code: "code_bytes crossing 0xffe 15 = [0x8b, 0x44, 0x24, 0xfc] @ code_bytes crossing 0x1002 11"
proof -
  have "code_bytes crossing 0xffe 4 = [0x8b, 0x44, 0x24, 0xfc]"
    by (simp add: code_bytes_def upt_conv_Cons code_byte_def phys_byte_def phys_index_def crossing_def A20ADDR_def)
  then show ?thesis
    using code_bytes_append [of crossing "0xffe" 4 11] by simp
qed

lemma crossing_facts:
  "next_laddr crossing = 0xffe" "a20_mask crossing = a20_mask boot" "\<not> cr0_pg (cr0 crossing)"
  "prev_eip (sys crossing) = eip crossing" "eip crossing = 0xffe" "seg_d_b (sregs crossing CS)"
  "seg_limit_scaled (sregs crossing CS) = 0xffffffff"
  by (simp_all add: crossing_def next_laddr_def get_segment_base_def)

lemma crossing_memory: "mem_wf (mem crossing)" "bogus_ones (mem crossing)" "a20_mask_ok crossing"
  using boot_parts by (simp_all add: crossing_def mem_wf_def bogus_ones_def bogus_index_def rom_index_def
      a20_mask_ok_def BIOSROMSZ_def EXROMSIZE_def)

lemma crossing_page: "k < 15 \<Longrightarrow> code_page crossing (LPFOf (0xffe + word_of_nat k)) \<noteq> None"
proof -
  assume "k < 15"
  then have "k \<in> set [0..<15]"
    by simp
  moreover have "\<forall>k\<in>set [0..<15]. code_page crossing (LPFOf (0xffe + word_of_nat k)) \<noteq> None"
    by (simp add: upt_conv_Cons code_page_def LPFOf_def getHostMemAddr_def crossing_def A20ADDR_def handled_def)
  ultimately show ?thesis by blast
qed

lemma fetch_exact_witness:
  "\<exists>j x n p. fetch_instruction (reg_instr 0 0) crossing = Done (Some (Handler MOV_GdEEd), j)
    (set_window x n p crossing) \<and>
     i_ilen j = 4"
proof -
  obtain j where j: "decode True [0x8b, 0x44, 0x24, 0xfc, 0x90] (reg_instr 0 0) =
      Fetched (Some (Handler MOV_GdEEd), j) [0x90]" "i_ilen j = 4"
    using decode_mov [of "reg_instr 0 0"] by auto
  have d: "decode (seg_d_b (sregs crossing CS)) (code_bytes crossing (next_laddr crossing) 15) (reg_instr 0 0) =
      Fetched (Some (Handler MOV_GdEEd), j) (code_bytes crossing 0x1002 11)"
    using decode_Fetched(1) [OF j(1), of "code_bytes crossing 0x1002 11"] j(2)
    by (simp add: crossing_facts crossing_code)
  have "window_ok crossing"
    by (simp add: window_ok_def crossing_def)
  moreover have "unat (eip crossing) + 15 \<le> unat (seg_limit_scaled (sregs crossing CS))"
    by (simp add: crossing_facts)
  moreover have "\<forall>k<15. code_page crossing (LPFOf (next_laddr crossing + word_of_nat k)) \<noteq> None"
    using crossing_page by (simp only: crossing_facts) blast
  ultimately show ?thesis
    using fetch_exact [OF crossing_memory _ crossing_facts(3,4) _ _ d] j(2) by blast
qed

end
