(* ===== verification/BxBench.thy ===== *)
theory BxBench
  imports BxApic BxDma BxMachine
begin

text \<open>
  The concrete machine of the witnesses: just after power-on, with unmasked 8259 controllers, an
  idle local APIC that a program has switched on, masked pins of the I/O APIC and idle DMA
  controllers.
\<close>

definition idle_lapic :: local_apic where
  "idle_lapic = \<lparr>lapic_id = 0, spurious_vector = 0xff, software_enabled = True, focus_disable = False,
     arb_id = 0, task_priority = 0, log_dest = 0, dest_format = 0xf, lapic_isr = (\<lambda>_. False),
     lapic_tmr = (\<lambda>_. False), lapic_irr = (\<lambda>_. False), error_status = 0, shadow_error_status = 0,
     icr_hi = 0, icr_lo = 0, lvt = replicate 6 0x10000, timer_initial = 0, timer_current = 0,
     timer_divconf = 0, timer_divide_factor = 1, timer_active = False, timer_handle = 1, ticksInitial = 0,
     lapic_INTR = False, bypass_irr_isr = False\<rparr>"

definition idle_ioapic :: ioapic where
  "idle_ioapic = \<lparr>ioapic_id = 1, ioregsel = 0, ioapic_irr = 0,
     ioredtbl = replicate 24 \<lparr>redirect_hi = 0, redirect_lo = 0x00010000\<rparr>\<rparr>"

definition idle_dma :: dma_state where
  "idle_dma =
     (let s = \<lparr>DRQ = replicate 4 False, DACK = replicate 4 False, mask_reg = replicate 4 True, flip_flop = False,
                status_reg = 0, command_reg = 0, ctrl_disabled = False, chan = replicate 4 init_channel\<rparr> in
      \<lparr>dma_1 = s, dma_2 = s\<lparr>chan := (replicate 4 init_channel)[0 := init_channel\<lparr>chan_used := True\<rparr>]\<rparr>,
       HLDA = False, TC = False, ext_page_reg = replicate 16 0,
       dma_h = replicate 4 \<lparr>dmaRead8 = None, dmaWrite8 = None, dmaRead16 = None, dmaWrite16 = None\<rparr>\<rparr>)"

definition open_pics :: pic_state where
  "open_pics = \<lparr>master_pic = (pic_init_chip True)\<lparr>imr := 0\<rparr>, slave_pic = (pic_init_chip False)\<lparr>imr := 0\<rparr>,
    INTR_pin = False, ioapic_present = True, ioapic_calls = []\<rparr>"

definition idle_machine :: "Bit32u \<Rightarrow> 'x \<Rightarrow> 'x machine" where
  "idle_machine flags x = construct \<lparr>processor = boot\<lparr>eflags_val32 := flags, debug_trap := 0,
     sys := (sys boot)\<lparr>INTR := False, kill_bochs_request := 0\<rparr>, inhibit_mask := 0\<rparr>,
     pic = open_pics, HRQ = False, enable_a20 = True, lapic = idle_lapic, io_apic = idle_ioapic,
     apic_index = (replicate 15 None)[0 := Some APIC_TYPE_LOCAL_APIC, 1 := Some APIC_TYPE_IOAPIC],
     local_index = True, dma = idle_dma, \<dots> = x\<rparr>"

lemma idle_machine_cpu [simp]:
  "debug_trap (cpu_of (idle_machine f x)) = 0" "kill_bochs_request (sys (cpu_of (idle_machine f x))) = 0"
  "inhibit_mask (cpu_of (idle_machine f x)) = 0" "get_eflag n (cpu_of (idle_machine f x)) \<longleftrightarrow> f AND push_bit n 1 \<noteq> 0"
  "mem (cpu_of (idle_machine f x)) = mem boot" "A20ADDR (cpu_of (idle_machine f x)) a = a"
  "local_apic_base (cpu_of (idle_machine f x)) = 0xfee00000" "ioapic_base (cpu_of (idle_machine f x)) = 0xfec00000"
  by (simp_all add: idle_machine_def construct_def cpu_of_def get_eflag_def A20ADDR_def)

lemma idle_machine_devices [simp]:
  "pic (devices (idle_machine f x)) = open_pics" "HRQ (devices (idle_machine f x)) = False"
  "lapic (devices (idle_machine f x)) = idle_lapic" "io_apic (devices (idle_machine f x)) = idle_ioapic"
  "local_index (devices (idle_machine f x)) = True" "dma (devices (idle_machine f x)) = idle_dma"
  "board.more (devices (idle_machine f x)) = x" "BX_CPU_INTR (idle_machine f x) = False"
  by (simp_all add: idle_machine_def construct_def cpu_of_def BX_CPU_INTR_def idle_lapic_def)

end
