(* ===== verification/BxLoopTheorems.thy ===== *)
theory BxLoopTheorems
  imports BxLoop BxPicTheorems BxBench
begin

text \<open>
  The events between instructions: an interrupt request is taken at the boundary at which it is
  enabled, through the vector the controllers give, and is not forgotten before; a halted processor
  with IF clear ignores everything but a reset.
\<close>

section \<open>Parts of the machine\<close>

lemma put_pic_fields [simp]:
  "cpu_of (put_pic p b) = cpu_of b" "pic (devices (put_pic p b)) = p\<lparr>ioapic_calls := []\<rparr>"
  "HRQ (devices (put_pic p b)) = HRQ (devices b)" "lapic (devices (put_pic p b)) = lapic (devices b)"
  "io_apic (devices (put_pic p b)) = io_apic (devices b)"
  by (simp_all add: put_pic_def cpu_of_def)

lemma put_pic_clock:
  "numTimers (put_pic p (on_ioapic f b)) = numTimers b"
  "countdown (change_cpu (set_INTR v) (put_pic p (on_ioapic f b))) = countdown b"
  "countdownPeriod (change_cpu (set_INTR v) (put_pic p (on_ioapic f b))) = countdownPeriod b"
  "ticksTotal (change_cpu (set_INTR v) (put_pic p (on_ioapic f b))) = ticksTotal b"
  by (simp_all add: change_cpu_def put_cpu_def put_pic_def on_ioapic_def set_INTR_def cpu_of_def)

lemma on_cpu_update [simp]: "on_cpu (update f) b = Done () (put_cpu (f (cpu_of b)) b)"
  by (simp add: on_cpu_def)

lemma BX_CPU_INTR_put: "BX_CPU_INTR (put_cpu s b) \<longleftrightarrow> INTR (sys s) \<or>
  lapic_INTR (lapic_of b)"
  by (simp add: BX_CPU_INTR_def)

section \<open>The halt\<close>

text \<open>
  With IF clear and callbacks that neither set it nor ask for a reset, the halt never ends, whatever
  \<open>kill_bochs_request\<close> says.
\<close>

definition asleep :: "'x machine \<Rightarrow> bool" where
  "asleep b \<longleftrightarrow> \<not> machine_IF b \<and> async_event (cpu_of b) \<noteq> 2"

lemma asleep_waits:
  assumes "stable asleep (pc_tick1 (hw_timers hw))" and "asleep b"
  shows "case wait_in_halt n hw b of Done woken t \<Rightarrow> \<not> woken | _ \<Rightarrow> True"
  using assms(2)
proof (induction n arbitrary: b)
  case 0
  then show ?case by simp
next
  case (Suc n)
  have sleeping: "\<not> (BX_CPU_INTR b \<and> machine_IF b)" "async_event (cpu_of b) \<noteq> 2"
    using Suc.prems by (auto simp: asleep_def)
  show ?case
  proof (cases "pc_tick1 (hw_timers hw) b")
    case (Done x b')
    then have "asleep b'"
      using stable_Done [OF assms(1) Done Suc.prems] by simp
    then show ?thesis
      using Suc.IH [of b'] Done sleeping by simp
  qed (use sleeping in \<open>simp_all add: and_then_def\<close>)
qed

lemma halt_ignores_kill:
  assumes "stable asleep (pc_tick1 (hw_timers hw))" and "asleep b"
    and "debug_trap (cpu_of b) AND 0x80000000 \<noteq> 0"
  shows "case handleAsyncEvent n hw b of Done r t \<Rightarrow> r = None | _ \<Rightarrow> True"
proof -
  define b' where "b' = put_cpu ((cpu_of b)\<lparr>debug_trap := 0, inhibit_mask := 0\<rparr>) b"
  have "asleep b'"
    using assms(2) by (simp add: asleep_def b'_def get_eflag_def)
  then have "case wait_in_halt n hw b' of Done woken t \<Rightarrow> \<not> woken | _ \<Rightarrow> True"
    by (rule asleep_waits [OF assms(1)])
  then show ?thesis
    using assms(3)
    by (cases "wait_in_halt n hw b'") (simp_all add: handleAsyncEvent_def and_then_def b'_def [symmetric])
qed

section \<open>Interrupts at a boundary\<close>

text \<open>The state in which nothing but an interrupt can happen at the boundary.\<close>

definition quiet :: "'x machine \<Rightarrow> bool" where
  "quiet b \<longleftrightarrow> debug_trap (cpu_of b) = 0 \<and> kill_bochs_request (sys (cpu_of b)) = 0 \<and>
     \<not> HRQ (devices b) \<and> \<not> lapic_INTR (lapic_of b) \<and> \<not> machine_TF b"

definition accepts :: "'x machine \<Rightarrow> bool" where
  "accepts b \<longleftrightarrow> machine_IF b \<and> inhibit_mask (cpu_of b) AND BX_INHIBIT_INTERRUPTS = 0"

text \<open>The controllers once line \<open>n\<close> is raised, and their answer to the acknowledge.\<close>

definition requested :: "nat \<Rightarrow> pic_state \<Rightarrow> pic_state" where
  "requested n p = (raise_irq n (p\<lparr>ioapic_calls := []\<rparr>))\<lparr>ioapic_calls := []\<rparr>"

lemma INT_pin_signal: "INT_pin (signal n p)"
  by (simp add: signal_def)

lemma acknowledge_master:
  assumes "at_rest (master_pic s)" "n < 8" "n \<noteq> 2" "\<not> bit (imr (master_pic s)) n"
  shows "IAC (s\<lparr>master_pic := signal n (line_up n (master_pic s)), INTR_pin := True, ioapic_calls := l\<rparr>) =
    (of_nat n + interrupt_offset (master_pic s),
     s\<lparr>master_pic := served n (master_pic s), INTR_pin := False, ioapic_calls := l\<rparr>)"
  using assms acknowledge_rest(1,3) [OF assms(1,2)]
  by (simp add: IAC_def on_chip_def service_master_pic_def served_def Let_def in_service_def)

lemma acknowledge_slave:
  assumes m: "at_rest (master_pic s)" and sl: "at_rest (slave_pic s)" and n: "n < 8"
  shows "IAC (s\<lparr>master_pic := signal 2 (line_up 2 (master_pic s)), slave_pic := signal n (line_up n (slave_pic s)),
      INTR_pin := True, ioapic_calls := l\<rparr>) = (of_nat n + interrupt_offset (slave_pic s),
    s\<lparr>master_pic := in_service 2 (master_pic s), slave_pic := served n (slave_pic s), INTR_pin := False,
      ioapic_calls := l\<rparr>)"
proof -
  have irq: "irq_no (in_service j p) = j" "interrupt_offset (in_service j p) = interrupt_offset p" for p j
    by (simp_all add: in_service_def)
  have up2: "(replicate 8 False)[2 := False] = replicate 8 False"
    by (simp add: numeral_nat)
  have m2: "(in_service 2 (master_pic s))\<lparr>IRQ_line := replicate 8 False\<rparr> = in_service 2 (master_pic s)"
    using at_restD(8) [OF m] by (simp add: in_service_def)
  show ?thesis
    using acknowledge_rest(1,3,4) [OF m, of 2] acknowledge_rest(1,3,4) [OF sl n]
    by (simp add: IAC_def on_chip_def service_master_pic_def service_slave_pic_def served_def Let_def irq up2 m2)
      (simp add: signal_def line_up_def)
qed

lemma raised:
  assumes "at_rest (master_pic p)" "at_rest (slave_pic p)" "unmasked p n"
  shows "INT_pin (master_pic (requested n p))" "\<not> INT_pin (master_pic p)" "fst (IAC (requested n p)) = vector_of p n"
    "\<not> INTR_pin (snd (IAC (requested n p)))" "ioapic_calls (snd (IAC (requested n p))) = []"
    "\<forall>c\<in>set (ioapic_calls (raise_irq n (p\<lparr>ioapic_calls := []\<rparr>))). \<exists>m<32. c = Raise_irq m"
proof -
  have "INT_pin (master_pic (requested n p)) \<and> \<not> INT_pin (master_pic p) \<and>
    fst (IAC (requested n p)) = vector_of p n \<and> \<not> INTR_pin (snd (IAC (requested n p))) \<and>
    ioapic_calls (snd (IAC (requested n p))) = [] \<and>
    (\<forall>c\<in>set (ioapic_calls (raise_irq n (p\<lparr>ioapic_calls := []\<rparr>))). \<exists>m<32. c = Raise_irq m)"
  proof (cases "n < 8")
    case True
    with assms(3) have n: "n < 8" "n \<noteq> 2" "\<not> bit (imr (master_pic p)) n"
      by (simp_all add: unmasked_def)
    have "raise_irq n (p\<lparr>ioapic_calls := []\<rparr>) = p\<lparr>master_pic := signal n (line_up n (master_pic p)), INTR_pin := True,
        ioapic_calls := [Raise_irq n]\<rparr>"
      using raised_master [of "p\<lparr>ioapic_calls := []\<rparr>" n] assms(1) n by (simp add: raise_irq_def)
    then show ?thesis
      using acknowledge_master [OF assms(1) n] assms(1) n at_restD(4) [OF assms(1)]
      by (simp add: requested_def vector_of_def INT_pin_signal add.commute)
  next
    case False
    with assms(3) have n: "8 \<le> n" "n < 16" "\<not> bit (imr (slave_pic p)) (n - 8)" "\<not> bit (imr (master_pic p)) 2"
      by (simp_all add: unmasked_def)
    have "raise_irq n (p\<lparr>ioapic_calls := []\<rparr>) = p\<lparr>master_pic := signal 2 (line_up 2 (master_pic p)),
        slave_pic := signal (n - 8) (line_up (n - 8) (slave_pic p)), INTR_pin := True,
        ioapic_calls := [Raise_irq n, Raise_irq 2]\<rparr>"
      using raised_slave [of "p\<lparr>ioapic_calls := []\<rparr>" n] assms(1,2) n by simp
    then show ?thesis
      using acknowledge_slave [OF assms(1,2), of "n - 8"] n at_restD(4) [OF assms(1)]
      by (simp add: requested_def vector_of_def INT_pin_signal add.commute)
  qed
  then show "INT_pin (master_pic (requested n p))" "\<not> INT_pin (master_pic p)" "fst (IAC (requested n p)) = vector_of p n"
    "\<not> INTR_pin (snd (IAC (requested n p)))" "ioapic_calls (snd (IAC (requested n p))) = []"
    "\<forall>c\<in>set (ioapic_calls (raise_irq n (p\<lparr>ioapic_calls := []\<rparr>))). \<exists>m<32. c = Raise_irq m"
    by simp_all
qed

text \<open>An I/O APIC whose entries are all masked keeps what is forwarded to it.\<close>

definition pins_masked :: "'x machine \<Rightarrow> bool" where
  "pins_masked b \<longleftrightarrow> (\<forall>m<24. redirect_masked (ioredtbl (ioapic_of b) ! m))"

lemma service_masked: "pins_masked b \<Longrightarrow> service_pins ns b = Done () b" if "set ns \<subseteq> {..<24}"
  using that by (induction ns) (auto simp: service_pin_def pins_masked_def Let_def and_then_def)

lemma raise_masked:
  assumes "pins_masked b" and "m < 32"
  shows "\<exists>w. ioapic_raise_irq m b = Done () (on_ioapic (\<lambda>a. a\<lparr>ioapic_irr := w\<rparr>) b)"
proof (cases "bit (ioapic_irr (ioapic_of b)) m")
  case True
  then show ?thesis
    using assms(2) by (auto simp: ioapic_raise_irq_def on_ioapic_def intro!: exI [where x = "ioapic_irr (ioapic_of b)"])
next
  case False
  let ?c = "on_ioapic (\<lambda>a. a\<lparr>ioapic_irr := ioapic_irr a OR push_bit m 1\<rparr>) b"
  have "service_ioapic ?c = Done () ?c"
    unfolding service_ioapic_def using assms(1) by (intro service_masked) (auto simp: pins_masked_def)
  then show ?thesis
    using False assms(2)
    by (intro exI [where x = "ioapic_irr (ioapic_of b) OR push_bit m 1"]) (simp add: ioapic_raise_irq_def on_ioapic_def)
qed

lemma forward_masked:
  assumes "pins_masked b" and "\<forall>c\<in>set cs. \<exists>m<32. c = Raise_irq m"
  shows "\<exists>w. forward_calls cs b = Done () (on_ioapic (\<lambda>a. a\<lparr>ioapic_irr := w\<rparr>) b)"
  using assms
proof (induction cs arbitrary: b)
  case Nil
  show ?case
    by (auto simp: on_ioapic_def intro!: exI [where x = "ioapic_irr (ioapic_of b)"])
next
  case (Cons c cs)
  then obtain m w where m: "c = Raise_irq m" "ioapic_raise_irq m b = Done () (on_ioapic (\<lambda>a. a\<lparr>ioapic_irr := w\<rparr>) b)"
    using raise_masked by (metis list.set_intros(1))
  have "pins_masked (on_ioapic (\<lambda>a. a\<lparr>ioapic_irr := w\<rparr>) b)"
    using Cons.prems(1) by (simp add: pins_masked_def)
  then obtain v where "forward_calls cs (on_ioapic (\<lambda>a. a\<lparr>ioapic_irr := w\<rparr>) b) =
      Done () (on_ioapic (\<lambda>a. a\<lparr>ioapic_irr := v\<rparr>) (on_ioapic (\<lambda>a. a\<lparr>ioapic_irr := w\<rparr>) b))"
    using Cons.IH Cons.prems(2) by fastforce
  then show ?case
    using m by (auto simp: on_ioapic_def)
qed

text \<open>
  The processor as the handler is entered: the line is low again, the controllers have the request
  in service, and the interrupt is marked as external.
\<close>

definition acknowledged :: "'x machine \<Rightarrow> 'x machine" where
  "acknowledged b =
     (let b1 = put_pic (snd (IAC ((pic (devices b))\<lparr>ioapic_calls := []\<rparr>))) b; s = set_INTR False (cpu_of b) in
      put_cpu (s\<lparr>sys := (sys s)\<lparr>errorno := 0, EXT := True\<rparr>\<rparr>) b1)"

text \<open>The entry of the handler of vector \<open>v\<close>, and the rest of the boundary.\<close>

definition enter_handler :: "Bit8u \<Rightarrow> (bool option, 'x machine) routine" where
  "enter_handler v =
     and_then (on_cpu (interrupt (unat v) False False 0)) (\<lambda>_.
     and_then (on_cpu (update commit_boundary)) (\<lambda>_.
     and_then end_of_events (\<lambda>_. ret (Some False))))"

text \<open>What a boundary leaves when it lets the interrupt wait.\<close>

definition after_boundary :: "'x machine \<Rightarrow> 'x machine" where
  "after_boundary b =
     put_cpu ((if get_eflag 16 (cpu_of b) then clear_eflag 16 (cpu_of b) else cpu_of b)\<lparr>inhibit_mask := 0\<rparr>) b"

lemma and_then_step: "m b = m' b \<Longrightarrow> and_then m f b = and_then m' f b"
  by (simp add: and_then_def)

lemma flags_of_update [simp]: "get_eflag n (s\<lparr>inhibit_mask := x\<rparr>) = get_eflag n s"
  by (simp add: get_eflag_def)

lemma flag_bit: "n < 32 \<Longrightarrow> get_eflag n s \<longleftrightarrow> bit (eflags_val32 s) n"
  by (simp add: get_eflag_def and_exp_eq_0_iff_not_bit push_bit_eq_mult)

lemma clear_other [simp]: "n < 32 \<Longrightarrow> n \<noteq> m \<Longrightarrow> get_eflag n (clear_eflag m s) = get_eflag n s"
  by (simp add: flag_bit clear_eflag_def bit_simps)

lemma clear_eflag_fields [simp]:
  "debug_trap (clear_eflag m s) = debug_trap s" "sys (clear_eflag m s) = sys s"
  "async_event (clear_eflag m s) = async_event s" "inhibit_mask (clear_eflag m s) = inhibit_mask s"
  by (simp_all add: clear_eflag_def)

text \<open>The two stages of a quiet boundary.\<close>

lemma quiet_boundary:
  assumes "quiet b"
  shows "handleAsyncEvent k hw b = and_then (\<lambda>b'.
      if \<not> accepts b then Done () b'
      else if BX_CPU_INTR b then external_interrupt hw b' else Done () b')
    (\<lambda>_. and_then end_of_events (\<lambda>_. ret (Some False))) b"
proof -
  have q: "debug_trap (cpu_of b) = 0" "kill_bochs_request (sys (cpu_of b)) = 0" "\<not> HRQ (devices b)"
    using assms by (simp_all add: quiet_def)
  have "handleAsyncEvent k hw b = and_then (pending_events hw) (\<lambda>_. ret (Some False)) b"
    by (simp add: handleAsyncEvent_def q)
  also have "\<dots> = and_then (and_then (\<lambda>b'.
      if \<not> accepts b then Done () b'
      else if BX_CPU_INTR b then external_interrupt hw b' else Done () b') (\<lambda>_. end_of_events))
        (\<lambda>_. ret (Some False)) b"
    by (rule and_then_step)
      (auto simp: pending_events_def Let_def q accepts_def intro: and_then_step)
  finally show ?thesis
    by (simp only: and_then_assoc)
qed

lemma end_of_quiet_events:
  assumes "quiet b" and "BX_CPU_INTR b"
  shows "end_of_events b = Done () (after_boundary b)"
proof (cases "get_eflag 16 (cpu_of b)")
  case True
  then show ?thesis
    using assms by (simp add: quiet_def end_of_events_def after_boundary_def BX_CPU_INTR_def)
next
  case False
  then show ?thesis
    using assms by (simp add: quiet_def end_of_events_def after_boundary_def BX_CPU_INTR_def)
qed

lemma waits:
  assumes "quiet b" and "BX_CPU_INTR b" and "\<not> accepts b"
  shows "handleAsyncEvent k hw b = Done (Some False) (after_boundary b)"
  using end_of_quiet_events [OF assms(1,2)] assms(3)
  by (simp add: quiet_boundary [OF assms(1)])

lemma delivers:
  assumes "quiet b" and "BX_CPU_INTR b" and "accepts b" and "pic (devices b) = requested n p"
    and "at_rest (master_pic p)" and "at_rest (slave_pic p)" and "unmasked p n"
  shows "handleAsyncEvent k hw b = enter_handler (vector_of p n) (acknowledged b)"
proof -
  have calls: "(requested n p)\<lparr>ioapic_calls := []\<rparr> = requested n p"
    by (simp add: requested_def)
  obtain q where iac: "IAC (requested n p) = (vector_of p n, q)" "\<not> INTR_pin q" "ioapic_calls q = []"
    using raised(3-5) [OF assms(5-7)] by (cases "IAC (requested n p)") auto
  have "external_interrupt hw b =
      and_then (on_cpu (interrupt (unat (vector_of p n)) False False 0)) (\<lambda>_. on_cpu (update commit_boundary))
        (acknowledged b)"
    using assms(1,4) iac calls
    by (simp add: external_interrupt_def quiet_def DEV_pic_iac_def acknowledged_def Let_def set_INTR_def change_cpu_def)
  then have "handleAsyncEvent k hw b =
      and_then (\<lambda>_. and_then (on_cpu (interrupt (unat (vector_of p n)) False False 0))
        (\<lambda>_. on_cpu (update commit_boundary)) (acknowledged b))
        (\<lambda>_. and_then end_of_events (\<lambda>_. ret (Some False))) b"
    using assms(2,3) by (simp add: quiet_boundary [OF assms(1)] cong: and_then_step)
  also have "\<dots> = and_then (and_then (on_cpu (interrupt (unat (vector_of p n)) False False 0))
    (\<lambda>_. on_cpu (update commit_boundary)))
        (\<lambda>_. and_then end_of_events (\<lambda>_. ret (Some False))) (acknowledged b)"
    by (simp add: and_then_def)
  finally show ?thesis
    by (simp only: and_then_assoc enter_handler_def)
qed

lemma raise_machine:
  assumes "quiet b" and "pins_masked b" and "at_rest (master_pic (pic (devices b)))"
    and "at_rest (slave_pic (pic (devices b)))" and "unmasked (pic (devices b)) n"
  shows "\<exists>c. DEV_pic_raise_irq n b = Done () c \<and> quiet c \<and> BX_CPU_INTR c \<and> cpu_of c = set_INTR True (cpu_of b) \<and>
    pic (devices c) = requested n (pic (devices b)) \<and> numTimers c = numTimers b \<and> countdown c = countdown b \<and>
    countdownPeriod c = countdownPeriod b \<and> ticksTotal c = ticksTotal b"
proof -
  let ?p = "raise_irq n ((pic (devices b))\<lparr>ioapic_calls := []\<rparr>)"
  note r = raised [OF assms(3-5)]
  obtain w where w: "forward_calls (ioapic_calls ?p) b = Done () (on_ioapic (\<lambda>a. a\<lparr>ioapic_irr := w\<rparr>) b)"
    using forward_masked [OF assms(2) r(6)] by blast
  have pins: "INT_pin (master_pic ?p)" "\<not> INT_pin (master_pic (pic (devices b)))"
    using r(1,2) by (simp_all add: requested_def)
  show ?thesis
    using assms(1) w pins
    by (simp add: DEV_pic_raise_irq_def Let_def requested_def [symmetric] quiet_def BX_CPU_INTR_def set_INTR_def
        get_eflag_def put_pic_clock)
qed

lemma after_boundary_facts:
  assumes "quiet b" and "BX_CPU_INTR b"
  shows "quiet (after_boundary b)" "BX_CPU_INTR (after_boundary b)" "accepts (after_boundary b) \<longleftrightarrow> machine_IF b"
    "async_event (cpu_of (after_boundary b)) = async_event (cpu_of b)"
    "pic (devices (after_boundary b)) = pic (devices b)"
  using assms by (auto simp: after_boundary_def quiet_def BX_CPU_INTR_def accepts_def)

text \<open>C7
  A device raises an unmasked line of controllers at rest while nothing else is pending and the
  entries of the I/O APIC are masked. The processor is told. If it accepts interrupts at the next
  boundary, it enters the handler of exactly the vector programmed for the line, with the request
  acknowledged and in service. If IF is clear or the last instruction inhibits interrupts, the
  boundary changes neither the controllers nor the place of execution, and the request stays noticed;
  an inhibition lasts for one boundary only: at the following one the handler is entered if IF is
  set.\<close>

theorem interrupt_reaches_handler:
  assumes "quiet b" and "pins_masked b" and "at_rest (master_pic (pic (devices b)))"
    and "at_rest (slave_pic (pic (devices b)))" and "unmasked (pic (devices b)) n"
  shows "\<exists>c. DEV_pic_raise_irq n b = Done () c \<and> async_event (cpu_of c) \<noteq> 0 \<and>
    (if accepts b then handleAsyncEvent k hw c = enter_handler (vector_of (pic (devices b)) n) (acknowledged c)
     else
      (\<exists>t. handleAsyncEvent k hw c = Done (Some False) t \<and>
        pic (devices t) = pic (devices c) \<and> eip (cpu_of t) = eip (cpu_of b) \<and>
        sregs (cpu_of t) = sregs (cpu_of b) \<and> async_event (cpu_of t) \<noteq> 0 \<and>
        (machine_IF b \<longrightarrow>
          handleAsyncEvent k hw t = enter_handler (vector_of (pic (devices b)) n) (acknowledged t))))"
proof -
  obtain c where c: "DEV_pic_raise_irq n b = Done () c" "quiet c" "BX_CPU_INTR c" "cpu_of c = set_INTR True (cpu_of b)"
    "pic (devices c) = requested n (pic (devices b))"
    using raise_machine [OF assms] by blast
  have flags: "machine_IF c = machine_IF b" "accepts c = accepts b" "async_event (cpu_of c) \<noteq> 0"
    by (simp_all add: c(4) set_INTR_def get_eflag_def accepts_def)
  show ?thesis
  proof (cases "accepts b")
    case True
    then show ?thesis
      using c(1) flags delivers [OF c(2,3) _ c(5) assms(3-5)] by simp
  next
    case False
    note a = after_boundary_facts [OF c(2,3)]
    have "eip (cpu_of (after_boundary c)) = eip (cpu_of b)" "sregs (cpu_of (after_boundary c)) = sregs (cpu_of b)"
      by (simp_all add: after_boundary_def c(4) set_INTR_def clear_eflag_def)
    then show ?thesis
      using False c(1) flags waits [OF c(2,3), of k hw] a delivers [OF a(1,2) _ _ assms(3-5)] c(5) by auto
  qed
qed

section \<open>A machine\<close>

text \<open>Hardware whose callbacks do nothing.\<close>

definition still_hardware :: "'x hardware" where
  "still_hardware = \<lparr>hw_timers = (\<lambda>_. nullTimer),
     hw_dma = \<lparr>call_dmaRead8 = (\<lambda>_ _. ret ()), call_dmaWrite8 = (\<lambda>_. ret 0), call_dmaRead16 = (\<lambda>_ _. ret ()),
       call_dmaWrite16 = (\<lambda>_. ret 0)\<rparr>,
     hw_bus = \<lparr>BX_INP = (\<lambda>_ _. ret 0), BX_OUTP = (\<lambda>_ _ _. ret ())\<rparr>, hw_extension = (\<lambda>_ _. ret ())\<rparr>"

lemma idle_machine_quiet:
  "quiet (idle_machine 0x202 x)" "quiet (idle_machine 0x2 x)" "pins_masked (idle_machine f x)"
  "at_rest (master_pic (pic (devices (idle_machine f x))))" "at_rest (slave_pic (pic (devices (idle_machine f x))))"
  "unmasked (pic (devices (idle_machine f x))) 14" "accepts (idle_machine 0x202 x)" "\<not> accepts (idle_machine 0x2 x)"
  "vector_of (pic (devices (idle_machine f x))) 14 = 0x76"
  by (simp_all add: quiet_def pins_masked_def idle_ioapic_def idle_lapic_def redirect_masked_def at_rest_def
      unmasked_def open_pics_def pic_init_chip_def accepts_def vector_of_def)

lemma interrupt_reaches_handler_witness:
  "(\<exists>c. DEV_pic_raise_irq 14 (idle_machine 0x202 ()) = Done () c \<and>
     handleAsyncEvent 0 still_hardware c = enter_handler 0x76 (acknowledged c)) \<and>
   (\<exists>c t. DEV_pic_raise_irq 14 (idle_machine 0x2 ()) = Done () c \<and>
     handleAsyncEvent 0 still_hardware c = Done (Some False) t \<and> async_event (cpu_of t) \<noteq> 0)"
proof -
  note q = idle_machine_quiet [where x = "()"]
  show ?thesis
    using interrupt_reaches_handler [OF q(1,3-6), of 0 still_hardware]
      interrupt_reaches_handler [OF q(2,3-6), of 0 still_hardware] q(7-9) by auto
qed

end
