(* ===== verification/BxHaltTheorems.thy ===== *)
theory BxHaltTheorems
  imports BxLoopTheorems BxTimerTheorems BxProcCtrl
begin

text \<open>
  HLT, the wait for an interrupt and the timers together: a halted processor is woken by the
  interrupt of a timer at the tick at which the timer is due, and enters its handler.
\<close>

section \<open>Ticks of a sleeping machine\<close>

text \<open>The processor of a machine depends on the clock only through the countdown.\<close>

lemma cpu_of_devices: "devices u = devices b \<Longrightarrow> cpu_of u = (cpu_of b)\<lparr>currCountdown := countdown u\<rparr>"
  by (simp add: cpu_of_def)

lemma same_devices:
  assumes "devices u = devices b"
  shows "quiet u = quiet b" "machine_IF u = machine_IF b" "BX_CPU_INTR u = BX_CPU_INTR b"
    "async_event (cpu_of u) = async_event (cpu_of b)" "pins_masked u = pins_masked b"
    "accepts u = accepts b"
  using assms by (simp_all add: quiet_def cpu_of_def BX_CPU_INTR_def pins_masked_def get_eflag_def accepts_def)

text \<open>Timer \<open>j\<close> alone is due at \<open>T\<close>, and none before.\<close>

definition next_timer :: "nat \<Rightarrow> nat \<Rightarrow> 'd pc_system \<Rightarrow> bool" where
  "next_timer j T b \<longleftrightarrow> j < numTimers b \<and> active (timer b j) \<and> unat (timeToFire (timer b j)) = T \<and>
     (\<forall>i<numTimers b. i \<noteq> j \<and> active (timer b i) \<longrightarrow> T < unat (timeToFire (timer b i)))"

lemma next_timer_due:
  assumes "next_timer j T b" and "now b < T"
  shows "due_timers b = (if now b + 1 = T then [j] else [])"
proof -
  have d: "due (now b + 1) (timer b i) \<longleftrightarrow> i = j \<and> now b + 1 = T" if "i < numTimers b" for i
    using assms that by (auto simp: next_timer_def due_def)
  have j: "j < numTimers b"
    using assms(1) by (simp add: next_timer_def)
  have one: "filter (\<lambda>i. i = j) [0..<n] = (if j < n then [j] else [])" for n
    by (induction n) auto
  have "due_timers b = filter (\<lambda>i. i = j \<and> now b + 1 = T) [0..<numTimers b]"
    unfolding due_timers_def using d by (intro filter_cong) auto
  then show ?thesis
    using one [of "numTimers b"] j by (simp add: filter_empty_conv)
qed

text \<open>One tick: nothing happens before the time of the timer, and its callback at that time.\<close>

lemma tick_before:
  assumes "timers_ok h b" "next_timer j T b" "now b + 1 < T" "T \<le> horizon"
  shows "\<exists>u. pc_tick1 call b = Done () u \<and> timers_ok h u \<and> next_timer j T u \<and> now u = now b + 1 \<and>
    devices u = devices b \<and> funct (timer u j) = funct (timer b j)"
proof -
  obtain u where u: "pc_tick1 call b = call_timers call (numTimers b) (due_timers b) u" "timers_ok h u"
    "now u = now b + 1" "numTimers u = numTimers b" "devices u = devices b"
    "\<forall>i<numTimers b. timer u i = expire (now b + 1) (timer b i)"
    using tick_spec [OF assms(1), of call] assms(3,4) by auto
  have none: "due_timers b = []"
    using next_timer_due [OF assms(2)] assms(3) by simp
  have "\<not> due (now b + 1) (timer b i)" if "i < numTimers b" for i
    using none that by (auto simp: due_timers_def filter_empty_conv)
  then have "timer u i = timer b i" if "i < numTimers b" for i
    using u(6) that by (simp add: expire_def)
  then show ?thesis
    using u none assms(2) by (auto simp: next_timer_def)
qed

lemma tick_at:
  assumes "timers_ok h b" "next_timer j T b" "now b + 1 = T" "T \<le> horizon" "funct (timer b j) = Some f"
  shows "\<exists>u. pc_tick1 call b = call_timers call (numTimers b) [j] u \<and> now u = T \<and> numTimers u = numTimers b \<and>
    devices u = devices b \<and> funct (timer u j) = Some f"
proof -
  obtain u where u: "pc_tick1 call b = call_timers call (numTimers b) (due_timers b) u"
    "now u = now b + 1" "numTimers u = numTimers b" "devices u = devices b"
    "\<forall>i<numTimers b. timer u i = expire (now b + 1) (timer b i)"
    using tick_spec [OF assms(1), of call] assms(3,4) by auto
  have "due_timers b = [j]"
    using next_timer_due [OF assms(2)] assms(3) by simp
  moreover have "funct (timer u j) = Some f"
    using u(5) assms(2,5) by (simp add: next_timer_def expire_def)
  ultimately show ?thesis
    using u assms(3) by auto
qed

section \<open>The wait\<close>

text \<open>The callback of the timer raises a line of the controllers.\<close>

lemma raise_in_callback:
  assumes "quiet b" and "pins_masked b" and "at_rest (master_pic (pic (devices b)))"
    and "at_rest (slave_pic (pic (devices b)))" and "unmasked (pic (devices b)) n"
    and "funct (timer b j) = Some f" and "call f = DEV_pic_raise_irq n"
  shows "\<exists>t. call_timers call (numTimers b) [j] b = Done () t \<and> quiet t \<and> BX_CPU_INTR t \<and> now t = now b \<and>
    cpu_of t = set_INTR True (cpu_of b) \<and> pic (devices t) = requested n (pic (devices b))"
proof -
  let ?b = "b\<lparr>triggeredTimer := j\<rparr>"
  have d: "devices ?b = devices b" by simp
  obtain c where c: "DEV_pic_raise_irq n ?b = Done () c" "quiet c" "BX_CPU_INTR c"
    "cpu_of c = set_INTR True (cpu_of ?b)" "pic (devices c) = requested n (pic (devices ?b))"
    "numTimers c = numTimers ?b" "countdown c = countdown ?b" "countdownPeriod c = countdownPeriod ?b"
    "ticksTotal c = ticksTotal ?b"
    using raise_machine [of ?b n] assms(1-5) same_devices [OF d] by auto
  let ?t = "c\<lparr>triggeredTimer := 0\<rparr>"
  have "call_timers call (numTimers b) [j] b = Done () ?t"
    using c(1,6) assms(6,7) by (simp add: call_timer_def)
  moreover have "quiet ?t" "BX_CPU_INTR ?t"
    using c(2,3) same_devices [of ?t c] by simp_all
  moreover have "cpu_of ?t = set_INTR True (cpu_of b)"
    using c(4) by (simp add: cpu_of_def)
  moreover have "now ?t = now b" "pic (devices ?t) = requested n (pic (devices b))"
    using c by (simp_all add: now_def)
  ultimately show ?thesis by blast
qed

lemma set_INTR_wakes [simp]:
  "get_eflag m (set_INTR v s) = get_eflag m s" "inhibit_mask (set_INTR v s) = inhibit_mask s"
  by (simp_all add: set_INTR_def get_eflag_def)

text \<open>
  The wait ends at the time of the timer: \<open>m\<close> bounds the ticks, and one more look at the
  request is needed after the last.
\<close>

lemma wait_for_timer:
  assumes "timers_ok h b" "next_timer j (now b + k) b" "0 < k" "now b + k \<le> horizon" "funct (timer b j) = Some f"
    and "hw_timers hw f = DEV_pic_raise_irq n" and "quiet b" "pins_masked b" "\<not> BX_CPU_INTR b" "machine_IF b"
    and "async_event (cpu_of b) \<noteq> 2" and "at_rest (master_pic (pic (devices b)))"
    and "at_rest (slave_pic (pic (devices b)))" and "unmasked (pic (devices b)) n"
  shows "if k < m
    then \<exists>t. wait_in_halt m hw b = Done True t \<and> quiet t \<and> BX_CPU_INTR t \<and> now t = now b + k \<and>
      cpu_of t = set_INTR True ((cpu_of b)\<lparr>currCountdown := countdown t\<rparr>) \<and>
      pic (devices t) = requested n (pic (devices b))
    else \<exists>t. wait_in_halt m hw b = Done False t"
  using assms
proof (induction m arbitrary: b k)
  case 0
  then show ?case by simp
next
  case (Suc m)
  note prems = Suc.prems
  show ?case
  proof (cases "k = 1")
    case True
    obtain u where u: "pc_tick1 (hw_timers hw) b = call_timers (hw_timers hw) (numTimers b) [j] u" "now u = now b + 1"
      "numTimers u = numTimers b" "devices u = devices b" "funct (timer u j) = Some f"
      using tick_at [OF prems(1,2) _ prems(4,5), of "hw_timers hw"] True by auto
    obtain t where t: "call_timers (hw_timers hw) (numTimers u) [j] u = Done () t" "quiet t" "BX_CPU_INTR t"
      "now t = now u" "cpu_of t = set_INTR True (cpu_of u)" "pic (devices t) = requested n (pic (devices u))"
      using raise_in_callback [of u n j f "hw_timers hw"] u(5) prems(6-8,12-14) same_devices [OF u(4)] u(4) by auto
    have woken: "machine_IF t"
      using t(5) same_devices(2) [OF u(4)] prems(10) by simp
    have "countdown t = countdown u"
      using arg_cong [OF t(5), of currCountdown] by (simp add: cpu_of_def set_INTR_def)
    then have cpu: "cpu_of t = set_INTR True ((cpu_of b)\<lparr>currCountdown := countdown t\<rparr>)"
      using t(5) by (simp only: cpu_of_devices [OF u(4)])
    have "wait_in_halt (Suc m) hw b = wait_in_halt m hw t"
      using prems(9,11) u(1,3) t(1) by simp
    then show ?thesis
      using True woken t u cpu by (cases m) auto
  next
    case False
    obtain u where u: "pc_tick1 (hw_timers hw) b = Done () u" "timers_ok h u" "next_timer j (now b + k) u"
      "now u = now b + 1" "devices u = devices b" "funct (timer u j) = funct (timer b j)"
      using tick_before [OF prems(1,2) _ prems(4), of "hw_timers hw"] False prems(3) by auto
    have T: "now u + (k - 1) = now b + k"
      using u(4) prems(3) by simp
    have "wait_in_halt (Suc m) hw b = wait_in_halt m hw u"
      using prems(9,11) u(1) by simp
    moreover have "if k - 1 < m
      then \<exists>t. wait_in_halt m hw u = Done True t \<and> quiet t \<and> BX_CPU_INTR t \<and> now t = now u + (k - 1) \<and>
        cpu_of t = set_INTR True ((cpu_of u)\<lparr>currCountdown := countdown t\<rparr>) \<and>
        pic (devices t) = requested n (pic (devices u))
      else \<exists>t. wait_in_halt m hw u = Done False t"
      by (rule Suc.IH) (use u T prems False same_devices [OF u(5)] in auto)
    ultimately show ?thesis
      using T u(5) prems(3) cpu_of_devices [OF u(5)] by (auto split: if_splits)
  qed
qed

section \<open>The property\<close>

lemma put_cpu_time:
  assumes "currCountdown s = countdown b"
  shows "timers_ok h (put_cpu s b) = timers_ok h b" "now (put_cpu s b) = now b"
    "next_timer j T (put_cpu s b) = next_timer j T b"
  using assms by (simp_all add: timers_ok_def now_def next_timer_def put_cpu_def)

lemma HLT_Done:
  assumes "on_cpu (HLT i) b = Done () c"
  shows "c = put_cpu ((cpu_of b)\<lparr>debug_trap := debug_trap (cpu_of b) OR 0x80000000, async_event := 1\<rparr>) b"
  using assms by (auto simp: on_cpu_def HLT_def raise_def panic_def split: if_splits)

text \<open>C37
  A halted processor is woken by its timer. HLT has been executed with IF set, perhaps right behind
  STI, on a machine on which nothing is pending, no shutdown of the emulator is requested and the
  entries of the I/O APIC are masked; the next active timer is due at \<open>T\<close>, alone, and its
  callback raises an unmasked line of controllers at rest. Then the next boundary passes the time up
  to \<open>T\<close>, exactly, and enters the handler of the vector programmed for the line, with the
  request acknowledged; the halt and the inhibition behind STI are over and nothing else of the
  processor changed meanwhile. If the model looks at the clock fewer times than that (\<open>m\<close>), the
  processor is still halted when it stops.\<close>

theorem timer_ends_halt:
  assumes "on_cpu (HLT i) b0 = Done () b" and "timers_ok h b0" "next_timer j T b0" "T \<le> horizon"
    and "funct (timer b0 j) = Some f" "hw_timers hw f = DEV_pic_raise_irq n"
    and "quiet b0" "pins_masked b0" "\<not> BX_CPU_INTR b0" "machine_IF b0"
    and "at_rest (master_pic (pic (devices b0)))" "at_rest (slave_pic (pic (devices b0)))"
    and "unmasked (pic (devices b0)) n"
  shows "if T - now b0 < m
    then \<exists>t. handleAsyncEvent m hw b = enter_handler (vector_of (pic (devices b0)) n) (acknowledged t) \<and> now t = T \<and>
      cpu_of t = set_INTR True ((cpu_of b0)\<lparr>debug_trap := 0, inhibit_mask := 0, currCountdown := countdown t\<rparr>) \<and>
      pic (devices t) = requested n (pic (devices b0))
    else \<exists>t. handleAsyncEvent m hw b = Done None t"
proof -
  define b1 where "b1 = put_cpu ((cpu_of b)\<lparr>debug_trap := 0, inhibit_mask := 0\<rparr>) b"
  have b1: "b1 = put_cpu ((cpu_of b0)\<lparr>async_event := 1, debug_trap := 0, inhibit_mask := 0\<rparr>) b0"
    by (simp add: b1_def HLT_Done [OF assms(1)])
  have trap: "debug_trap (cpu_of b) AND 0x80000000 \<noteq> 0"
    using assms(7) by (simp add: HLT_Done [OF assms(1)] quiet_def)
  have time: "timers_ok h b1 = timers_ok h b0" "now b1 = now b0" "next_timer j T b1 = next_timer j T b0"
    unfolding b1 by (rule put_cpu_time, simp add: cpu_of_def)+
  have ahead: "now b0 < T"
    using assms(3) active_ahead [OF assms(2), of j] by (auto simp: next_timer_def)
  have fields: "quiet b1" "pins_masked b1" "\<not> BX_CPU_INTR b1" "machine_IF b1" "async_event (cpu_of b1) \<noteq> 2"
    "pic (devices b1) = pic (devices b0)" "timer b1 = timer b0"
    using assms(7-10) by (simp_all add: b1 quiet_def pins_masked_def BX_CPU_INTR_def get_eflag_def)
  have wait: "if T - now b0 < m
    then \<exists>t. wait_in_halt m hw b1 = Done True t \<and> quiet t \<and> BX_CPU_INTR t \<and> now t = now b1 + (T - now b0) \<and>
      cpu_of t = set_INTR True ((cpu_of b1)\<lparr>currCountdown := countdown t\<rparr>) \<and>
      pic (devices t) = requested n (pic (devices b1))
    else \<exists>t. wait_in_halt m hw b1 = Done False t"
    by (rule wait_for_timer [where f = f]) (use assms time ahead fields in auto)
  have event: "handleAsyncEvent m hw b = and_then (wait_in_halt m hw) (\<lambda>woken.
      if woken then and_then (pending_events hw) (\<lambda>_. ret (Some False)) else ret None) b1"
    using trap by (simp add: handleAsyncEvent_def b1_def)
  show ?thesis
  proof (cases "T - now b0 < m")
    case True
    then obtain t where t: "wait_in_halt m hw b1 = Done True t" "quiet t" "BX_CPU_INTR t" "now t = T"
      "cpu_of t = set_INTR True ((cpu_of b1)\<lparr>currCountdown := countdown t\<rparr>)"
      "pic (devices t) = requested n (pic (devices b0))"
      using wait ahead time(2) fields(6) by auto
    have "handleAsyncEvent m hw b = handleAsyncEvent m hw t"
      using event t(1,2) by (simp add: handleAsyncEvent_def quiet_def)
    moreover have "accepts t"
      using assms(10) t(5) by (simp add: accepts_def b1 get_eflag_def set_INTR_def)
    ultimately have "handleAsyncEvent m hw b = enter_handler (vector_of (pic (devices b0)) n) (acknowledged t)"
      using delivers [OF t(2,3) _ t(6) assms(11-13)] by simp
    moreover have "cpu_of t = set_INTR True ((cpu_of b0)\<lparr>debug_trap := 0, inhibit_mask := 0, currCountdown := countdown t\<rparr>)"
      by (simp add: t(5) b1 set_INTR_def)
    ultimately show ?thesis
      using True t(4,6) by auto
  next
    case False
    then show ?thesis
      using wait event by auto
  qed
qed

text \<open>
  The witness: the idle machine with its program outside of the BIOS, the null timer, and a timer
  due in 5 ticks.
\<close>

definition halting_machine :: "unit machine" where
  "halting_machine =
     change_cpu (\<lambda>s. s\<lparr>sregs := (sregs s)(CS := (sregs s CS)\<lparr>sel_value := 0\<rparr>), currCountdown := 5\<rparr>)
       ((idle_machine 0x202 ())\<lparr>countdownPeriod := 5, numTimers := 2,
         timer := (\<lambda>_. zero_timer)
           (0 := \<lparr>inUse = True, period = NullTimerInterval, timeToFire = NullTimerInterval, active = True,
                  continuous = True, funct = Some 0\<rparr>,
            1 := \<lparr>inUse = True, period = 5, timeToFire = 5, active = True, continuous = False, funct = Some 1\<rparr>)\<rparr>)"

definition timer_hardware :: "unit hardware" where
  "timer_hardware = still_hardware\<lparr>hw_timers := (\<lambda>f. if f = 1 then DEV_pic_raise_irq 0 else nullTimer)\<rparr>"

lemma halting_machine_time:
  "timers_ok 0 halting_machine" "next_timer 1 5 halting_machine" "now halting_machine = 0"
  "funct (timer halting_machine 1) = Some 1"
  by (simp_all add: halting_machine_def timers_ok_def next_timer_def now_def change_cpu_def put_cpu_def timer_ok_def
      heartbeat_def idle_machine_def construct_def NullTimerInterval_def zero_timer_def
      all_conj_distrib less_2_cases_iff)

lemma halting_machine_quiet:
  "quiet halting_machine" "pins_masked halting_machine" "\<not> BX_CPU_INTR halting_machine" "machine_IF halting_machine"
  "at_rest (master_pic (pic (devices halting_machine)))" "at_rest (slave_pic (pic (devices halting_machine)))"
  "unmasked (pic (devices halting_machine)) 0" "vector_of (pic (devices halting_machine)) 0 = 8"
  by (simp_all add: halting_machine_def quiet_def pins_masked_def BX_CPU_INTR_def cpu_of_def idle_machine_def construct_def
      idle_lapic_def idle_ioapic_def redirect_masked_def at_rest_def unmasked_def open_pics_def pic_init_chip_def
      vector_of_def get_eflag_def change_cpu_def put_cpu_def)

lemma timer_ends_halt_witness:
  "\<exists>b t. on_cpu (HLT (reg_instr 0 0)) halting_machine = Done () b \<and>
     handleAsyncEvent 6 timer_hardware b = enter_handler 8 (acknowledged t) \<and> now t = 5"
proof -
  obtain b where b: "on_cpu (HLT (reg_instr 0 0)) halting_machine = Done () b"
    by (simp add: on_cpu_def HLT_def halting_machine_def real_mode_def cpu_of_def change_cpu_def put_cpu_def idle_machine_def construct_def
        boot_def power_on_def)
  show ?thesis
    using timer_ends_halt [OF b halting_machine_time(1,2) _ halting_machine_time(4), of timer_hardware 0 6]
      halting_machine_time(3) halting_machine_quiet b by (auto simp: timer_hardware_def)
qed

end
