(* ===== verification/BxApicTheorems.thy ===== *)
theory BxApicTheorems
  imports BxBench
begin

text \<open>
  An interrupt through the APICs: from a pin of the I/O APIC, whose entry may still be masked, over
  the local APIC to the acknowledge of the processor and the end of the interrupt; and what a second
  request meets while one is in service.
\<close>

section \<open>The highest priority\<close>

lemma find_rev_upt:
  "find P (rev [0..<n]) = Some v \<longleftrightarrow> v < n \<and> P v \<and> (\<forall>w<n. v < w \<longrightarrow> \<not> P w)"
  by (induction n) (auto simp: less_Suc_eq)

lemma highest_priority_Some:
  "highest_priority_int a = Some v \<longleftrightarrow> v < 256 \<and> a v \<and> (\<forall>w<256. v < w \<longrightarrow> \<not> a w)"
  unfolding highest_priority_int_def by (rule find_rev_upt)

lemma highest_priority_None: "highest_priority_int a = None \<longleftrightarrow> (\<forall>v<256. \<not> a v)"
  by (auto simp: highest_priority_int_def find_None_iff)

lemma highest_of_none [simp]: "highest_priority_int (\<lambda>_. False) = None"
  by (simp add: highest_priority_None)

lemma highest_of_one [simp]: "v < 256 \<Longrightarrow> highest_priority_int (\<lambda>w. w = v) = Some v"
  by (simp add: highest_priority_Some)

lemma one_request [simp]: "(\<lambda>_. False)(v := True) = (\<lambda>w. w = v)" "(\<lambda>w. w = v)(v := False) = (\<lambda>_. False)"
  by (simp_all add: fun_eq_iff)

text \<open>The priority class of a vector, and the classes above the task priority.\<close>

lemma class_of_vector: "v < 256 \<Longrightarrow> v AND 0xf0 = 16 * (v div 16)" for v :: nat
proof -
  have "(0xf0 :: nat) = push_bit 4 (mask 4)"
    by (simp add: mask_eq_exp_minus_1 push_bit_eq_mult)
  moreover have "v AND push_bit 4 (mask 4) = push_bit 4 (take_bit 4 (drop_bit 4 v))"
    by (rule bit_eqI) (auto simp: bit_simps)
  ultimately show ?thesis if "v < 256"
    using that by (simp add: take_bit_nat_eq_self push_bit_eq_mult drop_bit_eq_div)
qed

lemma class_mono: "v \<le> w \<Longrightarrow> w < 256 \<Longrightarrow> v AND 0xf0 \<le> (w AND 0xf0 :: nat)"
  by (simp add: class_of_vector div_le_mono)

lemma masked_priority: "unat (w AND 0xf0 :: 'a::len word) \<le> unat w"
  by (simp only: word_le_nat_alt [symmetric] word_and_le2 word_and_le1)

section \<open>One interrupt through the local APIC\<close>

definition idle_apic :: "local_apic \<Rightarrow> bool" where
  "idle_apic a \<longleftrightarrow> lapic_irr a = (\<lambda>_. False) \<and> lapic_isr a = (\<lambda>_. False) \<and> \<not> lapic_INTR a \<and> \<not> bypass_irr_isr a"

text \<open>A vector that the APIC takes: a valid one, above the task priority, and not the spurious one.\<close>

definition takes :: "local_apic \<Rightarrow> nat \<Rightarrow> bool" where
  "takes a v \<longleftrightarrow> 0x10 \<le> v \<and> v \<le> 0xfe \<and> unat (task_priority a) < v AND 0xf0 \<and> v \<noteq> unat (spurious_vector a)"

definition signalled :: "nat \<Rightarrow> bool \<Rightarrow> 'x machine \<Rightarrow> 'x machine" where
  "signalled v trig b = lapic_event (on_lapic (\<lambda>a. a\<lparr>lapic_irr := (lapic_irr a)(v := True),
     lapic_tmr := (lapic_tmr a)(v := trig), lapic_INTR := True\<rparr>) b)"

lemma on_lapic_cong: "b = c \<Longrightarrow> f (lapic_of c) = g (lapic_of c) \<Longrightarrow> on_lapic f b = on_lapic g c"
  by (simp add: on_lapic_def)

lemma on_ioapic_cong: "b = c \<Longrightarrow> f (ioapic_of c) = g (ioapic_of c) \<Longrightarrow> on_ioapic f b = on_ioapic g c"
  by (simp add: on_ioapic_def)

lemma on_lapic_twice: "on_lapic g (on_lapic f b) = on_lapic (\<lambda>a. g (f a)) b"
  by (simp add: on_lapic_def)

lemma lapic_event_fields [simp]:
  "lapic (devices (lapic_event b)) = lapic (devices b)" "io_apic (devices (lapic_event b)) = io_apic (devices b)"
  "local_index (devices (lapic_event b)) = local_index (devices b)" "pic (devices (lapic_event b)) = pic (devices b)"
  "cpu_of (lapic_event b) = (cpu_of b)\<lparr>async_event := 1\<rparr>"
  by (simp_all add: lapic_event_def)

lemma signal_one:
  assumes "idle_apic (lapic_of b)" and "takes (lapic_of b) v"
  shows "trigger_irq v (unat (lapic_id (lapic_of b))) trig b = Done () (signalled v trig b)"
proof -
  have "\<not> v AND 0xf0 \<le> unat (task_priority (lapic_of b) AND 0xf0)"
    using assms(2) masked_priority [of "task_priority (lapic_of b)"] by (simp add: takes_def)
  then show ?thesis
    using assms unfolding trigger_irq_def
    by (simp add: Let_def idle_apic_def takes_def service_vector_def service_local_apic_def signalled_def
        on_lapic_twice)
qed

lemma acknowledge_one:
  assumes "idle_apic (lapic_of b)" and "takes (lapic_of b) v" and "lapic_of s = lapic_of (signalled v trig b)"
  shows "acknowledge_int s = Done (of_nat v) (lapic_event (on_lapic (\<lambda>a. a\<lparr>lapic_irr := (\<lambda>_. False),
    lapic_isr := (\<lambda>w. w = v), lapic_INTR := False\<rparr>) s))"
proof -
  have p: "\<not> v AND 0xf0 \<le> unat (ucast (task_priority (lapic_of b)) :: Bit8u)"
    using assms(2)
    by (simp add: takes_def unsigned_ucast_eq not_le le_less_trans [OF take_bit_nat_less_eq_self])
  show ?thesis
    using assms p unfolding acknowledge_int_def
    by (simp add: Let_def idle_apic_def takes_def signalled_def get_ppr_def service_local_apic_def
        cong: on_lapic_cong)
qed

lemma end_one:
  assumes "lapic_isr (lapic_of t) = (\<lambda>w. w = v)" and "lapic_irr (lapic_of t) = (\<lambda>_. False)"
    and "v < 256" and "v \<noteq> unat (spurious_vector (lapic_of t))"
  shows "receive_EOI t = on_lapic (\<lambda>a. a\<lparr>lapic_isr := (\<lambda>_. False)\<rparr>) t"
  using assms by (simp add: receive_EOI_def service_local_apic_def Let_def cong: on_lapic_cong)

section \<open>The pins of the I/O APIC\<close>

definition pin_ready :: "ioapic \<Rightarrow> nat \<Rightarrow> bool" where
  "pin_ready a n \<longleftrightarrow> bit (ioapic_irr a) n \<and> \<not> redirect_masked (ioredtbl a ! n)"

text \<open>An unmasked entry that sends \<open>v\<close> to the APIC 0 in the fixed mode.\<close>

definition entry_sends :: "bx_io_redirect_entry \<Rightarrow> nat \<Rightarrow> bool" where
  "entry_sends e v \<longleftrightarrow> \<not> redirect_masked e \<and> redirect_dest e = 0 \<and> \<not> bit (redirect_lo e) 11 \<and>
     drop_bit 8 (redirect_lo e) AND 7 = 0 \<and> unat (redirect_lo e AND 0xff) = v"

lemma service_pins_idle: "(\<And>n. n \<in> set ns \<Longrightarrow> \<not> pin_ready (ioapic_of b) n) \<Longrightarrow> service_pins ns b = Done () b"
  by (induction ns) (auto simp: service_pin_def pin_ready_def Let_def and_then_def)

lemma service_pins_append:
  "service_pins (ns @ ms) = and_then (service_pins ns) (\<lambda>_. service_pins ms)"
  by (induction ns) (simp_all add: and_then_assoc)

lemma fixed_broadcast:
  "fixed_delivery True 1 True v trig = and_then (trigger_irq v 0 trig) (\<lambda>_. ret True)"
  by (simp add: fixed_delivery_def)

lemma deliver_sends:
  assumes "entry_sends e v" and "local_index (devices b)"
  shows "deliver_entry e b = and_then (trigger_irq v 0 (bit (redirect_lo e) 15)) (\<lambda>_. ret True) b"
  using assms by (simp add: entry_sends_def deliver_entry_def generic_deliver_def get_delivery_bitmask_def
      generic_delivery_bitmask_def prune_def Let_def fixed_broadcast)

definition pin_done :: "nat \<Rightarrow> ioapic \<Rightarrow> ioapic" where
  "pin_done n a = a\<lparr>ioapic_irr := ioapic_irr a AND NOT (push_bit n 1)\<rparr>"

lemma service_one_pin:
  assumes "n < 24" and "bit (ioapic_irr (ioapic_of b)) n" and "entry_sends (ioredtbl (ioapic_of b) ! n) v"
    and "\<forall>m<24. m \<noteq> n \<longrightarrow> \<not> pin_ready (ioapic_of b) m" and "local_index (devices b)"
    and "trigger_irq v 0 (bit (redirect_lo (ioredtbl (ioapic_of b) ! n)) 15) b = Done () s"
    and "ioapic_of s = ioapic_of b"
  shows "service_ioapic b = Done () (on_ioapic (pin_done n) s)"
proof -
  have pins: "[0..<24] = [0..<n] @ n # [Suc n..<24]"
    using assms(1) upt_add_eq_append [of 0 n "24 - n"] by (simp add: upt_conv_Cons)
  have before: "service_pins [0..<n] b = Done () b"
    using assms(1,4) by (intro service_pins_idle) auto
  have at: "service_pin n b = Done () (on_ioapic (pin_done n) s)"
    using assms(2,3) deliver_sends [OF assms(3,5)] assms(6)
    by (simp add: service_pin_def Let_def entry_sends_def pin_done_def [abs_def])
  have "service_pins [Suc n..<24] (on_ioapic (pin_done n) s) = Done () (on_ioapic (pin_done n) s)"
    using assms(4,7) by (intro service_pins_idle) (auto simp: pin_ready_def pin_done_def bit_simps)
  then show ?thesis
    by (simp add: service_ioapic_def pins service_pins_append before at)
qed

section \<open>From the pin to the end of the interrupt\<close>

text \<open>
  The interrupt \<open>v\<close> of pin \<open>n\<close> has arrived: the processor is told, its acknowledge gives
  \<open>v\<close> and puts it in service, and the end of the interrupt leaves the APICs idle.
\<close>

definition arrived :: "nat \<Rightarrow> nat \<Rightarrow> 'x machine \<Rightarrow> bool" where
  "arrived n v s \<longleftrightarrow> BX_CPU_INTR s \<and> async_event (cpu_of s) = 1 \<and> \<not> bit (ioapic_irr (ioapic_of s)) n \<and>
     (case acknowledge_int s of
        Done u t \<Rightarrow> unat u = v \<and> lapic_isr (lapic_of t) = (\<lambda>w. w = v) \<and> \<not> lapic_INTR (lapic_of t) \<and>
          idle_apic (lapic_of (receive_EOI t))
      | _ \<Rightarrow> False)"

lemma serviced_arrives:
  assumes "idle_apic (lapic_of b)" and "takes (lapic_of b) v" and "lapic_id (lapic_of b) = 0"
    and "n < 24" and "bit (ioapic_irr (ioapic_of b)) n" and "entry_sends (ioredtbl (ioapic_of b) ! n) v"
    and "\<forall>m<24. m \<noteq> n \<longrightarrow> \<not> pin_ready (ioapic_of b) m" and "local_index (devices b)"
  shows "\<exists>s. service_ioapic b = Done () s \<and> arrived n v s"
proof -
  define c where "c = signalled v (bit (redirect_lo (ioredtbl (ioapic_of b) ! n)) 15) b"
  define s where "s = on_ioapic (pin_done n) c"
  have "trigger_irq v 0 (bit (redirect_lo (ioredtbl (ioapic_of b) ! n)) 15) b = Done () c"
    using signal_one [OF assms(1,2)] assms(3) by (simp add: c_def)
  then have run: "service_ioapic b = Done () s"
    unfolding s_def using assms(4-8) by (intro service_one_pin) (simp_all add: c_def signalled_def)
  have v: "v < 256" "v \<noteq> unat (spurious_vector (lapic_of b))"
    using assms(2) by (simp_all add: takes_def)
  define t where "t = lapic_event (on_lapic (\<lambda>a. a\<lparr>lapic_irr := (\<lambda>_. False),
    lapic_isr := (\<lambda>w. w = v), lapic_INTR := False\<rparr>) s)"
  have "acknowledge_int s = Done (of_nat v) t"
    unfolding t_def by (rule acknowledge_one [OF assms(1,2)]) (simp add: s_def c_def)
  moreover have "receive_EOI t = on_lapic (\<lambda>a. a\<lparr>lapic_isr := (\<lambda>_. False)\<rparr>) t"
    using v by (intro end_one) (simp_all add: t_def s_def c_def signalled_def)
  ultimately have "arrived n v s"
    using v(1) assms(1)
    by (simp add: arrived_def s_def c_def signalled_def BX_CPU_INTR_def pin_done_def bit_simps t_def idle_apic_def
        unat_of_nat)
  with run show ?thesis
    by blast
qed

lemma pin_register:
  assumes "n < 24"
  shows "bit (0x10 + 2 * word_of_nat n :: Bit32u) 0 = False" "redirect_index (0x10 + 2 * word_of_nat n) = n"
    "(0x10 + 2 * word_of_nat n :: Bit32u) \<in> {0, 1, 2} \<longleftrightarrow> False"
proof -
  have u: "unat (2 * word_of_nat n :: Bit32u) = 2 * n" "unat (0x10 + 2 * word_of_nat n :: Bit32u) = 0x10 + 2 * n"
    using assms by (simp_all add: unat_word_ariths unat_of_nat)
  show "bit (0x10 + 2 * word_of_nat n :: Bit32u) 0 = False"
    by (simp add: bit_0)
  show "redirect_index (0x10 + 2 * word_of_nat n) = n"
    using u(1) by (simp add: redirect_index_def unat_drop_bit_eq drop_bit_Suc unat_div_distrib)
  show "(0x10 + 2 * word_of_nat n :: Bit32u) \<in> {0, 1, 2} \<longleftrightarrow> False"
    using u(2) by (auto simp: word_unat_eq_iff)
qed

text \<open>C8
  A device raises a pin of the I/O APIC whose entry is programmed with a valid vector for the
  processor while the APICs are idle. If the entry is not masked the interrupt arrives at once:
  the processor is told, the acknowledge gives exactly this vector, and its end leaves the APICs
  idle. If it is masked, nothing but the pin's bit changes, and the write that unmasks the entry
  makes the interrupt arrive in the same way: it is not lost.\<close>

theorem pin_interrupt_arrives:
  fixes n :: nat and w :: Bit32u and b :: "'x machine"
  defines "e \<equiv> ioredtbl (ioapic_of b) ! n"
  assumes "idle_apic (lapic_of b)" and "takes (lapic_of b) v" and "lapic_id (lapic_of b) = 0" and "local_index (devices b)"
    and "n < 24" and "length (ioredtbl (ioapic_of b)) = 24" and "\<not> bit (ioapic_irr (ioapic_of b)) n"
    and "\<forall>m<24. \<not> pin_ready (ioapic_of b) m" and "ioregsel (ioapic_of b) = 0x10 + 2 * of_nat n"
    and "entry_sends (if redirect_masked e then e\<lparr>redirect_lo := w\<rparr> else e) v"
  shows "\<exists>p. ioapic_raise_irq n b = Done () p \<and>
    (if redirect_masked e
     then p = on_ioapic (\<lambda>a. a\<lparr>ioapic_irr := ioapic_irr a OR push_bit n 1\<rparr>) b \<and>
       (\<exists>s. ioapic_write 0xfec00010 w 4 p = Done () s \<and> arrived n v s)
     else arrived n v p)"
proof -
  define p where "p = on_ioapic (\<lambda>a. a\<lparr>ioapic_irr := ioapic_irr a OR push_bit n 1\<rparr>) b"
  have raise: "ioapic_raise_irq n b = service_ioapic p"
    using assms(6,8) by (simp add: ioapic_raise_irq_def p_def)
  have others: "\<forall>m<24. m \<noteq> n \<longrightarrow> \<not> pin_ready (ioapic_of p) m" and at: "bit (ioapic_irr (ioapic_of p)) n"
    using assms(6,9) by (auto simp: p_def pin_ready_def bit_simps)
  show ?thesis
  proof (cases "redirect_masked e")
    case False
    have "\<exists>s. service_ioapic p = Done () s \<and> arrived n v s"
      using assms(2-6,11) False others at by (intro serviced_arrives) (simp_all add: p_def e_def)
    then show ?thesis
      using False raise by simp
  next
    case True
    have "service_ioapic p = Done () p"
      unfolding service_ioapic_def using others True
      by (intro service_pins_idle) (auto simp: pin_ready_def p_def e_def)
    define q where "q = on_ioapic (\<lambda>a. a\<lparr>ioredtbl := (ioredtbl a)[n := e\<lparr>redirect_lo := w\<rparr>]\<rparr>) p"
    have sel: "\<not> bit (ioregsel (ioapic_of b)) 0" "redirect_index (ioregsel (ioapic_of b)) = n"
      "ioregsel (ioapic_of b) \<notin> {0, 1, 2}"
      by (simp_all only: assms(10) pin_register [OF assms(6)] not_False_eq_True)
    have "ioapic_write 0xfec00010 w 4 p = service_ioapic q"
      using sel assms(6) by (simp add: ioapic_write_def Let_def p_def q_def e_def cong: on_ioapic_cong)
    moreover have "\<exists>s. service_ioapic q = Done () s \<and> arrived n v s"
      using assms(2-7,11) True others at by (intro serviced_arrives) (auto simp: p_def q_def e_def pin_ready_def)
    ultimately show ?thesis
      using True raise \<open>service_ioapic p = Done () p\<close> by (simp add: p_def)
  qed
qed

definition keyboard_machine :: "'x \<Rightarrow> 'x machine" where
  "keyboard_machine x = on_ioapic (\<lambda>a. a\<lparr>ioregsel := 0x12\<rparr>) (idle_machine 0x202 x)"

lemma pin_interrupt_witness:
  "\<exists>p s. ioapic_raise_irq 1 (keyboard_machine ()) = Done () p \<and> \<not> lapic_INTR (lapic_of p) \<and>
     ioapic_write 0xfec00010 0x31 4 p = Done () s \<and> arrived 1 0x31 s"
proof -
  have "\<exists>p. ioapic_raise_irq 1 (keyboard_machine ()) = Done () p \<and>
    (if redirect_masked (ioredtbl (ioapic_of (keyboard_machine ())) ! 1)
     then p = on_ioapic (\<lambda>a. a\<lparr>ioapic_irr := ioapic_irr a OR push_bit 1 1\<rparr>) (keyboard_machine ()) \<and>
       (\<exists>s. ioapic_write 0xfec00010 0x31 4 p = Done () s \<and> arrived 1 0x31 s)
     else arrived 1 0x31 p)"
    by (rule pin_interrupt_arrives)
      (auto simp: keyboard_machine_def idle_ioapic_def idle_lapic_def idle_apic_def takes_def pin_ready_def
        entry_sends_def redirect_masked_def redirect_dest_def)
  moreover have "redirect_masked (ioredtbl (ioapic_of (keyboard_machine ())) ! 1)"
    by (simp add: keyboard_machine_def idle_ioapic_def redirect_masked_def)
  ultimately show ?thesis
    by (auto simp: keyboard_machine_def idle_lapic_def)
qed

section \<open>A second request\<close>

lemma priority_in_service:
  assumes "v < 256" and "w \<le> v" and "\<not> w AND 0xf0 \<le> unat (tp AND 0xf0 :: Bit32u)"
  shows "w AND 0xf0 \<le> unat (if tp AND 0xF0 \<ge> of_nat (v AND 0xF0) then ucast tp else of_nat (v AND 0xF0) :: Bit8u)"
proof -
  have c: "w AND 0xf0 \<le> v AND 0xf0" "v AND 0xf0 < 256"
    using class_mono [OF assms(2,1)] assms(1) by (simp_all add: class_of_vector)
  then have "\<not> tp AND 0xF0 \<ge> of_nat (v AND 0xF0)"
    using assms(3) by (simp add: word_le_nat_alt unat_of_nat)
  then show ?thesis
    using c by (simp add: unat_of_nat)
qed

text \<open>C10
  While the local APIC serves \<open>v\<close>, a request of a higher vector does not interrupt the service:
  it is recorded and signalled only at the end of the interrupt. A request of a lower vector above
  the task priority does raise the line, and the acknowledge then gives the spurious vector, with
  the request still waiting. The comparison of the two vectors in \<open>service_local_apic\<close> is the
  wrong way round.\<close>

theorem second_request_inverted:
  assumes "lapic_isr (lapic_of b) = (\<lambda>x. x = v)" and "lapic_irr (lapic_of b) = (\<lambda>_. False)"
    and "\<not> lapic_INTR (lapic_of b)" and "\<not> bypass_irr_isr (lapic_of b)" and "v < 256"
    and "v \<noteq> unat (spurious_vector (lapic_of b))" and "takes (lapic_of b) w" and "w \<noteq> v"
  shows "\<exists>s. trigger_irq w (unat (lapic_id (lapic_of b))) trig b = Done () s \<and>
    lapic_isr (lapic_of s) = (\<lambda>x. x = v) \<and> lapic_irr (lapic_of s) = (\<lambda>x. x = w) \<and>
    (if v < w then \<not> lapic_INTR (lapic_of s) \<and> cpu_of s = cpu_of b \<and> lapic_INTR (lapic_of (receive_EOI s))
     else lapic_INTR (lapic_of s) \<and>
       (\<exists>t. acknowledge_int s = Done (ucast (spurious_vector (lapic_of b))) t \<and>
         lapic_irr (lapic_of t) = (\<lambda>x. x = w) \<and> \<not> lapic_INTR (lapic_of t)))"
proof -
  define s0 where "s0 = on_lapic (\<lambda>a. a\<lparr>lapic_irr := (\<lambda>x. x = w), lapic_tmr := (lapic_tmr a)(w := trig)\<rparr>) b"
  have w: "w < 256" "0x10 \<le> w" "w \<le> 0xfe"
    using assms(7) by (simp_all add: takes_def)
  have above: "\<not> w AND 0xf0 \<le> unat (task_priority (lapic_of b) AND 0xf0)"
    using assms(7) masked_priority [of "task_priority (lapic_of b)"] by (simp add: takes_def)
  have t: "trigger_irq w (unat (lapic_id (lapic_of b))) trig b = Done () (service_local_apic s0)"
    using assms(2,4) w unfolding trigger_irq_def
    by (simp add: Let_def service_vector_def s0_def cong: on_lapic_cong)
  show ?thesis
  proof (cases "v < w")
    case True
    then have "service_local_apic s0 = s0"
      using assms(1,3,5) w by (simp add: service_local_apic_def s0_def)
    moreover have "lapic_INTR (lapic_of (receive_EOI s0))"
      using assms(1,3,5,6) w above by (simp add: receive_EOI_def service_local_apic_def s0_def Let_def)
    ultimately show ?thesis
      using True assms(1,3) t by (simp add: s0_def)
  next
    case False
    then have lower: "w \<le> v"
      by simp
    define s where "s = lapic_event (on_lapic (\<lambda>a. a\<lparr>lapic_INTR := True\<rparr>) s0)"
    have s: "service_local_apic s0 = s"
      using assms(1,3,5,8) w lower above by (simp add: service_local_apic_def s0_def s_def)
    have "w AND 0xf0 \<le> unat (get_ppr (lapic_of s))"
      using priority_in_service [OF assms(5) lower above] assms(1) by (simp add: get_ppr_def s_def s0_def assms(5) split del: if_split cong: if_cong)
    then have "acknowledge_int s = spurious_int s"
      using w by (simp add: acknowledge_int_def s_def s0_def)
    then show ?thesis
      using False assms(1) t s by (simp add: spurious_int_def) (simp add: s_def s0_def)
  qed
qed

definition serving_machine :: "nat \<Rightarrow> 'x \<Rightarrow> 'x machine" where
  "serving_machine v x = on_lapic (\<lambda>a. a\<lparr>lapic_isr := (\<lambda>w. w = v)\<rparr>) (idle_machine 0x202 x)"

lemma second_request_witness:
  "(\<exists>s. trigger_irq 0x80 0 False (serving_machine 0x40 ()) = Done () s \<and> \<not> lapic_INTR (lapic_of s)) \<and>
   (\<exists>s t. trigger_irq 0x30 0 False (serving_machine 0x40 ()) = Done () s \<and> acknowledge_int s = Done 0xff t)"
proof -
  define b where "b = serving_machine 0x40 ()"
  have b: "lapic_isr (lapic_of b) = (\<lambda>x. x = 0x40)" "lapic_irr (lapic_of b) = (\<lambda>_. False)"
    "\<not> lapic_INTR (lapic_of b)" "\<not> bypass_irr_isr (lapic_of b)" "(0x40 :: nat) < 256"
    "0x40 \<noteq> unat (spurious_vector (lapic_of b))" "takes (lapic_of b) 0x80" "takes (lapic_of b) 0x30"
    "unat (lapic_id (lapic_of b)) = 0" "spurious_vector (lapic_of b) = 0xff"
    by (simp_all add: b_def serving_machine_def idle_lapic_def takes_def)
  show ?thesis
    using second_request_inverted [OF b(1-7), of False] second_request_inverted [OF b(1-6,8), of False] b(9,10)
    by (auto simp: b_def [symmetric])
qed

end
