(* ===== verification/BxDmaTheorems.thy ===== *)
theory BxDmaTheorems
  imports BxBench
begin

text \<open>
  A block transfer from a device to memory: the hold acknowledges of the processor move the bytes
  the device supplies, one by one, to consecutive addresses, and the last one ends the block.
\<close>

section \<open>Parts of the controllers\<close>

lemma dma_ctrl_simps [simp]:
  "dma_ctrl False d = dma_1 d" "dma_ctrl True d = dma_2 d"
  "on_ctrl False f d = d\<lparr>dma_1 := f (dma_1 d)\<rparr>" "on_ctrl True f d = d\<lparr>dma_2 := f (dma_2 d)\<rparr>"
  by (simp_all add: dma_ctrl_def on_ctrl_def)

lemma on_chan_fields [simp]:
  "status_reg (on_chan n f s) = status_reg s" "mask_reg (on_chan n f s) = mask_reg s"
  "DACK (on_chan n f s) = DACK s" "DRQ (on_chan n f s) = DRQ s" "ctrl_disabled (on_chan n f s) = ctrl_disabled s"
  "length (chan (on_chan n f s)) = length (chan s)"
  "n < length (chan s) \<Longrightarrow> chan (on_chan n f s) ! n = f (chan s ! n)"
  by (simp_all add: on_chan_def)

lemma step_channel_fields [simp]:
  "transfer_type (step_channel c) = transfer_type c" "page_reg (step_channel c) = page_reg c"
  "address_decrement (step_channel c) = address_decrement c" "autoinit_enable (step_channel c) = autoinit_enable c"
  "chan_used (step_channel c) = chan_used c"
  by (simp_all add: step_channel_def Let_def)

lemma step_channel_up:
  "address_decrement c = 0 \<Longrightarrow> autoinit_enable c = 0 \<Longrightarrow> current_address (step_channel c) = current_address c + 1"
  "autoinit_enable c = 0 \<Longrightarrow> current_count (step_channel c) = current_count c - 1"
  by (simp_all add: step_channel_def Let_def)

lemma step_controller_fields [simp]:
  "length (chan (step_controller n s)) = length (chan s)"
  "length (mask_reg (step_controller n s)) = length (mask_reg s)"
  "ctrl_disabled (step_controller n s) = ctrl_disabled s"
  "n < length (chan s) \<Longrightarrow> chan (step_controller n s) ! n = step_channel (chan s ! n)"
  by (simp_all add: step_controller_def Let_def on_chan_def)

lemma requests_cong:
  "status_reg s = status_reg t \<Longrightarrow> mask_reg s = mask_reg t \<Longrightarrow> requests s = requests t"
  by (simp add: requests_def fun_eq_iff)

lemma first_channel_cong: "requests s = requests t \<Longrightarrow> first_channel s = first_channel t"
  by (simp add: first_channel_def)

lemma first_channel_none: "(\<And>n. n < 4 \<Longrightarrow> \<not> requests s n) \<Longrightarrow> first_channel s = None"
  by (auto simp: first_channel_def find_None_iff)

lemma step_requests:
  assumes "\<not> count_expired (chan s ! n)"
  shows "requests (step_controller n s) = requests s"
  using assms by (intro requests_cong) (simp_all add: step_controller_def Let_def)

lemma request_bit_iff: "c < 4 \<Longrightarrow> (w :: Bit8u) AND request_bit c \<noteq> 0 \<longleftrightarrow> bit w (c + 4)"
  by (simp add: request_bit_def and_exp_eq_0_iff_not_bit push_bit_eq_mult)

lemma last_step_requests:
  assumes "count_expired (chan s ! n)" "d < 4" "d \<noteq> n" "autoinit_enable (chan s ! n) = 0" "n < 4"
  shows "requests (step_controller n s) d = requests s d"
  using assms by (simp add: requests_def request_bit_iff step_controller_def Let_def bit_simps)

lemma last_step:
  assumes "count_expired (chan s ! n)" "autoinit_enable (chan s ! n) = 0" "n < length (mask_reg s)" "n < 8"
  shows "mask_reg (step_controller n s) ! n" "bit (status_reg (step_controller n s)) n"
  using assms by (simp_all add: step_controller_def Let_def bit_simps)

section \<open>One hold acknowledge\<close>

text \<open>
  Channel \<open>c\<close> of DMA-1 is programmed to move bytes from its device, whose handler is \<open>f\<close>, upwards
  into memory without automatic initialisation, is first in line, and so is the cascade.
\<close>

definition ready :: "nat \<Rightarrow> nat \<Rightarrow> 'x machine \<Rightarrow> bool" where
  "ready f c b \<longleftrightarrow>
     (let d = dma_of b; ch = chan (dma_1 d) ! c in
      first_channel (dma_2 d) = Some 0 \<and> first_channel (dma_1 d) = Some c \<and>
      length (chan (dma_1 d)) = 4 \<and> length (mask_reg (dma_1 d)) = 4 \<and> chan_used (chan (dma_2 d) ! 0) \<and>
      transfer_type ch = 1 \<and> address_decrement ch = 0 \<and> autoinit_enable ch = 0 \<and>
      dmaWrite8 (dma_h d ! c) = Some f)"

definition transfer_address :: "nat \<Rightarrow> 'x machine \<Rightarrow> Bit32u" where
  "transfer_address c b =
     (let ch = chan (dma_1 (dma_of b)) ! c in push_bit 16 (ucast (page_reg ch)) OR ucast (current_address ch))"

text \<open>The device has bytes to give: its handler takes the first from the queue.\<close>

definition put_others :: "'x \<Rightarrow> 'x machine \<Rightarrow> 'x machine" where
  "put_others y b = b\<lparr>devices := board.more_update (\<lambda>_. y) (devices b)\<rparr>"

definition supplies :: "('x \<Rightarrow> Bit8u list) \<Rightarrow> (Bit8u, 'x machine) routine \<Rightarrow> bool" where
  "supplies queue h \<longleftrightarrow> (\<forall>b x xs. queue (board.more (devices b)) = x # xs \<longrightarrow>
     (\<exists>y. h b = Done x (put_others y b) \<and> queue y = xs))"

text \<open>Physical memory answers at the address, and no device.\<close>

definition dma_memory :: "cpu \<Rightarrow> Bit32u \<Rightarrow> bool" where
  "dma_memory s a \<longleftrightarrow> A20ADDR s a = a \<and> plain_ram s a \<and> unat a < 0xffffffff"

lemma put_others_fields [simp]:
  "cpu_of (put_others y b) = cpu_of b" "dma (devices (put_others y b)) = dma (devices b)"
  "HRQ (devices (put_others y b)) = HRQ (devices b)" "board.more (devices (put_others y b)) = y"
  by (simp_all add: put_others_def cpu_of_def)

lemma write_one_byte:
  assumes "mem_wf (mem s)" "dma_memory s a"
  shows "writePhysicalPage a [x] s = Done () (with_mem s (phys_write a x (mem s)))"
proof -
  have "in_page a 1"
    by (simp add: in_page_def)
  moreover have a: "A20ADDR s a = a"
    using assms(2) by (simp add: dma_memory_def)
  ultimately show ?thesis
    using write_spec [of s a "[x]"] assms by (simp add: dma_memory_def plain_ram_def a)
qed

lemma first_less: "first_channel s = Some c \<Longrightarrow> c < 4 \<and> requests s c"
  by (auto simp: first_channel_def find_Some_iff)

text \<open>The state in which the byte moves, and the machine after it.\<close>

definition stepped :: "nat \<Rightarrow> 'x machine \<Rightarrow> 'x machine" where
  "stepped c b = on_dma (\<lambda>d. let d1 = on_ctrl False (step_controller c)
       (on_ctrl True (\<lambda>s. s\<lparr>DACK := (DACK s)[0 := True]\<rparr>) (d\<lparr>HLDA := True\<rparr>)) in
     if count_expired (chan (dma_1 d) ! c) then d1\<lparr>TC := True\<rparr> else d1) b"

definition moved :: "nat \<Rightarrow> Bit8u \<Rightarrow> 'x \<Rightarrow> 'x machine \<Rightarrow> 'x machine" where
  "moved c x y b = put_cpu (with_mem (cpu_of b) (phys_write (transfer_address c b) x (mem (cpu_of b))))
     (put_others y (stepped c b))"

lemma on_dma_on_dma: "on_dma f (on_dma g b) = on_dma (\<lambda>d. f (g d)) b"
  by (simp add: on_dma_def)

lemma on_dma_cong: "f (dma_of b) = g (dma_of b) \<Longrightarrow> on_dma f b = on_dma g b"
  by (simp add: on_dma_def)

lemma hold_moves:
  assumes r: "ready f c b" and dev: "supplies queue (call_dmaWrite8 hw f)"
    and q: "queue (board.more (devices b)) = x # xs"
    and m: "mem_wf (mem (cpu_of b))" "dma_memory (cpu_of b) (transfer_address c b)"
  obtains y where "queue y = xs"
    and "raise_HLDA hw b = (if count_expired (chan (dma_1 (dma_of b)) ! c) then end_of_block False c else ret ())
      (moved c x y b)"
proof -
  have R: "first_channel (dma_2 (dma_of b)) = Some 0" "first_channel (dma_1 (dma_of b)) = Some c" "c < 4"
    "length (chan (dma_1 (dma_of b))) = 4" "transfer_type (chan (dma_1 (dma_of b)) ! c) = 1"
    "dmaWrite8 (dma_h (dma_of b) ! c) = Some f"
    using r first_less by (auto simp: ready_def Let_def)
  define b1 where "b1 = on_dma (\<lambda>d. on_ctrl True (\<lambda>s. s\<lparr>DACK := (DACK s)[0 := True]\<rparr>) (d\<lparr>HLDA := True\<rparr>)) b"
  have f2: "first_channel (s\<lparr>DACK := x\<rparr>) = first_channel s" for s :: dma_controller and x
    by (rule first_channel_cong) (simp add: requests_def fun_eq_iff)
  have served: "served_channel (dma_of b1) = Some (False, c)"
    using R by (simp add: b1_def served_channel_def f2)
  have more: "board.more (devices (stepped c b)) = board.more (devices b)"
    by (simp add: stepped_def)
  obtain y where y: "call_dmaWrite8 hw f (stepped c b) = Done x (put_others y (stepped c b))" "queue y = xs"
    using dev q unfolding supplies_def by (metis more)
  have h: "dma_h (dma_of (stepped c b)) = dma_h (dma_of b)"
    by (simp add: stepped_def Let_def)
  have w: "on_cpu (writePhysicalPage (transfer_address c b) [x]) (put_others y (stepped c b)) = Done () (moved c x y b)"
    using write_one_byte [OF m] by (simp add: on_cpu_def moved_def stepped_def)
  have "transfer hw False c (transfer_address c b) 1 (stepped c b) = Done () (moved c x y b)"
    using R h y w by (simp add: transfer_def from_device_def Let_def)
  moreover have "on_dma (\<lambda>d. (if first_channel (dma_2 d) = Some 0
       then on_ctrl True (\<lambda>s. s\<lparr>DACK := (DACK s)[0 := True]\<rparr>) (d\<lparr>HLDA := True\<rparr>) else d\<lparr>HLDA := True\<rparr>)) b = b1"
    unfolding b1_def by (rule on_dma_cong) (simp add: R)
  moreover have "on_dma (\<lambda>d. let d1 = on_ctrl False (step_controller c) d in
      if count_expired (chan (dma_1 (dma_of b)) ! c) then d1\<lparr>TC := True\<rparr> else d1) b1 = stepped c b"
    unfolding b1_def stepped_def on_dma_on_dma by (rule on_dma_cong) (simp add: Let_def)
  moreover have "chan (dma_1 (dma_of b1)) = chan (dma_1 (dma_of b))"
    by (simp add: b1_def)
  ultimately have "raise_HLDA hw b = (if count_expired (chan (dma_1 (dma_of b)) ! c) then end_of_block False c else ret ())
      (moved c x y b)"
    using R served
    by (cases "count_expired (chan (dma_1 (dma_of b)) ! c)")
      (simp_all add: raise_HLDA_def transfer_address_def dma_shift_def Let_def)
  then show ?thesis
    using y(2) that by blast
qed

text \<open>A step before the end of the block leaves the channel ready for the next byte.\<close>

lemma moved_fields:
  "dma (devices (moved c x y b)) = dma (devices (stepped c b))" "HRQ (devices (moved c x y b)) = HRQ (devices b)"
  "board.more (devices (moved c x y b)) = y"
  "cpu_of (moved c x y b) = with_mem (cpu_of b) (phys_write (transfer_address c b) x (mem (cpu_of b)))"
proof -
  show "cpu_of (moved c x y b) = with_mem (cpu_of b) (phys_write (transfer_address c b) x (mem (cpu_of b)))"
    by (simp add: moved_def)
qed (simp_all add: moved_def stepped_def put_others_def put_cpu_def)

lemma ready_next:
  assumes "ready f c b" and "\<not> count_expired (chan (dma_1 (dma_of b)) ! c)"
  shows "ready f c (moved c x y b)"
    and "current_count (chan (dma_1 (dma_of (moved c x y b))) ! c) = current_count (chan (dma_1 (dma_of b)) ! c) - 1"
    and "current_address (chan (dma_1 (dma_of (moved c x y b))) ! c) =
      current_address (chan (dma_1 (dma_of b)) ! c) + 1"
    and "page_reg (chan (dma_1 (dma_of (moved c x y b))) ! c) = page_reg (chan (dma_1 (dma_of b)) ! c)"
    and "requests (dma_1 (dma_of (moved c x y b))) = requests (dma_1 (dma_of b))"
    and "requests (dma_2 (dma_of (moved c x y b))) = requests (dma_2 (dma_of b))"
proof -
  have c: "c < 4"
    using assms(1) first_less by (auto simp: ready_def Let_def)
  have q: "requests (step_controller c (dma_1 (dma_of b))) = requests (dma_1 (dma_of b))"
    by (rule step_requests [OF assms(2)])
  have q2: "requests (s\<lparr>DACK := z\<rparr>) = requests s" for s :: dma_controller and z
    by (simp add: requests_def fun_eq_iff)
  show "ready f c (moved c x y b)"
    "current_count (chan (dma_1 (dma_of (moved c x y b))) ! c) = current_count (chan (dma_1 (dma_of b)) ! c) - 1"
    "current_address (chan (dma_1 (dma_of (moved c x y b))) ! c) = current_address (chan (dma_1 (dma_of b)) ! c) + 1"
    "page_reg (chan (dma_1 (dma_of (moved c x y b))) ! c) = page_reg (chan (dma_1 (dma_of b)) ! c)"
    "requests (dma_1 (dma_of (moved c x y b))) = requests (dma_1 (dma_of b))"
    "requests (dma_2 (dma_of (moved c x y b))) = requests (dma_2 (dma_of b))"
    using assms c first_channel_cong [OF q] first_channel_cong [OF q2] q q2
    by (simp_all add: ready_def moved_fields stepped_def step_channel_up Let_def)
qed

text \<open>The last step ends the block.\<close>

lemma withdrawn_request:
  assumes "d < 4"
  shows "requests (s\<lparr>DRQ := r, status_reg := status_reg s AND NOT (request_bit 0)\<rparr>) d \<longleftrightarrow> d \<noteq> 0 \<and> requests s d"
proof -
  have "bit (w AND NOT (request_bit 0)) (d + 4) \<longleftrightarrow> d \<noteq> 0 \<and> bit w (d + 4)" for w
  proof -
    have "d = 0 \<or> d = 1 \<or> d = 2 \<or> d = 3"
      using assms by linarith
    then have "bit (request_bit 0) (d + 4) \<longleftrightarrow> d = 0"
      by (elim disjE) (simp_all add: request_bit_def)
    then show ?thesis
      by (auto simp: bit_simps dest: bit_imp_le_length)
  qed
  then show ?thesis
    using assms by (simp add: requests_def request_bit_iff)
qed

lemma set_HRQ_False [simp]: "cpu_of (set_HRQ False b) = cpu_of b"
  by (simp add: set_HRQ_def cpu_of_def)

lemma master_HRQ_down:
  assumes "first_channel (dma_2 (dma_of b)) = None" "\<not> HRQ (devices b)"
  shows "cpu_of (master_HRQ b) = cpu_of b" "\<not> HRQ (devices (master_HRQ b))" "dma (devices (master_HRQ b)) = dma (devices b)"
    "board.more (devices (master_HRQ b)) = board.more (devices b)"
  using assms by (simp_all add: master_HRQ_def Let_def)

lemma block_ends:
  assumes "ready f c b" and "count_expired (chan (dma_1 (dma_of b)) ! c)"
    and "\<forall>d\<in>{1, 2, 3}. \<not> requests (dma_2 (dma_of b)) d"
  obtains t where "end_of_block False c (moved c x y b) = Done () t"
    and "cpu_of t = cpu_of (moved c x y b)" "board.more (devices t) = y" "\<not> HRQ (devices t)" "\<not> TC (dma_of t)" "\<not> HLDA (dma_of t)"
    and "mask_reg (dma_1 (dma_of t)) ! c" "bit (status_reg (dma_1 (dma_of t))) c"
    and "\<forall>d<4. d \<noteq> c \<longrightarrow> requests (dma_1 (dma_of t)) d = requests (dma_1 (dma_of b)) d"
proof -
  define b1 where "b1 = on_dma (on_ctrl False (\<lambda>s. s\<lparr>DACK := (DACK s)[c := False]\<rparr>))
    (set_HRQ False (on_dma (\<lambda>d. d\<lparr>TC := False, HLDA := False\<rparr>) (moved c x y b)))"
  define b2 where "b2 = on_dma (on_ctrl True (\<lambda>s. s\<lparr>DRQ := (DRQ s)[0 := False],
    status_reg := status_reg s AND NOT (request_bit 0)\<rparr>)) b1"
  define b3 where "b3 = on_dma (on_ctrl True (\<lambda>s. s\<lparr>DACK := (DACK s)[0 := False]\<rparr>)) (master_HRQ b2)"
  have R: "c < 4" "autoinit_enable (chan (dma_1 (dma_of b)) ! c) = 0" "length (mask_reg (dma_1 (dma_of b))) = 4"
    "chan_used (chan (dma_2 (dma_of b)) ! 0)"
    using assms(1) first_less by (auto simp: ready_def Let_def)
  have "request_line True 0 False b1 = Done () b2"
    using R(4) by (simp add: request_line_def b1_def b2_def moved_fields stepped_def on_dma_on_dma Let_def)
  then have e: "end_of_block False c (moved c x y b) = Done () b3"
    by (simp add: end_of_block_def b1_def [symmetric] set_DRQ_def control_HRQ_def b3_def)
  have "requests (dma_2 (dma_of b2)) d \<longleftrightarrow> d \<noteq> 0 \<and> requests (dma_2 (dma_of b)) d" if "d < 4" for d
    using withdrawn_request [OF that]
    by (simp add: b2_def b1_def moved_fields stepped_def Let_def) (simp add: requests_def)
  then have "first_channel (dma_2 (dma_of b2)) = None"
    using assms(3) by (intro first_channel_none) (auto simp: numeral_eq_Suc less_Suc_eq)
  moreover have "\<not> HRQ (devices b2)"
    by (simp add: b2_def b1_def on_dma_def)
  ultimately have m: "cpu_of (master_HRQ b2) = cpu_of b2" "\<not> HRQ (devices (master_HRQ b2))"
    "dma (devices (master_HRQ b2)) = dma (devices b2)" "board.more (devices (master_HRQ b2)) = board.more (devices b2)"
    by (rule master_HRQ_down)+
  have "requests (step_controller c (dma_1 (dma_of b))) d = requests (dma_1 (dma_of b)) d" if "d < 4" "d \<noteq> c" for d
    using last_step_requests [OF assms(2) that R(2,1)] .
  moreover have d3: "dma_1 (dma_of b3) = dma_1 (dma_of b1)" "TC (dma_of b3) = TC (dma_of b1)" "HLDA (dma_of b3) = HLDA (dma_of b1)"
    by (simp_all add: b3_def m(3)) (simp_all add: b2_def)
  ultimately have "\<forall>d<4. d \<noteq> c \<longrightarrow> requests (dma_1 (dma_of b3)) d = requests (dma_1 (dma_of b)) d"
    by (simp add: b1_def moved_fields stepped_def requests_def Let_def)
  moreover have "cpu_of b3 = cpu_of (moved c x y b)"
    by (simp add: b3_def m(1)) (simp add: b2_def b1_def)
  moreover have "board.more (devices b3) = y"
    by (simp add: b3_def m(4)) (simp add: b2_def b1_def moved_fields)
  moreover have "\<not> HRQ (devices b3)"
    by (simp add: b3_def m(2))
  moreover have "\<not> TC (dma_of b3)" "\<not> HLDA (dma_of b3)"
    "mask_reg (dma_1 (dma_of b3)) ! c" "bit (status_reg (dma_1 (dma_of b3))) c"
    using last_step [OF assms(2) R(2)] R(1,3)
    by (simp_all only: d3) (simp_all add: b1_def moved_fields stepped_def Let_def)
  ultimately show ?thesis
    using that [OF e] by blast
qed

section \<open>A block\<close>

primrec holds :: "nat \<Rightarrow> 'x dma_callbacks \<Rightarrow> (unit, 'x machine) routine" where
  "holds 0 hw = ret ()"
| "holds (Suc k) hw = and_then (raise_HLDA hw) (\<lambda>_. holds k hw)"

lemma next_transfer_address:
  assumes "unat (a :: Bit16u) + 1 < 0x10000"
  shows "push_bit 16 (ucast (p :: Bit8u)) OR ucast (a + 1) = (push_bit 16 (ucast p) OR ucast a) + (1 :: Bit32u)"
proof -
  have o: "push_bit 16 (ucast p) OR ucast v = push_bit 16 (ucast p) + (ucast v :: Bit32u)" for v :: Bit16u
  proof -
    have "push_bit 16 (ucast p) AND (ucast v :: Bit32u) = 0"
      by (rule bit_word_eqI) (auto simp: bit_simps dest: bit_imp_le_length)
    then show ?thesis
      by (simp add: disjunctive_add_eq_or)
  qed
  have s: "ucast (a + 1) = ucast a + (1 :: Bit32u)"
    using assms by (simp add: word_unat_eq_iff unat_word_ariths take_bit_nat_eq_self unsigned_ucast_eq)
  show ?thesis
    by (simp only: o) (simp only: s add.assoc)
qed

lemma dma_memory_write [simp]: "dma_memory (with_mem s (phys_write a x (mem s))) c = dma_memory s c"
  by (simp add: dma_memory_def plain_ram_def A20ADDR_def handled_def)

lemma mem_wf_write [simp]: "mem_wf (phys_write a x m) = mem_wf m"
  by (simp add: mem_wf_def)

lemma block_moves:
  assumes "supplies queue (call_dmaWrite8 hw f)"
  shows "ready f c b \<Longrightarrow> unat (current_count (chan (dma_1 (dma_of b)) ! c)) = n \<Longrightarrow>
    unat (current_address (chan (dma_1 (dma_of b)) ! c)) + n < 0x10000 \<Longrightarrow>
    \<forall>d\<in>{1, 2, 3}. \<not> requests (dma_2 (dma_of b)) d \<Longrightarrow>
    queue (board.more (devices b)) = data @ rest \<Longrightarrow> length data = Suc n \<Longrightarrow> mem_wf (mem (cpu_of b)) \<Longrightarrow>
    \<forall>k\<le>n. dma_memory (cpu_of b) (transfer_address c b + word_of_nat k) \<Longrightarrow>
    \<exists>t. holds (Suc n) hw b = Done () t \<and>
      cpu_of t = with_mem (cpu_of b) (phys_writes (transfer_address c b) data (mem (cpu_of b))) \<and>
      queue (board.more (devices t)) = rest \<and> \<not> HRQ (devices t) \<and> \<not> TC (dma_of t) \<and> \<not> HLDA (dma_of t) \<and>
      mask_reg (dma_1 (dma_of t)) ! c \<and> bit (status_reg (dma_1 (dma_of t))) c \<and>
      (\<forall>d<4. d \<noteq> c \<longrightarrow> requests (dma_1 (dma_of t)) d = requests (dma_1 (dma_of b)) d)"
proof (induction n arbitrary: b data)
  case 0
  then obtain x where x: "data = [x]"
    by (auto simp: length_Suc_conv)
  have "current_count (chan (dma_1 (dma_of b)) ! c) = 0"
    using "0.prems"(2) by (simp add: unat_eq_0)
  then have e: "count_expired (chan (dma_1 (dma_of b)) ! c)"
    by (simp add: count_expired_def)
  obtain y where y: "queue y = rest" "raise_HLDA hw b = end_of_block False c (moved c x y b)"
    using hold_moves [OF "0.prems"(1) assms, of x rest] "0.prems"(5,7,8) e x by auto
  obtain u where u: "end_of_block False c (moved c x y b) = Done () u" "cpu_of u = cpu_of (moved c x y b)"
    "board.more (devices u) = y" "\<not> HRQ (devices u)" "\<not> TC (dma_of u)" "\<not> HLDA (dma_of u)"
    "mask_reg (dma_1 (dma_of u)) ! c" "bit (status_reg (dma_1 (dma_of u))) c"
    "\<forall>d<4. d \<noteq> c \<longrightarrow> requests (dma_1 (dma_of u)) d = requests (dma_1 (dma_of b)) d"
    by (rule block_ends [OF "0.prems"(1) e "0.prems"(4), of x y])
  show ?case
    using u(1-8) y by (intro exI [where x = u] conjI u(9)) (simp_all add: moved_fields x)
next
  case (Suc n)
  then obtain x xs where x: "data = x # xs" "length xs = Suc n"
    by (auto simp: length_Suc_conv)
  let ?ch = "chan (dma_1 (dma_of b)) ! c"
  have e: "\<not> count_expired ?ch"
    using Suc.prems(2) by (auto simp: count_expired_def)
  obtain y where y: "queue y = xs @ rest" "raise_HLDA hw b = Done () (moved c x y b)"
    using hold_moves [OF Suc.prems(1) assms, of x "xs @ rest"] Suc.prems(5,7) Suc.prems(8) [rule_format, of 0] e x
    by auto
  define b' where "b' = moved c x y b"
  note r = ready_next [OF Suc.prems(1) e, of x y, folded b'_def]
  have cnt: "unat (current_count (chan (dma_1 (dma_of b')) ! c)) = n"
    using Suc.prems(2) unat_minus_one [of "current_count ?ch"] e by (simp add: r(2) count_expired_def)
  have adr: "unat (current_address (chan (dma_1 (dma_of b')) ! c)) = unat (current_address ?ch) + 1"
    using Suc.prems(3) by (simp add: r(3) unat_word_ariths)
  have ta: "transfer_address c b' = transfer_address c b + 1"
    using Suc.prems(3) next_transfer_address [of "current_address ?ch"] by (simp add: transfer_address_def r(3,4) Let_def)
  have "\<exists>t. holds (Suc n) hw b' = Done () t \<and>
      cpu_of t = with_mem (cpu_of b') (phys_writes (transfer_address c b') xs (mem (cpu_of b'))) \<and>
      queue (board.more (devices t)) = rest \<and> \<not> HRQ (devices t) \<and> \<not> TC (dma_of t) \<and> \<not> HLDA (dma_of t) \<and>
      mask_reg (dma_1 (dma_of t)) ! c \<and> bit (status_reg (dma_1 (dma_of t))) c \<and>
      (\<forall>d<4. d \<noteq> c \<longrightarrow> requests (dma_1 (dma_of t)) d = requests (dma_1 (dma_of b')) d)"
  proof (rule Suc.IH [OF r(1) cnt])
    show "\<forall>k\<le>n. dma_memory (cpu_of b') (transfer_address c b' + word_of_nat k)"
      using Suc.prems(8) by (auto simp: b'_def moved_fields ta [unfolded b'_def] add.assoc dest: spec [of _ "Suc k" for k])
  qed (use Suc.prems(3,4,7) adr r(6) x(2) y(1) in \<open>simp_all add: b'_def moved_fields\<close>)
  then show ?case
    using y(2) x(1) by (auto simp: b'_def [symmetric] r(5) ta) (simp_all add: b'_def moved_fields)
qed

text \<open>C9
  A block transfer on a channel of DMA-1 from its device to memory. The hold acknowledges, one more
  than the count says, store exactly the bytes the device supplies, in order, from the programmed
  page and address on, and change nothing else of the processor and its memory. The last one masks
  the channel, sets its terminal count bit and withdraws the hold request; the requests of the other
  channels are as before.\<close>

theorem dma_block_transfer:
  assumes "ready f c b" and "supplies queue (call_dmaWrite8 hw f)"
    and "unat (current_count (chan (dma_1 (dma_of b)) ! c)) + 1 = length data"
    and "unat (current_address (chan (dma_1 (dma_of b)) ! c)) + length data \<le> 0x10000"
    and "queue (board.more (devices b)) = data @ rest"
    and "\<forall>d\<in>{1, 2, 3}. \<not> requests (dma_2 (dma_of b)) d"
    and "mem_wf (mem (cpu_of b))"
    and "\<forall>k<length data. dma_memory (cpu_of b) (transfer_address c b + word_of_nat k)"
  shows "\<exists>t. holds (length data) hw b = Done () t \<and>
      cpu_of t = with_mem (cpu_of b) (phys_writes (transfer_address c b) data (mem (cpu_of b))) \<and>
      queue (board.more (devices t)) = rest \<and> \<not> HRQ (devices t) \<and> \<not> TC (dma_of t) \<and> \<not> HLDA (dma_of t) \<and>
      mask_reg (dma_1 (dma_of t)) ! c \<and> bit (status_reg (dma_1 (dma_of t))) c \<and>
      (\<forall>d<4. d \<noteq> c \<longrightarrow> requests (dma_1 (dma_of t)) d = requests (dma_1 (dma_of b)) d)"
proof -
  obtain n where n: "length data = Suc n"
    using assms(3) by (cases data) auto
  show ?thesis
    unfolding n using assms n by (intro block_moves [OF assms(2,1)]) (simp_all add: less_Suc_eq_le)
qed

text \<open>
  A floppy controller on channel 2: two bytes from a queue of three to address \<open>0x21234\<close>.
\<close>

definition floppy_channel :: dma_channel where
  "floppy_channel = init_channel\<lparr>transfer_type := 1, page_reg := 2, base_address := 0x1234, current_address := 0x1234,
     base_count := 1, current_count := 1, chan_used := True\<rparr>"

definition floppy_dma :: "dma_state \<Rightarrow> dma_state" where
  "floppy_dma d = d\<lparr>
     dma_1 := (dma_1 d)\<lparr>mask_reg := replicate 4 False, status_reg := 0x40, chan := (replicate 4 init_channel)[2 := floppy_channel]\<rparr>,
     dma_2 := (dma_2 d)\<lparr>mask_reg := replicate 4 False, status_reg := 0x10\<rparr>,
     dma_h := (dma_h d)[2 := \<lparr>dmaRead8 = None, dmaWrite8 = Some 7, dmaRead16 = None, dmaWrite16 = None\<rparr>]\<rparr>"

definition queue_device :: "Bit8u list dma_callbacks" where
  "queue_device = \<lparr>call_dmaRead8 = (\<lambda>_ _. ret ()),
     call_dmaWrite8 = (\<lambda>_ b. Done (hd (board.more (devices b))) (put_others (tl (board.more (devices b))) b)),
     call_dmaRead16 = (\<lambda>_ _. ret ()), call_dmaWrite16 = (\<lambda>_. ret 0)\<rparr>"

lemma queue_device_supplies: "supplies (\<lambda>q. q) (call_dmaWrite8 queue_device f)"
  by (simp add: supplies_def queue_device_def)

lemma floppy_ready: "ready 7 2 (on_dma floppy_dma (idle_machine 0 q))"
  by (simp add: ready_def floppy_dma_def idle_dma_def floppy_channel_def init_channel_def first_channel_def
      requests_def request_bit_def upt_rec Let_def)

lemma dma_block_witness:
  "\<exists>t. holds 2 queue_device (on_dma floppy_dma (idle_machine 0 [0xaa, 0xbb, 0xcc])) = Done () t \<and>
     mem (cpu_of t) = phys_writes 0x21234 [0xaa, 0xbb] (mem boot) \<and> board.more (devices t) = [0xcc]"
proof -
  define b where "b = on_dma floppy_dma (idle_machine 0 [0xaa, 0xbb, 0xcc :: Bit8u])"
  have ch: "chan (dma_1 (dma_of b)) ! 2 = floppy_channel"
    by (simp add: b_def floppy_dma_def)
  have a: "transfer_address 2 b = 0x21234"
    by (simp only: transfer_address_def ch Let_def) (simp add: floppy_channel_def)
  have m: "mem (cpu_of b) = mem boot" "board.more (devices b) = [0xaa, 0xbb] @ [0xcc]"
    by (simp_all add: b_def)
  have dm: "dma_memory (cpu_of b) (0x21234 + word_of_nat k)" if "k < 2" for k
    using that by (auto simp: b_def dma_memory_def plain_ram_def is_selected_def handled_def less_2_cases_iff)
  have "\<exists>t. holds (length [0xaa, 0xbb :: Bit8u]) queue_device b = Done () t \<and>
      cpu_of t = with_mem (cpu_of b) (phys_writes (transfer_address 2 b) [0xaa, 0xbb] (mem (cpu_of b))) \<and>
      board.more (devices t) = [0xcc] \<and> \<not> HRQ (devices t) \<and> \<not> TC (dma_of t) \<and> \<not> HLDA (dma_of t) \<and>
      mask_reg (dma_1 (dma_of t)) ! 2 \<and> bit (status_reg (dma_1 (dma_of t))) 2 \<and>
      (\<forall>d<4. d \<noteq> 2 \<longrightarrow> requests (dma_1 (dma_of t)) d = requests (dma_1 (dma_of b)) d)"
  proof (rule dma_block_transfer [OF _ queue_device_supplies])
    show "ready 7 2 b"
      unfolding b_def by (rule floppy_ready)
    show "\<forall>d\<in>{1, 2, 3}. \<not> requests (dma_2 (dma_of b)) d"
      by (simp add: b_def floppy_dma_def requests_def request_bit_def)
    show "\<forall>k<length [0xaa, 0xbb :: Bit8u]. dma_memory (cpu_of b) (transfer_address 2 b + word_of_nat k)"
      using dm by (simp add: a)
  qed (use boot_parts(1) in \<open>simp_all add: ch floppy_channel_def m\<close>)
  then obtain t where t: "holds (length [0xaa, 0xbb :: Bit8u]) queue_device b = Done () t"
    "cpu_of t = with_mem (cpu_of b) (phys_writes (transfer_address 2 b) [0xaa, 0xbb] (mem (cpu_of b)))"
    "board.more (devices t) = [0xcc]"
    by blast
  have "length [0xaa, 0xbb :: Bit8u] = 2"
    by simp
  with t(1) have "holds 2 queue_device b = Done () t"
    by (simp only:)
  then show ?thesis
    using t(2,3) by (simp add: b_def [symmetric] a m)
qed

end
