(* ===== verification/Spec2Isabelle.thy ===== *)
theory Spec2Isabelle
  imports BxMemoryTheorems BxPagingTheorems BxAccessTheorems BxAluTheorems
    BxMultTheorems BxShiftTheorems BxLazyTheorems
    BxLogic BxBcd BxBit BxResolve BxSegment BxStack BxJump BxData BxString BxTimerTheorems
    BxExceptionTheorems BxFarTheorems BxProcCtrl BxIO BxPicTheorems BxPitTheorems
    BxModrmTheorems BxFetchTheorems BxLoopTheorems BxHaltTheorems BxApicTheorems
    BxDmaTheorems
begin

text \<open>
  This development models the machine core of Bochs 2.2.5, the PC emulator that the repository
  builds its operating system labs on, under \<open>src/linux/handlers/src/bochs-2.2.5/\<close>; the paths
  below are relative to it. It is the configuration that is checked in: a Pentium Pro class
  processor (\<open>BX_CPU_LEVEL\<close> 6) without x86-64, one processor, paging with PAE, 4 MB and global
  pages, no virtual-8086 extensions, no debugger. \<open>BX_PANIC\<close> and \<open>BX_ASSERT\<close> end a run.

  The parts and how they interact. The execution loop takes the pending events at an instruction
  boundary, fetches the bytes at CS:EIP through a window on their page, decodes them by the opcode
  tables and calls the handler of the entry. A handler works on the registers and flags, reads
  and writes memory through segment checks, the TLB and the physical memory, and may raise an
  exception. Exceptions, software interrupts and the interrupt controllers enter handlers through
  the interrupt table, gates, stack switches and task switches; far transfers and IRET use the same
  descriptors and checks. The clock counts ticks and calls device timers; the devices raise the
  lines of the interrupt controllers, which forward them to the I/O APIC too, and the request of the
  controllers or of the local APIC is what the loop sees at its next boundary. A device that wants
  DMA raises a request of the DMA controllers, which hold the bus at a boundary and transfer.

  A routine of the emulator is a function from the state to an outcome (theory \<open>BxPrelude\<close>): a
  value and a state, a processor exception, an access claimed by a device, or a panic. Handlers
  have the names of the source. The state is the record \<open>cpu\<close> of \<open>BxState\<close>: the members of
  \<open>BX_CPU_C\<close> (\<open>cpu/cpu.h\<close>), with the memory object as a component. Machine integers are words of
  their width.

  The theories, in the order of the code:
  \<^item> state, lazy flags: \<open>BxState\<close> (\<open>cpu/cpu.h\<close>, \<open>cpu/lazy_flags.h\<close>), \<open>BxFlags\<close>, \<open>BxFlagCtrl\<close>
    (\<open>cpu/lazy_flags.cc\<close>, \<open>cpu/flag_ctrl.cc\<close>, \<open>cpu/flag_ctrl_pro.cc\<close>); \<open>BxWordFlags\<close>, \<open>BxFlagSpec\<close>
    and \<open>BxFlagRecords\<close> relate the recorded operands to the flags of exact sums and differences.
  \<^item> memory: \<open>BxMemory\<close> (\<open>memory/memory.cc\<close>, \<open>memory/misc_mem.cc\<close>), \<open>BxPaging\<close>, \<open>BxTLB\<close>
    (\<open>cpu/paging.cc\<close>), \<open>BxAccess\<close> (\<open>cpu/access.cc\<close>), \<open>BxReset\<close> (\<open>cpu/init.cc\<close>).
    \<open>BxMemorySpec\<close>, \<open>BxPagingSpec\<close>, \<open>BxWalk\<close> and \<open>BxAccessSpec\<close> hold the abstract memory, the
    abstract walk of the page tables and the invariants.
  \<^item> integer instructions: \<open>BxOperands\<close>, \<open>BxArith\<close>, \<open>BxLogic\<close>, \<open>BxShift\<close>, \<open>BxMult\<close>, \<open>BxBcd\<close>,
    \<open>BxBit\<close>, \<open>BxStack\<close>, \<open>BxJump\<close>, \<open>BxData\<close>, \<open>BxString\<close> (the files of \<open>cpu/\<close> with these names),
    with the effective addresses of \<open>BxResolve\<close> (\<open>cpu/resolve16.cc\<close>, \<open>cpu/resolve32.cc\<close>).
  \<^item> protection: \<open>BxSegment\<close> (\<open>cpu/segment_ctrl_pro.cc\<close>, \<open>cpu/ctrl_xfer_pro.cc\<close>), \<open>BxTask\<close>
    (\<open>cpu/tasking.cc\<close>), \<open>BxInterrupt\<close> and \<open>BxException\<close> (\<open>cpu/exception.cc\<close>, \<open>cpu/soft_int.cc\<close>),
    \<open>BxFar\<close> (\<open>jmp_far.cc\<close>, \<open>call_far.cc\<close>, \<open>ret_far.cc\<close>, \<open>iret.cc\<close>, \<open>vm8086.cc\<close>,
    \<open>segment_ctrl.cc\<close>), \<open>BxProtect\<close> (\<open>protect_ctrl.cc\<close>), \<open>BxProcCtrl\<close> (\<open>proc_ctrl.cc\<close>), \<open>BxIO\<close>
    (\<open>io.cc\<close>, \<open>io_pro.cc\<close>). \<open>BxFrame\<close> holds what the routines leave unchanged.
  \<^item> clock and devices: \<open>BxTimers\<close> (\<open>pc_system.cc\<close>), \<open>BxPic\<close> (\<open>iodev/pic.cc\<close>), \<open>BxPit\<close>
    (\<open>iodev/pit82c54.cc\<close>); \<open>BxBoard\<close>, the machine of processor, clock and devices and the lines
    between them (\<open>pc_system.cc\<close>, \<open>cpu/init.cc\<close>); \<open>BxApic\<close>, the local APIC and the I/O APIC
    (\<open>cpu/apic.cc\<close>, \<open>iodev/ioapic.cc\<close>); \<open>BxDma\<close>, the DMA controllers (\<open>iodev/dma.cc\<close>).
  \<^item> decoder and loop: \<open>BxOpcodes\<close> and \<open>BxOpcodeTable\<close> (the tables of \<open>cpu/fetchdecode.cc\<close> and
    \<open>cpu/fetchdecode.h\<close>, with \<open>cpu/cpuid.cc\<close>), \<open>BxDecode\<close> (\<open>fetchDecode\<close>), \<open>BxLoop\<close>
    (\<open>cpu/cpu.cc\<close>) on the machine of \<open>BxBoard\<close>. \<open>BxDecodeTables\<close> checks the shape of every table
    entry once; \<open>BxMachine\<close> and \<open>BxBench\<close> hold the concrete processors and machines of the
    witnesses.

  What the lemmas show. The theories named \<open>Theorems\<close> hold the properties, each numbered and
  stated in words before it; the lemmas before them do the work.
  \<^item> \<open>BxMemoryTheorems\<close>, \<open>BxPagingTheorems\<close>, \<open>BxAccessTheorems\<close>: memory reads back what was
    written; translation is the walk of the tables, and a TLB entry repeats it; the shortcuts over
    host pointers and quick segment tests change nothing; every access keeps the invariants of
    TLB, segments and memory that reset establishes; the errors of the code at the edge of the
    address space.
  \<^item> \<open>BxAluTheorems\<close>, \<open>BxMultTheorems\<close>, \<open>BxShiftTheorems\<close>: addition, subtraction,
    multiplication, division, shifts and rotates are exact. \<open>BxLazyTheorems\<close>: over any sequence of
    arithmetic and logical register instructions the lazy flags are those of an eager processor that
    computes them from integers.
  \<^item> \<open>BxExceptionTheorems\<close>, \<open>BxFarTheorems\<close>: the delivery of an exception ends, double faults are
    those of the architecture's table, transfers without a task switch respect the privilege levels.
  \<^item> \<open>BxTimerTheorems\<close>, \<open>BxPicTheorems\<close>, \<open>BxPitTheorems\<close>: the countdown refines a clock that looks
    at every timer on every tick; the controllers signal the best request and return to rest after
    a served interrupt; batches of ticks of a counter are single ticks, but for the odd counts of the
    square wave, and the rate generator divides.
  \<^item> \<open>BxDecodeTheorems\<close>, \<open>BxModrmTheorems\<close>, \<open>BxFetchTheorems\<close>: the decoder ends on every input,
    knows it, and looks at no byte behind the instruction; operands are addressed as the processor
    manual defines; a fetch yields the instruction in memory, also across the end of a page.
  \<^item> \<open>BxLoopTheorems\<close>, \<open>BxHaltTheorems\<close>: an interrupt request reaches its handler; a halted
    processor is woken by its timer at the tick at which the timer is due. \<open>BxApicTheorems\<close>: an
    interrupt on a pin of the I/O APIC is acknowledged and ended; the inverted comparison of the local
    APIC. \<open>BxDmaTheorems\<close>: the holds of a block transfer move exactly the bytes of the block.

  Interfaces are locales where several routines share a contract: a store of bytes (\<open>byte_store\<close>),
  an invariant that every linear access and stack access keeps (\<open>store_invariant\<close> up to
  \<open>stack_invariant\<close>), and the callbacks of the clock (\<open>timer_clients\<close>); each is interpreted on the
  definitions of the model, among others for the TLB, the frame of an access and the privilege level.

  Bounds and fuel. The loops of the interrupt controllers run over eight levels and are recursions
  of eight rounds: each ends, in the source, when it is back at the level it started from. The
  loop of \<open>tickn\<close> takes the number of rounds as an argument, because a countdown of 0 makes it
  endless; \<open>tickn_is_ticks\<close> gives a number that is enough. \<open>exception\<close> recurs into itself on a
  fault during the delivery and is bounded by three attempts, which \<open>exception_delivery_ends\<close>
  shows to be all there are. The batches of the timer and the scans for bits are total functions.
  The group tables of the decoder are nested at most \<open>group_depth\<close> deep, which \<open>decoder_total\<close>
  shows to be enough for every entry. The loop of the processor need not end: \<open>cpu_loop\<close> takes the
  number of its turns, and a bound on the ticks of a halt and the rounds of a repetition, and its
  value tells whether they were enough; \<open>BxHaltTheorems\<close> says how many ticks a halt takes.

  Not modelled. x86-64 and 3DNow, which are not compiled; the handlers of the FPU, MMX and SSE
  instructions, which the opcode tables name and the record \<open>hardware\<close> of
  \<open>BxLoop\<close> takes as a parameter, with the callbacks of the timers, the DMA handlers of the devices
  and the port bus; the way of a load or store of the processor to the registers of the APICs: the
  registers are modelled, but such an access ends in the outcome of a device access; the remote
  debugger, which is off unless asked for; the time stamps of the instruction cache, which only decide
  when an instruction is decoded again; the batched port transfers that are compiled on 32-bit x86
  hosts only; the other devices, the displays, configuration and debugger, which are host input and
  output; the firmware and the guest's kernel, which are not part of the emulator.
\<close>

end
